(* ===== verification/Bms_Prelude.thy ===== *)
theory Bms_Prelude
  imports Main "HOL-Library.Word" "HOL-Library.Char_ord" "HOL-Library.List_Lexorder"
    "HOL-Library.Multiset"
begin

text \<open>
  Shared vocabulary of the development: the fact collections the component proofs use, the
  C++ string operations that occur in the sources (\<open>find\<close>, \<open>substr\<close>, \<open>std::to_string\<close>), and
  generic lemmas on lists. Machine integers: unsigned 32-bit flags and identifiers are
  \<open>32 word\<close>; signed identifiers (user ids, uids, times) are \<open>int\<close>, and the theorems about
  arithmetic on them state that the results stay in the 32-bit or 64-bit range.
\<close>

unbundle bit_operations_syntax

named_theorems queue_defs \<open>definitions of the event queue operations\<close>
named_theorems queue_inv_intros \<open>every queue operation keeps the queue invariant\<close>
named_theorems info_defs \<open>definitions of the InnerBundleInfo operations\<close>
named_theorems mgr_defs \<open>definitions of the BundleDataMgr operations\<close>
named_theorems mgr_frame \<open>what a BundleDataMgr operation leaves unchanged\<close>

type_synonym u32 = "32 word"

definition INT32_MAX :: int where "INT32_MAX = 2147483647"
definition UINT32_MAX :: nat where "UINT32_MAX = 4294967295"
definition INT64_MAX :: int where "INT64_MAX = 9223372036854775807"

definition int32_range :: "int \<Rightarrow> bool" where
  "int32_range i \<longleftrightarrow> -2147483648 \<le> i \<and> i \<le> 2147483647"

text \<open>A word below \<open>2 ^ n\<close> has bit \<open>n\<close> clear.\<close>

lemma small_word_bit:
  fixes x :: "'a::len word"
  assumes "unat x < 2 ^ n"
  shows "\<not> bit x n"
proof -
  have "\<not> bit (unat x) n" using assms by (simp add: bit_iff_odd)
  then show ?thesis by (simp add: bit_unsigned_iff)
qed

text \<open>Testing one flag of a word.\<close>

lemma word_and_exp:
  fixes x :: "'a::len word"
  shows "x AND 2 ^ n = (if bit x n then 2 ^ n else 0)"
  by (rule bit_word_eqI) (auto simp: bit_and_iff bit_exp_iff)

section \<open>Decimal rendering: std::to_string\<close>

definition digit_char :: "nat \<Rightarrow> char" where
  "digit_char d = char_of (48 + d)"

fun nat_to_string :: "nat \<Rightarrow> string" where
  "nat_to_string n =
     (if n < 10 then [digit_char n] else nat_to_string (n div 10) @ [digit_char (n mod 10)])"

declare nat_to_string.simps [simp del]

definition to_string :: "int \<Rightarrow> string" where
  "to_string i = (if i < 0 then CHR ''-'' # nat_to_string (nat (- i)) else nat_to_string (nat i))"

definition digits_value :: "string \<Rightarrow> nat" where
  "digits_value s = foldl (\<lambda>acc c. acc * 10 + (of_char c - 48)) 0 s"

lemma of_char_digit_char [simp]: "d < 10 \<Longrightarrow> of_char (digit_char d) = 48 + d"
  by (simp add: digit_char_def)

lemma digits_value_nat_to_string [simp]: "digits_value (nat_to_string n) = n"
proof (induction n rule: nat_to_string.induct)
  case (1 n)
  show ?case
  proof (cases "n < 10")
    case True
    then show ?thesis by (simp add: nat_to_string.simps [of n] digits_value_def)
  next
    case False
    then have "digits_value (nat_to_string (n div 10)) = n div 10" using "1.IH" by simp
    then show ?thesis
      using False by (simp add: nat_to_string.simps [of n] digits_value_def)
  qed
qed

lemma nat_to_string_inj: "nat_to_string m = nat_to_string n \<longleftrightarrow> m = n"
  by (metis digits_value_nat_to_string)

lemma nat_to_string_nonempty [simp]: "nat_to_string n \<noteq> []"
  by (subst nat_to_string.simps) simp

lemma set_nat_to_string: "set (nat_to_string n) \<subseteq> digit_char ` {..<10}"
proof (induction n rule: nat_to_string.induct)
  case (1 n)
  show ?case
  proof (cases "n < 10")
    case True
    then show ?thesis by (simp add: nat_to_string.simps [of n])
  next
    case False
    with "1.IH" have "set (nat_to_string (n div 10)) \<subseteq> digit_char ` {..<10}" by simp
    then show ?thesis using False by (simp add: nat_to_string.simps [of n])
  qed
qed

lemma digit_char_not: "d < 10 \<Longrightarrow> digit_char d \<noteq> CHR ''_'' \<and> digit_char d \<noteq> CHR ''-''"
  by (auto simp: digit_char_def dest: arg_cong [where f = "of_char :: char \<Rightarrow> nat"])

lemma underscore_notin_nat_to_string [simp]: "CHR ''_'' \<notin> set (nat_to_string n)"
  using set_nat_to_string [of n] digit_char_not by fastforce

lemma minus_notin_nat_to_string [simp]: "CHR ''-'' \<notin> set (nat_to_string n)"
  using set_nat_to_string [of n] digit_char_not by fastforce

lemma to_string_inj [simp]: "to_string i = to_string j \<longleftrightarrow> i = j"
proof
  assume eq: "to_string i = to_string j"
  have no_minus: "nat_to_string n \<noteq> CHR ''-'' # s" for n s
    using minus_notin_nat_to_string [of n] by (metis list.set_intros(1))
  show "i = j"
    using eq no_minus no_minus [symmetric]
    by (auto simp: to_string_def nat_to_string_inj split: if_splits)
qed simp

lemma underscore_notin_to_string [simp]: "CHR ''_'' \<notin> set (to_string i)"
  by (simp add: to_string_def)

text \<open>Keys of the form \<open>name_number\<close> are injective in both parts, whatever the name holds.\<close>

lemma split_first_inj:
  "x \<notin> set s \<Longrightarrow> x \<notin> set t \<Longrightarrow> s @ x # a = t @ x # b \<Longrightarrow> s = t \<and> a = b"
proof (induction s arbitrary: t)
  case Nil
  then show ?case by (cases t) auto
next
  case (Cons c s)
  then show ?case by (cases t) auto
qed

lemma snoc_key_inj:
  assumes "CHR ''_'' \<notin> set s" "CHR ''_'' \<notin> set t"
    and "a @ CHR ''_'' # s = b @ CHR ''_'' # t"
  shows "a = b \<and> s = t"
proof -
  have "rev s @ CHR ''_'' # rev a = rev t @ CHR ''_'' # rev b"
    using arg_cong [OF assms(3), of rev] by simp
  from split_first_inj [OF _ _ this] have "rev s = rev t \<and> rev a = rev b"
    using assms(1,2) by simp
  then show ?thesis by simp
qed

section \<open>std::string::find and substr\<close>

fun find_sub :: "string \<Rightarrow> string \<Rightarrow> nat option" where
  "find_sub pat [] = (if pat = [] then Some 0 else None)"
| "find_sub pat (c # cs) =
     (if take (length pat) (c # cs) = pat then Some 0 else map_option Suc (find_sub pat cs))"

definition str_contains :: "string \<Rightarrow> string \<Rightarrow> bool" where
  "str_contains pat s \<longleftrightarrow> find_sub pat s \<noteq> None"

definition str_starts :: "string \<Rightarrow> string \<Rightarrow> bool" where
  "str_starts pat s \<longleftrightarrow> find_sub pat s = Some 0"

definition find_from :: "string \<Rightarrow> string \<Rightarrow> nat \<Rightarrow> nat option" where
  "find_from pat s pos =
     (if length s < pos then None else map_option (\<lambda>i. pos + i) (find_sub pat (drop pos s)))"

lemma find_sub_Some:
  "find_sub pat s = Some i \<Longrightarrow> \<exists>u v. s = u @ pat @ v \<and> length u = i"
proof (induction pat s arbitrary: i rule: find_sub.induct)
  case (1 pat)
  then show ?case by (auto split: if_splits)
next
  case (2 pat c cs)
  show ?case
  proof (cases "take (length pat) (c # cs) = pat")
    case True
    then have "c # cs = [] @ pat @ drop (length pat) (c # cs)"
      by (metis append_Nil append_take_drop_id)
    with True 2(2) show ?thesis by fastforce
  next
    case False
    with 2(2) obtain j where j: "find_sub pat cs = Some j" "i = Suc j" by auto
    with 2(1) [OF False j(1)] obtain u v where "cs = u @ pat @ v" "length u = j" by blast
    with j show ?thesis by (metis append_Cons length_Cons)
  qed
qed

lemma find_sub_None: "find_sub pat s = None \<longleftrightarrow> (\<forall>u v. s \<noteq> u @ pat @ v)"
proof (induction pat s rule: find_sub.induct)
  case (1 pat)
  then show ?case by auto
next
  case (2 pat c cs)
  show ?case
  proof (cases "take (length pat) (c # cs) = pat")
    case True
    then have "c # cs = [] @ pat @ drop (length pat) (c # cs)"
      by (metis append_Nil append_take_drop_id)
    with True show ?thesis by (metis find_sub.simps(2) option.distinct(1))
  next
    case False
    have "(\<exists>u v. c # cs = u @ pat @ v) \<longleftrightarrow> (\<exists>u v. cs = u @ pat @ v)"
    proof
      assume "\<exists>u v. c # cs = u @ pat @ v"
      then obtain u v where uv: "c # cs = u @ pat @ v" by blast
      have "u \<noteq> []"
      proof
        assume "u = []"
        then have "take (length pat) (c # cs) = pat" using uv by simp
        with False show False by simp
      qed
      with uv show "\<exists>u v. cs = u @ pat @ v" by (metis append_Cons list.exhaust list.inject)
    next
      assume "\<exists>u v. cs = u @ pat @ v"
      then show "\<exists>u v. c # cs = u @ pat @ v" by (metis append_Cons)
    qed
    with 2 False show ?thesis by auto
  qed
qed

lemma str_contains_iff: "str_contains pat s \<longleftrightarrow> (\<exists>u v. s = u @ pat @ v)"
  unfolding str_contains_def using find_sub_None by auto

lemma str_starts_iff: "str_starts pat s \<longleftrightarrow> (\<exists>v. s = pat @ v)"
proof
  assume "str_starts pat s"
  then show "\<exists>v. s = pat @ v" unfolding str_starts_def using find_sub_Some by fastforce
next
  assume "\<exists>v. s = pat @ v"
  then obtain v where v: "s = pat @ v" by blast
  have "find_sub pat (pat @ v) = Some 0"
    by (cases "pat @ v") (auto simp del: take_Suc_Cons dest: sym)
  with v show "str_starts pat s" by (simp add: str_starts_def)
qed

section \<open>Lists\<close>

lemma set_tl_subset: "set (tl xs) \<subseteq> set xs"
  by (cases xs) auto

lemma filter_False_id: "(\<And>x. x \<in> set xs \<Longrightarrow> P x) \<Longrightarrow> filter P xs = xs"
  by (simp add: filter_id_conv)

lemma sorted_wrt_filter_sub: "sorted_wrt R xs \<Longrightarrow> sorted_wrt R (filter P xs)"
  by (rule sorted_wrt_filter)

lemma mset_filter_compl: "mset (filter P xs) + mset (filter (\<lambda>x. \<not> P x) xs) = mset xs"
  by (simp add: mset_filter)

end
