(* ===== verification/Std_Map.thy ===== *)
theory Std_Map
  imports Bms_Prelude
begin

text \<open>
  \<open>std::map\<close> and \<open>std::set\<close>. A \<open>std::map\<close> is an association list sorted strictly by key, so
  that iterating it, \<open>begin()\<close> and \<open>rbegin()\<close> follow the source. The operations are the ones the
  sources call: \<open>find\<close> (\<open>map_of\<close>), \<open>emplace\<close>/\<open>try_emplace\<close> (keep an existing entry),
  \<open>operator[] =\<close> (overwrite), \<open>erase\<close> by key. The locale \<open>dictionary\<close> states the laws the
  clients use; the client lemmas (merging one map into another) are proved once inside it, and
  \<open>sm\<close> interprets it on the sorted association lists of the model.
\<close>

type_synonym ('k, 'v) smap = "('k \<times> 'v) list"

fun sm_assign :: "'k::linorder \<Rightarrow> 'v \<Rightarrow> ('k, 'v) smap \<Rightarrow> ('k, 'v) smap" where
  "sm_assign k v [] = [(k, v)]"
| "sm_assign k v ((k', v') # m) =
     (if k < k' then (k, v) # (k', v') # m
      else if k = k' then (k, v) # m
      else (k', v') # sm_assign k v m)"

definition sm_emplace :: "'k::linorder \<Rightarrow> 'v \<Rightarrow> ('k, 'v) smap \<Rightarrow> ('k, 'v) smap" where
  "sm_emplace k v m = (case map_of m k of None \<Rightarrow> sm_assign k v m | Some _ \<Rightarrow> m)"

definition sm_erase :: "'k \<Rightarrow> ('k, 'v) smap \<Rightarrow> ('k, 'v) smap" where
  "sm_erase k m = filter (\<lambda>(k', _). k' \<noteq> k) m"

definition sm_inv :: "('k::linorder, 'v) smap \<Rightarrow> bool" where
  "sm_inv m \<longleftrightarrow> sorted_wrt (<) (map fst m)"

definition sm_update :: "'k \<Rightarrow> ('v \<Rightarrow> 'v) \<Rightarrow> ('k, 'v) smap \<Rightarrow> ('k, 'v) smap" where
  "sm_update k f m = map (\<lambda>(k', v). if k' = k then (k', f v) else (k', v)) m"

definition sm_emplace_all :: "('k::linorder, 'v) smap \<Rightarrow> ('k, 'v) smap \<Rightarrow> ('k, 'v) smap" where
  "sm_emplace_all new m = foldl (\<lambda>m (k, v). sm_emplace k v m) m new"

section \<open>Laws of the association-list implementation\<close>

lemma map_of_sm_assign [simp]: "map_of (sm_assign k v m) = (map_of m)(k \<mapsto> v)"
  by (induction k v m rule: sm_assign.induct) auto

lemma fst_set_sm_assign [simp]: "fst ` set (sm_assign k v m) = insert k (fst ` set m)"
  by (induction k v m rule: sm_assign.induct) auto

lemma sm_inv_Nil [simp]: "sm_inv []"
  by (simp add: sm_inv_def)

lemma sm_inv_Cons [simp]: "sm_inv ((k, v) # m) \<longleftrightarrow> (\<forall>k' \<in> fst ` set m. k < k') \<and> sm_inv m"
  by (auto simp: sm_inv_def)

lemma sm_inv_assign [simp]: "sm_inv m \<Longrightarrow> sm_inv (sm_assign k v m)"
  by (induction k v m rule: sm_assign.induct) (auto simp del: fst_set_sm_assign simp: fst_set_sm_assign [simplified])

lemma map_of_sm_emplace [simp]:
  "map_of (sm_emplace k v m) = (case map_of m k of None \<Rightarrow> (map_of m)(k \<mapsto> v) | Some _ \<Rightarrow> map_of m)"
  by (auto simp: sm_emplace_def split: option.splits)

lemma sm_inv_emplace [simp]: "sm_inv m \<Longrightarrow> sm_inv (sm_emplace k v m)"
  by (simp add: sm_emplace_def split: option.splits)

lemma map_of_sm_erase [simp]: "map_of (sm_erase k m) = (map_of m)(k := None)"
  by (induction m) (auto simp: sm_erase_def fun_eq_iff)

lemma set_sm_erase: "set (sm_erase k m) = {p \<in> set m. fst p \<noteq> k}"
  by (auto simp: sm_erase_def)

lemma sm_inv_filter [simp]: "sm_inv m \<Longrightarrow> sm_inv (filter P m)"
  by (induction m) auto

lemma sm_inv_erase [simp]: "sm_inv m \<Longrightarrow> sm_inv (sm_erase k m)"
  by (simp add: sm_erase_def)

lemma map_fst_sm_update [simp]: "map fst (sm_update k f m) = map fst m"
  by (induction m) (auto simp: sm_update_def)

lemma sm_inv_update [simp]: "sm_inv (sm_update k f m) \<longleftrightarrow> sm_inv m"
  by (simp add: sm_inv_def)

lemma map_of_sm_update [simp]:
  "map_of (sm_update k f m) k' = (if k' = k then map_option f (map_of m k') else map_of m k')"
  by (induction m) (auto simp: sm_update_def)

lemma sm_inv_distinct: "sm_inv m \<Longrightarrow> distinct (map fst m)"
  by (simp add: sm_inv_def strict_sorted_iff)

lemma sm_inv_map_of: "sm_inv m \<Longrightarrow> map_of m k = Some v \<longleftrightarrow> (k, v) \<in> set m"
  by (simp add: map_of_eq_Some_iff sm_inv_distinct)

section \<open>The dictionary interface\<close>

locale dictionary =
  fixes lookup :: "'m \<Rightarrow> 'k \<Rightarrow> 'v option"
    and emplace :: "'k \<Rightarrow> 'v \<Rightarrow> 'm \<Rightarrow> 'm"
    and assign :: "'k \<Rightarrow> 'v \<Rightarrow> 'm \<Rightarrow> 'm"
    and erase :: "'k \<Rightarrow> 'm \<Rightarrow> 'm"
    and invar :: "'m \<Rightarrow> bool"
  assumes lookup_assign: "lookup (assign k v m) = (lookup m)(k \<mapsto> v)"
    and lookup_erase: "lookup (erase k m) = (lookup m)(k := None)"
    and emplace_absent: "lookup m k = None \<Longrightarrow> emplace k v m = assign k v m"
    and emplace_present: "lookup m k = Some w \<Longrightarrow> emplace k v m = m"
    and invar_assign: "invar m \<Longrightarrow> invar (assign k v m)"
    and invar_erase: "invar m \<Longrightarrow> invar (erase k m)"
begin

lemma lookup_emplace:
  "lookup (emplace k v m) = (case lookup m k of None \<Rightarrow> (lookup m)(k \<mapsto> v) | Some _ \<Rightarrow> lookup m)"
  by (simp add: emplace_absent emplace_present lookup_assign split: option.splits)

lemma invar_emplace: "invar m \<Longrightarrow> invar (emplace k v m)"
  by (cases "lookup m k") (simp_all add: emplace_absent emplace_present invar_assign)

lemma lookup_emplace_all:
  "distinct (map fst xs) \<Longrightarrow>
     lookup (foldl (\<lambda>m (k, v). emplace k v m) m xs) = map_of xs ++ lookup m"
proof (induction xs arbitrary: m)
  case Nil
  then show ?case by simp
next
  case (Cons p xs)
  obtain k v where p: "p = (k, v)" by (cases p)
  with Cons.prems have fresh: "map_of xs k = None" by (auto simp: map_of_eq_None_iff image_iff)
  have "lookup (foldl (\<lambda>m (k, v). emplace k v m) (emplace k v m) xs)
      = map_of xs ++ lookup (emplace k v m)"
    using Cons by (simp add: p)
  also have "\<dots> = map_of (p # xs) ++ lookup m"
    using fresh by (auto simp: p lookup_emplace map_add_def fun_eq_iff split: option.splits)
  finally show ?case by (simp add: p fun_upd_def)
qed

lemma invar_emplace_all: "invar m \<Longrightarrow> invar (foldl (\<lambda>m (k, v). emplace k v m) m xs)"
  by (induction xs arbitrary: m) (auto simp: invar_emplace)

lemma lookup_erase_all: "lookup (foldl (\<lambda>m k. erase k m) m ks) = (lookup m) |` (- set ks)"
proof (induction ks arbitrary: m)
  case Nil
  then show ?case by (simp add: restrict_map_def fun_eq_iff)
next
  case (Cons k ks)
  then show ?case by (auto simp: lookup_erase restrict_map_def fun_eq_iff)
qed

lemma invar_erase_all: "invar m \<Longrightarrow> invar (foldl (\<lambda>m k. erase k m) m ks)"
  by (induction ks arbitrary: m) (auto simp: invar_erase)

end

interpretation sm: dictionary "map_of :: ('k::linorder, 'v) smap \<Rightarrow> 'k \<Rightarrow> 'v option"
    sm_emplace sm_assign sm_erase sm_inv
  by unfold_locales (simp_all add: sm_emplace_def)

lemma map_of_emplace_all [simp]:
  "sm_inv new \<Longrightarrow> map_of (sm_emplace_all new m) = map_of new ++ map_of m"
  unfolding sm_emplace_all_def by (rule sm.lookup_emplace_all) (rule sm_inv_distinct)

lemma sm_inv_emplace_all [simp]: "sm_inv m \<Longrightarrow> sm_inv (sm_emplace_all new m)"
  unfolding sm_emplace_all_def by (rule sm.invar_emplace_all)

section \<open>std::set of integers\<close>

definition ss_insert :: "'a::linorder \<Rightarrow> 'a list \<Rightarrow> 'a list" where
  "ss_insert x s = (if x \<in> set s then s else insort x s)"

definition ss_erase :: "'a \<Rightarrow> 'a list \<Rightarrow> 'a list" where
  "ss_erase x s = filter (\<lambda>y. y \<noteq> x) s"

definition ss_inv :: "'a::linorder list \<Rightarrow> bool" where
  "ss_inv s \<longleftrightarrow> sorted_wrt (<) s"

lemma ss_inv_iff: "ss_inv s \<longleftrightarrow> sorted s \<and> distinct s"
  by (simp add: ss_inv_def strict_sorted_iff)

lemma set_ss_insert [simp]: "set (ss_insert x s) = insert x (set s)"
  by (auto simp: ss_insert_def set_insort_key)

lemma set_ss_erase [simp]: "set (ss_erase x s) = set s - {x}"
  by (auto simp: ss_erase_def)

lemma ss_inv_insert [simp]: "ss_inv s \<Longrightarrow> ss_inv (ss_insert x s)"
  by (auto simp: ss_insert_def ss_inv_iff sorted_insort distinct_insort)

lemma ss_inv_erase [simp]: "ss_inv s \<Longrightarrow> ss_inv (ss_erase x s)"
  by (auto simp: ss_erase_def ss_inv_def sorted_wrt_filter)

end
