(* ===== verification/Inner_Event.thy ===== *)
theory Inner_Event
  imports Std_Map
begin

text \<open>
  \<open>InnerEvent\<close> and its pool (\<open>inner_event.h\<close>, \<open>inner_event.cpp\<close>). Handlers, callbacks, waiters
  and trace ids are shared objects of which the queue only sees the identity, so they are
  numbers. A \<open>std::weak_ptr\<close> to a handler is the identity of the handler together with the
  predicate \<open>alive\<close> that says which handlers still exist: \<open>lock()\<close> gives the handler exactly
  when it is alive. What releasing an event does to objects it does not own (waking a waiter,
  destroying the saved smart pointer) is a list of effects.
\<close>

type_synonym handler_id = nat
type_synonym callback_id = nat
type_synonym waiter_id = nat
type_synonym trace_id = nat
type_synonym object_id = nat
type_synonym time_point = int
type_synonym size_t = "64 word"

section \<open>Data\<close>

text \<open>The object \<open>smartPtr\<close> points to: a \<open>shared_ptr\<close>, \<open>weak_ptr\<close> or \<open>unique_ptr\<close>.\<close>

datatype smart_ptr =
    SharedPtr "object_id option"
  | WeakPtr "object_id option"
  | UniquePtr "object_id option"

record inner_event =
  ev_owner :: "handler_id option"
  ev_handleTime :: time_point
  ev_sendTime :: time_point
  ev_innerEventId :: u32
  ev_param :: int
  ev_smartPtrTypeId :: size_t
  ev_smartPtr :: "smart_ptr option"
  ev_smartPtrDtor :: bool
  ev_taskCallback :: "callback_id option"
  ev_taskName :: string
  ev_waiter :: "waiter_id option"
  ev_hiTraceId :: "trace_id option"

definition new_InnerEvent :: inner_event where
  "new_InnerEvent = \<lparr> ev_owner = None, ev_handleTime = 0, ev_sendTime = 0, ev_innerEventId = 0,
     ev_param = 0, ev_smartPtrTypeId = 0, ev_smartPtr = None, ev_smartPtrDtor = False,
     ev_taskCallback = None, ev_taskName = [], ev_waiter = None, ev_hiTraceId = None \<rparr>"

datatype event_effect =
    NotifyWaiter waiter_id
  | ReleasePtr "smart_ptr option"

section \<open>Accessors and setters\<close>

definition lock :: "(handler_id \<Rightarrow> bool) \<Rightarrow> handler_id option \<Rightarrow> handler_id option" where
  "lock alive w = (case w of None \<Rightarrow> None | Some h \<Rightarrow> if alive h then Some h else None)"

definition GetOwner :: "(handler_id \<Rightarrow> bool) \<Rightarrow> inner_event \<Rightarrow> handler_id option" where
  "GetOwner alive e = lock alive (ev_owner e)"

definition SetOwner :: "handler_id option \<Rightarrow> inner_event \<Rightarrow> inner_event" where
  "SetOwner h e = e\<lparr>ev_owner := h\<rparr>"

definition SetHandleTime :: "time_point \<Rightarrow> inner_event \<Rightarrow> inner_event" where
  "SetHandleTime t e = e\<lparr>ev_handleTime := t\<rparr>"

definition SetSendTime :: "time_point \<Rightarrow> inner_event \<Rightarrow> inner_event" where
  "SetSendTime t e = e\<lparr>ev_sendTime := t\<rparr>"

definition HasTask :: "inner_event \<Rightarrow> bool" where
  "HasTask e \<longleftrightarrow> ev_taskCallback e \<noteq> None"

definition HasWaiter :: "inner_event \<Rightarrow> bool" where
  "HasWaiter e \<longleftrightarrow> ev_waiter e \<noteq> None"

definition CreateWaiter :: "waiter_id \<Rightarrow> inner_event \<Rightarrow> inner_event" where
  "CreateWaiter w e = e\<lparr>ev_waiter := Some w\<rparr>"

text \<open>
  \<open>HiTrace\<close> is a library: whether the calling thread has a valid trace id, and the span it
  creates, are arguments.
\<close>

definition GetOrCreateTraceId ::
  "bool \<Rightarrow> trace_id \<Rightarrow> inner_event \<Rightarrow> trace_id option \<times> inner_event" where
  "GetOrCreateTraceId currentValid span e =
     (case ev_hiTraceId e of
        Some t \<Rightarrow> (Some t, e)
      | None \<Rightarrow>
          if \<not> currentValid then (None, e)
          else (Some span, e\<lparr>ev_hiTraceId := Some span\<rparr>))"

section \<open>Smart pointer payload\<close>

definition SHARED_PTR_TYPE :: size_t where "SHARED_PTR_TYPE = 0x10000000"
definition WEAK_PTR_TYPE :: size_t where "WEAK_PTR_TYPE = 0x20000000"
definition UNIQUE_PTR_TYPE :: size_t where "UNIQUE_PTR_TYPE = 0x30000000"

text \<open>
  \<open>CalculateSmartPtrTypeId\<close> in the build without run-time type information, in which it is
  computed from \<open>sizeof(T)\<close> and, for \<open>unique_ptr\<close>, \<open>sizeof(D)\<close>.
\<close>

definition SharedPtrTypeId :: "size_t \<Rightarrow> size_t" where
  "SharedPtrTypeId sizeofT = (sizeofT OR SHARED_PTR_TYPE)"

definition WeakPtrTypeId :: "size_t \<Rightarrow> size_t" where
  "WeakPtrTypeId sizeofT = (sizeofT OR WEAK_PTR_TYPE)"

definition UniquePtrTypeId :: "size_t \<Rightarrow> size_t \<Rightarrow> size_t" where
  "UniquePtrTypeId sizeofT sizeofD = (sizeofT OR (sizeofD - 1) OR UNIQUE_PTR_TYPE)"

definition SaveSharedPtr :: "size_t \<Rightarrow> object_id option \<Rightarrow> inner_event \<Rightarrow> inner_event" where
  "SaveSharedPtr sizeofT obj e =
     e\<lparr>ev_smartPtr := Some (SharedPtr obj), ev_smartPtrDtor := True,
       ev_smartPtrTypeId := SharedPtrTypeId sizeofT\<rparr>"

definition SaveWeakPtr :: "size_t \<Rightarrow> object_id option \<Rightarrow> inner_event \<Rightarrow> inner_event" where
  "SaveWeakPtr sizeofT obj e =
     e\<lparr>ev_smartPtr := Some (WeakPtr obj), ev_smartPtrDtor := True,
       ev_smartPtrTypeId := WeakPtrTypeId sizeofT\<rparr>"

definition SaveUniquePtr ::
  "size_t \<Rightarrow> size_t \<Rightarrow> object_id option \<Rightarrow> inner_event \<Rightarrow> inner_event" where
  "SaveUniquePtr sizeofT sizeofD obj e =
     e\<lparr>ev_smartPtr := Some (UniquePtr obj), ev_smartPtrDtor := True,
       ev_smartPtrTypeId := UniquePtrTypeId sizeofT sizeofD\<rparr>"

text \<open>
  Reading the payload back with the type \<open>T\<close> of the caller. A type id that matches while the
  stored pointer has another shape is undefined behaviour of the cast and has no value here.
\<close>

definition GetSharedObject ::
  "(object_id \<Rightarrow> bool) \<Rightarrow> size_t \<Rightarrow> inner_event \<Rightarrow> object_id option" where
  "GetSharedObject objAlive sizeofT e =
     (if SharedPtrTypeId sizeofT = ev_smartPtrTypeId e then
        (case ev_smartPtr e of Some (SharedPtr obj) \<Rightarrow> obj | _ \<Rightarrow> None)
      else if WeakPtrTypeId sizeofT = ev_smartPtrTypeId e then
        (case ev_smartPtr e of
           Some (WeakPtr (Some obj)) \<Rightarrow> if objAlive obj then Some obj else None
         | _ \<Rightarrow> None)
      else None)"

definition GetUniqueObject ::
  "size_t \<Rightarrow> size_t \<Rightarrow> inner_event \<Rightarrow> object_id option \<times> inner_event" where
  "GetUniqueObject sizeofT sizeofD e =
     (if UniquePtrTypeId sizeofT sizeofD = ev_smartPtrTypeId e then
        (case ev_smartPtr e of
           Some (UniquePtr obj) \<Rightarrow> (obj, e\<lparr>ev_smartPtr := Some (UniquePtr None)\<rparr>)
         | _ \<Rightarrow> (None, e))
      else (None, e))"

section \<open>Releasing an event\<close>

definition ClearEvent :: "inner_event \<Rightarrow> event_effect list \<times> inner_event" where
  "ClearEvent e =
     (let fx1 = (case ev_waiter e of Some w \<Rightarrow> [NotifyWaiter w] | None \<Rightarrow> []);
          e1 = e\<lparr>ev_waiter := None\<rparr>;
          (fx2, e2) =
            (if HasTask e1 then ([], e1\<lparr>ev_taskCallback := None, ev_taskName := []\<rparr>)
             else if ev_smartPtrDtor e1 then
               ([ReleasePtr (ev_smartPtr e1)],
                e1\<lparr>ev_smartPtrDtor := False, ev_smartPtr := None, ev_smartPtrTypeId := 0\<rparr>)
             else ([], e1));
          e3 = e2\<lparr>ev_hiTraceId := None\<rparr>
      in (fx1 @ fx2, e3\<lparr>ev_owner := None\<rparr>))"

section \<open>The pool\<close>

definition MAX_BUFFER_POOL_SIZE :: nat where "MAX_BUFFER_POOL_SIZE = 64"

record inner_event_pool =
  pool_events :: "inner_event list"
  pool_usingCount :: size_t
  pool_nextPeakUsingCount :: size_t

definition new_InnerEventPool :: inner_event_pool where
  "new_InnerEventPool = \<lparr> pool_events = [], pool_usingCount = 0,
     pool_nextPeakUsingCount = of_nat MAX_BUFFER_POOL_SIZE \<rparr>"

text \<open>\<open>events\<close> is a vector used as a stack: \<open>back\<close> is the last element.\<close>

definition Pool_Get :: "inner_event_pool \<Rightarrow> inner_event \<times> inner_event_pool" where
  "Pool_Get p =
     (let p1 = p\<lparr>pool_usingCount := pool_usingCount p + 1\<rparr> in
      if pool_events p1 \<noteq> [] then
        (last (pool_events p1), p1\<lparr>pool_events := butlast (pool_events p1)\<rparr>)
      else if pool_nextPeakUsingCount p1 \<le> pool_usingCount p1 then
        (new_InnerEvent,
         p1\<lparr>pool_nextPeakUsingCount :=
              (if of_nat UINT32_MAX - pool_nextPeakUsingCount p1 > of_nat MAX_BUFFER_POOL_SIZE
               then pool_nextPeakUsingCount p1 + of_nat MAX_BUFFER_POOL_SIZE
               else of_nat UINT32_MAX)\<rparr>)
      else (new_InnerEvent, p1))"

definition Pool_Put :: "inner_event \<Rightarrow> inner_event_pool \<Rightarrow> inner_event_pool" where
  "Pool_Put e p =
     (let p1 = p\<lparr>pool_usingCount := pool_usingCount p - 1\<rparr> in
      if length (pool_events p1) < MAX_BUFFER_POOL_SIZE
      then p1\<lparr>pool_events := pool_events p1 @ [e]\<rparr> else p1)"

definition Pool_Drop ::
  "inner_event option \<Rightarrow> inner_event_pool \<Rightarrow> event_effect list \<times> inner_event_pool" where
  "Pool_Drop ev p =
     (case ev of
        None \<Rightarrow> ([], p)
      | Some e \<Rightarrow> (let (fx, e') = ClearEvent e in (fx, Pool_Put e' p)))"

definition Get_event :: "u32 \<Rightarrow> int \<Rightarrow> inner_event_pool \<Rightarrow> inner_event \<times> inner_event_pool" where
  "Get_event eventId par p =
     (let (e, p') = Pool_Get p
      in (e\<lparr>ev_innerEventId := eventId, ev_param := par\<rparr>, p'))"

definition Get_task ::
  "callback_id option \<Rightarrow> string \<Rightarrow> inner_event_pool \<Rightarrow> inner_event option \<times> inner_event_pool" where
  "Get_task callback name p =
     (if callback = None then (None, p)
      else (let (e, p') = Pool_Get p
            in (Some (e\<lparr>ev_taskCallback := callback, ev_taskName := name\<rparr>), p')))"

definition Get_shared ::
  "u32 \<Rightarrow> size_t \<Rightarrow> object_id option \<Rightarrow> int \<Rightarrow> inner_event_pool \<Rightarrow> inner_event \<times> inner_event_pool" where
  "Get_shared eventId sizeofT obj par p =
     (let (e, p') = Get_event eventId par p in (SaveSharedPtr sizeofT obj e, p'))"

definition Get_weak ::
  "u32 \<Rightarrow> size_t \<Rightarrow> object_id option \<Rightarrow> int \<Rightarrow> inner_event_pool \<Rightarrow> inner_event \<times> inner_event_pool" where
  "Get_weak eventId sizeofT obj par p =
     (let (e, p') = Get_event eventId par p in (SaveWeakPtr sizeofT obj e, p'))"

definition Get_unique ::
  "u32 \<Rightarrow> size_t \<Rightarrow> size_t \<Rightarrow> object_id option \<Rightarrow> int \<Rightarrow> inner_event_pool
     \<Rightarrow> inner_event \<times> inner_event_pool" where
  "Get_unique eventId sizeofT sizeofD obj par p =
     (let (e, p') = Get_event eventId par p in (SaveUniquePtr sizeofT sizeofD obj e, p'))"

section \<open>Rendering\<close>

definition LINE_SEPARATOR :: string where "LINE_SEPARATOR = [CHR 0x0A]"

definition Event_Dump :: "(handler_id \<Rightarrow> bool) \<Rightarrow> inner_event \<Rightarrow> string" where
  "Event_Dump alive e =
     (if GetOwner alive e \<noteq> None then
        ''Event { '' @
        (if HasTask e then ''task name = '' @ ev_taskName e
         else ''id = '' @ to_string (uint (ev_innerEventId e))) @
        (if ev_param e \<noteq> 0 then '', param = '' @ to_string (ev_param e) else [])
      else ''No handler'') @ '' }'' @ LINE_SEPARATOR"

section \<open>Invariants\<close>

text \<open>
  An event carries either a task or a smart pointer. A released event is \<open>blank\<close>: it refers to
  no other object, but keeps its old id, parameter and times.
\<close>

definition event_ok :: "inner_event \<Rightarrow> bool" where
  "event_ok e \<longleftrightarrow>
     (HasTask e \<longrightarrow> ev_smartPtr e = None \<and> \<not> ev_smartPtrDtor e \<and> ev_smartPtrTypeId e = 0) \<and>
     (\<not> HasTask e \<longrightarrow> ev_taskName e = []) \<and>
     (\<not> ev_smartPtrDtor e \<longrightarrow> ev_smartPtr e = None \<and> ev_smartPtrTypeId e = 0)"

definition blank :: "inner_event \<Rightarrow> bool" where
  "blank e \<longleftrightarrow> event_ok e \<and> ev_owner e = None \<and> ev_waiter e = None \<and> ev_hiTraceId e = None \<and>
     \<not> HasTask e \<and> \<not> ev_smartPtrDtor e"

definition pool_inv :: "inner_event_pool \<Rightarrow> bool" where
  "pool_inv p \<longleftrightarrow> length (pool_events p) \<le> MAX_BUFFER_POOL_SIZE \<and>
     (\<forall>e \<in> set (pool_events p). blank e) \<and>
     of_nat MAX_BUFFER_POOL_SIZE \<le> pool_nextPeakUsingCount p \<and>
     pool_nextPeakUsingCount p \<le> of_nat UINT32_MAX"

text \<open>
  A pool in use: \<open>live\<close> holds the events that were taken and not yet dropped. Between taking
  and dropping an event its holder may change it, keeping \<open>event_ok\<close>.
\<close>

inductive pool_run :: "inner_event_pool \<Rightarrow> inner_event list \<Rightarrow> bool" where
  start: "pool_run new_InnerEventPool []"
| take_event: "pool_run p live \<Longrightarrow> Get_event i v p = (e, p') \<Longrightarrow> pool_run p' (e # live)"
| take_task: "pool_run p live \<Longrightarrow> Get_task cb name p = (Some e, p') \<Longrightarrow> pool_run p' (e # live)"
| take_shared: "pool_run p live \<Longrightarrow> Get_shared i sz obj v p = (e, p') \<Longrightarrow> pool_run p' (e # live)"
| take_unique: "pool_run p live \<Longrightarrow> Get_unique i sz sd obj v p = (e, p') \<Longrightarrow> pool_run p' (e # live)"
| use: "pool_run p (xs @ e # ys) \<Longrightarrow>
    pool_run p (xs @ e\<lparr>ev_owner := h, ev_handleTime := t, ev_sendTime := s, ev_waiter := w,
                       ev_hiTraceId := tr\<rparr> # ys)"
| drop: "pool_run p (xs @ e # ys) \<Longrightarrow> Pool_Drop (Some e) p = (fx, p') \<Longrightarrow> pool_run p' (xs @ ys)"

lemmas pool_get_defs = Get_event_def Get_task_def Get_shared_def Get_weak_def Get_unique_def
  SaveSharedPtr_def SaveWeakPtr_def SaveUniquePtr_def

lemma blank_new [simp]: "blank new_InnerEvent"
  by (simp add: blank_def event_ok_def new_InnerEvent_def HasTask_def)

lemma ClearEvent_blank: "event_ok e \<Longrightarrow> ClearEvent e = (fx, e') \<Longrightarrow> blank e'"
  by (auto simp: ClearEvent_def blank_def event_ok_def HasTask_def Let_def split: if_splits)

lemma Pool_Get_blank: "pool_inv p \<Longrightarrow> Pool_Get p = (e, p') \<Longrightarrow> blank e"
  by (auto simp: Pool_Get_def pool_inv_def Let_def split: if_splits)

lemma next_peak_bounds:
  fixes n :: size_t
  assumes "of_nat MAX_BUFFER_POOL_SIZE \<le> n" "n \<le> of_nat UINT32_MAX"
    and "of_nat MAX_BUFFER_POOL_SIZE < of_nat UINT32_MAX - n"
  shows "of_nat MAX_BUFFER_POOL_SIZE \<le> n + of_nat MAX_BUFFER_POOL_SIZE"
    and "n + of_nat MAX_BUFFER_POOL_SIZE \<le> of_nat UINT32_MAX"
  using assms unfolding word_le_nat_alt word_less_nat_alt MAX_BUFFER_POOL_SIZE_def UINT32_MAX_def
  by (simp_all add: unat_sub word_le_nat_alt unat_word_ariths)

lemma pool_inv_Get: "pool_inv p \<Longrightarrow> Pool_Get p = (e, p') \<Longrightarrow> pool_inv p'"
proof -
  assume inv: "pool_inv p" and get: "Pool_Get p = (e, p')"
  have peak: "(of_nat MAX_BUFFER_POOL_SIZE :: size_t) \<le> of_nat UINT32_MAX"
    by (simp add: MAX_BUFFER_POOL_SIZE_def UINT32_MAX_def)
  show "pool_inv p'"
    using inv get peak next_peak_bounds [of "pool_nextPeakUsingCount p"]
    by (auto simp: Pool_Get_def pool_inv_def Let_def dest!: in_set_butlastD split: if_splits)
qed

lemma pool_inv_Put: "pool_inv p \<Longrightarrow> blank e \<Longrightarrow> pool_inv (Pool_Put e p)"
  by (auto simp: Pool_Put_def pool_inv_def Let_def)

lemma pool_inv_Drop: "pool_inv p \<Longrightarrow> event_ok e \<Longrightarrow> Pool_Drop (Some e) p = (fx, p') \<Longrightarrow> pool_inv p'"
  by (auto simp: Pool_Drop_def pool_inv_Put ClearEvent_blank split: prod.splits)

lemma Pool_Get_using [simp]:
  "Pool_Get p = (e, p') \<Longrightarrow> pool_usingCount p' = pool_usingCount p + 1"
  by (auto simp: Pool_Get_def Let_def split: if_splits)

lemma Pool_Put_using [simp]: "pool_usingCount (Pool_Put e p) = pool_usingCount p - 1"
  by (simp add: Pool_Put_def Let_def)

lemma pool_run_inv:
  "pool_run p live \<Longrightarrow>
     pool_inv p \<and> (\<forall>e \<in> set live. event_ok e) \<and> pool_usingCount p = of_nat (length live)"
proof (induction rule: pool_run.induct)
  case start
  then show ?case
    by (simp add: new_InnerEventPool_def pool_inv_def MAX_BUFFER_POOL_SIZE_def UINT32_MAX_def)
next
  case (take_event p live i v e p')
  then show ?case
    by (auto simp: pool_get_defs pool_inv_Get blank_def event_ok_def HasTask_def
        dest: Pool_Get_blank split: prod.splits)
next
  case (take_task p live cb name e p')
  then show ?case
    by (auto simp: pool_get_defs pool_inv_Get blank_def event_ok_def HasTask_def
        dest: Pool_Get_blank split: prod.splits if_splits)
next
  case (take_shared p live i sz obj v e p')
  then show ?case
    by (auto simp: pool_get_defs pool_inv_Get blank_def event_ok_def HasTask_def
        dest: Pool_Get_blank split: prod.splits)
next
  case (take_unique p live i sz sd obj v e p')
  then show ?case
    by (auto simp: pool_get_defs pool_inv_Get blank_def event_ok_def HasTask_def
        dest: Pool_Get_blank split: prod.splits)
next
  case (use p xs e ys h t s w tr)
  then show ?case by (auto simp: event_ok_def HasTask_def)
next
  case (drop p xs e ys fx p')
  then have "pool_inv p'" using pool_inv_Drop [of p e fx p'] by simp
  with drop show ?case by (auto simp: Pool_Drop_def split: prod.splits)
qed

section \<open>Payload round trips\<close>

lemma shared_weak_ids_differ:
  assumes "sizeofT < 0x10000000" "sizeofU < 0x10000000"
  shows "SharedPtrTypeId sizeofT \<noteq> WeakPtrTypeId sizeofU"
proof
  assume "SharedPtrTypeId sizeofT = WeakPtrTypeId sizeofU"
  then have "bit (SharedPtrTypeId sizeofT) 28 = bit (WeakPtrTypeId sizeofU) 28" by simp
  moreover have "\<not> bit sizeofU 28"
    by (rule small_word_bit) (use assms(2) in \<open>simp add: word_less_nat_alt\<close>)
  moreover have "bit (0x10000000 :: size_t) 28" "\<not> bit (0x20000000 :: size_t) 28"
    by (simp_all add: bit_iff_odd)
  ultimately show False
    by (simp add: SharedPtrTypeId_def WeakPtrTypeId_def SHARED_PTR_TYPE_def WEAK_PTR_TYPE_def bit_or_iff)
qed

lemma Get_shared_roundtrip:
  "Get_shared i sz obj v p = (e, p') \<Longrightarrow> GetSharedObject objAlive sz e = obj"
  by (auto simp: Get_shared_def SaveSharedPtr_def GetSharedObject_def split: prod.splits)

lemma Get_weak_roundtrip:
  "sz < 0x10000000 \<Longrightarrow> Get_weak i sz (Some obj) v p = (e, p') \<Longrightarrow>
     GetSharedObject objAlive sz e = (if objAlive obj then Some obj else None)"
  by (auto simp: Get_weak_def SaveWeakPtr_def GetSharedObject_def shared_weak_ids_differ
      split: prod.splits)

lemma Get_unique_roundtrip:
  "Get_unique i sz sd obj v p = (e, p') \<Longrightarrow>
     (\<exists>e'. GetUniqueObject sz sd e = (obj, e') \<and> GetUniqueObject sz sd e' = (None, e'))"
  by (auto simp: Get_unique_def SaveUniquePtr_def GetUniqueObject_def split: prod.splits)

text \<open>
  Dropping an event wakes its waiter and destroys its payload exactly once: the effects of
  \<open>ClearEvent\<close> name each of them, and clearing the result again has no effect.
\<close>

lemma ClearEvent_effects:
  "ClearEvent e = (fx, e') \<Longrightarrow>
     (\<forall>w. NotifyWaiter w \<in> set fx \<longleftrightarrow> ev_waiter e = Some w) \<and>
     (ReleasePtr (ev_smartPtr e) \<in> set fx \<longleftrightarrow> \<not> HasTask e \<and> ev_smartPtrDtor e)"
  by (auto simp: ClearEvent_def HasTask_def Let_def split: if_splits option.splits)

lemma ClearEvent_blank_noop: "blank e \<Longrightarrow> ClearEvent e = ([], e)"
  by (simp add: ClearEvent_def blank_def HasTask_def)

text \<open>
  Whatever sequence of gets and drops the pool has served, it holds at most 64 events, every
  pooled event is blank (no owner, no waiter, no trace id, no task, no payload left from its last
  use), the peak counter stays within 32 bits, and the count of events in use is the number of
  events that were handed out and not dropped yet.
\<close>

theorem pool_accounting:
  "pool_run p live \<Longrightarrow>
     length (pool_events p) \<le> 64 \<and> (\<forall>e \<in> set (pool_events p). blank e) \<and>
     pool_nextPeakUsingCount p \<le> of_nat UINT32_MAX \<and> pool_usingCount p = of_nat (length live)"
  using pool_run_inv [of p live] by (auto simp: pool_inv_def MAX_BUFFER_POOL_SIZE_def)

theorem pool_accounting_witness:
  "\<exists>p e. pool_run p [e] \<and> HasTask e \<and> pool_usingCount p = 1 \<and> length (pool_events p) \<le> 64"
proof -
  obtain x p where "Pool_Get new_InnerEventPool = (x, p)" by (cases "Pool_Get new_InnerEventPool")
  then obtain e where get: "Get_task (Some 5) ''work'' new_InnerEventPool = (Some e, p)" "HasTask e"
    by (simp add: Get_task_def HasTask_def)
  then have run: "pool_run p [e]" by (intro pool_run.take_task [OF pool_run.start])
  from pool_accounting [OF run] show ?thesis using run get(2) by (intro exI [of _ p] exI [of _ e]) simp
qed

text \<open>
  The payload of an event comes back as it was put in: a shared object as itself, a weak one
  exactly while its object lives, a unique one once (taking it a second time gives null).
\<close>

theorem payload_roundtrip:
  assumes "sz < 0x10000000"
  shows "GetSharedObject objAlive sz (fst (Get_shared i sz obj v p)) = obj \<and>
    GetSharedObject objAlive sz (fst (Get_weak i sz (Some x) v p)) = (if objAlive x then Some x else None) \<and>
    (\<exists>e. GetUniqueObject sz sd (fst (Get_unique i sz sd obj v p)) = (obj, e) \<and>
         GetUniqueObject sz sd e = (None, e))"
  using Get_shared_roundtrip [OF surjective_pairing, of objAlive sz i obj v p]
    Get_weak_roundtrip [OF assms surjective_pairing, of objAlive i x v p]
    Get_unique_roundtrip [OF surjective_pairing, of sz sd i obj v p]
  by blast

theorem payload_roundtrip_witness:
  "GetSharedObject (\<lambda>x. x = 3) 16 (fst (Get_weak 7 16 (Some 3) 0 new_InnerEventPool)) = Some 3"
  using payload_roundtrip [of 16 "\<lambda>x. x = 3" 7 None 0 new_InnerEventPool 3] by simp

end
