(* ===== verification/Io_Waiter.thy ===== *)
theory Io_Waiter
  imports Inner_Event
begin

text \<open>
  The IO waiters an event queue blocks on (\<open>none_io_waiter.cpp\<close>, \<open>epoll_io_waiter.cpp\<close>) and the
  time conversions they use (\<open>event_handler_utils.h\<close>). The kernel's part of epoll (its interest
  list and the counter of the event fd) is kept in the waiter's record; whether a system call
  succeeds is an argument. \<open>WaitFor\<close> is split where it gives up the queue lock: \<open>enter\<close> is what
  it does before blocking, \<open>leave\<close> what it does after.
\<close>

section \<open>Times\<close>

definition NANOSECONDS_PER_ONE_MILLISECOND :: int where
  "NANOSECONDS_PER_ONE_MILLISECOND = 1000000"

definition INFINITE_TIMEOUT :: int where "INFINITE_TIMEOUT = -1"

definition TimePoint_max :: time_point where "TimePoint_max = INT64_MAX"

definition TimePointToTimeOut :: "time_point \<Rightarrow> time_point \<Rightarrow> int" where
  "TimePointToTimeOut now when = (if when \<le> now then 0 else when - now)"

definition NanosecondsToTimeout :: "int \<Rightarrow> int" where
  "NanosecondsToTimeout nanoseconds =
     (if nanoseconds < 0 then INFINITE_TIMEOUT
      else (let ms = nanoseconds div NANOSECONDS_PER_ONE_MILLISECOND;
                ms' = (if nanoseconds mod NANOSECONDS_PER_ONE_MILLISECOND > 0 then ms + 1 else ms)
            in if ms' > INT32_MAX then INT32_MAX else ms'))"

definition HOURS_PER_YEAR :: int where "HOURS_PER_YEAR = 24 * 365"

definition one_year_ns :: int where "one_year_ns = HOURS_PER_YEAR * 3600 * 1000000000"

text \<open>How long \<open>NoneIoWaiter::WaitFor\<close> waits: forever (\<open>None\<close>) or at most one year.\<close>

definition None_wait_duration :: "int \<Rightarrow> int option" where
  "None_wait_duration nanoseconds =
     (if nanoseconds < 0 then None
      else Some (if nanoseconds > one_year_ns then one_year_ns else nanoseconds))"

section \<open>Listener events and epoll events\<close>

definition FILE_DESCRIPTOR_INPUT_EVENT :: u32 where "FILE_DESCRIPTOR_INPUT_EVENT = 1"
definition FILE_DESCRIPTOR_OUTPUT_EVENT :: u32 where "FILE_DESCRIPTOR_OUTPUT_EVENT = 2"
definition FILE_DESCRIPTOR_SHUTDOWN_EVENT :: u32 where "FILE_DESCRIPTOR_SHUTDOWN_EVENT = 4"
definition FILE_DESCRIPTOR_EXCEPTION_EVENT :: u32 where "FILE_DESCRIPTOR_EXCEPTION_EVENT = 8"
definition FILE_DESCRIPTOR_EVENTS_MASK :: u32 where
  "FILE_DESCRIPTOR_EVENTS_MASK = (FILE_DESCRIPTOR_INPUT_EVENT OR FILE_DESCRIPTOR_OUTPUT_EVENT)"

definition EPOLLIN :: u32 where "EPOLLIN = 0x1"
definition EPOLLOUT :: u32 where "EPOLLOUT = 0x4"
definition EPOLLERR :: u32 where "EPOLLERR = 0x8"
definition EPOLLHUP :: u32 where "EPOLLHUP = 0x10"
definition EPOLLET :: u32 where "EPOLLET = 0x80000000"

definition listener_to_epoll :: "u32 \<Rightarrow> u32" where
  "listener_to_epoll events =
     (let e0 = 0;
          e1 = (if events AND FILE_DESCRIPTOR_INPUT_EVENT \<noteq> 0 then e0 OR (EPOLLIN OR EPOLLET) else e0)
      in if events AND FILE_DESCRIPTOR_OUTPUT_EVENT \<noteq> 0 then e1 OR (EPOLLOUT OR EPOLLET) else e1)"

definition epoll_to_listener :: "u32 \<Rightarrow> u32" where
  "epoll_to_listener ee =
     (let e0 = 0;
          e1 = (if ee AND EPOLLIN \<noteq> 0 then e0 OR FILE_DESCRIPTOR_INPUT_EVENT else e0);
          e2 = (if ee AND EPOLLOUT \<noteq> 0 then e1 OR FILE_DESCRIPTOR_OUTPUT_EVENT else e1);
          e3 = (if ee AND EPOLLHUP \<noteq> 0 then e2 OR FILE_DESCRIPTOR_SHUTDOWN_EVENT else e2)
      in if ee AND EPOLLERR \<noteq> 0 then e3 OR FILE_DESCRIPTOR_EXCEPTION_EVENT else e3)"

section \<open>The waiters\<close>

record none_waiter =
  nw_waitingCount :: nat
  nw_notified :: bool

record epoll_waiter =
  ep_epollFd :: int
  ep_awakenFd :: int
  ep_callback :: bool
  ep_waitingCount :: nat
  ep_interest :: "(int, u32) smap"
  ep_awakenCounter :: nat

datatype io_waiter = NoneIoWaiter none_waiter | EpollIoWaiter epoll_waiter

definition new_NoneIoWaiter :: io_waiter where
  "new_NoneIoWaiter = NoneIoWaiter \<lparr> nw_waitingCount = 0, nw_notified = False \<rparr>"

definition new_EpollIoWaiter :: epoll_waiter where
  "new_EpollIoWaiter = \<lparr> ep_epollFd = -1, ep_awakenFd = -1, ep_callback = False,
     ep_waitingCount = 0, ep_interest = [], ep_awakenCounter = 0 \<rparr>"

text \<open>
  \<open>EpollIoWaiter::Init\<close> with the results of \<open>epoll_create\<close>, \<open>eventfd\<close> and \<open>epoll_ctl\<close>; the
  list is the descriptors it closes again.
\<close>

definition Epoll_Init ::
  "int \<Rightarrow> int \<Rightarrow> bool \<Rightarrow> epoll_waiter \<Rightarrow> bool \<times> int list \<times> epoll_waiter" where
  "Epoll_Init epollFd awakenFd ctlOk w =
     (if ep_epollFd w \<ge> 0 then (True, [], w)
      else if epollFd < 0 then (False, [], w)
      else if awakenFd < 0 then (False, [epollFd], w)
      else if \<not> ctlOk then (False, [epollFd, awakenFd], w)
      else (True, [], w\<lparr>ep_epollFd := epollFd, ep_awakenFd := awakenFd,
                        ep_interest := sm_assign awakenFd (EPOLLIN OR EPOLLET) (ep_interest w)\<rparr>))"

definition SupportListeningFileDescriptor :: "io_waiter \<Rightarrow> bool" where
  "SupportListeningFileDescriptor w = (case w of NoneIoWaiter _ \<Rightarrow> False | EpollIoWaiter _ \<Rightarrow> True)"

definition SetFileDescriptorEventCallback :: "io_waiter \<Rightarrow> io_waiter" where
  "SetFileDescriptorEventCallback w =
     (case w of NoneIoWaiter n \<Rightarrow> NoneIoWaiter n | EpollIoWaiter e \<Rightarrow> EpollIoWaiter (e\<lparr>ep_callback := True\<rparr>))"

text \<open>
  \<open>epoll_ctl\<close>: adding fails on a descriptor that is already in the interest list and wherever
  the kernel refuses it (\<open>accepts\<close>); deleting fails on one that is not there.
\<close>

definition epoll_ctl_add ::
  "(int \<Rightarrow> bool) \<Rightarrow> int \<Rightarrow> u32 \<Rightarrow> (int, u32) smap \<Rightarrow> (int, u32) smap option" where
  "epoll_ctl_add accepts fd ee interest =
     (if map_of interest fd = None \<and> accepts fd then Some (sm_assign fd ee interest) else None)"

definition epoll_ctl_del :: "int \<Rightarrow> (int, u32) smap \<Rightarrow> (int, u32) smap option" where
  "epoll_ctl_del fd interest =
     (if map_of interest fd = None then None else Some (sm_erase fd interest))"

definition AddFileDescriptor ::
  "(int \<Rightarrow> bool) \<Rightarrow> int \<Rightarrow> u32 \<Rightarrow> io_waiter \<Rightarrow> bool \<times> io_waiter" where
  "AddFileDescriptor accepts fd events w =
     (case w of
        NoneIoWaiter _ \<Rightarrow> (False, w)
      | EpollIoWaiter e \<Rightarrow>
          if fd < 0 \<or> events AND FILE_DESCRIPTOR_EVENTS_MASK = 0 then (False, w)
          else if ep_epollFd e < 0 then (False, w)
          else (case epoll_ctl_add accepts fd (listener_to_epoll events) (ep_interest e) of
                  None \<Rightarrow> (False, w)
                | Some i \<Rightarrow> (True, EpollIoWaiter (e\<lparr>ep_interest := i\<rparr>))))"

definition RemoveFileDescriptor :: "int \<Rightarrow> io_waiter \<Rightarrow> io_waiter" where
  "RemoveFileDescriptor fd w =
     (case w of
        NoneIoWaiter _ \<Rightarrow> w
      | EpollIoWaiter e \<Rightarrow>
          if fd < 0 then w
          else if ep_epollFd e < 0 then w
          else (case epoll_ctl_del fd (ep_interest e) of
                  None \<Rightarrow> w
                | Some i \<Rightarrow> EpollIoWaiter (e\<lparr>ep_interest := i\<rparr>)))"

definition Epoll_NotifyAll :: "epoll_waiter \<Rightarrow> epoll_waiter" where
  "Epoll_NotifyAll e =
     (if ep_awakenFd e < 0 then e
      else if ep_waitingCount e = 0 then e
      else e\<lparr>ep_awakenCounter := ep_awakenCounter e + 1\<rparr>)"

definition None_Notify :: "none_waiter \<Rightarrow> none_waiter" where
  "None_Notify n = (if nw_waitingCount n > 0 then n\<lparr>nw_notified := True\<rparr> else n)"

text \<open>One thread blocks in a queue, so \<open>NotifyOne\<close> and \<open>NotifyAll\<close> wake the same thread.\<close>

definition NotifyAll :: "io_waiter \<Rightarrow> io_waiter" where
  "NotifyAll w = (case w of NoneIoWaiter n \<Rightarrow> NoneIoWaiter (None_Notify n)
                          | EpollIoWaiter e \<Rightarrow> EpollIoWaiter (Epoll_NotifyAll e))"

definition NotifyOne :: "io_waiter \<Rightarrow> io_waiter" where
  "NotifyOne w = (case w of NoneIoWaiter n \<Rightarrow> NoneIoWaiter (None_Notify n)
                          | EpollIoWaiter e \<Rightarrow> EpollIoWaiter (Epoll_NotifyAll e))"

text \<open>Before blocking; \<open>None\<close> is the early return \<open>false\<close> of an uninitialised epoll waiter.\<close>

definition WaitFor_enter :: "io_waiter \<Rightarrow> io_waiter option" where
  "WaitFor_enter w =
     (case w of
        NoneIoWaiter n \<Rightarrow> Some (NoneIoWaiter (n\<lparr>nw_waitingCount := nw_waitingCount n + 1\<rparr>))
      | EpollIoWaiter e \<Rightarrow>
          if ep_epollFd e < 0 then None
          else Some (EpollIoWaiter (e\<lparr>ep_waitingCount := ep_waitingCount e + 1\<rparr>)))"

definition WaitFor_leave :: "io_waiter \<Rightarrow> io_waiter" where
  "WaitFor_leave w =
     (case w of
        NoneIoWaiter n \<Rightarrow> NoneIoWaiter (n\<lparr>nw_waitingCount := nw_waitingCount n - 1, nw_notified := False\<rparr>)
      | EpollIoWaiter e \<Rightarrow> EpollIoWaiter (e\<lparr>ep_waitingCount := ep_waitingCount e - 1\<rparr>))"

definition DrainAwakenPipe :: "epoll_waiter \<Rightarrow> epoll_waiter" where
  "DrainAwakenPipe e = e\<lparr>ep_awakenCounter := 0\<rparr>"

definition MAX_EPOLL_EVENTS_SIZE :: nat where "MAX_EPOLL_EVENTS_SIZE = 8"

text \<open>
  What \<open>EpollIoWaiter::WaitFor\<close> does with the result of \<open>epoll_wait\<close>: \<open>None\<close> for an error,
  otherwise the ready descriptors with their epoll events. It returns whether the wait worked
  and the calls of the callback.
\<close>

fun Epoll_dispatch :: "(int \<times> u32) list \<Rightarrow> epoll_waiter \<Rightarrow> (int \<times> u32) list \<times> epoll_waiter" where
  "Epoll_dispatch [] e = ([], e)"
| "Epoll_dispatch ((fd, ee) # rest) e =
     (if fd = ep_awakenFd e then Epoll_dispatch rest (DrainAwakenPipe e)
      else (let (calls, e') = Epoll_dispatch rest e
            in ((if ep_callback e then [(fd, epoll_to_listener ee)] else []) @ calls, e')))"

definition Epoll_WaitFor_result ::
  "(int \<times> u32) list option \<Rightarrow> epoll_waiter \<Rightarrow> bool \<times> (int \<times> u32) list \<times> epoll_waiter" where
  "Epoll_WaitFor_result ret e =
     (case ret of
        None \<Rightarrow> (False, [], e)
      | Some evs \<Rightarrow> (let (calls, e') = Epoll_dispatch (take MAX_EPOLL_EVENTS_SIZE evs) e
                     in (True, calls, e')))"

section \<open>Lemmas\<close>

definition waiting :: "io_waiter \<Rightarrow> bool" where
  "waiting w = (case w of NoneIoWaiter n \<Rightarrow> nw_waitingCount n > 0
                        | EpollIoWaiter e \<Rightarrow> ep_waitingCount e > 0)"

definition signalled :: "io_waiter \<Rightarrow> bool" where
  "signalled w = (case w of NoneIoWaiter n \<Rightarrow> nw_notified n
                          | EpollIoWaiter e \<Rightarrow> ep_awakenCounter e > 0)"

definition usable :: "io_waiter \<Rightarrow> bool" where
  "usable w = (case w of NoneIoWaiter _ \<Rightarrow> True
                       | EpollIoWaiter e \<Rightarrow> ep_epollFd e \<ge> 0 \<and> ep_awakenFd e \<ge> 0)"

definition interest :: "io_waiter \<Rightarrow> (int, u32) smap" where
  "interest w = (case w of NoneIoWaiter _ \<Rightarrow> [] | EpollIoWaiter e \<Rightarrow> ep_interest e)"

lemmas waiter_defs = waiting_def signalled_def usable_def interest_def NotifyAll_def NotifyOne_def
  None_Notify_def Epoll_NotifyAll_def

lemma NotifyOne_eq_NotifyAll: "NotifyOne = NotifyAll"
  by (simp add: NotifyOne_def NotifyAll_def fun_eq_iff)

lemma NotifyAll_signals: "usable w \<Longrightarrow> waiting w \<Longrightarrow> signalled (NotifyAll w)"
  by (auto simp: waiter_defs split: io_waiter.splits)

lemma NotifyAll_keeps [simp]:
  "usable (NotifyAll w) = usable w" "waiting (NotifyAll w) = waiting w"
  "interest (NotifyAll w) = interest w" "signalled w \<Longrightarrow> signalled (NotifyAll w)"
  "SupportListeningFileDescriptor (NotifyAll w) = SupportListeningFileDescriptor w"
  by (auto simp: waiter_defs SupportListeningFileDescriptor_def split: io_waiter.splits)

lemma NotifyAll_idle: "\<not> waiting w \<Longrightarrow> NotifyAll w = w"
  by (auto simp: waiter_defs split: io_waiter.splits)

lemma timeout_bounds:
  assumes "0 \<le> now" "when \<le> TimePoint_max"
  shows "0 \<le> TimePointToTimeOut now when" "TimePointToTimeOut now when \<le> INT64_MAX"
  using assms by (auto simp: TimePointToTimeOut_def TimePoint_max_def INT64_MAX_def)

lemma round_up_ms:
  fixes ns :: int
  shows "(ns + 999999) div 1000000
       = (if ns mod 1000000 > 0 then ns div 1000000 + 1 else ns div 1000000)"
proof -
  define q r where "q = ns div 1000000" and "r = ns mod 1000000"
  have r: "0 \<le> r" "r < 1000000" by (simp_all add: r_def)
  have "ns = q * 1000000 + r" by (simp add: q_def r_def)
  then have "(ns + 999999) div 1000000 = (q * 1000000 + (r + 999999)) div 1000000" by simp
  also have "\<dots> = q + (r + 999999) div 1000000" by simp
  also have "(r + 999999) div 1000000 = (if r > 0 then 1 else 0)" using r by auto
  finally show ?thesis by (simp add: q_def r_def)
qed

lemma NanosecondsToTimeout_cases:
  assumes "0 \<le> ns"
  shows "NanosecondsToTimeout ns = min INT32_MAX ((ns + 999999) div 1000000)"
  using assms unfolding round_up_ms
  by (simp add: NanosecondsToTimeout_def NANOSECONDS_PER_ONE_MILLISECOND_def Let_def min_def)

lemma listener_epoll_roundtrip_bits:
  "epoll_to_listener (listener_to_epoll events) = events AND FILE_DESCRIPTOR_EVENTS_MASK"
proof -
  have in0: "events AND 1 = (if bit events 0 then 1 else 0)"
    using word_and_exp [of events 0] by simp
  have in1: "events AND 2 = (if bit events 1 then 2 else 0)"
    using word_and_exp [of events 1] by simp
  have mask: "events AND FILE_DESCRIPTOR_EVENTS_MASK = (events AND 1) OR (events AND 2)"
    unfolding FILE_DESCRIPTOR_EVENTS_MASK_def FILE_DESCRIPTOR_INPUT_EVENT_def
      FILE_DESCRIPTOR_OUTPUT_EVENT_def by (rule bit.conj_disj_distrib)
  show ?thesis
    unfolding mask in0 in1
    by (cases "bit events 0"; cases "bit events 1")
      (simp_all add: listener_to_epoll_def epoll_to_listener_def in0 in1
        FILE_DESCRIPTOR_INPUT_EVENT_def FILE_DESCRIPTOR_OUTPUT_EVENT_def
        FILE_DESCRIPTOR_SHUTDOWN_EVENT_def FILE_DESCRIPTOR_EXCEPTION_EVENT_def
        EPOLLIN_def EPOLLOUT_def EPOLLET_def EPOLLHUP_def EPOLLERR_def)
qed

text \<open>
  The wait never ends early and fits the system call: for a clock that is not negative, the
  timeout passed to \<open>epoll_wait\<close> is a non-negative 32-bit number of milliseconds that covers the
  whole time until the wake-up time, less than one millisecond longer, unless it was capped at the
  largest 32-bit value.
\<close>

theorem timeout_covers_wait:
  assumes "0 \<le> now" "when \<le> TimePoint_max"
  shows "let ms = NanosecondsToTimeout (TimePointToTimeOut now when) in
    0 \<le> ms \<and> ms \<le> INT32_MAX \<and>
    (ms = INT32_MAX \<or> when - now \<le> ms * NANOSECONDS_PER_ONE_MILLISECOND \<and>
       ms * NANOSECONDS_PER_ONE_MILLISECOND < max 0 (when - now) + NANOSECONDS_PER_ONE_MILLISECOND)"
proof -
  define ns where "ns = TimePointToTimeOut now when"
  have ns: "0 \<le> ns" "ns = max 0 (when - now)"
    using assms by (auto simp: ns_def TimePointToTimeOut_def)
  define ms where "ms = (ns + 999999) div 1000000"
  have "ms * 1000000 \<le> ns + 999999" "ns + 999999 < ms * 1000000 + 1000000" "0 \<le> ms"
    using ns(1) by (auto simp: ms_def)
  moreover have "NanosecondsToTimeout (TimePointToTimeOut now when) = min INT32_MAX ms"
    using NanosecondsToTimeout_cases [OF ns(1)] by (simp add: ns_def ms_def)
  moreover have "0 \<le> INT32_MAX" by (simp add: INT32_MAX_def)
  moreover have "when - now \<le> ns" using ns(2) by simp
  ultimately show ?thesis
    unfolding Let_def ns(2) [symmetric] NANOSECONDS_PER_ONE_MILLISECOND_def by (auto simp: min_def)
qed

theorem timeout_covers_wait_witness:
  "0 \<le> NanosecondsToTimeout (TimePointToTimeOut 5 1500006)"
  using timeout_covers_wait [of 5 1500006] by (simp add: TimePoint_max_def INT64_MAX_def Let_def)

text \<open>
  Registering a listener's events with epoll and translating what epoll reports back loses
  nothing: an epoll report of the registered events is exactly the requested input and output
  events, for every 32-bit mask.
\<close>

theorem epoll_events_roundtrip:
  "epoll_to_listener (listener_to_epoll events) = events AND FILE_DESCRIPTOR_EVENTS_MASK"
  by (rule listener_epoll_roundtrip_bits)

end
