(* ===== verification/Event_Queue.thy ===== *)
theory Event_Queue
  imports Io_Waiter
begin

text \<open>
  \<open>EventQueue\<close> (\<open>event_queue.cpp\<close>, \<open>event_queue.h\<close>): three sub queues for IMMEDIATE, HIGH and
  LOW events, a list of IDLE events, the time the consumer will wake up, the idle mode, the IO
  waiter and the file descriptor listeners. Every operation is a function on the record; the
  clock is an argument \<open>now\<close>, and \<open>alive\<close> says which handlers still exist. The lists hold no null
  pointer: \<open>Insert\<close> and \<open>AddFileDescriptorListener\<close> refuse one.
\<close>

section \<open>Data\<close>

datatype priority = IMMEDIATE | HIGH | LOW | IDLE

definition DEFAULT_MAX_HANDLED_EVENT_COUNT :: nat where "DEFAULT_MAX_HANDLED_EVENT_COUNT = 5"
definition SUB_EVENT_QUEUE_NUM :: nat where "SUB_EVENT_QUEUE_NUM = 3"

record sub_event_queue =
  sq_queue :: "inner_event list"
  sq_handledEventsCount :: nat
  sq_maxHandledEventsCount :: nat

record fd_listener =
  fl_id :: nat
  fl_owner :: "handler_id option"

record event_queue =
  q_subEventQueues :: "sub_event_queue list"
  q_idleEvents :: "inner_event list"
  q_wakeUpTime :: time_point
  q_idleTimeStamp :: time_point
  q_isIdle :: bool
  q_finished :: bool
  q_ioWaiter :: io_waiter
  q_listeners :: "(int, fd_listener) smap"

definition new_SubEventQueue :: sub_event_queue where
  "new_SubEventQueue = \<lparr> sq_queue = [], sq_handledEventsCount = 0,
     sq_maxHandledEventsCount = DEFAULT_MAX_HANDLED_EVENT_COUNT \<rparr>"

definition new_EventQueue :: "time_point \<Rightarrow> io_waiter option \<Rightarrow> event_queue" where
  "new_EventQueue now w =
     \<lparr> q_subEventQueues = replicate SUB_EVENT_QUEUE_NUM new_SubEventQueue, q_idleEvents = [],
       q_wakeUpTime = TimePoint_max, q_idleTimeStamp = now, q_isIdle = True, q_finished = True,
       q_ioWaiter = (case w of
                       None \<Rightarrow> new_NoneIoWaiter
                     | Some w' \<Rightarrow> if SupportListeningFileDescriptor w'
                                 then SetFileDescriptorEventCallback w' else w'),
       q_listeners = [] \<rparr>"

fun priority_index :: "priority \<Rightarrow> nat" where
  "priority_index IMMEDIATE = 0"
| "priority_index HIGH = 1"
| "priority_index LOW = 2"
| "priority_index IDLE = 3"

section \<open>Inserting\<close>

text \<open>
  \<open>std::upper_bound\<close> as a binary search: \<open>first\<close> and \<open>len\<close> delimit the part still searched, and
  \<open>before\<close> tells whether the inserted value comes before an element.
\<close>

function upper_bound :: "('a \<Rightarrow> bool) \<Rightarrow> 'a list \<Rightarrow> nat \<Rightarrow> nat \<Rightarrow> nat" where
  "upper_bound before xs first len =
     (if len = 0 then first
      else (let half = len div 2; middle = first + half in
            if before (xs ! middle) then upper_bound before xs first half
            else upper_bound before xs (middle + 1) (len - half - 1)))"
  by pat_completeness auto
termination by (relation "measure (\<lambda>(before, xs, first, len). len)") auto

declare upper_bound.simps [simp del]

definition InsertEventsLocked :: "inner_event list \<Rightarrow> inner_event \<Rightarrow> inner_event list" where
  "InsertEventsLocked events e =
     (let it = upper_bound (\<lambda>x. ev_handleTime e < ev_handleTime x) events 0 (length events)
      in take it events @ e # drop it events)"

definition upd_queue :: "nat \<Rightarrow> (inner_event list \<Rightarrow> inner_event list) \<Rightarrow> event_queue \<Rightarrow> event_queue" where
  "upd_queue i f q = q\<lparr>q_subEventQueues := (q_subEventQueues q)
     [i := (q_subEventQueues q ! i)\<lparr>sq_queue := f (sq_queue (q_subEventQueues q ! i))\<rparr>]\<rparr>"

definition Insert :: "inner_event option \<Rightarrow> priority \<Rightarrow> event_queue \<Rightarrow> event_queue" where
  "Insert ev priority q =
     (case ev of
        None \<Rightarrow> q
      | Some e \<Rightarrow>
          (let (needNotify, q') =
             (case priority of
                IDLE \<Rightarrow> (False, q\<lparr>q_idleEvents := InsertEventsLocked (q_idleEvents q) e\<rparr>)
              | _ \<Rightarrow> (ev_handleTime e < q_wakeUpTime q,
                     upd_queue (priority_index priority) (\<lambda>xs. InsertEventsLocked xs e) q))
           in if needNotify then q'\<lparr>q_ioWaiter := NotifyOne (q_ioWaiter q')\<rparr> else q'))"

section \<open>Removing and searching\<close>

definition Remove :: "(inner_event \<Rightarrow> bool) \<Rightarrow> event_queue \<Rightarrow> event_queue" where
  "Remove flt q =
     q\<lparr>q_subEventQueues :=
         map (\<lambda>s. s\<lparr>sq_queue := filter (\<lambda>e. \<not> flt e) (sq_queue s)\<rparr>) (q_subEventQueues q),
       q_idleEvents := filter (\<lambda>e. \<not> flt e) (q_idleEvents q)\<rparr>"

definition owner_filter :: "(handler_id \<Rightarrow> bool) \<Rightarrow> handler_id \<Rightarrow> inner_event \<Rightarrow> bool" where
  "owner_filter alive h e \<longleftrightarrow> GetOwner alive e = Some h"

definition id_filter :: "(handler_id \<Rightarrow> bool) \<Rightarrow> handler_id \<Rightarrow> u32 \<Rightarrow> inner_event \<Rightarrow> bool" where
  "id_filter alive h i e \<longleftrightarrow> \<not> HasTask e \<and> GetOwner alive e = Some h \<and> ev_innerEventId e = i"

definition id_param_filter ::
  "(handler_id \<Rightarrow> bool) \<Rightarrow> handler_id \<Rightarrow> u32 \<Rightarrow> int \<Rightarrow> inner_event \<Rightarrow> bool" where
  "id_param_filter alive h i v e \<longleftrightarrow>
     \<not> HasTask e \<and> GetOwner alive e = Some h \<and> ev_innerEventId e = i \<and> ev_param e = v"

definition param_filter :: "(handler_id \<Rightarrow> bool) \<Rightarrow> handler_id \<Rightarrow> int \<Rightarrow> inner_event \<Rightarrow> bool" where
  "param_filter alive h v e \<longleftrightarrow> \<not> HasTask e \<and> GetOwner alive e = Some h \<and> ev_param e = v"

definition name_filter :: "(handler_id \<Rightarrow> bool) \<Rightarrow> handler_id \<Rightarrow> string \<Rightarrow> inner_event \<Rightarrow> bool" where
  "name_filter alive h name e \<longleftrightarrow>
     HasTask e \<and> GetOwner alive e = Some h \<and> ev_taskName e = name"

definition Remove_owner :: "(handler_id \<Rightarrow> bool) \<Rightarrow> handler_id option \<Rightarrow> event_queue \<Rightarrow> event_queue" where
  "Remove_owner alive h q = (case h of None \<Rightarrow> q | Some h' \<Rightarrow> Remove (owner_filter alive h') q)"

definition Remove_id ::
  "(handler_id \<Rightarrow> bool) \<Rightarrow> handler_id option \<Rightarrow> u32 \<Rightarrow> event_queue \<Rightarrow> event_queue" where
  "Remove_id alive h i q = (case h of None \<Rightarrow> q | Some h' \<Rightarrow> Remove (id_filter alive h' i) q)"

definition Remove_id_param ::
  "(handler_id \<Rightarrow> bool) \<Rightarrow> handler_id option \<Rightarrow> u32 \<Rightarrow> int \<Rightarrow> event_queue \<Rightarrow> event_queue" where
  "Remove_id_param alive h i v q =
     (case h of None \<Rightarrow> q | Some h' \<Rightarrow> Remove (id_param_filter alive h' i v) q)"

definition Remove_name ::
  "(handler_id \<Rightarrow> bool) \<Rightarrow> handler_id option \<Rightarrow> string \<Rightarrow> event_queue \<Rightarrow> event_queue" where
  "Remove_name alive h name q =
     (case h of None \<Rightarrow> q
      | Some h' \<Rightarrow> if name = [] then q else Remove (name_filter alive h' name) q)"

definition HasInnerEvent :: "(inner_event \<Rightarrow> bool) \<Rightarrow> event_queue \<Rightarrow> bool" where
  "HasInnerEvent flt q \<longleftrightarrow>
     list_ex (\<lambda>s. list_ex flt (sq_queue s)) (q_subEventQueues q) \<or> list_ex flt (q_idleEvents q)"

definition HasInnerEvent_id ::
  "(handler_id \<Rightarrow> bool) \<Rightarrow> handler_id option \<Rightarrow> u32 \<Rightarrow> event_queue \<Rightarrow> bool" where
  "HasInnerEvent_id alive h i q =
     (case h of None \<Rightarrow> False | Some h' \<Rightarrow> HasInnerEvent (id_filter alive h' i) q)"

definition HasInnerEvent_param ::
  "(handler_id \<Rightarrow> bool) \<Rightarrow> handler_id option \<Rightarrow> int \<Rightarrow> event_queue \<Rightarrow> bool" where
  "HasInnerEvent_param alive h v q =
     (case h of None \<Rightarrow> False | Some h' \<Rightarrow> HasInnerEvent (param_filter alive h' v) q)"

section \<open>Taking the next event\<close>

definition CheckEventInListLocked ::
  "inner_event list \<Rightarrow> time_point \<Rightarrow> time_point \<Rightarrow> bool \<times> time_point" where
  "CheckEventInListLocked events now nextWakeUpTime =
     (case events of
        [] \<Rightarrow> (False, nextWakeUpTime)
      | e # _ \<Rightarrow>
          if ev_handleTime e < nextWakeUpTime then (ev_handleTime e \<le> now, ev_handleTime e)
          else (False, nextWakeUpTime))"

text \<open>
  The loop of \<open>PickEventLocked\<close> over the sub queue indices: it carries the sub queues (the
  handled count of the picked queue may change), the wake-up time and the picked index.
\<close>

fun pick_loop ::
  "time_point \<Rightarrow> nat list \<Rightarrow> sub_event_queue list \<Rightarrow> time_point \<Rightarrow> nat
     \<Rightarrow> sub_event_queue list \<times> time_point \<times> nat" where
  "pick_loop now [] subs nextWake pri = (subs, nextWake, pri)"
| "pick_loop now (i # is) subs nextWake pri =
     (let (due, nextWake') = CheckEventInListLocked (sq_queue (subs ! i)) now nextWake in
      if \<not> due then pick_loop now is subs nextWake' pri
      else if pri < SUB_EVENT_QUEUE_NUM \<and>
              sq_handledEventsCount (subs ! pri) < sq_maxHandledEventsCount (subs ! pri)
      then (subs[pri := (subs ! pri)\<lparr>sq_handledEventsCount := sq_handledEventsCount (subs ! pri) + 1\<rparr>],
            nextWake', pri)
      else pick_loop now is subs nextWake' i)"

definition reset_counts :: "nat \<Rightarrow> sub_event_queue list \<Rightarrow> sub_event_queue list" where
  "reset_counts pri subs =
     map (\<lambda>s. s\<lparr>sq_handledEventsCount := 0\<rparr>) (take pri subs) @ drop pri subs"

definition PickEventLocked ::
  "time_point \<Rightarrow> time_point \<Rightarrow> sub_event_queue list
     \<Rightarrow> inner_event option \<times> time_point \<times> sub_event_queue list" where
  "PickEventLocked now nextWake subs =
     (let (subs1, nextWake', pri) =
            pick_loop now [0..<SUB_EVENT_QUEUE_NUM] subs nextWake SUB_EVENT_QUEUE_NUM in
      if pri \<ge> SUB_EVENT_QUEUE_NUM then (None, nextWake', subs1)
      else (let subs2 = reset_counts pri subs1; s = subs2 ! pri
            in (Some (hd (sq_queue s)), nextWake', subs2[pri := s\<lparr>sq_queue := tl (sq_queue s)\<rparr>])))"

text \<open>The result is the event, the new value of the reference \<open>nextExpiredTime\<close> and the queue.\<close>

definition GetExpiredEventLocked ::
  "time_point \<Rightarrow> time_point \<Rightarrow> event_queue \<Rightarrow> inner_event option \<times> time_point \<times> event_queue" where
  "GetExpiredEventLocked now nextExpiredTime q =
     (let (ev, wake, subs) = PickEventLocked now TimePoint_max (q_subEventQueues q);
          q1 = q\<lparr>q_wakeUpTime := wake, q_subEventQueues := subs\<rparr>
      in case ev of
           Some e \<Rightarrow> (Some e, nextExpiredTime, q1\<lparr>q_isIdle := False\<rparr>)
         | None \<Rightarrow>
             (let q2 = (if \<not> q_isIdle q1 then q1\<lparr>q_idleTimeStamp := now, q_isIdle := True\<rparr> else q1)
              in case q_idleEvents q2 of
                   e # es \<Rightarrow>
                     if ev_sendTime e \<le> q_idleTimeStamp q2 \<and> ev_handleTime e \<le> now
                     then (Some e, nextExpiredTime, q2\<lparr>q_idleEvents := es\<rparr>)
                     else (None, q_wakeUpTime q2, q2)
                 | [] \<Rightarrow> (None, q_wakeUpTime q2, q2)))"

definition GetExpiredEvent ::
  "time_point \<Rightarrow> time_point \<Rightarrow> event_queue \<Rightarrow> inner_event option \<times> time_point \<times> event_queue" where
  "GetExpiredEvent now nextExpiredTime q = GetExpiredEventLocked now nextExpiredTime q"

text \<open>
  \<open>WaitUntilLocked\<close> after the wait: when the wait failed, the queue falls back to a waiter
  without descriptors and forgets the listeners.
\<close>

definition WaitUntil_done :: "bool \<Rightarrow> event_queue \<Rightarrow> event_queue" where
  "WaitUntil_done ok q = (if ok then q else q\<lparr>q_ioWaiter := new_NoneIoWaiter, q_listeners := []\<rparr>)"

datatype get_event_result =
    Returned "inner_event option" event_queue
  | Blocked time_point event_queue

definition GetEvent_iter :: "time_point \<Rightarrow> event_queue \<Rightarrow> get_event_result" where
  "GetEvent_iter now q =
     (if q_finished q then Returned None q
      else (case GetExpiredEventLocked now TimePoint_max q of
              (Some e, _, q') \<Rightarrow> Returned (Some e) q'
            | (None, nextWake, q') \<Rightarrow> Blocked nextWake q'))"

text \<open>
  \<open>GetEvent\<close>: a round of the loop per wake-up. Each element of the schedule is the clock at the
  check, and what happened while the lock was released: whether the wait succeeded and the
  change other threads made to the queue.
\<close>

fun GetEvent ::
  "(time_point \<times> bool \<times> (event_queue \<Rightarrow> event_queue)) list \<Rightarrow> event_queue \<Rightarrow> get_event_result option" where
  "GetEvent [] q = None"
| "GetEvent ((now, waitOk, others) # schedule) q =
     (case GetEvent_iter now q of
        Returned ev q' \<Rightarrow> Some (Returned ev q')
      | Blocked _ q' \<Rightarrow> GetEvent schedule (WaitUntil_done waitOk (others q')))"

section \<open>File descriptor listeners\<close>

datatype ErrCode =
    ERR_OK
  | EVENT_HANDLER_ERR_INVALID_PARAM
  | EVENT_HANDLER_ERR_NO_EVENT_RUNNER
  | EVENT_HANDLER_ERR_FD_NOT_SUPPORT
  | EVENT_HANDLER_ERR_FD_ALREADY
  | EVENT_HANDLER_ERR_FD_FAILED
  | EVENT_HANDLER_ERR_RUNNER_NO_PERMIT
  | EVENT_HANDLER_ERR_RUNNER_ALREADY

text \<open>The operating system's answers: for creating an epoll waiter, and for each descriptor.\<close>

record os_answers =
  os_epollFd :: int
  os_awakenFd :: int
  os_ctlOk :: bool
  os_accepts :: "int \<Rightarrow> bool"

definition EnsureIoWaiterSupportListening :: "os_answers \<Rightarrow> event_queue \<Rightarrow> bool \<times> io_waiter \<times> event_queue" where
  "EnsureIoWaiterSupportListening os q =
     (if SupportListeningFileDescriptor (q_ioWaiter q) then (True, q_ioWaiter q, q)
      else (case Epoll_Init (os_epollFd os) (os_awakenFd os) (os_ctlOk os) new_EpollIoWaiter of
              (ok, _, w) \<Rightarrow>
                if \<not> ok then (False, q_ioWaiter q, q)
                else (True, NotifyAll (q_ioWaiter q),
                      q\<lparr>q_ioWaiter := SetFileDescriptorEventCallback (EpollIoWaiter w)\<rparr>)))"

definition AddFileDescriptorListener ::
  "os_answers \<Rightarrow> int \<Rightarrow> u32 \<Rightarrow> fd_listener option \<Rightarrow> event_queue \<Rightarrow> ErrCode \<times> event_queue" where
  "AddFileDescriptorListener os fd events listener q =
     (case listener of
        None \<Rightarrow> (EVENT_HANDLER_ERR_INVALID_PARAM, q)
      | Some l \<Rightarrow>
          if fd < 0 \<or> events AND FILE_DESCRIPTOR_EVENTS_MASK = 0
          then (EVENT_HANDLER_ERR_INVALID_PARAM, q)
          else if map_of (q_listeners q) fd \<noteq> None then (EVENT_HANDLER_ERR_FD_ALREADY, q)
          else (case EnsureIoWaiterSupportListening os q of
                  (supported, _, q1) \<Rightarrow>
                    if \<not> supported then (EVENT_HANDLER_ERR_FD_NOT_SUPPORT, q1)
                    else (case AddFileDescriptor (os_accepts os) fd events (q_ioWaiter q1) of
                            (added, w) \<Rightarrow>
                              if \<not> added then (EVENT_HANDLER_ERR_FD_FAILED, q1\<lparr>q_ioWaiter := w\<rparr>)
                              else (ERR_OK, q1\<lparr>q_ioWaiter := w,
                                               q_listeners := sm_emplace fd l (q_listeners q1)\<rparr>))))"

definition RemoveFileDescriptorListenerLocked ::
  "(fd_listener \<Rightarrow> bool) \<Rightarrow> event_queue \<Rightarrow> event_queue" where
  "RemoveFileDescriptorListenerLocked flt q =
     q\<lparr>q_ioWaiter := fold RemoveFileDescriptor
          (map fst (filter (\<lambda>(fd, l). flt l) (q_listeners q))) (q_ioWaiter q),
       q_listeners := filter (\<lambda>(fd, l). \<not> flt l) (q_listeners q)\<rparr>"

definition RemoveFileDescriptorListener_owner ::
  "(handler_id \<Rightarrow> bool) \<Rightarrow> handler_id option \<Rightarrow> event_queue \<Rightarrow> event_queue" where
  "RemoveFileDescriptorListener_owner alive h q =
     (case h of None \<Rightarrow> q
      | Some h' \<Rightarrow> RemoveFileDescriptorListenerLocked (\<lambda>l. lock alive (fl_owner l) = Some h') q)"

definition RemoveFileDescriptorListener :: "int \<Rightarrow> event_queue \<Rightarrow> event_queue" where
  "RemoveFileDescriptorListener fd q =
     (if fd < 0 then q
      else if map_of (q_listeners q) fd \<noteq> None
      then q\<lparr>q_listeners := sm_erase fd (q_listeners q),
             q_ioWaiter := RemoveFileDescriptor fd (q_ioWaiter q)\<rparr>
      else q)"

definition RemoveOrphan :: "(handler_id \<Rightarrow> bool) \<Rightarrow> event_queue \<Rightarrow> event_queue" where
  "RemoveOrphan alive q =
     RemoveFileDescriptorListenerLocked (\<lambda>l. lock alive (fl_owner l) = None)
       (Remove (\<lambda>e. GetOwner alive e = None) q)"

text \<open>
  \<open>HandleFileDescriptorEvent\<close>: the listener and the handler the task is posted to, and the
  methods of the listener the task calls, in order.
\<close>

datatype fd_call = OnReadable int | OnWritable int | OnShutdown int | OnException int

definition HandleFileDescriptorEvent ::
  "(handler_id \<Rightarrow> bool) \<Rightarrow> int \<Rightarrow> event_queue \<Rightarrow> (handler_id \<times> fd_listener) option" where
  "HandleFileDescriptorEvent alive fd q =
     (case map_of (q_listeners q) fd of
        None \<Rightarrow> None
      | Some l \<Rightarrow> (case lock alive (fl_owner l) of None \<Rightarrow> None | Some h \<Rightarrow> Some (h, l)))"

definition fd_task_calls :: "int \<Rightarrow> u32 \<Rightarrow> bool \<Rightarrow> fd_call list" where
  "fd_task_calls fd events listenerAlive =
     (if \<not> listenerAlive then []
      else (if events AND FILE_DESCRIPTOR_INPUT_EVENT \<noteq> 0 then [OnReadable fd] else []) @
           (if events AND FILE_DESCRIPTOR_OUTPUT_EVENT \<noteq> 0 then [OnWritable fd] else []) @
           (if events AND FILE_DESCRIPTOR_SHUTDOWN_EVENT \<noteq> 0 then [OnShutdown fd] else []) @
           (if events AND FILE_DESCRIPTOR_EXCEPTION_EVENT \<noteq> 0 then [OnException fd] else []))"

section \<open>Life cycle and inspection\<close>

definition Prepare :: "event_queue \<Rightarrow> event_queue" where
  "Prepare q = q\<lparr>q_finished := False\<rparr>"

definition Finish :: "event_queue \<Rightarrow> event_queue" where
  "Finish q = q\<lparr>q_finished := True, q_ioWaiter := NotifyAll (q_ioWaiter q)\<rparr>"

definition IsIdle :: "event_queue \<Rightarrow> bool" where
  "IsIdle q = q_isIdle q"

definition IsQueueEmpty :: "event_queue \<Rightarrow> bool" where
  "IsQueueEmpty q \<longleftrightarrow>
     list_all (\<lambda>s. length (sq_queue s) = 0) (q_subEventQueues q) \<and> length (q_idleEvents q) = 0"

fun dump_events :: "(handler_id \<Rightarrow> bool) \<Rightarrow> string \<Rightarrow> nat \<Rightarrow> inner_event list \<Rightarrow> string" where
  "dump_events alive prefix n [] = []"
| "dump_events alive prefix n (e # es) =
     prefix @ '' No.'' @ nat_to_string (n + 1) @ '' : '' @ Event_Dump alive e @
     dump_events alive prefix (n + 1) es"

definition priority_names :: "string list" where
  "priority_names = [''Immediate'', ''High'', ''Low'']"

definition total_events :: "event_queue \<Rightarrow> nat" where
  "total_events q = sum_list (map (\<lambda>s. length (sq_queue s)) (q_subEventQueues q)) + length (q_idleEvents q)"

definition Dump :: "(handler_id \<Rightarrow> bool) \<Rightarrow> string \<Rightarrow> event_queue \<Rightarrow> string" where
  "Dump alive tag q =
     concat (map (\<lambda>(name, s).
        tag @ '' '' @ name @ '' priority event queue information:'' @ LINE_SEPARATOR @
        dump_events alive tag 0 (sq_queue s) @
        tag @ '' Total size of '' @ name @ '' events : '' @ nat_to_string (length (sq_queue s)) @
        LINE_SEPARATOR) (zip priority_names (q_subEventQueues q))) @
     tag @ '' Idle priority event queue information:'' @ LINE_SEPARATOR @
     dump_events alive tag 0 (q_idleEvents q) @
     tag @ '' Total size of Idle events : '' @ nat_to_string (length (q_idleEvents q)) @ LINE_SEPARATOR @
     tag @ '' Total event size : '' @ nat_to_string (total_events q) @ LINE_SEPARATOR"

definition DumpQueueInfo :: "(handler_id \<Rightarrow> bool) \<Rightarrow> event_queue \<Rightarrow> string" where
  "DumpQueueInfo alive q =
     concat (map (\<lambda>(name, s).
        replicate 12 (CHR '' '') @ name @ '' priority event queue:'' @ LINE_SEPARATOR @
        dump_events alive (replicate 11 (CHR '' '')) 0 (sq_queue s) @
        replicate 14 (CHR '' '') @ ''Total size of '' @ name @ '' events : '' @
        nat_to_string (length (sq_queue s)) @ LINE_SEPARATOR) (zip priority_names (q_subEventQueues q))) @
     replicate 12 (CHR '' '') @ ''Idle priority event queue:'' @ LINE_SEPARATOR @
     dump_events alive (replicate 11 (CHR '' '')) 0 (q_idleEvents q) @
     replicate 14 (CHR '' '') @ ''Total size of Idle events : '' @
     nat_to_string (length (q_idleEvents q)) @ LINE_SEPARATOR @
     replicate 12 (CHR '' '') @ ''Total event size : '' @ nat_to_string (total_events q)"

end
