(* ===== verification/Event_Queue_Insert.thy ===== *)
theory Event_Queue_Insert
  imports Event_Queue
begin

text \<open>
  Insertion into the event lists. The binary search of \<open>std::upper_bound\<close> finds the first
  element that is handled later than the new one; the locale \<open>stable_insertion\<close> derives from
  that law everything the queue relies on: the list stays sorted, nothing is lost, events with
  equal handle times keep the order in which they were inserted.
\<close>

section \<open>Binary search\<close>

lemma upper_bound_partition:
  assumes "first + len \<le> length xs"
    and "\<And>i j. i \<le> j \<Longrightarrow> j < length xs \<Longrightarrow> before (xs ! i) \<Longrightarrow> before (xs ! j)"
    and "\<And>i. i < first \<Longrightarrow> \<not> before (xs ! i)"
    and "\<And>i. first + len \<le> i \<Longrightarrow> i < length xs \<Longrightarrow> before (xs ! i)"
  shows "upper_bound before xs first len \<le> length xs \<and>
     (\<forall>i < upper_bound before xs first len. \<not> before (xs ! i)) \<and>
     (\<forall>i < length xs. upper_bound before xs first len \<le> i \<longrightarrow> before (xs ! i))"
  using assms
proof (induction before xs first len rule: upper_bound.induct)
  case (1 before xs first len)
  show ?case
  proof (cases "len = 0")
    case True
    then show ?thesis using "1.prems" by (simp add: upper_bound.simps)
  next
    case False
    define middle where "middle = first + len div 2"
    have mid: "middle < length xs" "first \<le> middle" "middle < first + len"
      using False "1.prems"(1) by (auto simp: middle_def)
    show ?thesis
    proof (cases "before (xs ! middle)")
      case True
      then have step: "upper_bound before xs first len = upper_bound before xs first (len div 2)"
        using False by (simp add: upper_bound.simps [of before xs first len] middle_def Let_def)
      show ?thesis unfolding step
      proof (rule "1.IH"(1) [OF False refl middle_def True])
        show "first + len div 2 \<le> length xs" using mid by (simp add: middle_def)
        show "before (xs ! i)" if "first + len div 2 \<le> i" "i < length xs" for i
          using that True "1.prems"(2) [of middle i] by (simp add: middle_def)
      qed (use "1.prems" in auto)
    next
      case nb: False
      then have step: "upper_bound before xs first len
          = upper_bound before xs (middle + 1) (len - len div 2 - 1)"
        using False by (simp add: upper_bound.simps [of before xs first len] middle_def Let_def)
      have bound: "middle + 1 + (len - len div 2 - 1) = first + len"
        using False by (simp add: middle_def)
      show ?thesis unfolding step
      proof (rule "1.IH"(2) [OF False refl middle_def nb])
        show "\<not> before (xs ! i)" if "i < middle + 1" for i
          using that nb mid "1.prems"(2) [of i middle] by auto
      qed (use "1.prems" bound in auto)
    qed
  qed
qed

lemma upper_bound_takeWhile:
  fixes key :: "'a \<Rightarrow> 'b::linorder"
  assumes "sorted (map key xs)"
  shows "take (upper_bound (\<lambda>x. k < key x) xs 0 (length xs)) xs = takeWhile (\<lambda>x. key x \<le> k) xs"
    and "drop (upper_bound (\<lambda>x. k < key x) xs 0 (length xs)) xs = dropWhile (\<lambda>x. key x \<le> k) xs"
proof -
  let ?r = "upper_bound (\<lambda>x. k < key x) xs 0 (length xs)"
  have part: "?r \<le> length xs \<and> (\<forall>i < ?r. \<not> k < key (xs ! i)) \<and>
      (\<forall>i < length xs. ?r \<le> i \<longrightarrow> k < key (xs ! i))"
    by (rule upper_bound_partition)
      (use assms in \<open>auto simp: sorted_iff_nth_mono dest: order.strict_trans2\<close>)
  show tk: "take ?r xs = takeWhile (\<lambda>x. key x \<le> k) xs"
    using part by (intro takeWhile_eq_take_P_nth [symmetric]) (auto simp: not_less)
  have "length (takeWhile (\<lambda>x. key x \<le> k) xs) = ?r"
    using part arg_cong [OF tk, of length] by simp
  then show "drop ?r xs = dropWhile (\<lambda>x. key x \<le> k) xs"
    by (simp add: dropWhile_eq_drop)
qed

section \<open>The insertion interface\<close>

locale stable_insertion =
  fixes key :: "'e \<Rightarrow> 'k::linorder" and ins :: "'e list \<Rightarrow> 'e \<Rightarrow> 'e list"
  assumes ins_spec: "sorted (map key xs) \<Longrightarrow>
    ins xs e = takeWhile (\<lambda>x. key x \<le> key e) xs @ e # dropWhile (\<lambda>x. key x \<le> key e) xs"
begin

lemma dropWhile_later:
  "sorted (map key xs) \<Longrightarrow> x \<in> set (dropWhile (\<lambda>x. key x \<le> k) xs) \<Longrightarrow> k < key x"
  by (induction xs) (auto split: if_splits)

lemma ins_filters:
  "sorted (map key xs) \<Longrightarrow>
     ins xs e = filter (\<lambda>x. key x \<le> key e) xs @ e # filter (\<lambda>x. key e < key x) xs"
proof -
  assume s: "sorted (map key xs)"
  have "takeWhile (\<lambda>x. key x \<le> key e) xs = filter (\<lambda>x. key x \<le> key e) xs"
    using s
  proof (induction xs)
    case (Cons x xs)
    show ?case
    proof (cases "key x \<le> key e")
      case False
      then have "\<forall>y \<in> set xs. \<not> key y \<le> key e" using Cons.prems by (fastforce simp: not_le)
      then show ?thesis using False by (simp add: filter_empty_conv)
    qed (use Cons in simp)
  qed simp
  moreover have "dropWhile (\<lambda>x. key x \<le> key e) xs = filter (\<lambda>x. key e < key x) xs"
    using s
  proof (induction xs)
    case (Cons x xs)
    show ?case
    proof (cases "key x \<le> key e")
      case False
      then have "\<forall>y \<in> set xs. key e < key y" using Cons.prems by (fastforce simp: not_le)
      then show ?thesis using False by simp
    qed (use Cons in simp)
  qed simp
  ultimately show ?thesis using ins_spec [OF s, of e] by simp
qed

lemma sorted_ins: "sorted (map key xs) \<Longrightarrow> sorted (map key (ins xs e))"
  by (fastforce simp: ins_filters sorted_append sorted_filter)

lemma mset_ins: "sorted (map key xs) \<Longrightarrow> mset (ins xs e) = add_mset e (mset xs)"
  using mset_filter_compl [of "\<lambda>x. key x \<le> key e" xs] by (simp add: ins_filters not_le)

lemma set_ins: "sorted (map key xs) \<Longrightarrow> set (ins xs e) = insert e (set xs)"
  by (auto simp: ins_filters)

lemma ins_same_key:
  "sorted (map key xs) \<Longrightarrow>
     filter (\<lambda>x. key x = k) (ins xs e) = filter (\<lambda>x. key x = k) xs @ (if key e = k then [e] else [])"
proof (cases "k \<le> key e")
  case True
  assume s: "sorted (map key xs)"
  have "filter (\<lambda>x. key x \<le> key e \<and> key x = k) xs = filter (\<lambda>x. key x = k) xs"
    "filter (\<lambda>x. key e < key x \<and> key x = k) xs = []"
    using True by (auto simp: filter_empty_conv intro: filter_cong)
  then show ?thesis by (simp add: ins_filters [OF s] conj_commute)
next
  case False
  assume s: "sorted (map key xs)"
  have "filter (\<lambda>x. key x \<le> key e \<and> key x = k) xs = []"
    "filter (\<lambda>x. key e < key x \<and> key x = k) xs = filter (\<lambda>x. key x = k) xs"
    using False by (auto simp: filter_empty_conv intro: filter_cong)
  then show ?thesis using False by (auto simp: ins_filters [OF s] conj_commute)
qed

lemma ins_hd:
  "sorted (map key xs) \<Longrightarrow> xs \<noteq> [] \<Longrightarrow>
     hd (ins xs e) = (if key (hd xs) \<le> key e then hd xs else e)"
  by (cases xs) (auto simp: ins_spec)

lemma foldl_ins:
  assumes "sorted (map key xs)"
  shows "sorted (map key (foldl ins xs es))" "mset (foldl ins xs es) = mset xs + mset es"
    and "filter (\<lambda>x. key x = k) (foldl ins xs es) = filter (\<lambda>x. key x = k) (xs @ es)"
proof -
  have "sorted (map key (foldl ins xs es)) \<and> mset (foldl ins xs es) = mset xs + mset es \<and>
      filter (\<lambda>x. key x = k) (foldl ins xs es) = filter (\<lambda>x. key x = k) (xs @ es)"
    using assms
  proof (induction es arbitrary: xs)
    case (Cons e es)
    then show ?case
      using Cons.IH [of "ins xs e"] by (auto simp: sorted_ins mset_ins ins_same_key)
  qed simp
  then show "sorted (map key (foldl ins xs es))" "mset (foldl ins xs es) = mset xs + mset es"
    "filter (\<lambda>x. key x = k) (foldl ins xs es) = filter (\<lambda>x. key x = k) (xs @ es)"
    by blast+
qed

text \<open>Inserting events one by one is a stable sort by the key.\<close>

lemma foldl_ins_sort_key: "foldl ins [] es = sort_key key es"
proof (rule properties_for_sort_key [symmetric])
  show "mset (foldl ins [] es) = mset es" using foldl_ins(2) [of "[]" es] by simp
  show "filter (\<lambda>x. key e = key x) (foldl ins [] es) = filter (\<lambda>x. key e = key x) es" for e
    using foldl_ins(3) [of "[]" "key e" es] by (simp add: eq_commute)
  show "sorted (map key (foldl ins [] es))" using foldl_ins(1) [of "[]" es] by simp
qed

end

interpretation evl: stable_insertion ev_handleTime InsertEventsLocked
  by unfold_locales (simp add: InsertEventsLocked_def upper_bound_takeWhile)

text \<open>
  C1: Inserting any sequence of events into an empty event list yields the stable sort of the
  sequence by handle time: the list is ordered by handle time and events with the same handle
  time stay in the order in which they were inserted (first in, first out).
\<close>

theorem insert_events_stable_sort:
  "foldl InsertEventsLocked [] es = sort_key ev_handleTime es"
  by (rule evl.foldl_ins_sort_key)

end
