(* ===== verification/Event_Queue_Pick.thy ===== *)
theory Event_Queue_Pick
  imports Event_Queue_Insert
begin

text \<open>
  Which event \<open>PickEventLocked\<close> takes, and what it leaves behind: only due events are taken, a
  lower priority overtakes a due higher one only when it is strictly older and the higher queue
  has used up its quota, nothing else is removed, and when nothing is due the wake-up time is
  the earliest front. The last section bounds how long the quota lets an old event of low
  priority be passed over.
\<close>

section \<open>Fronts\<close>

definition front :: "sub_event_queue \<Rightarrow> time_point option" where
  "front s = (case sq_queue s of [] \<Rightarrow> None | e # _ \<Rightarrow> Some (ev_handleTime e))"

definition due :: "time_point \<Rightarrow> sub_event_queue \<Rightarrow> bool" where
  "due now s = (case front s of None \<Rightarrow> False | Some t \<Rightarrow> t \<le> now)"

definition front_time :: "sub_event_queue \<Rightarrow> time_point" where
  "front_time s = (case front s of None \<Rightarrow> TimePoint_max | Some t \<Rightarrow> t)"

definition quota_left :: "sub_event_queue \<Rightarrow> bool" where
  "quota_left s \<longleftrightarrow> sq_handledEventsCount s < sq_maxHandledEventsCount s"

definition handle_once :: "sub_event_queue \<Rightarrow> sub_event_queue" where
  "handle_once s = s\<lparr>sq_handledEventsCount := sq_handledEventsCount s + 1\<rparr>"

definition reset_count :: "sub_event_queue \<Rightarrow> sub_event_queue" where
  "reset_count s = s\<lparr>sq_handledEventsCount := 0\<rparr>"

definition pop_front :: "sub_event_queue \<Rightarrow> sub_event_queue" where
  "pop_front s = s\<lparr>sq_queue := tl (sq_queue s)\<rparr>"

lemma Check_due:
  "CheckEventInListLocked (sq_queue s) now w =
     (if front_time s < w \<and> front s \<noteq> None then (due now s, front_time s) else (False, w))"
  by (auto simp: CheckEventInListLocked_def due_def front_time_def front_def split: list.splits)

lemma due_nonempty: "due now s \<Longrightarrow> front s = Some (front_time s) \<and> front_time s \<le> now"
  by (auto simp: due_def front_time_def split: option.splits)

lemma front_Some: "front s = Some t \<Longrightarrow> \<exists>e es. sq_queue s = e # es \<and> ev_handleTime e = t"
  by (auto simp: front_def split: list.splits)

text \<open>\<open>PickEventLocked\<close> on the three sub queues, as a decision over their fronts.\<close>

definition pick_spec ::
  "time_point \<Rightarrow> sub_event_queue \<Rightarrow> sub_event_queue \<Rightarrow> sub_event_queue
     \<Rightarrow> sub_event_queue list \<times> time_point \<times> nat" where
  "pick_spec now a b c =
     (let wa = front_time a; wb = min wa (front_time b); wc = min wb (front_time c);
          db = (due now b \<and> front_time b < wa);
          dc = (due now c \<and> front_time c < wb)
      in if due now a then
           (if db then
              (if quota_left a then ([handle_once a, b, c], wb, 0)
               else if dc then (if quota_left b then ([a, handle_once b, c], wc, 1) else ([a, b, c], wc, 2))
               else ([a, b, c], wc, 1))
            else if dc then (if quota_left a then ([handle_once a, b, c], wc, 0) else ([a, b, c], wc, 2))
            else ([a, b, c], wc, 0))
         else if db then
           (if dc then (if quota_left b then ([a, handle_once b, c], wc, 1) else ([a, b, c], wc, 2))
            else ([a, b, c], wc, 1))
         else if dc then ([a, b, c], wc, 2)
         else ([a, b, c], wc, 3))"

lemma front_time_None [simp]: "front s = None \<Longrightarrow> front_time s = TimePoint_max"
  by (simp add: front_time_def)

lemma due_None [simp]: "front s = None \<Longrightarrow> \<not> due now s"
  by (simp add: due_def)

lemma Check_due':
  assumes "w \<le> TimePoint_max"
  shows "CheckEventInListLocked (sq_queue s) now w = (due now s \<and> front_time s < w, min w (front_time s))"
proof (cases "front s")
  case None
  then show ?thesis using assms by (simp add: Check_due min_def)
next
  case (Some t)
  then show ?thesis by (auto simp: Check_due min_def)
qed

text \<open>Handle times never exceed the largest time point.\<close>

definition times_ok :: "sub_event_queue \<Rightarrow> bool" where
  "times_ok s \<longleftrightarrow> front_time s < TimePoint_max \<or> front s = None"

lemma pick_loop_spec:
  assumes "times_ok a" "times_ok b" "times_ok c"
  shows "pick_loop now [0, 1, 2] [a, b, c] TimePoint_max 3 = pick_spec now a b c"
proof -
  have le: "front_time a \<le> TimePoint_max" "front_time b \<le> TimePoint_max"
    using assms by (auto simp: times_ok_def)
  have da: "due now a \<Longrightarrow> front_time a < TimePoint_max"
    using assms by (auto simp: times_ok_def)
  have ma: "min TimePoint_max (front_time a) = front_time a" using le by simp
  have le2: "min (front_time a) (front_time b) \<le> TimePoint_max" using le by simp
  show ?thesis
    using da
    by (simp add: pick_spec_def Let_def Check_due' le le2 ma SUB_EVENT_QUEUE_NUM_def
        quota_left_def handle_once_def min.assoc)
qed

lemma upt_three: "[0..<3] = [0, 1, 2::nat]"
  by (simp add: upt_rec)

lemma length_three: "length xs = 3 \<Longrightarrow> \<exists>a b c. xs = [a, b, c]"
  by (auto simp: numeral_3_eq_3 length_Suc_conv)

lemma Pick_three:
  assumes "times_ok a" "times_ok b" "times_ok c"
  shows "PickEventLocked now TimePoint_max [a, b, c] =
    (case pick_spec now a b c of (subs, w, i) \<Rightarrow>
       if i = 0 then (Some (hd (sq_queue a)), w, [pop_front (subs ! 0), subs ! 1, subs ! 2])
       else if i = 1 then
         (Some (hd (sq_queue b)), w, [reset_count (subs ! 0), pop_front (subs ! 1), subs ! 2])
       else if i = 2 then
         (Some (hd (sq_queue c)), w, [reset_count (subs ! 0), reset_count (subs ! 1), pop_front (subs ! 2)])
       else (None, w, subs))"
  unfolding PickEventLocked_def SUB_EVENT_QUEUE_NUM_def upt_three pick_loop_spec [OF assms]
  by (simp add: pick_spec_def Let_def reset_counts_def pop_front_def reset_count_def handle_once_def
      numeral_2_eq_2)

lemma front_simps [simp]:
  "sq_queue (handle_once s) = sq_queue s" "sq_queue (reset_count s) = sq_queue s"
  "sq_queue (pop_front s) = tl (sq_queue s)"
  "sq_handledEventsCount (handle_once s) = sq_handledEventsCount s + 1"
  "sq_handledEventsCount (reset_count s) = 0"
  "sq_handledEventsCount (pop_front s) = sq_handledEventsCount s"
  "sq_maxHandledEventsCount (handle_once s) = sq_maxHandledEventsCount s"
  "sq_maxHandledEventsCount (reset_count s) = sq_maxHandledEventsCount s"
  "sq_maxHandledEventsCount (pop_front s) = sq_maxHandledEventsCount s"
  by (simp_all add: handle_once_def reset_count_def pop_front_def)

lemma due_hd: "due now s \<Longrightarrow> ev_handleTime (hd (sq_queue s)) = front_time s \<and> sq_queue s \<noteq> []"
  by (auto simp: due_def front_time_def front_def split: list.splits)

section \<open>The choice\<close>

text \<open>
  \<open>picked now subs i\<close>: taking the front of sub queue \<open>i\<close> respects the priorities. Its event is
  due; a due queue of higher priority is passed over only for a strictly older event and only
  when some such queue has no quota left; an older due event of lower priority is passed over
  only while queue \<open>i\<close> has quota left.
\<close>

definition picked :: "time_point \<Rightarrow> sub_event_queue list \<Rightarrow> nat \<Rightarrow> bool" where
  "picked now subs i \<longleftrightarrow> i < length subs \<and> due now (subs ! i) \<and>
     (\<forall>j < i. due now (subs ! j) \<longrightarrow> front_time (subs ! i) < front_time (subs ! j)) \<and>
     ((\<exists>j < i. due now (subs ! j)) \<longrightarrow> (\<exists>j < i. due now (subs ! j) \<and> \<not> quota_left (subs ! j))) \<and>
     ((\<exists>j < length subs. i < j \<and> due now (subs ! j) \<and> front_time (subs ! j) < front_time (subs ! i))
        \<longrightarrow> quota_left (subs ! i))"

lemma ex_less_3: "(\<exists>j < 3. P j) \<longleftrightarrow> P 0 \<or> P 1 \<or> P (2::nat)"
  by (auto simp: numeral_eq_Suc less_Suc_eq)

lemma all_less_simps:
  "(\<forall>j < 0. P j) \<longleftrightarrow> True" "(\<forall>j < 1. P j) \<longleftrightarrow> P 0" "(\<forall>j < 2. P j) \<longleftrightarrow> P 0 \<and> P (1::nat)"
  "(\<exists>j < 0. P j) \<longleftrightarrow> False" "(\<exists>j < 1. P j) \<longleftrightarrow> P 0" "(\<exists>j < 2. P j) \<longleftrightarrow> P 0 \<or> P (1::nat)"
  by (auto simp: numeral_eq_Suc less_Suc_eq)

lemma picked_three:
  "picked now [a, b, c] 0 \<longleftrightarrow> due now a \<and>
     (due now b \<and> front_time b < front_time a \<or> due now c \<and> front_time c < front_time a \<longrightarrow> quota_left a)"
  "picked now [a, b, c] 1 \<longleftrightarrow> due now b \<and>
     (due now a \<longrightarrow> front_time b < front_time a \<and> \<not> quota_left a) \<and>
     (due now c \<and> front_time c < front_time b \<longrightarrow> quota_left b)"
  "picked now [a, b, c] 2 \<longleftrightarrow> due now c \<and>
     (due now a \<longrightarrow> front_time c < front_time a) \<and> (due now b \<longrightarrow> front_time c < front_time b) \<and>
     (due now a \<or> due now b \<longrightarrow> due now a \<and> \<not> quota_left a \<or> due now b \<and> \<not> quota_left b)"
proof -
  have len: "length [a, b, c] = 3" by simp
  note expand = picked_def len ex_less_3 all_less_simps
  show "picked now [a, b, c] 0 \<longleftrightarrow> due now a \<and>
      (due now b \<and> front_time b < front_time a \<or> due now c \<and> front_time c < front_time a \<longrightarrow> quota_left a)"
    by (simp only: expand) simp
  show "picked now [a, b, c] 1 \<longleftrightarrow> due now b \<and>
      (due now a \<longrightarrow> front_time b < front_time a \<and> \<not> quota_left a) \<and>
      (due now c \<and> front_time c < front_time b \<longrightarrow> quota_left b)"
    by (simp only: expand) (simp, blast)
  show "picked now [a, b, c] 2 \<longleftrightarrow> due now c \<and>
      (due now a \<longrightarrow> front_time c < front_time a) \<and> (due now b \<longrightarrow> front_time c < front_time b) \<and>
      (due now a \<or> due now b \<longrightarrow> due now a \<and> \<not> quota_left a \<or> due now b \<and> \<not> quota_left b)"
    by (simp only: expand) simp
qed

lemma not_due_time: "\<not> due now s \<Longrightarrow> times_ok s \<Longrightarrow> now < TimePoint_max \<Longrightarrow> now < front_time s"
  by (auto simp: due_def front_time_def times_ok_def split: option.splits)

lemma due_time: "due now s \<Longrightarrow> front_time s \<le> now"
  by (auto simp: due_def front_time_def split: option.splits)

lemma pick_spec_choice:
  assumes "times_ok a" "times_ok b" "times_ok c" "now < TimePoint_max"
    and "pick_spec now a b c = (subs, w, i)"
  shows "i < 3 \<Longrightarrow> picked now [a, b, c] i"
    and "i \<ge> 3 \<longleftrightarrow> \<not> due now a \<and> \<not> due now b \<and> \<not> due now c"
    and "i \<ge> 3 \<Longrightarrow> subs = [a, b, c] \<and> w = min (min (front_time a) (front_time b)) (front_time c)"
    and "map sq_queue subs = map sq_queue [a, b, c]"
    and "length subs = 3"
proof -
  note nd = not_due_time [OF _ assms(1,4)] not_due_time [OF _ assms(2,4)] not_due_time [OF _ assms(3,4)]
  show "i < 3 \<Longrightarrow> picked now [a, b, c] i"
    using assms(5) nd due_time [of now a] due_time [of now b] due_time [of now c]
    by (auto simp: pick_spec_def Let_def picked_three picked_three [simplified] min_def split: if_splits)
  show "i \<ge> 3 \<longleftrightarrow> \<not> due now a \<and> \<not> due now b \<and> \<not> due now c"
    using assms(5) nd due_time [of now a] due_time [of now b] due_time [of now c]
    by (auto simp: pick_spec_def Let_def min_def split: if_splits)
  show "i \<ge> 3 \<Longrightarrow> subs = [a, b, c] \<and> w = min (min (front_time a) (front_time b)) (front_time c)"
    using assms(5) by (auto simp: pick_spec_def Let_def split: if_splits)
  show "map sq_queue subs = map sq_queue [a, b, c]" "length subs = 3"
    using assms(5) by (auto simp: pick_spec_def Let_def split: if_splits)
qed

text \<open>The sub queues between operations.\<close>

definition sub_inv :: "sub_event_queue \<Rightarrow> bool" where
  "sub_inv s \<longleftrightarrow> sorted (map ev_handleTime (sq_queue s)) \<and>
     sq_handledEventsCount s \<le> sq_maxHandledEventsCount s \<and>
     sq_maxHandledEventsCount s = DEFAULT_MAX_HANDLED_EVENT_COUNT"

definition subs_inv :: "sub_event_queue list \<Rightarrow> bool" where
  "subs_inv subs \<longleftrightarrow> length subs = SUB_EVENT_QUEUE_NUM \<and> (\<forall>s \<in> set subs. sub_inv s)"

lemma subs_inv_three: "subs_inv [a, b, c] \<longleftrightarrow> sub_inv a \<and> sub_inv b \<and> sub_inv c"
  by (auto simp: subs_inv_def SUB_EVENT_QUEUE_NUM_def)

lemma subs_inv_cases: "subs_inv subs \<Longrightarrow> \<exists>a b c. subs = [a, b, c] \<and> sub_inv a \<and> sub_inv b \<and> sub_inv c"
  using length_three [of subs] by (auto simp: subs_inv_def SUB_EVENT_QUEUE_NUM_def)

lemma sub_inv_pop [simp]: "sub_inv s \<Longrightarrow> sub_inv (pop_front s)"
  by (cases "sq_queue s") (auto simp: sub_inv_def)

lemma sub_inv_reset [simp]: "sub_inv s \<Longrightarrow> sub_inv (reset_count s)"
  by (auto simp: sub_inv_def)

lemma sub_inv_handle [simp]: "sub_inv s \<Longrightarrow> quota_left s \<Longrightarrow> sub_inv (handle_once s)"
  by (auto simp: sub_inv_def quota_left_def)

lemma front_time_le: "sub_inv s \<Longrightarrow> e \<in> set (sq_queue s) \<Longrightarrow> front_time s \<le> ev_handleTime e"
  by (cases "sq_queue s") (auto simp: sub_inv_def front_time_def front_def)

lemma Pick_subs_inv:
  assumes "subs_inv subs" "\<forall>s \<in> set subs. times_ok s"
    and "PickEventLocked now TimePoint_max subs = (ev, w, subs')"
  shows "subs_inv subs'"
proof -
  obtain a b c where abc: "subs = [a, b, c]" "sub_inv a" "sub_inv b" "sub_inv c"
    using subs_inv_cases [OF assms(1)] by blast
  have t: "times_ok a" "times_ok b" "times_ok c" using assms(2) abc(1) by auto
  show ?thesis
    using assms(3) abc unfolding abc(1) Pick_three [OF t]
    by (auto simp: pick_spec_def Let_def subs_inv_three numeral_2_eq_2 split: if_splits)
qed

lemma Pick_Some:
  assumes "length subs = 3" "\<forall>s \<in> set subs. times_ok s" "now < TimePoint_max"
    and "PickEventLocked now TimePoint_max subs = (Some e, w, subs')"
  shows "\<exists>i < 3. picked now subs i \<and> e = hd (sq_queue (subs ! i)) \<and>
     map sq_queue subs' = (map sq_queue subs)[i := tl (sq_queue (subs ! i))]"
proof -
  obtain a b c where abc: "subs = [a, b, c]" using length_three [OF assms(1)] by blast
  have t: "times_ok a" "times_ok b" "times_ok c" using assms(2) abc by auto
  obtain subs1 w1 i where ps: "pick_spec now a b c = (subs1, w1, i)" by (cases "pick_spec now a b c")
  note choice = pick_spec_choice [OF t assms(3) ps]
  have len: "length subs1 = 3" by (rule choice(5))
  then obtain a' b' c' where s1: "subs1 = [a', b', c']" using length_three by blast
  have same: "sq_queue a' = sq_queue a" "sq_queue b' = sq_queue b" "sq_queue c' = sq_queue c"
    using choice(4) by (simp_all add: s1)
  have "i < 3" using assms(4) unfolding abc Pick_three [OF t] ps by (auto split: if_splits)
  moreover have "picked now subs i" using choice(1) calculation abc by simp
  moreover have "e = hd (sq_queue (subs ! i)) \<and>
      map sq_queue subs' = (map sq_queue subs)[i := tl (sq_queue (subs ! i))]"
  proof -
    consider "i = 0" | "i = 1" | "i = 2" using calculation(1) by linarith
    then show ?thesis
      using assms(4) unfolding abc Pick_three [OF t] ps
      by cases (auto simp: s1 same numeral_2_eq_2)
  qed
  ultimately show ?thesis by blast
qed

lemma Pick_None:
  assumes "length subs = 3" "\<forall>s \<in> set subs. times_ok s" "now < TimePoint_max"
    and "PickEventLocked now TimePoint_max subs = (None, w, subs')"
  shows "subs' = subs \<and> (\<forall>s \<in> set subs. \<not> due now s) \<and> w = Min (front_time ` set subs)"
proof -
  obtain a b c where abc: "subs = [a, b, c]" using length_three [OF assms(1)] by blast
  have t: "times_ok a" "times_ok b" "times_ok c" using assms(2) abc by auto
  obtain subs1 w1 i where ps: "pick_spec now a b c = (subs1, w1, i)" by (cases "pick_spec now a b c")
  note choice = pick_spec_choice [OF t assms(3) ps]
  have i: "i \<ge> 3" "w = w1" "subs' = subs1"
    using assms(4) unfolding abc Pick_three [OF t] ps by (auto split: if_splits)
  have "Min (front_time ` set subs) = min (min (front_time a) (front_time b)) (front_time c)"
    by (simp add: abc min.assoc)
  then show ?thesis using choice(2,3) i abc by auto
qed

text \<open>
  C2: Whatever \<open>PickEventLocked\<close> returns, it is the front of a sub queue that is due, it respects
  the priorities (\<open>picked\<close>), and the sub queues lose exactly that event; when it returns nothing,
  no sub queue has a due event, nothing changed, and the wake-up time it reports is the earliest
  handle time of all queued events (so the consumer neither oversleeps nor spins).
\<close>

theorem pick_event_correct:
  assumes "subs_inv subs" "\<forall>s \<in> set subs. times_ok s" "now < TimePoint_max"
    and "PickEventLocked now TimePoint_max subs = (ev, w, subs')"
  shows "case ev of
      Some e \<Rightarrow> (\<exists>i < 3. picked now subs i \<and> e = hd (sq_queue (subs ! i)) \<and> ev_handleTime e \<le> now \<and>
                map sq_queue subs' = (map sq_queue subs)[i := tl (sq_queue (subs ! i))])
    | None \<Rightarrow> subs' = subs \<and> (\<forall>s \<in> set subs. \<forall>e \<in> set (sq_queue s). now < ev_handleTime e) \<and>
              w = Min (front_time ` set subs)"
proof (cases ev)
  case None
  have len: "length subs = 3" using assms(1) by (simp add: subs_inv_def SUB_EVENT_QUEUE_NUM_def)
  note none = Pick_None [OF len assms(2,3) assms(4) [unfolded None]]
  have "now < ev_handleTime e" if "s \<in> set subs" "e \<in> set (sq_queue s)" for s e
  proof -
    have "now < front_time s" using none that(1) assms(2,3) not_due_time by blast
    also have "front_time s \<le> ev_handleTime e"
      using that assms(1) by (auto simp: subs_inv_def intro: front_time_le)
    finally show ?thesis .
  qed
  then show ?thesis using None none by auto
next
  case (Some e)
  have len: "length subs = 3" using assms(1) by (simp add: subs_inv_def SUB_EVENT_QUEUE_NUM_def)
  from Pick_Some [OF len assms(2,3) assms(4) [unfolded Some]] obtain i where i: "i < 3"
    "picked now subs i" "e = hd (sq_queue (subs ! i))"
    "map sq_queue subs' = (map sq_queue subs)[i := tl (sq_queue (subs ! i))]" by blast
  then have "ev_handleTime e \<le> now" using due_hd due_time by (metis picked_def)
  with i Some show ?thesis by auto
qed

section \<open>No starvation\<close>

text \<open>
  How often the quota still lets newer events of higher priority pass an older LOW event. Every
  delivery that passes it over decreases this number, which is at most 35.
\<close>

definition passes_left :: "sub_event_queue list \<Rightarrow> nat" where
  "passes_left subs =
     (5 - sq_handledEventsCount (subs ! 0)) + 6 * (5 - sq_handledEventsCount (subs ! 1))"

lemma passes_left_bound: "passes_left subs \<le> 35"
  by (simp add: passes_left_def)

lemma pass_over:
  assumes "subs_inv [a, b, c]" "\<forall>s \<in> set [a, b, c]. times_ok s"
    and "due now c" "front_time c < front_time a" "front_time c < front_time b"
    and "PickEventLocked now TimePoint_max [a, b, c] = (ev, w, subs')"
  shows "ev = Some (hd (sq_queue c)) \<or>
     ev \<noteq> None \<and> passes_left subs' < passes_left [a, b, c] \<and> sq_queue (subs' ! 2) = sq_queue c"
proof -
  have t: "times_ok a" "times_ok b" "times_ok c" using assms(2) by auto
  have q: "sq_handledEventsCount a \<le> 5" "sq_handledEventsCount b \<le> 5"
    "quota_left a \<longleftrightarrow> sq_handledEventsCount a < 5" "quota_left b \<longleftrightarrow> sq_handledEventsCount b < 5"
    using assms(1) by (auto simp: subs_inv_three sub_inv_def quota_left_def DEFAULT_MAX_HANDLED_EVENT_COUNT_def)
  show ?thesis
    using assms(3-6) q unfolding Pick_three [OF t]
    by (auto simp: pick_spec_def Let_def passes_left_def numeral_2_eq_2 split: if_splits)
qed

definition low_only :: "sub_event_queue list" where
  "low_only = [new_SubEventQueue, new_SubEventQueue,
     new_SubEventQueue\<lparr>sq_queue := [new_InnerEvent\<lparr>ev_handleTime := 5\<rparr>]\<rparr>]"

lemma low_only_ok: "subs_inv low_only" "\<forall>s \<in> set low_only. times_ok s"
  by (auto simp: low_only_def subs_inv_def sub_inv_def SUB_EVENT_QUEUE_NUM_def new_SubEventQueue_def
      times_ok_def front_time_def front_def TimePoint_max_def INT64_MAX_def)

theorem pick_event_correct_witness:
  "\<exists>w subs'. PickEventLocked 3 TimePoint_max low_only = (None, w, subs') \<and> subs' = low_only \<and>
     w = Min (front_time ` set low_only)"
proof -
  obtain w subs' where p: "PickEventLocked 3 TimePoint_max low_only = (None, w, subs')"
    by (simp add: PickEventLocked_def low_only_def SUB_EVENT_QUEUE_NUM_def upt_three
        CheckEventInListLocked_def new_SubEventQueue_def TimePoint_max_def INT64_MAX_def numeral_2_eq_2)
  from pick_event_correct [OF low_only_ok _ p] show ?thesis
    using p by (simp add: TimePoint_max_def INT64_MAX_def)
qed

end
