(* ===== verification/Event_Queue_Correct.thy ===== *)
theory Event_Queue_Correct
  imports Event_Queue_Pick
begin

text \<open>
  The invariant of the event queue, that every operation keeps it, and the behaviour of the
  operations on top of it: which events are delivered and removed, idle events, descriptors.
\<close>

section \<open>Listeners and the kernel's interest list\<close>

definition keys :: "('k \<times> 'v) list \<Rightarrow> 'k set" where
  "keys m = fst ` set m"

definition fd_inv :: "io_waiter \<Rightarrow> int set \<Rightarrow> bool" where
  "fd_inv w K = (case w of
      NoneIoWaiter _ \<Rightarrow> K = {}
    | EpollIoWaiter e \<Rightarrow> 0 \<le> ep_epollFd e \<and> 0 \<le> ep_awakenFd e \<and> ep_awakenFd e \<notin> K \<and>
        (\<forall>fd \<in> K. 0 \<le> fd) \<and> keys (ep_interest e) = insert (ep_awakenFd e) K)"

lemma keys_simps [simp]:
  "keys [] = {}" "keys ((k, v) # m) = insert k (keys m)" "keys (sm_assign k v m) = insert k (keys m)"
  "keys (sm_erase k m) = keys m - {k}"
  by (auto simp: keys_def sm_erase_def)

lemma keys_emplace [simp]: "map_of m k = None \<Longrightarrow> keys (sm_emplace k v m) = insert k (keys m)"
  by (simp add: sm_emplace_def)

lemma map_of_None_keys: "map_of m k = None \<longleftrightarrow> k \<notin> keys m"
  by (simp add: keys_def map_of_eq_None_iff)

lemma fd_inv_NotifyAll [simp]: "fd_inv (NotifyAll w) K = fd_inv w K"
  by (auto simp: fd_inv_def NotifyAll_def Epoll_NotifyAll_def split: io_waiter.splits)

lemma fd_inv_Add:
  "fd_inv w K \<Longrightarrow> AddFileDescriptor accepts fd events w = (True, w') \<Longrightarrow> fd_inv w' (insert fd K)"
  by (auto simp: fd_inv_def AddFileDescriptor_def epoll_ctl_add_def map_of_None_keys
      split: io_waiter.splits if_splits)

lemma fd_inv_Add_fail: "AddFileDescriptor accepts fd events w = (False, w') \<Longrightarrow> w' = w"
  by (auto simp: AddFileDescriptor_def split: io_waiter.splits if_splits option.splits)

lemma fd_inv_Remove: "fd_inv w K \<Longrightarrow> fd \<in> K \<Longrightarrow> fd_inv (RemoveFileDescriptor fd w) (K - {fd})"
  by (auto simp: fd_inv_def RemoveFileDescriptor_def epoll_ctl_del_def map_of_None_keys
      split: io_waiter.splits option.splits)

lemma fd_inv_Remove_all:
  "fd_inv w K \<Longrightarrow> set fds \<subseteq> K \<Longrightarrow> distinct fds \<Longrightarrow>
     fd_inv (fold RemoveFileDescriptor fds w) (K - set fds)"
proof (induction fds arbitrary: w K)
  case (Cons fd fds)
  have "fd_inv (fold RemoveFileDescriptor fds (RemoveFileDescriptor fd w)) (K - {fd} - set fds)"
    using Cons.prems by (intro Cons.IH fd_inv_Remove) auto
  moreover have "K - set (fd # fds) = K - {fd} - set fds" by auto
  ultimately show ?case by simp
qed simp

lemma fd_inv_Ensure:
  "EnsureIoWaiterSupportListening os q = (ok, old, q') \<Longrightarrow> fd_inv (q_ioWaiter q) (keys (q_listeners q)) \<Longrightarrow>
     fd_inv (q_ioWaiter q') (keys (q_listeners q')) \<and> q_listeners q' = q_listeners q"
  by (auto simp: EnsureIoWaiterSupportListening_def SupportListeningFileDescriptor_def
      SetFileDescriptorEventCallback_def Epoll_Init_def new_EpollIoWaiter_def fd_inv_def
      split: io_waiter.splits if_splits)

lemma Ensure_frame:
  "EnsureIoWaiterSupportListening os q = (ok, old, q') \<Longrightarrow>
     q_subEventQueues q' = q_subEventQueues q \<and> q_idleEvents q' = q_idleEvents q \<and>
     q_wakeUpTime q' = q_wakeUpTime q \<and> q_finished q' = q_finished q"
  by (auto simp: EnsureIoWaiterSupportListening_def split: if_splits prod.splits)

section \<open>The invariant\<close>

definition queue_inv :: "event_queue \<Rightarrow> bool" where
  "queue_inv q \<longleftrightarrow> subs_inv (q_subEventQueues q) \<and>
     (\<forall>s \<in> set (q_subEventQueues q). \<forall>e \<in> set (sq_queue s). ev_handleTime e < TimePoint_max) \<and>
     sorted (map ev_handleTime (q_idleEvents q)) \<and>
     sm_inv (q_listeners q) \<and> fd_inv (q_ioWaiter q) (keys (q_listeners q))"

text \<open>The waiter a queue may be constructed with: any waiter with no descriptor yet.\<close>

definition fresh_waiter :: "io_waiter option \<Rightarrow> bool" where
  "fresh_waiter w = (case w of None \<Rightarrow> True | Some w' \<Rightarrow> fd_inv w' {})"

inductive queue_step :: "event_queue \<Rightarrow> event_queue \<Rightarrow> bool" where
  insert: "ev_handleTime e < TimePoint_max \<Longrightarrow> queue_step q (Insert (Some e) p q)"
| remove: "queue_step q (Remove flt q)"
| orphan: "queue_step q (RemoveOrphan alive q)"
| get: "now < TimePoint_max \<Longrightarrow> GetExpiredEventLocked now nx q = (ev, nx', q') \<Longrightarrow> queue_step q q'"
| add_fd: "AddFileDescriptorListener os fd events l q = (err, q') \<Longrightarrow> queue_step q q'"
| remove_fd: "queue_step q (RemoveFileDescriptorListener fd q)"
| remove_fd_owner: "queue_step q (RemoveFileDescriptorListener_owner alive h q)"
| prepare: "queue_step q (Prepare q)"
| finish: "queue_step q (Finish q)"
| block: "WaitFor_enter (q_ioWaiter q) = Some w \<Longrightarrow> queue_step q (q\<lparr>q_ioWaiter := w\<rparr>)"
| wake: "queue_step q (WaitUntil_done ok (q\<lparr>q_ioWaiter := WaitFor_leave (q_ioWaiter q)\<rparr>))"

inductive queue_reachable :: "event_queue \<Rightarrow> bool" where
  start: "fresh_waiter w \<Longrightarrow> queue_reachable (new_EventQueue now w)"
| step: "queue_reachable q \<Longrightarrow> queue_step q q' \<Longrightarrow> queue_reachable q'"

inductive_cases queue_step_cases: "queue_step q q'"

lemma times_okI: "(\<forall>e \<in> set (sq_queue s). ev_handleTime e < TimePoint_max) \<Longrightarrow> times_ok s"
  by (cases "sq_queue s") (auto simp: times_ok_def front_time_def front_def)

lemma queue_inv_times: "queue_inv q \<Longrightarrow> \<forall>s \<in> set (q_subEventQueues q). times_ok s"
  by (simp add: queue_inv_def times_okI)

lemma queue_inv_three:
  "queue_inv q \<Longrightarrow> \<exists>a b c. q_subEventQueues q = [a, b, c] \<and> sub_inv a \<and> sub_inv b \<and> sub_inv c"
  by (simp add: queue_inv_def subs_inv_cases)

lemma sub_inv_insert:
  "sub_inv s \<Longrightarrow> sub_inv (s\<lparr>sq_queue := InsertEventsLocked (sq_queue s) e\<rparr>)"
  by (simp add: sub_inv_def evl.sorted_ins)

lemma set_InsertEvents:
  "sorted (map ev_handleTime xs) \<Longrightarrow> set (InsertEventsLocked xs e) = insert e (set xs)"
  by (rule evl.set_ins)

lemma upd_queue_frame [simp]:
  "q_idleEvents (upd_queue i f q) = q_idleEvents q" "q_listeners (upd_queue i f q) = q_listeners q"
  "q_ioWaiter (upd_queue i f q) = q_ioWaiter q" "q_wakeUpTime (upd_queue i f q) = q_wakeUpTime q"
  "q_finished (upd_queue i f q) = q_finished q" "q_isIdle (upd_queue i f q) = q_isIdle q"
  "q_idleTimeStamp (upd_queue i f q) = q_idleTimeStamp q"
  by (simp_all add: upd_queue_def)

lemma Insert_subs:
  "q_subEventQueues (Insert (Some e) p q) =
     (if p = IDLE then q_subEventQueues q
      else q_subEventQueues (upd_queue (priority_index p) (\<lambda>xs. InsertEventsLocked xs e) q))"
  by (cases p) (simp_all add: Insert_def)

lemma Insert_three:
  assumes "q_subEventQueues q = [a, b, c]"
  shows "q_subEventQueues (Insert (Some e) p q) =
    (case p of IMMEDIATE \<Rightarrow> [a\<lparr>sq_queue := InsertEventsLocked (sq_queue a) e\<rparr>, b, c]
             | HIGH \<Rightarrow> [a, b\<lparr>sq_queue := InsertEventsLocked (sq_queue b) e\<rparr>, c]
             | LOW \<Rightarrow> [a, b, c\<lparr>sq_queue := InsertEventsLocked (sq_queue c) e\<rparr>]
             | IDLE \<Rightarrow> [a, b, c])"
  using assms by (cases p) (simp_all add: Insert_subs upd_queue_def numeral_2_eq_2)

lemma Insert_frame [simp]:
  "q_listeners (Insert ev p q) = q_listeners q" "q_wakeUpTime (Insert ev p q) = q_wakeUpTime q"
  "q_finished (Insert ev p q) = q_finished q"
  "q_idleEvents (Insert (Some e) p q) =
     (if p = IDLE then InsertEventsLocked (q_idleEvents q) e else q_idleEvents q)"
  "q_ioWaiter (Insert (Some e) p q) =
     (if p \<noteq> IDLE \<and> ev_handleTime e < q_wakeUpTime q then NotifyAll (q_ioWaiter q) else q_ioWaiter q)"
  by (cases p; cases ev; simp add: Insert_def NotifyOne_eq_NotifyAll)+

lemma Insert_inv [queue_inv_intros]:
  assumes "queue_inv q" "ev_handleTime e < TimePoint_max"
  shows "queue_inv (Insert (Some e) p q)"
proof -
  obtain a b c where abc: "q_subEventQueues q = [a, b, c]" "sub_inv a" "sub_inv b" "sub_inv c"
    using queue_inv_three [OF assms(1)] by blast
  have sorted: "sorted (map ev_handleTime (sq_queue a))" "sorted (map ev_handleTime (sq_queue b))"
    "sorted (map ev_handleTime (sq_queue c))" using abc by (auto simp: sub_inv_def)
  show ?thesis
    using assms abc
    by (cases p) (auto simp: queue_inv_def Insert_three subs_inv_three sub_inv_insert
        set_InsertEvents sorted evl.sorted_ins)
qed

lemma Remove_inv [queue_inv_intros]: "queue_inv q \<Longrightarrow> queue_inv (Remove flt q)"
  by (auto simp: queue_inv_def Remove_def subs_inv_def sub_inv_def sorted_filter)

lemma keys_filter:
  "sm_inv m \<Longrightarrow> keys (filter (\<lambda>(k, v). \<not> P v) m) = keys m - set (map fst (filter (\<lambda>(k, v). P v) m))"
  by (force simp: keys_def dest: sm_inv_distinct eq_key_imp_eq_value)

lemma RemoveFdLocked_inv [queue_inv_intros]:
  assumes "queue_inv q"
  shows "queue_inv (RemoveFileDescriptorListenerLocked flt q)"
proof -
  let ?fds = "map fst (filter (\<lambda>(fd, l). flt l) (q_listeners q))"
  have m: "sm_inv (q_listeners q)" using assms by (simp add: queue_inv_def)
  have "fd_inv (fold RemoveFileDescriptor ?fds (q_ioWaiter q)) (keys (q_listeners q) - set ?fds)"
    by (rule fd_inv_Remove_all)
      (use assms sm_inv_distinct [OF sm_inv_filter [OF m]] in \<open>auto simp: queue_inv_def keys_def\<close>)
  then show ?thesis
    using assms by (simp add: queue_inv_def RemoveFileDescriptorListenerLocked_def keys_filter)
qed

lemma RemoveFd_inv [queue_inv_intros]: "queue_inv q \<Longrightarrow> queue_inv (RemoveFileDescriptorListener fd q)"
  using fd_inv_Remove [of "q_ioWaiter q" "keys (q_listeners q)" fd]
  by (auto simp: queue_inv_def RemoveFileDescriptorListener_def map_of_None_keys)

lemma GetExpired_inv [queue_inv_intros]:
  assumes "queue_inv q" "now < TimePoint_max" "GetExpiredEventLocked now nx q = (ev, nx', q')"
  shows "queue_inv q'"
proof -
  obtain pe w subs where pick: "PickEventLocked now TimePoint_max (q_subEventQueues q) = (pe, w, subs)"
    by (cases "PickEventLocked now TimePoint_max (q_subEventQueues q)")
  have inv: "subs_inv (q_subEventQueues q)" and t: "\<forall>s \<in> set (q_subEventQueues q). times_ok s"
    using assms(1) by (simp_all add: queue_inv_def queue_inv_times)
  have len: "length (q_subEventQueues q) = 3"
    using inv by (simp add: subs_inv_def SUB_EVENT_QUEUE_NUM_def)
  have si: "subs_inv subs" by (rule Pick_subs_inv [OF inv t pick])
  have times: "\<forall>s \<in> set subs. \<forall>e \<in> set (sq_queue s). ev_handleTime e < TimePoint_max"
  proof (cases pe)
    case None
    then show ?thesis
      using Pick_None [OF len t assms(2) pick [unfolded None]] assms(1) by (simp add: queue_inv_def)
  next
    case (Some e)
    from Pick_Some [OF len t assms(2) pick [unfolded Some]] obtain i where
      i: "i < 3" "map sq_queue subs = (map sq_queue (q_subEventQueues q))
            [i := tl (sq_queue (q_subEventQueues q ! i))]" by blast
    have "set (map sq_queue subs) \<subseteq>
        insert (tl (sq_queue (q_subEventQueues q ! i))) (set (map sq_queue (q_subEventQueues q)))"
      unfolding i(2) by (rule set_update_subset_insert)
    moreover have "q_subEventQueues q ! i \<in> set (q_subEventQueues q)" using i(1) len by simp
    ultimately have "\<exists>s' \<in> set (q_subEventQueues q). set (sq_queue s) \<subseteq> set (sq_queue s')"
      if "s \<in> set subs" for s
      using that set_tl_subset by fastforce
    then show ?thesis using assms(1) unfolding queue_inv_def by blast
  qed
  have idle: "sorted (map ev_handleTime (tl (q_idleEvents q)))"
    using assms(1) by (cases "q_idleEvents q") (auto simp: queue_inv_def)
  show ?thesis
    using assms(1,3) si times idle unfolding GetExpiredEventLocked_def pick
    by (auto simp: queue_inv_def Let_def split: option.splits list.splits if_splits)
qed

lemma AddFd_inv [queue_inv_intros]:
  assumes "queue_inv q" "AddFileDescriptorListener os fd events l q = (err, q')"
  shows "queue_inv q'"
proof -
  obtain ok old q1 where e: "EnsureIoWaiterSupportListening os q = (ok, old, q1)"
    by (cases "EnsureIoWaiterSupportListening os q")
  have q1: "queue_inv q1" "q_listeners q1 = q_listeners q"
    using assms(1) fd_inv_Ensure [OF e] Ensure_frame [OF e] by (auto simp: queue_inv_def)
  then show ?thesis
    using assms e unfolding AddFileDescriptorListener_def
    by (auto simp: queue_inv_def dest: fd_inv_Add fd_inv_Add_fail split: option.splits if_splits prod.splits)
qed

lemma Prepare_inv [queue_inv_intros]: "queue_inv q \<Longrightarrow> queue_inv (Prepare q)"
  by (simp add: queue_inv_def Prepare_def)

lemma Finish_inv [queue_inv_intros]: "queue_inv q \<Longrightarrow> queue_inv (Finish q)"
  by (simp add: queue_inv_def Finish_def)

lemma WaitUntil_inv [queue_inv_intros]: "queue_inv q \<Longrightarrow> queue_inv (WaitUntil_done ok q)"
  by (simp add: queue_inv_def WaitUntil_done_def new_NoneIoWaiter_def fd_inv_def)

lemma queue_step_inv:
  assumes "queue_step q q'" "queue_inv q"
  shows "queue_inv q'"
  using assms
proof cases
  case (block w)
  then show ?thesis using assms(2)
    by (auto simp: queue_inv_def WaitFor_enter_def fd_inv_def split: io_waiter.splits if_splits)
next
  case (wake ok)
  have "queue_inv (q\<lparr>q_ioWaiter := WaitFor_leave (q_ioWaiter q)\<rparr>)"
    using assms(2) by (auto simp: queue_inv_def WaitFor_leave_def fd_inv_def split: io_waiter.splits)
  then show ?thesis using wake by (simp add: WaitUntil_inv)
qed (auto simp: RemoveOrphan_def RemoveFileDescriptorListener_owner_def split: option.splits
      intro: queue_inv_intros)

lemma new_EventQueue_inv: "fresh_waiter w \<Longrightarrow> queue_inv (new_EventQueue now w)"
  by (auto simp: queue_inv_def new_EventQueue_def fresh_waiter_def subs_inv_def sub_inv_def fd_inv_def
      new_SubEventQueue_def new_NoneIoWaiter_def SUB_EVENT_QUEUE_NUM_def
      SupportListeningFileDescriptor_def SetFileDescriptorEventCallback_def
      split: option.splits io_waiter.splits)

lemma queue_reachable_inv: "queue_reachable q \<Longrightarrow> queue_inv q"
  by (induction rule: queue_reachable.induct) (auto simp: new_EventQueue_inv queue_step_inv)

text \<open>
  C7: In every reachable state of an event queue, whatever the sequence of operations, the three
  sub queues and the idle list are sorted by handle time, the handled counts stay within the quota
  of five, and the descriptors registered with epoll are exactly those that have a listener (plus
  the waiter's own event descriptor).
\<close>

theorem queue_reachable_invariant: "queue_reachable q \<Longrightarrow> queue_inv q"
  by (rule queue_reachable_inv)

definition sample_event :: "u32 \<Rightarrow> time_point \<Rightarrow> inner_event" where
  "sample_event i t = new_InnerEvent\<lparr>ev_owner := Some 1, ev_innerEventId := i, ev_handleTime := t\<rparr>"

lemma TimePoint_max_large [simp]: "numeral n < TimePoint_max \<longleftrightarrow> numeral n < (9223372036854775807 :: int)"
  "0 < TimePoint_max" "1 < TimePoint_max"
  by (simp_all add: TimePoint_max_def INT64_MAX_def)

lemma sample_event_time [simp]: "ev_handleTime (sample_event i t) = t"
  by (simp add: sample_event_def)

definition sample_queue :: event_queue where
  "sample_queue = Insert (Some (sample_event 7 20)) HIGH
     (Insert (Some (sample_event 8 10)) LOW (Prepare (new_EventQueue 0 None)))"

lemma sample_queue_reachable: "queue_reachable sample_queue"
  unfolding sample_queue_def
  by (intro queue_reachable.step [OF _ queue_step.insert] queue_reachable.step [OF _ queue_step.prepare]
      queue_reachable.start) (simp_all add: fresh_waiter_def)

theorem queue_reachable_invariant_witness: "queue_reachable sample_queue \<and> queue_inv sample_queue"
  using queue_reachable_invariant [OF sample_queue_reachable] sample_queue_reachable by simp

section \<open>Delivery\<close>

definition all_events :: "event_queue \<Rightarrow> inner_event list" where
  "all_events q = concat (map sq_queue (q_subEventQueues q)) @ q_idleEvents q"








lemma sample_queue_inv: "queue_inv sample_queue"
  using queue_reachable_inv sample_queue_reachable by simp

lemmas queue_eval = sample_queue_def Insert_def InsertEventsLocked_def upper_bound.simps upd_queue_def
  new_EventQueue_def Prepare_def new_SubEventQueue_def SUB_EVENT_QUEUE_NUM_def
  DEFAULT_MAX_HANDLED_EVENT_COUNT_def GetExpiredEvent_def GetExpiredEventLocked_def PickEventLocked_def
  CheckEventInListLocked_def upt_three reset_counts_def numeral_2_eq_2 numeral_3_eq_3 TimePoint_max_def
  INT64_MAX_def new_NoneIoWaiter_def NotifyOne_def None_Notify_def



section \<open>No starvation of LOW events\<close>

text \<open>
  A run of the consumer: in each round other threads first send some events, then the consumer
  takes the next event. The result is what it took in each round.
\<close>

fun deliver_rounds ::
  "(time_point \<times> (inner_event \<times> priority) list) list \<Rightarrow> event_queue \<Rightarrow> inner_event option list" where
  "deliver_rounds [] q = []"
| "deliver_rounds ((now, sent) # rounds) q =
     (case GetExpiredEventLocked now TimePoint_max
             (foldl (\<lambda>q (e, p). Insert (Some e) p q) q sent) of
        (ev, _, q') \<Rightarrow> ev # deliver_rounds rounds q')"

text \<open>Event \<open>e\<close> is first in the LOW queue and older than everything in the other two.\<close>

definition low_waiting :: "inner_event \<Rightarrow> event_queue \<Rightarrow> bool" where
  "low_waiting e q \<longleftrightarrow>
     (\<exists>a b c es. q_subEventQueues q = [a, b, c] \<and> sq_queue c = e # es \<and>
        ev_handleTime e < front_time a \<and> ev_handleTime e < front_time b)"

lemma front_time_insert:
  assumes "sorted (map ev_handleTime (sq_queue s))" "ev_handleTime x \<le> TimePoint_max"
  shows "front_time (s\<lparr>sq_queue := InsertEventsLocked (sq_queue s) x\<rparr>) = min (front_time s) (ev_handleTime x)"
proof (cases "sq_queue s")
  case Nil
  then show ?thesis
    using assms by (simp add: front_time_def front_def evl.ins_spec min_def)
next
  case (Cons y ys)
  then show ?thesis
    using assms(1) by (auto simp: front_time_def front_def evl.ins_spec min_def)
qed

lemma low_waiting_Insert:
  assumes "queue_inv q" "low_waiting e q" "ev_handleTime e < ev_handleTime x" "ev_handleTime x < TimePoint_max"
  shows "low_waiting e (Insert (Some x) p q)"
proof -
  obtain a b c es where abc: "q_subEventQueues q = [a, b, c]" "sq_queue c = e # es"
    "ev_handleTime e < front_time a" "ev_handleTime e < front_time b"
    using assms(2) by (auto simp: low_waiting_def)
  have sorted: "sorted (map ev_handleTime (sq_queue a))" "sorted (map ev_handleTime (sq_queue b))"
    "sorted (map ev_handleTime (sq_queue c))"
    using assms(1) abc(1) by (auto simp: queue_inv_def subs_inv_three sub_inv_def)
  show ?thesis
  proof (cases p)
    case LOW
    have "\<exists>es'. InsertEventsLocked (e # es) x = e # es'"
      using evl.ins_spec [of "e # es" x] sorted(3) abc(2) assms(3) by simp
    with LOW abc show ?thesis by (auto simp: low_waiting_def Insert_three [OF abc(1)])
  qed (use abc assms sorted in \<open>auto simp: low_waiting_def Insert_three [OF abc(1)] front_time_insert\<close>)
qed

definition passes :: "event_queue \<Rightarrow> nat" where
  "passes q = passes_left (q_subEventQueues q)"

lemma passes_Insert: "queue_inv q \<Longrightarrow> passes (Insert (Some x) p q) = passes q"
  using queue_inv_three [of q] by (auto simp: passes_def passes_left_def Insert_three split: priority.splits)

lemma Insert_all:
  assumes "queue_inv q" "low_waiting e q"
    and "\<forall>(x, p) \<in> set sent. ev_handleTime e < ev_handleTime x \<and> ev_handleTime x < TimePoint_max"
  shows "let q' = foldl (\<lambda>q (x, p). Insert (Some x) p q) q sent
         in queue_inv q' \<and> low_waiting e q' \<and> passes q' = passes q"
  using assms
proof (induction sent arbitrary: q)
  case (Cons xp sent)
  obtain x p where xp: "xp = (x, p)" by (cases xp)
  have "queue_inv (Insert (Some x) p q)" "low_waiting e (Insert (Some x) p q)"
    "passes (Insert (Some x) p q) = passes q"
    using Cons.prems by (auto simp: xp intro: Insert_inv low_waiting_Insert passes_Insert)
  with Cons.IH [of "Insert (Some x) p q"] Cons.prems(3) show ?case by (simp add: xp)
qed (simp add: Let_def)

lemma front_time_cong: "sq_queue s' = sq_queue s \<Longrightarrow> front_time s' = front_time s"
  by (simp add: front_time_def front_def)

lemma later_front:
  assumes "sub_inv s" "t < front_time s" "front_time s \<le> TimePoint_max" "sq_queue s' = tl (sq_queue s)"
  shows "t < front_time s'"
proof (cases "sq_queue s'")
  case Nil
  then show ?thesis using assms by (simp add: front_time_def front_def)
next
  case (Cons x xs)
  with assms(4) obtain y where "sq_queue s = y # x # xs" by (cases "sq_queue s") auto
  with assms Cons show ?thesis by (auto simp: sub_inv_def front_time_def front_def)
qed

lemma GetExpired_pass:
  assumes "queue_inv q" "low_waiting e q" "ev_handleTime e \<le> now" "now < TimePoint_max"
    and "GetExpiredEventLocked now nx q = (ev, nx', q')"
  shows "ev = Some e \<or> (passes q' < passes q \<and> low_waiting e q')"
proof -
  obtain a b c es where abc: "q_subEventQueues q = [a, b, c]" "sq_queue c = e # es"
    "ev_handleTime e < front_time a" "ev_handleTime e < front_time b"
    using assms(2) by (auto simp: low_waiting_def)
  have t: "\<forall>s \<in> set [a, b, c]. times_ok s" using queue_inv_times [OF assms(1)] abc(1) by simp
  have inv: "subs_inv [a, b, c]" using assms(1) abc(1) by (simp add: queue_inv_def)
  have c: "due now c" "front_time c = ev_handleTime e"
    using abc(2) assms(3) by (auto simp: due_def front_time_def front_def)
  obtain pe w subs where pick: "PickEventLocked now TimePoint_max [a, b, c] = (pe, w, subs)"
    by (cases "PickEventLocked now TimePoint_max [a, b, c]")
  have over: "pe = Some e \<or> pe \<noteq> None \<and> passes_left subs < passes_left [a, b, c] \<and> sq_queue (subs ! 2) = sq_queue c"
    using pass_over [OF inv t c(1) _ _ pick] c(2) abc by simp
  show ?thesis
  proof (cases "pe = Some e")
    case True
    then show ?thesis
      using assms(5) unfolding GetExpiredEventLocked_def abc(1) pick by (auto simp: Let_def)
  next
    case False
    with over obtain x where x: "pe = Some x" by auto
    have q': "q_subEventQueues q' = subs"
      using assms(5) unfolding GetExpiredEventLocked_def abc(1) pick x by (auto simp: Let_def)
    have si: "subs_inv subs" by (rule Pick_subs_inv [OF inv t pick])
    then obtain a' b' c' where s: "subs = [a', b', c']" using subs_inv_cases by blast
    from Pick_Some [OF _ t assms(4) pick [unfolded x]] obtain i where
      i: "i < 3" "map sq_queue subs = (map sq_queue [a, b, c])[i := tl (sq_queue ([a, b, c] ! i))]"
      by auto
    have ft: "front_time a \<le> TimePoint_max" "front_time b \<le> TimePoint_max"
      using t by (auto simp: times_ok_def)
    have sub: "sub_inv a" "sub_inv b" using inv by (simp_all add: subs_inv_three)
    consider "i = 0" | "i = 1" | "i = 2" using i(1) by linarith
    then have "ev_handleTime e < front_time a' \<and> ev_handleTime e < front_time b'"
      using i(2) abc later_front [OF sub(1) abc(3) ft(1), of a'] later_front [OF sub(2) abc(4) ft(2), of b']
        front_time_cong [of a' a] front_time_cong [of b' b]
      by cases (simp_all add: s numeral_2_eq_2)
    moreover have "sq_queue c' = e # es" using over False abc(2) by (simp add: s)
    ultimately have "low_waiting e q'" unfolding low_waiting_def using q' s by blast
    moreover have "passes q' < passes q" using over False q' abc(1) by (simp add: passes_def)
    ultimately show ?thesis by blast
  qed
qed

text \<open>
  C3: No starvation: a LOW event that is due and older than every other event in the queue is
  delivered within 36 deliveries, no matter how many newer events of any priority keep arriving.
\<close>

theorem low_event_not_starved:
  assumes "queue_inv q" "low_waiting e q" "36 \<le> length rounds"
    and "\<forall>(now, sent) \<in> set rounds. ev_handleTime e \<le> now \<and> now < TimePoint_max \<and>
       (\<forall>(x, p) \<in> set sent. ev_handleTime e < ev_handleTime x \<and> ev_handleTime x < TimePoint_max)"
  shows "Some e \<in> set (deliver_rounds rounds q)"
proof -
  have "Some e \<in> set (deliver_rounds rounds q)" if "passes q < length rounds"
    using assms(1,2,4) that
  proof (induction rounds arbitrary: q)
    case (Cons r rounds)
    obtain now sent where r: "r = (now, sent)" by (cases r)
    define q1 where "q1 = foldl (\<lambda>q (x, p). Insert (Some x) p q) q sent"
    have q1: "queue_inv q1" "low_waiting e q1" "passes q1 = passes q"
      using Insert_all [OF Cons.prems(1,2), of sent] Cons.prems(3) by (auto simp: r q1_def Let_def)
    obtain ev nx q2 where get: "GetExpiredEventLocked now TimePoint_max q1 = (ev, nx, q2)"
      by (cases "GetExpiredEventLocked now TimePoint_max q1")
    have now: "ev_handleTime e \<le> now" "now < TimePoint_max" using Cons.prems(3) by (auto simp: r)
    have "Some e \<in> set (deliver_rounds rounds q2)" if "ev \<noteq> Some e"
    proof (rule Cons.IH)
      show "queue_inv q2" by (rule GetExpired_inv [OF q1(1) now(2) get])
      show "low_waiting e q2" "passes q2 < length rounds"
        using GetExpired_pass [OF q1(1,2) now get] that q1(3) Cons.prems(4) by auto
      show "\<forall>(now, sent) \<in> set rounds. ev_handleTime e \<le> now \<and> now < TimePoint_max \<and>
          (\<forall>(x, p) \<in> set sent. ev_handleTime e < ev_handleTime x \<and> ev_handleTime x < TimePoint_max)"
        using Cons.prems(3) by auto
    qed
    then show ?case using get by (auto simp: r q1_def [symmetric])
  qed simp
  moreover have "passes q \<le> 35" by (simp add: passes_def passes_left_bound)
  ultimately show ?thesis using assms(3) by simp
qed

text \<open>The witness: a LOW event of time 10, and an IMMEDIATE event of time 20 arriving in each round.\<close>

definition busy_rounds :: "(time_point \<times> (inner_event \<times> priority) list) list" where
  "busy_rounds = replicate 36 (30, [(sample_event 1 20, IMMEDIATE)])"

lemma sample_queue_subs:
  "\<exists>a b c. q_subEventQueues sample_queue = [a, b, c] \<and> sq_queue a = [] \<and>
     sq_queue b = [sample_event 7 20] \<and> sq_queue c = [sample_event 8 10]"
  by (simp add: queue_eval)

lemma sample_queue_low_waiting: "low_waiting (sample_event 8 10) sample_queue"
  using sample_queue_subs by (auto simp: low_waiting_def front_time_def front_def)

theorem low_event_not_starved_witness:
  "Some (sample_event 8 10) \<in> set (deliver_rounds busy_rounds sample_queue)"
  by (rule low_event_not_starved [OF sample_queue_inv sample_queue_low_waiting])
    (auto simp: busy_rounds_def)

section \<open>Removing and searching\<close>

lemma all_events_Remove: "all_events (Remove flt q) = filter (\<lambda>e. \<not> flt e) (all_events q)"
  by (simp add: all_events_def Remove_def filter_concat comp_def)




text \<open>
  \<open>RemoveOrphan\<close> leaves exactly the events and the descriptor listeners whose handler still
  exists, in their order, and unregisters the removed descriptors from the waiter.
\<close>

theorem remove_orphan_exact:
  assumes "queue_inv q"
  shows "all_events (RemoveOrphan alive q) = filter (\<lambda>e. GetOwner alive e \<noteq> None) (all_events q) \<and>
    q_listeners (RemoveOrphan alive q) = filter (\<lambda>(fd, l). lock alive (fl_owner l) \<noteq> None) (q_listeners q) \<and>
    queue_inv (RemoveOrphan alive q)"
proof -
  have same: "all_events (RemoveFileDescriptorListenerLocked flt q') = all_events q'" for flt q'
    by (simp add: all_events_def RemoveFileDescriptorListenerLocked_def)
  have "queue_inv (RemoveOrphan alive q)"
    using assms by (simp add: RemoveOrphan_def RemoveFdLocked_inv Remove_inv)
  moreover have "q_listeners (RemoveOrphan alive q)
      = filter (\<lambda>(fd, l). lock alive (fl_owner l) \<noteq> None) (q_listeners q)"
    by (simp add: RemoveOrphan_def RemoveFileDescriptorListenerLocked_def Remove_def)
  ultimately show ?thesis by (simp add: RemoveOrphan_def same all_events_Remove)
qed

theorem remove_orphan_exact_witness:
  "queue_inv sample_queue \<and>
   all_events (RemoveOrphan (\<lambda>h. h \<noteq> 1) sample_queue)
     = filter (\<lambda>e. GetOwner (\<lambda>h. h \<noteq> 1) e \<noteq> None) (all_events sample_queue)"
  using remove_orphan_exact [OF sample_queue_inv, of "\<lambda>h. h \<noteq> 1"] sample_queue_inv by simp

section \<open>Descriptor listeners\<close>

text \<open>
  \<open>AddFileDescriptorListener\<close> succeeds exactly when its parameters are valid, the descriptor
  has no listener yet, an epoll waiter exists or can be created, and the kernel accepts the
  descriptor; on success exactly this listener is added and the descriptor is registered, on every
  error the listeners are unchanged, and the queued events never change.
\<close>

theorem add_fd_listener_correct:
  assumes "queue_inv q" "AddFileDescriptorListener os fd events (Some l) q = (err, q')"
  shows "(err = EVENT_HANDLER_ERR_INVALID_PARAM \<longleftrightarrow> fd < 0 \<or> events AND FILE_DESCRIPTOR_EVENTS_MASK = 0) \<and>
    (err = EVENT_HANDLER_ERR_FD_ALREADY \<longrightarrow> fd \<in> keys (q_listeners q)) \<and>
    (if err = ERR_OK
     then fd \<notin> keys (q_listeners q) \<and> map_of (q_listeners q') = (map_of (q_listeners q))(fd \<mapsto> l) \<and>
          fd \<in> keys (interest (q_ioWaiter q'))
     else q_listeners q' = q_listeners q) \<and>
    all_events q' = all_events q"
proof -
  obtain ok old q1 where e: "EnsureIoWaiterSupportListening os q = (ok, old, q1)"
    by (cases "EnsureIoWaiterSupportListening os q")
  have q1: "q_listeners q1 = q_listeners q" "all_events q1 = all_events q"
    using assms(1) fd_inv_Ensure [OF e] Ensure_frame [OF e] by (auto simp: queue_inv_def all_events_def)
  have reg: "fd \<in> keys (interest w')" if "AddFileDescriptor accepts fd events w = (True, w')" for accepts w w'
    using that by (auto simp: AddFileDescriptor_def epoll_ctl_add_def interest_def
        split: io_waiter.splits if_splits)
  have emp: "map_of (sm_emplace fd l (q_listeners q)) = (map_of (q_listeners q))(fd \<mapsto> l)"
    if "fd \<notin> keys (q_listeners q)"
    using that by (simp add: sm_emplace_def map_of_None_keys [symmetric])
  show ?thesis
    using assms(2) e q1 reg emp unfolding AddFileDescriptorListener_def
    by (auto simp: map_of_None_keys all_events_def simp del: map_of_sm_emplace
        dest: fd_inv_Add_fail split: if_splits prod.splits)
qed

definition sample_os :: os_answers where
  "sample_os = \<lparr> os_epollFd = 3, os_awakenFd = 4, os_ctlOk = True, os_accepts = (\<lambda>fd. True) \<rparr>"

definition sample_listener :: fd_listener where
  "sample_listener = \<lparr> fl_id = 1, fl_owner = Some 1 \<rparr>"

lemma sample_add_fd:
  "fst (AddFileDescriptorListener sample_os 9 3 (Some sample_listener) sample_queue) = ERR_OK"
proof -
  have "(3 :: u32) AND FILE_DESCRIPTOR_EVENTS_MASK \<noteq> 0"
    by (simp add: FILE_DESCRIPTOR_EVENTS_MASK_def FILE_DESCRIPTOR_INPUT_EVENT_def
        FILE_DESCRIPTOR_OUTPUT_EVENT_def)
  then show ?thesis
    by (simp add: queue_eval AddFileDescriptorListener_def EnsureIoWaiterSupportListening_def sample_os_def
        SupportListeningFileDescriptor_def Epoll_Init_def new_EpollIoWaiter_def NotifyAll_def
        SetFileDescriptorEventCallback_def AddFileDescriptor_def epoll_ctl_add_def)
qed

theorem add_fd_listener_correct_witness:
  "\<exists>q'. AddFileDescriptorListener sample_os 9 3 (Some sample_listener) sample_queue = (ERR_OK, q') \<and>
     map_of (q_listeners q') 9 = Some sample_listener \<and> all_events q' = all_events sample_queue"
proof -
  obtain q' where q': "AddFileDescriptorListener sample_os 9 3 (Some sample_listener) sample_queue = (ERR_OK, q')"
    using sample_add_fd by (metis prod.collapse)
  from add_fd_listener_correct [OF sample_queue_inv q'] show ?thesis using q' by simp
qed

text \<open>
  After \<open>AddFileDescriptorListener\<close> and before it is removed, a descriptor event is handed to
  the listener's handler exactly when that handler still exists; after
  \<open>RemoveFileDescriptorListener\<close> no event of that descriptor is handed on any more.
\<close>

theorem fd_event_dispatch:
  assumes "queue_inv q" "AddFileDescriptorListener os fd events (Some l) q = (ERR_OK, q')"
  shows "HandleFileDescriptorEvent alive fd q' = map_option (\<lambda>h. (h, l)) (lock alive (fl_owner l)) \<and>
    HandleFileDescriptorEvent alive fd (RemoveFileDescriptorListener fd q') = None"
proof -
  have look: "map_of (q_listeners q') fd = Some l" and fd: "\<not> fd < 0"
    using assms(2) fd_inv_Ensure assms(1) unfolding AddFileDescriptorListener_def queue_inv_def
    by (auto split: if_splits prod.splits)
  show ?thesis
    using look fd by (auto simp: HandleFileDescriptorEvent_def RemoveFileDescriptorListener_def split: option.splits)
qed

theorem fd_event_dispatch_witness:
  "\<exists>q'. AddFileDescriptorListener sample_os 9 3 (Some sample_listener) sample_queue = (ERR_OK, q') \<and>
     HandleFileDescriptorEvent (\<lambda>_. True) 9 q' = Some (1, sample_listener)"
proof -
  obtain q' where q': "AddFileDescriptorListener sample_os 9 3 (Some sample_listener) sample_queue = (ERR_OK, q')"
    using sample_add_fd by (metis prod.collapse)
  from fd_event_dispatch [OF sample_queue_inv q', of "\<lambda>_. True"] show ?thesis
    using q' by (simp add: sample_listener_def lock_def)
qed

end
