(* ===== verification/Event_Handler.thy ===== *)
theory Event_Handler
  imports Event_Queue_Correct
begin

text \<open>
  \<open>EventHandler\<close> and \<open>EventRunner\<close> (\<open>event_handler.cpp\<close>, \<open>event_runner.cpp\<close> and their headers). The
  world holds the living handlers, each with the runner it posts to, and the runners with their
  queues. Calls on a null runner, which the code refuses, are calls of a handler without a
  runner. Tracing (\<open>HiTrace\<close>) and slow-event checking (\<open>HiChecker\<close>) are libraries: what they
  answer is an argument, what is reported to them is an action in the result.
\<close>

type_synonym runner_id = nat

section \<open>State\<close>

record runner =
  rn_deposit :: bool
  rn_running :: bool
  rn_queue :: event_queue
  rn_deliveryTimeout :: int
  rn_distributeTimeout :: int
  rn_threadName :: string

record handler =
  hn_eventRunner :: "runner_id option"
  hn_deliveryTimeoutCallback :: bool
  hn_distributeTimeoutCallback :: bool

record eh_world =
  eh_handlers :: "handler_id \<Rightarrow> handler option"
  eh_runners :: "runner_id \<Rightarrow> runner option"

definition alive :: "eh_world \<Rightarrow> handler_id \<Rightarrow> bool" where
  "alive w h \<longleftrightarrow> eh_handlers w h \<noteq> None"

definition GetEventRunner :: "eh_world \<Rightarrow> handler_id \<Rightarrow> runner_id option" where
  "GetEventRunner w h = (case eh_handlers w h of None \<Rightarrow> None | Some hn \<Rightarrow> hn_eventRunner hn)"

text \<open>The queue of the handler's runner, and changing it.\<close>

definition handler_queue :: "eh_world \<Rightarrow> handler_id \<Rightarrow> event_queue option" where
  "handler_queue w h =
     (case GetEventRunner w h of None \<Rightarrow> None | Some r \<Rightarrow> map_option rn_queue (eh_runners w r))"

definition upd_runner_queue :: "runner_id \<Rightarrow> (event_queue \<Rightarrow> event_queue) \<Rightarrow> eh_world \<Rightarrow> eh_world" where
  "upd_runner_queue r f w =
     (case eh_runners w r of
        None \<Rightarrow> w
      | Some rn \<Rightarrow> w\<lparr>eh_runners := (eh_runners w)(r \<mapsto> rn\<lparr>rn_queue := f (rn_queue rn)\<rparr>)\<rparr>)"

section \<open>Sending\<close>

text \<open>
  What \<open>HiTrace\<close> answers: the validity of the thread's trace id, a new span, and the validity
  and the asynchronous flag of a trace id.
\<close>

record trace_env =
  te_currentValid :: bool
  te_span :: trace_id
  te_valid :: "trace_id \<Rightarrow> bool"
  te_includeAsync :: "trace_id \<Rightarrow> bool"

definition AllowHiTraceOutPut :: "trace_env \<Rightarrow> trace_id option \<Rightarrow> bool \<Rightarrow> bool" where
  "AllowHiTraceOutPut te t isSyncEvent =
     (case t of
        None \<Rightarrow> False
      | Some i \<Rightarrow> if \<not> te_valid te i then False
                 else if \<not> isSyncEvent \<and> \<not> te_includeAsync te i then False else True)"

definition stamp_event ::
  "trace_env \<Rightarrow> time_point \<Rightarrow> handler_id \<Rightarrow> int \<Rightarrow> inner_event \<Rightarrow> inner_event" where
  "stamp_event te now h delayTime e =
     (let e1 = SetSendTime now e;
          e2 = (if delayTime > 0 then SetHandleTime (now + delayTime * NANOSECONDS_PER_ONE_MILLISECOND) e1
                else SetHandleTime now e1);
          e3 = SetOwner (Some h) e2
      in snd (GetOrCreateTraceId (te_currentValid te) (te_span te) e3))"

definition SendEvent ::
  "trace_env \<Rightarrow> time_point \<Rightarrow> handler_id \<Rightarrow> inner_event option \<Rightarrow> int \<Rightarrow> priority \<Rightarrow> eh_world
     \<Rightarrow> bool \<times> eh_world" where
  "SendEvent te now h ev delayTime priority w =
     (case ev of
        None \<Rightarrow> (False, w)
      | Some e \<Rightarrow>
          (case GetEventRunner w h of
             None \<Rightarrow> (False, w)
           | Some r \<Rightarrow> (True, upd_runner_queue r (Insert (Some (stamp_event te now h delayTime e)) priority) w)))"

definition SendTimingEvent ::
  "trace_env \<Rightarrow> time_point \<Rightarrow> handler_id \<Rightarrow> inner_event option \<Rightarrow> int \<Rightarrow> priority \<Rightarrow> eh_world
     \<Rightarrow> bool \<times> eh_world" where
  "SendTimingEvent te now h ev taskTime priority w =
     (let nowSysTime = now div NANOSECONDS_PER_ONE_MILLISECOND; delayTime = taskTime - nowSysTime
      in if delayTime < 0 then SendEvent te now h ev 0 priority w
         else SendEvent te now h ev delayTime priority w)"

definition IsRunning :: "runner \<Rightarrow> bool" where
  "IsRunning rn \<longleftrightarrow> rn_deposit rn \<or> rn_running rn"

text \<open>
  \<open>SendSyncEvent\<close>: refused, distributed on the spot because the caller already runs on the
  handler's runner, or sent with a waiter on which the caller then blocks.
\<close>

datatype sync_result = SyncRefused | SyncDistribute inner_event | SyncWait waiter_id

definition SendSyncEvent ::
  "trace_env \<Rightarrow> time_point \<Rightarrow> runner_id option \<Rightarrow> waiter_id \<Rightarrow> handler_id \<Rightarrow> inner_event option \<Rightarrow> priority
     \<Rightarrow> eh_world \<Rightarrow> sync_result \<times> eh_world" where
  "SendSyncEvent te now current newWaiter h ev priority w =
     (case ev of
        None \<Rightarrow> (SyncRefused, w)
      | Some e \<Rightarrow>
          if priority = IDLE then (SyncRefused, w)
          else (case GetEventRunner w h of
                  None \<Rightarrow> (SyncRefused, w)
                | Some r \<Rightarrow>
                    (case eh_runners w r of
                       None \<Rightarrow> (SyncRefused, w)
                     | Some rn \<Rightarrow>
                         if \<not> IsRunning rn then (SyncRefused, w)
                         else if current = Some r then (SyncDistribute e, w)
                         else (let (_, e1) = GetOrCreateTraceId (te_currentValid te) (te_span te) e;
                                   e2 = CreateWaiter newWaiter e1;
                                   (ok, w') = SendEvent te now h (Some e2) 0 priority w
                               in if \<not> ok then (SyncRefused, w') else (SyncWait newWaiter, w')))))"

text \<open>The convenience calls of \<open>event_handler.h\<close> that build the event first.\<close>

definition PostTask ::
  "trace_env \<Rightarrow> time_point \<Rightarrow> handler_id \<Rightarrow> callback_id option \<Rightarrow> string \<Rightarrow> int \<Rightarrow> priority
     \<Rightarrow> inner_event_pool \<Rightarrow> eh_world \<Rightarrow> bool \<times> inner_event_pool \<times> eh_world" where
  "PostTask te now h callback name delayTime priority p w =
     (let (ev, p') = Get_task callback name p; (ok, w') = SendEvent te now h ev delayTime priority w
      in (ok, p', w'))"

definition PostImmediateTask ::
  "trace_env \<Rightarrow> time_point \<Rightarrow> handler_id \<Rightarrow> callback_id option \<Rightarrow> string \<Rightarrow> inner_event_pool \<Rightarrow> eh_world
     \<Rightarrow> bool \<times> inner_event_pool \<times> eh_world" where
  "PostImmediateTask te now h callback name p w =
     (let (ev, p') = Get_task callback name p; (ok, w') = SendEvent te now h ev 0 IMMEDIATE w in (ok, p', w'))"

definition PostHighPriorityTask ::
  "trace_env \<Rightarrow> time_point \<Rightarrow> handler_id \<Rightarrow> callback_id option \<Rightarrow> string \<Rightarrow> int \<Rightarrow> inner_event_pool \<Rightarrow> eh_world
     \<Rightarrow> bool \<times> inner_event_pool \<times> eh_world" where
  "PostHighPriorityTask te now h callback name delayTime p w = PostTask te now h callback name delayTime HIGH p w"

definition PostIdleTask ::
  "trace_env \<Rightarrow> time_point \<Rightarrow> handler_id \<Rightarrow> callback_id option \<Rightarrow> string \<Rightarrow> int \<Rightarrow> inner_event_pool \<Rightarrow> eh_world
     \<Rightarrow> bool \<times> inner_event_pool \<times> eh_world" where
  "PostIdleTask te now h callback name delayTime p w = PostTask te now h callback name delayTime IDLE p w"

definition SendEvent_id ::
  "trace_env \<Rightarrow> time_point \<Rightarrow> handler_id \<Rightarrow> u32 \<Rightarrow> int \<Rightarrow> int \<Rightarrow> inner_event_pool \<Rightarrow> eh_world
     \<Rightarrow> bool \<times> inner_event_pool \<times> eh_world" where
  "SendEvent_id te now h eventId par delayTime p w =
     (let (e, p') = Get_event eventId par p; (ok, w') = SendEvent te now h (Some e) delayTime LOW w
      in (ok, p', w'))"

definition SendImmediateEvent ::
  "trace_env \<Rightarrow> time_point \<Rightarrow> handler_id \<Rightarrow> inner_event option \<Rightarrow> eh_world \<Rightarrow> bool \<times> eh_world" where
  "SendImmediateEvent te now h ev w = SendEvent te now h ev 0 IMMEDIATE w"

definition SendHighPriorityEvent ::
  "trace_env \<Rightarrow> time_point \<Rightarrow> handler_id \<Rightarrow> inner_event option \<Rightarrow> int \<Rightarrow> eh_world \<Rightarrow> bool \<times> eh_world" where
  "SendHighPriorityEvent te now h ev delayTime w = SendEvent te now h ev delayTime HIGH w"

definition PostTimingTask ::
  "trace_env \<Rightarrow> time_point \<Rightarrow> handler_id \<Rightarrow> callback_id option \<Rightarrow> int \<Rightarrow> string \<Rightarrow> priority \<Rightarrow> inner_event_pool
     \<Rightarrow> eh_world \<Rightarrow> bool \<times> inner_event_pool \<times> eh_world" where
  "PostTimingTask te now h callback taskTime name priority p w =
     (let (ev, p') = Get_task callback name p; (ok, w') = SendTimingEvent te now h ev taskTime priority w
      in (ok, p', w'))"

section \<open>Removing, listeners, inspection\<close>

definition handler_remove ::
  "((handler_id \<Rightarrow> bool) \<Rightarrow> event_queue \<Rightarrow> event_queue) \<Rightarrow> handler_id \<Rightarrow> eh_world \<Rightarrow> eh_world" where
  "handler_remove f h w =
     (case GetEventRunner w h of None \<Rightarrow> w | Some r \<Rightarrow> upd_runner_queue r (f (alive w)) w)"

definition RemoveAllEvents :: "handler_id \<Rightarrow> eh_world \<Rightarrow> eh_world" where
  "RemoveAllEvents h = handler_remove (\<lambda>al. Remove_owner al (Some h)) h"

definition RemoveEvent :: "handler_id \<Rightarrow> u32 \<Rightarrow> eh_world \<Rightarrow> eh_world" where
  "RemoveEvent h i = handler_remove (\<lambda>al. Remove_id al (Some h) i) h"

definition RemoveEvent_param :: "handler_id \<Rightarrow> u32 \<Rightarrow> int \<Rightarrow> eh_world \<Rightarrow> eh_world" where
  "RemoveEvent_param h i v = handler_remove (\<lambda>al. Remove_id_param al (Some h) i v) h"

definition RemoveTask :: "handler_id \<Rightarrow> string \<Rightarrow> eh_world \<Rightarrow> eh_world" where
  "RemoveTask h name = handler_remove (\<lambda>al. Remove_name al (Some h) name) h"

definition Handler_AddFileDescriptorListener ::
  "os_answers \<Rightarrow> handler_id \<Rightarrow> int \<Rightarrow> u32 \<Rightarrow> fd_listener option \<Rightarrow> eh_world \<Rightarrow> ErrCode \<times> eh_world" where
  "Handler_AddFileDescriptorListener os h fd events listener w =
     (case listener of
        None \<Rightarrow> (EVENT_HANDLER_ERR_INVALID_PARAM, w)
      | Some l \<Rightarrow>
          if fd < 0 \<or> events AND FILE_DESCRIPTOR_EVENTS_MASK = 0 then (EVENT_HANDLER_ERR_INVALID_PARAM, w)
          else (case GetEventRunner w h of
                  None \<Rightarrow> (EVENT_HANDLER_ERR_NO_EVENT_RUNNER, w)
                | Some r \<Rightarrow>
                    (case eh_runners w r of
                       None \<Rightarrow> (EVENT_HANDLER_ERR_NO_EVENT_RUNNER, w)
                     | Some rn \<Rightarrow>
                         (case AddFileDescriptorListener os fd events (Some (l\<lparr>fl_owner := Some h\<rparr>)) (rn_queue rn) of
                            (err, q) \<Rightarrow> (err, upd_runner_queue r (\<lambda>_. q) w)))))"

definition RemoveAllFileDescriptorListeners :: "handler_id \<Rightarrow> eh_world \<Rightarrow> eh_world" where
  "RemoveAllFileDescriptorListeners h = handler_remove (\<lambda>al. RemoveFileDescriptorListener_owner al (Some h)) h"

definition Handler_RemoveFileDescriptorListener :: "handler_id \<Rightarrow> int \<Rightarrow> eh_world \<Rightarrow> eh_world" where
  "Handler_RemoveFileDescriptorListener h fd w =
     (if fd < 0 then w else handler_remove (\<lambda>al. RemoveFileDescriptorListener fd) h w)"

definition Handler_HasInnerEvent :: "handler_id \<Rightarrow> u32 \<Rightarrow> eh_world \<Rightarrow> bool" where
  "Handler_HasInnerEvent h i w =
     (case handler_queue w h of None \<Rightarrow> False | Some q \<Rightarrow> HasInnerEvent_id (alive w) (Some h) i q)"

definition Handler_HasInnerEvent_param :: "handler_id \<Rightarrow> int \<Rightarrow> eh_world \<Rightarrow> bool" where
  "Handler_HasInnerEvent_param h v w =
     (case handler_queue w h of None \<Rightarrow> False | Some q \<Rightarrow> HasInnerEvent_param (alive w) (Some h) v q)"

definition set_runner :: "handler_id \<Rightarrow> runner_id option \<Rightarrow> eh_world \<Rightarrow> eh_world" where
  "set_runner h r w =
     (case eh_handlers w h of
        None \<Rightarrow> w
      | Some hn \<Rightarrow> w\<lparr>eh_handlers := (eh_handlers w)(h \<mapsto> hn\<lparr>hn_eventRunner := r\<rparr>)\<rparr>)"

definition SetEventRunner :: "handler_id \<Rightarrow> runner_id option \<Rightarrow> eh_world \<Rightarrow> eh_world" where
  "SetEventRunner h r w =
     (if GetEventRunner w h = r then w
      else (let w1 = (if GetEventRunner w h \<noteq> None
                      then RemoveAllFileDescriptorListeners h (RemoveAllEvents h w) else w)
            in set_runner h r w1))"

text \<open>The destructor: weak pointers to the handler have expired when its body runs.\<close>

definition destroy_handler :: "handler_id \<Rightarrow> eh_world \<Rightarrow> eh_world" where
  "destroy_handler h w =
     (let r = GetEventRunner w h; w1 = w\<lparr>eh_handlers := (eh_handlers w)(h := None)\<rparr>
      in case r of None \<Rightarrow> w1 | Some r' \<Rightarrow> upd_runner_queue r' (RemoveOrphan (alive w1)) w1)"

definition GetEventName :: "inner_event option \<Rightarrow> string" where
  "GetEventName ev =
     (case ev of
        None \<Rightarrow> []
      | Some e \<Rightarrow> if HasTask e then ev_taskName e else to_string (uint (ev_innerEventId e)))"

section \<open>Distributing\<close>

datatype action =
    TraceReceive trace_id
  | TraceOver trace_id
  | SlowDelivery
  | DeliveryTimeoutCallback
  | SlowDistribute
  | DistributeTimeoutCallback
  | CallTask callback_id
  | ProcessEvent inner_event

text \<open>What \<open>HiChecker\<close> and the clock answer during one distribution.\<close>

record check_env =
  ce_needCheckSlowEvent :: bool
  ce_nowStart :: time_point
  ce_nowEnd :: time_point

definition DeliveryTimeAction :: "check_env \<Rightarrow> runner \<Rightarrow> handler \<Rightarrow> inner_event \<Rightarrow> action list" where
  "DeliveryTimeAction ce rn hn e =
     (if \<not> ce_needCheckSlowEvent ce then []
      else if rn_deliveryTimeout rn > 0 \<and>
              ce_nowStart ce - rn_deliveryTimeout rn * NANOSECONDS_PER_ONE_MILLISECOND > ev_handleTime e
      then SlowDelivery # (if hn_deliveryTimeoutCallback hn then [DeliveryTimeoutCallback] else [])
      else [])"

definition DistributeTimeAction :: "check_env \<Rightarrow> runner \<Rightarrow> handler \<Rightarrow> action list" where
  "DistributeTimeAction ce rn hn =
     (if \<not> ce_needCheckSlowEvent ce then []
      else if rn_distributeTimeout rn > 0 \<and>
              ce_nowEnd ce - ce_nowStart ce > rn_distributeTimeout rn * NANOSECONDS_PER_ONE_MILLISECOND
      then SlowDistribute # (if hn_distributeTimeoutCallback hn then [DistributeTimeoutCallback] else [])
      else [])"

text \<open>
  \<open>DistributeEvent\<close>: the actions, the handler that is current while they run, and the current
  handler afterwards (the one before, if it still lives).
\<close>

definition DistributeEvent ::
  "trace_env \<Rightarrow> check_env \<Rightarrow> runner \<Rightarrow> handler \<Rightarrow> handler_id \<Rightarrow> (handler_id \<Rightarrow> bool) \<Rightarrow> handler_id option
     \<Rightarrow> inner_event option \<Rightarrow> action list \<times> handler_id option \<times> handler_id option" where
  "DistributeEvent te ce rn hn h al current ev =
     (case ev of
        None \<Rightarrow> ([], current, current)
      | Some e \<Rightarrow>
          (let allow = AllowHiTraceOutPut te (ev_hiTraceId e) (HasWaiter e);
               span = (case ev_hiTraceId e of Some t \<Rightarrow> t | None \<Rightarrow> 0)
           in ((if allow then [TraceReceive span] else []) @
               DeliveryTimeAction ce rn hn e @
               (case ev_taskCallback e of Some cb \<Rightarrow> [CallTask cb] | None \<Rightarrow> [ProcessEvent e]) @
               DistributeTimeAction ce rn hn @
               (if allow then [TraceOver span] else []),
               Some h, lock al current)))"

section \<open>The runner\<close>

text \<open>
  One turn of the loop in \<open>EventRunnerImpl::Run\<close>: the event is distributed to its handler if that
  still exists, and then released.
\<close>

definition Run_turn ::
  "trace_env \<Rightarrow> check_env \<Rightarrow> runner_id \<Rightarrow> eh_world \<Rightarrow> inner_event \<Rightarrow> inner_event_pool
     \<Rightarrow> (handler_id \<times> action list) option \<times> event_effect list \<times> inner_event_pool" where
  "Run_turn te ce r w e p =
     (let (fx, p') = Pool_Drop (Some e) p in
      case GetOwner (alive w) e of
        None \<Rightarrow> (None, fx, p')
      | Some h \<Rightarrow>
          (case (eh_runners w r, eh_handlers w h) of
             (Some rn, Some hn) \<Rightarrow>
               (Some (h, fst (DistributeEvent te ce rn hn h (alive w) None (Some e))), fx, p')
           | _ \<Rightarrow> (None, fx, p')))"

definition Runner_Create :: "bool \<Rightarrow> string \<Rightarrow> time_point \<Rightarrow> runner" where
  "Runner_Create deposit threadName now =
     \<lparr> rn_deposit = deposit, rn_running = False, rn_queue = new_EventQueue now None,
       rn_deliveryTimeout = 0, rn_distributeTimeout = 0, rn_threadName = threadName \<rparr>"

text \<open>\<open>EventRunner::Run\<close> up to the event loop, and what follows the loop.\<close>

definition Runner_Run_enter :: "runner \<Rightarrow> ErrCode \<times> runner" where
  "Runner_Run_enter rn =
     (if rn_deposit rn then (EVENT_HANDLER_ERR_RUNNER_NO_PERMIT, rn)
      else if rn_running rn then (EVENT_HANDLER_ERR_RUNNER_ALREADY, rn)
      else (ERR_OK, rn\<lparr>rn_running := True, rn_queue := Prepare (rn_queue rn)\<rparr>))"

definition Runner_Run_leave :: "runner \<Rightarrow> runner" where
  "Runner_Run_leave rn = rn\<lparr>rn_running := False\<rparr>"

definition Runner_Stop :: "runner \<Rightarrow> ErrCode \<times> runner" where
  "Runner_Stop rn =
     (if rn_deposit rn then (EVENT_HANDLER_ERR_RUNNER_NO_PERMIT, rn)
      else if rn_running rn then (ERR_OK, rn\<lparr>rn_queue := Finish (rn_queue rn)\<rparr>)
      else (ERR_OK, rn))"

definition Runner_Destroy :: "runner \<Rightarrow> runner" where
  "Runner_Destroy rn = (if rn_deposit rn then rn\<lparr>rn_queue := Finish (rn_queue rn)\<rparr> else rn)"

definition Runner_SetThreadName :: "nat \<Rightarrow> string \<Rightarrow> string \<times> nat" where
  "Runner_SetThreadName idGenerator threadName =
     (if threadName = [] then (''event_runner#'' @ nat_to_string idGenerator, idGenerator + 1)
      else (threadName, idGenerator))"

definition DumpRunnerInfo :: "(handler_id \<Rightarrow> bool) \<Rightarrow> string \<Rightarrow> runner \<Rightarrow> string" where
  "DumpRunnerInfo al runnerInfo rn =
     (if \<not> IsRunning rn then ''        Event runner is not running'' @ LINE_SEPARATOR else runnerInfo) @
     DumpQueueInfo al (rn_queue rn)"

section \<open>Sending: what a call changes\<close>

definition runner_events :: "eh_world \<Rightarrow> runner_id \<Rightarrow> inner_event list" where
  "runner_events w r = (case eh_runners w r of None \<Rightarrow> [] | Some rn \<Rightarrow> all_events (rn_queue rn))"

definition world_inv :: "eh_world \<Rightarrow> bool" where
  "world_inv w \<longleftrightarrow> (\<forall>r rn. eh_runners w r = Some rn \<longrightarrow> queue_inv (rn_queue rn)) \<and>
     (\<forall>h r. GetEventRunner w h = Some r \<longrightarrow> eh_runners w r \<noteq> None)"

lemma mset_all_events_Insert:
  assumes "queue_inv q"
  shows "mset (all_events (Insert (Some e) p q)) = add_mset e (mset (all_events q))"
proof -
  obtain a b c where abc: "q_subEventQueues q = [a, b, c]" "sub_inv a" "sub_inv b" "sub_inv c"
    using queue_inv_three [OF assms] by blast
  then show ?thesis
    using assms evl.mset_ins
    by (cases p) (simp_all add: all_events_def Insert_three queue_inv_def sub_inv_def)
qed

lemma stamp_event_simps [simp]:
  "ev_owner (stamp_event te now h d e) = Some h" "ev_sendTime (stamp_event te now h d e) = now"
  "ev_handleTime (stamp_event te now h d e) =
     (if d > 0 then now + d * NANOSECONDS_PER_ONE_MILLISECOND else now)"
  "ev_waiter (stamp_event te now h d e) = ev_waiter e"
  "ev_taskCallback (stamp_event te now h d e) = ev_taskCallback e"
  "ev_innerEventId (stamp_event te now h d e) = ev_innerEventId e"
  by (auto simp: stamp_event_def Let_def SetSendTime_def SetHandleTime_def SetOwner_def
      GetOrCreateTraceId_def split: option.splits)

lemma upd_runner_queue_simps [simp]:
  "eh_handlers (upd_runner_queue r f w) = eh_handlers w"
  "GetEventRunner (upd_runner_queue r f w) h = GetEventRunner w h"
  "alive (upd_runner_queue r f w) = alive w"
  "r' \<noteq> r \<Longrightarrow> eh_runners (upd_runner_queue r f w) r' = eh_runners w r'"
  by (auto simp: upd_runner_queue_def GetEventRunner_def alive_def fun_eq_iff split: option.splits)

lemma upd_runner_queue_at:
  "eh_runners w r = Some rn \<Longrightarrow>
     eh_runners (upd_runner_queue r f w) r = Some (rn\<lparr>rn_queue := f (rn_queue rn)\<rparr>)"
  by (simp add: upd_runner_queue_def)

lemma world_inv_upd:
  assumes "world_inv w" "\<And>q. queue_inv q \<Longrightarrow> queue_inv (f q)"
  shows "world_inv (upd_runner_queue r f w)"
proof -
  have "queue_inv (rn_queue rn)" if "eh_runners (upd_runner_queue r f w) r' = Some rn" for r' rn
  proof (cases "r' = r")
    case True
    then show ?thesis
      using that assms by (auto simp: world_inv_def upd_runner_queue_def split: option.splits)
  next
    case False
    then show ?thesis using that assms(1) by (auto simp: world_inv_def)
  qed
  moreover have "eh_runners (upd_runner_queue r f w) r' \<noteq> None" if "GetEventRunner w h = Some r'" for h r'
    using assms(1) that by (auto simp: world_inv_def upd_runner_queue_def split: option.splits)
  ultimately show ?thesis by (auto simp: world_inv_def)
qed

lemma SendEvent_ok:
  assumes "world_inv w" "SendEvent te now h (Some e) d p w = (True, w')"
  obtains r where "GetEventRunner w h = Some r"
    and "mset (runner_events w' r) = add_mset (stamp_event te now h d e) (mset (runner_events w r))"
    and "\<And>r'. r' \<noteq> r \<Longrightarrow> eh_runners w' r' = eh_runners w r'"
    and "eh_handlers w' = eh_handlers w"
proof -
  from assms(2) obtain r where r: "GetEventRunner w h = Some r"
    and w': "w' = upd_runner_queue r (Insert (Some (stamp_event te now h d e)) p) w"
    by (auto simp: SendEvent_def split: option.splits)
  from assms(1) r obtain rn where rn: "eh_runners w r = Some rn" "queue_inv (rn_queue rn)"
    unfolding world_inv_def by blast
  have "mset (runner_events w' r) = add_mset (stamp_event te now h d e) (mset (runner_events w r))"
    by (simp add: runner_events_def w' upd_runner_queue_at [OF rn(1)] rn mset_all_events_Insert)
  with r that show ?thesis by (simp add: w')
qed

text \<open>
  \<open>SendEvent\<close> succeeds exactly when the event is not null and the handler has a runner. On
  success the runner's queue gains exactly that event, owned by the handler, stamped with the
  sending time and due at that time plus the (non-negative) delay, and no other runner is touched;
  on failure nothing changes.
\<close>

theorem send_event_correct:
  assumes "world_inv w" "SendEvent te now h ev delayTime priority w = (ok, w')"
  shows "(ok \<longleftrightarrow> ev \<noteq> None \<and> GetEventRunner w h \<noteq> None) \<and> (\<not> ok \<longrightarrow> w' = w) \<and>
    (ok \<longrightarrow> (\<exists>r e. GetEventRunner w h = Some r \<and>
       mset (runner_events w' r) = add_mset e (mset (runner_events w r)) \<and>
       ev_owner e = Some h \<and> ev_sendTime e = now \<and>
       ev_handleTime e = now + max 0 delayTime * NANOSECONDS_PER_ONE_MILLISECOND \<and>
       (\<forall>r'. r' \<noteq> r \<longrightarrow> eh_runners w' r' = eh_runners w r')))"
proof (cases ok)
  case False
  then show ?thesis using assms(2) by (auto simp: SendEvent_def split: option.splits)
next
  case True
  then obtain e where e: "ev = Some e" using assms(2) by (auto simp: SendEvent_def split: option.splits)
  have send: "SendEvent te now h (Some e) delayTime priority w = (True, w')"
    using assms(2) True e by simp
  obtain r where r: "GetEventRunner w h = Some r"
    "mset (runner_events w' r) = add_mset (stamp_event te now h delayTime e) (mset (runner_events w r))"
    "\<And>r'. r' \<noteq> r \<Longrightarrow> eh_runners w' r' = eh_runners w r'"
    using SendEvent_ok [OF assms(1) send] by blast
  have "ev_handleTime (stamp_event te now h delayTime e)
      = now + max 0 delayTime * NANOSECONDS_PER_ONE_MILLISECOND" by (simp add: max_def)
  then have "\<exists>r e. GetEventRunner w h = Some r \<and>
      mset (runner_events w' r) = add_mset e (mset (runner_events w r)) \<and>
      ev_owner e = Some h \<and> ev_sendTime e = now \<and>
      ev_handleTime e = now + max 0 delayTime * NANOSECONDS_PER_ONE_MILLISECOND \<and>
      (\<forall>r'. r' \<noteq> r \<longrightarrow> eh_runners w' r' = eh_runners w r')"
    using r by (intro exI [of _ r] exI [of _ "stamp_event te now h delayTime e"])
      (simp del: stamp_event_simps(3))
  then show ?thesis using True e r(1) by blast
qed

definition sample_world :: eh_world where
  "sample_world = \<lparr> eh_handlers = [1 \<mapsto> \<lparr> hn_eventRunner = Some 1, hn_deliveryTimeoutCallback = False,
                                             hn_distributeTimeoutCallback = False \<rparr>],
     eh_runners = [1 \<mapsto> (Runner_Create True ''main'' 0)\<lparr>rn_queue := sample_queue\<rparr>] \<rparr>"

definition no_trace :: trace_env where
  "no_trace = \<lparr> te_currentValid = False, te_span = 0, te_valid = (\<lambda>_. False), te_includeAsync = (\<lambda>_. False) \<rparr>"

lemma sample_world_inv: "world_inv sample_world"
  by (auto simp: world_inv_def sample_world_def sample_queue_inv GetEventRunner_def split: if_splits)

lemma sample_world_runner: "GetEventRunner sample_world 1 = Some 1"
  by (simp add: sample_world_def GetEventRunner_def)

theorem send_event_correct_witness:
  "\<exists>e. mset (runner_events (snd (SendEvent no_trace 50 1 (Some new_InnerEvent) 2 LOW sample_world)) 1)
      = add_mset e (mset (runner_events sample_world 1)) \<and> ev_handleTime e = 2000050"
proof -
  obtain ok w' where s: "SendEvent no_trace 50 1 (Some new_InnerEvent) 2 LOW sample_world = (ok, w')"
    by (cases "SendEvent no_trace 50 1 (Some new_InnerEvent) 2 LOW sample_world")
  from send_event_correct [OF sample_world_inv s] sample_world_runner show ?thesis
    unfolding s by (auto simp: NANOSECONDS_PER_ONE_MILLISECOND_def)
qed

section \<open>Synchronous events\<close>

text \<open>
  A synchronous send that blocks its caller has put exactly one event carrying the caller's
  waiter into the handler's queue, and releasing that event, whether after it was handled or
  because it was removed, notifies the waiter: the caller is woken in every case. A caller on the
  handler's own runner never blocks.
\<close>

theorem sync_event_waiter_notified:
  assumes "world_inv w" "SendSyncEvent te now current wt h ev priority w = (SyncWait wt', w')"
  shows "\<exists>r e. GetEventRunner w h = Some r \<and> current \<noteq> Some r \<and> wt' = wt \<and> ev_waiter e = Some wt \<and>
    mset (runner_events w' r) = add_mset e (mset (runner_events w r)) \<and>
    (\<forall>p. NotifyWaiter wt \<in> set (fst (Pool_Drop (Some e) p)))"
proof -
  from assms(2) obtain e r where e: "ev = Some e" "GetEventRunner w h = Some r" "current \<noteq> Some r" "wt' = wt"
    and send: "SendEvent te now h
      (Some (CreateWaiter wt (snd (GetOrCreateTraceId (te_currentValid te) (te_span te) e)))) 0 priority w = (True, w')"
    by (auto simp: SendSyncEvent_def Let_def split: option.splits if_splits prod.splits)
  let ?e = "stamp_event te now h 0 (CreateWaiter wt (snd (GetOrCreateTraceId (te_currentValid te) (te_span te) e)))"
  have waiter: "ev_waiter ?e = Some wt" by (simp add: CreateWaiter_def)
  have "mset (runner_events w' r) = add_mset ?e (mset (runner_events w r))"
    using SendEvent_ok [OF assms(1) send] e(2) by (metis option.inject)
  moreover have "NotifyWaiter wt \<in> set (fst (Pool_Drop (Some ?e) p))" for p
    using ClearEvent_effects [OF surjective_pairing, of ?e] waiter
    by (auto simp: Pool_Drop_def split: prod.splits)
  ultimately show ?thesis using e waiter by blast
qed

theorem sync_event_waiter_notified_witness:
  "\<exists>e. ev_waiter e = Some 9 \<and>
     mset (runner_events (snd (SendSyncEvent no_trace 50 None 9 1 (Some new_InnerEvent) HIGH sample_world)) 1)
       = add_mset e (mset (runner_events sample_world 1))"
proof -
  have s: "SendSyncEvent no_trace 50 None 9 1 (Some new_InnerEvent) HIGH sample_world
      = (SyncWait 9, snd (SendSyncEvent no_trace 50 None 9 1 (Some new_InnerEvent) HIGH sample_world))"
    by (simp add: SendSyncEvent_def SendEvent_def sample_world_runner Let_def sample_world_def IsRunning_def
        Runner_Create_def GetEventRunner_def split: prod.splits)
  from sync_event_waiter_notified [OF sample_world_inv s] sample_world_runner show ?thesis by auto
qed

section \<open>A handler that goes away\<close>

text \<open>
  When a handler is destroyed, its runner's queue afterwards holds exactly the events whose
  handler still exists, so no event of the destroyed handler is ever distributed.
\<close>

theorem destroy_handler_clears:
  assumes "world_inv w" "GetEventRunner w h = Some r"
  shows "runner_events (destroy_handler h w) r
      = filter (\<lambda>e. GetOwner (alive (destroy_handler h w)) e \<noteq> None) (runner_events w r) \<and>
    (\<forall>e \<in> set (runner_events (destroy_handler h w) r). ev_owner e \<noteq> Some h) \<and>
    world_inv (destroy_handler h w)"
proof -
  define w1 where "w1 = w\<lparr>eh_handlers := (eh_handlers w)(h := None)\<rparr>"
  have d: "destroy_handler h w = upd_runner_queue r (RemoveOrphan (alive w1)) w1"
    using assms(2) by (simp add: destroy_handler_def w1_def Let_def)
  obtain rn where rn: "eh_runners w r = Some rn" "queue_inv (rn_queue rn)"
    using assms unfolding world_inv_def by blast
  then have rn1: "eh_runners w1 r = Some rn" by (simp add: w1_def)
  have same: "all_events (RemoveFileDescriptorListenerLocked flt q) = all_events q" for flt q
    by (simp add: all_events_def RemoveFileDescriptorListenerLocked_def)
  have ev: "runner_events (destroy_handler h w) r
      = filter (\<lambda>e. GetOwner (alive w1) e \<noteq> None) (runner_events w r)"
    by (simp add: runner_events_def d upd_runner_queue_at [OF rn1] rn RemoveOrphan_def same all_events_Remove)
  have dead: "\<not> alive w1 h" by (simp add: alive_def w1_def)
  have "world_inv w1"
    using assms(1) by (auto simp: world_inv_def w1_def GetEventRunner_def split: option.splits if_splits)
  then have "world_inv (destroy_handler h w)"
    unfolding d by (rule world_inv_upd) (simp add: RemoveOrphan_def RemoveFdLocked_inv Remove_inv)
  with ev dead show ?thesis by (auto simp: d GetOwner_def lock_def split: option.splits)
qed

theorem destroy_handler_clears_witness:
  "filter (\<lambda>e. ev_owner e = Some 1) (runner_events (destroy_handler 1 sample_world) 1) = []"
  using destroy_handler_clears [OF sample_world_inv sample_world_runner] by (auto simp: filter_empty_conv)

text \<open>
  Moving a handler to another runner takes all of its events and descriptor listeners out of
  the old runner's queue, and leaves the events of other handlers there in order.
\<close>

theorem set_event_runner_moves:
  assumes "world_inv w" "GetEventRunner w h = Some r" "r' \<noteq> Some r"
  shows "GetEventRunner (SetEventRunner h r' w) h = r' \<and>
    runner_events (SetEventRunner h r' w) r = filter (\<lambda>e. ev_owner e \<noteq> Some h) (runner_events w r)"
proof -
  have al: "alive w h" using assms(2) by (auto simp: alive_def GetEventRunner_def split: option.splits)
  obtain rn where rn: "eh_runners w r = Some rn" using assms unfolding world_inv_def by blast
  define w1 where "w1 = RemoveAllFileDescriptorListeners h (RemoveAllEvents h w)"
  have w1: "w1 = upd_runner_queue r (RemoveFileDescriptorListener_owner (alive w) (Some h))
      (upd_runner_queue r (Remove_owner (alive w) (Some h)) w)"
    using assms(2) by (simp add: w1_def RemoveAllFileDescriptorListeners_def RemoveAllEvents_def handler_remove_def)
  have s: "SetEventRunner h r' w = set_runner h r' w1"
    using assms(2,3) by (auto simp: SetEventRunner_def w1_def)
  have owner: "owner_filter (alive w) h e \<longleftrightarrow> ev_owner e = Some h" for e
    using al by (auto simp: owner_filter_def GetOwner_def lock_def split: option.splits)
  have same: "all_events (RemoveFileDescriptorListenerLocked flt q) = all_events q" for flt q
    by (simp add: all_events_def RemoveFileDescriptorListenerLocked_def)
  have "runner_events w1 r = filter (\<lambda>e. ev_owner e \<noteq> Some h) (runner_events w r)"
    by (simp add: runner_events_def w1 upd_runner_queue_at [OF upd_runner_queue_at [OF rn]] rn
        RemoveFileDescriptorListener_owner_def Remove_owner_def same all_events_Remove owner)
  moreover have "eh_handlers w1 h \<noteq> None" using al by (simp add: w1 alive_def)
  ultimately show ?thesis
    by (auto simp: s set_runner_def runner_events_def GetEventRunner_def split: option.splits)
qed

theorem set_event_runner_moves_witness:
  "runner_events (SetEventRunner 1 None sample_world) 1
     = filter (\<lambda>e. ev_owner e \<noteq> Some 1) (runner_events sample_world 1)"
  using set_event_runner_moves [OF sample_world_inv sample_world_runner, of None] by simp

end
