(* ===== verification/Queue_System.thy ===== *)
theory Queue_System
  imports Event_Handler
begin

text \<open>
  The threads around one event queue: a consumer in \<open>EventQueue::GetEvent\<close> and any number of other
  threads calling the other operations. Operations run under the queue lock, so they are atomic
  steps; the consumer gives the lock up exactly while it waits, and the waiting count is
  decremented before it takes the lock again, so leaving the wait and re-locking are separate
  steps. While the consumer waits, the queue may replace its IO waiter; the consumer then still
  waits on the old one, which it holds. The second part is the start and the stop of a runner
  whose loop runs in its own thread.
\<close>

section \<open>Consumer and producers\<close>








section \<open>The invariant\<close>






text \<open>An operation that keeps the wait state and adds no event keeps \<open>wait_ok\<close>.\<close>

definition same_wait :: "io_waiter \<Rightarrow> io_waiter \<Rightarrow> bool" where
  "same_wait w w' \<longleftrightarrow> waiting w' = waiting w \<and> signalled w' = signalled w"


lemma same_wait_refl [simp]: "same_wait w w"
  by (simp add: same_wait_def)

lemma same_wait_RemoveFd [simp]: "same_wait w (RemoveFileDescriptor fd w)"
  by (auto simp: same_wait_def RemoveFileDescriptor_def waiting_def signalled_def
      split: io_waiter.splits option.splits)

lemma same_wait_trans: "same_wait a b \<Longrightarrow> same_wait b c \<Longrightarrow> same_wait a c"
  by (simp add: same_wait_def)

lemma same_wait_RemoveFds [simp]: "same_wait w (fold RemoveFileDescriptor fds w)"
proof (induction fds arbitrary: w)
  case (Cons fd fds)
  from same_wait_trans [OF same_wait_RemoveFd Cons.IH] show ?case by simp
qed simp







lemma Support_callback [simp]:
  "SupportListeningFileDescriptor (SetFileDescriptorEventCallback w) = SupportListeningFileDescriptor w"
  by (simp add: SupportListeningFileDescriptor_def SetFileDescriptorEventCallback_def split: io_waiter.splits)

lemma Support_epoll [simp]: "SupportListeningFileDescriptor (EpollIoWaiter e)"
  by (simp add: SupportListeningFileDescriptor_def)









section \<open>Starting and stopping a runner thread\<close>

text \<open>
  \<open>EventRunnerImpl::Run\<close> in the thread of a runner: \<open>Prepare\<close>, then the check that the
  \<open>EventRunner\<close> still exists, then the loop. \<open>~EventRunner\<close> runs after the last reference is gone
  (\<open>expire\<close>) and calls \<open>Stop\<close>, which is \<open>Finish\<close> on the queue (\<open>destroy_stop\<close>). \<open>early_stop\<close> is the
  call of \<open>innerRunner->Stop()\<close> in \<open>EventRunner::Create\<close> after the thread could not be deposited,
  while the runner object exists.
\<close>

datatype thread_pc = NotStarted | Prepared | Looping | Exited

record run_sys =
  rs_queue :: event_queue
  rs_exists :: bool
  rs_stopped :: bool
  rs_pc :: thread_pc

definition Run_prepare :: "run_sys \<Rightarrow> run_sys" where
  "Run_prepare s = s\<lparr>rs_queue := Prepare (rs_queue s), rs_pc := Prepared\<rparr>"

definition Run_enter :: "run_sys \<Rightarrow> run_sys" where
  "Run_enter s = s\<lparr>rs_pc := (if rs_exists s then Looping else Exited)\<rparr>"

definition Runner_stop_queue :: "run_sys \<Rightarrow> run_sys" where
  "Runner_stop_queue s = s\<lparr>rs_queue := Finish (rs_queue s), rs_stopped := True\<rparr>"

inductive run_step :: "run_sys \<Rightarrow> run_sys \<Rightarrow> bool" where
  prepare: "rs_pc s = NotStarted \<Longrightarrow> run_step s (Run_prepare s)"
| enter: "rs_pc s = Prepared \<Longrightarrow> run_step s (Run_enter s)"
| leave: "rs_pc s = Looping \<Longrightarrow> q_finished (rs_queue s) \<Longrightarrow> run_step s (s\<lparr>rs_pc := Exited\<rparr>)"
| expire: "rs_exists s \<Longrightarrow> run_step s (s\<lparr>rs_exists := False\<rparr>)"
| destroy_stop: "\<not> rs_exists s \<Longrightarrow> run_step s (Runner_stop_queue s)"

definition run_start :: "time_point \<Rightarrow> run_sys" where
  "run_start now = \<lparr> rs_queue = new_EventQueue now None, rs_exists = True, rs_stopped = False, rs_pc = NotStarted \<rparr>"

inductive run_reachable :: "time_point \<Rightarrow> run_sys \<Rightarrow> bool" for now where
  start: "run_reachable now (run_start now)"
| step: "run_reachable now s \<Longrightarrow> run_step s s' \<Longrightarrow> run_reachable now s'"

lemma run_reachable_inv:
  "run_reachable now s \<Longrightarrow>
     (rs_stopped s \<longrightarrow> \<not> rs_exists s) \<and> (rs_stopped s \<and> rs_pc s = Looping \<longrightarrow> q_finished (rs_queue s))"
proof (induction rule: run_reachable.induct)
  case start
  then show ?case by (simp add: run_start_def)
next
  case (step s s')
  from step(2) step.IH show ?case
    by cases (auto simp: Run_prepare_def Run_enter_def Runner_stop_queue_def Finish_def)
qed

text \<open>
  Destroying a runner whose loop runs in its own thread always ends that loop, whatever the
  order of the destructor and the thread's start: once the destructor has stopped the queue, a
  thread in the loop finds the queue finished, so its next \<open>GetEvent\<close> returns null, and a thread
  that has not entered the loop yet does not enter it.
\<close>

theorem destroyed_runner_stops:
  assumes "run_reachable now s" "rs_stopped s"
  shows "(rs_pc s = Looping \<longrightarrow> GetEvent_iter t (rs_queue s) = Returned None (rs_queue s)) \<and>
    (rs_pc s = Prepared \<longrightarrow> rs_pc (Run_enter s) = Exited) \<and>
    (rs_pc s = NotStarted \<longrightarrow> rs_pc (Run_enter (Run_prepare s)) = Exited)"
  using run_reachable_inv [OF assms(1)] assms(2)
  by (simp add: GetEvent_iter_def Run_enter_def Run_prepare_def)

theorem destroyed_runner_stops_witness:
  "\<exists>s. run_reachable 0 s \<and> rs_pc s = Looping \<and> GetEvent_iter 9 (rs_queue s) = Returned None (rs_queue s)"
proof -
  let ?s1 = "Run_enter (Run_prepare (run_start 0))"
  have "run_reachable 0 ?s1"
    by (intro run_reachable.step [OF _ run_step.enter] run_reachable.step [OF _ run_step.prepare] run_reachable.start)
      (simp_all add: run_start_def Run_prepare_def)
  moreover have "rs_exists ?s1" by (simp add: run_start_def Run_prepare_def Run_enter_def)
  ultimately have "run_reachable 0 (?s1\<lparr>rs_exists := False\<rparr>)"
    by (intro run_reachable.step [OF _ run_step.expire])
  then have r: "run_reachable 0 (Runner_stop_queue (?s1\<lparr>rs_exists := False\<rparr>))"
    by (rule run_reachable.step [OF _ run_step.destroy_stop]) simp
  have "rs_stopped (Runner_stop_queue (?s1\<lparr>rs_exists := False\<rparr>))" "rs_pc (Runner_stop_queue (?s1\<lparr>rs_exists := False\<rparr>)) = Looping"
    by (simp_all add: Runner_stop_queue_def run_start_def Run_prepare_def Run_enter_def)
  with destroyed_runner_stops [OF r, of 9] r show ?thesis by blast
qed

text \<open>
  The stop that \<open>EventRunner::Create\<close> issues after a failed deposit, while the runner object
  exists, is lost when it comes before the new thread has prepared the queue: the thread then
  enters its loop on a queue that is not finished, so the \<open>join\<close> that follows does not return.
\<close>

theorem early_stop_lost:
  "let s = Run_enter (Run_prepare (Runner_stop_queue (run_start now)))
   in rs_stopped s \<and> rs_pc s = Looping \<and> \<not> q_finished (rs_queue s)"
  by (simp add: Let_def Run_enter_def Run_prepare_def Runner_stop_queue_def run_start_def Prepare_def)

end
