(* ===== verification/Skill_Match.thy ===== *)
theory Skill_Match
  imports Std_Map
begin

text \<open>
  Matching a \<open>Want\<close> against the skills of an ability (\<open>inner_bundle_info.cpp\<close>, \<open>Skill\<close>). Regular
  expressions belong to the C++ library: \<open>rx pat s\<close> is \<open>regex_match(s, regex(pat))\<close>, with \<open>None\<close>
  when constructing the expression throws. The reference definitions say in one line each what a
  skill accepts; the theorem relates the code's case analysis to them.
\<close>

type_synonym regex_engine = "string \<Rightarrow> string \<Rightarrow> bool option"

record skill_uri =
  su_scheme :: string
  su_host :: string
  su_port :: string
  su_path :: string
  su_pathStartWith :: string
  su_pathRegex :: string
  su_type :: string

record skill =
  sk_actions :: "string list"
  sk_entities :: "string list"
  sk_uris :: "skill_uri list"

text \<open>The fields of a \<open>Want\<close> that matching and the queries read.\<close>

record want =
  want_bundleName :: string
  want_moduleName :: string
  want_abilityName :: string
  want_deviceId :: string
  want_action :: string
  want_entities :: "string list"
  want_uri :: string
  want_type :: string

definition WILDCARD :: char where "WILDCARD = CHR ''*''"
definition TYPE_WILDCARD :: string where "TYPE_WILDCARD = ''*/*''"
definition SCHEME_SEPARATOR :: string where "SCHEME_SEPARATOR = ''://''"
definition PORT_SEPARATOR :: string where "PORT_SEPARATOR = '':''"
definition PATH_SEPARATOR :: string where "PATH_SEPARATOR = ''/''"

definition MatchAction :: "skill \<Rightarrow> string \<Rightarrow> bool" where
  "MatchAction s action =
     (if sk_actions s = [] then False
      else if action = [] then True
      else action \<in> set (sk_actions s))"

fun all_found :: "string list \<Rightarrow> string list \<Rightarrow> bool" where
  "all_found entities [] = True"
| "all_found entities (p # ps) = (if p \<notin> set entities then False else all_found entities ps)"

definition MatchEntities :: "skill \<Rightarrow> string list \<Rightarrow> bool" where
  "MatchEntities s paramEntities =
     (if paramEntities = [] then True
      else if sk_entities s = [] then False
      else all_found (sk_entities s) paramEntities)"

definition MatchUri :: "regex_engine \<Rightarrow> string \<Rightarrow> skill_uri \<Rightarrow> bool" where
  "MatchUri rx uriString u =
     (if su_scheme u = [] then uriString = []
      else if su_host u = [] then uriString = su_scheme u
      else
        (let base = su_scheme u @ SCHEME_SEPARATOR @ su_host u;
             base = (if su_port u \<noteq> [] then base @ PORT_SEPARATOR @ su_port u else base)
         in if su_path u = [] \<and> su_pathStartWith u = [] \<and> su_pathRegex u = [] then uriString = base
            else
              (let base = base @ PATH_SEPARATOR in
               if su_path u \<noteq> [] \<and> uriString = base @ su_path u then True
               else if su_pathStartWith u \<noteq> [] \<and> find_sub (base @ su_pathStartWith u) uriString = Some 0 then True
               else if su_pathRegex u \<noteq> [] \<and> rx (base @ su_pathRegex u) uriString = Some True then True
               else False)))"

definition MatchType :: "string \<Rightarrow> string \<Rightarrow> bool" where
  "MatchType type skillUriType =
     (if skillUriType = [] then False
      else if type = TYPE_WILDCARD \<or> skillUriType = TYPE_WILDCARD then True
      else if last type = WILDCARD then find_sub (butlast type) skillUriType = Some 0
      else if last skillUriType = WILDCARD then find_sub (butlast skillUriType) type = Some 0
      else type = skillUriType)"

definition MatchUriAndType :: "regex_engine \<Rightarrow> skill \<Rightarrow> string \<Rightarrow> string \<Rightarrow> bool" where
  "MatchUriAndType rx s uriString type =
     (if uriString = [] \<and> type = [] then
        (if sk_uris s = [] then True
         else list_ex (\<lambda>u. su_scheme u = [] \<and> su_type u = []) (sk_uris s))
      else if sk_uris s = [] then False
      else if uriString \<noteq> [] \<and> type = [] then
        list_ex (\<lambda>u. MatchUri rx uriString u \<and> su_type u = []) (sk_uris s)
      else if uriString = [] \<and> type \<noteq> [] then
        list_ex (\<lambda>u. su_scheme u = [] \<and> MatchType type (su_type u)) (sk_uris s)
      else list_ex (\<lambda>u. MatchUri rx uriString u \<and> MatchType type (su_type u)) (sk_uris s))"

definition Match :: "regex_engine \<Rightarrow> skill \<Rightarrow> want \<Rightarrow> bool" where
  "Match rx s w =
     (if \<not> MatchAction s (want_action w) then False
      else if \<not> MatchEntities s (want_entities w) then False
      else if \<not> MatchUriAndType rx s (want_uri w) (want_type w) then False
      else True)"

definition MatchLauncher :: "skill \<Rightarrow> want \<Rightarrow> bool" where
  "MatchLauncher s w =
     (if \<not> MatchAction s (want_action w) then False
      else if \<not> MatchEntities s (want_entities w) then False else True)"

section \<open>Reference definitions\<close>

text \<open>The part of a URI before the path that a skill URI with a host stands for.\<close>

definition uri_base :: "skill_uri \<Rightarrow> string" where
  "uri_base u = su_scheme u @ ''://'' @ su_host u @ (if su_port u = [] then [] else '':'' @ su_port u)"

definition uri_accepts :: "regex_engine \<Rightarrow> skill_uri \<Rightarrow> string \<Rightarrow> bool" where
  "uri_accepts rx u uri \<longleftrightarrow>
     (if su_scheme u = [] then uri = []
      else if su_host u = [] then uri = su_scheme u
      else (su_path u = [] \<and> su_pathStartWith u = [] \<and> su_pathRegex u = [] \<and> uri = uri_base u) \<or>
           (su_path u \<noteq> [] \<and> uri = uri_base u @ ''/'' @ su_path u) \<or>
           (su_pathStartWith u \<noteq> [] \<and> (\<exists>rest. uri = uri_base u @ ''/'' @ su_pathStartWith u @ rest)) \<or>
           (su_pathRegex u \<noteq> [] \<and> rx (uri_base u @ ''/'' @ su_pathRegex u) uri = Some True))"

definition type_accepts :: "string \<Rightarrow> string \<Rightarrow> bool" where
  "type_accepts config type \<longleftrightarrow> config \<noteq> [] \<and>
     (type = ''*/*'' \<or> config = ''*/*'' \<or>
      (\<exists>p rest. type = p @ ''*'' \<and> config = p @ rest) \<or>
      (last type \<noteq> CHR ''*'' \<and> (\<exists>p rest. config = p @ ''*'' \<and> type = p @ rest)) \<or>
      (last type \<noteq> CHR ''*'' \<and> last config \<noteq> CHR ''*'' \<and> type = config))"

definition want_accepted :: "regex_engine \<Rightarrow> skill \<Rightarrow> want \<Rightarrow> bool" where
  "want_accepted rx s w \<longleftrightarrow>
     sk_actions s \<noteq> [] \<and> (want_action w = [] \<or> want_action w \<in> set (sk_actions s)) \<and>
     set (want_entities w) \<subseteq> set (sk_entities s) \<and>
     ((want_uri w = [] \<and> want_type w = [] \<and> sk_uris s = []) \<or>
      (\<exists>u \<in> set (sk_uris s).
         (if want_uri w = [] then su_scheme u = [] else uri_accepts rx u (want_uri w)) \<and>
         (if want_type w = [] then su_type u = [] else type_accepts (su_type u) (want_type w))))"

lemma all_found_subset: "all_found entities ps \<longleftrightarrow> set ps \<subseteq> set entities"
  by (induction ps) auto

lemma find_sub_zero: "find_sub p s = Some 0 \<longleftrightarrow> (\<exists>rest. s = p @ rest)"
  using str_starts_iff [of p s] by (simp add: str_starts_def)

lemma MatchUri_accepts: "MatchUri rx uri u \<longleftrightarrow> uri_accepts rx u uri"
  by (auto simp: MatchUri_def uri_accepts_def uri_base_def find_sub_zero Let_def
      SCHEME_SEPARATOR_def PORT_SEPARATOR_def PATH_SEPARATOR_def)

lemma last_wildcard: "type \<noteq> [] \<Longrightarrow> last type = c \<longleftrightarrow> (\<exists>p. type = p @ [c])"
  by (metis append_butlast_last_id last_snoc)

lemma MatchType_accepts:
  assumes "type \<noteq> []"
  shows "MatchType type config \<longleftrightarrow> type_accepts config type"
proof (cases "config = []")
  case True
  then show ?thesis by (simp add: MatchType_def type_accepts_def)
next
  case False
  have *: "(\<exists>p rest. t = p @ ''*'' \<and> s = p @ rest) \<longleftrightarrow> last t = WILDCARD \<and> (\<exists>rest. s = butlast t @ rest)"
    if "t \<noteq> []" for s t
    using that last_wildcard [OF that, of WILDCARD]
    by (metis WILDCARD_def append_butlast_last_id butlast_snoc)
  show ?thesis
    using False * [OF assms, of config] * [OF False, of type]
    by (auto simp: MatchType_def type_accepts_def find_sub_zero TYPE_WILDCARD_def WILDCARD_def)
qed

text \<open>
  C19: A skill matches a want exactly when the reference definition accepts it: the action is among
  the skill's actions (or not given), every entity of the want is an entity of the skill, and one
  URI entry of the skill accepts both the URI and the type (prefix, exact path, path prefix or
  regular expression; wildcards on either side of the type). The four cases of the code and the
  reference agree on every input.
\<close>

theorem match_iff_accepted: "Match rx s w \<longleftrightarrow> want_accepted rx s w"
proof -
  have ents: "MatchEntities s ps \<longleftrightarrow> set ps \<subseteq> set (sk_entities s)" for ps
    by (auto simp: MatchEntities_def all_found_subset)
  have ut: "MatchUriAndType rx s uri type \<longleftrightarrow>
      (uri = [] \<and> type = [] \<and> sk_uris s = []) \<or>
      (\<exists>u \<in> set (sk_uris s).
         (if uri = [] then su_scheme u = [] else uri_accepts rx u uri) \<and>
         (if type = [] then su_type u = [] else type_accepts (su_type u) type))" for uri type
    using MatchType_accepts [of type] by (auto simp: MatchUriAndType_def list_ex_iff MatchUri_accepts)
  show ?thesis
    unfolding Match_def want_accepted_def ents ut by (auto simp: MatchAction_def)
qed

end
