(* ===== verification/Bundle_Types.thy ===== *)
theory Bundle_Types
  imports Skill_Match
begin

text \<open>
  The data of the bundle manager: the information structures of
  \<open>interfaces/inner_api/appexecfwk_base/include\<close> and of \<open>inner_bundle_info.h\<close> and
  \<open>inner_bundle_user_info.h\<close>, field by field, each with the value of a default-constructed object.
  Fields a constructor leaves uninitialised have a default here that nothing relies on. The names
  carry a prefix per structure: \<open>app_\<close> ApplicationInfo, \<open>ai_\<close> AbilityInfo, \<open>ei_\<close>
  ExtensionAbilityInfo, \<open>hm_\<close> HapModuleInfo, \<open>bi_\<close> BundleInfo, \<open>iu_\<close> InnerBundleUserInfo, \<open>bu_\<close>
  BundleUserInfo, \<open>im_\<close> InnerModuleInfo, \<open>ib_\<close> InnerBundleInfo.
\<close>

section \<open>Constants\<close>

definition START_USERID :: int where "START_USERID = 100"
definition DEFAULT_USERID :: int where "DEFAULT_USERID = 0"
definition INVALID_USERID :: int where "INVALID_USERID = -1"
definition UNSPECIFIED_USERID :: int where "UNSPECIFIED_USERID = -2"
definition ALL_USERID :: int where "ALL_USERID = -3"
definition ANY_USERID :: int where "ANY_USERID = -4"
definition NOT_EXIST_USERID :: int where "NOT_EXIST_USERID = -5"
definition INVALID_UID :: int where "INVALID_UID = -1"
definition INVALID_GID :: int where "INVALID_GID = -1"
definition BASE_APP_UID :: int where "BASE_APP_UID = 10000"
definition BASE_USER_RANGE :: int where "BASE_USER_RANGE = 200000"
definition MAX_APP_UID :: int where "MAX_APP_UID = 65535"
definition INITIAL_APP_INDEX :: int where "INITIAL_APP_INDEX = 0"
definition UNKNOWN_STATUS :: int where "UNKNOWN_STATUS = 8"
definition FILE_UNDERLINE :: string where "FILE_UNDERLINE = ''_''"
definition URI_SEPARATOR :: string where "URI_SEPARATOR = ''://''"
definition URI_SEPARATOR_LEN :: nat where "URI_SEPARATOR_LEN = 3"
definition SEPARATOR :: string where "SEPARATOR = ''/''"

lemmas userid_defs = START_USERID_def DEFAULT_USERID_def INVALID_USERID_def UNSPECIFIED_USERID_def
  ALL_USERID_def ANY_USERID_def NOT_EXIST_USERID_def

definition GET_APPLICATION_INFO_WITH_PERMISSION :: u32 where "GET_APPLICATION_INFO_WITH_PERMISSION = 0x8"
definition GET_APPLICATION_INFO_WITH_METADATA :: u32 where "GET_APPLICATION_INFO_WITH_METADATA = 0x40"
definition GET_APPLICATION_INFO_WITH_DISABLE :: u32 where "GET_APPLICATION_INFO_WITH_DISABLE = 0x200"
definition GET_APPLICATION_INFO_WITH_CERTIFICATE_FINGERPRINT :: u32 where
  "GET_APPLICATION_INFO_WITH_CERTIFICATE_FINGERPRINT = 0x400"
definition GET_ABILITY_INFO_WITH_PERMISSION :: u32 where "GET_ABILITY_INFO_WITH_PERMISSION = 0x2"
definition GET_ABILITY_INFO_WITH_APPLICATION :: u32 where "GET_ABILITY_INFO_WITH_APPLICATION = 0x4"
definition GET_ABILITY_INFO_WITH_METADATA :: u32 where "GET_ABILITY_INFO_WITH_METADATA = 0x20"
definition GET_ABILITY_INFO_SYSTEMAPP_ONLY :: u32 where "GET_ABILITY_INFO_SYSTEMAPP_ONLY = 0x80"
definition GET_ABILITY_INFO_WITH_DISABLE :: u32 where "GET_ABILITY_INFO_WITH_DISABLE = 0x100"
definition GET_EXTENSION_INFO_WITH_PERMISSION :: u32 where "GET_EXTENSION_INFO_WITH_PERMISSION = 0x2"
definition GET_EXTENSION_INFO_WITH_APPLICATION :: u32 where "GET_EXTENSION_INFO_WITH_APPLICATION = 0x4"
definition GET_EXTENSION_INFO_WITH_METADATA :: u32 where "GET_EXTENSION_INFO_WITH_METADATA = 0x20"
definition GET_BUNDLE_WITH_ABILITIES :: u32 where "GET_BUNDLE_WITH_ABILITIES = 0x1"
definition GET_BUNDLE_WITH_REQUESTED_PERMISSION :: u32 where "GET_BUNDLE_WITH_REQUESTED_PERMISSION = 0x10"
definition GET_BUNDLE_WITH_EXTENSION_INFO :: u32 where "GET_BUNDLE_WITH_EXTENSION_INFO = 0x20"
definition GET_BUNDLE_WITH_HASH_VALUE :: u32 where "GET_BUNDLE_WITH_HASH_VALUE = 0x30"

text \<open>\<open>(flags & F) == F\<close>, the test most queries use.\<close>

definition has_flag :: "u32 \<Rightarrow> u32 \<Rightarrow> bool" where
  "has_flag flags f \<longleftrightarrow> flags AND f = f"

section \<open>Structures\<close>

datatype ability_type =
    AbilityType_UNKNOWN
  | AbilityType_PAGE
  | AbilityType_SERVICE
  | AbilityType_DATA
  | AbilityType_FORM
  | AbilityType_EXTENSION

datatype ability_sub_type =
    AbilitySubType_UNSPECIFIED
  | AbilitySubType_CA

datatype display_orientation =
    DisplayOrientation_UNSPECIFIED
  | DisplayOrientation_LANDSCAPE
  | DisplayOrientation_PORTRAIT
  | DisplayOrientation_FOLLOWRECENT

datatype launch_mode =
    LaunchMode_SINGLETON
  | LaunchMode_STANDARD
  | LaunchMode_SINGLETOP
  | LaunchMode_SPECIFIED

datatype extension_ability_type =
    ExtensionAbilityType_FORM
  | ExtensionAbilityType_WORK_SCHEDULER
  | ExtensionAbilityType_INPUTMETHOD
  | ExtensionAbilityType_SERVICE
  | ExtensionAbilityType_ACCESSIBILITY
  | ExtensionAbilityType_DATASHARE
  | ExtensionAbilityType_FILESHARE
  | ExtensionAbilityType_STATICSUBSCRIBER
  | ExtensionAbilityType_WALLPAPER
  | ExtensionAbilityType_BACKUP
  | ExtensionAbilityType_WINDOW
  | ExtensionAbilityType_UNSPECIFIED

datatype module_color_mode =
    ModuleColorMode_AUTO
  | ModuleColorMode_DARK
  | ModuleColorMode_LIGHT

datatype module_type =
    ModuleType_UNKNOWN
  | ModuleType_ENTRY
  | ModuleType_FEATURE
  | ModuleType_HAR

datatype forms_color_mode =
    FormsColorMode_AUTO_MODE
  | FormsColorMode_DARK_MODE
  | FormsColorMode_LIGHT_MODE

datatype form_type =
    FormType_JAVA
  | FormType_JS

record metadata_item =
  md_name :: string
  md_value :: string
  md_resource :: string

definition new_Metadata :: metadata_item where
  "new_Metadata = \<lparr>
    md_name = [], md_value = [], md_resource = [] \<rparr>"

record customize_data =
  cd_name :: string
  cd_value :: string
  cd_extra :: string

definition new_CustomizeData :: customize_data where
  "new_CustomizeData = \<lparr>
    cd_name = [], cd_value = [], cd_extra = [] \<rparr>"

record meta_data =
  mt_customizeData :: "customize_data list"

definition new_MetaData :: meta_data where
  "new_MetaData = \<lparr>
    mt_customizeData = [] \<rparr>"

record module_info =
  mi_moduleName :: string
  mi_moduleSourceDir :: string

definition new_ModuleInfo :: module_info where
  "new_ModuleInfo = \<lparr>
    mi_moduleName = [], mi_moduleSourceDir = [] \<rparr>"

record application_info =
  app_name :: string
  app_bundleName :: string
  app_versionCode :: u32
  app_versionName :: string
  app_minCompatibleVersionCode :: int
  app_apiCompatibleVersion :: u32
  app_apiTargetVersion :: int
  app_iconPath :: string
  app_iconId :: int
  app_label :: string
  app_labelId :: int
  app_description :: string
  app_descriptionId :: int
  app_keepAlive :: bool
  app_removable :: bool
  app_singleton :: bool
  app_userDataClearable :: bool
  app_accessible :: bool
  app_isSystemApp :: bool
  app_isLauncherApp :: bool
  app_isFreeInstallApp :: bool
  app_codePath :: string
  app_dataDir :: string
  app_dataBaseDir :: string
  app_cacheDir :: string
  app_entryDir :: string
  app_apiReleaseType :: string
  app_debug :: bool
  app_deviceId :: string
  app_distributedNotificationEnabled :: bool
  app_entityType :: string
  app_process :: string
  app_supportedModes :: int
  app_vendor :: string
  app_appPrivilegeLevel :: string
  app_accessTokenId :: u32
  app_enabled :: bool
  app_uid :: int
  app_nativeLibraryPath :: string
  app_cpuAbi :: string
  app_permissions :: "string list"
  app_moduleSourceDirs :: "string list"
  app_moduleInfos :: "module_info list"
  app_metaData :: "(string, customize_data list) smap"
  app_metadata :: "(string, metadata_item list) smap"
  app_targetBundleList :: "string list"
  app_isCloned :: bool
  app_fingerprint :: string
  app_icon :: string
  app_flags :: int
  app_entryModuleName :: string
  app_isCompressNativeLibs :: bool
  app_signatureKey :: string

definition new_ApplicationInfo :: application_info where
  "new_ApplicationInfo = \<lparr>
    app_name = [], app_bundleName = [], app_versionCode = 0, app_versionName = [],
    app_minCompatibleVersionCode = 0, app_apiCompatibleVersion = 0, app_apiTargetVersion = 0,
    app_iconPath = [], app_iconId = 0, app_label = [], app_labelId = 0, app_description = [],
    app_descriptionId = 0, app_keepAlive = False, app_removable = True, app_singleton = False,
    app_userDataClearable = True, app_accessible = False, app_isSystemApp = False,
    app_isLauncherApp = False, app_isFreeInstallApp = False, app_codePath = [],
    app_dataDir = [], app_dataBaseDir = [], app_cacheDir = [], app_entryDir = [],
    app_apiReleaseType = [], app_debug = False, app_deviceId = [],
    app_distributedNotificationEnabled = True, app_entityType = [], app_process = [],
    app_supportedModes = 0, app_vendor = [], app_appPrivilegeLevel = ''normal'',
    app_accessTokenId = 0, app_enabled = False, app_uid = -1, app_nativeLibraryPath = [],
    app_cpuAbi = [], app_permissions = [], app_moduleSourceDirs = [], app_moduleInfos = [],
    app_metaData = [], app_metadata = [], app_targetBundleList = [], app_isCloned = False,
    app_fingerprint = [], app_icon = [], app_flags = 0, app_entryModuleName = [],
    app_isCompressNativeLibs = True, app_signatureKey = [] \<rparr>"

record ability_info =
  ai_name :: string
  ai_label :: string
  ai_description :: string
  ai_iconPath :: string
  ai_labelId :: int
  ai_descriptionId :: int
  ai_iconId :: int
  ai_theme :: string
  ai_visible :: bool
  ai_kind :: string
  ai_type :: ability_type
  ai_extensionAbilityType :: extension_ability_type
  ai_orientation :: display_orientation
  ai_launchMode :: launch_mode
  ai_srcPath :: string
  ai_srcLanguage :: string
  ai_permissions :: "string list"
  ai_process :: string
  ai_deviceTypes :: "string list"
  ai_deviceCapabilities :: "string list"
  ai_uri :: string
  ai_targetAbility :: string
  ai_applicationInfo :: application_info
  ai_isLauncherAbility :: bool
  ai_isNativeAbility :: bool
  ai_enabled :: bool
  ai_supportPipMode :: bool
  ai_formEnabled :: bool
  ai_removeMissionAfterTerminate :: bool
  ai_readPermission :: string
  ai_writePermission :: string
  ai_configChanges :: "string list"
  ai_formEntity :: u32
  ai_minFormHeight :: int
  ai_defaultFormHeight :: int
  ai_minFormWidth :: int
  ai_defaultFormWidth :: int
  ai_metaData :: meta_data
  ai_backgroundModes :: u32
  ai_package :: string
  ai_bundleName :: string
  ai_moduleName :: string
  ai_applicationName :: string
  ai_codePath :: string
  ai_resourcePath :: string
  ai_srcEntrance :: string
  ai_metadata :: "metadata_item list"
  ai_isModuleJson :: bool
  ai_isStageBasedModel :: bool
  ai_continuable :: bool
  ai_priority :: int
  ai_startWindowIcon :: string
  ai_startWindowIconId :: int
  ai_startWindowBackground :: string
  ai_startWindowBackgroundId :: int
  ai_originalBundleName :: string
  ai_appName :: string
  ai_privacyUrl :: string
  ai_privacyName :: string
  ai_downloadUrl :: string
  ai_versionName :: string
  ai_className :: string
  ai_originalClassName :: string
  ai_uriPermissionMode :: string
  ai_uriPermissionPath :: string
  ai_packageSize :: u32
  ai_multiUserShared :: bool
  ai_grantPermission :: bool
  ai_directLaunch :: bool
  ai_subType :: ability_sub_type
  ai_libPath :: string
  ai_deviceId :: string

definition new_AbilityInfo :: ability_info where
  "new_AbilityInfo = \<lparr>
    ai_name = [], ai_label = [], ai_description = [], ai_iconPath = [], ai_labelId = 0,
    ai_descriptionId = 0, ai_iconId = 0, ai_theme = [], ai_visible = False, ai_kind = [],
    ai_type = AbilityType_UNKNOWN, ai_extensionAbilityType = ExtensionAbilityType_UNSPECIFIED,
    ai_orientation = DisplayOrientation_UNSPECIFIED, ai_launchMode = LaunchMode_SINGLETON,
    ai_srcPath = [], ai_srcLanguage = ''js'', ai_permissions = [], ai_process = [],
    ai_deviceTypes = [], ai_deviceCapabilities = [], ai_uri = [], ai_targetAbility = [],
    ai_applicationInfo = new_ApplicationInfo, ai_isLauncherAbility = False,
    ai_isNativeAbility = False, ai_enabled = False, ai_supportPipMode = False,
    ai_formEnabled = False, ai_removeMissionAfterTerminate = False, ai_readPermission = [],
    ai_writePermission = [], ai_configChanges = [], ai_formEntity = 0, ai_minFormHeight = 0,
    ai_defaultFormHeight = 0, ai_minFormWidth = 0, ai_defaultFormWidth = 0,
    ai_metaData = new_MetaData, ai_backgroundModes = 0, ai_package = [], ai_bundleName = [],
    ai_moduleName = [], ai_applicationName = [], ai_codePath = [], ai_resourcePath = [],
    ai_srcEntrance = [], ai_metadata = [], ai_isModuleJson = False,
    ai_isStageBasedModel = False, ai_continuable = False, ai_priority = 0,
    ai_startWindowIcon = [], ai_startWindowIconId = 0, ai_startWindowBackground = [],
    ai_startWindowBackgroundId = 0, ai_originalBundleName = [], ai_appName = [],
    ai_privacyUrl = [], ai_privacyName = [], ai_downloadUrl = [], ai_versionName = [],
    ai_className = [], ai_originalClassName = [], ai_uriPermissionMode = [],
    ai_uriPermissionPath = [], ai_packageSize = 0, ai_multiUserShared = False,
    ai_grantPermission = False, ai_directLaunch = True, ai_subType = AbilitySubType_UNSPECIFIED,
    ai_libPath = [], ai_deviceId = [] \<rparr>"

record extension_ability_info =
  ei_bundleName :: string
  ei_moduleName :: string
  ei_name :: string
  ei_srcEntrance :: string
  ei_icon :: string
  ei_iconId :: int
  ei_label :: string
  ei_labelId :: int
  ei_description :: string
  ei_descriptionId :: int
  ei_priority :: int
  ei_permissions :: "string list"
  ei_readPermission :: string
  ei_writePermission :: string
  ei_uri :: string
  ei_type :: extension_ability_type
  ei_visible :: bool
  ei_metadata :: "metadata_item list"
  ei_applicationInfo :: application_info
  ei_resourcePath :: string
  ei_enabled :: bool
  ei_process :: string

definition new_ExtensionAbilityInfo :: extension_ability_info where
  "new_ExtensionAbilityInfo = \<lparr>
    ei_bundleName = [], ei_moduleName = [], ei_name = [], ei_srcEntrance = [], ei_icon = [],
    ei_iconId = 0, ei_label = [], ei_labelId = 0, ei_description = [], ei_descriptionId = 0,
    ei_priority = 0, ei_permissions = [], ei_readPermission = [], ei_writePermission = [],
    ei_uri = [], ei_type = ExtensionAbilityType_FORM, ei_visible = False, ei_metadata = [],
    ei_applicationInfo = new_ApplicationInfo, ei_resourcePath = [], ei_enabled = True,
    ei_process = [] \<rparr>"

record hap_module_info =
  hm_name :: string
  hm_moduleName :: string
  hm_description :: string
  hm_descriptionId :: int
  hm_iconPath :: string
  hm_label :: string
  hm_labelId :: int
  hm_backgroundImg :: string
  hm_mainAbility :: string
  hm_srcPath :: string
  hm_hashValue :: string
  hm_hapPath :: string
  hm_supportedModes :: int
  hm_reqCapabilities :: "string list"
  hm_deviceTypes :: "string list"
  hm_dependencies :: "string list"
  hm_abilityInfos :: "ability_info list"
  hm_colorMode :: module_color_mode
  hm_bundleName :: string
  hm_mainElementName :: string
  hm_pages :: string
  hm_process :: string
  hm_resourcePath :: string
  hm_srcEntrance :: string
  hm_uiSyntax :: string
  hm_virtualMachine :: string
  hm_deliveryWithInstall :: bool
  hm_installationFree :: bool
  hm_isModuleJson :: bool
  hm_isStageBasedModel :: bool
  hm_isRemovable :: "(string, bool) smap"
  hm_moduleType :: module_type
  hm_extensionInfos :: "extension_ability_info list"
  hm_metadata :: "metadata_item list"
  hm_upgradeFlag :: int

definition new_HapModuleInfo :: hap_module_info where
  "new_HapModuleInfo = \<lparr>
    hm_name = [], hm_moduleName = [], hm_description = [], hm_descriptionId = 0,
    hm_iconPath = [], hm_label = [], hm_labelId = 0, hm_backgroundImg = [], hm_mainAbility = [],
    hm_srcPath = [], hm_hashValue = [], hm_hapPath = [], hm_supportedModes = 0,
    hm_reqCapabilities = [], hm_deviceTypes = [], hm_dependencies = [], hm_abilityInfos = [],
    hm_colorMode = ModuleColorMode_AUTO, hm_bundleName = [], hm_mainElementName = [],
    hm_pages = [], hm_process = [], hm_resourcePath = [], hm_srcEntrance = [], hm_uiSyntax = [],
    hm_virtualMachine = [], hm_deliveryWithInstall = False, hm_installationFree = False,
    hm_isModuleJson = False, hm_isStageBasedModel = False, hm_isRemovable = [],
    hm_moduleType = ModuleType_UNKNOWN, hm_extensionInfos = [], hm_metadata = [],
    hm_upgradeFlag = 0 \<rparr>"

record request_permission_used_scene =
  us_abilities :: "string list"
  us_when :: string

definition new_RequestPermissionUsedScene :: request_permission_used_scene where
  "new_RequestPermissionUsedScene = \<lparr>
    us_abilities = [], us_when = [] \<rparr>"

record request_permission =
  rp_name :: string
  rp_reason :: string
  rp_reasonId :: int
  rp_usedScene :: request_permission_used_scene

definition new_RequestPermission :: request_permission where
  "new_RequestPermission = \<lparr>
    rp_name = [], rp_reason = [], rp_reasonId = 0, rp_usedScene = new_RequestPermissionUsedScene \<rparr>"

record bundle_info =
  bi_name :: string
  bi_versionCode :: u32
  bi_versionName :: string
  bi_minCompatibleVersionCode :: u32
  bi_compatibleVersion :: u32
  bi_targetVersion :: u32
  bi_isKeepAlive :: bool
  bi_singleton :: bool
  bi_isPreInstallApp :: bool
  bi_vendor :: string
  bi_releaseType :: string
  bi_isNativeApp :: bool
  bi_mainEntry :: string
  bi_entryModuleName :: string
  bi_entryInstallationFree :: bool
  bi_appId :: string
  bi_uid :: int
  bi_gid :: int
  bi_installTime :: int
  bi_updateTime :: int
  bi_applicationInfo :: application_info
  bi_abilityInfos :: "ability_info list"
  bi_extensionInfos :: "extension_ability_info list"
  bi_hapModuleInfos :: "hap_module_info list"
  bi_hapModuleNames :: "string list"
  bi_moduleNames :: "string list"
  bi_modulePublicDirs :: "string list"
  bi_moduleDirs :: "string list"
  bi_moduleResPaths :: "string list"
  bi_reqPermissions :: "string list"
  bi_defPermissions :: "string list"
  bi_reqPermissionStates :: "int list"
  bi_reqPermissionDetails :: "request_permission list"
  bi_cpuAbi :: string
  bi_seInfo :: string
  bi_label :: string
  bi_description :: string
  bi_jointUserId :: string
  bi_minSdkVersion :: int
  bi_maxSdkVersion :: int
  bi_isDifferentName :: bool

definition new_BundleInfo :: bundle_info where
  "new_BundleInfo = \<lparr>
    bi_name = [], bi_versionCode = 0, bi_versionName = [], bi_minCompatibleVersionCode = 0,
    bi_compatibleVersion = 0, bi_targetVersion = 0, bi_isKeepAlive = False,
    bi_singleton = False, bi_isPreInstallApp = False, bi_vendor = [], bi_releaseType = [],
    bi_isNativeApp = False, bi_mainEntry = [], bi_entryModuleName = [],
    bi_entryInstallationFree = False, bi_appId = [], bi_uid = -1, bi_gid = -1,
    bi_installTime = 0, bi_updateTime = 0, bi_applicationInfo = new_ApplicationInfo,
    bi_abilityInfos = [], bi_extensionInfos = [], bi_hapModuleInfos = [],
    bi_hapModuleNames = [], bi_moduleNames = [], bi_modulePublicDirs = [], bi_moduleDirs = [],
    bi_moduleResPaths = [], bi_reqPermissions = [], bi_defPermissions = [],
    bi_reqPermissionStates = [], bi_reqPermissionDetails = [], bi_cpuAbi = [], bi_seInfo = [],
    bi_label = [], bi_description = [], bi_jointUserId = [], bi_minSdkVersion = -1,
    bi_maxSdkVersion = -1, bi_isDifferentName = False \<rparr>"

record common_event_info =
  ce_name :: string
  ce_bundleName :: string
  ce_uid :: int
  ce_permission :: string
  ce_data :: "string list"
  ce_type :: "string list"
  ce_events :: "string list"

definition new_CommonEventInfo :: common_event_info where
  "new_CommonEventInfo = \<lparr>
    ce_name = [], ce_bundleName = [], ce_uid = -1, ce_permission = [], ce_data = [],
    ce_type = [], ce_events = [] \<rparr>"

record form_window =
  fw_designWidth :: int
  fw_autoDesignWidth :: bool

definition new_FormWindow :: form_window where
  "new_FormWindow = \<lparr>
    fw_designWidth = 720, fw_autoDesignWidth = False \<rparr>"

record form_customize_data =
  fc_name :: string
  fc_value :: string

definition new_FormCustomizeData :: form_customize_data where
  "new_FormCustomizeData = \<lparr>
    fc_name = [], fc_value = [] \<rparr>"

record form_info =
  fi_package :: string
  fi_bundleName :: string
  fi_originalBundleName :: string
  fi_relatedBundleName :: string
  fi_moduleName :: string
  fi_abilityName :: string
  fi_name :: string
  fi_description :: string
  fi_jsComponentName :: string
  fi_deepLink :: string
  fi_formConfigAbility :: string
  fi_scheduledUpdateTime :: string
  fi_src :: string
  fi_window :: form_window
  fi_descriptionId :: int
  fi_updateDuration :: int
  fi_defaultDimension :: int
  fi_defaultFlag :: bool
  fi_formVisibleNotify :: bool
  fi_updateEnabled :: bool
  fi_type :: form_type
  fi_supportDimensions :: "int list"
  fi_colorMode :: forms_color_mode
  fi_landscapeLayouts :: "string list"
  fi_portraitLayouts :: "string list"
  fi_customizeDatas :: "form_customize_data list"

definition new_FormInfo :: form_info where
  "new_FormInfo = \<lparr>
    fi_package = [], fi_bundleName = [], fi_originalBundleName = [], fi_relatedBundleName = [],
    fi_moduleName = [], fi_abilityName = [], fi_name = [], fi_description = [],
    fi_jsComponentName = [], fi_deepLink = [], fi_formConfigAbility = [],
    fi_scheduledUpdateTime = [], fi_src = [], fi_window = new_FormWindow, fi_descriptionId = 0,
    fi_updateDuration = 0, fi_defaultDimension = 0, fi_defaultFlag = False,
    fi_formVisibleNotify = False, fi_updateEnabled = False, fi_type = FormType_JS,
    fi_supportDimensions = [], fi_colorMode = FormsColorMode_AUTO_MODE,
    fi_landscapeLayouts = [], fi_portraitLayouts = [], fi_customizeDatas = [] \<rparr>"

record shortcut_intent =
  sn_targetBundle :: string
  sn_targetClass :: string

definition new_ShortcutIntent :: shortcut_intent where
  "new_ShortcutIntent = \<lparr>
    sn_targetBundle = [], sn_targetClass = [] \<rparr>"

record shortcut_info =
  si_id :: string
  si_bundleName :: string
  si_hostAbility :: string
  si_iconId :: int
  si_labelId :: int
  si_icon :: string
  si_label :: string
  si_disableMessage :: string
  si_intents :: "shortcut_intent list"
  si_isStatic :: bool
  si_isHomeShortcut :: bool
  si_isEnables :: bool

definition new_ShortcutInfo :: shortcut_info where
  "new_ShortcutInfo = \<lparr>
    si_id = [], si_bundleName = [], si_hostAbility = [], si_iconId = 0, si_labelId = 0,
    si_icon = [], si_label = [], si_disableMessage = [], si_intents = [], si_isStatic = False,
    si_isHomeShortcut = False, si_isEnables = False \<rparr>"

record bundle_user_info =
  bu_userId :: int
  bu_enabled :: bool
  bu_disabledAbilities :: "string list"

definition new_BundleUserInfo :: bundle_user_info where
  "new_BundleUserInfo = \<lparr>
    bu_userId = INVALID_USERID, bu_enabled = True, bu_disabledAbilities = [] \<rparr>"

record inner_bundle_user_info =
  iu_bundleUserInfo :: bundle_user_info
  iu_uid :: int
  iu_gids :: "int list"
  iu_accessTokenId :: u32
  iu_bundleName :: string
  iu_installTime :: int
  iu_updateTime :: int

definition new_InnerBundleUserInfo :: inner_bundle_user_info where
  "new_InnerBundleUserInfo = \<lparr>
    iu_bundleUserInfo = new_BundleUserInfo, iu_uid = INVALID_UID, iu_gids = [],
    iu_accessTokenId = 0, iu_bundleName = [], iu_installTime = 0, iu_updateTime = 0 \<rparr>"

record distro =
  di_deliveryWithInstall :: bool
  di_moduleName :: string
  di_moduleType :: string
  di_installationFree :: bool

definition new_Distro :: distro where
  "new_Distro = \<lparr>
    di_deliveryWithInstall = False, di_moduleName = [], di_moduleType = [],
    di_installationFree = False \<rparr>"

record define_permission =
  dp_name :: string
  dp_grantMode :: string
  dp_availableLevel :: string
  dp_availableScope :: "string list"
  dp_provisionEnable :: bool
  dp_distributedSceneEnable :: bool
  dp_label :: string
  dp_labelId :: int
  dp_description :: string
  dp_descriptionId :: int

definition new_DefinePermission :: define_permission where
  "new_DefinePermission = \<lparr>
    dp_name = [], dp_grantMode = ''system_grant'', dp_availableLevel = ''normal'',
    dp_availableScope = [], dp_provisionEnable = True, dp_distributedSceneEnable = False,
    dp_label = [], dp_labelId = 0, dp_description = [], dp_descriptionId = 0 \<rparr>"

record inner_module_info =
  im_modulePackage :: string
  im_moduleName :: string
  im_modulePath :: string
  im_moduleDataDir :: string
  im_moduleResPath :: string
  im_label :: string
  im_hapPath :: string
  im_labelId :: int
  im_description :: string
  im_descriptionId :: int
  im_mainAbility :: string
  im_entryAbilityKey :: string
  im_srcPath :: string
  im_hashValue :: string
  im_isEntry :: bool
  im_installationFree :: bool
  im_isRemovable :: "(string, bool) smap"
  im_metaData :: meta_data
  im_colorMode :: module_color_mode
  im_distro :: distro
  im_reqCapabilities :: "string list"
  im_defPermissions :: "define_permission list"
  im_abilityKeys :: "string list"
  im_skillKeys :: "string list"
  im_pages :: string
  im_process :: string
  im_srcEntrance :: string
  im_uiSyntax :: string
  im_virtualMachine :: string
  im_isModuleJson :: bool
  im_isStageBasedModel :: bool
  im_definePermissions :: "define_permission list"
  im_requestPermissions :: "request_permission list"
  im_deviceTypes :: "string list"
  im_extensionKeys :: "string list"
  im_extensionSkillKeys :: "string list"
  im_metadata :: "metadata_item list"
  im_upgradeFlag :: int
  im_dependencies :: "string list"

definition new_InnerModuleInfo :: inner_module_info where
  "new_InnerModuleInfo = \<lparr>
    im_modulePackage = [], im_moduleName = [], im_modulePath = [], im_moduleDataDir = [],
    im_moduleResPath = [], im_label = [], im_hapPath = [], im_labelId = 0, im_description = [],
    im_descriptionId = 0, im_mainAbility = [], im_entryAbilityKey = [], im_srcPath = [],
    im_hashValue = [], im_isEntry = False, im_installationFree = False, im_isRemovable = [],
    im_metaData = new_MetaData, im_colorMode = ModuleColorMode_AUTO, im_distro = new_Distro,
    im_reqCapabilities = [], im_defPermissions = [], im_abilityKeys = [], im_skillKeys = [],
    im_pages = [], im_process = [], im_srcEntrance = [], im_uiSyntax = [],
    im_virtualMachine = [], im_isModuleJson = False, im_isStageBasedModel = False,
    im_definePermissions = [], im_requestPermissions = [], im_deviceTypes = [],
    im_extensionKeys = [], im_extensionSkillKeys = [], im_metadata = [], im_upgradeFlag = 0,
    im_dependencies = [] \<rparr>"

record install_mark =
  mk_bundleName :: string
  mk_packageName :: string
  mk_status :: int

definition new_InstallMark :: install_mark where
  "new_InstallMark = \<lparr>
    mk_bundleName = [], mk_packageName = [], mk_status = UNKNOWN_STATUS \<rparr>"

record sandbox_app_persistent_info =
  sp_accessTokenId :: u32
  sp_appIndex :: int
  sp_userId :: int

definition new_SandboxAppPersistentInfo :: sandbox_app_persistent_info where
  "new_SandboxAppPersistentInfo = \<lparr>
    sp_accessTokenId = 0, sp_appIndex = 0, sp_userId = INVALID_USERID \<rparr>"

section \<open>Pack information\<close>

record pack_version =
  ver_code :: u32
  ver_name :: string
  ver_minCompatibleVersionCode :: u32

definition new_Version :: pack_version where
  "new_Version = \<lparr>
    ver_code = 0, ver_name = [], ver_minCompatibleVersionCode = 0 \<rparr>"

record package_app =
  pa_bundleName :: string
  pa_version :: pack_version

definition new_PackageApp :: package_app where
  "new_PackageApp = \<lparr>
    pa_bundleName = [], pa_version = new_Version \<rparr>"

record ability_form_info =
  afi_name :: string
  afi_type :: string
  afi_updateEnabled :: bool
  afi_scheduledUpdateTime :: string
  afi_updateDuration :: u32
  afi_supportDimensions :: "string list"
  afi_defaultDimension :: string

definition new_AbilityFormInfo :: ability_form_info where
  "new_AbilityFormInfo = \<lparr>
    afi_name = [], afi_type = [], afi_updateEnabled = False, afi_scheduledUpdateTime = [],
    afi_updateDuration = 0, afi_supportDimensions = [], afi_defaultDimension = [] \<rparr>"

record module_ability_info =
  mai_name :: string
  mai_label :: string
  mai_visible :: bool
  mai_forms :: "ability_form_info list"

definition new_ModuleAbilityInfo :: module_ability_info where
  "new_ModuleAbilityInfo = \<lparr>
    mai_name = [], mai_label = [], mai_visible = False, mai_forms = [] \<rparr>"

record module_distro =
  mdi_moduleType :: string
  mdi_moduleName :: string
  mdi_installationFree :: bool
  mdi_deliveryWithInstall :: bool

definition new_ModuleDistro :: module_distro where
  "new_ModuleDistro = \<lparr>
    mdi_moduleType = [], mdi_moduleName = [], mdi_installationFree = False,
    mdi_deliveryWithInstall = False \<rparr>"

record api_version =
  av_compatible :: u32
  av_releaseType :: string
  av_target :: u32

definition new_ApiVersion :: api_version where
  "new_ApiVersion = \<lparr>
    av_compatible = 0, av_releaseType = [], av_target = 0 \<rparr>"

record extension_abilities =
  ea_name :: string
  ea_forms :: "ability_form_info list"

definition new_ExtensionAbilities :: extension_abilities where
  "new_ExtensionAbilities = \<lparr>
    ea_name = [], ea_forms = [] \<rparr>"

record package_module =
  pm_mainAbility :: string
  pm_deviceType :: "string list"
  pm_abilities :: "module_ability_info list"
  pm_extensionAbilities :: "extension_abilities list"
  pm_distro :: module_distro
  pm_apiVersion :: api_version

definition new_PackageModule :: package_module where
  "new_PackageModule = \<lparr>
    pm_mainAbility = [], pm_deviceType = [], pm_abilities = [], pm_extensionAbilities = [],
    pm_distro = new_ModuleDistro, pm_apiVersion = new_ApiVersion \<rparr>"

record pack_summary =
  sum_app :: package_app
  sum_modules :: "package_module list"

definition new_Summary :: pack_summary where
  "new_Summary = \<lparr>
    sum_app = new_PackageApp, sum_modules = [] \<rparr>"

record pack_packages =
  pkg_deviceType :: "string list"
  pkg_moduleType :: string
  pkg_deliveryWithInstall :: bool
  pkg_name :: string

definition new_Packages :: pack_packages where
  "new_Packages = \<lparr>
    pkg_deviceType = [], pkg_moduleType = [], pkg_deliveryWithInstall = False, pkg_name = [] \<rparr>"

record bundle_pack_info =
  bp_summary :: pack_summary
  bp_packages :: "pack_packages list"
  bp_isValid :: bool

definition new_BundlePackInfo :: bundle_pack_info where
  "new_BundlePackInfo = \<lparr>
    bp_summary = new_Summary, bp_packages = [], bp_isValid = False \<rparr>"

section \<open>InnerBundleInfo\<close>

datatype app_type = AppType_SYSTEM_APP | AppType_THIRD_SYSTEM_APP | AppType_THIRD_PARTY_APP

datatype bundle_status = BundleStatus_ENABLED | BundleStatus_DISABLED

text \<open>The members of \<open>InnerBundleInfo\<close>.\<close>

record inner_bundle_info =
  ib_appType :: app_type
  ib_uid :: int
  ib_gid :: int
  ib_userId :: int
  ib_baseDataDir :: string
  ib_bundleStatus :: bundle_status
  ib_baseApplicationInfo :: application_info
  ib_baseBundleInfo :: bundle_info
  ib_appFeature :: string
  ib_allowedAcls :: "string list"
  ib_mark :: install_mark
  ib_appIndex :: int
  ib_isSandboxApp :: bool
  ib_currentPackage :: string
  ib_newBundleName :: string
  ib_onlyCreateBundleUser :: bool
  ib_innerModuleInfos :: "(string, inner_module_info) smap"
  ib_formInfos :: "(string, form_info list) smap"
  ib_commonEvents :: "(string, common_event_info) smap"
  ib_shortcutInfos :: "(string, shortcut_info) smap"
  ib_baseAbilityInfos :: "(string, ability_info) smap"
  ib_skillInfos :: "(string, skill list) smap"
  ib_innerBundleUserInfos :: "(string, inner_bundle_user_info) smap"
  ib_bundlePackInfo :: bundle_pack_info
  ib_isNewVersion :: bool
  ib_upgradeFlag :: int
  ib_baseExtensionInfos :: "(string, extension_ability_info) smap"
  ib_extensionSkillInfos :: "(string, skill list) smap"
  ib_sandboxPersistentInfo :: "sandbox_app_persistent_info list"

definition new_InnerBundleInfo :: inner_bundle_info where
  "new_InnerBundleInfo = \<lparr>
    ib_appType = AppType_THIRD_PARTY_APP, ib_uid = INVALID_UID, ib_gid = INVALID_GID, ib_userId = DEFAULT_USERID, ib_baseDataDir = [],
    ib_bundleStatus = BundleStatus_ENABLED, ib_baseApplicationInfo = new_ApplicationInfo,
    ib_baseBundleInfo = new_BundleInfo, ib_appFeature = [], ib_allowedAcls = [],
    ib_mark = new_InstallMark, ib_appIndex = INITIAL_APP_INDEX, ib_isSandboxApp = False,
    ib_currentPackage = [], ib_newBundleName = [], ib_onlyCreateBundleUser = False,
    ib_innerModuleInfos = [], ib_formInfos = [], ib_commonEvents = [], ib_shortcutInfos = [],
    ib_baseAbilityInfos = [], ib_skillInfos = [], ib_innerBundleUserInfos = [],
    ib_bundlePackInfo = new_BundlePackInfo, ib_isNewVersion = False, ib_upgradeFlag = 0, ib_baseExtensionInfos = [],
    ib_extensionSkillInfos = [], ib_sandboxPersistentInfo = [] \<rparr>"

record pre_install_bundle_info =
  pi_bundleName :: string
  pi_versionCode :: u32
  pi_bundlePaths :: "string list"
  pi_appType :: app_type

end
