(* ===== verification/Inner_Bundle_Info.thy ===== *)
theory Inner_Bundle_Info
  imports Bundle_Types
begin

text \<open>
  The operations of \<open>InnerBundleInfo\<close> (\<open>inner_bundle_info.cpp\<close>, \<open>inner_bundle_info.h\<close>): the modules
  of a bundle and what they contribute (abilities, extensions, skills, forms, shortcuts, common
  events), the per-user information, what may be removed for which user, and the views handed out
  as \<open>ApplicationInfo\<close>, \<open>HapModuleInfo\<close> and \<open>BundleInfo\<close>. An output parameter of the C++ code is an
  argument and a result, since a failing call leaves it as it was.
\<close>

section \<open>Keys\<close>

definition NameAndUserIdToKey :: "string \<Rightarrow> int \<Rightarrow> string" where
  "NameAndUserIdToKey bundleName userId = bundleName @ FILE_UNDERLINE @ to_string userId"

definition GetBundleName :: "inner_bundle_info \<Rightarrow> string" where
  "GetBundleName i = app_bundleName (ib_baseApplicationInfo i)"

section \<open>Members\<close>

definition SetBundleStatus :: "bundle_status \<Rightarrow> inner_bundle_info \<Rightarrow> inner_bundle_info" where
  "SetBundleStatus st i = i\<lparr>ib_bundleStatus := st\<rparr>"

definition IsDisabled :: "inner_bundle_info \<Rightarrow> bool" where
  "IsDisabled i \<longleftrightarrow> ib_bundleStatus i = BundleStatus_DISABLED"

definition IsSystemApp :: "inner_bundle_info \<Rightarrow> bool" where
  "IsSystemApp i = app_isSystemApp (ib_baseApplicationInfo i)"

definition SetAppType :: "app_type \<Rightarrow> inner_bundle_info \<Rightarrow> inner_bundle_info" where
  "SetAppType t i = i\<lparr>ib_appType := t,
     ib_baseApplicationInfo := (ib_baseApplicationInfo i)\<lparr>app_isSystemApp := (t = AppType_SYSTEM_APP)\<rparr>\<rparr>"

definition SetAppPrivilegeLevel :: "string \<Rightarrow> inner_bundle_info \<Rightarrow> inner_bundle_info" where
  "SetAppPrivilegeLevel level i =
     (if level = [] then i
      else i\<lparr>ib_baseApplicationInfo := (ib_baseApplicationInfo i)\<lparr>app_appPrivilegeLevel := level\<rparr>\<rparr>)"

definition GetDBKeyBundleName :: "inner_bundle_info \<Rightarrow> string" where
  "GetDBKeyBundleName i =
     (if \<not> app_isCloned (ib_baseApplicationInfo i) then app_bundleName (ib_baseApplicationInfo i)
      else ib_newBundleName i)"

text \<open>\<open>substr\<close> with a position past the end throws, which is the value \<open>None\<close>.\<close>

definition GetProvisionId :: "inner_bundle_info \<Rightarrow> string option" where
  "GetProvisionId i =
     (let appId = bi_appId (ib_baseBundleInfo i); pos = length (bi_name (ib_baseBundleInfo i)) + 1 in
      if appId = [] then Some [] else if length appId < pos then None else Some (drop pos appId))"

fun erase_first :: "('a \<Rightarrow> bool) \<Rightarrow> 'a list \<Rightarrow> 'a list" where
  "erase_first P [] = []"
| "erase_first P (x # xs) = (if P x then xs else x # erase_first P xs)"

definition AddSandboxPersistentInfo :: "sandbox_app_persistent_info \<Rightarrow> inner_bundle_info \<Rightarrow> inner_bundle_info" where
  "AddSandboxPersistentInfo s i =
     i\<lparr>ib_sandboxPersistentInfo :=
         erase_first (\<lambda>x. sp_appIndex x = sp_appIndex s) (ib_sandboxPersistentInfo i) @ [s]\<rparr>"

definition RemoveSandboxPersistentInfo :: "sandbox_app_persistent_info \<Rightarrow> inner_bundle_info \<Rightarrow> inner_bundle_info" where
  "RemoveSandboxPersistentInfo s i =
     i\<lparr>ib_sandboxPersistentInfo := erase_first (\<lambda>x. sp_appIndex x = sp_appIndex s) (ib_sandboxPersistentInfo i)\<rparr>"

definition SetModuleUpgradeFlag :: "string \<Rightarrow> int \<Rightarrow> inner_bundle_info \<Rightarrow> bool \<times> inner_bundle_info" where
  "SetModuleUpgradeFlag moduleName upgradeFlag i = (True, i\<lparr>ib_upgradeFlag := upgradeFlag\<rparr>)"

definition GetModuleUpgradeFlag :: "string \<Rightarrow> inner_bundle_info \<Rightarrow> int" where
  "GetModuleUpgradeFlag moduleName i = ib_upgradeFlag i"

definition IsInitialState :: "bundle_user_info \<Rightarrow> bool" where
  "IsInitialState b \<longleftrightarrow> bu_enabled b \<and> bu_disabledAbilities b = []"

section \<open>Users\<close>

definition GetInnerBundleUserInfo ::
  "int \<Rightarrow> inner_bundle_user_info \<Rightarrow> inner_bundle_info \<Rightarrow> bool \<times> inner_bundle_user_info" where
  "GetInnerBundleUserInfo userId out i =
     (if userId = NOT_EXIST_USERID then (True, out)
      else if userId = ALL_USERID then
        (case ib_innerBundleUserInfos i of [] \<Rightarrow> (False, out) | (k, u) # _ \<Rightarrow> (True, u))
      else (case map_of (ib_innerBundleUserInfos i) (NameAndUserIdToKey (GetBundleName i) userId) of
              None \<Rightarrow> (False, out)
            | Some u \<Rightarrow> (True, u)))"

definition HasInnerBundleUserInfo :: "int \<Rightarrow> inner_bundle_info \<Rightarrow> bool" where
  "HasInnerBundleUserInfo userId i =
     (if userId = ALL_USERID then ib_innerBundleUserInfos i \<noteq> []
      else map_of (ib_innerBundleUserInfos i) (NameAndUserIdToKey (GetBundleName i) userId) \<noteq> None)"

definition AddInnerBundleUserInfo :: "inner_bundle_user_info \<Rightarrow> inner_bundle_info \<Rightarrow> inner_bundle_info" where
  "AddInnerBundleUserInfo u i =
     (let key = NameAndUserIdToKey (GetBundleName i) (bu_userId (iu_bundleUserInfo u))
      in case map_of (ib_innerBundleUserInfos i) key of
           None \<Rightarrow> i\<lparr>ib_innerBundleUserInfos := sm_emplace key u (ib_innerBundleUserInfos i)\<rparr>
         | Some _ \<Rightarrow> i\<lparr>ib_innerBundleUserInfos := sm_assign key u (ib_innerBundleUserInfos i)\<rparr>)"

definition upd_user_info ::
  "string \<Rightarrow> (inner_bundle_user_info \<Rightarrow> inner_bundle_user_info) \<Rightarrow> inner_bundle_info \<Rightarrow> inner_bundle_info" where
  "upd_user_info key f i =
     i\<lparr>ib_innerBundleUserInfos := sm_update key f (ib_innerBundleUserInfos i)\<rparr>"

definition SetBundleInstallTime :: "int \<Rightarrow> int \<Rightarrow> inner_bundle_info \<Rightarrow> inner_bundle_info" where
  "SetBundleInstallTime time userId i =
     (let key = NameAndUserIdToKey (GetBundleName i) userId in
      if map_of (ib_innerBundleUserInfos i) key = None then i
      else upd_user_info key (\<lambda>u. u\<lparr>iu_installTime := time, iu_updateTime := time\<rparr>) i)"

definition SetAccessTokenId :: "u32 \<Rightarrow> int \<Rightarrow> inner_bundle_info \<Rightarrow> inner_bundle_info" where
  "SetAccessTokenId accessToken userId i =
     (let key = NameAndUserIdToKey (GetBundleName i) userId in
      if map_of (ib_innerBundleUserInfos i) key = None then i
      else upd_user_info key (\<lambda>u. u\<lparr>iu_accessTokenId := accessToken\<rparr>) i)"

definition SetBundleUpdateTime :: "int \<Rightarrow> int \<Rightarrow> inner_bundle_info \<Rightarrow> inner_bundle_info" where
  "SetBundleUpdateTime time userId i =
     (let key = NameAndUserIdToKey (GetBundleName i) userId in
      if map_of (ib_innerBundleUserInfos i) key = None then i
      else upd_user_info key (\<lambda>u. u\<lparr>iu_updateTime := time\<rparr>) i)"

definition SetApplicationEnabled :: "bool \<Rightarrow> int \<Rightarrow> inner_bundle_info \<Rightarrow> inner_bundle_info" where
  "SetApplicationEnabled enabled userId i =
     (let key = NameAndUserIdToKey (GetBundleName i) userId in
      if map_of (ib_innerBundleUserInfos i) key = None then i
      else upd_user_info key (\<lambda>u. u\<lparr>iu_bundleUserInfo := (iu_bundleUserInfo u)\<lparr>bu_enabled := enabled\<rparr>\<rparr>) i)"

definition GetApplicationEnabled :: "int \<Rightarrow> inner_bundle_info \<Rightarrow> bool" where
  "GetApplicationEnabled userId i =
     (case GetInnerBundleUserInfo userId new_InnerBundleUserInfo i of
        (False, _) \<Rightarrow> False
      | (True, u) \<Rightarrow> bu_enabled (iu_bundleUserInfo u))"

definition GetUid :: "int \<Rightarrow> inner_bundle_info \<Rightarrow> int" where
  "GetUid userId i =
     (case GetInnerBundleUserInfo userId new_InnerBundleUserInfo i of
        (False, _) \<Rightarrow> INVALID_UID
      | (True, u) \<Rightarrow> iu_uid u)"

definition GetGid :: "int \<Rightarrow> inner_bundle_info \<Rightarrow> int" where
  "GetGid userId i =
     (case GetInnerBundleUserInfo userId new_InnerBundleUserInfo i of
        (False, _) \<Rightarrow> INVALID_GID
      | (True, u) \<Rightarrow> (case iu_gids u of [] \<Rightarrow> INVALID_GID | g # _ \<Rightarrow> g))"

definition BundleUserInfo_Reset :: "bundle_user_info \<Rightarrow> bundle_user_info" where
  "BundleUserInfo_Reset b = b\<lparr>bu_enabled := True, bu_disabledAbilities := []\<rparr>"

definition ResetBundleState :: "int \<Rightarrow> inner_bundle_info \<Rightarrow> inner_bundle_info" where
  "ResetBundleState userId i =
     (let reset = (\<lambda>u. u\<lparr>iu_bundleUserInfo := BundleUserInfo_Reset (iu_bundleUserInfo u)\<rparr>) in
      if userId = ALL_USERID then
        i\<lparr>ib_innerBundleUserInfos := map (\<lambda>(k, u). (k, reset u)) (ib_innerBundleUserInfos i)\<rparr>
      else
        (let key = NameAndUserIdToKey (GetBundleName i) userId in
         if map_of (ib_innerBundleUserInfos i) key = None then i else upd_user_info key reset i))"

definition GetResponseUserId :: "int \<Rightarrow> inner_bundle_info \<Rightarrow> int" where
  "GetResponseUserId requestUserId i =
     (case ib_innerBundleUserInfos i of
        [] \<Rightarrow> INVALID_USERID
      | (_, first) # _ \<Rightarrow>
          if requestUserId = ANY_USERID then bu_userId (iu_bundleUserInfo first)
          else if HasInnerBundleUserInfo requestUserId i then requestUserId
          else if requestUserId < START_USERID then INVALID_USERID
          else (case find (\<lambda>(_, u). bu_userId (iu_bundleUserInfo u) < START_USERID) (ib_innerBundleUserInfos i) of
                  None \<Rightarrow> INVALID_USERID
                | Some (_, u) \<Rightarrow> bu_userId (iu_bundleUserInfo u)))"

section \<open>Modules\<close>

definition FindModule :: "string \<Rightarrow> inner_bundle_info \<Rightarrow> bool" where
  "FindModule modulePackage i \<longleftrightarrow> map_of (ib_innerModuleInfos i) modulePackage \<noteq> None"

definition IsOnlyModule :: "string \<Rightarrow> inner_bundle_info \<Rightarrow> bool" where
  "IsOnlyModule modulePackage i \<longleftrightarrow>
     length (ib_innerModuleInfos i) = 1 \<and> map_of (ib_innerModuleInfos i) modulePackage \<noteq> None"

definition GetInnerModuleInfoByModuleName :: "string \<Rightarrow> inner_bundle_info \<Rightarrow> inner_module_info option" where
  "GetInnerModuleInfoByModuleName moduleName i =
     map_option snd (find (\<lambda>(_, m). im_moduleName m = moduleName) (ib_innerModuleInfos i))"

definition GetModuleNames :: "inner_bundle_info \<Rightarrow> string list" where
  "GetModuleNames i = map (\<lambda>(_, m). im_moduleName m) (ib_innerModuleInfos i)"

definition HasEntry :: "inner_bundle_info \<Rightarrow> bool" where
  "HasEntry i = list_ex (\<lambda>(_, m). im_isEntry m) (ib_innerModuleInfos i)"

text \<open>The eight \<open>try_emplace\<close> loops of \<open>AddModuleInfo\<close> and \<open>UpdateModuleInfo\<close>.\<close>

definition merge_module_maps :: "inner_bundle_info \<Rightarrow> inner_bundle_info \<Rightarrow> inner_bundle_info" where
  "merge_module_maps new i =
     i\<lparr>ib_innerModuleInfos := sm_emplace_all (ib_innerModuleInfos new) (ib_innerModuleInfos i),
       ib_baseAbilityInfos := sm_emplace_all (ib_baseAbilityInfos new) (ib_baseAbilityInfos i),
       ib_skillInfos := sm_emplace_all (ib_skillInfos new) (ib_skillInfos i),
       ib_baseExtensionInfos := sm_emplace_all (ib_baseExtensionInfos new) (ib_baseExtensionInfos i),
       ib_extensionSkillInfos := sm_emplace_all (ib_extensionSkillInfos new) (ib_extensionSkillInfos i),
       ib_formInfos := sm_emplace_all (ib_formInfos new) (ib_formInfos i),
       ib_shortcutInfos := sm_emplace_all (ib_shortcutInfos new) (ib_shortcutInfos i),
       ib_commonEvents := sm_emplace_all (ib_commonEvents new) (ib_commonEvents i)\<rparr>"

definition AddModuleInfo :: "inner_bundle_info \<Rightarrow> inner_bundle_info \<Rightarrow> bool \<times> inner_bundle_info" where
  "AddModuleInfo new i =
     (if ib_currentPackage new = [] then (False, i)
      else if FindModule (ib_currentPackage new) i then (False, i)
      else (True, merge_module_maps new i))"

definition erase_keys :: "'k::linorder list \<Rightarrow> ('k, 'v) smap \<Rightarrow> ('k, 'v) smap" where
  "erase_keys ks m = foldl (\<lambda>m k. sm_erase k m) m ks"

text \<open>The loop over the ability keys: a form is erased only with an ability that was there.\<close>

fun erase_abilities ::
  "string list \<Rightarrow> (string, ability_info) smap \<Rightarrow> (string, form_info list) smap
     \<Rightarrow> (string, ability_info) smap \<times> (string, form_info list) smap" where
  "erase_abilities [] as fs = (as, fs)"
| "erase_abilities (k # ks) as fs =
     (if map_of as k = None then erase_abilities ks as fs
      else erase_abilities ks (sm_erase k as) (sm_erase k fs))"

definition module_key :: "string \<Rightarrow> string" where
  "module_key modulePackage = ''.'' @ modulePackage @ ''.''"

definition RemoveModuleInfo :: "string \<Rightarrow> inner_bundle_info \<Rightarrow> inner_bundle_info" where
  "RemoveModuleInfo modulePackage i =
     (case map_of (ib_innerModuleInfos i) modulePackage of
        None \<Rightarrow> i
      | Some old \<Rightarrow>
          (let key = module_key modulePackage;
               (as, fs) = erase_abilities (im_abilityKeys old) (ib_baseAbilityInfos i) (ib_formInfos i)
           in i\<lparr>ib_baseBundleInfo :=
                  (if im_isEntry old
                   then (ib_baseBundleInfo i)\<lparr>bi_mainEntry := [], bi_entryModuleName := []\<rparr>
                   else ib_baseBundleInfo i),
                ib_innerModuleInfos := sm_erase modulePackage (ib_innerModuleInfos i),
                ib_shortcutInfos := filter (\<lambda>(k, _). find_sub key k = None) (ib_shortcutInfos i),
                ib_commonEvents := filter (\<lambda>(k, _). find_sub key k = None) (ib_commonEvents i),
                ib_baseAbilityInfos := as,
                ib_formInfos := fs,
                ib_skillInfos := erase_keys (im_skillKeys old) (ib_skillInfos i),
                ib_baseExtensionInfos := erase_keys (im_extensionKeys old) (ib_baseExtensionInfos i),
                ib_extensionSkillInfos := erase_keys (im_extensionSkillKeys old) (ib_extensionSkillInfos i)\<rparr>))"

definition UpdateModuleInfo :: "inner_bundle_info \<Rightarrow> inner_bundle_info \<Rightarrow> inner_bundle_info" where
  "UpdateModuleInfo new i =
     (if ib_currentPackage new = [] then i
      else merge_module_maps new (RemoveModuleInfo (ib_currentPackage new) i))"

definition UpdateBaseBundleInfo :: "bundle_info \<Rightarrow> bool \<Rightarrow> inner_bundle_info \<Rightarrow> inner_bundle_info" where
  "UpdateBaseBundleInfo b isEntry i =
     (let old = ib_baseBundleInfo i;
          b1 = old\<lparr>bi_name := bi_name b, bi_versionCode := bi_versionCode b,
                   bi_versionName := bi_versionName b,
                   bi_minCompatibleVersionCode := bi_minCompatibleVersionCode b,
                   bi_compatibleVersion := bi_compatibleVersion b, bi_targetVersion := bi_targetVersion b,
                   bi_isKeepAlive := bi_isKeepAlive b, bi_singleton := bi_singleton b,
                   bi_isPreInstallApp := bi_isPreInstallApp b, bi_vendor := bi_vendor b,
                   bi_releaseType := bi_releaseType b\<rparr>;
          b2 = (if \<not> bi_isNativeApp b1 then b1\<lparr>bi_isNativeApp := bi_isNativeApp b\<rparr> else b1);
          b3 = (if isEntry then b2\<lparr>bi_mainEntry := bi_mainEntry b, bi_entryModuleName := bi_entryModuleName b\<rparr>
                else b2)
      in i\<lparr>ib_baseBundleInfo := b3\<rparr>)"

definition UpdateBaseApplicationInfo :: "application_info \<Rightarrow> inner_bundle_info \<Rightarrow> inner_bundle_info" where
  "UpdateBaseApplicationInfo a i =
     (let old = ib_baseApplicationInfo i;
          a1 = old\<lparr>app_name := app_name a, app_bundleName := app_bundleName a,
                   app_versionCode := app_versionCode a, app_versionName := app_versionName a,
                   app_minCompatibleVersionCode := app_minCompatibleVersionCode a,
                   app_apiCompatibleVersion := app_apiCompatibleVersion a,
                   app_apiTargetVersion := app_apiTargetVersion a, app_iconPath := app_iconPath a,
                   app_iconId := app_iconId a, app_label := app_label a, app_labelId := app_labelId a,
                   app_description := app_description a, app_descriptionId := app_descriptionId a,
                   app_keepAlive := app_keepAlive a, app_removable := app_removable a,
                   app_singleton := app_singleton a, app_userDataClearable := app_userDataClearable a,
                   app_accessible := app_accessible a\<rparr>;
          a2 = (if \<not> app_isSystemApp a1 then a1\<lparr>app_isSystemApp := app_isSystemApp a\<rparr> else a1);
          a3 = (if \<not> app_isLauncherApp a2 then a2\<lparr>app_isLauncherApp := app_isLauncherApp a\<rparr> else a2);
          a4 = a3\<lparr>app_apiReleaseType := app_apiReleaseType a, app_debug := app_debug a,
                  app_deviceId := app_deviceId a,
                  app_distributedNotificationEnabled := app_distributedNotificationEnabled a,
                  app_entityType := app_entityType a, app_process := app_process a,
                  app_supportedModes := app_supportedModes a, app_vendor := app_vendor a\<rparr>;
          a5 = (if app_nativeLibraryPath a4 = []
                then a4\<lparr>app_nativeLibraryPath := app_nativeLibraryPath a, app_cpuAbi := app_cpuAbi a\<rparr>
                else a4)
      in i\<lparr>ib_baseApplicationInfo := a5\<rparr>)"

section \<open>What may be removed\<close>

definition IsUserExistModule :: "string \<Rightarrow> int \<Rightarrow> inner_bundle_info \<Rightarrow> bool" where
  "IsUserExistModule moduleName userId i =
     (case GetInnerModuleInfoByModuleName moduleName i of
        None \<Rightarrow> False
      | Some m \<Rightarrow> map_of (im_isRemovable m) (to_string userId) \<noteq> None)"

definition IsModuleRemovable :: "string \<Rightarrow> int \<Rightarrow> inner_bundle_info \<Rightarrow> bool" where
  "IsModuleRemovable moduleName userId i =
     (case GetInnerModuleInfoByModuleName moduleName i of
        None \<Rightarrow> False
      | Some m \<Rightarrow> (case map_of (im_isRemovable m) (to_string userId) of None \<Rightarrow> False | Some b \<Rightarrow> b))"

definition IsBundleRemovable :: "int \<Rightarrow> inner_bundle_info \<Rightarrow> bool" where
  "IsBundleRemovable userId i =
     (if bi_isPreInstallApp (ib_baseBundleInfo i) then False
      else list_all (\<lambda>(_, m). IsModuleRemovable (im_moduleName m) userId i) (ib_innerModuleInfos i))"

definition AddModuleRemovableInfo :: "string \<Rightarrow> bool \<Rightarrow> inner_module_info \<Rightarrow> inner_module_info" where
  "AddModuleRemovableInfo stringUserId isEnable m =
     (if map_of (im_isRemovable m) stringUserId = None
      then m\<lparr>im_isRemovable := sm_emplace stringUserId isEnable (im_isRemovable m)\<rparr>
      else m\<lparr>im_isRemovable := sm_assign stringUserId isEnable (im_isRemovable m)\<rparr>)"

definition DeleteModuleRemovableInfo :: "string \<Rightarrow> inner_module_info \<Rightarrow> inner_module_info" where
  "DeleteModuleRemovableInfo stringUserId m = m\<lparr>im_isRemovable := sm_erase stringUserId (im_isRemovable m)\<rparr>"

text \<open>Both setters stop at the first module with the given module name.\<close>

fun upd_first_module ::
  "string \<Rightarrow> (inner_module_info \<Rightarrow> inner_module_info) \<Rightarrow> (string, inner_module_info) smap
     \<Rightarrow> (string, inner_module_info) smap" where
  "upd_first_module moduleName f [] = []"
| "upd_first_module moduleName f ((k, m) # ms) =
     (if im_moduleName m = moduleName then (k, f m) # ms
      else (k, m) # upd_first_module moduleName f ms)"

definition SetModuleRemovable :: "string \<Rightarrow> bool \<Rightarrow> int \<Rightarrow> inner_bundle_info \<Rightarrow> bool \<times> inner_bundle_info" where
  "SetModuleRemovable moduleName isEnable userId i =
     (if find (\<lambda>(_, m). im_moduleName m = moduleName) (ib_innerModuleInfos i) = None then (False, i)
      else (True, i\<lparr>ib_innerModuleInfos :=
              upd_first_module moduleName (AddModuleRemovableInfo (to_string userId) isEnable) (ib_innerModuleInfos i)\<rparr>))"

definition DeleteModuleRemovable :: "string \<Rightarrow> int \<Rightarrow> inner_bundle_info \<Rightarrow> inner_bundle_info" where
  "DeleteModuleRemovable moduleName userId i =
     i\<lparr>ib_innerModuleInfos :=
         upd_first_module moduleName (DeleteModuleRemovableInfo (to_string userId)) (ib_innerModuleInfos i)\<rparr>"

definition RemoveInnerBundleUserInfo :: "int \<Rightarrow> inner_bundle_info \<Rightarrow> inner_bundle_info" where
  "RemoveInnerBundleUserInfo userId i =
     (let key = NameAndUserIdToKey (GetBundleName i) userId in
      if map_of (ib_innerBundleUserInfos i) key = None then i
      else foldl (\<lambda>i (_, m). DeleteModuleRemovable (im_moduleName m) userId i)
             (i\<lparr>ib_innerBundleUserInfos := sm_erase key (ib_innerBundleUserInfos i)\<rparr>)
             (ib_innerModuleInfos i))"

section \<open>Enabling abilities\<close>

definition IsAbilityEnabled :: "ability_info \<Rightarrow> int \<Rightarrow> inner_bundle_info \<Rightarrow> bool" where
  "IsAbilityEnabled a userId i =
     (if userId = NOT_EXIST_USERID then True
      else (case map_of (ib_innerBundleUserInfos i) (NameAndUserIdToKey (ai_bundleName a) userId) of
              None \<Rightarrow> False
            | Some u \<Rightarrow> ai_name a \<notin> set (bu_disabledAbilities (iu_bundleUserInfo u))))"

definition set_disabled :: "string \<Rightarrow> bool \<Rightarrow> inner_bundle_user_info \<Rightarrow> inner_bundle_user_info" where
  "set_disabled abilityName isEnabled u =
     (let b = iu_bundleUserInfo u; ds = bu_disabledAbilities b in
      if abilityName \<in> set ds
      then (if isEnabled then u\<lparr>iu_bundleUserInfo := b\<lparr>bu_disabledAbilities := remove1 abilityName ds\<rparr>\<rparr> else u)
      else (if \<not> isEnabled then u\<lparr>iu_bundleUserInfo := b\<lparr>bu_disabledAbilities := ds @ [abilityName]\<rparr>\<rparr> else u))"

definition ability_matches :: "string \<Rightarrow> string \<Rightarrow> string \<Rightarrow> ability_info \<Rightarrow> bool" where
  "ability_matches bundleName moduleName abilityName a \<longleftrightarrow>
     ai_bundleName a = bundleName \<and> ai_name a = abilityName \<and>
     (moduleName = [] \<or> ai_moduleName a = moduleName)"

definition SetAbilityEnabled ::
  "string \<Rightarrow> string \<Rightarrow> string \<Rightarrow> bool \<Rightarrow> int \<Rightarrow> inner_bundle_info \<Rightarrow> bool \<times> inner_bundle_info" where
  "SetAbilityEnabled bundleName moduleName abilityName isEnabled userId i =
     (if find (\<lambda>(_, a). ability_matches bundleName moduleName abilityName a) (ib_baseAbilityInfos i) = None
      then (False, i)
      else (let key = NameAndUserIdToKey bundleName userId in
            if map_of (ib_innerBundleUserInfos i) key = None then (False, i)
            else (True, upd_user_info key (set_disabled abilityName isEnabled) i)))"

section \<open>Views\<close>

definition RemoveDuplicateName :: "string list \<Rightarrow> string list" where
  "RemoveDuplicateName names = remdups_adj (sort names)"

text \<open>One module's contribution to the \<open>ApplicationInfo\<close>.\<close>

definition app_add_module :: "u32 \<Rightarrow> application_info \<Rightarrow> inner_module_info \<Rightarrow> application_info" where
  "app_add_module flags a m =
     (let a1 = a\<lparr>app_moduleInfos := app_moduleInfos a @
                     [\<lparr> mi_moduleName = im_moduleName m, mi_moduleSourceDir = im_modulePath m \<rparr>],
                 app_moduleSourceDirs := app_moduleSourceDirs a @ [im_modulePath m]\<rparr>;
          a2 = (if im_isEntry m then a1\<lparr>app_entryDir := im_modulePath m\<rparr> else a1);
          a3 = (if has_flag flags GET_APPLICATION_INFO_WITH_PERMISSION
                then a2\<lparr>app_permissions := app_permissions a2 @ map rp_name (im_requestPermissions m)\<rparr> else a2);
          a4 = (if has_flag flags GET_APPLICATION_INFO_WITH_METADATA \<and> \<not> im_isModuleJson m \<and>
                   mt_customizeData (im_metaData m) \<noteq> []
                then a3\<lparr>app_metaData := sm_assign (im_moduleName m) (mt_customizeData (im_metaData m)) (app_metaData a3)\<rparr>
                else a3);
          a5 = (if has_flag flags GET_APPLICATION_INFO_WITH_METADATA \<and> im_isModuleJson m \<and> im_metadata m \<noteq> []
                then a4\<lparr>app_metadata := sm_assign (im_moduleName m) (im_metadata m) (app_metadata a4)\<rparr>
                else a4)
      in if \<not> has_flag flags GET_APPLICATION_INFO_WITH_CERTIFICATE_FINGERPRINT
         then a5\<lparr>app_fingerprint := []\<rparr> else a5)"

definition GetApplicationInfo ::
  "u32 \<Rightarrow> int \<Rightarrow> application_info \<Rightarrow> inner_bundle_info \<Rightarrow> application_info" where
  "GetApplicationInfo flags userId appInfo i =
     (case GetInnerBundleUserInfo userId new_InnerBundleUserInfo i of
        (False, _) \<Rightarrow> appInfo
      | (True, u) \<Rightarrow>
          (let a0 = (ib_baseApplicationInfo i)\<lparr>app_accessTokenId := iu_accessTokenId u,
                      app_enabled := bu_enabled (iu_bundleUserInfo u), app_uid := iu_uid u\<rparr>;
               a1 = foldl (app_add_module flags) a0 (map snd (ib_innerModuleInfos i))
           in if app_permissions a1 \<noteq> []
              then a1\<lparr>app_permissions := RemoveDuplicateName (app_permissions a1)\<rparr> else a1))"

definition with_application :: "int \<Rightarrow> inner_bundle_info \<Rightarrow> ability_info \<Rightarrow> ability_info" where
  "with_application userId i a =
     a\<lparr>ai_applicationInfo :=
         GetApplicationInfo GET_APPLICATION_INFO_WITH_PERMISSION userId (ai_applicationInfo a) i\<rparr>"

definition FindAbilityInfo ::
  "string \<Rightarrow> string \<Rightarrow> string \<Rightarrow> int \<Rightarrow> inner_bundle_info \<Rightarrow> ability_info option" where
  "FindAbilityInfo bundleName moduleName abilityName userId i =
     (case find (\<lambda>(_, a). ability_matches bundleName moduleName abilityName a) (ib_baseAbilityInfos i) of
        None \<Rightarrow> None
      | Some (_, a) \<Rightarrow> Some (with_application userId i a))"

definition FindAbilityInfos :: "string \<Rightarrow> int \<Rightarrow> inner_bundle_info \<Rightarrow> ability_info list option" where
  "FindAbilityInfos bundleName userId i =
     (if bundleName = [] then None
      else (let as = map (with_application userId i)
                       (filter (\<lambda>a. ai_bundleName a = bundleName) (map snd (ib_baseAbilityInfos i)))
            in if as \<noteq> [] then Some as else None))"

definition FindExtensionInfo ::
  "string \<Rightarrow> string \<Rightarrow> string \<Rightarrow> inner_bundle_info \<Rightarrow> extension_ability_info option" where
  "FindExtensionInfo bundleName moduleName extensionName i =
     map_option snd (find (\<lambda>(_, e). ei_bundleName e = bundleName \<and> ei_name e = extensionName \<and>
        (moduleName = [] \<or> ei_moduleName e = moduleName)) (ib_baseExtensionInfos i))"

definition FindExtensionInfos :: "string \<Rightarrow> inner_bundle_info \<Rightarrow> extension_ability_info list option" where
  "FindExtensionInfos bundleName i =
     (if bundleName = [] then None
      else (let es = filter (\<lambda>e. ei_bundleName e = bundleName) (map snd (ib_baseExtensionInfos i))
            in if es \<noteq> [] then Some es else None))"

definition FindAbilityInfosForClone ::
  "string \<Rightarrow> string \<Rightarrow> int \<Rightarrow> ability_info list \<Rightarrow> inner_bundle_info \<Rightarrow> ability_info list" where
  "FindAbilityInfosForClone bundleName abilityName userId abilitys i =
     (if bundleName = [] then abilitys
      else abilitys @ map (with_application userId i)
             (filter (\<lambda>a. ai_bundleName a = bundleName \<and> ai_name a = abilityName) (map snd (ib_baseAbilityInfos i))))"

definition DATA_ABILITY_URI_PREFIX :: string where "DATA_ABILITY_URI_PREFIX = ''dataability://''"

definition uri_matches :: "string \<Rightarrow> ability_info \<Rightarrow> bool" where
  "uri_matches abilityUri a \<longleftrightarrow>
     length DATA_ABILITY_URI_PREFIX \<le> length (ai_uri a) \<and>
     drop (length DATA_ABILITY_URI_PREFIX) (ai_uri a) = abilityUri"

definition FindAbilityInfoByUri :: "string \<Rightarrow> inner_bundle_info \<Rightarrow> ability_info option" where
  "FindAbilityInfoByUri abilityUri i = find (uri_matches abilityUri) (map snd (ib_baseAbilityInfos i))"

definition FindAbilityInfosByUri :: "string \<Rightarrow> int \<Rightarrow> inner_bundle_info \<Rightarrow> ability_info list" where
  "FindAbilityInfosByUri abilityUri userId i =
     map (with_application userId i) (filter (uri_matches abilityUri) (map snd (ib_baseAbilityInfos i)))"

definition FindExtensionAbilityInfoByUri :: "string \<Rightarrow> inner_bundle_info \<Rightarrow> extension_ability_info option" where
  "FindExtensionAbilityInfoByUri uri i = find (\<lambda>e. uri = ei_uri e) (map snd (ib_baseExtensionInfos i))"

definition module_type_of :: "string \<Rightarrow> module_type" where
  "module_type_of s =
     (if s = ''entry'' then ModuleType_ENTRY
      else if s = ''feature'' then ModuleType_FEATURE
      else if s = ''har'' then ModuleType_HAR else ModuleType_UNKNOWN)"

definition FindHapModuleInfo :: "string \<Rightarrow> int \<Rightarrow> inner_bundle_info \<Rightarrow> hap_module_info option" where
  "FindHapModuleInfo modulePackage userId i =
     (case map_of (ib_innerModuleInfos i) modulePackage of
        None \<Rightarrow> None
      | Some m \<Rightarrow>
          (let key = module_key modulePackage;
               exts = map snd (filter (\<lambda>(k, _). find_sub key k \<noteq> None) (ib_baseExtensionInfos i));
               abs = map snd (filter (\<lambda>(k, _). find_sub key k \<noteq> None) (ib_baseAbilityInfos i));
               h = new_HapModuleInfo\<lparr>hm_name := im_modulePackage m, hm_moduleName := im_moduleName m,
                     hm_description := im_description m, hm_descriptionId := im_descriptionId m,
                     hm_label := im_label m, hm_labelId := im_labelId m, hm_mainAbility := im_mainAbility m,
                     hm_srcPath := im_srcPath m, hm_hapPath := im_hapPath m,
                     hm_supportedModes := app_supportedModes (ib_baseApplicationInfo i),
                     hm_reqCapabilities := im_reqCapabilities m, hm_colorMode := im_colorMode m,
                     hm_isRemovable := im_isRemovable m, hm_upgradeFlag := im_upgradeFlag m,
                     hm_bundleName := app_bundleName (ib_baseApplicationInfo i),
                     hm_mainElementName := im_mainAbility m, hm_pages := im_pages m,
                     hm_process := im_process m, hm_resourcePath := im_moduleResPath m,
                     hm_srcEntrance := im_srcEntrance m, hm_uiSyntax := im_uiSyntax m,
                     hm_virtualMachine := im_virtualMachine m,
                     hm_deliveryWithInstall := di_deliveryWithInstall (im_distro m),
                     hm_installationFree := di_installationFree (im_distro m),
                     hm_isModuleJson := im_isModuleJson m, hm_isStageBasedModel := im_isStageBasedModel m,
                     hm_moduleType := module_type_of (di_moduleType (im_distro m)),
                     hm_extensionInfos := exts, hm_metadata := im_metadata m,
                     hm_abilityInfos := map (with_application userId i) abs,
                     hm_dependencies := im_dependencies m\<rparr>
           in Some (case abs of
                      [] \<Rightarrow> h
                    | a # _ \<Rightarrow> h\<lparr>hm_iconPath := ai_iconPath a, hm_deviceTypes := ai_deviceTypes a\<rparr>)))"

definition GetModuleWithHashValue ::
  "u32 \<Rightarrow> string \<Rightarrow> inner_bundle_info \<Rightarrow> hap_module_info \<Rightarrow> hap_module_info" where
  "GetModuleWithHashValue flags modulePackage i h =
     (if flags AND GET_BUNDLE_WITH_HASH_VALUE = 0 then h
      else (case map_of (ib_innerModuleInfos i) modulePackage of
              None \<Rightarrow> h
            | Some m \<Rightarrow> h\<lparr>hm_hashValue := im_hashValue m\<rparr>))"

definition GetBundleWithAbilities :: "u32 \<Rightarrow> int \<Rightarrow> inner_bundle_info \<Rightarrow> bundle_info \<Rightarrow> bundle_info" where
  "GetBundleWithAbilities flags userId i b =
     (if flags AND GET_BUNDLE_WITH_ABILITIES = 0 then b
      else b\<lparr>bi_abilityInfos := bi_abilityInfos b @
         map (\<lambda>a. a\<lparr>ai_enabled := IsAbilityEnabled a userId i\<rparr>)
           (filter (\<lambda>a. \<not> (flags AND GET_ABILITY_INFO_WITH_DISABLE = 0 \<and> \<not> IsAbilityEnabled a userId i))
              (map snd (ib_baseAbilityInfos i)))\<rparr>)"

definition GetBundeleWithExtension :: "u32 \<Rightarrow> inner_bundle_info \<Rightarrow> bundle_info \<Rightarrow> bundle_info" where
  "GetBundeleWithExtension flags i b =
     (if has_flag flags GET_BUNDLE_WITH_EXTENSION_INFO
      then b\<lparr>bi_extensionInfos := bi_extensionInfos b @ filter ei_enabled (map snd (ib_baseExtensionInfos i))\<rparr>
      else b)"

text \<open>
  \<open>std::sort\<close> by name followed by \<open>std::unique\<close> by name. The sort is not stable in C++, so among
  permissions with the same name any one may stay; the stable sort is one of the outcomes, and no
  property below depends on which one is kept.
\<close>

fun unique_by :: "('a \<Rightarrow> 'b) \<Rightarrow> 'a list \<Rightarrow> 'a list" where
  "unique_by f [] = []"
| "unique_by f [x] = [x]"
| "unique_by f (x # y # ys) = (if f x = f y then unique_by f (x # ys) else x # unique_by f (y # ys))"

definition GetAllRequestPermissions :: "inner_bundle_info \<Rightarrow> request_permission list" where
  "GetAllRequestPermissions i =
     unique_by rp_name (sort_key rp_name (concat (map (\<lambda>(_, m). im_requestPermissions m) (ib_innerModuleInfos i))))"

definition GetAllDefinePermissions :: "inner_bundle_info \<Rightarrow> define_permission list" where
  "GetAllDefinePermissions i =
     unique_by dp_name (sort_key dp_name (concat (map (\<lambda>(_, m). im_definePermissions m) (ib_innerModuleInfos i))))"

text \<open>One module's contribution to the \<open>BundleInfo\<close>.\<close>

definition bundle_add_module ::
  "u32 \<Rightarrow> int \<Rightarrow> inner_bundle_info \<Rightarrow> bundle_info \<Rightarrow> inner_module_info \<Rightarrow> bundle_info" where
  "bundle_add_module flags userId i b m =
     (let b1 = (if has_flag flags GET_BUNDLE_WITH_REQUESTED_PERMISSION
                then b\<lparr>bi_reqPermissions := bi_reqPermissions b @ map rp_name (im_requestPermissions m),
                       bi_defPermissions := bi_defPermissions b @ map dp_name (im_definePermissions m) @
                                            map dp_name (im_defPermissions m)\<rparr>
                else b);
          b2 = b1\<lparr>bi_hapModuleNames := bi_hapModuleNames b1 @ [im_modulePackage m]\<rparr>
      in case FindHapModuleInfo (im_modulePackage m) userId i of
           None \<Rightarrow> b2
         | Some h \<Rightarrow>
             b2\<lparr>bi_hapModuleInfos := bi_hapModuleInfos b2 @ [GetModuleWithHashValue flags (im_modulePackage m) i h],
                bi_moduleNames := bi_moduleNames b2 @ [im_moduleName m],
                bi_moduleDirs := bi_moduleDirs b2 @ [im_modulePath m],
                bi_modulePublicDirs := bi_modulePublicDirs b2 @ [im_moduleDataDir m],
                bi_moduleResPaths := bi_moduleResPaths b2 @ [im_moduleResPath m]\<rparr>)"

text \<open>\<open>permStates\<close> is \<open>BundlePermissionMgr::GetRequestPermissionStates\<close>, which asks the token service.\<close>

definition GetBundleInfo ::
  "(bundle_info \<Rightarrow> bundle_info) \<Rightarrow> u32 \<Rightarrow> int \<Rightarrow> bundle_info \<Rightarrow> inner_bundle_info \<Rightarrow> bundle_info" where
  "GetBundleInfo permStates flags userId bundleInfo i =
     (case GetInnerBundleUserInfo userId new_InnerBundleUserInfo i of
        (False, _) \<Rightarrow> bundleInfo
      | (True, u) \<Rightarrow>
          (let b0 = (ib_baseBundleInfo i)\<lparr>bi_uid := iu_uid u,
                      bi_gid := (case iu_gids u of [] \<Rightarrow> bi_gid (ib_baseBundleInfo i) | g # _ \<Rightarrow> g),
                      bi_installTime := iu_installTime u, bi_updateTime := iu_updateTime u\<rparr>;
               b1 = b0\<lparr>bi_applicationInfo := GetApplicationInfo 0 userId (bi_applicationInfo b0) i\<rparr>;
               b2 = foldl (bundle_add_module flags userId i) b1 (map snd (ib_innerModuleInfos i));
               b3 = (if has_flag flags GET_BUNDLE_WITH_REQUESTED_PERMISSION
                     then (permStates (b2\<lparr>bi_reqPermissions := RemoveDuplicateName (bi_reqPermissions b2),
                                          bi_defPermissions := RemoveDuplicateName (bi_defPermissions b2)\<rparr>))
                            \<lparr>bi_reqPermissionDetails := GetAllRequestPermissions i\<rparr>
                     else b2)
           in GetBundeleWithExtension flags i (GetBundleWithAbilities flags userId i b3)))"

definition CheckSpecialMetaData :: "string \<Rightarrow> inner_bundle_info \<Rightarrow> bool" where
  "CheckSpecialMetaData metaData i =
     (if ib_isNewVersion i
      then list_ex (\<lambda>(_, m). list_ex (\<lambda>d. metaData = md_name d) (im_metadata m)) (ib_innerModuleInfos i)
      else list_ex (\<lambda>(_, m). list_ex (\<lambda>d. metaData = cd_name d) (mt_customizeData (im_metaData m)))
             (ib_innerModuleInfos i))"

definition GetFormsInfoByModule :: "string \<Rightarrow> inner_bundle_info \<Rightarrow> form_info list" where
  "GetFormsInfoByModule moduleName i =
     concat (map (\<lambda>(_, fs). filter (\<lambda>f. fi_moduleName f = moduleName) fs) (ib_formInfos i))"

definition GetFormsInfoByApp :: "inner_bundle_info \<Rightarrow> form_info list" where
  "GetFormsInfoByApp i = concat (map snd (ib_formInfos i))"

definition GetCommonEvents :: "string \<Rightarrow> inner_bundle_info \<Rightarrow> common_event_info list" where
  "GetCommonEvents eventKey i =
     map (\<lambda>c. c\<lparr>ce_uid := GetUid (ib_userId i) i\<rparr>)
       (filter (\<lambda>c. list_ex (\<lambda>e. e = eventKey) (ce_events c)) (map snd (ib_commonEvents i)))"

text \<open>The main ability: the last entry ability found, or the one of the first entry module.\<close>

fun main_ability_loop ::
  "(string, ability_info) smap \<Rightarrow> inner_module_info list \<Rightarrow> ability_info \<Rightarrow> ability_info" where
  "main_ability_loop as [] out = out"
| "main_ability_loop as (m # ms) out =
     (if im_entryAbilityKey m \<noteq> [] then
        (case map_of as (im_entryAbilityKey m) of
           None \<Rightarrow> main_ability_loop as ms out
         | Some a \<Rightarrow> if im_isEntry m then a else main_ability_loop as ms a)
      else main_ability_loop as ms out)"

definition GetMainAbilityInfo :: "inner_bundle_info \<Rightarrow> ability_info" where
  "GetMainAbilityInfo i =
     main_ability_loop (ib_baseAbilityInfos i) (map snd (ib_innerModuleInfos i)) new_AbilityInfo"

definition GetMainAbility :: "inner_bundle_info \<Rightarrow> string" where
  "GetMainAbility i = ai_name (GetMainAbilityInfo i)"

section \<open>URI prefixes and dependencies\<close>

definition uri_prefix :: "string \<Rightarrow> string option" where
  "uri_prefix uri =
     (case find_sub URI_SEPARATOR uri of
        None \<Rightarrow> None
      | Some schemePos \<Rightarrow>
          (case find_from SEPARATOR uri (schemePos + URI_SEPARATOR_LEN) of
             None \<Rightarrow> Some uri
           | Some cutPos \<Rightarrow> Some (take cutPos uri)))"

definition uri_list :: "string \<Rightarrow> ('a \<Rightarrow> string) \<Rightarrow> (string \<times> 'a) list \<Rightarrow> string list" where
  "uri_list excludeModule uri_of m =
     map (\<lambda>(_, a). uri_of a)
       (filter (\<lambda>(k, a). uri_of a \<noteq> [] \<and> \<not> (excludeModule \<noteq> [] \<and> find_sub excludeModule k = Some 0)) m)"

definition GetUriPrefixList :: "string \<Rightarrow> inner_bundle_info \<Rightarrow> string list" where
  "GetUriPrefixList excludeModule i =
     List.map_filter uri_prefix (uri_list excludeModule ai_uri (ib_baseAbilityInfos i) @
                                 uri_list excludeModule ei_uri (ib_baseExtensionInfos i))"

definition GetUriPrefixList_user :: "int \<Rightarrow> string \<Rightarrow> inner_bundle_info \<Rightarrow> string list" where
  "GetUriPrefixList_user userId excludeModule i =
     (if map_of (ib_innerBundleUserInfos i) (NameAndUserIdToKey (GetBundleName i) userId) = None then []
      else GetUriPrefixList excludeModule i)"

definition GetDependentModuleNames :: "inner_bundle_info \<Rightarrow> string \<Rightarrow> string list option" where
  "GetDependentModuleNames i moduleName =
     map_option (\<lambda>(_, m). im_dependencies m)
       (find (\<lambda>(_, m). im_moduleName m = moduleName) (ib_innerModuleInfos i))"

definition all_dependencies :: "inner_bundle_info \<Rightarrow> string list" where
  "all_dependencies i = concat (map (\<lambda>(_, m). im_dependencies m) (ib_innerModuleInfos i))"

lemma find_SomeD: "find P xs = Some x \<Longrightarrow> x \<in> set xs \<and> P x"
  by (induction xs) (auto split: if_splits)

lemma GetDependentModuleNames_sub:
  "GetDependentModuleNames i n = Some ds \<Longrightarrow> set ds \<subseteq> set (all_dependencies i)"
  by (auto simp: GetDependentModuleNames_def all_dependencies_def dest!: find_SomeD)

function dependency_loop :: "inner_bundle_info \<Rightarrow> string list \<Rightarrow> string list \<Rightarrow> string list" where
  "dependency_loop i [] found = found"
| "dependency_loop i (name # queue) found =
     (if name \<in> set found then dependency_loop i queue found
      else dependency_loop i
             (queue @ (case GetDependentModuleNames i name of None \<Rightarrow> [] | Some ds \<Rightarrow> ds))
             (found @ [name]))"
  by pat_completeness auto

definition dep_universe :: "inner_bundle_info \<Rightarrow> string list \<Rightarrow> string list \<Rightarrow> string set" where
  "dep_universe i queue found = (set queue \<union> set (all_dependencies i)) - set found"

termination dependency_loop
proof (relation "measures [\<lambda>(i, queue, found). card (dep_universe i queue found), \<lambda>(i, queue, found). length queue]",
    goal_cases)
  case 1
  show ?case by simp
next
  case (2 i name queue found)
  have "dep_universe i queue found \<subseteq> dep_universe i (name # queue) found"
    by (auto simp: dep_universe_def)
  then have "card (dep_universe i queue found) \<le> card (dep_universe i (name # queue) found)"
    by (intro card_mono) (simp_all add: dep_universe_def)
  then show ?case by auto
next
  case (3 i name queue found)
  let ?q = "queue @ (case GetDependentModuleNames i name of None \<Rightarrow> [] | Some ds \<Rightarrow> ds)"
  have "set ?q \<subseteq> set queue \<union> set (all_dependencies i)"
    using GetDependentModuleNames_sub [of i name] by (cases "GetDependentModuleNames i name") auto
  then have "dep_universe i ?q (found @ [name]) \<subseteq> dep_universe i (name # queue) found"
    "name \<in> dep_universe i (name # queue) found" "name \<notin> dep_universe i ?q (found @ [name])"
    using 3 by (auto simp: dep_universe_def)
  then have "dep_universe i ?q (found @ [name]) \<subset> dep_universe i (name # queue) found" by blast
  then have "card (dep_universe i ?q (found @ [name])) < card (dep_universe i (name # queue) found)"
    by (intro psubset_card_mono) (simp_all add: dep_universe_def)
  then show ?case by simp
qed

definition GetAllDependentModuleNames :: "inner_bundle_info \<Rightarrow> string \<Rightarrow> string list option" where
  "GetAllDependentModuleNames i moduleName =
     (case GetDependentModuleNames i moduleName of
        None \<Rightarrow> None
      | Some ds \<Rightarrow> Some (dependency_loop i ds []))"

end
