(* ===== verification/Bundle_Data_Storage.thy ===== *)
theory Bundle_Data_Storage
  imports Inner_Bundle_Info
begin

text \<open>
  \<open>BundleDataStorageDatabase\<close> (\<open>bundle_data_storage_database.cpp\<close>): the bundle information in the
  key-value store, and \<open>BundleExceptionHandler\<close> (\<open>bundle_exception_handler.cpp\<close>), which repairs
  what a crash during an installation left behind. The store itself is a distributed data service
  outside the repository: \<open>kv_put\<close> and \<open>kv_delete\<close> give the status of the first and the second
  attempt for a key, and a call with status \<open>KV_SUCCESS\<close> has taken effect while any other has not.
\<close>

section \<open>The key-value store\<close>

datatype kv_status = KV_SUCCESS | KV_IPC_ERROR | KV_KEY_NOT_FOUND | KV_OTHER

record kv_env =
  kv_present :: bool
  kv_put :: "nat \<Rightarrow> string \<Rightarrow> kv_status"
  kv_delete :: "nat \<Rightarrow> string \<Rightarrow> kv_status"

type_synonym bundle_store = "(string, inner_bundle_info) smap"

text \<open>A call is repeated once after an IPC error.\<close>

definition try_twice :: "(nat \<Rightarrow> kv_status) \<Rightarrow> kv_status" where
  "try_twice call = (if call 0 = KV_IPC_ERROR then call 1 else call 0)"

definition SaveStorageBundleInfo :: "kv_env \<Rightarrow> inner_bundle_info \<Rightarrow> bundle_store \<Rightarrow> bool \<times> bundle_store" where
  "SaveStorageBundleInfo kv i store =
     (if \<not> kv_present kv then (False, store)
      else if try_twice (\<lambda>n. kv_put kv n (GetBundleName i)) \<noteq> KV_SUCCESS then (False, store)
      else (True, sm_assign (GetBundleName i) i store))"

definition delete_key :: "kv_env \<Rightarrow> string \<Rightarrow> bundle_store \<Rightarrow> bool \<times> bundle_store" where
  "delete_key kv key store =
     (if \<not> kv_present kv then (False, store)
      else if try_twice (\<lambda>n. kv_delete kv n key) \<noteq> KV_SUCCESS then (False, store)
      else (True, sm_erase key store))"

definition DeleteStorageBundleInfo :: "kv_env \<Rightarrow> inner_bundle_info \<Rightarrow> bundle_store \<Rightarrow> bool \<times> bundle_store" where
  "DeleteStorageBundleInfo kv i store = delete_key kv (GetBundleName i) store"

definition UpdateDataBase :: "kv_env \<Rightarrow> bundle_store \<Rightarrow> bundle_store \<Rightarrow> bundle_store" where
  "UpdateDataBase kv infos store =
     foldl (\<lambda>st (oldKey, i). case SaveStorageBundleInfo kv i st of
        (False, st') \<Rightarrow> st'
      | (True, st') \<Rightarrow> snd (delete_key kv oldKey st')) store infos"

section \<open>Recovery after a crash\<close>

definition INSTALL_START_mark :: int where "INSTALL_START_mark = 1"
definition INSTALL_FINISH_mark :: int where "INSTALL_FINISH_mark = 2"
definition UPDATING_EXISTED_START_mark :: int where "UPDATING_EXISTED_START_mark = 3"
definition UPDATING_NEW_START_mark :: int where "UPDATING_NEW_START_mark = 4"
definition UPDATING_FINISH_mark :: int where "UPDATING_FINISH_mark = 5"
definition UNINSTALL_BUNDLE_START_mark :: int where "UNINSTALL_BUNDLE_START_mark = 6"
definition UNINSTALL_PACKAGE_START_mark :: int where "UNINSTALL_PACKAGE_START_mark = 7"

definition BUNDLE_CODE_DIR :: string where "BUNDLE_CODE_DIR = ''/data/app/el1/bundle/public''"
definition HAPS :: string where "HAPS = ''/haps/''"
definition TMP_SUFFIX :: string where "TMP_SUFFIX = ''_tmp''"

lemmas mark_defs = INSTALL_START_mark_def INSTALL_FINISH_mark_def UPDATING_EXISTED_START_mark_def
  UPDATING_NEW_START_mark_def UPDATING_FINISH_mark_def UNINSTALL_BUNDLE_START_mark_def
  UNINSTALL_PACKAGE_START_mark_def

text \<open>The requests to the \<open>installd\<close> process; \<open>fs\<close> says which of them succeed.\<close>

datatype fs_call =
    RemoveDir string
  | RemoveModuleDataDir string int
  | RemoveBundleDataDir string int
  | RenameModuleDir string string
  | CreateBundleDir string
  | CreateBundleDataDir string int int int string
  | ExtractModuleFiles string string string string
  | SetDirApl string string string

definition RemoveBundleAndDataDir ::
  "(fs_call \<Rightarrow> bool) \<Rightarrow> string \<Rightarrow> string \<Rightarrow> int \<Rightarrow> bool \<times> fs_call list" where
  "RemoveBundleAndDataDir fs bundleDir bundleOrModuleDir userId =
     (if \<not> fs (RemoveDir bundleDir) then (False, [RemoveDir bundleDir])
      else (let c = (if find_sub HAPS bundleOrModuleDir \<noteq> None then RemoveModuleDataDir bundleOrModuleDir userId
                     else RemoveBundleDataDir bundleOrModuleDir userId)
            in (fs c, [RemoveDir bundleDir, c])))"

definition SetInstallMark :: "string \<Rightarrow> string \<Rightarrow> int \<Rightarrow> inner_bundle_info \<Rightarrow> inner_bundle_info" where
  "SetInstallMark bundleName packageName status i =
     i\<lparr>ib_mark := \<lparr> mk_bundleName = bundleName, mk_packageName = packageName, mk_status = status \<rparr>\<rparr>"

definition finish_mark :: "inner_bundle_info \<Rightarrow> inner_bundle_info" where
  "finish_mark i = SetInstallMark (mk_bundleName (ib_mark i)) (mk_packageName (ib_mark i)) INSTALL_FINISH_mark i"

definition recovery_code_path :: "inner_bundle_info \<Rightarrow> string" where
  "recovery_code_path i = BUNDLE_CODE_DIR @ GetBundleName i"

text \<open>The code directory as \<open>BaseBundleInstaller::CreateBundleCodeDir\<close> makes it.\<close>

definition installer_code_path :: "string \<Rightarrow> string" where
  "installer_code_path bundleName = BUNDLE_CODE_DIR @ ''/'' @ bundleName"

text \<open>
  \<open>HandleInvalidBundle\<close> gives back the information, whether the bundle is still valid, the store and
  the directory requests it made.
\<close>

definition HandleInvalidBundle ::
  "kv_env \<Rightarrow> (fs_call \<Rightarrow> bool) \<Rightarrow> inner_bundle_info \<Rightarrow> bundle_store
     \<Rightarrow> inner_bundle_info \<times> bool \<times> bundle_store \<times> fs_call list" where
  "HandleInvalidBundle kv fs i store =
     (let status = mk_status (ib_mark i); package = mk_packageName (ib_mark i);
          appCodePath = recovery_code_path i;
          moduleDir = appCodePath @ ''/'' @ package;
          moduleDataDir = GetBundleName i @ HAPS @ package;
          (appOk, appCalls) = RemoveBundleAndDataDir fs appCodePath (GetBundleName i) (ib_userId i);
          (modOk, modCalls) = RemoveBundleAndDataDir fs moduleDir moduleDataDir (ib_userId i);
          drop_bundle = (i, False, snd (DeleteStorageBundleInfo kv i store), appCalls);
          repaired = SetBundleStatus BundleStatus_ENABLED (finish_mark i)
      in if status = INSTALL_FINISH_mark then (i, True, store, [])
         else if status = INSTALL_START_mark then
           (if appOk then drop_bundle else (i, True, store, appCalls))
         else if status = UPDATING_EXISTED_START_mark then
           (let c = RemoveDir (moduleDir @ TMP_SUFFIX) in (if fs c then repaired else i, True, store, [c]))
         else if status = UPDATING_NEW_START_mark then
           (if modOk then repaired else i, True, store, modCalls)
         else if status = UNINSTALL_BUNDLE_START_mark then
           (if appOk then drop_bundle else (i, True, store, appCalls))
         else if status = UNINSTALL_PACKAGE_START_mark then
           (if IsOnlyModule package i \<and> appOk then drop_bundle
            else (if modOk then SetBundleStatus BundleStatus_ENABLED (finish_mark (RemoveModuleInfo package i)) else i,
                  True, store, (if IsOnlyModule package i then appCalls else []) @ modCalls))
         else if status = UPDATING_FINISH_mark then
           (let c = RenameModuleDir (moduleDir @ TMP_SUFFIX) moduleDir in (if fs c then finish_mark i else i, True, store, [c]))
         else (i, True, store, []))"

text \<open>\<open>RemoveSandboxApp\<close>; its data directories and tokens are removed by a detached thread.\<close>

definition RemoveSandboxApp ::
  "kv_env \<Rightarrow> inner_bundle_info \<Rightarrow> bundle_store \<Rightarrow> inner_bundle_info \<times> bundle_store" where
  "RemoveSandboxApp kv i store =
     (if ib_sandboxPersistentInfo i = [] then (i, store)
      else (let i' = i\<lparr>ib_sandboxPersistentInfo := []\<rparr> in (i', snd (SaveStorageBundleInfo kv i' store))))"

section \<open>Loading\<close>

text \<open>\<open>decode\<close> reads a stored value back, \<open>None\<close> when that fails (the theory \<open>Json_Storage\<close> gives it for JSON).\<close>

definition load_one ::
  "kv_env \<Rightarrow> (fs_call \<Rightarrow> bool) \<Rightarrow> ('t \<Rightarrow> inner_bundle_info option)
     \<Rightarrow> bundle_store \<times> bundle_store \<times> bundle_store \<Rightarrow> string \<times> 't
     \<Rightarrow> bundle_store \<times> bundle_store \<times> bundle_store" where
  "load_one kv fs decode s entry =
     (case s of (infos, updateInfos, store) \<Rightarrow> (case entry of (key, text) \<Rightarrow>
        (case decode text of
           None \<Rightarrow> (infos, updateInfos, if kv_delete kv 0 key = KV_SUCCESS then sm_erase key store else store)
         | Some i0 \<Rightarrow>
             (case HandleInvalidBundle kv fs i0 store of (i1, valid, store1, _) \<Rightarrow>
              (case RemoveSandboxApp kv i1 store1 of (i2, store2) \<Rightarrow>
                 if \<not> valid then (infos, updateInfos, store2)
                 else (sm_emplace (GetBundleName i2) i2 infos,
                       if key \<noteq> GetBundleName i2 then sm_emplace key i2 updateInfos else updateInfos,
                       store2))))))"

definition SaveEntries ::
  "kv_env \<Rightarrow> (fs_call \<Rightarrow> bool) \<Rightarrow> ('t \<Rightarrow> inner_bundle_info option)
     \<Rightarrow> (string \<times> 't) list \<Rightarrow> bundle_store \<Rightarrow> bundle_store \<Rightarrow> bundle_store \<times> bundle_store" where
  "SaveEntries kv fs decode entries infos store =
     (case foldl (load_one kv fs decode) (infos, [], store) entries of
        (infos', updateInfos, store') \<Rightarrow>
          (infos', if updateInfos \<noteq> [] then UpdateDataBase kv updateInfos store' else store'))"

text \<open>\<open>entriesStatus\<close> is what \<open>GetEntries\<close> answers at the first and the second attempt.\<close>

definition LoadAllData ::
  "kv_env \<Rightarrow> (fs_call \<Rightarrow> bool) \<Rightarrow> (inner_bundle_info \<Rightarrow> inner_bundle_info option) \<Rightarrow> (nat \<Rightarrow> kv_status)
     \<Rightarrow> bundle_store \<Rightarrow> bundle_store \<Rightarrow> bool \<times> bundle_store \<times> bundle_store" where
  "LoadAllData kv fs decode entriesStatus infos store =
     (if \<not> kv_present kv then (False, infos, store)
      else if try_twice entriesStatus \<noteq> KV_SUCCESS then (False, infos, store)
      else (case SaveEntries kv fs decode store infos store of (infos', store') \<Rightarrow> (True, infos', store')))"

end
