(* ===== verification/Bundle_State_Storage.thy ===== *)
theory Bundle_State_Storage
  imports Inner_Bundle_Info
begin

text \<open>
  \<open>BundleStateStorage\<close> (\<open>bundle_state_storage.cpp\<close>): the file that keeps, per bundle and user, what
  has been disabled. The file is its content, \<open>None\<close> when it cannot be opened. The JSON library
  and the splitting of keys are parameters: \<open>js_dump\<close> prints an object with the configured
  indentation and the final line end, \<open>js_stream\<close> is \<open>operator>>\<close>, which reads one value and stops
  there, \<open>js_parse\<close> is \<open>json::parse\<close>, which wants the value to be the whole text.
\<close>

section \<open>The state file\<close>

type_synonym state_json = "(string, bundle_user_info) smap"

record json_codec =
  js_dump :: "state_json \<Rightarrow> string"
  js_dump_plain :: "state_json \<Rightarrow> string"
  js_stream :: "string \<Rightarrow> state_json option"
  js_parse :: "string \<Rightarrow> state_json option"

type_synonym state_file = "string option"

text \<open>Writing through a stream opened for reading and writing: the file is not truncated.\<close>

definition overwrite :: "string \<Rightarrow> string \<Rightarrow> string" where
  "overwrite new old = new @ drop (length new) old"

definition SaveBundleStateStorage ::
  "json_codec \<Rightarrow> string \<Rightarrow> int \<Rightarrow> bundle_user_info \<Rightarrow> state_file \<Rightarrow> (bool \<times> state_file) option" where
  "SaveBundleStateStorage js bundleName userId info file =
     (if bundleName = [] \<or> userId < 0 then Some (False, file)
      else (case file of
              None \<Rightarrow> Some (False, file)
            | Some content \<Rightarrow>
                (let appName = NameAndUserIdToKey bundleName userId in
                 if content = [] then Some (True, Some (overwrite (js_dump js (sm_assign appName info [])) content))
                 else (case js_stream js content of
                         None \<Rightarrow> None
                       | Some root \<Rightarrow> Some (True, Some (overwrite (js_dump js (sm_assign appName info root)) content))))))"

text \<open>Deleting reopens the file for output, which truncates it.\<close>

definition DeleteBundleState ::
  "json_codec \<Rightarrow> string \<Rightarrow> int \<Rightarrow> state_file \<Rightarrow> (bool \<times> state_file) option" where
  "DeleteBundleState js bundleName userId file =
     (if bundleName = [] \<or> userId < 0 then Some (False, file)
      else (case file of
              None \<Rightarrow> Some (False, file)
            | Some content \<Rightarrow>
                if content = [] then Some (True, file)
                else (case js_stream js content of
                        None \<Rightarrow> None
                      | Some root \<Rightarrow>
                          (let appName = NameAndUserIdToKey bundleName userId in
                           if map_of root appName = None then Some (True, file)
                           else (let root' = sm_erase appName root in
                                 Some (True, Some (if root' = [] then [] else js_dump_plain js root')))))))"

text \<open>
  \<open>KeyToNameAndUserId\<close> splits the key at the underscore; \<open>splitStr\<close> is \<open>OHOS::SplitStr\<close> and
  \<open>atoi\<close> the C function.
\<close>

definition KeyToNameAndUserId ::
  "(string \<Rightarrow> string \<Rightarrow> string list) \<Rightarrow> (string \<Rightarrow> int) \<Rightarrow> string \<Rightarrow> (string \<times> int) option" where
  "KeyToNameAndUserId splitStr atoi key =
     (case splitStr key FILE_UNDERLINE of
        [bundleName, userId] \<Rightarrow> Some (bundleName, atoi userId)
      | _ \<Rightarrow> None)"

definition load_entry ::
  "(string, (int, bundle_user_info) smap) smap \<Rightarrow> string \<Rightarrow> int \<Rightarrow> bundle_user_info
     \<Rightarrow> (string, (int, bundle_user_info) smap) smap" where
  "load_entry infos bundleName userId info =
     (case map_of infos bundleName of
        None \<Rightarrow> sm_emplace bundleName (sm_emplace userId info []) infos
      | Some users \<Rightarrow> sm_update bundleName
          (\<lambda>us. if map_of us userId = None then sm_emplace userId info us else sm_assign userId info us) infos)"

definition LoadAllBundleStateDataFromJson ::
  "(string \<Rightarrow> (string \<times> int) option) \<Rightarrow> state_json option \<Rightarrow> (string, (int, bundle_user_info) smap) smap
     \<Rightarrow> bool \<times> (string, (int, bundle_user_info) smap) smap" where
  "LoadAllBundleStateDataFromJson keyTo root infos =
     (case root of
        None \<Rightarrow> (False, infos)
      | Some items \<Rightarrow>
          (let infos' = foldl (\<lambda>m (k, info). case keyTo k of None \<Rightarrow> m | Some (n, u) \<Rightarrow> load_entry m n u info) infos items
           in (infos' \<noteq> [], infos')))"

definition LoadAllBundleStateData ::
  "json_codec \<Rightarrow> (string \<Rightarrow> (string \<times> int) option) \<Rightarrow> state_file \<Rightarrow> bool \<times> (string, (int, bundle_user_info) smap) smap" where
  "LoadAllBundleStateData js keyTo file =
     (case file of
        None \<Rightarrow> (False, [])
      | Some content \<Rightarrow>
          if content = [] then (False, [])
          else LoadAllBundleStateDataFromJson keyTo (js_parse js content) [])"

section \<open>What is read back\<close>

text \<open>
  What the JSON library documents: a printed object ends with its brace and, after \<open>std::endl\<close>, a
  line end; reading from a stream stops behind the value; parsing a whole text accepts the printed
  object and refuses it when something other than white space follows.
\<close>

definition blank :: "char \<Rightarrow> bool" where
  "blank c \<longleftrightarrow> c \<in> {CHR '' '', CHR 0x09, CHR 0x0A, CHR 0x0D}"

definition codec_ok :: "json_codec \<Rightarrow> bool" where
  "codec_ok js \<longleftrightarrow>
     (\<forall>m. \<exists>p. js_dump js m = p @ [CHR ''}'', CHR 0x0A]) \<and>
     (\<forall>m rest. js_stream js (js_dump js m @ rest) = Some m) \<and>
     (\<forall>m. js_parse js (js_dump js m) = Some m) \<and>
     (\<forall>m rest. (\<exists>c \<in> set rest. \<not> blank c) \<longrightarrow> js_parse js (js_dump js m @ rest) = None)"

lemma overwrite_longer: "length old \<le> length new \<Longrightarrow> overwrite new old = new"
  by (simp add: overwrite_def)

lemma overwrite_shorter:
  assumes "old = p @ [CHR ''}'', CHR 0x0A]" "length new + 2 \<le> length old"
  shows "\<exists>c \<in> set (drop (length new) old). \<not> blank c"
proof -
  have "CHR ''}'' \<in> set (drop (length new) old)"
    using assms by simp
  then show ?thesis by (auto simp: blank_def)
qed

text \<open>
  Saving the state of a user into the state file keeps the file readable only as long as the
  text does not get shorter: if the new text is at least as long as the old one, the file afterwards
  holds exactly the old states with the new one put in; if it is at least two characters shorter,
  the end of the old text is left behind the new one, the file no longer parses, and the next start
  loads no state of any bundle, although the call has reported success.
\<close>

theorem state_file_not_truncated:
  assumes "codec_ok js" "n \<noteq> []" "0 \<le> v"
    and "new = js_dump js (sm_assign (NameAndUserIdToKey n v) info old)"
  shows "\<exists>content. SaveBundleStateStorage js n v info (Some (js_dump js old)) = Some (True, Some content) \<and>
    (length (js_dump js old) \<le> length new \<longrightarrow>
       js_parse js content = Some (sm_assign (NameAndUserIdToKey n v) info old)) \<and>
    (length new + 2 \<le> length (js_dump js old) \<longrightarrow>
       js_parse js content = None \<and> LoadAllBundleStateData js keyTo (Some content) = (False, []))"
proof -
  obtain p where p: "js_dump js old = p @ [CHR ''}'', CHR 0x0A]" using assms(1) unfolding codec_ok_def by blast
  have st: "js_stream js (js_dump js old) = Some old"
    using assms(1) unfolding codec_ok_def by (metis append_Nil2)
  let ?c = "overwrite new (js_dump js old)"
  have "SaveBundleStateStorage js n v info (Some (js_dump js old)) = Some (True, Some ?c)"
    using assms(2-4) st p by (simp add: SaveBundleStateStorage_def)
  moreover have "js_parse js ?c = Some (sm_assign (NameAndUserIdToKey n v) info old)"
    if "length (js_dump js old) \<le> length new"
    using assms(1,4) overwrite_longer [OF that] by (simp add: codec_ok_def)
  moreover have "js_parse js ?c = None" if "length new + 2 \<le> length (js_dump js old)"
    using assms(1,4) overwrite_shorter [OF p that] by (simp add: codec_ok_def overwrite_def)
  moreover have "?c \<noteq> []" if "length new + 2 \<le> length (js_dump js old)"
    using that by (auto simp: overwrite_def)
  ultimately show ?thesis
    by (auto simp: LoadAllBundleStateData_def LoadAllBundleStateDataFromJson_def)
qed

text \<open>A codec that meets the laws, to show that they can hold.\<close>

definition enc_nat :: "nat \<Rightarrow> string" where "enc_nat n = replicate n (CHR ''1'') @ ''.''"

fun dec_nat :: "string \<Rightarrow> nat \<times> string" where
  "dec_nat [] = (0, [])"
| "dec_nat (c # cs) = (if c = CHR ''1'' then (Suc (fst (dec_nat cs)), snd (dec_nat cs)) else (0, cs))"

lemma dec_enc_nat: "dec_nat (enc_nat n @ r) = (n, r)"
  unfolding enc_nat_def by (induction n) simp_all

definition enc_string :: "string \<Rightarrow> string" where "enc_string s = enc_nat (length s) @ s"

definition dec_string :: "string \<Rightarrow> string \<times> string" where
  "dec_string s = (case dec_nat s of (n, r) \<Rightarrow> (take n r, drop n r))"

lemma dec_enc_string: "dec_string (enc_string s @ r) = (s, r)"
  by (simp add: dec_string_def enc_string_def dec_enc_nat)

definition enc_list :: "('a \<Rightarrow> string) \<Rightarrow> 'a list \<Rightarrow> string" where
  "enc_list e xs = enc_nat (length xs) @ concat (map e xs)"

primrec dec_times :: "(string \<Rightarrow> 'a \<times> string) \<Rightarrow> nat \<Rightarrow> string \<Rightarrow> 'a list \<times> string" where
  "dec_times d 0 s = ([], s)"
| "dec_times d (Suc n) s = (case d s of (x, r) \<Rightarrow> (case dec_times d n r of (xs, r') \<Rightarrow> (x # xs, r')))"

definition dec_list :: "(string \<Rightarrow> 'a \<times> string) \<Rightarrow> string \<Rightarrow> 'a list \<times> string" where
  "dec_list d s = (case dec_nat s of (n, r) \<Rightarrow> dec_times d n r)"

lemma dec_enc_list:
  assumes "\<And>x r. d (e x @ r) = (x, r)"
  shows "dec_list d (enc_list e xs @ r) = (xs, r)"
proof -
  have "dec_times d (length xs) (concat (map e xs) @ r) = (xs, r)"
    by (induction xs) (simp_all add: assms)
  then show ?thesis by (simp add: dec_list_def enc_list_def dec_enc_nat)
qed

definition enc_entry :: "string \<times> bundle_user_info \<Rightarrow> string" where
  "enc_entry p = (case p of (k, b) \<Rightarrow> enc_string k @ enc_nat (nat (bu_userId b)) @ enc_nat (nat (- bu_userId b)) @
     enc_nat (if bu_enabled b then 1 else 0) @ enc_list enc_string (bu_disabledAbilities b))"

definition dec_entry :: "string \<Rightarrow> (string \<times> bundle_user_info) \<times> string" where
  "dec_entry s =
     (case dec_string s of (k, r1) \<Rightarrow> case dec_nat r1 of (a, r2) \<Rightarrow> case dec_nat r2 of (b, r3) \<Rightarrow>
      case dec_nat r3 of (e, r4) \<Rightarrow> case dec_list dec_string r4 of (ds, r5) \<Rightarrow>
        ((k, \<lparr> bu_userId = int a - int b, bu_enabled = (e = 1), bu_disabledAbilities = ds \<rparr>), r5))"

lemma dec_enc_entry: "dec_entry (enc_entry p @ r) = (p, r)"
  by (cases p) (auto simp: dec_entry_def enc_entry_def dec_enc_string dec_enc_nat
      dec_enc_list [of dec_string enc_string, OF dec_enc_string])

definition sample_codec :: json_codec where
  "sample_codec = \<lparr>
     js_dump = (\<lambda>m. enc_list enc_entry m @ [CHR ''}'', CHR 0x0A]),
     js_dump_plain = (\<lambda>m. enc_list enc_entry m @ ''}''),
     js_stream = (\<lambda>s. Some (fst (dec_list dec_entry s))),
     js_parse = (\<lambda>s. case dec_list dec_entry s of (m, r) \<Rightarrow>
        if r = [CHR ''}'', CHR 0x0A] \<or> r = ''}'' then Some m else None) \<rparr>"

lemma sample_codec_ok: "codec_ok sample_codec"
  using dec_enc_list [of dec_entry enc_entry, OF dec_enc_entry]
  by (auto simp: codec_ok_def sample_codec_def)

definition two_disabled :: bundle_user_info where
  "two_disabled = \<lparr> bu_userId = 1, bu_enabled = True, bu_disabledAbilities = [''A'', ''B''] \<rparr>"

definition one_disabled :: bundle_user_info where
  "one_disabled = \<lparr> bu_userId = 1, bu_enabled = True, bu_disabledAbilities = [''A''] \<rparr>"

theorem state_file_not_truncated_witness:
  "\<exists>content. SaveBundleStateStorage sample_codec ''com.a'' 1 one_disabled
     (Some (js_dump sample_codec [(''com.a_1'', two_disabled)])) = Some (True, Some content) \<and>
   LoadAllBundleStateData sample_codec (\<lambda>_. None) (Some content) = (False, [])"
proof -
  let ?new = "js_dump sample_codec (sm_assign (NameAndUserIdToKey ''com.a'' 1) one_disabled [(''com.a_1'', two_disabled)])"
  have key: "NameAndUserIdToKey ''com.a'' 1 = ''com.a_1''"
    by code_simp
  have "length ?new + 2 \<le> length (js_dump sample_codec [(''com.a_1'', two_disabled)])"
    unfolding key by (simp add: sample_codec_def enc_list_def enc_entry_def enc_string_def enc_nat_def
        one_disabled_def two_disabled_def)
  with state_file_not_truncated [OF sample_codec_ok, of "''com.a''" 1 ?new one_disabled
      "[(''com.a_1'', two_disabled)]" "\<lambda>_. None"]
  show ?thesis by auto
qed

end
