(* ===== verification/Bundle_Data_Mgr.thy ===== *)
theory Bundle_Data_Mgr
  imports Bundle_Data_Storage Bundle_State_Storage
begin

text \<open>
  \<open>BundleDataMgr\<close> (\<open>bundle_data_mgr.cpp\<close>): the installed bundles in memory and in the store, the
  install state of each, the bundle ids from which uids are made, the users, and the pre-installed
  bundles. Every operation holds \<open>bundleInfoMutex_\<close> (or the mutex of the map it changes) for its
  whole body, so each is one step on the state. Where the member function has the name of a member
  of \<open>InnerBundleInfo\<close> that it calls, the definition has the prefix \<open>Mgr_\<close>.
\<close>

section \<open>State\<close>

datatype install_state =
    INSTALL_START | INSTALL_SUCCESS | INSTALL_FAIL
  | UNINSTALL_START | UNINSTALL_SUCCESS | UNINSTALL_FAIL
  | UPDATING_START | UPDATING_SUCCESS | UPDATING_FAIL
  | ROLL_BACK | USER_CHANGE

text \<open>The calls that keep the distributed file system's table of bundle ids.\<close>

datatype hmdfs_call = MakeHmdfsConfig string int | RemoveHmdfsConfig string

record data_mgr =
  dm_bundleInfos :: bundle_store
  dm_installStates :: "(string, install_state) smap"
  dm_bundleIdMap :: "(int, string) smap"
  dm_multiUserIdsSet :: "int list"
  dm_preInstallBundleInfos :: "pre_install_bundle_info list"
  dm_initialUserFlag :: bool
  dm_dataStorage :: bundle_store
  dm_bundleState :: state_file
  dm_hmdfs :: "hmdfs_call list"

definition new_BundleDataMgr :: "bundle_store \<Rightarrow> state_file \<Rightarrow> data_mgr" where
  "new_BundleDataMgr store file = \<lparr>
     dm_bundleInfos = [], dm_installStates = [], dm_bundleIdMap = [], dm_multiUserIdsSet = [],
     dm_preInstallBundleInfos = [], dm_initialUserFlag = False, dm_dataStorage = store,
     dm_bundleState = file, dm_hmdfs = [] \<rparr>"

section \<open>Install states\<close>

text \<open>\<open>transferStates_\<close>: the pairs of a new state and a state it may follow.\<close>

definition transferStates :: "(install_state \<times> install_state) list" where
  "transferStates =
     [(INSTALL_SUCCESS, INSTALL_START), (INSTALL_FAIL, INSTALL_START),
      (UNINSTALL_START, INSTALL_SUCCESS), (UNINSTALL_START, INSTALL_START),
      (UNINSTALL_START, UPDATING_SUCCESS), (UNINSTALL_FAIL, UNINSTALL_START),
      (UNINSTALL_SUCCESS, UNINSTALL_START), (UPDATING_START, INSTALL_SUCCESS),
      (UPDATING_SUCCESS, UPDATING_START), (UPDATING_FAIL, UPDATING_START),
      (UPDATING_FAIL, INSTALL_START), (UPDATING_START, INSTALL_START),
      (INSTALL_SUCCESS, UPDATING_START), (INSTALL_SUCCESS, UPDATING_SUCCESS),
      (INSTALL_SUCCESS, UNINSTALL_START), (UPDATING_START, UPDATING_SUCCESS),
      (ROLL_BACK, UPDATING_START), (ROLL_BACK, UPDATING_SUCCESS), (INSTALL_SUCCESS, ROLL_BACK),
      (UNINSTALL_START, USER_CHANGE), (UPDATING_START, USER_CHANGE), (INSTALL_SUCCESS, USER_CHANGE),
      (UPDATING_SUCCESS, USER_CHANGE), (USER_CHANGE, INSTALL_SUCCESS), (USER_CHANGE, UPDATING_SUCCESS),
      (USER_CHANGE, UPDATING_START)]"

definition IsDeleteDataState :: "install_state \<Rightarrow> bool" where
  "IsDeleteDataState state \<longleftrightarrow> state = INSTALL_FAIL \<or> state = UNINSTALL_FAIL \<or>
     state = UNINSTALL_SUCCESS \<or> state = UPDATING_FAIL"

section \<open>Bundle ids\<close>

definition GetUserIdByUid :: "int \<Rightarrow> int" where
  "GetUserIdByUid uid = (if uid \<le> INVALID_UID then INVALID_USERID else uid div BASE_USER_RANGE)"

text \<open>The search for the first gap below the largest id.\<close>

function find_gap :: "(int, string) smap \<Rightarrow> int \<Rightarrow> int \<Rightarrow> int option" where
  "find_gap m i upper =
     (if i < upper then (if map_of m i = None then Some i else find_gap m (i + 1) upper) else None)"
  by pat_completeness auto
termination by (relation "measure (\<lambda>(m, i, upper). nat (upper - i))") auto

declare find_gap.simps [simp del]

definition GenerateBundleId :: "string \<Rightarrow> data_mgr \<Rightarrow> int option \<times> data_mgr" where
  "GenerateBundleId bundleName s =
     (let m = dm_bundleIdMap s in
      if m = [] then (Some BASE_APP_UID, s\<lparr>dm_bundleIdMap := sm_emplace BASE_APP_UID bundleName m\<rparr>)
      else (case find (\<lambda>(_, n). n = bundleName) m of
              Some (bundleId, _) \<Rightarrow> (Some bundleId, s)
            | None \<Rightarrow>
                (case find_gap m BASE_APP_UID (fst (last m)) of
                   Some i \<Rightarrow> (Some i, s\<lparr>dm_bundleIdMap := sm_emplace i bundleName m,
                                       dm_hmdfs := dm_hmdfs s @ [MakeHmdfsConfig bundleName i]\<rparr>)
                 | None \<Rightarrow>
                     if fst (last m) = MAX_APP_UID then (None, s)
                     else (let i = fst (last m) + 1 in
                           (Some i, s\<lparr>dm_bundleIdMap := sm_emplace i bundleName m,
                                      dm_hmdfs := dm_hmdfs s @ [MakeHmdfsConfig bundleName i]\<rparr>)))))"

definition GenerateUidAndGid ::
  "inner_bundle_user_info \<Rightarrow> data_mgr \<Rightarrow> bool \<times> inner_bundle_user_info \<times> data_mgr" where
  "GenerateUidAndGid u s =
     (if iu_bundleName u = [] then (False, u, s)
      else (case GenerateBundleId (iu_bundleName u) s of
              (None, s') \<Rightarrow> (False, u, s')
            | (Some bundleId, s') \<Rightarrow>
                (let uid = bu_userId (iu_bundleUserInfo u) * BASE_USER_RANGE + bundleId mod BASE_USER_RANGE
                 in (True, u\<lparr>iu_uid := uid, iu_gids := iu_gids u @ [uid]\<rparr>, s'))))"

text \<open>The bundle id in the uid of a bundle's first user.\<close>

definition uid_bundleId :: "inner_bundle_user_info \<Rightarrow> int" where
  "uid_bundleId u = iu_uid u - bu_userId (iu_bundleUserInfo u) * BASE_USER_RANGE"

definition RecycleUidAndGid :: "inner_bundle_info \<Rightarrow> data_mgr \<Rightarrow> data_mgr" where
  "RecycleUidAndGid i s =
     (case ib_innerBundleUserInfos i of
        [] \<Rightarrow> s
      | (_, u) # _ \<Rightarrow>
          if map_of (dm_bundleIdMap s) (uid_bundleId u) = None then s
          else s\<lparr>dm_bundleIdMap := sm_erase (uid_bundleId u) (dm_bundleIdMap s),
                 dm_hmdfs := dm_hmdfs s @ [RemoveHmdfsConfig (iu_bundleName u)]\<rparr>)"

section \<open>Users\<close>

definition AddUserId :: "int \<Rightarrow> data_mgr \<Rightarrow> data_mgr" where
  "AddUserId userId s =
     (if userId \<in> set (dm_multiUserIdsSet s) then s
      else s\<lparr>dm_multiUserIdsSet := ss_insert userId (dm_multiUserIdsSet s)\<rparr>)"

definition RemoveUserId :: "int \<Rightarrow> data_mgr \<Rightarrow> data_mgr" where
  "RemoveUserId userId s =
     (if userId \<notin> set (dm_multiUserIdsSet s) then s
      else s\<lparr>dm_multiUserIdsSet := ss_erase userId (dm_multiUserIdsSet s)\<rparr>)"

definition HasUserId :: "int \<Rightarrow> data_mgr \<Rightarrow> bool" where
  "HasUserId userId s \<longleftrightarrow> userId \<in> set (dm_multiUserIdsSet s)"

text \<open>\<open>callingUid\<close> is the uid of the IPC caller.\<close>

definition GetUserId :: "int \<Rightarrow> int \<Rightarrow> data_mgr \<Rightarrow> int" where
  "GetUserId callingUid userId s =
     (if userId = ANY_USERID \<or> userId = ALL_USERID then userId
      else (let u = (if userId = UNSPECIFIED_USERID then GetUserIdByUid callingUid else userId)
            in if HasUserId u s then u else INVALID_USERID))"

text \<open>The loop over the users of one bundle: all users are added, the first one gives the id.\<close>

definition restore_bundle :: "data_mgr \<Rightarrow> inner_bundle_info \<Rightarrow> data_mgr" where
  "restore_bundle s i =
     (let users = map snd (ib_innerBundleUserInfos i);
          s1 = foldl (\<lambda>s u. AddUserId (bu_userId (iu_bundleUserInfo u)) s) s users
      in case users of
           [] \<Rightarrow> s1
         | u # _ \<Rightarrow> s1\<lparr>dm_bundleIdMap := sm_assign (uid_bundleId u) (iu_bundleName u) (dm_bundleIdMap s1),
                        dm_hmdfs := dm_hmdfs s1 @ [MakeHmdfsConfig (iu_bundleName u) (uid_bundleId u)]\<rparr>)"

definition RestoreUidAndGid :: "data_mgr \<Rightarrow> data_mgr" where
  "RestoreUidAndGid s = foldl restore_bundle s (map snd (dm_bundleInfos s))"

section \<open>Installing, updating, removing\<close>

definition DeleteBundleInfo :: "kv_env \<Rightarrow> string \<Rightarrow> install_state \<Rightarrow> data_mgr \<Rightarrow> data_mgr" where
  "DeleteBundleInfo kv bundleName state s =
     (if state = INSTALL_FAIL then s
      else (case map_of (dm_bundleInfos s) bundleName of
              None \<Rightarrow> s
            | Some i \<Rightarrow>
                (let s1 = RecycleUidAndGid i s
                 in s1\<lparr>dm_dataStorage := snd (DeleteStorageBundleInfo kv i (dm_dataStorage s1)),
                       dm_bundleInfos := sm_erase bundleName (dm_bundleInfos s1)\<rparr>)))"

definition UpdateBundleInstallState :: "kv_env \<Rightarrow> string \<Rightarrow> install_state \<Rightarrow> data_mgr \<Rightarrow> bool \<times> data_mgr" where
  "UpdateBundleInstallState kv bundleName state s =
     (if bundleName = [] then (False, s)
      else (case map_of (dm_installStates s) bundleName of
              None \<Rightarrow>
                if state = INSTALL_START
                then (True, s\<lparr>dm_installStates := sm_emplace bundleName state (dm_installStates s)\<rparr>)
                else (False, s)
            | Some current \<Rightarrow>
                if (state, current) \<in> set transferStates then
                  (if IsDeleteDataState state
                   then (True, DeleteBundleInfo kv bundleName state
                                 (s\<lparr>dm_installStates := sm_erase bundleName (dm_installStates s)\<rparr>))
                   else (True, s\<lparr>dm_installStates := sm_assign bundleName state (dm_installStates s)\<rparr>))
                else (False, s)))"

text \<open>Saving an information and, only if that worked, replacing the one in memory.\<close>

definition save_and_set :: "kv_env \<Rightarrow> string \<Rightarrow> inner_bundle_info \<Rightarrow> data_mgr \<Rightarrow> bool \<times> data_mgr" where
  "save_and_set kv bundleName i s =
     (case SaveStorageBundleInfo kv i (dm_dataStorage s) of
        (False, st) \<Rightarrow> (False, s\<lparr>dm_dataStorage := st\<rparr>)
      | (True, st) \<Rightarrow> (True, s\<lparr>dm_dataStorage := st, dm_bundleInfos := sm_assign bundleName i (dm_bundleInfos s)\<rparr>))"

definition AddInnerBundleInfo :: "kv_env \<Rightarrow> string \<Rightarrow> inner_bundle_info \<Rightarrow> data_mgr \<Rightarrow> bool \<times> data_mgr" where
  "AddInnerBundleInfo kv bundleName i s =
     (if bundleName = [] then (False, s)
      else if map_of (dm_bundleInfos s) bundleName \<noteq> None then (False, s)
      else if map_of (dm_installStates s) bundleName \<noteq> Some INSTALL_START then (False, s)
      else save_and_set kv bundleName i s)"

text \<open>The members the update paths copy from the new information when it decides the bundle's data.\<close>

definition copy_base :: "inner_bundle_info \<Rightarrow> inner_bundle_info \<Rightarrow> inner_bundle_info" where
  "copy_base new old =
     (let o1 = UpdateBaseBundleInfo (ib_baseBundleInfo new) (HasEntry new) old;
          o2 = UpdateBaseApplicationInfo (ib_baseApplicationInfo new) o1
      in o2)"

definition set_privileges :: "inner_bundle_info \<Rightarrow> inner_bundle_info \<Rightarrow> inner_bundle_info" where
  "set_privileges new old =
     (SetAppPrivilegeLevel (app_appPrivilegeLevel (ib_baseApplicationInfo new)) old)\<lparr>ib_allowedAcls := ib_allowedAcls new\<rparr>"

definition AddNewModuleInfo ::
  "kv_env \<Rightarrow> string \<Rightarrow> inner_bundle_info \<Rightarrow> inner_bundle_info \<Rightarrow> data_mgr \<Rightarrow> bool \<times> inner_bundle_info \<times> data_mgr" where
  "AddNewModuleInfo kv bundleName new old s =
     (if map_of (dm_bundleInfos s) bundleName = None then (False, old, s)
      else if map_of (dm_installStates s) bundleName \<noteq> Some UPDATING_SUCCESS then (False, old, s)
      else (let o1 = (if \<not> HasEntry old \<or> bi_entryInstallationFree (ib_baseBundleInfo old)
                      then set_privileges new (copy_base new old) else old);
                o2 = o1\<lparr>ib_bundlePackInfo := ib_bundlePackInfo new\<rparr>;
                o3 = SetBundleStatus BundleStatus_ENABLED (snd (AddModuleInfo new o2));
                (ok, s') = save_and_set kv bundleName o3 s
            in (ok, o3, s')))"

definition Mgr_RemoveModuleInfo ::
  "kv_env \<Rightarrow> string \<Rightarrow> string \<Rightarrow> inner_bundle_info \<Rightarrow> data_mgr \<Rightarrow> bool \<times> inner_bundle_info \<times> data_mgr" where
  "Mgr_RemoveModuleInfo kv bundleName modulePackage old s =
     (if map_of (dm_bundleInfos s) bundleName = None then (False, old, s)
      else (case map_of (dm_installStates s) bundleName of
              None \<Rightarrow> (False, old, s)
            | Some state \<Rightarrow>
                if state = UNINSTALL_START \<or> state = ROLL_BACK then
                  (let o1 = SetBundleStatus BundleStatus_ENABLED (RemoveModuleInfo modulePackage old);
                       (_, s') = save_and_set kv bundleName o1 s
                   in (True, o1, s'))
                else (True, old, s)))"

definition UpdateInnerBundleInfo ::
  "kv_env \<Rightarrow> string \<Rightarrow> inner_bundle_info \<Rightarrow> inner_bundle_info \<Rightarrow> data_mgr \<Rightarrow> bool \<times> inner_bundle_info \<times> data_mgr" where
  "UpdateInnerBundleInfo kv bundleName new old s =
     (if map_of (dm_bundleInfos s) bundleName = None then (False, old, s)
      else (case map_of (dm_installStates s) bundleName of
              None \<Rightarrow> (False, old, s)
            | Some state \<Rightarrow>
                if state = UPDATING_SUCCESS \<or> state = ROLL_BACK \<or> state = USER_CHANGE then
                  (let o1 = (if HasEntry new \<or> \<not> HasEntry old \<or> bi_entryInstallationFree (ib_baseBundleInfo old)
                             then set_privileges new ((SetAppType (ib_appType new) (copy_base new old))
                                                       \<lparr>ib_appFeature := ib_appFeature new\<rparr>)
                             else old);
                       o2 = o1\<lparr>ib_bundlePackInfo := ib_bundlePackInfo new\<rparr>;
                       o3 = SetBundleStatus BundleStatus_ENABLED (UpdateModuleInfo new o2);
                       (ok, s') = save_and_set kv bundleName o3 s
                   in (ok, o3, s'))
                else (False, old, s)))"

text \<open>Changing the information in memory and then saving it; a failed save keeps the change.\<close>

definition set_and_save ::
  "kv_env \<Rightarrow> string \<Rightarrow> inner_bundle_info \<Rightarrow> data_mgr \<Rightarrow> bool \<times> data_mgr" where
  "set_and_save kv bundleName i s =
     (let s1 = s\<lparr>dm_bundleInfos := sm_assign bundleName i (dm_bundleInfos s)\<rparr>
      in case SaveStorageBundleInfo kv i (dm_dataStorage s1) of
           (ok, st) \<Rightarrow> (ok, s1\<lparr>dm_dataStorage := st\<rparr>))"

definition Mgr_AddInnerBundleUserInfo ::
  "kv_env \<Rightarrow> string \<Rightarrow> inner_bundle_user_info \<Rightarrow> data_mgr \<Rightarrow> bool \<times> data_mgr" where
  "Mgr_AddInnerBundleUserInfo kv bundleName u s =
     (case map_of (dm_bundleInfos s) bundleName of
        None \<Rightarrow> (False, s)
      | Some i \<Rightarrow>
          set_and_save kv bundleName (SetBundleStatus BundleStatus_ENABLED (AddInnerBundleUserInfo u i)) s)"

text \<open>
  The state file is read by a parser that throws on a malformed text; that exception leaves the
  operation, and is the result \<open>None\<close>.
\<close>

definition Mgr_RemoveInnerBundleUserInfo ::
  "kv_env \<Rightarrow> json_codec \<Rightarrow> string \<Rightarrow> int \<Rightarrow> data_mgr \<Rightarrow> (bool \<times> data_mgr) option" where
  "Mgr_RemoveInnerBundleUserInfo kv js bundleName userId s =
     (case map_of (dm_bundleInfos s) bundleName of
        None \<Rightarrow> Some (False, s)
      | Some i \<Rightarrow>
          (case set_and_save kv bundleName
                  (SetBundleStatus BundleStatus_ENABLED (RemoveInnerBundleUserInfo userId i)) s of
             (False, s1) \<Rightarrow> Some (False, s1)
           | (True, s1) \<Rightarrow>
               (case DeleteBundleState js bundleName userId (dm_bundleState s1) of
                  None \<Rightarrow> None
                | Some (_, file) \<Rightarrow> Some (True, s1\<lparr>dm_bundleState := file\<rparr>))))"

definition SaveNewInfoToDB :: "kv_env \<Rightarrow> int \<Rightarrow> string \<Rightarrow> inner_bundle_info \<Rightarrow> data_mgr \<Rightarrow> bool \<times> data_mgr" where
  "SaveNewInfoToDB kv time bundleName i s =
     (let newName = GetDBKeyBundleName i in
      if bundleName = [] then (False, s)
      else if map_of (dm_bundleInfos s) newName \<noteq> None then (False, s)
      else save_and_set kv newName (SetBundleInstallTime time UNSPECIFIED_USERID i) s)"

definition RemoveClonedBundleInfo :: "kv_env \<Rightarrow> string \<Rightarrow> data_mgr \<Rightarrow> bool \<times> data_mgr" where
  "RemoveClonedBundleInfo kv bundleName s =
     (case map_of (dm_bundleInfos s) bundleName of
        None \<Rightarrow> (True, s)
      | Some i \<Rightarrow>
          (let s1 = RecycleUidAndGid i s in
           case DeleteStorageBundleInfo kv i (dm_dataStorage s1) of
             (False, st) \<Rightarrow> (False, s1\<lparr>dm_dataStorage := st\<rparr>)
           | (True, st) \<Rightarrow> (True, s1\<lparr>dm_dataStorage := st, dm_bundleInfos := sm_erase bundleName (dm_bundleInfos s1)\<rparr>)))"

definition GetClonedBundleName :: "string \<Rightarrow> data_mgr \<Rightarrow> string option" where
  "GetClonedBundleName bundleName s =
     map_option fst (find (\<lambda>(k, _). find_sub (bundleName @ ''#'') k \<noteq> None) (dm_bundleInfos s))"

section \<open>Enabling and disabling\<close>

text \<open>\<open>GetInnerBundleInfo\<close> hands out the information and disables the bundle for the installer.\<close>

definition set_status :: "bundle_status \<Rightarrow> string \<Rightarrow> data_mgr \<Rightarrow> data_mgr" where
  "set_status st bundleName s =
     s\<lparr>dm_bundleInfos := sm_update bundleName (SetBundleStatus st) (dm_bundleInfos s)\<rparr>"

definition GetInnerBundleInfo :: "string \<Rightarrow> data_mgr \<Rightarrow> inner_bundle_info option \<times> data_mgr" where
  "GetInnerBundleInfo bundleName s =
     (if bundleName = [] then (None, s)
      else (case map_of (dm_bundleInfos s) bundleName of
              None \<Rightarrow> (None, s)
            | Some i \<Rightarrow> (Some (SetBundleStatus BundleStatus_DISABLED i), set_status BundleStatus_DISABLED bundleName s)))"

definition DisableBundle :: "string \<Rightarrow> data_mgr \<Rightarrow> bool \<times> data_mgr" where
  "DisableBundle bundleName s =
     (if bundleName = [] then (False, s)
      else if map_of (dm_bundleInfos s) bundleName = None then (False, s)
      else (True, set_status BundleStatus_DISABLED bundleName s))"

definition EnableBundle :: "string \<Rightarrow> data_mgr \<Rightarrow> bool \<times> data_mgr" where
  "EnableBundle bundleName s =
     (if bundleName = [] then (False, s)
      else if map_of (dm_bundleInfos s) bundleName = None then (False, s)
      else (True, set_status BundleStatus_ENABLED bundleName s))"

text \<open>What both setters do with the state file afterwards.\<close>

definition sync_state_file ::
  "json_codec \<Rightarrow> string \<Rightarrow> int \<Rightarrow> inner_bundle_info \<Rightarrow> data_mgr \<Rightarrow> (bool \<times> data_mgr) option" where
  "sync_state_file js bundleName userId i s =
     (case GetInnerBundleUserInfo userId new_InnerBundleUserInfo i of
        (False, _) \<Rightarrow> Some (False, s)
      | (True, u) \<Rightarrow>
          (case (if IsInitialState (iu_bundleUserInfo u) then DeleteBundleState js bundleName userId (dm_bundleState s)
                 else SaveBundleStateStorage js bundleName userId (iu_bundleUserInfo u) (dm_bundleState s)) of
             None \<Rightarrow> None
           | Some (_, file) \<Rightarrow> Some (True, s\<lparr>dm_bundleState := file\<rparr>)))"

definition Mgr_SetApplicationEnabled ::
  "json_codec \<Rightarrow> int \<Rightarrow> string \<Rightarrow> bool \<Rightarrow> int \<Rightarrow> data_mgr \<Rightarrow> (bool \<times> data_mgr) option" where
  "Mgr_SetApplicationEnabled js callingUid bundleName isEnable userId s =
     (if bundleName = [] then Some (False, s)
      else (let requestUserId = GetUserId callingUid userId s in
            if requestUserId = INVALID_USERID then Some (False, s)
            else (case map_of (dm_bundleInfos s) bundleName of
                    None \<Rightarrow> Some (False, s)
                  | Some i \<Rightarrow>
                      (let i' = SetApplicationEnabled isEnable requestUserId i
                       in sync_state_file js bundleName requestUserId i'
                            (s\<lparr>dm_bundleInfos := sm_assign bundleName i' (dm_bundleInfos s)\<rparr>)))))"

definition Mgr_SetAbilityEnabled ::
  "json_codec \<Rightarrow> int \<Rightarrow> ability_info \<Rightarrow> bool \<Rightarrow> int \<Rightarrow> data_mgr \<Rightarrow> (bool \<times> data_mgr) option" where
  "Mgr_SetAbilityEnabled js callingUid a isEnabled userId s =
     (if dm_bundleInfos s = [] then Some (False, s)
      else (let requestUserId = GetUserId callingUid userId s in
            if requestUserId = INVALID_USERID then Some (False, s)
            else (case map_of (dm_bundleInfos s) (ai_bundleName a) of
                    None \<Rightarrow> Some (False, s)
                  | Some i \<Rightarrow>
                      (case SetAbilityEnabled (ai_bundleName a) (ai_moduleName a) (ai_name a) isEnabled requestUserId i of
                         (False, _) \<Rightarrow> Some (False, s)
                       | (True, i') \<Rightarrow>
                           sync_state_file js (ai_bundleName a) requestUserId i'
                             (s\<lparr>dm_bundleInfos := sm_assign (ai_bundleName a) i' (dm_bundleInfos s)\<rparr>)))))"

definition IsApplicationEnabled :: "int \<Rightarrow> string \<Rightarrow> data_mgr \<Rightarrow> bool" where
  "IsApplicationEnabled callingUid bundleName s =
     (if bundleName = [] then False
      else (case map_of (dm_bundleInfos s) bundleName of
              None \<Rightarrow> False
            | Some i \<Rightarrow> GetApplicationEnabled (GetResponseUserId (GetUserId callingUid UNSPECIFIED_USERID s) i) i))"

text \<open>\<open>activeUser\<close> is \<open>AccountHelper::GetCurrentActiveUserId\<close>, the answer of the account service.\<close>

definition Mgr_SetModuleRemovable ::
  "kv_env \<Rightarrow> int \<Rightarrow> string \<Rightarrow> string \<Rightarrow> bool \<Rightarrow> data_mgr \<Rightarrow> bool \<times> data_mgr" where
  "Mgr_SetModuleRemovable kv activeUser bundleName moduleName isEnable s =
     (if bundleName = [] \<or> moduleName = [] then (False, s)
      else if activeUser = INVALID_USERID then (False, s)
      else (case map_of (dm_bundleInfos s) bundleName of
              None \<Rightarrow> (False, s)
            | Some i \<Rightarrow>
                (case SetModuleRemovable moduleName isEnable activeUser i of
                   (False, _) \<Rightarrow> (False, s)
                 | (True, i') \<Rightarrow> save_and_set kv bundleName i' s)))"

definition Mgr_IsModuleRemovable :: "int \<Rightarrow> string \<Rightarrow> string \<Rightarrow> data_mgr \<Rightarrow> bool" where
  "Mgr_IsModuleRemovable activeUser bundleName moduleName s =
     (if bundleName = [] \<or> moduleName = [] then False
      else if activeUser = INVALID_USERID then False
      else (case map_of (dm_bundleInfos s) bundleName of
              None \<Rightarrow> False
            | Some i \<Rightarrow> IsModuleRemovable moduleName activeUser i))"

definition Mgr_SetModuleUpgradeFlag ::
  "kv_env \<Rightarrow> string \<Rightarrow> string \<Rightarrow> int \<Rightarrow> data_mgr \<Rightarrow> bool \<times> data_mgr" where
  "Mgr_SetModuleUpgradeFlag kv bundleName moduleName flag s =
     (case map_of (dm_bundleInfos s) bundleName of
        None \<Rightarrow> (False, s)
      | Some i \<Rightarrow> save_and_set kv bundleName (snd (SetModuleUpgradeFlag moduleName flag i)) s)"

definition StoreSandboxPersistentInfo ::
  "kv_env \<Rightarrow> string \<Rightarrow> sandbox_app_persistent_info \<Rightarrow> data_mgr \<Rightarrow> data_mgr" where
  "StoreSandboxPersistentInfo kv bundleName p s =
     (if bundleName = [] then s
      else (case map_of (dm_bundleInfos s) bundleName of
              None \<Rightarrow> s
            | Some i \<Rightarrow> snd (set_and_save kv bundleName (AddSandboxPersistentInfo p i) s)))"

definition DeleteSandboxPersistentInfo ::
  "kv_env \<Rightarrow> string \<Rightarrow> sandbox_app_persistent_info \<Rightarrow> data_mgr \<Rightarrow> data_mgr" where
  "DeleteSandboxPersistentInfo kv bundleName p s =
     (if bundleName = [] then s
      else (case map_of (dm_bundleInfos s) bundleName of
              None \<Rightarrow> s
            | Some i \<Rightarrow> snd (set_and_save kv bundleName (RemoveSandboxPersistentInfo p i) s)))"

definition SaveInnerBundleInfo :: "kv_env \<Rightarrow> inner_bundle_info \<Rightarrow> data_mgr \<Rightarrow> bool \<times> data_mgr" where
  "SaveInnerBundleInfo kv i s =
     (case SaveStorageBundleInfo kv i (dm_dataStorage s) of (ok, st) \<Rightarrow> (ok, s\<lparr>dm_dataStorage := st\<rparr>))"

section \<open>Pre-installed bundles\<close>

text \<open>\<open>stored\<close> is whether the key-value store of pre-installed bundles took the change.\<close>

fun replace_first :: "('a \<Rightarrow> bool) \<Rightarrow> 'a \<Rightarrow> 'a list \<Rightarrow> 'a list" where
  "replace_first P y [] = []"
| "replace_first P y (x # xs) = (if P x then y # xs else x # replace_first P y xs)"

definition SavePreInstallBundleInfo :: "bool \<Rightarrow> pre_install_bundle_info \<Rightarrow> data_mgr \<Rightarrow> bool \<times> data_mgr" where
  "SavePreInstallBundleInfo stored p s =
     (if \<not> stored then (False, s)
      else (let same = (\<lambda>q. pi_bundleName q = pi_bundleName p); ps = dm_preInstallBundleInfos s
            in (True, s\<lparr>dm_preInstallBundleInfos :=
                  (if find same ps \<noteq> None then replace_first same p ps else ps @ [p])\<rparr>)))"

definition DeletePreInstallBundleInfo :: "bool \<Rightarrow> pre_install_bundle_info \<Rightarrow> data_mgr \<Rightarrow> bool \<times> data_mgr" where
  "DeletePreInstallBundleInfo stored p s =
     (if \<not> stored then (False, s)
      else (True, s\<lparr>dm_preInstallBundleInfos :=
              erase_first (\<lambda>q. pi_bundleName q = pi_bundleName p) (dm_preInstallBundleInfos s)\<rparr>))"

definition GetPreInstallBundleInfo :: "string \<Rightarrow> data_mgr \<Rightarrow> pre_install_bundle_info option" where
  "GetPreInstallBundleInfo bundleName s =
     (if bundleName = [] then None
      else find (\<lambda>q. pi_bundleName q = bundleName) (dm_preInstallBundleInfos s))"

section \<open>Start-up\<close>

definition CompatibleOldBundleStateInKvDb :: "json_codec \<Rightarrow> data_mgr \<Rightarrow> data_mgr option" where
  "CompatibleOldBundleStateInKvDb js s =
     foldl (\<lambda>r (name, u).
        case r of None \<Rightarrow> None
        | Some s \<Rightarrow> if IsInitialState u then Some s
            else map_option (\<lambda>(_, file). s\<lparr>dm_bundleState := file\<rparr>)
                   (SaveBundleStateStorage js name (bu_userId u) u (dm_bundleState s)))
       (Some s)
       (concat (map (\<lambda>(name, i). map (\<lambda>(_, u). (name, iu_bundleUserInfo u)) (ib_innerBundleUserInfos i))
                  (dm_bundleInfos s)))"

definition ResetBundleStateData :: "data_mgr \<Rightarrow> data_mgr" where
  "ResetBundleStateData s =
     s\<lparr>dm_bundleInfos := map (\<lambda>(k, i). (k, ResetBundleState ALL_USERID i)) (dm_bundleInfos s)\<rparr>"

definition apply_user_state :: "string \<Rightarrow> inner_bundle_info \<Rightarrow> int \<times> bundle_user_info \<Rightarrow> inner_bundle_info" where
  "apply_user_state bundleName i p =
     (case p of (userId, b) \<Rightarrow>
        foldl (\<lambda>i n. snd (SetAbilityEnabled bundleName [] n False userId i))
          (SetApplicationEnabled (bu_enabled b) userId i) (bu_disabledAbilities b))"

definition LoadAllBundleStateDataFromJsonDb ::
  "json_codec \<Rightarrow> (string \<Rightarrow> (string \<times> int) option) \<Rightarrow> data_mgr \<Rightarrow> data_mgr" where
  "LoadAllBundleStateDataFromJsonDb js keyTo s =
     (case LoadAllBundleStateData js keyTo (dm_bundleState s) of
        (False, _) \<Rightarrow> s
      | (True, states) \<Rightarrow>
          s\<lparr>dm_bundleInfos :=
             foldl (\<lambda>infos (name, users). sm_update name (\<lambda>i. foldl (apply_user_state name) i users) infos)
               (dm_bundleInfos s) states\<rparr>)"

text \<open>
  \<open>HasBundleUserInfoJsonDb\<close> creates an absent file; \<open>created\<close> is the state file after that, which
  cannot be opened if the creation failed. \<open>pre\<close> are the stored pre-installed bundles.
\<close>

definition LoadDataFromPersistentStorage ::
  "kv_env \<Rightarrow> (fs_call \<Rightarrow> bool) \<Rightarrow> (inner_bundle_info \<Rightarrow> inner_bundle_info option) \<Rightarrow> (nat \<Rightarrow> kv_status)
     \<Rightarrow> json_codec \<Rightarrow> (string \<Rightarrow> (string \<times> int) option) \<Rightarrow> state_file \<Rightarrow> pre_install_bundle_info list
     \<Rightarrow> data_mgr \<Rightarrow> (bool \<times> data_mgr) option" where
  "LoadDataFromPersistentStorage kv fs decode entriesStatus js keyTo created pre s =
     (let dbExist = dm_bundleState s \<noteq> None;
          s0 = (if dbExist then s else s\<lparr>dm_bundleState := created\<rparr>)
      in case LoadAllData kv fs decode entriesStatus (dm_bundleInfos s0) (dm_dataStorage s0) of
           (False, infos, store) \<Rightarrow> Some (False, s0\<lparr>dm_bundleInfos := infos, dm_dataStorage := store\<rparr>)
         | (True, infos, store) \<Rightarrow>
             (let s1 = s0\<lparr>dm_bundleInfos := infos, dm_dataStorage := store\<rparr> in
              if infos = [] then Some (False, s1)
              else (let s2 = s1\<lparr>dm_installStates :=
                              foldl (\<lambda>m (k, _). sm_emplace k INSTALL_SUCCESS m) (dm_installStates s1) infos,
                            dm_preInstallBundleInfos := dm_preInstallBundleInfos s1 @ pre\<rparr>;
                        s3 = RestoreUidAndGid s2
                    in map_option (\<lambda>s. (True, s\<lparr>dm_initialUserFlag := True\<rparr>))
                         (if \<not> dbExist then CompatibleOldBundleStateInKvDb js s3
                          else Some (LoadAllBundleStateDataFromJsonDb js keyTo (ResetBundleStateData s3))))))"

definition IsAppOrAbilityInstalled :: "string \<Rightarrow> data_mgr \<Rightarrow> bool" where
  "IsAppOrAbilityInstalled bundleName s =
     (if bundleName = [] then False else map_of (dm_installStates s) bundleName = Some INSTALL_SUCCESS)"

definition CheckPublicKeys :: "string \<Rightarrow> string \<Rightarrow> data_mgr \<Rightarrow> int option" where
  "CheckPublicKeys first second s =
     (if first = [] \<or> second = [] then Some 2
      else (case (map_of (dm_bundleInfos s) first, map_of (dm_bundleInfos s) second) of
              (Some a, Some b) \<Rightarrow>
                (case (GetProvisionId a, GetProvisionId b) of
                   (Some p, Some q) \<Rightarrow> Some (if p = q then 0 else 1)
                 | _ \<Rightarrow> None)
            | _ \<Rightarrow> Some 2))"

end
