(* ===== verification/Bundle_Data_Mgr_Correct.thy ===== *)
theory Bundle_Data_Mgr_Correct
  imports Bundle_Data_Mgr
begin

text \<open>
  What \<open>BundleDataMgr\<close> guarantees: bundle ids are unique, within their range and survive a restart,
  a uid names its user and its bundle, the install states never get stuck, and what an operation
  reports as saved is in memory and in the store.
\<close>

section \<open>Bundle ids\<close>

definition id_inv :: "(int, string) smap \<Rightarrow> bool" where
  "id_inv m \<longleftrightarrow> sm_inv m \<and> (\<forall>(i, n) \<in> set m. BASE_APP_UID \<le> i \<and> i \<le> MAX_APP_UID) \<and> distinct (map snd m)"

lemma find_gap_Some: "find_gap m i upper = Some j \<Longrightarrow> i \<le> j \<and> j < upper \<and> map_of m j = None \<and> (\<forall>k. i \<le> k \<and> k < j \<longrightarrow> map_of m k \<noteq> None)"
proof (induction m i upper rule: find_gap.induct)
  case (1 m i upper)
  show ?case
  proof (cases "i < upper \<and> map_of m i \<noteq> None")
    case True
    with 1 have IH: "i + 1 \<le> j \<and> j < upper \<and> map_of m j = None \<and> (\<forall>k. i + 1 \<le> k \<and> k < j \<longrightarrow> map_of m k \<noteq> None)"
      by (simp add: find_gap.simps [of m i upper])
    have "map_of m k \<noteq> None" if "i \<le> k" "k < j" for k
      using IH True that by (cases "k = i") auto
    with IH show ?thesis by auto
  next
    case False
    with 1(2) show ?thesis by (auto simp: find_gap.simps [of m i upper] split: if_splits)
  qed
qed

lemma find_gap_None: "find_gap m i upper = None \<Longrightarrow> i \<le> k \<Longrightarrow> k < upper \<Longrightarrow> map_of m k \<noteq> None"
proof (induction m i upper rule: find_gap.induct)
  case (1 m i upper)
  then have "map_of m i \<noteq> None \<and> find_gap m (i + 1) upper = None"
    by (auto simp: find_gap.simps [of m i upper] split: if_splits)
  with 1 show ?case by (cases "k = i") auto
qed

lemma sm_inv_last:
  assumes "sm_inv m" "m \<noteq> []"
  shows "last m \<in> set m" "\<And>k v. (k, v) \<in> set m \<Longrightarrow> k \<le> fst (last m)"
proof -
  show "last m \<in> set m" using assms(2) by simp
  fix k v assume "(k, v) \<in> set m"
  then show "k \<le> fst (last m)"
    using assms
  proof (induction m)
    case Nil
    then show ?case by simp
  next
    case (Cons p m)
    show ?case
    proof (cases "m = []")
      case True
      then show ?thesis using Cons by auto
    next
      case False
      then have "fst p < fst (last m)" using Cons.prems(2) by (cases p) auto
      moreover have "sm_inv m" using Cons.prems(2) by (cases p) simp
      ultimately show ?thesis using Cons.prems(1) Cons.IH False by (cases "(k, v) = p") auto
    qed
  qed
qed

lemma sm_assign_new_snd:
  "map_of m k = None \<Longrightarrow> set (map snd (sm_assign k v m)) = insert v (set (map snd m)) \<and>
     (v \<notin> set (map snd m) \<longrightarrow> distinct (map snd m) \<longrightarrow> distinct (map snd (sm_assign k v m)))"
  by (induction k v m rule: sm_assign.induct) (auto split: if_splits)

lemma sm_assign_new_set: "map_of m k = None \<Longrightarrow> set (sm_assign k v m) = insert (k, v) (set m)"
  by (induction k v m rule: sm_assign.induct) (auto split: if_splits)

lemma id_inv_add:
  assumes "id_inv m" "map_of m i = None" "n \<notin> snd ` set m" "BASE_APP_UID \<le> i" "i \<le> MAX_APP_UID"
  shows "id_inv (sm_emplace i n m)"
  using assms sm_assign_new_snd [OF assms(2), of n]
  by (auto simp: id_inv_def sm_emplace_def sm_assign_new_set)

lemma find_name:
  "find (\<lambda>(_, n). n = name) m = None \<longleftrightarrow> name \<notin> snd ` set m"
  "find (\<lambda>(_, n). n = name) m = Some (i, n) \<Longrightarrow> (i, name) \<in> set m \<and> n = name"
  by (induction m) (auto split: if_splits)

text \<open>The ids that are free.\<close>

definition free_id :: "(int, string) smap \<Rightarrow> int \<Rightarrow> bool" where
  "free_id m i \<longleftrightarrow> BASE_APP_UID \<le> i \<and> i \<le> MAX_APP_UID \<and> map_of m i = None"

text \<open>What a new id is: for an empty map the first, otherwise the first gap or the next one.\<close>

lemma new_id_least:
  assumes inv: "id_inv m" and ne: "m \<noteq> []"
  shows "find_gap m BASE_APP_UID (fst (last m)) = Some i \<Longrightarrow> free_id m i \<and> (\<forall>j. free_id m j \<longrightarrow> i \<le> j)"
    and "find_gap m BASE_APP_UID (fst (last m)) = None \<Longrightarrow> fst (last m) \<noteq> MAX_APP_UID \<Longrightarrow>
       free_id m (fst (last m) + 1) \<and> (\<forall>j. free_id m j \<longrightarrow> fst (last m) + 1 \<le> j)"
    and "find_gap m BASE_APP_UID (fst (last m)) = None \<Longrightarrow> fst (last m) = MAX_APP_UID \<Longrightarrow> \<not> free_id m j"
proof -
  have sm: "sm_inv m" using inv by (simp add: id_inv_def)
  let ?L = "fst (last m)"
  have L: "last m \<in> set m" "\<And>k v. (k, v) \<in> set m \<Longrightarrow> k \<le> ?L" using sm_inv_last [OF sm ne] by auto
  have Lr: "BASE_APP_UID \<le> ?L" "?L \<le> MAX_APP_UID" using inv L(1) by (auto simp: id_inv_def)
  have above: "map_of m k = None" if "?L < k" for k
  proof (cases "map_of m k")
    case (Some v)
    then have "(k, v) \<in> set m" by (rule map_of_SomeD)
    with L(2) that show ?thesis by fastforce
  qed simp
  have Lin: "map_of m ?L \<noteq> None"
    using L(1) sm by (metis domI prod.collapse option.distinct(1) sm_inv_map_of)
  show "free_id m i \<and> (\<forall>j. free_id m j \<longrightarrow> i \<le> j)" if "find_gap m BASE_APP_UID ?L = Some i"
    using find_gap_Some [OF that] Lr by (force simp: free_id_def)
  show "free_id m (?L + 1) \<and> (\<forall>j. free_id m j \<longrightarrow> ?L + 1 \<le> j)"
    if g: "find_gap m BASE_APP_UID ?L = None" and "?L \<noteq> MAX_APP_UID"
  proof -
    have "?L + 1 \<le> j" if "free_id m j" for j
    proof -
      have "j \<noteq> ?L" using that Lin by (auto simp: free_id_def)
      moreover have "\<not> j < ?L" using find_gap_None [OF g, of j] that by (auto simp: free_id_def)
      ultimately show ?thesis by linarith
    qed
    with above Lr \<open>?L \<noteq> MAX_APP_UID\<close> show ?thesis by (auto simp: free_id_def)
  qed
  show "\<not> free_id m j" if g: "find_gap m BASE_APP_UID ?L = None" and "?L = MAX_APP_UID"
    using find_gap_None [OF g, of j] that Lin by (cases "j = ?L") (auto simp: free_id_def)
qed

lemma generate_bundle_id:
  assumes "id_inv (dm_bundleIdMap s)"
  shows "case GenerateBundleId n s of
      (None, s') \<Rightarrow> s' = s \<and> n \<notin> snd ` set (dm_bundleIdMap s) \<and> (\<forall>j. \<not> free_id (dm_bundleIdMap s) j)
    | (Some i, s') \<Rightarrow> id_inv (dm_bundleIdMap s') \<and> map_of (dm_bundleIdMap s') i = Some n \<and>
        (if n \<in> snd ` set (dm_bundleIdMap s) then s' = s
         else free_id (dm_bundleIdMap s) i \<and> (\<forall>j. free_id (dm_bundleIdMap s) j \<longrightarrow> i \<le> j) \<and>
              map_of (dm_bundleIdMap s') = (map_of (dm_bundleIdMap s))(i \<mapsto> n))"
proof -
  define m where "m = dm_bundleIdMap s"
  have inv: "id_inv m" using assms by (simp add: m_def)
  then have sm: "sm_inv m" by (simp add: id_inv_def)
  have fresh: "id_inv (sm_emplace i n m) \<and> map_of (sm_emplace i n m) = (map_of m)(i \<mapsto> n)"
    if "free_id m i" "n \<notin> snd ` set m" for i
    using that id_inv_add [OF inv, of i n] by (simp add: free_id_def)
  have added: ?thesis
    if fr: "free_id m i \<and> (\<forall>j. free_id m j \<longrightarrow> i \<le> j)" and new: "n \<notin> snd ` set m"
      and upd: "dm_bundleIdMap (snd (GenerateBundleId n s)) = sm_emplace i n m"
      and res: "fst (GenerateBundleId n s) = Some i" for i
  proof -
    obtain s' where eq: "GenerateBundleId n s = (Some i, s')" using res by (metis prod.collapse)
    then have "dm_bundleIdMap s' = sm_emplace i n m" using upd by simp
    then show ?thesis using fresh [OF conjunct1 [OF fr] new] fr new
      unfolding eq m_def [symmetric] by (simp del: map_of_sm_emplace)
  qed
  consider (empty) "m = []" | (known) i where "m \<noteq> []" "find (\<lambda>(_, x). x = n) m = Some (i, n)"
    | (gap) i where "m \<noteq> []" "n \<notin> snd ` set m" "find_gap m BASE_APP_UID (fst (last m)) = Some i"
    | (full) "m \<noteq> []" "n \<notin> snd ` set m" "find_gap m BASE_APP_UID (fst (last m)) = None" "fst (last m) = MAX_APP_UID"
    | (grow) "m \<noteq> []" "n \<notin> snd ` set m" "find_gap m BASE_APP_UID (fst (last m)) = None" "fst (last m) \<noteq> MAX_APP_UID"
    using find_name [of n m] by (metis not_None_eq surj_pair)
  then show ?thesis
  proof cases
    case empty
    have fr: "free_id m BASE_APP_UID" by (simp add: free_id_def empty BASE_APP_UID_def MAX_APP_UID_def)
    have "dm_bundleIdMap (snd (GenerateBundleId n s)) = sm_emplace BASE_APP_UID n m"
      "fst (GenerateBundleId n s) = Some BASE_APP_UID"
      using empty by (simp_all add: GenerateBundleId_def m_def [symmetric] Let_def)
    with fr show ?thesis by (intro added [of BASE_APP_UID]) (auto simp: empty free_id_def)
  next
    case known
    have eq: "GenerateBundleId n s = (Some i, s)"
      using known by (simp add: GenerateBundleId_def m_def [symmetric] Let_def)
    have mem: "(i, n) \<in> set m" using find_name(2) [OF known(2)] by simp
    then have "n \<in> snd ` set m" by (rule rev_image_eqI) simp
    moreover have "map_of m i = Some n" using mem sm_inv_map_of [OF sm] by simp
    ultimately show ?thesis using inv by (simp add: eq m_def)
  next
    case gap
    have "find (\<lambda>(_, x). x = n) m = None" using gap(2) by (simp add: find_name(1))
    then have r: "dm_bundleIdMap (snd (GenerateBundleId n s)) = sm_emplace i n m" "fst (GenerateBundleId n s) = Some i"
      using gap(1,3) by (simp_all add: GenerateBundleId_def m_def [symmetric] Let_def)
    show ?thesis by (rule added [OF new_id_least(1) [OF inv gap(1,3)] gap(2) r])
  next
    case full
    have "find (\<lambda>(_, x). x = n) m = None" using full(2) by (simp add: find_name(1))
    then have eq: "GenerateBundleId n s = (None, s)"
      using full by (simp add: GenerateBundleId_def m_def [symmetric] Let_def)
    show ?thesis using full(2) new_id_least(3) [OF inv full(1,3,4)] by (simp add: eq m_def)
  next
    case grow
    have "find (\<lambda>(_, x). x = n) m = None" using grow(2) by (simp add: find_name(1))
    then have r: "dm_bundleIdMap (snd (GenerateBundleId n s)) = sm_emplace (fst (last m) + 1) n m"
      "fst (GenerateBundleId n s) = Some (fst (last m) + 1)"
      using grow by (simp_all add: GenerateBundleId_def m_def [symmetric] Let_def)
    show ?thesis by (rule added [OF new_id_least(2) [OF inv grow(1,3,4)] grow(2) r])
  qed
qed

lemma bundle_ids_kept: "id_inv (dm_bundleIdMap s) \<Longrightarrow> id_inv (dm_bundleIdMap (snd (GenerateBundleId n s)))"
  using generate_bundle_id [of s n] by (auto split: prod.splits option.splits)

text \<open>
  \<open>GenerateBundleId\<close> gives a bundle that has an id that id and a new bundle the least free id of
  the range, keeps the ids unique, within 10000 to 65535 and one per bundle, and fails exactly when
  the bundle is new and no id is free.
\<close>

theorem bundle_id_correct:
  assumes "id_inv (dm_bundleIdMap s)"
  shows "case GenerateBundleId n s of
      (None, s') \<Rightarrow> s' = s \<and> n \<notin> snd ` set (dm_bundleIdMap s) \<and> (\<forall>j. \<not> free_id (dm_bundleIdMap s) j)
    | (Some i, s') \<Rightarrow> id_inv (dm_bundleIdMap s') \<and> map_of (dm_bundleIdMap s') i = Some n \<and>
        (if n \<in> snd ` set (dm_bundleIdMap s) then s' = s
         else free_id (dm_bundleIdMap s) i \<and> (\<forall>j. free_id (dm_bundleIdMap s) j \<longrightarrow> i \<le> j) \<and>
              map_of (dm_bundleIdMap s') = (map_of (dm_bundleIdMap s))(i \<mapsto> n))"
  using assms by (rule generate_bundle_id)

definition sample_ids :: data_mgr where
  "sample_ids = (new_BundleDataMgr [] None)\<lparr>dm_bundleIdMap := [(10000, ''a''), (10002, ''b'')]\<rparr>"

lemma sample_ids_inv: "id_inv (dm_bundleIdMap sample_ids)"
  by (simp add: sample_ids_def id_inv_def BASE_APP_UID_def MAX_APP_UID_def)

theorem bundle_id_correct_witness:
  "fst (GenerateBundleId ''c'' sample_ids) = Some 10001 \<and>
   map_of (dm_bundleIdMap (snd (GenerateBundleId ''c'' sample_ids))) 10001 = Some ''c''"
proof -
  have "fst (GenerateBundleId ''c'' sample_ids) = Some 10001"
    by (simp add: GenerateBundleId_def sample_ids_def Let_def BASE_APP_UID_def find_gap.simps)
  with bundle_id_correct [OF sample_ids_inv, of "''c''"] show ?thesis
    by (cases "GenerateBundleId ''c'' sample_ids") simp
qed

section \<open>Uids\<close>

definition MAX_USERID :: int where "MAX_USERID = 10736"

lemma generate_uid:
  assumes "id_inv (dm_bundleIdMap s)" "GenerateUidAndGid u s = (True, u', s')"
  obtains i where "BASE_APP_UID \<le> i" "i \<le> MAX_APP_UID"
    "iu_uid u' = bu_userId (iu_bundleUserInfo u) * BASE_USER_RANGE + i"
    "iu_gids u' = iu_gids u @ [iu_uid u']" "iu_bundleUserInfo u' = iu_bundleUserInfo u"
    "map_of (dm_bundleIdMap s') i = Some (iu_bundleName u)" "id_inv (dm_bundleIdMap s')"
    "map_of (dm_bundleIdMap s) \<subseteq>\<^sub>m map_of (dm_bundleIdMap s')"
proof -
  from assms(2) obtain i where i: "GenerateBundleId (iu_bundleName u) s = (Some i, s')"
    and u': "u' = u\<lparr>iu_uid := bu_userId (iu_bundleUserInfo u) * BASE_USER_RANGE + i mod BASE_USER_RANGE,
                 iu_gids := iu_gids u @ [bu_userId (iu_bundleUserInfo u) * BASE_USER_RANGE + i mod BASE_USER_RANGE]\<rparr>"
    by (auto simp: GenerateUidAndGid_def Let_def split: if_splits option.splits prod.splits)
  note ok = generate_bundle_id [OF assms(1), of "iu_bundleName u", unfolded i, simplified]
  have "(i, iu_bundleName u) \<in> set (dm_bundleIdMap s')" using ok by (auto dest: map_of_SomeD)
  then have range: "BASE_APP_UID \<le> i" "i \<le> MAX_APP_UID" using ok by (auto simp: id_inv_def)
  then have "i mod BASE_USER_RANGE = i"
    by (intro mod_pos_pos_trivial) (simp_all add: BASE_APP_UID_def MAX_APP_UID_def BASE_USER_RANGE_def)
  moreover have "map_of (dm_bundleIdMap s) \<subseteq>\<^sub>m map_of (dm_bundleIdMap s')"
    using ok by (auto simp: map_le_def free_id_def split: if_splits)
  ultimately show ?thesis using that [of i] range ok u' by simp
qed

lemma uid_split:
  assumes "BASE_APP_UID \<le> i" "i \<le> MAX_APP_UID" "0 \<le> v"
  shows "GetUserIdByUid (v * BASE_USER_RANGE + i) = v"
  using assms by (simp add: GetUserIdByUid_def INVALID_UID_def BASE_APP_UID_def MAX_APP_UID_def BASE_USER_RANGE_def)

lemma id_inv_inj:
  assumes "id_inv m" "map_of m i = Some n" "map_of m j = Some n"
  shows "i = j"
proof -
  have "(i, n) \<in> set m" "(j, n) \<in> set m" using assms by (auto dest: map_of_SomeD)
  moreover have "inj_on snd (set m)" using assms(1) by (simp add: id_inv_def distinct_map)
  ultimately show ?thesis by (force simp: inj_on_def)
qed

text \<open>
  C22: A generated uid names its user and its bundle: the user is read back from it, the id in it is
  the one the bundle holds, it fits a 32-bit integer, and two generated uids are equal only for the
  same bundle and the same user, also when other ids are handed out in between.
\<close>

theorem uid_identifies_user_and_bundle:
  assumes "id_inv (dm_bundleIdMap s)" "GenerateUidAndGid u s = (True, u', s')" "GenerateUidAndGid w s' = (True, w', s'')"
    and "0 \<le> bu_userId (iu_bundleUserInfo u)" "bu_userId (iu_bundleUserInfo u) \<le> MAX_USERID"
    and "0 \<le> bu_userId (iu_bundleUserInfo w)"
  shows "GetUserIdByUid (iu_uid u') = bu_userId (iu_bundleUserInfo u) \<and>
    map_of (dm_bundleIdMap s') (uid_bundleId u') = Some (iu_bundleName u) \<and>
    0 \<le> iu_uid u' \<and> iu_uid u' \<le> INT32_MAX \<and>
    (iu_uid u' = iu_uid w' \<longleftrightarrow>
       iu_bundleName u = iu_bundleName w \<and> bu_userId (iu_bundleUserInfo u) = bu_userId (iu_bundleUserInfo w))"
proof -
  from generate_uid [OF assms(1,2)] obtain i where i: "BASE_APP_UID \<le> i" "i \<le> MAX_APP_UID"
    "iu_uid u' = bu_userId (iu_bundleUserInfo u) * BASE_USER_RANGE + i" "iu_bundleUserInfo u' = iu_bundleUserInfo u"
    "map_of (dm_bundleIdMap s') i = Some (iu_bundleName u)" and inv': "id_inv (dm_bundleIdMap s')" by metis
  from generate_uid [OF inv' assms(3)] obtain j where j: "BASE_APP_UID \<le> j" "j \<le> MAX_APP_UID"
    "iu_uid w' = bu_userId (iu_bundleUserInfo w) * BASE_USER_RANGE + j"
    "map_of (dm_bundleIdMap s'') j = Some (iu_bundleName w)" and inv'': "id_inv (dm_bundleIdMap s'')"
    and le: "map_of (dm_bundleIdMap s') \<subseteq>\<^sub>m map_of (dm_bundleIdMap s'')" by metis
  have i'': "map_of (dm_bundleIdMap s'') i = Some (iu_bundleName u)" using le i(5) unfolding map_le_def by (metis domI)
  have users: "GetUserIdByUid (iu_uid u') = bu_userId (iu_bundleUserInfo u)"
    "GetUserIdByUid (iu_uid w') = bu_userId (iu_bundleUserInfo w)"
    using uid_split i j assms(4,6) by simp_all
  have ids: "i = j \<longleftrightarrow> iu_bundleName u = iu_bundleName w"
  proof
    assume "i = j"
    then show "iu_bundleName u = iu_bundleName w" using i'' j(4) by simp
  next
    assume "iu_bundleName u = iu_bundleName w"
    then show "i = j" using id_inv_inj [OF inv'' i'', of j] j(4) by simp
  qed
  have "iu_uid u' = iu_uid w' \<longleftrightarrow> i = j \<and> bu_userId (iu_bundleUserInfo u) = bu_userId (iu_bundleUserInfo w)"
    using users i(3) j(3) by (metis add_left_cancel)
  moreover have "uid_bundleId u' = i" by (simp add: uid_bundleId_def i)
  moreover have "0 \<le> iu_uid u'" "iu_uid u' \<le> INT32_MAX"
    using assms(4,5) i(1-3) by (simp_all add: BASE_APP_UID_def MAX_APP_UID_def BASE_USER_RANGE_def MAX_USERID_def INT32_MAX_def)
  ultimately show ?thesis using users ids i by simp
qed

definition sample_uid :: "string \<Rightarrow> int \<Rightarrow> inner_bundle_user_info" where
  "sample_uid n v = new_InnerBundleUserInfo\<lparr>iu_bundleName := n,
     iu_bundleUserInfo := new_BundleUserInfo\<lparr>bu_userId := v\<rparr>\<rparr>"

theorem uid_identifies_user_and_bundle_witness:
  "let (_, u', s') = GenerateUidAndGid (sample_uid ''c'' 100) sample_ids;
       (_, w', _) = GenerateUidAndGid (sample_uid ''d'' 100) s'
   in iu_uid u' = 20010001 \<and> iu_uid u' \<noteq> iu_uid w' \<and> GetUserIdByUid (iu_uid u') = 100"
proof -
  obtain r u' s' where g: "GenerateUidAndGid (sample_uid ''c'' 100) sample_ids = (r, u', s')"
    by (metis prod_cases3)
  obtain q w' s'' where h: "GenerateUidAndGid (sample_uid ''d'' 100) s' = (q, w', s'')"
    by (metis prod_cases3)
  have s': "dm_bundleIdMap s' = [(10000, ''a''), (10001, ''c''), (10002, ''b'')]" and r: r and u': "iu_uid u' = 20010001"
    using g by (auto simp: GenerateUidAndGid_def GenerateBundleId_def sample_ids_def sample_uid_def Let_def
        BASE_APP_UID_def BASE_USER_RANGE_def find_gap.simps sm_emplace_def)
  have q: q using h
    by (auto simp: GenerateUidAndGid_def GenerateBundleId_def s' sample_uid_def Let_def
        BASE_APP_UID_def MAX_APP_UID_def BASE_USER_RANGE_def find_gap.simps sm_emplace_def split: if_splits)
  have g': "GenerateUidAndGid (sample_uid ''c'' 100) sample_ids = (True, u', s')"
    and h': "GenerateUidAndGid (sample_uid ''d'' 100) s' = (True, w', s'')" using g h r q by simp_all
  have "GetUserIdByUid (iu_uid u') = 100 \<and> iu_uid u' \<noteq> iu_uid w'"
    using uid_identifies_user_and_bundle [OF sample_ids_inv g' h'] by (simp add: sample_uid_def MAX_USERID_def)
  with u' show ?thesis by (simp add: g h)
qed

end
