(* ===== verification/Inner_Bundle_Info_Correct.thy ===== *)
theory Inner_Bundle_Info_Correct
  imports Inner_Bundle_Info
begin

text \<open>
  What the operations of \<open>InnerBundleInfo\<close> guarantee: per-user data is kept apart by injective
  keys, the response user is one the bundle is installed for, adding and removing a module undo
  each other, the dependency walk computes the transitive closure, permission lists are sorted and
  free of duplicates.
\<close>

section \<open>Dependencies\<close>

definition dep :: "inner_bundle_info \<Rightarrow> (string \<times> string) set" where
  "dep i = {(m, n). \<exists>ds. GetDependentModuleNames i m = Some ds \<and> n \<in> set ds}"

lemma dep_Image: "dep i `` {n} = (case GetDependentModuleNames i n of None \<Rightarrow> {} | Some ds \<Rightarrow> set ds)"
  by (auto simp: dep_def split: option.splits)

lemma dependency_loop_closure:
  assumes "distinct found" "\<forall>x \<in> set found. dep i `` {x} \<subseteq> set found \<union> set queue"
  shows "distinct (dependency_loop i queue found) \<and>
    set found \<union> set queue \<subseteq> set (dependency_loop i queue found) \<and>
    (\<forall>x \<in> set (dependency_loop i queue found). dep i `` {x} \<subseteq> set (dependency_loop i queue found)) \<and>
    set (dependency_loop i queue found) \<subseteq> set found \<union> (dep i)\<^sup>* `` set queue"
  using assms
proof (induction i queue found rule: dependency_loop.induct)
  case (1 i found)
  then show ?case by auto
next
  case (2 i name queue found)
  show ?case
  proof (cases "name \<in> set found")
    case True
    have "\<forall>x \<in> set found. dep i `` {x} \<subseteq> set found \<union> set queue" using "2.prems"(2) True by auto
    note IH = "2.IH"(1) [OF True "2.prems"(1) this]
    have "(dep i)\<^sup>* `` set queue \<subseteq> (dep i)\<^sup>* `` set (name # queue)" by auto
    then show ?thesis using IH True by auto
  next
    case False
    define more where "more = (case GetDependentModuleNames i name of None \<Rightarrow> [] | Some ds \<Rightarrow> ds)"
    have more: "set more = dep i `` {name}" by (auto simp: more_def dep_Image split: option.splits)
    have closed: "\<forall>x \<in> set (found @ [name]). dep i `` {x} \<subseteq> set (found @ [name]) \<union> set (queue @ more)"
      using "2.prems"(2) more by auto
    have dist: "distinct (found @ [name])" using "2.prems"(1) False by simp
    note IH = "2.IH"(2) [OF False, folded more_def, OF dist closed]
    have step: "dependency_loop i (name # queue) found = dependency_loop i (queue @ more) (found @ [name])"
      using False by (simp add: more_def)
    have sub: "(dep i)\<^sup>* `` set (queue @ more) \<subseteq> (dep i)\<^sup>* `` set (name # queue)"
      using more by (auto intro: converse_rtrancl_into_rtrancl)
    have self: "name \<in> (dep i)\<^sup>* `` set (name # queue)" by auto
    have "set (dependency_loop i (queue @ more) (found @ [name])) \<subseteq> set found \<union> (dep i)\<^sup>* `` set (name # queue)"
      using IH sub self by (simp only: set_append list.set) blast
    moreover have "set found \<union> set (name # queue) \<subseteq> set (dependency_loop i (queue @ more) (found @ [name]))"
      using IH by auto
    ultimately show ?thesis unfolding step using IH by blast
  qed
qed

text \<open>
  C20: \<open>GetAllDependentModuleNames\<close> always terminates, also on cyclic dependencies, and returns every
  module name reachable from the given module by dependencies, each exactly once; it fails exactly
  when the bundle has no such module.
\<close>

theorem dependent_modules_closure:
  "case GetAllDependentModuleNames i m of
     None \<Rightarrow> m \<notin> set (GetModuleNames i)
   | Some names \<Rightarrow> m \<in> set (GetModuleNames i) \<and> distinct names \<and> set names = {n. (m, n) \<in> (dep i)\<^sup>+}"
proof (cases "GetDependentModuleNames i m")
  case None
  then have "find (\<lambda>(_, x). im_moduleName x = m) (ib_innerModuleInfos i) = None"
    by (simp add: GetDependentModuleNames_def)
  then have "m \<notin> set (GetModuleNames i)" by (auto simp: find_None_iff GetModuleNames_def)
  with None show ?thesis by (simp add: GetAllDependentModuleNames_def)
next
  case (Some ds)
  then have m: "m \<in> set (GetModuleNames i)"
    by (force simp: GetDependentModuleNames_def GetModuleNames_def dest!: find_SomeD intro: rev_image_eqI)
  let ?r = "dependency_loop i ds []"
  note cl = dependency_loop_closure [of "[]" i ds]
  have ds: "set ds = dep i `` {m}" using Some by (simp add: dep_Image)
  have "{n. (m, n) \<in> (dep i)\<^sup>+} = (dep i)\<^sup>* `` set ds"
    by (auto simp: ds trancl_unfold_left)
  moreover have "(dep i)\<^sup>* `` set ds \<subseteq> set ?r"
  proof
    fix n assume "n \<in> (dep i)\<^sup>* `` set ds"
    then obtain x where "x \<in> set ds" "(x, n) \<in> (dep i)\<^sup>*" by blast
    from this(2,1) show "n \<in> set ?r" by (induction rule: rtrancl_induct) (use cl in auto)
  qed
  ultimately show ?thesis using Some m cl by (auto simp: GetAllDependentModuleNames_def)
qed

section \<open>Users\<close>

lemma NameAndUserIdToKey_inj:
  "NameAndUserIdToKey b u = NameAndUserIdToKey b' u' \<longleftrightarrow> b = b' \<and> u = u'"
  using snoc_key_inj [of "to_string u" "to_string u'" b b']
  by (auto simp: NameAndUserIdToKey_def FILE_UNDERLINE_def)

definition plain_user :: "int \<Rightarrow> bool" where
  "plain_user u \<longleftrightarrow> u \<noteq> NOT_EXIST_USERID \<and> u \<noteq> ALL_USERID \<and> u \<noteq> ANY_USERID"

lemma GetBundleName_simps [simp]:
  "GetBundleName (i\<lparr>ib_innerBundleUserInfos := x\<rparr>) = GetBundleName i"
  "GetBundleName (i\<lparr>ib_innerModuleInfos := y\<rparr>) = GetBundleName i"
  by (simp_all add: GetBundleName_def)

lemma AddUser_lookup:
  "map_of (ib_innerBundleUserInfos (AddInnerBundleUserInfo u i)) =
     (map_of (ib_innerBundleUserInfos i))(NameAndUserIdToKey (GetBundleName i) (bu_userId (iu_bundleUserInfo u)) \<mapsto> u)"
  "GetBundleName (AddInnerBundleUserInfo u i) = GetBundleName i"
  by (auto simp: AddInnerBundleUserInfo_def Let_def split: option.splits)

lemma DeleteRemovable_fold:
  "ib_innerBundleUserInfos (foldl (\<lambda>i (_, m). DeleteModuleRemovable (im_moduleName m) userId i) i ms)
     = ib_innerBundleUserInfos i"
  "GetBundleName (foldl (\<lambda>i (_, m). DeleteModuleRemovable (im_moduleName m) userId i) i ms) = GetBundleName i"
  by (induction ms arbitrary: i) (auto simp: DeleteModuleRemovable_def)

lemma RemoveUser_lookup:
  "map_of (ib_innerBundleUserInfos (RemoveInnerBundleUserInfo v i)) =
     (map_of (ib_innerBundleUserInfos i))(NameAndUserIdToKey (GetBundleName i) v := None)"
  "GetBundleName (RemoveInnerBundleUserInfo v i) = GetBundleName i"
  by (auto simp: RemoveInnerBundleUserInfo_def Let_def DeleteRemovable_fold fun_eq_iff)

text \<open>
  The users of a bundle are kept apart: after adding the information of a user, reading it back
  gives exactly that information and every other user's is as before; after removing a user, that
  user is gone and every other user is still there.
\<close>

theorem user_infos_independent:
  assumes "plain_user v" "plain_user (bu_userId (iu_bundleUserInfo u))"
  shows "GetInnerBundleUserInfo v out (AddInnerBundleUserInfo u i) =
      (if v = bu_userId (iu_bundleUserInfo u) then (True, u) else GetInnerBundleUserInfo v out i) \<and>
    HasInnerBundleUserInfo v (RemoveInnerBundleUserInfo (bu_userId (iu_bundleUserInfo u)) i) =
      (v \<noteq> bu_userId (iu_bundleUserInfo u) \<and> HasInnerBundleUserInfo v i)"
  using assms
  by (auto simp: plain_user_def GetInnerBundleUserInfo_def HasInnerBundleUserInfo_def AddUser_lookup
      RemoveUser_lookup NameAndUserIdToKey_inj)

definition sample_user :: "int \<Rightarrow> inner_bundle_user_info" where
  "sample_user v = new_InnerBundleUserInfo\<lparr>iu_bundleUserInfo := new_BundleUserInfo\<lparr>bu_userId := v\<rparr>, iu_uid := 20010044\<rparr>"

lemma sample_user_id [simp]: "bu_userId (iu_bundleUserInfo (sample_user v)) = v"
  by (simp add: sample_user_def)

theorem user_infos_independent_witness:
  "GetInnerBundleUserInfo 100 new_InnerBundleUserInfo
     (AddInnerBundleUserInfo (sample_user 100) new_InnerBundleInfo) = (True, sample_user 100)"
  using user_infos_independent [of 100 "sample_user 100" new_InnerBundleUserInfo new_InnerBundleInfo]
  by (simp add: plain_user_def userid_defs)

text \<open>The keys of the user map agree with the user ids in it.\<close>

definition user_keys_ok :: "inner_bundle_info \<Rightarrow> bool" where
  "user_keys_ok i \<longleftrightarrow>
     (\<forall>(k, u) \<in> set (ib_innerBundleUserInfos i).
        k = NameAndUserIdToKey (GetBundleName i) (bu_userId (iu_bundleUserInfo u)))"

lemma has_user_of_entry:
  "user_keys_ok i \<Longrightarrow> (k, u) \<in> set (ib_innerBundleUserInfos i) \<Longrightarrow> HasInnerBundleUserInfo (bu_userId (iu_bundleUserInfo u)) i"
  by (force simp: user_keys_ok_def HasInnerBundleUserInfo_def map_of_eq_None_iff)

text \<open>
  The user that answers a request is one the bundle is installed for: \<open>GetResponseUserId\<close>
  returns the requested user if the bundle is installed for it, otherwise, for an ordinary user
  only, a user below the ordinary range for which it is installed, and otherwise the invalid id.
\<close>

theorem response_user_installed:
  assumes "user_keys_ok i"
  shows "let v = GetResponseUserId r i in
    (v \<noteq> INVALID_USERID \<longrightarrow> HasInnerBundleUserInfo v i) \<and>
    (r \<noteq> ANY_USERID \<and> HasInnerBundleUserInfo r i \<longrightarrow> v = r) \<and>
    (r \<noteq> ANY_USERID \<and> \<not> HasInnerBundleUserInfo r i \<longrightarrow>
       v = INVALID_USERID \<or> START_USERID \<le> r \<and> v < START_USERID)"
proof (cases "ib_innerBundleUserInfos i")
  case Nil
  then show ?thesis by (simp add: GetResponseUserId_def HasInnerBundleUserInfo_def Let_def)
next
  case (Cons p rest)
  obtain k u where p: "p = (k, u)" by (cases p)
  have first: "HasInnerBundleUserInfo (bu_userId (iu_bundleUserInfo u)) i"
    using has_user_of_entry [OF assms, of k u] Cons p by simp
  define low where "low = find (\<lambda>(_, u). bu_userId (iu_bundleUserInfo u) < START_USERID) (ib_innerBundleUserInfos i)"
  have found: "HasInnerBundleUserInfo (bu_userId (iu_bundleUserInfo u')) i \<and> bu_userId (iu_bundleUserInfo u') < START_USERID"
    if "low = Some (k', u')" for k' u'
    using find_SomeD [OF that [unfolded low_def]] has_user_of_entry [OF assms, of k' u'] by auto
  have "GetResponseUserId r i =
     (if r = ANY_USERID then bu_userId (iu_bundleUserInfo u)
      else if HasInnerBundleUserInfo r i then r
      else if r < START_USERID then INVALID_USERID
      else (case low of None \<Rightarrow> INVALID_USERID | Some (_, u) \<Rightarrow> bu_userId (iu_bundleUserInfo u)))"
    unfolding GetResponseUserId_def low_def [symmetric] by (simp add: Cons p)
  then show ?thesis using first found by (auto simp: Let_def split: option.splits)
qed

lemma sample_user_keys: "user_keys_ok (AddInnerBundleUserInfo (sample_user 0) new_InnerBundleInfo)"
  by (simp add: user_keys_ok_def AddInnerBundleUserInfo_def new_InnerBundleInfo_def GetBundleName_def
      sm_emplace_def Let_def)

theorem response_user_installed_witness:
  "HasInnerBundleUserInfo 0 (AddInnerBundleUserInfo (sample_user 0) new_InnerBundleInfo) \<and>
   GetResponseUserId 0 (AddInnerBundleUserInfo (sample_user 0) new_InnerBundleInfo) = 0"
proof -
  have "HasInnerBundleUserInfo 0 (AddInnerBundleUserInfo (sample_user 0) new_InnerBundleInfo)"
    by (simp add: HasInnerBundleUserInfo_def AddUser_lookup userid_defs)
  with response_user_installed [OF sample_user_keys, of 0] show ?thesis
    by (simp add: Let_def userid_defs)
qed

section \<open>Enabling abilities\<close>

definition disabled_distinct :: "inner_bundle_info \<Rightarrow> bool" where
  "disabled_distinct i \<longleftrightarrow>
     (\<forall>k u. map_of (ib_innerBundleUserInfos i) k = Some u \<longrightarrow> distinct (bu_disabledAbilities (iu_bundleUserInfo u)))"

lemma set_disabled_effect:
  "distinct (bu_disabledAbilities (iu_bundleUserInfo u)) \<Longrightarrow>
     set (bu_disabledAbilities (iu_bundleUserInfo (set_disabled n en u))) =
       (if en then set (bu_disabledAbilities (iu_bundleUserInfo u)) - {n}
        else insert n (set (bu_disabledAbilities (iu_bundleUserInfo u)))) \<and>
     distinct (bu_disabledAbilities (iu_bundleUserInfo (set_disabled n en u)))"
  by (auto simp: set_disabled_def Let_def)

lemma set_ability_enabled_step:
  assumes "disabled_distinct i" "plain_user w"
    and "SetAbilityEnabled b m n en v i = (True, i')"
  shows "IsAbilityEnabled a w i' =
      (if ai_bundleName a = b \<and> w = v \<and> ai_name a = n then en else IsAbilityEnabled a w i) \<and>
    disabled_distinct i'"
proof -
  let ?key = "NameAndUserIdToKey b v"
  from assms(3) obtain u where u: "map_of (ib_innerBundleUserInfos i) ?key = Some u"
    and i': "i' = upd_user_info ?key (set_disabled n en) i"
    by (auto simp: SetAbilityEnabled_def Let_def split: if_splits)
  have d: "distinct (bu_disabledAbilities (iu_bundleUserInfo u))"
    using assms(1) u by (auto simp: disabled_distinct_def)
  note eff = set_disabled_effect [OF d, of n en]
  have look: "map_of (ib_innerBundleUserInfos i') k =
      (if k = ?key then Some (set_disabled n en u) else map_of (ib_innerBundleUserInfos i) k)" for k
    by (simp add: i' upd_user_info_def u)
  have "disabled_distinct i'"
    using assms(1) eff by (auto simp: disabled_distinct_def look split: if_splits)
  moreover have "IsAbilityEnabled a w i' =
      (if ai_bundleName a = b \<and> w = v \<and> ai_name a = n then en else IsAbilityEnabled a w i)"
    using eff u assms(2) by (auto simp: IsAbilityEnabled_def look NameAndUserIdToKey_inj plain_user_def split: option.splits)
  ultimately show ?thesis by blast
qed

lemma ability_enabled_after:
  assumes "disabled_distinct i" "plain_user v" "SetAbilityEnabled b m n en v i = (True, i')"
    and "ai_bundleName a = b" "ai_name a = n"
  shows "IsAbilityEnabled a v i' = en"
  using set_ability_enabled_step [OF assms(1-3), of a] assms(4,5) by simp

text \<open>
  Enabling or disabling an ability for a user has exactly that effect: afterwards the abilities
  of the bundle with that name are enabled for that user as requested, abilities with another name,
  and all abilities for other users, are as before. (The list is kept by ability name, so the
  module name does not tell two abilities of the same name apart.)
\<close>

theorem set_ability_enabled_effect:
  assumes "disabled_distinct i" "plain_user w"
    and "SetAbilityEnabled b m n en v i = (True, i')"
  shows "IsAbilityEnabled a w i' =
      (if ai_bundleName a = b \<and> w = v \<and> ai_name a = n then en else IsAbilityEnabled a w i) \<and>
    disabled_distinct i'"
  using assms by (rule set_ability_enabled_step)

definition sample_ability :: ability_info where
  "sample_ability = new_AbilityInfo\<lparr>ai_bundleName := ''com.demo'', ai_name := ''Main'', ai_moduleName := ''entry''\<rparr>"

definition sample_info :: inner_bundle_info where
  "sample_info = AddInnerBundleUserInfo (sample_user 100)
     (new_InnerBundleInfo\<lparr>ib_baseApplicationInfo := new_ApplicationInfo\<lparr>app_bundleName := ''com.demo''\<rparr>,
        ib_baseAbilityInfos := [(''com.demo.entry.Main'', sample_ability)]\<rparr>)"

lemma sample_info_users:
  "ib_innerBundleUserInfos sample_info = [(NameAndUserIdToKey ''com.demo'' 100, sample_user 100)]"
  by (simp add: sample_info_def AddInnerBundleUserInfo_def GetBundleName_def new_InnerBundleInfo_def
      sm_emplace_def Let_def)

lemma sample_info_distinct: "disabled_distinct sample_info"
  by (simp add: disabled_distinct_def sample_info_users sample_user_def new_InnerBundleUserInfo_def new_BundleUserInfo_def)

lemma sample_info_abilities: "ib_baseAbilityInfos sample_info = [(''com.demo.entry.Main'', sample_ability)]"
  by (simp add: sample_info_def AddInnerBundleUserInfo_def Let_def split: option.splits)

theorem set_ability_enabled_effect_witness:
  "\<not> IsAbilityEnabled sample_ability 100 (snd (SetAbilityEnabled ''com.demo'' [] ''Main'' False 100 sample_info))"
proof -
  have "SetAbilityEnabled ''com.demo'' [] ''Main'' False 100 sample_info
      = (True, snd (SetAbilityEnabled ''com.demo'' [] ''Main'' False 100 sample_info))"
    by (simp add: SetAbilityEnabled_def sample_info_abilities sample_info_users sample_ability_def ability_matches_def Let_def)
  from set_ability_enabled_effect [OF sample_info_distinct _ this, of 100 sample_ability]
  show ?thesis by (simp add: plain_user_def userid_defs sample_ability_def)
qed

section \<open>Adding and removing modules\<close>













end
