(* ===== verification/Bundle_Data_Mgr_Inv.thy ===== *)
theory Bundle_Data_Mgr_Inv
  imports Bundle_Data_Mgr_Correct Inner_Bundle_Info_Correct
begin

text \<open>
  The invariant of \<open>BundleDataMgr\<close> over every sequence of its operations, and what follows from it
  for the install states.
\<close>

section \<open>Operations keep the name of a bundle\<close>

lemma GetBundleName_upd_user [simp]: "GetBundleName (upd_user_info k f i) = GetBundleName i"
  by (simp add: upd_user_info_def)

lemma GetBundleName_user_ops [simp]:
  "GetBundleName (SetBundleStatus st i) = GetBundleName i"
  "GetBundleName (SetApplicationEnabled en v i) = GetBundleName i"
  "GetBundleName (AddSandboxPersistentInfo p i) = GetBundleName i"
  "GetBundleName (RemoveSandboxPersistentInfo p i) = GetBundleName i"
  "GetBundleName (snd (SetModuleUpgradeFlag m f i)) = GetBundleName i"
  "GetBundleName (i\<lparr>ib_bundlePackInfo := bp\<rparr>) = GetBundleName i"
  "GetBundleName (i\<lparr>ib_appFeature := af\<rparr>) = GetBundleName i"
  by (simp_all add: SetBundleStatus_def SetApplicationEnabled_def AddSandboxPersistentInfo_def RemoveSandboxPersistentInfo_def SetModuleUpgradeFlag_def Let_def GetBundleName_def
      upd_user_info_def)

lemmas GetBundleName_users [simp] = AddUser_lookup(2) RemoveUser_lookup(2)

lemma GetBundleName_SetAbilityEnabled:
  "SetAbilityEnabled b m n en v i = (r, i') \<Longrightarrow> GetBundleName i' = GetBundleName i"
  by (auto simp: SetAbilityEnabled_def Let_def split: if_splits)

lemma GetBundleName_SetModuleRemovable:
  "SetModuleRemovable m en v i = (r, i') \<Longrightarrow> GetBundleName i' = GetBundleName i"
  by (auto simp: SetModuleRemovable_def split: if_splits)

lemma GetBundleName_modules [simp]:
  "GetBundleName (merge_module_maps new i) = GetBundleName i"
  "GetBundleName (RemoveModuleInfo m i) = GetBundleName i"
  "GetBundleName (UpdateModuleInfo new i) = GetBundleName i"
  "GetBundleName (snd (AddModuleInfo new i)) = GetBundleName i"
  by (simp_all add: merge_module_maps_def RemoveModuleInfo_def UpdateModuleInfo_def AddModuleInfo_def
      GetBundleName_def Let_def split: option.splits prod.splits)

lemma GetBundleName_base [simp]:
  "GetBundleName (copy_base new old) = GetBundleName new"
  "GetBundleName (SetAppType t i) = GetBundleName i"
  "GetBundleName (set_privileges new i) = GetBundleName i"
  by (simp_all add: copy_base_def UpdateBaseBundleInfo_def UpdateBaseApplicationInfo_def SetAppType_def
      set_privileges_def SetAppPrivilegeLevel_def GetBundleName_def Let_def)

section \<open>The invariant\<close>

definition live_state :: "install_state \<Rightarrow> bool" where
  "live_state st \<longleftrightarrow> \<not> IsDeleteDataState st"

definition named :: "bundle_store \<Rightarrow> bool" where
  "named m \<longleftrightarrow> sm_inv m \<and> (\<forall>k i. map_of m k = Some i \<longrightarrow> GetBundleName i = k)"

definition mgr_inv :: "data_mgr \<Rightarrow> bool" where
  "mgr_inv s \<longleftrightarrow> named (dm_bundleInfos s) \<and> named (dm_dataStorage s) \<and>
     dom (map_of (dm_bundleInfos s)) \<subseteq> dom (map_of (dm_dataStorage s)) \<and>
     sm_inv (dm_installStates s) \<and>
     (\<forall>k st. map_of (dm_installStates s) k = Some st \<longrightarrow> live_state st \<and> k \<noteq> []) \<and>
     id_inv (dm_bundleIdMap s) \<and> ss_inv (dm_multiUserIdsSet s)"

lemma mgr_inv_cong:
  assumes "mgr_inv s" "dm_bundleInfos s' = dm_bundleInfos s" "dm_dataStorage s' = dm_dataStorage s"
    "dm_installStates s' = dm_installStates s" "dm_bundleIdMap s' = dm_bundleIdMap s"
    "dm_multiUserIdsSet s' = dm_multiUserIdsSet s"
  shows "mgr_inv s'"
  using assms by (simp add: mgr_inv_def)

lemma named_assign: "named m \<Longrightarrow> GetBundleName i = k \<Longrightarrow> named (sm_assign k i m)"
  by (auto simp: named_def)

lemma named_erase: "named m \<Longrightarrow> named (sm_erase k m)"
  by (auto simp: named_def split: if_splits)

lemma SaveStorage_cases:
  "SaveStorageBundleInfo kv i st = (False, st) \<or>
   SaveStorageBundleInfo kv i st = (True, sm_assign (GetBundleName i) i st)"
  by (simp add: SaveStorageBundleInfo_def)

lemma DeleteStorage_cases:
  "DeleteStorageBundleInfo kv i st = (False, st) \<or>
   DeleteStorageBundleInfo kv i st = (True, sm_erase (GetBundleName i) st)"
  by (simp add: DeleteStorageBundleInfo_def delete_key_def)

lemma mgr_inv_save_and_set:
  assumes "mgr_inv s" "GetBundleName i = n"
  shows "mgr_inv (snd (save_and_set kv n i s))"
  using SaveStorage_cases [of kv i "dm_dataStorage s"]
proof
  assume "SaveStorageBundleInfo kv i (dm_dataStorage s) = (False, dm_dataStorage s)"
  then show ?thesis using assms(1) by (simp add: save_and_set_def mgr_inv_def)
next
  assume "SaveStorageBundleInfo kv i (dm_dataStorage s) = (True, sm_assign (GetBundleName i) i (dm_dataStorage s))"
  then show ?thesis using assms by (auto simp: save_and_set_def mgr_inv_def named_assign)
qed

lemma mgr_inv_set_and_save:
  assumes "mgr_inv s" "GetBundleName i = n" "map_of (dm_bundleInfos s) n \<noteq> None"
  shows "mgr_inv (snd (set_and_save kv n i s))"
proof -
  have m: "n \<in> dom (map_of (dm_dataStorage s))" using assms(1,3) by (auto simp: mgr_inv_def)
  from SaveStorage_cases [of kv i "dm_dataStorage s"] show ?thesis
  proof
    assume "SaveStorageBundleInfo kv i (dm_dataStorage s) = (False, dm_dataStorage s)"
    then show ?thesis using assms m by (auto simp: set_and_save_def mgr_inv_def Let_def named_assign)
  next
    assume "SaveStorageBundleInfo kv i (dm_dataStorage s) = (True, sm_assign (GetBundleName i) i (dm_dataStorage s))"
    then show ?thesis using assms by (auto simp: set_and_save_def mgr_inv_def Let_def named_assign)
  qed
qed

lemma mgr_inv_set_info:
  assumes "mgr_inv s" "map_of (dm_bundleInfos s) n = Some i" "GetBundleName i' = GetBundleName i"
  shows "mgr_inv (s\<lparr>dm_bundleInfos := sm_assign n i' (dm_bundleInfos s)\<rparr>)"
proof -
  have "GetBundleName i' = n" "n \<in> dom (map_of (dm_dataStorage s))"
    using assms by (auto simp: mgr_inv_def named_def)
  then show ?thesis using assms(1) by (auto simp: mgr_inv_def named_assign)
qed

lemma mgr_inv_set_status: "mgr_inv s \<Longrightarrow> mgr_inv (set_status st n s)"
  by (auto simp: mgr_inv_def named_def set_status_def dom_def split: if_splits)

section \<open>Each operation keeps it\<close>

lemma id_inv_erase: "id_inv m \<Longrightarrow> id_inv (sm_erase k m)"
  by (auto simp: id_inv_def set_sm_erase) (auto simp: sm_erase_def distinct_map_filter)

lemma RecycleUidAndGid_frame [simp]:
  "dm_bundleInfos (RecycleUidAndGid i s) = dm_bundleInfos s"
  "dm_dataStorage (RecycleUidAndGid i s) = dm_dataStorage s"
  "dm_installStates (RecycleUidAndGid i s) = dm_installStates s"
  "dm_multiUserIdsSet (RecycleUidAndGid i s) = dm_multiUserIdsSet s"
  by (simp_all add: RecycleUidAndGid_def split: list.splits prod.splits)

lemma RecycleUidAndGid_ids: "id_inv (dm_bundleIdMap s) \<Longrightarrow> id_inv (dm_bundleIdMap (RecycleUidAndGid i s))"
  by (simp add: RecycleUidAndGid_def id_inv_erase split: list.splits prod.splits)

lemma mgr_inv_DeleteBundleInfo:
  assumes "mgr_inv s"
  shows "mgr_inv (DeleteBundleInfo kv n st s)"
proof (cases "st = INSTALL_FAIL \<or> map_of (dm_bundleInfos s) n = None")
  case True
  then show ?thesis using assms by (auto simp: DeleteBundleInfo_def)
next
  case False
  then obtain i where i: "map_of (dm_bundleInfos s) n = Some i" and st: "st \<noteq> INSTALL_FAIL" by auto
  then have n: "GetBundleName i = n" using assms by (auto simp: mgr_inv_def named_def)
  have ids: "id_inv (dm_bundleIdMap (RecycleUidAndGid i s))"
    using assms by (intro RecycleUidAndGid_ids) (simp add: mgr_inv_def)
  from DeleteStorage_cases [of kv i "dm_dataStorage s"] show ?thesis
    using assms i st ids n by (auto simp: DeleteBundleInfo_def Let_def mgr_inv_def named_erase split: if_splits)
qed

lemma mgr_inv_UpdateBundleInstallState:
  assumes "mgr_inv s"
  shows "mgr_inv (snd (UpdateBundleInstallState kv n st s))"
proof -
  have del: "mgr_inv (s\<lparr>dm_installStates := sm_erase n (dm_installStates s)\<rparr>)"
    using assms by (auto simp: mgr_inv_def split: if_splits)
  have set: "mgr_inv (s\<lparr>dm_installStates := sm_assign n st (dm_installStates s)\<rparr>)" if "live_state st" "n \<noteq> []"
    using assms that by (auto simp: mgr_inv_def split: if_splits)
  have add: "mgr_inv (s\<lparr>dm_installStates := sm_emplace n st (dm_installStates s)\<rparr>)"
    if "map_of (dm_installStates s) n = None" "live_state st" "n \<noteq> []"
    using set that by (simp add: sm_emplace_def)
  have live: "live_state INSTALL_START" by (simp add: live_state_def IsDeleteDataState_def)
  show ?thesis
    using assms mgr_inv_DeleteBundleInfo [OF del] set add live
    by (auto simp: UpdateBundleInstallState_def live_state_def split: option.splits)
qed

lemma mgr_inv_AddInnerBundleInfo:
  "mgr_inv s \<Longrightarrow> GetBundleName i = n \<Longrightarrow> mgr_inv (snd (AddInnerBundleInfo kv n i s))"
  by (simp add: AddInnerBundleInfo_def mgr_inv_save_and_set)

lemma mgr_inv_module_ops:
  assumes "mgr_inv s" "GetBundleName old = n" "GetBundleName new = n"
  shows "mgr_inv (snd (snd (AddNewModuleInfo kv n new old s)))"
    and "mgr_inv (snd (snd (UpdateInnerBundleInfo kv n new old s)))"
    and "mgr_inv (snd (snd (Mgr_RemoveModuleInfo kv n m old s)))"
  using assms mgr_inv_save_and_set [OF assms(1), of _ n kv]
  by (simp_all add: AddNewModuleInfo_def UpdateInnerBundleInfo_def Mgr_RemoveModuleInfo_def Let_def
      split_beta split: option.splits)

lemma mgr_inv_user_ops:
  assumes "mgr_inv s"
  shows "mgr_inv (snd (Mgr_AddInnerBundleUserInfo kv n u s))"
    and "Mgr_RemoveInnerBundleUserInfo kv js n v s = Some (r, s') \<Longrightarrow> mgr_inv s'"
proof -
  have key: "GetBundleName i = n" if "map_of (dm_bundleInfos s) n = Some i" for i
    using assms that by (auto simp: mgr_inv_def named_def)
  show "mgr_inv (snd (Mgr_AddInnerBundleUserInfo kv n u s))"
    using assms key by (auto simp: Mgr_AddInnerBundleUserInfo_def split: option.splits intro!: mgr_inv_set_and_save)
  assume rm: "Mgr_RemoveInnerBundleUserInfo kv js n v s = Some (r, s')"
  show "mgr_inv s'"
  proof (cases "map_of (dm_bundleInfos s) n")
    case None
    then show ?thesis using rm assms by (simp add: Mgr_RemoveInnerBundleUserInfo_def)
  next
    case (Some i)
    let ?r = "set_and_save kv n (SetBundleStatus BundleStatus_ENABLED (RemoveInnerBundleUserInfo v i)) s"
    have inv: "mgr_inv (snd ?r)" using assms key Some by (intro mgr_inv_set_and_save) auto
    have "dm_bundleInfos s' = dm_bundleInfos (snd ?r) \<and> dm_dataStorage s' = dm_dataStorage (snd ?r) \<and>
        dm_installStates s' = dm_installStates (snd ?r) \<and> dm_bundleIdMap s' = dm_bundleIdMap (snd ?r) \<and>
        dm_multiUserIdsSet s' = dm_multiUserIdsSet (snd ?r)"
      using rm Some by (auto simp: Mgr_RemoveInnerBundleUserInfo_def split: prod.splits bool.splits option.splits)
    then show ?thesis using mgr_inv_cong [OF inv] by blast
  qed
qed

lemma sync_state_file_inv:
  "mgr_inv s \<Longrightarrow> sync_state_file js n v i s = Some (r, s') \<Longrightarrow> mgr_inv s'"
  by (auto simp: sync_state_file_def split: prod.splits bool.splits option.splits if_splits
      elim!: mgr_inv_cong)

lemma mgr_inv_enable_ops:
  assumes "mgr_inv s"
  shows "Mgr_SetApplicationEnabled js c n en v s = Some (r, s') \<Longrightarrow> mgr_inv s'"
    and "Mgr_SetAbilityEnabled js c a en v s = Some (r, s') \<Longrightarrow> mgr_inv s'"
    and "mgr_inv (snd (GetInnerBundleInfo n s))" "mgr_inv (snd (DisableBundle n s))" "mgr_inv (snd (EnableBundle n s))"
proof -
  show "mgr_inv (snd (GetInnerBundleInfo n s))" "mgr_inv (snd (DisableBundle n s))" "mgr_inv (snd (EnableBundle n s))"
    using assms by (simp_all add: GetInnerBundleInfo_def DisableBundle_def EnableBundle_def mgr_inv_set_status
        split: option.splits)
  show "mgr_inv s'" if op: "Mgr_SetApplicationEnabled js c n en v s = Some (r, s')"
  proof (cases "n = [] \<or> GetUserId c v s = INVALID_USERID \<or> map_of (dm_bundleInfos s) n = None")
    case True
    then show ?thesis using op assms by (auto simp: Mgr_SetApplicationEnabled_def Let_def split: if_splits)
  next
    case False
    then obtain i where i: "map_of (dm_bundleInfos s) n = Some i" by auto
    let ?i = "SetApplicationEnabled en (GetUserId c v s) i"
    have "mgr_inv (s\<lparr>dm_bundleInfos := sm_assign n ?i (dm_bundleInfos s)\<rparr>)"
      by (rule mgr_inv_set_info [OF assms i]) simp
    then show ?thesis
      by (rule sync_state_file_inv) (use op False i in \<open>simp add: Mgr_SetApplicationEnabled_def Let_def\<close>)
  qed
  show "mgr_inv s'" if op: "Mgr_SetAbilityEnabled js c a en v s = Some (r, s')"
  proof (cases "dm_bundleInfos s = [] \<or> GetUserId c v s = INVALID_USERID \<or> map_of (dm_bundleInfos s) (ai_bundleName a) = None")
    case True
    then show ?thesis using op assms by (auto simp: Mgr_SetAbilityEnabled_def Let_def split: if_splits)
  next
    case False
    then obtain i where i: "map_of (dm_bundleInfos s) (ai_bundleName a) = Some i" by auto
    obtain ok i' where e: "SetAbilityEnabled (ai_bundleName a) (ai_moduleName a) (ai_name a) en (GetUserId c v s) i = (ok, i')"
      by (metis surj_pair)
    show ?thesis
    proof (cases ok)
      case True
      have "mgr_inv (s\<lparr>dm_bundleInfos := sm_assign (ai_bundleName a) i' (dm_bundleInfos s)\<rparr>)"
        by (rule mgr_inv_set_info [OF assms i GetBundleName_SetAbilityEnabled [OF e]])
      then show ?thesis
        by (rule sync_state_file_inv) (use op False i e True in \<open>simp add: Mgr_SetAbilityEnabled_def Let_def\<close>)
    qed (use op False i e assms in \<open>simp add: Mgr_SetAbilityEnabled_def Let_def\<close>)
  qed
qed

lemma mgr_inv_saved_ops:
  assumes "mgr_inv s"
  shows "mgr_inv (snd (Mgr_SetModuleRemovable kv v n m en s))" "mgr_inv (snd (Mgr_SetModuleUpgradeFlag kv n m f s))"
    "mgr_inv (StoreSandboxPersistentInfo kv n p s)" "mgr_inv (DeleteSandboxPersistentInfo kv n p s)"
proof -
  have key: "GetBundleName i = n" if "map_of (dm_bundleInfos s) n = Some i" for i
    using assms that by (auto simp: mgr_inv_def named_def)
  show "mgr_inv (snd (Mgr_SetModuleRemovable kv v n m en s))"
    using assms key by (auto simp: Mgr_SetModuleRemovable_def split: option.splits prod.splits bool.splits
        dest: GetBundleName_SetModuleRemovable intro!: mgr_inv_save_and_set)
  show "mgr_inv (snd (Mgr_SetModuleUpgradeFlag kv n m f s))"
    using assms key by (auto simp: Mgr_SetModuleUpgradeFlag_def split: option.splits intro!: mgr_inv_save_and_set)
  show "mgr_inv (StoreSandboxPersistentInfo kv n p s)" "mgr_inv (DeleteSandboxPersistentInfo kv n p s)"
    using assms key by (auto simp: StoreSandboxPersistentInfo_def DeleteSandboxPersistentInfo_def
        split: option.splits intro!: mgr_inv_set_and_save)
qed

lemma mgr_inv_id_ops:
  assumes "mgr_inv s"
  shows "mgr_inv (snd (snd (GenerateUidAndGid u s)))" "mgr_inv (AddUserId v s)" "mgr_inv (RemoveUserId v s)"
proof -
  have ids: "id_inv (dm_bundleIdMap s)" using assms by (simp add: mgr_inv_def)
  have frame: "dm_bundleInfos (snd (GenerateBundleId n s)) = dm_bundleInfos s \<and>
      dm_dataStorage (snd (GenerateBundleId n s)) = dm_dataStorage s \<and>
      dm_installStates (snd (GenerateBundleId n s)) = dm_installStates s \<and>
      dm_multiUserIdsSet (snd (GenerateBundleId n s)) = dm_multiUserIdsSet s" for n
    by (simp add: GenerateBundleId_def Let_def split: option.splits)
  have "id_inv (dm_bundleIdMap (snd (GenerateBundleId n s)))" for n
    using bundle_ids_kept [OF ids] by simp
  then have "mgr_inv (snd (GenerateBundleId n s))" for n using assms frame [of n] by (simp add: mgr_inv_def)
  then show "mgr_inv (snd (snd (GenerateUidAndGid u s)))"
    using assms by (auto simp: GenerateUidAndGid_def Let_def split: prod.splits option.splits) (metis snd_conv)+
  show "mgr_inv (AddUserId v s)" "mgr_inv (RemoveUserId v s)"
    using assms by (simp_all add: AddUserId_def RemoveUserId_def mgr_inv_def)
qed

lemma mgr_inv_store:
  assumes "mgr_inv s" "named st" "dom (map_of (dm_dataStorage s)) \<subseteq> dom (map_of st)"
  shows "mgr_inv (s\<lparr>dm_dataStorage := st\<rparr>)"
  using assms by (simp add: mgr_inv_def) blast

lemma mgr_inv_SaveInnerBundleInfo:
  assumes "mgr_inv s"
  shows "mgr_inv (snd (SaveInnerBundleInfo kv i s))"
proof -
  have st: "named (dm_dataStorage s)" using assms by (simp add: mgr_inv_def)
  have "dom (map_of (dm_dataStorage s)) \<subseteq> dom (map_of (sm_assign (GetBundleName i) i (dm_dataStorage s)))" by auto
  with SaveStorage_cases [of kv i "dm_dataStorage s"] assms st show ?thesis
    by (auto simp: SaveInnerBundleInfo_def intro!: mgr_inv_store named_assign)
qed

lemma mgr_inv_RecycleUidAndGid: "mgr_inv s \<Longrightarrow> mgr_inv (RecycleUidAndGid i s)"
  by (simp add: mgr_inv_def RecycleUidAndGid_ids)

lemma mgr_inv_drop:
  assumes "mgr_inv s"
  shows "mgr_inv (s\<lparr>dm_dataStorage := sm_erase n (dm_dataStorage s), dm_bundleInfos := sm_erase n (dm_bundleInfos s)\<rparr>)"
proof -
  have "dom (map_of (sm_erase n (dm_bundleInfos s))) \<subseteq> dom (map_of (sm_erase n (dm_dataStorage s)))"
    using assms by (simp add: mgr_inv_def) blast
  then show ?thesis using assms by (simp add: mgr_inv_def named_erase)
qed

lemma mgr_inv_RemoveClonedBundleInfo:
  assumes "mgr_inv s"
  shows "mgr_inv (snd (RemoveClonedBundleInfo kv n s))"
proof (cases "map_of (dm_bundleInfos s) n")
  case None
  then show ?thesis using assms by (simp add: RemoveClonedBundleInfo_def)
next
  case (Some i)
  have inv: "mgr_inv (RecycleUidAndGid i s)" by (rule mgr_inv_RecycleUidAndGid [OF assms])
  have n: "GetBundleName i = n" using assms Some by (auto simp: mgr_inv_def named_def)
  show ?thesis
    using DeleteStorage_cases [of kv i "dm_dataStorage s"] inv mgr_inv_drop [OF inv, of n] n Some
      mgr_inv_cong [OF inv, of "RecycleUidAndGid i s\<lparr>dm_dataStorage := dm_dataStorage s\<rparr>"]
    by (auto simp: RemoveClonedBundleInfo_def Let_def)
qed

section \<open>Reachable states\<close>

text \<open>
  One call of an operation, with any behaviour of the key-value store and the state file. The
  installer passes the name of the bundle whose information it hands over.
\<close>

inductive mgr_step :: "data_mgr \<Rightarrow> data_mgr \<Rightarrow> bool" where
  state: "mgr_step s (snd (UpdateBundleInstallState kv n st s))"
| add: "GetBundleName i = n \<Longrightarrow> mgr_step s (snd (AddInnerBundleInfo kv n i s))"
| add_module: "GetBundleName new = n \<Longrightarrow> GetBundleName old = n \<Longrightarrow>
    mgr_step s (snd (snd (AddNewModuleInfo kv n new old s)))"
| update_module: "GetBundleName new = n \<Longrightarrow> GetBundleName old = n \<Longrightarrow>
    mgr_step s (snd (snd (UpdateInnerBundleInfo kv n new old s)))"
| remove_module: "GetBundleName old = n \<Longrightarrow> mgr_step s (snd (snd (Mgr_RemoveModuleInfo kv n m old s)))"
| add_user: "mgr_step s (snd (Mgr_AddInnerBundleUserInfo kv n u s))"
| remove_user: "Mgr_RemoveInnerBundleUserInfo kv js n v s = Some (r, s') \<Longrightarrow> mgr_step s s'"
| enable_app: "Mgr_SetApplicationEnabled js c n en v s = Some (r, s') \<Longrightarrow> mgr_step s s'"
| enable_ability: "Mgr_SetAbilityEnabled js c a en v s = Some (r, s') \<Longrightarrow> mgr_step s s'"
| get_info: "mgr_step s (snd (GetInnerBundleInfo n s))"
| disable: "mgr_step s (snd (DisableBundle n s))"
| enable: "mgr_step s (snd (EnableBundle n s))"
| removable: "mgr_step s (snd (Mgr_SetModuleRemovable kv v n m en s))"
| upgrade_flag: "mgr_step s (snd (Mgr_SetModuleUpgradeFlag kv n m f s))"
| store_sandbox: "mgr_step s (StoreSandboxPersistentInfo kv n p s)"
| delete_sandbox: "mgr_step s (DeleteSandboxPersistentInfo kv n p s)"
| uid: "mgr_step s (snd (snd (GenerateUidAndGid u s)))"
| add_user_id: "mgr_step s (AddUserId v s)"
| remove_user_id: "mgr_step s (RemoveUserId v s)"
| save_info: "mgr_step s (snd (SaveInnerBundleInfo kv i s))"
| recycle: "mgr_step s (RecycleUidAndGid i s)"
| remove_clone: "mgr_step s (snd (RemoveClonedBundleInfo kv n s))"
| save_pre: "mgr_step s (snd (SavePreInstallBundleInfo ok q s))"
| delete_pre: "mgr_step s (snd (DeletePreInstallBundleInfo ok q s))"

inductive mgr_reachable :: "data_mgr \<Rightarrow> bool" where
  start: "mgr_reachable (new_BundleDataMgr [] file)"
| step: "mgr_reachable s \<Longrightarrow> mgr_step s s' \<Longrightarrow> mgr_reachable s'"

lemma mgr_step_inv: "mgr_step s s' \<Longrightarrow> mgr_inv s \<Longrightarrow> mgr_inv s'"
proof (induction rule: mgr_step.induct)
  case (save_pre s ok q)
  then show ?case by (simp add: SavePreInstallBundleInfo_def Let_def mgr_inv_def)
next
  case (delete_pre s ok q)
  then show ?case by (simp add: DeletePreInstallBundleInfo_def mgr_inv_def)
qed (blast intro: mgr_inv_UpdateBundleInstallState mgr_inv_AddInnerBundleInfo mgr_inv_module_ops
    mgr_inv_user_ops mgr_inv_enable_ops mgr_inv_saved_ops mgr_inv_id_ops mgr_inv_SaveInnerBundleInfo
    mgr_inv_RecycleUidAndGid mgr_inv_RemoveClonedBundleInfo)+

lemma mgr_reachable_inv: "mgr_reachable s \<Longrightarrow> mgr_inv s"
proof (induction rule: mgr_reachable.induct)
  case (start f)
  show ?case
    by (simp add: new_BundleDataMgr_def mgr_inv_def named_def id_inv_def ss_inv_iff)
next
  case (step s s')
  then show ?case using mgr_step_inv by blast
qed


definition kv_fine :: kv_env where
  "kv_fine = \<lparr> kv_present = True, kv_put = (\<lambda>_ _. KV_SUCCESS), kv_delete = (\<lambda>_ _. KV_SUCCESS) \<rparr>"

definition demo_info :: inner_bundle_info where
  "demo_info = new_InnerBundleInfo\<lparr>ib_baseApplicationInfo := new_ApplicationInfo\<lparr>app_bundleName := ''com.demo''\<rparr>\<rparr>"

definition demo_mgr :: data_mgr where
  "demo_mgr = snd (AddInnerBundleInfo kv_fine ''com.demo'' demo_info
     (snd (UpdateBundleInstallState kv_fine ''com.demo'' INSTALL_START (new_BundleDataMgr [] (Some [])))))"

lemma demo_info_name [simp]: "GetBundleName demo_info = ''com.demo''"
  by (simp add: demo_info_def GetBundleName_def)

lemma demo_reachable: "mgr_reachable demo_mgr"
  unfolding demo_mgr_def
  by (rule mgr_reachable.step [OF mgr_reachable.step [OF mgr_reachable.start mgr_step.state] mgr_step.add]) simp

lemma demo_mgr_eval:
  "dm_bundleInfos demo_mgr = [(''com.demo'', demo_info)]" "dm_dataStorage demo_mgr = [(''com.demo'', demo_info)]"
  "dm_installStates demo_mgr = [(''com.demo'', INSTALL_START)]"
  by (simp_all add: demo_mgr_def AddInnerBundleInfo_def UpdateBundleInstallState_def new_BundleDataMgr_def
      save_and_set_def SaveStorageBundleInfo_def try_twice_def kv_fine_def sm_emplace_def)


section \<open>Install states\<close>

text \<open>
  C24: No bundle gets stuck: from every install state a reachable data manager can hold for a bundle,
  one update brings it to \<open>INSTALL_SUCCESS\<close>, and from there \<open>UNINSTALL_START\<close> and
  \<open>UNINSTALL_SUCCESS\<close> are accepted and remove the state and the information of that bundle and of
  no other, whatever the store answers.
\<close>

theorem install_states_never_stuck:
  assumes "mgr_reachable s" "map_of (dm_installStates s) n = Some st"
  shows "(st = INSTALL_SUCCESS \<or> UpdateBundleInstallState kv n INSTALL_SUCCESS s =
      (True, s\<lparr>dm_installStates := sm_assign n INSTALL_SUCCESS (dm_installStates s)\<rparr>)) \<and>
    (st = INSTALL_SUCCESS \<longrightarrow>
      (let (ok1, s1) = UpdateBundleInstallState kv n UNINSTALL_START s;
           (ok2, s2) = UpdateBundleInstallState kv n UNINSTALL_SUCCESS s1
       in ok1 \<and> ok2 \<and> map_of (dm_installStates s2) = (map_of (dm_installStates s))(n := None) \<and>
          map_of (dm_bundleInfos s2) = (map_of (dm_bundleInfos s))(n := None)))"
proof -
  have inv: "live_state st" "n \<noteq> []" using mgr_reachable_inv [OF assms(1)] assms(2) by (auto simp: mgr_inv_def)
  have "st = INSTALL_SUCCESS \<or> (INSTALL_SUCCESS, st) \<in> set transferStates"
    using inv(1) by (cases st) (simp_all add: live_state_def IsDeleteDataState_def transferStates_def)
  then have first: "st = INSTALL_SUCCESS \<or> UpdateBundleInstallState kv n INSTALL_SUCCESS s =
      (True, s\<lparr>dm_installStates := sm_assign n INSTALL_SUCCESS (dm_installStates s)\<rparr>)"
    using inv(2) assms(2) by (auto simp: UpdateBundleInstallState_def IsDeleteDataState_def)
  have trans: "(UNINSTALL_START, INSTALL_SUCCESS) \<in> set transferStates" "(UNINSTALL_SUCCESS, UNINSTALL_START) \<in> set transferStates"
    by (simp_all add: transferStates_def)
  let ?s1 = "s\<lparr>dm_installStates := sm_assign n UNINSTALL_START (dm_installStates s)\<rparr>"
  let ?s2 = "DeleteBundleInfo kv n UNINSTALL_SUCCESS (?s1\<lparr>dm_installStates := sm_erase n (dm_installStates ?s1)\<rparr>)"
  have u1: "UpdateBundleInstallState kv n UNINSTALL_START s = (True, ?s1)" if "st = INSTALL_SUCCESS"
    using inv(2) assms(2) that trans by (simp add: UpdateBundleInstallState_def IsDeleteDataState_def)
  have u2: "UpdateBundleInstallState kv n UNINSTALL_SUCCESS ?s1 = (True, ?s2)"
    using inv(2) trans by (simp add: UpdateBundleInstallState_def IsDeleteDataState_def)
  have "map_of (dm_installStates ?s2) = (map_of (dm_installStates s))(n := None) \<and>
      map_of (dm_bundleInfos ?s2) = (map_of (dm_bundleInfos s))(n := None)"
    by (auto simp: DeleteBundleInfo_def Let_def fun_eq_iff split: option.splits)
  with first u1 u2 show ?thesis by (simp add: Let_def)
qed

theorem install_states_never_stuck_witness:
  "fst (UpdateBundleInstallState kv_fine ''com.demo'' INSTALL_SUCCESS demo_mgr)"
  using install_states_never_stuck [OF demo_reachable, of "''com.demo''" INSTALL_START kv_fine]
  by (simp add: demo_mgr_eval)

end
