(* ===== verification/Bundle_Persistence.thy ===== *)
theory Bundle_Persistence
  imports Bundle_Data_Mgr_Inv
begin

text \<open>
  Memory, store and restart: what an operation that reports success has written, what a failed one
  leaves, which bundle ids a restart restores, and what recovery after a crash and the state file do.
\<close>

section \<open>Saving\<close>

definition saved_atomically :: "string \<Rightarrow> data_mgr \<Rightarrow> bool \<Rightarrow> inner_bundle_info \<Rightarrow> data_mgr \<Rightarrow> bool" where
  "saved_atomically n s ok i s' \<longleftrightarrow>
     (if ok then map_of (dm_bundleInfos s') = (map_of (dm_bundleInfos s))(n \<mapsto> i) \<and>
                 map_of (dm_dataStorage s') = (map_of (dm_dataStorage s))(n \<mapsto> i)
      else s' = s)"

lemma saved_atomically_refl [simp]: "saved_atomically n s False i s"
  by (simp add: saved_atomically_def)

lemma save_and_set_atomic:
  "GetBundleName i = n \<Longrightarrow> saved_atomically n s (fst (save_and_set kv n i s)) i (snd (save_and_set kv n i s))"
  using SaveStorage_cases [of kv i "dm_dataStorage s"]
  by (auto simp: save_and_set_def saved_atomically_def)

text \<open>
  C25: Adding a bundle, adding a module and updating a module are atomic with respect to the store:
  when the call reports success, the new information is both in memory and in the store under the
  bundle's name and nothing else has changed there; when it reports failure, memory and store are
  exactly as before.
\<close>

theorem save_is_atomic:
  assumes "GetBundleName new = n" "GetBundleName old = n"
  shows "(case AddInnerBundleInfo kv n new s of (ok, s') \<Rightarrow> saved_atomically n s ok new s') \<and>
    (case AddNewModuleInfo kv n new old s of (ok, i, s') \<Rightarrow> saved_atomically n s ok i s') \<and>
    (case UpdateInnerBundleInfo kv n new old s of (ok, i, s') \<Rightarrow> saved_atomically n s ok i s')"
proof (intro conjI)
  note atomic = save_and_set_atomic [of _ n s kv]
  show "case AddInnerBundleInfo kv n new s of (ok, s') \<Rightarrow> saved_atomically n s ok new s'"
    using atomic [of new] assms by (simp add: AddInnerBundleInfo_def split_beta)
  show "case AddNewModuleInfo kv n new old s of (ok, i, s') \<Rightarrow> saved_atomically n s ok i s'"
    using assms by (simp add: AddNewModuleInfo_def Let_def split_beta atomic)
  show "case UpdateInnerBundleInfo kv n new old s of (ok, i, s') \<Rightarrow> saved_atomically n s ok i s'"
    using assms by (simp add: UpdateInnerBundleInfo_def Let_def split_beta atomic split: option.split)
qed

theorem save_is_atomic_witness:
  "map_of (dm_dataStorage (snd (AddInnerBundleInfo kv_fine ''com.demo'' demo_info
     (snd (UpdateBundleInstallState kv_fine ''com.demo'' INSTALL_START (new_BundleDataMgr [] (Some [])))))))
     ''com.demo'' = Some demo_info"
proof -
  let ?s = "snd (UpdateBundleInstallState kv_fine ''com.demo'' INSTALL_START (new_BundleDataMgr [] (Some [])))"
  have "fst (AddInnerBundleInfo kv_fine ''com.demo'' demo_info ?s)"
    by (simp add: AddInnerBundleInfo_def UpdateBundleInstallState_def new_BundleDataMgr_def
        save_and_set_def SaveStorageBundleInfo_def try_twice_def kv_fine_def sm_emplace_def)
  with save_is_atomic [where new = demo_info and old = demo_info and n = "''com.demo''" and kv = kv_fine and s = ?s]
  show ?thesis
    by (cases "AddInnerBundleInfo kv_fine ''com.demo'' demo_info ?s") (simp add: saved_atomically_def)
qed

text \<open>
  \<open>BundleDataMgr::RemoveModuleInfo\<close> reports success for every installed bundle that has an
  install state, also when the store refuses the change, in which case memory and store still hold
  the module, and when the state does not allow removing modules, in which case nothing is done.
\<close>

theorem remove_module_reports_success:
  assumes "map_of (dm_bundleInfos s) n \<noteq> None" "map_of (dm_installStates s) n = Some st"
    and "\<not> kv_present kv \<or> st \<noteq> UNINSTALL_START \<and> st \<noteq> ROLL_BACK"
  shows "fst (Mgr_RemoveModuleInfo kv n m old s) \<and> snd (snd (Mgr_RemoveModuleInfo kv n m old s)) = s"
  using assms by (auto simp: Mgr_RemoveModuleInfo_def Let_def save_and_set_def SaveStorageBundleInfo_def)

theorem remove_module_reports_success_witness:
  "fst (Mgr_RemoveModuleInfo kv_fine ''com.demo'' ''entry'' demo_info demo_mgr)"
  using remove_module_reports_success [of demo_mgr "''com.demo''" INSTALL_START kv_fine "''entry''" demo_info]
  by (simp add: demo_mgr_eval)

text \<open>
  A clone shares its store entry with the original: saving a clone replaces the stored
  information of the original bundle by the clone's, and removing the clone deletes it, although the
  original stays installed in memory.
\<close>

theorem clone_replaces_original_in_store:
  assumes "app_isCloned (ib_baseApplicationInfo c)" "ib_newBundleName c \<noteq> GetBundleName c"
    and "map_of (dm_bundleInfos s) (GetBundleName c) = Some original" "map_of (dm_bundleInfos s) (ib_newBundleName c) = None"
    and "GetBundleName c \<noteq> []" "ib_innerBundleUserInfos c = []"
  shows "let s1 = snd (SaveNewInfoToDB kv_fine t (GetBundleName c) c s);
             s2 = snd (RemoveClonedBundleInfo kv_fine (ib_newBundleName c) s1)
         in map_of (dm_dataStorage s1) (GetBundleName c) = Some (SetBundleInstallTime t UNSPECIFIED_USERID c) \<and>
            map_of (dm_dataStorage s2) (GetBundleName c) = None \<and>
            map_of (dm_bundleInfos s2) (GetBundleName c) = Some original"
proof -
  have same: "SetBundleInstallTime t UNSPECIFIED_USERID c = c"
    using assms(6) by (simp add: SetBundleInstallTime_def Let_def)
  have key: "GetDBKeyBundleName c = ib_newBundleName c" using assms(1) by (simp add: GetDBKeyBundleName_def)
  show ?thesis
    using assms unfolding SaveNewInfoToDB_def key same
    by (simp add: Let_def save_and_set_def SaveStorageBundleInfo_def try_twice_def kv_fine_def
        RemoveClonedBundleInfo_def RecycleUidAndGid_def DeleteStorageBundleInfo_def delete_key_def)
qed

definition demo_clone :: inner_bundle_info where
  "demo_clone = demo_info\<lparr>ib_newBundleName := ''com.demo#1'',
     ib_baseApplicationInfo := (ib_baseApplicationInfo demo_info)\<lparr>app_isCloned := True\<rparr>\<rparr>"

lemma demo_clone_fields:
  "GetBundleName demo_clone = ''com.demo''" "ib_newBundleName demo_clone = ''com.demo#1''"
  "app_isCloned (ib_baseApplicationInfo demo_clone)" "ib_innerBundleUserInfos demo_clone = []"
  "ib_newBundleName demo_info = []"
  by (simp_all add: demo_clone_def demo_info_def GetBundleName_def new_InnerBundleInfo_def)

theorem clone_replaces_original_in_store_witness:
  "map_of (dm_dataStorage (snd (SaveNewInfoToDB kv_fine 7 ''com.demo'' demo_clone demo_mgr))) ''com.demo'' \<noteq> Some demo_info"
proof -
  have "SetBundleInstallTime 7 UNSPECIFIED_USERID demo_clone = demo_clone"
    by (simp add: SetBundleInstallTime_def demo_clone_fields Let_def)
  moreover have "demo_clone \<noteq> demo_info" using demo_clone_fields(2,5) by (metis list.distinct(1))
  ultimately show ?thesis
    using clone_replaces_original_in_store [of demo_clone demo_mgr demo_info 7]
    by (simp add: demo_mgr_eval demo_clone_fields Let_def)
qed

section \<open>Restart\<close>

definition bundle_ids :: "inner_bundle_info list \<Rightarrow> (int \<times> string) list" where
  "bundle_ids is = List.map_filter (\<lambda>i. case ib_innerBundleUserInfos i of
     [] \<Rightarrow> None | (_, u) # _ \<Rightarrow> Some (uid_bundleId u, iu_bundleName u)) is"

lemma AddUserId_effect [simp]:
  "dm_bundleIdMap (AddUserId v s) = dm_bundleIdMap s"
  "set (dm_multiUserIdsSet (AddUserId v s)) = insert v (set (dm_multiUserIdsSet s))"
  by (auto simp: AddUserId_def)

lemma AddUserId_fold:
  "dm_bundleIdMap (foldl (\<lambda>s u. AddUserId (f u) s) s us) = dm_bundleIdMap s"
  "set (dm_multiUserIdsSet (foldl (\<lambda>s u. AddUserId (f u) s) s us)) = set (dm_multiUserIdsSet s) \<union> f ` set us"
  by (induction us arbitrary: s) auto

lemma restore_bundle_ids:
  "dm_bundleIdMap (foldl restore_bundle s is) = foldl (\<lambda>m (k, v). sm_assign k v m) (dm_bundleIdMap s) (bundle_ids is)"
proof (induction "is" arbitrary: s)
  case Nil
  then show ?case by (simp add: bundle_ids_def)
next
  case (Cons i "is")
  have "dm_bundleIdMap (restore_bundle s i) =
      foldl (\<lambda>m (k, v). sm_assign k v m) (dm_bundleIdMap s) (bundle_ids [i])"
    by (simp add: restore_bundle_def bundle_ids_def AddUserId_fold Let_def
        split: list.splits prod.splits)
  moreover have "bundle_ids (i # is) = bundle_ids [i] @ bundle_ids is"
    by (simp add: bundle_ids_def split: option.splits)
  ultimately show ?case using Cons by simp
qed

lemma restore_bundle_users:
  "set (dm_multiUserIdsSet (foldl restore_bundle s is)) = set (dm_multiUserIdsSet s) \<union>
     (\<Union>i \<in> set is. (\<lambda>(_, u). bu_userId (iu_bundleUserInfo u)) ` set (ib_innerBundleUserInfos i))"
proof (induction "is" arbitrary: s)
  case (Cons i "is")
  have "set (dm_multiUserIdsSet (restore_bundle s i)) = set (dm_multiUserIdsSet s) \<union>
      (\<lambda>(_, u). bu_userId (iu_bundleUserInfo u)) ` set (ib_innerBundleUserInfos i)"
    by (auto simp: restore_bundle_def AddUserId_fold Let_def image_image split_beta split: list.splits) force
  with Cons show ?case by auto
qed simp

lemma assign_all_map:
  "distinct (map fst xs) \<Longrightarrow> map_of (foldl (\<lambda>m (k, v). sm_assign k v m) m xs) = map_of m ++ map_of xs"
proof (induction xs arbitrary: m)
  case (Cons p xs)
  obtain a b where p: "p = (a, b)" by (cases p)
  then have "map_of xs a = None" using Cons.prems by (simp add: map_of_eq_None_iff)
  then have "(map_of m)(a \<mapsto> b) ++ map_of xs = map_of m ++ map_of (p # xs)"
    by (auto simp: map_add_def fun_eq_iff p split: option.splits)
  moreover have "map_of (foldl (\<lambda>m (k, v). sm_assign k v m) (sm_assign a b m) xs) = (map_of m)(a \<mapsto> b) ++ map_of xs"
    using Cons p by simp
  ultimately show ?case by (simp only: p foldl_Cons prod.case)
qed simp

lemma assign_all_inv: "sm_inv m \<Longrightarrow> sm_inv (foldl (\<lambda>m (k, v). sm_assign k v m) m xs)"
  by (induction xs arbitrary: m) auto

text \<open>
  Bundle ids and users survive a restart: after \<open>RestoreUidAndGid\<close> has run on the bundles loaded
  from the store, asking for the id of an installed bundle gives the id that is in its uids, without
  handing out a new one, and exactly the users the bundles are installed for are known.
\<close>

theorem ids_survive_restart:
  assumes "dm_bundleIdMap s = []" "dm_multiUserIdsSet s = []"
    and "distinct (map fst (bundle_ids (map snd (dm_bundleInfos s))))"
    and "distinct (map snd (bundle_ids (map snd (dm_bundleInfos s))))"
    and "(j, n) \<in> set (bundle_ids (map snd (dm_bundleInfos s)))"
  shows "GenerateBundleId n (RestoreUidAndGid s) = (Some j, RestoreUidAndGid s) \<and>
    set (dm_multiUserIdsSet (RestoreUidAndGid s)) =
      {bu_userId (iu_bundleUserInfo u) |k i q u. (k, i) \<in> set (dm_bundleInfos s) \<and> (q, u) \<in> set (ib_innerBundleUserInfos i)}"
proof -
  define xs where "xs = bundle_ids (map snd (dm_bundleInfos s))"
  define m where "m = dm_bundleIdMap (RestoreUidAndGid s)"
  have mm: "m = foldl (\<lambda>m (k, v). sm_assign k v m) [] xs"
    by (simp add: m_def xs_def RestoreUidAndGid_def restore_bundle_ids assms(1))
  have inv: "sm_inv m" by (simp add: mm assign_all_inv)
  have look: "map_of m = map_of xs" using assms(3) by (simp add: mm assign_all_map xs_def)
  have mem: "(k, v) \<in> set m \<longleftrightarrow> (k, v) \<in> set xs" for k v
    using sm_inv_map_of [OF inv, of k v] assms(3) by (simp add: look xs_def)
  have jn: "(j, n) \<in> set m" using assms(5) mem by (simp add: xs_def)
  then have "find (\<lambda>(_, x). x = n) m \<noteq> None" using find_name(1) [of n m] by force
  then obtain j' n' where f: "find (\<lambda>(_, x). x = n) m = Some (j', n')" by auto
  then have "(j', n) \<in> set xs" using find_name(2) [OF f] mem by simp
  moreover have "inj_on snd (set xs)" using assms(4) by (simp add: xs_def distinct_map)
  ultimately have "j' = j" using assms(5) by (force simp: inj_on_def xs_def)
  moreover have "m \<noteq> []" using jn by auto
  ultimately have "GenerateBundleId n (RestoreUidAndGid s) = (Some j, RestoreUidAndGid s)"
    using f by (simp add: GenerateBundleId_def m_def [symmetric] Let_def)
  moreover have "set (dm_multiUserIdsSet (RestoreUidAndGid s)) =
      {bu_userId (iu_bundleUserInfo u) |k i q u. (k, i) \<in> set (dm_bundleInfos s) \<and> (q, u) \<in> set (ib_innerBundleUserInfos i)}"
    unfolding RestoreUidAndGid_def restore_bundle_users by (force simp: assms(2))
  ultimately show ?thesis by blast
qed

definition stored_bundles :: data_mgr where
  "stored_bundles = (new_BundleDataMgr [] None)\<lparr>dm_bundleInfos :=
     [(''com.a'', new_InnerBundleInfo\<lparr>ib_innerBundleUserInfos := [(''com.a_100'', (sample_uid ''com.a'' 100)\<lparr>iu_uid := 20010044\<rparr>)]\<rparr>)]\<rparr>"

theorem ids_survive_restart_witness:
  "fst (GenerateBundleId ''com.a'' (RestoreUidAndGid stored_bundles)) = Some 10044"
proof -
  have "bundle_ids (map snd (dm_bundleInfos stored_bundles)) = [(10044, ''com.a'')]"
    by (simp add: stored_bundles_def bundle_ids_def uid_bundleId_def sample_uid_def BASE_USER_RANGE_def)
  with ids_survive_restart [of stored_bundles 10044 "''com.a''"] show ?thesis
    by (simp add: stored_bundles_def new_BundleDataMgr_def)
qed

section \<open>Recovery after a crash\<close>

definition interrupted :: "int \<Rightarrow> bool" where
  "interrupted status \<longleftrightarrow> status \<in> {INSTALL_START_mark, UPDATING_EXISTED_START_mark, UPDATING_NEW_START_mark,
     UPDATING_FINISH_mark, UNINSTALL_BUNDLE_START_mark, UNINSTALL_PACKAGE_START_mark}"

definition drops_bundle :: "inner_bundle_info \<Rightarrow> bool" where
  "drops_bundle i \<longleftrightarrow> mk_status (ib_mark i) = INSTALL_START_mark \<or>
     mk_status (ib_mark i) = UNINSTALL_BUNDLE_START_mark \<or>
     mk_status (ib_mark i) = UNINSTALL_PACKAGE_START_mark \<and> IsOnlyModule (mk_packageName (ib_mark i)) i"

lemma RemoveBundleAndDataDir_ok: "(\<And>c. fs c) \<Longrightarrow> fst (RemoveBundleAndDataDir fs a b v)"
  by (simp add: RemoveBundleAndDataDir_def Let_def)

lemma handle_invalid_drop:
  assumes "\<And>c. fs c" "drops_bundle i"
  shows "HandleInvalidBundle kv fs i store =
    (i, False, snd (DeleteStorageBundleInfo kv i store),
     snd (RemoveBundleAndDataDir fs (recovery_code_path i) (GetBundleName i) (ib_userId i)))"
  using assms by (auto simp: HandleInvalidBundle_def Let_def split_beta RemoveBundleAndDataDir_ok drops_bundle_def mark_defs)

lemma handle_invalid_repair:
  assumes "\<And>c. fs c" "interrupted (mk_status (ib_mark i))" "\<not> drops_bundle i"
  shows "\<exists>i' calls. HandleInvalidBundle kv fs i store = (i', True, store, calls) \<and>
    mk_status (ib_mark i') = INSTALL_FINISH_mark \<and> GetBundleName i' = GetBundleName i \<and>
    ib_sandboxPersistentInfo i' = ib_sandboxPersistentInfo i \<and>
    (mk_status (ib_mark i) = UNINSTALL_PACKAGE_START_mark \<longrightarrow> \<not> FindModule (mk_packageName (ib_mark i)) i')"
proof -
  have keep: "ib_sandboxPersistentInfo (RemoveModuleInfo p i) = ib_sandboxPersistentInfo i"
    "\<not> FindModule p (RemoveModuleInfo p i)" for p
    by (auto simp: RemoveModuleInfo_def FindModule_def Let_def split: option.splits prod.splits)
  have fin: "mk_status (ib_mark (SetBundleStatus st (finish_mark x))) = INSTALL_FINISH_mark"
    "mk_status (ib_mark (finish_mark x)) = INSTALL_FINISH_mark"
    "GetBundleName (finish_mark x) = GetBundleName x"
    "ib_sandboxPersistentInfo (SetBundleStatus st (finish_mark x)) = ib_sandboxPersistentInfo x"
    "ib_sandboxPersistentInfo (finish_mark x) = ib_sandboxPersistentInfo x"
    "FindModule p (SetBundleStatus st (finish_mark x)) = FindModule p x" for st x p
    by (simp_all add: SetBundleStatus_def finish_mark_def SetInstallMark_def GetBundleName_def FindModule_def)
  show ?thesis
    using assms unfolding interrupted_def drops_bundle_def HandleInvalidBundle_def
    by (auto simp: Let_def split_beta RemoveBundleAndDataDir_ok mark_defs fin keep)
qed

text \<open>
  Loading the bundles repairs an interrupted installation, update or removal, when the directory
  requests succeed: an interrupted installation, an interrupted removal of a bundle or of its only
  module leaves the bundle neither in memory nor in the store; any other interrupted change leaves
  the bundle in memory marked as finished, without the module that was being removed. This is for
  bundles without sandbox applications.
\<close>

theorem crash_recovery:
  assumes "decode text = Some i" "\<And>c. fs c" "interrupted (mk_status (ib_mark i))"
    and "ib_sandboxPersistentInfo i = []" "map_of infos (GetBundleName i) = None"
  shows "let (infos', _, store') = load_one kv_fine fs decode (infos, upd, store) (GetBundleName i, text)
    in if drops_bundle i then infos' = infos \<and> map_of store' (GetBundleName i) = None
       else store' = store \<and> (\<exists>i'. map_of infos' (GetBundleName i) = Some i' \<and>
         mk_status (ib_mark i') = INSTALL_FINISH_mark \<and>
         (mk_status (ib_mark i) = UNINSTALL_PACKAGE_START_mark \<longrightarrow> \<not> FindModule (mk_packageName (ib_mark i)) i'))"
proof (cases "drops_bundle i")
  case True
  have "map_of (snd (DeleteStorageBundleInfo kv_fine i store)) (GetBundleName i) = None"
    by (simp add: DeleteStorageBundleInfo_def delete_key_def kv_fine_def try_twice_def)
  then show ?thesis
    using True assms by (simp add: load_one_def handle_invalid_drop [where fs = fs, OF assms(2) True] RemoveSandboxApp_def)
next
  case False
  from handle_invalid_repair [where fs = fs, OF assms(2,3) False] obtain i' calls where
    h: "HandleInvalidBundle kv_fine fs i store = (i', True, store, calls)"
    and i': "mk_status (ib_mark i') = INSTALL_FINISH_mark" "GetBundleName i' = GetBundleName i"
      "ib_sandboxPersistentInfo i' = []"
      "mk_status (ib_mark i) = UNINSTALL_PACKAGE_START_mark \<longrightarrow> \<not> FindModule (mk_packageName (ib_mark i)) i'"
    using assms(4) by metis
  show ?thesis using False assms(1,5) i' by (simp add: load_one_def h RemoveSandboxApp_def)
qed

definition half_installed :: inner_bundle_info where
  "half_installed = SetInstallMark ''com.demo'' ''entry'' INSTALL_START_mark demo_info"

lemma half_installed_fields:
  "mk_status (ib_mark half_installed) = INSTALL_START_mark" "GetBundleName half_installed = ''com.demo''"
  "ib_sandboxPersistentInfo half_installed = []" "drops_bundle half_installed"
  by (simp_all add: half_installed_def SetInstallMark_def GetBundleName_def demo_info_def new_InnerBundleInfo_def
      drops_bundle_def)

theorem crash_recovery_witness:
  "map_of (snd (snd (load_one kv_fine (\<lambda>_. True) Some ([], [], [(''com.demo'', half_installed)]) (''com.demo'', half_installed))))
     ''com.demo'' = None"
  using crash_recovery [of Some half_installed half_installed "\<lambda>_. True" "[]" "[]" "[(''com.demo'', half_installed)]"]
  by (simp add: half_installed_fields interrupted_def Let_def split_beta)

text \<open>
  Recovery never asks for the code directory of the bundle it drops to be removed: the path it
  builds lacks the separator between the code root and the bundle name, so the directory that the
  installer created stays, while the bundle is dropped from memory and from the store.
\<close>

theorem recovery_misses_code_dir:
  assumes "\<And>c. fs c" "drops_bundle i"
  shows "case HandleInvalidBundle kv_fine fs i store of (_, valid, store', calls) \<Rightarrow>
    \<not> valid \<and> map_of store' (GetBundleName i) = None \<and>
    RemoveDir (installer_code_path (GetBundleName i)) \<notin> set calls"
proof -
  have "recovery_code_path i \<noteq> installer_code_path (GetBundleName i)"
    by (simp add: recovery_code_path_def installer_code_path_def)
  moreover have "map_of (snd (DeleteStorageBundleInfo kv_fine i store)) (GetBundleName i) = None"
    by (simp add: DeleteStorageBundleInfo_def delete_key_def kv_fine_def try_twice_def)
  ultimately show ?thesis
    by (simp add: handle_invalid_drop [where fs = fs, OF assms] RemoveBundleAndDataDir_def Let_def)
qed

theorem recovery_misses_code_dir_witness:
  "RemoveDir ''/data/app/el1/bundle/public/com.demo'' \<notin>
     set (snd (snd (snd (HandleInvalidBundle kv_fine (\<lambda>_. True) half_installed []))))"
  using recovery_misses_code_dir [of "\<lambda>_. True" half_installed "[]"]
  by (simp add: half_installed_fields installer_code_path_def BUNDLE_CODE_DIR_def split_beta)

text \<open>
  A bundle that recovery drops comes back into the store when it has sandbox applications: the
  sandbox handler runs on the dropped bundle and saves it again.
\<close>

theorem recovery_restores_dropped_bundle:
  assumes "decode text = Some i" "\<And>c. fs c" "drops_bundle i" "ib_sandboxPersistentInfo i \<noteq> []"
  shows "let (infos', _, store') = load_one kv_fine fs decode (infos, upd, store) (GetBundleName i, text)
    in infos' = infos \<and> map_of store' (GetBundleName i) = Some (i\<lparr>ib_sandboxPersistentInfo := []\<rparr>)"
proof -
  have "GetBundleName (i\<lparr>ib_sandboxPersistentInfo := []\<rparr>) = GetBundleName i" by (simp add: GetBundleName_def)
  then show ?thesis
    using assms(1,4) by (simp add: load_one_def handle_invalid_drop [where fs = fs, OF assms(2,3)] RemoveSandboxApp_def
        SaveStorageBundleInfo_def kv_fine_def try_twice_def Let_def)
qed

definition half_installed_sandbox :: inner_bundle_info where
  "half_installed_sandbox = half_installed\<lparr>ib_sandboxPersistentInfo := [new_SandboxAppPersistentInfo]\<rparr>"

theorem recovery_restores_dropped_bundle_witness:
  "map_of (snd (snd (load_one kv_fine (\<lambda>_. True) Some ([], [], []) (''com.demo'', half_installed_sandbox))))
     ''com.demo'' \<noteq> None"
proof -
  have f: "drops_bundle half_installed_sandbox" "GetBundleName half_installed_sandbox = ''com.demo''"
    "ib_sandboxPersistentInfo half_installed_sandbox \<noteq> []"
    by (simp_all add: half_installed_sandbox_def half_installed_def SetInstallMark_def GetBundleName_def
        demo_info_def drops_bundle_def)
  show ?thesis
    using recovery_restores_dropped_bundle [of Some half_installed_sandbox half_installed_sandbox "\<lambda>_. True" "[]" "[]" "[]"] f
    by (simp add: Let_def split_beta)
qed

end
