(* ===== verification/Json_Util.thy ===== *)
theory Json_Util
  imports Std_Map
begin

text \<open>
  JSON values and the reading functions of \<open>json_util.h\<close>. A value is what the JSON library holds in
  memory: an object is an ordered map (\<open>std::map\<close>). Numbers are integers, since nothing that is stored
  has a fraction. The text of a value and its parser are the library's.

  \<open>GetValueIfFindKey\<close> reports errors in a variable that is passed by reference. It is either a local
  variable of the function that reads a structure or the thread-local \<open>ProfileReader::parseResult\<close>, which
  outlives the call; both are part of the state of a reader. An exception of the library is \<open>None\<close>.
\<close>

section \<open>Values\<close>

datatype json =
    JNull | JBool bool | JNum int | JStr string | JArr "json list" | JObj "(string, json) smap"

text \<open>
  The initializer list of an object, which emplaces its pairs one by one, and assignments
  \<open>jsonObject[key] = value\<close>, which overwrite.
\<close>

definition json_object :: "(string \<times> json) list \<Rightarrow> json" where
  "json_object kvs = JObj (sm_emplace_all kvs [])"

definition json_assign_all :: "(string \<times> json) list \<Rightarrow> json" where
  "json_assign_all kvs = JObj (foldl (\<lambda>m (k, v). sm_assign k v m) [] kvs)"

definition obj_find :: "json \<Rightarrow> string \<Rightarrow> json option" where
  "obj_find j key = (case j of JObj m \<Rightarrow> map_of m key | _ \<Rightarrow> None)"

definition json_list :: "('v \<Rightarrow> json) \<Rightarrow> 'v list \<Rightarrow> json" where
  "json_list enc vs = JArr (map enc vs)"

definition json_map :: "('v \<Rightarrow> json) \<Rightarrow> (string, 'v) smap \<Rightarrow> json" where
  "json_map enc m = JObj (map (\<lambda>(k, v). (k, enc v)) m)"

definition json_u32 :: "u32 \<Rightarrow> json" where
  "json_u32 w = JNum (uint w)"

text \<open>An enumeration is written as the number of its enumerator.\<close>

definition enum_value :: "('e \<times> int) list \<Rightarrow> 'e \<Rightarrow> int" where
  "enum_value tbl e = (case map_of tbl e of Some n \<Rightarrow> n | None \<Rightarrow> 0)"

definition enum_of :: "('e \<times> int) list \<Rightarrow> int \<Rightarrow> 'e option" where
  "enum_of tbl n = map_of (map (\<lambda>(e, k). (k, e)) tbl) n"

section \<open>Conversions\<close>

datatype parse_result = pr_OK | PROP_TYPE_ERROR | MISSING_PROP

text \<open>
  \<open>get<T>()\<close> reads a value into a new object. It takes and returns the thread-local result, which a
  nested \<open>from_json\<close> may set. A number outside the range of the type wraps around. A number that is no
  enumerator has no counterpart in the datatype of the enumeration and is \<open>None\<close>, too.
\<close>

type_synonym 'v getter = "json \<Rightarrow> parse_result \<Rightarrow> ('v \<times> parse_result) option"

definition get_bool :: "bool getter" where
  "get_bool j g = (case j of JBool b \<Rightarrow> Some (b, g) | _ \<Rightarrow> None)"

definition get_string :: "string getter" where
  "get_string j g = (case j of JStr s \<Rightarrow> Some (s, g) | _ \<Rightarrow> None)"

definition get_number :: "(int \<Rightarrow> 'v) \<Rightarrow> 'v getter" where
  "get_number conv j g =
     (case j of JNum n \<Rightarrow> Some (conv n, g) | JBool b \<Rightarrow> Some (conv (of_bool b), g) | _ \<Rightarrow> None)"

definition get_int32 :: "int getter" where
  "get_int32 = get_number (signed_take_bit 31)"

definition get_int64 :: "int getter" where
  "get_int64 = get_number (signed_take_bit 63)"

definition get_uint32 :: "u32 getter" where
  "get_uint32 = get_number word_of_int"

definition get_enum :: "('e \<times> int) list \<Rightarrow> 'e getter" where
  "get_enum tbl j g = (case j of JNum n \<Rightarrow> map_option (\<lambda>e. (e, g)) (enum_of tbl n) | _ \<Rightarrow> None)"

fun get_elements :: "'v getter \<Rightarrow> json list \<Rightarrow> parse_result \<Rightarrow> ('v list \<times> parse_result) option" where
  "get_elements get [] g = Some ([], g)"
| "get_elements get (j # js) g =
     (case get j g of
        None \<Rightarrow> None
      | Some (v, g1) \<Rightarrow>
          (case get_elements get js g1 of
             None \<Rightarrow> None
           | Some (vs, g2) \<Rightarrow> Some (v # vs, g2)))"

definition get_vector :: "'v getter \<Rightarrow> 'v list getter" where
  "get_vector get j g = (case j of JArr js \<Rightarrow> get_elements get js g | _ \<Rightarrow> None)"

definition get_map :: "'v getter \<Rightarrow> (string, 'v) smap getter" where
  "get_map get j g =
     (case j of
        JObj m \<Rightarrow> map_option (\<lambda>(vs, g1). (sm_emplace_all (zip (map fst m) vs) [], g1)) (get_elements get (map snd m) g)
      | _ \<Rightarrow> None)"

section \<open>Reading a member\<close>

datatype json_type = JT_NULLABLE | JT_BOOLEAN | JT_NUMBER | JT_OBJECT | JT_ARRAY | JT_STRING
datatype array_type = AT_NUMBER | AT_OBJECT | AT_STRING | AT_NOT_ARRAY

fun has_type :: "json_type \<Rightarrow> json \<Rightarrow> bool" where
  "has_type JT_BOOLEAN (JBool _) = True"
| "has_type JT_NUMBER (JNum _) = True"
| "has_type JT_OBJECT (JObj _) = True"
| "has_type JT_ARRAY (JArr _) = True"
| "has_type JT_STRING (JStr _) = True"
| "has_type _ _ = False"

fun element_type :: "array_type \<Rightarrow> json_type" where
  "element_type AT_NUMBER = JT_NUMBER"
| "element_type AT_OBJECT = JT_OBJECT"
| "element_type AT_STRING = JT_STRING"
| "element_type AT_NOT_ARRAY = JT_NULLABLE"

text \<open>The variable that a call reports to, and the two variables.\<close>

datatype result_var = Local | Global

record parse_state =
  ps_local :: parse_result
  ps_global :: parse_result

definition result_of :: "result_var \<Rightarrow> parse_state \<Rightarrow> parse_result" where
  "result_of w st = (case w of Local \<Rightarrow> ps_local st | Global \<Rightarrow> ps_global st)"

definition set_result :: "result_var \<Rightarrow> parse_result \<Rightarrow> parse_state \<Rightarrow> parse_state" where
  "set_result w r st = (case w of Local \<Rightarrow> st\<lparr>ps_local := r\<rparr> | Global \<Rightarrow> st\<lparr>ps_global := r\<rparr>)"

text \<open>
  The value is \<open>None\<close> when the member is left as it is: for an empty array, for one with an element of
  the wrong type, and for an array where none is expected.
\<close>

definition CheckArrayType ::
  "result_var \<Rightarrow> array_type \<Rightarrow> 'v getter \<Rightarrow> json list \<Rightarrow> parse_state \<Rightarrow> ('v option \<times> parse_state) option" where
  "CheckArrayType w arrayType get arrays st =
     (if arrays = [] \<or> arrayType = AT_NOT_ARRAY then Some (None, st)
      else
        (let st1 = (if list_all (has_type (element_type arrayType)) arrays then st else set_result w PROP_TYPE_ERROR st)
         in if result_of w st1 = pr_OK
            then map_option (\<lambda>(v, g). (Some v, st1\<lparr>ps_global := g\<rparr>)) (get (JArr arrays) (ps_global st1))
            else Some (None, st1)))"

text \<open>\<open>upd\<close> changes the member of the structure; the result is the structure and the variables.\<close>

type_synonym 'r step = "json \<Rightarrow> 'r \<times> parse_state \<Rightarrow> ('r \<times> parse_state) option"

definition GetValueIfFindKey ::
  "'v getter \<Rightarrow> string \<Rightarrow> (('v \<Rightarrow> 'v) \<Rightarrow> 'r \<Rightarrow> 'r) \<Rightarrow> json_type \<Rightarrow> bool \<Rightarrow> result_var \<Rightarrow> array_type \<Rightarrow> 'r step" where
  "GetValueIfFindKey get key upd jsonType isNecessary w arrayType j rst =
     (let (r, st) = rst in
      if result_of w st \<noteq> pr_OK then Some (r, st)
      else (case obj_find j key of
              None \<Rightarrow> Some (r, if isNecessary then set_result w MISSING_PROP st else st)
            | Some v \<Rightarrow>
                if jsonType = JT_NULLABLE then Some (r, st)
                else if \<not> has_type jsonType v then Some (r, set_result w PROP_TYPE_ERROR st)
                else (case (jsonType, v) of
                        (JT_ARRAY, JArr arrays) \<Rightarrow>
                          map_option (\<lambda>(x, st1). (upd (\<lambda>old. case x of None \<Rightarrow> old | Some y \<Rightarrow> y) r, st1))
                            (CheckArrayType w arrayType get arrays st)
                      | _ \<Rightarrow> map_option (\<lambda>(x, g). (upd (\<lambda>_. x) r, st\<lparr>ps_global := g\<rparr>)) (get v (ps_global st)))))"

text \<open>The other style: \<open>jsonObject.at(key).get<T>()\<close>, which throws when there is no such member.\<close>

definition at_get :: "'v getter \<Rightarrow> string \<Rightarrow> (('v \<Rightarrow> 'v) \<Rightarrow> 'r \<Rightarrow> 'r) \<Rightarrow> 'r step" where
  "at_get get key upd j rst =
     (case obj_find j key of
        None \<Rightarrow> None
      | Some v \<Rightarrow> map_option (\<lambda>(x, g). (upd (\<lambda>_. x) (fst rst), (snd rst)\<lparr>ps_global := g\<rparr>)) (get v (ps_global (snd rst))))"

fun run_steps :: "'r step list \<Rightarrow> 'r step" where
  "run_steps [] j rst = Some rst"
| "run_steps (f # fs) j rst = (case f j rst of None \<Rightarrow> None | Some rst1 \<Rightarrow> run_steps fs j rst1)"

text \<open>A \<open>from_json\<close> function: a new object and a new local result.\<close>

definition from_json :: "'r \<Rightarrow> 'r step list \<Rightarrow> 'r getter" where
  "from_json new steps j g =
     map_option (\<lambda>(r, st). (r, ps_global st)) (run_steps steps j (new, \<lparr>ps_local = pr_OK, ps_global = g\<rparr>))"

text \<open>The calls that the structures use.\<close>

definition read_string :: "string \<Rightarrow> ((string \<Rightarrow> string) \<Rightarrow> 'r \<Rightarrow> 'r) \<Rightarrow> bool \<Rightarrow> result_var \<Rightarrow> 'r step" where
  "read_string key upd nec w = GetValueIfFindKey get_string key upd JT_STRING nec w AT_NOT_ARRAY"

definition read_bool :: "string \<Rightarrow> ((bool \<Rightarrow> bool) \<Rightarrow> 'r \<Rightarrow> 'r) \<Rightarrow> bool \<Rightarrow> result_var \<Rightarrow> 'r step" where
  "read_bool key upd nec w = GetValueIfFindKey get_bool key upd JT_BOOLEAN nec w AT_NOT_ARRAY"

definition read_number :: "'v getter \<Rightarrow> string \<Rightarrow> (('v \<Rightarrow> 'v) \<Rightarrow> 'r \<Rightarrow> 'r) \<Rightarrow> bool \<Rightarrow> result_var \<Rightarrow> 'r step" where
  "read_number get key upd nec w = GetValueIfFindKey get key upd JT_NUMBER nec w AT_NOT_ARRAY"

definition read_object :: "'v getter \<Rightarrow> string \<Rightarrow> (('v \<Rightarrow> 'v) \<Rightarrow> 'r \<Rightarrow> 'r) \<Rightarrow> bool \<Rightarrow> result_var \<Rightarrow> 'r step" where
  "read_object get key upd nec w = GetValueIfFindKey get key upd JT_OBJECT nec w AT_NOT_ARRAY"

definition read_array ::
  "'v getter \<Rightarrow> array_type \<Rightarrow> string \<Rightarrow> (('v list \<Rightarrow> 'v list) \<Rightarrow> 'r \<Rightarrow> 'r) \<Rightarrow> bool \<Rightarrow> result_var \<Rightarrow> 'r step" where
  "read_array get arrayType key upd nec w = GetValueIfFindKey (get_vector get) key upd JT_ARRAY nec w arrayType"

end
