(* ===== verification/Json_Laws.thy ===== *)
theory Json_Laws
  imports Json_Util
begin

text \<open>
  What reading gives back of what was written. The locale \<open>json_coding\<close> is the contract of a writer and
  a reader: reading the value written for \<open>v\<close> succeeds without an error and gives \<open>kept v\<close>, which is \<open>v\<close>
  without the members that are not stored. Vectors and maps of such values keep the contract; it is
  interpreted for every stored structure.
\<close>

named_theorems json_read \<open>what a reader gives for a value that was written\<close>

section \<open>Objects\<close>

lemma obj_find_object [simp]: "obj_find (json_object kvs) key = map_of kvs key"
proof -
  have "map_of (foldl (\<lambda>m (k, v). sm_emplace k v m) m kvs) key =
      (case map_of m key of None \<Rightarrow> map_of kvs key | Some v \<Rightarrow> Some v)" for m
    by (induction kvs arbitrary: m) (auto split: option.splits)
  then show ?thesis by (simp add: obj_find_def json_object_def sm_emplace_all_def)
qed

lemma obj_find_assign [simp]: "obj_find (json_assign_all kvs) key = map_of (rev kvs) key"
proof -
  have "map_of (foldl (\<lambda>m (k, v). sm_assign k v m) m kvs) key =
      (case map_of (rev kvs) key of None \<Rightarrow> map_of m key | Some v \<Rightarrow> Some v)" for m
    by (induction kvs arbitrary: m) (auto simp: map_of_append map_add_def split: option.splits)
  then show ?thesis by (simp add: obj_find_def json_assign_all_def split: option.splits)
qed

lemma find_in_object: "j = json_object kvs \<Longrightarrow> obj_find j key = map_of kvs key"
  by simp

lemma find_in_assign: "j = json_assign_all kvs \<Longrightarrow> obj_find j key = map_of (rev kvs) key"
  by simp

text \<open>Looking up a literal key in a literal list, without the general list simplification.\<close>

lemma map_of_hit [json_read]: "map_of ((k, v) # kvs) k = Some v"
  by simp

lemma map_of_miss [json_read]: "k \<noteq> key \<Longrightarrow> map_of ((k, v) # kvs) key = map_of kvs key"
  by simp

lemma map_of_end [json_read]: "map_of [] key = None"
  by simp

lemmas literal_neq [json_read] = list.inject list.distinct char.inject simp_thms

lemma has_type_object [simp, json_read]: "has_type JT_OBJECT (json_object kvs)" "has_type JT_OBJECT (json_map enc m)"
  by (simp_all add: json_object_def json_map_def)

lemma has_type_assign: "has_type JT_OBJECT (json_assign_all kvs)"
  by (simp add: json_assign_all_def)

section \<open>Numbers\<close>

definition int32 :: "int \<Rightarrow> bool" where
  "int32 n \<longleftrightarrow> - (2 ^ 31) \<le> n \<and> n < 2 ^ 31"

definition int64 :: "int \<Rightarrow> bool" where
  "int64 n \<longleftrightarrow> - (2 ^ 63) \<le> n \<and> n < 2 ^ 63"

lemma get_string_str [simp, json_read]: "get_string (JStr s) g = Some (s, g)"
  by (simp add: get_string_def)

lemma get_bool_bool [simp, json_read]: "get_bool (JBool b) g = Some (b, g)"
  by (simp add: get_bool_def)

lemma get_int32_num [simp, json_read]: "int32 n \<Longrightarrow> get_int32 (JNum n) g = Some (n, g)"
  by (simp add: get_int32_def get_number_def int32_def signed_take_bit_int_eq_self)

lemma get_int64_num [simp, json_read]: "int64 n \<Longrightarrow> get_int64 (JNum n) g = Some (n, g)"
  by (simp add: get_int64_def get_number_def int64_def signed_take_bit_int_eq_self)

lemma get_uint32_num [simp, json_read]: "get_uint32 (JNum (uint w)) g = Some (w, g)"
  by (simp add: get_uint32_def get_number_def)

lemma get_enum_num:
  "enum_of tbl (enum_value tbl e) = Some e \<Longrightarrow> get_enum tbl (JNum (enum_value tbl e)) g = Some (e, g)"
  by (simp add: get_enum_def)

section \<open>Maps\<close>

lemma sm_emplace_last: "sm_inv (m @ [(k, v)]) \<Longrightarrow> sm_emplace k v m = m @ [(k, v)]"
proof (induction m)
  case Nil
  then show ?case by (simp add: sm_emplace_def)
next
  case (Cons p m)
  then have "fst p < k" "sm_inv (m @ [(k, v)])" by (auto simp: sm_inv_def)
  moreover have "map_of m k = None" using Cons.prems by (auto simp: sm_inv_def sorted_wrt_append map_of_eq_None_iff)
  ultimately show ?case using Cons.IH by (cases p) (auto simp: sm_emplace_def)
qed

lemma emplace_sorted: "sm_inv (acc @ m) \<Longrightarrow> sm_emplace_all m acc = acc @ m"
proof (induction m arbitrary: acc)
  case Nil
  then show ?case by (simp add: sm_emplace_all_def)
next
  case (Cons p m)
  obtain k v where p: "p = (k, v)" by (cases p)
  have "sm_inv (acc @ [(k, v)])" using Cons.prems by (auto simp: p sm_inv_def sorted_wrt_append)
  then have "sm_emplace k v acc = acc @ [p]" by (simp add: sm_emplace_last p)
  then show ?case using Cons.IH [of "acc @ [p]"] Cons.prems by (simp add: p sm_emplace_all_def)
qed

definition json_wf_map :: "('v \<Rightarrow> bool) \<Rightarrow> (string, 'v) smap \<Rightarrow> bool" where
  "json_wf_map ok m \<longleftrightarrow> sm_inv m \<and> list_all ok (map snd m)"

lemma json_wf_map_True [simp, json_read]:
  "json_wf_map (\<lambda>_. True) m = sm_inv m" "json_wf_map (list_all (\<lambda>_. True)) m = sm_inv m"
  by (simp_all add: json_wf_map_def list_all_iff)

section \<open>Reading a member that was written\<close>

abbreviation no_error :: parse_state where
  "no_error \<equiv> \<lparr>ps_local = pr_OK, ps_global = pr_OK\<rparr>"

lemma result_no_error [simp]: "result_of w no_error = pr_OK"
  by (cases w) (simp_all add: result_of_def)

lemma read_string_ok [simp, json_read]:
  "obj_find j key = Some (JStr s) \<Longrightarrow> read_string key upd nec w j (r, no_error) = Some (upd (\<lambda>_. s) r, no_error)"
  by (simp add: read_string_def GetValueIfFindKey_def get_string_def)

lemma read_bool_ok [simp, json_read]:
  "obj_find j key = Some (JBool b) \<Longrightarrow> read_bool key upd nec w j (r, no_error) = Some (upd (\<lambda>_. b) r, no_error)"
  by (simp add: read_bool_def GetValueIfFindKey_def get_bool_def)

lemma read_number_ok [simp, json_read]:
  "obj_find j key = Some (JNum n) \<Longrightarrow> get (JNum n) pr_OK = Some (v, pr_OK) \<Longrightarrow>
     read_number get key upd nec w j (r, no_error) = Some (upd (\<lambda>_. v) r, no_error)"
  by (simp add: read_number_def GetValueIfFindKey_def)

lemma read_object_ok [simp, json_read]:
  "obj_find j key = Some v \<Longrightarrow> has_type JT_OBJECT v \<Longrightarrow> get v pr_OK = Some (x, pr_OK) \<Longrightarrow>
     read_object get key upd nec w j (r, no_error) = Some (upd (\<lambda>_. x) r, no_error)"
  by (simp add: read_object_def GetValueIfFindKey_def)

lemma read_absent [simp, json_read]:
  "obj_find j key = None \<Longrightarrow> read_number get key upd False w j (r, no_error) = Some (r, no_error)"
  by (simp add: read_number_def GetValueIfFindKey_def)

lemma read_string_absent [simp, json_read]:
  "obj_find j key = None \<Longrightarrow> read_string key upd False w j (r, no_error) = Some (r, no_error)"
  by (simp add: read_string_def GetValueIfFindKey_def)

lemma read_array_absent [simp, json_read]:
  "obj_find j key = None \<Longrightarrow> read_array get at key upd False w j (r, no_error) = Some (r, no_error)"
  by (simp add: read_array_def GetValueIfFindKey_def)

text \<open>An empty array leaves the member as it is.\<close>

definition or_old :: "'v list \<Rightarrow> 'v list \<Rightarrow> 'v list" where
  "or_old vs old = (if vs = [] then old else vs)"

lemma or_old_Nil [simp, json_read]: "or_old vs [] = vs"
  by (simp add: or_old_def)

lemma list_all_True [simp, json_read]: "list_all (\<lambda>_. True) vs"
  by (simp add: list_all_iff)

lemma read_array_ok:
  assumes "obj_find j key = Some (json_list enc vs)" "get_vector get (json_list enc vs) pr_OK = Some (vs', pr_OK)"
    and "list_all (\<lambda>v. has_type (element_type at) (enc v)) vs"
  shows "read_array get at key upd nec w j (r, no_error) = Some (upd (\<lambda>old. if vs = [] then old else vs') r, no_error)"
proof -
  have "vs = []" if "at = AT_NOT_ARRAY" using assms(3) that by (cases vs) auto
  then show ?thesis using assms
    by (auto simp: read_array_def GetValueIfFindKey_def json_list_def CheckArrayType_def list_all_iff Let_def)
qed

lemma at_get_ok [simp, json_read]:
  "obj_find j key = Some v \<Longrightarrow> get v pr_OK = Some (x, pr_OK) \<Longrightarrow>
     at_get get key upd j (r, no_error) = Some (upd (\<lambda>_. x) r, no_error)"
  by (simp add: at_get_def)

lemma run_steps_append [simp, json_read]:
  "run_steps (fs @ gs) j rst = (case run_steps fs j rst of None \<Rightarrow> None | Some rst1 \<Rightarrow> run_steps gs j rst1)"
  by (induction fs j rst rule: run_steps.induct) (auto split: option.splits)

lemmas steps_done [json_read] = rev.simps append.simps run_steps.simps option.case option.map prod.case

lemma from_json_result [json_read]:
  "run_steps steps j (new, no_error) = Some (r, no_error) \<Longrightarrow> from_json new steps j pr_OK = Some (r, pr_OK)"
  by (simp add: from_json_def)

section \<open>The contract of a writer and a reader\<close>

locale json_coding =
  fixes enc :: "'v \<Rightarrow> json" and get :: "'v getter" and wf :: "'v \<Rightarrow> bool" and kept :: "'v \<Rightarrow> 'v"
  assumes reads: "wf v \<Longrightarrow> get (enc v) pr_OK = Some (kept v, pr_OK)"
begin

lemma elements: "list_all wf vs \<Longrightarrow> get_elements get (map enc vs) pr_OK = Some (map kept vs, pr_OK)"
  by (induction vs) (auto simp: reads)

lemma reads_vector: "list_all wf vs \<Longrightarrow> get_vector get (json_list enc vs) pr_OK = Some (map kept vs, pr_OK)"
  by (simp add: get_vector_def json_list_def elements)

lemma vector_coding: "json_coding (json_list enc) (get_vector get) (list_all wf) (map kept)"
  by unfold_locales (rule reads_vector)

lemma read_vector_ok:
  assumes "obj_find j key = Some (json_list enc vs)" "list_all wf vs" "\<And>v. has_type (element_type at) (enc v)"
  shows "read_array get at key upd nec w j (r, no_error) = Some (upd (or_old (map kept vs)) r, no_error)"
proof -
  have "(\<lambda>old. if vs = [] then old else map kept vs) = or_old (map kept vs)" by (auto simp: or_old_def)
  then show ?thesis
    using assms read_array_ok [of j key enc vs get "map kept vs" at] by (simp add: reads_vector list_all_iff)
qed

lemma reads_map:
  assumes "json_wf_map wf m"
  shows "get_map get (json_map enc m) pr_OK = Some (map (\<lambda>(k, v). (k, kept v)) m, pr_OK)"
proof -
  have "get_elements get (map (snd \<circ> (\<lambda>(k, v). (k, enc v))) m) pr_OK = Some (map kept (map snd m), pr_OK)"
    using elements [of "map snd m"] assms by (simp add: json_wf_map_def comp_def case_prod_beta)
  moreover have "zip (map (fst \<circ> (\<lambda>(k, v). (k, enc v))) m) (map kept (map snd m)) = map (\<lambda>(k, v). (k, kept v)) m"
    by (induction m) auto
  moreover have "sm_inv (map (\<lambda>(k, v). (k, kept v)) m)" using assms by (simp add: json_wf_map_def sm_inv_def comp_def case_prod_beta)
  ultimately show ?thesis by (simp add: get_map_def json_map_def emplace_sorted [of "[]", simplified])
qed

lemma reads_vector_map:
  assumes "json_wf_map (list_all wf) m"
  shows "get_map (get_vector get) (json_map (json_list enc) m) pr_OK = Some (map (\<lambda>(k, vs). (k, map kept vs)) m, pr_OK)"
  using assms by (rule json_coding.reads_map [OF vector_coding])

end

text \<open>Values that are written and read directly.\<close>

interpretation js: json_coding JStr get_string "\<lambda>_. True" "\<lambda>s. s"
  by unfold_locales (simp add: get_string_def)

interpretation jb: json_coding JBool get_bool "\<lambda>_. True" "\<lambda>b. b"
  by unfold_locales (simp add: get_bool_def)

interpretation ji: json_coding JNum get_int32 int32 "\<lambda>n. n"
  by unfold_locales simp

lemmas read_strings_ok [simp, json_read] = js.read_vector_ok [where at = AT_STRING, simplified] js.reads_vector [simplified]
lemmas read_ints_ok [simp, json_read] = ji.read_vector_ok [where at = AT_NUMBER, simplified] ji.reads_vector [simplified]
lemmas reads_string_map [simp, json_read] = js.reads_map [simplified] js.reads_vector_map [simplified]

lemma reads_bool_map [simp, json_read]:
  "sm_inv m \<Longrightarrow> get_map get_bool (json_map JBool m) pr_OK = Some (m, pr_OK)"
  using jb.reads_map [of m] by (simp add: json_wf_map_def list_all_iff)

end
