(* ===== verification/Json_Pack.thy ===== *)
theory Json_Pack
  imports Json_Laws Bundle_Types
begin

text \<open>
  \<open>bundle_pack_info.cpp\<close>: the pack information of a bundle (\<open>pack.info\<close>) as JSON, and the round trips of
  its structures.
\<close>

section \<open>Writing and reading\<close>

definition Version_to_json :: "pack_version \<Rightarrow> json" where
  "Version_to_json x = json_object [
     (''code'', json_u32 (ver_code x)),
     (''name'', JStr (ver_name x)),
     (''minCompatibleVersionCode'', json_u32 (ver_minCompatibleVersionCode x))]"

definition Version_from_json :: "pack_version getter" where
  "Version_from_json = from_json new_Version [
     read_number get_uint32 ''code'' ver_code_update False Local,
     read_string ''name'' ver_name_update False Local,
     read_number get_uint32 ''minCompatibleVersionCode'' ver_minCompatibleVersionCode_update False Local]"

definition PackageApp_to_json :: "package_app \<Rightarrow> json" where
  "PackageApp_to_json x = json_object [
     (''bundleName'', JStr (pa_bundleName x)),
     (''version'', Version_to_json (pa_version x))]"

definition PackageApp_from_json :: "package_app getter" where
  "PackageApp_from_json = from_json new_PackageApp [
     read_string ''bundleName'' pa_bundleName_update False Local,
     read_object Version_from_json ''version'' pa_version_update False Local]"

definition AbilityFormInfo_to_json :: "ability_form_info \<Rightarrow> json" where
  "AbilityFormInfo_to_json x = json_object [
     (''name'', JStr (afi_name x)),
     (''type'', JStr (afi_type x)),
     (''updateEnabled'', JBool (afi_updateEnabled x)),
     (''scheduledUpdateTime'', JStr (afi_scheduledUpdateTime x)),
     (''updateDuration'', json_u32 (afi_updateDuration x)),
     (''supportDimensions'', json_list JStr (afi_supportDimensions x)),
     (''defaultDimension'', JStr (afi_defaultDimension x))]"

definition AbilityFormInfo_from_json :: "ability_form_info getter" where
  "AbilityFormInfo_from_json = from_json new_AbilityFormInfo [
     read_string ''name'' afi_name_update False Local,
     read_string ''type'' afi_type_update False Local,
     read_bool ''updateEnabled'' afi_updateEnabled_update False Local,
     read_string ''scheduledUpdateTime'' afi_scheduledUpdateTime_update False Local,
     read_number get_uint32 ''updateDuration'' afi_updateDuration_update False Local,
     read_array get_string AT_STRING ''supportDimensions'' afi_supportDimensions_update False Local,
     read_string ''defaultDimension'' afi_defaultDimension_update False Local]"

definition ExtensionAbilities_to_json :: "extension_abilities \<Rightarrow> json" where
  "ExtensionAbilities_to_json x = json_object [
     (''name'', JStr (ea_name x)),
     (''forms'', json_list AbilityFormInfo_to_json (ea_forms x))]"

definition ExtensionAbilities_from_json :: "extension_abilities getter" where
  "ExtensionAbilities_from_json = from_json new_ExtensionAbilities [
     read_string ''name'' ea_name_update False Local,
     read_array AbilityFormInfo_from_json AT_OBJECT ''forms'' ea_forms_update False Local]"

definition ModuleAbilityInfo_to_json :: "module_ability_info \<Rightarrow> json" where
  "ModuleAbilityInfo_to_json x = json_object [
     (''name'', JStr (mai_name x)),
     (''label'', JStr (mai_label x)),
     (''visible'', JBool (mai_visible x)),
     (''forms'', json_list AbilityFormInfo_to_json (mai_forms x))]"

definition ModuleAbilityInfo_from_json :: "module_ability_info getter" where
  "ModuleAbilityInfo_from_json = from_json new_ModuleAbilityInfo [
     read_string ''name'' mai_name_update False Local,
     read_string ''label'' mai_label_update False Local,
     read_bool ''visible'' mai_visible_update False Local,
     read_array AbilityFormInfo_from_json AT_OBJECT ''forms'' mai_forms_update False Local]"

definition ModuleDistro_to_json :: "module_distro \<Rightarrow> json" where
  "ModuleDistro_to_json x = json_object [
     (''moduleType'', JStr (mdi_moduleType x)),
     (''moduleName'', JStr (mdi_moduleName x)),
     (''installationFree'', JBool (mdi_installationFree x)),
     (''deliveryWithInstall'', JBool (mdi_deliveryWithInstall x))]"

definition ModuleDistro_from_json :: "module_distro getter" where
  "ModuleDistro_from_json = from_json new_ModuleDistro [
     read_string ''moduleType'' mdi_moduleType_update False Local,
     read_string ''moduleName'' mdi_moduleName_update False Local,
     read_bool ''installationFree'' mdi_installationFree_update False Local,
     read_bool ''deliveryWithInstall'' mdi_deliveryWithInstall_update False Local]"

definition ApiVersion_to_json :: "api_version \<Rightarrow> json" where
  "ApiVersion_to_json x = json_object [
     (''compatible'', json_u32 (av_compatible x)),
     (''releaseType'', JStr (av_releaseType x)),
     (''target'', json_u32 (av_target x))]"

definition ApiVersion_from_json :: "api_version getter" where
  "ApiVersion_from_json = from_json new_ApiVersion [
     read_number get_uint32 ''compatible'' av_compatible_update False Local,
     read_string ''releaseType'' av_releaseType_update False Local,
     read_number get_uint32 ''target'' av_target_update False Local]"

definition PackageModule_to_json :: "package_module \<Rightarrow> json" where
  "PackageModule_to_json x = json_object [
     (''mainAbility'', JStr (pm_mainAbility x)),
     (''deviceType'', json_list JStr (pm_deviceType x)),
     (''abilities'', json_list ModuleAbilityInfo_to_json (pm_abilities x)),
     (''extensionAbilities'', json_list ExtensionAbilities_to_json (pm_extensionAbilities x)),
     (''distro'', ModuleDistro_to_json (pm_distro x)),
     (''apiVersion'', ApiVersion_to_json (pm_apiVersion x))]"

definition PackageModule_from_json :: "package_module getter" where
  "PackageModule_from_json = from_json new_PackageModule [
     read_string ''mainAbility'' pm_mainAbility_update False Local,
     read_array get_string AT_STRING ''deviceType'' pm_deviceType_update False Local,
     read_array ModuleAbilityInfo_from_json AT_OBJECT ''abilities'' pm_abilities_update False Local,
     read_array ExtensionAbilities_from_json AT_OBJECT ''extensionAbilities'' pm_extensionAbilities_update False Local,
     read_object ModuleDistro_from_json ''distro'' pm_distro_update False Local,
     read_object ApiVersion_from_json ''apiVersion'' pm_apiVersion_update False Local]"

definition Summary_to_json :: "pack_summary \<Rightarrow> json" where
  "Summary_to_json x = json_object [
     (''app'', PackageApp_to_json (sum_app x)),
     (''modules'', json_list PackageModule_to_json (sum_modules x))]"

definition Summary_from_json :: "pack_summary getter" where
  "Summary_from_json = from_json new_Summary [
     read_object PackageApp_from_json ''app'' sum_app_update False Local,
     read_array PackageModule_from_json AT_OBJECT ''modules'' sum_modules_update False Local]"

definition Packages_to_json :: "pack_packages \<Rightarrow> json" where
  "Packages_to_json x = json_object [
     (''deviceType'', json_list JStr (pkg_deviceType x)),
     (''moduleType'', JStr (pkg_moduleType x)),
     (''deliveryWithInstall'', JBool (pkg_deliveryWithInstall x)),
     (''name'', JStr (pkg_name x))]"

definition Packages_from_json :: "pack_packages getter" where
  "Packages_from_json = from_json new_Packages [
     read_array get_string AT_STRING ''deviceType'' pkg_deviceType_update False Local,
     read_string ''moduleType'' pkg_moduleType_update False Local,
     read_bool ''deliveryWithInstall'' pkg_deliveryWithInstall_update False Local,
     read_string ''name'' pkg_name_update False Local]"

definition BundlePackInfo_to_json :: "bundle_pack_info \<Rightarrow> json" where
  "BundlePackInfo_to_json x = json_object [
     (''summary'', Summary_to_json (bp_summary x)),
     (''packages'', json_list Packages_to_json (bp_packages x))]"

definition BundlePackInfo_from_json :: "bundle_pack_info getter" where
  "BundlePackInfo_from_json = from_json new_BundlePackInfo [
     read_object Summary_from_json ''summary'' bp_summary_update False Local,
     read_array Packages_from_json AT_OBJECT ''packages'' bp_packages_update False Local]"

section \<open>Round trips\<close>

lemma Version_object [simp, json_read]: "has_type JT_OBJECT (Version_to_json x)"
  by (simp add: Version_to_json_def )

lemma Version_reads [json_read]: "Version_from_json (Version_to_json x) pr_OK = Some (x, pr_OK)"
  unfolding Version_from_json_def new_Version_def
  by (rule from_json_result, simp only: Version_to_json_def [THEN find_in_object] json_u32_def json_read) simp

interpretation c_Version: json_coding Version_to_json Version_from_json "\<lambda>_. True" "\<lambda>x. x"
  by unfold_locales (simp only: Version_reads)

lemmas Version_parts [json_read] =
  c_Version.read_vector_ok [where at = AT_OBJECT, simplified] c_Version.reads_vector [simplified]
  c_Version.reads_map [simplified] c_Version.reads_vector_map [simplified]

lemma PackageApp_object [simp, json_read]: "has_type JT_OBJECT (PackageApp_to_json x)"
  by (simp add: PackageApp_to_json_def )

lemma PackageApp_reads [json_read]: "PackageApp_from_json (PackageApp_to_json x) pr_OK = Some (x, pr_OK)"
  unfolding PackageApp_from_json_def new_PackageApp_def
  by (rule from_json_result, simp only: PackageApp_to_json_def [THEN find_in_object] json_read) simp

interpretation c_PackageApp: json_coding PackageApp_to_json PackageApp_from_json "\<lambda>_. True" "\<lambda>x. x"
  by unfold_locales (simp only: PackageApp_reads)

lemmas PackageApp_parts [json_read] =
  c_PackageApp.read_vector_ok [where at = AT_OBJECT, simplified] c_PackageApp.reads_vector [simplified]
  c_PackageApp.reads_map [simplified] c_PackageApp.reads_vector_map [simplified]

lemma AbilityFormInfo_object [simp, json_read]: "has_type JT_OBJECT (AbilityFormInfo_to_json x)"
  by (simp add: AbilityFormInfo_to_json_def )

lemma AbilityFormInfo_reads [json_read]: "AbilityFormInfo_from_json (AbilityFormInfo_to_json x) pr_OK = Some (x, pr_OK)"
  unfolding AbilityFormInfo_from_json_def new_AbilityFormInfo_def
  by (rule from_json_result, simp only: AbilityFormInfo_to_json_def [THEN find_in_object] json_u32_def json_read) simp

interpretation c_AbilityFormInfo: json_coding AbilityFormInfo_to_json AbilityFormInfo_from_json "\<lambda>_. True" "\<lambda>x. x"
  by unfold_locales (simp only: AbilityFormInfo_reads)

lemmas AbilityFormInfo_parts [json_read] =
  c_AbilityFormInfo.read_vector_ok [where at = AT_OBJECT, simplified] c_AbilityFormInfo.reads_vector [simplified]
  c_AbilityFormInfo.reads_map [simplified] c_AbilityFormInfo.reads_vector_map [simplified]

lemma ExtensionAbilities_object [simp, json_read]: "has_type JT_OBJECT (ExtensionAbilities_to_json x)"
  by (simp add: ExtensionAbilities_to_json_def )

lemma ExtensionAbilities_reads [json_read]: "ExtensionAbilities_from_json (ExtensionAbilities_to_json x) pr_OK = Some (x, pr_OK)"
  unfolding ExtensionAbilities_from_json_def new_ExtensionAbilities_def
  by (rule from_json_result, simp only: ExtensionAbilities_to_json_def [THEN find_in_object] json_read) simp

interpretation c_ExtensionAbilities: json_coding ExtensionAbilities_to_json ExtensionAbilities_from_json "\<lambda>_. True" "\<lambda>x. x"
  by unfold_locales (simp only: ExtensionAbilities_reads)

lemmas ExtensionAbilities_parts [json_read] =
  c_ExtensionAbilities.read_vector_ok [where at = AT_OBJECT, simplified] c_ExtensionAbilities.reads_vector [simplified]
  c_ExtensionAbilities.reads_map [simplified] c_ExtensionAbilities.reads_vector_map [simplified]

lemma ModuleAbilityInfo_object [simp, json_read]: "has_type JT_OBJECT (ModuleAbilityInfo_to_json x)"
  by (simp add: ModuleAbilityInfo_to_json_def )

lemma ModuleAbilityInfo_reads [json_read]: "ModuleAbilityInfo_from_json (ModuleAbilityInfo_to_json x) pr_OK = Some (x, pr_OK)"
  unfolding ModuleAbilityInfo_from_json_def new_ModuleAbilityInfo_def
  by (rule from_json_result, simp only: ModuleAbilityInfo_to_json_def [THEN find_in_object] json_read) simp

interpretation c_ModuleAbilityInfo: json_coding ModuleAbilityInfo_to_json ModuleAbilityInfo_from_json "\<lambda>_. True" "\<lambda>x. x"
  by unfold_locales (simp only: ModuleAbilityInfo_reads)

lemmas ModuleAbilityInfo_parts [json_read] =
  c_ModuleAbilityInfo.read_vector_ok [where at = AT_OBJECT, simplified] c_ModuleAbilityInfo.reads_vector [simplified]
  c_ModuleAbilityInfo.reads_map [simplified] c_ModuleAbilityInfo.reads_vector_map [simplified]

lemma ModuleDistro_object [simp, json_read]: "has_type JT_OBJECT (ModuleDistro_to_json x)"
  by (simp add: ModuleDistro_to_json_def )

lemma ModuleDistro_reads [json_read]: "ModuleDistro_from_json (ModuleDistro_to_json x) pr_OK = Some (x, pr_OK)"
  unfolding ModuleDistro_from_json_def new_ModuleDistro_def
  by (rule from_json_result, simp only: ModuleDistro_to_json_def [THEN find_in_object] json_read) simp

interpretation c_ModuleDistro: json_coding ModuleDistro_to_json ModuleDistro_from_json "\<lambda>_. True" "\<lambda>x. x"
  by unfold_locales (simp only: ModuleDistro_reads)

lemmas ModuleDistro_parts [json_read] =
  c_ModuleDistro.read_vector_ok [where at = AT_OBJECT, simplified] c_ModuleDistro.reads_vector [simplified]
  c_ModuleDistro.reads_map [simplified] c_ModuleDistro.reads_vector_map [simplified]

lemma ApiVersion_object [simp, json_read]: "has_type JT_OBJECT (ApiVersion_to_json x)"
  by (simp add: ApiVersion_to_json_def )

lemma ApiVersion_reads [json_read]: "ApiVersion_from_json (ApiVersion_to_json x) pr_OK = Some (x, pr_OK)"
  unfolding ApiVersion_from_json_def new_ApiVersion_def
  by (rule from_json_result, simp only: ApiVersion_to_json_def [THEN find_in_object] json_u32_def json_read) simp

interpretation c_ApiVersion: json_coding ApiVersion_to_json ApiVersion_from_json "\<lambda>_. True" "\<lambda>x. x"
  by unfold_locales (simp only: ApiVersion_reads)

lemmas ApiVersion_parts [json_read] =
  c_ApiVersion.read_vector_ok [where at = AT_OBJECT, simplified] c_ApiVersion.reads_vector [simplified]
  c_ApiVersion.reads_map [simplified] c_ApiVersion.reads_vector_map [simplified]

lemma PackageModule_object [simp, json_read]: "has_type JT_OBJECT (PackageModule_to_json x)"
  by (simp add: PackageModule_to_json_def )

lemma PackageModule_reads [json_read]: "PackageModule_from_json (PackageModule_to_json x) pr_OK = Some (x, pr_OK)"
  unfolding PackageModule_from_json_def new_PackageModule_def
  by (rule from_json_result, simp only: PackageModule_to_json_def [THEN find_in_object] json_read) simp

interpretation c_PackageModule: json_coding PackageModule_to_json PackageModule_from_json "\<lambda>_. True" "\<lambda>x. x"
  by unfold_locales (simp only: PackageModule_reads)

lemmas PackageModule_parts [json_read] =
  c_PackageModule.read_vector_ok [where at = AT_OBJECT, simplified] c_PackageModule.reads_vector [simplified]
  c_PackageModule.reads_map [simplified] c_PackageModule.reads_vector_map [simplified]

lemma Summary_object [simp, json_read]: "has_type JT_OBJECT (Summary_to_json x)"
  by (simp add: Summary_to_json_def )

lemma Summary_reads [json_read]: "Summary_from_json (Summary_to_json x) pr_OK = Some (x, pr_OK)"
  unfolding Summary_from_json_def new_Summary_def
  by (rule from_json_result, simp only: Summary_to_json_def [THEN find_in_object] json_read) simp

interpretation c_Summary: json_coding Summary_to_json Summary_from_json "\<lambda>_. True" "\<lambda>x. x"
  by unfold_locales (simp only: Summary_reads)

lemmas Summary_parts [json_read] =
  c_Summary.read_vector_ok [where at = AT_OBJECT, simplified] c_Summary.reads_vector [simplified]
  c_Summary.reads_map [simplified] c_Summary.reads_vector_map [simplified]

lemma Packages_object [simp, json_read]: "has_type JT_OBJECT (Packages_to_json x)"
  by (simp add: Packages_to_json_def )

lemma Packages_reads [json_read]: "Packages_from_json (Packages_to_json x) pr_OK = Some (x, pr_OK)"
  unfolding Packages_from_json_def new_Packages_def
  by (rule from_json_result, simp only: Packages_to_json_def [THEN find_in_object] json_read) simp

interpretation c_Packages: json_coding Packages_to_json Packages_from_json "\<lambda>_. True" "\<lambda>x. x"
  by unfold_locales (simp only: Packages_reads)

lemmas Packages_parts [json_read] =
  c_Packages.read_vector_ok [where at = AT_OBJECT, simplified] c_Packages.reads_vector [simplified]
  c_Packages.reads_map [simplified] c_Packages.reads_vector_map [simplified]

definition kept_BundlePackInfo :: "bundle_pack_info \<Rightarrow> bundle_pack_info" where
  "kept_BundlePackInfo x = x\<lparr>bp_isValid := bp_isValid new_BundlePackInfo\<rparr>"

lemma BundlePackInfo_object [simp, json_read]: "has_type JT_OBJECT (BundlePackInfo_to_json x)"
  by (simp add: BundlePackInfo_to_json_def )

lemma BundlePackInfo_reads [json_read]: "BundlePackInfo_from_json (BundlePackInfo_to_json x) pr_OK = Some (kept_BundlePackInfo x, pr_OK)"
  unfolding BundlePackInfo_from_json_def kept_BundlePackInfo_def new_BundlePackInfo_def
  by (rule from_json_result, simp only: BundlePackInfo_to_json_def [THEN find_in_object] json_read) simp

interpretation c_BundlePackInfo: json_coding BundlePackInfo_to_json BundlePackInfo_from_json "\<lambda>_. True" kept_BundlePackInfo
  by unfold_locales (simp only: BundlePackInfo_reads)

lemmas BundlePackInfo_parts [json_read] =
  c_BundlePackInfo.read_vector_ok [where at = AT_OBJECT, simplified] c_BundlePackInfo.reads_vector [simplified]
  c_BundlePackInfo.reads_map [simplified] c_BundlePackInfo.reads_vector_map [simplified]

end
