(* ===== verification/Json_Base.thy ===== *)
theory Json_Base
  imports Json_Util Bundle_Types
begin

text \<open>
  How the structures of \<open>interfaces/inner_api/appexecfwk_base\<close> are written as JSON and read back: for every
  structure its \<open>to_json\<close> and its \<open>from_json\<close>, a list of reading steps in the order of the code.
\<close>

section \<open>Enumerations\<close>

definition AbilityType_values :: "(ability_type \<times> int) list" where
  "AbilityType_values =
     [(AbilityType_UNKNOWN, 0), (AbilityType_PAGE, 1), (AbilityType_SERVICE, 2), (AbilityType_DATA, 3),
      (AbilityType_FORM, 4), (AbilityType_EXTENSION, 5)]"

definition AbilityType_to_json :: "ability_type \<Rightarrow> json" where
  "AbilityType_to_json e = JNum (enum_value AbilityType_values e)"

definition DisplayOrientation_values :: "(display_orientation \<times> int) list" where
  "DisplayOrientation_values =
     [(DisplayOrientation_UNSPECIFIED, 0), (DisplayOrientation_LANDSCAPE, 1),
      (DisplayOrientation_PORTRAIT, 2), (DisplayOrientation_FOLLOWRECENT, 3)]"

definition DisplayOrientation_to_json :: "display_orientation \<Rightarrow> json" where
  "DisplayOrientation_to_json e = JNum (enum_value DisplayOrientation_values e)"

definition LaunchMode_values :: "(launch_mode \<times> int) list" where
  "LaunchMode_values =
     [(LaunchMode_SINGLETON, 0), (LaunchMode_STANDARD, 1), (LaunchMode_SINGLETOP, 2),
      (LaunchMode_SPECIFIED, 3)]"

definition LaunchMode_to_json :: "launch_mode \<Rightarrow> json" where
  "LaunchMode_to_json e = JNum (enum_value LaunchMode_values e)"

definition ExtensionAbilityType_values :: "(extension_ability_type \<times> int) list" where
  "ExtensionAbilityType_values =
     [(ExtensionAbilityType_FORM, 0), (ExtensionAbilityType_WORK_SCHEDULER, 1),
      (ExtensionAbilityType_INPUTMETHOD, 2), (ExtensionAbilityType_SERVICE, 3),
      (ExtensionAbilityType_ACCESSIBILITY, 4), (ExtensionAbilityType_DATASHARE, 5),
      (ExtensionAbilityType_FILESHARE, 6), (ExtensionAbilityType_STATICSUBSCRIBER, 7),
      (ExtensionAbilityType_WALLPAPER, 8), (ExtensionAbilityType_BACKUP, 9), (ExtensionAbilityType_WINDOW,
      10), (ExtensionAbilityType_UNSPECIFIED, 20)]"

definition ExtensionAbilityType_to_json :: "extension_ability_type \<Rightarrow> json" where
  "ExtensionAbilityType_to_json e = JNum (enum_value ExtensionAbilityType_values e)"

definition ModuleColorMode_values :: "(module_color_mode \<times> int) list" where
  "ModuleColorMode_values =
     [(ModuleColorMode_AUTO, -1), (ModuleColorMode_DARK, 0), (ModuleColorMode_LIGHT, 1)]"

definition ModuleColorMode_to_json :: "module_color_mode \<Rightarrow> json" where
  "ModuleColorMode_to_json e = JNum (enum_value ModuleColorMode_values e)"

definition ModuleType_values :: "(module_type \<times> int) list" where
  "ModuleType_values =
     [(ModuleType_UNKNOWN, 0), (ModuleType_ENTRY, 1), (ModuleType_FEATURE, 2), (ModuleType_HAR, 3)]"

definition ModuleType_to_json :: "module_type \<Rightarrow> json" where
  "ModuleType_to_json e = JNum (enum_value ModuleType_values e)"

definition FormsColorMode_values :: "(forms_color_mode \<times> int) list" where
  "FormsColorMode_values =
     [(FormsColorMode_AUTO_MODE, -1), (FormsColorMode_DARK_MODE, 0), (FormsColorMode_LIGHT_MODE, 1)]"

definition FormsColorMode_to_json :: "forms_color_mode \<Rightarrow> json" where
  "FormsColorMode_to_json e = JNum (enum_value FormsColorMode_values e)"

definition FormType_values :: "(form_type \<times> int) list" where
  "FormType_values =
     [(FormType_JAVA, 0), (FormType_JS, 1)]"

definition FormType_to_json :: "form_type \<Rightarrow> json" where
  "FormType_to_json e = JNum (enum_value FormType_values e)"

section \<open>Structures\<close>

definition CustomizeData_to_json :: "customize_data \<Rightarrow> json" where
  "CustomizeData_to_json x = json_object [
     (''name'', JStr (cd_name x)),
     (''value'', JStr (cd_value x)),
     (''extra'', JStr (cd_extra x))]"

definition CustomizeData_from_json :: "customize_data getter" where
  "CustomizeData_from_json = from_json new_CustomizeData [
     read_string ''name'' cd_name_update False Local,
     read_string ''value'' cd_value_update False Local,
     read_string ''extra'' cd_extra_update False Local]"

definition MetaData_to_json :: "meta_data \<Rightarrow> json" where
  "MetaData_to_json x = json_object [
     (''customizeData'', json_list CustomizeData_to_json (mt_customizeData x))]"

definition MetaData_from_json :: "meta_data getter" where
  "MetaData_from_json = from_json new_MetaData [
     read_array CustomizeData_from_json AT_OBJECT ''customizeData'' mt_customizeData_update False Local]"

definition Metadata_to_json :: "metadata_item \<Rightarrow> json" where
  "Metadata_to_json x = json_object [
     (''name'', JStr (md_name x)),
     (''value'', JStr (md_value x)),
     (''resource'', JStr (md_resource x))]"

definition Metadata_from_json :: "metadata_item getter" where
  "Metadata_from_json = from_json new_Metadata [
     read_string ''name'' md_name_update False Local,
     read_string ''value'' md_value_update False Local,
     read_string ''resource'' md_resource_update False Local]"

definition ModuleInfo_to_json :: "module_info \<Rightarrow> json" where
  "ModuleInfo_to_json x = json_object [
     (''moduleName'', JStr (mi_moduleName x)),
     (''moduleSourceDir'', JStr (mi_moduleSourceDir x))]"

definition ModuleInfo_from_json :: "module_info getter" where
  "ModuleInfo_from_json = from_json new_ModuleInfo [
     read_string ''moduleName'' mi_moduleName_update False Local,
     read_string ''moduleSourceDir'' mi_moduleSourceDir_update False Local]"

definition ApplicationInfo_to_json :: "application_info \<Rightarrow> json" where
  "ApplicationInfo_to_json x = json_object [
     (''name'', JStr (app_name x)),
     (''bundleName'', JStr (app_bundleName x)),
     (''versionCode'', json_u32 (app_versionCode x)),
     (''versionName'', JStr (app_versionName x)),
     (''minCompatibleVersionCode'', JNum (app_minCompatibleVersionCode x)),
     (''apiCompatibleVersion'', json_u32 (app_apiCompatibleVersion x)),
     (''apiTargetVersion'', JNum (app_apiTargetVersion x)),
     (''iconPath'', JStr (app_iconPath x)),
     (''iconId'', JNum (app_iconId x)),
     (''label'', JStr (app_label x)),
     (''labelId'', JNum (app_labelId x)),
     (''description'', JStr (app_description x)),
     (''descriptionId'', JNum (app_descriptionId x)),
     (''keepAlive'', JBool (app_keepAlive x)),
     (''removable'', JBool (app_removable x)),
     (''singleton'', JBool (app_singleton x)),
     (''userDataClearable'', JBool (app_userDataClearable x)),
     (''accessible'', JBool (app_accessible x)),
     (''isSystemApp'', JBool (app_isSystemApp x)),
     (''isLauncherApp'', JBool (app_isLauncherApp x)),
     (''isFreeInstallApp'', JBool (app_isFreeInstallApp x)),
     (''codePath'', JStr (app_codePath x)),
     (''dataDir'', JStr (app_dataDir x)),
     (''dataBaseDir'', JStr (app_dataBaseDir x)),
     (''cacheDir'', JStr (app_cacheDir x)),
     (''entryDir'', JStr (app_entryDir x)),
     (''apiReleaseType'', JStr (app_apiReleaseType x)),
     (''debug'', JBool (app_debug x)),
     (''deviceId'', JStr (app_deviceId x)),
     (''distributedNotificationEnabled'', JBool (app_distributedNotificationEnabled x)),
     (''entityType'', JStr (app_entityType x)),
     (''process'', JStr (app_process x)),
     (''supportedModes'', JNum (app_supportedModes x)),
     (''vendor'', JStr (app_vendor x)),
     (''appPrivilegeLevel'', JStr (app_appPrivilegeLevel x)),
     (''accessTokenId'', json_u32 (app_accessTokenId x)),
     (''enabled'', JBool (app_enabled x)),
     (''uid'', JNum (app_uid x)),
     (''permissions'', json_list JStr (app_permissions x)),
     (''moduleSourceDirs'', json_list JStr (app_moduleSourceDirs x)),
     (''moduleInfos'', json_list ModuleInfo_to_json (app_moduleInfos x)),
     (''metaData'', json_map (json_list CustomizeData_to_json) (app_metaData x)),
     (''metadata'', json_map (json_list Metadata_to_json) (app_metadata x)),
     (''isCloned'', JBool (app_isCloned x)),
     (''fingerprint'', JStr (app_fingerprint x)),
     (''icon'', JStr (app_icon x)),
     (''flags'', JNum (app_flags x)),
     (''entryModuleName'', JStr (app_entryModuleName x)),
     (''nativeLibraryPath'', JStr (app_nativeLibraryPath x)),
     (''cpuAbi'', JStr (app_cpuAbi x)),
     (''isCompressNativeLibs'', JBool (app_isCompressNativeLibs x)),
     (''signatureKey'', JStr (app_signatureKey x)),
     (''targetBundleList'', json_list JStr (app_targetBundleList x))]"

definition ApplicationInfo_members_1 :: "application_info step list" where
  "ApplicationInfo_members_1 = [
     read_string ''name'' app_name_update False Local,
     read_string ''bundleName'' app_bundleName_update False Local,
     read_number get_uint32 ''versionCode'' app_versionCode_update False Local,
     read_string ''versionName'' app_versionName_update False Local,
     read_number get_int32 ''minCompatibleVersionCode'' app_minCompatibleVersionCode_update False Local,
     read_number get_uint32 ''apiCompatibleVersion'' app_apiCompatibleVersion_update False Local,
     read_number get_int32 ''apiTargetVersion'' app_apiTargetVersion_update False Local,
     read_string ''iconPath'' app_iconPath_update False Local,
     read_number get_int32 ''iconId'' app_iconId_update False Local,
     read_string ''label'' app_label_update False Local,
     read_number get_int32 ''labelId'' app_labelId_update False Local,
     read_string ''description'' app_description_update False Local,
     read_number get_int32 ''descriptionId'' app_descriptionId_update False Local,
     read_bool ''keepAlive'' app_keepAlive_update False Local,
     read_bool ''removable'' app_removable_update False Local,
     read_bool ''singleton'' app_singleton_update False Local,
     read_bool ''userDataClearable'' app_userDataClearable_update False Local]"

definition ApplicationInfo_members_2 :: "application_info step list" where
  "ApplicationInfo_members_2 = [
     read_bool ''accessible'' app_accessible_update False Local,
     read_bool ''isSystemApp'' app_isSystemApp_update False Local,
     read_bool ''isLauncherApp'' app_isLauncherApp_update False Local,
     read_bool ''isFreeInstallApp'' app_isFreeInstallApp_update False Local,
     read_string ''codePath'' app_codePath_update False Local,
     read_string ''dataDir'' app_dataDir_update False Local,
     read_string ''dataBaseDir'' app_dataBaseDir_update False Local,
     read_string ''cacheDir'' app_cacheDir_update False Local,
     read_string ''entryDir'' app_entryDir_update False Local,
     read_string ''apiReleaseType'' app_apiReleaseType_update False Local,
     read_bool ''debug'' app_debug_update False Local,
     read_string ''deviceId'' app_deviceId_update False Local,
     read_bool ''distributedNotificationEnabled'' app_distributedNotificationEnabled_update False Local,
     read_string ''entityType'' app_entityType_update False Local,
     read_string ''process'' app_process_update False Local,
     read_number get_int32 ''supportedModes'' app_supportedModes_update False Local,
     read_string ''vendor'' app_vendor_update False Local]"

definition ApplicationInfo_members_3 :: "application_info step list" where
  "ApplicationInfo_members_3 = [
     read_string ''appPrivilegeLevel'' app_appPrivilegeLevel_update False Local,
     read_number get_uint32 ''accessTokenId'' app_accessTokenId_update False Local,
     read_bool ''enabled'' app_enabled_update False Local,
     read_number get_int32 ''uid'' app_uid_update False Local,
     read_array get_string AT_STRING ''permissions'' app_permissions_update False Local,
     read_array get_string AT_STRING ''moduleSourceDirs'' app_moduleSourceDirs_update False Local,
     read_array ModuleInfo_from_json AT_OBJECT ''moduleInfos'' app_moduleInfos_update False Local,
     read_object (get_map (get_vector CustomizeData_from_json)) ''metaData'' app_metaData_update False Local,
     read_object (get_map (get_vector Metadata_from_json)) ''metadata'' app_metadata_update False Local,
     read_bool ''isCloned'' app_isCloned_update False Local,
     read_string ''fingerprint'' app_fingerprint_update False Local,
     read_string ''icon'' app_icon_update False Local,
     read_number get_int32 ''flags'' app_flags_update False Local,
     read_string ''entryModuleName'' app_entryModuleName_update False Local,
     read_string ''nativeLibraryPath'' app_nativeLibraryPath_update False Local,
     read_string ''cpuAbi'' app_cpuAbi_update False Local,
     read_bool ''isCompressNativeLibs'' app_isCompressNativeLibs_update False Local]"

definition ApplicationInfo_members_4 :: "application_info step list" where
  "ApplicationInfo_members_4 = [
     read_string ''signatureKey'' app_signatureKey_update False Local,
     read_array get_string AT_STRING ''targetBundleList'' app_targetBundleList_update False Local]"

definition ApplicationInfo_from_json :: "application_info getter" where
  "ApplicationInfo_from_json = from_json new_ApplicationInfo (ApplicationInfo_members_1 @ ApplicationInfo_members_2 @ ApplicationInfo_members_3 @ ApplicationInfo_members_4)"

definition AbilityInfo_to_json :: "ability_info \<Rightarrow> json" where
  "AbilityInfo_to_json x = json_object [
     (''name'', JStr (ai_name x)),
     (''label'', JStr (ai_label x)),
     (''description'', JStr (ai_description x)),
     (''iconPath'', JStr (ai_iconPath x)),
     (''labelId'', JNum (ai_labelId x)),
     (''descriptionId'', JNum (ai_descriptionId x)),
     (''iconId'', JNum (ai_iconId x)),
     (''theme'', JStr (ai_theme x)),
     (''visible'', JBool (ai_visible x)),
     (''kind'', JStr (ai_kind x)),
     (''type'', AbilityType_to_json (ai_type x)),
     (''extensionAbilityType'', ExtensionAbilityType_to_json (ai_extensionAbilityType x)),
     (''orientation'', DisplayOrientation_to_json (ai_orientation x)),
     (''launchMode'', LaunchMode_to_json (ai_launchMode x)),
     (''srcPath'', JStr (ai_srcPath x)),
     (''srcLanguage'', JStr (ai_srcLanguage x)),
     (''permissions'', json_list JStr (ai_permissions x)),
     (''process'', JStr (ai_process x)),
     (''deviceTypes'', json_list JStr (ai_deviceTypes x)),
     (''deviceCapabilities'', json_list JStr (ai_deviceCapabilities x)),
     (''uri'', JStr (ai_uri x)),
     (''targetAbility'', JStr (ai_targetAbility x)),
     (''applicationInfo'', ApplicationInfo_to_json (ai_applicationInfo x)),
     (''isLauncherAbility'', JBool (ai_isLauncherAbility x)),
     (''isNativeAbility'', JBool (ai_isNativeAbility x)),
     (''enabled'', JBool (ai_enabled x)),
     (''supportPipMode'', JBool (ai_supportPipMode x)),
     (''formEnabled'', JBool (ai_formEnabled x)),
     (''readPermission'', JStr (ai_readPermission x)),
     (''writePermission'', JStr (ai_writePermission x)),
     (''configChanges'', json_list JStr (ai_configChanges x)),
     (''formEntity'', json_u32 (ai_formEntity x)),
     (''minFormHeight'', JNum (ai_minFormHeight x)),
     (''defaultFormHeight'', JNum (ai_defaultFormHeight x)),
     (''minFormWidth'', JNum (ai_minFormWidth x)),
     (''defaultFormWidth'', JNum (ai_defaultFormWidth x)),
     (''metaData'', MetaData_to_json (ai_metaData x)),
     (''backgroundModes'', json_u32 (ai_backgroundModes x)),
     (''package'', JStr (ai_package x)),
     (''bundleName'', JStr (ai_bundleName x)),
     (''moduleName'', JStr (ai_moduleName x)),
     (''applicationName'', JStr (ai_applicationName x)),
     (''codePath'', JStr (ai_codePath x)),
     (''resourcePath'', JStr (ai_resourcePath x)),
     (''srcEntrance'', JStr (ai_srcEntrance x)),
     (''metadata'', json_list Metadata_to_json (ai_metadata x)),
     (''isModuleJson'', JBool (ai_isModuleJson x)),
     (''isStageBasedModel'', JBool (ai_isStageBasedModel x)),
     (''continuable'', JBool (ai_continuable x)),
     (''priority'', JNum (ai_priority x)),
     (''startWindowIcon'', JStr (ai_startWindowIcon x)),
     (''startWindowIconId'', JNum (ai_startWindowIconId x)),
     (''startWindowBackground'', JStr (ai_startWindowBackground x)),
     (''startWindowBackgroundId'', JNum (ai_startWindowBackgroundId x)),
     (''removeMissionAfterTerminate'', JBool (ai_removeMissionAfterTerminate x))]"

definition AbilityInfo_members_1 :: "ability_info step list" where
  "AbilityInfo_members_1 = [
     read_string ''name'' ai_name_update False Local,
     read_string ''label'' ai_label_update False Local,
     read_string ''description'' ai_description_update False Local,
     read_string ''iconPath'' ai_iconPath_update False Local,
     read_number get_int32 ''labelId'' ai_labelId_update False Local,
     read_number get_int32 ''descriptionId'' ai_descriptionId_update False Local,
     read_number get_int32 ''iconId'' ai_iconId_update False Local,
     read_string ''theme'' ai_theme_update False Local,
     read_bool ''visible'' ai_visible_update False Local,
     read_string ''kind'' ai_kind_update False Local,
     read_number (get_enum AbilityType_values) ''type'' ai_type_update False Local,
     read_number (get_enum ExtensionAbilityType_values) ''extensionAbilityType'' ai_extensionAbilityType_update False Local,
     read_number (get_enum DisplayOrientation_values) ''orientation'' ai_orientation_update False Local,
     read_number (get_enum LaunchMode_values) ''launchMode'' ai_launchMode_update False Local,
     read_string ''srcPath'' ai_srcPath_update False Local,
     read_string ''srcLanguage'' ai_srcLanguage_update False Local,
     read_array get_string AT_STRING ''permissions'' ai_permissions_update False Local]"

definition AbilityInfo_members_2 :: "ability_info step list" where
  "AbilityInfo_members_2 = [
     read_string ''process'' ai_process_update False Local,
     read_array get_string AT_STRING ''deviceTypes'' ai_deviceTypes_update False Local,
     read_array get_string AT_STRING ''deviceCapabilities'' ai_deviceCapabilities_update False Local,
     read_string ''uri'' ai_uri_update False Local,
     read_string ''targetAbility'' ai_targetAbility_update False Local,
     read_object ApplicationInfo_from_json ''applicationInfo'' ai_applicationInfo_update False Local,
     read_bool ''isLauncherAbility'' ai_isLauncherAbility_update False Local,
     read_bool ''isNativeAbility'' ai_isNativeAbility_update False Local,
     read_bool ''enabled'' ai_enabled_update False Local,
     read_bool ''supportPipMode'' ai_supportPipMode_update False Local,
     read_bool ''formEnabled'' ai_formEnabled_update False Local,
     read_string ''readPermission'' ai_readPermission_update False Local,
     read_string ''writePermission'' ai_writePermission_update False Local,
     read_array get_string AT_STRING ''configChanges'' ai_configChanges_update False Local,
     read_number get_uint32 ''formEntity'' ai_formEntity_update False Local,
     read_number get_int32 ''minFormHeight'' ai_minFormHeight_update False Local,
     read_number get_int32 ''defaultFormHeight'' ai_defaultFormHeight_update False Local]"

definition AbilityInfo_members_3 :: "ability_info step list" where
  "AbilityInfo_members_3 = [
     read_number get_int32 ''minFormWidth'' ai_minFormWidth_update False Local,
     read_number get_int32 ''defaultFormWidth'' ai_defaultFormWidth_update False Local,
     read_object MetaData_from_json ''metaData'' ai_metaData_update False Local,
     read_number get_uint32 ''backgroundModes'' ai_backgroundModes_update False Local,
     read_string ''package'' ai_package_update False Local,
     read_string ''bundleName'' ai_bundleName_update False Local,
     read_string ''moduleName'' ai_moduleName_update False Local,
     read_string ''applicationName'' ai_applicationName_update False Local,
     read_string ''codePath'' ai_codePath_update False Local,
     read_string ''resourcePath'' ai_resourcePath_update False Local,
     read_string ''srcEntrance'' ai_srcEntrance_update False Local,
     read_array Metadata_from_json AT_OBJECT ''metadata'' ai_metadata_update False Local,
     read_bool ''isModuleJson'' ai_isModuleJson_update False Local,
     read_bool ''isStageBasedModel'' ai_isStageBasedModel_update False Local,
     read_bool ''continuable'' ai_continuable_update False Local,
     read_number get_int32 ''priority'' ai_priority_update False Local,
     read_string ''startWindowIcon'' ai_startWindowIcon_update False Local]"

definition AbilityInfo_members_4 :: "ability_info step list" where
  "AbilityInfo_members_4 = [
     read_number get_int32 ''startWindowIconId'' ai_startWindowIconId_update False Local,
     read_string ''startWindowBackground'' ai_startWindowBackground_update False Local,
     read_number get_int32 ''startWindowBackgroundId'' ai_startWindowBackgroundId_update False Local,
     read_bool ''removeMissionAfterTerminate'' ai_removeMissionAfterTerminate_update False Local]"

definition AbilityInfo_from_json :: "ability_info getter" where
  "AbilityInfo_from_json = from_json new_AbilityInfo (AbilityInfo_members_1 @ AbilityInfo_members_2 @ AbilityInfo_members_3 @ AbilityInfo_members_4)"

definition ExtensionAbilityInfo_to_json :: "extension_ability_info \<Rightarrow> json" where
  "ExtensionAbilityInfo_to_json x = json_object [
     (''bundleName'', JStr (ei_bundleName x)),
     (''moduleName'', JStr (ei_moduleName x)),
     (''name'', JStr (ei_name x)),
     (''srcEntrance'', JStr (ei_srcEntrance x)),
     (''icon'', JStr (ei_icon x)),
     (''iconId'', JNum (ei_iconId x)),
     (''label'', JStr (ei_label x)),
     (''labelId'', JNum (ei_labelId x)),
     (''description'', JStr (ei_description x)),
     (''descriptionId'', JNum (ei_descriptionId x)),
     (''priority'', JNum (ei_priority x)),
     (''type'', ExtensionAbilityType_to_json (ei_type x)),
     (''readPermission'', JStr (ei_readPermission x)),
     (''writePermission'', JStr (ei_writePermission x)),
     (''uri'', JStr (ei_uri x)),
     (''permissions'', json_list JStr (ei_permissions x)),
     (''visible'', JBool (ei_visible x)),
     (''metadata'', json_list Metadata_to_json (ei_metadata x)),
     (''applicationInfo'', ApplicationInfo_to_json (ei_applicationInfo x)),
     (''resourcePath'', JStr (ei_resourcePath x)),
     (''enabled'', JBool (ei_enabled x)),
     (''process'', JStr (ei_process x))]"

definition ExtensionAbilityInfo_members_1 :: "extension_ability_info step list" where
  "ExtensionAbilityInfo_members_1 = [
     read_string ''bundleName'' ei_bundleName_update False Local,
     read_string ''moduleName'' ei_moduleName_update False Local,
     read_string ''name'' ei_name_update False Local,
     read_string ''srcEntrance'' ei_srcEntrance_update False Local,
     read_string ''icon'' ei_icon_update False Local,
     read_number get_int32 ''iconId'' ei_iconId_update False Local,
     read_string ''label'' ei_label_update False Local,
     read_number get_int32 ''labelId'' ei_labelId_update False Local,
     read_string ''description'' ei_description_update False Local,
     read_number get_int32 ''descriptionId'' ei_descriptionId_update False Local,
     read_number get_int32 ''priority'' ei_priority_update False Local,
     read_number (get_enum ExtensionAbilityType_values) ''type'' ei_type_update False Local,
     read_string ''readPermission'' ei_readPermission_update False Local,
     read_string ''writePermission'' ei_writePermission_update False Local,
     read_string ''uri'' ei_uri_update False Local,
     read_array get_string AT_STRING ''permissions'' ei_permissions_update False Local,
     read_bool ''visible'' ei_visible_update False Local]"

definition ExtensionAbilityInfo_members_2 :: "extension_ability_info step list" where
  "ExtensionAbilityInfo_members_2 = [
     read_array Metadata_from_json AT_OBJECT ''metadata'' ei_metadata_update False Local,
     read_object ApplicationInfo_from_json ''applicationInfo'' ei_applicationInfo_update False Local,
     read_string ''resourcePath'' ei_resourcePath_update False Local,
     read_bool ''enabled'' ei_enabled_update False Local,
     read_string ''process'' ei_process_update False Local]"

definition ExtensionAbilityInfo_from_json :: "extension_ability_info getter" where
  "ExtensionAbilityInfo_from_json = from_json new_ExtensionAbilityInfo (ExtensionAbilityInfo_members_1 @ ExtensionAbilityInfo_members_2)"

definition HapModuleInfo_to_json :: "hap_module_info \<Rightarrow> json" where
  "HapModuleInfo_to_json x = json_object [
     (''name'', JStr (hm_name x)),
     (''moduleName'', JStr (hm_moduleName x)),
     (''description'', JStr (hm_description x)),
     (''descriptionId'', JNum (hm_descriptionId x)),
     (''iconPath'', JStr (hm_iconPath x)),
     (''label'', JStr (hm_label x)),
     (''labelId'', JNum (hm_labelId x)),
     (''backgroundImg'', JStr (hm_backgroundImg x)),
     (''mainAbility'', JStr (hm_mainAbility x)),
     (''srcPath'', JStr (hm_srcPath x)),
     (''hashValue'', JStr (hm_hashValue x)),
     (''hapPath'', JStr (hm_hapPath x)),
     (''supportedModes'', JNum (hm_supportedModes x)),
     (''reqCapabilities'', json_list JStr (hm_reqCapabilities x)),
     (''deviceTypes'', json_list JStr (hm_deviceTypes x)),
     (''abilityInfos'', json_list AbilityInfo_to_json (hm_abilityInfos x)),
     (''colorMode'', ModuleColorMode_to_json (hm_colorMode x)),
     (''bundleName'', JStr (hm_bundleName x)),
     (''mainElementName'', JStr (hm_mainElementName x)),
     (''pages'', JStr (hm_pages x)),
     (''process'', JStr (hm_process x)),
     (''resourcePath'', JStr (hm_resourcePath x)),
     (''srcEntrance'', JStr (hm_srcEntrance x)),
     (''uiSyntax'', JStr (hm_uiSyntax x)),
     (''virtualMachine'', JStr (hm_virtualMachine x)),
     (''deliveryWithInstall'', JBool (hm_deliveryWithInstall x)),
     (''installationFree'', JBool (hm_installationFree x)),
     (''isModuleJson'', JBool (hm_isModuleJson x)),
     (''isStageBasedModel'', JBool (hm_isStageBasedModel x)),
     (''isRemovable'', json_map JBool (hm_isRemovable x)),
     (''upgradeFlag'', JNum (hm_upgradeFlag x)),
     (''moduleType'', ModuleType_to_json (hm_moduleType x)),
     (''extensionInfos'', json_list ExtensionAbilityInfo_to_json (hm_extensionInfos x)),
     (''metadata'', json_list Metadata_to_json (hm_metadata x)),
     (''dependencies'', json_list JStr (hm_dependencies x))]"

definition HapModuleInfo_members_1 :: "hap_module_info step list" where
  "HapModuleInfo_members_1 = [
     read_string ''name'' hm_name_update False Local,
     read_string ''moduleName'' hm_moduleName_update False Local,
     read_string ''description'' hm_description_update False Local,
     read_number get_int32 ''descriptionId'' hm_descriptionId_update False Local,
     read_string ''iconPath'' hm_iconPath_update False Local,
     read_string ''label'' hm_label_update False Local,
     read_number get_int32 ''labelId'' hm_labelId_update False Local,
     read_string ''backgroundImg'' hm_backgroundImg_update False Local,
     read_string ''mainAbility'' hm_mainAbility_update False Local,
     read_string ''srcPath'' hm_srcPath_update False Local,
     read_string ''hashValue'' hm_hashValue_update False Local,
     read_string ''hapPath'' hm_hapPath_update False Local,
     read_number get_int32 ''supportedModes'' hm_supportedModes_update False Local,
     read_array get_string AT_STRING ''reqCapabilities'' hm_reqCapabilities_update False Local,
     read_array get_string AT_STRING ''deviceTypes'' hm_deviceTypes_update False Local,
     read_array AbilityInfo_from_json AT_OBJECT ''abilityInfos'' hm_abilityInfos_update False Local,
     read_number (get_enum ModuleColorMode_values) ''colorMode'' hm_colorMode_update False Local]"

definition HapModuleInfo_members_2 :: "hap_module_info step list" where
  "HapModuleInfo_members_2 = [
     read_string ''bundleName'' hm_bundleName_update False Local,
     read_string ''mainElementName'' hm_mainElementName_update False Local,
     read_string ''pages'' hm_pages_update False Local,
     read_string ''process'' hm_process_update False Local,
     read_string ''resourcePath'' hm_resourcePath_update False Local,
     read_string ''srcEntrance'' hm_srcEntrance_update False Local,
     read_string ''uiSyntax'' hm_uiSyntax_update False Local,
     read_string ''virtualMachine'' hm_virtualMachine_update False Local,
     read_bool ''deliveryWithInstall'' hm_deliveryWithInstall_update False Local,
     read_bool ''installationFree'' hm_installationFree_update False Local,
     read_bool ''isModuleJson'' hm_isModuleJson_update False Local,
     read_bool ''isStageBasedModel'' hm_isStageBasedModel_update False Local,
     read_object (get_map get_bool) ''isRemovable'' hm_isRemovable_update False Local,
     read_number get_int32 ''upgradeFlag'' hm_upgradeFlag_update False Local,
     read_number (get_enum ModuleType_values) ''moduleType'' hm_moduleType_update False Local,
     read_array ExtensionAbilityInfo_from_json AT_OBJECT ''extensionInfos'' hm_extensionInfos_update False Local,
     read_array Metadata_from_json AT_OBJECT ''metadata'' hm_metadata_update False Local]"

definition HapModuleInfo_members_3 :: "hap_module_info step list" where
  "HapModuleInfo_members_3 = [
     read_array get_string AT_STRING ''dependencies'' hm_dependencies_update False Local]"

definition HapModuleInfo_from_json :: "hap_module_info getter" where
  "HapModuleInfo_from_json = from_json new_HapModuleInfo (HapModuleInfo_members_1 @ HapModuleInfo_members_2 @ HapModuleInfo_members_3)"

definition RequestPermissionUsedScene_to_json :: "request_permission_used_scene \<Rightarrow> json" where
  "RequestPermissionUsedScene_to_json x = json_object [
     (''abilities'', json_list JStr (us_abilities x)),
     (''when'', JStr (us_when x))]"

definition RequestPermissionUsedScene_from_json :: "request_permission_used_scene getter" where
  "RequestPermissionUsedScene_from_json = from_json new_RequestPermissionUsedScene [
     read_array get_string AT_STRING ''abilities'' us_abilities_update False Local,
     read_array get_string AT_STRING ''ability'' us_abilities_update False Local,
     read_string ''when'' us_when_update False Local]"

definition RequestPermission_to_json :: "request_permission \<Rightarrow> json" where
  "RequestPermission_to_json x = json_object [
     (''name'', JStr (rp_name x)),
     (''reason'', JStr (rp_reason x)),
     (''reasonId'', JNum (rp_reasonId x)),
     (''usedScene'', RequestPermissionUsedScene_to_json (rp_usedScene x))]"

definition RequestPermission_from_json :: "request_permission getter" where
  "RequestPermission_from_json = from_json new_RequestPermission [
     read_string ''name'' rp_name_update False Local,
     read_string ''reason'' rp_reason_update False Local,
     read_number get_int32 ''reasonId'' rp_reasonId_update False Local,
     read_object RequestPermissionUsedScene_from_json ''usedScene'' rp_usedScene_update False Local]"

definition BundleInfo_to_json :: "bundle_info \<Rightarrow> json" where
  "BundleInfo_to_json x = json_object [
     (''name'', JStr (bi_name x)),
     (''label'', JStr (bi_label x)),
     (''description'', JStr (bi_description x)),
     (''vendor'', JStr (bi_vendor x)),
     (''isKeepAlive'', JBool (bi_isKeepAlive x)),
     (''isNativeApp'', JBool (bi_isNativeApp x)),
     (''isPreInstallApp'', JBool (bi_isPreInstallApp x)),
     (''isDifferentName'', JBool (bi_isDifferentName x)),
     (''applicationInfo'', ApplicationInfo_to_json (bi_applicationInfo x)),
     (''abilityInfos'', json_list AbilityInfo_to_json (bi_abilityInfos x)),
     (''hapModuleInfos'', json_list HapModuleInfo_to_json (bi_hapModuleInfos x)),
     (''extensionAbilityInfo'', json_list ExtensionAbilityInfo_to_json (bi_extensionInfos x)),
     (''jointUserId'', JStr (bi_jointUserId x)),
     (''versionCode'', json_u32 (bi_versionCode x)),
     (''minCompatibleVersionCode'', json_u32 (bi_minCompatibleVersionCode x)),
     (''versionName'', JStr (bi_versionName x)),
     (''minSdkVersion'', JNum (bi_minSdkVersion x)),
     (''maxSdkVersion'', JNum (bi_maxSdkVersion x)),
     (''mainEntry'', JStr (bi_mainEntry x)),
     (''cpuAbi'', JStr (bi_cpuAbi x)),
     (''appId'', JStr (bi_appId x)),
     (''compatibleVersion'', json_u32 (bi_compatibleVersion x)),
     (''targetVersion'', json_u32 (bi_targetVersion x)),
     (''releaseType'', JStr (bi_releaseType x)),
     (''uid'', JNum (bi_uid x)),
     (''gid'', JNum (bi_gid x)),
     (''seInfo'', JStr (bi_seInfo x)),
     (''installTime'', JNum (bi_installTime x)),
     (''updateTime'', JNum (bi_updateTime x)),
     (''entryModuleName'', JStr (bi_entryModuleName x)),
     (''entryInstallationFree'', JBool (bi_entryInstallationFree x)),
     (''reqPermissions'', json_list JStr (bi_reqPermissions x)),
     (''reqPermissionStates'', json_list JNum (bi_reqPermissionStates x)),
     (''reqPermissionDetails'', json_list RequestPermission_to_json (bi_reqPermissionDetails x)),
     (''defPermissions'', json_list JStr (bi_defPermissions x)),
     (''hapModuleNames'', json_list JStr (bi_hapModuleNames x)),
     (''moduleNames'', json_list JStr (bi_moduleNames x)),
     (''modulePublicDirs'', json_list JStr (bi_modulePublicDirs x)),
     (''moduleDirs'', json_list JStr (bi_moduleDirs x)),
     (''moduleResPaths'', json_list JStr (bi_moduleResPaths x)),
     (''singleton'', JBool (bi_singleton x))]"

definition BundleInfo_members_1 :: "bundle_info step list" where
  "BundleInfo_members_1 = [
     read_string ''name'' bi_name_update False Local,
     read_string ''label'' bi_label_update False Local,
     read_string ''description'' bi_description_update False Local,
     read_string ''vendor'' bi_vendor_update False Local,
     read_bool ''isKeepAlive'' bi_isKeepAlive_update False Local,
     read_bool ''isNativeApp'' bi_isNativeApp_update False Local,
     read_bool ''isPreInstallApp'' bi_isPreInstallApp_update False Local,
     read_bool ''isDifferentName'' bi_isDifferentName_update False Local,
     read_object ApplicationInfo_from_json ''applicationInfo'' bi_applicationInfo_update False Local,
     read_array AbilityInfo_from_json AT_OBJECT ''abilityInfos'' bi_abilityInfos_update False Local,
     read_array HapModuleInfo_from_json AT_OBJECT ''hapModuleInfos'' bi_hapModuleInfos_update False Local,
     read_number get_uint32 ''versionCode'' bi_versionCode_update False Local,
     read_number get_uint32 ''minCompatibleVersionCode'' bi_minCompatibleVersionCode_update False Local,
     read_string ''versionName'' bi_versionName_update False Local,
     read_string ''jointUserId'' bi_jointUserId_update False Local,
     read_number get_int32 ''minSdkVersion'' bi_minSdkVersion_update False Local,
     read_number get_int32 ''maxSdkVersion'' bi_maxSdkVersion_update False Local]"

definition BundleInfo_members_2 :: "bundle_info step list" where
  "BundleInfo_members_2 = [
     read_string ''mainEntry'' bi_mainEntry_update False Local,
     read_string ''cpuAbi'' bi_cpuAbi_update False Local,
     read_string ''appId'' bi_appId_update False Local,
     read_number get_uint32 ''compatibleVersion'' bi_compatibleVersion_update False Local,
     read_number get_uint32 ''targetVersion'' bi_targetVersion_update False Local,
     read_string ''releaseType'' bi_releaseType_update False Local,
     read_number get_int32 ''uid'' bi_uid_update False Local,
     read_number get_int32 ''gid'' bi_gid_update False Local,
     read_string ''seInfo'' bi_seInfo_update False Local,
     read_number get_int64 ''installTime'' bi_installTime_update False Local,
     read_number get_int64 ''updateTime'' bi_updateTime_update False Local,
     read_string ''entryModuleName'' bi_entryModuleName_update False Local,
     read_bool ''entryInstallationFree'' bi_entryInstallationFree_update False Local,
     read_array get_string AT_STRING ''reqPermissions'' bi_reqPermissions_update False Local,
     read_array get_int32 AT_NUMBER ''reqPermissionStates'' bi_reqPermissionStates_update False Local,
     read_array RequestPermission_from_json AT_OBJECT ''reqPermissionDetails'' bi_reqPermissionDetails_update False Local,
     read_array get_string AT_STRING ''defPermissions'' bi_defPermissions_update False Local]"

definition BundleInfo_members_3 :: "bundle_info step list" where
  "BundleInfo_members_3 = [
     read_array get_string AT_STRING ''hapModuleNames'' bi_hapModuleNames_update False Local,
     read_array get_string AT_STRING ''moduleNames'' bi_moduleNames_update False Local,
     read_array get_string AT_STRING ''modulePublicDirs'' bi_modulePublicDirs_update False Local,
     read_array get_string AT_STRING ''moduleDirs'' bi_moduleDirs_update False Local,
     read_array get_string AT_STRING ''moduleResPaths'' bi_moduleResPaths_update False Local,
     read_bool ''singleton'' bi_singleton_update False Local,
     read_array ExtensionAbilityInfo_from_json AT_OBJECT ''extensionAbilityInfo'' bi_extensionInfos_update False Local]"

definition BundleInfo_from_json :: "bundle_info getter" where
  "BundleInfo_from_json = from_json new_BundleInfo (BundleInfo_members_1 @ BundleInfo_members_2 @ BundleInfo_members_3)"

definition CommonEventInfo_to_json :: "common_event_info \<Rightarrow> json" where
  "CommonEventInfo_to_json x = json_object [
     (''name'', JStr (ce_name x)),
     (''bundleName'', JStr (ce_bundleName x)),
     (''uid'', JNum (ce_uid x)),
     (''permission'', JStr (ce_permission x)),
     (''data'', json_list JStr (ce_data x)),
     (''type'', json_list JStr (ce_type x)),
     (''events'', json_list JStr (ce_events x))]"

definition CommonEventInfo_from_json :: "common_event_info getter" where
  "CommonEventInfo_from_json = from_json new_CommonEventInfo [
     at_get get_string ''name'' ce_name_update,
     at_get get_string ''bundleName'' ce_bundleName_update,
     at_get get_int32 ''uid'' ce_uid_update,
     at_get get_string ''permission'' ce_permission_update,
     at_get (get_vector get_string) ''data'' ce_data_update,
     at_get (get_vector get_string) ''type'' ce_type_update,
     at_get (get_vector get_string) ''events'' ce_events_update]"

definition FormCustomizeData_to_json :: "form_customize_data \<Rightarrow> json" where
  "FormCustomizeData_to_json x = json_object [
     (''name'', JStr (fc_name x)),
     (''value'', JStr (fc_value x))]"

definition FormCustomizeData_from_json :: "form_customize_data getter" where
  "FormCustomizeData_from_json = from_json new_FormCustomizeData [
     at_get get_string ''name'' fc_name_update,
     at_get get_string ''value'' fc_value_update]"

definition FormWindow_to_json :: "form_window \<Rightarrow> json" where
  "FormWindow_to_json x = json_assign_all [
     (''designWidth'', JNum (fw_designWidth x)),
     (''autoDesignWidth'', JBool (fw_autoDesignWidth x))]"

definition FormWindow_from_json :: "form_window getter" where
  "FormWindow_from_json = from_json new_FormWindow [
     at_get get_int32 ''designWidth'' fw_designWidth_update,
     at_get get_bool ''autoDesignWidth'' fw_autoDesignWidth_update]"

definition FormInfo_to_json :: "form_info \<Rightarrow> json" where
  "FormInfo_to_json x = json_object [
     (''name'', JStr (fi_name x)),
     (''package'', JStr (fi_package x)),
     (''bundleName'', JStr (fi_bundleName x)),
     (''moduleName'', JStr (fi_moduleName x)),
     (''abilityName'', JStr (fi_abilityName x)),
     (''description'', JStr (fi_description x)),
     (''relatedBundleName'', JStr (fi_relatedBundleName x)),
     (''jsComponentName'', JStr (fi_jsComponentName x)),
     (''deepLink'', JStr (fi_deepLink x)),
     (''src'', JStr (fi_src x)),
     (''formConfigAbility'', JStr (fi_formConfigAbility x)),
     (''scheduledUpdateTime'', JStr (fi_scheduledUpdateTime x)),
     (''originalBundleName'', JStr (fi_originalBundleName x)),
     (''descriptionId'', JNum (fi_descriptionId x)),
     (''updateDuration'', JNum (fi_updateDuration x)),
     (''defaultDimension'', JNum (fi_defaultDimension x)),
     (''defaultFlag'', JBool (fi_defaultFlag x)),
     (''formVisibleNotify'', JBool (fi_formVisibleNotify x)),
     (''updateEnabled'', JBool (fi_updateEnabled x)),
     (''type'', FormType_to_json (fi_type x)),
     (''colorMode'', FormsColorMode_to_json (fi_colorMode x)),
     (''supportDimensions'', json_list JNum (fi_supportDimensions x)),
     (''customizeData'', json_list FormCustomizeData_to_json (fi_customizeDatas x)),
     (''landscapeLayouts'', json_list JStr (fi_landscapeLayouts x)),
     (''portraitLayouts'', json_list JStr (fi_portraitLayouts x)),
     (''window'', FormWindow_to_json (fi_window x))]"

definition FormInfo_from_json :: "form_info getter" where
  "FormInfo_from_json = from_json new_FormInfo [
     at_get get_string ''bundleName'' fi_bundleName_update,
     at_get get_string ''package'' fi_package_update,
     at_get get_string ''moduleName'' fi_moduleName_update,
     at_get get_string ''abilityName'' fi_abilityName_update,
     at_get get_string ''name'' fi_name_update,
     at_get get_string ''description'' fi_description_update,
     at_get get_string ''relatedBundleName'' fi_relatedBundleName_update,
     at_get get_string ''jsComponentName'' fi_jsComponentName_update,
     at_get get_string ''deepLink'' fi_deepLink_update,
     at_get get_string ''formConfigAbility'' fi_formConfigAbility_update,
     at_get get_string ''scheduledUpdateTime'' fi_scheduledUpdateTime_update,
     at_get get_string ''src'' fi_src_update,
     at_get get_string ''originalBundleName'' fi_originalBundleName_update,
     at_get get_int32 ''descriptionId'' fi_descriptionId_update,
     at_get get_int32 ''updateDuration'' fi_updateDuration_update,
     at_get get_int32 ''defaultDimension'' fi_defaultDimension_update,
     at_get get_bool ''defaultFlag'' fi_defaultFlag_update,
     at_get get_bool ''formVisibleNotify'' fi_formVisibleNotify_update,
     at_get get_bool ''updateEnabled'' fi_updateEnabled_update,
     at_get (get_enum FormType_values) ''type'' fi_type_update,
     at_get (get_enum FormsColorMode_values) ''colorMode'' fi_colorMode_update,
     at_get (get_vector get_int32) ''supportDimensions'' fi_supportDimensions_update,
     at_get (get_vector FormCustomizeData_from_json) ''customizeData'' fi_customizeDatas_update,
     at_get (get_vector get_string) ''landscapeLayouts'' fi_landscapeLayouts_update,
     at_get (get_vector get_string) ''portraitLayouts'' fi_portraitLayouts_update,
     at_get FormWindow_from_json ''window'' fi_window_update]"

definition ShortcutIntent_to_json :: "shortcut_intent \<Rightarrow> json" where
  "ShortcutIntent_to_json x = json_object [
     (''targetBundle'', JStr (sn_targetBundle x)),
     (''targetClass'', JStr (sn_targetClass x))]"

definition ShortcutIntent_from_json :: "shortcut_intent getter" where
  "ShortcutIntent_from_json = from_json new_ShortcutIntent [
     read_string ''targetBundle'' sn_targetBundle_update False Local,
     read_string ''targetClass'' sn_targetClass_update False Local]"

definition ShortcutInfo_to_json :: "shortcut_info \<Rightarrow> json" where
  "ShortcutInfo_to_json x = json_object [
     (''id'', JStr (si_id x)),
     (''bundleName'', JStr (si_bundleName x)),
     (''hostAbility'', JStr (si_hostAbility x)),
     (''icon'', JStr (si_icon x)),
     (''label'', JStr (si_label x)),
     (''disableMessage'', JStr (si_disableMessage x)),
     (''isStatic'', JBool (si_isStatic x)),
     (''isHomeShortcut'', JBool (si_isHomeShortcut x)),
     (''isEnables'', JBool (si_isEnables x)),
     (''intents'', json_list ShortcutIntent_to_json (si_intents x)),
     (''iconId'', JNum (si_iconId x)),
     (''labelId'', JNum (si_labelId x))]"

definition ShortcutInfo_from_json :: "shortcut_info getter" where
  "ShortcutInfo_from_json = from_json new_ShortcutInfo [
     read_string ''id'' si_id_update False Local,
     read_string ''bundleName'' si_bundleName_update False Local,
     read_string ''hostAbility'' si_hostAbility_update False Local,
     read_string ''icon'' si_icon_update False Local,
     read_string ''label'' si_label_update False Local,
     read_string ''disableMessage'' si_disableMessage_update False Local,
     read_bool ''isStatic'' si_isStatic_update False Local,
     read_bool ''isHomeShortcut'' si_isHomeShortcut_update False Local,
     read_bool ''isEnables'' si_isEnables_update False Local,
     read_array ShortcutIntent_from_json AT_OBJECT ''intents'' si_intents_update False Local,
     read_number get_int32 ''iconId'' si_iconId_update False Local,
     read_number get_int32 ''labelId'' si_labelId_update False Local]"

definition BundleUserInfo_to_json :: "bundle_user_info \<Rightarrow> json" where
  "BundleUserInfo_to_json x = json_object [
     (''userId'', JNum (bu_userId x)),
     (''enabled'', JBool (bu_enabled x)),
     (''disabledAbilities'', json_list JStr (bu_disabledAbilities x))]"

definition BundleUserInfo_from_json :: "bundle_user_info getter" where
  "BundleUserInfo_from_json = from_json new_BundleUserInfo [
     read_number get_int32 ''userId'' bu_userId_update False Local,
     read_bool ''enabled'' bu_enabled_update False Local,
     read_array get_string AT_STRING ''disabledAbilities'' bu_disabledAbilities_update False Local]"

end
