(* ===== verification/Json_Base_Laws.thy ===== *)
theory Json_Base_Laws
  imports Json_Base Json_Laws
begin

text \<open>
  Round trips of the structures of \<open>appexecfwk_base\<close>. \<open>wf_T\<close> says that the integers are in the range of their
  C++ types and that maps are sorted; \<open>kept_T\<close> resets the members that are not stored.
\<close>

section \<open>Enumerations\<close>

lemma AbilityType_reads [json_read]: "get_enum AbilityType_values (JNum (enum_value AbilityType_values e)) g = Some (e, g)"
  by (rule get_enum_num) (cases e; simp add: enum_value_def enum_of_def AbilityType_values_def)

lemma DisplayOrientation_reads [json_read]: "get_enum DisplayOrientation_values (JNum (enum_value DisplayOrientation_values e)) g = Some (e, g)"
  by (rule get_enum_num) (cases e; simp add: enum_value_def enum_of_def DisplayOrientation_values_def)

lemma LaunchMode_reads [json_read]: "get_enum LaunchMode_values (JNum (enum_value LaunchMode_values e)) g = Some (e, g)"
  by (rule get_enum_num) (cases e; simp add: enum_value_def enum_of_def LaunchMode_values_def)

lemma ExtensionAbilityType_reads [json_read]: "get_enum ExtensionAbilityType_values (JNum (enum_value ExtensionAbilityType_values e)) g = Some (e, g)"
  by (rule get_enum_num) (cases e; simp add: enum_value_def enum_of_def ExtensionAbilityType_values_def)

lemma ModuleColorMode_reads [json_read]: "get_enum ModuleColorMode_values (JNum (enum_value ModuleColorMode_values e)) g = Some (e, g)"
  by (rule get_enum_num) (cases e; simp add: enum_value_def enum_of_def ModuleColorMode_values_def)

lemma ModuleType_reads [json_read]: "get_enum ModuleType_values (JNum (enum_value ModuleType_values e)) g = Some (e, g)"
  by (rule get_enum_num) (cases e; simp add: enum_value_def enum_of_def ModuleType_values_def)

lemma FormsColorMode_reads [json_read]: "get_enum FormsColorMode_values (JNum (enum_value FormsColorMode_values e)) g = Some (e, g)"
  by (rule get_enum_num) (cases e; simp add: enum_value_def enum_of_def FormsColorMode_values_def)

lemma FormType_reads [json_read]: "get_enum FormType_values (JNum (enum_value FormType_values e)) g = Some (e, g)"
  by (rule get_enum_num) (cases e; simp add: enum_value_def enum_of_def FormType_values_def)

section \<open>Structures\<close>

lemma CustomizeData_object [simp, json_read]: "has_type JT_OBJECT (CustomizeData_to_json x)"
  by (simp add: CustomizeData_to_json_def )

lemma CustomizeData_reads [json_read]: "CustomizeData_from_json (CustomizeData_to_json x) pr_OK = Some (x, pr_OK)"
  unfolding CustomizeData_from_json_def new_CustomizeData_def
  by (rule from_json_result, simp only: CustomizeData_to_json_def [THEN find_in_object] json_read) simp

interpretation c_CustomizeData: json_coding CustomizeData_to_json CustomizeData_from_json "\<lambda>_. True" "\<lambda>x. x"
  by unfold_locales (simp only: CustomizeData_reads)

lemmas CustomizeData_parts [json_read] =
  c_CustomizeData.read_vector_ok [where at = AT_OBJECT, simplified] c_CustomizeData.reads_vector [simplified]
  c_CustomizeData.reads_map [simplified] c_CustomizeData.reads_vector_map [simplified]

lemma MetaData_object [simp, json_read]: "has_type JT_OBJECT (MetaData_to_json x)"
  by (simp add: MetaData_to_json_def )

lemma MetaData_reads [json_read]: "MetaData_from_json (MetaData_to_json x) pr_OK = Some (x, pr_OK)"
  unfolding MetaData_from_json_def new_MetaData_def
  by (rule from_json_result, simp only: MetaData_to_json_def [THEN find_in_object] json_read) simp

interpretation c_MetaData: json_coding MetaData_to_json MetaData_from_json "\<lambda>_. True" "\<lambda>x. x"
  by unfold_locales (simp only: MetaData_reads)

lemmas MetaData_parts [json_read] =
  c_MetaData.read_vector_ok [where at = AT_OBJECT, simplified] c_MetaData.reads_vector [simplified]
  c_MetaData.reads_map [simplified] c_MetaData.reads_vector_map [simplified]

lemma Metadata_object [simp, json_read]: "has_type JT_OBJECT (Metadata_to_json x)"
  by (simp add: Metadata_to_json_def )

lemma Metadata_reads [json_read]: "Metadata_from_json (Metadata_to_json x) pr_OK = Some (x, pr_OK)"
  unfolding Metadata_from_json_def new_Metadata_def
  by (rule from_json_result, simp only: Metadata_to_json_def [THEN find_in_object] json_read) simp

interpretation c_Metadata: json_coding Metadata_to_json Metadata_from_json "\<lambda>_. True" "\<lambda>x. x"
  by unfold_locales (simp only: Metadata_reads)

lemmas Metadata_parts [json_read] =
  c_Metadata.read_vector_ok [where at = AT_OBJECT, simplified] c_Metadata.reads_vector [simplified]
  c_Metadata.reads_map [simplified] c_Metadata.reads_vector_map [simplified]

lemma ModuleInfo_object [simp, json_read]: "has_type JT_OBJECT (ModuleInfo_to_json x)"
  by (simp add: ModuleInfo_to_json_def )

lemma ModuleInfo_reads [json_read]: "ModuleInfo_from_json (ModuleInfo_to_json x) pr_OK = Some (x, pr_OK)"
  unfolding ModuleInfo_from_json_def new_ModuleInfo_def
  by (rule from_json_result, simp only: ModuleInfo_to_json_def [THEN find_in_object] json_read) simp

interpretation c_ModuleInfo: json_coding ModuleInfo_to_json ModuleInfo_from_json "\<lambda>_. True" "\<lambda>x. x"
  by unfold_locales (simp only: ModuleInfo_reads)

lemmas ModuleInfo_parts [json_read] =
  c_ModuleInfo.read_vector_ok [where at = AT_OBJECT, simplified] c_ModuleInfo.reads_vector [simplified]
  c_ModuleInfo.reads_map [simplified] c_ModuleInfo.reads_vector_map [simplified]

definition wf_ApplicationInfo :: "application_info \<Rightarrow> bool" where
  "wf_ApplicationInfo x \<longleftrightarrow> int32 (app_minCompatibleVersionCode x) \<and>
     int32 (app_apiTargetVersion x) \<and>
     int32 (app_iconId x) \<and>
     int32 (app_labelId x) \<and>
     int32 (app_descriptionId x) \<and>
     int32 (app_supportedModes x) \<and>
     int32 (app_uid x) \<and>
     sm_inv (app_metaData x) \<and>
     sm_inv (app_metadata x) \<and>
     int32 (app_flags x)"

lemma ApplicationInfo_object [simp, json_read]: "has_type JT_OBJECT (ApplicationInfo_to_json x)"
  by (simp add: ApplicationInfo_to_json_def )

lemma ApplicationInfo_reads [json_read]: "wf_ApplicationInfo x \<Longrightarrow> ApplicationInfo_from_json (ApplicationInfo_to_json x) pr_OK = Some (x, pr_OK)"
  unfolding ApplicationInfo_from_json_def ApplicationInfo_members_1_def ApplicationInfo_members_2_def ApplicationInfo_members_3_def ApplicationInfo_members_4_def new_ApplicationInfo_def
  by (rule from_json_result, simp only: ApplicationInfo_to_json_def [THEN find_in_object] wf_ApplicationInfo_def json_u32_def json_read) simp

interpretation c_ApplicationInfo: json_coding ApplicationInfo_to_json ApplicationInfo_from_json wf_ApplicationInfo "\<lambda>x. x"
  by unfold_locales (simp only: ApplicationInfo_reads)

lemmas ApplicationInfo_parts [json_read] =
  c_ApplicationInfo.read_vector_ok [where at = AT_OBJECT, simplified] c_ApplicationInfo.reads_vector [simplified]
  c_ApplicationInfo.reads_map [simplified] c_ApplicationInfo.reads_vector_map [simplified]

definition wf_AbilityInfo :: "ability_info \<Rightarrow> bool" where
  "wf_AbilityInfo x \<longleftrightarrow> int32 (ai_labelId x) \<and>
     int32 (ai_descriptionId x) \<and>
     int32 (ai_iconId x) \<and>
     wf_ApplicationInfo (ai_applicationInfo x) \<and>
     int32 (ai_minFormHeight x) \<and>
     int32 (ai_defaultFormHeight x) \<and>
     int32 (ai_minFormWidth x) \<and>
     int32 (ai_defaultFormWidth x) \<and>
     int32 (ai_priority x) \<and>
     int32 (ai_startWindowIconId x) \<and>
     int32 (ai_startWindowBackgroundId x)"

definition kept_AbilityInfo :: "ability_info \<Rightarrow> ability_info" where
  "kept_AbilityInfo x = x\<lparr>ai_originalBundleName := ai_originalBundleName new_AbilityInfo,
     ai_appName := ai_appName new_AbilityInfo,
     ai_privacyUrl := ai_privacyUrl new_AbilityInfo,
     ai_privacyName := ai_privacyName new_AbilityInfo,
     ai_downloadUrl := ai_downloadUrl new_AbilityInfo,
     ai_versionName := ai_versionName new_AbilityInfo,
     ai_className := ai_className new_AbilityInfo,
     ai_originalClassName := ai_originalClassName new_AbilityInfo,
     ai_uriPermissionMode := ai_uriPermissionMode new_AbilityInfo,
     ai_uriPermissionPath := ai_uriPermissionPath new_AbilityInfo,
     ai_packageSize := ai_packageSize new_AbilityInfo,
     ai_multiUserShared := ai_multiUserShared new_AbilityInfo,
     ai_grantPermission := ai_grantPermission new_AbilityInfo,
     ai_directLaunch := ai_directLaunch new_AbilityInfo,
     ai_subType := ai_subType new_AbilityInfo,
     ai_libPath := ai_libPath new_AbilityInfo,
     ai_deviceId := ai_deviceId new_AbilityInfo\<rparr>"

lemma AbilityInfo_object [simp, json_read]: "has_type JT_OBJECT (AbilityInfo_to_json x)"
  by (simp add: AbilityInfo_to_json_def )

lemma AbilityInfo_reads [json_read]: "wf_AbilityInfo x \<Longrightarrow> AbilityInfo_from_json (AbilityInfo_to_json x) pr_OK = Some (kept_AbilityInfo x, pr_OK)"
  unfolding AbilityInfo_from_json_def AbilityInfo_members_1_def AbilityInfo_members_2_def AbilityInfo_members_3_def AbilityInfo_members_4_def kept_AbilityInfo_def new_AbilityInfo_def
  by (rule from_json_result, simp only: AbilityInfo_to_json_def [THEN find_in_object] wf_AbilityInfo_def json_u32_def AbilityType_to_json_def DisplayOrientation_to_json_def ExtensionAbilityType_to_json_def LaunchMode_to_json_def json_read) simp

interpretation c_AbilityInfo: json_coding AbilityInfo_to_json AbilityInfo_from_json wf_AbilityInfo kept_AbilityInfo
  by unfold_locales (simp only: AbilityInfo_reads)

lemmas AbilityInfo_parts [json_read] =
  c_AbilityInfo.read_vector_ok [where at = AT_OBJECT, simplified] c_AbilityInfo.reads_vector [simplified]
  c_AbilityInfo.reads_map [simplified] c_AbilityInfo.reads_vector_map [simplified]

definition wf_ExtensionAbilityInfo :: "extension_ability_info \<Rightarrow> bool" where
  "wf_ExtensionAbilityInfo x \<longleftrightarrow> int32 (ei_iconId x) \<and>
     int32 (ei_labelId x) \<and>
     int32 (ei_descriptionId x) \<and>
     int32 (ei_priority x) \<and>
     wf_ApplicationInfo (ei_applicationInfo x)"

lemma ExtensionAbilityInfo_object [simp, json_read]: "has_type JT_OBJECT (ExtensionAbilityInfo_to_json x)"
  by (simp add: ExtensionAbilityInfo_to_json_def )

lemma ExtensionAbilityInfo_reads [json_read]: "wf_ExtensionAbilityInfo x \<Longrightarrow> ExtensionAbilityInfo_from_json (ExtensionAbilityInfo_to_json x) pr_OK = Some (x, pr_OK)"
  unfolding ExtensionAbilityInfo_from_json_def ExtensionAbilityInfo_members_1_def ExtensionAbilityInfo_members_2_def new_ExtensionAbilityInfo_def
  by (rule from_json_result, simp only: ExtensionAbilityInfo_to_json_def [THEN find_in_object] wf_ExtensionAbilityInfo_def ExtensionAbilityType_to_json_def json_read) simp

interpretation c_ExtensionAbilityInfo: json_coding ExtensionAbilityInfo_to_json ExtensionAbilityInfo_from_json wf_ExtensionAbilityInfo "\<lambda>x. x"
  by unfold_locales (simp only: ExtensionAbilityInfo_reads)

lemmas ExtensionAbilityInfo_parts [json_read] =
  c_ExtensionAbilityInfo.read_vector_ok [where at = AT_OBJECT, simplified] c_ExtensionAbilityInfo.reads_vector [simplified]
  c_ExtensionAbilityInfo.reads_map [simplified] c_ExtensionAbilityInfo.reads_vector_map [simplified]

definition wf_HapModuleInfo :: "hap_module_info \<Rightarrow> bool" where
  "wf_HapModuleInfo x \<longleftrightarrow> int32 (hm_descriptionId x) \<and>
     int32 (hm_labelId x) \<and>
     int32 (hm_supportedModes x) \<and>
     list_all wf_AbilityInfo (hm_abilityInfos x) \<and>
     sm_inv (hm_isRemovable x) \<and>
     int32 (hm_upgradeFlag x) \<and>
     list_all wf_ExtensionAbilityInfo (hm_extensionInfos x)"

definition kept_HapModuleInfo :: "hap_module_info \<Rightarrow> hap_module_info" where
  "kept_HapModuleInfo x = x\<lparr>hm_abilityInfos := map kept_AbilityInfo (hm_abilityInfos x)\<rparr>"

lemma HapModuleInfo_object [simp, json_read]: "has_type JT_OBJECT (HapModuleInfo_to_json x)"
  by (simp add: HapModuleInfo_to_json_def )

lemma HapModuleInfo_reads [json_read]: "wf_HapModuleInfo x \<Longrightarrow> HapModuleInfo_from_json (HapModuleInfo_to_json x) pr_OK = Some (kept_HapModuleInfo x, pr_OK)"
  unfolding HapModuleInfo_from_json_def HapModuleInfo_members_1_def HapModuleInfo_members_2_def HapModuleInfo_members_3_def kept_HapModuleInfo_def new_HapModuleInfo_def
  by (rule from_json_result, simp only: HapModuleInfo_to_json_def [THEN find_in_object] wf_HapModuleInfo_def ModuleColorMode_to_json_def ModuleType_to_json_def json_read) simp

interpretation c_HapModuleInfo: json_coding HapModuleInfo_to_json HapModuleInfo_from_json wf_HapModuleInfo kept_HapModuleInfo
  by unfold_locales (simp only: HapModuleInfo_reads)

lemmas HapModuleInfo_parts [json_read] =
  c_HapModuleInfo.read_vector_ok [where at = AT_OBJECT, simplified] c_HapModuleInfo.reads_vector [simplified]
  c_HapModuleInfo.reads_map [simplified] c_HapModuleInfo.reads_vector_map [simplified]

lemma RequestPermissionUsedScene_object [simp, json_read]: "has_type JT_OBJECT (RequestPermissionUsedScene_to_json x)"
  by (simp add: RequestPermissionUsedScene_to_json_def )

lemma RequestPermissionUsedScene_reads [json_read]: "RequestPermissionUsedScene_from_json (RequestPermissionUsedScene_to_json x) pr_OK = Some (x, pr_OK)"
  unfolding RequestPermissionUsedScene_from_json_def new_RequestPermissionUsedScene_def
  by (rule from_json_result, simp only: RequestPermissionUsedScene_to_json_def [THEN find_in_object] json_read) simp

interpretation c_RequestPermissionUsedScene: json_coding RequestPermissionUsedScene_to_json RequestPermissionUsedScene_from_json "\<lambda>_. True" "\<lambda>x. x"
  by unfold_locales (simp only: RequestPermissionUsedScene_reads)

lemmas RequestPermissionUsedScene_parts [json_read] =
  c_RequestPermissionUsedScene.read_vector_ok [where at = AT_OBJECT, simplified] c_RequestPermissionUsedScene.reads_vector [simplified]
  c_RequestPermissionUsedScene.reads_map [simplified] c_RequestPermissionUsedScene.reads_vector_map [simplified]

definition wf_RequestPermission :: "request_permission \<Rightarrow> bool" where
  "wf_RequestPermission x \<longleftrightarrow> int32 (rp_reasonId x)"

lemma RequestPermission_object [simp, json_read]: "has_type JT_OBJECT (RequestPermission_to_json x)"
  by (simp add: RequestPermission_to_json_def )

lemma RequestPermission_reads [json_read]: "wf_RequestPermission x \<Longrightarrow> RequestPermission_from_json (RequestPermission_to_json x) pr_OK = Some (x, pr_OK)"
  unfolding RequestPermission_from_json_def new_RequestPermission_def
  by (rule from_json_result, simp only: RequestPermission_to_json_def [THEN find_in_object] wf_RequestPermission_def json_read) simp

interpretation c_RequestPermission: json_coding RequestPermission_to_json RequestPermission_from_json wf_RequestPermission "\<lambda>x. x"
  by unfold_locales (simp only: RequestPermission_reads)

lemmas RequestPermission_parts [json_read] =
  c_RequestPermission.read_vector_ok [where at = AT_OBJECT, simplified] c_RequestPermission.reads_vector [simplified]
  c_RequestPermission.reads_map [simplified] c_RequestPermission.reads_vector_map [simplified]

definition wf_BundleInfo :: "bundle_info \<Rightarrow> bool" where
  "wf_BundleInfo x \<longleftrightarrow> wf_ApplicationInfo (bi_applicationInfo x) \<and>
     list_all wf_AbilityInfo (bi_abilityInfos x) \<and>
     list_all wf_HapModuleInfo (bi_hapModuleInfos x) \<and>
     int32 (bi_minSdkVersion x) \<and>
     int32 (bi_maxSdkVersion x) \<and>
     int32 (bi_uid x) \<and>
     int32 (bi_gid x) \<and>
     int64 (bi_installTime x) \<and>
     int64 (bi_updateTime x) \<and>
     list_all int32 (bi_reqPermissionStates x) \<and>
     list_all wf_RequestPermission (bi_reqPermissionDetails x) \<and>
     list_all wf_ExtensionAbilityInfo (bi_extensionInfos x)"

definition kept_BundleInfo :: "bundle_info \<Rightarrow> bundle_info" where
  "kept_BundleInfo x = x\<lparr>bi_abilityInfos := map kept_AbilityInfo (bi_abilityInfos x),
     bi_hapModuleInfos := map kept_HapModuleInfo (bi_hapModuleInfos x)\<rparr>"

lemma BundleInfo_object [simp, json_read]: "has_type JT_OBJECT (BundleInfo_to_json x)"
  by (simp add: BundleInfo_to_json_def )

lemma BundleInfo_reads [json_read]: "wf_BundleInfo x \<Longrightarrow> BundleInfo_from_json (BundleInfo_to_json x) pr_OK = Some (kept_BundleInfo x, pr_OK)"
  unfolding BundleInfo_from_json_def BundleInfo_members_1_def BundleInfo_members_2_def BundleInfo_members_3_def kept_BundleInfo_def new_BundleInfo_def
  by (rule from_json_result, simp only: BundleInfo_to_json_def [THEN find_in_object] wf_BundleInfo_def json_u32_def json_read) simp

interpretation c_BundleInfo: json_coding BundleInfo_to_json BundleInfo_from_json wf_BundleInfo kept_BundleInfo
  by unfold_locales (simp only: BundleInfo_reads)

lemmas BundleInfo_parts [json_read] =
  c_BundleInfo.read_vector_ok [where at = AT_OBJECT, simplified] c_BundleInfo.reads_vector [simplified]
  c_BundleInfo.reads_map [simplified] c_BundleInfo.reads_vector_map [simplified]

definition wf_CommonEventInfo :: "common_event_info \<Rightarrow> bool" where
  "wf_CommonEventInfo x \<longleftrightarrow> int32 (ce_uid x)"

lemma CommonEventInfo_object [simp, json_read]: "has_type JT_OBJECT (CommonEventInfo_to_json x)"
  by (simp add: CommonEventInfo_to_json_def )

lemma CommonEventInfo_reads [json_read]: "wf_CommonEventInfo x \<Longrightarrow> CommonEventInfo_from_json (CommonEventInfo_to_json x) pr_OK = Some (x, pr_OK)"
  unfolding CommonEventInfo_from_json_def new_CommonEventInfo_def
  by (rule from_json_result, simp only: CommonEventInfo_to_json_def [THEN find_in_object] wf_CommonEventInfo_def json_read) simp

interpretation c_CommonEventInfo: json_coding CommonEventInfo_to_json CommonEventInfo_from_json wf_CommonEventInfo "\<lambda>x. x"
  by unfold_locales (simp only: CommonEventInfo_reads)

lemmas CommonEventInfo_parts [json_read] =
  c_CommonEventInfo.read_vector_ok [where at = AT_OBJECT, simplified] c_CommonEventInfo.reads_vector [simplified]
  c_CommonEventInfo.reads_map [simplified] c_CommonEventInfo.reads_vector_map [simplified]

lemma FormCustomizeData_object [simp, json_read]: "has_type JT_OBJECT (FormCustomizeData_to_json x)"
  by (simp add: FormCustomizeData_to_json_def )

lemma FormCustomizeData_reads [json_read]: "FormCustomizeData_from_json (FormCustomizeData_to_json x) pr_OK = Some (x, pr_OK)"
  unfolding FormCustomizeData_from_json_def new_FormCustomizeData_def
  by (rule from_json_result, simp only: FormCustomizeData_to_json_def [THEN find_in_object] json_read) simp

interpretation c_FormCustomizeData: json_coding FormCustomizeData_to_json FormCustomizeData_from_json "\<lambda>_. True" "\<lambda>x. x"
  by unfold_locales (simp only: FormCustomizeData_reads)

lemmas FormCustomizeData_parts [json_read] =
  c_FormCustomizeData.read_vector_ok [where at = AT_OBJECT, simplified] c_FormCustomizeData.reads_vector [simplified]
  c_FormCustomizeData.reads_map [simplified] c_FormCustomizeData.reads_vector_map [simplified]

definition wf_FormWindow :: "form_window \<Rightarrow> bool" where
  "wf_FormWindow x \<longleftrightarrow> int32 (fw_designWidth x)"

lemma FormWindow_object [simp, json_read]: "has_type JT_OBJECT (FormWindow_to_json x)"
  by (simp add: FormWindow_to_json_def has_type_assign)

lemma FormWindow_reads [json_read]: "wf_FormWindow x \<Longrightarrow> FormWindow_from_json (FormWindow_to_json x) pr_OK = Some (x, pr_OK)"
  unfolding FormWindow_from_json_def new_FormWindow_def
  by (rule from_json_result, simp only: FormWindow_to_json_def [THEN find_in_assign] wf_FormWindow_def json_read) simp

interpretation c_FormWindow: json_coding FormWindow_to_json FormWindow_from_json wf_FormWindow "\<lambda>x. x"
  by unfold_locales (simp only: FormWindow_reads)

lemmas FormWindow_parts [json_read] =
  c_FormWindow.read_vector_ok [where at = AT_OBJECT, simplified] c_FormWindow.reads_vector [simplified]
  c_FormWindow.reads_map [simplified] c_FormWindow.reads_vector_map [simplified]

definition wf_FormInfo :: "form_info \<Rightarrow> bool" where
  "wf_FormInfo x \<longleftrightarrow> int32 (fi_descriptionId x) \<and>
     int32 (fi_updateDuration x) \<and>
     int32 (fi_defaultDimension x) \<and>
     list_all int32 (fi_supportDimensions x) \<and>
     wf_FormWindow (fi_window x)"

lemma FormInfo_object [simp, json_read]: "has_type JT_OBJECT (FormInfo_to_json x)"
  by (simp add: FormInfo_to_json_def )

lemma FormInfo_reads [json_read]: "wf_FormInfo x \<Longrightarrow> FormInfo_from_json (FormInfo_to_json x) pr_OK = Some (x, pr_OK)"
  unfolding FormInfo_from_json_def new_FormInfo_def
  by (rule from_json_result, simp only: FormInfo_to_json_def [THEN find_in_object] wf_FormInfo_def FormType_to_json_def FormsColorMode_to_json_def json_read) simp

interpretation c_FormInfo: json_coding FormInfo_to_json FormInfo_from_json wf_FormInfo "\<lambda>x. x"
  by unfold_locales (simp only: FormInfo_reads)

lemmas FormInfo_parts [json_read] =
  c_FormInfo.read_vector_ok [where at = AT_OBJECT, simplified] c_FormInfo.reads_vector [simplified]
  c_FormInfo.reads_map [simplified] c_FormInfo.reads_vector_map [simplified]

lemma ShortcutIntent_object [simp, json_read]: "has_type JT_OBJECT (ShortcutIntent_to_json x)"
  by (simp add: ShortcutIntent_to_json_def )

lemma ShortcutIntent_reads [json_read]: "ShortcutIntent_from_json (ShortcutIntent_to_json x) pr_OK = Some (x, pr_OK)"
  unfolding ShortcutIntent_from_json_def new_ShortcutIntent_def
  by (rule from_json_result, simp only: ShortcutIntent_to_json_def [THEN find_in_object] json_read) simp

interpretation c_ShortcutIntent: json_coding ShortcutIntent_to_json ShortcutIntent_from_json "\<lambda>_. True" "\<lambda>x. x"
  by unfold_locales (simp only: ShortcutIntent_reads)

lemmas ShortcutIntent_parts [json_read] =
  c_ShortcutIntent.read_vector_ok [where at = AT_OBJECT, simplified] c_ShortcutIntent.reads_vector [simplified]
  c_ShortcutIntent.reads_map [simplified] c_ShortcutIntent.reads_vector_map [simplified]

definition wf_ShortcutInfo :: "shortcut_info \<Rightarrow> bool" where
  "wf_ShortcutInfo x \<longleftrightarrow> int32 (si_iconId x) \<and>
     int32 (si_labelId x)"

lemma ShortcutInfo_object [simp, json_read]: "has_type JT_OBJECT (ShortcutInfo_to_json x)"
  by (simp add: ShortcutInfo_to_json_def )

lemma ShortcutInfo_reads [json_read]: "wf_ShortcutInfo x \<Longrightarrow> ShortcutInfo_from_json (ShortcutInfo_to_json x) pr_OK = Some (x, pr_OK)"
  unfolding ShortcutInfo_from_json_def new_ShortcutInfo_def
  by (rule from_json_result, simp only: ShortcutInfo_to_json_def [THEN find_in_object] wf_ShortcutInfo_def json_read) simp

interpretation c_ShortcutInfo: json_coding ShortcutInfo_to_json ShortcutInfo_from_json wf_ShortcutInfo "\<lambda>x. x"
  by unfold_locales (simp only: ShortcutInfo_reads)

lemmas ShortcutInfo_parts [json_read] =
  c_ShortcutInfo.read_vector_ok [where at = AT_OBJECT, simplified] c_ShortcutInfo.reads_vector [simplified]
  c_ShortcutInfo.reads_map [simplified] c_ShortcutInfo.reads_vector_map [simplified]

definition wf_BundleUserInfo :: "bundle_user_info \<Rightarrow> bool" where
  "wf_BundleUserInfo x \<longleftrightarrow> int32 (bu_userId x)"

lemma BundleUserInfo_object [simp, json_read]: "has_type JT_OBJECT (BundleUserInfo_to_json x)"
  by (simp add: BundleUserInfo_to_json_def )

lemma BundleUserInfo_reads [json_read]: "wf_BundleUserInfo x \<Longrightarrow> BundleUserInfo_from_json (BundleUserInfo_to_json x) pr_OK = Some (x, pr_OK)"
  unfolding BundleUserInfo_from_json_def new_BundleUserInfo_def
  by (rule from_json_result, simp only: BundleUserInfo_to_json_def [THEN find_in_object] wf_BundleUserInfo_def json_read) simp

interpretation c_BundleUserInfo: json_coding BundleUserInfo_to_json BundleUserInfo_from_json wf_BundleUserInfo "\<lambda>x. x"
  by unfold_locales (simp only: BundleUserInfo_reads)

lemmas BundleUserInfo_parts [json_read] =
  c_BundleUserInfo.read_vector_ok [where at = AT_OBJECT, simplified] c_BundleUserInfo.reads_vector [simplified]
  c_BundleUserInfo.reads_map [simplified] c_BundleUserInfo.reads_vector_map [simplified]

end
