(* ===== verification/Json_Inner.thy ===== *)
theory Json_Inner
  imports Json_Pack Json_Base_Laws Inner_Bundle_Info
begin

text \<open>
  \<open>inner_bundle_info.cpp\<close>, \<open>inner_bundle_user_info.cpp\<close> and \<open>pre_install_bundle_info.cpp\<close>: what the bundle
  manager keeps in its data base for an installed bundle and for a preinstalled one, as JSON.
\<close>

section \<open>Parts of the information of a bundle\<close>

text \<open>Skills have no member initializers: their strings and vectors start empty.\<close>

definition new_SkillUri :: skill_uri where
  "new_SkillUri = \<lparr>su_scheme = [], su_host = [], su_port = [], su_path = [], su_pathStartWith = [], su_pathRegex = [], su_type = []\<rparr>"

definition new_Skill :: skill where
  "new_Skill = \<lparr>sk_actions = [], sk_entities = [], sk_uris = []\<rparr>"

definition AppType_values :: "(app_type \<times> int) list" where
  "AppType_values =
     [(AppType_SYSTEM_APP, 0), (AppType_THIRD_SYSTEM_APP, 1), (AppType_THIRD_PARTY_APP, 2)]"

definition AppType_to_json :: "app_type \<Rightarrow> json" where
  "AppType_to_json e = JNum (enum_value AppType_values e)"

definition BundleStatus_values :: "(bundle_status \<times> int) list" where
  "BundleStatus_values =
     [(BundleStatus_ENABLED, 1), (BundleStatus_DISABLED, 2)]"

definition BundleStatus_to_json :: "bundle_status \<Rightarrow> json" where
  "BundleStatus_to_json e = JNum (enum_value BundleStatus_values e)"

definition InnerBundleUserInfo_to_json :: "inner_bundle_user_info \<Rightarrow> json" where
  "InnerBundleUserInfo_to_json x = json_object [
     (''uid'', JNum (iu_uid x)),
     (''gids'', json_list JNum (iu_gids x)),
     (''accessTokenId'', json_u32 (iu_accessTokenId x)),
     (''bundleName'', JStr (iu_bundleName x)),
     (''installTime'', JNum (iu_installTime x)),
     (''updateTime'', JNum (iu_updateTime x)),
     (''bundleUserInfo'', BundleUserInfo_to_json (iu_bundleUserInfo x))]"

definition InnerBundleUserInfo_from_json :: "inner_bundle_user_info getter" where
  "InnerBundleUserInfo_from_json = from_json new_InnerBundleUserInfo [
     read_number get_int32 ''uid'' iu_uid_update False Local,
     read_array get_int32 AT_NUMBER ''gids'' iu_gids_update False Local,
     read_number get_uint32 ''accessTokenId'' iu_accessTokenId_update False Local,
     read_string ''bundleName'' iu_bundleName_update False Local,
     read_number get_int64 ''installTime'' iu_installTime_update False Local,
     read_number get_int64 ''updateTime'' iu_updateTime_update False Local,
     read_object BundleUserInfo_from_json ''bundleUserInfo'' iu_bundleUserInfo_update False Local]"

definition Distro_to_json :: "distro \<Rightarrow> json" where
  "Distro_to_json x = json_object [
     (''deliveryWithInstall'', JBool (di_deliveryWithInstall x)),
     (''moduleName'', JStr (di_moduleName x)),
     (''moduleType'', JStr (di_moduleType x)),
     (''installationFree'', JBool (di_installationFree x))]"

definition Distro_from_json :: "distro getter" where
  "Distro_from_json = from_json new_Distro [
     read_bool ''deliveryWithInstall'' di_deliveryWithInstall_update True Global,
     read_string ''moduleName'' di_moduleName_update True Global,
     read_string ''moduleType'' di_moduleType_update True Global,
     read_bool ''installationFree'' di_installationFree_update False Global]"

definition DefinePermission_to_json :: "define_permission \<Rightarrow> json" where
  "DefinePermission_to_json x = json_object [
     (''name'', JStr (dp_name x)),
     (''grantMode'', JStr (dp_grantMode x)),
     (''availableLevel'', JStr (dp_availableLevel x)),
     (''availableScope'', json_list JStr (dp_availableScope x)),
     (''provisionEnable'', JBool (dp_provisionEnable x)),
     (''distributedSceneEnable'', JBool (dp_distributedSceneEnable x)),
     (''label'', JStr (dp_label x)),
     (''labelId'', JNum (dp_labelId x)),
     (''description'', JStr (dp_description x)),
     (''descriptionId'', JNum (dp_descriptionId x))]"

definition DefinePermission_from_json :: "define_permission getter" where
  "DefinePermission_from_json = from_json new_DefinePermission [
     read_string ''name'' dp_name_update False Local,
     read_string ''grantMode'' dp_grantMode_update False Local,
     read_string ''availableLevel'' dp_availableLevel_update False Local,
     read_array get_string AT_STRING ''availableScope'' dp_availableScope_update False Global,
     read_bool ''provisionEnable'' dp_provisionEnable_update False Local,
     read_bool ''distributedSceneEnable'' dp_distributedSceneEnable_update False Local,
     read_string ''label'' dp_label_update False Local,
     read_number get_int32 ''labelId'' dp_labelId_update False Local,
     read_string ''description'' dp_description_update False Local,
     read_number get_int32 ''descriptionId'' dp_descriptionId_update False Local]"

definition InnerModuleInfo_to_json :: "inner_module_info \<Rightarrow> json" where
  "InnerModuleInfo_to_json x = json_object [
     (''modulePackage'', JStr (im_modulePackage x)),
     (''moduleName'', JStr (im_moduleName x)),
     (''modulePath'', JStr (im_modulePath x)),
     (''moduleDataDir'', JStr (im_moduleDataDir x)),
     (''moduleResPath'', JStr (im_moduleResPath x)),
     (''isEntry'', JBool (im_isEntry x)),
     (''metaData'', MetaData_to_json (im_metaData x)),
     (''colorMode'', ModuleColorMode_to_json (im_colorMode x)),
     (''distro'', Distro_to_json (im_distro x)),
     (''description'', JStr (im_description x)),
     (''descriptionId'', JNum (im_descriptionId x)),
     (''label'', JStr (im_label x)),
     (''labelId'', JNum (im_labelId x)),
     (''installationFree'', JBool (im_installationFree x)),
     (''isRemovable'', json_map JBool (im_isRemovable x)),
     (''upgradeFlag'', JNum (im_upgradeFlag x)),
     (''reqCapabilities'', json_list JStr (im_reqCapabilities x)),
     (''abilityKeys'', json_list JStr (im_abilityKeys x)),
     (''skillKeys'', json_list JStr (im_skillKeys x)),
     (''mainAbility'', JStr (im_mainAbility x)),
     (''entryAbilityKey'', JStr (im_entryAbilityKey x)),
     (''srcPath'', JStr (im_srcPath x)),
     (''hashValue'', JStr (im_hashValue x)),
     (''process'', JStr (im_process x)),
     (''srcEntrance'', JStr (im_srcEntrance x)),
     (''deviceTypes'', json_list JStr (im_deviceTypes x)),
     (''virtualMachine'', JStr (im_virtualMachine x)),
     (''uiSyntax'', JStr (im_uiSyntax x)),
     (''pages'', JStr (im_pages x)),
     (''metadata'', json_list Metadata_to_json (im_metadata x)),
     (''requestPermissions'', json_list RequestPermission_to_json (im_requestPermissions x)),
     (''definePermissions'', json_list DefinePermission_to_json (im_definePermissions x)),
     (''defPermissions'', json_list DefinePermission_to_json (im_defPermissions x)),
     (''extensionKeys'', json_list JStr (im_extensionKeys x)),
     (''extensionSkillKeys'', json_list JStr (im_extensionSkillKeys x)),
     (''isModuleJson'', JBool (im_isModuleJson x)),
     (''isStageBasedModel'', JBool (im_isStageBasedModel x)),
     (''dependencies'', json_list JStr (im_dependencies x)),
     (''hapPath'', JStr (im_hapPath x))]"

definition InnerModuleInfo_members_1 :: "inner_module_info step list" where
  "InnerModuleInfo_members_1 = [
     read_string ''modulePackage'' im_modulePackage_update False Global,
     read_string ''moduleName'' im_moduleName_update False Global,
     read_string ''modulePath'' im_modulePath_update False Global,
     read_string ''moduleDataDir'' im_moduleDataDir_update False Global,
     read_string ''hapPath'' im_hapPath_update False Global,
     read_string ''moduleResPath'' im_moduleResPath_update False Global,
     read_bool ''isEntry'' im_isEntry_update False Global,
     read_object MetaData_from_json ''metaData'' im_metaData_update False Global,
     read_number (get_enum ModuleColorMode_values) ''colorMode'' im_colorMode_update False Global,
     read_object Distro_from_json ''distro'' im_distro_update False Global,
     read_string ''description'' im_description_update False Global,
     read_number get_int32 ''descriptionId'' im_descriptionId_update False Global,
     read_string ''label'' im_label_update False Global,
     read_number get_int32 ''labelId'' im_labelId_update False Global,
     read_string ''mainAbility'' im_mainAbility_update False Global,
     read_string ''entryAbilityKey'' im_entryAbilityKey_update False Global,
     read_string ''srcPath'' im_srcPath_update False Global]"

definition InnerModuleInfo_members_2 :: "inner_module_info step list" where
  "InnerModuleInfo_members_2 = [
     read_string ''hashValue'' im_hashValue_update False Global,
     read_bool ''installationFree'' im_installationFree_update False Global,
     read_object (get_map get_bool) ''isRemovable'' im_isRemovable_update False Global,
     read_number get_int32 ''upgradeFlag'' im_upgradeFlag_update False Global,
     read_array get_string AT_STRING ''reqCapabilities'' im_reqCapabilities_update False Global,
     read_array get_string AT_STRING ''abilityKeys'' im_abilityKeys_update False Global,
     read_array get_string AT_STRING ''skillKeys'' im_skillKeys_update False Global,
     read_string ''process'' im_process_update False Local,
     read_string ''srcEntrance'' im_srcEntrance_update False Local,
     read_array get_string AT_STRING ''deviceTypes'' im_deviceTypes_update False Local,
     read_string ''virtualMachine'' im_virtualMachine_update False Local,
     read_string ''uiSyntax'' im_uiSyntax_update False Local,
     read_string ''pages'' im_pages_update False Local,
     read_array Metadata_from_json AT_OBJECT ''metadata'' im_metadata_update False Local,
     read_array RequestPermission_from_json AT_OBJECT ''requestPermissions'' im_requestPermissions_update False Local,
     read_array DefinePermission_from_json AT_OBJECT ''definePermissions'' im_definePermissions_update False Local,
     read_array DefinePermission_from_json AT_OBJECT ''defPermissions'' im_defPermissions_update False Global]"

definition InnerModuleInfo_members_3 :: "inner_module_info step list" where
  "InnerModuleInfo_members_3 = [
     read_array get_string AT_STRING ''extensionKeys'' im_extensionKeys_update False Local,
     read_array get_string AT_STRING ''extensionSkillKeys'' im_extensionSkillKeys_update False Local,
     read_bool ''isModuleJson'' im_isModuleJson_update False Local,
     read_bool ''isStageBasedModel'' im_isStageBasedModel_update False Local,
     read_array get_string AT_STRING ''dependencies'' im_dependencies_update False Global]"

definition InnerModuleInfo_from_json :: "inner_module_info getter" where
  "InnerModuleInfo_from_json = from_json new_InnerModuleInfo (InnerModuleInfo_members_1 @ InnerModuleInfo_members_2 @ InnerModuleInfo_members_3)"

definition SkillUri_to_json :: "skill_uri \<Rightarrow> json" where
  "SkillUri_to_json x = json_object [
     (''scheme'', JStr (su_scheme x)),
     (''host'', JStr (su_host x)),
     (''port'', JStr (su_port x)),
     (''path'', JStr (su_path x)),
     (''pathStartWith'', JStr (su_pathStartWith x)),
     (''pathRegex'', JStr (su_pathRegex x)),
     (''type'', JStr (su_type x))]"

definition SkillUri_from_json :: "skill_uri getter" where
  "SkillUri_from_json = from_json new_SkillUri [
     read_string ''scheme'' su_scheme_update False Global,
     read_string ''host'' su_host_update False Global,
     read_string ''port'' su_port_update False Global,
     read_string ''path'' su_path_update False Global,
     read_string ''pathStartWith'' su_pathStartWith_update False Global,
     read_string ''pathRegx'' su_pathRegex_update False Global,
     read_string ''pathRegex'' su_pathRegex_update False Global,
     read_string ''type'' su_type_update False Global]"

definition Skill_to_json :: "skill \<Rightarrow> json" where
  "Skill_to_json x = json_object [
     (''actions'', json_list JStr (sk_actions x)),
     (''entities'', json_list JStr (sk_entities x)),
     (''uris'', json_list SkillUri_to_json (sk_uris x))]"

definition Skill_from_json :: "skill getter" where
  "Skill_from_json = from_json new_Skill [
     read_array get_string AT_STRING ''actions'' sk_actions_update False Global,
     read_array get_string AT_STRING ''entities'' sk_entities_update False Global,
     read_array SkillUri_from_json AT_OBJECT ''uris'' sk_uris_update False Global]"

definition InstallMark_to_json :: "install_mark \<Rightarrow> json" where
  "InstallMark_to_json x = json_object [
     (''installMarkBundle'', JStr (mk_bundleName x)),
     (''installMarkPackage'', JStr (mk_packageName x)),
     (''installMarkStatus'', JNum (mk_status x))]"

definition InstallMark_from_json :: "install_mark getter" where
  "InstallMark_from_json = from_json new_InstallMark [
     read_string ''installMarkBundle'' mk_bundleName_update False Global,
     read_string ''installMarkPackage'' mk_packageName_update False Global,
     read_number get_int32 ''installMarkStatus'' mk_status_update False Global]"

definition SandboxAppPersistentInfo_to_json :: "sandbox_app_persistent_info \<Rightarrow> json" where
  "SandboxAppPersistentInfo_to_json x = json_object [
     (''accessTokenId'', json_u32 (sp_accessTokenId x)),
     (''appIndex'', JNum (sp_appIndex x)),
     (''userId'', JNum (sp_userId x))]"

definition SandboxAppPersistentInfo_from_json :: "sandbox_app_persistent_info getter" where
  "SandboxAppPersistentInfo_from_json = from_json new_SandboxAppPersistentInfo [
     read_number get_uint32 ''accessTokenId'' sp_accessTokenId_update False Global,
     read_number get_int32 ''appIndex'' sp_appIndex_update False Global,
     read_number get_int32 ''userId'' sp_userId_update False Global]"

section \<open>The information of a bundle\<close>

text \<open>
  \<open>InnerBundleInfo::FromJson\<close> reads the members in two groups. The first group reports to the thread-local
  result, except for the user information, whose absence marks an old data base. Then the thread-local
  result is reset and the second group reports to a local result, except for its last three members.
\<close>

definition InnerBundleInfo_ToJson :: "inner_bundle_info \<Rightarrow> json" where
  "InnerBundleInfo_ToJson i = json_assign_all [
     (''appType'', AppType_to_json (ib_appType i)),
     (''baseDataDir'', JStr (ib_baseDataDir i)),
     (''bundleStatus'', BundleStatus_to_json (ib_bundleStatus i)),
     (''allowedAcls'', json_list JStr (ib_allowedAcls i)),
     (''baseApplicationInfo'', ApplicationInfo_to_json (ib_baseApplicationInfo i)),
     (''baseBundleInfo'', BundleInfo_to_json (ib_baseBundleInfo i)),
     (''baseAbilityInfos'', json_map AbilityInfo_to_json (ib_baseAbilityInfos i)),
     (''innerModuleInfos'', json_map InnerModuleInfo_to_json (ib_innerModuleInfos i)),
     (''skillInfos'', json_map (json_list Skill_to_json) (ib_skillInfos i)),
     (''userId_'', JNum (ib_userId i)),
     (''appFeature'', JStr (ib_appFeature i)),
     (''formInfos'', json_map (json_list FormInfo_to_json) (ib_formInfos i)),
     (''shortcutInfos'', json_map ShortcutInfo_to_json (ib_shortcutInfos i)),
     (''newBundleName'', JStr (ib_newBundleName i)),
     (''commonEvents'', json_map CommonEventInfo_to_json (ib_commonEvents i)),
     (''installMark'', InstallMark_to_json (ib_mark i)),
     (''innerBundleUserInfos'', json_map InnerBundleUserInfo_to_json (ib_innerBundleUserInfos i)),
     (''isNewVersion'', JBool (ib_isNewVersion i)),
     (''upgradeFlag'', JNum (ib_upgradeFlag i)),
     (''baseExtensionInfos'', json_map ExtensionAbilityInfo_to_json (ib_baseExtensionInfos i)),
     (''extensionSkillInfos'', json_map (json_list Skill_to_json) (ib_extensionSkillInfos i)),
     (''bundlePackInfo'', BundlePackInfo_to_json (ib_bundlePackInfo i)),
     (''appIndex'', JNum (ib_appIndex i)),
     (''isSandboxApp'', JBool (ib_isSandboxApp i)),
     (''sandboxPersistentInfo'', json_list SandboxAppPersistentInfo_to_json (ib_sandboxPersistentInfo i))]"

definition InnerBundleInfo_members_1 :: "inner_bundle_info step list" where
  "InnerBundleInfo_members_1 = [
     read_number (get_enum AppType_values) ''appType'' ib_appType_update True Global,
     read_number get_int32 ''uid'' ib_uid_update False Global,
     read_number get_int32 ''gid'' ib_gid_update False Global,
     read_array get_string AT_STRING ''allowedAcls'' ib_allowedAcls_update False Global,
     read_string ''baseDataDir'' ib_baseDataDir_update True Global,
     read_number (get_enum BundleStatus_values) ''bundleStatus'' ib_bundleStatus_update True Global,
     read_object BundleInfo_from_json ''baseBundleInfo'' ib_baseBundleInfo_update True Global,
     read_object ApplicationInfo_from_json ''baseApplicationInfo'' ib_baseApplicationInfo_update True Global,
     read_object (get_map AbilityInfo_from_json) ''baseAbilityInfos'' ib_baseAbilityInfos_update True Global,
     read_object (get_map InnerModuleInfo_from_json) ''innerModuleInfos'' ib_innerModuleInfos_update True Global,
     read_object (get_map (get_vector Skill_from_json)) ''skillInfos'' ib_skillInfos_update True Global,
     read_number get_int32 ''userId_'' ib_userId_update True Global,
     read_string ''appFeature'' ib_appFeature_update True Global,
     read_object (get_map (get_vector FormInfo_from_json)) ''formInfos'' ib_formInfos_update True Global,
     read_object (get_map ShortcutInfo_from_json) ''shortcutInfos'' ib_shortcutInfos_update True Global,
     read_object (get_map CommonEventInfo_from_json) ''commonEvents'' ib_commonEvents_update True Global,
     read_string ''newBundleName'' ib_newBundleName_update True Global]"

definition InnerBundleInfo_members_2 :: "inner_bundle_info step list" where
  "InnerBundleInfo_members_2 = [
     read_object InstallMark_from_json ''installMark'' ib_mark_update False Global,
     read_object (get_map InnerBundleUserInfo_from_json) ''innerBundleUserInfos'' ib_innerBundleUserInfos_update True Local]"

definition InnerBundleInfo_members_3 :: "inner_bundle_info step list" where
  "InnerBundleInfo_members_3 = [
     read_bool ''isNewVersion'' ib_isNewVersion_update False Local,
     read_number get_int32 ''upgradeFlag'' ib_upgradeFlag_update False Local,
     read_object (get_map ExtensionAbilityInfo_from_json) ''baseExtensionInfos'' ib_baseExtensionInfos_update False Local,
     read_object (get_map (get_vector Skill_from_json)) ''extensionSkillInfos'' ib_extensionSkillInfos_update False Local,
     read_object BundlePackInfo_from_json ''bundlePackInfo'' ib_bundlePackInfo_update False Local,
     read_number get_int32 ''appIndex'' ib_appIndex_update False Global,
     read_bool ''isSandboxApp'' ib_isSandboxApp_update False Global,
     read_array SandboxAppPersistentInfo_from_json AT_OBJECT ''sandboxPersistentInfo'' ib_sandboxPersistentInfo_update False Global]"

definition BuildDefaultUserInfo :: "inner_bundle_info \<Rightarrow> inner_bundle_info" where
  "BuildDefaultUserInfo i =
     (let u = new_InnerBundleUserInfo in
      AddInnerBundleUserInfo (u\<lparr>
        iu_bundleUserInfo := (iu_bundleUserInfo u)\<lparr>bu_userId := ib_userId i, bu_enabled := app_enabled (ib_baseApplicationInfo i)\<rparr>,
        iu_uid := ib_uid i,
        iu_gids := iu_gids u @ [ib_gid i],
        iu_installTime := bi_installTime (ib_baseBundleInfo i),
        iu_updateTime := bi_updateTime (ib_baseBundleInfo i),
        iu_bundleName := app_bundleName (ib_baseApplicationInfo i)\<rparr>) i)"

text \<open>The result code, the information and the thread-local result; \<open>None\<close> when the library throws.\<close>

definition InnerBundleInfo_FromJson ::
  "json \<Rightarrow> inner_bundle_info \<Rightarrow> parse_result \<Rightarrow> (parse_result \<times> inner_bundle_info \<times> parse_result) option" where
  "InnerBundleInfo_FromJson j i g =
     (case run_steps (InnerBundleInfo_members_1 @ InnerBundleInfo_members_2) j (i, \<lparr>ps_local = pr_OK, ps_global = g\<rparr>) of
        None \<Rightarrow> None
      | Some (i1, st1) \<Rightarrow>
          (let ret = ps_global st1;
               isOldVersion = ps_local st1;
               i2 = (if ret = pr_OK \<and> isOldVersion = MISSING_PROP then BuildDefaultUserInfo i1 else i1)
           in case run_steps InnerBundleInfo_members_3 j (i2, \<lparr>ps_local = pr_OK, ps_global = pr_OK\<rparr>) of
                None \<Rightarrow> None
              | Some (i3, st3) \<Rightarrow> Some (if ps_local st3 \<noteq> pr_OK then ps_local st3 else ret, i3, ps_global st3)))"

section \<open>Preinstalled bundles\<close>

definition PreInstallBundleInfo_ToJson :: "pre_install_bundle_info \<Rightarrow> json" where
  "PreInstallBundleInfo_ToJson x = json_assign_all [
     (''bundleName'', JStr (pi_bundleName x)),
     (''versionCode'', json_u32 (pi_versionCode x)),
     (''bundlePaths'', json_list JStr (pi_bundlePaths x)),
     (''appType'', AppType_to_json (pi_appType x))]"

definition PreInstallBundleInfo_members :: "pre_install_bundle_info step list" where
  "PreInstallBundleInfo_members = [
     read_string ''bundleName'' pi_bundleName_update True Global,
     read_number get_uint32 ''versionCode'' pi_versionCode_update True Global,
     read_array get_string AT_STRING ''bundlePaths'' pi_bundlePaths_update True Global,
     read_number (get_enum AppType_values) ''appType'' pi_appType_update False Global]"

definition PreInstallBundleInfo_FromJson ::
  "json \<Rightarrow> pre_install_bundle_info \<Rightarrow> parse_result \<Rightarrow> (parse_result \<times> pre_install_bundle_info \<times> parse_result) option" where
  "PreInstallBundleInfo_FromJson j x g =
     (case run_steps PreInstallBundleInfo_members j (x, \<lparr>ps_local = pr_OK, ps_global = g\<rparr>) of
        None \<Rightarrow> None
      | Some (x1, st1) \<Rightarrow> Some (ps_global st1, x1, pr_OK))"

end
