(* ===== verification/Json_Inner_Laws.thy ===== *)
theory Json_Inner_Laws
  imports Json_Inner
begin

text \<open>
  Round trips of the information that is kept in the data base, and what an error while reading one bundle
  does to the next one.
\<close>

section \<open>Parts\<close>

lemma AppType_reads [json_read]: "get_enum AppType_values (JNum (enum_value AppType_values e)) g = Some (e, g)"
  by (rule get_enum_num) (cases e; simp add: enum_value_def enum_of_def AppType_values_def)

lemma BundleStatus_reads [json_read]: "get_enum BundleStatus_values (JNum (enum_value BundleStatus_values e)) g = Some (e, g)"
  by (rule get_enum_num) (cases e; simp add: enum_value_def enum_of_def BundleStatus_values_def)

definition wf_InnerBundleUserInfo :: "inner_bundle_user_info \<Rightarrow> bool" where
  "wf_InnerBundleUserInfo x \<longleftrightarrow> int32 (iu_uid x) \<and>
     list_all int32 (iu_gids x) \<and>
     int64 (iu_installTime x) \<and>
     int64 (iu_updateTime x) \<and>
     wf_BundleUserInfo (iu_bundleUserInfo x)"

lemma InnerBundleUserInfo_object [simp, json_read]: "has_type JT_OBJECT (InnerBundleUserInfo_to_json x)"
  by (simp add: InnerBundleUserInfo_to_json_def )

lemma InnerBundleUserInfo_reads [json_read]: "wf_InnerBundleUserInfo x \<Longrightarrow> InnerBundleUserInfo_from_json (InnerBundleUserInfo_to_json x) pr_OK = Some (x, pr_OK)"
  unfolding InnerBundleUserInfo_from_json_def new_InnerBundleUserInfo_def
  by (rule from_json_result, simp only: InnerBundleUserInfo_to_json_def [THEN find_in_object] wf_InnerBundleUserInfo_def json_u32_def json_read) simp

interpretation c_InnerBundleUserInfo: json_coding InnerBundleUserInfo_to_json InnerBundleUserInfo_from_json wf_InnerBundleUserInfo "\<lambda>x. x"
  by unfold_locales (simp only: InnerBundleUserInfo_reads)

lemmas InnerBundleUserInfo_parts [json_read] =
  c_InnerBundleUserInfo.read_vector_ok [where at = AT_OBJECT, simplified] c_InnerBundleUserInfo.reads_vector [simplified]
  c_InnerBundleUserInfo.reads_map [simplified] c_InnerBundleUserInfo.reads_vector_map [simplified]

lemma Distro_object [simp, json_read]: "has_type JT_OBJECT (Distro_to_json x)"
  by (simp add: Distro_to_json_def )

lemma Distro_reads [json_read]: "Distro_from_json (Distro_to_json x) pr_OK = Some (x, pr_OK)"
  unfolding Distro_from_json_def new_Distro_def
  by (rule from_json_result, simp only: Distro_to_json_def [THEN find_in_object] json_read) simp

interpretation c_Distro: json_coding Distro_to_json Distro_from_json "\<lambda>_. True" "\<lambda>x. x"
  by unfold_locales (simp only: Distro_reads)

lemmas Distro_parts [json_read] =
  c_Distro.read_vector_ok [where at = AT_OBJECT, simplified] c_Distro.reads_vector [simplified]
  c_Distro.reads_map [simplified] c_Distro.reads_vector_map [simplified]

definition wf_DefinePermission :: "define_permission \<Rightarrow> bool" where
  "wf_DefinePermission x \<longleftrightarrow> int32 (dp_labelId x) \<and>
     int32 (dp_descriptionId x)"

lemma DefinePermission_object [simp, json_read]: "has_type JT_OBJECT (DefinePermission_to_json x)"
  by (simp add: DefinePermission_to_json_def )

lemma DefinePermission_reads [json_read]: "wf_DefinePermission x \<Longrightarrow> DefinePermission_from_json (DefinePermission_to_json x) pr_OK = Some (x, pr_OK)"
  unfolding DefinePermission_from_json_def new_DefinePermission_def
  by (rule from_json_result, simp only: DefinePermission_to_json_def [THEN find_in_object] wf_DefinePermission_def json_read) simp

interpretation c_DefinePermission: json_coding DefinePermission_to_json DefinePermission_from_json wf_DefinePermission "\<lambda>x. x"
  by unfold_locales (simp only: DefinePermission_reads)

lemmas DefinePermission_parts [json_read] =
  c_DefinePermission.read_vector_ok [where at = AT_OBJECT, simplified] c_DefinePermission.reads_vector [simplified]
  c_DefinePermission.reads_map [simplified] c_DefinePermission.reads_vector_map [simplified]

definition wf_InnerModuleInfo :: "inner_module_info \<Rightarrow> bool" where
  "wf_InnerModuleInfo x \<longleftrightarrow> int32 (im_descriptionId x) \<and>
     int32 (im_labelId x) \<and>
     sm_inv (im_isRemovable x) \<and>
     int32 (im_upgradeFlag x) \<and>
     list_all wf_RequestPermission (im_requestPermissions x) \<and>
     list_all wf_DefinePermission (im_definePermissions x) \<and>
     list_all wf_DefinePermission (im_defPermissions x)"

lemma InnerModuleInfo_object [simp, json_read]: "has_type JT_OBJECT (InnerModuleInfo_to_json x)"
  by (simp add: InnerModuleInfo_to_json_def )

lemma InnerModuleInfo_reads [json_read]: "wf_InnerModuleInfo x \<Longrightarrow> InnerModuleInfo_from_json (InnerModuleInfo_to_json x) pr_OK = Some (x, pr_OK)"
  unfolding InnerModuleInfo_from_json_def InnerModuleInfo_members_1_def InnerModuleInfo_members_2_def InnerModuleInfo_members_3_def new_InnerModuleInfo_def
  by (rule from_json_result, simp only: InnerModuleInfo_to_json_def [THEN find_in_object] wf_InnerModuleInfo_def ModuleColorMode_to_json_def json_read) simp

interpretation c_InnerModuleInfo: json_coding InnerModuleInfo_to_json InnerModuleInfo_from_json wf_InnerModuleInfo "\<lambda>x. x"
  by unfold_locales (simp only: InnerModuleInfo_reads)

lemmas InnerModuleInfo_parts [json_read] =
  c_InnerModuleInfo.read_vector_ok [where at = AT_OBJECT, simplified] c_InnerModuleInfo.reads_vector [simplified]
  c_InnerModuleInfo.reads_map [simplified] c_InnerModuleInfo.reads_vector_map [simplified]

lemma SkillUri_object [simp, json_read]: "has_type JT_OBJECT (SkillUri_to_json x)"
  by (simp add: SkillUri_to_json_def )

lemma SkillUri_reads [json_read]: "SkillUri_from_json (SkillUri_to_json x) pr_OK = Some (x, pr_OK)"
  unfolding SkillUri_from_json_def new_SkillUri_def
  by (rule from_json_result, simp only: SkillUri_to_json_def [THEN find_in_object] json_read) simp

interpretation c_SkillUri: json_coding SkillUri_to_json SkillUri_from_json "\<lambda>_. True" "\<lambda>x. x"
  by unfold_locales (simp only: SkillUri_reads)

lemmas SkillUri_parts [json_read] =
  c_SkillUri.read_vector_ok [where at = AT_OBJECT, simplified] c_SkillUri.reads_vector [simplified]
  c_SkillUri.reads_map [simplified] c_SkillUri.reads_vector_map [simplified]

lemma Skill_object [simp, json_read]: "has_type JT_OBJECT (Skill_to_json x)"
  by (simp add: Skill_to_json_def )

lemma Skill_reads [json_read]: "Skill_from_json (Skill_to_json x) pr_OK = Some (x, pr_OK)"
  unfolding Skill_from_json_def new_Skill_def
  by (rule from_json_result, simp only: Skill_to_json_def [THEN find_in_object] json_read) simp

interpretation c_Skill: json_coding Skill_to_json Skill_from_json "\<lambda>_. True" "\<lambda>x. x"
  by unfold_locales (simp only: Skill_reads)

lemmas Skill_parts [json_read] =
  c_Skill.read_vector_ok [where at = AT_OBJECT, simplified] c_Skill.reads_vector [simplified]
  c_Skill.reads_map [simplified] c_Skill.reads_vector_map [simplified]

definition wf_InstallMark :: "install_mark \<Rightarrow> bool" where
  "wf_InstallMark x \<longleftrightarrow> int32 (mk_status x)"

lemma InstallMark_object [simp, json_read]: "has_type JT_OBJECT (InstallMark_to_json x)"
  by (simp add: InstallMark_to_json_def )

lemma InstallMark_reads [json_read]: "wf_InstallMark x \<Longrightarrow> InstallMark_from_json (InstallMark_to_json x) pr_OK = Some (x, pr_OK)"
  unfolding InstallMark_from_json_def new_InstallMark_def
  by (rule from_json_result, simp only: InstallMark_to_json_def [THEN find_in_object] wf_InstallMark_def json_read) simp

interpretation c_InstallMark: json_coding InstallMark_to_json InstallMark_from_json wf_InstallMark "\<lambda>x. x"
  by unfold_locales (simp only: InstallMark_reads)

lemmas InstallMark_parts [json_read] =
  c_InstallMark.read_vector_ok [where at = AT_OBJECT, simplified] c_InstallMark.reads_vector [simplified]
  c_InstallMark.reads_map [simplified] c_InstallMark.reads_vector_map [simplified]

definition wf_SandboxAppPersistentInfo :: "sandbox_app_persistent_info \<Rightarrow> bool" where
  "wf_SandboxAppPersistentInfo x \<longleftrightarrow> int32 (sp_appIndex x) \<and>
     int32 (sp_userId x)"

lemma SandboxAppPersistentInfo_object [simp, json_read]: "has_type JT_OBJECT (SandboxAppPersistentInfo_to_json x)"
  by (simp add: SandboxAppPersistentInfo_to_json_def )

lemma SandboxAppPersistentInfo_reads [json_read]: "wf_SandboxAppPersistentInfo x \<Longrightarrow> SandboxAppPersistentInfo_from_json (SandboxAppPersistentInfo_to_json x) pr_OK = Some (x, pr_OK)"
  unfolding SandboxAppPersistentInfo_from_json_def new_SandboxAppPersistentInfo_def
  by (rule from_json_result, simp only: SandboxAppPersistentInfo_to_json_def [THEN find_in_object] wf_SandboxAppPersistentInfo_def json_u32_def json_read) simp

interpretation c_SandboxAppPersistentInfo: json_coding SandboxAppPersistentInfo_to_json SandboxAppPersistentInfo_from_json wf_SandboxAppPersistentInfo "\<lambda>x. x"
  by unfold_locales (simp only: SandboxAppPersistentInfo_reads)

lemmas SandboxAppPersistentInfo_parts [json_read] =
  c_SandboxAppPersistentInfo.read_vector_ok [where at = AT_OBJECT, simplified] c_SandboxAppPersistentInfo.reads_vector [simplified]
  c_SandboxAppPersistentInfo.reads_map [simplified] c_SandboxAppPersistentInfo.reads_vector_map [simplified]

section \<open>The information of a bundle\<close>

definition wf_InnerBundleInfo :: "inner_bundle_info \<Rightarrow> bool" where
  "wf_InnerBundleInfo x \<longleftrightarrow> wf_BundleInfo (ib_baseBundleInfo x) \<and>
     wf_ApplicationInfo (ib_baseApplicationInfo x) \<and>
     json_wf_map wf_AbilityInfo (ib_baseAbilityInfos x) \<and>
     json_wf_map wf_InnerModuleInfo (ib_innerModuleInfos x) \<and>
     sm_inv (ib_skillInfos x) \<and>
     int32 (ib_userId x) \<and>
     json_wf_map (list_all wf_FormInfo) (ib_formInfos x) \<and>
     json_wf_map wf_ShortcutInfo (ib_shortcutInfos x) \<and>
     json_wf_map wf_CommonEventInfo (ib_commonEvents x) \<and>
     wf_InstallMark (ib_mark x) \<and>
     json_wf_map wf_InnerBundleUserInfo (ib_innerBundleUserInfos x) \<and>
     int32 (ib_upgradeFlag x) \<and>
     json_wf_map wf_ExtensionAbilityInfo (ib_baseExtensionInfos x) \<and>
     sm_inv (ib_extensionSkillInfos x) \<and>
     int32 (ib_appIndex x) \<and>
     list_all wf_SandboxAppPersistentInfo (ib_sandboxPersistentInfo x)"

definition kept_InnerBundleInfo :: "inner_bundle_info \<Rightarrow> inner_bundle_info" where
  "kept_InnerBundleInfo x = x\<lparr>ib_uid := ib_uid new_InnerBundleInfo,
     ib_gid := ib_gid new_InnerBundleInfo,
     ib_baseBundleInfo := kept_BundleInfo (ib_baseBundleInfo x),
     ib_currentPackage := ib_currentPackage new_InnerBundleInfo,
     ib_onlyCreateBundleUser := ib_onlyCreateBundleUser new_InnerBundleInfo,
     ib_baseAbilityInfos := map (\<lambda>(k, v). (k, kept_AbilityInfo v)) (ib_baseAbilityInfos x),
     ib_bundlePackInfo := kept_BundlePackInfo (ib_bundlePackInfo x)\<rparr>"

lemma kept_BundleName [simp]:
  "GetBundleName (kept_InnerBundleInfo x) = GetBundleName x"
  by (simp add: GetBundleName_def kept_InnerBundleInfo_def)

lemmas InnerBundleInfo_find = InnerBundleInfo_ToJson_def [THEN find_in_assign]

text \<open>The first group does not read \<open>appIndex\<close>.\<close>

lemma InnerBundleInfo_first_members:
  assumes "wf_InnerBundleInfo x"
    and same: "\<And>key. key \<noteq> ''appIndex'' \<Longrightarrow> obj_find j key = obj_find (InnerBundleInfo_ToJson x) key"
  shows "run_steps (InnerBundleInfo_members_1 @ InnerBundleInfo_members_2) j (new_InnerBundleInfo, no_error) =
    Some ((kept_InnerBundleInfo x)\<lparr>
      ib_bundlePackInfo := new_BundlePackInfo, ib_isNewVersion := False, ib_upgradeFlag := 0, ib_baseExtensionInfos := [],
      ib_extensionSkillInfos := [], ib_appIndex := INITIAL_APP_INDEX, ib_isSandboxApp := False, ib_sandboxPersistentInfo := []\<rparr>, no_error)"
  using assms(1) unfolding InnerBundleInfo_members_1_def InnerBundleInfo_members_2_def new_InnerBundleInfo_def kept_InnerBundleInfo_def
  by (simp only: same InnerBundleInfo_find wf_InnerBundleInfo_def AppType_to_json_def BundleStatus_to_json_def json_read) simp

lemma InnerBundleInfo_last_members:
  assumes "wf_InnerBundleInfo x" "ib_sandboxPersistentInfo i = []"
  shows "run_steps InnerBundleInfo_members_3 (InnerBundleInfo_ToJson x) (i, no_error) =
    Some (i\<lparr>
      ib_bundlePackInfo := kept_BundlePackInfo (ib_bundlePackInfo x), ib_isNewVersion := ib_isNewVersion x,
      ib_upgradeFlag := ib_upgradeFlag x, ib_baseExtensionInfos := ib_baseExtensionInfos x,
      ib_extensionSkillInfos := ib_extensionSkillInfos x, ib_appIndex := ib_appIndex x,
      ib_isSandboxApp := ib_isSandboxApp x, ib_sandboxPersistentInfo := ib_sandboxPersistentInfo x\<rparr>, no_error)"
  using assms unfolding InnerBundleInfo_members_3_def
  by (cases i) (simp only: InnerBundleInfo_find wf_InnerBundleInfo_def inner_bundle_info.simps json_read)

lemma written_info_reads:
  "wf_InnerBundleInfo x \<Longrightarrow>
     InnerBundleInfo_FromJson (InnerBundleInfo_ToJson x) new_InnerBundleInfo pr_OK = Some (pr_OK, kept_InnerBundleInfo x, pr_OK)"
  by (simp add: InnerBundleInfo_FromJson_def InnerBundleInfo_first_members InnerBundleInfo_last_members
      kept_InnerBundleInfo_def Let_def del: run_steps_append)

text \<open>
  C27: The information of a bundle is read back as it was written: \<open>FromJson (ToJson x)\<close> succeeds and gives
  every member of \<open>x\<close> except those that are not stored, for every information whose numbers are in the
  range of their C++ types and whose maps are sorted.
\<close>

theorem InnerBundleInfo_reads:
  "wf_InnerBundleInfo x \<Longrightarrow>
     InnerBundleInfo_FromJson (InnerBundleInfo_ToJson x) new_InnerBundleInfo pr_OK = Some (pr_OK, kept_InnerBundleInfo x, pr_OK)"
  by (rule written_info_reads)

text \<open>A bundle with a module, an ability with a skill, and a user.\<close>

definition stored_demo :: inner_bundle_info where
  "stored_demo = new_InnerBundleInfo\<lparr>
     ib_baseApplicationInfo := new_ApplicationInfo\<lparr>app_bundleName := ''com.demo'', app_iconId := 7\<rparr>,
     ib_innerModuleInfos := [(''entry'', new_InnerModuleInfo\<lparr>im_modulePackage := ''entry'', im_labelId := 3\<rparr>)],
     ib_baseAbilityInfos := [(''com.demo.entry.Main'', new_AbilityInfo\<lparr>ai_name := ''Main''\<rparr>)],
     ib_skillInfos := [(''com.demo.entry.Main'', [new_Skill\<lparr>sk_actions := [''action.system.home'']\<rparr>])],
     ib_innerBundleUserInfos := [(''com.demo_100'', new_InnerBundleUserInfo\<lparr>iu_uid := 20010034, iu_gids := [20010034]\<rparr>)],
     ib_appIndex := 2\<rparr>"

lemmas start_numbers = int32_def int64_def INVALID_USERID_def INVALID_UID_def INVALID_GID_def DEFAULT_USERID_def
  UNKNOWN_STATUS_def INITIAL_APP_INDEX_def

lemma new_parts_wf:
  "wf_ApplicationInfo new_ApplicationInfo" "wf_BundleInfo new_BundleInfo" "wf_InstallMark new_InstallMark"
  "wf_BundleUserInfo new_BundleUserInfo" "wf_AbilityInfo new_AbilityInfo" "wf_InnerModuleInfo new_InnerModuleInfo"
proof -
  show 1: "wf_ApplicationInfo new_ApplicationInfo"
    by (simp add: wf_ApplicationInfo_def new_ApplicationInfo_def start_numbers)
  show "wf_BundleInfo new_BundleInfo" using 1 by (simp add: wf_BundleInfo_def new_BundleInfo_def start_numbers)
  show "wf_InstallMark new_InstallMark" by (simp add: wf_InstallMark_def new_InstallMark_def start_numbers)
  show "wf_BundleUserInfo new_BundleUserInfo" by (simp add: wf_BundleUserInfo_def new_BundleUserInfo_def start_numbers)
  show "wf_AbilityInfo new_AbilityInfo" using 1 by (simp add: wf_AbilityInfo_def new_AbilityInfo_def start_numbers)
  show "wf_InnerModuleInfo new_InnerModuleInfo"
    by (simp add: wf_InnerModuleInfo_def new_InnerModuleInfo_def start_numbers)
qed

lemma stored_demo_wf: "wf_InnerBundleInfo stored_demo"
proof -
  have 1: "wf_ApplicationInfo (new_ApplicationInfo\<lparr>app_bundleName := ''com.demo'', app_iconId := 7\<rparr>)"
    by (simp add: wf_ApplicationInfo_def new_ApplicationInfo_def start_numbers)
  have 2: "wf_InnerModuleInfo (new_InnerModuleInfo\<lparr>im_modulePackage := ''entry'', im_labelId := 3\<rparr>)"
    by (simp add: wf_InnerModuleInfo_def new_InnerModuleInfo_def start_numbers)
  have 3: "wf_AbilityInfo (new_AbilityInfo\<lparr>ai_name := ''Main''\<rparr>)"
    using new_parts_wf(1) by (simp add: wf_AbilityInfo_def new_AbilityInfo_def start_numbers)
  have 4: "wf_InnerBundleUserInfo (new_InnerBundleUserInfo\<lparr>iu_uid := 20010034, iu_gids := [20010034]\<rparr>)"
    using new_parts_wf(4) by (simp add: wf_InnerBundleUserInfo_def new_InnerBundleUserInfo_def start_numbers)
  show ?thesis
    using 1 2 3 4 new_parts_wf
    by (simp add: wf_InnerBundleInfo_def stored_demo_def new_InnerBundleInfo_def start_numbers json_wf_map_def)
qed

theorem InnerBundleInfo_reads_witness:
  "InnerBundleInfo_FromJson (InnerBundleInfo_ToJson stored_demo) new_InnerBundleInfo pr_OK =
     Some (pr_OK, kept_InnerBundleInfo stored_demo, pr_OK)"
  by (rule InnerBundleInfo_reads [OF stored_demo_wf])

section \<open>An error that was left behind\<close>

text \<open>
  A step that reports to a variable that already holds an error does nothing. \<open>stuck\<close> holds of the
  steps that report to the thread-local result.
\<close>

definition stuck :: "'r step \<Rightarrow> bool" where
  "stuck f \<longleftrightarrow> (\<forall>j r st. ps_global st \<noteq> pr_OK \<longrightarrow> f j (r, st) = Some (r, st))"

lemma stuck_global [simp]: "stuck (GetValueIfFindKey get key upd ty nec Global at)"
  by (simp add: stuck_def GetValueIfFindKey_def result_of_def)

lemma stuck_reads [simp]:
  "stuck (read_string key upds nec Global)" "stuck (read_bool key updb nec Global)"
  "stuck (read_number getn key updn nec Global)" "stuck (read_object geto key updo nec Global)"
  "stuck (read_array geta at key upda nec Global)"
  by (simp_all add: read_string_def read_bool_def read_number_def read_object_def read_array_def)

lemma stuck_steps: "list_all stuck fs \<Longrightarrow> ps_global st \<noteq> pr_OK \<Longrightarrow> run_steps fs j (r, st) = Some (r, st)"
  by (induction fs) (auto simp: stuck_def)

text \<open>
  A reader is local when it neither looks at the thread-local result nor changes it. The readers of the
  user information are.
\<close>

definition local_getter :: "'v getter \<Rightarrow> bool" where
  "local_getter get \<longleftrightarrow> (\<exists>f. \<forall>j g. get j g = map_option (\<lambda>v. (v, g)) (f j))"

definition local_step :: "'r step \<Rightarrow> bool" where
  "local_step s \<longleftrightarrow>
     (\<exists>h. \<forall>j r l g. s j (r, \<lparr>ps_local = l, ps_global = g\<rparr>) = map_option (\<lambda>(r1, l1). (r1, \<lparr>ps_local = l1, ps_global = g\<rparr>)) (h j r l))"

lemma local_getterI: "(\<And>j g. get j g = map_option (\<lambda>v. (v, g)) (f j)) \<Longrightarrow> local_getter get"
  by (auto simp: local_getter_def)

lemma local_getterE:
  assumes "local_getter get"
  obtains f where "get = (\<lambda>j g. map_option (\<lambda>v. (v, g)) (f j))"
  using assms by (auto simp: local_getter_def fun_eq_iff)

lemma local_stepI:
  "(\<And>j r l g. s j (r, \<lparr>ps_local = l, ps_global = g\<rparr>) =
      map_option (\<lambda>(r1, l1). (r1, \<lparr>ps_local = l1, ps_global = g\<rparr>)) (h j r l)) \<Longrightarrow> local_step s"
  by (auto simp: local_step_def)

lemma local_basic [simp]:
  "local_getter get_string" "local_getter get_bool" "local_getter (get_number conv)" "local_getter (get_enum tbl)"
  by (rule local_getterI [of _ "\<lambda>j. case j of JStr s \<Rightarrow> Some s | _ \<Rightarrow> None"],
      simp add: get_string_def split: json.split)
     (rule local_getterI [of _ "\<lambda>j. case j of JBool b \<Rightarrow> Some b | _ \<Rightarrow> None"],
      simp add: get_bool_def split: json.split,
      rule local_getterI [of _ "\<lambda>j. case j of JNum n \<Rightarrow> Some (conv n) | JBool b \<Rightarrow> Some (conv (of_bool b)) | _ \<Rightarrow> None"],
      simp add: get_number_def split: json.split,
      rule local_getterI [of _ "\<lambda>j. case j of JNum n \<Rightarrow> enum_of tbl n | _ \<Rightarrow> None"],
      simp add: get_enum_def split: json.split)

lemma local_numbers [simp]: "local_getter get_int32" "local_getter get_int64" "local_getter get_uint32"
  by (simp_all add: get_int32_def get_int64_def get_uint32_def)

lemma local_elements:
  "get_elements (\<lambda>j g. map_option (\<lambda>v. (v, g)) (f j)) js g = map_option (\<lambda>vs. (vs, g)) (those (map f js))"
  by (induction js arbitrary: g) (auto split: option.splits)

lemma local_vector [simp]: "local_getter get \<Longrightarrow> local_getter (get_vector get)"
proof (erule local_getterE)
  fix f
  assume "get = (\<lambda>j g. map_option (\<lambda>v. (v, g)) (f j))"
  then show ?thesis
    by (intro local_getterI [of _ "\<lambda>j. case j of JArr js \<Rightarrow> those (map f js) | _ \<Rightarrow> None"])
       (simp add: get_vector_def local_elements split: json.split)
qed

lemma local_map [simp]: "local_getter get \<Longrightarrow> local_getter (get_map get)"
proof (erule local_getterE)
  fix f
  assume "get = (\<lambda>j g. map_option (\<lambda>v. (v, g)) (f j))"
  then show ?thesis
    by (intro local_getterI [of _ "\<lambda>j. case j of
          JObj m \<Rightarrow> map_option (\<lambda>vs. sm_emplace_all (zip (map fst m) vs) []) (those (map f (map snd m))) | _ \<Rightarrow> None"])
       (simp add: get_map_def local_elements option.map_comp comp_def split: json.split)
qed

lemma local_read_key:
  assumes "local_getter get"
  shows "local_step (GetValueIfFindKey get key upd ty nec Local at)"
  using assms
proof (rule local_getterE)
  fix f
  assume "get = (\<lambda>j g. map_option (\<lambda>v. (v, g)) (f j))"
  then show ?thesis
    by (intro local_stepI [of _ "\<lambda>j r l. map_option (\<lambda>(r1, st). (r1, ps_local st))
          (GetValueIfFindKey get key upd ty nec Local at j (r, \<lparr>ps_local = l, ps_global = pr_OK\<rparr>))"])
       (auto simp: GetValueIfFindKey_def CheckArrayType_def result_of_def set_result_def Let_def option.map_comp comp_def
        case_prod_beta split: option.split json.split json_type.split)
qed

lemma local_reads [simp]:
  "local_step (read_string key upds nec Local)" "local_step (read_bool key updb nec Local)"
  "local_getter getn \<Longrightarrow> local_step (read_number getn key updn nec Local)"
  "local_getter geto \<Longrightarrow> local_step (read_object geto key updo nec Local)"
  "local_getter geta \<Longrightarrow> local_step (read_array geta at key upda nec Local)"
  by (simp_all add: read_string_def read_bool_def read_number_def read_object_def read_array_def local_read_key)

lemma local_steps: "list_all local_step fs \<Longrightarrow> local_step (run_steps fs)"
proof (induction fs)
  case Nil
  show ?case by (rule local_stepI [of _ "\<lambda>j r l. Some (r, l)"]) simp
next
  case (Cons s fs)
  then obtain h1 h2 where
    "\<And>j r l g. s j (r, \<lparr>ps_local = l, ps_global = g\<rparr>) = map_option (\<lambda>(r1, l1). (r1, \<lparr>ps_local = l1, ps_global = g\<rparr>)) (h1 j r l)"
    "\<And>j r l g. run_steps fs j (r, \<lparr>ps_local = l, ps_global = g\<rparr>) = map_option (\<lambda>(r1, l1). (r1, \<lparr>ps_local = l1, ps_global = g\<rparr>)) (h2 j r l)"
    by (auto simp: local_step_def)
  then show ?case
    by (intro local_stepI [of _ "\<lambda>j r l. case h1 j r l of None \<Rightarrow> None | Some (r1, l1) \<Rightarrow> h2 j r1 l1"]) (auto split: option.split)
qed

lemma local_from_json [simp]: "list_all local_step steps \<Longrightarrow> local_getter (from_json new steps)"
proof -
  assume "list_all local_step steps"
  then obtain h where "\<And>j r l g. run_steps steps j (r, \<lparr>ps_local = l, ps_global = g\<rparr>) =
      map_option (\<lambda>(r1, l1). (r1, \<lparr>ps_local = l1, ps_global = g\<rparr>)) (h j r l)"
    using local_steps by (fastforce simp: local_step_def)
  then show ?thesis
    by (intro local_getterI [of _ "\<lambda>j. map_option fst (h j new pr_OK)"])
       (simp add: from_json_def option.map_comp comp_def case_prod_beta)
qed

lemma local_user_info [simp]: "local_getter InnerBundleUserInfo_from_json"
  by (simp add: InnerBundleUserInfo_from_json_def BundleUserInfo_from_json_def)

lemma local_getter_reads:
  "local_getter get \<Longrightarrow> get j pr_OK = Some (v, pr_OK) \<Longrightarrow> get j g = Some (v, g)"
  by (erule local_getterE) auto

text \<open>
  When an error was left in the thread-local result, reading a bundle fails, whatever the bundle is; the
  error is gone afterwards.
\<close>

lemma InnerBundleInfo_first_stuck:
  assumes "wf_InnerBundleInfo x" "g \<noteq> pr_OK"
  shows "run_steps (InnerBundleInfo_members_1 @ InnerBundleInfo_members_2) (InnerBundleInfo_ToJson x)
      (new_InnerBundleInfo, \<lparr>ps_local = pr_OK, ps_global = g\<rparr>) =
    Some (new_InnerBundleInfo\<lparr>ib_innerBundleUserInfos := ib_innerBundleUserInfos x\<rparr>, \<lparr>ps_local = pr_OK, ps_global = g\<rparr>)"
proof -
  let ?st = "\<lparr>ps_local = pr_OK, ps_global = g\<rparr>"
  have 1: "run_steps InnerBundleInfo_members_1 j (r, ?st) = Some (r, ?st)" for j r
    using assms(2) by (intro stuck_steps) (simp_all add: InnerBundleInfo_members_1_def)
  have 2: "read_object InstallMark_from_json key upd nec Global j (r, ?st) = Some (r, ?st)" for key upd nec j r
    using assms(2) by (simp add: read_object_def GetValueIfFindKey_def result_of_def)
  have "get_map InnerBundleUserInfo_from_json (json_map InnerBundleUserInfo_to_json (ib_innerBundleUserInfos x)) g =
      Some (ib_innerBundleUserInfos x, g)"
    by (rule local_getter_reads) (use assms(1) in \<open>simp_all add: InnerBundleUserInfo_parts(3) wf_InnerBundleInfo_def\<close>)
  moreover have "obj_find (InnerBundleInfo_ToJson x) ''innerBundleUserInfos'' =
      Some (json_map InnerBundleUserInfo_to_json (ib_innerBundleUserInfos x))"
    by (simp only: InnerBundleInfo_find json_read)
  ultimately have 3: "read_object (get_map InnerBundleUserInfo_from_json) ''innerBundleUserInfos'' ib_innerBundleUserInfos_update True Local
      (InnerBundleInfo_ToJson x) (r, ?st) = Some (r\<lparr>ib_innerBundleUserInfos := ib_innerBundleUserInfos x\<rparr>, ?st)" for r
    by (simp add: read_object_def GetValueIfFindKey_def result_of_def)
  show ?thesis by (simp add: 1 2 3 InnerBundleInfo_members_2_def)
qed

lemma error_left_behind:
  assumes "wf_InnerBundleInfo x" "g \<noteq> pr_OK"
  shows "\<exists>i. InnerBundleInfo_FromJson (InnerBundleInfo_ToJson x) new_InnerBundleInfo g = Some (g, i, pr_OK)"
proof -
  let ?i = "new_InnerBundleInfo\<lparr>ib_innerBundleUserInfos := ib_innerBundleUserInfos x\<rparr>"
  have "ib_sandboxPersistentInfo ?i = []" by (simp add: new_InnerBundleInfo_def)
  from InnerBundleInfo_last_members [OF assms(1) this] show ?thesis
    using InnerBundleInfo_first_stuck [OF assms] assms(2)
    by (simp add: InnerBundleInfo_FromJson_def Let_def del: run_steps_append)
qed

text \<open>Such an error is left by a bundle whose \<open>appIndex\<close> is not a number, although reading it succeeds.\<close>

lemma InnerBundleInfo_last_type_error:
  assumes "wf_InnerBundleInfo x" "obj_find j ''appIndex'' = Some v" "\<not> has_type JT_NUMBER v"
    and same: "\<And>key. key \<noteq> ''appIndex'' \<Longrightarrow> obj_find j key = obj_find (InnerBundleInfo_ToJson x) key"
  shows "run_steps InnerBundleInfo_members_3 j (i, no_error) =
    Some (i\<lparr>
      ib_bundlePackInfo := kept_BundlePackInfo (ib_bundlePackInfo x), ib_isNewVersion := ib_isNewVersion x,
      ib_upgradeFlag := ib_upgradeFlag x, ib_baseExtensionInfos := ib_baseExtensionInfos x,
      ib_extensionSkillInfos := ib_extensionSkillInfos x\<rparr>, \<lparr>ps_local = pr_OK, ps_global = PROP_TYPE_ERROR\<rparr>)"
proof -
  have 1: "read_number get_int32 ''appIndex'' ib_appIndex_update False Global j (r, no_error) =
      Some (r, \<lparr>ps_local = pr_OK, ps_global = PROP_TYPE_ERROR\<rparr>)" for r :: inner_bundle_info
    using assms(2,3) by (simp add: read_number_def GetValueIfFindKey_def result_of_def set_result_def)
  have 2: "read_bool key upd nec Global j (r, \<lparr>ps_local = pr_OK, ps_global = PROP_TYPE_ERROR\<rparr>) =
      Some (r, \<lparr>ps_local = pr_OK, ps_global = PROP_TYPE_ERROR\<rparr>)" for key upd nec and r :: inner_bundle_info
    by (simp add: read_bool_def GetValueIfFindKey_def result_of_def)
  have 3: "read_array get at key upd nec Global j (r, \<lparr>ps_local = pr_OK, ps_global = PROP_TYPE_ERROR\<rparr>) =
      Some (r, \<lparr>ps_local = pr_OK, ps_global = PROP_TYPE_ERROR\<rparr>)" for get at key upd nec and r :: inner_bundle_info
    by (simp add: read_array_def GetValueIfFindKey_def result_of_def)
  show ?thesis
    using assms(1) unfolding InnerBundleInfo_members_3_def
    by (cases i) (simp only: 1 2 3 same InnerBundleInfo_find wf_InnerBundleInfo_def inner_bundle_info.simps json_read)
qed

lemma type_error_stays:
  assumes "wf_InnerBundleInfo x" "obj_find j ''appIndex'' = Some v" "\<not> has_type JT_NUMBER v"
    and same: "\<And>key. key \<noteq> ''appIndex'' \<Longrightarrow> obj_find j key = obj_find (InnerBundleInfo_ToJson x) key"
  shows "\<exists>i. InnerBundleInfo_FromJson j new_InnerBundleInfo pr_OK = Some (pr_OK, i, PROP_TYPE_ERROR)"
  using InnerBundleInfo_first_members [OF assms(1) same] InnerBundleInfo_last_type_error [OF assms]
  by (simp add: InnerBundleInfo_FromJson_def Let_def del: run_steps_append)

end
