(* ===== verification/Json_Storage.thy ===== *)
theory Json_Storage
  imports Json_Inner_Laws Bundle_Data_Storage
begin

text \<open>
  The two data bases with the JSON values that they hold. \<open>SaveEntries\<close> of
  \<open>bundle_data_storage_database.cpp\<close> parses and reads the entries one after another, so that the
  thread-local result of one \<open>FromJson\<close> is there when the next one starts; an entry is \<open>None\<close> when its
  text is no JSON. Reading does not depend on the repairs that \<open>load_one\<close> makes for the entries before,
  so the model reads all of them first. \<open>PreInstallDataStorage\<close> (\<open>preinstall_data_storage.cpp\<close>) does the
  same for the preinstalled bundles.
\<close>

section \<open>Installed bundles\<close>

definition read_entry :: "json option \<Rightarrow> parse_result \<Rightarrow> (inner_bundle_info option \<times> parse_result) option" where
  "read_entry value g =
     (case value of
        None \<Rightarrow> Some (None, g)
      | Some jsonObject \<Rightarrow>
          map_option (\<lambda>(ret, i, g1). (if ret \<noteq> pr_OK then None else Some i, g1))
            (InnerBundleInfo_FromJson jsonObject new_InnerBundleInfo g))"

fun read_entries :: "('a \<Rightarrow> parse_result \<Rightarrow> ('b \<times> parse_result) option) \<Rightarrow> 'a list \<Rightarrow> parse_result \<Rightarrow> ('b list \<times> parse_result) option" where
  "read_entries rd [] g = Some ([], g)"
| "read_entries rd (v # vs) g =
     (case rd v g of
        None \<Rightarrow> None
      | Some (x, g1) \<Rightarrow> map_option (\<lambda>(xs, g2). (x # xs, g2)) (read_entries rd vs g1))"

definition SaveEntries_json ::
  "kv_env \<Rightarrow> (fs_call \<Rightarrow> bool) \<Rightarrow> (string \<times> json option) list \<Rightarrow> bundle_store \<Rightarrow> bundle_store \<Rightarrow> parse_result
     \<Rightarrow> (bundle_store \<times> bundle_store \<times> parse_result) option" where
  "SaveEntries_json kv fs allEntries infos store g =
     map_option (\<lambda>(ds, g1).
        case SaveEntries kv fs (\<lambda>d. d) (zip (map fst allEntries) ds) infos store of
          (infos1, store1) \<Rightarrow> (infos1, store1, g1))
       (read_entries read_entry (map snd allEntries) g)"

section \<open>Preinstalled bundles\<close>

type_synonym preinstall_store = "(string, pre_install_bundle_info) smap"

text \<open>\<open>versionCode_\<close> has no initializer; a value is used only after it was read.\<close>

definition new_PreInstallBundleInfo :: pre_install_bundle_info where
  "new_PreInstallBundleInfo = \<lparr>pi_bundleName = [], pi_versionCode = 0, pi_bundlePaths = [], pi_appType = AppType_SYSTEM_APP\<rparr>"

definition SavePreInstallStorageBundleInfo ::
  "kv_env \<Rightarrow> pre_install_bundle_info \<Rightarrow> preinstall_store \<Rightarrow> bool \<times> preinstall_store" where
  "SavePreInstallStorageBundleInfo kv p store =
     (if \<not> kv_present kv then (False, store)
      else if try_twice (\<lambda>n. kv_put kv n (pi_bundleName p)) \<noteq> KV_SUCCESS then (False, store)
      else (True, sm_assign (pi_bundleName p) p store))"

definition DeletePreInstallStorageBundleInfo ::
  "kv_env \<Rightarrow> pre_install_bundle_info \<Rightarrow> preinstall_store \<Rightarrow> bool \<times> preinstall_store" where
  "DeletePreInstallStorageBundleInfo kv p store =
     (if \<not> kv_present kv then (False, store)
      else if try_twice (\<lambda>n. kv_delete kv n (pi_bundleName p)) \<noteq> KV_SUCCESS then (False, store)
      else (True, sm_erase (pi_bundleName p) store))"

definition DeleteOldPreInstallInfo :: "kv_env \<Rightarrow> string \<Rightarrow> preinstall_store \<Rightarrow> preinstall_store" where
  "DeleteOldPreInstallInfo kv oldKey store =
     (if \<not> kv_present kv then store
      else if try_twice (\<lambda>n. kv_delete kv n oldKey) \<noteq> KV_SUCCESS then store
      else sm_erase oldKey store)"

definition UpdatePreInstallDataBase :: "kv_env \<Rightarrow> preinstall_store \<Rightarrow> preinstall_store \<Rightarrow> preinstall_store" where
  "UpdatePreInstallDataBase kv infos store =
     foldl (\<lambda>st (oldKey, p). case SavePreInstallStorageBundleInfo kv p st of
        (False, st1) \<Rightarrow> st1
      | (True, st1) \<Rightarrow> DeleteOldPreInstallInfo kv oldKey st1) store infos"

definition read_preinstall_entry ::
  "json option \<Rightarrow> parse_result \<Rightarrow> (pre_install_bundle_info option \<times> parse_result) option" where
  "read_preinstall_entry value g =
     (case value of
        None \<Rightarrow> Some (None, g)
      | Some jsonObject \<Rightarrow>
          map_option (\<lambda>(ret, p, g1). (if ret \<noteq> pr_OK then None else Some p, g1))
            (PreInstallBundleInfo_FromJson jsonObject new_PreInstallBundleInfo g))"

definition load_preinstall ::
  "kv_env \<Rightarrow> pre_install_bundle_info list \<times> preinstall_store \<times> preinstall_store
     \<Rightarrow> string \<times> pre_install_bundle_info option
     \<Rightarrow> pre_install_bundle_info list \<times> preinstall_store \<times> preinstall_store" where
  "load_preinstall kv s entry =
     (case s of (ps, updateInfos, store) \<Rightarrow> (case entry of (key, value) \<Rightarrow>
        (case value of
           None \<Rightarrow> (ps, updateInfos, if kv_delete kv 0 key = KV_SUCCESS then sm_erase key store else store)
         | Some p \<Rightarrow> (ps @ [p], if key \<noteq> pi_bundleName p then sm_emplace key p updateInfos else updateInfos, store))))"

definition SavePreInstallEntries ::
  "kv_env \<Rightarrow> (string \<times> json option) list \<Rightarrow> pre_install_bundle_info list \<Rightarrow> preinstall_store \<Rightarrow> parse_result
     \<Rightarrow> (pre_install_bundle_info list \<times> preinstall_store \<times> parse_result) option" where
  "SavePreInstallEntries kv allEntries ps store g =
     map_option (\<lambda>(ds, g1).
        case foldl (load_preinstall kv) (ps, [], store) (zip (map fst allEntries) ds) of
          (ps1, updateInfos, store1) \<Rightarrow>
            (ps1, if updateInfos \<noteq> [] then UpdatePreInstallDataBase kv updateInfos store1 else store1, g1))
       (read_entries read_preinstall_entry (map snd allEntries) g)"

text \<open>\<open>entriesStatus\<close> is the answer of \<open>GetEntries\<close> at the first and the second attempt.\<close>

definition LoadAllPreInstallBundleInfos ::
  "kv_env \<Rightarrow> (nat \<Rightarrow> kv_status) \<Rightarrow> pre_install_bundle_info list \<Rightarrow> preinstall_store \<Rightarrow> parse_result
     \<Rightarrow> (bool \<times> pre_install_bundle_info list \<times> preinstall_store \<times> parse_result) option" where
  "LoadAllPreInstallBundleInfos kv entriesStatus ps store g =
     (if \<not> kv_present kv \<or> try_twice entriesStatus \<noteq> KV_SUCCESS then Some (False, ps, store, g)
      else map_option (\<lambda>r. (True, r))
        (SavePreInstallEntries kv (map (\<lambda>(key, p). (key, Some (PreInstallBundleInfo_ToJson p))) store) ps store g))"

section \<open>Saved bundles are read back\<close>

lemma read_entries_all:
  "(\<And>v. v \<in> set vs \<Longrightarrow> rd v pr_OK = Some (f v, pr_OK)) \<Longrightarrow> read_entries rd vs pr_OK = Some (map f vs, pr_OK)"
  by (induction vs) auto

lemma saved_entries_read:
  assumes "list_all wf_InnerBundleInfo is"
  shows "read_entries read_entry (map (Some \<circ> InnerBundleInfo_ToJson) is) pr_OK = Some (map (Some \<circ> kept_InnerBundleInfo) is, pr_OK)"
  using assms by (induction "is") (auto simp: read_entry_def written_info_reads)

lemma SaveEntries_decode:
  "SaveEntries kv fs (\<lambda>d. d) (zip (map fst entries) (map (f \<circ> snd) entries)) infos store = SaveEntries kv fs f entries infos store"
proof -
  have 1: "load_one kv fs (\<lambda>d. d) s (key, f t) = load_one kv fs f s (key, t)" for s key t
    by (simp add: load_one_def)
  have "foldl (load_one kv fs (\<lambda>d. d)) s (zip (map fst es) (map (f \<circ> snd) es)) = foldl (load_one kv fs f) s es" for s es
    by (induction es arbitrary: s) (auto simp: 1)
  then show ?thesis by (simp add: SaveEntries_def)
qed

text \<open>
  C28: Loading a data base of JSON values in which every entry was written by \<open>ToJson\<close> is the loading of the
  abstract store of bundle informations: no entry is refused, and what a stored value stands for is the
  information without the members that are not stored.
\<close>

theorem load_saved:
  assumes "list_all wf_InnerBundleInfo (map snd saved)"
  shows "SaveEntries_json kv fs (map (\<lambda>(key, i). (key, Some (InnerBundleInfo_ToJson i))) saved) infos store pr_OK =
    (case SaveEntries kv fs (\<lambda>i. Some (kept_InnerBundleInfo i)) saved infos store of
       (infos1, store1) \<Rightarrow> Some (infos1, store1, pr_OK))"
proof -
  have 1: "map snd (map (\<lambda>(key, i). (key, Some (InnerBundleInfo_ToJson i))) saved) =
      map (Some \<circ> InnerBundleInfo_ToJson) (map snd saved)"
    by (induction saved) auto
  have 2: "map fst (map (\<lambda>(key, i). (key, Some (InnerBundleInfo_ToJson i))) saved) = map fst saved"
    by (induction saved) auto
  show ?thesis unfolding SaveEntries_json_def 1 2 saved_entries_read [OF assms]
    using SaveEntries_decode [of kv fs saved "Some \<circ> kept_InnerBundleInfo" infos store]
    by (simp add: comp_def split: prod.split)
qed

theorem load_saved_witness:
  "\<forall>kv fs. SaveEntries_json kv fs [(''com.demo'', Some (InnerBundleInfo_ToJson stored_demo))] [] [] pr_OK =
    (case SaveEntries kv fs (\<lambda>i. Some (kept_InnerBundleInfo i)) [(''com.demo'', stored_demo)] [] [] of
       (infos1, store1) \<Rightarrow> Some (infos1, store1, pr_OK))"
  using load_saved [of "[(''com.demo'', stored_demo)]" _ _ "[]" "[]"] stored_demo_wf by simp

lemma PreInstallBundleInfo_reads:
  "PreInstallBundleInfo_FromJson (PreInstallBundleInfo_ToJson p) new_PreInstallBundleInfo pr_OK = Some (pr_OK, p, pr_OK)"
proof -
  have "run_steps PreInstallBundleInfo_members (PreInstallBundleInfo_ToJson p) (new_PreInstallBundleInfo, no_error) = Some (p, no_error)"
    unfolding PreInstallBundleInfo_members_def new_PreInstallBundleInfo_def
    by (simp only: PreInstallBundleInfo_ToJson_def [THEN find_in_assign] json_u32_def AppType_to_json_def json_read) simp
  then show ?thesis by (simp add: PreInstallBundleInfo_FromJson_def)
qed

theorem preinstall_load:
  assumes "kv_present kv" "try_twice entriesStatus = KV_SUCCESS" "\<forall>(key, p) \<in> set store. key = pi_bundleName p"
  shows "LoadAllPreInstallBundleInfos kv entriesStatus ps store pr_OK = Some (True, ps @ map snd store, store, pr_OK)"
proof -
  let ?es = "map (\<lambda>(key, p). (key, Some (PreInstallBundleInfo_ToJson p))) store"
  have "map snd ?es = map (Some \<circ> PreInstallBundleInfo_ToJson) (map snd store)" by (induction store) auto
  moreover have "read_entries read_preinstall_entry (map (Some \<circ> PreInstallBundleInfo_ToJson) xs) pr_OK = Some (map Some xs, pr_OK)" for xs
    by (induction xs) (auto simp: read_preinstall_entry_def PreInstallBundleInfo_reads)
  ultimately have 1: "read_entries read_preinstall_entry (map snd ?es) pr_OK = Some (map Some (map snd store), pr_OK)"
    by (simp only:)
  have "foldl (load_preinstall kv) (ps, [], st) (zip (map fst xs) (map Some (map snd xs))) = (ps @ map snd xs, [], st)"
    if "\<forall>(key, p) \<in> set xs. key = pi_bundleName p" for xs and st :: preinstall_store
    using that by (induction xs arbitrary: ps) (auto simp: load_preinstall_def)
  moreover have "map fst ?es = map fst store" by (induction store) auto
  ultimately have 2: "foldl (load_preinstall kv) (ps, [], store) (zip (map fst ?es) (map Some (map snd store))) = (ps @ map snd store, [], store)"
    using assms(3) by (simp only:)
  show ?thesis using assms(1,2) 1 2 by (simp add: LoadAllPreInstallBundleInfos_def SavePreInstallEntries_def)
qed

section \<open>A bundle that is lost\<close>

text \<open>
  An entry whose \<open>appIndex\<close> is not a number is loaded, but the error it leaves makes the next entry,
  whatever bundle it holds, fail and be deleted from the data base.
\<close>

theorem next_bundle_lost:
  assumes "wf_InnerBundleInfo x" "wf_InnerBundleInfo y"
    and "obj_find j ''appIndex'' = Some v" "\<not> has_type JT_NUMBER v"
    and "\<And>key. key \<noteq> ''appIndex'' \<Longrightarrow> obj_find j key = obj_find (InnerBundleInfo_ToJson x) key"
  shows "\<exists>i. read_entries read_entry [Some j, Some (InnerBundleInfo_ToJson y)] pr_OK = Some ([Some i, None], pr_OK)"
proof -
  obtain i where "InnerBundleInfo_FromJson j new_InnerBundleInfo pr_OK = Some (pr_OK, i, PROP_TYPE_ERROR)"
    using type_error_stays [OF assms(1,3,4,5)] by blast
  moreover obtain i2 where "InnerBundleInfo_FromJson (InnerBundleInfo_ToJson y) new_InnerBundleInfo PROP_TYPE_ERROR = Some (PROP_TYPE_ERROR, i2, pr_OK)"
    using error_left_behind [OF assms(2), of PROP_TYPE_ERROR] by blast
  ultimately show ?thesis by (simp add: read_entry_def)
qed

text \<open>The information of the demo bundle with a string as its index.\<close>

definition damaged :: json where
  "damaged = JObj (sm_assign ''appIndex'' (JStr ''two'') (case InnerBundleInfo_ToJson stored_demo of JObj m \<Rightarrow> m | _ \<Rightarrow> []))"

theorem next_bundle_lost_witness:
  "\<exists>i. read_entries read_entry [Some damaged, Some (InnerBundleInfo_ToJson stored_demo)] pr_OK = Some ([Some i, None], pr_OK)"
proof (rule next_bundle_lost [OF stored_demo_wf stored_demo_wf])
  show "obj_find damaged ''appIndex'' = Some (JStr ''two'')" by (simp add: damaged_def obj_find_def)
  show "obj_find damaged key = obj_find (InnerBundleInfo_ToJson stored_demo) key" if "key \<noteq> ''appIndex''" for key
    using that by (simp add: damaged_def obj_find_def InnerBundleInfo_ToJson_def json_assign_all_def)
qed simp

end
