(* ===== verification/Json_Typed.thy ===== *)
theory Json_Typed
  imports Json_Inner_Laws
begin

text \<open>
  What is read has the range of its C++ types, whatever the JSON value is: \<open>typed get ok\<close> says that every
  value \<open>get\<close> returns satisfies \<open>ok\<close>. A reader is typed when its initial object is and every step keeps it.
\<close>

section \<open>Typed readers\<close>

definition typed :: "'v getter \<Rightarrow> ('v \<Rightarrow> bool) \<Rightarrow> bool" where
  "typed get ok \<longleftrightarrow> (\<forall>j g v g1. get j g = Some (v, g1) \<longrightarrow> ok v)"

definition keeps :: "('r \<Rightarrow> bool) \<Rightarrow> 'r step \<Rightarrow> bool" where
  "keeps P s \<longleftrightarrow> (\<forall>j r st r1 st1. P r \<longrightarrow> s j (r, st) = Some (r1, st1) \<longrightarrow> P r1)"

named_theorems typing \<open>readers and the values they give, steps and what they keep\<close>

lemma typed_trivial: "typed get (\<lambda>_. True)"
  by (simp add: typed_def)

lemma typed_int32 [typing]: "typed get_int32 int32"
proof -
  have "int32 (signed_take_bit 31 n)" for n
    using signed_take_bit_int_greater_eq_minus_exp [of 31 n] signed_take_bit_int_less_exp [of 31 n] by (simp add: int32_def)
  then show ?thesis by (auto simp: typed_def get_int32_def get_number_def split: json.splits)
qed

lemma typed_int64 [typing]: "typed get_int64 int64"
proof -
  have "int64 (signed_take_bit 63 n)" for n
    using signed_take_bit_int_greater_eq_minus_exp [of 63 n] signed_take_bit_int_less_exp [of 63 n] by (simp add: int64_def)
  then show ?thesis by (auto simp: typed_def get_int64_def get_number_def split: json.splits)
qed

lemmas typed_basic [typing] = typed_trivial [of get_string] typed_trivial [of get_bool] typed_trivial [of get_uint32]
  typed_trivial [of "get_enum tbl" for tbl]

lemma typed_elements: "typed get ok \<Longrightarrow> get_elements get js g = Some (vs, g1) \<Longrightarrow> list_all ok vs \<and> length vs = length js"
proof (induction js arbitrary: g vs)
  case (Cons j js)
  then obtain v g2 vs1 where "get j g = Some (v, g2)" "get_elements get js g2 = Some (vs1, g1)" "vs = v # vs1"
    by (auto split: option.splits prod.splits)
  moreover have "ok v" using Cons.prems(1) \<open>get j g = Some (v, g2)\<close> by (simp add: typed_def) blast
  ultimately show ?case using Cons.IH [OF Cons.prems(1)] by auto
qed simp

lemma typed_vector [typing]: "typed get ok \<Longrightarrow> typed (get_vector get) (list_all ok)"
  by (auto simp: typed_def [of "get_vector get"] get_vector_def dest: typed_elements split: json.splits)

lemma assign_values: "snd ` set (sm_assign k v m) \<subseteq> insert v (snd ` set m)"
  by (induction k v m rule: sm_assign.induct) auto



lemma emplace_all_inv: "sm_inv m \<Longrightarrow> sm_inv (sm_emplace_all kvs m)"
  by (induction kvs arbitrary: m) (auto simp: sm_emplace_all_def)

lemma emplace_all_values: "snd ` set (sm_emplace_all kvs m) \<subseteq> snd ` set kvs \<union> snd ` set m"
proof (induction kvs arbitrary: m)
  case (Cons p kvs)
  obtain k v where p: "p = (k, v)" by (cases p)
  from assign_values [of k v m] have "snd ` set (sm_emplace k v m) \<subseteq> insert v (snd ` set m)" by (auto simp: sm_emplace_def split: option.splits)
  then have "snd ` set kvs \<union> snd ` set (sm_emplace k v m) \<subseteq> snd ` set (p # kvs) \<union> snd ` set m" by (auto simp: p)
  moreover have "sm_emplace_all (p # kvs) m = sm_emplace_all kvs (sm_emplace k v m)" by (simp add: sm_emplace_all_def p)
  ultimately show ?case using Cons [of "sm_emplace k v m"] by (simp only:)
qed (simp add: sm_emplace_all_def)

lemma typed_map [typing]: "typed get ok \<Longrightarrow> typed (get_map get) (json_wf_map ok)"
  unfolding typed_def [of "get_map get"]
proof (intro allI impI)
  fix j g v g1
  assume t: "typed get ok" and "get_map get j g = Some (v, g1)"
  then obtain m vs where e: "get_elements get (map snd m) g = Some (vs, g1)" and v: "v = sm_emplace_all (zip (map fst m) vs) []"
    by (auto simp: get_map_def split: json.splits)
  from typed_elements [OF t e] have "\<forall>y \<in> set vs. ok y" "snd ` set (zip (map fst m) vs) \<subseteq> set vs"
    by (auto simp: list_all_iff dest: set_zip_rightD)
  then show "json_wf_map ok v"
  proof -
    have "\<forall>y \<in> snd ` set v. ok y"
      using emplace_all_values [of "zip (map fst m) vs" "[]"] \<open>\<forall>y \<in> set vs. ok y\<close> \<open>snd ` set (zip (map fst m) vs) \<subseteq> set vs\<close>
      unfolding v by (simp add: subset_iff)
    then show ?thesis by (simp add: v json_wf_map_def list_all_iff emplace_all_inv)
  qed
qed

lemma typed_bool_map: "typed (get_map get_bool) sm_inv"
  using typed_map [OF typed_trivial [of get_bool]] by (auto simp: typed_def json_wf_map_def)

lemma keeps_key:
  assumes "typed get ok" and upd: "\<And>r f. P r \<Longrightarrow> (\<And>v. ok v \<Longrightarrow> ok (f v)) \<Longrightarrow> P (upd f r)"
  shows "keeps P (GetValueIfFindKey get key upd ty nec w at)"
proof -
  have get: "ok v" if "get j g = Some (v, g1)" for j g v g1
    using assms(1) that by (auto simp: typed_def)
  have elem: "ok y" if "CheckArrayType w at get arrays st = Some (Some y, st1)" for y st st1 arrays
    using that by (auto simp: CheckArrayType_def Let_def dest!: get split: if_splits option.splits)
  have array: "P (upd (\<lambda>old. case x of None \<Rightarrow> old | Some y \<Rightarrow> y) r)"
    if "P r" "CheckArrayType w at get arrays st = Some (x, st1)" for r x st st1 arrays
    using that by (intro upd) (auto dest!: elem split: option.split)
  show ?thesis
    unfolding keeps_def GetValueIfFindKey_def
    by (auto simp: Let_def intro!: upd array dest: get split: if_splits option.splits json.splits json_type.splits)
qed

lemma keeps_reads [typing]:
  "(\<And>r f. P r \<Longrightarrow> P (upds f r)) \<Longrightarrow> keeps P (read_string key upds nec w)"
  "(\<And>r f. P r \<Longrightarrow> P (updb f r)) \<Longrightarrow> keeps P (read_bool key updb nec w)"
  "typed getn okn \<Longrightarrow> (\<And>r f. P r \<Longrightarrow> (\<And>v. okn v \<Longrightarrow> okn (f v)) \<Longrightarrow> P (updn f r)) \<Longrightarrow> keeps P (read_number getn key updn nec w)"
  "typed geto oko \<Longrightarrow> (\<And>r f. P r \<Longrightarrow> (\<And>v. oko v \<Longrightarrow> oko (f v)) \<Longrightarrow> P (updo f r)) \<Longrightarrow> keeps P (read_object geto key updo nec w)"
  "typed (get_vector geta) oka \<Longrightarrow> (\<And>r f. P r \<Longrightarrow> (\<And>v. oka v \<Longrightarrow> oka (f v)) \<Longrightarrow> P (upda f r)) \<Longrightarrow> keeps P (read_array geta at key upda nec w)"
  unfolding read_string_def read_bool_def read_number_def read_object_def read_array_def
  by (rule keeps_key [OF typed_trivial], simp, rule keeps_key [OF typed_trivial], simp, erule keeps_key, simp,
      erule keeps_key, simp, erule keeps_key, simp)

lemma keeps_at [typing]:
  "typed get ok \<Longrightarrow> (\<And>r f. P r \<Longrightarrow> (\<And>v. ok v \<Longrightarrow> ok (f v)) \<Longrightarrow> P (upd f r)) \<Longrightarrow> keeps P (at_get get key upd)"
  by (fastforce simp: keeps_def at_get_def typed_def split: option.splits)

lemma keeps_steps: "list_all (keeps P) fs \<Longrightarrow> keeps P (run_steps fs)"
proof (induction fs)
  case (Cons f fs)
  then have f: "keeps P f" and fs: "keeps P (run_steps fs)" by simp_all
  show ?case
    unfolding keeps_def
  proof (intro allI impI)
    fix j r st r1 st1
    assume "P r" "run_steps (f # fs) j (r, st) = Some (r1, st1)"
    then obtain r2 st2 where "f j (r, st) = Some (r2, st2)" "run_steps fs j (r2, st2) = Some (r1, st1)"
      by (auto split: option.splits)
    with \<open>P r\<close> f fs show "P r1" unfolding keeps_def by blast
  qed
qed (simp add: keeps_def)

lemma typed_from_json: "P new \<Longrightarrow> list_all (keeps P) steps \<Longrightarrow> typed (from_json new steps) P"
  using keeps_steps [of P steps] by (fastforce simp: typed_def from_json_def keeps_def)

lemmas list_all_steps = append.simps list.pred_inject simp_thms

section \<open>The structures\<close>

lemmas CustomizeData_typed [typing] = typed_trivial [of CustomizeData_from_json]

lemmas MetaData_typed [typing] = typed_trivial [of MetaData_from_json]

lemmas Metadata_typed [typing] = typed_trivial [of Metadata_from_json]

lemmas ModuleInfo_typed [typing] = typed_trivial [of ModuleInfo_from_json]

lemma ApplicationInfo_typed [typing]: "typed ApplicationInfo_from_json wf_ApplicationInfo"
  unfolding ApplicationInfo_from_json_def ApplicationInfo_members_1_def ApplicationInfo_members_2_def ApplicationInfo_members_3_def ApplicationInfo_members_4_def
  by (rule typed_from_json, simp add: wf_ApplicationInfo_def new_ApplicationInfo_def start_numbers, simp only: list_all_steps)
     (rule conjI typing | simp add: wf_ApplicationInfo_def)+

lemma AbilityInfo_typed [typing]: "typed AbilityInfo_from_json wf_AbilityInfo"
  unfolding AbilityInfo_from_json_def AbilityInfo_members_1_def AbilityInfo_members_2_def AbilityInfo_members_3_def AbilityInfo_members_4_def
  by (rule typed_from_json, simp add: wf_AbilityInfo_def new_AbilityInfo_def wf_ApplicationInfo_def new_ApplicationInfo_def start_numbers, simp only: list_all_steps)
     (rule conjI typing | simp add: wf_AbilityInfo_def)+

lemma ExtensionAbilityInfo_typed [typing]: "typed ExtensionAbilityInfo_from_json wf_ExtensionAbilityInfo"
  unfolding ExtensionAbilityInfo_from_json_def ExtensionAbilityInfo_members_1_def ExtensionAbilityInfo_members_2_def
  by (rule typed_from_json, simp add: wf_ExtensionAbilityInfo_def new_ExtensionAbilityInfo_def wf_ApplicationInfo_def new_ApplicationInfo_def start_numbers, simp only: list_all_steps)
     (rule conjI typing | simp add: wf_ExtensionAbilityInfo_def)+

lemma HapModuleInfo_typed [typing]: "typed HapModuleInfo_from_json wf_HapModuleInfo"
  unfolding HapModuleInfo_from_json_def HapModuleInfo_members_1_def HapModuleInfo_members_2_def HapModuleInfo_members_3_def
  by (rule typed_from_json, simp add: wf_HapModuleInfo_def new_HapModuleInfo_def start_numbers, simp only: list_all_steps)
     (rule conjI typed_bool_map typing | simp add: wf_HapModuleInfo_def)+

lemmas RequestPermissionUsedScene_typed [typing] = typed_trivial [of RequestPermissionUsedScene_from_json]

lemma RequestPermission_typed [typing]: "typed RequestPermission_from_json wf_RequestPermission"
  unfolding RequestPermission_from_json_def
  by (rule typed_from_json, simp add: wf_RequestPermission_def new_RequestPermission_def start_numbers, simp only: list_all_steps)
     (rule conjI typing | simp add: wf_RequestPermission_def)+

lemma BundleInfo_typed [typing]: "typed BundleInfo_from_json wf_BundleInfo"
  unfolding BundleInfo_from_json_def BundleInfo_members_1_def BundleInfo_members_2_def BundleInfo_members_3_def
  by (rule typed_from_json, simp add: wf_BundleInfo_def new_BundleInfo_def wf_ApplicationInfo_def new_ApplicationInfo_def start_numbers, simp only: list_all_steps)
     (rule conjI typing | simp add: wf_BundleInfo_def)+

lemma CommonEventInfo_typed [typing]: "typed CommonEventInfo_from_json wf_CommonEventInfo"
  unfolding CommonEventInfo_from_json_def
  by (rule typed_from_json, simp add: wf_CommonEventInfo_def new_CommonEventInfo_def start_numbers, simp only: list_all_steps)
     (rule conjI typing | simp add: wf_CommonEventInfo_def)+

lemmas FormCustomizeData_typed [typing] = typed_trivial [of FormCustomizeData_from_json]

lemma FormWindow_typed [typing]: "typed FormWindow_from_json wf_FormWindow"
  unfolding FormWindow_from_json_def
  by (rule typed_from_json, simp add: wf_FormWindow_def new_FormWindow_def start_numbers, simp only: list_all_steps)
     (rule conjI typing | simp add: wf_FormWindow_def)+

lemma FormInfo_typed [typing]: "typed FormInfo_from_json wf_FormInfo"
  unfolding FormInfo_from_json_def
  by (rule typed_from_json, simp add: wf_FormInfo_def new_FormInfo_def wf_FormWindow_def new_FormWindow_def start_numbers, simp only: list_all_steps)
     (rule conjI typing | simp add: wf_FormInfo_def)+

lemmas ShortcutIntent_typed [typing] = typed_trivial [of ShortcutIntent_from_json]

lemma ShortcutInfo_typed [typing]: "typed ShortcutInfo_from_json wf_ShortcutInfo"
  unfolding ShortcutInfo_from_json_def
  by (rule typed_from_json, simp add: wf_ShortcutInfo_def new_ShortcutInfo_def start_numbers, simp only: list_all_steps)
     (rule conjI typing | simp add: wf_ShortcutInfo_def)+

lemma BundleUserInfo_typed [typing]: "typed BundleUserInfo_from_json wf_BundleUserInfo"
  unfolding BundleUserInfo_from_json_def
  by (rule typed_from_json, simp add: wf_BundleUserInfo_def new_BundleUserInfo_def start_numbers, simp only: list_all_steps)
     (rule conjI typing | simp add: wf_BundleUserInfo_def)+

lemmas Version_typed [typing] = typed_trivial [of Version_from_json]

lemmas PackageApp_typed [typing] = typed_trivial [of PackageApp_from_json]

lemmas AbilityFormInfo_typed [typing] = typed_trivial [of AbilityFormInfo_from_json]

lemmas ExtensionAbilities_typed [typing] = typed_trivial [of ExtensionAbilities_from_json]

lemmas ModuleAbilityInfo_typed [typing] = typed_trivial [of ModuleAbilityInfo_from_json]

lemmas ModuleDistro_typed [typing] = typed_trivial [of ModuleDistro_from_json]

lemmas ApiVersion_typed [typing] = typed_trivial [of ApiVersion_from_json]

lemmas PackageModule_typed [typing] = typed_trivial [of PackageModule_from_json]

lemmas Summary_typed [typing] = typed_trivial [of Summary_from_json]

lemmas Packages_typed [typing] = typed_trivial [of Packages_from_json]

lemmas BundlePackInfo_typed [typing] = typed_trivial [of BundlePackInfo_from_json]

lemma InnerBundleUserInfo_typed [typing]: "typed InnerBundleUserInfo_from_json wf_InnerBundleUserInfo"
  unfolding InnerBundleUserInfo_from_json_def
  by (rule typed_from_json, simp add: wf_InnerBundleUserInfo_def new_InnerBundleUserInfo_def wf_BundleUserInfo_def new_BundleUserInfo_def start_numbers, simp only: list_all_steps)
     (rule conjI typing | simp add: wf_InnerBundleUserInfo_def)+

lemmas Distro_typed [typing] = typed_trivial [of Distro_from_json]

lemma DefinePermission_typed [typing]: "typed DefinePermission_from_json wf_DefinePermission"
  unfolding DefinePermission_from_json_def
  by (rule typed_from_json, simp add: wf_DefinePermission_def new_DefinePermission_def start_numbers, simp only: list_all_steps)
     (rule conjI typing | simp add: wf_DefinePermission_def)+

lemma InnerModuleInfo_typed [typing]: "typed InnerModuleInfo_from_json wf_InnerModuleInfo"
  unfolding InnerModuleInfo_from_json_def InnerModuleInfo_members_1_def InnerModuleInfo_members_2_def InnerModuleInfo_members_3_def
  by (rule typed_from_json, simp add: wf_InnerModuleInfo_def new_InnerModuleInfo_def start_numbers, simp only: list_all_steps)
     (rule conjI typed_bool_map typing | simp add: wf_InnerModuleInfo_def)+

lemmas SkillUri_typed [typing] = typed_trivial [of SkillUri_from_json]

lemmas Skill_typed [typing] = typed_trivial [of Skill_from_json]

lemma InstallMark_typed [typing]: "typed InstallMark_from_json wf_InstallMark"
  unfolding InstallMark_from_json_def
  by (rule typed_from_json, simp add: wf_InstallMark_def new_InstallMark_def start_numbers, simp only: list_all_steps)
     (rule conjI typing | simp add: wf_InstallMark_def)+

lemma SandboxAppPersistentInfo_typed [typing]: "typed SandboxAppPersistentInfo_from_json wf_SandboxAppPersistentInfo"
  unfolding SandboxAppPersistentInfo_from_json_def
  by (rule typed_from_json, simp add: wf_SandboxAppPersistentInfo_def new_SandboxAppPersistentInfo_def start_numbers, simp only: list_all_steps)
     (rule conjI typing | simp add: wf_SandboxAppPersistentInfo_def)+

section \<open>The information of a bundle\<close>









end
