(* ===== verification/Ipc_Parcel.thy ===== *)
theory Ipc_Parcel
  imports Json_Util Skill_Match
begin

text \<open>
  Parcels (\<open>Parcel\<close>, \<open>MessageParcel\<close> of the IPC library): what one process writes is read by another in
  the same order and with the same types. A parcel is the sequence of the values in it; null markers and
  the bytes are the library's. Reading at the end of a parcel gives the default value of the type; reading
  a value as one of another type is not described by the library and has the result \<open>None\<close>. A value that
  does not fit any more is not written; \<open>room\<close> says which ones fit.
\<close>

section \<open>Values\<close>

datatype item =
    IToken string
  | IInt32 int
  | IUint32 u32
  | IInt64 int
  | IBool bool
  | IString string
  | IString16 string
  | IStrings "string list"
  | IInts "int list"
  | IRaw string
  | IObject "nat option"
  | IWant want
  | IPixelMap nat
  | IAshmem "char list"

type_synonym parcel = "item list"

text \<open>A vector's size is converted to a 32-bit integer.\<close>

definition to_int32 :: "nat \<Rightarrow> int" where
  "to_int32 n = signed_take_bit 31 (int n)"

fun write_items :: "(parcel \<Rightarrow> item \<Rightarrow> bool) \<Rightarrow> item list \<Rightarrow> parcel \<Rightarrow> parcel option" where
  "write_items room [] p = Some p"
| "write_items room (x # xs) p = (if room p x then write_items room xs (p @ [x]) else None)"

section \<open>Reading\<close>

text \<open>\<open>k\<close> is the rest of the reading function.\<close>

definition read_item :: "(item \<Rightarrow> 'v option) \<Rightarrow> 'v \<Rightarrow> ('v \<Rightarrow> parcel \<Rightarrow> 'r option) \<Rightarrow> parcel \<Rightarrow> 'r option" where
  "read_item sel dflt k p =
     (case p of
        [] \<Rightarrow> k dflt []
      | x # p1 \<Rightarrow> (case sel x of None \<Rightarrow> None | Some v \<Rightarrow> k v p1))"

definition ReadInt32 :: "(int \<Rightarrow> parcel \<Rightarrow> 'r option) \<Rightarrow> parcel \<Rightarrow> 'r option" where
  "ReadInt32 = read_item (\<lambda>x. case x of IInt32 n \<Rightarrow> Some n | _ \<Rightarrow> None) 0"

definition ReadUint32 :: "(u32 \<Rightarrow> parcel \<Rightarrow> 'r option) \<Rightarrow> parcel \<Rightarrow> 'r option" where
  "ReadUint32 = read_item (\<lambda>x. case x of IUint32 n \<Rightarrow> Some n | _ \<Rightarrow> None) 0"

definition ReadInt64 :: "(int \<Rightarrow> parcel \<Rightarrow> 'r option) \<Rightarrow> parcel \<Rightarrow> 'r option" where
  "ReadInt64 = read_item (\<lambda>x. case x of IInt64 n \<Rightarrow> Some n | _ \<Rightarrow> None) 0"

definition ReadBool :: "(bool \<Rightarrow> parcel \<Rightarrow> 'r option) \<Rightarrow> parcel \<Rightarrow> 'r option" where
  "ReadBool = read_item (\<lambda>x. case x of IBool b \<Rightarrow> Some b | _ \<Rightarrow> None) False"

definition ReadString :: "(string \<Rightarrow> parcel \<Rightarrow> 'r option) \<Rightarrow> parcel \<Rightarrow> 'r option" where
  "ReadString = read_item (\<lambda>x. case x of IString s \<Rightarrow> Some s | _ \<Rightarrow> None) []"

definition ReadString16 :: "(string \<Rightarrow> parcel \<Rightarrow> 'r option) \<Rightarrow> parcel \<Rightarrow> 'r option" where
  "ReadString16 = read_item (\<lambda>x. case x of IString16 s \<Rightarrow> Some s | _ \<Rightarrow> None) []"

definition ReadInterfaceToken :: "(string \<Rightarrow> parcel \<Rightarrow> 'r option) \<Rightarrow> parcel \<Rightarrow> 'r option" where
  "ReadInterfaceToken = read_item (\<lambda>x. case x of IToken s \<Rightarrow> Some s | _ \<Rightarrow> None) []"

definition ReadObject :: "(nat option \<Rightarrow> parcel \<Rightarrow> 'r option) \<Rightarrow> parcel \<Rightarrow> 'r option" where
  "ReadObject = read_item (\<lambda>x. case x of IObject ob \<Rightarrow> Some ob | _ \<Rightarrow> None) None"

text \<open>\<open>None\<close> stands for a null pointer, or for a read that reports its failure.\<close>

definition ReadWant :: "(want option \<Rightarrow> parcel \<Rightarrow> 'r option) \<Rightarrow> parcel \<Rightarrow> 'r option" where
  "ReadWant = read_item (\<lambda>x. case x of IWant w \<Rightarrow> Some (Some w) | _ \<Rightarrow> None) None"

definition ReadPixelMap :: "(nat option \<Rightarrow> parcel \<Rightarrow> 'r option) \<Rightarrow> parcel \<Rightarrow> 'r option" where
  "ReadPixelMap = read_item (\<lambda>x. case x of IPixelMap m \<Rightarrow> Some (Some m) | _ \<Rightarrow> None) None"

definition ReadAshmem :: "(char list option \<Rightarrow> parcel \<Rightarrow> 'r option) \<Rightarrow> parcel \<Rightarrow> 'r option" where
  "ReadAshmem = read_item (\<lambda>x. case x of IAshmem m \<Rightarrow> Some (Some m) | _ \<Rightarrow> None) None"

definition ReadStringVector :: "(string list option \<Rightarrow> parcel \<Rightarrow> 'r option) \<Rightarrow> parcel \<Rightarrow> 'r option" where
  "ReadStringVector = read_item (\<lambda>x. case x of IStrings v \<Rightarrow> Some (Some v) | _ \<Rightarrow> None) None"

definition ReadInt32Vector :: "(int list option \<Rightarrow> parcel \<Rightarrow> 'r option) \<Rightarrow> parcel \<Rightarrow> 'r option" where
  "ReadInt32Vector = read_item (\<lambda>x. case x of IInts v \<Rightarrow> Some (Some v) | _ \<Rightarrow> None) None"

definition TryReadInt32 :: "(int option \<Rightarrow> parcel \<Rightarrow> 'r option) \<Rightarrow> parcel \<Rightarrow> 'r option" where
  "TryReadInt32 = read_item (\<lambda>x. case x of IInt32 n \<Rightarrow> Some (Some n) | _ \<Rightarrow> None) None"

definition TryReadUint32 :: "(u32 option \<Rightarrow> parcel \<Rightarrow> 'r option) \<Rightarrow> parcel \<Rightarrow> 'r option" where
  "TryReadUint32 = read_item (\<lambda>x. case x of IUint32 n \<Rightarrow> Some (Some n) | _ \<Rightarrow> None) None"

definition TryReadBool :: "(bool option \<Rightarrow> parcel \<Rightarrow> 'r option) \<Rightarrow> parcel \<Rightarrow> 'r option" where
  "TryReadBool = read_item (\<lambda>x. case x of IBool b \<Rightarrow> Some (Some b) | _ \<Rightarrow> None) None"

definition ReadRawData :: "u32 \<Rightarrow> (string option \<Rightarrow> parcel \<Rightarrow> 'r option) \<Rightarrow> parcel \<Rightarrow> 'r option" where
  "ReadRawData len =
     read_item (\<lambda>x. case x of IRaw s \<Rightarrow> Some (if of_nat (length s + 1) = len then Some s else None) | _ \<Rightarrow> None) None"

text \<open>A loop that reads \<open>n\<close> elements and adds them to a vector.\<close>

fun read_many ::
  "(('v \<Rightarrow> parcel \<Rightarrow> 'r option) \<Rightarrow> parcel \<Rightarrow> 'r option) \<Rightarrow> nat \<Rightarrow> 'v list \<Rightarrow> ('v list \<Rightarrow> parcel \<Rightarrow> 'r option) \<Rightarrow> parcel \<Rightarrow> 'r option" where
  "read_many rd 0 vs k p = k vs p"
| "read_many rd (Suc n) vs k p = rd (\<lambda>v. read_many rd n (vs @ [v]) k) p"

section \<open>Parcelable structures\<close>

text \<open>
  A reading function gives the structure, or \<open>None\<close> for a null pointer, and the rest of the parcel.
\<close>

type_synonym 'v unmarshalling = "parcel \<Rightarrow> ('v option \<times> parcel) option"

definition ReadParcelable :: "'v unmarshalling \<Rightarrow> ('v option \<Rightarrow> parcel \<Rightarrow> 'r option) \<Rightarrow> parcel \<Rightarrow> 'r option" where
  "ReadParcelable rd k p = (case rd p of None \<Rightarrow> None | Some (v, p1) \<Rightarrow> k v p1)"

text \<open>
  Most structures travel as the text of their JSON value. \<open>jc_dump\<close> and \<open>jc_parse\<close> are the printer and
  the parser of the JSON library; an exception while reading the value is \<open>None\<close>.
\<close>

record json_text =
  jc_dump :: "json \<Rightarrow> string"
  jc_parse :: "string \<Rightarrow> json option"

definition json_Marshalling :: "json_text \<Rightarrow> ('v \<Rightarrow> json) \<Rightarrow> 'v \<Rightarrow> item list" where
  "json_Marshalling jc enc v =
     (let str = jc_dump jc (enc v) in [IUint32 (of_nat (length str + 1)), IRaw str])"

definition json_ReadFromParcel :: "json_text \<Rightarrow> 'v getter \<Rightarrow> 'v unmarshalling" where
  "json_ReadFromParcel jc get =
     ReadUint32 (\<lambda>len p.
       if len = 0 then Some (None, p)
       else ReadRawData len (\<lambda>data p.
         case data of
           None \<Rightarrow> Some (None, p)
         | Some text \<Rightarrow>
             (case jc_parse jc text of
                None \<Rightarrow> Some (None, p)
              | Some jsonObject \<Rightarrow> map_option (\<lambda>(v, _). (Some v, p)) (get jsonObject pr_OK))) p)"

section \<open>What is written is read back\<close>

lemma read_item_Cons: "sel x = Some v \<Longrightarrow> read_item sel dflt k (x # p) = k v p"
  by (simp add: read_item_def)

lemma read_simps [simp]:
  "ReadInt32 k1 (IInt32 n # p) = k1 n p"
  "ReadUint32 k2 (IUint32 u # p) = k2 u p"
  "ReadInt64 k3 (IInt64 l # p) = k3 l p"
  "ReadBool k4 (IBool b # p) = k4 b p"
  "ReadString k5 (IString s # p) = k5 s p"
  "ReadString16 k6 (IString16 s # p) = k6 s p"
  "ReadInterfaceToken k7 (IToken s # p) = k7 s p"
  "ReadObject k8 (IObject ob # p) = k8 ob p"
  "ReadWant k9 (IWant w # p) = k9 (Some w) p"
  "ReadPixelMap k10 (IPixelMap m # p) = k10 (Some m) p"
  "ReadAshmem k11 (IAshmem mem # p) = k11 (Some mem) p"
  "ReadStringVector k12 (IStrings ss # p) = k12 (Some ss) p"
  "ReadInt32Vector k13 (IInts ns # p) = k13 (Some ns) p"
  "TryReadInt32 k14 (IInt32 n # p) = k14 (Some n) p"
  "TryReadUint32 k15 (IUint32 u # p) = k15 (Some u) p"
  "TryReadBool k16 (IBool b # p) = k16 (Some b) p"
  "ReadRawData (of_nat (length s + 1)) k17 (IRaw s # p) = k17 (Some s) p"
  by (simp_all add: ReadInt32_def ReadUint32_def ReadInt64_def ReadBool_def ReadString_def ReadString16_def
      ReadInterfaceToken_def ReadObject_def ReadWant_def ReadPixelMap_def ReadAshmem_def ReadStringVector_def
      ReadInt32Vector_def TryReadInt32_def TryReadUint32_def TryReadBool_def ReadRawData_def read_item_Cons)

lemma to_int32_small: "n < 2 ^ 31 \<Longrightarrow> nat (to_int32 n) = n"
  by (simp add: to_int32_def signed_take_bit_int_eq_self)

lemma write_items_all: "(\<And>q x. room q x) \<Longrightarrow> write_items room xs p = Some (p @ xs)"
  by (induction xs arbitrary: p) auto

text \<open>Elements that are written one after another.\<close>

lemma read_many_items:
  assumes "\<And>v k p. v \<in> set vs \<Longrightarrow> rd k (items v @ p) = k (f v) p"
  shows "read_many rd (length vs) acc k (concat (map items vs) @ p) = k (acc @ map f vs) p"
  using assms by (induction vs arbitrary: acc) auto

lemma read_many_vector [simp]:
  "read_many ReadString16 (length ss) acc ks (map IString16 ss @ p) = ks (acc @ ss) p"
  "read_many ReadInt32 (length ns) acn kn (map IInt32 ns @ p) = kn (acn @ ns) p"
  by (induction ss arbitrary: acc, simp_all, induction ns arbitrary: acn, simp_all)

text \<open>
  The contract of a parcelable structure: reading back a structure that was written gives \<open>kept v\<close>,
  whatever comes after it.
\<close>

locale parcelable =
  fixes items :: "'v \<Rightarrow> item list" and rd :: "'v unmarshalling" and sendable :: "'v \<Rightarrow> bool" and kept :: "'v \<Rightarrow> 'v"
  assumes reads: "sendable v \<Longrightarrow> rd (items v @ p) = Some (Some (kept v), p)"
begin

lemma reads_end: "sendable v \<Longrightarrow> rd (items v) = Some (Some (kept v), [])"
  using reads [of v "[]"] by simp

lemma read_parcelable: "sendable v \<Longrightarrow> ReadParcelable rd k (items v @ p) = k (Some (kept v)) p"
  by (simp add: ReadParcelable_def reads)

lemma read_parcelable_end: "sendable v \<Longrightarrow> ReadParcelable rd k (items v) = k (Some (kept v)) []"
  using read_parcelable [of v k "[]"] by simp

end

text \<open>A JSON value is readable when the parser undoes the printer and the text is not too long.\<close>

definition readable :: "json_text \<Rightarrow> json \<Rightarrow> bool" where
  "readable jc j \<longleftrightarrow> jc_parse jc (jc_dump jc j) = Some j \<and> length (jc_dump jc j) + 1 < 2 ^ 32"

lemma unat_small: "n < 2 ^ 32 \<Longrightarrow> unat (of_nat n :: u32) = n"
  using of_nat_inverse [of n "of_nat n :: u32"] by simp

lemma json_parcelable:
  fixes get :: "'v getter" and ok :: "'v \<Rightarrow> bool"
  assumes "\<And>v. ok v \<Longrightarrow> get (enc v) pr_OK = Some (kept v, pr_OK)"
  shows "parcelable (json_Marshalling jc enc) (json_ReadFromParcel jc get) (\<lambda>v. ok v \<and> readable jc (enc v)) kept"
proof (unfold_locales, elim conjE)
  fix v p
  assume v: "ok v" "readable jc (enc v)"
  then have "length (jc_dump jc (enc v)) + 1 < 2 ^ 32" by (simp add: readable_def)
  then have "unat (of_nat (length (jc_dump jc (enc v)) + 1) :: u32) = length (jc_dump jc (enc v)) + 1"
    by (rule unat_small)
  then have "(of_nat (length (jc_dump jc (enc v)) + 1) :: u32) \<noteq> 0" by (metis add_is_0 one_neq_zero unat_0)
  moreover have "ReadRawData (of_nat (length (jc_dump jc (enc v)) + 1)) k (IRaw (jc_dump jc (enc v)) # p) =
      k (Some (jc_dump jc (enc v))) p" for k :: "string option \<Rightarrow> parcel \<Rightarrow> ('v option \<times> parcel) option"
    by (rule read_simps)
  ultimately show "json_ReadFromParcel jc get (json_Marshalling jc enc v @ p) = Some (Some (kept v), p)"
    using v assms by (simp add: json_ReadFromParcel_def json_Marshalling_def readable_def Let_def del: of_nat_add of_nat_Suc)
qed

end
