(* ===== verification/Json_Distributed.thy ===== *)
theory Json_Distributed
  imports Json_Base_Laws
begin

text \<open>
  \<open>distributed_ability_info.cpp\<close>, \<open>distributed_module_info.cpp\<close> and \<open>distributed_bundle_info.cpp\<close>: what a
  device tells other devices of its bundles, as JSON.
\<close>

text \<open>\<open>type\<close> has no initializer; the model starts from \<open>UNKNOWN\<close>.\<close>

record distributed_ability_info =
  da_abilityName :: string
  da_permissions :: "string list"
  da_type :: ability_type
  da_enabled :: bool

definition new_DistributedAbilityInfo :: distributed_ability_info where
  "new_DistributedAbilityInfo = \<lparr>da_abilityName = [], da_permissions = [], da_type = AbilityType_UNKNOWN, da_enabled = True\<rparr>"

record distributed_module_info =
  dmo_moduleName :: string
  dmo_abilities :: "distributed_ability_info list"

definition new_DistributedModuleInfo :: distributed_module_info where
  "new_DistributedModuleInfo = \<lparr>dmo_moduleName = [], dmo_abilities = []\<rparr>"

record distributed_bundle_info =
  db_version :: u32
  db_bundleName :: string
  db_versionCode :: u32
  db_versionName :: string
  db_minCompatibleVersion :: u32
  db_targetVersionCode :: u32
  db_compatibleVersionCode :: u32
  db_appId :: string
  db_moduleInfos :: "distributed_module_info list"

definition new_DistributedBundleInfo :: distributed_bundle_info where
  "new_DistributedBundleInfo = \<lparr>db_version = 1, db_bundleName = [], db_versionCode = 0, db_versionName = [],
     db_minCompatibleVersion = 0, db_targetVersionCode = 0, db_compatibleVersionCode = 0, db_appId = [], db_moduleInfos = []\<rparr>"

definition DistributedAbilityInfo_to_json :: "distributed_ability_info \<Rightarrow> json" where
  "DistributedAbilityInfo_to_json x = json_object [
     (''abilityName'', JStr (da_abilityName x)),
     (''permissions'', json_list JStr (da_permissions x)),
     (''type'', AbilityType_to_json (da_type x)),
     (''enabled'', JBool (da_enabled x))]"

definition DistributedAbilityInfo_from_json :: "distributed_ability_info getter" where
  "DistributedAbilityInfo_from_json = from_json new_DistributedAbilityInfo [
     read_string ''abilityName'' da_abilityName_update False Local,
     read_array get_string AT_STRING ''permissions'' da_permissions_update False Local,
     read_number (get_enum AbilityType_values) ''type'' da_type_update False Local,
     read_bool ''enabled'' da_enabled_update False Local]"

definition DistributedModuleInfo_to_json :: "distributed_module_info \<Rightarrow> json" where
  "DistributedModuleInfo_to_json x = json_object [
     (''moduleName'', JStr (dmo_moduleName x)),
     (''abilities'', json_list DistributedAbilityInfo_to_json (dmo_abilities x))]"

definition DistributedModuleInfo_from_json :: "distributed_module_info getter" where
  "DistributedModuleInfo_from_json = from_json new_DistributedModuleInfo [
     read_string ''moduleName'' dmo_moduleName_update False Local,
     read_array DistributedAbilityInfo_from_json AT_OBJECT ''abilities'' dmo_abilities_update False Local]"

text \<open>\<open>ToString\<close> and \<open>FromJsonString\<close> of a bundle, before printing and after parsing.\<close>

definition DistributedBundleInfo_to_json :: "distributed_bundle_info \<Rightarrow> json" where
  "DistributedBundleInfo_to_json x = json_assign_all [
     (''version'', json_u32 (db_version x)),
     (''bundleName'', JStr (db_bundleName x)),
     (''versionCode'', json_u32 (db_versionCode x)),
     (''versionName'', JStr (db_versionName x)),
     (''compatibleVersionCode'', json_u32 (db_compatibleVersionCode x)),
     (''minCompatibleVersion'', json_u32 (db_minCompatibleVersion x)),
     (''targetVersionCode'', json_u32 (db_targetVersionCode x)),
     (''appId'', JStr (db_appId x)),
     (''moduleInfos'', json_list DistributedModuleInfo_to_json (db_moduleInfos x))]"

definition DistributedBundleInfo_members :: "distributed_bundle_info step list" where
  "DistributedBundleInfo_members = [
     read_number get_uint32 ''version'' db_version_update False Local,
     read_string ''bundleName'' db_bundleName_update False Local,
     read_number get_uint32 ''versionCode'' db_versionCode_update False Local,
     read_number get_uint32 ''compatibleVersionCode'' db_compatibleVersionCode_update False Local,
     read_string ''versionName'' db_versionName_update False Local,
     read_number get_uint32 ''minCompatibleVersion'' db_minCompatibleVersion_update False Local,
     read_number get_uint32 ''targetVersionCode'' db_targetVersionCode_update False Local,
     read_string ''appId'' db_appId_update False Local,
     read_array DistributedModuleInfo_from_json AT_OBJECT ''moduleInfos'' db_moduleInfos_update False Local]"

definition DistributedBundleInfo_FromJson :: "json \<Rightarrow> distributed_bundle_info \<Rightarrow> (bool \<times> distributed_bundle_info) option" where
  "DistributedBundleInfo_FromJson j x =
     map_option (\<lambda>(x1, st). (ps_local st = pr_OK, x1))
       (run_steps DistributedBundleInfo_members j (x, \<lparr>ps_local = pr_OK, ps_global = pr_OK\<rparr>))"

section \<open>Round trips\<close>

lemma DistributedAbilityInfo_object [simp, json_read]: "has_type JT_OBJECT (DistributedAbilityInfo_to_json x)"
  by (simp add: DistributedAbilityInfo_to_json_def )

lemma DistributedAbilityInfo_reads [json_read]: "DistributedAbilityInfo_from_json (DistributedAbilityInfo_to_json x) pr_OK = Some (x, pr_OK)"
  unfolding DistributedAbilityInfo_from_json_def new_DistributedAbilityInfo_def
  by (rule from_json_result, simp only: DistributedAbilityInfo_to_json_def [THEN find_in_object] AbilityType_to_json_def json_read) simp

interpretation c_DistributedAbilityInfo: json_coding DistributedAbilityInfo_to_json DistributedAbilityInfo_from_json "\<lambda>_. True" "\<lambda>x. x"
  by unfold_locales (simp only: DistributedAbilityInfo_reads)

lemmas DistributedAbilityInfo_parts [json_read] =
  c_DistributedAbilityInfo.read_vector_ok [where at = AT_OBJECT, simplified] c_DistributedAbilityInfo.reads_vector [simplified]
  c_DistributedAbilityInfo.reads_map [simplified] c_DistributedAbilityInfo.reads_vector_map [simplified]

lemma DistributedModuleInfo_object [simp, json_read]: "has_type JT_OBJECT (DistributedModuleInfo_to_json x)"
  by (simp add: DistributedModuleInfo_to_json_def )

lemma DistributedModuleInfo_reads [json_read]: "DistributedModuleInfo_from_json (DistributedModuleInfo_to_json x) pr_OK = Some (x, pr_OK)"
  unfolding DistributedModuleInfo_from_json_def new_DistributedModuleInfo_def
  by (rule from_json_result, simp only: DistributedModuleInfo_to_json_def [THEN find_in_object] json_read) simp

interpretation c_DistributedModuleInfo: json_coding DistributedModuleInfo_to_json DistributedModuleInfo_from_json "\<lambda>_. True" "\<lambda>x. x"
  by unfold_locales (simp only: DistributedModuleInfo_reads)

lemmas DistributedModuleInfo_parts [json_read] =
  c_DistributedModuleInfo.read_vector_ok [where at = AT_OBJECT, simplified] c_DistributedModuleInfo.reads_vector [simplified]
  c_DistributedModuleInfo.reads_map [simplified] c_DistributedModuleInfo.reads_vector_map [simplified]

lemma DistributedBundleInfo_reads:
  "DistributedBundleInfo_FromJson (DistributedBundleInfo_to_json x) new_DistributedBundleInfo = Some (True, x)"
proof -
  have "run_steps DistributedBundleInfo_members (DistributedBundleInfo_to_json x) (new_DistributedBundleInfo, no_error) = Some (x, no_error)"
    unfolding DistributedBundleInfo_members_def new_DistributedBundleInfo_def
    by (simp only: DistributedBundleInfo_to_json_def [THEN find_in_assign] json_u32_def json_read) simp
  then show ?thesis by (simp add: DistributedBundleInfo_FromJson_def)
qed

end
