(* ===== verification/Ipc_Structs.thy ===== *)
theory Ipc_Structs
  imports Ipc_Parcel Json_Pack Json_Distributed
begin

text \<open>
  \<open>Marshalling\<close> and \<open>ReadFromParcel\<close> of the structures that travel between processes. The large ones
  travel as JSON text, the others member by member. Strings are converted to UTF-16 and back, which is
  the library's and loses nothing.
\<close>

section \<open>Structures as JSON text\<close>

definition ApplicationInfo_Marshalling :: "json_text \<Rightarrow> application_info \<Rightarrow> item list" where
  "ApplicationInfo_Marshalling jc = json_Marshalling jc ApplicationInfo_to_json"

definition ApplicationInfo_ReadFromParcel :: "json_text \<Rightarrow> application_info unmarshalling" where
  "ApplicationInfo_ReadFromParcel jc = json_ReadFromParcel jc ApplicationInfo_from_json"

definition AbilityInfo_Marshalling :: "json_text \<Rightarrow> ability_info \<Rightarrow> item list" where
  "AbilityInfo_Marshalling jc = json_Marshalling jc AbilityInfo_to_json"

definition AbilityInfo_ReadFromParcel :: "json_text \<Rightarrow> ability_info unmarshalling" where
  "AbilityInfo_ReadFromParcel jc = json_ReadFromParcel jc AbilityInfo_from_json"

definition ExtensionAbilityInfo_Marshalling :: "json_text \<Rightarrow> extension_ability_info \<Rightarrow> item list" where
  "ExtensionAbilityInfo_Marshalling jc = json_Marshalling jc ExtensionAbilityInfo_to_json"

definition ExtensionAbilityInfo_ReadFromParcel :: "json_text \<Rightarrow> extension_ability_info unmarshalling" where
  "ExtensionAbilityInfo_ReadFromParcel jc = json_ReadFromParcel jc ExtensionAbilityInfo_from_json"

definition HapModuleInfo_Marshalling :: "json_text \<Rightarrow> hap_module_info \<Rightarrow> item list" where
  "HapModuleInfo_Marshalling jc = json_Marshalling jc HapModuleInfo_to_json"

definition HapModuleInfo_ReadFromParcel :: "json_text \<Rightarrow> hap_module_info unmarshalling" where
  "HapModuleInfo_ReadFromParcel jc = json_ReadFromParcel jc HapModuleInfo_from_json"

definition BundleInfo_Marshalling :: "json_text \<Rightarrow> bundle_info \<Rightarrow> item list" where
  "BundleInfo_Marshalling jc = json_Marshalling jc BundleInfo_to_json"

definition BundleInfo_ReadFromParcel :: "json_text \<Rightarrow> bundle_info unmarshalling" where
  "BundleInfo_ReadFromParcel jc = json_ReadFromParcel jc BundleInfo_from_json"

definition BundlePackInfo_Marshalling :: "json_text \<Rightarrow> bundle_pack_info \<Rightarrow> item list" where
  "BundlePackInfo_Marshalling jc = json_Marshalling jc BundlePackInfo_to_json"

definition BundlePackInfo_ReadFromParcel :: "json_text \<Rightarrow> bundle_pack_info unmarshalling" where
  "BundlePackInfo_ReadFromParcel jc = json_ReadFromParcel jc BundlePackInfo_from_json"

definition DistributedAbilityInfo_Marshalling :: "json_text \<Rightarrow> distributed_ability_info \<Rightarrow> item list" where
  "DistributedAbilityInfo_Marshalling jc = json_Marshalling jc DistributedAbilityInfo_to_json"

definition DistributedAbilityInfo_ReadFromParcel :: "json_text \<Rightarrow> distributed_ability_info unmarshalling" where
  "DistributedAbilityInfo_ReadFromParcel jc = json_ReadFromParcel jc DistributedAbilityInfo_from_json"

definition DistributedModuleInfo_Marshalling :: "json_text \<Rightarrow> distributed_module_info \<Rightarrow> item list" where
  "DistributedModuleInfo_Marshalling jc = json_Marshalling jc DistributedModuleInfo_to_json"

definition DistributedModuleInfo_ReadFromParcel :: "json_text \<Rightarrow> distributed_module_info unmarshalling" where
  "DistributedModuleInfo_ReadFromParcel jc = json_ReadFromParcel jc DistributedModuleInfo_from_json"

section \<open>Structures member by member\<close>

text \<open>A vector of strings or integers: its size and its elements. A missing size ends the reading.\<close>

definition strings16 :: "string list \<Rightarrow> item list" where
  "strings16 ss = IInt32 (to_int32 (length ss)) # map IString16 ss"

definition ints32 :: "int list \<Rightarrow> item list" where
  "ints32 ns = IInt32 (to_int32 (length ns)) # map IInt32 ns"

definition read_sized ::
  "(('e \<Rightarrow> parcel \<Rightarrow> ('v option \<times> parcel) option) \<Rightarrow> parcel \<Rightarrow> ('v option \<times> parcel) option)
     \<Rightarrow> ('e list \<Rightarrow> parcel \<Rightarrow> ('v option \<times> parcel) option) \<Rightarrow> 'v unmarshalling" where
  "read_sized rd k =
     TryReadInt32 (\<lambda>n p. case n of None \<Rightarrow> Some (None, p) | Some n \<Rightarrow> read_many rd (nat n) [] k p)"

definition CommonEventInfo_Marshalling :: "common_event_info \<Rightarrow> item list" where
  "CommonEventInfo_Marshalling x =
     [IString16 (ce_name x), IString16 (ce_bundleName x), IInt32 (ce_uid x), IString16 (ce_permission x)]
     @ strings16 (ce_data x) @ strings16 (ce_type x) @ strings16 (ce_events x)"

definition CommonEventInfo_ReadFromParcel :: "common_event_info unmarshalling" where
  "CommonEventInfo_ReadFromParcel =
     ReadString16 (\<lambda>name. ReadString16 (\<lambda>bundleName. ReadInt32 (\<lambda>uid. ReadString16 (\<lambda>permission.
     read_sized ReadString16 (\<lambda>data. read_sized ReadString16 (\<lambda>type. read_sized ReadString16 (\<lambda>events p.
       Some (Some \<lparr>ce_name = name, ce_bundleName = bundleName, ce_uid = uid, ce_permission = permission,
         ce_data = data, ce_type = type, ce_events = events\<rparr>, p))))))))"

definition ShortcutInfo_Marshalling :: "shortcut_info \<Rightarrow> item list" where
  "ShortcutInfo_Marshalling x =
     [IString16 (si_id x), IString16 (si_bundleName x), IString16 (si_hostAbility x), IString16 (si_icon x),
      IString16 (si_label x), IInt32 (si_iconId x), IInt32 (si_labelId x), IString16 (si_disableMessage x),
      IBool (si_isStatic x), IBool (si_isHomeShortcut x), IBool (si_isEnables x),
      IInt32 (to_int32 (length (si_intents x)))]
     @ concat (map (\<lambda>n. [IString16 (sn_targetBundle n), IString16 (sn_targetClass n)]) (si_intents x))"

definition read_intent :: "(shortcut_intent \<Rightarrow> parcel \<Rightarrow> 'r option) \<Rightarrow> parcel \<Rightarrow> 'r option" where
  "read_intent k = ReadString16 (\<lambda>targetBundleName. ReadString16 (\<lambda>targetClassName.
     k \<lparr>sn_targetBundle = targetBundleName, sn_targetClass = targetClassName\<rparr>))"

definition ShortcutInfo_ReadFromParcel :: "shortcut_info unmarshalling" where
  "ShortcutInfo_ReadFromParcel =
     ReadString16 (\<lambda>id. ReadString16 (\<lambda>bundleName. ReadString16 (\<lambda>hostAbility. ReadString16 (\<lambda>icon. ReadString16 (\<lambda>label.
     ReadInt32 (\<lambda>iconId. ReadInt32 (\<lambda>labelId. ReadString16 (\<lambda>disableMessage.
     ReadBool (\<lambda>isStatic. ReadBool (\<lambda>isHomeShortcut. ReadBool (\<lambda>isEnables.
     read_sized read_intent (\<lambda>intents p.
       Some (Some \<lparr>si_id = id, si_bundleName = bundleName, si_hostAbility = hostAbility, si_iconId = iconId,
         si_labelId = labelId, si_icon = icon, si_label = label, si_disableMessage = disableMessage,
         si_intents = intents, si_isStatic = isStatic, si_isHomeShortcut = isHomeShortcut,
         si_isEnables = isEnables\<rparr>, p)))))))))))))"

definition FormInfo_Marshalling :: "form_info \<Rightarrow> item list" where
  "FormInfo_Marshalling x =
     [IString16 (fi_name x), IString16 (fi_package x), IString16 (fi_bundleName x), IString16 (fi_moduleName x),
      IString16 (fi_abilityName x), IString16 (fi_description x), IString16 (fi_formConfigAbility x),
      IString16 (fi_scheduledUpdateTime x), IString16 (fi_jsComponentName x), IString16 (fi_relatedBundleName x),
      IString16 (fi_originalBundleName x), IString16 (fi_deepLink x), IString16 (fi_src x),
      IBool (fi_updateEnabled x), IBool (fi_defaultFlag x), IBool (fi_formVisibleNotify x),
      IInt32 (fi_defaultDimension x), IInt32 (fi_descriptionId x), IInt32 (fi_updateDuration x),
      IInt32 (enum_value FormType_values (fi_type x)), IInt32 (enum_value FormsColorMode_values (fi_colorMode x))]
     @ ints32 (fi_supportDimensions x) @ strings16 (fi_landscapeLayouts x) @ strings16 (fi_portraitLayouts x)
     @ IInt32 (to_int32 (length (fi_customizeDatas x)))
     # concat (map (\<lambda>c. [IString16 (fc_name c), IString16 (fc_value c)]) (fi_customizeDatas x))
     @ [IInt32 (fw_designWidth (fi_window x)), IBool (fw_autoDesignWidth (fi_window x))]"

definition read_customize_data :: "(form_customize_data \<Rightarrow> parcel \<Rightarrow> 'r option) \<Rightarrow> parcel \<Rightarrow> 'r option" where
  "read_customize_data k = ReadString16 (\<lambda>name. ReadString16 (\<lambda>value. k \<lparr>fc_name = name, fc_value = value\<rparr>))"

text \<open>A number that is no enumerator has no counterpart in the datatype.\<close>

definition read_enum ::
  "('e \<times> int) list \<Rightarrow> ('e \<Rightarrow> parcel \<Rightarrow> ('v option \<times> parcel) option) \<Rightarrow> 'v unmarshalling" where
  "read_enum tbl k =
     TryReadInt32 (\<lambda>n p. case n of None \<Rightarrow> Some (None, p)
       | Some n \<Rightarrow> (case enum_of tbl n of None \<Rightarrow> None | Some e \<Rightarrow> k e p))"

definition FormInfo_ReadFromParcel :: "form_info unmarshalling" where
  "FormInfo_ReadFromParcel =
     ReadString16 (\<lambda>name. ReadString16 (\<lambda>package. ReadString16 (\<lambda>bundleName. ReadString16 (\<lambda>moduleName.
     ReadString16 (\<lambda>abilityName. ReadString16 (\<lambda>description. ReadString16 (\<lambda>formConfigAbility.
     ReadString16 (\<lambda>scheduledUpdateTime. ReadString16 (\<lambda>jsComponentName. ReadString16 (\<lambda>relatedBundleName.
     ReadString16 (\<lambda>originalBundleName. ReadString16 (\<lambda>deepLink. ReadString16 (\<lambda>src.
     ReadBool (\<lambda>updateEnabled. ReadBool (\<lambda>defaultFlag. ReadBool (\<lambda>formVisibleNotify.
     ReadInt32 (\<lambda>defaultDimension. ReadInt32 (\<lambda>descriptionId. ReadInt32 (\<lambda>updateDuration.
     read_enum FormType_values (\<lambda>type. read_enum FormsColorMode_values (\<lambda>colorMode.
     read_sized ReadInt32 (\<lambda>supportDimensions. read_sized ReadString16 (\<lambda>landscapeLayouts.
     read_sized ReadString16 (\<lambda>portraitLayouts. read_sized read_customize_data (\<lambda>customizeDatas.
     ReadInt32 (\<lambda>designWidth. ReadBool (\<lambda>autoDesignWidth p.
       Some (Some \<lparr>fi_package = package, fi_bundleName = bundleName, fi_originalBundleName = originalBundleName,
         fi_relatedBundleName = relatedBundleName, fi_moduleName = moduleName, fi_abilityName = abilityName,
         fi_name = name, fi_description = description, fi_jsComponentName = jsComponentName, fi_deepLink = deepLink,
         fi_formConfigAbility = formConfigAbility, fi_scheduledUpdateTime = scheduledUpdateTime, fi_src = src,
         fi_window = \<lparr>fw_designWidth = designWidth, fw_autoDesignWidth = autoDesignWidth\<rparr>,
         fi_descriptionId = descriptionId, fi_updateDuration = updateDuration, fi_defaultDimension = defaultDimension,
         fi_defaultFlag = defaultFlag, fi_formVisibleNotify = formVisibleNotify, fi_updateEnabled = updateEnabled,
         fi_type = type, fi_supportDimensions = supportDimensions, fi_colorMode = colorMode,
         fi_landscapeLayouts = landscapeLayouts, fi_portraitLayouts = portraitLayouts,
         fi_customizeDatas = customizeDatas\<rparr>, p))))))))))))))))))))))))))))"

record permission_def =
  pd_permissionName :: string
  pd_bundleName :: string
  pd_grantMode :: int
  pd_availableLevel :: int
  pd_availableScope :: int
  pd_provisionEnable :: bool
  pd_distributedSceneEnable :: bool
  pd_label :: string
  pd_labelId :: int
  pd_description :: string
  pd_descriptionId :: int

definition PermissionDef_Marshalling :: "permission_def \<Rightarrow> item list" where
  "PermissionDef_Marshalling x =
     [IString16 (pd_permissionName x), IString16 (pd_bundleName x), IString16 (pd_label x), IString16 (pd_description x),
      IInt32 (pd_availableLevel x), IInt32 (pd_availableScope x), IBool (pd_provisionEnable x),
      IBool (pd_distributedSceneEnable x), IInt32 (pd_grantMode x), IInt32 (pd_labelId x), IInt32 (pd_descriptionId x)]"

definition or_null :: "('e \<Rightarrow> parcel \<Rightarrow> ('v option \<times> parcel) option) \<Rightarrow> 'e option \<Rightarrow> 'v unmarshalling" where
  "or_null k x p = (case x of None \<Rightarrow> Some (None, p) | Some v \<Rightarrow> k v p)"

definition PermissionDef_ReadFromParcel :: "permission_def unmarshalling" where
  "PermissionDef_ReadFromParcel =
     ReadString16 (\<lambda>permissionName. ReadString16 (\<lambda>bundleName. ReadString16 (\<lambda>label. ReadString16 (\<lambda>description.
     TryReadInt32 (or_null (\<lambda>availableLevel. TryReadInt32 (or_null (\<lambda>availableScope.
     TryReadBool (or_null (\<lambda>provisionEnable. TryReadBool (or_null (\<lambda>distributedSceneEnable.
     TryReadInt32 (or_null (\<lambda>grantMode. TryReadInt32 (or_null (\<lambda>labelId. TryReadInt32 (or_null (\<lambda>descriptionId p.
       Some (Some \<lparr>pd_permissionName = permissionName, pd_bundleName = bundleName, pd_grantMode = grantMode,
         pd_availableLevel = availableLevel, pd_availableScope = availableScope, pd_provisionEnable = provisionEnable,
         pd_distributedSceneEnable = distributedSceneEnable, pd_label = label, pd_labelId = labelId,
         pd_description = description, pd_descriptionId = descriptionId\<rparr>, p)))))))))))))))))))"

definition DistributedBundleInfo_Marshalling :: "json_text \<Rightarrow> distributed_bundle_info \<Rightarrow> item list" where
  "DistributedBundleInfo_Marshalling jc x =
     [IUint32 (db_version x), IUint32 (db_versionCode x), IUint32 (db_compatibleVersionCode x),
      IUint32 (db_minCompatibleVersion x), IUint32 (db_targetVersionCode x), IString16 (db_bundleName x),
      IString16 (db_versionName x), IString16 (db_appId x), IUint32 (of_nat (length (db_moduleInfos x)))]
     @ concat (map (DistributedModuleInfo_Marshalling jc) (db_moduleInfos x))"

fun read_modules ::
  "json_text \<Rightarrow> nat \<Rightarrow> distributed_module_info list
     \<Rightarrow> (distributed_module_info list \<Rightarrow> parcel \<Rightarrow> ('v option \<times> parcel) option) \<Rightarrow> 'v unmarshalling" where
  "read_modules jc 0 ms k p = k ms p"
| "read_modules jc (Suc n) ms k p =
     ReadParcelable (DistributedModuleInfo_ReadFromParcel jc)
       (\<lambda>m p. case m of None \<Rightarrow> Some (None, p) | Some m \<Rightarrow> read_modules jc n (ms @ [m]) k p) p"

definition DistributedBundleInfo_ReadFromParcel :: "json_text \<Rightarrow> distributed_bundle_info unmarshalling" where
  "DistributedBundleInfo_ReadFromParcel jc =
     ReadUint32 (\<lambda>version. ReadUint32 (\<lambda>versionCode. ReadUint32 (\<lambda>compatibleVersionCode.
     ReadUint32 (\<lambda>minCompatibleVersion. ReadUint32 (\<lambda>targetVersionCode. ReadString16 (\<lambda>bundleName.
     ReadString16 (\<lambda>versionName. ReadString16 (\<lambda>appId. TryReadUint32 (or_null (\<lambda>moduleInfosSize.
     read_modules jc (unat moduleInfosSize) [] (\<lambda>moduleInfos p.
       Some (Some \<lparr>db_version = version, db_bundleName = bundleName, db_versionCode = versionCode,
         db_versionName = versionName, db_minCompatibleVersion = minCompatibleVersion,
         db_targetVersionCode = targetVersionCode, db_compatibleVersionCode = compatibleVersionCode,
         db_appId = appId, db_moduleInfos = moduleInfos\<rparr>, p))))))))))))"

section \<open>Round trips\<close>

text \<open>What may be sent: numbers in range, texts that the JSON library reads back, vectors of less than \<open>2 ^ 31\<close> elements.\<close>

abbreviation sendable_json :: "json_text \<Rightarrow> ('v \<Rightarrow> bool) \<Rightarrow> ('v \<Rightarrow> json) \<Rightarrow> 'v \<Rightarrow> bool" where
  "sendable_json jc ok enc \<equiv> \<lambda>v. ok v \<and> readable jc (enc v)"

abbreviation short :: "'v list \<Rightarrow> bool" where
  "short vs \<equiv> length vs < 2 ^ 31"

interpretation p_application: parcelable "ApplicationInfo_Marshalling jc" "ApplicationInfo_ReadFromParcel jc"
    "sendable_json jc wf_ApplicationInfo ApplicationInfo_to_json" "\<lambda>v. v" for jc
  unfolding ApplicationInfo_Marshalling_def ApplicationInfo_ReadFromParcel_def
  by (rule json_parcelable) (rule ApplicationInfo_reads)

interpretation p_ability: parcelable "AbilityInfo_Marshalling jc" "AbilityInfo_ReadFromParcel jc"
    "sendable_json jc wf_AbilityInfo AbilityInfo_to_json" kept_AbilityInfo for jc
  unfolding AbilityInfo_Marshalling_def AbilityInfo_ReadFromParcel_def
  by (rule json_parcelable) (rule AbilityInfo_reads)

interpretation p_extension: parcelable "ExtensionAbilityInfo_Marshalling jc" "ExtensionAbilityInfo_ReadFromParcel jc"
    "sendable_json jc wf_ExtensionAbilityInfo ExtensionAbilityInfo_to_json" "\<lambda>v. v" for jc
  unfolding ExtensionAbilityInfo_Marshalling_def ExtensionAbilityInfo_ReadFromParcel_def
  by (rule json_parcelable) (rule ExtensionAbilityInfo_reads)

interpretation p_hap_module: parcelable "HapModuleInfo_Marshalling jc" "HapModuleInfo_ReadFromParcel jc"
    "sendable_json jc wf_HapModuleInfo HapModuleInfo_to_json" kept_HapModuleInfo for jc
  unfolding HapModuleInfo_Marshalling_def HapModuleInfo_ReadFromParcel_def
  by (rule json_parcelable) (rule HapModuleInfo_reads)

interpretation p_bundle: parcelable "BundleInfo_Marshalling jc" "BundleInfo_ReadFromParcel jc"
    "sendable_json jc wf_BundleInfo BundleInfo_to_json" kept_BundleInfo for jc
  unfolding BundleInfo_Marshalling_def BundleInfo_ReadFromParcel_def
  by (rule json_parcelable) (rule BundleInfo_reads)

interpretation p_pack: parcelable "BundlePackInfo_Marshalling jc" "BundlePackInfo_ReadFromParcel jc"
    "sendable_json jc (\<lambda>_. True) BundlePackInfo_to_json" kept_BundlePackInfo for jc
  unfolding BundlePackInfo_Marshalling_def BundlePackInfo_ReadFromParcel_def
  by (rule json_parcelable) (rule BundlePackInfo_reads)

interpretation p_dability: parcelable "DistributedAbilityInfo_Marshalling jc" "DistributedAbilityInfo_ReadFromParcel jc"
    "sendable_json jc (\<lambda>_. True) DistributedAbilityInfo_to_json" "\<lambda>v. v" for jc
  unfolding DistributedAbilityInfo_Marshalling_def DistributedAbilityInfo_ReadFromParcel_def
  by (rule json_parcelable) (rule DistributedAbilityInfo_reads)

interpretation p_dmodule: parcelable "DistributedModuleInfo_Marshalling jc" "DistributedModuleInfo_ReadFromParcel jc"
    "sendable_json jc (\<lambda>_. True) DistributedModuleInfo_to_json" "\<lambda>v. v" for jc
  unfolding DistributedModuleInfo_Marshalling_def DistributedModuleInfo_ReadFromParcel_def
  by (rule json_parcelable) (rule DistributedModuleInfo_reads)

lemma read_sized_strings [simp]: "short ss \<Longrightarrow> read_sized ReadString16 k (strings16 ss @ p) = k ss p"
  by (simp add: read_sized_def strings16_def to_int32_small)

lemma read_sized_ints [simp]: "short ns \<Longrightarrow> read_sized ReadInt32 k (ints32 ns @ p) = k ns p"
  by (simp add: read_sized_def ints32_def to_int32_small)

lemma read_sized_items:
  assumes "short vs" "\<And>v k p. v \<in> set vs \<Longrightarrow> rd k (items v @ p) = k v p"
  shows "read_sized rd k (IInt32 (to_int32 (length vs)) # concat (map items vs) @ p) = k vs p"
  using assms read_many_items [of vs rd items "\<lambda>v. v" "[]" k p] by (simp add: read_sized_def to_int32_small)

lemma read_enum_ok [simp]:
  "enum_of tbl (enum_value tbl e) = Some e \<Longrightarrow> read_enum tbl k (IInt32 (enum_value tbl e) # p) = k e p"
  by (simp add: read_enum_def)

interpretation p_common_event: parcelable CommonEventInfo_Marshalling CommonEventInfo_ReadFromParcel
    "\<lambda>x. short (ce_data x) \<and> short (ce_type x) \<and> short (ce_events x)" "\<lambda>v. v"
  by unfold_locales (simp add: CommonEventInfo_Marshalling_def CommonEventInfo_ReadFromParcel_def)

lemma read_intent_again: "read_intent k (IString16 (sn_targetBundle n) # IString16 (sn_targetClass n) # p) = k n p"
  by (cases n) (simp add: read_intent_def)

lemma read_customize_data_again: "read_customize_data k (IString16 (fc_name c) # IString16 (fc_value c) # p) = k c p"
  by (cases c) (simp add: read_customize_data_def)

interpretation p_shortcut: parcelable ShortcutInfo_Marshalling ShortcutInfo_ReadFromParcel "\<lambda>x. short (si_intents x)" "\<lambda>v. v"
proof
  fix v :: shortcut_info and p :: parcel
  assume "short (si_intents v)"
  then have "read_sized read_intent k (IInt32 (to_int32 (length (si_intents v))) #
      concat (map (\<lambda>n. [IString16 (sn_targetBundle n), IString16 (sn_targetClass n)]) (si_intents v)) @ p) = k (si_intents v) p"
    for k :: "shortcut_intent list \<Rightarrow> parcel \<Rightarrow> (shortcut_info option \<times> parcel) option"
    by (rule read_sized_items) (simp add: read_intent_again)
  then show "ShortcutInfo_ReadFromParcel (ShortcutInfo_Marshalling v @ p) = Some (Some v, p)"
    by (simp add: ShortcutInfo_Marshalling_def ShortcutInfo_ReadFromParcel_def)
qed

lemma form_enums:
  "enum_of FormType_values (enum_value FormType_values t) = Some t"
  "enum_of FormsColorMode_values (enum_value FormsColorMode_values c) = Some c"
  by (cases t, simp_all add: enum_of_def enum_value_def FormType_values_def)
     (cases c, simp_all add: enum_of_def enum_value_def FormsColorMode_values_def)

interpretation p_form: parcelable FormInfo_Marshalling FormInfo_ReadFromParcel
    "\<lambda>x. short (fi_supportDimensions x) \<and> short (fi_landscapeLayouts x) \<and> short (fi_portraitLayouts x) \<and> short (fi_customizeDatas x)"
    "\<lambda>v. v"
proof (unfold_locales, elim conjE)
  fix v :: form_info and p :: parcel
  assume s: "short (fi_supportDimensions v)" "short (fi_landscapeLayouts v)" "short (fi_portraitLayouts v)" "short (fi_customizeDatas v)"
  then have "read_sized read_customize_data k (IInt32 (to_int32 (length (fi_customizeDatas v))) #
      concat (map (\<lambda>c. [IString16 (fc_name c), IString16 (fc_value c)]) (fi_customizeDatas v)) @ q) = k (fi_customizeDatas v) q"
    for q and k :: "form_customize_data list \<Rightarrow> parcel \<Rightarrow> (form_info option \<times> parcel) option"
    by (intro read_sized_items) (simp_all add: read_customize_data_again)
  then show "FormInfo_ReadFromParcel (FormInfo_Marshalling v @ p) = Some (Some v, p)"
    using s by (simp add: FormInfo_Marshalling_def FormInfo_ReadFromParcel_def form_enums)
qed

interpretation p_permission: parcelable PermissionDef_Marshalling PermissionDef_ReadFromParcel "\<lambda>_. True" "\<lambda>v. v"
  by unfold_locales (simp add: PermissionDef_Marshalling_def PermissionDef_ReadFromParcel_def or_null_def)

lemma read_modules_ok:
  "list_all (sendable_json jc (\<lambda>_. True) DistributedModuleInfo_to_json) xs \<Longrightarrow>
     read_modules jc (length xs) ms k (concat (map (DistributedModuleInfo_Marshalling jc) xs) @ p) = k (ms @ xs) p"
  by (induction xs arbitrary: ms) (simp_all add: p_dmodule.read_parcelable)

interpretation p_distributed: parcelable "DistributedBundleInfo_Marshalling jc" "DistributedBundleInfo_ReadFromParcel jc"
    "\<lambda>x. length (db_moduleInfos x) < 2 ^ 32 \<and> list_all (sendable_json jc (\<lambda>_. True) DistributedModuleInfo_to_json) (db_moduleInfos x)"
    "\<lambda>v. v" for jc
  by unfold_locales
     (simp add: DistributedBundleInfo_Marshalling_def DistributedBundleInfo_ReadFromParcel_def or_null_def unat_small
        read_modules_ok)

end
