(* ===== verification/Ipc_Interface.thy ===== *)
theory Ipc_Interface
  imports Ipc_Structs
begin

text \<open>
  \<open>IBundleMgr\<close>: the operations of the bundle manager that other processes call, the numbers of their
  messages, and the two ends of the connection. An operation takes its arguments and the state of the
  service. An operation with a boolean result and an output parameter gives the output, or \<open>None\<close> for
  false; the caller does not look at the output then.
\<close>

section \<open>Messages\<close>

abbreviation (input) GET_APPLICATION_INFO :: nat where "GET_APPLICATION_INFO \<equiv> 0"
abbreviation (input) GET_APPLICATION_INFOS :: nat where "GET_APPLICATION_INFOS \<equiv> 1"
abbreviation (input) GET_BUNDLE_INFO :: nat where "GET_BUNDLE_INFO \<equiv> 2"
abbreviation (input) GET_BUNDLE_PACK_INFO :: nat where "GET_BUNDLE_PACK_INFO \<equiv> 3"
abbreviation (input) GET_BUNDLE_INFOS :: nat where "GET_BUNDLE_INFOS \<equiv> 4"
abbreviation (input) GET_UID_BY_BUNDLE_NAME :: nat where "GET_UID_BY_BUNDLE_NAME \<equiv> 5"
abbreviation (input) GET_APPID_BY_BUNDLE_NAME :: nat where "GET_APPID_BY_BUNDLE_NAME \<equiv> 6"
abbreviation (input) GET_BUNDLE_NAME_FOR_UID :: nat where "GET_BUNDLE_NAME_FOR_UID \<equiv> 7"
abbreviation (input) GET_BUNDLES_FOR_UID :: nat where "GET_BUNDLES_FOR_UID \<equiv> 8"
abbreviation (input) GET_NAME_FOR_UID :: nat where "GET_NAME_FOR_UID \<equiv> 9"
abbreviation (input) GET_BUNDLE_GIDS :: nat where "GET_BUNDLE_GIDS \<equiv> 10"
abbreviation (input) GET_BUNDLE_GIDS_BY_UID :: nat where "GET_BUNDLE_GIDS_BY_UID \<equiv> 11"
abbreviation (input) GET_APP_TYPE :: nat where "GET_APP_TYPE \<equiv> 12"
abbreviation (input) CHECK_IS_SYSTEM_APP_BY_UID :: nat where "CHECK_IS_SYSTEM_APP_BY_UID \<equiv> 13"
abbreviation (input) GET_BUNDLE_INFOS_BY_METADATA :: nat where "GET_BUNDLE_INFOS_BY_METADATA \<equiv> 14"
abbreviation (input) QUERY_ABILITY_INFO :: nat where "QUERY_ABILITY_INFO \<equiv> 15"
abbreviation (input) QUERY_ABILITY_INFOS :: nat where "QUERY_ABILITY_INFOS \<equiv> 16"
abbreviation (input) QUERY_ABILITY_INFOS_FOR_CLONE :: nat where "QUERY_ABILITY_INFOS_FOR_CLONE \<equiv> 17"
abbreviation (input) QUERY_ABILITY_INFO_BY_URI :: nat where "QUERY_ABILITY_INFO_BY_URI \<equiv> 18"
abbreviation (input) QUERY_ABILITY_INFOS_BY_URI :: nat where "QUERY_ABILITY_INFOS_BY_URI \<equiv> 19"
abbreviation (input) QUERY_KEEPALIVE_BUNDLE_INFOS :: nat where "QUERY_KEEPALIVE_BUNDLE_INFOS \<equiv> 20"
abbreviation (input) GET_ABILITY_LABEL :: nat where "GET_ABILITY_LABEL \<equiv> 21"
abbreviation (input) GET_ABILITY_LABEL_WITH_MODULE_NAME :: nat where "GET_ABILITY_LABEL_WITH_MODULE_NAME \<equiv> 22"
abbreviation (input) GET_BUNDLE_ARCHIVE_INFO :: nat where "GET_BUNDLE_ARCHIVE_INFO \<equiv> 23"
abbreviation (input) GET_HAP_MODULE_INFO :: nat where "GET_HAP_MODULE_INFO \<equiv> 24"
abbreviation (input) GET_LAUNCH_WANT_FOR_BUNDLE :: nat where "GET_LAUNCH_WANT_FOR_BUNDLE \<equiv> 25"
abbreviation (input) CHECK_PUBLICKEYS :: nat where "CHECK_PUBLICKEYS \<equiv> 26"
abbreviation (input) GET_PERMISSION_DEF :: nat where "GET_PERMISSION_DEF \<equiv> 27"
abbreviation (input) HAS_SYSTEM_CAPABILITY :: nat where "HAS_SYSTEM_CAPABILITY \<equiv> 28"
abbreviation (input) GET_SYSTEM_AVAILABLE_CAPABILITIES :: nat where "GET_SYSTEM_AVAILABLE_CAPABILITIES \<equiv> 29"
abbreviation (input) IS_SAFE_MODE :: nat where "IS_SAFE_MODE \<equiv> 30"
abbreviation (input) CLEAN_BUNDLE_CACHE_FILES :: nat where "CLEAN_BUNDLE_CACHE_FILES \<equiv> 31"
abbreviation (input) CLEAN_BUNDLE_DATA_FILES :: nat where "CLEAN_BUNDLE_DATA_FILES \<equiv> 32"
abbreviation (input) REGISTER_BUNDLE_STATUS_CALLBACK :: nat where "REGISTER_BUNDLE_STATUS_CALLBACK \<equiv> 33"
abbreviation (input) CLEAR_BUNDLE_STATUS_CALLBACK :: nat where "CLEAR_BUNDLE_STATUS_CALLBACK \<equiv> 34"
abbreviation (input) UNREGISTER_BUNDLE_STATUS_CALLBACK :: nat where "UNREGISTER_BUNDLE_STATUS_CALLBACK \<equiv> 35"
abbreviation (input) DUMP_INFOS :: nat where "DUMP_INFOS \<equiv> 36"
abbreviation (input) IS_APPLICATION_ENABLED :: nat where "IS_APPLICATION_ENABLED \<equiv> 37"
abbreviation (input) SET_APPLICATION_ENABLED :: nat where "SET_APPLICATION_ENABLED \<equiv> 38"
abbreviation (input) IS_ABILITY_ENABLED :: nat where "IS_ABILITY_ENABLED \<equiv> 39"
abbreviation (input) SET_ABILITY_ENABLED :: nat where "SET_ABILITY_ENABLED \<equiv> 40"
abbreviation (input) GET_ABILITY_INFO :: nat where "GET_ABILITY_INFO \<equiv> 41"
abbreviation (input) GET_ABILITY_INFO_WITH_MODULE_NAME :: nat where "GET_ABILITY_INFO_WITH_MODULE_NAME \<equiv> 42"
abbreviation (input) GET_ABILITY_PIXELMAP_ICON :: nat where "GET_ABILITY_PIXELMAP_ICON \<equiv> 43"
abbreviation (input) GET_ABILITY_PIXELMAP_ICON_WITH_MODULE_NAME :: nat where "GET_ABILITY_PIXELMAP_ICON_WITH_MODULE_NAME \<equiv> 44"
abbreviation (input) GET_ALL_FORMS_INFO :: nat where "GET_ALL_FORMS_INFO \<equiv> 45"
abbreviation (input) GET_FORMS_INFO_BY_APP :: nat where "GET_FORMS_INFO_BY_APP \<equiv> 46"
abbreviation (input) GET_FORMS_INFO_BY_MODULE :: nat where "GET_FORMS_INFO_BY_MODULE \<equiv> 47"
abbreviation (input) GET_SHORTCUT_INFO :: nat where "GET_SHORTCUT_INFO \<equiv> 48"
abbreviation (input) GET_ALL_COMMON_EVENT_INFO :: nat where "GET_ALL_COMMON_EVENT_INFO \<equiv> 49"
abbreviation (input) GET_BUNDLE_INSTALLER :: nat where "GET_BUNDLE_INSTALLER \<equiv> 50"
abbreviation (input) REMOVE_CLONED_BUNDLE :: nat where "REMOVE_CLONED_BUNDLE \<equiv> 51"
abbreviation (input) BUNDLE_CLONE :: nat where "BUNDLE_CLONE \<equiv> 52"
abbreviation (input) CHECK_BUNDLE_NAME_IN_ALLOWLIST :: nat where "CHECK_BUNDLE_NAME_IN_ALLOWLIST \<equiv> 53"
abbreviation (input) QUERY_ABILITY_INFO_MUTI_PARAM :: nat where "QUERY_ABILITY_INFO_MUTI_PARAM \<equiv> 54"
abbreviation (input) QUERY_ABILITY_INFOS_MUTI_PARAM :: nat where "QUERY_ABILITY_INFOS_MUTI_PARAM \<equiv> 55"
abbreviation (input) QUERY_ALL_ABILITY_INFOS :: nat where "QUERY_ALL_ABILITY_INFOS \<equiv> 56"
abbreviation (input) GET_APPLICATION_INFO_WITH_INT_FLAGS :: nat where "GET_APPLICATION_INFO_WITH_INT_FLAGS \<equiv> 57"
abbreviation (input) GET_APPLICATION_INFOS_WITH_INT_FLAGS :: nat where "GET_APPLICATION_INFOS_WITH_INT_FLAGS \<equiv> 58"
abbreviation (input) GET_BUNDLE_INFO_WITH_INT_FLAGS :: nat where "GET_BUNDLE_INFO_WITH_INT_FLAGS \<equiv> 59"
abbreviation (input) GET_BUNDLE_PACK_INFO_WITH_INT_FLAGS :: nat where "GET_BUNDLE_PACK_INFO_WITH_INT_FLAGS \<equiv> 60"
abbreviation (input) GET_BUNDLE_INFOS_WITH_INT_FLAGS :: nat where "GET_BUNDLE_INFOS_WITH_INT_FLAGS \<equiv> 61"
abbreviation (input) GET_BUNDLE_ARCHIVE_INFO_WITH_INT_FLAGS :: nat where "GET_BUNDLE_ARCHIVE_INFO_WITH_INT_FLAGS \<equiv> 62"
abbreviation (input) GET_BUNDLE_USER_MGR :: nat where "GET_BUNDLE_USER_MGR \<equiv> 63"
abbreviation (input) GET_DISTRIBUTE_BUNDLE_INFO :: nat where "GET_DISTRIBUTE_BUNDLE_INFO \<equiv> 64"
abbreviation (input) QUERY_ABILITY_INFO_BY_URI_FOR_USERID :: nat where "QUERY_ABILITY_INFO_BY_URI_FOR_USERID \<equiv> 65"
abbreviation (input) GET_APPLICATION_PRIVILEGE_LEVEL :: nat where "GET_APPLICATION_PRIVILEGE_LEVEL \<equiv> 66"
abbreviation (input) QUERY_EXTENSION_INFO_WITHOUT_TYPE :: nat where "QUERY_EXTENSION_INFO_WITHOUT_TYPE \<equiv> 67"
abbreviation (input) QUERY_EXTENSION_INFO :: nat where "QUERY_EXTENSION_INFO \<equiv> 68"
abbreviation (input) QUERY_EXTENSION_INFO_BY_TYPE :: nat where "QUERY_EXTENSION_INFO_BY_TYPE \<equiv> 69"
abbreviation (input) VERIFY_CALLING_PERMISSION :: nat where "VERIFY_CALLING_PERMISSION \<equiv> 70"
abbreviation (input) GET_ACCESSIBLE_APP_CODE_PATH :: nat where "GET_ACCESSIBLE_APP_CODE_PATH \<equiv> 71"
abbreviation (input) QUERY_EXTENSION_ABILITY_INFO_BY_URI :: nat where "QUERY_EXTENSION_ABILITY_INFO_BY_URI \<equiv> 72"
abbreviation (input) IS_MODULE_REMOVABLE :: nat where "IS_MODULE_REMOVABLE \<equiv> 73"
abbreviation (input) SET_MODULE_REMOVABLE :: nat where "SET_MODULE_REMOVABLE \<equiv> 74"
abbreviation (input) QUERY_ABILITY_INFO_WITH_CALLBACK :: nat where "QUERY_ABILITY_INFO_WITH_CALLBACK \<equiv> 75"
abbreviation (input) UPGRADE_ATOMIC_SERVICE :: nat where "UPGRADE_ATOMIC_SERVICE \<equiv> 76"
abbreviation (input) IS_MODULE_NEED_UPDATE :: nat where "IS_MODULE_NEED_UPDATE \<equiv> 77"
abbreviation (input) SET_MODULE_NEED_UPDATE :: nat where "SET_MODULE_NEED_UPDATE \<equiv> 78"
abbreviation (input) GET_HAP_MODULE_INFO_WITH_USERID :: nat where "GET_HAP_MODULE_INFO_WITH_USERID \<equiv> 79"
abbreviation (input) IMPLICIT_QUERY_INFO_BY_PRIORITY :: nat where "IMPLICIT_QUERY_INFO_BY_PRIORITY \<equiv> 80"
abbreviation (input) GET_ALL_DEPENDENT_MODULE_NAMES :: nat where "GET_ALL_DEPENDENT_MODULE_NAMES \<equiv> 81"
abbreviation (input) GET_SANDBOX_APP_BUNDLE_INFO :: nat where "GET_SANDBOX_APP_BUNDLE_INFO \<equiv> 82"

text \<open>Error codes that are compared or sent (\<open>appexecfwk_errors.h\<close>).\<close>

abbreviation (input) code_OK :: int where "code_OK \<equiv> 0"
abbreviation (input) code_PARCEL_ERROR :: int where "code_PARCEL_ERROR \<equiv> 8388613"
abbreviation (input) code_HOST_INSTALLER_FAILED :: int where "code_HOST_INSTALLER_FAILED \<equiv> 8519682"
abbreviation (input) code_SANDBOX_PARAM_ERROR :: int where "code_SANDBOX_PARAM_ERROR \<equiv> 8519802"
abbreviation (input) code_SANDBOX_WRITE_PARCEL_ERROR :: int where "code_SANDBOX_WRITE_PARCEL_ERROR \<equiv> 8519803"

section \<open>The operations\<close>

text \<open>
  Overloaded operations have the names of the requests that reach them. Remote objects and pixel maps are
  numbers; \<open>None\<close> is a null pointer.
\<close>

record 's bundle_mgr =
  bm_GetApplicationInfo :: "string \<Rightarrow> int \<Rightarrow> int \<Rightarrow> 's \<Rightarrow> application_info option \<times> 's"
  bm_GetApplicationInfoWithIntFlags :: "string \<Rightarrow> int \<Rightarrow> int \<Rightarrow> 's \<Rightarrow> application_info option \<times> 's"
  bm_GetApplicationInfos :: "int \<Rightarrow> int \<Rightarrow> 's \<Rightarrow> application_info list option \<times> 's"
  bm_GetApplicationInfosWithIntFlags :: "int \<Rightarrow> int \<Rightarrow> 's \<Rightarrow> application_info list option \<times> 's"
  bm_GetBundleInfo :: "string \<Rightarrow> int \<Rightarrow> int \<Rightarrow> 's \<Rightarrow> bundle_info option \<times> 's"
  bm_GetBundleInfoWithIntFlags :: "string \<Rightarrow> int \<Rightarrow> int \<Rightarrow> 's \<Rightarrow> bundle_info option \<times> 's"
  bm_GetBundlePackInfo :: "string \<Rightarrow> int \<Rightarrow> 's \<Rightarrow> bundle_pack_info option \<times> 's"
  bm_GetBundlePackInfoWithIntFlags :: "string \<Rightarrow> int \<Rightarrow> 's \<Rightarrow> bundle_pack_info option \<times> 's"
  bm_GetBundleInfos :: "int \<Rightarrow> int \<Rightarrow> 's \<Rightarrow> bundle_info list option \<times> 's"
  bm_GetBundleInfosWithIntFlags :: "int \<Rightarrow> int \<Rightarrow> 's \<Rightarrow> bundle_info list option \<times> 's"
  bm_GetBundleNameForUid :: "int \<Rightarrow> 's \<Rightarrow> string option \<times> 's"
  bm_GetBundlesForUid :: "int \<Rightarrow> 's \<Rightarrow> string list option \<times> 's"
  bm_GetNameForUid :: "int \<Rightarrow> 's \<Rightarrow> string option \<times> 's"
  bm_GetBundleGids :: "string \<Rightarrow> 's \<Rightarrow> int list option \<times> 's"
  bm_GetBundleGidsByUid :: "string \<Rightarrow> int \<Rightarrow> 's \<Rightarrow> int list option \<times> 's"
  bm_GetBundleInfosByMetaData :: "string \<Rightarrow> 's \<Rightarrow> bundle_info list option \<times> 's"
  bm_QueryAbilityInfo :: "want \<Rightarrow> 's \<Rightarrow> ability_info option \<times> 's"
  bm_QueryAbilityInfoMutiparam :: "want \<Rightarrow> int \<Rightarrow> int \<Rightarrow> 's \<Rightarrow> ability_info option \<times> 's"
  bm_QueryAbilityInfos :: "want \<Rightarrow> 's \<Rightarrow> ability_info list option \<times> 's"
  bm_QueryAbilityInfosMutiparam :: "want \<Rightarrow> int \<Rightarrow> int \<Rightarrow> 's \<Rightarrow> ability_info list option \<times> 's"
  bm_QueryAllAbilityInfos :: "want \<Rightarrow> int \<Rightarrow> 's \<Rightarrow> ability_info list option \<times> 's"
  bm_QueryAbilityInfosForClone :: "want \<Rightarrow> 's \<Rightarrow> ability_info list option \<times> 's"
  bm_QueryAbilityInfoByUri :: "string \<Rightarrow> 's \<Rightarrow> ability_info option \<times> 's"
  bm_QueryAbilityInfosByUri :: "string \<Rightarrow> 's \<Rightarrow> ability_info list option \<times> 's"
  bm_QueryAbilityInfoByUriForUserId :: "string \<Rightarrow> int \<Rightarrow> 's \<Rightarrow> ability_info option \<times> 's"
  bm_QueryKeepAliveBundleInfos :: "'s \<Rightarrow> bundle_info list option \<times> 's"
  bm_GetAbilityLabel :: "string \<Rightarrow> string \<Rightarrow> 's \<Rightarrow> string \<times> 's"
  bm_GetAbilityLabelWithModuleName :: "string \<Rightarrow> string \<Rightarrow> string \<Rightarrow> 's \<Rightarrow> string \<times> 's"
  bm_CheckIsSystemAppByUid :: "int \<Rightarrow> 's \<Rightarrow> bool \<times> 's"
  bm_GetBundleArchiveInfo :: "string \<Rightarrow> int \<Rightarrow> 's \<Rightarrow> bundle_info option \<times> 's"
  bm_GetBundleArchiveInfoWithIntFlags :: "string \<Rightarrow> int \<Rightarrow> 's \<Rightarrow> bundle_info option \<times> 's"
  bm_GetHapModuleInfo :: "ability_info \<Rightarrow> 's \<Rightarrow> hap_module_info option \<times> 's"
  bm_GetHapModuleInfoWithUserId :: "ability_info \<Rightarrow> int \<Rightarrow> 's \<Rightarrow> hap_module_info option \<times> 's"
  bm_GetLaunchWantForBundle :: "string \<Rightarrow> 's \<Rightarrow> want option \<times> 's"
  bm_CheckPublicKeys :: "string \<Rightarrow> string \<Rightarrow> 's \<Rightarrow> int \<times> 's"
  bm_GetPermissionDef :: "string \<Rightarrow> 's \<Rightarrow> permission_def option \<times> 's"
  bm_HasSystemCapability :: "string \<Rightarrow> 's \<Rightarrow> bool \<times> 's"
  bm_GetSystemAvailableCapabilities :: "'s \<Rightarrow> string list option \<times> 's"
  bm_IsSafeMode :: "'s \<Rightarrow> bool \<times> 's"
  bm_CleanBundleCacheFiles :: "string \<Rightarrow> nat option \<Rightarrow> int \<Rightarrow> 's \<Rightarrow> bool \<times> 's"
  bm_CleanBundleDataFiles :: "string \<Rightarrow> int \<Rightarrow> 's \<Rightarrow> bool \<times> 's"
  bm_RegisterBundleStatusCallback :: "string \<Rightarrow> nat \<Rightarrow> 's \<Rightarrow> bool \<times> 's"
  bm_ClearBundleStatusCallback :: "nat option \<Rightarrow> 's \<Rightarrow> bool \<times> 's"
  bm_UnregisterBundleStatusCallback :: "'s \<Rightarrow> bool \<times> 's"
  bm_DumpInfos :: "int \<Rightarrow> string \<Rightarrow> int \<Rightarrow> 's \<Rightarrow> string option \<times> 's"
  bm_IsApplicationEnabled :: "string \<Rightarrow> 's \<Rightarrow> bool \<times> 's"
  bm_SetApplicationEnabled :: "string \<Rightarrow> bool \<Rightarrow> int \<Rightarrow> 's \<Rightarrow> bool \<times> 's"
  bm_IsAbilityEnabled :: "ability_info \<Rightarrow> 's \<Rightarrow> bool \<times> 's"
  bm_SetAbilityEnabled :: "ability_info \<Rightarrow> bool \<Rightarrow> int \<Rightarrow> 's \<Rightarrow> bool \<times> 's"
  bm_GetAbilityInfo :: "string \<Rightarrow> string \<Rightarrow> 's \<Rightarrow> ability_info option \<times> 's"
  bm_GetAbilityInfoWithModuleName :: "string \<Rightarrow> string \<Rightarrow> string \<Rightarrow> 's \<Rightarrow> ability_info option \<times> 's"
  bm_GetAbilityPixelMapIcon :: "string \<Rightarrow> string \<Rightarrow> 's \<Rightarrow> nat option \<times> 's"
  bm_GetAbilityPixelMapIconWithModuleName :: "string \<Rightarrow> string \<Rightarrow> string \<Rightarrow> 's \<Rightarrow> nat option \<times> 's"
  bm_GetBundleInstaller :: "'s \<Rightarrow> nat option \<times> 's"
  bm_GetBundleUserMgr :: "'s \<Rightarrow> nat option \<times> 's"
  bm_GetAllFormsInfo :: "'s \<Rightarrow> form_info list option \<times> 's"
  bm_GetFormsInfoByApp :: "string \<Rightarrow> 's \<Rightarrow> form_info list option \<times> 's"
  bm_GetFormsInfoByModule :: "string \<Rightarrow> string \<Rightarrow> 's \<Rightarrow> form_info list option \<times> 's"
  bm_GetShortcutInfos :: "string \<Rightarrow> 's \<Rightarrow> shortcut_info list option \<times> 's"
  bm_GetAllCommonEventInfo :: "string \<Rightarrow> 's \<Rightarrow> common_event_info list option \<times> 's"
  bm_CheckBundleNameInAllowList :: "string \<Rightarrow> 's \<Rightarrow> bool \<times> 's"
  bm_BundleClone :: "string \<Rightarrow> 's \<Rightarrow> bool \<times> 's"
  bm_RemoveClonedBundle :: "string \<Rightarrow> int \<Rightarrow> 's \<Rightarrow> bool \<times> 's"
  bm_GetDistributedBundleInfo :: "string \<Rightarrow> string \<Rightarrow> 's \<Rightarrow> distributed_bundle_info option \<times> 's"
  bm_GetAppPrivilegeLevel :: "string \<Rightarrow> int \<Rightarrow> 's \<Rightarrow> string \<times> 's"
  bm_QueryExtAbilityInfosWithoutType :: "want \<Rightarrow> int \<Rightarrow> int \<Rightarrow> 's \<Rightarrow> extension_ability_info list option \<times> 's"
  bm_QueryExtAbilityInfos :: "want \<Rightarrow> int \<Rightarrow> int \<Rightarrow> int \<Rightarrow> 's \<Rightarrow> extension_ability_info list option \<times> 's"
  bm_QueryExtAbilityInfosByType :: "int \<Rightarrow> int \<Rightarrow> 's \<Rightarrow> extension_ability_info list option \<times> 's"
  bm_VerifyCallingPermission :: "string \<Rightarrow> 's \<Rightarrow> bool \<times> 's"
  bm_GetAccessibleAppCodePaths :: "int \<Rightarrow> 's \<Rightarrow> string list \<times> 's"
  bm_QueryExtensionAbilityInfoByUri :: "string \<Rightarrow> int \<Rightarrow> 's \<Rightarrow> extension_ability_info option \<times> 's"
  bm_GetAppIdByBundleName :: "string \<Rightarrow> int \<Rightarrow> 's \<Rightarrow> string \<times> 's"
  bm_GetAppType :: "string \<Rightarrow> 's \<Rightarrow> string \<times> 's"
  bm_GetUidByBundleName :: "string \<Rightarrow> int \<Rightarrow> 's \<Rightarrow> int \<times> 's"
  bm_IsModuleRemovable :: "string \<Rightarrow> string \<Rightarrow> 's \<Rightarrow> bool \<times> 's"
  bm_SetModuleRemovable :: "string \<Rightarrow> string \<Rightarrow> bool \<Rightarrow> 's \<Rightarrow> bool \<times> 's"
  bm_GetModuleUpgradeFlag :: "string \<Rightarrow> string \<Rightarrow> 's \<Rightarrow> bool \<times> 's"
  bm_SetModuleUpgradeFlag :: "string \<Rightarrow> string \<Rightarrow> int \<Rightarrow> 's \<Rightarrow> bool \<times> 's"
  bm_ImplicitQueryInfoByPriority :: "want \<Rightarrow> int \<Rightarrow> int \<Rightarrow> 's \<Rightarrow> (ability_info \<times> extension_ability_info) option \<times> 's"
  bm_GetAllDependentModuleNames :: "string \<Rightarrow> string \<Rightarrow> 's \<Rightarrow> string list option \<times> 's"
  bm_GetSandboxBundleInfo :: "string \<Rightarrow> int \<Rightarrow> int \<Rightarrow> 's \<Rightarrow> (int \<times> bundle_info) \<times> 's"
  bm_QueryAbilityInfoWithCallback :: "want \<Rightarrow> int \<Rightarrow> int \<Rightarrow> nat option \<Rightarrow> 's \<Rightarrow> ability_info option \<times> 's"
  bm_UpgradeAtomicService :: "want \<Rightarrow> int \<Rightarrow> 's \<Rightarrow> 's"

section \<open>The two ends\<close>

datatype ipc_result = NO_ERROR | UNKNOWN_ERROR | OBJECT_NULL | IPC_ERROR int

text \<open>
  A remote object takes a message and answers with a result and a reply; \<open>None\<close> stands for a reading
  that the IPC library does not describe.
\<close>

type_synonym 's remote = "nat \<Rightarrow> parcel \<Rightarrow> 's \<Rightarrow> (ipc_result \<times> parcel \<times> 's) option"

text \<open>
  The host's end. \<open>ho_room cap\<close> says what fits into a reply of capacity \<open>cap\<close> (\<open>None\<close>: the default
  capacity); \<open>ho_ashmem\<close> whether shared memory of a size can be created and mapped; \<open>ho_after n\<close> what
  follows the decimal text of \<open>n\<close> and its terminator in memory; \<open>ho_default\<close> is the base class's handler.
\<close>

record 's bundle_mgr_host =
  ho_service :: "'s bundle_mgr"
  ho_json :: json_text
  ho_room :: "nat option \<Rightarrow> parcel \<Rightarrow> item \<Rightarrow> bool"
  ho_iface_cast :: "nat \<Rightarrow> nat option"
  ho_ashmem :: "int \<Rightarrow> bool"
  ho_after :: "int \<Rightarrow> string"
  ho_default :: "nat \<Rightarrow> parcel \<Rightarrow> ipc_result \<times> parcel"

text \<open>The client's end: \<open>px_remote\<close> is \<open>None\<close> when there is no remote object.\<close>

record 's bundle_mgr_proxy =
  px_remote :: "'s remote option"
  px_json :: json_text
  px_room :: "parcel \<Rightarrow> item \<Rightarrow> bool"
  px_iface_cast :: "nat \<Rightarrow> nat option"

definition bundle_mgr_descriptor :: string where
  "bundle_mgr_descriptor = ''ohos.appexecfwk.BundleMgr''"

text \<open>\<open>Want\<close> is a parcelable of another repository.\<close>

definition Want_Marshalling :: "want \<Rightarrow> item list" where
  "Want_Marshalling w = [IWant w]"

definition Want_ReadFromParcel :: "want unmarshalling" where
  "Want_ReadFromParcel = ReadWant (\<lambda>w p. Some (w, p))"

interpretation p_want: parcelable Want_Marshalling Want_ReadFromParcel "\<lambda>_. True" "\<lambda>w. w"
  by unfold_locales (simp add: Want_Marshalling_def Want_ReadFromParcel_def)

section \<open>Shared memory\<close>

definition ASHMEM_LEN :: nat where
  "ASHMEM_LEN = 16"

text \<open>\<open>strlen\<close>: the bytes before the first NUL.\<close>

definition c_str :: "string \<Rightarrow> string" where
  "c_str s = takeWhile (\<lambda>c. c \<noteq> CHR 0x00) s"

definition WriteToAshmem :: "string \<Rightarrow> nat \<Rightarrow> string \<Rightarrow> string option" where
  "WriteToAshmem bytes offset mem =
     (if offset + length bytes \<le> length mem
      then Some (take offset mem @ bytes @ drop (offset + length bytes) mem) else None)"

text \<open>
  The length field is copied from the decimal text, 16 bytes of it; the text is shorter, so what follows it
  in memory is copied with it.
\<close>

definition length_field :: "(int \<Rightarrow> string) \<Rightarrow> int \<Rightarrow> string" where
  "length_field after itemLen = take ASHMEM_LEN (to_string itemLen @ CHR 0x00 # after itemLen)"

fun write_infos :: "(int \<Rightarrow> string) \<Rightarrow> string list \<Rightarrow> nat \<Rightarrow> string \<Rightarrow> string option" where
  "write_infos after [] offset mem = Some mem"
| "write_infos after (infoStr # infoStrs) offset mem =
     (let itemLen = to_int32 (length (c_str infoStr))
      in case WriteToAshmem (length_field after itemLen) offset mem of
           None \<Rightarrow> None
         | Some mem1 \<Rightarrow>
             (case WriteToAshmem (take (nat itemLen) infoStr) (offset + ASHMEM_LEN) mem1 of
                None \<Rightarrow> None
              | Some mem2 \<Rightarrow> write_infos after infoStrs (offset + ASHMEM_LEN + nat itemLen) mem2))"

text \<open>The sum of the sizes, a 32-bit integer.\<close>

definition ashmem_size :: "string list \<Rightarrow> int" where
  "ashmem_size infoStrs = foldl (\<lambda>n str. signed_take_bit 31 (signed_take_bit 31 (n + int ASHMEM_LEN) + int (length (c_str str)))) 0 infoStrs"

text \<open>The shared memory with the texts of the structures, or \<open>None\<close> when the function returns false.\<close>

definition ashmem_of :: "'s bundle_mgr_host \<Rightarrow> string list \<Rightarrow> string option" where
  "ashmem_of h infoStrs =
     (let totalSize = ashmem_size infoStrs
      in if infoStrs = [] \<or> totalSize \<le> 0 then None
         else if \<not> ho_ashmem h totalSize then None
         else write_infos (ho_after h) infoStrs 0 (replicate (nat totalSize) (CHR 0x00)))"

text \<open>
  \<open>ParseStr\<close> copies up to \<open>itemLen\<close> bytes, ending before a NUL, and refuses a length that is not positive.
  Looking past the end of the memory is not described; an outcome \<open>Some None\<close> is false.
\<close>

definition ParseStr :: "string \<Rightarrow> int \<Rightarrow> int \<Rightarrow> string option option" where
  "ParseStr buf itemLen index =
     (if itemLen \<le> 0 \<or> index < 0 then Some None
      else let str = c_str (take (nat itemLen) (drop (nat index) buf))
           in if length str < nat itemLen \<and> length buf \<le> nat index + length str then None
              else Some (Some str))"

definition atoi :: "string \<Rightarrow> int" where
  "atoi s =
     (let val = (\<lambda>t. int (digits_value (takeWhile (\<lambda>c. CHR ''0'' \<le> c \<and> c \<le> CHR ''9'') t)));
          t = dropWhile (\<lambda>c. c = CHR '' '' \<or> CHR 0x09 \<le> c \<and> c \<le> CHR 0x0D) s
      in case t of
           [] \<Rightarrow> 0
         | c # u \<Rightarrow> if c = CHR ''-'' then - val u else if c = CHR ''+'' then val u else val t)"

text \<open>\<open>ParseInfoFromJsonStr\<close>: an exception of the conversion is \<open>None\<close>, a text that is no JSON is false.\<close>

definition ParseInfoFromJsonStr :: "json_text \<Rightarrow> 'v getter \<Rightarrow> string \<Rightarrow> 'v option option" where
  "ParseInfoFromJsonStr jc get data =
     (case jc_parse jc (c_str data) of
        None \<Rightarrow> Some None
      | Some jsonObject \<Rightarrow> map_option (\<lambda>(v, _). Some v) (get jsonObject pr_OK))"

fun read_infos :: "json_text \<Rightarrow> 'v getter \<Rightarrow> nat \<Rightarrow> string \<Rightarrow> int \<Rightarrow> 'v list \<Rightarrow> 'v list option option" where
  "read_infos jc get 0 dataStr offset infos = Some (Some infos)"
| "read_infos jc get (Suc infoSize) dataStr offset infos =
     (case ParseStr dataStr (int ASHMEM_LEN) offset of
        None \<Rightarrow> None
      | Some None \<Rightarrow> Some None
      | Some (Some lenStr) \<Rightarrow>
          (let strLen = atoi lenStr; offset1 = offset + int ASHMEM_LEN
           in case ParseStr dataStr strLen offset1 of
                None \<Rightarrow> None
              | Some None \<Rightarrow> Some None
              | Some (Some infoStr) \<Rightarrow>
                  (case ParseInfoFromJsonStr jc get infoStr of
                     None \<Rightarrow> None
                   | Some None \<Rightarrow> Some None
                   | Some (Some info) \<Rightarrow> read_infos jc get infoSize dataStr (offset1 + strLen) (infos @ [info]))))"

end
