(* ===== verification/Ipc_Host.thy ===== *)
theory Ipc_Host
  imports Ipc_Interface
begin

text \<open>
  \<open>BundleMgrHost\<close>: one handler per message reads the arguments, calls the service and writes the reply;
  \<open>OnRemoteRequest\<close> checks the interface token and finds the handler in \<open>funcMap_\<close>.
\<close>

section \<open>Replies\<close>

text \<open>The error code of a handler, its reply and the state of the service.\<close>

type_synonym 's handler = "'s \<Rightarrow> parcel \<Rightarrow> (int \<times> parcel \<times> 's) option"

text \<open>The reply of a handler that fails is not looked at and is left empty.\<close>

definition reply :: "'s bundle_mgr_host \<Rightarrow> nat option \<Rightarrow> int \<Rightarrow> item list \<Rightarrow> 's \<Rightarrow> (int \<times> parcel \<times> 's) option" where
  "reply h cap err xs s =
     (case write_items (ho_room h cap) xs [] of None \<Rightarrow> Some (err, [], s) | Some p \<Rightarrow> Some (code_OK, p, s))"

definition reply_bool :: "'s bundle_mgr_host \<Rightarrow> bool \<times> 's \<Rightarrow> (int \<times> parcel \<times> 's) option" where
  "reply_bool h a = reply h None code_PARCEL_ERROR [IBool (fst a)] (snd a)"

definition reply_value :: "'s bundle_mgr_host \<Rightarrow> ('v \<Rightarrow> item) \<Rightarrow> 'v \<times> 's \<Rightarrow> (int \<times> parcel \<times> 's) option" where
  "reply_value h item a = reply h None code_PARCEL_ERROR [item (fst a)] (snd a)"

definition reply_info ::
  "'s bundle_mgr_host \<Rightarrow> ('v \<Rightarrow> item list) \<Rightarrow> 'v option \<times> 's \<Rightarrow> (int \<times> parcel \<times> 's) option" where
  "reply_info h items a =
     reply h None code_PARCEL_ERROR
       (case fst a of None \<Rightarrow> [IBool False] | Some info \<Rightarrow> IBool True # items info) (snd a)"

text \<open>\<open>WriteParcelableVector\<close>\<close>

definition parcelable_vector :: "('v \<Rightarrow> item list) \<Rightarrow> 'v list \<Rightarrow> item list" where
  "parcelable_vector items infos = IInt32 (to_int32 (length infos)) # concat (map items infos)"

definition reply_infos ::
  "'s bundle_mgr_host \<Rightarrow> ('v \<Rightarrow> item list) \<Rightarrow> 'v list option \<times> 's \<Rightarrow> (int \<times> parcel \<times> 's) option" where
  "reply_infos h items a = reply_info h (parcelable_vector items) a"

text \<open>\<open>WriteParcelableVectorIntoAshmem\<close>, with the capacity \<open>MAX_CAPACITY_BUNDLES\<close>.\<close>

definition reply_ashmem ::
  "'s bundle_mgr_host \<Rightarrow> ('v \<Rightarrow> json) \<Rightarrow> 'v list option \<times> 's \<Rightarrow> (int \<times> parcel \<times> 's) option" where
  "reply_ashmem h enc a =
     (let cap = Some (5 * 1024 * 1000)
      in case fst a of
           None \<Rightarrow> reply h cap code_PARCEL_ERROR [IBool False] (snd a)
         | Some infos \<Rightarrow>
             (case ashmem_of h (map (\<lambda>info. jc_dump (ho_json h) (enc info)) infos) of
                None \<Rightarrow> Some (code_PARCEL_ERROR, [], snd a)
              | Some mem \<Rightarrow>
                  reply h cap code_PARCEL_ERROR [IBool True, IInt32 (to_int32 (length infos)), IAshmem mem] (snd a)))"

definition reply_paths :: "'s bundle_mgr_host \<Rightarrow> string list \<times> 's \<Rightarrow> (int \<times> parcel \<times> 's) option" where
  "reply_paths h a =
     reply h None code_PARCEL_ERROR (if fst a = [] then [IBool False] else [IBool True, IStrings (fst a)]) (snd a)"

definition reply_object ::
  "'s bundle_mgr_host \<Rightarrow> (nat \<Rightarrow> item) \<Rightarrow> bool \<Rightarrow> int \<Rightarrow> nat option \<times> 's \<Rightarrow> (int \<times> parcel \<times> 's) option" where
  "reply_object h item flag err a =
     (case fst a of
        None \<Rightarrow> Some (err, [], snd a)
      | Some x \<Rightarrow> reply h None code_PARCEL_ERROR ((if flag then [IBool True] else []) @ [item x]) (snd a))"

definition reply_code ::
  "'s bundle_mgr_host \<Rightarrow> ('v \<Rightarrow> item list) \<Rightarrow> int \<Rightarrow> (int \<times> 'v) \<times> 's \<Rightarrow> (int \<times> parcel \<times> 's) option" where
  "reply_code h items err a =
     (let (res, info) = fst a
      in reply h None err (IInt32 res # (if res = code_OK then items info else [])) (snd a))"

text \<open>A null pointer that was read ends the handler.\<close>

definition checked ::
  "'s \<Rightarrow> ('v \<Rightarrow> parcel \<Rightarrow> (int \<times> parcel \<times> 's) option) \<Rightarrow> 'v option \<Rightarrow> parcel \<Rightarrow> (int \<times> parcel \<times> 's) option" where
  "checked s k x data = (case x of None \<Rightarrow> Some (code_PARCEL_ERROR, [], s) | Some v \<Rightarrow> k v data)"

definition LIMIT_PARCEL_SIZE :: nat where
  "LIMIT_PARCEL_SIZE = 1024"

definition SplitString :: "string \<Rightarrow> string list" where
  "SplitString source =
     (let n = length source div LIMIT_PARCEL_SIZE;
          splitSize = (if length source mod LIMIT_PARCEL_SIZE \<noteq> 0 then n + 1 else n)
      in map (\<lambda>i. take LIMIT_PARCEL_SIZE (drop (LIMIT_PARCEL_SIZE * i) source)) [0..<splitSize])"

section \<open>Handlers\<close>

definition HandleGetApplicationInfo :: "'s bundle_mgr_host \<Rightarrow> 's handler" where
  "HandleGetApplicationInfo h s =
     ReadString (\<lambda>name. ReadInt32 (\<lambda>flag. ReadInt32 (\<lambda>userId _.
       reply_info h (ApplicationInfo_Marshalling (ho_json h)) (bm_GetApplicationInfo (ho_service h) name flag userId s))))"

definition HandleGetApplicationInfoWithIntFlags :: "'s bundle_mgr_host \<Rightarrow> 's handler" where
  "HandleGetApplicationInfoWithIntFlags h s =
     ReadString (\<lambda>name. ReadInt32 (\<lambda>flags. ReadInt32 (\<lambda>userId _.
       reply_info h (ApplicationInfo_Marshalling (ho_json h))
           (bm_GetApplicationInfoWithIntFlags (ho_service h) name flags userId s))))"

definition HandleGetApplicationInfos :: "'s bundle_mgr_host \<Rightarrow> 's handler" where
  "HandleGetApplicationInfos h s =
     ReadInt32 (\<lambda>flag. ReadInt32 (\<lambda>userId _.
       reply_infos h (ApplicationInfo_Marshalling (ho_json h)) (bm_GetApplicationInfos (ho_service h) flag userId s)))"

definition HandleGetApplicationInfosWithIntFlags :: "'s bundle_mgr_host \<Rightarrow> 's handler" where
  "HandleGetApplicationInfosWithIntFlags h s =
     ReadInt32 (\<lambda>flags. ReadInt32 (\<lambda>userId _.
       reply_infos h (ApplicationInfo_Marshalling (ho_json h))
           (bm_GetApplicationInfosWithIntFlags (ho_service h) flags userId s)))"

definition HandleGetBundleInfo :: "'s bundle_mgr_host \<Rightarrow> 's handler" where
  "HandleGetBundleInfo h s =
     ReadString (\<lambda>name. ReadInt32 (\<lambda>flag. ReadInt32 (\<lambda>userId _.
       reply_info h (BundleInfo_Marshalling (ho_json h)) (bm_GetBundleInfo (ho_service h) name flag userId s))))"

definition HandleGetBundleInfoWithIntFlags :: "'s bundle_mgr_host \<Rightarrow> 's handler" where
  "HandleGetBundleInfoWithIntFlags h s =
     ReadString (\<lambda>name. ReadInt32 (\<lambda>flags. ReadInt32 (\<lambda>userId _.
       reply_info h (BundleInfo_Marshalling (ho_json h))
           (bm_GetBundleInfoWithIntFlags (ho_service h) name flags userId s))))"

definition HandleGetBundlePackInfo :: "'s bundle_mgr_host \<Rightarrow> 's handler" where
  "HandleGetBundlePackInfo h s =
     ReadString (\<lambda>name. ReadInt32 (\<lambda>flag _.
       reply_info h (BundlePackInfo_Marshalling (ho_json h)) (bm_GetBundlePackInfo (ho_service h) name flag s)))"

definition HandleGetBundlePackInfoWithIntFlags :: "'s bundle_mgr_host \<Rightarrow> 's handler" where
  "HandleGetBundlePackInfoWithIntFlags h s =
     ReadString (\<lambda>name. ReadInt32 (\<lambda>flags _.
       reply_info h (BundlePackInfo_Marshalling (ho_json h))
           (bm_GetBundlePackInfoWithIntFlags (ho_service h) name flags s)))"

definition HandleGetBundleInfos :: "'s bundle_mgr_host \<Rightarrow> 's handler" where
  "HandleGetBundleInfos h s =
     ReadInt32 (\<lambda>flag. ReadInt32 (\<lambda>userId _.
       reply_ashmem h BundleInfo_to_json (bm_GetBundleInfos (ho_service h) flag userId s)))"

definition HandleGetBundleInfosWithIntFlags :: "'s bundle_mgr_host \<Rightarrow> 's handler" where
  "HandleGetBundleInfosWithIntFlags h s =
     ReadInt32 (\<lambda>flags. ReadInt32 (\<lambda>userId _.
       reply_ashmem h BundleInfo_to_json (bm_GetBundleInfosWithIntFlags (ho_service h) flags userId s)))"

definition HandleGetBundleNameForUid :: "'s bundle_mgr_host \<Rightarrow> 's handler" where
  "HandleGetBundleNameForUid h s =
     ReadInt32 (\<lambda>uid _.
       reply_info h (\<lambda>name. [IString name]) (bm_GetBundleNameForUid (ho_service h) uid s))"

definition HandleGetBundlesForUid :: "'s bundle_mgr_host \<Rightarrow> 's handler" where
  "HandleGetBundlesForUid h s =
     ReadInt32 (\<lambda>uid _.
       reply_info h (\<lambda>v. [IStrings v]) (bm_GetBundlesForUid (ho_service h) uid s))"

definition HandleGetNameForUid :: "'s bundle_mgr_host \<Rightarrow> 's handler" where
  "HandleGetNameForUid h s =
     ReadInt32 (\<lambda>uid _.
       reply_info h (\<lambda>name. [IString name]) (bm_GetNameForUid (ho_service h) uid s))"

definition HandleGetBundleGids :: "'s bundle_mgr_host \<Rightarrow> 's handler" where
  "HandleGetBundleGids h s =
     ReadString (\<lambda>name _.
       reply_info h (\<lambda>v. [IInts v]) (bm_GetBundleGids (ho_service h) name s))"

definition HandleGetBundleGidsByUid :: "'s bundle_mgr_host \<Rightarrow> 's handler" where
  "HandleGetBundleGidsByUid h s =
     ReadString (\<lambda>name. ReadInt32 (\<lambda>uid _.
       reply_info h (\<lambda>v. [IInts v]) (bm_GetBundleGidsByUid (ho_service h) name uid s)))"

definition HandleGetBundleInfosByMetaData :: "'s bundle_mgr_host \<Rightarrow> 's handler" where
  "HandleGetBundleInfosByMetaData h s =
     ReadString (\<lambda>metaData _.
       reply_infos h (BundleInfo_Marshalling (ho_json h)) (bm_GetBundleInfosByMetaData (ho_service h) metaData s))"

definition HandleQueryAbilityInfo :: "'s bundle_mgr_host \<Rightarrow> 's handler" where
  "HandleQueryAbilityInfo h s =
     ReadParcelable Want_ReadFromParcel (checked s (\<lambda>want _.
       reply_info h (AbilityInfo_Marshalling (ho_json h)) (bm_QueryAbilityInfo (ho_service h) want s)))"

definition HandleQueryAbilityInfoMutiparam :: "'s bundle_mgr_host \<Rightarrow> 's handler" where
  "HandleQueryAbilityInfoMutiparam h s =
     ReadParcelable Want_ReadFromParcel (checked s (\<lambda>want. ReadInt32 (\<lambda>flags. ReadInt32 (\<lambda>userId _.
       reply_info h (AbilityInfo_Marshalling (ho_json h))
           (bm_QueryAbilityInfoMutiparam (ho_service h) want flags userId s)))))"

definition HandleQueryAbilityInfos :: "'s bundle_mgr_host \<Rightarrow> 's handler" where
  "HandleQueryAbilityInfos h s =
     ReadParcelable Want_ReadFromParcel (checked s (\<lambda>want _.
       reply_infos h (AbilityInfo_Marshalling (ho_json h)) (bm_QueryAbilityInfos (ho_service h) want s)))"

definition HandleQueryAbilityInfosMutiparam :: "'s bundle_mgr_host \<Rightarrow> 's handler" where
  "HandleQueryAbilityInfosMutiparam h s =
     ReadParcelable Want_ReadFromParcel (checked s (\<lambda>want. ReadInt32 (\<lambda>flags. ReadInt32 (\<lambda>userId _.
       reply_infos h (AbilityInfo_Marshalling (ho_json h))
           (bm_QueryAbilityInfosMutiparam (ho_service h) want flags userId s)))))"

definition HandleQueryAllAbilityInfos :: "'s bundle_mgr_host \<Rightarrow> 's handler" where
  "HandleQueryAllAbilityInfos h s =
     ReadParcelable Want_ReadFromParcel (checked s (\<lambda>want. ReadInt32 (\<lambda>userId _.
       reply_infos h (AbilityInfo_Marshalling (ho_json h)) (bm_QueryAllAbilityInfos (ho_service h) want userId s))))"

definition HandleQueryAbilityInfosForClone :: "'s bundle_mgr_host \<Rightarrow> 's handler" where
  "HandleQueryAbilityInfosForClone h s =
     ReadParcelable Want_ReadFromParcel (checked s (\<lambda>want _.
       reply_infos h (AbilityInfo_Marshalling (ho_json h)) (bm_QueryAbilityInfosForClone (ho_service h) want s)))"

definition HandleQueryAbilityInfoByUri :: "'s bundle_mgr_host \<Rightarrow> 's handler" where
  "HandleQueryAbilityInfoByUri h s =
     ReadString (\<lambda>abilityUri _.
       reply_info h (AbilityInfo_Marshalling (ho_json h)) (bm_QueryAbilityInfoByUri (ho_service h) abilityUri s))"

definition HandleQueryAbilityInfosByUri :: "'s bundle_mgr_host \<Rightarrow> 's handler" where
  "HandleQueryAbilityInfosByUri h s =
     ReadString (\<lambda>abilityUri _.
       reply_infos h (AbilityInfo_Marshalling (ho_json h)) (bm_QueryAbilityInfosByUri (ho_service h) abilityUri s))"

definition HandleQueryAbilityInfoByUriForUserId :: "'s bundle_mgr_host \<Rightarrow> 's handler" where
  "HandleQueryAbilityInfoByUriForUserId h s =
     ReadString (\<lambda>abilityUri. ReadInt32 (\<lambda>userId _.
       reply_info h (AbilityInfo_Marshalling (ho_json h))
           (bm_QueryAbilityInfoByUriForUserId (ho_service h) abilityUri userId s)))"

definition HandleQueryKeepAliveBundleInfos :: "'s bundle_mgr_host \<Rightarrow> 's handler" where
  "HandleQueryKeepAliveBundleInfos h s = (\<lambda>_. reply_infos h (BundleInfo_Marshalling (ho_json h))
      (bm_QueryKeepAliveBundleInfos (ho_service h) s))"

definition HandleGetAbilityLabel :: "'s bundle_mgr_host \<Rightarrow> 's handler" where
  "HandleGetAbilityLabel h s =
     ReadString (\<lambda>bundleName. ReadString (\<lambda>abilityName _.
       reply_value h IString (bm_GetAbilityLabel (ho_service h) bundleName abilityName s)))"

definition HandleGetAbilityLabelWithModuleName :: "'s bundle_mgr_host \<Rightarrow> 's handler" where
  "HandleGetAbilityLabelWithModuleName h s =
     ReadString (\<lambda>bundleName. ReadString (\<lambda>moduleName. ReadString (\<lambda>abilityName _.
       reply_value h IString (bm_GetAbilityLabelWithModuleName (ho_service h) bundleName moduleName abilityName s))))"

definition HandleCheckIsSystemAppByUid :: "'s bundle_mgr_host \<Rightarrow> 's handler" where
  "HandleCheckIsSystemAppByUid h s =
     ReadInt32 (\<lambda>uid _.
       reply_bool h (bm_CheckIsSystemAppByUid (ho_service h) uid s))"

definition HandleGetBundleArchiveInfo :: "'s bundle_mgr_host \<Rightarrow> 's handler" where
  "HandleGetBundleArchiveInfo h s =
     ReadString (\<lambda>hapFilePath. ReadInt32 (\<lambda>flag _.
       reply_info h (BundleInfo_Marshalling (ho_json h)) (bm_GetBundleArchiveInfo (ho_service h) hapFilePath flag s)))"

definition HandleGetBundleArchiveInfoWithIntFlags :: "'s bundle_mgr_host \<Rightarrow> 's handler" where
  "HandleGetBundleArchiveInfoWithIntFlags h s =
     ReadString (\<lambda>hapFilePath. ReadInt32 (\<lambda>flags _.
       reply_info h (BundleInfo_Marshalling (ho_json h))
           (bm_GetBundleArchiveInfoWithIntFlags (ho_service h) hapFilePath flags s)))"

definition HandleGetHapModuleInfo :: "'s bundle_mgr_host \<Rightarrow> 's handler" where
  "HandleGetHapModuleInfo h s =
     ReadParcelable (AbilityInfo_ReadFromParcel (ho_json h)) (checked s (\<lambda>abilityInfo _.
       reply_info h (HapModuleInfo_Marshalling (ho_json h)) (bm_GetHapModuleInfo (ho_service h) abilityInfo s)))"

definition HandleGetHapModuleInfoWithUserId :: "'s bundle_mgr_host \<Rightarrow> 's handler" where
  "HandleGetHapModuleInfoWithUserId h s =
     ReadParcelable (AbilityInfo_ReadFromParcel (ho_json h)) (checked s (\<lambda>abilityInfo. ReadInt32 (\<lambda>userId _.
       reply_info h (HapModuleInfo_Marshalling (ho_json h))
           (bm_GetHapModuleInfoWithUserId (ho_service h) abilityInfo userId s))))"

definition HandleGetLaunchWantForBundle :: "'s bundle_mgr_host \<Rightarrow> 's handler" where
  "HandleGetLaunchWantForBundle h s =
     ReadString (\<lambda>bundleName _.
       reply_info h Want_Marshalling (bm_GetLaunchWantForBundle (ho_service h) bundleName s))"

definition HandleCheckPublicKeys :: "'s bundle_mgr_host \<Rightarrow> 's handler" where
  "HandleCheckPublicKeys h s =
     ReadString (\<lambda>firstBundleName. ReadString (\<lambda>secondBundleName _.
       reply_value h IInt32 (bm_CheckPublicKeys (ho_service h) firstBundleName secondBundleName s)))"

definition HandleGetPermissionDef :: "'s bundle_mgr_host \<Rightarrow> 's handler" where
  "HandleGetPermissionDef h s =
     ReadString (\<lambda>permissionName _.
       reply_info h PermissionDef_Marshalling (bm_GetPermissionDef (ho_service h) permissionName s))"

definition HandleHasSystemCapability :: "'s bundle_mgr_host \<Rightarrow> 's handler" where
  "HandleHasSystemCapability h s =
     ReadString (\<lambda>capName _.
       reply_bool h (bm_HasSystemCapability (ho_service h) capName s))"

definition HandleGetSystemAvailableCapabilities :: "'s bundle_mgr_host \<Rightarrow> 's handler" where
  "HandleGetSystemAvailableCapabilities h s = (\<lambda>_. reply_info h (\<lambda>v. [IStrings v])
      (bm_GetSystemAvailableCapabilities (ho_service h) s))"

definition HandleIsSafeMode :: "'s bundle_mgr_host \<Rightarrow> 's handler" where
  "HandleIsSafeMode h s = (\<lambda>_. reply_bool h (bm_IsSafeMode (ho_service h) s))"

definition HandleCleanBundleCacheFiles :: "'s bundle_mgr_host \<Rightarrow> 's handler" where
  "HandleCleanBundleCacheFiles h s =
     ReadString (\<lambda>bundleName. ReadObject (checked s (\<lambda>object. ReadInt32 (\<lambda>userId _.
       reply_bool h (bm_CleanBundleCacheFiles (ho_service h) bundleName (ho_iface_cast h object) userId s)))))"

definition HandleCleanBundleDataFiles :: "'s bundle_mgr_host \<Rightarrow> 's handler" where
  "HandleCleanBundleDataFiles h s =
     ReadString (\<lambda>bundleName. ReadInt32 (\<lambda>userId _.
       reply_bool h (bm_CleanBundleDataFiles (ho_service h) bundleName userId s)))"

definition HandleRegisterBundleStatusCallback :: "'s bundle_mgr_host \<Rightarrow> 's handler" where
  "HandleRegisterBundleStatusCallback h s =
     ReadString (\<lambda>bundleName. ReadObject (checked s (\<lambda>object _.
       (case ho_iface_cast h object of
          Some callback \<Rightarrow>
            if bundleName = [] then reply_bool h (False, s)
            else reply_bool h (bm_RegisterBundleStatusCallback (ho_service h) bundleName callback s)
        | None \<Rightarrow> reply_bool h (False, s)))))"

definition HandleClearBundleStatusCallback :: "'s bundle_mgr_host \<Rightarrow> 's handler" where
  "HandleClearBundleStatusCallback h s =
     ReadObject (checked s (\<lambda>object _.
       reply_bool h (bm_ClearBundleStatusCallback (ho_service h) (ho_iface_cast h object) s)))"

definition HandleUnregisterBundleStatusCallback :: "'s bundle_mgr_host \<Rightarrow> 's handler" where
  "HandleUnregisterBundleStatusCallback h s = (\<lambda>_. reply_bool h
      (bm_UnregisterBundleStatusCallback (ho_service h) s))"

definition HandleDumpInfos :: "'s bundle_mgr_host \<Rightarrow> 's handler" where
  "HandleDumpInfos h s =
     ReadInt32 (\<lambda>flag. ReadString (\<lambda>bundleName. ReadInt32 (\<lambda>userId _.
       reply_info h (\<lambda>result. [IStrings (SplitString result)])
           (bm_DumpInfos (ho_service h) flag bundleName userId s))))"

definition HandleIsApplicationEnabled :: "'s bundle_mgr_host \<Rightarrow> 's handler" where
  "HandleIsApplicationEnabled h s =
     ReadString (\<lambda>bundleName _.
       reply_bool h (bm_IsApplicationEnabled (ho_service h) bundleName s))"

definition HandleSetApplicationEnabled :: "'s bundle_mgr_host \<Rightarrow> 's handler" where
  "HandleSetApplicationEnabled h s =
     ReadString (\<lambda>bundleName. ReadBool (\<lambda>isEnable. ReadInt32 (\<lambda>userId _.
       reply_bool h (bm_SetApplicationEnabled (ho_service h) bundleName isEnable userId s))))"

definition HandleIsAbilityEnabled :: "'s bundle_mgr_host \<Rightarrow> 's handler" where
  "HandleIsAbilityEnabled h s =
     ReadParcelable (AbilityInfo_ReadFromParcel (ho_json h)) (checked s (\<lambda>abilityInfo _.
       reply_bool h (bm_IsAbilityEnabled (ho_service h) abilityInfo s)))"

definition HandleSetAbilityEnabled :: "'s bundle_mgr_host \<Rightarrow> 's handler" where
  "HandleSetAbilityEnabled h s =
     ReadParcelable (AbilityInfo_ReadFromParcel (ho_json h)) (checked s (\<lambda>abilityInfo. ReadBool (\<lambda>isEnabled. ReadInt32 (\<lambda>userId _.
       reply_bool h (bm_SetAbilityEnabled (ho_service h) abilityInfo isEnabled userId s)))))"

definition HandleGetAbilityInfo :: "'s bundle_mgr_host \<Rightarrow> 's handler" where
  "HandleGetAbilityInfo h s =
     ReadString (\<lambda>bundleName. ReadString (\<lambda>abilityName _.
       reply_info h (AbilityInfo_Marshalling (ho_json h)) (bm_GetAbilityInfo (ho_service h) bundleName abilityName s)))"

definition HandleGetAbilityInfoWithModuleName :: "'s bundle_mgr_host \<Rightarrow> 's handler" where
  "HandleGetAbilityInfoWithModuleName h s =
     ReadString (\<lambda>bundleName. ReadString (\<lambda>moduleName. ReadString (\<lambda>abilityName _.
       reply_info h (AbilityInfo_Marshalling (ho_json h))
           (bm_GetAbilityInfoWithModuleName (ho_service h) bundleName moduleName abilityName s))))"

definition HandleGetAbilityPixelMapIcon :: "'s bundle_mgr_host \<Rightarrow> 's handler" where
  "HandleGetAbilityPixelMapIcon h s =
     ReadString (\<lambda>bundleName. ReadString (\<lambda>abilityName _.
       reply_object h IPixelMap True code_PARCEL_ERROR (bm_GetAbilityPixelMapIcon (ho_service h) bundleName abilityName s)))"

definition HandleGetAbilityPixelMapIconWithModuleName :: "'s bundle_mgr_host \<Rightarrow> 's handler" where
  "HandleGetAbilityPixelMapIconWithModuleName h s =
     ReadString (\<lambda>bundleName. ReadString (\<lambda>moduleName. ReadString (\<lambda>abilityName _.
       reply_object h IPixelMap True code_PARCEL_ERROR
           (bm_GetAbilityPixelMapIconWithModuleName (ho_service h) bundleName moduleName abilityName s))))"

definition HandleGetBundleInstaller :: "'s bundle_mgr_host \<Rightarrow> 's handler" where
  "HandleGetBundleInstaller h s = (\<lambda>_. reply_object h (\<lambda>x. IObject (Some x)) False code_HOST_INSTALLER_FAILED
      (bm_GetBundleInstaller (ho_service h) s))"

definition HandleGetBundleUserMgr :: "'s bundle_mgr_host \<Rightarrow> 's handler" where
  "HandleGetBundleUserMgr h s = (\<lambda>_. reply_object h (\<lambda>x. IObject (Some x)) False code_HOST_INSTALLER_FAILED
      (bm_GetBundleUserMgr (ho_service h) s))"

definition HandleGetAllFormsInfo :: "'s bundle_mgr_host \<Rightarrow> 's handler" where
  "HandleGetAllFormsInfo h s = (\<lambda>_. reply_infos h FormInfo_Marshalling (bm_GetAllFormsInfo (ho_service h) s))"

definition HandleGetFormsInfoByApp :: "'s bundle_mgr_host \<Rightarrow> 's handler" where
  "HandleGetFormsInfoByApp h s =
     ReadString (\<lambda>bundlename _.
       reply_infos h FormInfo_Marshalling (bm_GetFormsInfoByApp (ho_service h) bundlename s))"

definition HandleGetFormsInfoByModule :: "'s bundle_mgr_host \<Rightarrow> 's handler" where
  "HandleGetFormsInfoByModule h s =
     ReadString (\<lambda>bundlename. ReadString (\<lambda>modulename _.
       reply_infos h FormInfo_Marshalling (bm_GetFormsInfoByModule (ho_service h) bundlename modulename s)))"

definition HandleGetShortcutInfos :: "'s bundle_mgr_host \<Rightarrow> 's handler" where
  "HandleGetShortcutInfos h s =
     ReadString (\<lambda>bundlename _.
       reply_infos h ShortcutInfo_Marshalling (bm_GetShortcutInfos (ho_service h) bundlename s))"

definition HandleGetAllCommonEventInfo :: "'s bundle_mgr_host \<Rightarrow> 's handler" where
  "HandleGetAllCommonEventInfo h s =
     ReadString (\<lambda>eventKey _.
       reply_infos h CommonEventInfo_Marshalling (bm_GetAllCommonEventInfo (ho_service h) eventKey s))"

definition HandleCheckBundleNameInAllowList :: "'s bundle_mgr_host \<Rightarrow> 's handler" where
  "HandleCheckBundleNameInAllowList h s =
     ReadString (\<lambda>bundleName _.
       reply_bool h (bm_CheckBundleNameInAllowList (ho_service h) bundleName s))"

definition HandleBundleClone :: "'s bundle_mgr_host \<Rightarrow> 's handler" where
  "HandleBundleClone h s =
     ReadString (\<lambda>bundleName _.
       reply_bool h (bm_BundleClone (ho_service h) bundleName s))"

definition HandleRemoveClonedBundle :: "'s bundle_mgr_host \<Rightarrow> 's handler" where
  "HandleRemoveClonedBundle h s =
     ReadString (\<lambda>bundleName. ReadInt32 (\<lambda>uid _.
       reply_bool h (bm_RemoveClonedBundle (ho_service h) bundleName uid s)))"

definition HandleGetDistributedBundleInfo :: "'s bundle_mgr_host \<Rightarrow> 's handler" where
  "HandleGetDistributedBundleInfo h s =
     ReadString (\<lambda>networkId. ReadString (\<lambda>bundleName _.
       reply_info h (DistributedBundleInfo_Marshalling (ho_json h))
           (bm_GetDistributedBundleInfo (ho_service h) networkId bundleName s)))"

definition HandleGetAppPrivilegeLevel :: "'s bundle_mgr_host \<Rightarrow> 's handler" where
  "HandleGetAppPrivilegeLevel h s =
     ReadString (\<lambda>bundleName. ReadInt32 (\<lambda>userId _.
       reply_value h IString (bm_GetAppPrivilegeLevel (ho_service h) bundleName userId s)))"

definition HandleQueryExtAbilityInfosWithoutType :: "'s bundle_mgr_host \<Rightarrow> 's handler" where
  "HandleQueryExtAbilityInfosWithoutType h s =
     ReadParcelable Want_ReadFromParcel (checked s (\<lambda>want. ReadInt32 (\<lambda>flag. ReadInt32 (\<lambda>userId _.
       reply_infos h (ExtensionAbilityInfo_Marshalling (ho_json h))
           (bm_QueryExtAbilityInfosWithoutType (ho_service h) want flag userId s)))))"

definition HandleQueryExtAbilityInfos :: "'s bundle_mgr_host \<Rightarrow> 's handler" where
  "HandleQueryExtAbilityInfos h s =
     ReadParcelable Want_ReadFromParcel (checked s (\<lambda>want. ReadInt32 (\<lambda>type. ReadInt32 (\<lambda>flag. ReadInt32 (\<lambda>userId _.
       reply_infos h (ExtensionAbilityInfo_Marshalling (ho_json h))
           (bm_QueryExtAbilityInfos (ho_service h) want type flag userId s))))))"

definition HandleQueryExtAbilityInfosByType :: "'s bundle_mgr_host \<Rightarrow> 's handler" where
  "HandleQueryExtAbilityInfosByType h s =
     ReadInt32 (\<lambda>type. ReadInt32 (\<lambda>userId _.
       reply_infos h (ExtensionAbilityInfo_Marshalling (ho_json h))
           (bm_QueryExtAbilityInfosByType (ho_service h) type userId s)))"

definition HandleVerifyCallingPermission :: "'s bundle_mgr_host \<Rightarrow> 's handler" where
  "HandleVerifyCallingPermission h s =
     ReadString (\<lambda>permission _.
       reply_bool h (bm_VerifyCallingPermission (ho_service h) permission s))"

definition HandleGetAccessibleAppCodePaths :: "'s bundle_mgr_host \<Rightarrow> 's handler" where
  "HandleGetAccessibleAppCodePaths h s =
     ReadInt32 (\<lambda>userId _.
       reply_paths h (bm_GetAccessibleAppCodePaths (ho_service h) userId s))"

definition HandleQueryExtensionAbilityInfoByUri :: "'s bundle_mgr_host \<Rightarrow> 's handler" where
  "HandleQueryExtensionAbilityInfoByUri h s =
     ReadString (\<lambda>uri. ReadInt32 (\<lambda>userId _.
       reply_info h (ExtensionAbilityInfo_Marshalling (ho_json h))
           (bm_QueryExtensionAbilityInfoByUri (ho_service h) uri userId s)))"

definition HandleGetAppIdByBundleName :: "'s bundle_mgr_host \<Rightarrow> 's handler" where
  "HandleGetAppIdByBundleName h s =
     ReadString (\<lambda>bundleName. ReadInt32 (\<lambda>userId _.
       reply_value h IString (bm_GetAppIdByBundleName (ho_service h) bundleName userId s)))"

definition HandleGetAppType :: "'s bundle_mgr_host \<Rightarrow> 's handler" where
  "HandleGetAppType h s =
     ReadString (\<lambda>bundleName _.
       reply_value h IString (bm_GetAppType (ho_service h) bundleName s))"

definition HandleGetUidByBundleName :: "'s bundle_mgr_host \<Rightarrow> 's handler" where
  "HandleGetUidByBundleName h s =
     ReadString (\<lambda>bundleName. ReadInt32 (\<lambda>userId _.
       reply_value h IInt32 (bm_GetUidByBundleName (ho_service h) bundleName userId s)))"

definition HandleIsModuleRemovable :: "'s bundle_mgr_host \<Rightarrow> 's handler" where
  "HandleIsModuleRemovable h s =
     ReadString (\<lambda>bundleName. ReadString (\<lambda>moduleName _.
       reply_bool h (bm_IsModuleRemovable (ho_service h) bundleName moduleName s)))"

definition HandleSetModuleRemovable :: "'s bundle_mgr_host \<Rightarrow> 's handler" where
  "HandleSetModuleRemovable h s =
     ReadString (\<lambda>bundleName. ReadString (\<lambda>moduleName. ReadBool (\<lambda>isEnable _.
       reply_bool h (bm_SetModuleRemovable (ho_service h) bundleName moduleName isEnable s))))"

definition HandleGetModuleUpgradeFlag :: "'s bundle_mgr_host \<Rightarrow> 's handler" where
  "HandleGetModuleUpgradeFlag h s =
     ReadString (\<lambda>bundleName. ReadString (\<lambda>moduleName _.
       reply_bool h (bm_GetModuleUpgradeFlag (ho_service h) bundleName moduleName s)))"

definition HandleSetModuleUpgradeFlag :: "'s bundle_mgr_host \<Rightarrow> 's handler" where
  "HandleSetModuleUpgradeFlag h s =
     ReadString (\<lambda>bundleName. ReadString (\<lambda>moduleName. ReadInt32 (\<lambda>upgradeFlag _.
       reply_bool h (bm_SetModuleUpgradeFlag (ho_service h) bundleName moduleName upgradeFlag s))))"

definition HandleImplicitQueryInfoByPriority :: "'s bundle_mgr_host \<Rightarrow> 's handler" where
  "HandleImplicitQueryInfoByPriority h s =
     ReadParcelable Want_ReadFromParcel (checked s (\<lambda>want. ReadInt32 (\<lambda>flags. ReadInt32 (\<lambda>userId _.
       reply_info h (\<lambda>(abilityInfo, extensionInfo).
         AbilityInfo_Marshalling (ho_json h) abilityInfo @ ExtensionAbilityInfo_Marshalling (ho_json h) extensionInfo)
         (bm_ImplicitQueryInfoByPriority (ho_service h) want flags userId s)))))"

definition HandleGetAllDependentModuleNames :: "'s bundle_mgr_host \<Rightarrow> 's handler" where
  "HandleGetAllDependentModuleNames h s =
     ReadString (\<lambda>bundleName. ReadString (\<lambda>moduleName _.
       reply_info h (\<lambda>v. [IStrings v]) (bm_GetAllDependentModuleNames (ho_service h) bundleName moduleName s)))"

definition HandleGetSandboxBundleInfo :: "'s bundle_mgr_host \<Rightarrow> 's handler" where
  "HandleGetSandboxBundleInfo h s =
     ReadString (\<lambda>bundleName. ReadInt32 (\<lambda>appIndex. ReadInt32 (\<lambda>userId _.
       reply_code h (BundleInfo_Marshalling (ho_json h)) code_SANDBOX_WRITE_PARCEL_ERROR
           (bm_GetSandboxBundleInfo (ho_service h) bundleName appIndex userId s))))"

definition HandleQueryAbilityInfoWithCallback :: "'s bundle_mgr_host \<Rightarrow> 's handler" where
  "HandleQueryAbilityInfoWithCallback h s =
     ReadParcelable Want_ReadFromParcel (checked s (\<lambda>want. ReadInt32 (\<lambda>flags. ReadInt32 (\<lambda>userId. ReadObject (\<lambda>object _.
       reply_info h (AbilityInfo_Marshalling (ho_json h))
           (bm_QueryAbilityInfoWithCallback (ho_service h) want flags userId object s))))))"

definition HandleUpgradeAtomicService :: "'s bundle_mgr_host \<Rightarrow> 's handler" where
  "HandleUpgradeAtomicService h s =
     ReadParcelable Want_ReadFromParcel (checked s (\<lambda>want. ReadInt32 (\<lambda>userId _.
       Some (code_OK, [], bm_UpgradeAtomicService (ho_service h) want userId s))))"

section \<open>Dispatch\<close>

definition funcMap :: "'s bundle_mgr_host \<Rightarrow> (nat \<times> 's handler) list" where
  "funcMap h =
     [(GET_APPLICATION_INFO, HandleGetApplicationInfo h),
      (GET_APPLICATION_INFO_WITH_INT_FLAGS, HandleGetApplicationInfoWithIntFlags h),
      (GET_APPLICATION_INFOS, HandleGetApplicationInfos h),
      (GET_APPLICATION_INFOS_WITH_INT_FLAGS, HandleGetApplicationInfosWithIntFlags h),
      (GET_BUNDLE_INFO, HandleGetBundleInfo h),
      (GET_BUNDLE_INFO_WITH_INT_FLAGS, HandleGetBundleInfoWithIntFlags h),
      (GET_BUNDLE_PACK_INFO, HandleGetBundlePackInfo h),
      (GET_BUNDLE_PACK_INFO_WITH_INT_FLAGS, HandleGetBundlePackInfoWithIntFlags h),
      (GET_BUNDLE_INFOS, HandleGetBundleInfos h),
      (GET_BUNDLE_INFOS_WITH_INT_FLAGS, HandleGetBundleInfosWithIntFlags h),
      (GET_BUNDLE_NAME_FOR_UID, HandleGetBundleNameForUid h),
      (GET_BUNDLES_FOR_UID, HandleGetBundlesForUid h),
      (GET_NAME_FOR_UID, HandleGetNameForUid h),
      (GET_BUNDLE_GIDS, HandleGetBundleGids h),
      (GET_BUNDLE_GIDS_BY_UID, HandleGetBundleGidsByUid h),
      (GET_BUNDLE_INFOS_BY_METADATA, HandleGetBundleInfosByMetaData h),
      (QUERY_ABILITY_INFO, HandleQueryAbilityInfo h),
      (QUERY_ABILITY_INFO_MUTI_PARAM, HandleQueryAbilityInfoMutiparam h),
      (QUERY_ABILITY_INFOS, HandleQueryAbilityInfos h),
      (QUERY_ABILITY_INFOS_MUTI_PARAM, HandleQueryAbilityInfosMutiparam h),
      (QUERY_ABILITY_INFOS_FOR_CLONE, HandleQueryAbilityInfosForClone h),
      (QUERY_ALL_ABILITY_INFOS, HandleQueryAllAbilityInfos h),
      (QUERY_ABILITY_INFO_BY_URI, HandleQueryAbilityInfoByUri h),
      (QUERY_ABILITY_INFOS_BY_URI, HandleQueryAbilityInfosByUri h),
      (QUERY_ABILITY_INFO_BY_URI_FOR_USERID, HandleQueryAbilityInfoByUriForUserId h),
      (QUERY_KEEPALIVE_BUNDLE_INFOS, HandleQueryKeepAliveBundleInfos h),
      (GET_ABILITY_LABEL, HandleGetAbilityLabel h),
      (GET_ABILITY_LABEL_WITH_MODULE_NAME, HandleGetAbilityLabelWithModuleName h),
      (CHECK_IS_SYSTEM_APP_BY_UID, HandleCheckIsSystemAppByUid h),
      (GET_BUNDLE_ARCHIVE_INFO, HandleGetBundleArchiveInfo h),
      (GET_BUNDLE_ARCHIVE_INFO_WITH_INT_FLAGS, HandleGetBundleArchiveInfoWithIntFlags h),
      (GET_HAP_MODULE_INFO, HandleGetHapModuleInfo h),
      (GET_LAUNCH_WANT_FOR_BUNDLE, HandleGetLaunchWantForBundle h),
      (CHECK_PUBLICKEYS, HandleCheckPublicKeys h),
      (GET_PERMISSION_DEF, HandleGetAbilityLabel h),
      (HAS_SYSTEM_CAPABILITY, HandleHasSystemCapability h),
      (GET_SYSTEM_AVAILABLE_CAPABILITIES, HandleGetSystemAvailableCapabilities h),
      (IS_SAFE_MODE, HandleIsSafeMode h),
      (CLEAN_BUNDLE_CACHE_FILES, HandleCleanBundleCacheFiles h),
      (CLEAN_BUNDLE_DATA_FILES, HandleCleanBundleDataFiles h),
      (REGISTER_BUNDLE_STATUS_CALLBACK, HandleRegisterBundleStatusCallback h),
      (CLEAR_BUNDLE_STATUS_CALLBACK, HandleClearBundleStatusCallback h),
      (UNREGISTER_BUNDLE_STATUS_CALLBACK, HandleUnregisterBundleStatusCallback h),
      (IS_APPLICATION_ENABLED, HandleIsApplicationEnabled h),
      (SET_APPLICATION_ENABLED, HandleSetApplicationEnabled h),
      (IS_ABILITY_ENABLED, HandleIsAbilityEnabled h),
      (SET_ABILITY_ENABLED, HandleSetAbilityEnabled h),
      (GET_ABILITY_INFO, HandleGetAbilityInfo h),
      (GET_ABILITY_INFO_WITH_MODULE_NAME, HandleGetAbilityInfoWithModuleName h),
      (GET_ABILITY_PIXELMAP_ICON, HandleGetAbilityPixelMapIcon h),
      (GET_ABILITY_PIXELMAP_ICON_WITH_MODULE_NAME, HandleGetAbilityPixelMapIconWithModuleName h),
      (DUMP_INFOS, HandleDumpInfos h),
      (GET_BUNDLE_INSTALLER, HandleGetBundleInstaller h),
      (GET_ALL_FORMS_INFO, HandleGetAllFormsInfo h),
      (GET_FORMS_INFO_BY_APP, HandleGetFormsInfoByApp h),
      (GET_FORMS_INFO_BY_MODULE, HandleGetFormsInfoByModule h),
      (GET_SHORTCUT_INFO, HandleGetShortcutInfos h),
      (GET_ALL_COMMON_EVENT_INFO, HandleGetAllCommonEventInfo h),
      (CHECK_BUNDLE_NAME_IN_ALLOWLIST, HandleCheckBundleNameInAllowList h),
      (BUNDLE_CLONE, HandleBundleClone h),
      (REMOVE_CLONED_BUNDLE, HandleRemoveClonedBundle h),
      (GET_BUNDLE_USER_MGR, HandleGetBundleUserMgr h),
      (GET_DISTRIBUTE_BUNDLE_INFO, HandleGetDistributedBundleInfo h),
      (GET_APPLICATION_PRIVILEGE_LEVEL, HandleGetAppPrivilegeLevel h),
      (QUERY_EXTENSION_INFO_WITHOUT_TYPE, HandleQueryExtAbilityInfosWithoutType h),
      (QUERY_EXTENSION_INFO, HandleQueryExtAbilityInfos h),
      (QUERY_EXTENSION_INFO_BY_TYPE, HandleQueryExtAbilityInfosByType h),
      (VERIFY_CALLING_PERMISSION, HandleVerifyCallingPermission h),
      (GET_ACCESSIBLE_APP_CODE_PATH, HandleGetAccessibleAppCodePaths h),
      (QUERY_EXTENSION_ABILITY_INFO_BY_URI, HandleQueryExtensionAbilityInfoByUri h),
      (GET_APPID_BY_BUNDLE_NAME, HandleGetAppIdByBundleName h),
      (GET_APP_TYPE, HandleGetAppType h),
      (GET_UID_BY_BUNDLE_NAME, HandleGetUidByBundleName h),
      (IS_MODULE_REMOVABLE, HandleIsModuleRemovable h),
      (SET_MODULE_REMOVABLE, HandleSetModuleRemovable h),
      (QUERY_ABILITY_INFO_WITH_CALLBACK, HandleQueryAbilityInfoWithCallback h),
      (UPGRADE_ATOMIC_SERVICE, HandleUpgradeAtomicService h),
      (IS_MODULE_NEED_UPDATE, HandleGetModuleUpgradeFlag h),
      (SET_MODULE_NEED_UPDATE, HandleSetModuleUpgradeFlag h),
      (GET_HAP_MODULE_INFO_WITH_USERID, HandleGetHapModuleInfoWithUserId h),
      (IMPLICIT_QUERY_INFO_BY_PRIORITY, HandleImplicitQueryInfoByPriority h),
      (GET_ALL_DEPENDENT_MODULE_NAMES, HandleGetAllDependentModuleNames h),
      (GET_SANDBOX_APP_BUNDLE_INFO, HandleGetSandboxBundleInfo h)]"

definition OnRemoteRequest :: "'s bundle_mgr_host \<Rightarrow> 's remote" where
  "OnRemoteRequest h code data s =
     ReadInterfaceToken (\<lambda>remoteDescripter data.
       if remoteDescripter \<noteq> bundle_mgr_descriptor then Some (OBJECT_NULL, [], s)
       else case map_of (funcMap h) code of
              None \<Rightarrow> (let (r, p) = ho_default h code data in Some (r, p, s))
            | Some f \<Rightarrow>
                (case f s data of
                   None \<Rightarrow> None
                 | Some (errCode, p, s1) \<Rightarrow> Some (if errCode = code_OK then NO_ERROR else UNKNOWN_ERROR, p, s1))) data"

end
