(* ===== verification/Ipc_Proxy.thy ===== *)
theory Ipc_Proxy
  imports Ipc_Host
begin

text \<open>
  \<open>BundleMgrProxy\<close>: the client's end writes the arguments of a call, sends them and reads the reply. A call
  with a boolean result and an output parameter gives the output, or \<open>None\<close> for false; a vector that is
  filled is an argument, since new elements are added to it. The result \<open>None\<close> of a definition stands for a
  reading that is not described.
\<close>

section \<open>Sending and receiving\<close>

abbreviation (input) INVALID_UID :: int where "INVALID_UID \<equiv> - 1"
abbreviation (input) SIGNATURE_UNKNOWN_BUNDLE :: int where "SIGNATURE_UNKNOWN_BUNDLE \<equiv> 2"

text \<open>The interface token and the arguments; all writes that fail have the same result.\<close>

definition with_data :: "'s bundle_mgr_proxy \<Rightarrow> item list \<Rightarrow> 'r \<Rightarrow> (parcel \<Rightarrow> 'r option) \<Rightarrow> 'r option" where
  "with_data c xs fail k =
     (case write_items (px_room c) (IToken bundle_mgr_descriptor # xs) [] of
        None \<Rightarrow> Some fail
      | Some data \<Rightarrow> k data)"

definition SendTransactCmd :: "'s bundle_mgr_proxy \<Rightarrow> nat \<Rightarrow> parcel \<Rightarrow> 's \<Rightarrow> (parcel option \<times> 's) option" where
  "SendTransactCmd c code data s =
     (case px_remote c of
        None \<Rightarrow> Some (None, s)
      | Some SendRequest \<Rightarrow>
          (case SendRequest code data s of
             None \<Rightarrow> None
           | Some (result, p, s1) \<Rightarrow> Some (if result \<noteq> NO_ERROR then None else Some p, s1)))"

text \<open>The rest of a call after \<open>SendTransactCmd\<close>: \<open>fail\<close> is its result when sending failed.\<close>

definition receive ::
  "'s bundle_mgr_proxy \<Rightarrow> nat \<Rightarrow> parcel \<Rightarrow> 'v \<Rightarrow> 's \<Rightarrow> (parcel \<Rightarrow> 'v option) \<Rightarrow> ('v \<times> 's) option" where
  "receive c code data fail s k =
     (case SendTransactCmd c code data s of
        None \<Rightarrow> None
      | Some (None, s1) \<Rightarrow> Some (fail, s1)
      | Some (Some p, s1) \<Rightarrow> map_option (\<lambda>v. (v, s1)) (k p))"

definition get_bool :: "'s bundle_mgr_proxy \<Rightarrow> nat \<Rightarrow> parcel \<Rightarrow> 's \<Rightarrow> (bool \<times> 's) option" where
  "get_bool c code data s = receive c code data False s (ReadBool (\<lambda>v p. Some v))"

definition get_if_true ::
  "'s bundle_mgr_proxy \<Rightarrow> (parcel \<Rightarrow> 'v option option) \<Rightarrow> nat \<Rightarrow> parcel \<Rightarrow> 's \<Rightarrow> ('v option \<times> 's) option" where
  "get_if_true c rd code data s = receive c code data None s (ReadBool (\<lambda>v p. if \<not> v then Some None else rd p))"

definition GetParcelableInfo ::
  "'s bundle_mgr_proxy \<Rightarrow> 'v unmarshalling \<Rightarrow> nat \<Rightarrow> parcel \<Rightarrow> 's \<Rightarrow> ('v option \<times> 's) option" where
  "GetParcelableInfo c rd code data s = get_if_true c (ReadParcelable rd (\<lambda>info p. Some info)) code data s"

definition GetParcelableInfoWithErrCode ::
  "'s bundle_mgr_proxy \<Rightarrow> 'v unmarshalling \<Rightarrow> nat \<Rightarrow> parcel \<Rightarrow> 's \<Rightarrow> ((int \<times> 'v option) \<times> 's) option" where
  "GetParcelableInfoWithErrCode c rd code data s =
     receive c code data (code_PARCEL_ERROR, None) s
       (ReadInt32 (\<lambda>res p.
          if res = code_OK
          then ReadParcelable rd (\<lambda>info p.
            Some (case info of None \<Rightarrow> (code_PARCEL_ERROR, None) | Some _ \<Rightarrow> (res, info))) p
          else Some (res, None)))"

fun read_parcelables :: "'v unmarshalling \<Rightarrow> nat \<Rightarrow> 'v list \<Rightarrow> parcel \<Rightarrow> 'v list option option" where
  "read_parcelables rd 0 infos p = Some (Some infos)"
| "read_parcelables rd (Suc n) infos p =
     ReadParcelable rd (\<lambda>info p.
       case info of None \<Rightarrow> Some None | Some info \<Rightarrow> read_parcelables rd n (infos @ [info]) p) p"

definition GetParcelableInfos ::
  "'s bundle_mgr_proxy \<Rightarrow> 'v unmarshalling \<Rightarrow> nat \<Rightarrow> parcel \<Rightarrow> 'v list \<Rightarrow> 's \<Rightarrow> ('v list option \<times> 's) option" where
  "GetParcelableInfos c rd code data infos s =
     get_if_true c (ReadInt32 (\<lambda>infoSize. read_parcelables rd (nat infoSize) infos)) code data s"

text \<open>The shared memory can be mapped and read.\<close>

definition GetParcelableInfosFromAshmem ::
  "'s bundle_mgr_proxy \<Rightarrow> 'v getter \<Rightarrow> nat \<Rightarrow> parcel \<Rightarrow> 'v list \<Rightarrow> 's \<Rightarrow> ('v list option \<times> 's) option" where
  "GetParcelableInfosFromAshmem c get code data infos s =
     get_if_true c
       (ReadInt32 (\<lambda>infoSize. ReadAshmem (\<lambda>ashmem p.
          case ashmem of
            None \<Rightarrow> Some None
          | Some dataStr \<Rightarrow> read_infos (px_json c) get (nat infoSize) dataStr 0 infos)))
       code data s"

section \<open>Calls\<close>

definition Proxy_GetApplicationInfo ::
  "'s bundle_mgr_proxy \<Rightarrow> string \<Rightarrow> int \<Rightarrow> int \<Rightarrow> 's \<Rightarrow> (application_info option \<times> 's) option" where
  "Proxy_GetApplicationInfo c appName flag userId s =
     (if appName = [] then Some (None, s)
      else with_data c [IString appName, IInt32 flag, IInt32 userId] (None, s)
        (\<lambda>data. GetParcelableInfo c (ApplicationInfo_ReadFromParcel (px_json c)) GET_APPLICATION_INFO data s))"

definition Proxy_GetApplicationInfoWithIntFlags ::
  "'s bundle_mgr_proxy \<Rightarrow> string \<Rightarrow> int \<Rightarrow> int \<Rightarrow> 's \<Rightarrow> (application_info option \<times> 's) option" where
  "Proxy_GetApplicationInfoWithIntFlags c appName flags userId s =
     (if appName = [] then Some (None, s)
      else with_data c [IString appName, IInt32 flags, IInt32 userId] (None, s)
        (\<lambda>data. GetParcelableInfo c (ApplicationInfo_ReadFromParcel (px_json c)) GET_APPLICATION_INFO_WITH_INT_FLAGS data s))"

definition Proxy_GetApplicationInfos ::
  "'s bundle_mgr_proxy \<Rightarrow> int \<Rightarrow> int \<Rightarrow> application_info list \<Rightarrow> 's \<Rightarrow> (application_info list option \<times> 's) option" where
  "Proxy_GetApplicationInfos c flag userId infos s =
     with_data c [IInt32 flag, IInt32 userId] (None, s)
        (\<lambda>data. GetParcelableInfos c (ApplicationInfo_ReadFromParcel (px_json c)) GET_APPLICATION_INFOS
            data infos s)"

definition Proxy_GetApplicationInfosWithIntFlags ::
  "'s bundle_mgr_proxy \<Rightarrow> int \<Rightarrow> int \<Rightarrow> application_info list \<Rightarrow> 's \<Rightarrow> (application_info list option \<times> 's) option" where
  "Proxy_GetApplicationInfosWithIntFlags c flags userId infos s =
     with_data c [IInt32 flags, IInt32 userId] (None, s)
        (\<lambda>data. GetParcelableInfos c (ApplicationInfo_ReadFromParcel (px_json c)) GET_APPLICATION_INFOS_WITH_INT_FLAGS
            data infos s)"

definition Proxy_GetBundleInfo ::
  "'s bundle_mgr_proxy \<Rightarrow> string \<Rightarrow> int \<Rightarrow> int \<Rightarrow> 's \<Rightarrow> (bundle_info option \<times> 's) option" where
  "Proxy_GetBundleInfo c bundleName flag userId s =
     (if bundleName = [] then Some (None, s)
      else with_data c [IString bundleName, IInt32 flag, IInt32 userId] (None, s)
        (\<lambda>data. GetParcelableInfo c (BundleInfo_ReadFromParcel (px_json c)) GET_BUNDLE_INFO data s))"

definition Proxy_GetBundleInfoWithIntFlags ::
  "'s bundle_mgr_proxy \<Rightarrow> string \<Rightarrow> int \<Rightarrow> int \<Rightarrow> 's \<Rightarrow> (bundle_info option \<times> 's) option" where
  "Proxy_GetBundleInfoWithIntFlags c bundleName flags userId s =
     (if bundleName = [] then Some (None, s)
      else with_data c [IString bundleName, IInt32 flags, IInt32 userId] (None, s)
        (\<lambda>data. GetParcelableInfo c (BundleInfo_ReadFromParcel (px_json c)) GET_BUNDLE_INFO_WITH_INT_FLAGS data s))"

definition Proxy_GetBundlePackInfo ::
  "'s bundle_mgr_proxy \<Rightarrow> string \<Rightarrow> int \<Rightarrow> 's \<Rightarrow> (bundle_pack_info option \<times> 's) option" where
  "Proxy_GetBundlePackInfo c bundleName flag s =
     (if bundleName = [] then Some (None, s)
      else with_data c [IString bundleName, IInt32 flag] (None, s)
        (\<lambda>data. GetParcelableInfo c (BundlePackInfo_ReadFromParcel (px_json c)) GET_BUNDLE_PACK_INFO data s))"

definition Proxy_GetBundlePackInfoWithIntFlags ::
  "'s bundle_mgr_proxy \<Rightarrow> string \<Rightarrow> int \<Rightarrow> 's \<Rightarrow> (bundle_pack_info option \<times> 's) option" where
  "Proxy_GetBundlePackInfoWithIntFlags c bundleName flags s =
     (if bundleName = [] then Some (None, s)
      else with_data c [IString bundleName, IInt32 flags] (None, s)
        (\<lambda>data. GetParcelableInfo c (BundlePackInfo_ReadFromParcel (px_json c)) GET_BUNDLE_PACK_INFO_WITH_INT_FLAGS data s))"

definition Proxy_GetBundleInfos ::
  "'s bundle_mgr_proxy \<Rightarrow> int \<Rightarrow> int \<Rightarrow> bundle_info list \<Rightarrow> 's \<Rightarrow> (bundle_info list option \<times> 's) option" where
  "Proxy_GetBundleInfos c flag userId infos s =
     with_data c [IInt32 flag, IInt32 userId] (None, s)
        (\<lambda>data. GetParcelableInfosFromAshmem c BundleInfo_from_json GET_BUNDLE_INFOS data infos s)"

definition Proxy_GetBundleInfosWithIntFlags ::
  "'s bundle_mgr_proxy \<Rightarrow> int \<Rightarrow> int \<Rightarrow> bundle_info list \<Rightarrow> 's \<Rightarrow> (bundle_info list option \<times> 's) option" where
  "Proxy_GetBundleInfosWithIntFlags c flags userId infos s =
     with_data c [IInt32 flags, IInt32 userId] (None, s)
        (\<lambda>data. GetParcelableInfosFromAshmem c BundleInfo_from_json GET_BUNDLE_INFOS_WITH_INT_FLAGS data infos s)"

definition Proxy_GetUidByBundleName ::
  "'s bundle_mgr_proxy \<Rightarrow> string \<Rightarrow> int \<Rightarrow> 's \<Rightarrow> (int \<times> 's) option" where
  "Proxy_GetUidByBundleName c bundleName userId s =
     (if bundleName = [] then Some (INVALID_UID, s)
      else with_data c [IString bundleName, IInt32 userId] (INVALID_UID, s)
        (\<lambda>data. receive c GET_UID_BY_BUNDLE_NAME data INVALID_UID s (ReadInt32 (\<lambda>v p. Some v))))"

definition Proxy_GetAppIdByBundleName ::
  "'s bundle_mgr_proxy \<Rightarrow> string \<Rightarrow> int \<Rightarrow> 's \<Rightarrow> (string \<times> 's) option" where
  "Proxy_GetAppIdByBundleName c bundleName userId s =
     (if bundleName = [] then Some ([], s)
      else with_data c [IString bundleName, IInt32 userId] ([], s)
        (\<lambda>data. receive c GET_APPID_BY_BUNDLE_NAME data [] s (ReadString (\<lambda>v p. Some v))))"

definition Proxy_GetBundleNameForUid ::
  "'s bundle_mgr_proxy \<Rightarrow> int \<Rightarrow> 's \<Rightarrow> (string option \<times> 's) option" where
  "Proxy_GetBundleNameForUid c uid s =
     with_data c [IInt32 uid] (None, s)
        (\<lambda>data. get_if_true c (ReadString (\<lambda>v p. Some (Some v))) GET_BUNDLE_NAME_FOR_UID data s)"

definition Proxy_GetBundlesForUid ::
  "'s bundle_mgr_proxy \<Rightarrow> int \<Rightarrow> 's \<Rightarrow> (string list option \<times> 's) option" where
  "Proxy_GetBundlesForUid c uid s =
     with_data c [IInt32 uid] (None, s)
        (\<lambda>data. get_if_true c (ReadStringVector (\<lambda>v p. Some v)) GET_BUNDLES_FOR_UID data s)"

definition Proxy_GetNameForUid ::
  "'s bundle_mgr_proxy \<Rightarrow> int \<Rightarrow> 's \<Rightarrow> (string option \<times> 's) option" where
  "Proxy_GetNameForUid c uid s =
     with_data c [IInt32 uid] (None, s)
        (\<lambda>data. get_if_true c (ReadString (\<lambda>v p. Some (Some v))) GET_NAME_FOR_UID data s)"

definition Proxy_GetBundleGids ::
  "'s bundle_mgr_proxy \<Rightarrow> string \<Rightarrow> 's \<Rightarrow> (int list option \<times> 's) option" where
  "Proxy_GetBundleGids c bundleName s =
     with_data c [IString bundleName] (None, s)
        (\<lambda>data. get_if_true c (ReadInt32Vector (\<lambda>v p. Some v)) GET_BUNDLE_GIDS data s)"

definition Proxy_GetBundleGidsByUid ::
  "'s bundle_mgr_proxy \<Rightarrow> string \<Rightarrow> int \<Rightarrow> 's \<Rightarrow> (int list option \<times> 's) option" where
  "Proxy_GetBundleGidsByUid c bundleName uid s =
     with_data c [IString bundleName, IInt32 uid] (None, s)
        (\<lambda>data. get_if_true c (ReadInt32Vector (\<lambda>v p. Some v)) GET_BUNDLE_GIDS_BY_UID data s)"

definition Proxy_GetAppType ::
  "'s bundle_mgr_proxy \<Rightarrow> string \<Rightarrow> 's \<Rightarrow> (string \<times> 's) option" where
  "Proxy_GetAppType c bundleName s =
     (if bundleName = [] then Some ([], s)
      else with_data c [IString bundleName] ([], s)
        (\<lambda>data. receive c GET_APP_TYPE data [] s (ReadString (\<lambda>v p. Some v))))"

definition Proxy_CheckIsSystemAppByUid ::
  "'s bundle_mgr_proxy \<Rightarrow> int \<Rightarrow> 's \<Rightarrow> (bool \<times> 's) option" where
  "Proxy_CheckIsSystemAppByUid c uid s =
     with_data c [IInt32 uid] (False, s)
        (\<lambda>data. get_bool c CHECK_IS_SYSTEM_APP_BY_UID data s)"

definition Proxy_GetBundleInfosByMetaData ::
  "'s bundle_mgr_proxy \<Rightarrow> string \<Rightarrow> bundle_info list \<Rightarrow> 's \<Rightarrow> (bundle_info list option \<times> 's) option" where
  "Proxy_GetBundleInfosByMetaData c metaData infos s =
     (if metaData = [] then Some (None, s)
      else with_data c [IString metaData] (None, s)
        (\<lambda>data. GetParcelableInfos c (BundleInfo_ReadFromParcel (px_json c)) GET_BUNDLE_INFOS_BY_METADATA
            data infos s))"

definition Proxy_QueryAbilityInfo ::
  "'s bundle_mgr_proxy \<Rightarrow> want \<Rightarrow> 's \<Rightarrow> (ability_info option \<times> 's) option" where
  "Proxy_QueryAbilityInfo c want s =
     with_data c (Want_Marshalling want) (None, s)
        (\<lambda>data. GetParcelableInfo c (AbilityInfo_ReadFromParcel (px_json c)) QUERY_ABILITY_INFO data s)"

definition Proxy_QueryAbilityInfoWithCallback ::
  "'s bundle_mgr_proxy \<Rightarrow> want \<Rightarrow> int \<Rightarrow> int \<Rightarrow> nat option \<Rightarrow> 's \<Rightarrow> (ability_info option \<times> 's) option" where
  "Proxy_QueryAbilityInfoWithCallback c want flags userId callBack s =
     with_data c (Want_Marshalling want @ [IInt32 flags, IInt32 userId, IObject callBack]) (None, s)
        (\<lambda>data. GetParcelableInfo c (AbilityInfo_ReadFromParcel (px_json c)) QUERY_ABILITY_INFO_WITH_CALLBACK data s)"

text \<open>The arguments are written into a parcel that is not sent.\<close>

definition Proxy_UpgradeAtomicService :: "'s bundle_mgr_proxy \<Rightarrow> want \<Rightarrow> int \<Rightarrow> 's \<Rightarrow> 's option" where
  "Proxy_UpgradeAtomicService c want userId s =
     with_data c (Want_Marshalling want @ [IInt32 userId]) s (\<lambda>data. Some s)"

definition Proxy_QueryAbilityInfoMutiparam ::
  "'s bundle_mgr_proxy \<Rightarrow> want \<Rightarrow> int \<Rightarrow> int \<Rightarrow> 's \<Rightarrow> (ability_info option \<times> 's) option" where
  "Proxy_QueryAbilityInfoMutiparam c want flags userId s =
     with_data c (Want_Marshalling want @ [IInt32 flags, IInt32 userId]) (None, s)
        (\<lambda>data. GetParcelableInfo c (AbilityInfo_ReadFromParcel (px_json c)) QUERY_ABILITY_INFO_MUTI_PARAM data s)"

definition Proxy_QueryAbilityInfos ::
  "'s bundle_mgr_proxy \<Rightarrow> want \<Rightarrow> ability_info list \<Rightarrow> 's \<Rightarrow> (ability_info list option \<times> 's) option" where
  "Proxy_QueryAbilityInfos c want infos s =
     with_data c (Want_Marshalling want) (None, s)
        (\<lambda>data. GetParcelableInfos c (AbilityInfo_ReadFromParcel (px_json c)) QUERY_ABILITY_INFOS data infos s)"

definition Proxy_QueryAbilityInfosMutiparam ::
  "'s bundle_mgr_proxy \<Rightarrow> want \<Rightarrow> int \<Rightarrow> int \<Rightarrow> ability_info list \<Rightarrow> 's \<Rightarrow> (ability_info list option \<times> 's) option" where
  "Proxy_QueryAbilityInfosMutiparam c want flags userId infos s =
     with_data c (Want_Marshalling want @ [IInt32 flags, IInt32 userId]) (None, s)
        (\<lambda>data. GetParcelableInfos c (AbilityInfo_ReadFromParcel (px_json c)) QUERY_ABILITY_INFOS_MUTI_PARAM
            data infos s)"

definition Proxy_QueryAllAbilityInfos ::
  "'s bundle_mgr_proxy \<Rightarrow> want \<Rightarrow> int \<Rightarrow> ability_info list \<Rightarrow> 's \<Rightarrow> (ability_info list option \<times> 's) option" where
  "Proxy_QueryAllAbilityInfos c want userId infos s =
     with_data c (Want_Marshalling want @ [IInt32 userId]) (None, s)
        (\<lambda>data. GetParcelableInfos c (AbilityInfo_ReadFromParcel (px_json c)) QUERY_ALL_ABILITY_INFOS data infos s)"

definition Proxy_QueryAbilityInfosForClone ::
  "'s bundle_mgr_proxy \<Rightarrow> want \<Rightarrow> ability_info list \<Rightarrow> 's \<Rightarrow> (ability_info list option \<times> 's) option" where
  "Proxy_QueryAbilityInfosForClone c want infos s =
     with_data c (Want_Marshalling want) (None, s)
        (\<lambda>data. GetParcelableInfos c (AbilityInfo_ReadFromParcel (px_json c)) QUERY_ABILITY_INFOS_FOR_CLONE
            data infos s)"

definition Proxy_QueryAbilityInfoByUri ::
  "'s bundle_mgr_proxy \<Rightarrow> string \<Rightarrow> 's \<Rightarrow> (ability_info option \<times> 's) option" where
  "Proxy_QueryAbilityInfoByUri c abilityUri s =
     with_data c [IString abilityUri] (None, s)
        (\<lambda>data. GetParcelableInfo c (AbilityInfo_ReadFromParcel (px_json c)) QUERY_ABILITY_INFO_BY_URI data s)"

definition Proxy_QueryAbilityInfosByUri ::
  "'s bundle_mgr_proxy \<Rightarrow> string \<Rightarrow> ability_info list \<Rightarrow> 's \<Rightarrow> (ability_info list option \<times> 's) option" where
  "Proxy_QueryAbilityInfosByUri c abilityUri infos s =
     with_data c [IString abilityUri] (None, s)
        (\<lambda>data. GetParcelableInfos c (AbilityInfo_ReadFromParcel (px_json c)) QUERY_ABILITY_INFOS_BY_URI
            data infos s)"

definition Proxy_QueryAbilityInfoByUriForUserId ::
  "'s bundle_mgr_proxy \<Rightarrow> string \<Rightarrow> int \<Rightarrow> 's \<Rightarrow> (ability_info option \<times> 's) option" where
  "Proxy_QueryAbilityInfoByUriForUserId c abilityUri userId s =
     with_data c [IString abilityUri, IInt32 userId] (None, s)
        (\<lambda>data. GetParcelableInfo c (AbilityInfo_ReadFromParcel (px_json c)) QUERY_ABILITY_INFO_BY_URI_FOR_USERID data s)"

definition Proxy_QueryKeepAliveBundleInfos ::
  "'s bundle_mgr_proxy \<Rightarrow> bundle_info list \<Rightarrow> 's \<Rightarrow> (bundle_info list option \<times> 's) option" where
  "Proxy_QueryKeepAliveBundleInfos c infos s =
     with_data c [] (None, s)
        (\<lambda>data. GetParcelableInfos c (BundleInfo_ReadFromParcel (px_json c)) QUERY_KEEPALIVE_BUNDLE_INFOS
            data infos s)"

definition Proxy_GetAbilityLabel ::
  "'s bundle_mgr_proxy \<Rightarrow> string \<Rightarrow> string \<Rightarrow> 's \<Rightarrow> (string \<times> 's) option" where
  "Proxy_GetAbilityLabel c bundleName abilityName s =
     (if bundleName = [] \<or> abilityName = [] then Some ([], s)
      else with_data c [IString bundleName, IString abilityName] ([], s)
        (\<lambda>data. receive c GET_ABILITY_LABEL data [] s (ReadString (\<lambda>v p. Some v))))"

definition Proxy_GetAbilityLabelWithModuleName ::
  "'s bundle_mgr_proxy \<Rightarrow> string \<Rightarrow> string \<Rightarrow> string \<Rightarrow> 's \<Rightarrow> (string \<times> 's) option" where
  "Proxy_GetAbilityLabelWithModuleName c bundleName moduleName abilityName s =
     (if bundleName = [] \<or> moduleName = [] \<or> abilityName = [] then Some ([], s)
      else with_data c [IString bundleName, IString moduleName, IString abilityName] ([], s)
        (\<lambda>data. receive c GET_ABILITY_LABEL_WITH_MODULE_NAME data [] s (ReadString (\<lambda>v p. Some v))))"

definition Proxy_GetBundleArchiveInfo ::
  "'s bundle_mgr_proxy \<Rightarrow> string \<Rightarrow> int \<Rightarrow> 's \<Rightarrow> (bundle_info option \<times> 's) option" where
  "Proxy_GetBundleArchiveInfo c hapFilePath flag s =
     (if hapFilePath = [] then Some (None, s)
      else with_data c [IString hapFilePath, IInt32 flag] (None, s)
        (\<lambda>data. GetParcelableInfo c (BundleInfo_ReadFromParcel (px_json c)) GET_BUNDLE_ARCHIVE_INFO data s))"

definition Proxy_GetBundleArchiveInfoWithIntFlags ::
  "'s bundle_mgr_proxy \<Rightarrow> string \<Rightarrow> int \<Rightarrow> 's \<Rightarrow> (bundle_info option \<times> 's) option" where
  "Proxy_GetBundleArchiveInfoWithIntFlags c hapFilePath flags s =
     (if hapFilePath = [] then Some (None, s)
      else with_data c [IString hapFilePath, IInt32 flags] (None, s)
        (\<lambda>data. GetParcelableInfo c (BundleInfo_ReadFromParcel (px_json c)) GET_BUNDLE_ARCHIVE_INFO_WITH_INT_FLAGS data s))"

definition Proxy_GetHapModuleInfo ::
  "'s bundle_mgr_proxy \<Rightarrow> ability_info \<Rightarrow> 's \<Rightarrow> (hap_module_info option \<times> 's) option" where
  "Proxy_GetHapModuleInfo c abilityInfo s =
     (if ai_bundleName abilityInfo = [] \<or> ai_package abilityInfo = [] then Some (None, s)
      else with_data c (AbilityInfo_Marshalling (px_json c) abilityInfo) (None, s)
        (\<lambda>data. GetParcelableInfo c (HapModuleInfo_ReadFromParcel (px_json c)) GET_HAP_MODULE_INFO data s))"

definition Proxy_GetHapModuleInfoWithUserId ::
  "'s bundle_mgr_proxy \<Rightarrow> ability_info \<Rightarrow> int \<Rightarrow> 's \<Rightarrow> (hap_module_info option \<times> 's) option" where
  "Proxy_GetHapModuleInfoWithUserId c abilityInfo userId s =
     (if ai_bundleName abilityInfo = [] \<or> ai_package abilityInfo = [] then Some (None, s)
      else with_data c (AbilityInfo_Marshalling (px_json c) abilityInfo @ [IInt32 userId]) (None, s)
        (\<lambda>data. GetParcelableInfo c (HapModuleInfo_ReadFromParcel (px_json c)) GET_HAP_MODULE_INFO_WITH_USERID data s))"

definition Proxy_GetLaunchWantForBundle ::
  "'s bundle_mgr_proxy \<Rightarrow> string \<Rightarrow> 's \<Rightarrow> (want option \<times> 's) option" where
  "Proxy_GetLaunchWantForBundle c bundleName s =
     (if bundleName = [] then Some (None, s)
      else with_data c [IString bundleName] (None, s)
        (\<lambda>data. GetParcelableInfo c Want_ReadFromParcel GET_LAUNCH_WANT_FOR_BUNDLE data s))"

definition Proxy_CheckPublicKeys ::
  "'s bundle_mgr_proxy \<Rightarrow> string \<Rightarrow> string \<Rightarrow> 's \<Rightarrow> (int \<times> 's) option" where
  "Proxy_CheckPublicKeys c firstBundleName secondBundleName s =
     (if firstBundleName = [] \<or> secondBundleName = [] then Some (SIGNATURE_UNKNOWN_BUNDLE, s)
      else with_data c [IString firstBundleName, IString secondBundleName] (SIGNATURE_UNKNOWN_BUNDLE, s)
        (\<lambda>data. receive c CHECK_PUBLICKEYS data SIGNATURE_UNKNOWN_BUNDLE s (ReadInt32 (\<lambda>v p. Some v))))"

definition Proxy_GetPermissionDef ::
  "'s bundle_mgr_proxy \<Rightarrow> string \<Rightarrow> 's \<Rightarrow> (permission_def option \<times> 's) option" where
  "Proxy_GetPermissionDef c permissionName s =
     (if permissionName = [] then Some (None, s)
      else with_data c [IString permissionName] (None, s)
        (\<lambda>data. GetParcelableInfo c PermissionDef_ReadFromParcel GET_PERMISSION_DEF data s))"

definition Proxy_HasSystemCapability ::
  "'s bundle_mgr_proxy \<Rightarrow> string \<Rightarrow> 's \<Rightarrow> (bool \<times> 's) option" where
  "Proxy_HasSystemCapability c capName s =
     (if capName = [] then Some (False, s)
      else with_data c [IString capName] (False, s)
        (\<lambda>data. get_bool c HAS_SYSTEM_CAPABILITY data s))"

definition Proxy_GetSystemAvailableCapabilities ::
  "'s bundle_mgr_proxy \<Rightarrow> 's \<Rightarrow> (string list option \<times> 's) option" where
  "Proxy_GetSystemAvailableCapabilities c s =
     with_data c [] (None, s)
        (\<lambda>data. receive c GET_SYSTEM_AVAILABLE_CAPABILITIES data None s (ReadStringVector (\<lambda>v p. Some v)))"

definition Proxy_IsSafeMode :: "'s bundle_mgr_proxy \<Rightarrow> 's \<Rightarrow> (bool \<times> 's) option" where
  "Proxy_IsSafeMode c s =
     with_data c [] (False, s)
        (\<lambda>data. get_bool c IS_SAFE_MODE data s)"

definition Proxy_CleanBundleCacheFiles ::
  "'s bundle_mgr_proxy \<Rightarrow> string \<Rightarrow> nat option \<Rightarrow> int \<Rightarrow> 's \<Rightarrow> (bool \<times> 's) option" where
  "Proxy_CleanBundleCacheFiles c bundleName cleanCacheCallback userId s =
     (if bundleName = [] \<or> cleanCacheCallback = None then Some (False, s)
      else with_data c [IString bundleName, IObject cleanCacheCallback, IInt32 userId] (False, s)
        (\<lambda>data. get_bool c CLEAN_BUNDLE_CACHE_FILES data s))"

definition Proxy_CleanBundleDataFiles ::
  "'s bundle_mgr_proxy \<Rightarrow> string \<Rightarrow> int \<Rightarrow> 's \<Rightarrow> (bool \<times> 's) option" where
  "Proxy_CleanBundleDataFiles c bundleName userId s =
     (if bundleName = [] then Some (False, s)
      else with_data c [IString bundleName, IInt32 userId] (False, s)
        (\<lambda>data. get_bool c CLEAN_BUNDLE_DATA_FILES data s))"

text \<open>A callback has a bundle name and an object.\<close>

definition Proxy_RegisterBundleStatusCallback ::
  "'s bundle_mgr_proxy \<Rightarrow> (string \<times> nat) option \<Rightarrow> 's \<Rightarrow> (bool \<times> 's) option" where
  "Proxy_RegisterBundleStatusCallback c bundleStatusCallback s =
     (case bundleStatusCallback of
        None \<Rightarrow> Some (False, s)
      | Some (bundleName, object) \<Rightarrow>
          if bundleName = [] then Some (False, s)
          else with_data c [IString bundleName, IObject (Some object)] (False, s)
            (\<lambda>data. get_bool c REGISTER_BUNDLE_STATUS_CALLBACK data s))"

definition Proxy_ClearBundleStatusCallback ::
  "'s bundle_mgr_proxy \<Rightarrow> (string \<times> nat) option \<Rightarrow> 's \<Rightarrow> (bool \<times> 's) option" where
  "Proxy_ClearBundleStatusCallback c bundleStatusCallback s =
     (case bundleStatusCallback of
        None \<Rightarrow> Some (False, s)
      | Some (bundleName, object) \<Rightarrow>
          with_data c [IObject (Some object)] (False, s) (\<lambda>data. get_bool c CLEAR_BUNDLE_STATUS_CALLBACK data s))"

definition Proxy_UnregisterBundleStatusCallback ::
  "'s bundle_mgr_proxy \<Rightarrow> 's \<Rightarrow> (bool \<times> 's) option" where
  "Proxy_UnregisterBundleStatusCallback c s =
     with_data c [] (False, s)
        (\<lambda>data. get_bool c UNREGISTER_BUNDLE_STATUS_CALLBACK data s)"

definition Proxy_DumpInfos ::
  "'s bundle_mgr_proxy \<Rightarrow> int \<Rightarrow> string \<Rightarrow> int \<Rightarrow> string \<Rightarrow> 's \<Rightarrow> (string option \<times> 's) option" where
  "Proxy_DumpInfos c flag bundleName userId result s =
     with_data c [IInt32 flag, IString bundleName, IInt32 userId] (None, s)
        (\<lambda>data. get_if_true c (ReadStringVector (\<lambda>v p. Some (map_option (\<lambda>dumpInfos. result @ concat dumpInfos) v)))
          DUMP_INFOS data s)"

definition Proxy_IsApplicationEnabled ::
  "'s bundle_mgr_proxy \<Rightarrow> string \<Rightarrow> 's \<Rightarrow> (bool \<times> 's) option" where
  "Proxy_IsApplicationEnabled c bundleName s =
     (if bundleName = [] then Some (False, s)
      else with_data c [IString bundleName] (False, s)
        (\<lambda>data. get_bool c IS_APPLICATION_ENABLED data s))"

definition Proxy_IsModuleRemovable ::
  "'s bundle_mgr_proxy \<Rightarrow> string \<Rightarrow> string \<Rightarrow> 's \<Rightarrow> (bool \<times> 's) option" where
  "Proxy_IsModuleRemovable c bundleName moduleName s =
     (if bundleName = [] \<or> moduleName = [] then Some (False, s)
      else with_data c [IString bundleName, IString moduleName] (False, s)
        (\<lambda>data. get_bool c IS_MODULE_REMOVABLE data s))"

definition Proxy_SetModuleRemovable ::
  "'s bundle_mgr_proxy \<Rightarrow> string \<Rightarrow> string \<Rightarrow> bool \<Rightarrow> 's \<Rightarrow> (bool \<times> 's) option" where
  "Proxy_SetModuleRemovable c bundleName moduleName isEnable s =
     (if bundleName = [] \<or> moduleName = [] then Some (False, s)
      else with_data c [IString bundleName, IString moduleName, IBool isEnable] (False, s)
        (\<lambda>data. get_bool c SET_MODULE_REMOVABLE data s))"

definition Proxy_GetModuleUpgradeFlag ::
  "'s bundle_mgr_proxy \<Rightarrow> string \<Rightarrow> string \<Rightarrow> 's \<Rightarrow> (bool \<times> 's) option" where
  "Proxy_GetModuleUpgradeFlag c bundleName moduleName s =
     (if bundleName = [] \<or> moduleName = [] then Some (False, s)
      else with_data c [IString bundleName, IString moduleName] (False, s)
        (\<lambda>data. get_bool c IS_MODULE_NEED_UPDATE data s))"

definition Proxy_SetModuleUpgradeFlag ::
  "'s bundle_mgr_proxy \<Rightarrow> string \<Rightarrow> string \<Rightarrow> int \<Rightarrow> 's \<Rightarrow> (bool \<times> 's) option" where
  "Proxy_SetModuleUpgradeFlag c bundleName moduleName upgradeFlag s =
     (if bundleName = [] \<or> moduleName = [] then Some (False, s)
      else with_data c [IString bundleName, IString moduleName, IInt32 upgradeFlag] (False, s)
        (\<lambda>data. get_bool c SET_MODULE_NEED_UPDATE data s))"

definition Proxy_SetApplicationEnabled ::
  "'s bundle_mgr_proxy \<Rightarrow> string \<Rightarrow> bool \<Rightarrow> int \<Rightarrow> 's \<Rightarrow> (bool \<times> 's) option" where
  "Proxy_SetApplicationEnabled c bundleName isEnable userId s =
     (if bundleName = [] then Some (False, s)
      else with_data c [IString bundleName, IBool isEnable, IInt32 userId] (False, s)
        (\<lambda>data. get_bool c SET_APPLICATION_ENABLED data s))"

definition Proxy_IsAbilityEnabled ::
  "'s bundle_mgr_proxy \<Rightarrow> ability_info \<Rightarrow> 's \<Rightarrow> (bool \<times> 's) option" where
  "Proxy_IsAbilityEnabled c abilityInfo s =
     (if ai_name abilityInfo = [] then Some (False, s)
      else with_data c (AbilityInfo_Marshalling (px_json c) abilityInfo) (False, s)
        (\<lambda>data. get_bool c IS_ABILITY_ENABLED data s))"

definition Proxy_SetAbilityEnabled ::
  "'s bundle_mgr_proxy \<Rightarrow> ability_info \<Rightarrow> bool \<Rightarrow> int \<Rightarrow> 's \<Rightarrow> (bool \<times> 's) option" where
  "Proxy_SetAbilityEnabled c abilityInfo isEnabled userId s =
     (if ai_name abilityInfo = [] then Some (False, s)
      else with_data c (AbilityInfo_Marshalling (px_json c) abilityInfo @ [IBool isEnabled, IInt32 userId]) (False, s)
        (\<lambda>data. get_bool c SET_ABILITY_ENABLED data s))"

definition Proxy_GetAbilityInfo ::
  "'s bundle_mgr_proxy \<Rightarrow> string \<Rightarrow> string \<Rightarrow> 's \<Rightarrow> (ability_info option \<times> 's) option" where
  "Proxy_GetAbilityInfo c bundleName abilityName s =
     (if bundleName = [] \<or> abilityName = [] then Some (None, s)
      else with_data c [IString bundleName, IString abilityName] (None, s)
        (\<lambda>data. GetParcelableInfo c (AbilityInfo_ReadFromParcel (px_json c)) GET_ABILITY_INFO data s))"

definition Proxy_GetAbilityInfoWithModuleName ::
  "'s bundle_mgr_proxy \<Rightarrow> string \<Rightarrow> string \<Rightarrow> string \<Rightarrow> 's \<Rightarrow> (ability_info option \<times> 's) option" where
  "Proxy_GetAbilityInfoWithModuleName c bundleName moduleName abilityName s =
     (if bundleName = [] \<or> moduleName = [] \<or> abilityName = [] then Some (None, s)
      else with_data c [IString bundleName, IString moduleName, IString abilityName] (None, s)
        (\<lambda>data. GetParcelableInfo c (AbilityInfo_ReadFromParcel (px_json c)) GET_ABILITY_INFO_WITH_MODULE_NAME data s))"

definition Proxy_GetAbilityPixelMapIcon ::
  "'s bundle_mgr_proxy \<Rightarrow> string \<Rightarrow> string \<Rightarrow> 's \<Rightarrow> (nat option \<times> 's) option" where
  "Proxy_GetAbilityPixelMapIcon c bundleName abilityName s =
     (if bundleName = [] \<or> abilityName = [] then Some (None, s)
      else with_data c [IString bundleName, IString abilityName] (None, s)
        (\<lambda>data. get_if_true c (ReadPixelMap (\<lambda>info p. Some info)) GET_ABILITY_PIXELMAP_ICON data s))"

definition Proxy_GetAbilityPixelMapIconWithModuleName ::
  "'s bundle_mgr_proxy \<Rightarrow> string \<Rightarrow> string \<Rightarrow> string \<Rightarrow> 's \<Rightarrow> (nat option \<times> 's) option" where
  "Proxy_GetAbilityPixelMapIconWithModuleName c bundleName moduleName abilityName s =
     (if bundleName = [] \<or> moduleName = [] \<or> abilityName = [] then Some (None, s)
      else with_data c [IString bundleName, IString moduleName, IString abilityName] (None, s)
        (\<lambda>data. get_if_true c (ReadPixelMap (\<lambda>info p. Some info)) GET_ABILITY_PIXELMAP_ICON_WITH_MODULE_NAME data s))"

definition Proxy_GetBundleInstaller ::
  "'s bundle_mgr_proxy \<Rightarrow> 's \<Rightarrow> (nat option \<times> 's) option" where
  "Proxy_GetBundleInstaller c s =
     with_data c [] (None, s)
        (\<lambda>data. receive c GET_BUNDLE_INSTALLER data None s
          (ReadObject (\<lambda>object p. Some (Option.bind object (px_iface_cast c)))))"

definition Proxy_GetBundleUserMgr ::
  "'s bundle_mgr_proxy \<Rightarrow> 's \<Rightarrow> (nat option \<times> 's) option" where
  "Proxy_GetBundleUserMgr c s =
     with_data c [] (None, s)
        (\<lambda>data. receive c GET_BUNDLE_USER_MGR data None s
          (ReadObject (\<lambda>object p. Some (Option.bind object (px_iface_cast c)))))"

definition Proxy_GetAllFormsInfo ::
  "'s bundle_mgr_proxy \<Rightarrow> form_info list \<Rightarrow> 's \<Rightarrow> (form_info list option \<times> 's) option" where
  "Proxy_GetAllFormsInfo c infos s =
     with_data c [] (None, s)
        (\<lambda>data. GetParcelableInfos c FormInfo_ReadFromParcel GET_ALL_FORMS_INFO data infos s)"

definition Proxy_GetFormsInfoByApp ::
  "'s bundle_mgr_proxy \<Rightarrow> string \<Rightarrow> form_info list \<Rightarrow> 's \<Rightarrow> (form_info list option \<times> 's) option" where
  "Proxy_GetFormsInfoByApp c bundleName infos s =
     (if bundleName = [] then Some (None, s)
      else with_data c [IString bundleName] (None, s)
        (\<lambda>data. GetParcelableInfos c FormInfo_ReadFromParcel GET_FORMS_INFO_BY_APP data infos s))"

definition Proxy_GetFormsInfoByModule ::
  "'s bundle_mgr_proxy \<Rightarrow> string \<Rightarrow> string \<Rightarrow> form_info list \<Rightarrow> 's \<Rightarrow> (form_info list option \<times> 's) option" where
  "Proxy_GetFormsInfoByModule c bundleName moduleName infos s =
     (if bundleName = [] \<or> moduleName = [] then Some (None, s)
      else with_data c [IString bundleName, IString moduleName] (None, s)
        (\<lambda>data. GetParcelableInfos c FormInfo_ReadFromParcel GET_FORMS_INFO_BY_MODULE data infos s))"

definition Proxy_GetShortcutInfos ::
  "'s bundle_mgr_proxy \<Rightarrow> string \<Rightarrow> shortcut_info list \<Rightarrow> 's \<Rightarrow> (shortcut_info list option \<times> 's) option" where
  "Proxy_GetShortcutInfos c bundleName infos s =
     (if bundleName = [] then Some (None, s)
      else with_data c [IString bundleName] (None, s)
        (\<lambda>data. GetParcelableInfos c ShortcutInfo_ReadFromParcel GET_SHORTCUT_INFO data infos s))"

definition Proxy_GetAllCommonEventInfo ::
  "'s bundle_mgr_proxy \<Rightarrow> string \<Rightarrow> common_event_info list \<Rightarrow> 's \<Rightarrow> (common_event_info list option \<times> 's) option" where
  "Proxy_GetAllCommonEventInfo c eventKey infos s =
     (if eventKey = [] then Some (None, s)
      else with_data c [IString eventKey] (None, s)
        (\<lambda>data. GetParcelableInfos c CommonEventInfo_ReadFromParcel GET_ALL_COMMON_EVENT_INFO data infos s))"

text \<open>Not supported.\<close>

definition Proxy_GetModuleUsageRecords :: "'s bundle_mgr_proxy \<Rightarrow> int \<Rightarrow> 's \<Rightarrow> (bool \<times> 's) option" where
  "Proxy_GetModuleUsageRecords c number s = Some (False, s)"

definition Proxy_NotifyAbilityLifeStatus ::
  "'s bundle_mgr_proxy \<Rightarrow> string \<Rightarrow> string \<Rightarrow> int \<Rightarrow> int \<Rightarrow> 's \<Rightarrow> (bool \<times> 's) option" where
  "Proxy_NotifyAbilityLifeStatus c bundleName abilityName launchTime uid s = Some (False, s)"

definition Proxy_CheckBundleNameInAllowList ::
  "'s bundle_mgr_proxy \<Rightarrow> string \<Rightarrow> 's \<Rightarrow> (bool \<times> 's) option" where
  "Proxy_CheckBundleNameInAllowList c bundleName s =
     (if bundleName = [] then Some (False, s)
      else with_data c [IString bundleName] (False, s)
        (\<lambda>data. get_bool c BUNDLE_CLONE data s))"

definition Proxy_BundleClone ::
  "'s bundle_mgr_proxy \<Rightarrow> string \<Rightarrow> 's \<Rightarrow> (bool \<times> 's) option" where
  "Proxy_BundleClone c bundleName s =
     (if bundleName = [] then Some (False, s)
      else with_data c [IString bundleName] (False, s)
        (\<lambda>data. get_bool c BUNDLE_CLONE data s))"

definition Proxy_RemoveClonedBundle ::
  "'s bundle_mgr_proxy \<Rightarrow> string \<Rightarrow> int \<Rightarrow> 's \<Rightarrow> (bool \<times> 's) option" where
  "Proxy_RemoveClonedBundle c bundleName uid s =
     (if bundleName = [] then Some (False, s)
      else with_data c [IString bundleName, IInt32 uid] (False, s)
        (\<lambda>data. get_bool c REMOVE_CLONED_BUNDLE data s))"

definition Proxy_GetDistributedBundleInfo ::
  "'s bundle_mgr_proxy \<Rightarrow> string \<Rightarrow> string \<Rightarrow> 's \<Rightarrow> (distributed_bundle_info option \<times> 's) option" where
  "Proxy_GetDistributedBundleInfo c networkId bundleName s =
     (if networkId = [] \<or> bundleName = [] then Some (None, s)
      else with_data c [IString networkId, IString bundleName] (None, s)
        (\<lambda>data. GetParcelableInfo c (DistributedBundleInfo_ReadFromParcel (px_json c)) GET_DISTRIBUTE_BUNDLE_INFO data s))"

definition Proxy_GetAppPrivilegeLevel ::
  "'s bundle_mgr_proxy \<Rightarrow> string \<Rightarrow> int \<Rightarrow> 's \<Rightarrow> (string \<times> 's) option" where
  "Proxy_GetAppPrivilegeLevel c bundleName userId s =
     (if bundleName = [] then Some ([], s)
      else with_data c [IString bundleName, IInt32 userId] ([], s)
        (\<lambda>data. receive c GET_APPLICATION_PRIVILEGE_LEVEL data [] s (ReadString (\<lambda>v p. Some v))))"

definition Proxy_QueryExtAbilityInfosWithoutType ::
  "'s bundle_mgr_proxy \<Rightarrow> want \<Rightarrow> int \<Rightarrow> int \<Rightarrow> extension_ability_info list \<Rightarrow> 's \<Rightarrow> (extension_ability_info list option \<times> 's) option" where
  "Proxy_QueryExtAbilityInfosWithoutType c want flag userId infos s =
     with_data c (Want_Marshalling want @ [IInt32 flag, IInt32 userId]) (None, s)
        (\<lambda>data. GetParcelableInfos c (ExtensionAbilityInfo_ReadFromParcel (px_json c)) QUERY_EXTENSION_INFO_WITHOUT_TYPE
            data infos s)"

definition Proxy_QueryExtAbilityInfos ::
  "'s bundle_mgr_proxy \<Rightarrow> want \<Rightarrow> int \<Rightarrow> int \<Rightarrow> int \<Rightarrow> extension_ability_info list \<Rightarrow> 's \<Rightarrow> (extension_ability_info list option \<times> 's) option" where
  "Proxy_QueryExtAbilityInfos c want extensionType flag userId infos s =
     with_data c (Want_Marshalling want @ [IInt32 extensionType, IInt32 flag, IInt32 userId]) (None, s)
        (\<lambda>data. GetParcelableInfos c (ExtensionAbilityInfo_ReadFromParcel (px_json c)) QUERY_EXTENSION_INFO
            data infos s)"

definition Proxy_QueryExtAbilityInfosByType ::
  "'s bundle_mgr_proxy \<Rightarrow> int \<Rightarrow> int \<Rightarrow> extension_ability_info list \<Rightarrow> 's \<Rightarrow> (extension_ability_info list option \<times> 's) option" where
  "Proxy_QueryExtAbilityInfosByType c extensionType userId infos s =
     with_data c [IInt32 extensionType, IInt32 userId] (None, s)
        (\<lambda>data. GetParcelableInfos c (ExtensionAbilityInfo_ReadFromParcel (px_json c)) QUERY_EXTENSION_INFO_BY_TYPE
            data infos s)"

definition Proxy_VerifyCallingPermission ::
  "'s bundle_mgr_proxy \<Rightarrow> string \<Rightarrow> 's \<Rightarrow> (bool \<times> 's) option" where
  "Proxy_VerifyCallingPermission c permission s =
     with_data c [IString permission] (False, s)
        (\<lambda>data. get_bool c VERIFY_CALLING_PERMISSION data s)"

definition Proxy_GetAccessibleAppCodePaths ::
  "'s bundle_mgr_proxy \<Rightarrow> int \<Rightarrow> 's \<Rightarrow> (string list \<times> 's) option" where
  "Proxy_GetAccessibleAppCodePaths c userId s =
     with_data c [IInt32 userId] ([], s)
        (\<lambda>data. map_option (apfst (case_option [] id))
          (get_if_true c (ReadStringVector (\<lambda>v p. Some v)) GET_ACCESSIBLE_APP_CODE_PATH data s))"

definition Proxy_QueryExtensionAbilityInfoByUri ::
  "'s bundle_mgr_proxy \<Rightarrow> string \<Rightarrow> int \<Rightarrow> 's \<Rightarrow> (extension_ability_info option \<times> 's) option" where
  "Proxy_QueryExtensionAbilityInfoByUri c uri userId s =
     (if uri = [] then Some (None, s)
      else with_data c [IString uri, IInt32 userId] (None, s)
        (\<lambda>data. GetParcelableInfo c (ExtensionAbilityInfo_ReadFromParcel (px_json c)) QUERY_EXTENSION_ABILITY_INFO_BY_URI data s))"

definition Proxy_ImplicitQueryInfoByPriority ::
  "'s bundle_mgr_proxy \<Rightarrow> want \<Rightarrow> int \<Rightarrow> int \<Rightarrow> 's \<Rightarrow> ((ability_info \<times> extension_ability_info) option \<times> 's) option" where
  "Proxy_ImplicitQueryInfoByPriority c want flags userId s =
     with_data c (Want_Marshalling want @ [IInt32 flags, IInt32 userId]) (None, s)
        (\<lambda>data. get_if_true c
          (ReadParcelable (AbilityInfo_ReadFromParcel (px_json c)) (\<lambda>abilityInfo p.
             case abilityInfo of None \<Rightarrow> Some None
             | Some abilityInfo \<Rightarrow> ReadParcelable (ExtensionAbilityInfo_ReadFromParcel (px_json c))
                 (\<lambda>extensionInfo p. Some (map_option (Pair abilityInfo) extensionInfo)) p))
          IMPLICIT_QUERY_INFO_BY_PRIORITY data s)"

definition Proxy_GetSandboxBundleInfo ::
  "'s bundle_mgr_proxy \<Rightarrow> string \<Rightarrow> int \<Rightarrow> int \<Rightarrow> 's \<Rightarrow> ((int \<times> bundle_info option) \<times> 's) option" where
  "Proxy_GetSandboxBundleInfo c bundleName appIndex userId s =
     (if bundleName = [] \<or> appIndex \<le> 0 then Some ((code_SANDBOX_PARAM_ERROR, None), s)
      else with_data c [IString bundleName, IInt32 appIndex, IInt32 userId] ((code_SANDBOX_WRITE_PARCEL_ERROR, None), s)
        (\<lambda>data. GetParcelableInfoWithErrCode c (BundleInfo_ReadFromParcel (px_json c)) GET_SANDBOX_APP_BUNDLE_INFO data s))"

definition Proxy_GetAllDependentModuleNames ::
  "'s bundle_mgr_proxy \<Rightarrow> string \<Rightarrow> string \<Rightarrow> 's \<Rightarrow> (string list option \<times> 's) option" where
  "Proxy_GetAllDependentModuleNames c bundleName moduleName s =
     (if bundleName = [] \<or> moduleName = [] then Some (None, s)
      else with_data c [IString bundleName, IString moduleName] (None, s)
        (\<lambda>data. get_if_true c (ReadStringVector (\<lambda>v p. Some v)) GET_ALL_DEPENDENT_MODULE_NAMES data s))"

end
