(* ===== verification/Ipc_Link.thy ===== *)
theory Ipc_Link
  imports Ipc_Proxy
begin

text \<open>
  A proxy whose remote object is the host: what a request does, and what comes back for each kind of reply,
  the shared memory included.
\<close>

section \<open>Shared memory\<close>

lemma length_nat_to_string: "n < 10 ^ Suc k \<Longrightarrow> length (nat_to_string n) \<le> Suc k"
proof (induction k arbitrary: n)
  case 0
  then show ?case by (simp add: nat_to_string.simps [of n])
next
  case (Suc k)
  then have "n div 10 < 10 ^ Suc k" by (simp add: less_mult_imp_div_less mult.commute)
  then show ?case using Suc.IH [of "n div 10"] by (cases "n < 10") (simp_all add: nat_to_string.simps [of n])
qed

lemma is_digit: "ch \<in> digit_char ` {..<10} \<Longrightarrow> CHR ''0'' \<le> ch \<and> ch \<le> CHR ''9''"
  by (auto simp: less_eq_char_def)

lemma digits_nat_to_string: "ch \<in> set (nat_to_string n) \<Longrightarrow> CHR ''0'' \<le> ch \<and> ch \<le> CHR ''9''"
  using set_nat_to_string is_digit by blast

lemma c_str_append_NUL: "CHR 0x00 \<notin> set s \<Longrightarrow> c_str (s @ CHR 0x00 # t) = s"
  by (induction s) (auto simp: c_str_def)

lemma c_str_same: "CHR 0x00 \<notin> set s \<Longrightarrow> c_str s = s"
  unfolding c_str_def by (rule takeWhile_eq_all_conv [THEN iffD2]) blast

lemma NUL_notin_nat_to_string: "CHR 0x00 \<notin> set (nat_to_string n)"
  using digits_nat_to_string [of "CHR 0x00" n] by (auto simp: less_eq_char_def)

lemma atoi_to_string: "atoi (nat_to_string n) = int n"
proof -
  obtain c u where cu: "nat_to_string n = c # u" by (cases "nat_to_string n") simp_all
  then have c: "CHR ''0'' \<le> c" "c \<le> CHR ''9''" using digits_nat_to_string [of c n] by simp_all
  then have "c \<noteq> CHR '' ''" "\<not> (CHR 0x09 \<le> c \<and> c \<le> CHR 0x0D)" "c \<noteq> CHR ''-''" "c \<noteq> CHR ''+''"
    by (auto simp: less_eq_char_def)
  moreover have "takeWhile (\<lambda>c. CHR ''0'' \<le> c \<and> c \<le> CHR ''9'') (c # u) = c # u"
    using digits_nat_to_string [of _ n] by (simp add: takeWhile_eq_all_conv cu)
  ultimately have "atoi (c # u) = int (digits_value (c # u))" by (auto simp: atoi_def Let_def)
  then show ?thesis using digits_value_nat_to_string [of n] by (simp add: cu)
qed

text \<open>One element: the length field and the text.\<close>

definition ashmem_item :: "(int \<Rightarrow> string) \<Rightarrow> string \<Rightarrow> string" where
  "ashmem_item after s = length_field after (int (length s)) @ s"

text \<open>What can be carried: texts without NUL that are not empty, less than \<open>2 ^ 31\<close> bytes in all.\<close>

definition ashmem_total :: "string list \<Rightarrow> nat" where
  "ashmem_total strs = sum_list (map (\<lambda>s. ASHMEM_LEN + length s) strs)"

definition carriable :: "(int \<Rightarrow> string) \<Rightarrow> string list \<Rightarrow> bool" where
  "carriable after strs \<longleftrightarrow>
     (\<forall>s\<in>set strs. s \<noteq> [] \<and> CHR 0x00 \<notin> set s) \<and> ashmem_total strs < 2 ^ 31 \<and>
     (\<forall>s\<in>set strs. ASHMEM_LEN \<le> length (after (int (length s))))"

lemma carriable_Cons:
  "carriable after (s # strs) \<longleftrightarrow>
     s \<noteq> [] \<and> CHR 0x00 \<notin> set s \<and> ASHMEM_LEN \<le> length (after (int (length s))) \<and>
     ASHMEM_LEN + length s + ashmem_total strs < 2 ^ 31 \<and> carriable after strs"
  by (auto simp: carriable_def ashmem_total_def)

lemma length_length_field: "ASHMEM_LEN \<le> length (after n) \<Longrightarrow> length (length_field after n) = ASHMEM_LEN"
  by (simp add: length_field_def)

lemma to_int32_id: "n < 2 ^ 31 \<Longrightarrow> to_int32 n = int n"
  by (simp add: to_int32_def signed_take_bit_int_eq_self)

lemma WriteToAshmem_ok:
  assumes "offset + length bytes \<le> length mem"
  shows "WriteToAshmem bytes offset mem = Some (take offset mem @ bytes @ drop (offset + length bytes) mem)"
  using assms by (simp add: WriteToAshmem_def)

lemma write_infos_ok:
  assumes "carriable after strs" "offset + ashmem_total strs \<le> length mem"
  shows "write_infos after strs offset mem =
      Some (take offset mem @ concat (map (ashmem_item after) strs) @ drop (offset + ashmem_total strs) mem)"
  using assms
proof (induction strs arbitrary: offset mem)
  case Nil
  then show ?case by (simp add: ashmem_total_def)
next
  case (Cons s strs)
  define f where "f = length_field after (int (length s))"
  define mem1 where "mem1 = take offset mem @ f @ drop (offset + ASHMEM_LEN) mem"
  define mem2 where "mem2 = take offset mem @ f @ s @ drop (offset + ASHMEM_LEN + length s) mem"
  have s: "CHR 0x00 \<notin> set s" "length s < 2 ^ 31" "length f = ASHMEM_LEN" and rest: "carriable after strs"
    using Cons.prems by (auto simp: carriable_Cons f_def length_length_field)
  have room: "offset + ASHMEM_LEN + length s + ashmem_total strs \<le> length mem"
    using Cons.prems by (simp add: ashmem_total_def)
  have len: "to_int32 (length (c_str s)) = int (length s)" using s by (simp add: c_str_same to_int32_id)
  have "WriteToAshmem f offset mem = Some mem1" using room s by (simp add: WriteToAshmem_ok mem1_def)
  moreover have "WriteToAshmem s (offset + ASHMEM_LEN) mem1 = Some mem2"
    using room s by (simp add: WriteToAshmem_ok mem1_def mem2_def add.commute)
  moreover have "write_infos after strs (offset + ASHMEM_LEN + length s) mem2 =
      Some (take (offset + ASHMEM_LEN + length s) mem2 @ concat (map (ashmem_item after) strs) @
        drop (offset + ASHMEM_LEN + length s + ashmem_total strs) mem2)"
    using room s rest by (intro Cons.IH) (simp_all add: mem2_def)
  moreover have "take (offset + ASHMEM_LEN + length s) mem2 = take offset mem @ f @ s"
    using room s by (simp add: mem2_def)
  moreover have "drop (offset + ASHMEM_LEN + length s + ashmem_total strs) mem2 =
      drop (offset + ASHMEM_LEN + length s + ashmem_total strs) mem"
    using room s by (simp add: mem2_def ac_simps)
  ultimately show ?case
    by (simp add: len Let_def f_def [symmetric] ashmem_item_def [of after s] ashmem_total_def ac_simps)
qed

lemma ParseStr_there:
  assumes "drop offset buf = t @ rest" "c_str (take (nat len) (t @ rest)) = str" "0 < len"
    and "length str = nat len \<or> length str < length t"
  shows "ParseStr buf len (int offset) = Some (Some str)"
proof -
  have "length buf - offset = length t + length rest" using assms(1) by (metis length_append length_drop)
  moreover have "length str \<le> length (take (nat len) (t @ rest))"
    unfolding assms(2) [symmetric] c_str_def by (rule length_takeWhile_le)
  ultimately have "\<not> (length str < nat len \<and> length buf \<le> offset + length str)"
    using assms(4) by auto
  then show ?thesis using assms(1-3) by (simp add: ParseStr_def Let_def)
qed

lemma ParseStr_length_field:
  assumes "drop offset buf = length_field after (int n) @ rest" "n < 2 ^ 31" "ASHMEM_LEN \<le> length (after (int n))"
  shows "ParseStr buf (int ASHMEM_LEN) (int offset) = Some (Some (nat_to_string n))"
proof (rule ParseStr_there [OF assms(1)])
  have "(n::nat) < 10 ^ Suc 9" using assms(2) by simp
  from length_nat_to_string [OF this] have "length (nat_to_string n) \<le> 10" by simp
  then have lf: "length_field after (int n) = nat_to_string n @ CHR 0x00 # take (15 - length (nat_to_string n)) (after (int n))"
    by (simp add: length_field_def ASHMEM_LEN_def to_string_def take_Cons' diff_diff_eq)
  have len: "length (length_field after (int n)) = ASHMEM_LEN" using assms(3) by (rule length_length_field)
  then have "take (nat (int ASHMEM_LEN)) (length_field after (int n) @ rest) = length_field after (int n)" by simp
  then show "c_str (take (nat (int ASHMEM_LEN)) (length_field after (int n) @ rest)) = nat_to_string n"
    using c_str_append_NUL [OF NUL_notin_nat_to_string] by (simp add: lf)
  show "length (nat_to_string n) = nat (int ASHMEM_LEN) \<or> length (nat_to_string n) < length (length_field after (int n))"
    using \<open>length (nat_to_string n) \<le> 10\<close> len by (simp add: ASHMEM_LEN_def)
qed (simp add: ASHMEM_LEN_def)

lemma read_infos_ok:
  assumes "carriable after (map (\<lambda>v. jc_dump jc (enc v)) vs)" "length buf = offset + ashmem_total (map (\<lambda>v. jc_dump jc (enc v)) vs)"
    and "drop offset buf = concat (map (ashmem_item after) (map (\<lambda>v. jc_dump jc (enc v)) vs))"
    and "\<And>v. v \<in> set vs \<Longrightarrow> readable jc (enc v) \<and> get (enc v) pr_OK = Some (kept v, pr_OK)"
  shows "read_infos jc get (length vs) buf (int offset) acc = Some (Some (acc @ map kept vs))"
  using assms
proof (induction vs arbitrary: offset acc)
  case Nil
  then show ?case by simp
next
  case (Cons v vs)
  define s where "s = jc_dump jc (enc v)"
  define rest where "rest = concat (map (ashmem_item after) (map (\<lambda>v. jc_dump jc (enc v)) vs))"
  have s: "s \<noteq> []" "CHR 0x00 \<notin> set s" "length s < 2 ^ 31" "ASHMEM_LEN \<le> length (after (int (length s)))"
    and vs: "carriable after (map (\<lambda>v. jc_dump jc (enc v)) vs)"
    using Cons.prems(1) by (auto simp: carriable_Cons s_def [symmetric])
  have f: "length (length_field after (int (length s))) = ASHMEM_LEN" using s by (simp add: length_length_field)
  have at0: "drop offset buf = length_field after (int (length s)) @ s @ rest"
    using Cons.prems(3) by (simp add: ashmem_item_def [of after s] rest_def flip: s_def)
  have at1: "drop (offset + ASHMEM_LEN) buf = s @ rest"
    using at0 f by (metis add.commute append_eq_conv_conj drop_drop)
  have at2: "drop (offset + ASHMEM_LEN + length s) buf = rest"
    using at1 by (metis add.commute append_eq_conv_conj drop_drop)
  have "ParseStr buf (int (length s)) (int (offset + ASHMEM_LEN)) = Some (Some s)"
    using s by (intro ParseStr_there [OF at1]) (simp_all add: c_str_same)
  moreover have "ParseInfoFromJsonStr jc get s = Some (Some (kept v))"
    using Cons.prems(4) [of v] s by (simp add: ParseInfoFromJsonStr_def c_str_same s_def readable_def)
  moreover have "read_infos jc get (length vs) buf (int (offset + ASHMEM_LEN + length s)) (acc @ [kept v]) =
      Some (Some ((acc @ [kept v]) @ map kept vs))"
    using Cons.prems(2,4) at2 vs by (intro Cons.IH) (simp_all add: rest_def s_def ashmem_total_def)
  ultimately show ?case
    using ParseStr_length_field [OF at0 s(3,4)] by (simp add: Let_def atoi_to_string add.assoc)
qed

lemma signed_sum: "0 \<le> n \<Longrightarrow> n < 2 ^ 31 \<Longrightarrow> signed_take_bit 31 (n::int) = n"
  by (simp add: signed_take_bit_int_eq_self)

lemma ashmem_size_ok:
  assumes "carriable after strs"
  shows "ashmem_size strs = int (ashmem_total strs)"
proof -
  have "foldl (\<lambda>n str. signed_take_bit 31 (signed_take_bit 31 (n + int ASHMEM_LEN) + int (length (c_str str)))) (int m) strs =
      int (m + ashmem_total strs)" if "carriable after strs" "m + ashmem_total strs < 2 ^ 31" for m
    using that
  proof (induction strs arbitrary: m)
    case Nil
    then show ?case by (simp add: ashmem_total_def)
  next
    case (Cons s strs)
    then have "m + ASHMEM_LEN + length s + ashmem_total strs < 2 ^ 31" "CHR 0x00 \<notin> set s" "carriable after strs"
      by (auto simp: ashmem_total_def carriable_Cons)
    then show ?case
      using Cons.IH [of "m + ASHMEM_LEN + length s"]
      by (simp add: signed_sum c_str_same ashmem_total_def ac_simps flip: of_nat_add)
  qed
  from this [of 0] assms show ?thesis by (simp add: ashmem_size_def carriable_def)
qed

lemma ashmem_of_ok:
  assumes "carriable (ho_after h) strs" "strs \<noteq> []" "ho_ashmem h (int (ashmem_total strs))"
  shows "ashmem_of h strs = Some (concat (map (ashmem_item (ho_after h)) strs))"
proof -
  have "0 < ashmem_total strs" using assms(2) by (cases strs) (simp_all add: ashmem_total_def ASHMEM_LEN_def)
  then show ?thesis
    using assms write_infos_ok [of "ho_after h" strs 0 "replicate (ashmem_total strs) (CHR 0x00)"]
    by (simp add: ashmem_of_def ashmem_size_ok)
qed

lemma length_ashmem:
  "carriable after strs \<Longrightarrow> length (concat (map (ashmem_item after) strs)) = ashmem_total strs"
  by (induction strs) (auto simp: carriable_Cons ashmem_item_def ashmem_total_def length_length_field)

section \<open>Requests\<close>

definition request :: "'s bundle_mgr_host \<Rightarrow> nat \<Rightarrow> item list \<Rightarrow> 's \<Rightarrow> (int \<times> parcel \<times> 's) option" where
  "request h code xs s = (case map_of (funcMap h) code of None \<Rightarrow> None | Some f \<Rightarrow> f s xs)"

text \<open>An answer, if there is one, has a property.\<close>

definition answers_ok :: "('v \<Rightarrow> bool) \<Rightarrow> 'v option \<times> 's \<Rightarrow> bool" where
  "answers_ok ok a = (case fst a of None \<Rightarrow> True | Some v \<Rightarrow> ok v)"

lemma answers_any [simp]: "answers_ok (\<lambda>_. True) a"
  by (simp add: answers_ok_def split: option.split)

lemma apfst_same [simp]: "apfst (map_option (\<lambda>v. v)) a = a"
  by (cases a) (simp add: option.map_ident)

text \<open>A vector that the shared memory can carry; an empty vector is not written.\<close>

definition in_ashmem :: "'s bundle_mgr_host \<Rightarrow> ('v \<Rightarrow> bool) \<Rightarrow> ('v \<Rightarrow> json) \<Rightarrow> 'v list \<Rightarrow> bool" where
  "in_ashmem h ok enc vs \<longleftrightarrow>
     vs = [] \<or>
     (let strs = map (\<lambda>v. jc_dump (ho_json h) (enc v)) vs
      in short vs \<and> carriable (ho_after h) strs \<and> ho_ashmem h (int (ashmem_total strs)) \<and>
         (\<forall>v\<in>set vs. ok v \<and> readable (ho_json h) (enc v)))"

text \<open>What the proxy may expect of its remote object.\<close>

locale binder_link =
  fixes c :: "'s bundle_mgr_proxy" and h :: "'s bundle_mgr_host"
  assumes client_room: "px_room c q x" and host_room: "ho_room h cap q x"
    and remote: "px_remote c = Some (OnRemoteRequest h)"
    and codec: "px_json c = ho_json h"
begin

lemma sent: "with_data c xs fail k = k (IToken bundle_mgr_descriptor # xs)"
  by (simp add: with_data_def write_items_all client_room)

lemma replied: "reply h cap err ys s = Some (code_OK, ys, s)"
  by (simp add: reply_def write_items_all host_room)

lemma transact:
  "request h code xs s = Some (e, p, s1) \<Longrightarrow>
     SendTransactCmd c code (IToken bundle_mgr_descriptor # xs) s = Some (if e = code_OK then Some p else None, s1)"
  by (auto simp: SendTransactCmd_def remote OnRemoteRequest_def request_def split: option.splits)

lemma received:
  "request h code xs s = reply h cap err ys s1 \<Longrightarrow>
     receive c code (IToken bundle_mgr_descriptor # xs) fail s k = map_option (\<lambda>v. (v, s1)) (k ys)"
  by (simp add: receive_def transact replied)

lemma value_link:
  "request h code xs s = reply_value h item a \<Longrightarrow> k [item (fst a)] = Some (fst a) \<Longrightarrow>
     receive c code (IToken bundle_mgr_descriptor # xs) fail s k = Some a"
  unfolding reply_value_def by (simp add: received)

lemma bool_link:
  "request h code xs s = reply_bool h a \<Longrightarrow> get_bool c code (IToken bundle_mgr_descriptor # xs) s = Some a"
  unfolding reply_bool_def get_bool_def by (simp add: received)

lemma if_true_link:
  "request h code xs s = reply_info h items a \<Longrightarrow> (\<And>v. fst a = Some v \<Longrightarrow> rd (items v) = Some (Some (kept v))) \<Longrightarrow>
     get_if_true c rd code (IToken bundle_mgr_descriptor # xs) s = Some (apfst (map_option kept) a)"
  unfolding reply_info_def get_if_true_def by (cases a; cases "fst a") (simp_all add: received)

lemma info_link:
  assumes "request h code xs s = reply_info h items a" "parcelable items rd ok kept" "answers_ok ok a"
  shows "GetParcelableInfo c rd code (IToken bundle_mgr_descriptor # xs) s = Some (apfst (map_option kept) a)"
  unfolding GetParcelableInfo_def
  using assms(3)
  by (intro if_true_link [OF assms(1)]) (simp add: answers_ok_def parcelable.read_parcelable_end [OF assms(2)])

lemma read_parcelables_ok:
  assumes "parcelable items rd ok kept"
  shows "list_all ok vs \<Longrightarrow> read_parcelables rd (length vs) acc (concat (map items vs)) = Some (Some (acc @ map kept vs))"
  by (induction vs arbitrary: acc) (simp_all add: parcelable.read_parcelable [OF assms])

lemma infos_link:
  assumes "request h code xs s = reply_infos h items a" "parcelable items rd ok kept"
    and "answers_ok (\<lambda>vs. short vs \<and> list_all ok vs) a"
  shows "GetParcelableInfos c rd code (IToken bundle_mgr_descriptor # xs) infos s =
      Some (apfst (map_option (\<lambda>vs. infos @ map kept vs)) a)"
  unfolding GetParcelableInfos_def
  using assms(3)
  by (intro if_true_link [OF assms(1) [unfolded reply_infos_def]])
     (simp add: answers_ok_def parcelable_vector_def to_int32_small read_parcelables_ok [OF assms(2)])

lemma code_link:
  assumes "request h code xs s = reply_code h items err a" "parcelable items rd ok kept" "fst (fst a) = code_OK \<Longrightarrow> ok (snd (fst a))"
  shows "GetParcelableInfoWithErrCode c rd code (IToken bundle_mgr_descriptor # xs) s =
      Some (apfst (\<lambda>(res, info). (res, if res = code_OK then Some (kept info) else None)) a)"
proof -
  obtain res info s1 where a: "a = ((res, info), s1)" by (metis prod.exhaust)
  note rec = received [OF assms(1) [unfolded reply_code_def a fst_conv snd_conv Let_def prod.case]]
  show ?thesis
    using assms(3)
    by (cases "res = code_OK")
       (simp_all add: GetParcelableInfoWithErrCode_def rec a parcelable.read_parcelable_end [OF assms(2)])
qed

text \<open>The elements of a vector in shared memory. An empty vector is refused by the host.\<close>

lemma ashmem_link:
  assumes "request h code xs s = reply_ashmem h enc a"
    and "answers_ok (in_ashmem h ok enc) a" "\<And>v. ok v \<Longrightarrow> get (enc v) pr_OK = Some (kept v, pr_OK)"
  shows "GetParcelableInfosFromAshmem c get code (IToken bundle_mgr_descriptor # xs) infos s =
      Some (apfst (\<lambda>r. case r of Some (v # vs) \<Rightarrow> Some (infos @ map kept (v # vs)) | _ \<Rightarrow> None) a)"
proof (cases "fst a")
  case None
  then have "request h code xs s = reply h (Some (5 * 1024 * 1000)) code_PARCEL_ERROR [IBool False] (snd a)"
    using assms(1) by (simp add: reply_ashmem_def)
  note rec = received [OF this]
  show ?thesis using None by (cases a) (simp add: GetParcelableInfosFromAshmem_def get_if_true_def rec)
next
  case (Some vs)
  define strs where "strs = map (\<lambda>v. jc_dump (ho_json h) (enc v)) vs"
  show ?thesis
  proof (cases "vs = []")
    case True
    then have "request h code xs s = Some (code_PARCEL_ERROR, [], snd a)"
      using assms(1) Some by (simp add: reply_ashmem_def ashmem_of_def)
    from transact [OF this] show ?thesis
      using True Some by (cases a) (simp add: GetParcelableInfosFromAshmem_def get_if_true_def receive_def)
  next
    case False
    then have vs: "short vs" "carriable (ho_after h) strs" "ho_ashmem h (int (ashmem_total strs))"
      "\<forall>v\<in>set vs. readable (ho_json h) (enc v) \<and> get (enc v) pr_OK = Some (kept v, pr_OK)"
      using assms(2,3) Some by (auto simp: answers_ok_def in_ashmem_def strs_def Let_def)
    define mem where "mem = concat (map (ashmem_item (ho_after h)) strs)"
    have "ashmem_of h strs = Some mem"
      using ashmem_of_ok [OF vs(2) _ vs(3)] False by (simp add: mem_def strs_def)
    then have "request h code xs s = reply h (Some (5 * 1024 * 1000)) code_PARCEL_ERROR
        [IBool True, IInt32 (to_int32 (length vs)), IAshmem mem] (snd a)"
      using assms(1) Some by (simp add: reply_ashmem_def strs_def)
    note rec = received [OF this]
    have "read_infos (ho_json h) get (length vs) mem (int 0) infos = Some (Some (infos @ map kept vs))"
      using vs length_ashmem [OF vs(2)] unfolding strs_def mem_def by (intro read_infos_ok) auto
    then show ?thesis
      using vs(1) False Some
      by (cases a; cases vs) (simp_all add: GetParcelableInfosFromAshmem_def get_if_true_def rec to_int32_small codec)
  qed
qed

end

text \<open>The connection of a host whose parcels have room.\<close>

definition client_of :: "'s bundle_mgr_host \<Rightarrow> 's bundle_mgr_proxy" where
  "client_of h =
     \<lparr>px_remote = Some (OnRemoteRequest h), px_json = ho_json h, px_room = ho_room h None, px_iface_cast = ho_iface_cast h\<rparr>"

definition wide :: "'s bundle_mgr_host \<Rightarrow> 's bundle_mgr_host" where
  "wide h = h\<lparr>ho_room := (\<lambda>_ _ _. True)\<rparr>"

interpretation wide: binder_link "client_of (wide h)" "wide h" for h :: "'s bundle_mgr_host"
  by unfold_locales (simp_all add: client_of_def wide_def)

end
