(* ===== verification/Ipc_Correct.thy ===== *)
theory Ipc_Correct
  imports Ipc_Link
begin

text \<open>
  Calls through the proxy have the effect of calls of the service: the handler of each message decodes what
  the proxy wrote, and the proxy decodes the reply. The exceptions are stated at the end.
\<close>

section \<open>What may be sent\<close>

abbreviation ok_application where "ok_application jc \<equiv> sendable_json jc wf_ApplicationInfo ApplicationInfo_to_json"
abbreviation ok_bundle where "ok_bundle jc \<equiv> sendable_json jc wf_BundleInfo BundleInfo_to_json"
abbreviation ok_ability where "ok_ability jc \<equiv> sendable_json jc wf_AbilityInfo AbilityInfo_to_json"
abbreviation ok_hap where "ok_hap jc \<equiv> sendable_json jc wf_HapModuleInfo HapModuleInfo_to_json"
abbreviation ok_extension where "ok_extension jc \<equiv> sendable_json jc wf_ExtensionAbilityInfo ExtensionAbilityInfo_to_json"
abbreviation ok_pack where "ok_pack jc \<equiv> sendable_json jc (\<lambda>_. True) BundlePackInfo_to_json"
abbreviation ok_form :: "form_info \<Rightarrow> bool" where
  "ok_form \<equiv> \<lambda>x. short (fi_supportDimensions x) \<and> short (fi_landscapeLayouts x) \<and> short (fi_portraitLayouts x) \<and> short (fi_customizeDatas x)"
abbreviation ok_shortcut :: "shortcut_info \<Rightarrow> bool" where "ok_shortcut \<equiv> \<lambda>x. short (si_intents x)"
abbreviation ok_event :: "common_event_info \<Rightarrow> bool" where
  "ok_event \<equiv> \<lambda>x. short (ce_data x) \<and> short (ce_type x) \<and> short (ce_events x)"
abbreviation ok_distributed :: "json_text \<Rightarrow> distributed_bundle_info \<Rightarrow> bool" where
  "ok_distributed jc \<equiv> \<lambda>x. length (db_moduleInfos x) < 2 ^ 32 \<and>
     list_all (sendable_json jc (\<lambda>_. True) DistributedModuleInfo_to_json) (db_moduleInfos x)"
abbreviation ok_any :: "want \<Rightarrow> bool" where "ok_any \<equiv> \<lambda>_. True"
abbreviation all_ok :: "('v \<Rightarrow> bool) \<Rightarrow> 'v list \<Rightarrow> bool" where "all_ok ok \<equiv> \<lambda>vs. short vs \<and> list_all ok vs"

section \<open>Decoding of the requests\<close>

lemma read_ability_argument:
  "ok_ability jc v \<Longrightarrow> ReadParcelable (AbilityInfo_ReadFromParcel jc) k (AbilityInfo_Marshalling jc v @ p) = k (Some (kept_AbilityInfo v)) p"
  "ok_ability jc v \<Longrightarrow> ReadParcelable (AbilityInfo_ReadFromParcel jc) k (AbilityInfo_Marshalling jc v) = k (Some (kept_AbilityInfo v)) []"
  by (simp_all only: p_ability.read_parcelable p_ability.read_parcelable_end)

lemma read_want_argument:
  "ReadParcelable Want_ReadFromParcel k (Want_Marshalling want @ p) = k (Some want) p"
  "ReadParcelable Want_ReadFromParcel k (Want_Marshalling want) = k (Some want) []"
  by (simp_all add: p_want.read_parcelable p_want.read_parcelable_end)

lemmas decode = request_def funcMap_def checked_def read_ability_argument read_want_argument

lemma request_GetApplicationInfo:
  "request h GET_APPLICATION_INFO [IString name, IInt32 flag, IInt32 userId] s =
     reply_info h (ApplicationInfo_Marshalling (ho_json h)) (bm_GetApplicationInfo (ho_service h) name flag userId s)"
  by (simp add: decode HandleGetApplicationInfo_def)

lemma request_GetApplicationInfoWithIntFlags:
  "request h GET_APPLICATION_INFO_WITH_INT_FLAGS [IString name, IInt32 flags, IInt32 userId] s =
     reply_info h (ApplicationInfo_Marshalling (ho_json h))
         (bm_GetApplicationInfoWithIntFlags (ho_service h) name flags userId s)"
  by (simp add: decode HandleGetApplicationInfoWithIntFlags_def)

lemma request_GetApplicationInfos:
  "request h GET_APPLICATION_INFOS [IInt32 flag, IInt32 userId] s =
     reply_infos h (ApplicationInfo_Marshalling (ho_json h)) (bm_GetApplicationInfos (ho_service h) flag userId s)"
  by (simp add: decode HandleGetApplicationInfos_def)

lemma request_GetApplicationInfosWithIntFlags:
  "request h GET_APPLICATION_INFOS_WITH_INT_FLAGS [IInt32 flags, IInt32 userId] s =
     reply_infos h (ApplicationInfo_Marshalling (ho_json h))
         (bm_GetApplicationInfosWithIntFlags (ho_service h) flags userId s)"
  by (simp add: decode HandleGetApplicationInfosWithIntFlags_def)

lemma request_GetBundleInfo:
  "request h GET_BUNDLE_INFO [IString name, IInt32 flag, IInt32 userId] s =
     reply_info h (BundleInfo_Marshalling (ho_json h)) (bm_GetBundleInfo (ho_service h) name flag userId s)"
  by (simp add: decode HandleGetBundleInfo_def)

lemma request_GetBundleInfoWithIntFlags:
  "request h GET_BUNDLE_INFO_WITH_INT_FLAGS [IString name, IInt32 flags, IInt32 userId] s =
     reply_info h (BundleInfo_Marshalling (ho_json h)) (bm_GetBundleInfoWithIntFlags (ho_service h) name flags userId s)"
  by (simp add: decode HandleGetBundleInfoWithIntFlags_def)

lemma request_GetBundlePackInfo:
  "request h GET_BUNDLE_PACK_INFO [IString name, IInt32 flag] s =
     reply_info h (BundlePackInfo_Marshalling (ho_json h)) (bm_GetBundlePackInfo (ho_service h) name flag s)"
  by (simp add: decode HandleGetBundlePackInfo_def)

lemma request_GetBundlePackInfoWithIntFlags:
  "request h GET_BUNDLE_PACK_INFO_WITH_INT_FLAGS [IString name, IInt32 flags] s =
     reply_info h (BundlePackInfo_Marshalling (ho_json h)) (bm_GetBundlePackInfoWithIntFlags (ho_service h) name flags s)"
  by (simp add: decode HandleGetBundlePackInfoWithIntFlags_def)

lemma request_GetBundleInfos:
  "request h GET_BUNDLE_INFOS [IInt32 flag, IInt32 userId] s =
     reply_ashmem h BundleInfo_to_json (bm_GetBundleInfos (ho_service h) flag userId s)"
  by (simp add: decode HandleGetBundleInfos_def)

lemma request_GetBundleInfosWithIntFlags:
  "request h GET_BUNDLE_INFOS_WITH_INT_FLAGS [IInt32 flags, IInt32 userId] s =
     reply_ashmem h BundleInfo_to_json (bm_GetBundleInfosWithIntFlags (ho_service h) flags userId s)"
  by (simp add: decode HandleGetBundleInfosWithIntFlags_def)

lemma request_GetBundleNameForUid:
  "request h GET_BUNDLE_NAME_FOR_UID [IInt32 uid] s =
     reply_info h (\<lambda>name. [IString name]) (bm_GetBundleNameForUid (ho_service h) uid s)"
  by (simp add: decode HandleGetBundleNameForUid_def)

lemma request_GetBundlesForUid:
  "request h GET_BUNDLES_FOR_UID [IInt32 uid] s =
     reply_info h (\<lambda>v. [IStrings v]) (bm_GetBundlesForUid (ho_service h) uid s)"
  by (simp add: decode HandleGetBundlesForUid_def)

lemma request_GetNameForUid:
  "request h GET_NAME_FOR_UID [IInt32 uid] s =
     reply_info h (\<lambda>name. [IString name]) (bm_GetNameForUid (ho_service h) uid s)"
  by (simp add: decode HandleGetNameForUid_def)

lemma request_GetBundleGids:
  "request h GET_BUNDLE_GIDS [IString name] s =
     reply_info h (\<lambda>v. [IInts v]) (bm_GetBundleGids (ho_service h) name s)"
  by (simp add: decode HandleGetBundleGids_def)

lemma request_GetBundleGidsByUid:
  "request h GET_BUNDLE_GIDS_BY_UID [IString name, IInt32 uid] s =
     reply_info h (\<lambda>v. [IInts v]) (bm_GetBundleGidsByUid (ho_service h) name uid s)"
  by (simp add: decode HandleGetBundleGidsByUid_def)

lemma request_GetBundleInfosByMetaData:
  "request h GET_BUNDLE_INFOS_BY_METADATA [IString metaData] s =
     reply_infos h (BundleInfo_Marshalling (ho_json h)) (bm_GetBundleInfosByMetaData (ho_service h) metaData s)"
  by (simp add: decode HandleGetBundleInfosByMetaData_def)

lemma request_QueryAbilityInfo:
  "request h QUERY_ABILITY_INFO (Want_Marshalling want) s =
     reply_info h (AbilityInfo_Marshalling (ho_json h)) (bm_QueryAbilityInfo (ho_service h) want s)"
  by (simp add: decode HandleQueryAbilityInfo_def)

lemma request_QueryAbilityInfoMutiparam:
  "request h QUERY_ABILITY_INFO_MUTI_PARAM (Want_Marshalling want @ [IInt32 flags, IInt32 userId]) s =
     reply_info h (AbilityInfo_Marshalling (ho_json h)) (bm_QueryAbilityInfoMutiparam (ho_service h) want flags userId s)"
  by (simp add: decode HandleQueryAbilityInfoMutiparam_def)

lemma request_QueryAbilityInfos:
  "request h QUERY_ABILITY_INFOS (Want_Marshalling want) s =
     reply_infos h (AbilityInfo_Marshalling (ho_json h)) (bm_QueryAbilityInfos (ho_service h) want s)"
  by (simp add: decode HandleQueryAbilityInfos_def)

lemma request_QueryAbilityInfosMutiparam:
  "request h QUERY_ABILITY_INFOS_MUTI_PARAM (Want_Marshalling want @ [IInt32 flags, IInt32 userId]) s =
     reply_infos h (AbilityInfo_Marshalling (ho_json h)) (bm_QueryAbilityInfosMutiparam (ho_service h) want flags userId s)"
  by (simp add: decode HandleQueryAbilityInfosMutiparam_def)

lemma request_QueryAllAbilityInfos:
  "request h QUERY_ALL_ABILITY_INFOS (Want_Marshalling want @ [IInt32 userId]) s =
     reply_infos h (AbilityInfo_Marshalling (ho_json h)) (bm_QueryAllAbilityInfos (ho_service h) want userId s)"
  by (simp add: decode HandleQueryAllAbilityInfos_def)

lemma request_QueryAbilityInfosForClone:
  "request h QUERY_ABILITY_INFOS_FOR_CLONE (Want_Marshalling want) s =
     reply_infos h (AbilityInfo_Marshalling (ho_json h)) (bm_QueryAbilityInfosForClone (ho_service h) want s)"
  by (simp add: decode HandleQueryAbilityInfosForClone_def)

lemma request_QueryAbilityInfoByUri:
  "request h QUERY_ABILITY_INFO_BY_URI [IString abilityUri] s =
     reply_info h (AbilityInfo_Marshalling (ho_json h)) (bm_QueryAbilityInfoByUri (ho_service h) abilityUri s)"
  by (simp add: decode HandleQueryAbilityInfoByUri_def)

lemma request_QueryAbilityInfosByUri:
  "request h QUERY_ABILITY_INFOS_BY_URI [IString abilityUri] s =
     reply_infos h (AbilityInfo_Marshalling (ho_json h)) (bm_QueryAbilityInfosByUri (ho_service h) abilityUri s)"
  by (simp add: decode HandleQueryAbilityInfosByUri_def)

lemma request_QueryAbilityInfoByUriForUserId:
  "request h QUERY_ABILITY_INFO_BY_URI_FOR_USERID [IString abilityUri, IInt32 userId] s =
     reply_info h (AbilityInfo_Marshalling (ho_json h))
         (bm_QueryAbilityInfoByUriForUserId (ho_service h) abilityUri userId s)"
  by (simp add: decode HandleQueryAbilityInfoByUriForUserId_def)

lemma request_QueryKeepAliveBundleInfos:
  "request h QUERY_KEEPALIVE_BUNDLE_INFOS [] s =
     reply_infos h (BundleInfo_Marshalling (ho_json h)) (bm_QueryKeepAliveBundleInfos (ho_service h) s)"
  by (simp add: decode HandleQueryKeepAliveBundleInfos_def)

lemma request_GetAbilityLabel:
  "request h GET_ABILITY_LABEL [IString bundleName, IString abilityName] s =
     reply_value h IString (bm_GetAbilityLabel (ho_service h) bundleName abilityName s)"
  by (simp add: decode HandleGetAbilityLabel_def)

lemma request_GetAbilityLabelWithModuleName:
  "request h GET_ABILITY_LABEL_WITH_MODULE_NAME [IString bundleName, IString moduleName, IString abilityName] s =
     reply_value h IString (bm_GetAbilityLabelWithModuleName (ho_service h) bundleName moduleName abilityName s)"
  by (simp add: decode HandleGetAbilityLabelWithModuleName_def)

lemma request_CheckIsSystemAppByUid:
  "request h CHECK_IS_SYSTEM_APP_BY_UID [IInt32 uid] s =
     reply_bool h (bm_CheckIsSystemAppByUid (ho_service h) uid s)"
  by (simp add: decode HandleCheckIsSystemAppByUid_def)

lemma request_GetBundleArchiveInfo:
  "request h GET_BUNDLE_ARCHIVE_INFO [IString hapFilePath, IInt32 flag] s =
     reply_info h (BundleInfo_Marshalling (ho_json h)) (bm_GetBundleArchiveInfo (ho_service h) hapFilePath flag s)"
  by (simp add: decode HandleGetBundleArchiveInfo_def)

lemma request_GetBundleArchiveInfoWithIntFlags:
  "request h GET_BUNDLE_ARCHIVE_INFO_WITH_INT_FLAGS [IString hapFilePath, IInt32 flags] s =
     reply_info h (BundleInfo_Marshalling (ho_json h))
         (bm_GetBundleArchiveInfoWithIntFlags (ho_service h) hapFilePath flags s)"
  by (simp add: decode HandleGetBundleArchiveInfoWithIntFlags_def)

lemma request_GetHapModuleInfo:
  "ok_ability (ho_json h) abilityInfo \<Longrightarrow>
     request h GET_HAP_MODULE_INFO (AbilityInfo_Marshalling (ho_json h) abilityInfo) s =
     reply_info h (HapModuleInfo_Marshalling (ho_json h))
         (bm_GetHapModuleInfo (ho_service h) (kept_AbilityInfo abilityInfo) s)"
  by (simp add: decode HandleGetHapModuleInfo_def)

lemma request_GetHapModuleInfoWithUserId:
  "ok_ability (ho_json h) abilityInfo \<Longrightarrow>
     request h GET_HAP_MODULE_INFO_WITH_USERID (AbilityInfo_Marshalling (ho_json h) abilityInfo @ [IInt32 userId]) s =
     reply_info h (HapModuleInfo_Marshalling (ho_json h))
         (bm_GetHapModuleInfoWithUserId (ho_service h) (kept_AbilityInfo abilityInfo) userId s)"
  by (simp add: decode HandleGetHapModuleInfoWithUserId_def)

lemma request_GetLaunchWantForBundle:
  "request h GET_LAUNCH_WANT_FOR_BUNDLE [IString bundleName] s =
     reply_info h Want_Marshalling (bm_GetLaunchWantForBundle (ho_service h) bundleName s)"
  by (simp add: decode HandleGetLaunchWantForBundle_def)

lemma request_CheckPublicKeys:
  "request h CHECK_PUBLICKEYS [IString firstBundleName, IString secondBundleName] s =
     reply_value h IInt32 (bm_CheckPublicKeys (ho_service h) firstBundleName secondBundleName s)"
  by (simp add: decode HandleCheckPublicKeys_def)

lemma request_HasSystemCapability:
  "request h HAS_SYSTEM_CAPABILITY [IString capName] s =
     reply_bool h (bm_HasSystemCapability (ho_service h) capName s)"
  by (simp add: decode HandleHasSystemCapability_def)

lemma request_GetSystemAvailableCapabilities:
  "request h GET_SYSTEM_AVAILABLE_CAPABILITIES [] s =
     reply_info h (\<lambda>v. [IStrings v]) (bm_GetSystemAvailableCapabilities (ho_service h) s)"
  by (simp add: decode HandleGetSystemAvailableCapabilities_def)

lemma request_IsSafeMode:
  "request h IS_SAFE_MODE [] s =
     reply_bool h (bm_IsSafeMode (ho_service h) s)"
  by (simp add: decode HandleIsSafeMode_def)

lemma request_CleanBundleCacheFiles:
  "request h CLEAN_BUNDLE_CACHE_FILES [IString bundleName, IObject (Some object), IInt32 userId] s =
     reply_bool h (bm_CleanBundleCacheFiles (ho_service h) bundleName (ho_iface_cast h object) userId s)"
  by (simp add: decode HandleCleanBundleCacheFiles_def)

lemma request_CleanBundleDataFiles:
  "request h CLEAN_BUNDLE_DATA_FILES [IString bundleName, IInt32 userId] s =
     reply_bool h (bm_CleanBundleDataFiles (ho_service h) bundleName userId s)"
  by (simp add: decode HandleCleanBundleDataFiles_def)

lemma request_ClearBundleStatusCallback:
  "request h CLEAR_BUNDLE_STATUS_CALLBACK [IObject (Some object)] s =
     reply_bool h (bm_ClearBundleStatusCallback (ho_service h) (ho_iface_cast h object) s)"
  by (simp add: decode HandleClearBundleStatusCallback_def)

lemma request_UnregisterBundleStatusCallback:
  "request h UNREGISTER_BUNDLE_STATUS_CALLBACK [] s =
     reply_bool h (bm_UnregisterBundleStatusCallback (ho_service h) s)"
  by (simp add: decode HandleUnregisterBundleStatusCallback_def)

lemma request_DumpInfos:
  "request h DUMP_INFOS [IInt32 flag, IString bundleName, IInt32 userId] s =
     reply_info h (\<lambda>result. [IStrings (SplitString result)]) (bm_DumpInfos (ho_service h) flag bundleName userId s)"
  by (simp add: decode HandleDumpInfos_def)

lemma request_IsApplicationEnabled:
  "request h IS_APPLICATION_ENABLED [IString bundleName] s =
     reply_bool h (bm_IsApplicationEnabled (ho_service h) bundleName s)"
  by (simp add: decode HandleIsApplicationEnabled_def)

lemma request_SetApplicationEnabled:
  "request h SET_APPLICATION_ENABLED [IString bundleName, IBool isEnable, IInt32 userId] s =
     reply_bool h (bm_SetApplicationEnabled (ho_service h) bundleName isEnable userId s)"
  by (simp add: decode HandleSetApplicationEnabled_def)

lemma request_IsAbilityEnabled:
  "ok_ability (ho_json h) abilityInfo \<Longrightarrow>
     request h IS_ABILITY_ENABLED (AbilityInfo_Marshalling (ho_json h) abilityInfo) s =
     reply_bool h (bm_IsAbilityEnabled (ho_service h) (kept_AbilityInfo abilityInfo) s)"
  by (simp add: decode HandleIsAbilityEnabled_def)

lemma request_SetAbilityEnabled:
  "ok_ability (ho_json h) abilityInfo \<Longrightarrow>
     request h SET_ABILITY_ENABLED (AbilityInfo_Marshalling (ho_json h) abilityInfo @ [IBool isEnabled, IInt32 userId]) s =
     reply_bool h (bm_SetAbilityEnabled (ho_service h) (kept_AbilityInfo abilityInfo) isEnabled userId s)"
  by (simp add: decode HandleSetAbilityEnabled_def)

lemma request_GetAbilityInfo:
  "request h GET_ABILITY_INFO [IString bundleName, IString abilityName] s =
     reply_info h (AbilityInfo_Marshalling (ho_json h)) (bm_GetAbilityInfo (ho_service h) bundleName abilityName s)"
  by (simp add: decode HandleGetAbilityInfo_def)

lemma request_GetAbilityInfoWithModuleName:
  "request h GET_ABILITY_INFO_WITH_MODULE_NAME [IString bundleName, IString moduleName, IString abilityName] s =
     reply_info h (AbilityInfo_Marshalling (ho_json h))
         (bm_GetAbilityInfoWithModuleName (ho_service h) bundleName moduleName abilityName s)"
  by (simp add: decode HandleGetAbilityInfoWithModuleName_def)

lemma request_GetAbilityPixelMapIcon:
  "request h GET_ABILITY_PIXELMAP_ICON [IString bundleName, IString abilityName] s =
     reply_object h IPixelMap True code_PARCEL_ERROR (bm_GetAbilityPixelMapIcon (ho_service h) bundleName abilityName s)"
  by (simp add: decode HandleGetAbilityPixelMapIcon_def)

lemma request_GetAbilityPixelMapIconWithModuleName:
  "request h GET_ABILITY_PIXELMAP_ICON_WITH_MODULE_NAME [IString bundleName, IString moduleName, IString abilityName] s =
     reply_object h IPixelMap True code_PARCEL_ERROR
         (bm_GetAbilityPixelMapIconWithModuleName (ho_service h) bundleName moduleName abilityName s)"
  by (simp add: decode HandleGetAbilityPixelMapIconWithModuleName_def)

lemma request_GetBundleInstaller:
  "request h GET_BUNDLE_INSTALLER [] s =
     reply_object h (\<lambda>x. IObject (Some x)) False code_HOST_INSTALLER_FAILED (bm_GetBundleInstaller (ho_service h) s)"
  by (simp add: decode HandleGetBundleInstaller_def)

lemma request_GetBundleUserMgr:
  "request h GET_BUNDLE_USER_MGR [] s =
     reply_object h (\<lambda>x. IObject (Some x)) False code_HOST_INSTALLER_FAILED (bm_GetBundleUserMgr (ho_service h) s)"
  by (simp add: decode HandleGetBundleUserMgr_def)

lemma request_GetAllFormsInfo:
  "request h GET_ALL_FORMS_INFO [] s =
     reply_infos h FormInfo_Marshalling (bm_GetAllFormsInfo (ho_service h) s)"
  by (simp add: decode HandleGetAllFormsInfo_def)

lemma request_GetFormsInfoByApp:
  "request h GET_FORMS_INFO_BY_APP [IString bundlename] s =
     reply_infos h FormInfo_Marshalling (bm_GetFormsInfoByApp (ho_service h) bundlename s)"
  by (simp add: decode HandleGetFormsInfoByApp_def)

lemma request_GetFormsInfoByModule:
  "request h GET_FORMS_INFO_BY_MODULE [IString bundlename, IString modulename] s =
     reply_infos h FormInfo_Marshalling (bm_GetFormsInfoByModule (ho_service h) bundlename modulename s)"
  by (simp add: decode HandleGetFormsInfoByModule_def)

lemma request_GetShortcutInfos:
  "request h GET_SHORTCUT_INFO [IString bundlename] s =
     reply_infos h ShortcutInfo_Marshalling (bm_GetShortcutInfos (ho_service h) bundlename s)"
  by (simp add: decode HandleGetShortcutInfos_def)

lemma request_GetAllCommonEventInfo:
  "request h GET_ALL_COMMON_EVENT_INFO [IString eventKey] s =
     reply_infos h CommonEventInfo_Marshalling (bm_GetAllCommonEventInfo (ho_service h) eventKey s)"
  by (simp add: decode HandleGetAllCommonEventInfo_def)

lemma request_CheckBundleNameInAllowList:
  "request h CHECK_BUNDLE_NAME_IN_ALLOWLIST [IString bundleName] s =
     reply_bool h (bm_CheckBundleNameInAllowList (ho_service h) bundleName s)"
  by (simp add: decode HandleCheckBundleNameInAllowList_def)

lemma request_BundleClone:
  "request h BUNDLE_CLONE [IString bundleName] s =
     reply_bool h (bm_BundleClone (ho_service h) bundleName s)"
  by (simp add: decode HandleBundleClone_def)

lemma request_RemoveClonedBundle:
  "request h REMOVE_CLONED_BUNDLE [IString bundleName, IInt32 uid] s =
     reply_bool h (bm_RemoveClonedBundle (ho_service h) bundleName uid s)"
  by (simp add: decode HandleRemoveClonedBundle_def)

lemma request_GetDistributedBundleInfo:
  "request h GET_DISTRIBUTE_BUNDLE_INFO [IString networkId, IString bundleName] s =
     reply_info h (DistributedBundleInfo_Marshalling (ho_json h))
         (bm_GetDistributedBundleInfo (ho_service h) networkId bundleName s)"
  by (simp add: decode HandleGetDistributedBundleInfo_def)

lemma request_GetAppPrivilegeLevel:
  "request h GET_APPLICATION_PRIVILEGE_LEVEL [IString bundleName, IInt32 userId] s =
     reply_value h IString (bm_GetAppPrivilegeLevel (ho_service h) bundleName userId s)"
  by (simp add: decode HandleGetAppPrivilegeLevel_def)

lemma request_QueryExtAbilityInfosWithoutType:
  "request h QUERY_EXTENSION_INFO_WITHOUT_TYPE (Want_Marshalling want @ [IInt32 flag, IInt32 userId]) s =
     reply_infos h (ExtensionAbilityInfo_Marshalling (ho_json h))
         (bm_QueryExtAbilityInfosWithoutType (ho_service h) want flag userId s)"
  by (simp add: decode HandleQueryExtAbilityInfosWithoutType_def)

lemma request_QueryExtAbilityInfos:
  "request h QUERY_EXTENSION_INFO (Want_Marshalling want @ [IInt32 type, IInt32 flag, IInt32 userId]) s =
     reply_infos h (ExtensionAbilityInfo_Marshalling (ho_json h))
         (bm_QueryExtAbilityInfos (ho_service h) want type flag userId s)"
  by (simp add: decode HandleQueryExtAbilityInfos_def)

lemma request_QueryExtAbilityInfosByType:
  "request h QUERY_EXTENSION_INFO_BY_TYPE [IInt32 type, IInt32 userId] s =
     reply_infos h (ExtensionAbilityInfo_Marshalling (ho_json h))
         (bm_QueryExtAbilityInfosByType (ho_service h) type userId s)"
  by (simp add: decode HandleQueryExtAbilityInfosByType_def)

lemma request_VerifyCallingPermission:
  "request h VERIFY_CALLING_PERMISSION [IString permission] s =
     reply_bool h (bm_VerifyCallingPermission (ho_service h) permission s)"
  by (simp add: decode HandleVerifyCallingPermission_def)

lemma request_GetAccessibleAppCodePaths:
  "request h GET_ACCESSIBLE_APP_CODE_PATH [IInt32 userId] s =
     reply_paths h (bm_GetAccessibleAppCodePaths (ho_service h) userId s)"
  by (simp add: decode HandleGetAccessibleAppCodePaths_def)

lemma request_QueryExtensionAbilityInfoByUri:
  "request h QUERY_EXTENSION_ABILITY_INFO_BY_URI [IString uri, IInt32 userId] s =
     reply_info h (ExtensionAbilityInfo_Marshalling (ho_json h))
         (bm_QueryExtensionAbilityInfoByUri (ho_service h) uri userId s)"
  by (simp add: decode HandleQueryExtensionAbilityInfoByUri_def)

lemma request_GetAppIdByBundleName:
  "request h GET_APPID_BY_BUNDLE_NAME [IString bundleName, IInt32 userId] s =
     reply_value h IString (bm_GetAppIdByBundleName (ho_service h) bundleName userId s)"
  by (simp add: decode HandleGetAppIdByBundleName_def)

lemma request_GetAppType:
  "request h GET_APP_TYPE [IString bundleName] s =
     reply_value h IString (bm_GetAppType (ho_service h) bundleName s)"
  by (simp add: decode HandleGetAppType_def)

lemma request_GetUidByBundleName:
  "request h GET_UID_BY_BUNDLE_NAME [IString bundleName, IInt32 userId] s =
     reply_value h IInt32 (bm_GetUidByBundleName (ho_service h) bundleName userId s)"
  by (simp add: decode HandleGetUidByBundleName_def)

lemma request_IsModuleRemovable:
  "request h IS_MODULE_REMOVABLE [IString bundleName, IString moduleName] s =
     reply_bool h (bm_IsModuleRemovable (ho_service h) bundleName moduleName s)"
  by (simp add: decode HandleIsModuleRemovable_def)

lemma request_SetModuleRemovable:
  "request h SET_MODULE_REMOVABLE [IString bundleName, IString moduleName, IBool isEnable] s =
     reply_bool h (bm_SetModuleRemovable (ho_service h) bundleName moduleName isEnable s)"
  by (simp add: decode HandleSetModuleRemovable_def)

lemma request_GetModuleUpgradeFlag:
  "request h IS_MODULE_NEED_UPDATE [IString bundleName, IString moduleName] s =
     reply_bool h (bm_GetModuleUpgradeFlag (ho_service h) bundleName moduleName s)"
  by (simp add: decode HandleGetModuleUpgradeFlag_def)

lemma request_SetModuleUpgradeFlag:
  "request h SET_MODULE_NEED_UPDATE [IString bundleName, IString moduleName, IInt32 upgradeFlag] s =
     reply_bool h (bm_SetModuleUpgradeFlag (ho_service h) bundleName moduleName upgradeFlag s)"
  by (simp add: decode HandleSetModuleUpgradeFlag_def)

lemma request_ImplicitQueryInfoByPriority:
  "request h IMPLICIT_QUERY_INFO_BY_PRIORITY (Want_Marshalling want @ [IInt32 flags, IInt32 userId]) s =
     reply_info h (\<lambda>(abilityInfo, extensionInfo). AbilityInfo_Marshalling (ho_json h) abilityInfo @ ExtensionAbilityInfo_Marshalling (ho_json h) extensionInfo)
         (bm_ImplicitQueryInfoByPriority (ho_service h) want flags userId s)"
  by (simp add: decode HandleImplicitQueryInfoByPriority_def)

lemma request_GetAllDependentModuleNames:
  "request h GET_ALL_DEPENDENT_MODULE_NAMES [IString bundleName, IString moduleName] s =
     reply_info h (\<lambda>v. [IStrings v]) (bm_GetAllDependentModuleNames (ho_service h) bundleName moduleName s)"
  by (simp add: decode HandleGetAllDependentModuleNames_def)

lemma request_GetSandboxBundleInfo:
  "request h GET_SANDBOX_APP_BUNDLE_INFO [IString bundleName, IInt32 appIndex, IInt32 userId] s =
     reply_code h (BundleInfo_Marshalling (ho_json h)) code_SANDBOX_WRITE_PARCEL_ERROR
         (bm_GetSandboxBundleInfo (ho_service h) bundleName appIndex userId s)"
  by (simp add: decode HandleGetSandboxBundleInfo_def)

lemma request_QueryAbilityInfoWithCallback:
  "request h QUERY_ABILITY_INFO_WITH_CALLBACK (Want_Marshalling want @ [IInt32 flags, IInt32 userId, IObject object]) s =
     reply_info h (AbilityInfo_Marshalling (ho_json h))
         (bm_QueryAbilityInfoWithCallback (ho_service h) want flags userId object s)"
  by (simp add: decode HandleQueryAbilityInfoWithCallback_def)

lemma request_UpgradeAtomicService:
  "request h UPGRADE_ATOMIC_SERVICE (Want_Marshalling want @ [IInt32 userId]) s =
     Some (code_OK, [], bm_UpgradeAtomicService (ho_service h) want userId s)"
  by (simp add: decode HandleUpgradeAtomicService_def)

lemma request_RegisterBundleStatusCallback:
  "ho_iface_cast h object = Some callback \<Longrightarrow> bundleName \<noteq> [] \<Longrightarrow>
     request h REGISTER_BUNDLE_STATUS_CALLBACK [IString bundleName, IObject (Some object)] s =
     reply_bool h (bm_RegisterBundleStatusCallback (ho_service h) bundleName callback s)"
  by (simp add: decode HandleRegisterBundleStatusCallback_def)

text \<open>The handler of \<open>GET_PERMISSION_DEF\<close> is the one of \<open>GET_ABILITY_LABEL\<close>.\<close>

lemma request_GET_PERMISSION_DEF:
  "request h GET_PERMISSION_DEF [IString permissionName] s =
     reply_value h IString (bm_GetAbilityLabel (ho_service h) permissionName [] s)"
  by (simp add: decode HandleGetAbilityLabel_def ReadString_def read_item_def)

section \<open>Calls\<close>

lemma concat_pieces:
  "k * n < length xs + k \<Longrightarrow> 0 < k \<Longrightarrow> concat (map (\<lambda>i. take k (drop (k * i) xs)) [0..<n]) = take (k * n) xs"
  by (induction n) (simp_all add: take_add [symmetric] add.commute)

lemma concat_SplitString: "concat (SplitString s) = s"
  using concat_pieces [of LIMIT_PARCEL_SIZE _ s]
  by (auto simp: SplitString_def LIMIT_PARCEL_SIZE_def Let_def)

context binder_link begin

lemma paths_link:
  "request h code xs s = reply_paths h a \<Longrightarrow>
     map_option (apfst (case_option [] id))
       (get_if_true c (ReadStringVector (\<lambda>v p. Some v)) code (IToken bundle_mgr_descriptor # xs) s) = Some a"
  unfolding reply_paths_def get_if_true_def by (cases a) (simp add: received)

lemma pixelmap_link:
  "request h code xs s = reply_object h IPixelMap True code_PARCEL_ERROR a \<Longrightarrow>
     get_if_true c (ReadPixelMap (\<lambda>info p. Some info)) code (IToken bundle_mgr_descriptor # xs) s = Some a"
  unfolding reply_object_def get_if_true_def
  by (cases a; cases "fst a") (simp_all add: received, simp add: receive_def transact)

lemma object_link:
  "request h code xs s = reply_object h (\<lambda>x. IObject (Some x)) False code_HOST_INSTALLER_FAILED a \<Longrightarrow>
     receive c code (IToken bundle_mgr_descriptor # xs) None s (ReadObject (\<lambda>ob p. Some (Option.bind ob cast))) =
     Some (apfst (\<lambda>x. Option.bind x cast) a)"
  unfolding reply_object_def
  by (cases a; cases "fst a") (simp_all add: received, simp add: receive_def transact)

lemma implicit_link:
  assumes "request h code xs s = reply_info h (\<lambda>(abilityInfo, extensionInfo).
      AbilityInfo_Marshalling (ho_json h) abilityInfo @ ExtensionAbilityInfo_Marshalling (ho_json h) extensionInfo) a"
    and "answers_ok (\<lambda>(v, x). ok_ability (ho_json h) v \<and> ok_extension (ho_json h) x) a"
  shows "get_if_true c
      (ReadParcelable (AbilityInfo_ReadFromParcel (ho_json h)) (\<lambda>abilityInfo p.
         case abilityInfo of None \<Rightarrow> Some None
         | Some abilityInfo \<Rightarrow> ReadParcelable (ExtensionAbilityInfo_ReadFromParcel (ho_json h))
             (\<lambda>extensionInfo p. Some (map_option (Pair abilityInfo) extensionInfo)) p))
      code (IToken bundle_mgr_descriptor # xs) s = Some (apfst (map_option (map_prod kept_AbilityInfo (\<lambda>x. x))) a)"
  using assms(2)
  by (intro if_true_link [OF assms(1)])
     (auto simp: answers_ok_def p_ability.read_parcelable p_extension.read_parcelable_end)

lemma GetApplicationInfo_link:
  "answers_ok (ok_application (ho_json h)) (bm_GetApplicationInfo (ho_service h) appName flag userId s) \<Longrightarrow>
     Proxy_GetApplicationInfo c appName flag userId s =
       Some (if appName = [] then (None, s) else bm_GetApplicationInfo (ho_service h) appName flag userId s)"
  by (simp add: Proxy_GetApplicationInfo_def sent codec info_link [OF request_GetApplicationInfo p_application.parcelable_axioms] del: One_nat_def)

lemma GetApplicationInfoWithIntFlags_link:
  "answers_ok (ok_application (ho_json h))
      (bm_GetApplicationInfoWithIntFlags (ho_service h) appName flags userId s) \<Longrightarrow>
     Proxy_GetApplicationInfoWithIntFlags c appName flags userId s =
       Some (if appName = [] then (None, s) else bm_GetApplicationInfoWithIntFlags (ho_service h) appName flags userId s)"
  by (simp add: Proxy_GetApplicationInfoWithIntFlags_def sent codec info_link [OF request_GetApplicationInfoWithIntFlags p_application.parcelable_axioms] del: One_nat_def)

lemma GetApplicationInfos_link:
  "answers_ok (all_ok (ok_application (ho_json h))) (bm_GetApplicationInfos (ho_service h) flag userId s) \<Longrightarrow>
     Proxy_GetApplicationInfos c flag userId infos s =
       Some (apfst (map_option (\<lambda>vs. infos @ vs)) (bm_GetApplicationInfos (ho_service h) flag userId s))"
  by (simp add: Proxy_GetApplicationInfos_def sent codec infos_link [OF request_GetApplicationInfos p_application.parcelable_axioms] del: One_nat_def)

lemma GetApplicationInfosWithIntFlags_link:
  "answers_ok (all_ok (ok_application (ho_json h)))
      (bm_GetApplicationInfosWithIntFlags (ho_service h) flags userId s) \<Longrightarrow>
     Proxy_GetApplicationInfosWithIntFlags c flags userId infos s =
       Some (apfst (map_option (\<lambda>vs. infos @ vs))
           (bm_GetApplicationInfosWithIntFlags (ho_service h) flags userId s))"
  by (simp add: Proxy_GetApplicationInfosWithIntFlags_def sent codec infos_link [OF request_GetApplicationInfosWithIntFlags p_application.parcelable_axioms] del: One_nat_def)

lemma GetBundleInfo_link:
  "answers_ok (ok_bundle (ho_json h)) (bm_GetBundleInfo (ho_service h) bundleName flag userId s) \<Longrightarrow>
     Proxy_GetBundleInfo c bundleName flag userId s =
       Some (if bundleName = [] then (None, s)
           else apfst (map_option kept_BundleInfo) (bm_GetBundleInfo (ho_service h) bundleName flag userId s))"
  by (simp add: Proxy_GetBundleInfo_def sent codec info_link [OF request_GetBundleInfo p_bundle.parcelable_axioms] del: One_nat_def)

lemma GetBundleInfoWithIntFlags_link:
  "answers_ok (ok_bundle (ho_json h)) (bm_GetBundleInfoWithIntFlags (ho_service h) bundleName flags userId s) \<Longrightarrow>
     Proxy_GetBundleInfoWithIntFlags c bundleName flags userId s =
       Some (if bundleName = [] then (None, s)
           else apfst (map_option kept_BundleInfo) (bm_GetBundleInfoWithIntFlags (ho_service h) bundleName flags userId s))"
  by (simp add: Proxy_GetBundleInfoWithIntFlags_def sent codec info_link [OF request_GetBundleInfoWithIntFlags p_bundle.parcelable_axioms] del: One_nat_def)

lemma GetBundlePackInfo_link:
  "answers_ok (ok_pack (ho_json h)) (bm_GetBundlePackInfo (ho_service h) bundleName flag s) \<Longrightarrow>
     Proxy_GetBundlePackInfo c bundleName flag s =
       Some (if bundleName = [] then (None, s)
           else apfst (map_option kept_BundlePackInfo) (bm_GetBundlePackInfo (ho_service h) bundleName flag s))"
  by (simp add: Proxy_GetBundlePackInfo_def sent codec info_link [OF request_GetBundlePackInfo p_pack.parcelable_axioms] del: One_nat_def)

lemma GetBundlePackInfoWithIntFlags_link:
  "answers_ok (ok_pack (ho_json h)) (bm_GetBundlePackInfoWithIntFlags (ho_service h) bundleName flags s) \<Longrightarrow>
     Proxy_GetBundlePackInfoWithIntFlags c bundleName flags s =
       Some (if bundleName = [] then (None, s)
           else apfst (map_option kept_BundlePackInfo) (bm_GetBundlePackInfoWithIntFlags (ho_service h) bundleName flags s))"
  by (simp add: Proxy_GetBundlePackInfoWithIntFlags_def sent codec info_link [OF request_GetBundlePackInfoWithIntFlags p_pack.parcelable_axioms] del: One_nat_def)

lemma GetBundleInfos_link:
  "answers_ok (in_ashmem h wf_BundleInfo BundleInfo_to_json)
      (bm_GetBundleInfos (ho_service h) flag userId s) \<Longrightarrow>
     Proxy_GetBundleInfos c flag userId infos s =
       Some (apfst (\<lambda>r. case r of Some (v # vs) \<Rightarrow> Some (infos @ map kept_BundleInfo (v # vs)) | _ \<Rightarrow> None)
           (bm_GetBundleInfos (ho_service h) flag userId s))"
  by (simp add: Proxy_GetBundleInfos_def sent codec ashmem_link [OF request_GetBundleInfos, where ok = wf_BundleInfo and kept = kept_BundleInfo] BundleInfo_reads del: One_nat_def)

lemma GetBundleInfosWithIntFlags_link:
  "answers_ok (in_ashmem h wf_BundleInfo BundleInfo_to_json)
      (bm_GetBundleInfosWithIntFlags (ho_service h) flags userId s) \<Longrightarrow>
     Proxy_GetBundleInfosWithIntFlags c flags userId infos s =
       Some (apfst (\<lambda>r. case r of Some (v # vs) \<Rightarrow> Some (infos @ map kept_BundleInfo (v # vs)) | _ \<Rightarrow> None)
           (bm_GetBundleInfosWithIntFlags (ho_service h) flags userId s))"
  by (simp add: Proxy_GetBundleInfosWithIntFlags_def sent codec ashmem_link [OF request_GetBundleInfosWithIntFlags, where ok = wf_BundleInfo and kept = kept_BundleInfo] BundleInfo_reads del: One_nat_def)

lemma GetBundleNameForUid_link:
  "Proxy_GetBundleNameForUid c uid s =
       Some (bm_GetBundleNameForUid (ho_service h) uid s)"
  by (simp add: Proxy_GetBundleNameForUid_def sent codec if_true_link [OF request_GetBundleNameForUid, where kept = "\<lambda>v. v"] del: One_nat_def)

lemma GetBundlesForUid_link:
  "Proxy_GetBundlesForUid c uid s =
       Some (bm_GetBundlesForUid (ho_service h) uid s)"
  by (simp add: Proxy_GetBundlesForUid_def sent codec if_true_link [OF request_GetBundlesForUid, where kept = "\<lambda>v. v"] del: One_nat_def)

lemma GetNameForUid_link:
  "Proxy_GetNameForUid c uid s =
       Some (bm_GetNameForUid (ho_service h) uid s)"
  by (simp add: Proxy_GetNameForUid_def sent codec if_true_link [OF request_GetNameForUid, where kept = "\<lambda>v. v"] del: One_nat_def)

lemma GetBundleGids_link:
  "Proxy_GetBundleGids c bundleName s =
       Some (bm_GetBundleGids (ho_service h) bundleName s)"
  by (simp add: Proxy_GetBundleGids_def sent codec if_true_link [OF request_GetBundleGids, where kept = "\<lambda>v. v"] del: One_nat_def)

lemma GetBundleGidsByUid_link:
  "Proxy_GetBundleGidsByUid c bundleName uid s =
       Some (bm_GetBundleGidsByUid (ho_service h) bundleName uid s)"
  by (simp add: Proxy_GetBundleGidsByUid_def sent codec if_true_link [OF request_GetBundleGidsByUid, where kept = "\<lambda>v. v"] del: One_nat_def)

lemma GetBundleInfosByMetaData_link:
  "answers_ok (all_ok (ok_bundle (ho_json h))) (bm_GetBundleInfosByMetaData (ho_service h) metaData s) \<Longrightarrow>
     Proxy_GetBundleInfosByMetaData c metaData infos s =
       Some (if metaData = [] then (None, s)
           else apfst (map_option (\<lambda>vs. infos @ map kept_BundleInfo vs)) (bm_GetBundleInfosByMetaData (ho_service h) metaData s))"
  by (simp add: Proxy_GetBundleInfosByMetaData_def sent codec infos_link [OF request_GetBundleInfosByMetaData p_bundle.parcelable_axioms] del: One_nat_def)

lemma QueryAbilityInfo_link:
  "answers_ok (ok_ability (ho_json h)) (bm_QueryAbilityInfo (ho_service h) want s) \<Longrightarrow>
     Proxy_QueryAbilityInfo c want s =
       Some (apfst (map_option kept_AbilityInfo) (bm_QueryAbilityInfo (ho_service h) want s))"
  by (simp add: Proxy_QueryAbilityInfo_def sent codec info_link [OF request_QueryAbilityInfo p_ability.parcelable_axioms] del: One_nat_def)

lemma QueryAbilityInfoMutiparam_link:
  "answers_ok (ok_ability (ho_json h)) (bm_QueryAbilityInfoMutiparam (ho_service h) want flags userId s) \<Longrightarrow>
     Proxy_QueryAbilityInfoMutiparam c want flags userId s =
       Some (apfst (map_option kept_AbilityInfo) (bm_QueryAbilityInfoMutiparam (ho_service h) want flags userId s))"
  by (simp add: Proxy_QueryAbilityInfoMutiparam_def sent codec info_link [OF request_QueryAbilityInfoMutiparam p_ability.parcelable_axioms] del: One_nat_def)

lemma QueryAbilityInfos_link:
  "answers_ok (all_ok (ok_ability (ho_json h))) (bm_QueryAbilityInfos (ho_service h) want s) \<Longrightarrow>
     Proxy_QueryAbilityInfos c want infos s =
       Some (apfst (map_option (\<lambda>vs. infos @ map kept_AbilityInfo vs)) (bm_QueryAbilityInfos (ho_service h) want s))"
  by (simp add: Proxy_QueryAbilityInfos_def sent codec infos_link [OF request_QueryAbilityInfos p_ability.parcelable_axioms] del: One_nat_def)

lemma QueryAbilityInfosMutiparam_link:
  "answers_ok (all_ok (ok_ability (ho_json h)))
      (bm_QueryAbilityInfosMutiparam (ho_service h) want flags userId s) \<Longrightarrow>
     Proxy_QueryAbilityInfosMutiparam c want flags userId infos s =
       Some (apfst (map_option (\<lambda>vs. infos @ map kept_AbilityInfo vs))
           (bm_QueryAbilityInfosMutiparam (ho_service h) want flags userId s))"
  by (simp add: Proxy_QueryAbilityInfosMutiparam_def sent codec infos_link [OF request_QueryAbilityInfosMutiparam p_ability.parcelable_axioms] del: One_nat_def)

lemma QueryAllAbilityInfos_link:
  "answers_ok (all_ok (ok_ability (ho_json h))) (bm_QueryAllAbilityInfos (ho_service h) want userId s) \<Longrightarrow>
     Proxy_QueryAllAbilityInfos c want userId infos s =
       Some (apfst (map_option (\<lambda>vs. infos @ map kept_AbilityInfo vs))
           (bm_QueryAllAbilityInfos (ho_service h) want userId s))"
  by (simp add: Proxy_QueryAllAbilityInfos_def sent codec infos_link [OF request_QueryAllAbilityInfos p_ability.parcelable_axioms] del: One_nat_def)

lemma QueryAbilityInfosForClone_link:
  "answers_ok (all_ok (ok_ability (ho_json h))) (bm_QueryAbilityInfosForClone (ho_service h) want s) \<Longrightarrow>
     Proxy_QueryAbilityInfosForClone c want infos s =
       Some (apfst (map_option (\<lambda>vs. infos @ map kept_AbilityInfo vs))
           (bm_QueryAbilityInfosForClone (ho_service h) want s))"
  by (simp add: Proxy_QueryAbilityInfosForClone_def sent codec infos_link [OF request_QueryAbilityInfosForClone p_ability.parcelable_axioms] del: One_nat_def)

lemma QueryAbilityInfoByUri_link:
  "answers_ok (ok_ability (ho_json h)) (bm_QueryAbilityInfoByUri (ho_service h) abilityUri s) \<Longrightarrow>
     Proxy_QueryAbilityInfoByUri c abilityUri s =
       Some (apfst (map_option kept_AbilityInfo) (bm_QueryAbilityInfoByUri (ho_service h) abilityUri s))"
  by (simp add: Proxy_QueryAbilityInfoByUri_def sent codec info_link [OF request_QueryAbilityInfoByUri p_ability.parcelable_axioms] del: One_nat_def)

lemma QueryAbilityInfosByUri_link:
  "answers_ok (all_ok (ok_ability (ho_json h))) (bm_QueryAbilityInfosByUri (ho_service h) abilityUri s) \<Longrightarrow>
     Proxy_QueryAbilityInfosByUri c abilityUri infos s =
       Some (apfst (map_option (\<lambda>vs. infos @ map kept_AbilityInfo vs))
           (bm_QueryAbilityInfosByUri (ho_service h) abilityUri s))"
  by (simp add: Proxy_QueryAbilityInfosByUri_def sent codec infos_link [OF request_QueryAbilityInfosByUri p_ability.parcelable_axioms] del: One_nat_def)

lemma QueryAbilityInfoByUriForUserId_link:
  "answers_ok (ok_ability (ho_json h)) (bm_QueryAbilityInfoByUriForUserId (ho_service h) abilityUri userId s) \<Longrightarrow>
     Proxy_QueryAbilityInfoByUriForUserId c abilityUri userId s =
       Some (apfst (map_option kept_AbilityInfo) (bm_QueryAbilityInfoByUriForUserId (ho_service h) abilityUri userId s))"
  by (simp add: Proxy_QueryAbilityInfoByUriForUserId_def sent codec info_link [OF request_QueryAbilityInfoByUriForUserId p_ability.parcelable_axioms] del: One_nat_def)

lemma QueryKeepAliveBundleInfos_link:
  "answers_ok (all_ok (ok_bundle (ho_json h))) (bm_QueryKeepAliveBundleInfos (ho_service h) s) \<Longrightarrow>
     Proxy_QueryKeepAliveBundleInfos c infos s =
       Some (apfst (map_option (\<lambda>vs. infos @ map kept_BundleInfo vs))
           (bm_QueryKeepAliveBundleInfos (ho_service h) s))"
  by (simp add: Proxy_QueryKeepAliveBundleInfos_def sent codec infos_link [OF request_QueryKeepAliveBundleInfos p_bundle.parcelable_axioms] del: One_nat_def)

lemma GetAbilityLabel_link:
  "Proxy_GetAbilityLabel c bundleName abilityName s =
       Some (if bundleName = [] \<or> abilityName = [] then ([], s)
           else bm_GetAbilityLabel (ho_service h) bundleName abilityName s)"
  by (simp add: Proxy_GetAbilityLabel_def sent codec value_link [OF request_GetAbilityLabel] del: One_nat_def)

lemma GetAbilityLabelWithModuleName_link:
  "Proxy_GetAbilityLabelWithModuleName c bundleName moduleName abilityName s =
       Some (if bundleName = [] \<or> moduleName = [] \<or> abilityName = [] then ([], s)
           else bm_GetAbilityLabelWithModuleName (ho_service h) bundleName moduleName abilityName s)"
  by (simp add: Proxy_GetAbilityLabelWithModuleName_def sent codec value_link [OF request_GetAbilityLabelWithModuleName] del: One_nat_def)

lemma CheckIsSystemAppByUid_link:
  "Proxy_CheckIsSystemAppByUid c uid s =
       Some (bm_CheckIsSystemAppByUid (ho_service h) uid s)"
  by (simp add: Proxy_CheckIsSystemAppByUid_def sent codec bool_link [OF request_CheckIsSystemAppByUid] del: One_nat_def)

lemma GetBundleArchiveInfo_link:
  "answers_ok (ok_bundle (ho_json h)) (bm_GetBundleArchiveInfo (ho_service h) hapFilePath flag s) \<Longrightarrow>
     Proxy_GetBundleArchiveInfo c hapFilePath flag s =
       Some (if hapFilePath = [] then (None, s)
           else apfst (map_option kept_BundleInfo) (bm_GetBundleArchiveInfo (ho_service h) hapFilePath flag s))"
  by (simp add: Proxy_GetBundleArchiveInfo_def sent codec info_link [OF request_GetBundleArchiveInfo p_bundle.parcelable_axioms] del: One_nat_def)

lemma GetBundleArchiveInfoWithIntFlags_link:
  "answers_ok (ok_bundle (ho_json h)) (bm_GetBundleArchiveInfoWithIntFlags (ho_service h) hapFilePath flags s) \<Longrightarrow>
     Proxy_GetBundleArchiveInfoWithIntFlags c hapFilePath flags s =
       Some (if hapFilePath = [] then (None, s)
           else apfst (map_option kept_BundleInfo) (bm_GetBundleArchiveInfoWithIntFlags (ho_service h) hapFilePath flags s))"
  by (simp add: Proxy_GetBundleArchiveInfoWithIntFlags_def sent codec info_link [OF request_GetBundleArchiveInfoWithIntFlags p_bundle.parcelable_axioms] del: One_nat_def)

lemma GetHapModuleInfo_link:
  "ok_ability (ho_json h) abilityInfo \<Longrightarrow>
     answers_ok (ok_hap (ho_json h)) (bm_GetHapModuleInfo (ho_service h) (kept_AbilityInfo abilityInfo) s) \<Longrightarrow>
     Proxy_GetHapModuleInfo c abilityInfo s =
       Some (if ai_bundleName abilityInfo = [] \<or> ai_package abilityInfo = [] then (None, s)
           else apfst (map_option kept_HapModuleInfo) (bm_GetHapModuleInfo (ho_service h) (kept_AbilityInfo abilityInfo) s))"
  by (simp add: Proxy_GetHapModuleInfo_def sent codec info_link [OF request_GetHapModuleInfo p_hap_module.parcelable_axioms] del: One_nat_def)

lemma GetHapModuleInfoWithUserId_link:
  "ok_ability (ho_json h) abilityInfo \<Longrightarrow>
     answers_ok (ok_hap (ho_json h)) (bm_GetHapModuleInfoWithUserId (ho_service h) (kept_AbilityInfo abilityInfo) userId s) \<Longrightarrow>
     Proxy_GetHapModuleInfoWithUserId c abilityInfo userId s =
       Some (if ai_bundleName abilityInfo = [] \<or> ai_package abilityInfo = [] then (None, s)
           else apfst (map_option kept_HapModuleInfo) (bm_GetHapModuleInfoWithUserId (ho_service h) (kept_AbilityInfo abilityInfo) userId s))"
  by (simp add: Proxy_GetHapModuleInfoWithUserId_def sent codec info_link [OF request_GetHapModuleInfoWithUserId p_hap_module.parcelable_axioms] del: One_nat_def)

lemma GetLaunchWantForBundle_link:
  "Proxy_GetLaunchWantForBundle c bundleName s =
       Some (if bundleName = [] then (None, s) else bm_GetLaunchWantForBundle (ho_service h) bundleName s)"
  by (simp add: Proxy_GetLaunchWantForBundle_def sent codec info_link [OF request_GetLaunchWantForBundle p_want.parcelable_axioms] del: One_nat_def)

lemma CheckPublicKeys_link:
  "Proxy_CheckPublicKeys c firstBundleName secondBundleName s =
       Some (if firstBundleName = [] \<or> secondBundleName = [] then (SIGNATURE_UNKNOWN_BUNDLE, s)
           else bm_CheckPublicKeys (ho_service h) firstBundleName secondBundleName s)"
  by (simp add: Proxy_CheckPublicKeys_def sent codec value_link [OF request_CheckPublicKeys] del: One_nat_def)

lemma HasSystemCapability_link:
  "Proxy_HasSystemCapability c capName s =
       Some (if capName = [] then (False, s) else bm_HasSystemCapability (ho_service h) capName s)"
  by (simp add: Proxy_HasSystemCapability_def sent codec bool_link [OF request_HasSystemCapability] del: One_nat_def)

lemma IsSafeMode_link:
  "Proxy_IsSafeMode c s =
       Some (bm_IsSafeMode (ho_service h) s)"
  by (simp add: Proxy_IsSafeMode_def sent codec bool_link [OF request_IsSafeMode] del: One_nat_def)

lemma CleanBundleDataFiles_link:
  "Proxy_CleanBundleDataFiles c bundleName userId s =
       Some (if bundleName = [] then (False, s) else bm_CleanBundleDataFiles (ho_service h) bundleName userId s)"
  by (simp add: Proxy_CleanBundleDataFiles_def sent codec bool_link [OF request_CleanBundleDataFiles] del: One_nat_def)

lemma UnregisterBundleStatusCallback_link:
  "Proxy_UnregisterBundleStatusCallback c s =
       Some (bm_UnregisterBundleStatusCallback (ho_service h) s)"
  by (simp add: Proxy_UnregisterBundleStatusCallback_def sent codec bool_link [OF request_UnregisterBundleStatusCallback] del: One_nat_def)

lemma DumpInfos_link:
  "Proxy_DumpInfos c flag bundleName userId result s =
       Some (apfst (map_option (\<lambda>r. result @ r)) (bm_DumpInfos (ho_service h) flag bundleName userId s))"
  by (simp add: Proxy_DumpInfos_def sent codec if_true_link [OF request_DumpInfos, where kept = "\<lambda>r. result @ r"] concat_SplitString del: One_nat_def)

lemma IsApplicationEnabled_link:
  "Proxy_IsApplicationEnabled c bundleName s =
       Some (if bundleName = [] then (False, s) else bm_IsApplicationEnabled (ho_service h) bundleName s)"
  by (simp add: Proxy_IsApplicationEnabled_def sent codec bool_link [OF request_IsApplicationEnabled] del: One_nat_def)

lemma SetApplicationEnabled_link:
  "Proxy_SetApplicationEnabled c bundleName isEnable userId s =
       Some (if bundleName = [] then (False, s) else bm_SetApplicationEnabled (ho_service h) bundleName isEnable userId s)"
  by (simp add: Proxy_SetApplicationEnabled_def sent codec bool_link [OF request_SetApplicationEnabled] del: One_nat_def)

lemma IsAbilityEnabled_link:
  "ok_ability (ho_json h) abilityInfo \<Longrightarrow>
     Proxy_IsAbilityEnabled c abilityInfo s =
       Some (if ai_name abilityInfo = [] then (False, s)
           else bm_IsAbilityEnabled (ho_service h) (kept_AbilityInfo abilityInfo) s)"
  by (simp add: Proxy_IsAbilityEnabled_def sent codec bool_link [OF request_IsAbilityEnabled] del: One_nat_def)

lemma SetAbilityEnabled_link:
  "ok_ability (ho_json h) abilityInfo \<Longrightarrow>
     Proxy_SetAbilityEnabled c abilityInfo isEnabled userId s =
       Some (if ai_name abilityInfo = [] then (False, s)
           else bm_SetAbilityEnabled (ho_service h) (kept_AbilityInfo abilityInfo) isEnabled userId s)"
  by (simp add: Proxy_SetAbilityEnabled_def sent codec bool_link [OF request_SetAbilityEnabled] del: One_nat_def)

lemma GetAbilityInfo_link:
  "answers_ok (ok_ability (ho_json h)) (bm_GetAbilityInfo (ho_service h) bundleName abilityName s) \<Longrightarrow>
     Proxy_GetAbilityInfo c bundleName abilityName s =
       Some (if bundleName = [] \<or> abilityName = [] then (None, s)
           else apfst (map_option kept_AbilityInfo) (bm_GetAbilityInfo (ho_service h) bundleName abilityName s))"
  by (simp add: Proxy_GetAbilityInfo_def sent codec info_link [OF request_GetAbilityInfo p_ability.parcelable_axioms] del: One_nat_def)

lemma GetAbilityInfoWithModuleName_link:
  "answers_ok (ok_ability (ho_json h)) (bm_GetAbilityInfoWithModuleName (ho_service h) bundleName moduleName abilityName s) \<Longrightarrow>
     Proxy_GetAbilityInfoWithModuleName c bundleName moduleName abilityName s =
       Some (if bundleName = [] \<or> moduleName = [] \<or> abilityName = [] then (None, s)
           else apfst (map_option kept_AbilityInfo) (bm_GetAbilityInfoWithModuleName (ho_service h) bundleName moduleName abilityName s))"
  by (simp add: Proxy_GetAbilityInfoWithModuleName_def sent codec info_link [OF request_GetAbilityInfoWithModuleName p_ability.parcelable_axioms] del: One_nat_def)

lemma GetAbilityPixelMapIcon_link:
  "Proxy_GetAbilityPixelMapIcon c bundleName abilityName s =
       Some (if bundleName = [] \<or> abilityName = [] then (None, s)
           else bm_GetAbilityPixelMapIcon (ho_service h) bundleName abilityName s)"
  by (simp add: Proxy_GetAbilityPixelMapIcon_def sent codec pixelmap_link [OF request_GetAbilityPixelMapIcon] del: One_nat_def)

lemma GetAbilityPixelMapIconWithModuleName_link:
  "Proxy_GetAbilityPixelMapIconWithModuleName c bundleName moduleName abilityName s =
       Some (if bundleName = [] \<or> moduleName = [] \<or> abilityName = [] then (None, s)
           else bm_GetAbilityPixelMapIconWithModuleName (ho_service h) bundleName moduleName abilityName s)"
  by (simp add: Proxy_GetAbilityPixelMapIconWithModuleName_def sent codec pixelmap_link [OF request_GetAbilityPixelMapIconWithModuleName] del: One_nat_def)

lemma GetBundleInstaller_link:
  "Proxy_GetBundleInstaller c s =
       Some (apfst (\<lambda>x. Option.bind x (px_iface_cast c)) (bm_GetBundleInstaller (ho_service h) s))"
  by (simp add: Proxy_GetBundleInstaller_def sent codec object_link [OF request_GetBundleInstaller] del: One_nat_def)

lemma GetBundleUserMgr_link:
  "Proxy_GetBundleUserMgr c s =
       Some (apfst (\<lambda>x. Option.bind x (px_iface_cast c)) (bm_GetBundleUserMgr (ho_service h) s))"
  by (simp add: Proxy_GetBundleUserMgr_def sent codec object_link [OF request_GetBundleUserMgr] del: One_nat_def)

lemma GetAllFormsInfo_link:
  "answers_ok (all_ok (ok_form)) (bm_GetAllFormsInfo (ho_service h) s) \<Longrightarrow>
     Proxy_GetAllFormsInfo c infos s =
       Some (apfst (map_option (\<lambda>vs. infos @ vs)) (bm_GetAllFormsInfo (ho_service h) s))"
  by (simp add: Proxy_GetAllFormsInfo_def sent codec infos_link [OF request_GetAllFormsInfo p_form.parcelable_axioms] del: One_nat_def)

lemma GetFormsInfoByApp_link:
  "answers_ok (all_ok (ok_form)) (bm_GetFormsInfoByApp (ho_service h) bundleName s) \<Longrightarrow>
     Proxy_GetFormsInfoByApp c bundleName infos s =
       Some (if bundleName = [] then (None, s)
           else apfst (map_option (\<lambda>vs. infos @ vs)) (bm_GetFormsInfoByApp (ho_service h) bundleName s))"
  by (simp add: Proxy_GetFormsInfoByApp_def sent codec infos_link [OF request_GetFormsInfoByApp p_form.parcelable_axioms] del: One_nat_def)

lemma GetFormsInfoByModule_link:
  "answers_ok (all_ok (ok_form)) (bm_GetFormsInfoByModule (ho_service h) bundleName moduleName s) \<Longrightarrow>
     Proxy_GetFormsInfoByModule c bundleName moduleName infos s =
       Some (if bundleName = [] \<or> moduleName = [] then (None, s)
           else apfst (map_option (\<lambda>vs. infos @ vs)) (bm_GetFormsInfoByModule (ho_service h) bundleName moduleName s))"
  by (simp add: Proxy_GetFormsInfoByModule_def sent codec infos_link [OF request_GetFormsInfoByModule p_form.parcelable_axioms] del: One_nat_def)

lemma GetShortcutInfos_link:
  "answers_ok (all_ok (ok_shortcut)) (bm_GetShortcutInfos (ho_service h) bundleName s) \<Longrightarrow>
     Proxy_GetShortcutInfos c bundleName infos s =
       Some (if bundleName = [] then (None, s)
           else apfst (map_option (\<lambda>vs. infos @ vs)) (bm_GetShortcutInfos (ho_service h) bundleName s))"
  by (simp add: Proxy_GetShortcutInfos_def sent codec infos_link [OF request_GetShortcutInfos p_shortcut.parcelable_axioms] del: One_nat_def)

lemma GetAllCommonEventInfo_link:
  "answers_ok (all_ok (ok_event)) (bm_GetAllCommonEventInfo (ho_service h) eventKey s) \<Longrightarrow>
     Proxy_GetAllCommonEventInfo c eventKey infos s =
       Some (if eventKey = [] then (None, s)
           else apfst (map_option (\<lambda>vs. infos @ vs)) (bm_GetAllCommonEventInfo (ho_service h) eventKey s))"
  by (simp add: Proxy_GetAllCommonEventInfo_def sent codec infos_link [OF request_GetAllCommonEventInfo p_common_event.parcelable_axioms] del: One_nat_def)

lemma BundleClone_link:
  "Proxy_BundleClone c bundleName s =
       Some (if bundleName = [] then (False, s) else bm_BundleClone (ho_service h) bundleName s)"
  by (simp add: Proxy_BundleClone_def sent codec bool_link [OF request_BundleClone] del: One_nat_def)

lemma RemoveClonedBundle_link:
  "Proxy_RemoveClonedBundle c bundleName uid s =
       Some (if bundleName = [] then (False, s) else bm_RemoveClonedBundle (ho_service h) bundleName uid s)"
  by (simp add: Proxy_RemoveClonedBundle_def sent codec bool_link [OF request_RemoveClonedBundle] del: One_nat_def)

lemma GetDistributedBundleInfo_link:
  "answers_ok (ok_distributed (ho_json h))
      (bm_GetDistributedBundleInfo (ho_service h) networkId bundleName s) \<Longrightarrow>
     Proxy_GetDistributedBundleInfo c networkId bundleName s =
       Some (if networkId = [] \<or> bundleName = [] then (None, s)
           else bm_GetDistributedBundleInfo (ho_service h) networkId bundleName s)"
  by (simp add: Proxy_GetDistributedBundleInfo_def sent codec info_link [OF request_GetDistributedBundleInfo p_distributed.parcelable_axioms] del: One_nat_def)

lemma GetAppPrivilegeLevel_link:
  "Proxy_GetAppPrivilegeLevel c bundleName userId s =
       Some (if bundleName = [] then ([], s) else bm_GetAppPrivilegeLevel (ho_service h) bundleName userId s)"
  by (simp add: Proxy_GetAppPrivilegeLevel_def sent codec value_link [OF request_GetAppPrivilegeLevel] del: One_nat_def)

lemma QueryExtAbilityInfosWithoutType_link:
  "answers_ok (all_ok (ok_extension (ho_json h)))
      (bm_QueryExtAbilityInfosWithoutType (ho_service h) want flag userId s) \<Longrightarrow>
     Proxy_QueryExtAbilityInfosWithoutType c want flag userId infos s =
       Some (apfst (map_option (\<lambda>vs. infos @ vs))
           (bm_QueryExtAbilityInfosWithoutType (ho_service h) want flag userId s))"
  by (simp add: Proxy_QueryExtAbilityInfosWithoutType_def sent codec infos_link [OF request_QueryExtAbilityInfosWithoutType p_extension.parcelable_axioms] del: One_nat_def)

lemma QueryExtAbilityInfos_link:
  "answers_ok (all_ok (ok_extension (ho_json h)))
      (bm_QueryExtAbilityInfos (ho_service h) want extensionType flag userId s) \<Longrightarrow>
     Proxy_QueryExtAbilityInfos c want extensionType flag userId infos s =
       Some (apfst (map_option (\<lambda>vs. infos @ vs))
           (bm_QueryExtAbilityInfos (ho_service h) want extensionType flag userId s))"
  by (simp add: Proxy_QueryExtAbilityInfos_def sent codec infos_link [OF request_QueryExtAbilityInfos p_extension.parcelable_axioms] del: One_nat_def)

lemma QueryExtAbilityInfosByType_link:
  "answers_ok (all_ok (ok_extension (ho_json h)))
      (bm_QueryExtAbilityInfosByType (ho_service h) extensionType userId s) \<Longrightarrow>
     Proxy_QueryExtAbilityInfosByType c extensionType userId infos s =
       Some (apfst (map_option (\<lambda>vs. infos @ vs))
           (bm_QueryExtAbilityInfosByType (ho_service h) extensionType userId s))"
  by (simp add: Proxy_QueryExtAbilityInfosByType_def sent codec infos_link [OF request_QueryExtAbilityInfosByType p_extension.parcelable_axioms] del: One_nat_def)

lemma VerifyCallingPermission_link:
  "Proxy_VerifyCallingPermission c permission s =
       Some (bm_VerifyCallingPermission (ho_service h) permission s)"
  by (simp add: Proxy_VerifyCallingPermission_def sent codec bool_link [OF request_VerifyCallingPermission] del: One_nat_def)

lemma GetAccessibleAppCodePaths_link:
  "Proxy_GetAccessibleAppCodePaths c userId s =
       Some (bm_GetAccessibleAppCodePaths (ho_service h) userId s)"
  by (simp add: Proxy_GetAccessibleAppCodePaths_def sent codec paths_link [OF request_GetAccessibleAppCodePaths] del: One_nat_def)

lemma QueryExtensionAbilityInfoByUri_link:
  "answers_ok (ok_extension (ho_json h)) (bm_QueryExtensionAbilityInfoByUri (ho_service h) uri userId s) \<Longrightarrow>
     Proxy_QueryExtensionAbilityInfoByUri c uri userId s =
       Some (if uri = [] then (None, s) else bm_QueryExtensionAbilityInfoByUri (ho_service h) uri userId s)"
  by (simp add: Proxy_QueryExtensionAbilityInfoByUri_def sent codec info_link [OF request_QueryExtensionAbilityInfoByUri p_extension.parcelable_axioms] del: One_nat_def)

lemma GetAppIdByBundleName_link:
  "Proxy_GetAppIdByBundleName c bundleName userId s =
       Some (if bundleName = [] then ([], s) else bm_GetAppIdByBundleName (ho_service h) bundleName userId s)"
  by (simp add: Proxy_GetAppIdByBundleName_def sent codec value_link [OF request_GetAppIdByBundleName] del: One_nat_def)

lemma GetAppType_link:
  "Proxy_GetAppType c bundleName s =
       Some (if bundleName = [] then ([], s) else bm_GetAppType (ho_service h) bundleName s)"
  by (simp add: Proxy_GetAppType_def sent codec value_link [OF request_GetAppType] del: One_nat_def)

lemma GetUidByBundleName_link:
  "Proxy_GetUidByBundleName c bundleName userId s =
       Some (if bundleName = [] then (INVALID_UID, s) else bm_GetUidByBundleName (ho_service h) bundleName userId s)"
  by (simp add: Proxy_GetUidByBundleName_def sent codec value_link [OF request_GetUidByBundleName] del: One_nat_def)

lemma IsModuleRemovable_link:
  "Proxy_IsModuleRemovable c bundleName moduleName s =
       Some (if bundleName = [] \<or> moduleName = [] then (False, s)
           else bm_IsModuleRemovable (ho_service h) bundleName moduleName s)"
  by (simp add: Proxy_IsModuleRemovable_def sent codec bool_link [OF request_IsModuleRemovable] del: One_nat_def)

lemma SetModuleRemovable_link:
  "Proxy_SetModuleRemovable c bundleName moduleName isEnable s =
       Some (if bundleName = [] \<or> moduleName = [] then (False, s)
           else bm_SetModuleRemovable (ho_service h) bundleName moduleName isEnable s)"
  by (simp add: Proxy_SetModuleRemovable_def sent codec bool_link [OF request_SetModuleRemovable] del: One_nat_def)

lemma GetModuleUpgradeFlag_link:
  "Proxy_GetModuleUpgradeFlag c bundleName moduleName s =
       Some (if bundleName = [] \<or> moduleName = [] then (False, s)
           else bm_GetModuleUpgradeFlag (ho_service h) bundleName moduleName s)"
  by (simp add: Proxy_GetModuleUpgradeFlag_def sent codec bool_link [OF request_GetModuleUpgradeFlag] del: One_nat_def)

lemma SetModuleUpgradeFlag_link:
  "Proxy_SetModuleUpgradeFlag c bundleName moduleName upgradeFlag s =
       Some (if bundleName = [] \<or> moduleName = [] then (False, s)
           else bm_SetModuleUpgradeFlag (ho_service h) bundleName moduleName upgradeFlag s)"
  by (simp add: Proxy_SetModuleUpgradeFlag_def sent codec bool_link [OF request_SetModuleUpgradeFlag] del: One_nat_def)

lemma ImplicitQueryInfoByPriority_link:
  "answers_ok (\<lambda>(a, x). ok_ability (ho_json h) a \<and> ok_extension (ho_json h) x)
      (bm_ImplicitQueryInfoByPriority (ho_service h) want flags userId s) \<Longrightarrow>
     Proxy_ImplicitQueryInfoByPriority c want flags userId s =
       Some (apfst (map_option (map_prod kept_AbilityInfo (\<lambda>x. x)))
           (bm_ImplicitQueryInfoByPriority (ho_service h) want flags userId s))"
  unfolding Proxy_ImplicitQueryInfoByPriority_def sent codec by (rule implicit_link [OF request_ImplicitQueryInfoByPriority])

lemma GetAllDependentModuleNames_link:
  "Proxy_GetAllDependentModuleNames c bundleName moduleName s =
       Some (if bundleName = [] \<or> moduleName = [] then (None, s)
           else bm_GetAllDependentModuleNames (ho_service h) bundleName moduleName s)"
  by (simp add: Proxy_GetAllDependentModuleNames_def sent codec if_true_link [OF request_GetAllDependentModuleNames, where kept = "\<lambda>v. v"] del: One_nat_def)

lemma GetSandboxBundleInfo_link:
  "(fst (fst (bm_GetSandboxBundleInfo (ho_service h) bundleName appIndex userId s)) = code_OK \<longrightarrow> ok_bundle (ho_json h) (snd (fst
      (bm_GetSandboxBundleInfo (ho_service h) bundleName appIndex userId s)))) \<Longrightarrow>
     Proxy_GetSandboxBundleInfo c bundleName appIndex userId s =
       Some (if bundleName = [] \<or> appIndex \<le> 0 then ((code_SANDBOX_PARAM_ERROR, None), s)
           else apfst (\<lambda>(res, info). (res, if res = code_OK then Some (kept_BundleInfo info) else None)) (bm_GetSandboxBundleInfo (ho_service h) bundleName appIndex userId s))"
  by (simp add: Proxy_GetSandboxBundleInfo_def sent codec code_link [OF request_GetSandboxBundleInfo p_bundle.parcelable_axioms] del: One_nat_def)

lemma QueryAbilityInfoWithCallback_link:
  "answers_ok (ok_ability (ho_json h)) (bm_QueryAbilityInfoWithCallback (ho_service h) want flags userId callBack s) \<Longrightarrow>
     Proxy_QueryAbilityInfoWithCallback c want flags userId callBack s =
       Some (apfst (map_option kept_AbilityInfo)
           (bm_QueryAbilityInfoWithCallback (ho_service h) want flags userId callBack s))"
  by (simp add: Proxy_QueryAbilityInfoWithCallback_def sent codec info_link [OF request_QueryAbilityInfoWithCallback p_ability.parcelable_axioms] del: One_nat_def)

end

text \<open>Answers that can be sent.\<close>

definition bundle_answers_ok :: "'s bundle_mgr_host \<Rightarrow> bool" where
  "bundle_answers_ok h \<longleftrightarrow>
     (\<forall>appName flag userId s. answers_ok (ok_application (ho_json h))
         (bm_GetApplicationInfo (ho_service h) appName flag userId s)) \<and>
     (\<forall>appName flags userId s. answers_ok (ok_application (ho_json h))
         (bm_GetApplicationInfoWithIntFlags (ho_service h) appName flags userId s)) \<and>
     (\<forall>flag userId s. answers_ok (all_ok (ok_application (ho_json h)))
         (bm_GetApplicationInfos (ho_service h) flag userId s)) \<and>
     (\<forall>flags userId s. answers_ok (all_ok (ok_application (ho_json h)))
         (bm_GetApplicationInfosWithIntFlags (ho_service h) flags userId s)) \<and>
     (\<forall>bundleName flag userId s. answers_ok (ok_bundle (ho_json h))
         (bm_GetBundleInfo (ho_service h) bundleName flag userId s)) \<and>
     (\<forall>bundleName flags userId s. answers_ok (ok_bundle (ho_json h))
         (bm_GetBundleInfoWithIntFlags (ho_service h) bundleName flags userId s)) \<and>
     (\<forall>bundleName flag s. answers_ok (ok_pack (ho_json h))
         (bm_GetBundlePackInfo (ho_service h) bundleName flag s)) \<and>
     (\<forall>bundleName flags s. answers_ok (ok_pack (ho_json h))
         (bm_GetBundlePackInfoWithIntFlags (ho_service h) bundleName flags s)) \<and>
     (\<forall>metaData s. answers_ok (all_ok (ok_bundle (ho_json h)))
         (bm_GetBundleInfosByMetaData (ho_service h) metaData s)) \<and>
     (\<forall>s. answers_ok (all_ok (ok_bundle (ho_json h))) (bm_QueryKeepAliveBundleInfos (ho_service h) s)) \<and>
     (\<forall>hapFilePath flag s. answers_ok (ok_bundle (ho_json h))
         (bm_GetBundleArchiveInfo (ho_service h) hapFilePath flag s)) \<and>
     (\<forall>hapFilePath flags s. answers_ok (ok_bundle (ho_json h))
         (bm_GetBundleArchiveInfoWithIntFlags (ho_service h) hapFilePath flags s)) \<and>
     (\<forall>networkId bundleName s. answers_ok (ok_distributed (ho_json h))
         (bm_GetDistributedBundleInfo (ho_service h) networkId bundleName s)) \<and>
     (\<forall>bundleName appIndex userId s. (fst (fst (bm_GetSandboxBundleInfo (ho_service h) bundleName appIndex userId s)) = code_OK \<longrightarrow> ok_bundle (ho_json h) (snd (fst
         (bm_GetSandboxBundleInfo (ho_service h) bundleName appIndex userId s)))))"

definition ability_answers_ok :: "'s bundle_mgr_host \<Rightarrow> bool" where
  "ability_answers_ok h \<longleftrightarrow>
     (\<forall>want s. answers_ok (ok_ability (ho_json h)) (bm_QueryAbilityInfo (ho_service h) want s)) \<and>
     (\<forall>want flags userId s. answers_ok (ok_ability (ho_json h))
         (bm_QueryAbilityInfoMutiparam (ho_service h) want flags userId s)) \<and>
     (\<forall>want s. answers_ok (all_ok (ok_ability (ho_json h))) (bm_QueryAbilityInfos (ho_service h) want s)) \<and>
     (\<forall>want flags userId s. answers_ok (all_ok (ok_ability (ho_json h)))
         (bm_QueryAbilityInfosMutiparam (ho_service h) want flags userId s)) \<and>
     (\<forall>want userId s. answers_ok (all_ok (ok_ability (ho_json h)))
         (bm_QueryAllAbilityInfos (ho_service h) want userId s)) \<and>
     (\<forall>want s. answers_ok (all_ok (ok_ability (ho_json h)))
         (bm_QueryAbilityInfosForClone (ho_service h) want s)) \<and>
     (\<forall>abilityUri s. answers_ok (ok_ability (ho_json h))
         (bm_QueryAbilityInfoByUri (ho_service h) abilityUri s)) \<and>
     (\<forall>abilityUri s. answers_ok (all_ok (ok_ability (ho_json h)))
         (bm_QueryAbilityInfosByUri (ho_service h) abilityUri s)) \<and>
     (\<forall>abilityUri userId s. answers_ok (ok_ability (ho_json h))
         (bm_QueryAbilityInfoByUriForUserId (ho_service h) abilityUri userId s)) \<and>
     (\<forall>abilityInfo s. answers_ok (ok_hap (ho_json h)) (bm_GetHapModuleInfo (ho_service h) abilityInfo s)) \<and>
     (\<forall>abilityInfo userId s. answers_ok (ok_hap (ho_json h))
         (bm_GetHapModuleInfoWithUserId (ho_service h) abilityInfo userId s)) \<and>
     (\<forall>bundleName abilityName s. answers_ok (ok_ability (ho_json h))
         (bm_GetAbilityInfo (ho_service h) bundleName abilityName s)) \<and>
     (\<forall>bundleName moduleName abilityName s. answers_ok (ok_ability (ho_json h))
         (bm_GetAbilityInfoWithModuleName (ho_service h) bundleName moduleName abilityName s)) \<and>
     (\<forall>want flag userId s. answers_ok (all_ok (ok_extension (ho_json h)))
         (bm_QueryExtAbilityInfosWithoutType (ho_service h) want flag userId s)) \<and>
     (\<forall>want extensionType flag userId s. answers_ok (all_ok (ok_extension (ho_json h)))
         (bm_QueryExtAbilityInfos (ho_service h) want extensionType flag userId s)) \<and>
     (\<forall>extensionType userId s. answers_ok (all_ok (ok_extension (ho_json h)))
         (bm_QueryExtAbilityInfosByType (ho_service h) extensionType userId s)) \<and>
     (\<forall>uri userId s. answers_ok (ok_extension (ho_json h))
         (bm_QueryExtensionAbilityInfoByUri (ho_service h) uri userId s)) \<and>
     (\<forall>want flags userId s. answers_ok (\<lambda>(a, x). ok_ability (ho_json h) a \<and> ok_extension (ho_json h) x)
         (bm_ImplicitQueryInfoByPriority (ho_service h) want flags userId s)) \<and>
     (\<forall>want flags userId callBack s. answers_ok (ok_ability (ho_json h))
         (bm_QueryAbilityInfoWithCallback (ho_service h) want flags userId callBack s))"

definition other_answers_ok :: "'s bundle_mgr_host \<Rightarrow> bool" where
  "other_answers_ok h \<longleftrightarrow>
     (\<forall>s. answers_ok (all_ok (ok_form)) (bm_GetAllFormsInfo (ho_service h) s)) \<and>
     (\<forall>bundleName s. answers_ok (all_ok (ok_form)) (bm_GetFormsInfoByApp (ho_service h) bundleName s)) \<and>
     (\<forall>bundleName moduleName s. answers_ok (all_ok (ok_form))
         (bm_GetFormsInfoByModule (ho_service h) bundleName moduleName s)) \<and>
     (\<forall>bundleName s. answers_ok (all_ok (ok_shortcut)) (bm_GetShortcutInfos (ho_service h) bundleName s)) \<and>
     (\<forall>eventKey s. answers_ok (all_ok (ok_event)) (bm_GetAllCommonEventInfo (ho_service h) eventKey s))"

end
