(* ===== verification/Ipc_Calls.thy ===== *)
theory Ipc_Calls
  imports Ipc_Correct Json_Inner_Laws
begin

text \<open>
  The calls of \<open>IBundleMgr\<close> through proxy and host, by groups: what the client gets is what the service
  answered, up to the members that the JSON form of a structure loses.
\<close>

lemma wide_simps [simp]:
  "ho_service (wide h) = ho_service h" "ho_json (wide h) = ho_json h" "ho_after (wide h) = ho_after h"
  "ho_ashmem (wide h) = ho_ashmem h" "ho_iface_cast (wide h) = ho_iface_cast h"
  "px_iface_cast (client_of h) = ho_iface_cast h" "in_ashmem (wide h) ok enc vs = in_ashmem h ok enc vs"
  by (simp_all add: wide_def client_of_def in_ashmem_def)

section \<open>A host for the examples\<close>

text \<open>A service that answers nothing, and a JSON library that knows one value.\<close>

definition quiet_service :: "nat bundle_mgr" where
  "quiet_service =
     \<lparr>bm_GetApplicationInfo = (\<lambda>_ _ _ s. (None, s)),
      bm_GetApplicationInfoWithIntFlags = (\<lambda>_ _ _ s. (None, s)),
      bm_GetApplicationInfos = (\<lambda>_ _ s. (None, s)),
      bm_GetApplicationInfosWithIntFlags = (\<lambda>_ _ s. (None, s)),
      bm_GetBundleInfo = (\<lambda>_ _ _ s. (None, s)),
      bm_GetBundleInfoWithIntFlags = (\<lambda>_ _ _ s. (None, s)),
      bm_GetBundlePackInfo = (\<lambda>_ _ s. (None, s)),
      bm_GetBundlePackInfoWithIntFlags = (\<lambda>_ _ s. (None, s)),
      bm_GetBundleInfos = (\<lambda>_ _ s. (None, s)),
      bm_GetBundleInfosWithIntFlags = (\<lambda>_ _ s. (None, s)),
      bm_GetBundleNameForUid = (\<lambda>_ s. (None, s)),
      bm_GetBundlesForUid = (\<lambda>_ s. (None, s)),
      bm_GetNameForUid = (\<lambda>_ s. (None, s)),
      bm_GetBundleGids = (\<lambda>_ s. (None, s)),
      bm_GetBundleGidsByUid = (\<lambda>_ _ s. (None, s)),
      bm_GetBundleInfosByMetaData = (\<lambda>_ s. (None, s)),
      bm_QueryAbilityInfo = (\<lambda>_ s. (None, s)),
      bm_QueryAbilityInfoMutiparam = (\<lambda>_ _ _ s. (None, s)),
      bm_QueryAbilityInfos = (\<lambda>_ s. (None, s)),
      bm_QueryAbilityInfosMutiparam = (\<lambda>_ _ _ s. (None, s)),
      bm_QueryAllAbilityInfos = (\<lambda>_ _ s. (None, s)),
      bm_QueryAbilityInfosForClone = (\<lambda>_ s. (None, s)),
      bm_QueryAbilityInfoByUri = (\<lambda>_ s. (None, s)),
      bm_QueryAbilityInfosByUri = (\<lambda>_ s. (None, s)),
      bm_QueryAbilityInfoByUriForUserId = (\<lambda>_ _ s. (None, s)),
      bm_QueryKeepAliveBundleInfos = (\<lambda>s. (None, s)),
      bm_GetAbilityLabel = (\<lambda>_ _ s. ([], s)),
      bm_GetAbilityLabelWithModuleName = (\<lambda>_ _ _ s. ([], s)),
      bm_CheckIsSystemAppByUid = (\<lambda>_ s. (False, s)),
      bm_GetBundleArchiveInfo = (\<lambda>_ _ s. (None, s)),
      bm_GetBundleArchiveInfoWithIntFlags = (\<lambda>_ _ s. (None, s)),
      bm_GetHapModuleInfo = (\<lambda>_ s. (None, s)),
      bm_GetHapModuleInfoWithUserId = (\<lambda>_ _ s. (None, s)),
      bm_GetLaunchWantForBundle = (\<lambda>_ s. (None, s)),
      bm_CheckPublicKeys = (\<lambda>_ _ s. (0, s)),
      bm_GetPermissionDef = (\<lambda>_ s. (None, s)),
      bm_HasSystemCapability = (\<lambda>_ s. (False, s)),
      bm_GetSystemAvailableCapabilities = (\<lambda>s. (None, s)),
      bm_IsSafeMode = (\<lambda>s. (False, s)),
      bm_CleanBundleCacheFiles = (\<lambda>_ _ _ s. (False, s)),
      bm_CleanBundleDataFiles = (\<lambda>_ _ s. (False, s)),
      bm_RegisterBundleStatusCallback = (\<lambda>_ _ s. (False, s)),
      bm_ClearBundleStatusCallback = (\<lambda>_ s. (False, s)),
      bm_UnregisterBundleStatusCallback = (\<lambda>s. (False, s)),
      bm_DumpInfos = (\<lambda>_ _ _ s. (None, s)),
      bm_IsApplicationEnabled = (\<lambda>_ s. (False, s)),
      bm_SetApplicationEnabled = (\<lambda>_ _ _ s. (False, s)),
      bm_IsAbilityEnabled = (\<lambda>_ s. (False, s)),
      bm_SetAbilityEnabled = (\<lambda>_ _ _ s. (False, s)),
      bm_GetAbilityInfo = (\<lambda>_ _ s. (None, s)),
      bm_GetAbilityInfoWithModuleName = (\<lambda>_ _ _ s. (None, s)),
      bm_GetAbilityPixelMapIcon = (\<lambda>_ _ s. (None, s)),
      bm_GetAbilityPixelMapIconWithModuleName = (\<lambda>_ _ _ s. (None, s)),
      bm_GetBundleInstaller = (\<lambda>s. (None, s)),
      bm_GetBundleUserMgr = (\<lambda>s. (None, s)),
      bm_GetAllFormsInfo = (\<lambda>s. (None, s)),
      bm_GetFormsInfoByApp = (\<lambda>_ s. (None, s)),
      bm_GetFormsInfoByModule = (\<lambda>_ _ s. (None, s)),
      bm_GetShortcutInfos = (\<lambda>_ s. (None, s)),
      bm_GetAllCommonEventInfo = (\<lambda>_ s. (None, s)),
      bm_CheckBundleNameInAllowList = (\<lambda>_ s. (False, s)),
      bm_BundleClone = (\<lambda>_ s. (False, s)),
      bm_RemoveClonedBundle = (\<lambda>_ _ s. (False, s)),
      bm_GetDistributedBundleInfo = (\<lambda>_ _ s. (None, s)),
      bm_GetAppPrivilegeLevel = (\<lambda>_ _ s. ([], s)),
      bm_QueryExtAbilityInfosWithoutType = (\<lambda>_ _ _ s. (None, s)),
      bm_QueryExtAbilityInfos = (\<lambda>_ _ _ _ s. (None, s)),
      bm_QueryExtAbilityInfosByType = (\<lambda>_ _ s. (None, s)),
      bm_VerifyCallingPermission = (\<lambda>_ s. (False, s)),
      bm_GetAccessibleAppCodePaths = (\<lambda>_ s. ([], s)),
      bm_QueryExtensionAbilityInfoByUri = (\<lambda>_ _ s. (None, s)),
      bm_GetAppIdByBundleName = (\<lambda>_ _ s. ([], s)),
      bm_GetAppType = (\<lambda>_ s. ([], s)),
      bm_GetUidByBundleName = (\<lambda>_ _ s. (0, s)),
      bm_IsModuleRemovable = (\<lambda>_ _ s. (False, s)),
      bm_SetModuleRemovable = (\<lambda>_ _ _ s. (False, s)),
      bm_GetModuleUpgradeFlag = (\<lambda>_ _ s. (False, s)),
      bm_SetModuleUpgradeFlag = (\<lambda>_ _ _ s. (False, s)),
      bm_ImplicitQueryInfoByPriority = (\<lambda>_ _ _ s. (None, s)),
      bm_GetAllDependentModuleNames = (\<lambda>_ _ s. (None, s)),
      bm_GetSandboxBundleInfo = (\<lambda>_ _ _ s. ((1, new_BundleInfo), s)),
      bm_QueryAbilityInfoWithCallback = (\<lambda>_ _ _ _ s. (None, s)),
      bm_UpgradeAtomicService = (\<lambda>_ _ s. s)\<rparr>"

definition demo_host :: "nat bundle_mgr \<Rightarrow> json \<Rightarrow> nat bundle_mgr_host" where
  "demo_host svc j =
     \<lparr>ho_service = svc, ho_json = \<lparr>jc_dump = (\<lambda>_. ''{}''), jc_parse = (\<lambda>_. Some j)\<rparr>,
      ho_room = (\<lambda>_ _ _. True), ho_iface_cast = Some, ho_ashmem = (\<lambda>_. True),
      ho_after = (\<lambda>_. replicate 16 (CHR ''x'')), ho_default = (\<lambda>_ _. (UNKNOWN_ERROR, []))\<rparr>"

definition demo_bundle :: bundle_info where
  "demo_bundle = new_BundleInfo\<lparr>bi_name := ''com.a''\<rparr>"

definition demo_ability :: ability_info where
  "demo_ability = new_AbilityInfo\<lparr>ai_name := ''Main'', ai_bundleName := ''com.a'', ai_package := ''entry''\<rparr>"

lemma demo_wf: "wf_BundleInfo demo_bundle" "wf_AbilityInfo demo_ability"
  using new_parts_wf by (simp_all add: demo_bundle_def demo_ability_def wf_BundleInfo_def wf_AbilityInfo_def)

lemma demo_host_simps [simp]:
  "ho_service (demo_host svc j) = svc" "ho_iface_cast (demo_host svc j) = Some"
  "readable (ho_json (demo_host svc j)) j"
  by (simp_all add: demo_host_def readable_def)

section \<open>Queries\<close>

text \<open>
  C32: Queries for applications, bundles, bundle packs, archives, remote bundles and sandbox applications give
  through the proxy what the service answers, with the members that the JSON forms keep; empty names are
  refused without a request.
\<close>

theorem bundle_queries_over_ipc:
  assumes "bundle_answers_ok h"
  shows "(\<forall>appName flag userId s. Proxy_GetApplicationInfo (client_of (wide h)) appName flag userId s =
        Some (if appName = [] then (None, s) else bm_GetApplicationInfo (ho_service h) appName flag userId s)) \<and>
    (\<forall>appName flags userId s. Proxy_GetApplicationInfoWithIntFlags (client_of (wide h)) appName flags userId s =
        Some (if appName = [] then (None, s)
            else bm_GetApplicationInfoWithIntFlags (ho_service h) appName flags userId s)) \<and>
    (\<forall>flag userId infos s. Proxy_GetApplicationInfos (client_of (wide h)) flag userId infos s =
        Some (apfst (map_option (\<lambda>vs. infos @ vs)) (bm_GetApplicationInfos (ho_service h) flag userId s))) \<and>
    (\<forall>flags userId infos s. Proxy_GetApplicationInfosWithIntFlags (client_of (wide h)) flags userId infos s =
        Some (apfst (map_option (\<lambda>vs. infos @ vs))
            (bm_GetApplicationInfosWithIntFlags (ho_service h) flags userId s))) \<and>
    (\<forall>bundleName flag userId s. Proxy_GetBundleInfo (client_of (wide h)) bundleName flag userId s =
        Some (if bundleName = [] then (None, s)
            else apfst (map_option kept_BundleInfo) (bm_GetBundleInfo (ho_service h) bundleName flag userId s))) \<and>
    (\<forall>bundleName flags userId s. Proxy_GetBundleInfoWithIntFlags (client_of (wide h)) bundleName flags userId s =
        Some (if bundleName = [] then (None, s)
            else apfst (map_option kept_BundleInfo) (bm_GetBundleInfoWithIntFlags (ho_service h) bundleName flags userId s))) \<and>
    (\<forall>bundleName flag s. Proxy_GetBundlePackInfo (client_of (wide h)) bundleName flag s =
        Some (if bundleName = [] then (None, s)
            else apfst (map_option kept_BundlePackInfo) (bm_GetBundlePackInfo (ho_service h) bundleName flag s))) \<and>
    (\<forall>bundleName flags s. Proxy_GetBundlePackInfoWithIntFlags (client_of (wide h)) bundleName flags s =
        Some (if bundleName = [] then (None, s)
            else apfst (map_option kept_BundlePackInfo) (bm_GetBundlePackInfoWithIntFlags (ho_service h) bundleName flags s))) \<and>
    (\<forall>metaData infos s. Proxy_GetBundleInfosByMetaData (client_of (wide h)) metaData infos s =
        Some (if metaData = [] then (None, s)
            else apfst (map_option (\<lambda>vs. infos @ map kept_BundleInfo vs)) (bm_GetBundleInfosByMetaData (ho_service h) metaData s))) \<and>
    (\<forall>infos s. Proxy_QueryKeepAliveBundleInfos (client_of (wide h)) infos s =
        Some (apfst (map_option (\<lambda>vs. infos @ map kept_BundleInfo vs))
            (bm_QueryKeepAliveBundleInfos (ho_service h) s))) \<and>
    (\<forall>hapFilePath flag s. Proxy_GetBundleArchiveInfo (client_of (wide h)) hapFilePath flag s =
        Some (if hapFilePath = [] then (None, s)
            else apfst (map_option kept_BundleInfo) (bm_GetBundleArchiveInfo (ho_service h) hapFilePath flag s))) \<and>
    (\<forall>hapFilePath flags s. Proxy_GetBundleArchiveInfoWithIntFlags (client_of (wide h)) hapFilePath flags s =
        Some (if hapFilePath = [] then (None, s)
            else apfst (map_option kept_BundleInfo) (bm_GetBundleArchiveInfoWithIntFlags (ho_service h) hapFilePath flags s))) \<and>
    (\<forall>networkId bundleName s. Proxy_GetDistributedBundleInfo (client_of (wide h)) networkId bundleName s =
        Some (if networkId = [] \<or> bundleName = [] then (None, s)
            else bm_GetDistributedBundleInfo (ho_service h) networkId bundleName s)) \<and>
    (\<forall>bundleName appIndex userId s. Proxy_GetSandboxBundleInfo (client_of (wide h)) bundleName appIndex userId s =
        Some (if bundleName = [] \<or> appIndex \<le> 0 then ((code_SANDBOX_PARAM_ERROR, None), s)
            else apfst (\<lambda>(res, info). (res, if res = code_OK then Some (kept_BundleInfo info) else None)) (bm_GetSandboxBundleInfo (ho_service h) bundleName appIndex userId s)))"
  using assms unfolding bundle_answers_ok_def
  by (simp add:
      wide.GetApplicationInfo_link
      wide.GetApplicationInfoWithIntFlags_link
      wide.GetApplicationInfos_link
      wide.GetApplicationInfosWithIntFlags_link
      wide.GetBundleInfo_link
      wide.GetBundleInfoWithIntFlags_link
      wide.GetBundlePackInfo_link
      wide.GetBundlePackInfoWithIntFlags_link
      wide.GetBundleInfosByMetaData_link
      wide.QueryKeepAliveBundleInfos_link
      wide.GetBundleArchiveInfo_link
      wide.GetBundleArchiveInfoWithIntFlags_link
      wide.GetDistributedBundleInfo_link
      wide.GetSandboxBundleInfo_link
      del: One_nat_def)

theorem bundle_queries_over_ipc_witness:
  "Proxy_GetBundleInfo
     (client_of (wide (demo_host (quiet_service\<lparr>bm_GetBundleInfo := (\<lambda>n f u s. (if n = ''com.a'' then Some demo_bundle else None, s))\<rparr>) (BundleInfo_to_json demo_bundle)))) ''com.a'' 0 100 7 =
   Some (Some (kept_BundleInfo demo_bundle), 7)"
proof -
  have "bundle_answers_ok (demo_host (quiet_service\<lparr>bm_GetBundleInfo := (\<lambda>n f u s. (if n = ''com.a'' then Some demo_bundle else None, s))\<rparr>) (BundleInfo_to_json demo_bundle))"
    by (simp add: bundle_answers_ok_def answers_ok_def quiet_service_def demo_wf)
  from bundle_queries_over_ipc [OF this] show ?thesis by simp
qed

text \<open>
  Queries for abilities, extension abilities and modules give through the proxy what the service answers,
  with the members that the JSON forms keep; an ability that is an argument loses members on the way too.
\<close>

theorem ability_queries_over_ipc:
  assumes "ability_answers_ok h" "ok_ability (ho_json h) abilityInfo"
  shows "(\<forall>want s. Proxy_QueryAbilityInfo (client_of (wide h)) want s =
        Some (apfst (map_option kept_AbilityInfo) (bm_QueryAbilityInfo (ho_service h) want s))) \<and>
    (\<forall>want flags userId s. Proxy_QueryAbilityInfoMutiparam (client_of (wide h)) want flags userId s =
        Some (apfst (map_option kept_AbilityInfo) (bm_QueryAbilityInfoMutiparam (ho_service h) want flags userId s))) \<and>
    (\<forall>want infos s. Proxy_QueryAbilityInfos (client_of (wide h)) want infos s =
        Some (apfst (map_option (\<lambda>vs. infos @ map kept_AbilityInfo vs))
            (bm_QueryAbilityInfos (ho_service h) want s))) \<and>
    (\<forall>want flags userId infos s. Proxy_QueryAbilityInfosMutiparam (client_of (wide h)) want flags userId infos s =
        Some (apfst (map_option (\<lambda>vs. infos @ map kept_AbilityInfo vs))
            (bm_QueryAbilityInfosMutiparam (ho_service h) want flags userId s))) \<and>
    (\<forall>want userId infos s. Proxy_QueryAllAbilityInfos (client_of (wide h)) want userId infos s =
        Some (apfst (map_option (\<lambda>vs. infos @ map kept_AbilityInfo vs))
            (bm_QueryAllAbilityInfos (ho_service h) want userId s))) \<and>
    (\<forall>want infos s. Proxy_QueryAbilityInfosForClone (client_of (wide h)) want infos s =
        Some (apfst (map_option (\<lambda>vs. infos @ map kept_AbilityInfo vs))
            (bm_QueryAbilityInfosForClone (ho_service h) want s))) \<and>
    (\<forall>abilityUri s. Proxy_QueryAbilityInfoByUri (client_of (wide h)) abilityUri s =
        Some (apfst (map_option kept_AbilityInfo) (bm_QueryAbilityInfoByUri (ho_service h) abilityUri s))) \<and>
    (\<forall>abilityUri infos s. Proxy_QueryAbilityInfosByUri (client_of (wide h)) abilityUri infos s =
        Some (apfst (map_option (\<lambda>vs. infos @ map kept_AbilityInfo vs))
            (bm_QueryAbilityInfosByUri (ho_service h) abilityUri s))) \<and>
    (\<forall>abilityUri userId s. Proxy_QueryAbilityInfoByUriForUserId (client_of (wide h)) abilityUri userId s =
        Some (apfst (map_option kept_AbilityInfo)
            (bm_QueryAbilityInfoByUriForUserId (ho_service h) abilityUri userId s))) \<and>
    (\<forall>s. Proxy_GetHapModuleInfo (client_of (wide h)) abilityInfo s =
        Some (if ai_bundleName abilityInfo = [] \<or> ai_package abilityInfo = [] then (None, s)
            else apfst (map_option kept_HapModuleInfo) (bm_GetHapModuleInfo (ho_service h) (kept_AbilityInfo abilityInfo) s))) \<and>
    (\<forall>userId s. Proxy_GetHapModuleInfoWithUserId (client_of (wide h)) abilityInfo userId s =
        Some (if ai_bundleName abilityInfo = [] \<or> ai_package abilityInfo = [] then (None, s)
            else apfst (map_option kept_HapModuleInfo) (bm_GetHapModuleInfoWithUserId (ho_service h) (kept_AbilityInfo abilityInfo) userId s))) \<and>
    (\<forall>bundleName abilityName s. Proxy_GetAbilityInfo (client_of (wide h)) bundleName abilityName s =
        Some (if bundleName = [] \<or> abilityName = [] then (None, s)
            else apfst (map_option kept_AbilityInfo) (bm_GetAbilityInfo (ho_service h) bundleName abilityName s))) \<and>
    (\<forall>bundleName moduleName abilityName s. Proxy_GetAbilityInfoWithModuleName (client_of (wide h)) bundleName moduleName abilityName s =
        Some (if bundleName = [] \<or> moduleName = [] \<or> abilityName = [] then (None, s)
            else apfst (map_option kept_AbilityInfo) (bm_GetAbilityInfoWithModuleName (ho_service h) bundleName moduleName abilityName s))) \<and>
    (\<forall>want flag userId infos s. Proxy_QueryExtAbilityInfosWithoutType (client_of (wide h)) want flag userId infos s =
        Some (apfst (map_option (\<lambda>vs. infos @ vs))
            (bm_QueryExtAbilityInfosWithoutType (ho_service h) want flag userId s))) \<and>
    (\<forall>want extensionType flag userId infos s. Proxy_QueryExtAbilityInfos (client_of (wide h)) want extensionType flag userId infos s =
        Some (apfst (map_option (\<lambda>vs. infos @ vs))
            (bm_QueryExtAbilityInfos (ho_service h) want extensionType flag userId s))) \<and>
    (\<forall>extensionType userId infos s. Proxy_QueryExtAbilityInfosByType (client_of (wide h)) extensionType userId infos s =
        Some (apfst (map_option (\<lambda>vs. infos @ vs))
            (bm_QueryExtAbilityInfosByType (ho_service h) extensionType userId s))) \<and>
    (\<forall>uri userId s. Proxy_QueryExtensionAbilityInfoByUri (client_of (wide h)) uri userId s =
        Some (if uri = [] then (None, s) else bm_QueryExtensionAbilityInfoByUri (ho_service h) uri userId s)) \<and>
    (\<forall>want flags userId s. Proxy_ImplicitQueryInfoByPriority (client_of (wide h)) want flags userId s =
        Some (apfst (map_option (map_prod kept_AbilityInfo (\<lambda>x. x)))
            (bm_ImplicitQueryInfoByPriority (ho_service h) want flags userId s))) \<and>
    (\<forall>want flags userId callBack s. Proxy_QueryAbilityInfoWithCallback (client_of (wide h)) want flags userId callBack s =
        Some (apfst (map_option kept_AbilityInfo)
            (bm_QueryAbilityInfoWithCallback (ho_service h) want flags userId callBack s)))"
  using assms unfolding ability_answers_ok_def
  by (simp add:
      wide.QueryAbilityInfo_link
      wide.QueryAbilityInfoMutiparam_link
      wide.QueryAbilityInfos_link
      wide.QueryAbilityInfosMutiparam_link
      wide.QueryAllAbilityInfos_link
      wide.QueryAbilityInfosForClone_link
      wide.QueryAbilityInfoByUri_link
      wide.QueryAbilityInfosByUri_link
      wide.QueryAbilityInfoByUriForUserId_link
      wide.GetHapModuleInfo_link
      wide.GetHapModuleInfoWithUserId_link
      wide.GetAbilityInfo_link
      wide.GetAbilityInfoWithModuleName_link
      wide.QueryExtAbilityInfosWithoutType_link
      wide.QueryExtAbilityInfos_link
      wide.QueryExtAbilityInfosByType_link
      wide.QueryExtensionAbilityInfoByUri_link
      wide.ImplicitQueryInfoByPriority_link
      wide.QueryAbilityInfoWithCallback_link
      del: One_nat_def)

theorem ability_queries_over_ipc_witness:
  "Proxy_GetAbilityInfo
     (client_of (wide (demo_host (quiet_service\<lparr>bm_GetAbilityInfo := (\<lambda>b n s. (if n = ''Main'' then Some demo_ability else None, s))\<rparr>) (AbilityInfo_to_json demo_ability)))) ''com.a'' ''Main'' 7 =
   Some (Some (kept_AbilityInfo demo_ability), 7)"
proof -
  let ?h = "demo_host (quiet_service\<lparr>bm_GetAbilityInfo := (\<lambda>b n s. (if n = ''Main'' then Some demo_ability else None, s))\<rparr>) (AbilityInfo_to_json demo_ability)"
  have "ability_answers_ok ?h" "ok_ability (ho_json ?h) demo_ability"
    by (simp_all add: ability_answers_ok_def answers_ok_def quiet_service_def demo_wf)
  from ability_queries_over_ipc [OF this] show ?thesis by simp
qed

text \<open>Forms, shortcuts, events and launch wants.\<close>

theorem other_queries_over_ipc:
  assumes "other_answers_ok h"
  shows "(\<forall>bundleName s. Proxy_GetLaunchWantForBundle (client_of (wide h)) bundleName s =
        Some (if bundleName = [] then (None, s) else bm_GetLaunchWantForBundle (ho_service h) bundleName s)) \<and>
    (\<forall>infos s. Proxy_GetAllFormsInfo (client_of (wide h)) infos s =
        Some (apfst (map_option (\<lambda>vs. infos @ vs)) (bm_GetAllFormsInfo (ho_service h) s))) \<and>
    (\<forall>bundleName infos s. Proxy_GetFormsInfoByApp (client_of (wide h)) bundleName infos s =
        Some (if bundleName = [] then (None, s)
            else apfst (map_option (\<lambda>vs. infos @ vs)) (bm_GetFormsInfoByApp (ho_service h) bundleName s))) \<and>
    (\<forall>bundleName moduleName infos s. Proxy_GetFormsInfoByModule (client_of (wide h)) bundleName moduleName infos s =
        Some (if bundleName = [] \<or> moduleName = [] then (None, s)
            else apfst (map_option (\<lambda>vs. infos @ vs)) (bm_GetFormsInfoByModule (ho_service h) bundleName moduleName s))) \<and>
    (\<forall>bundleName infos s. Proxy_GetShortcutInfos (client_of (wide h)) bundleName infos s =
        Some (if bundleName = [] then (None, s)
            else apfst (map_option (\<lambda>vs. infos @ vs)) (bm_GetShortcutInfos (ho_service h) bundleName s))) \<and>
    (\<forall>eventKey infos s. Proxy_GetAllCommonEventInfo (client_of (wide h)) eventKey infos s =
        Some (if eventKey = [] then (None, s)
            else apfst (map_option (\<lambda>vs. infos @ vs)) (bm_GetAllCommonEventInfo (ho_service h) eventKey s)))"
  using assms unfolding other_answers_ok_def
  by (simp add:
      wide.GetLaunchWantForBundle_link
      wide.GetAllFormsInfo_link
      wide.GetFormsInfoByApp_link
      wide.GetFormsInfoByModule_link
      wide.GetShortcutInfos_link
      wide.GetAllCommonEventInfo_link
      del: One_nat_def)

text \<open>
  C33: A list of bundle infos that travels in shared memory arrives with every member that the JSON form
  keeps, after the elements that the caller's vector already had. An empty list is refused by the host, so
  the call fails although the service succeeded.
\<close>

theorem bundle_infos_over_ashmem:
  assumes "answers_ok (in_ashmem h wf_BundleInfo BundleInfo_to_json) (bm_GetBundleInfos (ho_service h) flag userId s)"
  shows "Proxy_GetBundleInfos (client_of (wide h)) flag userId infos s =
    Some (case bm_GetBundleInfos (ho_service h) flag userId s of
            (Some (v # vs), s1) \<Rightarrow> (Some (infos @ map kept_BundleInfo (v # vs)), s1)
          | (_, s1) \<Rightarrow> (None, s1))"
proof -
  have "answers_ok (in_ashmem (wide h) wf_BundleInfo BundleInfo_to_json)
      (bm_GetBundleInfos (ho_service (wide h)) flag userId s)"
    using assms by (simp add: answers_ok_def split: option.splits)
  from wide.GetBundleInfos_link [OF this] show ?thesis
    by (cases "bm_GetBundleInfos (ho_service h) flag userId s") (simp split: option.split list.split)
qed

theorem bundle_infos_over_ashmem_witness:
  "Proxy_GetBundleInfos
     (client_of (wide (demo_host (quiet_service\<lparr>bm_GetBundleInfos := (\<lambda>f u s. (Some [demo_bundle, demo_bundle], s))\<rparr>)
       (BundleInfo_to_json demo_bundle)))) 0 100 [] 7 =
   Some (Some [kept_BundleInfo demo_bundle, kept_BundleInfo demo_bundle], 7)"
proof -
  let ?h = "demo_host (quiet_service\<lparr>bm_GetBundleInfos := (\<lambda>f u s. (Some [demo_bundle, demo_bundle], s))\<rparr>)
    (BundleInfo_to_json demo_bundle)"
  have "answers_ok (in_ashmem ?h wf_BundleInfo BundleInfo_to_json) (bm_GetBundleInfos (ho_service ?h) 0 100 7)"
    by (simp add: answers_ok_def in_ashmem_def demo_wf) (simp add: demo_host_def carriable_def ashmem_total_def ASHMEM_LEN_def)
  from bundle_infos_over_ashmem [OF this, of "[]"] show ?thesis by simp
qed

section \<open>Changes and values\<close>

text \<open>
  The operations that change the state of the service (data cleared, applications and abilities enabled,
  modules marked, clones made and removed) have through the proxy the result and the effect that they have
  in the service; an empty name is refused without a request.
\<close>

theorem changes_over_ipc:
  assumes "ok_ability (ho_json h) abilityInfo"
  shows "(\<forall>bundleName userId s. Proxy_CleanBundleDataFiles (client_of (wide h)) bundleName userId s =
        Some (if bundleName = [] then (False, s) else bm_CleanBundleDataFiles (ho_service h) bundleName userId s)) \<and>
    (\<forall>s. Proxy_UnregisterBundleStatusCallback (client_of (wide h)) s =
        Some (bm_UnregisterBundleStatusCallback (ho_service h) s)) \<and>
    (\<forall>bundleName isEnable userId s. Proxy_SetApplicationEnabled (client_of (wide h)) bundleName isEnable userId s =
        Some (if bundleName = [] then (False, s)
            else bm_SetApplicationEnabled (ho_service h) bundleName isEnable userId s)) \<and>
    (\<forall>isEnabled userId s. Proxy_SetAbilityEnabled (client_of (wide h)) abilityInfo isEnabled userId s =
        Some (if ai_name abilityInfo = [] then (False, s)
            else bm_SetAbilityEnabled (ho_service h) (kept_AbilityInfo abilityInfo) isEnabled userId s)) \<and>
    (\<forall>bundleName s. Proxy_BundleClone (client_of (wide h)) bundleName s =
        Some (if bundleName = [] then (False, s) else bm_BundleClone (ho_service h) bundleName s)) \<and>
    (\<forall>bundleName uid s. Proxy_RemoveClonedBundle (client_of (wide h)) bundleName uid s =
        Some (if bundleName = [] then (False, s) else bm_RemoveClonedBundle (ho_service h) bundleName uid s)) \<and>
    (\<forall>bundleName moduleName isEnable s. Proxy_SetModuleRemovable (client_of (wide h)) bundleName moduleName isEnable s =
        Some (if bundleName = [] \<or> moduleName = [] then (False, s)
            else bm_SetModuleRemovable (ho_service h) bundleName moduleName isEnable s)) \<and>
    (\<forall>bundleName moduleName upgradeFlag s. Proxy_SetModuleUpgradeFlag (client_of (wide h)) bundleName moduleName upgradeFlag s =
        Some (if bundleName = [] \<or> moduleName = [] then (False, s)
            else bm_SetModuleUpgradeFlag (ho_service h) bundleName moduleName upgradeFlag s))"
  using assms by (simp add:
      wide.CleanBundleDataFiles_link
      wide.UnregisterBundleStatusCallback_link
      wide.SetApplicationEnabled_link
      wide.SetAbilityEnabled_link
      wide.BundleClone_link
      wide.RemoveClonedBundle_link
      wide.SetModuleRemovable_link
      wide.SetModuleUpgradeFlag_link
      del: One_nat_def)

theorem changes_over_ipc_witness:
  "Proxy_SetAbilityEnabled
     (client_of (wide (demo_host (quiet_service\<lparr>bm_SetAbilityEnabled := (\<lambda>a b u s. (True, s + 1))\<rparr>)
       (AbilityInfo_to_json demo_ability)))) demo_ability False 100 4 = Some (True, 5)"
proof -
  let ?h = "demo_host (quiet_service\<lparr>bm_SetAbilityEnabled := (\<lambda>a b u s. (True, s + 1))\<rparr>) (AbilityInfo_to_json demo_ability)"
  have "ok_ability (ho_json ?h) demo_ability" by (simp add: demo_wf)
  from changes_over_ipc [OF this] show ?thesis by (simp add: demo_ability_def)
qed

text \<open>Operations that give a value, a name or an object.\<close>

theorem values_over_ipc:
  assumes "ok_ability (ho_json h) abilityInfo"
  shows "(\<forall>uid s. Proxy_GetBundleNameForUid (client_of (wide h)) uid s =
        Some (bm_GetBundleNameForUid (ho_service h) uid s)) \<and>
    (\<forall>uid s. Proxy_GetBundlesForUid (client_of (wide h)) uid s =
        Some (bm_GetBundlesForUid (ho_service h) uid s)) \<and>
    (\<forall>uid s. Proxy_GetNameForUid (client_of (wide h)) uid s =
        Some (bm_GetNameForUid (ho_service h) uid s)) \<and>
    (\<forall>bundleName s. Proxy_GetBundleGids (client_of (wide h)) bundleName s =
        Some (bm_GetBundleGids (ho_service h) bundleName s)) \<and>
    (\<forall>bundleName uid s. Proxy_GetBundleGidsByUid (client_of (wide h)) bundleName uid s =
        Some (bm_GetBundleGidsByUid (ho_service h) bundleName uid s)) \<and>
    (\<forall>bundleName abilityName s. Proxy_GetAbilityLabel (client_of (wide h)) bundleName abilityName s =
        Some (if bundleName = [] \<or> abilityName = [] then ([], s)
            else bm_GetAbilityLabel (ho_service h) bundleName abilityName s)) \<and>
    (\<forall>bundleName moduleName abilityName s. Proxy_GetAbilityLabelWithModuleName (client_of (wide h)) bundleName moduleName abilityName s =
        Some (if bundleName = [] \<or> moduleName = [] \<or> abilityName = [] then ([], s)
            else bm_GetAbilityLabelWithModuleName (ho_service h) bundleName moduleName abilityName s)) \<and>
    (\<forall>uid s. Proxy_CheckIsSystemAppByUid (client_of (wide h)) uid s =
        Some (bm_CheckIsSystemAppByUid (ho_service h) uid s)) \<and>
    (\<forall>firstBundleName secondBundleName s. Proxy_CheckPublicKeys (client_of (wide h)) firstBundleName secondBundleName s =
        Some (if firstBundleName = [] \<or> secondBundleName = [] then (SIGNATURE_UNKNOWN_BUNDLE, s)
            else bm_CheckPublicKeys (ho_service h) firstBundleName secondBundleName s)) \<and>
    (\<forall>capName s. Proxy_HasSystemCapability (client_of (wide h)) capName s =
        Some (if capName = [] then (False, s) else bm_HasSystemCapability (ho_service h) capName s)) \<and>
    (\<forall>s. Proxy_IsSafeMode (client_of (wide h)) s =
        Some (bm_IsSafeMode (ho_service h) s)) \<and>
    (\<forall>flag bundleName userId result s. Proxy_DumpInfos (client_of (wide h)) flag bundleName userId result s =
        Some (apfst (map_option (\<lambda>r. result @ r)) (bm_DumpInfos (ho_service h) flag bundleName userId s))) \<and>
    (\<forall>bundleName s. Proxy_IsApplicationEnabled (client_of (wide h)) bundleName s =
        Some (if bundleName = [] then (False, s) else bm_IsApplicationEnabled (ho_service h) bundleName s)) \<and>
    (\<forall>s. Proxy_IsAbilityEnabled (client_of (wide h)) abilityInfo s =
        Some (if ai_name abilityInfo = [] then (False, s)
            else bm_IsAbilityEnabled (ho_service h) (kept_AbilityInfo abilityInfo) s)) \<and>
    (\<forall>bundleName abilityName s. Proxy_GetAbilityPixelMapIcon (client_of (wide h)) bundleName abilityName s =
        Some (if bundleName = [] \<or> abilityName = [] then (None, s)
            else bm_GetAbilityPixelMapIcon (ho_service h) bundleName abilityName s)) \<and>
    (\<forall>bundleName moduleName abilityName s. Proxy_GetAbilityPixelMapIconWithModuleName (client_of (wide h)) bundleName moduleName abilityName s =
        Some (if bundleName = [] \<or> moduleName = [] \<or> abilityName = [] then (None, s)
            else bm_GetAbilityPixelMapIconWithModuleName (ho_service h) bundleName moduleName abilityName s)) \<and>
    (\<forall>s. Proxy_GetBundleInstaller (client_of (wide h)) s =
        Some (apfst (\<lambda>x. Option.bind x (px_iface_cast (client_of (wide h))))
            (bm_GetBundleInstaller (ho_service h) s))) \<and>
    (\<forall>s. Proxy_GetBundleUserMgr (client_of (wide h)) s =
        Some (apfst (\<lambda>x. Option.bind x (px_iface_cast (client_of (wide h))))
            (bm_GetBundleUserMgr (ho_service h) s))) \<and>
    (\<forall>bundleName userId s. Proxy_GetAppPrivilegeLevel (client_of (wide h)) bundleName userId s =
        Some (if bundleName = [] then ([], s) else bm_GetAppPrivilegeLevel (ho_service h) bundleName userId s)) \<and>
    (\<forall>permission s. Proxy_VerifyCallingPermission (client_of (wide h)) permission s =
        Some (bm_VerifyCallingPermission (ho_service h) permission s)) \<and>
    (\<forall>userId s. Proxy_GetAccessibleAppCodePaths (client_of (wide h)) userId s =
        Some (bm_GetAccessibleAppCodePaths (ho_service h) userId s)) \<and>
    (\<forall>bundleName userId s. Proxy_GetAppIdByBundleName (client_of (wide h)) bundleName userId s =
        Some (if bundleName = [] then ([], s) else bm_GetAppIdByBundleName (ho_service h) bundleName userId s)) \<and>
    (\<forall>bundleName s. Proxy_GetAppType (client_of (wide h)) bundleName s =
        Some (if bundleName = [] then ([], s) else bm_GetAppType (ho_service h) bundleName s)) \<and>
    (\<forall>bundleName userId s. Proxy_GetUidByBundleName (client_of (wide h)) bundleName userId s =
        Some (if bundleName = [] then (INVALID_UID, s) else bm_GetUidByBundleName (ho_service h) bundleName userId s)) \<and>
    (\<forall>bundleName moduleName s. Proxy_IsModuleRemovable (client_of (wide h)) bundleName moduleName s =
        Some (if bundleName = [] \<or> moduleName = [] then (False, s)
            else bm_IsModuleRemovable (ho_service h) bundleName moduleName s)) \<and>
    (\<forall>bundleName moduleName s. Proxy_GetModuleUpgradeFlag (client_of (wide h)) bundleName moduleName s =
        Some (if bundleName = [] \<or> moduleName = [] then (False, s)
            else bm_GetModuleUpgradeFlag (ho_service h) bundleName moduleName s)) \<and>
    (\<forall>bundleName moduleName s. Proxy_GetAllDependentModuleNames (client_of (wide h)) bundleName moduleName s =
        Some (if bundleName = [] \<or> moduleName = [] then (None, s)
            else bm_GetAllDependentModuleNames (ho_service h) bundleName moduleName s))"
  using assms by (simp add:
      wide.GetBundleNameForUid_link
      wide.GetBundlesForUid_link
      wide.GetNameForUid_link
      wide.GetBundleGids_link
      wide.GetBundleGidsByUid_link
      wide.GetAbilityLabel_link
      wide.GetAbilityLabelWithModuleName_link
      wide.CheckIsSystemAppByUid_link
      wide.CheckPublicKeys_link
      wide.HasSystemCapability_link
      wide.IsSafeMode_link
      wide.DumpInfos_link
      wide.IsApplicationEnabled_link
      wide.IsAbilityEnabled_link
      wide.GetAbilityPixelMapIcon_link
      wide.GetAbilityPixelMapIconWithModuleName_link
      wide.GetBundleInstaller_link
      wide.GetBundleUserMgr_link
      wide.GetAppPrivilegeLevel_link
      wide.VerifyCallingPermission_link
      wide.GetAccessibleAppCodePaths_link
      wide.GetAppIdByBundleName_link
      wide.GetAppType_link
      wide.GetUidByBundleName_link
      wide.IsModuleRemovable_link
      wide.GetModuleUpgradeFlag_link
      wide.GetAllDependentModuleNames_link
      del: One_nat_def)

text \<open>Callbacks.\<close>

theorem callbacks_over_ipc:
  assumes "ho_iface_cast h = Some"
  shows "(\<forall>bundleName callback userId s. Proxy_CleanBundleCacheFiles (client_of (wide h)) bundleName callback userId s =
        Some (if bundleName = [] \<or> callback = None then (False, s)
              else bm_CleanBundleCacheFiles (ho_service h) bundleName callback userId s)) \<and>
    (\<forall>bundleName callback s. Proxy_RegisterBundleStatusCallback (client_of (wide h)) (Some (bundleName, callback)) s =
        Some (if bundleName = [] then (False, s)
            else bm_RegisterBundleStatusCallback (ho_service h) bundleName callback s)) \<and>
    (\<forall>bundleName callback s. Proxy_ClearBundleStatusCallback (client_of (wide h)) (Some (bundleName, callback)) s =
        Some (bm_ClearBundleStatusCallback (ho_service h) (Some callback) s))"
proof -
  have cast: "ho_iface_cast (wide h) x = Some x" for x by (simp add: assms)
  show ?thesis
    by (auto simp: Proxy_CleanBundleCacheFiles_def Proxy_RegisterBundleStatusCallback_def Proxy_ClearBundleStatusCallback_def
        wide.sent wide.bool_link [OF request_CleanBundleCacheFiles] wide.bool_link [OF request_ClearBundleStatusCallback]
        wide.bool_link [OF request_RegisterBundleStatusCallback [OF cast]] assms)
qed

section \<open>Calls that do not reach their operation\<close>

text \<open>
  Asking whether a bundle name is in the allow list sends the request that clones the bundle: the
  answer is that of the cloning, and the clone is made.
\<close>

theorem allow_list_check_clones:
  "Proxy_CheckBundleNameInAllowList (client_of (wide h)) bundleName s =
     Some (if bundleName = [] then (False, s) else bm_BundleClone (ho_service h) bundleName s)"
  by (simp add: Proxy_CheckBundleNameInAllowList_def wide.sent wide.bool_link [OF request_BundleClone])

text \<open>
  The request for a permission's definition is handled as one for an ability's label: the reply holds a
  string, which the proxy reads as a truth value.
\<close>

lemma read_bool_of_string: "ReadBool k (IString t # p) = None"
  by (simp add: ReadBool_def read_item_def)

theorem permission_definition_misread:
  "permissionName \<noteq> [] \<Longrightarrow> Proxy_GetPermissionDef (client_of (wide h)) permissionName s = None"
proof -
  note rec = wide.received [where h = h, OF request_GET_PERMISSION_DEF [where h = "wide h", unfolded reply_value_def]]
  show "permissionName \<noteq> [] \<Longrightarrow> ?thesis"
    by (simp add: Proxy_GetPermissionDef_def wide.sent GetParcelableInfo_def get_if_true_def rec read_bool_of_string)
qed

text \<open>The host writes a truth value before the list of capabilities; the proxy does not read it.\<close>

theorem capabilities_misread:
  "Proxy_GetSystemAvailableCapabilities (client_of (wide h)) s = None"
proof -
  note rec = wide.received [where h = h, OF request_GetSystemAvailableCapabilities [where h = "wide h", unfolded reply_info_def]]
  show ?thesis
    by (simp add: Proxy_GetSystemAvailableCapabilities_def wide.sent rec ReadStringVector_def read_item_def
        split: option.split)
qed

text \<open>An upgrade of an atomic service is not requested.\<close>

theorem upgrade_not_sent: "Proxy_UpgradeAtomicService c want userId s = Some s"
  by (simp add: Proxy_UpgradeAtomicService_def with_data_def split: option.split)

end
