(* ===== verification/Bundle_Permission.thy ===== *)
theory Bundle_Permission
  imports Inner_Bundle_Info Ipc_Structs
begin

text \<open>
  \<open>BundlePermissionMgr\<close> (\<open>bundle_permission_mgr.cpp\<close>): what the bundle manager asks the access token
  service for. The service (\<open>AccessTokenKit\<close>) belongs to another repository: its answers are the record
  \<open>access_token_kit\<close>, and the calls that change it are recorded in order. An answer may depend on how many
  such calls were made before. Its enumerators are numbers that the record names.
\<close>

section \<open>The access token service\<close>

record acc_permission_def =
  ad_permissionName :: string
  ad_bundleName :: string
  ad_grantMode :: int
  ad_availableLevel :: int
  ad_provisionEnable :: bool
  ad_distributedSceneEnable :: bool
  ad_label :: string
  ad_labelId :: int
  ad_description :: string
  ad_descriptionId :: int

record permission_state_full =
  ps_permissionName :: string
  ps_isGeneral :: bool
  ps_resDeviceID :: "string list"
  ps_grantStatus :: "int list"
  ps_grantFlags :: "int list"

record hap_info_params =
  hp_userID :: int
  hp_bundleName :: string
  hp_instIndex :: int
  hp_dlpType :: int
  hp_appIDDesc :: string

record hap_policy_params =
  hl_apl :: int
  hl_domain :: string
  hl_permList :: "acc_permission_def list"
  hl_permStateList :: "permission_state_full list"

datatype token_call =
    AllocHapToken hap_info_params hap_policy_params
  | UpdateHapToken u32 string hap_policy_params
  | DeleteToken u32
  | ClearUserGranted u32
  | GrantPermission_call u32 string int

record access_token_kit =
  tk_APL_NORMAL :: int
  tk_APL_SYSTEM_BASIC :: int
  tk_APL_SYSTEM_CORE :: int
  tk_SYSTEM_GRANT :: int
  tk_USER_GRANT :: int
  tk_PERMISSION_DENIED :: int
  tk_DEFAULT_FLAG :: int
  tk_SYSTEM_FIXED :: int
  tk_RET_SUCCESS :: int
  tk_alloc :: "nat \<Rightarrow> u32"
  tk_ret :: "nat \<Rightarrow> token_call \<Rightarrow> int"
  tk_GetDefPermissions :: "nat \<Rightarrow> u32 \<Rightarrow> acc_permission_def list option"
  tk_GetDefPermission :: "nat \<Rightarrow> string \<Rightarrow> acc_permission_def option"
  tk_GetReqPermissions :: "nat \<Rightarrow> u32 \<Rightarrow> bool \<Rightarrow> permission_state_full list option"
  tk_VerifyAccessToken :: "nat \<Rightarrow> u32 \<Rightarrow> string \<Rightarrow> int"
  tk_is_native :: "u32 \<Rightarrow> bool"
  tk_GetHapTokenID :: "nat \<Rightarrow> int \<Rightarrow> string \<Rightarrow> int \<Rightarrow> u32"

text \<open>A call that changes the service gives its return value and is added to the calls.\<close>

definition tk_do :: "access_token_kit \<Rightarrow> token_call \<Rightarrow> token_call list \<Rightarrow> int \<times> token_call list" where
  "tk_do kit c cs = (tk_ret kit (length cs) c, cs @ [c])"

section \<open>Default permissions\<close>

record permission_info =
  pf_name :: string
  pf_userCancellable :: bool

record default_permission =
  df_bundleName :: string
  df_grantPermission :: "permission_info list"

type_synonym default_table = "(string, (string, bool) smap) smap"

text \<open>\<open>parsed\<close> is the outcome of \<open>ParseDefaultPermission\<close>. When it fails the old table stays.\<close>

definition permission_Init :: "default_permission list option \<Rightarrow> default_table \<Rightarrow> bool \<times> default_table" where
  "permission_Init parsed tbl =
     (case parsed of
        None \<Rightarrow> (False, tbl)
      | Some ps \<Rightarrow>
          (True, sm_emplace_all
             (map (\<lambda>p. (df_bundleName p,
                sm_emplace_all (map (\<lambda>f. (pf_name f, pf_userCancellable f)) (df_grantPermission p)) [])) ps) []))"

definition CheckPermissionInDefaultPermissions :: "default_table \<Rightarrow> string \<Rightarrow> string \<Rightarrow> bool option" where
  "CheckPermissionInDefaultPermissions tbl bundleName permissionName =
     (case map_of tbl bundleName of None \<Rightarrow> None | Some info \<Rightarrow> map_of info permissionName)"

section \<open>Policies\<close>

definition AVAILABLELEVEL_SYSTEM_BASIC :: string where "AVAILABLELEVEL_SYSTEM_BASIC = ''system_basic''"
definition AVAILABLELEVEL_SYSTEM_CORE :: string where "AVAILABLELEVEL_SYSTEM_CORE = ''system_core''"

definition GetTokenApl :: "access_token_kit \<Rightarrow> string \<Rightarrow> int" where
  "GetTokenApl kit apl =
     (if apl = AVAILABLELEVEL_SYSTEM_CORE then tk_APL_SYSTEM_CORE kit
      else if apl = AVAILABLELEVEL_SYSTEM_BASIC then tk_APL_SYSTEM_BASIC kit
      else tk_APL_NORMAL kit)"

text \<open>The two overloads of \<open>ConvertPermissionDef\<close>; the first leaves the available scope as it was.\<close>

definition ConvertPermissionDef :: "acc_permission_def \<Rightarrow> permission_def \<Rightarrow> permission_def" where
  "ConvertPermissionDef d out =
     out\<lparr>pd_permissionName := ad_permissionName d, pd_bundleName := ad_bundleName d, pd_grantMode := ad_grantMode d,
         pd_availableLevel := ad_availableLevel d, pd_provisionEnable := ad_provisionEnable d,
         pd_distributedSceneEnable := ad_distributedSceneEnable d, pd_label := ad_label d, pd_labelId := ad_labelId d,
         pd_description := ad_description d, pd_descriptionId := ad_descriptionId d\<rparr>"

definition ConvertDefinePermission :: "access_token_kit \<Rightarrow> define_permission \<Rightarrow> string \<Rightarrow> acc_permission_def" where
  "ConvertDefinePermission kit p bundleName =
     \<lparr>ad_permissionName = dp_name p, ad_bundleName = bundleName,
      ad_grantMode = (if dp_grantMode p = ''system_grant'' then tk_SYSTEM_GRANT kit else tk_USER_GRANT kit),
      ad_availableLevel = GetTokenApl kit (dp_availableLevel p), ad_provisionEnable = dp_provisionEnable p,
      ad_distributedSceneEnable = dp_distributedSceneEnable p, ad_label = dp_label p, ad_labelId = dp_labelId p,
      ad_description = dp_description p, ad_descriptionId = dp_descriptionId p\<rparr>"

definition GetPermissionDefList :: "access_token_kit \<Rightarrow> inner_bundle_info \<Rightarrow> acc_permission_def list" where
  "GetPermissionDefList kit i = map (\<lambda>p. ConvertDefinePermission kit p (GetBundleName i)) (GetAllDefinePermissions i)"

definition GetPermissionStateFullList :: "access_token_kit \<Rightarrow> inner_bundle_info \<Rightarrow> permission_state_full list" where
  "GetPermissionStateFullList kit i =
     map (\<lambda>r. \<lparr>ps_permissionName = rp_name r, ps_isGeneral = True,
               ps_resDeviceID = [app_deviceId (ib_baseApplicationInfo i)],
               ps_grantStatus = [tk_PERMISSION_DENIED kit], ps_grantFlags = [tk_DEFAULT_FLAG kit]\<rparr>)
       (GetAllRequestPermissions i)"

definition hap_policy ::
  "access_token_kit \<Rightarrow> string \<Rightarrow> acc_permission_def list \<Rightarrow> permission_state_full list \<Rightarrow> hap_policy_params" where
  "hap_policy kit apl defs states =
     \<lparr>hl_apl = GetTokenApl kit apl, hl_domain = ''domain'', hl_permList = defs, hl_permStateList = states\<rparr>"

definition CreateHapPolicyParam :: "access_token_kit \<Rightarrow> inner_bundle_info \<Rightarrow> hap_policy_params" where
  "CreateHapPolicyParam kit i =
     hap_policy kit (app_appPrivilegeLevel (ib_baseApplicationInfo i)) (GetPermissionDefList kit i)
       (GetPermissionStateFullList kit i)"

definition CreateAccessTokenId ::
  "access_token_kit \<Rightarrow> inner_bundle_info \<Rightarrow> string \<Rightarrow> int \<Rightarrow> int \<Rightarrow> token_call list \<Rightarrow> u32 \<times> token_call list" where
  "CreateAccessTokenId kit i bundleName userId dlpType cs =
     (let hapInfo = \<lparr>hp_userID = userId, hp_bundleName = bundleName, hp_instIndex = ib_appIndex i,
                     hp_dlpType = dlpType, hp_appIDDesc = bi_appId (ib_baseBundleInfo i)\<rparr>
      in (tk_alloc kit (length cs), cs @ [AllocHapToken hapInfo (CreateHapPolicyParam kit i)]))"

section \<open>Updating a token\<close>

text \<open>The token's own list, extended by the elements whose name it does not have.\<close>

fun add_missing :: "('a \<Rightarrow> string) \<Rightarrow> 'a list \<Rightarrow> 'a list \<Rightarrow> 'a list \<times> string list" where
  "add_missing name [] cur = (cur, [])"
| "add_missing name (p # ps) cur =
     (if find (\<lambda>q. name q = name p) cur = None
      then (case add_missing name ps (cur @ [p]) of (all, added) \<Rightarrow> (all, name p # added))
      else add_missing name ps cur)"

definition GetNewPermissionDefList ::
  "access_token_kit \<Rightarrow> u32 \<Rightarrow> acc_permission_def list \<Rightarrow> token_call list \<Rightarrow> acc_permission_def list option" where
  "GetNewPermissionDefList kit tokenId defs cs =
     map_option (\<lambda>cur. fst (add_missing ad_permissionName defs cur)) (tk_GetDefPermissions kit (length cs) tokenId)"

definition GetAllReqPermissionStateFull ::
  "access_token_kit \<Rightarrow> u32 \<Rightarrow> token_call list \<Rightarrow> permission_state_full list option" where
  "GetAllReqPermissionStateFull kit tokenId cs =
     (case tk_GetReqPermissions kit (length cs) tokenId False of
        None \<Rightarrow> None
      | Some userGrant \<Rightarrow>
          map_option (\<lambda>systemGrant. userGrant @ systemGrant) (tk_GetReqPermissions kit (length cs) tokenId True))"

definition GetNewPermissionStateFull ::
  "access_token_kit \<Rightarrow> u32 \<Rightarrow> permission_state_full list \<Rightarrow> token_call list
     \<Rightarrow> (permission_state_full list \<times> string list) option" where
  "GetNewPermissionStateFull kit tokenId states cs =
     map_option (add_missing ps_permissionName states) (GetAllReqPermissionStateFull kit tokenId cs)"

definition names_gone :: "string list \<Rightarrow> string list \<Rightarrow> string list" where
  "names_gone old new = filter (\<lambda>n. n \<notin> set new) old"

definition GetNeedDeleteDefinePermissionName :: "inner_bundle_info \<Rightarrow> inner_bundle_info \<Rightarrow> string list" where
  "GetNeedDeleteDefinePermissionName old new =
     names_gone (map dp_name (GetAllDefinePermissions old)) (map dp_name (GetAllDefinePermissions new))"

definition GetNeedDeleteRequestPermissionName :: "inner_bundle_info \<Rightarrow> inner_bundle_info \<Rightarrow> string list" where
  "GetNeedDeleteRequestPermissionName old new =
     names_gone (map rp_name (GetAllRequestPermissions old)) (map rp_name (GetAllRequestPermissions new))"

fun delete_named :: "('a \<Rightarrow> string) \<Rightarrow> string list \<Rightarrow> 'a list \<Rightarrow> 'a list" where
  "delete_named name [] ps = ps"
| "delete_named name (n # ns) ps = delete_named name ns (erase_first (\<lambda>p. name p = n) ps)"

text \<open>
  \<open>AddDefineAndRequestPermissions\<close> and \<open>Perm_UpdateDefineAndRequestPermissions\<close>, with the names of the newly
  requested permissions, which are an output even when the update of the token fails.
\<close>

definition AddDefineAndRequestPermissions ::
  "access_token_kit \<Rightarrow> u32 \<Rightarrow> inner_bundle_info \<Rightarrow> token_call list \<Rightarrow> bool \<times> string list \<times> token_call list" where
  "AddDefineAndRequestPermissions kit tokenId i cs =
     (case GetNewPermissionDefList kit tokenId (GetPermissionDefList kit i) cs of
        None \<Rightarrow> (False, [], cs)
      | Some defs \<Rightarrow>
          (case GetNewPermissionStateFull kit tokenId (GetPermissionStateFullList kit i) cs of
             None \<Rightarrow> (False, [], cs)
           | Some (states, added) \<Rightarrow>
               (case tk_do kit (UpdateHapToken tokenId (bi_appId (ib_baseBundleInfo i))
                       (hap_policy kit (app_appPrivilegeLevel (ib_baseApplicationInfo i)) defs states)) cs of
                  (ret, cs1) \<Rightarrow> (ret = tk_RET_SUCCESS kit, added, cs1))))"

definition Perm_UpdateDefineAndRequestPermissions ::
  "access_token_kit \<Rightarrow> u32 \<Rightarrow> inner_bundle_info \<Rightarrow> inner_bundle_info \<Rightarrow> token_call list
     \<Rightarrow> bool \<times> string list \<times> token_call list" where
  "Perm_UpdateDefineAndRequestPermissions kit tokenId old new cs =
     (case GetNewPermissionDefList kit tokenId (GetPermissionDefList kit new) cs of
        None \<Rightarrow> (False, [], cs)
      | Some defs \<Rightarrow>
          (case GetNewPermissionStateFull kit tokenId (GetPermissionStateFullList kit new) cs of
             None \<Rightarrow> (False, [], cs)
           | Some (states, added) \<Rightarrow>
               (let defs1 = delete_named ad_permissionName (GetNeedDeleteDefinePermissionName old new) defs;
                    states1 = delete_named ps_permissionName (GetNeedDeleteRequestPermissionName old new) states;
                    (ret, cs1) = tk_do kit (UpdateHapToken tokenId (bi_appId (ib_baseBundleInfo new))
                       (hap_policy kit (app_appPrivilegeLevel (ib_baseApplicationInfo new)) defs1 states1)) cs
                in (ret = tk_RET_SUCCESS kit, added, cs1))))"

definition DeleteAccessTokenId :: "access_token_kit \<Rightarrow> u32 \<Rightarrow> token_call list \<Rightarrow> int \<times> token_call list" where
  "DeleteAccessTokenId kit tokenId = tk_do kit (DeleteToken tokenId)"

definition ClearUserGrantedPermissionState ::
  "access_token_kit \<Rightarrow> u32 \<Rightarrow> token_call list \<Rightarrow> int \<times> token_call list" where
  "ClearUserGrantedPermissionState kit tokenId = tk_do kit (ClearUserGranted tokenId)"

section \<open>Granting\<close>

definition CheckGrantPermission :: "access_token_kit \<Rightarrow> acc_permission_def \<Rightarrow> string \<Rightarrow> string list \<Rightarrow> bool" where
  "CheckGrantPermission kit d apl acls =
     (let level = ad_availableLevel d;
          byAcl = ad_provisionEnable d \<and> ad_permissionName d \<in> set acls
      in if level = tk_APL_NORMAL kit then True
         else if level = tk_APL_SYSTEM_BASIC kit then
           (if apl = AVAILABLELEVEL_SYSTEM_BASIC \<or> apl = AVAILABLELEVEL_SYSTEM_CORE then True else byAcl)
         else if level = tk_APL_SYSTEM_CORE kit then
           (if apl = AVAILABLELEVEL_SYSTEM_CORE then True else byAcl)
         else byAcl)"

definition GrantPermission ::
  "access_token_kit \<Rightarrow> u32 \<Rightarrow> string \<Rightarrow> int \<Rightarrow> token_call list \<Rightarrow> bool \<times> token_call list" where
  "GrantPermission kit tokenId permissionName flag cs =
     (case tk_do kit (GrantPermission_call tokenId permissionName flag) cs of
        (ret, cs1) \<Rightarrow> (ret = tk_RET_SUCCESS kit, cs1))"

text \<open>
  The first loop sorts the requested permissions into those the system grants and those the user grants;
  one that is not defined is skipped, one that may not be granted ends the function.
\<close>

fun sort_requests ::
  "access_token_kit \<Rightarrow> nat \<Rightarrow> string \<Rightarrow> string list \<Rightarrow> request_permission list \<Rightarrow> (string list \<times> string list) option" where
  "sort_requests kit t apl acls [] = Some ([], [])"
| "sort_requests kit t apl acls (r # rs) =
     (case tk_GetDefPermission kit t (rp_name r) of
        None \<Rightarrow> sort_requests kit t apl acls rs
      | Some d \<Rightarrow>
          if CheckGrantPermission kit d apl acls then
            map_option (\<lambda>(sys, usr). if ad_grantMode d = tk_SYSTEM_GRANT kit then (rp_name r # sys, usr)
                                     else (sys, rp_name r # usr))
              (sort_requests kit t apl acls rs)
          else None)"

fun grant_all :: "access_token_kit \<Rightarrow> u32 \<Rightarrow> (string \<times> int) list \<Rightarrow> token_call list \<Rightarrow> bool \<times> token_call list" where
  "grant_all kit tokenId [] cs = (True, cs)"
| "grant_all kit tokenId ((n, flag) # ps) cs =
     (case GrantPermission kit tokenId n flag cs of
        (ok, cs1) \<Rightarrow> if ok then grant_all kit tokenId ps cs1 else (False, cs1))"

definition default_grants :: "access_token_kit \<Rightarrow> default_table \<Rightarrow> string \<Rightarrow> string list \<Rightarrow> (string \<times> int) list" where
  "default_grants kit tbl bundleName perms =
     List.map_filter (\<lambda>perm. map_option (\<lambda>userCancellable.
         (perm, if userCancellable then tk_DEFAULT_FLAG kit else tk_SYSTEM_FIXED kit))
       (CheckPermissionInDefaultPermissions tbl bundleName perm)) perms"

definition InnerGrantRequestPermissions ::
  "access_token_kit \<Rightarrow> default_table \<Rightarrow> u32 \<Rightarrow> request_permission list \<Rightarrow> inner_bundle_info \<Rightarrow> token_call list
     \<Rightarrow> bool \<times> token_call list" where
  "InnerGrantRequestPermissions kit tbl tokenId reqPermissions i cs =
     (case sort_requests kit (length cs) (app_appPrivilegeLevel (ib_baseApplicationInfo i)) (ib_allowedAcls i)
             reqPermissions of
        None \<Rightarrow> (False, cs)
      | Some (sys, usr) \<Rightarrow>
          (case grant_all kit tokenId (map (\<lambda>n. (n, tk_SYSTEM_FIXED kit)) sys) cs of
             (False, cs1) \<Rightarrow> (False, cs1)
           | (True, cs1) \<Rightarrow>
               if bi_isPreInstallApp (ib_baseBundleInfo i)
               then grant_all kit tokenId (default_grants kit tbl (GetBundleName i) usr) cs1
               else (True, cs1)))"

definition Perm_GrantRequestPermissions ::
  "access_token_kit \<Rightarrow> default_table \<Rightarrow> inner_bundle_info \<Rightarrow> u32 \<Rightarrow> token_call list \<Rightarrow> bool \<times> token_call list" where
  "Perm_GrantRequestPermissions kit tbl i tokenId cs =
     InnerGrantRequestPermissions kit tbl tokenId (GetAllRequestPermissions i) i cs"

definition GrantNamedPermissions ::
  "access_token_kit \<Rightarrow> default_table \<Rightarrow> inner_bundle_info \<Rightarrow> string list \<Rightarrow> u32 \<Rightarrow> token_call list
     \<Rightarrow> bool \<times> token_call list" where
  "GrantNamedPermissions kit tbl i names tokenId cs =
     (let reqs = GetAllRequestPermissions i
      in InnerGrantRequestPermissions kit tbl tokenId
           (List.map_filter (\<lambda>n. find (\<lambda>r. n = rp_name r) reqs) names) i cs)"

section \<open>Asking\<close>

definition device_status :: "string \<Rightarrow> permission_state_full \<Rightarrow> int list" where
  "device_status deviceId p =
     (case find (\<lambda>(d, _). d = deviceId) (zip (ps_resDeviceID p) (ps_grantStatus p)) of
        None \<Rightarrow> [] | Some (_, st) \<Rightarrow> [st])"

definition PERMISSION_NOT_GRANTED :: int where "PERMISSION_NOT_GRANTED = -1"

definition GetRequestPermissionStates ::
  "access_token_kit \<Rightarrow> token_call list \<Rightarrow> bundle_info \<Rightarrow> bool \<times> bundle_info" where
  "GetRequestPermissionStates kit cs b =
     (if bi_reqPermissions b = [] then (True, b)
      else (case GetAllReqPermissionStateFull kit (app_accessTokenId (bi_applicationInfo b)) cs of
              None \<Rightarrow> (False, b)
            | Some states \<Rightarrow>
                (True, b\<lparr>bi_reqPermissionStates := bi_reqPermissionStates b @
                   concat (map (\<lambda>req. case find (\<lambda>p. ps_permissionName p = req) states of
                       Some p \<Rightarrow> device_status (app_deviceId (bi_applicationInfo b)) p
                     | None \<Rightarrow> [PERMISSION_NOT_GRANTED]) (bi_reqPermissions b))\<rparr>)))"

definition VerifyCallingPermission :: "access_token_kit \<Rightarrow> token_call list \<Rightarrow> u32 \<Rightarrow> string \<Rightarrow> bool" where
  "VerifyCallingPermission kit cs callerToken permissionName =
     (if tk_is_native kit callerToken then True
      else tk_VerifyAccessToken kit (length cs) callerToken permissionName \<noteq> tk_PERMISSION_DENIED kit)"

definition VerifyPermission :: "access_token_kit \<Rightarrow> token_call list \<Rightarrow> string \<Rightarrow> string \<Rightarrow> int \<Rightarrow> int" where
  "VerifyPermission kit cs bundleName permissionName userId =
     tk_VerifyAccessToken kit (length cs) (tk_GetHapTokenID kit (length cs) userId bundleName 0) permissionName"

definition Perm_GetPermissionDef ::
  "access_token_kit \<Rightarrow> token_call list \<Rightarrow> string \<Rightarrow> permission_def \<Rightarrow> permission_def option" where
  "Perm_GetPermissionDef kit cs permissionName out =
     map_option (\<lambda>d. ConvertPermissionDef d out) (tk_GetDefPermission kit (length cs) permissionName)"

end
