(* ===== verification/Bundle_Query.thy ===== *)
theory Bundle_Query
  imports Bundle_Data_Mgr
begin

text \<open>
  The queries of \<open>BundleDataMgr\<close> (\<open>bundle_data_mgr.cpp\<close>). They do not change the state, so a query
  is a function of it. A result object is an \<open>option\<close>, \<open>None\<close> for the answer \<open>false\<close>; a result
  vector that the code appends to is an argument and a result. \<open>c\<close> is the uid of the IPC caller and
  \<open>rx\<close> the regular expression engine of skill matching.
\<close>

definition DATA_ABILITY_URI_SEPARATOR :: string where "DATA_ABILITY_URI_SEPARATOR = ''/''"
definition PARAM_URI_SEPARATOR :: string where "PARAM_URI_SEPARATOR = '':///''"
definition PARAM_URI_SEPARATOR_LEN :: nat where "PARAM_URI_SEPARATOR_LEN = 4"
definition INTENT_ACTION_HOME :: string where "INTENT_ACTION_HOME = ''action.system.home''"
definition INTENT_ENTITY_HOME :: string where "INTENT_ENTITY_HOME = ''entity.system.home''"
definition ROOT_UID :: int where "ROOT_UID = 0"
definition BMS_UID :: int where "BMS_UID = 1000"

section \<open>Which bundle answers\<close>

definition GetInnerBundleInfoWithFlags :: "int \<Rightarrow> string \<Rightarrow> u32 \<Rightarrow> int \<Rightarrow> data_mgr \<Rightarrow> inner_bundle_info option" where
  "GetInnerBundleInfoWithFlags c bundleName flags userId s =
     (let requestUserId = GetUserId c userId s in
      if requestUserId = INVALID_USERID then None
      else if dm_bundleInfos s = [] then None
      else (case map_of (dm_bundleInfos s) bundleName of
              None \<Rightarrow> None
            | Some i \<Rightarrow>
                if IsDisabled i then None
                else if flags AND GET_APPLICATION_INFO_WITH_DISABLE = 0 \<and>
                        \<not> GetApplicationEnabled (GetResponseUserId requestUserId i) i then None
                else Some i))"

section \<open>Abilities\<close>

text \<open>What a query leaves out of an ability unless its flag asks for it.\<close>

definition ability_by_flags :: "u32 \<Rightarrow> ability_info \<Rightarrow> ability_info" where
  "ability_by_flags flags a =
     (let a1 = (if \<not> has_flag flags GET_ABILITY_INFO_WITH_PERMISSION then a\<lparr>ai_permissions := []\<rparr> else a)
      in if \<not> has_flag flags GET_ABILITY_INFO_WITH_METADATA
         then a1\<lparr>ai_metaData := (ai_metaData a1)\<lparr>mt_customizeData := []\<rparr>, ai_metadata := []\<rparr> else a1)"

definition ability_with_app :: "u32 \<Rightarrow> int \<Rightarrow> inner_bundle_info \<Rightarrow> ability_info \<Rightarrow> ability_info" where
  "ability_with_app flags userId i a =
     (if has_flag flags GET_ABILITY_INFO_WITH_APPLICATION
      then a\<lparr>ai_applicationInfo := GetApplicationInfo 0 userId (ai_applicationInfo a) i\<rparr> else a)"

definition ExplicitQueryAbilityInfo ::
  "int \<Rightarrow> string \<Rightarrow> string \<Rightarrow> string \<Rightarrow> u32 \<Rightarrow> int \<Rightarrow> data_mgr \<Rightarrow> ability_info option" where
  "ExplicitQueryAbilityInfo c bundleName moduleName abilityName flags userId s =
     (let requestUserId = GetUserId c userId s in
      if requestUserId = INVALID_USERID then None
      else (case GetInnerBundleInfoWithFlags c bundleName flags requestUserId s of
              None \<Rightarrow> None
            | Some i \<Rightarrow>
                (let responseUserId = GetResponseUserId requestUserId i in
                 case FindAbilityInfo bundleName moduleName abilityName responseUserId i of
                   None \<Rightarrow> None
                 | Some a \<Rightarrow>
                     if has_flag flags GET_ABILITY_INFO_SYSTEMAPP_ONLY \<and> \<not> IsSystemApp i then None
                     else if flags AND GET_ABILITY_INFO_WITH_DISABLE = 0 \<and> \<not> IsAbilityEnabled a responseUserId i then None
                     else Some (ability_with_app flags responseUserId i (ability_by_flags flags a)))))"

text \<open>The loop over the skills of one ability: a disabled ability goes on to its next skill.\<close>

fun match_skills ::
  "regex_engine \<Rightarrow> int \<Rightarrow> want \<Rightarrow> u32 \<Rightarrow> inner_bundle_info \<Rightarrow> int \<Rightarrow> data_mgr \<Rightarrow> ability_info \<Rightarrow> skill list
     \<Rightarrow> ability_info option" where
  "match_skills rx c w flags i userId s a [] = None"
| "match_skills rx c w flags i userId s a (k # ks) =
     (if Match rx k w then
        (if flags AND GET_ABILITY_INFO_WITH_DISABLE = 0 \<and> \<not> IsAbilityEnabled a (GetUserId c userId s) i
         then match_skills rx c w flags i userId s a ks
         else Some (ability_by_flags flags (ability_with_app flags userId i a)))
      else match_skills rx c w flags i userId s a ks)"

definition GetMatchAbilityInfos ::
  "regex_engine \<Rightarrow> int \<Rightarrow> want \<Rightarrow> u32 \<Rightarrow> inner_bundle_info \<Rightarrow> int \<Rightarrow> data_mgr \<Rightarrow> ability_info list \<Rightarrow> ability_info list" where
  "GetMatchAbilityInfos rx c w flags i userId s as =
     (if has_flag flags GET_ABILITY_INFO_SYSTEMAPP_ONLY \<and> \<not> IsSystemApp i then as
      else as @ List.map_filter (\<lambda>(key, a).
             case map_of (ib_skillInfos i) key of
               None \<Rightarrow> None
             | Some skills \<Rightarrow> match_skills rx c w flags i userId s a skills) (ib_baseAbilityInfos i))"

definition FilterAbilityInfosByModuleName :: "string \<Rightarrow> ability_info list \<Rightarrow> ability_info list" where
  "FilterAbilityInfosByModuleName moduleName as =
     (if moduleName = [] then as else filter (\<lambda>a. ai_moduleName a = moduleName) as)"

definition want_is_empty :: "want \<Rightarrow> bool" where
  "want_is_empty w \<longleftrightarrow> want_action w = [] \<and> want_entities w = [] \<and> want_uri w = [] \<and> want_type w = []"

text \<open>\<open>std::stable_sort\<close> with the larger priority first.\<close>

definition ImplicitQueryAbilityInfos ::
  "regex_engine \<Rightarrow> int \<Rightarrow> want \<Rightarrow> u32 \<Rightarrow> int \<Rightarrow> data_mgr \<Rightarrow> ability_info list \<Rightarrow> ability_info list option" where
  "ImplicitQueryAbilityInfos rx c w flags userId s as =
     (let requestUserId = GetUserId c userId s in
      if requestUserId = INVALID_USERID then None
      else if want_is_empty w then None
      else if dm_bundleInfos s = [] then None
      else map_option (sort_key (\<lambda>a. - ai_priority a))
        (if want_bundleName w \<noteq> [] then
           (case GetInnerBundleInfoWithFlags c (want_bundleName w) flags requestUserId s of
              None \<Rightarrow> None
            | Some i \<Rightarrow> Some (FilterAbilityInfosByModuleName (want_moduleName w)
                (GetMatchAbilityInfos rx c w flags i (GetResponseUserId requestUserId i) s as)))
         else Some (foldl (\<lambda>as (name, _).
                 case GetInnerBundleInfoWithFlags c name flags requestUserId s of
                   None \<Rightarrow> as
                 | Some i \<Rightarrow> GetMatchAbilityInfos rx c w flags i (GetResponseUserId requestUserId i) s as)
               as (dm_bundleInfos s))))"

definition QueryAbilityInfos ::
  "regex_engine \<Rightarrow> int \<Rightarrow> want \<Rightarrow> u32 \<Rightarrow> int \<Rightarrow> data_mgr \<Rightarrow> ability_info list \<Rightarrow> ability_info list option" where
  "QueryAbilityInfos rx c w flags userId s as =
     (let requestUserId = GetUserId c userId s in
      if requestUserId = INVALID_USERID then None
      else if want_bundleName w \<noteq> [] \<and> want_abilityName w \<noteq> [] then
        map_option (\<lambda>a. as @ [a])
          (ExplicitQueryAbilityInfo c (want_bundleName w) (want_moduleName w) (want_abilityName w) flags requestUserId s)
      else (case ImplicitQueryAbilityInfos rx c w flags requestUserId s as of
              None \<Rightarrow> None
            | Some [] \<Rightarrow> None
            | Some found \<Rightarrow> Some found))"

definition QueryAbilityInfo ::
  "regex_engine \<Rightarrow> int \<Rightarrow> want \<Rightarrow> u32 \<Rightarrow> int \<Rightarrow> data_mgr \<Rightarrow> ability_info option" where
  "QueryAbilityInfo rx c w flags userId s =
     (let requestUserId = GetUserId c userId s in
      if requestUserId = INVALID_USERID then None
      else if want_bundleName w \<noteq> [] \<and> want_abilityName w \<noteq> [] then
        ExplicitQueryAbilityInfo c (want_bundleName w) (want_moduleName w) (want_abilityName w) flags requestUserId s
      else (case ImplicitQueryAbilityInfos rx c w flags requestUserId s [] of
              None \<Rightarrow> None
            | Some [] \<Rightarrow> None
            | Some (a # _) \<Rightarrow> Some a))"

definition GetMatchLauncherAbilityInfos ::
  "int \<Rightarrow> want \<Rightarrow> inner_bundle_info \<Rightarrow> int \<Rightarrow> data_mgr \<Rightarrow> ability_info list \<Rightarrow> ability_info list" where
  "GetMatchLauncherAbilityInfos c w i userId s as =
     (let requestUserId = GetUserId c userId s in
      if requestUserId = INVALID_USERID then as
      else as @ List.map_filter (\<lambda>(key, a).
             case map_of (ib_skillInfos i) key of
               None \<Rightarrow> None
             | Some skills \<Rightarrow>
                 if list_ex (\<lambda>k. MatchLauncher k w) skills
                 then Some (a\<lparr>ai_applicationInfo :=
                        GetApplicationInfo 0 (GetResponseUserId requestUserId i) (ai_applicationInfo a) i\<rparr>)
                 else None) (ib_baseAbilityInfos i))"

definition QueryLauncherAbilityInfos ::
  "int \<Rightarrow> want \<Rightarrow> int \<Rightarrow> data_mgr \<Rightarrow> ability_info list \<Rightarrow> ability_info list option" where
  "QueryLauncherAbilityInfos c w userId s as =
     (let requestUserId = GetUserId c userId s in
      if requestUserId = INVALID_USERID then None
      else if dm_bundleInfos s = [] then None
      else if want_bundleName w = [] then
        Some (foldl (\<lambda>as (_, i). if IsDisabled i then as else GetMatchLauncherAbilityInfos c w i requestUserId s as)
                as (dm_bundleInfos s))
      else (case map_of (dm_bundleInfos s) (want_bundleName w) of
              None \<Rightarrow> None
            | Some i \<Rightarrow> Some (FilterAbilityInfosByModuleName (want_moduleName w)
                (GetMatchLauncherAbilityInfos c w i requestUserId s as))))"

text \<open>The part of a data ability URI between the first two separators behind the prefix.\<close>

definition data_ability_uri :: "string \<Rightarrow> string option" where
  "data_ability_uri abilityUri =
     (if abilityUri = [] then None
      else if find_sub DATA_ABILITY_URI_PREFIX abilityUri = None then None
      else (let rest = drop (length DATA_ABILITY_URI_PREFIX) abilityUri in
            case find_sub DATA_ABILITY_URI_SEPARATOR rest of
              None \<Rightarrow> None
            | Some p1 \<Rightarrow>
                (case find_from DATA_ABILITY_URI_SEPARATOR rest (p1 + 1) of
                   None \<Rightarrow> Some (drop (p1 + 1) rest)
                 | Some p2 \<Rightarrow> Some (take (p2 - p1 - 1) (drop (p1 + 1) rest)))))"

fun first_by_uri :: "string \<Rightarrow> int \<Rightarrow> inner_bundle_info list \<Rightarrow> ability_info option" where
  "first_by_uri uri requestUserId [] = None"
| "first_by_uri uri requestUserId (i # is) =
     (let responseUserId = GetResponseUserId requestUserId i in
      if IsDisabled i \<or> \<not> GetApplicationEnabled responseUserId i then first_by_uri uri requestUserId is
      else (case FindAbilityInfoByUri uri i of
              None \<Rightarrow> first_by_uri uri requestUserId is
            | Some a \<Rightarrow> Some (a\<lparr>ai_applicationInfo := GetApplicationInfo 0 responseUserId (ai_applicationInfo a) i\<rparr>)))"

definition QueryAbilityInfoByUri :: "int \<Rightarrow> string \<Rightarrow> int \<Rightarrow> data_mgr \<Rightarrow> ability_info option" where
  "QueryAbilityInfoByUri c abilityUri userId s =
     (let requestUserId = GetUserId c userId s in
      if requestUserId = INVALID_USERID then None
      else (case data_ability_uri abilityUri of
              None \<Rightarrow> None
            | Some uri \<Rightarrow> first_by_uri uri requestUserId (map snd (dm_bundleInfos s))))"

definition QueryAbilityInfosByUri :: "int \<Rightarrow> string \<Rightarrow> data_mgr \<Rightarrow> ability_info list \<Rightarrow> ability_info list option" where
  "QueryAbilityInfosByUri c abilityUri s as =
     (case data_ability_uri abilityUri of
        None \<Rightarrow> None
      | Some uri \<Rightarrow>
          if dm_bundleInfos s = [] then None
          else (let found = as @ concat (map (\<lambda>(_, i). if IsDisabled i then []
                        else FindAbilityInfosByUri uri (GetUserId c UNSPECIFIED_USERID s) i) (dm_bundleInfos s))
                in if found = [] then None else Some found))"

section \<open>Extensions\<close>

definition extension_by_flags :: "u32 \<Rightarrow> extension_ability_info \<Rightarrow> extension_ability_info" where
  "extension_by_flags flags e =
     (let e1 = (if \<not> has_flag flags GET_ABILITY_INFO_WITH_PERMISSION then e\<lparr>ei_permissions := []\<rparr> else e)
      in if \<not> has_flag flags GET_ABILITY_INFO_WITH_METADATA then e1\<lparr>ei_metadata := []\<rparr> else e1)"

definition extension_with_app :: "u32 \<Rightarrow> int \<Rightarrow> inner_bundle_info \<Rightarrow> extension_ability_info \<Rightarrow> extension_ability_info" where
  "extension_with_app flags userId i e =
     (if has_flag flags GET_ABILITY_INFO_WITH_APPLICATION
      then e\<lparr>ei_applicationInfo := GetApplicationInfo 0 userId (ei_applicationInfo e) i\<rparr> else e)"

definition ExplicitQueryExtensionInfo ::
  "int \<Rightarrow> string \<Rightarrow> string \<Rightarrow> string \<Rightarrow> u32 \<Rightarrow> int \<Rightarrow> data_mgr \<Rightarrow> extension_ability_info option" where
  "ExplicitQueryExtensionInfo c bundleName moduleName extensionName flags userId s =
     (let requestUserId = GetUserId c userId s in
      if requestUserId = INVALID_USERID then None
      else (case GetInnerBundleInfoWithFlags c bundleName flags requestUserId s of
              None \<Rightarrow> None
            | Some i \<Rightarrow>
                (case FindExtensionInfo bundleName moduleName extensionName i of
                   None \<Rightarrow> None
                 | Some e \<Rightarrow> Some (extension_with_app flags (GetResponseUserId requestUserId i) i
                     (extension_by_flags flags e)))))"

definition GetMatchExtensionInfos ::
  "regex_engine \<Rightarrow> want \<Rightarrow> u32 \<Rightarrow> int \<Rightarrow> inner_bundle_info \<Rightarrow> extension_ability_info list \<Rightarrow> extension_ability_info list" where
  "GetMatchExtensionInfos rx w flags userId i es =
     es @ List.map_filter (\<lambda>(key, skills).
       if list_ex (\<lambda>k. Match rx k w) skills
       then map_option (\<lambda>e. extension_by_flags flags (extension_with_app flags userId i e))
              (map_of (ib_baseExtensionInfos i) key)
       else None) (ib_extensionSkillInfos i)"

definition FilterExtensionAbilityInfosByModuleName ::
  "string \<Rightarrow> extension_ability_info list \<Rightarrow> extension_ability_info list" where
  "FilterExtensionAbilityInfosByModuleName moduleName es =
     (if moduleName = [] then es else filter (\<lambda>e. ei_moduleName e = moduleName) es)"

definition ImplicitQueryExtensionInfos ::
  "regex_engine \<Rightarrow> int \<Rightarrow> want \<Rightarrow> u32 \<Rightarrow> int \<Rightarrow> data_mgr \<Rightarrow> extension_ability_info list \<Rightarrow> extension_ability_info list option" where
  "ImplicitQueryExtensionInfos rx c w flags userId s es =
     (if want_is_empty w then None
      else (let requestUserId = GetUserId c userId s in
        if requestUserId = INVALID_USERID then None
        else map_option (sort_key (\<lambda>e. - ei_priority e))
          (if want_bundleName w \<noteq> [] then
             (case GetInnerBundleInfoWithFlags c (want_bundleName w) flags requestUserId s of
                None \<Rightarrow> None
              | Some i \<Rightarrow> Some (FilterExtensionAbilityInfosByModuleName (want_moduleName w)
                  (GetMatchExtensionInfos rx w flags (GetResponseUserId requestUserId i) i es)))
           else Some (foldl (\<lambda>es (name, _).
                   case GetInnerBundleInfoWithFlags c name flags requestUserId s of
                     None \<Rightarrow> es
                   | Some i \<Rightarrow> GetMatchExtensionInfos rx w flags (GetResponseUserId requestUserId i) i es)
                 es (dm_bundleInfos s)))))"

definition QueryExtensionAbilityInfos ::
  "regex_engine \<Rightarrow> int \<Rightarrow> want \<Rightarrow> u32 \<Rightarrow> int \<Rightarrow> data_mgr \<Rightarrow> extension_ability_info list \<Rightarrow> extension_ability_info list option" where
  "QueryExtensionAbilityInfos rx c w flags userId s es =
     (let requestUserId = GetUserId c userId s in
      if requestUserId = INVALID_USERID then None
      else if want_bundleName w \<noteq> [] \<and> want_abilityName w \<noteq> [] then
        map_option (\<lambda>e. es @ [e])
          (ExplicitQueryExtensionInfo c (want_bundleName w) (want_moduleName w) (want_abilityName w) flags requestUserId s)
      else (case ImplicitQueryExtensionInfos rx c w flags requestUserId s es of
              None \<Rightarrow> None
            | Some [] \<Rightarrow> None
            | Some found \<Rightarrow> Some found))"

definition QueryExtensionAbilityInfos_type ::
  "int \<Rightarrow> extension_ability_type \<Rightarrow> int \<Rightarrow> data_mgr \<Rightarrow> extension_ability_info list \<Rightarrow> extension_ability_info list option" where
  "QueryExtensionAbilityInfos_type c extensionType userId s es =
     (let requestUserId = GetUserId c userId s in
      if requestUserId = INVALID_USERID then None
      else Some (es @ concat (map (\<lambda>(name, _).
             case GetInnerBundleInfoWithFlags c name 0 requestUserId s of
               None \<Rightarrow> []
             | Some i \<Rightarrow> map (\<lambda>e. e\<lparr>ei_applicationInfo :=
                   GetApplicationInfo 0 (GetResponseUserId requestUserId i) (ei_applicationInfo e) i\<rparr>)
                 (filter (\<lambda>e. ei_type e = extensionType) (map snd (ib_baseExtensionInfos i)))) (dm_bundleInfos s))))"

text \<open>A request URI has three slashes, the one of an extension two.\<close>

definition convert_uri :: "string \<Rightarrow> string option" where
  "convert_uri uri =
     (case find_sub PARAM_URI_SEPARATOR uri of
        None \<Rightarrow> None
      | Some schemePos \<Rightarrow>
          (let cut = (case find_from SEPARATOR uri (schemePos + PARAM_URI_SEPARATOR_LEN) of
                        None \<Rightarrow> uri | Some cutPos \<Rightarrow> take cutPos uri)
           in Some (take schemePos cut @ URI_SEPARATOR @ drop (schemePos + PARAM_URI_SEPARATOR_LEN) cut)))"

fun first_extension_by_uri :: "string \<Rightarrow> int \<Rightarrow> inner_bundle_info list \<Rightarrow> extension_ability_info option" where
  "first_extension_by_uri uri requestUserId [] = None"
| "first_extension_by_uri uri requestUserId (i # is) =
     (let responseUserId = GetResponseUserId requestUserId i in
      if IsDisabled i \<or> \<not> GetApplicationEnabled responseUserId i then first_extension_by_uri uri requestUserId is
      else (case FindExtensionAbilityInfoByUri uri i of
              None \<Rightarrow> first_extension_by_uri uri requestUserId is
            | Some e \<Rightarrow> Some (e\<lparr>ei_applicationInfo := GetApplicationInfo 0 responseUserId (ei_applicationInfo e) i\<rparr>)))"

definition QueryExtensionAbilityInfoByUri :: "int \<Rightarrow> string \<Rightarrow> int \<Rightarrow> data_mgr \<Rightarrow> extension_ability_info option" where
  "QueryExtensionAbilityInfoByUri c uri userId s =
     (let requestUserId = GetUserId c userId s in
      if requestUserId = INVALID_USERID \<or> uri = [] then None
      else (case convert_uri uri of
              None \<Rightarrow> None
            | Some convertUri \<Rightarrow> first_extension_by_uri convertUri requestUserId (map snd (dm_bundleInfos s))))"

definition ImplicitQueryInfoByPriority ::
  "regex_engine \<Rightarrow> int \<Rightarrow> want \<Rightarrow> u32 \<Rightarrow> int \<Rightarrow> data_mgr \<Rightarrow> (ability_info + extension_ability_info) option" where
  "ImplicitQueryInfoByPriority rx c w flags userId s =
     (let requestUserId = GetUserId c userId s in
      if requestUserId = INVALID_USERID then None
      else (case (ImplicitQueryAbilityInfos rx c w flags requestUserId s [],
                  ImplicitQueryExtensionInfos rx c w flags requestUserId s []) of
              (Some (a # _), Some (e # _)) \<Rightarrow> Some (if ai_priority a \<ge> ei_priority e then Inl a else Inr e)
            | (Some (a # _), _) \<Rightarrow> Some (Inl a)
            | (_, Some (e # _)) \<Rightarrow> Some (Inr e)
            | _ \<Rightarrow> None))"

section \<open>Bundles and applications\<close>

definition Mgr_GetApplicationInfo ::
  "int \<Rightarrow> string \<Rightarrow> u32 \<Rightarrow> int \<Rightarrow> application_info \<Rightarrow> data_mgr \<Rightarrow> application_info option" where
  "Mgr_GetApplicationInfo c appName flags userId appInfo s =
     (let requestUserId = GetUserId c userId s in
      if requestUserId = INVALID_USERID then None
      else (case GetInnerBundleInfoWithFlags c appName flags requestUserId s of
              None \<Rightarrow> None
            | Some i \<Rightarrow> Some (GetApplicationInfo flags (GetResponseUserId requestUserId i) appInfo i)))"

definition GetApplicationInfos :: "int \<Rightarrow> u32 \<Rightarrow> int \<Rightarrow> data_mgr \<Rightarrow> application_info list option" where
  "GetApplicationInfos c flags userId s =
     (let requestUserId = GetUserId c userId s in
      if requestUserId = INVALID_USERID then None
      else (let found = List.map_filter (\<lambda>(_, i).
                  let responseUserId = GetResponseUserId requestUserId i in
                  if IsDisabled i then None
                  else if flags AND GET_APPLICATION_INFO_WITH_DISABLE = 0 \<and> \<not> GetApplicationEnabled responseUserId i then None
                  else Some (GetApplicationInfo flags responseUserId new_ApplicationInfo i)) (dm_bundleInfos s)
            in if found = [] then None else Some found))"

definition GetInnerBundleUserInfos :: "string \<Rightarrow> data_mgr \<Rightarrow> inner_bundle_user_info list option" where
  "GetInnerBundleUserInfos bundleName s =
     (if bundleName = [] then None
      else (case map_of (dm_bundleInfos s) bundleName of
              None \<Rightarrow> None
            | Some i \<Rightarrow>
                if IsDisabled i then None
                else (let us = map snd (ib_innerBundleUserInfos i) in if us = [] then None else Some us)))"

text \<open>\<open>permStates\<close> is \<open>BundlePermissionMgr::GetRequestPermissionStates\<close>, which asks the token service.\<close>

definition Mgr_GetBundleInfo ::
  "(bundle_info \<Rightarrow> bundle_info) \<Rightarrow> int \<Rightarrow> string \<Rightarrow> u32 \<Rightarrow> bundle_info \<Rightarrow> int \<Rightarrow> data_mgr \<Rightarrow> bundle_info option" where
  "Mgr_GetBundleInfo permStates c bundleName flags b userId s =
     (case (if userId = ANY_USERID
            then map_option (\<lambda>us. bu_userId (iu_bundleUserInfo (hd us))) (GetInnerBundleUserInfos bundleName s)
            else Some userId) of
        None \<Rightarrow> None
      | Some u \<Rightarrow>
          (let requestUserId = GetUserId c u s in
           if requestUserId = INVALID_USERID then None
           else (case GetInnerBundleInfoWithFlags c bundleName flags requestUserId s of
                   None \<Rightarrow> None
                 | Some i \<Rightarrow> Some (GetBundleInfo permStates flags (GetResponseUserId requestUserId i) b i))))"

definition GetBundleList :: "int \<Rightarrow> int \<Rightarrow> data_mgr \<Rightarrow> string list option" where
  "GetBundleList c userId s =
     (let requestUserId = GetUserId c userId s in
      if requestUserId = INVALID_USERID then None
      else (let found = filter (\<lambda>n. GetInnerBundleInfoWithFlags c n 0 requestUserId s \<noteq> None) (map fst (dm_bundleInfos s))
            in if found = [] then None else Some found))"

definition GetAllBundleInfos ::
  "(bundle_info \<Rightarrow> bundle_info) \<Rightarrow> u32 \<Rightarrow> data_mgr \<Rightarrow> bundle_info list option" where
  "GetAllBundleInfos permStates flags s =
     (let found = map (\<lambda>(_, i). GetBundleInfo permStates flags ALL_USERID new_BundleInfo i)
                    (filter (\<lambda>(_, i). \<not> IsDisabled i) (dm_bundleInfos s))
      in if found = [] then None else Some found)"

definition GetBundleInfos ::
  "(bundle_info \<Rightarrow> bundle_info) \<Rightarrow> int \<Rightarrow> u32 \<Rightarrow> int \<Rightarrow> data_mgr \<Rightarrow> bundle_info list option" where
  "GetBundleInfos permStates c flags userId s =
     (if userId = ALL_USERID then GetAllBundleInfos permStates flags s
      else (let requestUserId = GetUserId c userId s in
            if requestUserId = INVALID_USERID then None
            else (let found = List.map_filter (\<lambda>(n, _).
                        map_option (\<lambda>i. GetBundleInfo permStates flags (GetResponseUserId requestUserId i) new_BundleInfo i)
                          (GetInnerBundleInfoWithFlags c n flags requestUserId s)) (dm_bundleInfos s)
                  in if found = [] then None else Some found)))"

definition GetBundleInfosByMetaData ::
  "(bundle_info \<Rightarrow> bundle_info) \<Rightarrow> int \<Rightarrow> string \<Rightarrow> data_mgr \<Rightarrow> bundle_info list option" where
  "GetBundleInfosByMetaData permStates c metaData s =
     (if metaData = [] then None
      else (let requestUserId = GetUserId c UNSPECIFIED_USERID s;
                found = map (\<lambda>(_, i). GetBundleInfo permStates GET_BUNDLE_WITH_ABILITIES
                                (GetResponseUserId requestUserId i) new_BundleInfo i)
                          (filter (\<lambda>(_, i). \<not> IsDisabled i \<and> CheckSpecialMetaData metaData i) (dm_bundleInfos s))
            in if found = [] then None else Some found))"

definition QueryKeepAliveBundleInfos ::
  "(bundle_info \<Rightarrow> bundle_info) \<Rightarrow> int \<Rightarrow> data_mgr \<Rightarrow> bundle_info list option" where
  "QueryKeepAliveBundleInfos permStates c s =
     (let requestUserId = GetUserId c UNSPECIFIED_USERID s;
          found = filter (\<lambda>b. bi_name b \<noteq> [])
            (map (\<lambda>(_, i). GetBundleInfo permStates GET_BUNDLE_WITH_ABILITIES (GetResponseUserId requestUserId i) new_BundleInfo i)
               (filter (\<lambda>(_, i). \<not> IsDisabled i \<and> bi_isKeepAlive (ib_baseBundleInfo i)) (dm_bundleInfos s)))
      in if found = [] then None else Some found)"

definition GetBundlePackInfo :: "int \<Rightarrow> string \<Rightarrow> u32 \<Rightarrow> bundle_pack_info \<Rightarrow> data_mgr \<Rightarrow> bundle_pack_info option" where
  "GetBundlePackInfo c bundleName flags out s =
     (let requestUserId = GetUserIdByUid c in
      if requestUserId = INVALID_USERID then None
      else (case GetInnerBundleInfoWithFlags c bundleName flags requestUserId s of
              None \<Rightarrow> None
            | Some i \<Rightarrow>
                (let p = ib_bundlePackInfo i in
                 Some (if flags AND 1 \<noteq> 0 then out\<lparr>bp_packages := bp_packages p\<rparr>
                       else if flags AND 2 \<noteq> 0 then out\<lparr>bp_summary := (bp_summary out)\<lparr>sum_app := sum_app (bp_summary p)\<rparr>\<rparr>
                       else if flags AND 4 \<noteq> 0 then out\<lparr>bp_summary := (bp_summary out)\<lparr>sum_modules := sum_modules (bp_summary p)\<rparr>\<rparr>
                       else p))))"

section \<open>Uids\<close>

definition GetInnerBundleInfoByUid :: "int \<Rightarrow> data_mgr \<Rightarrow> inner_bundle_info option" where
  "GetInnerBundleInfoByUid uid s =
     (let userId = GetUserIdByUid uid in
      if userId = UNSPECIFIED_USERID \<or> userId = INVALID_USERID then None
      else map_option snd (find (\<lambda>(_, i). \<not> IsDisabled i \<and> GetUid userId i = uid) (dm_bundleInfos s)))"

definition GetBundleNameForUid :: "int \<Rightarrow> data_mgr \<Rightarrow> string option" where
  "GetBundleNameForUid uid s = map_option GetBundleName (GetInnerBundleInfoByUid uid s)"

definition GetBundlesForUid :: "int \<Rightarrow> data_mgr \<Rightarrow> string list \<Rightarrow> string list option" where
  "GetBundlesForUid uid s names = map_option (\<lambda>i. names @ [GetBundleName i]) (GetInnerBundleInfoByUid uid s)"

definition CheckIsSystemAppByUid :: "int \<Rightarrow> data_mgr \<Rightarrow> bool" where
  "CheckIsSystemAppByUid uid s =
     (if uid = ROOT_UID \<or> uid = BMS_UID then True
      else (case GetInnerBundleInfoByUid uid s of None \<Rightarrow> False | Some i \<Rightarrow> IsSystemApp i))"

definition GetInnerBundleUserInfoByUserId ::
  "int \<Rightarrow> string \<Rightarrow> int \<Rightarrow> inner_bundle_user_info \<Rightarrow> data_mgr \<Rightarrow> inner_bundle_user_info option" where
  "GetInnerBundleUserInfoByUserId c bundleName userId out s =
     (let requestUserId = GetUserId c userId s in
      if requestUserId = INVALID_USERID then None
      else if bundleName = [] then None
      else (case map_of (dm_bundleInfos s) bundleName of
              None \<Rightarrow> None
            | Some i \<Rightarrow>
                if IsDisabled i then None
                else (case GetInnerBundleUserInfo requestUserId out i of
                        (False, _) \<Rightarrow> None | (True, u) \<Rightarrow> Some u)))"

definition GetBundleGids :: "int \<Rightarrow> string \<Rightarrow> data_mgr \<Rightarrow> int list option" where
  "GetBundleGids c bundleName s =
     map_option iu_gids (GetInnerBundleUserInfoByUserId c bundleName (GetUserId c UNSPECIFIED_USERID s)
       new_InnerBundleUserInfo s)"

section \<open>Modules, forms, events\<close>

definition GetHapModuleInfo :: "int \<Rightarrow> ability_info \<Rightarrow> int \<Rightarrow> data_mgr \<Rightarrow> hap_module_info option" where
  "GetHapModuleInfo c a userId s =
     (let requestUserId = GetUserId c userId s in
      if requestUserId = INVALID_USERID then None
      else (case map_of (dm_bundleInfos s) (ai_bundleName a) of
              None \<Rightarrow> None
            | Some i \<Rightarrow>
                if IsDisabled i then None
                else FindHapModuleInfo (ai_package a) (GetResponseUserId requestUserId i) i))"

text \<open>
  The answer is what the want is filled with: the bundle and ability of its element, its action and
  the entity that is added.
\<close>

definition GetLaunchWantForBundle ::
  "int \<Rightarrow> string \<Rightarrow> data_mgr \<Rightarrow> (string \<times> string \<times> string \<times> string) option" where
  "GetLaunchWantForBundle c bundleName s =
     (case GetInnerBundleInfoWithFlags c bundleName 0 (GetUserIdByUid c) s of
        None \<Rightarrow> None
      | Some i \<Rightarrow>
          if GetMainAbility i = [] then None
          else Some (bundleName, GetMainAbility i, INTENT_ACTION_HOME, INTENT_ENTITY_HOME))"

definition GetAllFormsInfo :: "data_mgr \<Rightarrow> form_info list option" where
  "GetAllFormsInfo s =
     (let is = filter (\<lambda>i. \<not> IsDisabled i) (map snd (dm_bundleInfos s))
      in if is = [] then None else Some (concat (map GetFormsInfoByApp is)))"

definition Mgr_GetFormsInfoByModule :: "string \<Rightarrow> string \<Rightarrow> data_mgr \<Rightarrow> form_info list option" where
  "Mgr_GetFormsInfoByModule bundleName moduleName s =
     (if bundleName = [] then None
      else (case map_of (dm_bundleInfos s) bundleName of
              None \<Rightarrow> None
            | Some i \<Rightarrow>
                if IsDisabled i then None
                else (let fs = GetFormsInfoByModule moduleName i in if fs = [] then None else Some fs)))"

definition Mgr_GetFormsInfoByApp :: "string \<Rightarrow> data_mgr \<Rightarrow> form_info list option" where
  "Mgr_GetFormsInfoByApp bundleName s =
     (if bundleName = [] then None
      else (case map_of (dm_bundleInfos s) bundleName of
              None \<Rightarrow> None
            | Some i \<Rightarrow> if IsDisabled i then None else Some (GetFormsInfoByApp i)))"

definition GetAllCommonEventInfo :: "string \<Rightarrow> data_mgr \<Rightarrow> common_event_info list option" where
  "GetAllCommonEventInfo eventKey s =
     (if eventKey = [] then None
      else (let found = concat (map (\<lambda>(_, i). if IsDisabled i then [] else GetCommonEvents eventKey i) (dm_bundleInfos s))
            in if found = [] then None else Some found))"

definition Mgr_GetAllDependentModuleNames :: "string \<Rightarrow> string \<Rightarrow> data_mgr \<Rightarrow> string list option" where
  "Mgr_GetAllDependentModuleNames bundleName moduleName s =
     (case map_of (dm_bundleInfos s) bundleName of
        None \<Rightarrow> None
      | Some i \<Rightarrow> GetAllDependentModuleNames i moduleName)"

definition GetAllUriPrefix :: "int \<Rightarrow> string \<Rightarrow> data_mgr \<Rightarrow> string list" where
  "GetAllUriPrefix userId excludeModule s =
     concat (map (\<lambda>(_, i). GetUriPrefixList_user userId excludeModule i @
                           GetUriPrefixList_user DEFAULT_USERID excludeModule i) (dm_bundleInfos s))"

definition GetAccessibleAppCodePaths :: "int \<Rightarrow> data_mgr \<Rightarrow> string list" where
  "GetAccessibleAppCodePaths userId s =
     concat (map (\<lambda>(_, i). map (\<lambda>_. app_codePath (ib_baseApplicationInfo i))
       (filter (\<lambda>(_, u). (bu_userId (iu_bundleUserInfo u) = 0 \<or> bu_userId (iu_bundleUserInfo u) = userId) \<and>
                          app_accessible (ib_baseApplicationInfo i)) (ib_innerBundleUserInfos i))) (dm_bundleInfos s))"

definition GetRemovableBundleNameVec :: "int \<Rightarrow> data_mgr \<Rightarrow> (string, int) smap \<Rightarrow> (string, int) smap" where
  "GetRemovableBundleNameVec activeUser s names =
     foldl (\<lambda>m (n, i). if HasInnerBundleUserInfo activeUser i \<and> IsBundleRemovable activeUser i
                       then sm_emplace n (GetUid (ib_userId i) i) m else m) names (dm_bundleInfos s)"

definition Mgr_IsAbilityEnabled :: "int \<Rightarrow> ability_info \<Rightarrow> data_mgr \<Rightarrow> bool" where
  "Mgr_IsAbilityEnabled c a s =
     (ExplicitQueryAbilityInfo c (ai_bundleName a) (ai_moduleName a) (ai_name a) 0 (GetUserId c UNSPECIFIED_USERID s) s \<noteq> None)"

end
