(* ===== verification/Host_Data.thy ===== *)
theory Host_Data
  imports Bundle_Query Json_Base Ipc_Parcel
begin

text \<open>
  The operations of \<open>BundleDataMgr\<close> (\<open>bundle_data_mgr.cpp\<close>) that only the host of the bundle manager
  uses: shortcuts, labels and icons, the queries for clones, and the callbacks that are told about changes
  of a bundle. The resource files of a package and the parser of JSON texts are parameters.
\<close>

section \<open>Shortcuts\<close>

text \<open>The shortcut profile of a stage model package (\<open>shortcut_info.h\<close>, \<open>shortcut_info.cpp\<close>).\<close>

record shortcut_want =
  sw_bundleName :: string
  sw_abilityName :: string

definition new_ShortcutWant :: shortcut_want where
  "new_ShortcutWant = \<lparr>sw_bundleName = [], sw_abilityName = []\<rparr>"

record shortcut =
  sc_shortcutId :: string
  sc_icon :: string
  sc_iconId :: int
  sc_label :: string
  sc_labelId :: int
  sc_wants :: "shortcut_want list"

definition new_Shortcut :: shortcut where
  "new_Shortcut = \<lparr>sc_shortcutId = [], sc_icon = [], sc_iconId = 0, sc_label = [], sc_labelId = 0, sc_wants = []\<rparr>"

definition ShortcutWant_from_json :: "shortcut_want getter" where
  "ShortcutWant_from_json = from_json new_ShortcutWant [
     read_string ''bundleName'' sw_bundleName_update False Local,
     read_string ''abilityName'' sw_abilityName_update False Local]"

definition Shortcut_from_json :: "shortcut getter" where
  "Shortcut_from_json = from_json new_Shortcut [
     read_string ''shortcutId'' sc_shortcutId_update False Local,
     read_string ''icon'' sc_icon_update False Local,
     read_number get_int32 ''iconId'' sc_iconId_update False Local,
     read_string ''label'' sc_label_update False Local,
     read_number get_int32 ''labelId'' sc_labelId_update False Local,
     read_array ShortcutWant_from_json AT_OBJECT ''wants'' sc_wants_update False Local]"

definition ShortcutJson_from_json :: "shortcut list getter" where
  "ShortcutJson_from_json = from_json [] [
     read_array Shortcut_from_json AT_OBJECT ''shortcuts'' (\<lambda>f. f) False Local]"

definition shortcut_info_of :: "string \<Rightarrow> shortcut \<Rightarrow> shortcut_info" where
  "shortcut_info_of bundleName c =
     new_ShortcutInfo\<lparr>si_id := sc_shortcutId c, si_bundleName := bundleName, si_icon := sc_icon c, si_label := sc_label c,
       si_iconId := sc_iconId c, si_labelId := sc_labelId c,
       si_intents := map (\<lambda>w. \<lparr>sn_targetBundle = sw_bundleName w, sn_targetClass = sw_abilityName w\<rparr>) (sc_wants c)\<rparr>"

text \<open>
  \<open>resConfig\<close> is \<open>BundleMgrClient::GetResConfigFile\<close> for the metadata \<open>ohos.ability.shortcuts\<close>. Reading the
  profile never throws, as \<open>ShortcutJson_read\<close> below shows.
\<close>

definition GetShortcutInfos ::
  "(string \<Rightarrow> json option) \<Rightarrow> (ability_info \<Rightarrow> string list option) \<Rightarrow> inner_bundle_info \<Rightarrow> shortcut_info list" where
  "GetShortcutInfos parse resConfig i =
     (if ib_isNewVersion i then
        (let abilityInfo = GetMainAbilityInfo i in
         if ai_resourcePath abilityInfo \<noteq> [] \<and> length (ai_metadata abilityInfo) > 0 then
           (case resConfig abilityInfo of
              None \<Rightarrow> []
            | Some [] \<Rightarrow> []
            | Some (raw # _) \<Rightarrow>
                (case parse raw of
                   None \<Rightarrow> []
                 | Some jsonObject \<Rightarrow>
                     (case ShortcutJson_from_json jsonObject pr_OK of
                        None \<Rightarrow> []
                      | Some (shortcuts, _) \<Rightarrow> map (shortcut_info_of (ai_bundleName abilityInfo)) shortcuts)))
         else [])
      else map snd (ib_shortcutInfos i))"

lemma read_string_Some: "read_string key upd nec Local j rst \<noteq> None"
  by (cases rst) (auto simp: read_string_def GetValueIfFindKey_def get_string_def split: option.splits json.splits)

lemma read_int32_Some: "read_number get_int32 key upd nec Local j rst \<noteq> None"
  by (cases rst) (auto simp: read_number_def GetValueIfFindKey_def get_int32_def get_number_def split: option.splits json.splits)

lemma get_elements_Some:
  assumes "\<And>j g. get j g \<noteq> None"
  shows "get_elements get js g \<noteq> None"
proof (induction js arbitrary: g)
  case (Cons j js)
  obtain v g1 where "get j g = Some (v, g1)" using assms [of j g] by auto
  with Cons [of g1] show ?case by auto
qed simp

lemma read_array_Some:
  assumes "\<And>j g. get j g \<noteq> None"
  shows "read_array get ty key upd nec Local j rst \<noteq> None"
  using get_elements_Some [of get, OF assms]
  by (cases rst) (auto simp: read_array_def GetValueIfFindKey_def CheckArrayType_def get_vector_def Let_def
      split: option.splits json.splits json_type.splits)

lemma run_steps_Some: "(\<And>f rst. f \<in> set steps \<Longrightarrow> f j rst \<noteq> None) \<Longrightarrow> run_steps steps j rst \<noteq> None"
proof (induction steps arbitrary: rst)
  case (Cons f fs)
  then have "f j rst \<noteq> None" by simp
  then obtain rst1 where "f j rst = Some rst1" by blast
  with Cons show ?case by simp
qed simp

lemma from_json_Some: "(\<And>f rst. f \<in> set steps \<Longrightarrow> f j rst \<noteq> None) \<Longrightarrow> from_json new steps j g \<noteq> None"
  using run_steps_Some [of steps j] by (simp add: from_json_def)

lemma ShortcutWant_read: "ShortcutWant_from_json j g \<noteq> None"
  unfolding ShortcutWant_from_json_def by (rule from_json_Some) (unfold list.set insert_iff empty_iff, elim disjE FalseE; hypsubst; rule read_string_Some)

lemma Shortcut_read: "Shortcut_from_json j g \<noteq> None"
  unfolding Shortcut_from_json_def
  by (rule from_json_Some)
    (unfold list.set insert_iff empty_iff, elim disjE FalseE; hypsubst;
      rule read_string_Some read_int32_Some read_array_Some [OF ShortcutWant_read])

lemma ShortcutJson_read: "ShortcutJson_from_json j g \<noteq> None"
  unfolding ShortcutJson_from_json_def
  by (rule from_json_Some) (unfold list.set insert_iff empty_iff, elim disjE FalseE; hypsubst; rule read_array_Some [OF Shortcut_read])

definition Mgr_GetShortcutInfos ::
  "(string \<Rightarrow> json option) \<Rightarrow> (ability_info \<Rightarrow> string list option) \<Rightarrow> int \<Rightarrow> string \<Rightarrow> int \<Rightarrow> data_mgr
     \<Rightarrow> shortcut_info list option" where
  "Mgr_GetShortcutInfos parse resConfig c bundleName userId s =
     (let requestUserId = GetUserId c userId s in
      if requestUserId = INVALID_USERID then None
      else map_option (GetShortcutInfos parse resConfig) (GetInnerBundleInfoWithFlags c bundleName 0 requestUserId s))"

section \<open>Labels and icons\<close>

text \<open>
  \<open>getString\<close> makes a resource manager from the information of the bundle and looks up a text;
  \<open>getIcon\<close> does the same for an image and loads it.
\<close>

definition GetAbilityLabel ::
  "(bundle_info \<Rightarrow> bundle_info) \<Rightarrow> (bundle_info \<Rightarrow> int \<Rightarrow> string option) \<Rightarrow> int \<Rightarrow> string \<Rightarrow> string \<Rightarrow> string \<Rightarrow> data_mgr
     \<Rightarrow> string" where
  "GetAbilityLabel permStates getString c bundleName moduleName abilityName s =
     (case map_of (dm_bundleInfos s) bundleName of
        None \<Rightarrow> []
      | Some i \<Rightarrow>
          if IsDisabled i then []
          else (case FindAbilityInfo bundleName moduleName abilityName (GetUserId c UNSPECIFIED_USERID s) i of
                  None \<Rightarrow> []
                | Some a \<Rightarrow>
                    if ai_labelId a = 0 then ai_label a
                    else (case getString (GetBundleInfo permStates 0 (GetUserIdByUid c) new_BundleInfo i) (ai_labelId a) of
                            None \<Rightarrow> [] | Some label \<Rightarrow> label)))"

definition GetAbilityPixelMapIcon ::
  "(bundle_info \<Rightarrow> bundle_info) \<Rightarrow> (bundle_info \<Rightarrow> int \<Rightarrow> nat option) \<Rightarrow> int \<Rightarrow> string \<Rightarrow> string \<Rightarrow> string \<Rightarrow> data_mgr
     \<Rightarrow> nat option" where
  "GetAbilityPixelMapIcon permStates getIcon c bundleName moduleName abilityName s =
     (case map_of (dm_bundleInfos s) bundleName of
        None \<Rightarrow> None
      | Some i \<Rightarrow>
          (case FindAbilityInfo bundleName moduleName abilityName (GetUserId c UNSPECIFIED_USERID s) i of
             None \<Rightarrow> None
           | Some a \<Rightarrow>
               getIcon (GetBundleInfo permStates 0 (GetUserId c UNSPECIFIED_USERID s) new_BundleInfo i) (ai_iconId a)))"

section \<open>Further queries\<close>

text \<open>The clone is the first bundle whose name contains the bundle's name and \<open>#\<close>.\<close>

definition QueryAbilityInfosForClone :: "int \<Rightarrow> want \<Rightarrow> data_mgr \<Rightarrow> ability_info list option" where
  "QueryAbilityInfosForClone c w s =
     (let abilityName = want_abilityName w; bundleName = want_bundleName w;
          user = GetUserId c UNSPECIFIED_USERID s
      in if bundleName = [] then None
         else if dm_bundleInfos s = [] then None
         else (let clone = (case GetClonedBundleName bundleName s of
                        None \<Rightarrow> Some []
                      | Some name \<Rightarrow>
                          if name = bundleName then Some []
                          else (case map_of (dm_bundleInfos s) name of
                                  None \<Rightarrow> None
                                | Some i \<Rightarrow>
                                    if IsDisabled i then None
                                    else Some (FindAbilityInfosForClone bundleName abilityName (GetResponseUserId user i) [] i)))
               in case clone of
                    None \<Rightarrow> None
                  | Some found \<Rightarrow>
                      (case map_of (dm_bundleInfos s) bundleName of
                         None \<Rightarrow> None
                       | Some i \<Rightarrow>
                           (let all = FindAbilityInfosForClone bundleName abilityName (GetResponseUserId user i) found i
                            in if all = [] then None else Some all))))"

definition GetNameForUid :: "int \<Rightarrow> data_mgr \<Rightarrow> string option" where
  "GetNameForUid uid s = map_option GetBundleName (GetInnerBundleInfoByUid uid s)"

text \<open>The code answers true and leaves the list as it is.\<close>

definition GetBundleGidsByUid :: "string \<Rightarrow> int \<Rightarrow> int list \<Rightarrow> data_mgr \<Rightarrow> int list option" where
  "GetBundleGidsByUid bundleName uid gids s = Some gids"

definition Mgr_GetModuleUpgradeFlag :: "string \<Rightarrow> string \<Rightarrow> data_mgr \<Rightarrow> int" where
  "Mgr_GetModuleUpgradeFlag bundleName moduleName s =
     (if bundleName = [] \<or> moduleName = [] then 0
      else (case map_of (dm_bundleInfos s) bundleName of None \<Rightarrow> 0 | Some i \<Rightarrow> GetModuleUpgradeFlag moduleName i))"

definition GetAllUser :: "data_mgr \<Rightarrow> int list" where
  "GetAllUser s = dm_multiUserIdsSet s"

definition GetAppPrivilegeLevel :: "int \<Rightarrow> string \<Rightarrow> int \<Rightarrow> data_mgr \<Rightarrow> string" where
  "GetAppPrivilegeLevel c bundleName userId s =
     (case GetInnerBundleInfoWithFlags c bundleName 0 userId s of
        None \<Rightarrow> [] | Some i \<Rightarrow> app_appPrivilegeLevel (ib_baseApplicationInfo i))"

section \<open>Status callbacks\<close>

text \<open>
  A callback is the name of the bundle it is about and a remote object, \<open>callbackList_\<close> a list of them. A
  notification reaches the callbacks of the bundle in the order of their registration and is then published
  to all subscribers of common events.
\<close>

type_synonym callback_list = "(string \<times> nat) list"

datatype notify_type = INSTALL | UPDATE | UNINSTALL_BUNDLE | UNINSTALL_MODULE | ABILITY_ENABLE | APPLICATION_ENABLE

datatype package_event = PACKAGE_ADDED | PACKAGE_REMOVED | PACKAGE_CHANGED

datatype notification =
    OnBundleStateChanged nat nat int string
  | PublishCommonEvent package_event string string int int

definition RegisterBundleStatusCallback :: "string \<Rightarrow> nat \<Rightarrow> callback_list \<Rightarrow> bool \<times> callback_list" where
  "RegisterBundleStatusCallback bundleName object cbs = (True, cbs @ [(bundleName, object)])"

definition ClearBundleStatusCallback :: "nat \<Rightarrow> callback_list \<Rightarrow> bool \<times> callback_list" where
  "ClearBundleStatusCallback object cbs = (True, filter (\<lambda>(_, x). x \<noteq> object) cbs)"

definition UnregisterBundleStatusCallback :: "callback_list \<Rightarrow> bool \<times> callback_list" where
  "UnregisterBundleStatusCallback cbs = (True, [])"

text \<open>\<open>OnRemoteDied\<close>: the object of a dead process is taken out; \<open>None\<close> if it is already gone.\<close>

definition BundleStatusCallback_OnRemoteDied :: "nat option \<Rightarrow> callback_list \<Rightarrow> callback_list" where
  "BundleStatusCallback_OnRemoteDied object cbs =
     (case object of None \<Rightarrow> cbs | Some x \<Rightarrow> snd (ClearBundleStatusCallback x cbs))"

definition install_type :: "notify_type \<Rightarrow> nat" where
  "install_type type = (if type = UNINSTALL_BUNDLE \<or> type = UNINSTALL_MODULE then 1 else 0)"

definition event_data :: "notify_type \<Rightarrow> package_event" where
  "event_data type =
     (case type of
        INSTALL \<Rightarrow> PACKAGE_ADDED
      | UNINSTALL_BUNDLE \<Rightarrow> PACKAGE_REMOVED
      | UNINSTALL_MODULE \<Rightarrow> PACKAGE_REMOVED
      | _ \<Rightarrow> PACKAGE_CHANGED)"

definition NotifyBundleStatus ::
  "string \<Rightarrow> string \<Rightarrow> int \<Rightarrow> notify_type \<Rightarrow> int \<Rightarrow> callback_list \<Rightarrow> notification list" where
  "NotifyBundleStatus bundleName abilityName resultCode type uid cbs =
     map (\<lambda>(_, x). OnBundleStateChanged x (install_type type) resultCode bundleName)
       (filter (\<lambda>(n, _). n = bundleName) cbs) @
     (if resultCode \<noteq> 0 then []
      else [PublishCommonEvent (event_data type) bundleName abilityName uid (GetUserIdByUid uid)])"

end
