(* ===== verification/Inner_Bundle_Install.thy ===== *)
theory Inner_Bundle_Install
  imports Inner_Bundle_Info
begin

text \<open>
  The members of \<open>InnerBundleInfo\<close> (\<open>inner_bundle_info.h\<close>) that installation uses: the paths,
  signature data and marks that the installer writes into the information of a package.
\<close>

section \<open>Members of the bundle and the application\<close>

definition IsSingleton :: "inner_bundle_info \<Rightarrow> bool" where
  "IsSingleton i \<longleftrightarrow> app_singleton (ib_baseApplicationInfo i)"

definition GetVersionCode :: "inner_bundle_info \<Rightarrow> u32" where
  "GetVersionCode i = bi_versionCode (ib_baseBundleInfo i)"

definition GetEntryInstallationFree :: "inner_bundle_info \<Rightarrow> bool" where
  "GetEntryInstallationFree i \<longleftrightarrow> bi_entryInstallationFree (ib_baseBundleInfo i)"

definition GetAppCodePath :: "inner_bundle_info \<Rightarrow> string" where
  "GetAppCodePath i = app_codePath (ib_baseApplicationInfo i)"

definition SetAppCodePath :: "string \<Rightarrow> inner_bundle_info \<Rightarrow> inner_bundle_info" where
  "SetAppCodePath codePath i =
     i\<lparr>ib_baseApplicationInfo := (ib_baseApplicationInfo i)\<lparr>app_codePath := codePath\<rparr>\<rparr>"

definition SetAppDataBaseDir :: "string \<Rightarrow> inner_bundle_info \<Rightarrow> inner_bundle_info" where
  "SetAppDataBaseDir dataBaseDir i =
     i\<lparr>ib_baseApplicationInfo := (ib_baseApplicationInfo i)\<lparr>app_dataBaseDir := dataBaseDir\<rparr>\<rparr>"

definition SetIsFreeInstallApp :: "bool \<Rightarrow> inner_bundle_info \<Rightarrow> inner_bundle_info" where
  "SetIsFreeInstallApp isFreeInstall i =
     i\<lparr>ib_baseApplicationInfo := (ib_baseApplicationInfo i)\<lparr>app_isFreeInstallApp := isFreeInstall\<rparr>\<rparr>"

definition SetCertificateFingerprint :: "string \<Rightarrow> inner_bundle_info \<Rightarrow> inner_bundle_info" where
  "SetCertificateFingerprint fingerprint i =
     i\<lparr>ib_baseApplicationInfo := (ib_baseApplicationInfo i)\<lparr>app_fingerprint := fingerprint\<rparr>\<rparr>"

definition SetEntryInstallationFree_info :: "bool \<Rightarrow> inner_bundle_info \<Rightarrow> inner_bundle_info" where
  "SetEntryInstallationFree_info installationFree i =
     i\<lparr>ib_baseBundleInfo := (ib_baseBundleInfo i)\<lparr>bi_entryInstallationFree := installationFree\<rparr>\<rparr>"

definition SetIsPreInstallApp :: "bool \<Rightarrow> inner_bundle_info \<Rightarrow> inner_bundle_info" where
  "SetIsPreInstallApp isPreInstallApp i =
     i\<lparr>ib_baseBundleInfo := (ib_baseBundleInfo i)\<lparr>bi_isPreInstallApp := isPreInstallApp\<rparr>\<rparr>"

definition SetProvisionId :: "string \<Rightarrow> inner_bundle_info \<Rightarrow> inner_bundle_info" where
  "SetProvisionId provisionId i =
     i\<lparr>ib_baseBundleInfo := (ib_baseBundleInfo i)
         \<lparr>bi_appId := bi_name (ib_baseBundleInfo i) @ FILE_UNDERLINE @ provisionId\<rparr>\<rparr>"

definition GetAccessTokenId :: "int \<Rightarrow> inner_bundle_info \<Rightarrow> u32" where
  "GetAccessTokenId userId i =
     (case GetInnerBundleUserInfo userId new_InnerBundleUserInfo i of
        (True, u) \<Rightarrow> iu_accessTokenId u
      | (False, _) \<Rightarrow> 0)"

definition CleanInnerBundleUserInfos :: "inner_bundle_info \<Rightarrow> inner_bundle_info" where
  "CleanInnerBundleUserInfos i = i\<lparr>ib_innerBundleUserInfos := []\<rparr>"

section \<open>Members of the modules\<close>

definition RESOURCES_INDEX :: string where "RESOURCES_INDEX = ''resources.index''"
definition ASSETS_DIR :: string where "ASSETS_DIR = ''assets''"

text \<open>What the setters for the current package do: nothing when the package is not there.\<close>

definition upd_current_module ::
  "(inner_module_info \<Rightarrow> inner_module_info) \<Rightarrow> inner_bundle_info \<Rightarrow> inner_bundle_info" where
  "upd_current_module f i =
     i\<lparr>ib_innerModuleInfos := sm_update (ib_currentPackage i) f (ib_innerModuleInfos i)\<rparr>"

definition GetModuleDir :: "string \<Rightarrow> inner_bundle_info \<Rightarrow> string" where
  "GetModuleDir modulePackage i =
     (case map_of (ib_innerModuleInfos i) modulePackage of Some m \<Rightarrow> im_modulePath m | None \<Rightarrow> [])"

definition GetModuleDataDir :: "string \<Rightarrow> inner_bundle_info \<Rightarrow> string" where
  "GetModuleDataDir modulePackage i =
     (case map_of (ib_innerModuleInfos i) modulePackage of Some m \<Rightarrow> im_moduleDataDir m | None \<Rightarrow> [])"

definition GetModuleName :: "string \<Rightarrow> inner_bundle_info \<Rightarrow> string" where
  "GetModuleName modulePackage i =
     (case map_of (ib_innerModuleInfos i) modulePackage of Some m \<Rightarrow> im_moduleName m | None \<Rightarrow> [])"

definition GetModuleNameVec :: "inner_bundle_info \<Rightarrow> string list" where
  "GetModuleNameVec i = map fst (ib_innerModuleInfos i)"

definition AddModuleSrcDir :: "string \<Rightarrow> inner_bundle_info \<Rightarrow> inner_bundle_info" where
  "AddModuleSrcDir moduleSrcDir = upd_current_module (\<lambda>m. m\<lparr>im_modulePath := moduleSrcDir\<rparr>)"

definition SetModuleHapPath :: "string \<Rightarrow> inner_bundle_info \<Rightarrow> inner_bundle_info" where
  "SetModuleHapPath hapPath = upd_current_module (\<lambda>m. m\<lparr>im_hapPath := hapPath\<rparr>)"

definition SetModuleHashValue :: "string \<Rightarrow> inner_bundle_info \<Rightarrow> inner_bundle_info" where
  "SetModuleHashValue hashValue = upd_current_module (\<lambda>m. m\<lparr>im_hashValue := hashValue\<rparr>)"

text \<open>\<open>AddModuleResPath\<close> also gives the path to every ability and extension of the information.\<close>

definition AddModuleResPath :: "string \<Rightarrow> inner_bundle_info \<Rightarrow> inner_bundle_info" where
  "AddModuleResPath moduleSrcDir i =
     (case map_of (ib_innerModuleInfos i) (ib_currentPackage i) of
        None \<Rightarrow> i
      | Some m \<Rightarrow>
          (let res = (if ib_isNewVersion i then moduleSrcDir @ PATH_SEPARATOR @ RESOURCES_INDEX
                      else moduleSrcDir @ PATH_SEPARATOR @ ASSETS_DIR @ PATH_SEPARATOR @
                           di_moduleName (im_distro m) @ PATH_SEPARATOR @ RESOURCES_INDEX)
           in (upd_current_module (\<lambda>m. m\<lparr>im_moduleResPath := res\<rparr>) i)
                \<lparr>ib_baseAbilityInfos := map (\<lambda>(k, a). (k, a\<lparr>ai_resourcePath := res\<rparr>)) (ib_baseAbilityInfos i),
                 ib_baseExtensionInfos := map (\<lambda>(k, x). (k, x\<lparr>ei_resourcePath := res\<rparr>)) (ib_baseExtensionInfos i)\<rparr>))"

text \<open>\<open>SetUid\<close> and \<open>SetGid\<close> have empty bodies.\<close>

definition RestoreFromOldInfo :: "inner_bundle_info \<Rightarrow> inner_bundle_info \<Rightarrow> inner_bundle_info" where
  "RestoreFromOldInfo oldInfo i = (SetAppCodePath (GetAppCodePath oldInfo) i)\<lparr>ib_baseDataDir := ib_baseDataDir oldInfo\<rparr>"

text \<open>\<open>at\<close> throws when the new information lacks its own current package.\<close>

definition RestoreModuleInfo :: "inner_bundle_info \<Rightarrow> inner_bundle_info \<Rightarrow> inner_bundle_info option" where
  "RestoreModuleInfo oldInfo i =
     (if \<not> FindModule (ib_currentPackage i) oldInfo then Some i
      else if \<not> FindModule (ib_currentPackage i) i then None
      else Some (upd_current_module (\<lambda>m. m\<lparr>im_moduleDataDir := GetModuleDataDir (ib_currentPackage i) oldInfo\<rparr>) i))"

section \<open>None of them renames the bundle\<close>

lemma GetBundleName_upd_current [simp]: "GetBundleName (upd_current_module f i) = GetBundleName i"
  by (simp add: upd_current_module_def GetBundleName_def)

lemma GetBundleName_install [simp]:
  "GetBundleName (SetAppCodePath p i) = GetBundleName i"
  "GetBundleName (SetAppDataBaseDir p i) = GetBundleName i"
  "GetBundleName (SetIsFreeInstallApp b i) = GetBundleName i"
  "GetBundleName (SetCertificateFingerprint f i) = GetBundleName i"
  "GetBundleName (SetEntryInstallationFree_info b i) = GetBundleName i"
  "GetBundleName (SetIsPreInstallApp b i) = GetBundleName i"
  "GetBundleName (SetProvisionId p i) = GetBundleName i"
  "GetBundleName (CleanInnerBundleUserInfos i) = GetBundleName i"
  "GetBundleName (AddModuleSrcDir d i) = GetBundleName i"
  "GetBundleName (SetModuleHapPath d i) = GetBundleName i"
  "GetBundleName (SetModuleHashValue d i) = GetBundleName i"
  "GetBundleName (AddModuleResPath d i) = GetBundleName i"
  "GetBundleName (RestoreFromOldInfo j i) = GetBundleName i"
  by (simp_all add: SetAppCodePath_def SetAppDataBaseDir_def SetIsFreeInstallApp_def SetCertificateFingerprint_def
      SetEntryInstallationFree_info_def SetIsPreInstallApp_def SetProvisionId_def CleanInnerBundleUserInfos_def
      AddModuleSrcDir_def SetModuleHapPath_def SetModuleHashValue_def AddModuleResPath_def RestoreFromOldInfo_def
      upd_current_module_def GetBundleName_def Let_def split: option.splits)

lemma GetBundleName_RestoreModuleInfo: "RestoreModuleInfo j i = Some i' \<Longrightarrow> GetBundleName i' = GetBundleName i"
  by (auto simp: RestoreModuleInfo_def split: if_splits)

end
