(* ===== verification/Install_World.thy ===== *)
theory Install_World
  imports Bundle_Data_Mgr_Inv Bundle_Query Inner_Bundle_Install "HOL-Library.Monad_Syntax"
begin

text \<open>
  The world the installers work in: error codes (\<open>appexecfwk_errors.h\<close>), the parameters of an
  installation (\<open>install_param.h\<close>), the bundle manager service with its data manager and sandbox data
  manager, and the other processes. What other processes answer is the environment: every call is
  recorded in \<open>b_calls\<close>, and the answer may depend on how many calls were made before, so it can
  change from one call to the next. An operation maps a state to its result and the next state, or to
  \<open>None\<close> when the service dies of an uncaught exception or a null pointer.
\<close>

section \<open>Error codes and parameters\<close>

text \<open>\<open>ERR_SERVICE\<close> stands for the codes that another process or a parser reports.\<close>

datatype err_code =
    ERR_OK | ERR_NO_INIT | ERR_SERVICE int
  | ERR_APPEXECFWK_INSTALL_INTERNAL_ERROR | ERR_APPEXECFWK_INSTALL_VERSION_DOWNGRADE
  | ERR_APPEXECFWK_INSTALL_PARAM_ERROR | ERR_APPEXECFWK_INSTALL_ENTRY_ALREADY_EXIST
  | ERR_APPEXECFWK_INSTALL_STATE_ERROR | ERR_APPEXECFWK_INSTALL_FILE_PATH_INVALID
  | ERR_APPEXECFWK_INSTALL_INVALID_HAP_NAME | ERR_APPEXECFWK_INSTALL_INVALID_BUNDLE_FILE
  | ERR_APPEXECFWK_INSTALL_INVALID_HAP_SIZE
  | ERR_APPEXECFWK_INSTALL_GENERATE_UID_ERROR | ERR_APPEXECFWK_INSTALL_BUNDLE_MGR_SERVICE_ERROR
  | ERR_APPEXECFWK_INSTALL_ALREADY_EXIST | ERR_APPEXECFWK_INSTALL_BUNDLENAME_NOT_SAME
  | ERR_APPEXECFWK_INSTALL_VERSIONCODE_NOT_SAME | ERR_APPEXECFWK_INSTALL_VERSIONNAME_NOT_SAME
  | ERR_APPEXECFWK_INSTALL_MINCOMPATIBLE_VERSIONCODE_NOT_SAME | ERR_APPEXECFWK_INSTALL_VENDOR_NOT_SAME
  | ERR_APPEXECFWK_INSTALL_RELEASETYPE_TARGET_NOT_SAME | ERR_APPEXECFWK_INSTALL_RELEASETYPE_NOT_SAME
  | ERR_APPEXECFWK_INSTALL_RELEASETYPE_COMPATIBLE_NOT_SAME | ERR_APPEXECFWK_INSTALL_VERSION_NOT_COMPATIBLE
  | ERR_APPEXECFWK_INSTALL_INVALID_NUMBER_OF_ENTRY_HAP | ERR_APPEXECFWK_INSTALL_DISK_MEM_INSUFFICIENT
  | ERR_APPEXECFWK_INSTALL_GRANT_REQUEST_PERMISSIONS_FAILED | ERR_APPEXECFWK_INSTALL_UPDATE_HAP_TOKEN_FAILED
  | ERR_APPEXECFWK_INSTALL_SINGLETON_NOT_SAME | ERR_APPEXECFWK_INSTALL_ZERO_USER_WITH_NO_SINGLETON
  | ERR_APPEXECFWK_INSTALL_CHECK_SYSCAP_FAILED | ERR_APPEXECFWK_INSTALL_APPTYPE_NOT_SAME
  | ERR_APPEXECFWK_INSTALL_URI_DUPLICATE | ERR_APPEXECFWK_INSTALL_TYPE_ERROR
  | ERR_APPEXECFWK_INSTALL_FAILED_INCOMPATIBLE_SIGNATURE | ERR_APPEXECFWK_INSTALL_FAILED_INCONSISTENT_SIGNATURE
  | ERR_APPEXECFWK_INSTALL_FAILED_MODULE_NAME_EMPTY | ERR_APPEXECFWK_INSTALL_FAILED_MODULE_NAME_DUPLICATE
  | ERR_APPEXECFWK_INSTALL_FAILED_CHECK_HAP_HASH_PARAM
  | ERR_APPEXECFWK_SANDBOX_INSTALL_APP_NOT_EXISTED | ERR_APPEXECFWK_SANDBOX_INSTALL_PARAM_ERROR
  | ERR_APPEXECFWK_SANDBOX_INSTALL_USER_NOT_EXIST | ERR_APPEXECFWK_SANDBOX_INSTALL_INVALID_APP_INDEX
  | ERR_APPEXECFWK_SANDBOX_INSTALL_NOT_INSTALLED_AT_SPECIFIED_USERID
  | ERR_APPEXECFWK_SANDBOX_INSTALL_NO_SANDBOX_APP_INFO
  | ERR_APPEXECFWK_SANDBOX_INSTALL_DELETE_APP_INDEX_FAILED
  | ERR_APPEXECFWK_UNINSTALL_SYSTEM_APP_ERROR | ERR_APPEXECFWK_UNINSTALL_KILLING_APP_ERROR
  | ERR_APPEXECFWK_UNINSTALL_INVALID_NAME | ERR_APPEXECFWK_UNINSTALL_BUNDLE_MGR_SERVICE_ERROR
  | ERR_APPEXECFWK_UNINSTALL_MISSING_INSTALLED_BUNDLE | ERR_APPEXECFWK_UNINSTALL_MISSING_INSTALLED_MODULE
  | ERR_APPEXECFWK_RECOVER_GET_BUNDLEPATH_ERROR
  | ERR_APPEXECFWK_USER_NOT_EXIST | ERR_APPEXECFWK_USER_NOT_INSTALL_HAP

datatype install_flag = InstallFlag_NORMAL | InstallFlag_REPLACE_EXISTING | InstallFlag_FREE_INSTALL

record install_param =
  ip_installFlag :: install_flag
  ip_userId :: int
  ip_isKeepData :: bool
  ip_needSavePreInstallInfo :: bool
  ip_isPreInstallApp :: bool
  ip_forceExecuted :: bool
  ip_noSkipsKill :: bool
  ip_needSendEvent :: bool
  ip_hashParams :: "(string, string) smap"

definition new_InstallParam :: install_param where
  "new_InstallParam = \<lparr> ip_installFlag = InstallFlag_NORMAL, ip_userId = UNSPECIFIED_USERID,
     ip_isKeepData = False, ip_needSavePreInstallInfo = False, ip_isPreInstallApp = False,
     ip_forceExecuted = False, ip_noSkipsKill = True, ip_needSendEvent = True, ip_hashParams = [] \<rparr>"

text \<open>What the signature verification of a package returns.\<close>

record provision_info =
  pv_appId :: string
  pv_apl :: string
  pv_appFeature :: string
  pv_allowedAcls :: "string list"
  pv_fingerprint :: string

section \<open>The environment\<close>

text \<open>The calls of the access token service that \<open>BundlePermissionMgr\<close> makes for the installers.\<close>

datatype perm_call =
    GrantRequestPermissions_call string u32
  | DeleteAccessTokenId_call u32
  | AddDefineAndRequestPermissions_call u32 string
  | UpdateDefineAndRequestPermissions_call u32 string
  | CreateAccessTokenId_call string int

datatype ext_call =
    Fs fs_call
  | Perm perm_call
  | Kill string int
  | Store
  | CloneFile string

record install_env =
  env_kv :: "nat \<Rightarrow> kv_env"
  env_fs :: "nat \<Rightarrow> fs_call \<Rightarrow> err_code"
  env_perm :: "nat \<Rightarrow> perm_call \<Rightarrow> bool"
  env_token :: "nat \<Rightarrow> string \<Rightarrow> int \<Rightarrow> u32"
  env_kill :: "nat \<Rightarrow> string \<Rightarrow> int \<Rightarrow> bool"
  env_time :: "nat \<Rightarrow> int"
  env_preStored :: "nat \<Rightarrow> bool"
  env_cloneFile :: "nat \<Rightarrow> string \<Rightarrow> bool"
  env_js :: json_codec
  env_order :: "string list \<Rightarrow> string list"
  env_checkPaths :: "string list \<Rightarrow> err_code + string list"
  env_sysCaps :: "string \<Rightarrow> err_code + string list"
  env_hasSysCap :: "string \<Rightarrow> bool"
  env_verify :: "string \<Rightarrow> err_code + provision_info"
  env_parse :: "string \<Rightarrow> inner_bundle_info \<Rightarrow> err_code + inner_bundle_info"
  env_parsePack :: "string \<Rightarrow> err_code + bundle_pack_info"
  env_space :: "string \<Rightarrow> app_type \<Rightarrow> bool"
  env_strToInt :: "string \<Rightarrow> int option"

section \<open>The service\<close>

record sandbox_mgr =
  sx_appInfos :: "(string, inner_bundle_info) smap"
  sx_appIndexMap :: "(string, int list) smap"

text \<open>The members of \<open>BundleCloneMgr\<close> that removing a clone reads.\<close>

record bms =
  b_dm :: data_mgr
  b_sandbox :: sandbox_mgr
  b_cloneInfo :: inner_bundle_info
  b_cloneBundleName :: string
  b_calls :: "ext_call list"

abbreviation now :: "'a bms_scheme \<Rightarrow> nat" where
  "now s \<equiv> length (b_calls s)"

definition log_call :: "ext_call \<Rightarrow> 'a bms_scheme \<Rightarrow> 'a bms_scheme" where
  "log_call c s = s\<lparr>b_calls := b_calls s @ [c]\<rparr>"

definition fs_op :: "install_env \<Rightarrow> fs_call \<Rightarrow> 'a bms_scheme \<Rightarrow> err_code \<times> 'a bms_scheme" where
  "fs_op e c s = (env_fs e (now s) c, log_call (Fs c) s)"

definition perm_op :: "install_env \<Rightarrow> perm_call \<Rightarrow> 'a bms_scheme \<Rightarrow> bool \<times> 'a bms_scheme" where
  "perm_op e c s = (env_perm e (now s) c, log_call (Perm c) s)"

definition token_op :: "install_env \<Rightarrow> string \<Rightarrow> int \<Rightarrow> 'a bms_scheme \<Rightarrow> u32 \<times> 'a bms_scheme" where
  "token_op e bundleName userId s =
     (env_token e (now s) bundleName userId, log_call (Perm (CreateAccessTokenId_call bundleName userId)) s)"

definition kill_op :: "install_env \<Rightarrow> string \<Rightarrow> int \<Rightarrow> 'a bms_scheme \<Rightarrow> bool \<times> 'a bms_scheme" where
  "kill_op e appName uid s = (env_kill e (now s) appName uid, log_call (Kill appName uid) s)"

text \<open>A call of the data manager, which may write to the key-value store.\<close>

definition dm_op ::
  "install_env \<Rightarrow> (kv_env \<Rightarrow> data_mgr \<Rightarrow> 'r \<times> data_mgr) \<Rightarrow> 'a bms_scheme \<Rightarrow> 'r \<times> 'a bms_scheme" where
  "dm_op e f s = (case f (env_kv e (now s)) (b_dm s) of (r, d) \<Rightarrow> (r, log_call Store (s\<lparr>b_dm := d\<rparr>)))"

abbreviation set_state ::
  "install_env \<Rightarrow> string \<Rightarrow> install_state \<Rightarrow> 'a bms_scheme \<Rightarrow> bool \<times> 'a bms_scheme" where
  "set_state e n st \<equiv> dm_op e (\<lambda>kv. UpdateBundleInstallState kv n st)"

abbreviation get_info :: "install_env \<Rightarrow> string \<Rightarrow> 'a bms_scheme \<Rightarrow> inner_bundle_info option \<times> 'a bms_scheme" where
  "get_info e n \<equiv> dm_op e (\<lambda>_. GetInnerBundleInfo n)"

abbreviation enable_bundle :: "install_env \<Rightarrow> string \<Rightarrow> 'a bms_scheme \<Rightarrow> bool \<times> 'a bms_scheme" where
  "enable_bundle e n \<equiv> dm_op e (\<lambda>_. EnableBundle n)"

abbreviation save_info :: "install_env \<Rightarrow> inner_bundle_info \<Rightarrow> 'a bms_scheme \<Rightarrow> bool \<times> 'a bms_scheme" where
  "save_info e i \<equiv> dm_op e (\<lambda>kv. SaveInnerBundleInfo kv i)"

text \<open>Removing a user also updates the state file, whose parser throws on a malformed text.\<close>

definition remove_user_op ::
  "install_env \<Rightarrow> string \<Rightarrow> int \<Rightarrow> 'a bms_scheme \<Rightarrow> (bool \<times> 'a bms_scheme) option" where
  "remove_user_op e n userId s =
     map_option (\<lambda>(r, d). (r, log_call Store (s\<lparr>b_dm := d\<rparr>)))
       (Mgr_RemoveInnerBundleUserInfo (env_kv e (now s)) (env_js e) n userId (b_dm s))"

section \<open>Frames\<close>

lemma log_call_frame [simp]:
  "b_dm (log_call c s) = b_dm s" "b_sandbox (log_call c s) = b_sandbox s" "b_cloneInfo (log_call c s) = b_cloneInfo s"
  "b_cloneBundleName (log_call c s) = b_cloneBundleName s" "bms.more (log_call c s) = bms.more s"
  "b_calls (log_call c s) = b_calls s @ [c]"
  by (simp_all add: log_call_def)

lemma ext_op_frame [simp]:
  "b_dm (snd (fs_op e c s)) = b_dm s" "b_sandbox (snd (fs_op e c s)) = b_sandbox s" "bms.more (snd (fs_op e c s)) = bms.more s"
  "b_dm (snd (perm_op e p s)) = b_dm s" "b_sandbox (snd (perm_op e p s)) = b_sandbox s" "bms.more (snd (perm_op e p s)) = bms.more s"
  "b_dm (snd (token_op e n v s)) = b_dm s" "b_sandbox (snd (token_op e n v s)) = b_sandbox s"
  "bms.more (snd (token_op e n v s)) = bms.more s"
  "b_dm (snd (kill_op e n v s)) = b_dm s" "b_sandbox (snd (kill_op e n v s)) = b_sandbox s" "bms.more (snd (kill_op e n v s)) = bms.more s"
  by (simp_all add: fs_op_def perm_op_def token_op_def kill_op_def)

lemma dm_op_frame [simp]:
  "b_sandbox (snd (dm_op e f s)) = b_sandbox s" "bms.more (snd (dm_op e f s)) = bms.more s"
  "b_dm (snd (dm_op e f s)) = snd (f (env_kv e (now s)) (b_dm s))"
  "fst (dm_op e f s) = fst (f (env_kv e (now s)) (b_dm s))"
  by (simp_all add: dm_op_def split_beta)

end
