(* ===== verification/Bundle_Clone.thy ===== *)
theory Bundle_Clone
  imports Install_World Json_Util
begin

text \<open>
  \<open>BundleCloneMgr\<close> (\<open>bundle_clone_mgr.cpp\<close>): making a second copy of an installed bundle and removing it.
  The manager keeps the information of the last clone in its members and the names of all cloned bundles
  in a JSON file; a second file holds the names that may be cloned. An exception of the JSON library, which
  nothing catches, is \<open>None\<close>.
\<close>

section \<open>State and environment\<close>

text \<open>Files that do not exist are \<open>None\<close>.\<close>

record clone_service = bms +
  cs_cloneFile :: "string option"
  cs_allowFile :: "string option"

text \<open>
  \<open>ce_stream\<close> reads a JSON value from a stream and throws on a malformed text, \<open>ce_parse\<close> does so for a
  whole stream; \<open>ce_dump\<close> prints with the indentation of the files. \<open>ce_reopen\<close>: whether the file can be
  opened for writing.
\<close>

record clone_env =
  ce_install :: install_env
  ce_stream :: "string \<Rightarrow> json option"
  ce_parse :: "string \<Rightarrow> json option"
  ce_dump :: "json \<Rightarrow> string"
  ce_reopen :: bool

section \<open>The files\<close>

text \<open>What a range-based for runs over, and \<open>item ["bundlename"] == bundleName\<close>.\<close>

fun json_elements :: "json \<Rightarrow> json list" where
  "json_elements (JArr js) = js"
| "json_elements (JObj m) = map snd m"
| "json_elements JNull = []"
| "json_elements j = [j]"

fun allow_loop :: "string \<Rightarrow> json list \<Rightarrow> bool option" where
  "allow_loop bundleName [] = Some False"
| "allow_loop bundleName (item # items) =
     (case item of
        JObj m \<Rightarrow> if map_of m ''bundlename'' = Some (JStr bundleName) then Some True else allow_loop bundleName items
      | JNull \<Rightarrow> allow_loop bundleName items
      | _ \<Rightarrow> None)"

definition CheckBundleNameInAllowList :: "clone_env \<Rightarrow> string \<Rightarrow> 'a clone_service_scheme \<Rightarrow> bool option" where
  "CheckBundleNameInAllowList e bundleName s =
     (case cs_allowFile s of
        None \<Rightarrow> Some False
      | Some content \<Rightarrow>
          (case ce_parse e content of None \<Rightarrow> None | Some j \<Rightarrow> allow_loop bundleName (json_elements j)))"

text \<open>The file is opened for reading and writing, so it is not created and not truncated.\<close>

definition SetCloneAppName ::
  "clone_env \<Rightarrow> string \<Rightarrow> 'a clone_service_scheme \<Rightarrow> (bool \<times> 'a clone_service_scheme) option" where
  "SetCloneAppName e bundleName s =
     (case cs_cloneFile s of
        None \<Rightarrow> Some (False, s)
      | Some content \<Rightarrow>
          if content = [] then
            Some (True, s\<lparr>cs_cloneFile := Some (ce_dump e (JObj [(bundleName, JStr bundleName)]) @ [CHR 0x0A])\<rparr>)
          else (case ce_stream e content of
                  None \<Rightarrow> None
                | Some j \<Rightarrow>
                    if obj_find j bundleName \<noteq> None then Some (False, s)
                    else (case (case j of JObj m \<Rightarrow> Some m | JNull \<Rightarrow> Some [] | _ \<Rightarrow> None) of
                            None \<Rightarrow> None
                          | Some m \<Rightarrow>
                              Some (True, s\<lparr>cs_cloneFile := Some (overwrite
                                (ce_dump e (JObj (sm_assign bundleName (JStr bundleName) m)) @ [CHR 0x0A]) content)\<rparr>))))"

text \<open>An empty file reads as null, and null is written back.\<close>

definition DeleteCloneAppName ::
  "clone_env \<Rightarrow> string \<Rightarrow> 'a clone_service_scheme \<Rightarrow> (bool \<times> 'a clone_service_scheme) option" where
  "DeleteCloneAppName e bundleName s =
     (case cs_cloneFile s of
        None \<Rightarrow> Some (False, s)
      | Some content \<Rightarrow>
          (case (if content = [] then Some JNull else ce_stream e content) of
             None \<Rightarrow> None
           | Some j \<Rightarrow>
               (let j' = (case j of JObj m \<Rightarrow> JObj (sm_erase bundleName m) | _ \<Rightarrow> j)
                in if \<not> ce_reopen e then Some (False, s)
                   else Some (True, s\<lparr>cs_cloneFile := Some (ce_dump e j')\<rparr>))))"

section \<open>Making a clone\<close>

definition CreateCloneBundleInfo ::
  "clone_env \<Rightarrow> string \<Rightarrow> 'a clone_service_scheme \<Rightarrow> bool \<times> 'a clone_service_scheme" where
  "CreateCloneBundleInfo e bundleName s =
     (case get_info (ce_install e) bundleName s of
        (None, s1) \<Rightarrow> (False, s1)
      | (Some i, s1) \<Rightarrow>
          (True, s1\<lparr>b_cloneInfo := i\<lparr>ib_baseApplicationInfo := (ib_baseApplicationInfo i)\<lparr>app_isCloned := True\<rparr>\<rparr>\<rparr>))"

text \<open>
  \<open>ModifyInstallDirByHapType\<close>: the three kinds of applications have the same install path. The paths for
  code are not used afterwards.
\<close>

definition clone_base_data_path :: "inner_bundle_info \<Rightarrow> string" where
  "clone_base_data_path i = ''/data/accounts'' @ ''/account_'' @ to_string (ib_userId i) @ ''/appdata''"

definition SetNewBundleName :: "string \<Rightarrow> inner_bundle_info \<Rightarrow> inner_bundle_info" where
  "SetNewBundleName bundleName i = i\<lparr>ib_newBundleName := bundleName @ ''#'' @ to_string (ib_uid i)\<rparr>"

definition UpdateBundlePaths :: "string \<Rightarrow> inner_bundle_info \<Rightarrow> inner_bundle_info" where
  "UpdateBundlePaths baseDataPath i =
     i\<lparr>ib_baseDataDir := baseDataPath,
       ib_baseApplicationInfo := (ib_baseApplicationInfo i)\<lparr>app_dataDir := baseDataPath,
         app_dataBaseDir := baseDataPath @ ''/database'', app_cacheDir := baseDataPath @ ''/cache''\<rparr>\<rparr>"

definition clone_user :: "string \<Rightarrow> inner_bundle_user_info" where
  "clone_user bundleName =
     new_InnerBundleUserInfo\<lparr>iu_bundleName := bundleName,
       iu_bundleUserInfo := (iu_bundleUserInfo new_InnerBundleUserInfo)\<lparr>bu_userId := DEFAULT_USERID\<rparr>\<rparr>"

definition Clone_CreateBundleAndDataDir ::
  "clone_env \<Rightarrow> 'a clone_service_scheme \<Rightarrow> err_code \<times> 'a clone_service_scheme" where
  "Clone_CreateBundleAndDataDir e s =
     (let n = b_cloneBundleName s;
          ((ok, u), s1) = dm_op (ce_install e) (\<lambda>_ d. case GenerateUidAndGid (clone_user n) d of (ok, u, d1) \<Rightarrow> ((ok, u), d1)) s
      in if \<not> ok then (ERR_APPEXECFWK_INSTALL_GENERATE_UID_ERROR, s1)
         else (let i = b_cloneInfo s1;
                   i1 = SetNewBundleName n
                          (i\<lparr>ib_baseApplicationInfo := (ib_baseApplicationInfo i)\<lparr>app_uid := ib_uid i\<rparr>\<rparr>);
                   path = clone_base_data_path i1 @ PATH_SEPARATOR @ GetDBKeyBundleName i1;
                   (r, s2) = fs_op (ce_install e) (CreateBundleDataDir path DEFAULT_USERID (iu_uid u) (iu_uid u)
                       (app_appPrivilegeLevel (ib_baseApplicationInfo i1))) (s1\<lparr>b_cloneInfo := i1\<rparr>)
               in if r \<noteq> ERR_OK then (r, s2) else (ERR_OK, s2\<lparr>b_cloneInfo := UpdateBundlePaths path i1\<rparr>)))"

definition ProcessCloneInstall :: "clone_env \<Rightarrow> 'a clone_service_scheme \<Rightarrow> err_code \<times> 'a clone_service_scheme" where
  "ProcessCloneInstall e s =
     (let s0 = s\<lparr>b_cloneBundleName := GetBundleName (b_cloneInfo s)\<rparr> in
      case Clone_CreateBundleAndDataDir e s0 of
        (r, s1) \<Rightarrow>
          if r \<noteq> ERR_OK then (r, s1)
          else (let i = SetBundleStatus BundleStatus_ENABLED (b_cloneInfo s1);
                    time = env_time (ce_install e) (now s1);
                    refused = b_cloneBundleName s1 = [] \<or> map_of (dm_bundleInfos (b_dm s1)) (GetDBKeyBundleName i) \<noteq> None;
                    i1 = (if refused then i else SetBundleInstallTime time UNSPECIFIED_USERID i);
                    (ok, s2) = dm_op (ce_install e) (\<lambda>kv. SaveNewInfoToDB kv time (b_cloneBundleName s1) i)
                                 (s1\<lparr>b_cloneInfo := i1\<rparr>)
                in if \<not> ok then (ERR_APPEXECFWK_INSTALL_BUNDLE_MGR_SERVICE_ERROR, s2)
                   else (let (_, s3) = enable_bundle (ce_install e) (GetDBKeyBundleName i1) s2;
                             (_, s4) = enable_bundle (ce_install e) (b_cloneBundleName s3) s3
                         in (ERR_OK, s4))))"

definition BundleClone ::
  "clone_env \<Rightarrow> string \<Rightarrow> 'a clone_service_scheme \<Rightarrow> (bool \<times> 'a clone_service_scheme) option" where
  "BundleClone e bundleName s = do {
     allowed \<leftarrow> CheckBundleNameInAllowList e bundleName s;
     if \<not> allowed then Some (False, s)
     else do {
       (set, s1) \<leftarrow> SetCloneAppName e bundleName s;
       if \<not> set then Some (False, s1)
       else (case CreateCloneBundleInfo e bundleName s1 of
               (False, s2) \<Rightarrow> map_option (\<lambda>(_, s3). (False, s3)) (DeleteCloneAppName e bundleName s2)
             | (True, s2) \<Rightarrow>
                 (case ProcessCloneInstall e s2 of
                    (r, s3) \<Rightarrow>
                      if r \<noteq> ERR_OK
                      then map_option (\<lambda>(_, s4). (False, s4)) (DeleteCloneAppName e bundleName s3)
                      else Some (True, s3)))
     }
   }"

section \<open>Removing a clone\<close>

text \<open>
  As \<open>RemoveClonedBundle\<close> of the installer theory, with the result and the file. The guards that enable two
  bundles run also when the function is left early: they name the members of the manager, which the last
  clone has set.
\<close>

definition Clone_RemoveClonedBundle ::
  "clone_env \<Rightarrow> string \<Rightarrow> string \<Rightarrow> 'a clone_service_scheme \<Rightarrow> (bool \<times> 'a clone_service_scheme) option" where
  "Clone_RemoveClonedBundle e oldName cloneName s =
     (let ie = ce_install e in
      if cloneName = [] then Some (False, s)
      else (case get_info ie cloneName s of
        (None, s1) \<Rightarrow> Some (False, s1)
      | (Some i, s1) \<Rightarrow>
          (let (killed, s2) = kill_op ie (app_name (ib_baseApplicationInfo i)) (GetUid UNSPECIFIED_USERID i) s1
           in map_option (\<lambda>(ok, s3).
                (let (_, s4) = enable_bundle ie (b_cloneBundleName s3) s3;
                     (_, s5) = enable_bundle ie (GetDBKeyBundleName (b_cloneInfo s4)) s4
                 in (ok, s5)))
                (if \<not> killed then Some (False, s2)
                 else (let (r, t1) = fs_op ie (RemoveDir (ib_baseDataDir i)) s2 in
                       if r \<noteq> ERR_OK then Some (False, t1)
                       else (let (ok, t2) = dm_op ie (\<lambda>kv. RemoveClonedBundleInfo kv cloneName) t1
                             in if \<not> ok then Some (False, t2)
                                else DeleteCloneAppName e oldName t2))))))"

end
