(* ===== verification/Sandbox_Apps.thy ===== *)
theory Sandbox_Apps
  imports Install_World
begin

unbundle bit_operations_syntax

text \<open>
  Sandbox applications: \<open>BundleSandboxDataMgr\<close> (\<open>bundle_sandbox_data_mgr.cpp\<close>) keeps their
  information and hands out the indices that tell the copies of one bundle apart;
  \<open>BundleSandboxInstaller\<close> (\<open>bundle_sandbox_installer.cpp\<close>) installs and removes them. The member
  variables \<open>bundleName_\<close> and \<open>userId_\<close> of the installer object are arguments.
\<close>

section \<open>The sandbox data manager\<close>

definition MAX_APP_INDEX :: int where "MAX_APP_INDEX = 100"

definition sandbox_key :: "string \<Rightarrow> int \<Rightarrow> string" where
  "sandbox_key bundleName appIndex = bundleName @ FILE_UNDERLINE @ to_string appIndex"

definition SaveSandboxAppInfo :: "inner_bundle_info \<Rightarrow> int \<Rightarrow> sandbox_mgr \<Rightarrow> sandbox_mgr" where
  "SaveSandboxAppInfo i appIndex x =
     (if GetBundleName i = [] then x
      else x\<lparr>sx_appInfos := sm_assign (sandbox_key (GetBundleName i) appIndex) i (sx_appInfos x)\<rparr>)"

definition DeleteSandboxAppInfo :: "string \<Rightarrow> int \<Rightarrow> sandbox_mgr \<Rightarrow> sandbox_mgr" where
  "DeleteSandboxAppInfo bundleName appIndex x =
     (if bundleName = [] then x
      else x\<lparr>sx_appInfos := sm_erase (sandbox_key bundleName appIndex) (sx_appInfos x)\<rparr>)"

definition GetSandboxAppInfo ::
  "string \<Rightarrow> int \<Rightarrow> int \<Rightarrow> sandbox_mgr \<Rightarrow> err_code + inner_bundle_info" where
  "GetSandboxAppInfo bundleName appIndex userId x =
     (if bundleName = [] then Inl ERR_APPEXECFWK_SANDBOX_INSTALL_PARAM_ERROR
      else if appIndex \<le> INITIAL_APP_INDEX then Inl ERR_APPEXECFWK_SANDBOX_INSTALL_PARAM_ERROR
      else if userId < DEFAULT_USERID then Inl ERR_APPEXECFWK_SANDBOX_INSTALL_PARAM_ERROR
      else (case map_of (sx_appInfos x) (sandbox_key bundleName appIndex) of
              None \<Rightarrow> Inl ERR_APPEXECFWK_SANDBOX_INSTALL_NO_SANDBOX_APP_INFO
            | Some i \<Rightarrow>
                if \<not> fst (GetInnerBundleUserInfo userId new_InnerBundleUserInfo i)
                then Inl ERR_APPEXECFWK_SANDBOX_INSTALL_NOT_INSTALLED_AT_SPECIFIED_USERID
                else Inr i))"

text \<open>The loop that counts how many indices are taken without a gap from the first on.\<close>

fun last_before_gap :: "int \<Rightarrow> int list \<Rightarrow> int" where
  "last_before_gap pre [] = pre"
| "last_before_gap pre (i # is) = (if i = pre + 1 then last_before_gap (pre + 1) is else pre)"

definition GenerateSandboxAppIndex :: "string \<Rightarrow> sandbox_mgr \<Rightarrow> int \<times> sandbox_mgr" where
  "GenerateSandboxAppIndex bundleName x =
     (if bundleName = [] then (INITIAL_APP_INDEX, x)
      else (case map_of (sx_appIndexMap x) bundleName of
              None \<Rightarrow> (INITIAL_APP_INDEX + 1,
                       x\<lparr>sx_appIndexMap := sm_emplace bundleName [INITIAL_APP_INDEX + 1] (sx_appIndexMap x)\<rparr>)
            | Some is \<Rightarrow>
                if is = [] then
                  (INITIAL_APP_INDEX + 1,
                   x\<lparr>sx_appIndexMap := sm_assign bundleName [INITIAL_APP_INDEX + 1] (sx_appIndexMap x)\<rparr>)
                else (let new = last_before_gap INITIAL_APP_INDEX is + 1 in
                      if new > MAX_APP_INDEX then (INITIAL_APP_INDEX, x)
                      else (new, x\<lparr>sx_appIndexMap := sm_assign bundleName (ss_insert new is) (sx_appIndexMap x)\<rparr>))))"

definition DeleteSandboxAppIndex :: "string \<Rightarrow> int \<Rightarrow> sandbox_mgr \<Rightarrow> bool \<times> sandbox_mgr" where
  "DeleteSandboxAppIndex bundleName appIndex x =
     (if bundleName = [] then (False, x)
      else (case map_of (sx_appIndexMap x) bundleName of
              None \<Rightarrow> (False, x)
            | Some is \<Rightarrow>
                if is = [] then (False, x)
                else if appIndex \<notin> set is then (False, x)
                else if ss_erase appIndex is = [] then
                  (True, x\<lparr>sx_appIndexMap := sm_erase bundleName (sx_appIndexMap x)\<rparr>)
                else (True, x\<lparr>sx_appIndexMap := sm_assign bundleName (ss_erase appIndex is) (sx_appIndexMap x)\<rparr>)))"

definition GetSandboxAppBundleInfo ::
  "(bundle_info \<Rightarrow> bundle_info) \<Rightarrow> string \<Rightarrow> int \<Rightarrow> int \<Rightarrow> sandbox_mgr \<Rightarrow> err_code + bundle_info" where
  "GetSandboxAppBundleInfo permStates bundleName appIndex userId x =
     (case GetSandboxAppInfo bundleName appIndex userId x of
        Inl r \<Rightarrow> Inl r
      | Inr i \<Rightarrow>
          if \<not> fst (GetInnerBundleUserInfo userId new_InnerBundleUserInfo i)
          then Inl ERR_APPEXECFWK_SANDBOX_INSTALL_NOT_INSTALLED_AT_SPECIFIED_USERID
          else Inr (GetBundleInfo permStates (GET_BUNDLE_WITH_ABILITIES OR
                      GET_BUNDLE_WITH_REQUESTED_PERMISSION OR GET_BUNDLE_WITH_EXTENSION_INFO OR
                      GET_BUNDLE_WITH_HASH_VALUE) userId new_BundleInfo i))"

section \<open>The sandbox installer\<close>

definition BUNDLE_APP_DATA_BASE_DIR :: string where "BUNDLE_APP_DATA_BASE_DIR = ''/data/app/''"
definition DATABASE :: string where "DATABASE = ''/database/''"
definition BUNDLE_EL :: "string list" where "BUNDLE_EL = [''el1'', ''el2'']"

definition upd_sandbox :: "(sandbox_mgr \<Rightarrow> sandbox_mgr) \<Rightarrow> 'a bms_scheme \<Rightarrow> 'a bms_scheme" where
  "upd_sandbox f s = s\<lparr>b_sandbox := f (b_sandbox s)\<rparr>"

definition CreateSandboxDataDir ::
  "install_env \<Rightarrow> int \<Rightarrow> inner_bundle_info \<Rightarrow> int \<Rightarrow> int \<Rightarrow> 'a bms_scheme \<Rightarrow> err_code \<times> inner_bundle_info \<times> 'a bms_scheme" where
  "CreateSandboxDataDir e userId i uid appIndex s =
     (let dir = sandbox_key (GetBundleName i) appIndex;
          (r, s1) = fs_op e (CreateBundleDataDir dir userId uid uid (app_appPrivilegeLevel (ib_baseApplicationInfo i))) s
      in if r \<noteq> ERR_OK then (r, i, s1)
         else (ERR_OK, SetAppDataBaseDir (BUNDLE_APP_DATA_BASE_DIR @ BUNDLE_EL ! 1 @ DATABASE @ dir) i, s1))"

definition SandboxAppRollBack ::
  "install_env \<Rightarrow> inner_bundle_info \<Rightarrow> int \<Rightarrow> 'a bms_scheme \<Rightarrow> 'a bms_scheme" where
  "SandboxAppRollBack e i userId s =
     (let (_, s1) = perm_op e (DeleteAccessTokenId_call (GetAccessTokenId userId i)) s;
          n = GetBundleName i; key = sandbox_key n (ib_appIndex i);
          s2 = upd_sandbox (snd \<circ> DeleteSandboxAppIndex n (ib_appIndex i)) s1;
          s3 = (case GetInnerBundleUserInfo userId new_InnerBundleUserInfo i of
                  (False, _) \<Rightarrow> s2
                | (True, u) \<Rightarrow>
                    snd (dm_op e (\<lambda>_ d. ((), RecycleUidAndGid (AddInnerBundleUserInfo (u\<lparr>iu_bundleName := key\<rparr>) i) d)) s2));
          (_, s4) = fs_op e (RemoveBundleDataDir key userId) s3
      in s4)"

text \<open>
  The steps of \<open>InstallSandboxApp\<close> behind the guard that rolls back when the function returns without
  an index: \<open>i\<close> is the information of the bundle without its users and \<open>u\<close> the one of the user.
\<close>

definition create_sandbox ::
  "install_env \<Rightarrow> string \<Rightarrow> int \<Rightarrow> inner_bundle_info \<Rightarrow> inner_bundle_user_info \<Rightarrow> 'a bms_scheme \<Rightarrow> (err_code + int) \<times> 'a bms_scheme" where
  "create_sandbox e bundleName userId i u s =
     (let (new, x) = GenerateSandboxAppIndex bundleName (b_sandbox s); s1 = s\<lparr>b_sandbox := x\<rparr>
      in if new = INITIAL_APP_INDEX
         then (Inl ERR_APPEXECFWK_SANDBOX_INSTALL_INVALID_APP_INDEX, SandboxAppRollBack e i userId s1)
         else
           (let i1 = i\<lparr>ib_appIndex := new, ib_isSandboxApp := True\<rparr>;
                (token, s2) = token_op e (GetBundleName i1) userId s1;
                (granted, s3) = perm_op e (GrantRequestPermissions_call (GetBundleName i1) token) s2
            in if \<not> granted
               then (Inl ERR_APPEXECFWK_INSTALL_GRANT_REQUEST_PERMISSIONS_FAILED, SandboxAppRollBack e i1 userId s3)
               else
                 (let ((_, u1), s4) = dm_op e (\<lambda>_ d. (case GenerateUidAndGid
                          (u\<lparr>iu_bundleName := sandbox_key bundleName new, iu_gids := []\<rparr>) d of
                            (ok, u1, d1) \<Rightarrow> ((ok, u1), d1))) s3;
                      u2 = u1\<lparr>iu_bundleName := bundleName\<rparr>;
                      i2 = SetAccessTokenId token userId (SetBundleUpdateTime 0 userId
                             (SetBundleInstallTime (env_time e (now s4)) userId (AddInnerBundleUserInfo u2 i1)));
                      (r, i3, s5) = CreateSandboxDataDir e userId i2 (iu_uid u2) new s4
                  in if r \<noteq> ERR_OK then (Inl r, SandboxAppRollBack e i3 userId s5)
                     else
                       (let s6 = upd_sandbox (SaveSandboxAppInfo i3 new) s5;
                            (_, s7) = enable_bundle e bundleName s6;
                            (_, s8) = dm_op e (\<lambda>kv d. ((), StoreSandboxPersistentInfo kv bundleName
                               \<lparr> sp_accessTokenId = token, sp_appIndex = new, sp_userId = userId \<rparr> d)) s7
                        in (Inr new, s8)))))"

text \<open>\<open>InstallSandboxApp\<close> returns the index of the new application.\<close>

definition InstallSandboxApp ::
  "install_env \<Rightarrow> string \<Rightarrow> int \<Rightarrow> 'a bms_scheme \<Rightarrow> (err_code + int) \<times> 'a bms_scheme" where
  "InstallSandboxApp e bundleName userId s =
     (if bundleName = [] then (Inl ERR_APPEXECFWK_SANDBOX_INSTALL_PARAM_ERROR, s)
      else (case get_info e bundleName s of
        (None, s1) \<Rightarrow> (Inl ERR_APPEXECFWK_SANDBOX_INSTALL_APP_NOT_EXISTED, s1)
      | (Some i, s1) \<Rightarrow>
          if userId < DEFAULT_USERID then (Inl ERR_APPEXECFWK_SANDBOX_INSTALL_PARAM_ERROR, s1)
          else if \<not> HasUserId userId (b_dm s1) then (Inl ERR_APPEXECFWK_SANDBOX_INSTALL_USER_NOT_EXIST, s1)
          else (case GetInnerBundleUserInfo userId new_InnerBundleUserInfo i of
                  (False, _) \<Rightarrow> (Inl ERR_APPEXECFWK_SANDBOX_INSTALL_NOT_INSTALLED_AT_SPECIFIED_USERID, s1)
                | (True, u) \<Rightarrow> create_sandbox e bundleName userId (CleanInnerBundleUserInfos i) u s1)))"

definition UninstallSandboxApp ::
  "install_env \<Rightarrow> string \<Rightarrow> int \<Rightarrow> int \<Rightarrow> 'a bms_scheme \<Rightarrow> err_code \<times> 'a bms_scheme" where
  "UninstallSandboxApp e bundleName appIndex userId s =
     (if userId < DEFAULT_USERID then (ERR_APPEXECFWK_SANDBOX_INSTALL_PARAM_ERROR, s)
      else if \<not> HasUserId userId (b_dm s) then (ERR_APPEXECFWK_SANDBOX_INSTALL_USER_NOT_EXIST, s)
      else (case GetSandboxAppInfo bundleName appIndex userId (b_sandbox s) of
        Inl r \<Rightarrow> (r, s)
      | Inr i \<Rightarrow>
          (case GetInnerBundleUserInfo userId new_InnerBundleUserInfo i of
             (False, _) \<Rightarrow> (ERR_APPEXECFWK_SANDBOX_INSTALL_NOT_INSTALLED_AT_SPECIFIED_USERID, s)
           | (True, u) \<Rightarrow>
               (let token = GetAccessTokenId userId i;
                    (_, s1) = perm_op e (DeleteAccessTokenId_call token) s;
                    (ok, x) = DeleteSandboxAppIndex bundleName appIndex (b_sandbox s1);
                    s2 = s1\<lparr>b_sandbox := x\<rparr>
                in if \<not> ok then (ERR_APPEXECFWK_SANDBOX_INSTALL_DELETE_APP_INDEX_FAILED, s2)
                   else
                     (let key = sandbox_key bundleName appIndex;
                          (r, s3) = fs_op e (RemoveBundleDataDir key userId) s2
                      in if r \<noteq> ERR_OK then (r, s3)
                         else
                           (let i1 = AddInnerBundleUserInfo (u\<lparr>iu_bundleName := key\<rparr>) i;
                                (_, s4) = dm_op e (\<lambda>_ d. ((), RecycleUidAndGid i1 d)) s3;
                                s5 = upd_sandbox (DeleteSandboxAppInfo bundleName appIndex) s4;
                                (_, s6) = dm_op e (\<lambda>kv d. ((), DeleteSandboxPersistentInfo kv bundleName
                                   \<lparr> sp_accessTokenId = token, sp_appIndex = appIndex, sp_userId = userId \<rparr> d)) s5
                            in (ERR_OK, s6)))))))"

text \<open>
  The loop over a copy of the map, in the order of the hash table. \<open>substr\<close> throws when it starts
  behind the end of the key, and a sandbox information without users has no first user.
\<close>

fun uninstall_sandboxes ::
  "install_env \<Rightarrow> string \<Rightarrow> int \<Rightarrow> (string \<times> inner_bundle_info) list \<Rightarrow> 'a bms_scheme \<Rightarrow> 'a bms_scheme option" where
  "uninstall_sandboxes e bundleName userId [] s = Some s"
| "uninstall_sandboxes e bundleName userId ((key, i) # kis) s =
     (if find_sub bundleName key = None then uninstall_sandboxes e bundleName userId kis s
      else if length key < length bundleName + 1 then None
      else (case env_strToInt e (drop (length bundleName + 1) key) of
              None \<Rightarrow> uninstall_sandboxes e bundleName userId kis s
            | Some appIndex \<Rightarrow>
                (case ib_innerBundleUserInfos i of
                   [] \<Rightarrow> None
                 | (_, u) # _ \<Rightarrow>
                     (let specified = bu_userId (iu_bundleUserInfo u) in
                      if specified = userId \<or> userId = INVALID_USERID
                      then uninstall_sandboxes e bundleName userId kis (snd (UninstallSandboxApp e bundleName appIndex specified s))
                      else uninstall_sandboxes e bundleName userId kis s))))"

definition in_order :: "install_env \<Rightarrow> (string, 'v) smap \<Rightarrow> (string \<times> 'v) list" where
  "in_order e m = List.map_filter (\<lambda>k. map_option (Pair k) (map_of m k)) (env_order e (map fst m))"

definition UninstallAllSandboxApps ::
  "install_env \<Rightarrow> string \<Rightarrow> int \<Rightarrow> 'a bms_scheme \<Rightarrow> (err_code \<times> 'a bms_scheme) option" where
  "UninstallAllSandboxApps e bundleName userId s =
     (if bundleName = [] then Some (ERR_APPEXECFWK_SANDBOX_INSTALL_PARAM_ERROR, s)
      else map_option (Pair ERR_OK) (uninstall_sandboxes e bundleName userId (in_order e (sx_appInfos (b_sandbox s))) s))"

end
