(* ===== verification/Host_Impl.thy ===== *)
theory Host_Impl
  imports Bundle_Permission Host_Data Bundle_Clone Sandbox_Apps Ipc_Interface Json_Inner
begin

unbundle bit_operations_syntax

text \<open>
  \<open>BundleMgrHostImpl\<close> (\<open>bundle_mgr_host_impl.cpp\<close>): the operations of \<open>IBundleMgr\<close> as the bundle manager
  service carries them out. It checks what the caller may do, asks the data manager, the sandbox data
  manager or the clone manager, and reports changes. \<open>bundle_mgr_of\<close> puts the operations together, so that
  the host of the IPC theories can serve them.
\<close>

section \<open>State and environment\<close>

text \<open>
  The managers of \<open>BundleMgrService\<close> are created at its start; the flags tell which exist. Reports to the
  event system, notifications and the tasks posted to the service's handler are kept in order. \<open>bs_died\<close>
  records an exception that nothing catches or the use of a null pointer: the process ends there.
\<close>

datatype report =
    CleanCacheReport string int bool bool
  | ComponentStateReport string string int bool bool

record clean_task =
  ct_bundleName :: string
  ct_userId :: int
  ct_rootDir :: "string list"
  ct_callback :: nat

record bundle_service = clone_service +
  bs_hasDataMgr :: bool
  bs_hasSandboxMgr :: bool
  bs_hasCloneMgr :: bool
  bs_hasConnectMgr :: bool
  bs_tokenCalls :: "token_call list"
  bs_callbacks :: callback_list
  bs_notified :: "notification list"
  bs_reports :: "report list"
  bs_tasks :: "clean_task list"
  bs_finished :: "(nat \<times> bool) list"
  bs_died :: bool

text \<open>
  One call: who calls, and what the other services and libraries answer. \<open>ie_connect\<close> is
  \<open>BundleConnectAbilityMgr\<close>, which may ask for an installation first; \<open>ie_parse\<close> the JSON parser without
  exceptions; \<open>ie_resConfig\<close>, \<open>ie_string\<close> and \<open>ie_icon\<close> the resource files of a package.
\<close>

record impl_env =
  ie_clone :: clone_env
  ie_kit :: access_token_kit
  ie_callingUid :: int
  ie_callerToken :: u32
  ie_rx :: regex_engine
  ie_activeUser :: int
  ie_string :: "bundle_info \<Rightarrow> int \<Rightarrow> string option"
  ie_icon :: "bundle_info \<Rightarrow> int \<Rightarrow> nat option"
  ie_resConfig :: "ability_info \<Rightarrow> string list option"
  ie_parse :: "string \<Rightarrow> json option"
  ie_checkPath :: "string \<Rightarrow> err_code + string"
  ie_distributed :: "string \<Rightarrow> string \<Rightarrow> distributed_bundle_info option"
  ie_connect :: "want \<Rightarrow> int \<Rightarrow> int \<Rightarrow> nat option \<Rightarrow> ability_info option"
  ie_installer :: "nat option"
  ie_userMgr :: "nat option"
  ie_cachePath :: "string \<Rightarrow> string list option"
  ie_cleanDir :: "string \<Rightarrow> err_code"

abbreviation inst :: "impl_env \<Rightarrow> install_env" where
  "inst e \<equiv> ce_install (ie_clone e)"

text \<open>\<open>GetDataMgrFromService\<close>, and the answer when there is none.\<close>

definition from_mgr :: "'r \<Rightarrow> (data_mgr \<Rightarrow> 'r) \<Rightarrow> bundle_service \<Rightarrow> 'r" where
  "from_mgr none f s = (if bs_hasDataMgr s then f (b_dm s) else none)"

definition perm_states :: "impl_env \<Rightarrow> bundle_service \<Rightarrow> bundle_info \<Rightarrow> bundle_info" where
  "perm_states e s b = snd (GetRequestPermissionStates (ie_kit e) (bs_tokenCalls s) b)"

definition or_dies :: "'r \<Rightarrow> ('r \<times> bundle_service) option \<Rightarrow> bundle_service \<Rightarrow> 'r \<times> bundle_service" where
  "or_dies r x s = (case x of None \<Rightarrow> (r, s\<lparr>bs_died := True\<rparr>) | Some p \<Rightarrow> p)"

abbreviation flags32 :: "int \<Rightarrow> u32" where
  "flags32 \<equiv> word_of_int"

section \<open>Permissions of the caller\<close>

definition PERMISSION_GET_BUNDLE_INFO :: string where
  "PERMISSION_GET_BUNDLE_INFO = ''ohos.permission.GET_BUNDLE_INFO''"
definition PERMISSION_GET_BUNDLE_INFO_PRIVILEGED :: string where
  "PERMISSION_GET_BUNDLE_INFO_PRIVILEGED = ''ohos.permission.GET_BUNDLE_INFO_PRIVILEGED''"
definition PERMISSION_CHANGE_ABILITY_ENABLED_STATE :: string where
  "PERMISSION_CHANGE_ABILITY_ENABLED_STATE = ''ohos.permission.CHANGE_ABILITY_ENABLED_STATE''"
definition PERNISSION_REMOVECACHEFILE :: string where
  "PERNISSION_REMOVECACHEFILE = ''ohos.permission.REMOVE_CACHE_FILES''"
definition LISTEN_BUNDLE_CHANGE :: string where
  "LISTEN_BUNDLE_CHANGE = ''ohos.permission.LISTEN_BUNDLE_CHANGE''"

definition Impl_VerifyCallingPermission :: "impl_env \<Rightarrow> string \<Rightarrow> bundle_service \<Rightarrow> bool" where
  "Impl_VerifyCallingPermission e permission s =
     VerifyCallingPermission (ie_kit e) (bs_tokenCalls s) (ie_callerToken e) permission"

definition Impl_GetBundleNameForUid :: "int \<Rightarrow> bundle_service \<Rightarrow> string option" where
  "Impl_GetBundleNameForUid uid = from_mgr None (GetBundleNameForUid uid)"

definition VerifyQueryPermission :: "impl_env \<Rightarrow> string \<Rightarrow> bundle_service \<Rightarrow> bool" where
  "VerifyQueryPermission e queryBundleName s =
     (if Impl_GetBundleNameForUid (ie_callingUid e) s = Some queryBundleName then True
      else Impl_VerifyCallingPermission e PERMISSION_GET_BUNDLE_INFO s \<or>
           Impl_VerifyCallingPermission e PERMISSION_GET_BUNDLE_INFO_PRIVILEGED s)"

abbreviation privileged :: "impl_env \<Rightarrow> bundle_service \<Rightarrow> bool" where
  "privileged e s \<equiv> Impl_VerifyCallingPermission e PERMISSION_GET_BUNDLE_INFO_PRIVILEGED s"

section \<open>Applications and bundles\<close>

definition Impl_GetApplicationInfo :: "impl_env \<Rightarrow> string \<Rightarrow> int \<Rightarrow> int \<Rightarrow> bundle_service \<Rightarrow> application_info option" where
  "Impl_GetApplicationInfo e appName flags userId s =
     (if \<not> VerifyQueryPermission e appName s then None
      else from_mgr None (Mgr_GetApplicationInfo (ie_callingUid e) appName (flags32 flags) userId new_ApplicationInfo) s)"

definition Impl_GetApplicationInfos :: "impl_env \<Rightarrow> int \<Rightarrow> int \<Rightarrow> bundle_service \<Rightarrow> application_info list option" where
  "Impl_GetApplicationInfos e flags userId s =
     (if \<not> privileged e s then None
      else from_mgr None (GetApplicationInfos (ie_callingUid e) (flags32 flags) userId) s)"

definition Impl_GetBundleInfo :: "impl_env \<Rightarrow> string \<Rightarrow> int \<Rightarrow> int \<Rightarrow> bundle_service \<Rightarrow> bundle_info option" where
  "Impl_GetBundleInfo e bundleName flags userId s =
     (if \<not> VerifyQueryPermission e bundleName s then None
      else from_mgr None
        (Mgr_GetBundleInfo (perm_states e s) (ie_callingUid e) bundleName (flags32 flags) new_BundleInfo userId) s)"

definition Impl_GetBundlePackInfo :: "impl_env \<Rightarrow> string \<Rightarrow> int \<Rightarrow> bundle_service \<Rightarrow> bundle_pack_info option" where
  "Impl_GetBundlePackInfo e bundleName flags =
     from_mgr None (GetBundlePackInfo (ie_callingUid e) bundleName (flags32 flags) new_BundlePackInfo)"

definition Impl_GetBundleUserInfo :: "impl_env \<Rightarrow> string \<Rightarrow> int \<Rightarrow> bundle_service \<Rightarrow> inner_bundle_user_info option" where
  "Impl_GetBundleUserInfo e bundleName userId =
     from_mgr None (GetInnerBundleUserInfoByUserId (ie_callingUid e) bundleName userId new_InnerBundleUserInfo)"

definition Impl_GetBundleUserInfos :: "string \<Rightarrow> bundle_service \<Rightarrow> inner_bundle_user_info list option" where
  "Impl_GetBundleUserInfos bundleName = from_mgr None (GetInnerBundleUserInfos bundleName)"

definition Impl_GetBundleInfos :: "impl_env \<Rightarrow> int \<Rightarrow> int \<Rightarrow> bundle_service \<Rightarrow> bundle_info list option" where
  "Impl_GetBundleInfos e flags userId s =
     (if \<not> privileged e s then None
      else from_mgr None (GetBundleInfos (perm_states e s) (ie_callingUid e) (flags32 flags) userId) s)"

definition Impl_GetBundlesForUid :: "int \<Rightarrow> bundle_service \<Rightarrow> string list option" where
  "Impl_GetBundlesForUid uid = from_mgr None (\<lambda>d. GetBundlesForUid uid d [])"

definition Impl_GetNameForUid :: "int \<Rightarrow> bundle_service \<Rightarrow> string option" where
  "Impl_GetNameForUid uid = from_mgr None (GetNameForUid uid)"

definition Impl_GetBundleGids :: "impl_env \<Rightarrow> string \<Rightarrow> bundle_service \<Rightarrow> int list option" where
  "Impl_GetBundleGids e bundleName = from_mgr None (GetBundleGids (ie_callingUid e) bundleName)"

definition Impl_GetBundleGidsByUid :: "string \<Rightarrow> int \<Rightarrow> bundle_service \<Rightarrow> int list option" where
  "Impl_GetBundleGidsByUid bundleName uid = from_mgr None (GetBundleGidsByUid bundleName uid [])"

definition Impl_CheckIsSystemAppByUid :: "int \<Rightarrow> bundle_service \<Rightarrow> bool" where
  "Impl_CheckIsSystemAppByUid uid = from_mgr False (CheckIsSystemAppByUid uid)"

definition Impl_GetBundleInfosByMetaData :: "impl_env \<Rightarrow> string \<Rightarrow> bundle_service \<Rightarrow> bundle_info list option" where
  "Impl_GetBundleInfosByMetaData e metaData s =
     from_mgr None (GetBundleInfosByMetaData (perm_states e s) (ie_callingUid e) metaData) s"

definition Impl_QueryKeepAliveBundleInfos :: "impl_env \<Rightarrow> bundle_service \<Rightarrow> bundle_info list option" where
  "Impl_QueryKeepAliveBundleInfos e s =
     from_mgr None (QueryKeepAliveBundleInfos (perm_states e s) (ie_callingUid e)) s"

definition Impl_GetBundleArchiveInfo :: "impl_env \<Rightarrow> string \<Rightarrow> int \<Rightarrow> bundle_service \<Rightarrow> bundle_info option" where
  "Impl_GetBundleArchiveInfo e hapFilePath flags s =
     (case ie_checkPath e hapFilePath of
        Inl _ \<Rightarrow> None
      | Inr realPath \<Rightarrow>
          (case env_parse (inst e) realPath new_InnerBundleInfo of
             Inl _ \<Rightarrow> None
           | Inr info \<Rightarrow> Some (GetBundleInfo (perm_states e s) (flags32 flags) NOT_EXIST_USERID new_BundleInfo info)))"

definition Impl_GetAppIdByBundleName :: "impl_env \<Rightarrow> string \<Rightarrow> int \<Rightarrow> bundle_service \<Rightarrow> string" where
  "Impl_GetAppIdByBundleName e bundleName userId s =
     (case from_mgr None (Mgr_GetBundleInfo (perm_states e s) (ie_callingUid e) bundleName 0 new_BundleInfo userId) s of
        None \<Rightarrow> [] | Some b \<Rightarrow> bi_appId b)"

definition Impl_GetAppType :: "impl_env \<Rightarrow> string \<Rightarrow> bundle_service \<Rightarrow> string" where
  "Impl_GetAppType e bundleName s =
     (case from_mgr None
             (Mgr_GetBundleInfo (perm_states e s) (ie_callingUid e) bundleName 0 new_BundleInfo UNSPECIFIED_USERID) s of
        None \<Rightarrow> []
      | Some b \<Rightarrow> if app_isSystemApp (bi_applicationInfo b) then ''system'' else ''third-party'')"

definition C_UESRID :: int where "C_UESRID = 200"

definition Impl_GetUidByBundleName :: "impl_env \<Rightarrow> string \<Rightarrow> int \<Rightarrow> bundle_service \<Rightarrow> int" where
  "Impl_GetUidByBundleName e bundleName userId s =
     (case from_mgr None (GetBundleInfos (perm_states e s) (ie_callingUid e) 0 userId) s of
        None \<Rightarrow> INVALID_UID
      | Some bs \<Rightarrow>
          (case find (\<lambda>b. bi_name b = bundleName \<and> app_isCloned (bi_applicationInfo b) = (userId = C_UESRID)) bs of
             None \<Rightarrow> INVALID_UID | Some b \<Rightarrow> bi_uid b))"

definition Impl_GetAppPrivilegeLevel :: "impl_env \<Rightarrow> string \<Rightarrow> int \<Rightarrow> bundle_service \<Rightarrow> string" where
  "Impl_GetAppPrivilegeLevel e bundleName userId = from_mgr [] (GetAppPrivilegeLevel (ie_callingUid e) bundleName userId)"

definition Impl_GetAccessibleAppCodePaths :: "int \<Rightarrow> bundle_service \<Rightarrow> string list" where
  "Impl_GetAccessibleAppCodePaths userId = from_mgr [] (GetAccessibleAppCodePaths userId)"

text \<open>Without a data manager the code returns \<open>false\<close>, which is 0: the keys match.\<close>

definition Impl_CheckPublicKeys :: "string \<Rightarrow> string \<Rightarrow> bundle_service \<Rightarrow> (int \<times> bundle_service) option" where
  "Impl_CheckPublicKeys first second s = map_option (\<lambda>r. (r, s)) (from_mgr (Some 0) (CheckPublicKeys first second) s)"

text \<open>The error codes of the sandbox functions as numbers (\<open>appexecfwk_errors.h\<close>).\<close>

definition sandbox_code :: "err_code \<Rightarrow> int" where
  "sandbox_code r =
     (case r of
        ERR_OK \<Rightarrow> 0
      | ERR_SERVICE n \<Rightarrow> n
      | ERR_APPEXECFWK_SANDBOX_INSTALL_APP_NOT_EXISTED \<Rightarrow> 8519801
      | ERR_APPEXECFWK_SANDBOX_INSTALL_PARAM_ERROR \<Rightarrow> 8519802
      | ERR_APPEXECFWK_SANDBOX_INSTALL_USER_NOT_EXIST \<Rightarrow> 8519806
      | ERR_APPEXECFWK_SANDBOX_INSTALL_INVALID_APP_INDEX \<Rightarrow> 8519807
      | ERR_APPEXECFWK_SANDBOX_INSTALL_NOT_INSTALLED_AT_SPECIFIED_USERID \<Rightarrow> 8519808
      | ERR_APPEXECFWK_SANDBOX_INSTALL_NO_SANDBOX_APP_INFO \<Rightarrow> 8519809
      | ERR_APPEXECFWK_SANDBOX_INSTALL_DELETE_APP_INDEX_FAILED \<Rightarrow> 8519811
      | _ \<Rightarrow> 8519800)"

definition Impl_GetSandboxBundleInfo ::
  "impl_env \<Rightarrow> string \<Rightarrow> int \<Rightarrow> int \<Rightarrow> bundle_service \<Rightarrow> int \<times> bundle_info" where
  "Impl_GetSandboxBundleInfo e bundleName appIndex userId s =
     (if bundleName = [] then (8519802, new_BundleInfo)
      else if appIndex \<le> INITIAL_APP_INDEX \<or> appIndex > MAX_APP_INDEX then (8519802, new_BundleInfo)
      else if \<not> bs_hasDataMgr s then (8519800, new_BundleInfo)
      else if \<not> bs_hasSandboxMgr s then (8519800, new_BundleInfo)
      else (case GetSandboxAppBundleInfo (perm_states e s) bundleName appIndex userId (b_sandbox s) of
              Inl r \<Rightarrow> (sandbox_code r, new_BundleInfo) | Inr b \<Rightarrow> (0, b)))"

section \<open>Abilities and extensions\<close>

definition Impl_QueryAbilityInfo :: "impl_env \<Rightarrow> want \<Rightarrow> int \<Rightarrow> int \<Rightarrow> bundle_service \<Rightarrow> ability_info option" where
  "Impl_QueryAbilityInfo e want flags userId s =
     (if \<not> VerifyQueryPermission e (want_bundleName want) s then None
      else from_mgr None (QueryAbilityInfo (ie_rx e) (ie_callingUid e) want (flags32 flags) userId) s)"

definition Impl_QueryAbilityInfos :: "impl_env \<Rightarrow> want \<Rightarrow> int \<Rightarrow> int \<Rightarrow> bundle_service \<Rightarrow> ability_info list option" where
  "Impl_QueryAbilityInfos e want flags userId s =
     (if \<not> VerifyQueryPermission e (want_bundleName want) s then None
      else from_mgr None (\<lambda>d. QueryAbilityInfos (ie_rx e) (ie_callingUid e) want (flags32 flags) userId d []) s)"

definition Impl_QueryAbilityInfosForClone :: "impl_env \<Rightarrow> want \<Rightarrow> bundle_service \<Rightarrow> ability_info list option" where
  "Impl_QueryAbilityInfosForClone e want = from_mgr None (QueryAbilityInfosForClone (ie_callingUid e) want)"

definition Impl_QueryAllAbilityInfos :: "impl_env \<Rightarrow> want \<Rightarrow> int \<Rightarrow> bundle_service \<Rightarrow> ability_info list option" where
  "Impl_QueryAllAbilityInfos e want userId s =
     (if \<not> privileged e s then None
      else from_mgr None (\<lambda>d. QueryLauncherAbilityInfos (ie_callingUid e) want userId d []) s)"

definition Impl_QueryAbilityInfoByUri :: "impl_env \<Rightarrow> string \<Rightarrow> int \<Rightarrow> bundle_service \<Rightarrow> ability_info option" where
  "Impl_QueryAbilityInfoByUri e abilityUri userId =
     from_mgr None (QueryAbilityInfoByUri (ie_callingUid e) abilityUri userId)"

definition Impl_QueryAbilityInfosByUri :: "impl_env \<Rightarrow> string \<Rightarrow> bundle_service \<Rightarrow> ability_info list option" where
  "Impl_QueryAbilityInfosByUri e abilityUri =
     from_mgr None (\<lambda>d. QueryAbilityInfosByUri (ie_callingUid e) abilityUri d [])"

definition element_want :: "string \<Rightarrow> string \<Rightarrow> string \<Rightarrow> want" where
  "element_want bundleName moduleName abilityName =
     \<lparr>want_bundleName = bundleName, want_moduleName = moduleName, want_abilityName = abilityName, want_deviceId = [],
      want_action = [], want_entities = [], want_uri = [], want_type = []\<rparr>"

definition Impl_GetAbilityInfo :: "impl_env \<Rightarrow> string \<Rightarrow> string \<Rightarrow> string \<Rightarrow> bundle_service \<Rightarrow> ability_info option" where
  "Impl_GetAbilityInfo e bundleName moduleName abilityName =
     Impl_QueryAbilityInfo e (element_want bundleName moduleName abilityName)
       (uint GET_ABILITY_INFO_WITH_APPLICATION) UNSPECIFIED_USERID"

definition Impl_GetAbilityLabel :: "impl_env \<Rightarrow> string \<Rightarrow> string \<Rightarrow> string \<Rightarrow> bundle_service \<Rightarrow> string" where
  "Impl_GetAbilityLabel e bundleName moduleName abilityName s =
     (if \<not> VerifyQueryPermission e bundleName s then []
      else from_mgr [] (GetAbilityLabel (perm_states e s) (ie_string e) (ie_callingUid e) bundleName moduleName abilityName) s)"

definition Impl_GetAbilityPixelMapIcon :: "impl_env \<Rightarrow> string \<Rightarrow> string \<Rightarrow> string \<Rightarrow> bundle_service \<Rightarrow> nat option" where
  "Impl_GetAbilityPixelMapIcon e bundleName moduleName abilityName s =
     (if \<not> VerifyQueryPermission e bundleName s then None
      else from_mgr None
        (GetAbilityPixelMapIcon (perm_states e s) (ie_icon e) (ie_callingUid e) bundleName moduleName abilityName) s)"

definition Impl_GetHapModuleInfo :: "impl_env \<Rightarrow> ability_info \<Rightarrow> int \<Rightarrow> bundle_service \<Rightarrow> hap_module_info option" where
  "Impl_GetHapModuleInfo e abilityInfo userId s =
     (if ai_bundleName abilityInfo = [] \<or> ai_package abilityInfo = [] then None
      else from_mgr None (GetHapModuleInfo (ie_callingUid e) abilityInfo userId) s)"

definition Impl_GetLaunchWantForBundle :: "impl_env \<Rightarrow> string \<Rightarrow> bundle_service \<Rightarrow> want option" where
  "Impl_GetLaunchWantForBundle e bundleName s =
     (if \<not> privileged e s then None
      else map_option (\<lambda>(n, a, action, entity). (element_want n [] a)\<lparr>want_action := action, want_entities := [entity]\<rparr>)
        (from_mgr None (GetLaunchWantForBundle (ie_callingUid e) bundleName) s))"

text \<open>An ability and an extension are both given back; the one that was not found is a new object.\<close>

definition Impl_ImplicitQueryInfoByPriority ::
  "impl_env \<Rightarrow> want \<Rightarrow> int \<Rightarrow> int \<Rightarrow> bundle_service \<Rightarrow> (ability_info \<times> extension_ability_info) option" where
  "Impl_ImplicitQueryInfoByPriority e want flags userId s =
     map_option (\<lambda>r. case r of Inl a \<Rightarrow> (a, new_ExtensionAbilityInfo) | Inr x \<Rightarrow> (new_AbilityInfo, x))
       (from_mgr None (ImplicitQueryInfoByPriority (ie_rx e) (ie_callingUid e) want (flags32 flags) userId) s)"

definition Impl_QueryExtensionAbilityInfos ::
  "impl_env \<Rightarrow> want \<Rightarrow> int \<Rightarrow> int \<Rightarrow> bundle_service \<Rightarrow> extension_ability_info list option" where
  "Impl_QueryExtensionAbilityInfos e want flag userId s =
     (if \<not> VerifyQueryPermission e (want_bundleName want) s then None
      else (case from_mgr None (\<lambda>d. QueryExtensionAbilityInfos (ie_rx e) (ie_callingUid e) want (flags32 flag) userId d []) s of
              None \<Rightarrow> None
            | Some xs \<Rightarrow> if xs = [] then None else Some xs))"

text \<open>A number that is no enumerator equals the type of no extension.\<close>

definition Impl_QueryExtensionAbilityInfosOfType ::
  "impl_env \<Rightarrow> want \<Rightarrow> int \<Rightarrow> int \<Rightarrow> int \<Rightarrow> bundle_service \<Rightarrow> extension_ability_info list option" where
  "Impl_QueryExtensionAbilityInfosOfType e want extensionType flag userId s =
     (if \<not> VerifyQueryPermission e (want_bundleName want) s then None
      else (case from_mgr None (\<lambda>d. QueryExtensionAbilityInfos (ie_rx e) (ie_callingUid e) want (flags32 flag) userId d []) s of
              None \<Rightarrow> None
            | Some xs \<Rightarrow>
                (let found = filter (\<lambda>x. enum_of ExtensionAbilityType_values extensionType = Some (ei_type x)) xs
                 in if found = [] then None else Some found)))"

definition Impl_QueryExtensionAbilityInfosByType ::
  "impl_env \<Rightarrow> int \<Rightarrow> int \<Rightarrow> bundle_service \<Rightarrow> extension_ability_info list option" where
  "Impl_QueryExtensionAbilityInfosByType e extensionType userId s =
     (case enum_of ExtensionAbilityType_values extensionType of
        None \<Rightarrow> None
      | Some t \<Rightarrow>
          (case from_mgr None (\<lambda>d. QueryExtensionAbilityInfos_type (ie_callingUid e) t userId d []) s of
             None \<Rightarrow> None
           | Some xs \<Rightarrow> if xs = [] then None else Some xs))"

definition Impl_QueryExtensionAbilityInfoByUri ::
  "impl_env \<Rightarrow> string \<Rightarrow> int \<Rightarrow> bundle_service \<Rightarrow> extension_ability_info option" where
  "Impl_QueryExtensionAbilityInfoByUri e uri userId =
     from_mgr None (QueryExtensionAbilityInfoByUri (ie_callingUid e) uri userId)"

section \<open>Permissions, forms, shortcuts, events, modules\<close>

definition new_PermissionDef :: permission_def where
  "new_PermissionDef =
     \<lparr>pd_permissionName = [], pd_bundleName = [], pd_grantMode = 0, pd_availableLevel = 1, pd_availableScope = 0,
      pd_provisionEnable = True, pd_distributedSceneEnable = False, pd_label = [], pd_labelId = 0,
      pd_description = [], pd_descriptionId = 0\<rparr>"

definition Impl_GetPermissionDef :: "impl_env \<Rightarrow> string \<Rightarrow> bundle_service \<Rightarrow> permission_def option" where
  "Impl_GetPermissionDef e permissionName s =
     (if \<not> privileged e s then None
      else if permissionName = [] then None
      else Perm_GetPermissionDef (ie_kit e) (bs_tokenCalls s) permissionName new_PermissionDef)"

definition Impl_GetAllFormsInfo :: "bundle_service \<Rightarrow> form_info list option" where
  "Impl_GetAllFormsInfo = from_mgr None GetAllFormsInfo"

definition Impl_GetFormsInfoByApp :: "string \<Rightarrow> bundle_service \<Rightarrow> form_info list option" where
  "Impl_GetFormsInfoByApp bundleName = from_mgr None (Mgr_GetFormsInfoByApp bundleName)"

definition Impl_GetFormsInfoByModule :: "string \<Rightarrow> string \<Rightarrow> bundle_service \<Rightarrow> form_info list option" where
  "Impl_GetFormsInfoByModule bundleName moduleName = from_mgr None (Mgr_GetFormsInfoByModule bundleName moduleName)"

definition Impl_GetShortcutInfos :: "impl_env \<Rightarrow> string \<Rightarrow> int \<Rightarrow> bundle_service \<Rightarrow> shortcut_info list option" where
  "Impl_GetShortcutInfos e bundleName userId s =
     (if \<not> privileged e s then None
      else from_mgr None (Mgr_GetShortcutInfos (ie_parse e) (ie_resConfig e) (ie_callingUid e) bundleName userId) s)"

definition Impl_GetAllCommonEventInfo :: "string \<Rightarrow> bundle_service \<Rightarrow> common_event_info list option" where
  "Impl_GetAllCommonEventInfo eventKey = from_mgr None (GetAllCommonEventInfo eventKey)"

definition Impl_GetDistributedBundleInfo ::
  "impl_env \<Rightarrow> string \<Rightarrow> string \<Rightarrow> bundle_service \<Rightarrow> distributed_bundle_info option" where
  "Impl_GetDistributedBundleInfo e networkId bundleName = from_mgr None (\<lambda>_. ie_distributed e bundleName networkId)"

definition Impl_GetAllDependentModuleNames :: "string \<Rightarrow> string \<Rightarrow> bundle_service \<Rightarrow> string list option" where
  "Impl_GetAllDependentModuleNames bundleName moduleName = from_mgr None (Mgr_GetAllDependentModuleNames bundleName moduleName)"

definition Impl_IsModuleRemovable :: "impl_env \<Rightarrow> string \<Rightarrow> string \<Rightarrow> bundle_service \<Rightarrow> bool" where
  "Impl_IsModuleRemovable e bundleName moduleName =
     from_mgr False (Mgr_IsModuleRemovable (ie_activeUser e) bundleName moduleName)"

definition Impl_GetModuleUpgradeFlag :: "string \<Rightarrow> string \<Rightarrow> bundle_service \<Rightarrow> bool" where
  "Impl_GetModuleUpgradeFlag bundleName moduleName =
     from_mgr False (\<lambda>d. Mgr_GetModuleUpgradeFlag bundleName moduleName d \<noteq> 0)"

definition Impl_IsApplicationEnabled :: "impl_env \<Rightarrow> string \<Rightarrow> bundle_service \<Rightarrow> bool" where
  "Impl_IsApplicationEnabled e bundleName = from_mgr False (IsApplicationEnabled (ie_callingUid e) bundleName)"

definition Impl_IsAbilityEnabled :: "impl_env \<Rightarrow> ability_info \<Rightarrow> bundle_service \<Rightarrow> bool" where
  "Impl_IsAbilityEnabled e abilityInfo = from_mgr False (Mgr_IsAbilityEnabled (ie_callingUid e) abilityInfo)"

text \<open>Stubs of the code.\<close>

definition Impl_HasSystemCapability :: "string \<Rightarrow> bool" where "Impl_HasSystemCapability capName = True"
definition Impl_GetSystemAvailableCapabilities :: "string list option" where
  "Impl_GetSystemAvailableCapabilities = Some []"
definition Impl_IsSafeMode :: bool where "Impl_IsSafeMode = True"

section \<open>Changes\<close>

definition report :: "report \<Rightarrow> bundle_service \<Rightarrow> bundle_service" where
  "report r s = s\<lparr>bs_reports := bs_reports s @ [r]\<rparr>"

definition notify :: "string \<Rightarrow> string \<Rightarrow> int \<Rightarrow> notify_type \<Rightarrow> int \<Rightarrow> bundle_service \<Rightarrow> bundle_service" where
  "notify bundleName abilityName resultCode type uid s =
     s\<lparr>bs_notified := bs_notified s @ NotifyBundleStatus bundleName abilityName resultCode type uid (bs_callbacks s)\<rparr>"

definition calling_user :: "impl_env \<Rightarrow> int \<Rightarrow> int" where
  "calling_user e userId = (if userId = UNSPECIFIED_USERID then GetUserIdByUid (ie_callingUid e) else userId)"

text \<open>
  Both setters end the same way: after the change is reported, the user of the bundle is looked up and the
  change is notified, as an \<open>APPLICATION_ENABLE\<close> for an ability, too.
\<close>

definition finish_enable :: "impl_env \<Rightarrow> string \<Rightarrow> string \<Rightarrow> int \<Rightarrow> bool \<Rightarrow> bundle_service \<Rightarrow> bool \<times> bundle_service" where
  "finish_enable e bundleName abilityName userId isEnable s =
     (let s1 = report (ComponentStateReport bundleName abilityName userId isEnable False) s
      in case Impl_GetBundleUserInfo e bundleName userId s1 of
           None \<Rightarrow> (False, s1)
         | Some u \<Rightarrow> (True, notify bundleName abilityName 0 APPLICATION_ENABLE (iu_uid u) s1))"

definition Impl_SetApplicationEnabled ::
  "impl_env \<Rightarrow> string \<Rightarrow> bool \<Rightarrow> int \<Rightarrow> bundle_service \<Rightarrow> (bool \<times> bundle_service) option" where
  "Impl_SetApplicationEnabled e bundleName isEnable userId s =
     (let u = calling_user e userId;
          failed = (\<lambda>s. (False, report (ComponentStateReport bundleName [] u isEnable True) s))
      in if \<not> Impl_VerifyCallingPermission e PERMISSION_CHANGE_ABILITY_ENABLED_STATE s then Some (failed s)
         else if \<not> bs_hasDataMgr s then Some (failed s)
         else (case Mgr_SetApplicationEnabled (env_js (inst e)) (ie_callingUid e) bundleName isEnable u (b_dm s) of
                 None \<Rightarrow> None
               | Some (ok, d) \<Rightarrow>
                   Some (if \<not> ok then failed (s\<lparr>b_dm := d\<rparr>)
                         else finish_enable e bundleName [] u isEnable (s\<lparr>b_dm := d\<rparr>))))"

definition Impl_SetAbilityEnabled ::
  "impl_env \<Rightarrow> ability_info \<Rightarrow> bool \<Rightarrow> int \<Rightarrow> bundle_service \<Rightarrow> (bool \<times> bundle_service) option" where
  "Impl_SetAbilityEnabled e a isEnabled userId s =
     (let u = calling_user e userId;
          failed = (\<lambda>s. (False, report (ComponentStateReport (ai_bundleName a) (ai_name a) u isEnabled True) s))
      in if \<not> Impl_VerifyCallingPermission e PERMISSION_CHANGE_ABILITY_ENABLED_STATE s then Some (failed s)
         else if \<not> bs_hasDataMgr s then Some (failed s)
         else (case Mgr_SetAbilityEnabled (env_js (inst e)) (ie_callingUid e) a isEnabled u (b_dm s) of
                 None \<Rightarrow> None
               | Some (ok, d) \<Rightarrow>
                   Some (if \<not> ok then failed (s\<lparr>b_dm := d\<rparr>)
                         else finish_enable e (ai_bundleName a) (ai_name a) u isEnabled (s\<lparr>b_dm := d\<rparr>))))"

definition Impl_SetModuleRemovable ::
  "impl_env \<Rightarrow> string \<Rightarrow> string \<Rightarrow> bool \<Rightarrow> bundle_service \<Rightarrow> bool \<times> bundle_service" where
  "Impl_SetModuleRemovable e bundleName moduleName isEnable s =
     (if \<not> bs_hasDataMgr s then (False, s)
      else dm_op (inst e) (\<lambda>kv. Mgr_SetModuleRemovable kv (ie_activeUser e) bundleName moduleName isEnable) s)"

definition Impl_SetModuleUpgradeFlag ::
  "impl_env \<Rightarrow> string \<Rightarrow> string \<Rightarrow> int \<Rightarrow> bundle_service \<Rightarrow> bool \<times> bundle_service" where
  "Impl_SetModuleUpgradeFlag e bundleName moduleName upgradeFlag s =
     (if \<not> bs_hasDataMgr s then (False, s)
      else dm_op (inst e) (\<lambda>kv. Mgr_SetModuleUpgradeFlag kv bundleName moduleName upgradeFlag) s)"

definition Impl_RegisterBundleStatusCallback :: "impl_env \<Rightarrow> string \<Rightarrow> nat \<Rightarrow> bundle_service \<Rightarrow> bool \<times> bundle_service" where
  "Impl_RegisterBundleStatusCallback e bundleName object s =
     (if bundleName = [] then (False, s)
      else if \<not> Impl_VerifyCallingPermission e LISTEN_BUNDLE_CHANGE s then (False, s)
      else if \<not> bs_hasDataMgr s then (False, s)
      else (case RegisterBundleStatusCallback bundleName object (bs_callbacks s) of (r, cbs) \<Rightarrow> (r, s\<lparr>bs_callbacks := cbs\<rparr>)))"

definition Impl_ClearBundleStatusCallback :: "impl_env \<Rightarrow> nat option \<Rightarrow> bundle_service \<Rightarrow> bool \<times> bundle_service" where
  "Impl_ClearBundleStatusCallback e object s =
     (case object of
        None \<Rightarrow> (False, s)
      | Some x \<Rightarrow>
          if \<not> Impl_VerifyCallingPermission e LISTEN_BUNDLE_CHANGE s then (False, s)
          else if \<not> bs_hasDataMgr s then (False, s)
          else (case ClearBundleStatusCallback x (bs_callbacks s) of (r, cbs) \<Rightarrow> (r, s\<lparr>bs_callbacks := cbs\<rparr>)))"

definition Impl_UnregisterBundleStatusCallback :: "impl_env \<Rightarrow> bundle_service \<Rightarrow> bool \<times> bundle_service" where
  "Impl_UnregisterBundleStatusCallback e s =
     (if \<not> Impl_VerifyCallingPermission e LISTEN_BUNDLE_CHANGE s then (False, s)
      else if \<not> bs_hasDataMgr s then (False, s)
      else (case UnregisterBundleStatusCallback (bs_callbacks s) of (r, cbs) \<Rightarrow> (r, s\<lparr>bs_callbacks := cbs\<rparr>)))"

section \<open>Cleaning files\<close>

definition cache_root_dirs :: "string \<Rightarrow> int \<Rightarrow> string list" where
  "cache_root_dirs bundleName userId =
     map (\<lambda>el. BUNDLE_APP_DATA_BASE_DIR @ el @ ''/'' @ to_string userId @ ''/base/'' @ bundleName) BUNDLE_EL"

definition CleanBundleCacheTask :: "string \<Rightarrow> nat \<Rightarrow> int \<Rightarrow> bundle_service \<Rightarrow> bundle_service" where
  "CleanBundleCacheTask bundleName callback userId s =
     s\<lparr>bs_tasks := bs_tasks s @ [\<lparr>ct_bundleName = bundleName, ct_userId = userId,
        ct_rootDir = cache_root_dirs bundleName userId, ct_callback = callback\<rparr>]\<rparr>"

text \<open>The task, when the service's handler runs it: it stops at the first directory that cannot be cleaned.\<close>

fun clean_dirs :: "(string \<Rightarrow> err_code) \<Rightarrow> string list \<Rightarrow> bool" where
  "clean_dirs clean [] = False"
| "clean_dirs clean (d # ds) = (if clean d \<noteq> ERR_OK then True else clean_dirs clean ds)"

definition run_clean_task :: "impl_env \<Rightarrow> clean_task \<Rightarrow> bundle_service \<Rightarrow> bundle_service" where
  "run_clean_task e t s =
     (let caches = concat (map (\<lambda>st. case ie_cachePath e st of None \<Rightarrow> [] | Some cache \<Rightarrow> cache) (ct_rootDir t));
          error = clean_dirs (ie_cleanDir e) caches;
          s1 = report (CleanCacheReport (ct_bundleName t) (ct_userId t) True error) s
      in s1\<lparr>bs_finished := bs_finished s1 @ [(ct_callback t, error)]\<rparr>)"

definition Impl_CleanBundleCacheFiles ::
  "impl_env \<Rightarrow> string \<Rightarrow> nat option \<Rightarrow> int \<Rightarrow> bundle_service \<Rightarrow> bool \<times> bundle_service" where
  "Impl_CleanBundleCacheFiles e bundleName callback userId s =
     (let u = calling_user e userId;
          failed = (False, report (CleanCacheReport bundleName u True True) s)
      in if u < 0 then failed
         else (case callback of
                 None \<Rightarrow> failed
               | Some cb \<Rightarrow>
                   if bundleName = [] then failed
                   else if \<not> Impl_VerifyCallingPermission e PERNISSION_REMOVECACHEFILE s then failed
                   else (case from_mgr None (Mgr_GetApplicationInfo (ie_callingUid e) bundleName 0 u new_ApplicationInfo) s of
                           None \<Rightarrow> failed
                         | Some app \<Rightarrow>
                             if app_isSystemApp app \<and> \<not> app_userDataClearable app then failed
                             else (True, CleanBundleCacheTask bundleName cb u s))))"

text \<open>Every failure is reported; the data directory is removed before it is created anew.\<close>

definition Impl_CleanBundleDataFiles :: "impl_env \<Rightarrow> string \<Rightarrow> int \<Rightarrow> bundle_service \<Rightarrow> bool \<times> bundle_service" where
  "Impl_CleanBundleDataFiles e bundleName userId s =
     (let failed = (\<lambda>s. (False, report (CleanCacheReport bundleName userId False True) s))
      in if bundleName = [] \<or> userId < 0 then failed s
         else (case Impl_GetApplicationInfo e bundleName 0 userId s of
                 None \<Rightarrow> failed s
               | Some app \<Rightarrow>
                   if app_isSystemApp app \<and> \<not> app_userDataClearable app then failed s
                   else (case Impl_GetBundleUserInfo e bundleName userId s of
                           None \<Rightarrow> failed s
                         | Some u \<Rightarrow>
                             (let (ret, cs) = ClearUserGrantedPermissionState (ie_kit e) (app_accessTokenId app) (bs_tokenCalls s);
                                  s1 = s\<lparr>bs_tokenCalls := cs\<rparr>
                              in if ret \<noteq> 0 then failed s1
                                 else (let (r, s2) = fs_op (inst e) (RemoveBundleDataDir bundleName userId) s1
                                       in if r \<noteq> ERR_OK then failed s2
                                          else (let apl = Impl_GetAppPrivilegeLevel e bundleName UNSPECIFIED_USERID s2;
                                                    (r, s3) = fs_op (inst e)
                                                      (CreateBundleDataDir bundleName userId (iu_uid u) (iu_uid u) apl) s2
                                                in if r \<noteq> ERR_OK then failed s3
                                                   else (True, report (CleanCacheReport bundleName userId False False) s3)))))))"

section \<open>Dumps\<close>

definition GetExistsCommonUserIs :: "bundle_service \<Rightarrow> int list" where
  "GetExistsCommonUserIs = from_mgr [] (\<lambda>d. filter (\<lambda>u. START_USERID \<le> u) (GetAllUser d))"

definition DumpAllBundleInfoNamesByUserId :: "impl_env \<Rightarrow> int \<Rightarrow> bundle_service \<Rightarrow> string option" where
  "DumpAllBundleInfoNamesByUserId e userId s =
     map_option (\<lambda>names. ''ID: '' @ to_string userId @ '':'' @ [CHR 0x0A] @
         concat (map (\<lambda>name. [CHR 0x09] @ name @ [CHR 0x0A]) names))
       (from_mgr None (GetBundleList (ie_callingUid e) userId) s)"

definition DumpAllBundleInfoNames :: "impl_env \<Rightarrow> int \<Rightarrow> bundle_service \<Rightarrow> string option" where
  "DumpAllBundleInfoNames e userId s =
     (if userId \<noteq> ALL_USERID then DumpAllBundleInfoNamesByUserId e userId s
      else Some (concat (map (\<lambda>u. case DumpAllBundleInfoNamesByUserId e u s of None \<Rightarrow> [] | Some t \<Rightarrow> t)
             (GetExistsCommonUserIs s))))"

definition json_assign :: "string \<Rightarrow> json \<Rightarrow> json \<Rightarrow> json" where
  "json_assign key v j = (case j of JObj m \<Rightarrow> JObj (sm_assign key v m) | _ \<Rightarrow> j)"

definition dump_bundle :: "impl_env \<Rightarrow> string \<Rightarrow> bundle_info \<Rightarrow> inner_bundle_user_info list \<Rightarrow> string" where
  "dump_bundle e name info userInfos =
     name @ '':'' @ [CHR 0x0A] @
     ce_dump (ie_clone e)
       (json_assign ''userInfo'' (json_list InnerBundleUserInfo_to_json userInfos)
         (json_assign ''hapModuleInfos'' (json_list HapModuleInfo_to_json (bi_hapModuleInfos info)) (BundleInfo_to_json info))) @
     [CHR 0x0A]"

text \<open>The users shown with a bundle: all of it, or the one asked for, a new object if it has none.\<close>

definition dump_users :: "impl_env \<Rightarrow> string \<Rightarrow> int \<Rightarrow> bundle_service \<Rightarrow> inner_bundle_user_info list option" where
  "dump_users e bundleName userId s =
     (if userId = ALL_USERID then Impl_GetBundleUserInfos bundleName s
      else Some [case Impl_GetBundleUserInfo e bundleName userId s of None \<Rightarrow> new_InnerBundleUserInfo | Some u \<Rightarrow> u])"

fun dump_bundles :: "impl_env \<Rightarrow> int \<Rightarrow> bundle_service \<Rightarrow> bundle_info list \<Rightarrow> string option" where
  "dump_bundles e userId s [] = Some []"
| "dump_bundles e userId s (b # bs) =
     (case dump_users e (bi_name b) userId s of
        None \<Rightarrow> None
      | Some us \<Rightarrow> map_option (\<lambda>t. dump_bundle e (bi_name b) b us @ t) (dump_bundles e userId s bs))"

definition DumpAllBundleInfos :: "impl_env \<Rightarrow> int \<Rightarrow> bundle_service \<Rightarrow> string option" where
  "DumpAllBundleInfos e userId s =
     (case Impl_GetBundleInfos e (uint (GET_BUNDLE_WITH_ABILITIES OR GET_BUNDLE_WITH_EXTENSION_INFO OR
             GET_BUNDLE_WITH_HASH_VALUE)) userId s of
        None \<Rightarrow> None
      | Some bs \<Rightarrow> dump_bundles e userId s bs)"

definition first_user :: "int \<Rightarrow> inner_bundle_user_info list \<Rightarrow> int" where
  "first_user userId us = (if userId = ALL_USERID then bu_userId (iu_bundleUserInfo (hd us)) else userId)"

definition DumpBundleInfo :: "impl_env \<Rightarrow> string \<Rightarrow> int \<Rightarrow> bundle_service \<Rightarrow> string option" where
  "DumpBundleInfo e bundleName userId s =
     (case dump_users e bundleName userId s of
        None \<Rightarrow> None
      | Some us \<Rightarrow>
          map_option (\<lambda>b. dump_bundle e bundleName b us)
            (Impl_GetBundleInfo e bundleName (uint (GET_BUNDLE_WITH_ABILITIES OR GET_BUNDLE_WITH_REQUESTED_PERMISSION OR
               GET_BUNDLE_WITH_EXTENSION_INFO OR GET_BUNDLE_WITH_HASH_VALUE)) (first_user userId us) s))"

definition DumpShortcutInfo :: "impl_env \<Rightarrow> string \<Rightarrow> int \<Rightarrow> bundle_service \<Rightarrow> string option" where
  "DumpShortcutInfo e bundleName userId s =
     (case (if userId = ALL_USERID then Impl_GetBundleUserInfos bundleName s else Some []) of
        None \<Rightarrow> None
      | Some us \<Rightarrow>
          map_option (\<lambda>infos. ''shortcuts:'' @ [CHR 0x0A] @
              concat (map (\<lambda>info. [CHR 0x22] @ ''shortcut'' @ [CHR 0x22] @ '':'' @ [CHR 0x0A] @
                ce_dump (ie_clone e) (ShortcutInfo_to_json info) @ [CHR 0x0A]) infos))
            (Impl_GetShortcutInfos e bundleName (first_user userId us) s))"

definition Impl_DumpInfos :: "impl_env \<Rightarrow> int \<Rightarrow> string \<Rightarrow> int \<Rightarrow> bundle_service \<Rightarrow> string option" where
  "Impl_DumpInfos e flag bundleName userId s =
     (if flag = 1 then DumpAllBundleInfoNames e userId s
      else if flag = 2 then DumpAllBundleInfos e userId s
      else if flag = 3 then DumpBundleInfo e bundleName userId s
      else if flag = 4 then DumpShortcutInfo e bundleName userId s
      else None)"

section \<open>Clones, free installation, other services\<close>

definition Impl_CheckBundleNameInAllowList ::
  "impl_env \<Rightarrow> string \<Rightarrow> bundle_service \<Rightarrow> (bool \<times> bundle_service) option" where
  "Impl_CheckBundleNameInAllowList e bundleName s =
     (if bundleName = [] then Some (False, s)
      else if \<not> bs_hasCloneMgr s then Some (False, s)
      else map_option (\<lambda>r. (r, s)) (CheckBundleNameInAllowList (ie_clone e) bundleName s))"

definition Impl_BundleClone :: "impl_env \<Rightarrow> string \<Rightarrow> bundle_service \<Rightarrow> (bool \<times> bundle_service) option" where
  "Impl_BundleClone e bundleName s =
     (if bundleName = [] then Some (False, s)
      else if \<not> bs_hasCloneMgr s then Some (False, s)
      else BundleClone (ie_clone e) bundleName s)"

definition Impl_RemoveClonedBundle ::
  "impl_env \<Rightarrow> string \<Rightarrow> int \<Rightarrow> bundle_service \<Rightarrow> (bool \<times> bundle_service) option" where
  "Impl_RemoveClonedBundle e bundleName uid s =
     (if bundleName = [] then Some (False, s)
      else if \<not> bs_hasCloneMgr s then Some (False, s)
      else Clone_RemoveClonedBundle (ie_clone e) bundleName (bundleName @ ''#'' @ to_string uid) s)"

definition Impl_QueryAbilityInfoWithCallback ::
  "impl_env \<Rightarrow> want \<Rightarrow> int \<Rightarrow> int \<Rightarrow> nat option \<Rightarrow> bundle_service \<Rightarrow> ability_info option" where
  "Impl_QueryAbilityInfoWithCallback e want flags userId callBack s =
     (if \<not> bs_hasConnectMgr s then None else ie_connect e want flags userId callBack)"

text \<open>The missing manager is logged and then used.\<close>

definition Impl_UpgradeAtomicService :: "impl_env \<Rightarrow> want \<Rightarrow> int \<Rightarrow> bundle_service \<Rightarrow> bundle_service option" where
  "Impl_UpgradeAtomicService e want userId s = (if \<not> bs_hasConnectMgr s then None else Some s)"

section \<open>The service\<close>

definition bundle_mgr_of :: "impl_env \<Rightarrow> bundle_service bundle_mgr" where
  "bundle_mgr_of e =
     \<lparr>bm_GetApplicationInfo = (\<lambda>n f u s. (Impl_GetApplicationInfo e n f u s, s)),
      bm_GetApplicationInfoWithIntFlags = (\<lambda>n f u s. (Impl_GetApplicationInfo e n f u s, s)),
      bm_GetApplicationInfos = (\<lambda>f u s. (Impl_GetApplicationInfos e f u s, s)),
      bm_GetApplicationInfosWithIntFlags = (\<lambda>f u s. (Impl_GetApplicationInfos e f u s, s)),
      bm_GetBundleInfo = (\<lambda>n f u s. (Impl_GetBundleInfo e n f u s, s)),
      bm_GetBundleInfoWithIntFlags = (\<lambda>n f u s. (Impl_GetBundleInfo e n f u s, s)),
      bm_GetBundlePackInfo = (\<lambda>n f s. (Impl_GetBundlePackInfo e n f s, s)),
      bm_GetBundlePackInfoWithIntFlags = (\<lambda>n f s. (Impl_GetBundlePackInfo e n f s, s)),
      bm_GetBundleInfos = (\<lambda>f u s. (Impl_GetBundleInfos e f u s, s)),
      bm_GetBundleInfosWithIntFlags = (\<lambda>f u s. (Impl_GetBundleInfos e f u s, s)),
      bm_GetBundleNameForUid = (\<lambda>u s. (Impl_GetBundleNameForUid u s, s)),
      bm_GetBundlesForUid = (\<lambda>u s. (Impl_GetBundlesForUid u s, s)),
      bm_GetNameForUid = (\<lambda>u s. (Impl_GetNameForUid u s, s)),
      bm_GetBundleGids = (\<lambda>n s. (Impl_GetBundleGids e n s, s)),
      bm_GetBundleGidsByUid = (\<lambda>n u s. (Impl_GetBundleGidsByUid n u s, s)),
      bm_GetBundleInfosByMetaData = (\<lambda>m s. (Impl_GetBundleInfosByMetaData e m s, s)),
      bm_QueryAbilityInfo =
        (\<lambda>w s. (Impl_QueryAbilityInfo e w (uint GET_ABILITY_INFO_WITH_APPLICATION) UNSPECIFIED_USERID s, s)),
      bm_QueryAbilityInfoMutiparam = (\<lambda>w f u s. (Impl_QueryAbilityInfo e w f u s, s)),
      bm_QueryAbilityInfos =
        (\<lambda>w s. (Impl_QueryAbilityInfos e w (uint GET_ABILITY_INFO_WITH_APPLICATION) UNSPECIFIED_USERID s, s)),
      bm_QueryAbilityInfosMutiparam = (\<lambda>w f u s. (Impl_QueryAbilityInfos e w f u s, s)),
      bm_QueryAllAbilityInfos = (\<lambda>w u s. (Impl_QueryAllAbilityInfos e w u s, s)),
      bm_QueryAbilityInfosForClone = (\<lambda>w s. (Impl_QueryAbilityInfosForClone e w s, s)),
      bm_QueryAbilityInfoByUri = (\<lambda>x s. (Impl_QueryAbilityInfoByUri e x UNSPECIFIED_USERID s, s)),
      bm_QueryAbilityInfosByUri = (\<lambda>x s. (Impl_QueryAbilityInfosByUri e x s, s)),
      bm_QueryAbilityInfoByUriForUserId = (\<lambda>x u s. (Impl_QueryAbilityInfoByUri e x u s, s)),
      bm_QueryKeepAliveBundleInfos = (\<lambda>s. (Impl_QueryKeepAliveBundleInfos e s, s)),
      bm_GetAbilityLabel = (\<lambda>n a s. (Impl_GetAbilityLabel e n [] a s, s)),
      bm_GetAbilityLabelWithModuleName = (\<lambda>n m a s. (Impl_GetAbilityLabel e n m a s, s)),
      bm_CheckIsSystemAppByUid = (\<lambda>u s. (Impl_CheckIsSystemAppByUid u s, s)),
      bm_GetBundleArchiveInfo = (\<lambda>p f s. (Impl_GetBundleArchiveInfo e p f s, s)),
      bm_GetBundleArchiveInfoWithIntFlags = (\<lambda>p f s. (Impl_GetBundleArchiveInfo e p f s, s)),
      bm_GetHapModuleInfo = (\<lambda>a s. (Impl_GetHapModuleInfo e a UNSPECIFIED_USERID s, s)),
      bm_GetHapModuleInfoWithUserId = (\<lambda>a u s. (Impl_GetHapModuleInfo e a u s, s)),
      bm_GetLaunchWantForBundle = (\<lambda>n s. (Impl_GetLaunchWantForBundle e n s, s)),
      bm_CheckPublicKeys = (\<lambda>a b s. or_dies 0 (Impl_CheckPublicKeys a b s) s),
      bm_GetPermissionDef = (\<lambda>n s. (Impl_GetPermissionDef e n s, s)),
      bm_HasSystemCapability = (\<lambda>c s. (Impl_HasSystemCapability c, s)),
      bm_GetSystemAvailableCapabilities = (\<lambda>s. (Impl_GetSystemAvailableCapabilities, s)),
      bm_IsSafeMode = (\<lambda>s. (Impl_IsSafeMode, s)),
      bm_CleanBundleCacheFiles = Impl_CleanBundleCacheFiles e,
      bm_CleanBundleDataFiles = Impl_CleanBundleDataFiles e,
      bm_RegisterBundleStatusCallback = Impl_RegisterBundleStatusCallback e,
      bm_ClearBundleStatusCallback = Impl_ClearBundleStatusCallback e,
      bm_UnregisterBundleStatusCallback = Impl_UnregisterBundleStatusCallback e,
      bm_DumpInfos = (\<lambda>f n u s. (Impl_DumpInfos e f n u s, s)),
      bm_IsApplicationEnabled = (\<lambda>n s. (Impl_IsApplicationEnabled e n s, s)),
      bm_SetApplicationEnabled = (\<lambda>n b u s. or_dies False (Impl_SetApplicationEnabled e n b u s) s),
      bm_IsAbilityEnabled = (\<lambda>a s. (Impl_IsAbilityEnabled e a s, s)),
      bm_SetAbilityEnabled = (\<lambda>a b u s. or_dies False (Impl_SetAbilityEnabled e a b u s) s),
      bm_GetAbilityInfo = (\<lambda>n a s. (Impl_GetAbilityInfo e n [] a s, s)),
      bm_GetAbilityInfoWithModuleName = (\<lambda>n m a s. (Impl_GetAbilityInfo e n m a s, s)),
      bm_GetAbilityPixelMapIcon = (\<lambda>n a s. (Impl_GetAbilityPixelMapIcon e n [] a s, s)),
      bm_GetAbilityPixelMapIconWithModuleName = (\<lambda>n m a s. (Impl_GetAbilityPixelMapIcon e n m a s, s)),
      bm_GetBundleInstaller = (\<lambda>s. (ie_installer e, s)),
      bm_GetBundleUserMgr = (\<lambda>s. (ie_userMgr e, s)),
      bm_GetAllFormsInfo = (\<lambda>s. (Impl_GetAllFormsInfo s, s)),
      bm_GetFormsInfoByApp = (\<lambda>n s. (Impl_GetFormsInfoByApp n s, s)),
      bm_GetFormsInfoByModule = (\<lambda>n m s. (Impl_GetFormsInfoByModule n m s, s)),
      bm_GetShortcutInfos = (\<lambda>n s. (Impl_GetShortcutInfos e n UNSPECIFIED_USERID s, s)),
      bm_GetAllCommonEventInfo = (\<lambda>k s. (Impl_GetAllCommonEventInfo k s, s)),
      bm_CheckBundleNameInAllowList = (\<lambda>n s. or_dies False (Impl_CheckBundleNameInAllowList e n s) s),
      bm_BundleClone = (\<lambda>n s. or_dies False (Impl_BundleClone e n s) s),
      bm_RemoveClonedBundle = (\<lambda>n u s. or_dies False (Impl_RemoveClonedBundle e n u s) s),
      bm_GetDistributedBundleInfo = (\<lambda>d n s. (Impl_GetDistributedBundleInfo e d n s, s)),
      bm_GetAppPrivilegeLevel = (\<lambda>n u s. (Impl_GetAppPrivilegeLevel e n u s, s)),
      bm_QueryExtAbilityInfosWithoutType = (\<lambda>w f u s. (Impl_QueryExtensionAbilityInfos e w f u s, s)),
      bm_QueryExtAbilityInfos = (\<lambda>w t f u s. (Impl_QueryExtensionAbilityInfosOfType e w t f u s, s)),
      bm_QueryExtAbilityInfosByType = (\<lambda>t u s. (Impl_QueryExtensionAbilityInfosByType e t u s, s)),
      bm_VerifyCallingPermission = (\<lambda>p s. (Impl_VerifyCallingPermission e p s, s)),
      bm_GetAccessibleAppCodePaths = (\<lambda>u s. (Impl_GetAccessibleAppCodePaths u s, s)),
      bm_QueryExtensionAbilityInfoByUri = (\<lambda>x u s. (Impl_QueryExtensionAbilityInfoByUri e x u s, s)),
      bm_GetAppIdByBundleName = (\<lambda>n u s. (Impl_GetAppIdByBundleName e n u s, s)),
      bm_GetAppType = (\<lambda>n s. (Impl_GetAppType e n s, s)),
      bm_GetUidByBundleName = (\<lambda>n u s. (Impl_GetUidByBundleName e n u s, s)),
      bm_IsModuleRemovable = (\<lambda>n m s. (Impl_IsModuleRemovable e n m s, s)),
      bm_SetModuleRemovable = Impl_SetModuleRemovable e,
      bm_GetModuleUpgradeFlag = (\<lambda>n m s. (Impl_GetModuleUpgradeFlag n m s, s)),
      bm_SetModuleUpgradeFlag = Impl_SetModuleUpgradeFlag e,
      bm_ImplicitQueryInfoByPriority = (\<lambda>w f u s. (Impl_ImplicitQueryInfoByPriority e w f u s, s)),
      bm_GetAllDependentModuleNames = (\<lambda>n m s. (Impl_GetAllDependentModuleNames n m s, s)),
      bm_GetSandboxBundleInfo = (\<lambda>n i u s. (Impl_GetSandboxBundleInfo e n i u s, s)),
      bm_QueryAbilityInfoWithCallback = (\<lambda>w f u c s. (Impl_QueryAbilityInfoWithCallback e w f u c s, s)),
      bm_UpgradeAtomicService = (\<lambda>w u s. case Impl_UpgradeAtomicService e w u s of None \<Rightarrow> s\<lparr>bs_died := True\<rparr> | Some t \<Rightarrow> t)\<rparr>"

end
