(* ===== verification/Bundle_Clone_Correct.thy ===== *)
theory Bundle_Clone_Correct
  imports Bundle_Clone
begin

text \<open>What making a clone leaves behind, when it succeeds and when it fails.\<close>

lemma GenerateUidAndGid_infos:
  "GenerateUidAndGid u d = (ok, u', d') \<Longrightarrow> dm_bundleInfos d' = dm_bundleInfos d"
  by (auto simp: GenerateUidAndGid_def GenerateBundleId_def Let_def split: if_splits option.splits prod.splits)

lemma SaveNewInfoToDB_infos:
  assumes "SaveNewInfoToDB kv time n i d = (ok, d')"
  shows "dm_bundleInfos d' = (if ok then sm_assign (GetDBKeyBundleName i) (SetBundleInstallTime time UNSPECIFIED_USERID i) (dm_bundleInfos d)
      else dm_bundleInfos d)" "ok \<Longrightarrow> n \<noteq> [] \<and> map_of (dm_bundleInfos d) (GetDBKeyBundleName i) = None"
  using assms by (auto simp: SaveNewInfoToDB_def save_and_set_def Let_def split: if_splits prod.splits bool.splits)

lemma EnableBundle_infos:
  "map_of (dm_bundleInfos (snd (EnableBundle n d))) k =
     (if n \<noteq> [] \<and> k = n then map_option (SetBundleStatus BundleStatus_ENABLED) (map_of (dm_bundleInfos d) k)
      else map_of (dm_bundleInfos d) k)"
  by (auto simp: EnableBundle_def set_status_def)

lemma Clone_CreateBundleAndDataDir_effect:
  assumes "Clone_CreateBundleAndDataDir e s = (r, s')"
  shows "dm_bundleInfos (b_dm s') = dm_bundleInfos (b_dm s) \<and> cs_cloneFile s' = cs_cloneFile s \<and>
    cs_allowFile s' = cs_allowFile s \<and> b_cloneBundleName s' = b_cloneBundleName s \<and>
    (r = ERR_OK \<longrightarrow> GetDBKeyBundleName (b_cloneInfo s') =
       (if app_isCloned (ib_baseApplicationInfo (b_cloneInfo s))
        then b_cloneBundleName s @ ''#'' @ to_string (ib_uid (b_cloneInfo s)) else GetBundleName (b_cloneInfo s)) \<and>
     GetBundleName (b_cloneInfo s') = GetBundleName (b_cloneInfo s) \<and>
     app_isCloned (ib_baseApplicationInfo (b_cloneInfo s')) = app_isCloned (ib_baseApplicationInfo (b_cloneInfo s)))"
proof -
  obtain ok u d where g: "GenerateUidAndGid (clone_user (b_cloneBundleName s)) (b_dm s) = (ok, u, d)" by (metis prod_cases3)
  note infos = GenerateUidAndGid_infos [OF g]
  show ?thesis
    using assms g infos
    by (auto simp: Clone_CreateBundleAndDataDir_def dm_op_def fs_op_def log_call_def Let_def SetNewBundleName_def UpdateBundlePaths_def
        GetDBKeyBundleName_def GetBundleName_def split: if_splits)
qed

lemma CreateCloneBundleInfo_effect:
  assumes "CreateCloneBundleInfo e n s = (ok, s')" "map_of (dm_bundleInfos (b_dm s)) n = Some i" "n \<noteq> []"
  shows "ok" "dm_bundleInfos (b_dm s') = sm_update n (SetBundleStatus BundleStatus_DISABLED) (dm_bundleInfos (b_dm s))"
    "b_cloneInfo s' = (SetBundleStatus BundleStatus_DISABLED i)
       \<lparr>ib_baseApplicationInfo := (ib_baseApplicationInfo i)\<lparr>app_isCloned := True\<rparr>\<rparr>"
    "cs_cloneFile s' = cs_cloneFile s" "cs_allowFile s' = cs_allowFile s"
  using assms by (auto simp: CreateCloneBundleInfo_def dm_op_def GetInnerBundleInfo_def set_status_def log_call_def
      SetBundleStatus_def split: prod.splits option.splits)

lemma file_ops_frame:
  "SetCloneAppName e n s = Some (ok, s') \<Longrightarrow> b_dm s' = b_dm s \<and> cs_allowFile s' = cs_allowFile s"
  "DeleteCloneAppName e n s = Some (ok, s') \<Longrightarrow> b_dm s' = b_dm s"
  by (auto simp: SetCloneAppName_def DeleteCloneAppName_def Let_def split: option.splits if_splits json.splits)

lemma SetCloneAppName_file:
  assumes "SetCloneAppName e n s = Some (True, s1)"
  shows "\<exists>m rest. cs_cloneFile s1 = Some (ce_dump e (JObj m) @ CHR 0x0A # rest) \<and> obj_find (JObj m) n \<noteq> None"
proof -
  obtain content where c: "cs_cloneFile s = Some content" using assms by (auto simp: SetCloneAppName_def split: option.splits)
  show ?thesis
  proof (cases "content = []")
    case True
    with assms c show ?thesis
      by (intro exI [of _ "[(n, JStr n)]"] exI [of _ "[]"]) (auto simp: SetCloneAppName_def obj_find_def)
  next
    case False
    with assms c obtain j where j: "ce_stream e content = Some j" by (auto simp: SetCloneAppName_def split: option.splits)
    define m where "m = (case j of JObj m \<Rightarrow> sm_assign n (JStr n) m | _ \<Rightarrow> [(n, JStr n)])"
    have "cs_cloneFile s1 = Some (overwrite (ce_dump e (JObj m) @ [CHR 0x0A]) content) \<and> map_of m n = Some (JStr n)"
      using assms c False j by (cases j) (auto simp: SetCloneAppName_def m_def split: if_splits)
    then show ?thesis by (auto simp: overwrite_def obj_find_def)
  qed
qed

lemma ProcessCloneInstall_effect:
  assumes "ProcessCloneInstall e s = (r, s')" "app_isCloned (ib_baseApplicationInfo (b_cloneInfo s))"
  defines "n \<equiv> GetBundleName (b_cloneInfo s)"
  defines "c \<equiv> n @ ''#'' @ to_string (ib_uid (b_cloneInfo s))"
  shows "r \<noteq> ERR_OK \<Longrightarrow> dm_bundleInfos (b_dm s') = dm_bundleInfos (b_dm s)"
    and "cs_cloneFile s' = cs_cloneFile s \<and> cs_allowFile s' = cs_allowFile s"
    and "r = ERR_OK \<Longrightarrow> n \<noteq> [] \<and> map_of (dm_bundleInfos (b_dm s)) c = None \<and>
      (\<exists>ci. map_of (dm_bundleInfos (b_dm s')) c = Some ci \<and> app_isCloned (ib_baseApplicationInfo ci) \<and>
         \<not> IsDisabled ci \<and> GetBundleName ci = n) \<and>
      map_of (dm_bundleInfos (b_dm s')) n =
         map_option (SetBundleStatus BundleStatus_ENABLED) (map_of (dm_bundleInfos (b_dm s)) n) \<and>
      (\<forall>k. k \<noteq> n \<longrightarrow> k \<noteq> c \<longrightarrow> map_of (dm_bundleInfos (b_dm s')) k = map_of (dm_bundleInfos (b_dm s)) k)"
proof -
  let ?s0 = "s\<lparr>b_cloneBundleName := n\<rparr>"
  obtain r1 s1 where s1: "Clone_CreateBundleAndDataDir e ?s0 = (r1, s1)" by fastforce
  note eff = Clone_CreateBundleAndDataDir_effect [OF s1]
  let ?i = "SetBundleStatus BundleStatus_ENABLED (b_cloneInfo s1)"
  let ?t = "env_time (ce_install e) (now s1)"
  have key: "r1 = ERR_OK \<Longrightarrow> GetDBKeyBundleName ?i = c" "r1 = ERR_OK \<Longrightarrow> GetBundleName ?i = n"
    using eff assms(2) by (auto simp: n_def c_def GetDBKeyBundleName_def GetBundleName_def SetBundleStatus_def)
  define i2 where "i2 = (if b_cloneBundleName s1 = [] \<or> map_of (dm_bundleInfos (b_dm s1)) (GetDBKeyBundleName ?i) \<noteq> None then ?i
      else SetBundleInstallTime ?t UNSPECIFIED_USERID ?i)"
  have nb: "GetDBKeyBundleName i2 = GetDBKeyBundleName ?i"
    by (auto simp: i2_def GetDBKeyBundleName_def SetBundleInstallTime_def upd_user_info_def Let_def)
  obtain ok d where sv: "SaveNewInfoToDB (env_kv (ce_install e) (now s1)) ?t (b_cloneBundleName s1) ?i (b_dm s1) = (ok, d)"
    by fastforce
  note saved = SaveNewInfoToDB_infos [OF sv]
  define s2 where "s2 = log_call Store (s1\<lparr>b_cloneInfo := i2, b_dm := d\<rparr>)"
  define s3 where "s3 = snd (enable_bundle (ce_install e) (GetDBKeyBundleName ?i) s2)"
  define s4 where "s4 = snd (enable_bundle (ce_install e) (b_cloneBundleName s3) s3)"
  have run: "ProcessCloneInstall e s =
      (if r1 \<noteq> ERR_OK then (r1, s1)
       else if \<not> ok then (ERR_APPEXECFWK_INSTALL_BUNDLE_MGR_SERVICE_ERROR, s2) else (ERR_OK, s4))"
    using s1 sv nb
    by (cases "b_cloneBundleName s1 = [] \<or> map_of (dm_bundleInfos (b_dm s1)) (GetDBKeyBundleName ?i) \<noteq> None")
      (simp_all add: ProcessCloneInstall_def Let_def dm_op_def split_beta n_def [symmetric] i2_def s2_def s3_def s4_def)
  have nm: "b_cloneBundleName s3 = n" using eff by (simp add: s3_def s2_def dm_op_def split_beta)
  have frames: "cs_cloneFile s4 = cs_cloneFile s" "cs_allowFile s4 = cs_allowFile s" "cs_cloneFile s2 = cs_cloneFile s"
      "cs_allowFile s2 = cs_allowFile s"
    using eff by (simp_all add: s4_def s3_def s2_def dm_op_def log_call_def split_beta)
  have d4: "b_dm s4 = snd (EnableBundle n (snd (EnableBundle (GetDBKeyBundleName ?i) d)))"
    using nm by (simp add: s4_def) (simp add: s3_def s2_def dm_op_def split_beta)
  show "r \<noteq> ERR_OK \<Longrightarrow> dm_bundleInfos (b_dm s') = dm_bundleInfos (b_dm s)"
    using assms(1) run eff saved(1) by (auto simp: s2_def split: if_splits)
  show "cs_cloneFile s' = cs_cloneFile s \<and> cs_allowFile s' = cs_allowFile s"
    using assms(1) run eff frames by (auto split: if_splits)
  assume "r = ERR_OK"
  then have ok: "r1 = ERR_OK" ok "s' = s4" using assms(1) run by (auto split: if_splits)
  note saved2 = saved(2) [OF ok(2)]
  have n: "n \<noteq> []" "map_of (dm_bundleInfos (b_dm s)) c = None" using saved2 key(1) [OF ok(1)] eff by auto
  have cn: "c \<noteq> n" "c \<noteq> []" by (simp_all add: c_def)
  let ?ci = "SetBundleInstallTime ?t UNSPECIFIED_USERID ?i"
  have ci: "app_isCloned (ib_baseApplicationInfo ?ci)" "GetBundleName ?ci = n" "\<not> IsDisabled (SetBundleStatus BundleStatus_ENABLED ?ci)"
      "GetBundleName (SetBundleStatus BundleStatus_ENABLED ?ci) = n" "app_isCloned (ib_baseApplicationInfo (SetBundleStatus BundleStatus_ENABLED ?ci))"
    using eff assms(2) ok(1) key(2) [OF ok(1)]
    by (auto simp: SetBundleInstallTime_def upd_user_info_def Let_def SetBundleStatus_def GetBundleName_def IsDisabled_def)
  have infos: "map_of (dm_bundleInfos d) = (map_of (dm_bundleInfos (b_dm s))) (c \<mapsto> ?ci)"
    using saved(1) ok(2) eff key(1) [OF ok(1)] by simp
  have final: "map_of (dm_bundleInfos (b_dm s')) k =
      (if k = n then map_option (SetBundleStatus BundleStatus_ENABLED) (map_of (dm_bundleInfos (b_dm s)) n)
       else if k = c then Some (SetBundleStatus BundleStatus_ENABLED ?ci) else map_of (dm_bundleInfos (b_dm s)) k)" for k
    using n cn unfolding ok(3) d4 key(1) [OF ok(1)] by (simp add: EnableBundle_infos infos)
  show "n \<noteq> [] \<and> map_of (dm_bundleInfos (b_dm s)) c = None \<and>
      (\<exists>ci. map_of (dm_bundleInfos (b_dm s')) c = Some ci \<and> app_isCloned (ib_baseApplicationInfo ci) \<and>
         \<not> IsDisabled ci \<and> GetBundleName ci = n) \<and>
      map_of (dm_bundleInfos (b_dm s')) n =
         map_option (SetBundleStatus BundleStatus_ENABLED) (map_of (dm_bundleInfos (b_dm s)) n) \<and>
      (\<forall>k. k \<noteq> n \<longrightarrow> k \<noteq> c \<longrightarrow> map_of (dm_bundleInfos (b_dm s')) k = map_of (dm_bundleInfos (b_dm s)) k)"
    using n ci cn final by auto
qed

text \<open>
  A clone that succeeds. The bundle's name was in the allow list and is then in the file of clones; the
  copy is in memory under its own name, marked as a clone and enabled, the bundle itself is enabled, and
  every other bundle is as before. Cloning the bundle again is refused and changes nothing, if a member
  that is written to the file is there when it is read.
\<close>

theorem clone_makes_copy:
  assumes "BundleClone e n s = Some (True, s')" "map_of (dm_bundleInfos (b_dm s)) n = Some i" "GetBundleName i = n"
    and "\<forall>j rest. obj_find j n \<noteq> None \<longrightarrow>
      (\<exists>j'. ce_stream e (ce_dump e j @ CHR 0x0A # rest) = Some j' \<and> obj_find j' n \<noteq> None)"
  shows "CheckBundleNameInAllowList e n s = Some True \<and>
    (\<exists>ci. map_of (dm_bundleInfos (b_dm s')) (n @ ''#'' @ to_string (ib_uid i)) = Some ci \<and>
       app_isCloned (ib_baseApplicationInfo ci) \<and> \<not> IsDisabled ci \<and> GetBundleName ci = n) \<and>
    (\<exists>i'. map_of (dm_bundleInfos (b_dm s')) n = Some i' \<and> i' = SetBundleStatus BundleStatus_ENABLED i) \<and>
    (\<forall>k. k \<noteq> n \<longrightarrow> k \<noteq> n @ ''#'' @ to_string (ib_uid i) \<longrightarrow>
       map_of (dm_bundleInfos (b_dm s')) k = map_of (dm_bundleInfos (b_dm s)) k) \<and>
    BundleClone e n s' = Some (False, s')"
proof -
  obtain s1 where allowed: "CheckBundleNameInAllowList e n s = Some True" and s1: "SetCloneAppName e n s = Some (True, s1)"
    using assms(1) by (auto simp: BundleClone_def split: option.splits if_splits bind_splits)
  note f1 = file_ops_frame(1) [OF s1]
  obtain b s2 where s2: "CreateCloneBundleInfo e n s1 = (b, s2)" by fastforce
  have b and s': "ProcessCloneInstall e s2 = (ERR_OK, s')"
    using assms(1) allowed s1 s2 by (auto simp: BundleClone_def split: bool.splits prod.splits if_splits)
  have m1: "map_of (dm_bundleInfos (b_dm s1)) n = Some i" using assms(2) f1 by simp
  have ne: "n \<noteq> []"
  proof
    assume "n = []"
    with s2 \<open>b\<close> show False by (auto simp: CreateCloneBundleInfo_def dm_op_def GetInnerBundleInfo_def split: option.splits)
  qed
  note c = CreateCloneBundleInfo_effect [OF s2 m1 ne]
  have cloned: "app_isCloned (ib_baseApplicationInfo (b_cloneInfo s2))"
      and name: "GetBundleName (b_cloneInfo s2) = n" and uid: "ib_uid (b_cloneInfo s2) = ib_uid i"
    using c(3) assms(3) by (simp_all add: GetBundleName_def SetBundleStatus_def)
  note p = ProcessCloneInstall_effect [OF s' cloned, unfolded name uid]
  have files: "cs_cloneFile s' = cs_cloneFile s1" "cs_allowFile s' = cs_allowFile s" using p(2) c(4,5) f1 by simp_all
  obtain m rest where m: "cs_cloneFile s1 = Some (ce_dump e (JObj m) @ CHR 0x0A # rest)" "obj_find (JObj m) n \<noteq> None"
    using SetCloneAppName_file [OF s1] by blast
  have again: "SetCloneAppName e n s' = Some (False, s')"
  proof -
    obtain j' where "ce_stream e (ce_dump e (JObj m) @ CHR 0x0A # rest) = Some j'" "obj_find j' n \<noteq> None"
      using assms(4) m(2) by blast
    then show ?thesis using m(1) files by (auto simp: SetCloneAppName_def)
  qed
  have "CheckBundleNameInAllowList e n s' = Some True" using allowed files by (simp add: CheckBundleNameInAllowList_def)
  then have refused: "BundleClone e n s' = Some (False, s')" using again by (simp add: BundleClone_def)
  have "SetBundleStatus BundleStatus_ENABLED (SetBundleStatus BundleStatus_DISABLED i) = SetBundleStatus BundleStatus_ENABLED i"
    by (simp add: SetBundleStatus_def)
  then show ?thesis using allowed refused p(3) c(2) f1 assms(2) by auto
qed

text \<open>
  A clone that fails after its name was entered takes the name out again, but leaves the bundle disabled:
  \<open>GetInnerBundleInfo\<close> disables it for the installer, and only the end of a successful clone enables it.
\<close>

theorem failed_clone_disables_bundle:
  assumes "BundleClone e n s = Some (False, s')" "map_of (dm_bundleInfos (b_dm s)) n = Some i" "GetBundleName i = n" "n \<noteq> []"
    and "CheckBundleNameInAllowList e n s = Some True" "SetCloneAppName e n s = Some (True, s1)"
  shows "\<exists>i'. map_of (dm_bundleInfos (b_dm s')) n = Some i' \<and> IsDisabled i'"
proof -
  note f1 = file_ops_frame(1) [OF assms(6)]
  obtain b s2 where s2: "CreateCloneBundleInfo e n s1 = (b, s2)" by fastforce
  have m1: "map_of (dm_bundleInfos (b_dm s1)) n = Some i" using assms(2) f1 by simp
  note c = CreateCloneBundleInfo_effect [OF s2 m1 assms(4)]
  obtain r s3 where s3: "ProcessCloneInstall e s2 = (r, s3)" by fastforce
  have "r \<noteq> ERR_OK" and d: "\<exists>q. DeleteCloneAppName e n s3 = Some (q, s')"
    using assms(1,5,6) s2 c(1) s3 by (auto simp: BundleClone_def split: if_splits)
  have cloned: "app_isCloned (ib_baseApplicationInfo (b_cloneInfo s2))" using c(3) by (simp add: SetBundleStatus_def)
  from ProcessCloneInstall_effect(1) [OF s3 cloned \<open>r \<noteq> ERR_OK\<close>] d file_ops_frame(2)
  have "dm_bundleInfos (b_dm s') = dm_bundleInfos (b_dm s2)" by fastforce
  then show ?thesis using c(2) m1 by (auto simp: IsDisabled_def SetBundleStatus_def)
qed

text \<open>A service with one bundle that may be cloned.\<close>

definition clone_demo_env :: clone_env where
  "clone_demo_env = \<lparr>ce_install = \<lparr>env_kv = (\<lambda>_. kv_fine), env_fs = (\<lambda>_ _. ERR_OK), env_perm = (\<lambda>_ _. True),
       env_token = (\<lambda>_ _ _. 5), env_kill = (\<lambda>_ _ _. True), env_time = (\<lambda>_. 7), env_preStored = (\<lambda>_. True),
       env_cloneFile = (\<lambda>_ _. True), env_js = sample_codec, env_order = (\<lambda>ks. ks), env_checkPaths = Inr,
       env_sysCaps = (\<lambda>_. Inr []), env_hasSysCap = (\<lambda>_. True), env_verify = (\<lambda>_. Inl ERR_NO_INIT),
       env_parse = (\<lambda>_. Inr), env_parsePack = (\<lambda>_. Inr new_BundlePackInfo), env_space = (\<lambda>_ _. True),
       env_strToInt = (\<lambda>_. None)\<rparr>,
     ce_stream = (\<lambda>t. Some (if hd t = CHR ''1'' then JObj [(''com.demo'', JNull)] else JNull)),
     ce_parse = (\<lambda>_. Some (JArr [JObj [(''bundlename'', JStr ''com.demo'')]])),
     ce_dump = (\<lambda>j. if obj_find j ''com.demo'' \<noteq> None then ''1'' else ''0''), ce_reopen = True\<rparr>"

definition clone_demo_service :: clone_service where
  "clone_demo_service = \<lparr>b_dm = demo_mgr, b_sandbox = \<lparr>sx_appInfos = [], sx_appIndexMap = []\<rparr>,
     b_cloneInfo = new_InnerBundleInfo, b_cloneBundleName = [], b_calls = [], cs_cloneFile = Some [], cs_allowFile = Some ''x''\<rparr>"

lemma clone_demo_succeeds:
  "map_option fst (BundleClone clone_demo_env ''com.demo'' clone_demo_service) = Some True"
  by code_simp

theorem clone_makes_copy_witness:
  "\<exists>s'. BundleClone clone_demo_env ''com.demo'' clone_demo_service = Some (True, s') \<and>
     BundleClone clone_demo_env ''com.demo'' s' = Some (False, s')"
proof -
  obtain s' where s': "BundleClone clone_demo_env ''com.demo'' clone_demo_service = Some (True, s')"
    using clone_demo_succeeds by fastforce
  have "map_of (dm_bundleInfos (b_dm clone_demo_service)) ''com.demo'' = Some demo_info"
    by (simp add: clone_demo_service_def demo_mgr_eval)
  from clone_makes_copy [OF s' this] show ?thesis using s' by (simp add: clone_demo_env_def obj_find_def)
qed

end
