(* ===== verification/Bundle_Permission_Correct.thy ===== *)
theory Bundle_Permission_Correct
  imports Bundle_Permission
begin

text \<open>
  What \<open>BundlePermissionMgr\<close> guarantees: which permissions are granted, and what a token holds after an
  update of its bundle.
\<close>

section \<open>Granting\<close>

text \<open>The three levels as ranks: a permission needs a rank, a privilege level gives one.\<close>

definition level_rank :: "access_token_kit \<Rightarrow> int \<Rightarrow> nat option" where
  "level_rank kit level = map_of [(tk_APL_NORMAL kit, 0), (tk_APL_SYSTEM_BASIC kit, 1), (tk_APL_SYSTEM_CORE kit, 2)] level"

definition apl_rank :: "string \<Rightarrow> nat" where
  "apl_rank apl = (if apl = ''system_core'' then 2 else if apl = ''system_basic'' then 1 else 0)"

definition may_hold :: "access_token_kit \<Rightarrow> string \<Rightarrow> string list \<Rightarrow> acc_permission_def \<Rightarrow> bool" where
  "may_hold kit apl acls d \<longleftrightarrow>
     (\<exists>k. level_rank kit (ad_availableLevel d) = Some k \<and> k \<le> apl_rank apl) \<or>
     ad_provisionEnable d \<and> ad_permissionName d \<in> set acls"

lemma CheckGrantPermission_may_hold:
  "distinct [tk_APL_NORMAL kit, tk_APL_SYSTEM_BASIC kit, tk_APL_SYSTEM_CORE kit] \<Longrightarrow>
     CheckGrantPermission kit d apl acls \<longleftrightarrow> may_hold kit apl acls d"
  by (auto simp: CheckGrantPermission_def may_hold_def level_rank_def apl_rank_def Let_def
      AVAILABLELEVEL_SYSTEM_BASIC_def AVAILABLELEVEL_SYSTEM_CORE_def)

text \<open>What the first loop finds, as sets of names.\<close>

definition requested_with ::
  "access_token_kit \<Rightarrow> nat \<Rightarrow> request_permission list \<Rightarrow> (acc_permission_def \<Rightarrow> bool) \<Rightarrow> string set" where
  "requested_with kit t rs P = {n \<in> rp_name ` set rs. \<exists>d. tk_GetDefPermission kit t n = Some d \<and> P d}"

lemma requested_with_simps:
  "requested_with kit t [] P = {}"
  "requested_with kit t (r # rs) P =
     (case tk_GetDefPermission kit t (rp_name r) of
        Some d \<Rightarrow> if P d then insert (rp_name r) (requested_with kit t rs P) else requested_with kit t rs P
      | None \<Rightarrow> requested_with kit t rs P)"
  by (auto simp: requested_with_def split: option.splits)

lemma sort_requests_Some:
  "sort_requests kit t apl acls rs = Some (sys, usr) \<Longrightarrow>
     set sys = requested_with kit t rs (\<lambda>d. ad_grantMode d = tk_SYSTEM_GRANT kit) \<and>
     set usr = requested_with kit t rs (\<lambda>d. ad_grantMode d \<noteq> tk_SYSTEM_GRANT kit)"
  by (induction rs arbitrary: sys usr)
    (auto simp: requested_with_simps split: option.splits if_splits)

lemma sort_requests_None:
  "sort_requests kit t apl acls rs = None \<longleftrightarrow>
     (\<exists>r \<in> set rs. \<exists>d. tk_GetDefPermission kit t (rp_name r) = Some d \<and> \<not> CheckGrantPermission kit d apl acls)"
  by (induction rs) (auto split: option.splits)

lemma grant_all_calls:
  "grant_all kit tok ps cs = (ok, cs') \<Longrightarrow>
     \<exists>k. cs' = cs @ map (\<lambda>(n, f). GrantPermission_call tok n f) (take k ps) \<and> (ok \<longrightarrow> length ps \<le> k)"
proof (induction ps arbitrary: cs)
  case Nil
  then show ?case by auto
next
  case (Cons p ps)
  obtain n f where p: "p = (n, f)" by fastforce
  obtain b c where b: "GrantPermission kit tok n f cs = (b, c)" by fastforce
  then have c: "c = cs @ [GrantPermission_call tok n f]" by (simp add: GrantPermission_def tk_do_def)
  show ?case
  proof (cases b)
    case True
    with Cons.prems b p have "grant_all kit tok ps c = (ok, cs')" by simp
    from Cons.IH [OF this] obtain k where
      "cs' = c @ map (\<lambda>(n, f). GrantPermission_call tok n f) (take k ps)" "ok \<longrightarrow> length ps \<le> k" by blast
    with c p show ?thesis by (intro exI [of _ "Suc k"]) auto
  next
    case False
    with Cons.prems b p c show ?thesis by (intro exI [of _ 1]) auto
  qed
qed

lemma default_grants_in:
  "(n, f) \<in> set (default_grants kit tbl b perms) \<longleftrightarrow>
     n \<in> set perms \<and> (\<exists>uc. CheckPermissionInDefaultPermissions tbl b n = Some uc \<and>
       f = (if uc then tk_DEFAULT_FLAG kit else tk_SYSTEM_FIXED kit))"
  by (induction perms) (auto simp: default_grants_def List.map_filter_simps split: option.splits)

lemma inner_grants_calls:
  assumes "sort_requests kit (length cs) (app_appPrivilegeLevel (ib_baseApplicationInfo i)) (ib_allowedAcls i) reqs = Some (sys, usr)"
    and "InnerGrantRequestPermissions kit tbl tok reqs i cs = (ok, cs')"
  shows "\<exists>gs. cs' = cs @ map (\<lambda>(n, f). GrantPermission_call tok n f) gs \<and>
    set gs \<subseteq> (\<lambda>n. (n, tk_SYSTEM_FIXED kit)) ` set sys \<union>
      (if bi_isPreInstallApp (ib_baseBundleInfo i) then set (default_grants kit tbl (GetBundleName i) usr) else {}) \<and>
    (ok \<longrightarrow> (\<lambda>n. (n, tk_SYSTEM_FIXED kit)) ` set sys \<subseteq> set gs)"
proof -
  let ?sg = "map (\<lambda>n. (n, tk_SYSTEM_FIXED kit)) sys"
  let ?dg = "default_grants kit tbl (GetBundleName i) usr"
  obtain b c where b: "grant_all kit tok ?sg cs = (b, c)" by fastforce
  obtain k where k: "c = cs @ map (\<lambda>(n, f). GrantPermission_call tok n f) (take k ?sg)" "b \<longrightarrow> length ?sg \<le> k"
    using grant_all_calls [OF b] by blast
  have sub: "set (take k ?sg) \<subseteq> (\<lambda>n. (n, tk_SYSTEM_FIXED kit)) ` set sys"
    using set_take_subset [of k ?sg] by auto
  show ?thesis
  proof (cases "b \<and> bi_isPreInstallApp (ib_baseBundleInfo i)")
    case True
    then have g: "grant_all kit tok ?dg c = (ok, cs')"
      using assms b by (simp add: InnerGrantRequestPermissions_def)
    obtain m where m: "cs' = c @ map (\<lambda>(n, f). GrantPermission_call tok n f) (take m ?dg)"
      using grant_all_calls [OF g] by blast
    have "set (take m ?dg) \<subseteq> set ?dg" by (rule set_take_subset)
    with k m sub True show ?thesis by (intro exI [of _ "take k ?sg @ take m ?dg"]) auto
  next
    case False
    then have "cs' = c \<and> ok = b"
      using assms b by (auto simp: InnerGrantRequestPermissions_def split: bool.splits)
    with k sub False show ?thesis by (intro exI [of _ "take k ?sg"]) auto
  qed
qed

text \<open>
  C36: Granting the permissions a bundle requests. Only requested permissions are granted, and only those
  whose level the bundle's privilege level reaches or that its access control list names; a permission
  that the user grants is granted only to a preinstalled application, as its default permissions say. If a
  requested permission may not be held, nothing at all is granted and the answer is failure; on success
  every permission the system grants is granted.
\<close>

theorem grants_are_allowed:
  assumes "distinct [tk_APL_NORMAL kit, tk_APL_SYSTEM_BASIC kit, tk_APL_SYSTEM_CORE kit]"
    and "InnerGrantRequestPermissions kit tbl tok reqs i cs = (ok, cs')"
  shows "\<exists>gs. cs' = cs @ map (\<lambda>(n, f). GrantPermission_call tok n f) gs \<and>
    (\<forall>(n, f) \<in> set gs. n \<in> rp_name ` set reqs \<and>
       (\<exists>d. tk_GetDefPermission kit (length cs) n = Some d \<and>
          may_hold kit (app_appPrivilegeLevel (ib_baseApplicationInfo i)) (ib_allowedAcls i) d \<and>
          (if ad_grantMode d = tk_SYSTEM_GRANT kit then f = tk_SYSTEM_FIXED kit
           else bi_isPreInstallApp (ib_baseBundleInfo i) \<and>
             (\<exists>userCancellable. CheckPermissionInDefaultPermissions tbl (GetBundleName i) n = Some userCancellable \<and>
                f = (if userCancellable then tk_DEFAULT_FLAG kit else tk_SYSTEM_FIXED kit))))) \<and>
    (\<forall>r \<in> set reqs. \<forall>d. tk_GetDefPermission kit (length cs) (rp_name r) = Some d \<longrightarrow>
       (if may_hold kit (app_appPrivilegeLevel (ib_baseApplicationInfo i)) (ib_allowedAcls i) d
        then ok \<and> ad_grantMode d = tk_SYSTEM_GRANT kit \<longrightarrow> (rp_name r, tk_SYSTEM_FIXED kit) \<in> set gs
        else \<not> ok \<and> gs = []))"
proof (cases "sort_requests kit (length cs) (app_appPrivilegeLevel (ib_baseApplicationInfo i)) (ib_allowedAcls i) reqs")
  case None
  then have "\<not> ok \<and> cs' = cs" using assms(2) by (simp add: InnerGrantRequestPermissions_def)
  then show ?thesis by (intro exI [of _ "[]"]) simp
next
  case (Some p)
  obtain sys usr where p: "p = (sys, usr)" by fastforce
  note sorted = sort_requests_Some [OF Some [unfolded p]]
  obtain gs where gs: "cs' = cs @ map (\<lambda>(n, f). GrantPermission_call tok n f) gs"
      "set gs \<subseteq> (\<lambda>n. (n, tk_SYSTEM_FIXED kit)) ` set sys \<union>
        (if bi_isPreInstallApp (ib_baseBundleInfo i) then set (default_grants kit tbl (GetBundleName i) usr) else {})"
      "ok \<longrightarrow> (\<lambda>n. (n, tk_SYSTEM_FIXED kit)) ` set sys \<subseteq> set gs"
    using inner_grants_calls [OF Some [unfolded p] assms(2)] by blast
  have hold: "may_hold kit (app_appPrivilegeLevel (ib_baseApplicationInfo i)) (ib_allowedAcls i) d"
    if "n \<in> rp_name ` set reqs" "tk_GetDefPermission kit (length cs) n = Some d" for n d
  proof -
    have "\<not> (\<exists>r \<in> set reqs. \<exists>d. tk_GetDefPermission kit (length cs) (rp_name r) = Some d \<and>
        \<not> CheckGrantPermission kit d (app_appPrivilegeLevel (ib_baseApplicationInfo i)) (ib_allowedAcls i))"
      using Some by (metis sort_requests_None option.distinct(1))
    with that CheckGrantPermission_may_hold [OF assms(1)] show ?thesis by blast
  qed
  have each: "n \<in> rp_name ` set reqs \<and> (\<exists>d. tk_GetDefPermission kit (length cs) n = Some d \<and>
      (if ad_grantMode d = tk_SYSTEM_GRANT kit then f = tk_SYSTEM_FIXED kit
       else bi_isPreInstallApp (ib_baseBundleInfo i) \<and>
         (\<exists>uc. CheckPermissionInDefaultPermissions tbl (GetBundleName i) n = Some uc \<and>
            f = (if uc then tk_DEFAULT_FLAG kit else tk_SYSTEM_FIXED kit))))" if nf: "(n, f) \<in> set gs" for n f
  proof -
    have "n \<in> set sys \<and> f = tk_SYSTEM_FIXED kit \<or>
        bi_isPreInstallApp (ib_baseBundleInfo i) \<and> (n, f) \<in> set (default_grants kit tbl (GetBundleName i) usr)"
      using gs(2) nf by (auto split: if_splits)
    then consider (sys) "n \<in> set sys" "f = tk_SYSTEM_FIXED kit"
      | (usr) "n \<in> set usr" "bi_isPreInstallApp (ib_baseBundleInfo i)"
          "\<exists>uc. CheckPermissionInDefaultPermissions tbl (GetBundleName i) n = Some uc \<and>
             f = (if uc then tk_DEFAULT_FLAG kit else tk_SYSTEM_FIXED kit)"
      unfolding default_grants_in by blast
    then show ?thesis
    proof cases
      case sys
      then have "n \<in> requested_with kit (length cs) reqs (\<lambda>d. ad_grantMode d = tk_SYSTEM_GRANT kit)" using sorted by blast
      with sys(2) show ?thesis unfolding requested_with_def mem_Collect_eq by metis
    next
      case usr
      then have "n \<in> requested_with kit (length cs) reqs (\<lambda>d. ad_grantMode d \<noteq> tk_SYSTEM_GRANT kit)" using sorted by blast
      with usr(2,3) show ?thesis unfolding requested_with_def mem_Collect_eq by metis
    qed
  qed
  have granted: "(rp_name r, tk_SYSTEM_FIXED kit) \<in> set gs"
    if "ok" "r \<in> set reqs" "tk_GetDefPermission kit (length cs) (rp_name r) = Some d" "ad_grantMode d = tk_SYSTEM_GRANT kit" for r d
    using that gs(3) sorted by (auto simp: requested_with_def)
  show ?thesis
  proof (intro exI [of _ gs] conjI gs(1) ballI allI impI, goal_cases)
    case (1 x)
    obtain n f where x: "x = (n, f)" by fastforce
    from each [OF 1 [unfolded x]] hold [of n] show ?case unfolding x prod.case by metis
  next
    case (2 r d)
    then show ?case using hold [of "rp_name r" d] granted [of r d] by simp
  qed
qed

text \<open>A token service that knows one permission of the middle level, and a bundle of that level.\<close>

definition demo_permission :: acc_permission_def where
  "demo_permission = \<lparr>ad_permissionName = ''p.basic'', ad_bundleName = ''os'', ad_grantMode = 1, ad_availableLevel = 2,
     ad_provisionEnable = False, ad_distributedSceneEnable = False, ad_label = [], ad_labelId = 0, ad_description = [],
     ad_descriptionId = 0\<rparr>"

definition demo_kit :: access_token_kit where
  "demo_kit = \<lparr>tk_APL_NORMAL = 1, tk_APL_SYSTEM_BASIC = 2, tk_APL_SYSTEM_CORE = 3, tk_SYSTEM_GRANT = 1, tk_USER_GRANT = 0,
     tk_PERMISSION_DENIED = -1, tk_DEFAULT_FLAG = 0, tk_SYSTEM_FIXED = 4, tk_RET_SUCCESS = 0, tk_alloc = (\<lambda>_. 5),
     tk_ret = (\<lambda>_ _. 0), tk_GetDefPermissions = (\<lambda>_ _. Some [demo_permission]),
     tk_GetDefPermission = (\<lambda>_ n. if n = ''p.basic'' then Some demo_permission else None),
     tk_GetReqPermissions = (\<lambda>_ _ _. Some []), tk_VerifyAccessToken = (\<lambda>_ _ n. if n = ''p.basic'' then 0 else -1),
     tk_is_native = (\<lambda>_. False), tk_GetHapTokenID = (\<lambda>_ _ _ _. 5)\<rparr>"

definition demo_holder :: "string \<Rightarrow> inner_bundle_info" where
  "demo_holder apl = new_InnerBundleInfo\<lparr>ib_baseApplicationInfo := new_ApplicationInfo\<lparr>app_appPrivilegeLevel := apl\<rparr>\<rparr>"

definition demo_request :: request_permission where
  "demo_request = new_RequestPermission\<lparr>rp_name := ''p.basic''\<rparr>"

lemma demo_grants:
  "InnerGrantRequestPermissions demo_kit [] 5 [demo_request] (demo_holder ''system_basic'') [] =
     (True, [GrantPermission_call 5 ''p.basic'' 4])"
  "InnerGrantRequestPermissions demo_kit [] 5 [demo_request] (demo_holder ''normal'') [] = (False, [])"
  by (simp_all add: InnerGrantRequestPermissions_def demo_kit_def demo_permission_def demo_request_def demo_holder_def
      CheckGrantPermission_def Let_def AVAILABLELEVEL_SYSTEM_BASIC_def AVAILABLELEVEL_SYSTEM_CORE_def GrantPermission_def
      tk_do_def new_RequestPermission_def new_InnerBundleInfo_def new_BundleInfo_def new_ApplicationInfo_def)

theorem grants_are_allowed_witness:
  "\<exists>gs. [GrantPermission_call 5 ''p.basic'' 4] = [] @ map (\<lambda>(n, f). GrantPermission_call 5 n f) gs \<and>
     (\<forall>(n, f) \<in> set gs. n = ''p.basic'')"
proof -
  have d: "distinct [tk_APL_NORMAL demo_kit, tk_APL_SYSTEM_BASIC demo_kit, tk_APL_SYSTEM_CORE demo_kit]"
    by (simp add: demo_kit_def)
  show ?thesis
    using grants_are_allowed [OF d demo_grants(1)] by (force simp: demo_request_def new_RequestPermission_def)
qed

section \<open>Updating\<close>

lemma add_missing_names:
  "add_missing name ps cur = (all, added) \<Longrightarrow> distinct (map name cur) \<Longrightarrow>
     \<exists>more. all = cur @ more \<and> distinct (map name all) \<and> set (map name all) = set (map name cur) \<union> set (map name ps) \<and>
       set more \<subseteq> set ps \<and> added = map name more"
proof (induction ps arbitrary: cur all added)
  case Nil
  then show ?case by simp
next
  case (Cons p ps)
  have found: "find (\<lambda>q. name q = name p) cur = None \<longleftrightarrow> name p \<notin> set (map name cur)"
    by (auto simp: find_None_iff image_iff)
  show ?case
  proof (cases "name p \<in> set (map name cur)")
    case True
    then have "add_missing name ps cur = (all, added)" using Cons.prems found by (simp split: if_splits)
    from Cons.IH [OF this Cons.prems(2)] True show ?thesis by auto
  next
    case False
    obtain added' where a: "add_missing name ps (cur @ [p]) = (all, added')" "added = name p # added'"
      using Cons.prems False found by (auto split: prod.splits)
    have "distinct (map name (cur @ [p]))" using Cons.prems(2) False by (auto simp: image_iff)
    from Cons.IH [OF a(1) this] obtain more where
      m: "all = (cur @ [p]) @ more" "distinct (map name all)" "added' = map name more" "set more \<subseteq> set ps"
        "set (map name all) = set (map name (cur @ [p])) \<union> set (map name ps)" by blast
    show ?thesis
      by (rule exI [of _ "p # more"]) (use m a(2) in auto)
  qed
qed

lemma erase_first_named:
  "distinct (map name ps) \<Longrightarrow> erase_first (\<lambda>p. name p = n) ps = filter (\<lambda>p. name p \<noteq> n) ps"
proof (induction ps)
  case (Cons p ps)
  then have "filter (\<lambda>q. name q \<noteq> name p) ps = ps" by (auto simp: filter_id_conv image_iff)
  with Cons show ?case by auto
qed simp

lemma delete_named_filter:
  "distinct (map name ps) \<Longrightarrow> delete_named name ns ps = filter (\<lambda>p. name p \<notin> set ns) ps"
proof (induction ns arbitrary: ps)
  case (Cons n ns)
  have "distinct (map name (filter (\<lambda>p. name p \<noteq> n) ps))" using Cons.prems by (rule distinct_map_filter)
  with Cons show ?case by (auto simp: erase_first_named intro: filter_cong)
qed simp

lemma merged_names:
  assumes "add_missing name ps cur = (all, added)" "distinct (map name cur)"
    and "gone = names_gone old (map name ps)"
  shows "set (map name (delete_named name gone all)) = (set (map name cur) - set old) \<union> set (map name ps)"
    and "distinct (map name (delete_named name gone all))"
    and "set added = set (map name ps) - set (map name cur)" "distinct added"
    and "\<forall>p \<in> set cur. name p \<in> name ` set (delete_named name gone all) \<longrightarrow> p \<in> set (delete_named name gone all)"
proof -
  obtain more where m: "all = cur @ more" "distinct (map name all)" "added = map name more" "set more \<subseteq> set ps"
      "set (map name all) = set (map name cur) \<union> set (map name ps)"
    using add_missing_names [OF assms(1,2)] by blast
  have gone: "set gone = set old - set (map name ps)" by (auto simp: assms(3) names_gone_def)
  have f: "delete_named name gone all = filter (\<lambda>p. name p \<notin> set gone) all"
    using m(2) by (rule delete_named_filter)
  have img: "set (map name (filter (\<lambda>p. name p \<notin> set gone) all)) = set (map name all) - set gone" by auto
  show "set (map name (delete_named name gone all)) = (set (map name cur) - set old) \<union> set (map name ps)"
    unfolding f using img m(5) gone by auto
  show "distinct (map name (delete_named name gone all))"
    unfolding f using m(2) by (rule distinct_map_filter)
  have "name ` set cur \<inter> name ` set more = {}" using m(1,2) by auto
  then show "set added = set (map name ps) - set (map name cur)"
    using m(1,3,4,5) by auto
  show "distinct added" using m(1,2,3) by simp
  show "\<forall>p \<in> set cur. name p \<in> name ` set (delete_named name gone all) \<longrightarrow> p \<in> set (delete_named name gone all)"
    unfolding f using m(1) by auto
qed

lemma permission_names:
  "map ad_permissionName (GetPermissionDefList kit i) = map dp_name (GetAllDefinePermissions i)"
  "map ps_permissionName (GetPermissionStateFullList kit i) = map rp_name (GetAllRequestPermissions i)"
  by (simp_all add: GetPermissionDefList_def GetPermissionStateFullList_def ConvertDefinePermission_def)

text \<open>
  Updating the token of a bundle. The token is given one policy: it defines (and requests) exactly the
  permissions of the new version and those the token had that the old version did not name, each once;
  what the token had before and keeps is not changed. The permissions reported as new are the requested
  ones the token did not have.
\<close>

theorem updated_token_permissions:
  assumes "tk_GetDefPermissions kit (length cs) tok = Some defs" "distinct (map ad_permissionName defs)"
    and "tk_GetReqPermissions kit (length cs) tok False = Some usr" "tk_GetReqPermissions kit (length cs) tok True = Some sys"
    and "distinct (map ps_permissionName (usr @ sys))"
  shows "\<exists>policy added. Perm_UpdateDefineAndRequestPermissions kit tok old new cs =
      (tk_ret kit (length cs) (UpdateHapToken tok (bi_appId (ib_baseBundleInfo new)) policy) = tk_RET_SUCCESS kit, added,
       cs @ [UpdateHapToken tok (bi_appId (ib_baseBundleInfo new)) policy]) \<and>
    ad_permissionName ` set (hl_permList policy) =
      (ad_permissionName ` set defs - dp_name ` set (GetAllDefinePermissions old)) \<union> dp_name ` set (GetAllDefinePermissions new) \<and>
    ps_permissionName ` set (hl_permStateList policy) =
      (ps_permissionName ` set (usr @ sys) - rp_name ` set (GetAllRequestPermissions old)) \<union>
        rp_name ` set (GetAllRequestPermissions new) \<and>
    distinct (map ad_permissionName (hl_permList policy)) \<and> distinct (map ps_permissionName (hl_permStateList policy)) \<and>
    (\<forall>p \<in> set (usr @ sys). ps_permissionName p \<in> ps_permissionName ` set (hl_permStateList policy) \<longrightarrow>
       p \<in> set (hl_permStateList policy)) \<and>
    set added = rp_name ` set (GetAllRequestPermissions new) - ps_permissionName ` set (usr @ sys) \<and> distinct added"
proof -
  let ?dgone = "GetNeedDeleteDefinePermissionName old new" and ?rgone = "GetNeedDeleteRequestPermissionName old new"
  obtain defs1 dadded where d: "add_missing ad_permissionName (GetPermissionDefList kit new) defs = (defs1, dadded)" by fastforce
  obtain states1 added where r: "add_missing ps_permissionName (GetPermissionStateFullList kit new) (usr @ sys) = (states1, added)"
    by fastforce
  let ?states = "delete_named ps_permissionName ?rgone states1"
  let ?policy = "hap_policy kit (app_appPrivilegeLevel (ib_baseApplicationInfo new))
      (delete_named ad_permissionName ?dgone defs1) ?states"
  note dm = merged_names [OF d assms(2), of ?dgone "map dp_name (GetAllDefinePermissions old)"]
  note rm = merged_names [OF r assms(5), of ?rgone "map rp_name (GetAllRequestPermissions old)"]
  have dg: "?dgone = names_gone (map dp_name (GetAllDefinePermissions old)) (map ad_permissionName (GetPermissionDefList kit new))"
    by (simp only: GetNeedDeleteDefinePermissionName_def permission_names)
  have rg: "?rgone = names_gone (map rp_name (GetAllRequestPermissions old)) (map ps_permissionName (GetPermissionStateFullList kit new))"
    by (simp only: GetNeedDeleteRequestPermissionName_def permission_names)
  show ?thesis
  proof (intro exI [of _ ?policy] exI [of _ added] conjI ballI impI, goal_cases)
    case 1
    show ?case
      using assms d r by (simp add: Perm_UpdateDefineAndRequestPermissions_def GetNewPermissionDefList_def GetNewPermissionStateFull_def
          GetAllReqPermissionStateFull_def tk_do_def Let_def)
  next
    case 2
    show ?case using dm(1) [OF dg] unfolding permission_names set_map by (simp add: hap_policy_def)
  next
    case 3
    show ?case using rm(1) [OF rg] unfolding permission_names set_map by (simp add: hap_policy_def)
  next
    case 4
    show ?case using dm(2) [OF dg] by (simp add: hap_policy_def)
  next
    case 5
    show ?case using rm(2) [OF rg] by (simp add: hap_policy_def)
  next
    case (6 p)
    then show ?case using rm(5) [OF rg] by (auto simp: hap_policy_def)
  next
    case 7
    show ?case using rm(3) [OF rg] unfolding permission_names set_map .
  next
    case 8
    show ?case using rm(4) [OF rg] .
  qed
qed

theorem updated_token_permissions_witness:
  "\<exists>policy. snd (snd (Perm_UpdateDefineAndRequestPermissions demo_kit 5 new_InnerBundleInfo new_InnerBundleInfo [])) =
     [UpdateHapToken 5 [] policy] \<and> ad_permissionName ` set (hl_permList policy) = {''p.basic''}"
proof -
  have none: "GetAllDefinePermissions new_InnerBundleInfo = []" "bi_appId (ib_baseBundleInfo new_InnerBundleInfo) = []"
    by (simp_all add: GetAllDefinePermissions_def new_InnerBundleInfo_def new_BundleInfo_def)
  have "tk_GetDefPermissions demo_kit (length ([] :: token_call list)) 5 = Some [demo_permission]"
      "tk_GetReqPermissions demo_kit (length ([] :: token_call list)) 5 False = Some []"
      "tk_GetReqPermissions demo_kit (length ([] :: token_call list)) 5 True = Some []"
    by (simp_all add: demo_kit_def)
  from updated_token_permissions [OF this(1) _ this(2,3), of new_InnerBundleInfo new_InnerBundleInfo] none
  show ?thesis by (fastforce simp: demo_permission_def)
qed

end
