(* ===== verification/Bundle_Query_Correct.thy ===== *)
theory Bundle_Query_Correct
  imports Bundle_Query Bundle_Data_Mgr_Inv
begin

text \<open>
  What the queries guarantee: an implicit query finds exactly the visible, enabled abilities with a
  matching skill, in order of priority, and disabling an ability hides it from its user's queries.
\<close>

section \<open>Implicit queries\<close>

lemma match_skills_Some:
  "match_skills rx c w flags i v s a ks = Some b \<longleftrightarrow>
     (\<exists>k \<in> set ks. Match rx k w) \<and>
     \<not> (flags AND GET_ABILITY_INFO_WITH_DISABLE = 0 \<and> \<not> IsAbilityEnabled a (GetUserId c v s) i) \<and>
     b = ability_by_flags flags (ability_with_app flags v i a)"
  by (induction ks) auto

text \<open>The abilities of one bundle that a want matches.\<close>

definition ability_matched ::
  "regex_engine \<Rightarrow> int \<Rightarrow> want \<Rightarrow> u32 \<Rightarrow> inner_bundle_info \<Rightarrow> int \<Rightarrow> data_mgr \<Rightarrow> ability_info \<Rightarrow> bool" where
  "ability_matched rx c w flags i v s b \<longleftrightarrow>
     (has_flag flags GET_ABILITY_INFO_SYSTEMAPP_ONLY \<longrightarrow> IsSystemApp i) \<and>
     (\<exists>key a skills. (key, a) \<in> set (ib_baseAbilityInfos i) \<and> map_of (ib_skillInfos i) key = Some skills \<and>
        (\<exists>k \<in> set skills. Match rx k w) \<and>
        (flags AND GET_ABILITY_INFO_WITH_DISABLE = 0 \<longrightarrow> IsAbilityEnabled a (GetUserId c v s) i) \<and>
        b = ability_by_flags flags (ability_with_app flags v i a))"

lemma set_map_filter_iff: "y \<in> set (List.map_filter f xs) \<longleftrightarrow> (\<exists>x \<in> set xs. f x = Some y)"
  by (induction xs) (auto split: option.splits)

lemma GetMatchAbilityInfos_set:
  "set (GetMatchAbilityInfos rx c w flags i v s as) = set as \<union> {b. ability_matched rx c w flags i v s b}"
proof -
  let ?M = "List.map_filter (\<lambda>(key, a). case map_of (ib_skillInfos i) key of None \<Rightarrow> None
             | Some skills \<Rightarrow> match_skills rx c w flags i v s a skills) (ib_baseAbilityInfos i)"
  have "y \<in> set ?M \<longleftrightarrow>
      (\<exists>key a skills. (key, a) \<in> set (ib_baseAbilityInfos i) \<and> map_of (ib_skillInfos i) key = Some skills \<and>
         match_skills rx c w flags i v s a skills = Some y)" for y
    unfolding set_map_filter_iff by (force split: option.splits)
  then have M: "set ?M = {y. \<exists>key a skills. (key, a) \<in> set (ib_baseAbilityInfos i) \<and>
      map_of (ib_skillInfos i) key = Some skills \<and> match_skills rx c w flags i v s a skills = Some y}" by blast
  show ?thesis
  proof (cases "has_flag flags GET_ABILITY_INFO_SYSTEMAPP_ONLY \<and> \<not> IsSystemApp i")
    case True
    then show ?thesis by (auto simp: GetMatchAbilityInfos_def ability_matched_def)
  next
    case False
    then have "GetMatchAbilityInfos rx c w flags i v s as = as @ ?M" by (auto simp: GetMatchAbilityInfos_def)
    moreover have "set ?M = {b. ability_matched rx c w flags i v s b}"
      unfolding M ability_matched_def match_skills_Some using False by blast
    ultimately show ?thesis by simp
  qed
qed

definition visible_bundle :: "int \<Rightarrow> u32 \<Rightarrow> int \<Rightarrow> data_mgr \<Rightarrow> inner_bundle_info \<Rightarrow> bool" where
  "visible_bundle c flags v s i \<longleftrightarrow> (\<exists>n. map_of (dm_bundleInfos s) n = Some i) \<and> \<not> IsDisabled i \<and>
     (flags AND GET_APPLICATION_INFO_WITH_DISABLE = 0 \<longrightarrow> GetApplicationEnabled (GetResponseUserId v i) i)"

lemma with_flags_visible:
  assumes "GetUserId c v s = v" "v \<noteq> INVALID_USERID"
  shows "(\<exists>n \<in> fst ` set (dm_bundleInfos s). GetInnerBundleInfoWithFlags c n flags v s = Some i) \<longleftrightarrow>
    visible_bundle c flags v s i"
proof -
  have "GetInnerBundleInfoWithFlags c n flags v s = Some i \<longleftrightarrow>
      map_of (dm_bundleInfos s) n = Some i \<and> \<not> IsDisabled i \<and>
      (flags AND GET_APPLICATION_INFO_WITH_DISABLE = 0 \<longrightarrow> GetApplicationEnabled (GetResponseUserId v i) i)" for n
    using assms by (auto simp: GetInnerBundleInfoWithFlags_def Let_def split: option.splits if_splits)
  moreover have "n \<in> fst ` set (dm_bundleInfos s)" if "map_of (dm_bundleInfos s) n = Some i" for n
    using map_of_SomeD [OF that] by (rule rev_image_eqI) simp
  ultimately show ?thesis unfolding visible_bundle_def by blast
qed

lemma query_all_set:
  "set (foldl (\<lambda>as (n, _). case g n of None \<Rightarrow> as | Some i \<Rightarrow> GetMatchAbilityInfos rx c w flags i (r i) s as) as ps)
     = set as \<union> {b. \<exists>n \<in> fst ` set ps. \<exists>i. g n = Some i \<and> ability_matched rx c w flags i (r i) s b}"
proof (induction ps arbitrary: as)
  case (Cons p ps)
  then show ?case
    by (cases p) (auto simp: GetMatchAbilityInfos_set split: option.splits)
qed simp

text \<open>
  An implicit query over all bundles answers with exactly the abilities that have a skill matching
  the want, belong to a bundle that is enabled for the user, and are enabled themselves, unless the
  flags ask for disabled ones; the answer is in order of descending priority.
\<close>

theorem implicit_query_correct:
  assumes "ImplicitQueryAbilityInfos rx c w flags v s [] = Some found"
    and "want_bundleName w = []" "GetUserId c v s = v"
  shows "set found = {b. \<exists>i. visible_bundle c flags v s i \<and>
      ability_matched rx c w flags i (GetResponseUserId v i) s b} \<and>
    sorted (map (\<lambda>a. - ai_priority a) found)"
proof -
  have v: "v \<noteq> INVALID_USERID" using assms by (auto simp: ImplicitQueryAbilityInfos_def Let_def split: if_splits)
  have f: "found = sort_key (\<lambda>a. - ai_priority a) (foldl (\<lambda>as (name, _).
      case GetInnerBundleInfoWithFlags c name flags v s of
        None \<Rightarrow> as
      | Some i \<Rightarrow> GetMatchAbilityInfos rx c w flags i (GetResponseUserId v i) s as) [] (dm_bundleInfos s))"
    using assms by (auto simp: ImplicitQueryAbilityInfos_def Let_def split: if_splits)
  show ?thesis
    unfolding f set_sort query_all_set
    using with_flags_visible [OF assms(3) v] by (auto, blast+)
qed

section \<open>Explicit queries\<close>

definition disabled_unique :: "data_mgr \<Rightarrow> string \<Rightarrow> bool" where
  "disabled_unique s n \<longleftrightarrow> (\<forall>i. map_of (dm_bundleInfos s) n = Some i \<longrightarrow> disabled_distinct i)"

lemma sync_state_file_frame:
  "sync_state_file js n v i s = Some (r, s') \<Longrightarrow>
     dm_bundleInfos s' = dm_bundleInfos s \<and> dm_multiUserIdsSet s' = dm_multiUserIdsSet s"
  by (auto simp: sync_state_file_def split: prod.splits bool.splits option.splits if_splits)

lemma enable_ability_step:
  assumes "mgr_reachable s" "Mgr_SetAbilityEnabled js c a en v s = Some (True, s')"
    and "plain_user v" "v \<noteq> UNSPECIFIED_USERID"
  shows "\<exists>i i'. map_of (dm_bundleInfos s) (ai_bundleName a) = Some i \<and> GetBundleName i = ai_bundleName a \<and>
    SetAbilityEnabled (ai_bundleName a) (ai_moduleName a) (ai_name a) en v i = (True, i') \<and>
    map_of (dm_bundleInfos s') (ai_bundleName a) = Some i' \<and> (\<forall>c'. GetUserId c' v s' = v)"
proof -
  have v: "GetUserId c v s = v" "GetUserId c v s \<noteq> INVALID_USERID"
    using assms(2-4) by (auto simp: Mgr_SetAbilityEnabled_def GetUserId_def plain_user_def Let_def split: if_splits)
  obtain i where i: "map_of (dm_bundleInfos s) (ai_bundleName a) = Some i"
    using assms(2) v by (auto simp: Mgr_SetAbilityEnabled_def Let_def split: if_splits option.splits)
  obtain ok i' where e: "SetAbilityEnabled (ai_bundleName a) (ai_moduleName a) (ai_name a) en v i = (ok, i')"
    by (metis surj_pair)
  have ok: "ok" "sync_state_file js (ai_bundleName a) v i'
      (s\<lparr>dm_bundleInfos := sm_assign (ai_bundleName a) i' (dm_bundleInfos s)\<rparr>) = Some (True, s')"
    using assms(2) v i e by (cases ok; auto simp: Mgr_SetAbilityEnabled_def Let_def split: if_splits)+
  have fr: "map_of (dm_bundleInfos s') (ai_bundleName a) = Some i'" "dm_multiUserIdsSet s' = dm_multiUserIdsSet s"
    using sync_state_file_frame [OF ok(2)] by simp_all
  have "GetUserId c' v s' = v" for c'
    using v assms(3,4) fr(2) by (auto simp: GetUserId_def HasUserId_def plain_user_def Let_def split: if_splits)
  moreover have "GetBundleName i = ai_bundleName a"
    using mgr_reachable_inv [OF assms(1)] i by (auto simp: mgr_inv_def named_def)
  moreover have "SetAbilityEnabled (ai_bundleName a) (ai_moduleName a) (ai_name a) en v i = (True, i')"
    using e ok(1) by simp
  ultimately show ?thesis using i fr(1) by blast
qed

lemma enabled_user_present:
  assumes "SetAbilityEnabled n m x en v i = (True, i')" "plain_user v" "GetBundleName i = n"
  shows "HasInnerBundleUserInfo v i' \<and> GetBundleName i' = n \<and> GetResponseUserId v i' = v"
proof -
  have n: "GetBundleName i' = n" using GetBundleName_SetAbilityEnabled [OF assms(1)] assms(3) by simp
  have "map_of (ib_innerBundleUserInfos i') (NameAndUserIdToKey n v) \<noteq> None"
    using assms(1) by (auto simp: SetAbilityEnabled_def Let_def upd_user_info_def split: if_splits)
  then have h: "HasInnerBundleUserInfo v i'" using assms(2) n by (simp add: HasInnerBundleUserInfo_def plain_user_def)
  moreover have "ib_innerBundleUserInfos i' \<noteq> []" using h assms(2) by (auto simp: HasInnerBundleUserInfo_def plain_user_def)
  ultimately show ?thesis using n assms(2) by (auto simp: GetResponseUserId_def plain_user_def split: list.splits)
qed

text \<open>
  Disabling an ability for a user hides it: once \<open>SetAbilityEnabled\<close> has succeeded, an explicit
  query for it by that user that does not ask for disabled abilities answers that there is none,
  whatever the module name in the query.
\<close>

theorem disabled_ability_hidden:
  assumes "mgr_reachable s" "Mgr_SetAbilityEnabled js c a False v s = Some (True, s')"
    and "plain_user v" "v \<noteq> UNSPECIFIED_USERID" "disabled_unique s (ai_bundleName a)"
    and "flags AND GET_ABILITY_INFO_WITH_DISABLE = 0"
  shows "ExplicitQueryAbilityInfo c' (ai_bundleName a) m (ai_name a) flags v s' = None"
proof -
  let ?n = "ai_bundleName a"
  from enable_ability_step [OF assms(1-4)] obtain i i' where
    i: "map_of (dm_bundleInfos s) ?n = Some i" "GetBundleName i = ?n"
    and e: "SetAbilityEnabled ?n (ai_moduleName a) (ai_name a) False v i = (True, i')"
    and i': "map_of (dm_bundleInfos s') ?n = Some i'" and users: "GetUserId c' v s' = v" by blast
  have has: "HasInnerBundleUserInfo v i'" "GetBundleName i' = ?n" and r: "GetResponseUserId v i' = v"
    using enabled_user_present [OF e assms(3) i(2)] by auto
  have dd: "disabled_distinct i" using assms(5) i(1) by (simp add: disabled_unique_def)
  have off: "\<not> IsAbilityEnabled b v i'" if "ai_bundleName b = ?n" "ai_name b = ai_name a" for b
    using ability_enabled_after [OF dd assms(3) e, of b] that by simp
  show ?thesis
  proof (cases "FindAbilityInfo ?n m (ai_name a) v i'")
    case None
    then show ?thesis using users i' r by (auto simp: ExplicitQueryAbilityInfo_def GetInnerBundleInfoWithFlags_def Let_def)
  next
    case (Some b)
    then have "ai_bundleName b = ?n" "ai_name b = ai_name a"
      by (auto simp: FindAbilityInfo_def with_application_def ability_matches_def split: option.splits dest!: find_SomeD)
    from off [OF this] Some show ?thesis
      using users i' r assms(6) by (auto simp: ExplicitQueryAbilityInfo_def GetInnerBundleInfoWithFlags_def Let_def)
  qed
qed

definition view_want :: want where
  "view_want = \<lparr> want_bundleName = [], want_moduleName = [], want_abilityName = [], want_deviceId = [],
     want_action = ''view'', want_entities = [], want_uri = [], want_type = [] \<rparr>"

definition view_skill :: skill where
  "view_skill = \<lparr> sk_actions = [''view''], sk_entities = [], sk_uris = [] \<rparr>"

definition view_info :: inner_bundle_info where
  "view_info = sample_info\<lparr>ib_skillInfos := [(''com.demo.entry.Main'', [view_skill])]\<rparr>"

definition view_mgr :: data_mgr where
  "view_mgr = AddUserId 100 (snd (AddInnerBundleInfo kv_fine ''com.demo'' view_info
     (snd (UpdateBundleInstallState kv_fine ''com.demo'' INSTALL_START (new_BundleDataMgr [] (Some []))))))"

lemma sample_user_state: "bu_disabledAbilities (iu_bundleUserInfo (sample_user v)) = []"
  by (simp add: sample_user_def new_BundleUserInfo_def)

lemma view_info_fields:
  "GetBundleName view_info = ''com.demo''" "IsDisabled view_info = False"
  "ib_innerBundleUserInfos view_info = [(NameAndUserIdToKey ''com.demo'' 100, sample_user 100)]"
  "ib_baseAbilityInfos view_info = [(''com.demo.entry.Main'', sample_ability)]"
  "ib_skillInfos view_info = [(''com.demo.entry.Main'', [view_skill])]" "disabled_distinct view_info"
  by (simp_all add: view_info_def sample_info_users sample_info_abilities disabled_distinct_def sample_user_def
      new_InnerBundleUserInfo_def new_BundleUserInfo_def)
    (simp_all add: sample_info_def AddInnerBundleUserInfo_def GetBundleName_def IsDisabled_def new_InnerBundleInfo_def Let_def)

lemma view_mgr_fields:
  "dm_bundleInfos view_mgr = [(''com.demo'', view_info)]" "dm_multiUserIdsSet view_mgr = [100]"
  "dm_bundleState view_mgr = Some []"
  by (simp_all add: view_mgr_def AddInnerBundleInfo_def UpdateBundleInstallState_def new_BundleDataMgr_def
      save_and_set_def SaveStorageBundleInfo_def try_twice_def kv_fine_def sm_emplace_def view_info_fields
      AddUserId_def ss_insert_def)

lemma view_mgr_reachable: "mgr_reachable view_mgr"
  unfolding view_mgr_def
  by (rule mgr_reachable.step [OF mgr_reachable.step [OF mgr_reachable.step [OF mgr_reachable.start mgr_step.state]
        mgr_step.add] mgr_step.add_user_id]) (simp add: view_info_fields)

lemma view_mgr_user: "GetUserId c 100 view_mgr = 100"
  by (simp add: GetUserId_def HasUserId_def view_mgr_fields userid_defs Let_def)

lemma view_info_user: "GetResponseUserId 100 view_info = 100" "GetApplicationEnabled 100 view_info"
  by (simp_all add: GetResponseUserId_def HasInnerBundleUserInfo_def GetApplicationEnabled_def GetInnerBundleUserInfo_def
      view_info_fields userid_defs sample_user_def new_InnerBundleUserInfo_def new_BundleUserInfo_def)

theorem implicit_query_correct_witness:
  "ability_by_flags 0 (ability_with_app 0 100 view_info sample_ability)
     \<in> set (the (ImplicitQueryAbilityInfos (\<lambda>_ _. None) 0 view_want 0 100 view_mgr []))"
proof -
  obtain found where f: "ImplicitQueryAbilityInfos (\<lambda>_ _. None) 0 view_want 0 100 view_mgr [] = Some found"
    by (simp add: ImplicitQueryAbilityInfos_def view_mgr_user view_mgr_fields want_is_empty_def view_want_def userid_defs Let_def)
  have v: "visible_bundle 0 0 100 view_mgr view_info"
    by (auto simp: visible_bundle_def view_mgr_fields view_info_fields view_info_user)
  have "Match (\<lambda>_ _. None) view_skill view_want"
    by (simp add: Match_def MatchAction_def MatchEntities_def MatchUriAndType_def view_skill_def view_want_def)
  moreover have "IsAbilityEnabled sample_ability 100 view_info"
    by (simp add: IsAbilityEnabled_def view_info_fields sample_ability_def sample_user_def new_InnerBundleUserInfo_def
        new_BundleUserInfo_def userid_defs)
  moreover have "\<not> has_flag 0 GET_ABILITY_INFO_SYSTEMAPP_ONLY" by (simp add: has_flag_def GET_ABILITY_INFO_SYSTEMAPP_ONLY_def)
  ultimately have m: "ability_matched (\<lambda>_ _. None) 0 view_want 0 view_info (GetResponseUserId 100 view_info) view_mgr
      (ability_by_flags 0 (ability_with_app 0 100 view_info sample_ability))"
    by (auto simp: ability_matched_def view_info_fields view_mgr_user view_info_user)
  have "set found = {b. \<exists>i. visible_bundle 0 0 100 view_mgr i \<and>
      ability_matched (\<lambda>_ _. None) 0 view_want 0 i (GetResponseUserId 100 i) view_mgr b}"
    using implicit_query_correct [OF f _ view_mgr_user] by (simp add: view_want_def)
  then have "ability_by_flags 0 (ability_with_app 0 100 view_info sample_ability) \<in> set found" using v m by blast
  then show ?thesis by (simp only: f option.sel)
qed

theorem disabled_ability_hidden_witness:
  "\<exists>s'. Mgr_SetAbilityEnabled sample_codec 0 sample_ability False 100 view_mgr = Some (True, s') \<and>
     ExplicitQueryAbilityInfo 0 ''com.demo'' [] ''Main'' 0 100 s' = None"
proof -
  have a: "ai_bundleName sample_ability = ''com.demo''" "ai_name sample_ability = ''Main''" "ai_moduleName sample_ability = ''entry''"
    by (simp_all add: sample_ability_def)
  have "\<exists>s'. Mgr_SetAbilityEnabled sample_codec 0 sample_ability False 100 view_mgr = Some (True, s')"
    by (simp add: Mgr_SetAbilityEnabled_def view_mgr_user view_mgr_fields a userid_defs Let_def SetAbilityEnabled_def
        view_info_fields ability_matches_def sync_state_file_def GetInnerBundleUserInfo_def GetBundleName_user_ops
        upd_user_info_def set_disabled_def IsInitialState_def SaveBundleStateStorage_def sample_user_state)
  then obtain s' where s': "Mgr_SetAbilityEnabled sample_codec 0 sample_ability False 100 view_mgr = Some (True, s')" by blast
  have "disabled_unique view_mgr (ai_bundleName sample_ability)"
    by (simp add: disabled_unique_def view_mgr_fields a view_info_fields)
  from disabled_ability_hidden [OF view_mgr_reachable s' _ _ this, of 0 0 "[]"] s' show ?thesis
    by (simp add: plain_user_def userid_defs a)
qed

end
