(* ===== verification/Host_Impl_Correct.thy ===== *)
theory Host_Impl_Correct
  imports Host_Impl Ipc_Calls Bundle_Data_Mgr_Inv Bundle_Clone_Correct Bundle_Permission_Correct Bundle_Query_Correct
begin

text \<open>
  What holds of the bundle manager service however clients call it. The locale \<open>request_relation\<close> states which
  operations of the service can change its state; every remote request respects a relation that they respect.
\<close>

section \<open>What a handler does to the state\<close>

definition ends_in :: "('s \<Rightarrow> bool) \<Rightarrow> (parcel \<Rightarrow> (int \<times> parcel \<times> 's) option) \<Rightarrow> bool" where
  "ends_in P f \<longleftrightarrow> (\<forall>data r p s. f data = Some (r, p, s) \<longrightarrow> P s)"





lemma reply_state: "reply h cap err xs s = Some (r, p, s') \<Longrightarrow> s' = s"
  by (auto simp: reply_def split: option.splits)

lemma ends_reply: "P s \<Longrightarrow> ends_in P (\<lambda>_. reply h cap err xs s)"
  by (auto simp: ends_in_def dest: reply_state)







section \<open>Requests respect what the operations respect\<close>


section \<open>The data manager stays reachable\<close>





lemma report_frame [simp]: "b_dm (report r s) = b_dm s" "b_dm (notify n a c t u s) = b_dm s"
  by (simp_all add: report_def notify_def)















section \<open>A service for the examples\<close>

text \<open>One bundle, installed for user 100; callers that hold the permissions in a list.\<close>

definition demo_started :: bundle_service where
  "demo_started = \<lparr>b_dm = view_mgr, b_sandbox = \<lparr>sx_appInfos = [], sx_appIndexMap = []\<rparr>,
     b_cloneInfo = new_InnerBundleInfo, b_cloneBundleName = [], b_calls = [], cs_cloneFile = Some [], cs_allowFile = None,
     bs_hasDataMgr = True, bs_hasSandboxMgr = True, bs_hasCloneMgr = True, bs_hasConnectMgr = True, bs_tokenCalls = [],
     bs_callbacks = [(''com.other'', 3), (''com.demo'', 4)], bs_notified = [], bs_reports = [], bs_tasks = [], bs_finished = [],
     bs_died = False\<rparr>"

definition demo_caller :: "int \<Rightarrow> string list \<Rightarrow> impl_env" where
  "demo_caller uid permissions = \<lparr>ie_clone = clone_demo_env,
     ie_kit = demo_kit\<lparr>tk_VerifyAccessToken := (\<lambda>_ _ n. if n \<in> set permissions then 0 else -1)\<rparr>,
     ie_callingUid = uid, ie_callerToken = 5, ie_rx = (\<lambda>_ _. Some False), ie_activeUser = 100, ie_string = (\<lambda>_ _. None),
     ie_icon = (\<lambda>_ _. None), ie_resConfig = (\<lambda>_. None), ie_parse = (\<lambda>_. None), ie_checkPath = Inr,
     ie_distributed = (\<lambda>_ _. None), ie_connect = (\<lambda>_ _ _ _. None), ie_installer = None, ie_userMgr = None,
     ie_cachePath = (\<lambda>_. None), ie_cleanDir = (\<lambda>_. ERR_OK)\<rparr>"

definition demo_served :: "impl_env \<Rightarrow> bundle_service bundle_mgr_host" where
  "demo_served e = \<lparr>ho_service = bundle_mgr_of e, ho_json = \<lparr>jc_dump = (\<lambda>_. ''{}''), jc_parse = (\<lambda>_. Some JNull)\<rparr>,
     ho_room = (\<lambda>_ _ _. True), ho_iface_cast = Some, ho_ashmem = (\<lambda>_. True),
     ho_after = (\<lambda>_. replicate 16 (CHR ''x'')), ho_default = (\<lambda>_ _. (UNKNOWN_ERROR, []))\<rparr>"

lemma demo_served_service [simp]: "ho_service (demo_served e) = bundle_mgr_of e"
  by (simp add: demo_served_def)

abbreviation demo_manager :: impl_env where
  "demo_manager \<equiv> demo_caller 20010010 [PERMISSION_CHANGE_ABILITY_ENABLED_STATE]"

lemma demo_disable:
  "\<exists>s'. Impl_SetApplicationEnabled demo_manager ''com.demo'' False 100 demo_started = Some (True, s')"
proof -
  have u: "calling_user e 100 = 100" for e by (simp add: calling_user_def userid_defs)
  have p: "Impl_VerifyCallingPermission demo_manager PERMISSION_CHANGE_ABILITY_ENABLED_STATE demo_started"
    by (simp add: Impl_VerifyCallingPermission_def VerifyCallingPermission_def demo_caller_def demo_kit_def)
  let ?i = "SetApplicationEnabled False 100 view_info"
  have i: "GetInnerBundleUserInfo 100 out ?i =
      (True, (sample_user 100)\<lparr>iu_bundleUserInfo := (iu_bundleUserInfo (sample_user 100))\<lparr>bu_enabled := False\<rparr>\<rparr>)" "\<not> IsDisabled ?i" for out
    by (simp_all add: SetApplicationEnabled_def GetInnerBundleUserInfo_def view_info_fields upd_user_info_def sm_update_def
        userid_defs GetBundleName_user_ops IsDisabled_def)
      (use view_info_fields(1,2) in \<open>simp_all add: GetBundleName_def IsDisabled_def\<close>)
  have js: "env_js (inst demo_manager) = sample_codec" by (simp add: demo_caller_def clone_demo_env_def)
  obtain d where d: "Mgr_SetApplicationEnabled sample_codec (ie_callingUid demo_manager) ''com.demo'' False 100 view_mgr = Some (True, d)"
      and infos: "dm_bundleInfos d = [(''com.demo'', ?i)]" "dm_multiUserIdsSet d = [100]"
    by (auto simp: Mgr_SetApplicationEnabled_def view_mgr_user view_mgr_fields userid_defs i sync_state_file_def IsInitialState_def
        SaveBundleStateStorage_def Let_def)
  have "GetUserId c 100 d = 100" for c by (simp add: GetUserId_def HasUserId_def infos userid_defs Let_def)
  then have "Impl_GetBundleUserInfo e ''com.demo'' 100 (report r (demo_started\<lparr>b_dm := d\<rparr>)) \<noteq> None" for e r
    by (simp add: Impl_GetBundleUserInfo_def from_mgr_def report_def demo_started_def GetInnerBundleUserInfoByUserId_def i infos
        userid_defs)
  then show ?thesis using p d
    by (simp add: Impl_SetApplicationEnabled_def u js Let_def finish_enable_def demo_started_def report_def split: option.splits)
qed




section \<open>Callers without permissions\<close>

text \<open>
  A caller without any permission whose uid belongs to no bundle. \<open>guarded_queries\<close> are the messages that ask for
  a permission before they answer, \<open>unguarded_changes\<close> those that change or end the service without one.
\<close>

definition unprivileged :: "impl_env \<Rightarrow> bundle_service \<Rightarrow> bool" where
  "unprivileged e s \<longleftrightarrow>
     (\<forall>permission. \<not> Impl_VerifyCallingPermission e permission s) \<and> Impl_GetBundleNameForUid (ie_callingUid e) s = None"



lemma unprivileged_query [simp]: "unprivileged e s \<Longrightarrow> \<not> VerifyQueryPermission e n s"
  by (simp add: unprivileged_def VerifyQueryPermission_def)

lemma unprivileged_call [simp]: "unprivileged e s \<Longrightarrow> \<not> Impl_VerifyCallingPermission e p s"
  by (simp add: unprivileged_def)






















section \<open>Enabling an application, end to end\<close>

lemma sm_update_Nil [simp]: "sm_update k f m = [] \<longleftrightarrow> m = []"
  by (simp add: sm_update_def)

lemma SetApplicationEnabled_read:
  assumes "0 \<le> u" "fst (GetInnerBundleUserInfo u out (SetApplicationEnabled v u i))"
  shows "GetApplicationEnabled u (SetApplicationEnabled v u i) = v" "GetResponseUserId u (SetApplicationEnabled v u i) = u"
proof -
  have u: "u \<noteq> NOT_EXIST_USERID" "u \<noteq> ALL_USERID" "u \<noteq> ANY_USERID" using assms(1) by (simp_all add: userid_defs)
  have "map_of (ib_innerBundleUserInfos i) (NameAndUserIdToKey (GetBundleName i) u) \<noteq> None"
    using assms(2) u by (auto simp: GetInnerBundleUserInfo_def SetApplicationEnabled_def Let_def split: option.splits if_splits)
  then show "GetApplicationEnabled u (SetApplicationEnabled v u i) = v" "GetResponseUserId u (SetApplicationEnabled v u i) = u"
    using u by (auto simp: GetApplicationEnabled_def SetApplicationEnabled_def GetInnerBundleUserInfo_def GetResponseUserId_def
        HasInnerBundleUserInfo_def upd_user_info_def Let_def split: list.splits option.splits)
qed

lemma SetApplicationEnabled_success:
  assumes "Impl_SetApplicationEnabled e n v u s = Some (True, s')" "0 \<le> u"
  shows "Impl_VerifyCallingPermission e PERMISSION_CHANGE_ABILITY_ENABLED_STATE s \<and> bs_hasDataMgr s \<and> HasUserId u (b_dm s) \<and>
    (\<exists>i. map_of (dm_bundleInfos (b_dm s)) n = Some i \<and>
       fst (GetInnerBundleUserInfo u new_InnerBundleUserInfo (SetApplicationEnabled v u i)) \<and>
       dm_bundleInfos (b_dm s') = sm_assign n (SetApplicationEnabled v u i) (dm_bundleInfos (b_dm s)) \<and>
       dm_multiUserIdsSet (b_dm s') = dm_multiUserIdsSet (b_dm s) \<and> bs_hasDataMgr s' \<and>
       bs_callbacks s' = bs_callbacks s \<and>
       bs_notified s' = bs_notified s @ NotifyBundleStatus n [] 0 APPLICATION_ENABLE
         (iu_uid (snd (GetInnerBundleUserInfo u new_InnerBundleUserInfo (SetApplicationEnabled v u i)))) (bs_callbacks s))"
proof -
  have u: "u \<noteq> UNSPECIFIED_USERID" "u \<noteq> ALL_USERID" "u \<noteq> ANY_USERID" "u \<noteq> INVALID_USERID"
    using assms(2) by (simp_all add: userid_defs)
  then have c: "calling_user e u = u" by (simp add: calling_user_def)
  from assms(1) c obtain d where p: "Impl_VerifyCallingPermission e PERMISSION_CHANGE_ABILITY_ENABLED_STATE s" "bs_hasDataMgr s"
      and d: "Mgr_SetApplicationEnabled (env_js (inst e)) (ie_callingUid e) n v u (b_dm s) = Some (True, d)"
      and f: "finish_enable e n [] u v (s\<lparr>b_dm := d\<rparr>) = (True, s')"
    by (auto simp: Impl_SetApplicationEnabled_def Let_def split: if_splits option.splits prod.splits)
  have U: "HasUserId u (b_dm s)"
  proof (rule ccontr)
    assume "\<not> HasUserId u (b_dm s)"
    with u d show False by (simp add: Mgr_SetApplicationEnabled_def GetUserId_def split: if_splits)
  qed
  then have g: "GetUserId k u (b_dm s) = u" for k using u by (simp add: GetUserId_def)
  obtain i where i: "map_of (dm_bundleInfos (b_dm s)) n = Some i" "n \<noteq> []"
    and sync: "sync_state_file (env_js (inst e)) n u (SetApplicationEnabled v u i)
        (b_dm s\<lparr>dm_bundleInfos := sm_assign n (SetApplicationEnabled v u i) (dm_bundleInfos (b_dm s))\<rparr>) = Some (True, d)"
    using d u by (auto simp: Mgr_SetApplicationEnabled_def g Let_def split: if_splits option.splits)
  have has: "fst (GetInnerBundleUserInfo u new_InnerBundleUserInfo (SetApplicationEnabled v u i))"
    and infos: "dm_bundleInfos d = sm_assign n (SetApplicationEnabled v u i) (dm_bundleInfos (b_dm s))"
      "dm_multiUserIdsSet d = dm_multiUserIdsSet (b_dm s)"
    using sync by (auto simp: sync_state_file_def split: prod.splits bool.splits option.splits)
  have g': "GetUserId k u d = u" for k using U u infos(2) by (simp add: GetUserId_def HasUserId_def)
  obtain w where w: "GetInnerBundleUserInfo u new_InnerBundleUserInfo (SetApplicationEnabled v u i) = (True, w)"
    using has by (cases "GetInnerBundleUserInfo u new_InnerBundleUserInfo (SetApplicationEnabled v u i)") simp
  have "s' = notify n [] 0 APPLICATION_ENABLE (iu_uid w)
      (report (ComponentStateReport n [] u v False) (s\<lparr>b_dm := d\<rparr>))"
    using f i w u infos
    by (auto simp: finish_enable_def Let_def Impl_GetBundleUserInfo_def from_mgr_def GetInnerBundleUserInfoByUserId_def g'
        split: option.splits if_splits)
  then show ?thesis using p U i has infos w by (auto simp: notify_def report_def)
qed


text \<open>
  When a client enables or disables an application for a user through the proxy and is told it succeeded, the
  caller held the permission to do so; every client of that user that asks afterwards through the proxy, whatever
  its permissions, is told the new state; each callback registered for the bundle is notified once, in the order
  of registration, and no other one, and one event of a changed package is published; and no other bundle has
  changed.
\<close>

theorem enabling_over_ipc:
  assumes "ho_service h = bundle_mgr_of e" "0 \<le> u"
    and "Proxy_SetApplicationEnabled (client_of (wide h)) n v u s = Some (True, s')"
  shows "Impl_VerifyCallingPermission e PERMISSION_CHANGE_ABILITY_ENABLED_STATE s \<and>
    (\<forall>h' e'. ho_service h' = bundle_mgr_of e' \<longrightarrow> GetUserIdByUid (ie_callingUid e') = u \<longrightarrow>
       Proxy_IsApplicationEnabled (client_of (wide h')) n s' = Some (v, s')) \<and>
    (\<exists>uid. bs_notified s' = bs_notified s @
       map (\<lambda>c. OnBundleStateChanged c 0 0 n) (map snd (filter (\<lambda>(b, _). b = n) (bs_callbacks s))) @
       [PublishCommonEvent PACKAGE_CHANGED n [] uid (GetUserIdByUid uid)]) \<and>
    (\<forall>k. k \<noteq> n \<longrightarrow> map_of (dm_bundleInfos (b_dm s')) k = map_of (dm_bundleInfos (b_dm s)) k)"
proof -
  have n: "n \<noteq> []" and set: "or_dies False (Impl_SetApplicationEnabled e n v u s) s = (True, s')"
    using assms(1,3)
    by (simp_all add: wide.SetApplicationEnabled_link bundle_mgr_of_def del: One_nat_def split: if_splits)
  then have "Impl_SetApplicationEnabled e n v u s = Some (True, s')" by (simp add: or_dies_def split: option.splits)
  from SetApplicationEnabled_success [OF this assms(2)] obtain i where
    perm: "Impl_VerifyCallingPermission e PERMISSION_CHANGE_ABILITY_ENABLED_STATE s" and user: "HasUserId u (b_dm s)"
    and has: "fst (GetInnerBundleUserInfo u new_InnerBundleUserInfo (SetApplicationEnabled v u i))"
    and infos: "dm_bundleInfos (b_dm s') = sm_assign n (SetApplicationEnabled v u i) (dm_bundleInfos (b_dm s))"
      "dm_multiUserIdsSet (b_dm s') = dm_multiUserIdsSet (b_dm s)" and mgr: "bs_hasDataMgr s'"
    and notified: "bs_notified s' = bs_notified s @ NotifyBundleStatus n [] 0 APPLICATION_ENABLE
         (iu_uid (snd (GetInnerBundleUserInfo u new_InnerBundleUserInfo (SetApplicationEnabled v u i)))) (bs_callbacks s)"
    by blast
  have "IsApplicationEnabled c n (b_dm s') = v" if "GetUserIdByUid c = u" for c
  proof -
    have "GetUserId c UNSPECIFIED_USERID (b_dm s') = u"
      using user that infos(2) by (simp add: GetUserId_def HasUserId_def userid_defs)
    then show ?thesis using n infos(1) SetApplicationEnabled_read [OF assms(2) has] by (simp add: IsApplicationEnabled_def)
  qed
  then have "Proxy_IsApplicationEnabled (client_of (wide h')) n s' = Some (v, s')"
    if "ho_service h' = bundle_mgr_of e'" "GetUserIdByUid (ie_callingUid e') = u" for h' e'
    using that n mgr
    by (simp add: wide.IsApplicationEnabled_link bundle_mgr_of_def Impl_IsApplicationEnabled_def from_mgr_def del: One_nat_def)
  moreover have "map (\<lambda>(_, x). f x) l = map f (map snd l)" for f :: "nat \<Rightarrow> notification" and l :: callback_list
    by (simp add: split_beta)
  ultimately show ?thesis using perm infos(1) notified by (auto simp: NotifyBundleStatus_def install_type_def event_data_def)
qed


theorem enabling_over_ipc_witness:
  "\<exists>s'. Proxy_SetApplicationEnabled (client_of (wide (demo_served demo_manager))) ''com.demo'' False 100 demo_started =
       Some (True, s') \<and>
     Proxy_IsApplicationEnabled (client_of (wide (demo_served (demo_caller 20010077 [])))) ''com.demo'' s' = Some (False, s') \<and>
     OnBundleStateChanged 4 0 0 ''com.demo'' \<in> set (bs_notified s')"
proof -
  obtain s' where "Impl_SetApplicationEnabled demo_manager ''com.demo'' False 100 demo_started = Some (True, s')"
    using demo_disable by blast
  then have s': "Proxy_SetApplicationEnabled (client_of (wide (demo_served demo_manager))) ''com.demo'' False 100 demo_started =
      Some (True, s')"
    by (simp add: wide.SetApplicationEnabled_link bundle_mgr_of_def or_dies_def del: One_nat_def)
  have "GetUserIdByUid (ie_callingUid (demo_caller 20010077 [])) = 100"
    by (simp add: demo_caller_def GetUserIdByUid_def INVALID_UID_def BASE_USER_RANGE_def)
  with enabling_over_ipc [OF demo_served_service _ s'] s' show ?thesis by (auto simp: demo_started_def)
qed






end
