(* ===== verification/Install_Checks.thy ===== *)
theory Install_Checks
  imports Install_World
begin

text \<open>
  The checks of \<open>BaseBundleInstaller\<close> (\<open>base_bundle_installer.cpp\<close>) before anything is changed: system
  capabilities, signatures, parsing, hash parameters, labels, versions and URI prefixes. Reading a
  package, verifying its signature and measuring the disk are the environment's. The hash map from
  paths to informations is a list in the order of its iteration; it is only filled once.
\<close>

section \<open>System capabilities and signatures\<close>

fun check_syscaps :: "install_env \<Rightarrow> string list \<Rightarrow> err_code" where
  "check_syscaps e [] = ERR_OK"
| "check_syscaps e (path # paths) =
     (case env_sysCaps e path of
        Inl r \<Rightarrow> r
      | Inr caps \<Rightarrow>
          if list_all (env_hasSysCap e) caps then check_syscaps e paths
          else ERR_APPEXECFWK_INSTALL_CHECK_SYSCAP_FAILED)"

definition CheckSysCap :: "install_env \<Rightarrow> string list \<Rightarrow> err_code" where
  "CheckSysCap e paths = (if paths = [] then ERR_APPEXECFWK_INSTALL_PARAM_ERROR else check_syscaps e paths)"

fun verify_haps :: "install_env \<Rightarrow> string list \<Rightarrow> err_code + provision_info list" where
  "verify_haps e [] = Inr []"
| "verify_haps e (path # paths) =
     (case env_verify e path of
        Inl r \<Rightarrow> Inl r
      | Inr p \<Rightarrow> (case verify_haps e paths of Inl r \<Rightarrow> Inl r | Inr ps \<Rightarrow> Inr (p # ps)))"

definition CheckMultipleHapsSignInfo :: "install_env \<Rightarrow> string list \<Rightarrow> err_code + provision_info list" where
  "CheckMultipleHapsSignInfo e paths =
     (if paths = [] then Inl ERR_APPEXECFWK_INSTALL_PARAM_ERROR
      else (case verify_haps e paths of
              Inl r \<Rightarrow> Inl r
            | Inr [] \<Rightarrow> Inl ERR_APPEXECFWK_INSTALL_FAILED_INCOMPATIBLE_SIGNATURE
            | Inr (p # ps) \<Rightarrow>
                if list_ex (\<lambda>q. pv_appId p \<noteq> pv_appId q) (p # ps)
                then Inl ERR_APPEXECFWK_INSTALL_FAILED_INCONSISTENT_SIGNATURE
                else if list_ex (\<lambda>q. pv_apl p \<noteq> pv_apl q) (p # ps)
                then Inl ERR_APPEXECFWK_INSTALL_FAILED_INCONSISTENT_SIGNATURE
                else Inr (p # ps)))"

section \<open>Parsing\<close>

definition HOS_SYSTEM_APP :: string where "HOS_SYSTEM_APP = ''hos_system_app''"
definition OHOS_SYSTEM_APP :: string where "OHOS_SYSTEM_APP = ''ohos_system_app''"

definition ParseBundleInfo ::
  "install_env \<Rightarrow> string \<Rightarrow> inner_bundle_info \<Rightarrow> bundle_pack_info \<Rightarrow> err_code + inner_bundle_info \<times> bundle_pack_info" where
  "ParseBundleInfo e path i pack =
     (case env_parse e path i of
        Inl r \<Rightarrow> Inl r
      | Inr i1 \<Rightarrow>
          if bp_isValid pack then Inr (i1, pack)
          else (case env_parsePack e path of
                  Inl r \<Rightarrow> Inl r
                | Inr pack1 \<Rightarrow> Inr (i1\<lparr>ib_bundlePackInfo := pack1\<rparr>, pack1\<lparr>bp_isValid := True\<rparr>)))"

definition SetEntryInstallationFree :: "bundle_pack_info \<Rightarrow> inner_bundle_info \<Rightarrow> inner_bundle_info" where
  "SetEntryInstallationFree pack i =
     (if \<not> bp_isValid pack then i
      else SetEntryInstallationFree_info
        (list_ex (\<lambda>m. mdi_moduleType (pm_distro m) = ''entry'' \<and> mdi_installationFree (pm_distro m))
           (sum_modules (bp_summary pack))) i)"

definition CheckSystemSize :: "install_env \<Rightarrow> string \<Rightarrow> app_type \<Rightarrow> err_code" where
  "CheckSystemSize e path appType =
     (if env_space e path appType then ERR_OK else ERR_APPEXECFWK_INSTALL_DISK_MEM_INSUFFICIENT)"

text \<open>What the signature of a package says is written into its information.\<close>

definition set_provision :: "provision_info \<Rightarrow> inner_bundle_info \<Rightarrow> inner_bundle_info" where
  "set_provision p i =
     SetCertificateFingerprint (pv_fingerprint p)
       ((SetAppPrivilegeLevel (pv_apl p) ((SetProvisionId (pv_appId p) i)\<lparr>ib_appFeature := pv_appFeature p\<rparr>))
          \<lparr>ib_allowedAcls := pv_allowedAcls p\<rparr>)"

definition new_package :: "install_param \<Rightarrow> app_type \<Rightarrow> provision_info \<Rightarrow> inner_bundle_info" where
  "new_package param appType p =
     SetIsPreInstallApp (ip_isPreInstallApp param)
       ((if pv_appFeature p = HOS_SYSTEM_APP \<or> pv_appFeature p = OHOS_SYSTEM_APP
         then SetAppType AppType_SYSTEM_APP (SetAppType appType new_InnerBundleInfo)
         else SetAppType appType new_InnerBundleInfo)\<lparr>ib_userId := ip_userId param\<rparr>)"

text \<open>The loop of \<open>ParseHapFiles\<close>; \<open>entry\<close> is \<open>isContainEntry_\<close>.\<close>

fun parse_haps ::
  "install_env \<Rightarrow> install_param \<Rightarrow> app_type \<Rightarrow> (string \<times> provision_info) list \<Rightarrow> bundle_pack_info \<Rightarrow> bool
     \<Rightarrow> (string, inner_bundle_info) smap \<Rightarrow> (err_code + (string, inner_bundle_info) smap) \<times> bool" where
  "parse_haps e param appType [] pack entry infos = (Inr infos, entry)"
| "parse_haps e param appType ((path, p) # haps) pack entry infos =
     (case ParseBundleInfo e path (new_package param appType p) pack of
        Inl r \<Rightarrow> (Inl r, entry)
      | Inr (i, pack1) \<Rightarrow>
          if HasEntry i \<and> entry then (Inl ERR_APPEXECFWK_INSTALL_INVALID_NUMBER_OF_ENTRY_HAP, entry)
          else (let i1 = set_provision p (SetEntryInstallationFree pack1 i);
                    r = CheckSystemSize e path appType; entry1 = (entry \<or> HasEntry i)
                in if r \<noteq> ERR_OK then (Inl r, entry1)
                   else parse_haps e param appType haps pack1 entry1 (sm_emplace path i1 infos)))"

definition ParseHapFiles ::
  "install_env \<Rightarrow> string list \<Rightarrow> install_param \<Rightarrow> app_type \<Rightarrow> provision_info list \<Rightarrow> bool
     \<Rightarrow> (err_code + (string, inner_bundle_info) smap) \<times> bool" where
  "ParseHapFiles e paths param appType provs entry = parse_haps e param appType (zip paths provs) new_BundlePackInfo entry []"

section \<open>Hash parameters\<close>

fun check_hashes ::
  "(string \<times> inner_bundle_info) list \<Rightarrow> string list \<Rightarrow> (string, string) smap
     \<Rightarrow> err_code + (string \<times> inner_bundle_info) list \<times> (string, string) smap" where
  "check_hashes [] names hashes = Inr ([], hashes)"
| "check_hashes ((path, i) # infos) names hashes =
     (case GetModuleNames i of
        [] \<Rightarrow> Inl ERR_APPEXECFWK_INSTALL_FAILED_MODULE_NAME_EMPTY
      | m # _ \<Rightarrow>
          if m \<in> set names then Inl ERR_APPEXECFWK_INSTALL_FAILED_MODULE_NAME_DUPLICATE
          else (let (i1, hashes1) = (case map_of hashes m of
                                       None \<Rightarrow> (i, hashes)
                                     | Some h \<Rightarrow> (SetModuleHashValue h i, sm_erase m hashes))
                in case check_hashes infos (names @ [m]) hashes1 of
                     Inl r \<Rightarrow> Inl r
                   | Inr (infos1, rest) \<Rightarrow> Inr ((path, i1) # infos1, rest)))"

definition CheckHapHashParams ::
  "(string \<times> inner_bundle_info) list \<Rightarrow> (string, string) smap \<Rightarrow> err_code + (string \<times> inner_bundle_info) list" where
  "CheckHapHashParams infos hashes =
     (if hashes = [] then Inr infos
      else (case check_hashes infos [] hashes of
              Inl r \<Rightarrow> Inl r
            | Inr (infos1, rest) \<Rightarrow>
                if rest \<noteq> [] then Inl ERR_APPEXECFWK_INSTALL_FAILED_CHECK_HAP_HASH_PARAM else Inr infos1))"

section \<open>Labels and versions\<close>

text \<open>The body of the loop of \<open>CheckAppLabelInfo\<close>, against the first package.\<close>

definition same_label :: "inner_bundle_info \<Rightarrow> inner_bundle_info \<Rightarrow> err_code" where
  "same_label f i =
     (let a = ib_baseBundleInfo f; b = ib_baseBundleInfo i in
      if GetBundleName f \<noteq> GetBundleName i then ERR_APPEXECFWK_INSTALL_BUNDLENAME_NOT_SAME
      else if bi_versionCode a \<noteq> bi_versionCode b then ERR_APPEXECFWK_INSTALL_VERSIONCODE_NOT_SAME
      else if bi_versionName a \<noteq> bi_versionName b then ERR_APPEXECFWK_INSTALL_VERSIONNAME_NOT_SAME
      else if bi_minCompatibleVersionCode a \<noteq> bi_minCompatibleVersionCode b
        then ERR_APPEXECFWK_INSTALL_MINCOMPATIBLE_VERSIONCODE_NOT_SAME
      else if bi_vendor a \<noteq> bi_vendor b then ERR_APPEXECFWK_INSTALL_VENDOR_NOT_SAME
      else if bi_targetVersion a \<noteq> bi_targetVersion b then ERR_APPEXECFWK_INSTALL_RELEASETYPE_TARGET_NOT_SAME
      else if bi_compatibleVersion a \<noteq> bi_compatibleVersion b then ERR_APPEXECFWK_INSTALL_RELEASETYPE_COMPATIBLE_NOT_SAME
      else if bi_releaseType a \<noteq> bi_releaseType b then ERR_APPEXECFWK_INSTALL_RELEASETYPE_NOT_SAME
      else if IsSingleton f \<noteq> IsSingleton i then ERR_APPEXECFWK_INSTALL_SINGLETON_NOT_SAME
      else if ib_appType f \<noteq> ib_appType i then ERR_APPEXECFWK_INSTALL_APPTYPE_NOT_SAME
      else ERR_OK)"

fun first_error :: "('a \<Rightarrow> err_code) \<Rightarrow> 'a list \<Rightarrow> err_code" where
  "first_error f [] = ERR_OK"
| "first_error f (x # xs) = (if f x \<noteq> ERR_OK then f x else first_error f xs)"

definition CheckAppLabelInfo :: "inner_bundle_info \<Rightarrow> (string \<times> inner_bundle_info) list \<Rightarrow> err_code" where
  "CheckAppLabelInfo first infos = first_error (\<lambda>(_, i). same_label first i) infos"

definition CheckAppLabel :: "inner_bundle_info \<Rightarrow> inner_bundle_info \<Rightarrow> err_code" where
  "CheckAppLabel oldInfo newInfo =
     (let a = ib_baseBundleInfo oldInfo; b = ib_baseBundleInfo newInfo in
      if bi_versionName a \<noteq> bi_versionName b then ERR_APPEXECFWK_INSTALL_VERSIONNAME_NOT_SAME
      else if bi_minCompatibleVersionCode a \<noteq> bi_minCompatibleVersionCode b
        then ERR_APPEXECFWK_INSTALL_MINCOMPATIBLE_VERSIONCODE_NOT_SAME
      else if bi_vendor a \<noteq> bi_vendor b then ERR_APPEXECFWK_INSTALL_VENDOR_NOT_SAME
      else if bi_targetVersion a \<noteq> bi_targetVersion b then ERR_APPEXECFWK_INSTALL_RELEASETYPE_TARGET_NOT_SAME
      else if bi_compatibleVersion a \<noteq> bi_compatibleVersion b then ERR_APPEXECFWK_INSTALL_RELEASETYPE_COMPATIBLE_NOT_SAME
      else if bi_releaseType a \<noteq> bi_releaseType b then ERR_APPEXECFWK_INSTALL_RELEASETYPE_NOT_SAME
      else ERR_OK)"

text \<open>The second component is whether \<open>isFeatureNeedUninstall_\<close> is set.\<close>

definition CheckVersionCompatibilityForApplication ::
  "bool \<Rightarrow> u32 \<Rightarrow> inner_bundle_info \<Rightarrow> err_code \<times> bool" where
  "CheckVersionCompatibilityForApplication containEntry version oldInfo =
     (let old = GetVersionCode oldInfo in
      if HasEntry oldInfo \<and> containEntry \<and> version < old then (ERR_APPEXECFWK_INSTALL_VERSION_DOWNGRADE, False)
      else if HasEntry oldInfo \<and> \<not> containEntry \<and> version > old then (ERR_APPEXECFWK_INSTALL_VERSION_NOT_COMPATIBLE, False)
      else if HasEntry oldInfo \<and> \<not> containEntry \<and> version < old then (ERR_APPEXECFWK_INSTALL_VERSION_DOWNGRADE, False)
      else if \<not> HasEntry oldInfo \<and> version < old then (ERR_APPEXECFWK_INSTALL_VERSION_DOWNGRADE, False)
      else (ERR_OK, version > old))"

definition CheckVersionCompatibilityForHmService :: "u32 \<Rightarrow> inner_bundle_info \<Rightarrow> err_code \<times> bool" where
  "CheckVersionCompatibilityForHmService version oldInfo =
     (if version < GetVersionCode oldInfo then (ERR_APPEXECFWK_INSTALL_VERSION_DOWNGRADE, False)
      else (ERR_OK, version > GetVersionCode oldInfo))"

definition CheckVersionCompatibility :: "bool \<Rightarrow> u32 \<Rightarrow> inner_bundle_info \<Rightarrow> err_code \<times> bool" where
  "CheckVersionCompatibility containEntry version oldInfo =
     (if GetEntryInstallationFree oldInfo then CheckVersionCompatibilityForHmService version oldInfo
      else CheckVersionCompatibilityForApplication containEntry version oldInfo)"

definition CheckHapModleOrType :: "inner_bundle_info \<Rightarrow> (string \<times> inner_bundle_info) list \<Rightarrow> err_code" where
  "CheckHapModleOrType oldInfo infos =
     first_error (\<lambda>(_, i).
       if ib_isNewVersion oldInfo \<noteq> ib_isNewVersion i then ERR_APPEXECFWK_INSTALL_STATE_ERROR
       else if GetEntryInstallationFree oldInfo \<noteq> GetEntryInstallationFree i then ERR_APPEXECFWK_INSTALL_TYPE_ERROR
       else ERR_OK) infos"

section \<open>URI prefixes\<close>

definition verifyUriPrefix :: "inner_bundle_info \<Rightarrow> int \<Rightarrow> bool \<Rightarrow> data_mgr \<Rightarrow> bool" where
  "verifyUriPrefix i userId isUpdate d =
     (let current = GetUriPrefixList [] i in
      if current = [] then True
      else if \<not> distinct current then False
      else (let exclude = (if isUpdate then GetBundleName i @ ''.'' @ ib_currentPackage i @ ''.'' else []);
                others = GetAllUriPrefix userId exclude d
            in list_all (\<lambda>u. u \<notin> set others) current))"

section \<open>Which modules may be removed\<close>

definition SaveOldRemovableInfo :: "inner_bundle_info \<Rightarrow> bool \<Rightarrow> inner_module_info \<Rightarrow> inner_module_info" where
  "SaveOldRemovableInfo oldInfo existModule m =
     (if \<not> existModule then m
      else (case map_of (ib_innerModuleInfos oldInfo) (im_modulePackage m) of
              None \<Rightarrow> m
            | Some old \<Rightarrow> m\<lparr>im_isRemovable := sm_emplace_all (im_isRemovable old) (im_isRemovable m)\<rparr>))"

text \<open>One round of the inner loop of \<open>CheckEnableRemovable\<close>, for the module filed under \<open>key\<close>.\<close>

definition enable_removable ::
  "inner_bundle_info \<Rightarrow> int \<Rightarrow> bool \<Rightarrow> bool \<Rightarrow> inner_bundle_info \<Rightarrow> string \<Rightarrow> inner_bundle_info" where
  "enable_removable oldInfo userId isFreeInstall isAppExist i key =
     (case map_of (ib_innerModuleInfos i) key of
        None \<Rightarrow> i
      | Some m \<Rightarrow>
          (let existModule = FindModule (im_modulePackage m) oldInfo;
               hasModuleInUser = IsUserExistModule (im_moduleName m) userId i
           in if isFreeInstall \<and> (\<not> isAppExist \<or> \<not> HasInnerBundleUserInfo userId oldInfo \<or> \<not> existModule \<or> \<not> hasModuleInUser)
              then (let i1 = snd (SetModuleRemovable (im_moduleName m) True userId i)
                    in i1\<lparr>ib_innerModuleInfos := sm_update key (SaveOldRemovableInfo oldInfo existModule) (ib_innerModuleInfos i1)\<rparr>)
              else i))"

definition CheckEnableRemovable ::
  "(string \<times> inner_bundle_info) list \<Rightarrow> inner_bundle_info \<Rightarrow> int \<Rightarrow> bool \<Rightarrow> bool \<Rightarrow> (string \<times> inner_bundle_info) list" where
  "CheckEnableRemovable infos oldInfo userId isFreeInstall isAppExist =
     map (\<lambda>(path, i). (path, foldl (enable_removable oldInfo userId isFreeInstall isAppExist) i
                               (map fst (ib_innerModuleInfos i)))) infos"

end
