(* ===== verification/Bundle_Installer.thy ===== *)
theory Bundle_Installer
  imports Install_Checks Sandbox_Apps
begin

text \<open>
  \<open>BaseBundleInstaller\<close> (\<open>base_bundle_installer.cpp\<close>): installing, updating and uninstalling a bundle.
  The members of the installer object extend the state of the service. An information that the code
  passes by reference and changes is returned changed. A \<open>ScopeGuard\<close> is an action at the end of the
  function unless it was dismissed. Left out are the notifications and reports after the work is done,
  with the uid they carry, and the mutex per bundle.
\<close>

section \<open>The installer object\<close>

datatype singleton_state = SingletonState_DEFAULT | SINGLETON_TO_NON | NON_TO_SINGLETON

record installer = bms +
  in_state :: nat
  in_cloneMgr :: bool
  in_bundleName :: string
  in_modulePath :: string
  in_modulePackage :: string
  in_installedModules :: "string list"
  in_isAppExist :: bool
  in_isContainEntry :: bool
  in_versionCode :: u32
  in_isFeatureNeedUninstall :: bool
  in_uninstallModuleVec :: "string list"
  in_userId :: int
  in_hasInstalledInUser :: bool
  in_singletonState :: singleton_state
  in_hapPathRecords :: "(string, string) smap"

abbreviation GetInnerBundleInfo_inst :: "install_env \<Rightarrow> installer \<Rightarrow> inner_bundle_info option \<times> installer" where
  "GetInnerBundleInfo_inst e s \<equiv> get_info e (in_bundleName s) s"

definition GetUserId_inst :: "int \<Rightarrow> int" where
  "GetUserId_inst userId = (if userId < DEFAULT_USERID then INVALID_USERID else userId)"

definition INSTALL_FILE_SUFFIX :: string where "INSTALL_FILE_SUFFIX = ''.hap''"
definition BASE_dir :: string where "BASE_dir = ''/base/''"

definition GetHapPath :: "inner_bundle_info \<Rightarrow> string \<Rightarrow> string" where
  "GetHapPath i moduleName = GetAppCodePath i @ PATH_SEPARATOR @ moduleName @ INSTALL_FILE_SUFFIX"

section \<open>Directories\<close>

definition CreateBundleCodeDir ::
  "install_env \<Rightarrow> inner_bundle_info \<Rightarrow> installer \<Rightarrow> err_code \<times> inner_bundle_info \<times> installer" where
  "CreateBundleCodeDir e i s =
     (let path = installer_code_path (in_bundleName s); (r, s1) = fs_op e (CreateBundleDir path) s
      in if r \<noteq> ERR_OK then (r, i, s1) else (ERR_OK, SetAppCodePath path i, s1))"

definition CreateBundleDataDir_inst ::
  "install_env \<Rightarrow> inner_bundle_info \<Rightarrow> installer \<Rightarrow> err_code \<times> inner_bundle_info \<times> installer" where
  "CreateBundleDataDir_inst e i s =
     (case GetInnerBundleUserInfo (in_userId s) new_InnerBundleUserInfo i of
        (False, _) \<Rightarrow> (ERR_APPEXECFWK_USER_NOT_EXIST, i, s)
      | (True, u) \<Rightarrow>
          (let ((ok, u1), s1) = dm_op e (\<lambda>_ d. (case GenerateUidAndGid u d of (ok, u1, d1) \<Rightarrow> ((ok, u1), d1))) s
           in if \<not> ok then (ERR_APPEXECFWK_INSTALL_GENERATE_UID_ERROR, i, s1)
              else
                (let (r, s2) = fs_op e (CreateBundleDataDir (GetBundleName i) (in_userId s1) (iu_uid u1) (iu_uid u1)
                                 (app_appPrivilegeLevel (ib_baseApplicationInfo i))) s1
                 in if r \<noteq> ERR_OK then (r, i, s2)
                    else (ERR_OK,
                          AddInnerBundleUserInfo u1 (SetAppDataBaseDir
                            (BUNDLE_APP_DATA_BASE_DIR @ BUNDLE_EL ! 1 @ DATABASE @ GetBundleName i) i),
                          s2))))"

definition CreateBundleAndDataDir ::
  "install_env \<Rightarrow> inner_bundle_info \<Rightarrow> installer \<Rightarrow> err_code \<times> inner_bundle_info \<times> installer" where
  "CreateBundleAndDataDir e i s =
     (case CreateBundleCodeDir e i s of (r, i1, s1) \<Rightarrow>
        if r \<noteq> ERR_OK then (r, i1, s1)
        else (case CreateBundleDataDir_inst e i1 s1 of (r, i2, s2) \<Rightarrow>
                if r \<noteq> ERR_OK then (r, i2, snd (fs_op e (RemoveDir (GetAppCodePath i2)) s2))
                else (ERR_OK, i2, s2)))"

definition ExtractModule ::
  "install_env \<Rightarrow> inner_bundle_info \<Rightarrow> string \<Rightarrow> installer \<Rightarrow> err_code \<times> inner_bundle_info \<times> installer" where
  "ExtractModule e i modulePath s =
     (let native = app_nativeLibraryPath (ib_baseApplicationInfo i);
          so = (if native = [] then []
                else BUNDLE_CODE_DIR @ PATH_SEPARATOR @ GetBundleName i @ PATH_SEPARATOR @ native @ PATH_SEPARATOR);
          (r, s1) = fs_op e (ExtractModuleFiles (in_modulePath s) modulePath so (app_cpuAbi (ib_baseApplicationInfo i))) s
      in if r \<noteq> ERR_OK then (r, i, s1)
         else
           (let hap = (if bi_isPreInstallApp (ib_baseBundleInfo i) then in_modulePath s
                       else GetHapPath i (GetModuleName (ib_currentPackage i) i));
                i1 = SetModuleHapPath hap i;
                dir = GetAppCodePath i1 @ PATH_SEPARATOR @ ib_currentPackage i1
            in (ERR_OK, AddModuleResPath dir (AddModuleSrcDir dir i1), s1)))"

definition RemoveBundleCodeDir :: "install_env \<Rightarrow> inner_bundle_info \<Rightarrow> installer \<Rightarrow> err_code \<times> installer" where
  "RemoveBundleCodeDir e i = fs_op e (RemoveDir (GetAppCodePath i))"

definition RemoveBundleDataDir_inst :: "install_env \<Rightarrow> inner_bundle_info \<Rightarrow> installer \<Rightarrow> err_code \<times> installer" where
  "RemoveBundleDataDir_inst e i s = fs_op e (RemoveBundleDataDir (GetBundleName i) (in_userId s)) s"

definition RemoveBundleAndDataDir_inst ::
  "install_env \<Rightarrow> inner_bundle_info \<Rightarrow> bool \<Rightarrow> installer \<Rightarrow> err_code \<times> installer" where
  "RemoveBundleAndDataDir_inst e i isKeepData s =
     (case RemoveBundleCodeDir e i s of (r, s1) \<Rightarrow>
        if r \<noteq> ERR_OK then (r, s1)
        else if isKeepData then (r, s1)
        else RemoveBundleDataDir_inst e i s1)"

definition RemoveModuleDir :: "install_env \<Rightarrow> string \<Rightarrow> installer \<Rightarrow> err_code \<times> installer" where
  "RemoveModuleDir e path = fs_op e (RemoveDir path)"

definition RemoveModuleDataDir_inst ::
  "install_env \<Rightarrow> inner_bundle_info \<Rightarrow> string \<Rightarrow> int \<Rightarrow> installer \<Rightarrow> err_code \<times> installer" where
  "RemoveModuleDataDir_inst e i modulePackage userId s =
     (case FindHapModuleInfo modulePackage UNSPECIFIED_USERID i of
        None \<Rightarrow> (ERR_NO_INIT, s)
      | Some h \<Rightarrow> fs_op e (RemoveModuleDataDir (GetBundleName i @ HAPS @ hm_moduleName h) userId) s)"

text \<open>The results of removing the data directories of the users are not looked at.\<close>

definition RemoveModuleAndDataDir ::
  "install_env \<Rightarrow> inner_bundle_info \<Rightarrow> string \<Rightarrow> int \<Rightarrow> bool \<Rightarrow> installer \<Rightarrow> err_code \<times> installer" where
  "RemoveModuleAndDataDir e i modulePackage userId isKeepData s =
     (case RemoveModuleDir e (GetModuleDir modulePackage i) s of (r, s1) \<Rightarrow>
        if r \<noteq> ERR_OK then (r, s1)
        else (case RemoveModuleDir e (GetHapPath i (GetModuleName modulePackage i)) s1 of (r, s2) \<Rightarrow>
                if r \<noteq> ERR_OK then (r, s2)
                else if isKeepData then (ERR_OK, s2)
                else if userId \<noteq> UNSPECIFIED_USERID then
                  (ERR_OK, snd (RemoveModuleDataDir_inst e i modulePackage userId s2))
                else
                  (ERR_OK, foldl (\<lambda>s (_, u). snd (RemoveModuleDataDir_inst e i modulePackage (bu_userId (iu_bundleUserInfo u)) s))
                             s2 (ib_innerBundleUserInfos i))))"

definition RenameModuleDir_inst :: "install_env \<Rightarrow> inner_bundle_info \<Rightarrow> installer \<Rightarrow> err_code \<times> installer" where
  "RenameModuleDir_inst e i =
     (let dir = GetAppCodePath i @ PATH_SEPARATOR @ ib_currentPackage i in fs_op e (RenameModuleDir (dir @ TMP_SUFFIX) dir))"

fun set_dir_apls :: "install_env \<Rightarrow> inner_bundle_info \<Rightarrow> string list \<Rightarrow> installer \<Rightarrow> err_code \<times> installer" where
  "set_dir_apls e i [] s = (ERR_OK, s)"
| "set_dir_apls e i (el # els) s =
     (let base = BUNDLE_APP_DATA_BASE_DIR @ el @ ''/'' @ to_string (in_userId s);
          apl = app_appPrivilegeLevel (ib_baseApplicationInfo i);
          (r, s1) = fs_op e (SetDirApl (base @ BASE_dir @ GetBundleName i) (GetBundleName i) apl) s
      in if r \<noteq> ERR_OK then (r, s1)
         else (let (r, s2) = fs_op e (SetDirApl (base @ DATABASE @ GetBundleName i) (GetBundleName i) apl) s1
               in if r \<noteq> ERR_OK then (r, s2) else set_dir_apls e i els s2))"

definition SetDirApl_inst :: "install_env \<Rightarrow> inner_bundle_info \<Rightarrow> installer \<Rightarrow> err_code \<times> installer" where
  "SetDirApl_inst e i = set_dir_apls e i BUNDLE_EL"

section \<open>Permissions\<close>

definition GrantRequestPermissions :: "install_env \<Rightarrow> inner_bundle_info \<Rightarrow> u32 \<Rightarrow> installer \<Rightarrow> err_code \<times> installer" where
  "GrantRequestPermissions e i token s =
     (case perm_op e (GrantRequestPermissions_call (GetBundleName i) token) s of (ok, s1) \<Rightarrow>
        (if ok then ERR_OK else ERR_APPEXECFWK_INSTALL_GRANT_REQUEST_PERMISSIONS_FAILED, s1))"

text \<open>
  The loop over the users of a bundle whose access token has to learn about changed permissions; \<open>call\<close>
  is the request that changes them.
\<close>

fun update_tokens ::
  "install_env \<Rightarrow> (u32 \<Rightarrow> perm_call) \<Rightarrow> string \<Rightarrow> inner_bundle_user_info list \<Rightarrow> installer \<Rightarrow> err_code \<times> installer" where
  "update_tokens e call name [] s = (ERR_OK, s)"
| "update_tokens e call name (u # us) s =
     (if iu_accessTokenId u = 0 then update_tokens e call name us s
      else (case perm_op e (call (iu_accessTokenId u)) s of (ok, s1) \<Rightarrow>
              if \<not> ok then (ERR_APPEXECFWK_INSTALL_UPDATE_HAP_TOKEN_FAILED, s1)
              else (case perm_op e (GrantRequestPermissions_call name (iu_accessTokenId u)) s1 of (ok, s2) \<Rightarrow>
                      if \<not> ok then (ERR_APPEXECFWK_INSTALL_GRANT_REQUEST_PERMISSIONS_FAILED, s2)
                      else update_tokens e call name us s2)))"

definition UpdateDefineAndRequestPermissions ::
  "install_env \<Rightarrow> inner_bundle_info \<Rightarrow> inner_bundle_info \<Rightarrow> installer \<Rightarrow> err_code \<times> installer" where
  "UpdateDefineAndRequestPermissions e oldInfo newInfo =
     update_tokens e (\<lambda>t. UpdateDefineAndRequestPermissions_call t (GetBundleName newInfo)) (GetBundleName newInfo)
       (map snd (ib_innerBundleUserInfos newInfo))"

section \<open>The data of a user\<close>

definition CreateBundleUserData ::
  "install_env \<Rightarrow> inner_bundle_info \<Rightarrow> installer \<Rightarrow> err_code \<times> inner_bundle_info \<times> installer" where
  "CreateBundleUserData e i s =
     (if \<not> HasInnerBundleUserInfo (in_userId s) i then (ERR_APPEXECFWK_USER_NOT_EXIST, i, s)
      else (case CreateBundleDataDir_inst e i s of (r, i1, s1) \<Rightarrow>
        if r \<noteq> ERR_OK then (r, i1, snd (RemoveBundleDataDir_inst e i1 s1))
        else
          (let i2 = SetBundleInstallTime (env_time e (now s1)) (in_userId s1) i1
           in case GetInnerBundleUserInfo (in_userId s1) new_InnerBundleUserInfo i2 of
                (False, _) \<Rightarrow> (ERR_APPEXECFWK_USER_NOT_EXIST, i2, s1)
              | (True, u) \<Rightarrow>
                  (case dm_op e (\<lambda>kv. Mgr_AddInnerBundleUserInfo kv (GetBundleName i2) u) s1 of (ok, s2) \<Rightarrow>
                     (if ok then ERR_OK else ERR_APPEXECFWK_INSTALL_BUNDLE_MGR_SERVICE_ERROR, i2, s2)))))"

text \<open>The parameter \<open>needRemoveData\<close> keeps the data when it is true.\<close>

definition RemoveBundleUserData ::
  "install_env \<Rightarrow> inner_bundle_info \<Rightarrow> bool \<Rightarrow> installer \<Rightarrow> (err_code \<times> inner_bundle_info \<times> installer) option" where
  "RemoveBundleUserData e i needRemoveData s =
     (if \<not> HasInnerBundleUserInfo (in_userId s) i then Some (ERR_APPEXECFWK_USER_NOT_EXIST, i, s)
      else
        (let (r, s1) = (if needRemoveData then (ERR_OK, s) else RemoveBundleDataDir_inst e i s)
         in if r \<noteq> ERR_OK then Some (r, i, s1)
            else
              (let (_, s2) = perm_op e (DeleteAccessTokenId_call (GetAccessTokenId (in_userId s) i)) s1;
                   i1 = RemoveInnerBundleUserInfo (in_userId s) i
               in do {
                    (ok, s3) \<leftarrow> remove_user_op e (GetBundleName i) (in_userId s) s2;
                    Some (if ok then ERR_OK else ERR_APPEXECFWK_INSTALL_BUNDLE_MGR_SERVICE_ERROR, i1, s3)
                  })))"

text \<open>
  The block that gives an installed bundle one more user, with its guard: \<open>InnerProcessBundleInstall\<close>
  and \<open>InnerProcessInstallByPreInstallInfo\<close> both have it.
\<close>

definition new_user :: "int \<Rightarrow> string \<Rightarrow> inner_bundle_user_info" where
  "new_user userId bundleName =
     new_InnerBundleUserInfo\<lparr>iu_bundleUserInfo := new_BundleUserInfo\<lparr>bu_userId := userId\<rparr>, iu_bundleName := bundleName\<rparr>"

definition create_for_user ::
  "install_env \<Rightarrow> inner_bundle_info \<Rightarrow> string \<Rightarrow> installer \<Rightarrow> (err_code \<times> inner_bundle_info \<times> installer) option" where
  "create_for_user e oldInfo bundleName s =
     (let i1 = AddInnerBundleUserInfo (new_user (in_userId s) bundleName) oldInfo;
          (token, s1) = token_op e (GetBundleName i1) (in_userId s) s;
          i2 = SetAccessTokenId token (in_userId s) i1;
          (r, s2) = GrantRequestPermissions e i2 token s1;
          (r, i3, s3) = (if r \<noteq> ERR_OK then (r, i2, s2) else CreateBundleUserData e i2 s2)
      in if r = ERR_OK then Some (ERR_OK, i3, s3)
         else do {
           (_, i4, s4) \<leftarrow> RemoveBundleUserData e i3 False s3;
           Some (r, i4, s4)
         })"

section \<open>Uninstalling\<close>

definition RemoveBundle :: "install_env \<Rightarrow> inner_bundle_info \<Rightarrow> bool \<Rightarrow> installer \<Rightarrow> err_code \<times> installer" where
  "RemoveBundle e i isKeepData s =
     (case RemoveBundleAndDataDir_inst e i isKeepData s of (r, s1) \<Rightarrow>
        if r \<noteq> ERR_OK then (r, snd (set_state e (GetBundleName i) UNINSTALL_FAIL s1))
        else (case set_state e (GetBundleName i) UNINSTALL_SUCCESS s1 of (ok, s2) \<Rightarrow>
                if \<not> ok then (ERR_APPEXECFWK_INSTALL_BUNDLE_MGR_SERVICE_ERROR, s2)
                else (ERR_OK, snd (perm_op e (DeleteAccessTokenId_call (GetAccessTokenId (in_userId s) i)) s2))))"

text \<open>
  \<open>BundleCloneMgr::RemoveClonedBundle\<close> (\<open>bundle_clone_mgr.cpp\<close>). Its two guards enable the bundles of
  the clone manager's own members at the end. The caller ignores the result.
\<close>

definition RemoveClonedBundle :: "install_env \<Rightarrow> string \<Rightarrow> string \<Rightarrow> installer \<Rightarrow> installer" where
  "RemoveClonedBundle e oldName cloneName s =
     (if cloneName = [] then s
      else (case get_info e cloneName s of
        (None, s1) \<Rightarrow> s1
      | (Some i, s1) \<Rightarrow>
          (let (killed, s2) = kill_op e (app_name (ib_baseApplicationInfo i)) (GetUid UNSPECIFIED_USERID i) s1;
               s3 = (if \<not> killed then s2
                     else (let (r, t1) = fs_op e (RemoveDir (ib_baseDataDir i)) s2 in
                           if r \<noteq> ERR_OK then t1
                           else (let (ok, t2) = dm_op e (\<lambda>kv. RemoveClonedBundleInfo kv cloneName) t1
                                 in if \<not> ok then t2 else log_call (CloneFile oldName) t2)));
               (_, s4) = enable_bundle e (b_cloneBundleName s3) s3;
               (_, s5) = enable_bundle e (GetDBKeyBundleName (b_cloneInfo s4)) s4
           in s5)))"

text \<open>
  The start of both \<open>ProcessBundleUninstall\<close>: the user, the bundle and whether it may be removed. The
  bundle is disabled from here on.
\<close>

definition may_not_uninstall :: "install_param \<Rightarrow> inner_bundle_info \<Rightarrow> bool" where
  "may_not_uninstall param i \<longleftrightarrow> \<not> ip_forceExecuted param \<and> app_isSystemApp (ib_baseApplicationInfo i) \<and>
     \<not> app_removable (ib_baseApplicationInfo i) \<and> ip_noSkipsKill param"

text \<open>The end of the uninstallation of a whole bundle, when no other user has it.\<close>

definition uninstall_last_user ::
  "install_env \<Rightarrow> string \<Rightarrow> install_param \<Rightarrow> inner_bundle_info \<Rightarrow> installer \<Rightarrow> err_code \<times> bool \<times> installer" where
  "uninstall_last_user e bundleName param oldInfo s =
     (case set_state e bundleName UNINSTALL_START s of (ok, s1) \<Rightarrow>
        if \<not> ok then (ERR_APPEXECFWK_INSTALL_BUNDLE_MGR_SERVICE_ERROR, False, s1)
        else
          (let (killed, s2) = (if ip_noSkipsKill param
                 then kill_op e (app_name (ib_baseApplicationInfo oldInfo)) (GetUid (in_userId s1) oldInfo) s1
                 else (True, s1))
           in if \<not> killed
              then (ERR_APPEXECFWK_UNINSTALL_KILLING_APP_ERROR, False, snd (set_state e bundleName INSTALL_SUCCESS s2))
              else
                (let marked = SetInstallMark bundleName [] UNINSTALL_BUNDLE_START_mark oldInfo;
                     (saved, s3) = save_info e marked s2
                 in if \<not> saved then (ERR_APPEXECFWK_INSTALL_INTERNAL_ERROR, False, s3)
                    else (case RemoveBundle e marked (ip_isKeepData param) s3 of (r, s4) \<Rightarrow> (r, r = ERR_OK, s4)))))"

text \<open>
  What follows in the uninstallation of a whole bundle; the second component is whether the guard that
  enables the bundle again was dismissed. This function never fetches the clone manager.
\<close>

definition uninstall_bundle_body ::
  "install_env \<Rightarrow> string \<Rightarrow> install_param \<Rightarrow> inner_bundle_info \<Rightarrow> installer \<Rightarrow> (err_code \<times> bool \<times> installer) option" where
  "uninstall_bundle_body e bundleName param oldInfo s =
     (if \<not> fst (GetInnerBundleUserInfo (in_userId s) new_InnerBundleUserInfo oldInfo)
      then Some (ERR_APPEXECFWK_USER_NOT_INSTALL_HAP, False, s)
      else if may_not_uninstall param oldInfo then Some (ERR_APPEXECFWK_UNINSTALL_SYSTEM_APP_ERROR, False, s)
      else if GetClonedBundleName bundleName (b_dm s) \<noteq> None \<and> \<not> in_cloneMgr s then None
      else
        (let s1 = (case GetClonedBundleName bundleName (b_dm s) of
                     None \<Rightarrow> s
                   | Some clone \<Rightarrow> RemoveClonedBundle e bundleName clone s)
         in if length (ib_innerBundleUserInfos oldInfo) > 1 then do {
              (r, _, s2) \<leftarrow> RemoveBundleUserData e oldInfo (ip_isKeepData param) s1;
              Some (r, False, s2)
            }
            else Some (uninstall_last_user e bundleName param oldInfo s1)))"

definition run_enable_guard ::
  "install_env \<Rightarrow> string \<Rightarrow> (err_code \<times> bool \<times> installer) option \<Rightarrow> (err_code \<times> installer) option" where
  "run_enable_guard e bundleName res =
     map_option (\<lambda>(r, dismissed, s). (r, if dismissed then s else snd (enable_bundle e bundleName s))) res"

definition ProcessBundleUninstall ::
  "install_env \<Rightarrow> string \<Rightarrow> install_param \<Rightarrow> installer \<Rightarrow> (err_code \<times> installer) option" where
  "ProcessBundleUninstall e bundleName param s =
     (if bundleName = [] then Some (ERR_APPEXECFWK_UNINSTALL_INVALID_NAME, s)
      else
        (let userId = GetUserId_inst (ip_userId param); s1 = s\<lparr>in_userId := userId\<rparr>
         in if userId = INVALID_USERID then Some (ERR_APPEXECFWK_INSTALL_PARAM_ERROR, s1)
            else if \<not> HasUserId userId (b_dm s1) then Some (ERR_APPEXECFWK_USER_NOT_EXIST, s1)
            else (case get_info e bundleName s1 of
                    (None, s2) \<Rightarrow> Some (ERR_APPEXECFWK_UNINSTALL_MISSING_INSTALLED_BUNDLE, s2)
                  | (Some i, s2) \<Rightarrow>
                      run_enable_guard e bundleName
                        (uninstall_bundle_body e bundleName param i (s2\<lparr>in_versionCode := GetVersionCode i\<rparr>)))))"

text \<open>
  Uninstalling one module; the second component of the result is whether the guards that enable the
  bundle and restore its install state were dismissed.
\<close>

definition uninstall_module_body ::
  "install_env \<Rightarrow> string \<Rightarrow> string \<Rightarrow> install_param \<Rightarrow> inner_bundle_info \<Rightarrow> installer
     \<Rightarrow> (err_code \<times> bool \<times> installer) option" where
  "uninstall_module_body e bundleName package param oldInfo s =
     (let (killed, s1) = (if ip_noSkipsKill param
            then kill_op e (app_name (ib_baseApplicationInfo oldInfo)) (GetUid (in_userId s) oldInfo) s else (True, s))
      in if \<not> killed then Some (ERR_APPEXECFWK_UNINSTALL_KILLING_APP_ERROR, False, s1)
         else
           (let marked = SetInstallMark bundleName package UNINSTALL_PACKAGE_START_mark oldInfo;
                (saved, s2) = save_info e marked s1;
                onlyUser = (length (ib_innerBundleUserInfos marked) = 1)
            in if \<not> saved then Some (ERR_APPEXECFWK_INSTALL_INTERNAL_ERROR, False, s2)
               else if IsOnlyModule package marked then
                 (let s3 = (case GetClonedBundleName bundleName (b_dm s2) of
                              None \<Rightarrow> s2
                            | Some clone \<Rightarrow> RemoveClonedBundle e bundleName clone s2)
                  in if onlyUser then (case RemoveBundle e marked (ip_isKeepData param) s3 of (r, s4) \<Rightarrow> Some (r, True, s4))
                     else do {
                       (r, _, s4) \<leftarrow> RemoveBundleUserData e marked (ip_isKeepData param) s3;
                       Some (r, True, s4)
                     })
               else
                 (let (r, s3) = (if onlyUser then RemoveModuleAndDataDir e marked package (in_userId s2) (ip_isKeepData param) s2
                                 else if \<not> ip_isKeepData param then RemoveModuleDataDir_inst e marked package (in_userId s2) s2
                                 else (ERR_OK, s2))
                  in if r \<noteq> ERR_OK then Some (r, False, s3)
                     else
                       (let finished = SetInstallMark bundleName package INSTALL_FINISH_mark marked;
                            ((ok, _), s4) = dm_op e (\<lambda>kv d. (case Mgr_RemoveModuleInfo kv bundleName package finished d of
                                               (ok, i', d') \<Rightarrow> ((ok, i'), d'))) s3
                        in Some (if ok then ERR_OK else ERR_APPEXECFWK_INSTALL_BUNDLE_MGR_SERVICE_ERROR, False, s4)))))"

definition run_state_guard ::
  "install_env \<Rightarrow> string \<Rightarrow> (err_code \<times> bool \<times> installer) option \<Rightarrow> (err_code \<times> bool \<times> installer) option" where
  "run_state_guard e bundleName res =
     map_option (\<lambda>(r, dismissed, s).
        (r, dismissed, if dismissed then s else snd (set_state e bundleName INSTALL_SUCCESS s))) res"

definition ProcessBundleUninstall_module ::
  "install_env \<Rightarrow> string \<Rightarrow> string \<Rightarrow> install_param \<Rightarrow> installer \<Rightarrow> (err_code \<times> installer) option" where
  "ProcessBundleUninstall_module e bundleName package param s =
     (if bundleName = [] \<or> package = [] then Some (ERR_APPEXECFWK_UNINSTALL_INVALID_NAME, s)
      else
        (let userId = GetUserId_inst (ip_userId param); s1 = s\<lparr>in_cloneMgr := True, in_userId := userId\<rparr>
         in if userId = INVALID_USERID then Some (ERR_APPEXECFWK_INSTALL_PARAM_ERROR, s1)
            else if \<not> HasUserId userId (b_dm s1) then Some (ERR_APPEXECFWK_USER_NOT_EXIST, s1)
            else (case get_info e bundleName s1 of
                    (None, s2) \<Rightarrow> Some (ERR_APPEXECFWK_UNINSTALL_MISSING_INSTALLED_BUNDLE, s2)
                  | (Some i, s2) \<Rightarrow>
                      (let s3 = s2\<lparr>in_versionCode := GetVersionCode i\<rparr>
                       in run_enable_guard e bundleName
                            (if \<not> fst (GetInnerBundleUserInfo userId new_InnerBundleUserInfo i)
                             then Some (ERR_APPEXECFWK_USER_NOT_INSTALL_HAP, False, s3)
                             else if may_not_uninstall param i then Some (ERR_APPEXECFWK_UNINSTALL_SYSTEM_APP_ERROR, False, s3)
                             else if \<not> FindModule package i
                             then Some (ERR_APPEXECFWK_UNINSTALL_MISSING_INSTALLED_MODULE, False, s3)
                             else (case set_state e bundleName UNINSTALL_START s3 of (ok, s4) \<Rightarrow>
                                     if \<not> ok then Some (ERR_APPEXECFWK_INSTALL_BUNDLE_MGR_SERVICE_ERROR, False, s4)
                                     else run_state_guard e bundleName
                                            (uninstall_module_body e bundleName package param i s4)))))))"

definition UninstallBundle ::
  "install_env \<Rightarrow> string \<Rightarrow> install_param \<Rightarrow> installer \<Rightarrow> (err_code \<times> installer) option" where
  "UninstallBundle e bundleName param s = do {
     (_, s1) \<leftarrow> UninstallAllSandboxApps e bundleName (ip_userId param) s;
     ProcessBundleUninstall e bundleName param s1
   }"

definition UninstallBundle_module ::
  "install_env \<Rightarrow> string \<Rightarrow> string \<Rightarrow> install_param \<Rightarrow> installer \<Rightarrow> (err_code \<times> installer) option" where
  "UninstallBundle_module e bundleName package param s = do {
     (_, s1) \<leftarrow> UninstallAllSandboxApps e bundleName (ip_userId param) s;
     (r, s2) \<leftarrow> ProcessBundleUninstall_module e bundleName package param s1;
     Some (r, if r \<noteq> ERR_OK then s2
              else (case get_info e bundleName s2 of
                      (None, s3) \<Rightarrow> s3
                    | (Some _, s3) \<Rightarrow> snd (enable_bundle e bundleName s3)))
   }"

section \<open>Installing the first package of a bundle\<close>

text \<open>
  What follows the creation of the directories, with the guard that removes them again. The failure
  of \<open>AddInnerBundleInfo\<close> first takes the install state back.
\<close>

definition finish_first_install ::
  "install_env \<Rightarrow> inner_bundle_info \<Rightarrow> installer \<Rightarrow> err_code \<times> inner_bundle_info \<times> installer" where
  "finish_first_install e i s =
     (let n = in_bundleName s; m = in_modulePackage s;
          (r, i1, s1) = ExtractModule e i (GetAppCodePath i @ PATH_SEPARATOR @ m) s
      in if r \<noteq> ERR_OK then (r, i1, snd (RemoveBundleAndDataDir_inst e i1 False s1))
         else
           (let i2 = SetBundleInstallTime (env_time e (now s1)) (in_userId s1) (SetInstallMark n m INSTALL_FINISH_mark i1);
                (token, s2) = token_op e (GetBundleName i2) (in_userId s1) s1;
                i3 = SetAccessTokenId token (in_userId s2) i2;
                (r, s3) = GrantRequestPermissions e i3 token s2
            in if r \<noteq> ERR_OK then (r, i3, snd (RemoveBundleAndDataDir_inst e i3 False s3))
               else (case dm_op e (\<lambda>kv. AddInnerBundleInfo kv n i3) s3 of (ok, s4) \<Rightarrow>
                       if ok then (ERR_OK, i3, s4)
                       else
                         (let (_, s5) = set_state e n UNINSTALL_START s4;
                              (_, s6) = set_state e n UNINSTALL_SUCCESS s5
                          in (ERR_APPEXECFWK_INSTALL_BUNDLE_MGR_SERVICE_ERROR, i3, snd (RemoveBundleAndDataDir_inst e i3 False s6))))))"

definition ProcessBundleInstallStatus ::
  "install_env \<Rightarrow> inner_bundle_info \<Rightarrow> installer \<Rightarrow> err_code \<times> inner_bundle_info \<times> installer" where
  "ProcessBundleInstallStatus e i s =
     (if \<not> verifyUriPrefix i (in_userId s) False (b_dm s) then (ERR_APPEXECFWK_INSTALL_URI_DUPLICATE, i, s)
      else
        (let s1 = s\<lparr>in_modulePackage := ib_currentPackage i\<rparr>; n = in_bundleName s1
         in case set_state e n INSTALL_START s1 of (ok, s2) \<Rightarrow>
              if \<not> ok then (ERR_APPEXECFWK_INSTALL_STATE_ERROR, i, s2)
              else
                (let i1 = SetInstallMark n (in_modulePackage s2) INSTALL_START_mark i;
                     (saved, s3) = save_info e i1 s2
                 in if \<not> saved then (ERR_APPEXECFWK_INSTALL_INTERNAL_ERROR, i1, s3)
                    else (case (case CreateBundleAndDataDir e i1 s3 of (r, i2, s4) \<Rightarrow>
                                  if r \<noteq> ERR_OK then (r, i2, s4) else finish_first_install e i2 s4) of
                            (r, i3, s5) \<Rightarrow>
                              if r = ERR_OK then (ERR_OK, i3, s5)
                              else (r, i3, snd (set_state e n INSTALL_FAIL s5))))))"

section \<open>Updating a bundle with a package\<close>

definition ProcessNewModuleInstall ::
  "install_env \<Rightarrow> inner_bundle_info \<Rightarrow> inner_bundle_info \<Rightarrow> installer
     \<Rightarrow> err_code \<times> inner_bundle_info \<times> inner_bundle_info \<times> installer" where
  "ProcessNewModuleInstall e new old s =
     (let n = in_bundleName s; m = in_modulePackage s;
          label = (if GetVersionCode old = GetVersionCode new then CheckAppLabel old new else ERR_OK)
      in if \<not> verifyUriPrefix new (in_userId s) False (b_dm s) then (ERR_APPEXECFWK_INSTALL_URI_DUPLICATE, new, old, s)
         else if HasEntry new \<and> HasEntry old then (ERR_APPEXECFWK_INSTALL_ENTRY_ALREADY_EXIST, new, old, s)
         else if label \<noteq> ERR_OK then (label, new, old, s)
         else
           (let old1 = SetInstallMark n m UPDATING_NEW_START_mark old;
                (saved, s1) = save_info e old1 s
            in if \<not> saved then (ERR_APPEXECFWK_INSTALL_INTERNAL_ERROR, new, old1, s1)
               else
                 (let path = GetAppCodePath new @ PATH_SEPARATOR @ m;
                      (r, new1, s2) = ExtractModule e new path s1
                  in if r \<noteq> ERR_OK then (r, new1, old1, s2)
                     else (case set_state e n UPDATING_SUCCESS s2 of (ok, s3) \<Rightarrow>
                       if \<not> ok
                       then (ERR_APPEXECFWK_INSTALL_BUNDLE_MGR_SERVICE_ERROR, new1, old1, snd (RemoveModuleDir e path s3))
                       else
                         (let old2 = SetInstallMark n m INSTALL_FINISH_mark old1;
                              (r, s4) = update_tokens e (\<lambda>t. AddDefineAndRequestPermissions_call t (GetBundleName new1))
                                          (GetBundleName new1) (map snd (ib_innerBundleUserInfos old2)) s3
                          in if r \<noteq> ERR_OK then (r, new1, old2, snd (RemoveModuleDir e path s4))
                             else
                               (let old3 = SetBundleUpdateTime (env_time e (now s4)) (in_userId s4) old2;
                                    ((ok, old4), s5) = dm_op e (\<lambda>kv d. (case AddNewModuleInfo kv n new1 old3 d of
                                                          (ok, o', d') \<Rightarrow> ((ok, o'), d'))) s4
                                in if ok then (ERR_OK, new1, old4, s5)
                                   else (ERR_APPEXECFWK_INSTALL_BUNDLE_MGR_SERVICE_ERROR, new1, old4,
                                         snd (RemoveModuleDir e path s5))))))))"

text \<open>The second half of \<open>ProcessModuleUpdate\<close>, after the checks.\<close>

definition replace_module ::
  "install_env \<Rightarrow> inner_bundle_info \<Rightarrow> inner_bundle_info \<Rightarrow> installer
     \<Rightarrow> (err_code \<times> inner_bundle_info \<times> inner_bundle_info \<times> installer) option" where
  "replace_module e new old s =
     (let n = in_bundleName s; m = in_modulePackage s;
          old1 = SetInstallMark n m UPDATING_EXISTED_START_mark old;
          (saved, s1) = save_info e old1 s
      in if \<not> saved then Some (ERR_APPEXECFWK_INSTALL_INTERNAL_ERROR, new, old1, s1)
         else
           (let (r, new1, s2) = ExtractModule e new (GetAppCodePath new @ PATH_SEPARATOR @ m @ TMP_SUFFIX) s1
            in if r \<noteq> ERR_OK then Some (r, new1, old1, s2)
               else (case set_state e n UPDATING_SUCCESS s2 of (ok, s3) \<Rightarrow>
                 if \<not> ok then Some (ERR_APPEXECFWK_INSTALL_BUNDLE_MGR_SERVICE_ERROR, new1, old1, s3)
                 else do {
                   new2 \<leftarrow> RestoreModuleInfo old1 new1;
                   let old2 = SetBundleUpdateTime (env_time e (now s3)) (in_userId s3)
                                (SetInstallMark n m UPDATING_FINISH_mark old1);
                       ((ok, old3), s4) = dm_op e (\<lambda>kv d. (case UpdateInnerBundleInfo kv n new2 old2 d of
                                             (ok, o', d') \<Rightarrow> ((ok, o'), d'))) s3
                   in if \<not> ok then Some (ERR_APPEXECFWK_INSTALL_BUNDLE_MGR_SERVICE_ERROR, new2, old3, s4)
                      else
                        (let (r, s5) = update_tokens e (\<lambda>t. UpdateDefineAndRequestPermissions_call t (GetBundleName old3))
                                         (GetBundleName old3) (map snd (ib_innerBundleUserInfos old3)) s4
                         in if r \<noteq> ERR_OK then Some (r, new2, old3, s5)
                            else (let (r, s6) = SetDirApl_inst e new2 s5 in Some (r, new2, old3, s6)))
                 })))"

definition ProcessModuleUpdate ::
  "install_env \<Rightarrow> inner_bundle_info \<Rightarrow> inner_bundle_info \<Rightarrow> bool \<Rightarrow> bool \<Rightarrow> installer
     \<Rightarrow> (err_code \<times> inner_bundle_info \<times> inner_bundle_info \<times> installer) option" where
  "ProcessModuleUpdate e new old isReplace noSkipsKill s =
     (let n = in_bundleName s; sameVersion = (in_versionCode s = GetVersionCode old)
      in if \<not> verifyUriPrefix new (in_userId s) True (b_dm s) then Some (ERR_APPEXECFWK_INSTALL_URI_DUPLICATE, new, old, s)
         else if sameVersion \<and> CheckAppLabel old new \<noteq> ERR_OK then Some (CheckAppLabel old new, new, old, s)
         else if sameVersion \<and> \<not> isReplace then
           (if in_hasInstalledInUser s then Some (ERR_APPEXECFWK_INSTALL_ALREADY_EXIST, new, old, s)
            else (case set_state e n UPDATING_SUCCESS s of (ok, s1) \<Rightarrow>
                    Some (if ok then ERR_OK else ERR_APPEXECFWK_INSTALL_STATE_ERROR,
                          new\<lparr>ib_onlyCreateBundleUser := True\<rparr>, old, s1)))
         else
           (let (killed, s1) = (if noSkipsKill
                  then kill_op e (app_name (ib_baseApplicationInfo old)) (GetUid (in_userId s) old) s else (True, s))
            in if \<not> killed then Some (ERR_APPEXECFWK_INSTALL_INTERNAL_ERROR, new, old, s1)
               else replace_module e new old s1))"

definition singleton_change :: "inner_bundle_info \<Rightarrow> inner_bundle_info \<Rightarrow> singleton_state \<Rightarrow> singleton_state" where
  "singleton_change old new st =
     (if IsSingleton old \<and> \<not> IsSingleton new then SINGLETON_TO_NON
      else if \<not> IsSingleton old \<and> IsSingleton new then NON_TO_SINGLETON
      else st)"

text \<open>\<open>GetProvisionId\<close> throws when the id is shorter than the name before it.\<close>

definition ProcessBundleUpdateStatus ::
  "install_env \<Rightarrow> inner_bundle_info \<Rightarrow> inner_bundle_info \<Rightarrow> bool \<Rightarrow> bool \<Rightarrow> installer
     \<Rightarrow> (err_code \<times> inner_bundle_info \<times> inner_bundle_info \<times> installer) option" where
  "ProcessBundleUpdateStatus e old new isReplace noSkipsKill s =
     (let m = ib_currentPackage new; s0 = s\<lparr>in_modulePackage := m\<rparr>
      in if m = [] then Some (ERR_APPEXECFWK_INSTALL_PARAM_ERROR, old, new, s0)
         else
           (let s1 = s0\<lparr>in_uninstallModuleVec := (if in_isFeatureNeedUninstall s0 then in_uninstallModuleVec s0 @ [m]
                                                   else in_uninstallModuleVec s0),
                        in_singletonState := singleton_change old new (in_singletonState s0)\<rparr>
            in case set_state e (in_bundleName s1) UPDATING_START s1 of (ok, s2) \<Rightarrow>
                 if \<not> ok then Some (ERR_APPEXECFWK_INSTALL_STATE_ERROR, old, new, s2)
                 else do {
                   oldId \<leftarrow> GetProvisionId old;
                   newId \<leftarrow> GetProvisionId new;
                   if oldId \<noteq> newId then Some (ERR_APPEXECFWK_INSTALL_FAILED_INCONSISTENT_SIGNATURE, old, new, s2)
                   else do {
                     let new1 = RestoreFromOldInfo old new;
                     (r, new2, old2, s3) \<leftarrow>
                       (if FindModule m old then ProcessModuleUpdate e new1 old isReplace noSkipsKill s2
                        else Some (ProcessNewModuleInstall e new1 old s2));
                     Some (r, old2, new2, s3)
                   }
                 }))"

text \<open>The loop over the packages left: the information of the bundle is carried from one to the next.\<close>

fun update_haps ::
  "install_env \<Rightarrow> inner_bundle_user_info \<Rightarrow> bool \<Rightarrow> bool \<Rightarrow> inner_bundle_info \<Rightarrow> (string \<times> inner_bundle_info) list
     \<Rightarrow> installer \<Rightarrow> (err_code \<times> inner_bundle_info \<times> (string \<times> inner_bundle_info) list \<times> installer) option" where
  "update_haps e u isReplace noSkipsKill b [] s = Some (ERR_OK, b, [], s)"
| "update_haps e u isReplace noSkipsKill b ((path, new) # infos) s = do {
     let s1 = s\<lparr>in_modulePath := path\<rparr>;
     (r, b1, new1, s2) \<leftarrow> ProcessBundleUpdateStatus e b (AddInnerBundleUserInfo u new) isReplace noSkipsKill s1;
     if r \<noteq> ERR_OK then Some (r, b1, (path, new1) # infos, s2)
     else do {
       (r', b2, infos', s3) \<leftarrow> update_haps e u isReplace noSkipsKill b1 infos s2;
       Some (r', b2, (path, new1) # infos', s3)
     }
   }"

section \<open>Installing packages\<close>

text \<open>The part of \<open>InnerProcessBundleInstall\<close> that records the packages of a pre-installed bundle.\<close>

definition save_pre_install ::
  "install_env \<Rightarrow> (string \<times> inner_bundle_info) list \<Rightarrow> inner_bundle_info \<Rightarrow> installer \<Rightarrow> installer" where
  "save_pre_install e newInfos first s =
     (let n = in_bundleName s;
          old = (case GetPreInstallBundleInfo n (b_dm s) of
                   Some p \<Rightarrow> p
                 | None \<Rightarrow> \<lparr>pi_bundleName = n, pi_versionCode = 0, pi_bundlePaths = [], pi_appType = AppType_SYSTEM_APP\<rparr>);
          new = old\<lparr>pi_appType := ib_appType first, pi_versionCode := GetVersionCode first,
                    pi_bundlePaths := foldl (\<lambda>ps (path, _). if path \<in> set ps then ps else ps @ [path])
                                        (pi_bundlePaths old) newInfos\<rparr>
      in snd (dm_op e (\<lambda>_. SavePreInstallBundleInfo (env_preStored e (now s)) new) s))"

definition singleton_mismatch :: "bool \<Rightarrow> int \<Rightarrow> bool" where
  "singleton_mismatch isSingleton userId \<longleftrightarrow>
     (isSingleton \<and> userId \<noteq> DEFAULT_USERID) \<or> (\<not> isSingleton \<and> userId = DEFAULT_USERID)"

text \<open>The block for a bundle that exists: its checks, its new user and the modules it has already.\<close>

definition prepare_existing ::
  "install_env \<Rightarrow> (string \<times> inner_bundle_info) list \<Rightarrow> inner_bundle_info \<Rightarrow> installer
     \<Rightarrow> (err_code \<times> inner_bundle_info \<times> installer) option" where
  "prepare_existing e newInfos oldInfo s =
     (let r = CheckHapModleOrType oldInfo newInfos
      in if r \<noteq> ERR_OK then Some (r, oldInfo, s)
         else (case CheckVersionCompatibility (in_isContainEntry s) (in_versionCode s) oldInfo of (r, higher) \<Rightarrow>
           if r \<noteq> ERR_OK then Some (r, oldInfo, s)
           else do {
             let has = HasInnerBundleUserInfo (in_userId s) oldInfo;
             let s1 = s\<lparr>in_isFeatureNeedUninstall := in_isFeatureNeedUninstall s \<or> higher, in_hasInstalledInUser := has\<rparr>;
             (r, old1, s2) \<leftarrow> (if has then Some (ERR_OK, oldInfo, s1) else create_for_user e oldInfo (in_bundleName s1) s1);
             Some (r, old1,
                   if r \<noteq> ERR_OK then s2
                   else s2\<lparr>in_installedModules := in_installedModules s2 @
                             filter (\<lambda>p. FindModule p old1) (map (ib_currentPackage \<circ> snd) newInfos)\<rparr>)
           }))"

text \<open>The block for a bundle that does not exist: its first package.\<close>

definition install_first ::
  "install_env \<Rightarrow> install_param \<Rightarrow> string \<times> inner_bundle_info \<Rightarrow> installer
     \<Rightarrow> err_code \<times> (string \<times> inner_bundle_info) \<times> installer" where
  "install_first e param hap s =
     (let i = SetIsFreeInstallApp (ip_installFlag param = InstallFlag_FREE_INSTALL)
                (AddInnerBundleUserInfo (new_user (in_userId s) (in_bundleName s)) (snd hap));
          (r, i1, s1) = ProcessBundleInstallStatus e i (s\<lparr>in_modulePath := fst hap\<rparr>)
      in (r, (fst hap, i1), if r \<noteq> ERR_OK then s1 else s1\<lparr>in_hasInstalledInUser := True\<rparr>))"

text \<open>
  The last block: the packages \<open>rest\<close> update the bundle, and the guard at its end removes the data of
  the user again. \<open>installed\<close> are the packages before them.
\<close>

definition install_rest ::
  "install_env \<Rightarrow> install_param \<Rightarrow> inner_bundle_info \<Rightarrow> (string \<times> inner_bundle_info) list
     \<Rightarrow> (string \<times> inner_bundle_info) list \<Rightarrow> installer
     \<Rightarrow> (err_code \<times> (string \<times> inner_bundle_info) list \<times> inner_bundle_info \<times> installer) option" where
  "install_rest e param oldInfo installed rest s =
     (case GetInnerBundleInfo_inst e s of
        (None, s1) \<Rightarrow> Some (ERR_APPEXECFWK_INSTALL_BUNDLE_MGR_SERVICE_ERROR, installed @ rest, oldInfo, s1)
      | (Some b, s1) \<Rightarrow>
          (case GetInnerBundleUserInfo (in_userId s1) new_InnerBundleUserInfo b of
             (False, _) \<Rightarrow> Some (ERR_APPEXECFWK_USER_NOT_EXIST, installed @ rest, oldInfo, s1)
           | (True, u) \<Rightarrow> do {
               let isReplace = (ip_installFlag param = InstallFlag_REPLACE_EXISTING \<or> ip_installFlag param = InstallFlag_FREE_INSTALL);
               (r, _, rest1, s2) \<leftarrow> update_haps e u isReplace (ip_noSkipsKill param) b rest s1;
               if r \<noteq> ERR_OK \<and> (\<not> in_hasInstalledInUser s2 \<or> \<not> in_isAppExist s2) then do {
                 (_, old1, s3) \<leftarrow> RemoveBundleUserData e oldInfo False s2;
                 Some (r, installed @ rest1, old1, s3)
               } else Some (r, installed @ rest1, oldInfo, s2)
             }))"

text \<open>The packages are in the order of the hash map; dereferencing the end of an empty one is undefined.\<close>

definition InnerProcessBundleInstall ::
  "install_env \<Rightarrow> (string \<times> inner_bundle_info) list \<Rightarrow> install_param \<Rightarrow> installer
     \<Rightarrow> (err_code \<times> (string \<times> inner_bundle_info) list \<times> inner_bundle_info \<times> installer) option" where
  "InnerProcessBundleInstall e newInfos param s =
     (case newInfos of
        [] \<Rightarrow> None
      | (path, first) # _ \<Rightarrow>
          (let s1 = (if ip_needSavePreInstallInfo param then save_pre_install e newInfos first s else s)
           in if singleton_mismatch (IsSingleton first) (in_userId s1)
              then Some (ERR_APPEXECFWK_INSTALL_ZERO_USER_WITH_NO_SINGLETON, newInfos, new_InnerBundleInfo, s1)
              else
                (let (found, s2) = GetInnerBundleInfo_inst e s1;
                     oldInfo = (case found of None \<Rightarrow> new_InnerBundleInfo | Some i \<Rightarrow> i);
                     exist = (found \<noteq> None); s3 = s2\<lparr>in_isAppExist := exist\<rparr>;
                     infos = CheckEnableRemovable newInfos oldInfo (in_userId s3)
                               (ip_installFlag param = InstallFlag_FREE_INSTALL) exist
                 in if exist then do {
                      (r, old1, s4) \<leftarrow> prepare_existing e infos oldInfo s3;
                      if r \<noteq> ERR_OK then Some (r, infos, old1, s4) else install_rest e param old1 [] infos s4
                    }
                    else (case install_first e param (hd infos) s3 of (r, hap, s4) \<Rightarrow>
                            if r \<noteq> ERR_OK then Some (r, hap # tl infos, oldInfo, s4)
                            else install_rest e param oldInfo [hap] (tl infos) s4))))"

section \<open>Rolling back\<close>

definition RemoveInfo :: "install_env \<Rightarrow> string \<Rightarrow> string \<Rightarrow> installer \<Rightarrow> installer" where
  "RemoveInfo e bundleName packageName s =
     (if packageName = [] then snd (set_state e bundleName UPDATING_FAIL s)
      else (case GetInnerBundleInfo_inst e s of
              (None, s1) \<Rightarrow> s1
            | (Some i, s1) \<Rightarrow>
                (let (_, s2) = set_state e bundleName ROLL_BACK s1
                 in snd (dm_op e (\<lambda>kv d. ((), snd (snd (Mgr_RemoveModuleInfo kv bundleName packageName i d)))) s2))))"

definition RollBackMoudleInfo :: "install_env \<Rightarrow> string \<Rightarrow> inner_bundle_info \<Rightarrow> installer \<Rightarrow> installer" where
  "RollBackMoudleInfo e bundleName oldInfo s =
     (case GetInnerBundleInfo_inst e s of
        (None, s1) \<Rightarrow> s1
      | (Some i, s1) \<Rightarrow>
          (let (_, s2) = set_state e bundleName ROLL_BACK s1
           in snd (dm_op e (\<lambda>kv d. ((), snd (snd (UpdateInnerBundleInfo kv bundleName oldInfo i d)))) s2)))"

definition RollBack_module ::
  "install_env \<Rightarrow> inner_bundle_info \<Rightarrow> inner_bundle_info \<Rightarrow> installer \<Rightarrow> inner_bundle_info \<times> installer" where
  "RollBack_module e i oldInfo s =
     (let m = ib_currentPackage i in
      if m \<in> set (in_installedModules s) then
        (let (_, s1) = RemoveModuleDir e (GetAppCodePath i @ PATH_SEPARATOR @ m @ TMP_SUFFIX) s;
             old1 = oldInfo\<lparr>ib_currentPackage := m\<rparr>
         in (old1, RollBackMoudleInfo e (in_bundleName s1) old1 s1))
      else
        (let (_, s1) = RemoveModuleDir e (GetModuleDir m i) s
         in (oldInfo, RemoveInfo e (in_bundleName s1) m s1)))"

definition RollBack ::
  "install_env \<Rightarrow> (string \<times> inner_bundle_info) list \<Rightarrow> inner_bundle_info \<Rightarrow> installer \<Rightarrow> installer option" where
  "RollBack e newInfos oldInfo s =
     (if \<not> in_isAppExist s then
        (case newInfos of
           [] \<Rightarrow> None
         | (_, first) # _ \<Rightarrow>
             (let (_, s1) = RemoveBundleAndDataDir_inst e first False s;
                  (_, s2) = perm_op e (DeleteAccessTokenId_call (GetAccessTokenId (in_userId s1) first)) s1
              in Some (RemoveInfo e (in_bundleName s2) [] s2)))
      else (case GetInnerBundleInfo_inst e s of
              (None, s1) \<Rightarrow> Some s1
            | (Some preInfo, s1) \<Rightarrow>
                (let (old1, s2) = foldl (\<lambda>(old, s) (_, i). RollBack_module e i old s) (oldInfo, s1) newInfos
                 in Some (snd (UpdateDefineAndRequestPermissions e preInfo old1 s2)))))"

section \<open>After the packages are in place\<close>

fun rename_modules :: "install_env \<Rightarrow> (string \<times> inner_bundle_info) list \<Rightarrow> installer \<Rightarrow> err_code \<times> installer" where
  "rename_modules e [] s = (ERR_OK, s)"
| "rename_modules e ((_, i) # infos) s =
     (if ib_onlyCreateBundleUser i then rename_modules e infos s
      else (case RenameModuleDir_inst e i s of (r, s1) \<Rightarrow> if r \<noteq> ERR_OK then (r, s1) else rename_modules e infos s1))"

fun remove_modules ::
  "install_env \<Rightarrow> string list \<Rightarrow> inner_bundle_info \<Rightarrow> installer \<Rightarrow> err_code \<times> inner_bundle_info \<times> installer" where
  "remove_modules e [] i s = (ERR_OK, i, s)"
| "remove_modules e (m # ms) i s =
     (case RemoveModuleAndDataDir e i m UNSPECIFIED_USERID True s of (r, s1) \<Rightarrow>
        if r \<noteq> ERR_OK then (r, i, s1)
        else
          (let ((ok, i1), s2) = dm_op e (\<lambda>kv d. (case Mgr_RemoveModuleInfo kv (in_bundleName s1) m i d of
                                  (ok, i', d') \<Rightarrow> ((ok, i'), d'))) s1
           in if \<not> ok then (ERR_APPEXECFWK_INSTALL_BUNDLE_MGR_SERVICE_ERROR, i1, s2) else remove_modules e ms i1 s2))"

definition UninstallLowerVersionFeature :: "install_env \<Rightarrow> string list \<Rightarrow> installer \<Rightarrow> err_code \<times> installer" where
  "UninstallLowerVersionFeature e packageVec s =
     (case GetInnerBundleInfo_inst e s of
        (None, s1) \<Rightarrow> (ERR_APPEXECFWK_UNINSTALL_BUNDLE_MGR_SERVICE_ERROR, s1)
      | (Some i, s1) \<Rightarrow>
          (case set_state e (in_bundleName s1) UNINSTALL_START s1 of (ok, s2) \<Rightarrow>
             if \<not> ok then (ERR_APPEXECFWK_INSTALL_BUNDLE_MGR_SERVICE_ERROR, s2)
             else
               (let (_, s3) = kill_op e (app_name (ib_baseApplicationInfo i)) (GetUid (in_userId s2) i) s2;
                    (r, i1, s4) = remove_modules e (filter (\<lambda>m. m \<notin> set packageVec) (GetModuleNameVec i)) i s3
                in if r \<noteq> ERR_OK then (r, s4) else UpdateDefineAndRequestPermissions e i i1 s4)))"

definition SaveHapPathToRecords :: "bool \<Rightarrow> (string \<times> inner_bundle_info) list \<Rightarrow> installer \<Rightarrow> installer" where
  "SaveHapPathToRecords isPreInstallApp infos s =
     (if isPreInstallApp then s
      else s\<lparr>in_hapPathRecords := foldl (\<lambda>m (path, i). sm_emplace path (GetHapPath i (GetModuleName (ib_currentPackage i) i)) m)
                                   (in_hapPathRecords s) infos\<rparr>)"

definition ResetInstallProperties :: "installer \<Rightarrow> installer" where
  "ResetInstallProperties s =
     s\<lparr>in_isContainEntry := False, in_isAppExist := False, in_hasInstalledInUser := False,
       in_isFeatureNeedUninstall := False, in_versionCode := 0, in_uninstallModuleVec := [],
       in_installedModules := [], in_state := 0, in_singletonState := SingletonState_DEFAULT\<rparr>"

fun uninstall_for :: "install_env \<Rightarrow> install_param \<Rightarrow> int list \<Rightarrow> installer \<Rightarrow> installer option" where
  "uninstall_for e param [] s = Some s"
| "uninstall_for e param (v # vs) s =
     (if v = DEFAULT_USERID then uninstall_for e param vs s
      else do {
        (_, s1) \<leftarrow> UninstallBundle e (in_bundleName s) (param\<lparr>ip_userId := v\<rparr>) s;
        uninstall_for e param vs s1
      })"

definition OnSingletonChange :: "install_env \<Rightarrow> installer \<Rightarrow> installer option" where
  "OnSingletonChange e s =
     (if in_singletonState s = SingletonState_DEFAULT then Some s
      else (case GetInnerBundleInfo_inst e s of
              (None, s1) \<Rightarrow> Some s1
            | (Some i, s1) \<Rightarrow>
                (let param = new_InstallParam\<lparr>ip_needSendEvent := False, ip_forceExecuted := True, ip_noSkipsKill := False\<rparr>
                 in if in_singletonState s1 = SINGLETON_TO_NON
                    then map_option snd (UninstallBundle e (in_bundleName s1) (param\<lparr>ip_userId := DEFAULT_USERID\<rparr>) s1)
                    else uninstall_for e param
                           (map (\<lambda>(_, u). bu_userId (iu_bundleUserInfo u)) (ib_innerBundleUserInfos i)) s1)))"

section \<open>Processing an installation\<close>

text \<open>
  The checks before the first change, with the progress they report. \<open>CheckAppLabelInfo\<close> sets the
  version even when it fails and the name only when it succeeds.
\<close>

definition check_install ::
  "install_env \<Rightarrow> string list \<Rightarrow> install_param \<Rightarrow> app_type \<Rightarrow> installer
     \<Rightarrow> ((err_code + (string \<times> inner_bundle_info) list) \<times> installer) option" where
  "check_install e paths param appType s =
     (let s0 = s\<lparr>in_userId := GetUserId_inst (ip_userId param)\<rparr>
      in if in_userId s0 = INVALID_USERID then Some (Inl ERR_APPEXECFWK_INSTALL_PARAM_ERROR, s0)
         else if \<not> HasUserId (in_userId s0) (b_dm s0) then Some (Inl ERR_APPEXECFWK_USER_NOT_EXIST, s0)
         else (case env_checkPaths e paths of
           Inl r \<Rightarrow> Some (Inl r, s0)
         | Inr bundlePaths \<Rightarrow>
             (let s1 = s0\<lparr>in_state := 5\<rparr>; r = CheckSysCap e bundlePaths
              in if r \<noteq> ERR_OK then Some (Inl r, s1)
                 else (case CheckMultipleHapsSignInfo e bundlePaths of
                   Inl r \<Rightarrow> Some (Inl r, s1\<lparr>in_state := 10\<rparr>)
                 | Inr provs \<Rightarrow>
                     (case ParseHapFiles e bundlePaths param appType provs (in_isContainEntry s1) of
                        (Inl r, entry) \<Rightarrow> Some (Inl r, s1\<lparr>in_state := 15, in_isContainEntry := entry\<rparr>)
                      | (Inr parsed, entry) \<Rightarrow>
                          (let s2 = s1\<lparr>in_state := 20, in_isContainEntry := entry\<rparr>
                           in case CheckHapHashParams (in_order e parsed) (ip_hashParams param) of
                                Inl r \<Rightarrow> Some (Inl r, s2)
                              | Inr [] \<Rightarrow> None
                              | Inr ((path, first) # infos) \<Rightarrow>
                                  (let r = CheckAppLabelInfo first ((path, first) # infos);
                                       s3 = s2\<lparr>in_state := 25, in_versionCode := GetVersionCode first\<rparr>
                                   in if r \<noteq> ERR_OK then Some (Inl r, s3)
                                      else Some (Inr ((path, first) # infos),
                                                 s3\<lparr>in_state := 30, in_bundleName := GetBundleName first\<rparr>))))))))"

definition no_rollback :: "err_code \<Rightarrow> bool" where
  "no_rollback r \<longleftrightarrow> r = ERR_APPEXECFWK_INSTALL_SINGLETON_NOT_SAME \<or> r = ERR_APPEXECFWK_INSTALL_ZERO_USER_WITH_NO_SINGLETON"

text \<open>What runs under the two guards.\<close>

definition install_checked ::
  "install_env \<Rightarrow> (string \<times> inner_bundle_info) list \<Rightarrow> install_param \<Rightarrow> installer \<Rightarrow> (err_code \<times> installer) option" where
  "install_checked e newInfos param s = do {
     (r, infos, oldInfo, s1) \<leftarrow> InnerProcessBundleInstall e newInfos param s;
     if no_rollback r then Some (r, s1)
     else if r \<noteq> ERR_OK then map_option (Pair r) (RollBack e infos oldInfo s1)
     else (case rename_modules e infos (s1\<lparr>in_state := 80\<rparr>) of (r, s2) \<Rightarrow>
       let s3 = s2\<lparr>in_state := 90\<rparr>
       in if no_rollback r then Some (r, s3)
          else if r \<noteq> ERR_OK then map_option (Pair r) (RollBack e infos oldInfo s3)
          else do {
            let s4 = (if in_uninstallModuleVec s3 \<noteq> [] then snd (UninstallLowerVersionFeature e (in_uninstallModuleVec s3) s3) else s3);
            let s5 = (SaveHapPathToRecords (ip_isPreInstallApp param) infos s4)\<lparr>in_state := 100\<rparr>;
            s6 \<leftarrow> OnSingletonChange e s5;
            Some (ERR_OK, s6)
          })
   }"

text \<open>The guards run in the opposite order of their declaration.\<close>

definition ProcessBundleInstall ::
  "install_env \<Rightarrow> string list \<Rightarrow> install_param \<Rightarrow> app_type \<Rightarrow> installer \<Rightarrow> (err_code \<times> installer) option" where
  "ProcessBundleInstall e paths param appType s = do {
     (checked, s1) \<leftarrow> check_install e paths param appType s;
     case checked of
       Inl r \<Rightarrow> Some (r, s1)
     | Inr newInfos \<Rightarrow> do {
         (_, s2) \<leftarrow> UninstallAllSandboxApps e (in_bundleName s1) INVALID_USERID s1;
         (r, s3) \<leftarrow> install_checked e newInfos param (s2\<lparr>in_state := 50\<rparr>);
         let (_, s4) = enable_bundle e (in_bundleName s3) s3;
         let (_, s5) = set_state e (in_bundleName s4) INSTALL_SUCCESS s4;
         Some (r, s5)
       }
   }"

section \<open>Installing a bundle by its name\<close>

definition InnerProcessInstallByPreInstallInfo ::
  "install_env \<Rightarrow> string \<Rightarrow> install_param \<Rightarrow> bool \<Rightarrow> installer \<Rightarrow> (err_code \<times> installer) option" where
  "InnerProcessInstallByPreInstallInfo e bundleName param recoverMode s =
     (let userId = GetUserId_inst (ip_userId param); s0 = s\<lparr>in_userId := userId\<rparr>
      in if userId = INVALID_USERID then Some (ERR_APPEXECFWK_INSTALL_PARAM_ERROR, s0)
         else if \<not> HasUserId userId (b_dm s0) then Some (ERR_APPEXECFWK_USER_NOT_EXIST, s0)
         else (case get_info e bundleName s0 of
           (Some oldInfo, s1) \<Rightarrow>
             (let (_, s2) = enable_bundle e bundleName s1; s3 = s2\<lparr>in_versionCode := GetVersionCode oldInfo\<rparr>
              in if HasInnerBundleUserInfo userId oldInfo then Some (ERR_APPEXECFWK_INSTALL_ALREADY_EXIST, s3)
                 else if singleton_mismatch (IsSingleton oldInfo) userId
                 then Some (ERR_APPEXECFWK_INSTALL_ZERO_USER_WITH_NO_SINGLETON, s3)
                 else map_option (\<lambda>(r, _, s4). (r, s4)) (create_for_user e oldInfo bundleName s3))
         | (None, s1) \<Rightarrow>
             (case GetPreInstallBundleInfo bundleName (b_dm s1) of
                None \<Rightarrow> Some (ERR_APPEXECFWK_INSTALL_INVALID_BUNDLE_FILE, s1)
              | Some p \<Rightarrow>
                  if pi_bundlePaths p = [] then Some (ERR_APPEXECFWK_INSTALL_INVALID_BUNDLE_FILE, s1)
                  else if recoverMode \<and> pi_appType p \<noteq> AppType_SYSTEM_APP
                  then Some (ERR_APPEXECFWK_RECOVER_GET_BUNDLEPATH_ERROR, s1)
                  else ProcessBundleInstall e (pi_bundlePaths p) (param\<lparr>ip_isPreInstallApp := True\<rparr>) (pi_appType p) s1)))"

definition ProcessInstallBundleByBundleName ::
  "install_env \<Rightarrow> string \<Rightarrow> install_param \<Rightarrow> installer \<Rightarrow> (err_code \<times> installer) option" where
  "ProcessInstallBundleByBundleName e bundleName param = InnerProcessInstallByPreInstallInfo e bundleName param False"

definition ProcessRecover ::
  "install_env \<Rightarrow> string \<Rightarrow> install_param \<Rightarrow> installer \<Rightarrow> (err_code \<times> installer) option" where
  "ProcessRecover e bundleName param = InnerProcessInstallByPreInstallInfo e bundleName param True"

end
