(* ===== verification/Installer_Steps.thy ===== *)
theory Installer_Steps
  imports Bundle_Installer
begin

text \<open>
  The installer as a client of the data manager. The locale states what a relation on the states of
  the data manager has to satisfy so that it relates the states before and after everything that the
  installers do: it is reflexive, transitive and holds for every operation that they call on a bundle
  of the set \<open>N\<close>. It is interpreted with the step relation of the data manager, which makes the
  installer a refinement of it, and with the relation that keeps every bundle outside \<open>N\<close>.
\<close>

section \<open>The interface\<close>

locale data_mgr_client =
  fixes N :: "string set" and R :: "data_mgr \<Rightarrow> data_mgr \<Rightarrow> bool"
  assumes refl: "R d d"
    and trans: "R d d1 \<Longrightarrow> R d1 d2 \<Longrightarrow> R d d2"
    and keeps: "mgr_inv d \<Longrightarrow> R d d' \<Longrightarrow> mgr_inv d'"
    and state: "mgr_inv d \<Longrightarrow> n \<in> N \<Longrightarrow> R d (snd (UpdateBundleInstallState kv n st d))"
    and add: "mgr_inv d \<Longrightarrow> n \<in> N \<Longrightarrow> GetBundleName i = n \<Longrightarrow> R d (snd (AddInnerBundleInfo kv n i d))"
    and add_module: "mgr_inv d \<Longrightarrow> n \<in> N \<Longrightarrow> GetBundleName new = n \<Longrightarrow> GetBundleName old = n \<Longrightarrow>
          R d (snd (snd (AddNewModuleInfo kv n new old d)))"
    and update_module: "mgr_inv d \<Longrightarrow> n \<in> N \<Longrightarrow> GetBundleName new = n \<Longrightarrow> GetBundleName old = n \<Longrightarrow>
          R d (snd (snd (UpdateInnerBundleInfo kv n new old d)))"
    and remove_module: "mgr_inv d \<Longrightarrow> n \<in> N \<Longrightarrow> GetBundleName old = n \<Longrightarrow>
          R d (snd (snd (Mgr_RemoveModuleInfo kv n m old d)))"
    and add_user: "mgr_inv d \<Longrightarrow> n \<in> N \<Longrightarrow> R d (snd (Mgr_AddInnerBundleUserInfo kv n u d))"
    and remove_user: "mgr_inv d \<Longrightarrow> n \<in> N \<Longrightarrow> Mgr_RemoveInnerBundleUserInfo kv js n v d = Some (r, d') \<Longrightarrow> R d d'"
    and get: "mgr_inv d \<Longrightarrow> n \<in> N \<Longrightarrow> R d (snd (GetInnerBundleInfo n d))"
    and enable: "mgr_inv d \<Longrightarrow> n \<in> N \<Longrightarrow> R d (snd (EnableBundle n d))"
    and delete_sandbox: "mgr_inv d \<Longrightarrow> n \<in> N \<Longrightarrow> R d (DeleteSandboxPersistentInfo kv n p d)"
    and uid: "mgr_inv d \<Longrightarrow> R d (snd (snd (GenerateUidAndGid u d)))"
    and save: "mgr_inv d \<Longrightarrow> GetBundleName i \<in> N \<Longrightarrow> R d (snd (SaveInnerBundleInfo kv i d))"
    and recycle: "mgr_inv d \<Longrightarrow> R d (RecycleUidAndGid i d)"
    and remove_clone: "mgr_inv d \<Longrightarrow> n \<in> N \<Longrightarrow> R d (snd (RemoveClonedBundleInfo kv n d))"
    and save_pre: "mgr_inv d \<Longrightarrow> R d (snd (SavePreInstallBundleInfo ok q d))"

text \<open>
  \<open>reach R s0 s\<close>: the state \<open>s\<close> was reached from \<open>s0\<close> by operations of the data manager, and the
  installer still works on the same bundle.
\<close>

definition reach :: "(data_mgr \<Rightarrow> data_mgr \<Rightarrow> bool) \<Rightarrow> installer \<Rightarrow> installer \<Rightarrow> bool" where
  "reach R s0 s \<longleftrightarrow> mgr_inv (b_dm s) \<and> R (b_dm s0) (b_dm s) \<and>
     in_bundleName s = in_bundleName s0 \<and> in_cloneMgr s = in_cloneMgr s0 \<and>
     in_isAppExist s = in_isAppExist s0"

lemma reach_update [simp]:
  "reach R s0 (s\<lparr>in_state := a\<rparr>) = reach R s0 s"
  "reach R s0 (s\<lparr>in_modulePath := b\<rparr>) = reach R s0 s"
  "reach R s0 (s\<lparr>in_modulePackage := b\<rparr>) = reach R s0 s"
  "reach R s0 (s\<lparr>in_installedModules := c\<rparr>) = reach R s0 s"
  "reach R s0 (s\<lparr>in_versionCode := v\<rparr>) = reach R s0 s"
  "reach R s0 (s\<lparr>in_isFeatureNeedUninstall := f\<rparr>) = reach R s0 s"
  "reach R s0 (s\<lparr>in_uninstallModuleVec := c\<rparr>) = reach R s0 s"
  "reach R s0 (s\<lparr>in_userId := u\<rparr>) = reach R s0 s"
  "reach R s0 (s\<lparr>in_hasInstalledInUser := f\<rparr>) = reach R s0 s"
  "reach R s0 (s\<lparr>in_singletonState := g\<rparr>) = reach R s0 s"
  "reach R s0 (s\<lparr>in_hapPathRecords := h\<rparr>) = reach R s0 s"
  "reach R s0 (s\<lparr>b_sandbox := x\<rparr>) = reach R s0 s"
  "reach R s0 (log_call c' s) = reach R s0 s"
  by (simp_all add: reach_def log_call_def)

lemma reach_ext:
  "fs_op e c s = (r, s') \<Longrightarrow> reach R s0 s \<Longrightarrow> reach R s0 s'"
  "perm_op e p s = (ok, s') \<Longrightarrow> reach R s0 s \<Longrightarrow> reach R s0 s'"
  "token_op e n v s = (t, s') \<Longrightarrow> reach R s0 s \<Longrightarrow> reach R s0 s'"
  "kill_op e n v s = (ok, s') \<Longrightarrow> reach R s0 s \<Longrightarrow> reach R s0 s'"
  by (auto simp: fs_op_def perm_op_def token_op_def kill_op_def)

lemma reach_name: "reach R s0 s \<Longrightarrow> in_bundleName s0 \<in> N \<Longrightarrow> in_bundleName s \<in> N"
  by (simp add: reach_def)

lemma reach_sandbox [simp]: "reach R s0 (upd_sandbox f s) = reach R s0 s"
  by (simp add: upd_sandbox_def)

lemma reach_named:
  assumes "reach R s0 s" "get_info e n s = (Some i, s')"
  shows "GetBundleName i = n"
  using assms by (auto simp: reach_def dm_op_def GetInnerBundleInfo_def mgr_inv_def named_def split: if_splits option.splits)

lemma reach_snd [intro!]: "(\<And>r s'. x = (r, s') \<Longrightarrow> reach R s0 s') \<Longrightarrow> reach R s0 (snd x)"
  by (cases x) simp

section \<open>No operation renames the bundle\<close>

lemma GetBundleName_marks [simp]:
  "GetBundleName (SetBundleInstallTime t v i) = GetBundleName i"
  "GetBundleName (SetBundleUpdateTime t v i) = GetBundleName i"
  "GetBundleName (SetAccessTokenId k v i) = GetBundleName i"
  "GetBundleName (SetInstallMark n m st i) = GetBundleName i"
  "GetBundleName (i\<lparr>ib_currentPackage := p\<rparr>) = GetBundleName i"
  "GetBundleName (i\<lparr>ib_onlyCreateBundleUser := b\<rparr>) = GetBundleName i"
  by (simp_all add: SetBundleInstallTime_def SetBundleUpdateTime_def SetAccessTokenId_def SetInstallMark_def
      GetBundleName_def Let_def upd_user_info_def)

lemma kept_name:
  "CreateBundleCodeDir e i s = (r, i', s') \<Longrightarrow> GetBundleName i' = GetBundleName i"
  "CreateBundleDataDir_inst e i s = (r, i', s') \<Longrightarrow> GetBundleName i' = GetBundleName i"
  "ExtractModule e i p s = (r, i', s') \<Longrightarrow> GetBundleName i' = GetBundleName i"
  by (auto simp: CreateBundleCodeDir_def CreateBundleDataDir_inst_def ExtractModule_def Let_def
      split: prod.splits if_splits bool.splits)

definition all_named :: "string \<Rightarrow> (string \<times> inner_bundle_info) list \<Rightarrow> bool" where
  "all_named n infos \<longleftrightarrow> (\<forall>(_, i) \<in> set infos. GetBundleName i = n)"

lemma all_named_simps [simp]:
  "all_named n []" "all_named n (hap # infos) \<longleftrightarrow> GetBundleName (snd hap) = n \<and> all_named n infos"
  "all_named n (xs @ ys) \<longleftrightarrow> all_named n xs \<and> all_named n ys"
  by (auto simp: all_named_def)

lemma GetBundleName_enable_removable [simp]: "GetBundleName (enable_removable old v f x i k) = GetBundleName i"
  by (auto simp: enable_removable_def SetModuleRemovable_def GetBundleName_def Let_def split: option.splits)

lemma all_named_CheckEnableRemovable:
  assumes "all_named n infos"
  shows "all_named n (CheckEnableRemovable infos old v f x)"
proof -
  have "GetBundleName (foldl (enable_removable old v f x) i ks) = GetBundleName i" for i ks
    by (induction ks arbitrary: i) auto
  then show ?thesis using assms by (auto simp: all_named_def CheckEnableRemovable_def)
qed

lemma first_error_OK: "first_error f xs = ERR_OK \<longleftrightarrow> (\<forall>x \<in> set xs. f x = ERR_OK)"
  by (induction xs) auto

lemma check_install_names:
  assumes "check_install e paths param appType s = Some (checked, s')"
  shows "b_dm s' = b_dm s" "in_cloneMgr s' = in_cloneMgr s"
    "checked = Inr infos \<Longrightarrow> all_named (in_bundleName s') infos"
proof -
  have names: "all_named (GetBundleName f) infos" if "CheckAppLabelInfo f infos = ERR_OK" for f infos
    using that by (auto simp: CheckAppLabelInfo_def first_error_OK same_label_def Let_def all_named_def split: if_splits)
  show "b_dm s' = b_dm s" "in_cloneMgr s' = in_cloneMgr s" "checked = Inr infos \<Longrightarrow> all_named (in_bundleName s') infos"
    using assms by (auto simp: check_install_def Let_def split: if_splits sum.splits prod.splits list.splits dest!: names)
qed

section \<open>Calls of the data manager\<close>

context data_mgr_client
begin

lemma reach_refl: "mgr_inv (b_dm s) \<Longrightarrow> reach R s s"
  by (simp add: reach_def refl)

lemma reach_rebase:
  "reach R s0 s \<Longrightarrow> reach R (s\<lparr>in_isAppExist := x\<rparr>) s' \<Longrightarrow> reach R (s0\<lparr>in_isAppExist := x\<rparr>) s'"
  by (auto simp: reach_def intro: trans)

lemma reach_dm:
  assumes "dm_op e f s = (r, s')" "reach R s0 s" "\<And>kv d. mgr_inv d \<Longrightarrow> R d (snd (f kv d))"
  shows "reach R s0 s'"
proof -
  have d: "b_dm s' = snd (f (env_kv e (now s)) (b_dm s))" and n: "in_bundleName s' = in_bundleName s" "in_cloneMgr s' = in_cloneMgr s"
    "in_isAppExist s' = in_isAppExist s"
    using assms(1) by (auto simp: dm_op_def log_call_def split: prod.splits)
  have inv: "mgr_inv (b_dm s)" using assms(2) by (simp add: reach_def)
  have "R (b_dm s) (b_dm s')" using assms(3) [OF inv] by (simp add: d)
  then show ?thesis using assms(2) keeps [OF inv] trans unfolding reach_def n by blast
qed

lemma reach_ops:
  "set_state e n st s = (ok, s') \<Longrightarrow> reach R s0 s \<Longrightarrow> n \<in> N \<Longrightarrow> reach R s0 s'"
  "get_info e n s = (found, s') \<Longrightarrow> reach R s0 s \<Longrightarrow> n \<in> N \<Longrightarrow> reach R s0 s'"
  "enable_bundle e n s = (ok, s') \<Longrightarrow> reach R s0 s \<Longrightarrow> n \<in> N \<Longrightarrow> reach R s0 s'"
  "save_info e i s = (ok, s') \<Longrightarrow> reach R s0 s \<Longrightarrow> GetBundleName i \<in> N \<Longrightarrow> reach R s0 s'"
  "dm_op e (\<lambda>kv. AddInnerBundleInfo kv n i) s = (ok, s') \<Longrightarrow> reach R s0 s \<Longrightarrow> n \<in> N \<Longrightarrow> GetBundleName i = n \<Longrightarrow> reach R s0 s'"
  "dm_op e (\<lambda>kv. Mgr_AddInnerBundleUserInfo kv n u) s = (ok, s') \<Longrightarrow> reach R s0 s \<Longrightarrow> n \<in> N \<Longrightarrow> reach R s0 s'"
  "dm_op e (\<lambda>kv. RemoveClonedBundleInfo kv n) s = (ok, s') \<Longrightarrow> reach R s0 s \<Longrightarrow> n \<in> N \<Longrightarrow> reach R s0 s'"
  "dm_op e (\<lambda>_. SavePreInstallBundleInfo b q) s = (ok, s') \<Longrightarrow> reach R s0 s \<Longrightarrow> reach R s0 s'"
  "dm_op e (\<lambda>_ d. ((), RecycleUidAndGid i d)) s = (x, s') \<Longrightarrow> reach R s0 s \<Longrightarrow> reach R s0 s'"
  "dm_op e (\<lambda>kv d. ((), DeleteSandboxPersistentInfo kv n p d)) s = (x, s') \<Longrightarrow> reach R s0 s \<Longrightarrow> n \<in> N \<Longrightarrow> reach R s0 s'"
  using state get enable save add add_user remove_clone save_pre recycle delete_sandbox
  by (auto elim!: reach_dm)

lemma reach_remove_user:
  assumes "remove_user_op e n v s = Some (ok, s')" "reach R s0 s" "n \<in> N"
  shows "reach R s0 s'"
proof -
  obtain d where d: "Mgr_RemoveInnerBundleUserInfo (env_kv e (now s)) (env_js e) n v (b_dm s) = Some (ok, d)"
    and s': "s' = log_call Store (s\<lparr>b_dm := d\<rparr>)" using assms(1) by (auto simp: remove_user_op_def)
  have inv: "mgr_inv (b_dm s)" using assms(2) by (simp add: reach_def)
  have "R (b_dm s) d" by (rule remove_user [OF inv assms(3) d])
  then show ?thesis using assms(2) keeps [OF inv] trans unfolding s' by (auto simp: reach_def log_call_def)
qed

section \<open>Directories and permissions\<close>

lemma reach_uid:
  assumes "dm_op e (\<lambda>_ d. (case GenerateUidAndGid u d of (ok, u1, d1) \<Rightarrow> ((ok, u1), d1))) s = (r, s')" "reach R s0 s"
  shows "reach R s0 s'"
proof (rule reach_dm [OF assms])
  fix d show "R d (snd (case GenerateUidAndGid u d of (ok, u1, d1) \<Rightarrow> ((ok, u1), d1)))" if "mgr_inv d" for kv :: kv_env
    using uid [OF that, of u] by (simp add: split_beta)
qed

lemma reach_dirs:
  "CreateBundleCodeDir e i s = (r, i', s') \<Longrightarrow> reach R s0 s \<Longrightarrow> reach R s0 s'"
  "CreateBundleDataDir_inst e i s = (r, i', s') \<Longrightarrow> reach R s0 s \<Longrightarrow> reach R s0 s'"
  "ExtractModule e i p s = (r, i', s') \<Longrightarrow> reach R s0 s \<Longrightarrow> reach R s0 s'"
  by (auto simp: CreateBundleCodeDir_def CreateBundleDataDir_inst_def ExtractModule_def Let_def
      split: prod.splits if_splits bool.splits intro: reach_ext reach_uid)

lemma reach_both_dirs: "CreateBundleAndDataDir e i s = (r, i', s') \<Longrightarrow> reach R s0 s \<Longrightarrow> reach R s0 s'"
  by (auto simp: CreateBundleAndDataDir_def Let_def split: prod.splits if_splits; blast intro: reach_ext reach_dirs)

lemma reach_remove_dirs:
  "RemoveBundleAndDataDir_inst e i keep s = (r, s') \<Longrightarrow> reach R s0 s \<Longrightarrow> reach R s0 s'"
  "RemoveModuleDataDir_inst e i m v s = (r, s') \<Longrightarrow> reach R s0 s \<Longrightarrow> reach R s0 s'"
  "RemoveModuleDir e p s = (r, s') \<Longrightarrow> reach R s0 s \<Longrightarrow> reach R s0 s'"
  "RemoveBundleDataDir_inst e i s = (r, s') \<Longrightarrow> reach R s0 s \<Longrightarrow> reach R s0 s'"
  "RenameModuleDir_inst e i s = (r, s') \<Longrightarrow> reach R s0 s \<Longrightarrow> reach R s0 s'"
  by (auto simp: RemoveBundleAndDataDir_inst_def RemoveBundleCodeDir_def RemoveBundleDataDir_inst_def
      RemoveModuleDataDir_inst_def RemoveModuleDir_def RenameModuleDir_inst_def Let_def
      split: prod.splits if_splits option.splits intro: reach_ext)

lemma reach_user_data_dirs:
  "reach R s0 s \<Longrightarrow> reach R s0 (foldl (\<lambda>s (_, u). snd (RemoveModuleDataDir_inst e i m (bu_userId (iu_bundleUserInfo u)) s)) s us)"
  by (induction us arbitrary: s) (auto intro: reach_remove_dirs)

lemma reach_RemoveModuleAndDataDir:
  "RemoveModuleAndDataDir e i m v keep s = (r, s') \<Longrightarrow> reach R s0 s \<Longrightarrow> reach R s0 s'"
  by (auto simp: RemoveModuleAndDataDir_def split: prod.splits if_splits; blast intro: reach_remove_dirs reach_user_data_dirs)

lemma reach_set_dir_apls: "set_dir_apls e i els s = (r, s') \<Longrightarrow> reach R s0 s \<Longrightarrow> reach R s0 s'"
  by (induction els arbitrary: s) (auto simp: Let_def split: prod.splits if_splits, (blast intro: reach_ext)+)

lemma reach_GrantRequestPermissions: "GrantRequestPermissions e i t s = (r, s') \<Longrightarrow> reach R s0 s \<Longrightarrow> reach R s0 s'"
  by (auto simp: GrantRequestPermissions_def split: prod.splits intro: reach_ext)

lemma reach_update_tokens: "update_tokens e call n us s = (r, s') \<Longrightarrow> reach R s0 s \<Longrightarrow> reach R s0 s'"
  by (induction us arbitrary: s) (auto split: prod.splits if_splits, (blast intro: reach_ext)+)

lemmas reach_external = reach_ext reach_uid reach_dirs reach_both_dirs reach_remove_dirs
  reach_RemoveModuleAndDataDir reach_set_dir_apls reach_GrantRequestPermissions reach_update_tokens

section \<open>The data of a user\<close>

lemma reach_CreateBundleUserData:
  assumes "CreateBundleUserData e i s = (r, i', s')" "reach R s0 s" "GetBundleName i \<in> N"
  shows "reach R s0 s'" "GetBundleName i' = GetBundleName i"
proof -
  show name: "GetBundleName i' = GetBundleName i"
    using assms(1) by (auto simp: CreateBundleUserData_def Let_def split: prod.splits if_splits bool.splits dest: kept_name)
  show "reach R s0 s'"
    using assms by (auto simp: CreateBundleUserData_def Let_def split: prod.splits if_splits bool.splits dest: kept_name;
        auto intro: reach_external reach_ops simp: kept_name)
qed

lemma reach_RemoveBundleUserData:
  assumes "RemoveBundleUserData e i keep s = Some (r, i', s')" "reach R s0 s" "GetBundleName i \<in> N"
  shows "reach R s0 s'" "GetBundleName i' = GetBundleName i"
  using assms by (auto simp: RemoveBundleUserData_def Let_def split: prod.splits if_splits Option.bind_splits;
      (elim reach_external reach_ops reach_remove_user | simp)+)+

lemma reach_create_for_user:
  assumes "create_for_user e i n s = Some (r, i', s')" "reach R s0 s" "GetBundleName i \<in> N"
  shows "reach R s0 s'" "GetBundleName i' = GetBundleName i"
proof -
  let ?i = "AddInnerBundleUserInfo (new_user (in_userId s) n) i"
  obtain token s1 where s1: "token_op e (GetBundleName ?i) (in_userId s) s = (token, s1)" by fastforce
  let ?i2 = "SetAccessTokenId token (in_userId s) ?i"
  obtain r2 s2 where s2: "GrantRequestPermissions e ?i2 token s1 = (r2, s2)" by fastforce
  obtain r3 i3 s3 where s3: "(if r2 \<noteq> ERR_OK then (r2, ?i2, s2) else CreateBundleUserData e ?i2 s2) = (r3, i3, s3)"
    by (metis prod_cases3)
  have "reach R s0 s2" using assms(2) s1 s2 by (blast intro: reach_external)
  then have 3: "reach R s0 s3" "GetBundleName i3 = GetBundleName i"
    using s3 reach_CreateBundleUserData [of e ?i2 s2 r3 i3 s3 s0] assms(3) by (auto split: if_splits)
  have "reach R s0 s' \<and> GetBundleName i' = GetBundleName i"
    using assms(1,3) 3 unfolding create_for_user_def Let_def s1 prod.case s2 s3
    by (auto split: if_splits Option.bind_splits dest: reach_RemoveBundleUserData)
  then show "reach R s0 s'" "GetBundleName i' = GetBundleName i" by simp_all
qed

section \<open>Sandbox applications\<close>

lemma reach_UninstallSandboxApp:
  "UninstallSandboxApp e n k v s = (r, s') \<Longrightarrow> reach R s0 s \<Longrightarrow> n \<in> N \<Longrightarrow> reach R s0 s'"
  by (auto simp: UninstallSandboxApp_def Let_def split: prod.splits if_splits sum.splits bool.splits;
      (elim reach_external reach_ops | simp)+)

lemma reach_uninstall_sandboxes:
  "uninstall_sandboxes e n v kis s = Some s' \<Longrightarrow> reach R s0 s \<Longrightarrow> n \<in> N \<Longrightarrow> reach R s0 s'"
proof (induction e n v kis s rule: uninstall_sandboxes.induct)
  case (2 e n v key i kis s)
  have step: "reach R s0 (snd (UninstallSandboxApp e n k w s))" for k w
    using 2 by (auto intro: reach_UninstallSandboxApp)
  from 2 step show ?case
    by (auto simp: Let_def split: if_splits option.splits list.splits)
qed simp

lemma reach_UninstallAllSandboxApps:
  "UninstallAllSandboxApps e n v s = Some (r, s') \<Longrightarrow> reach R s0 s \<Longrightarrow> n \<in> N \<Longrightarrow> reach R s0 s'"
  by (auto simp: UninstallAllSandboxApps_def split: if_splits intro: reach_uninstall_sandboxes)

section \<open>Uninstalling\<close>

lemma reach_RemoveBundle:
  "RemoveBundle e i keep s = (r, s') \<Longrightarrow> reach R s0 s \<Longrightarrow> GetBundleName i \<in> N \<Longrightarrow> reach R s0 s'"
  by (auto simp: RemoveBundle_def split: prod.splits if_splits; (elim reach_external reach_ops | simp)+)

lemma reach_RemoveClonedBundle:
  "reach R s0 s \<Longrightarrow> N = UNIV \<Longrightarrow> reach R s0 (RemoveClonedBundle e n c s)"
  by (auto simp: RemoveClonedBundle_def Let_def split: prod.splits if_splits option.splits;
      (elim reach_external reach_ops | simp)+)

lemma reach_clone:
  assumes "reach R s0 s" "in_cloneMgr s0 \<longrightarrow> N = UNIV" "GetClonedBundleName n (b_dm s) \<noteq> None \<longrightarrow> in_cloneMgr s"
  shows "reach R s0 (case GetClonedBundleName n (b_dm s) of None \<Rightarrow> s | Some c \<Rightarrow> RemoveClonedBundle e n c s)"
proof (cases "GetClonedBundleName n (b_dm s)")
  case (Some c)
  then have "in_cloneMgr s0" using assms by (simp add: reach_def)
  with Some assms(1,2) show ?thesis by (simp add: reach_RemoveClonedBundle)
qed (use assms in simp)

lemma reach_uninstall_last_user:
  assumes "uninstall_last_user e n param i s = (r, dis, s')" "reach R s0 s" "n \<in> N" "GetBundleName i = n"
  shows "reach R s0 s'"
  using assms by (auto simp: uninstall_last_user_def Let_def split: prod.splits if_splits)
    (elim reach_RemoveBundle reach_external reach_ops | simp)+

lemma reach_uninstall_bundle_body:
  assumes "uninstall_bundle_body e n param i s = Some (r, dis, s')" "reach R s0 s" "n \<in> N" "GetBundleName i = n"
    and "in_cloneMgr s0 \<longrightarrow> N = UNIV"
  shows "reach R s0 s'"
proof -
  define s1 where "s1 = (case GetClonedBundleName n (b_dm s) of None \<Rightarrow> s | Some c \<Rightarrow> RemoveClonedBundle e n c s)"
  have "reach R s0 s1" if "\<not> (GetClonedBundleName n (b_dm s) \<noteq> None \<and> \<not> in_cloneMgr s)"
    unfolding s1_def using reach_clone [OF assms(2,5)] that by blast
  then show ?thesis
    using assms(1-4) unfolding uninstall_bundle_body_def Let_def s1_def [symmetric]
    by (auto split: if_splits Option.bind_splits dest: reach_uninstall_last_user reach_RemoveBundleUserData)
qed

lemma reach_run_enable_guard:
  assumes "run_enable_guard e n res = Some (r, s')" "n \<in> N" "\<And>r dis s. res = Some (r, dis, s) \<Longrightarrow> reach R s0 s"
  shows "reach R s0 s'"
  using assms by (auto simp: run_enable_guard_def split: if_splits intro: reach_ops)

lemma reach_run_state_guard:
  assumes "run_state_guard e n res = Some (r, dis, s')" "n \<in> N" "\<And>r dis s. res = Some (r, dis, s) \<Longrightarrow> reach R s0 s"
  shows "reach R s0 s'"
  using assms by (auto simp: run_state_guard_def split: if_splits intro: reach_ops)

lemma reach_ProcessBundleUninstall:
  assumes "ProcessBundleUninstall e n param s = Some (r, s')" "reach R s0 s" "n \<in> N" "in_cloneMgr s0 \<longrightarrow> N = UNIV"
  shows "reach R s0 s'"
proof -
  let ?s = "s\<lparr>in_userId := GetUserId_inst (ip_userId param)\<rparr>"
  obtain found s2 where g: "get_info e n ?s = (found, s2)" by fastforce
  have 2: "reach R s0 s2" using g assms(2,3) by (auto intro: reach_ops)
  show ?thesis
  proof (cases found)
    case None
    then show ?thesis using assms(1,2) 2 unfolding ProcessBundleUninstall_def Let_def g by (auto split: if_splits)
  next
    case (Some i)
    then have "GetBundleName i = n" using g assms(2) by (auto intro: reach_named [of R s0 ?s])
    then show ?thesis using assms 2 Some unfolding ProcessBundleUninstall_def Let_def g
      by (auto split: if_splits elim!: reach_run_enable_guard reach_uninstall_bundle_body)
  qed
qed

lemma reach_UninstallBundle:
  "UninstallBundle e n param s = Some (r, s') \<Longrightarrow> reach R s0 s \<Longrightarrow> n \<in> N \<Longrightarrow> in_cloneMgr s0 \<longrightarrow> N = UNIV \<Longrightarrow> reach R s0 s'"
  by (auto simp: UninstallBundle_def split: Option.bind_splits dest: reach_UninstallAllSandboxApps reach_ProcessBundleUninstall)

lemma reach_uninstall_module_body:
  assumes "uninstall_module_body e n m param i s = Some (r, dis, s')" "reach R s0 s" "n \<in> N" "GetBundleName i = n"
    and "in_cloneMgr s0" "N = UNIV"
  shows "reach R s0 s'"
proof -
  obtain killed s1 where k: "(if ip_noSkipsKill param
      then kill_op e (app_name (ib_baseApplicationInfo i)) (GetUid (in_userId s) i) s else (True, s)) = (killed, s1)" by fastforce
  have 1: "reach R s0 s1" using k assms(2) by (auto split: if_splits intro: reach_ext)
  let ?m = "SetInstallMark n m UNINSTALL_PACKAGE_START_mark i"
  obtain saved s2 where s2: "save_info e ?m s1 = (saved, s2)" by fastforce
  have 2: "reach R s0 s2" using s2 1 assms(6) by (auto intro: reach_ops)
  define s3 where "s3 = (case GetClonedBundleName n (b_dm s2) of None \<Rightarrow> s2 | Some c \<Rightarrow> RemoveClonedBundle e n c s2)"
  have 3: "reach R s0 s3" unfolding s3_def using reach_clone [OF 2] 2 assms(5,6) by (simp add: reach_def)
  have rm: "reach R s0 s'" if "dm_op e (\<lambda>kv d. (case Mgr_RemoveModuleInfo kv n m (SetInstallMark n m INSTALL_FINISH_mark ?m) d of
      (ok, i', d') \<Rightarrow> ((ok, i'), d'))) s'' = (x, s')" "reach R s0 s''" for s'' x
    using that by (rule reach_dm) (use remove_module [of _ n "SetInstallMark n m INSTALL_FINISH_mark ?m" _ m] assms(4,6) in
        \<open>auto simp: split_beta\<close>)
  show ?thesis
    using assms(1,3,4,6) 2 3 1 rm unfolding uninstall_module_body_def Let_def k prod.case s2 s3_def [symmetric]
    by (auto split: prod.splits if_splits Option.bind_splits dest: reach_RemoveBundleUserData reach_RemoveBundle
        reach_remove_dirs reach_RemoveModuleAndDataDir)
qed

lemma ProcessBundleUninstall_module_runs:
  assumes "ProcessBundleUninstall_module e n m param s = Some (r, s')" "mgr_inv (b_dm s)" "N = UNIV"
  shows "R (b_dm s) (b_dm s') \<and> mgr_inv (b_dm s')"
proof -
  let ?s = "s\<lparr>in_cloneMgr := True, in_userId := GetUserId_inst (ip_userId param)\<rparr>"
  have 0: "reach R ?s ?s" using assms(2) by (intro reach_refl) simp
  obtain found s2 where g: "get_info e n ?s = (found, s2)" by fastforce
  have 2: "reach R ?s s2" using g 0 assms(3) by (auto intro: reach_ops)
  have "reach R ?s s'" if "n \<noteq> []" "m \<noteq> []" "GetUserId_inst (ip_userId param) \<noteq> INVALID_USERID"
    "HasUserId (GetUserId_inst (ip_userId param)) (b_dm s)"
  proof (cases found)
    case None
    then show ?thesis using assms(1) that 2 unfolding ProcessBundleUninstall_module_def Let_def g by auto
  next
    case (Some i)
    then have name: "GetBundleName i = n" using g 0 by (auto intro: reach_named [of R ?s ?s])
    obtain ok s4 where s4: "set_state e n UNINSTALL_START (s2\<lparr>in_versionCode := GetVersionCode i\<rparr>) = (ok, s4)" by fastforce
    have 4: "reach R ?s s4" using s4 2 assms(3) by (auto intro: reach_ops)
    have body: "reach R ?s s5" if "run_state_guard e n (uninstall_module_body e n m param i s4) = Some (r', dis, s5)" for r' dis s5
      using that assms(3) by (elim reach_run_state_guard) (auto intro: reach_uninstall_module_body [OF _ 4 _ name])
    show ?thesis using assms(1,3) that 2 4 Some body unfolding ProcessBundleUninstall_module_def Let_def g
      by (auto simp: s4 split: if_splits elim!: reach_run_enable_guard)
  qed
  then show ?thesis using assms(1,2) refl
    by (auto simp: ProcessBundleUninstall_module_def Let_def reach_def split: if_splits)
qed

section \<open>Installing the first package\<close>

lemma kept_name_first: "finish_first_install e i s = (r, i', s') \<Longrightarrow> GetBundleName i' = GetBundleName i"
  by (auto simp: finish_first_install_def Let_def split: prod.splits if_splits dest: kept_name)

lemma reach_finish_first_install:
  assumes "finish_first_install e i s = (r, i', s')" "reach R s0 s" "GetBundleName i = in_bundleName s" "GetBundleName i \<in> N"
  shows "reach R s0 s'"
  using assms by (auto simp: finish_first_install_def Let_def split: prod.splits if_splits)
    (elim reach_external reach_ops | simp add: kept_name)+

lemma kept_name_both_dirs: "CreateBundleAndDataDir e i s = (r, i', s') \<Longrightarrow> GetBundleName i' = GetBundleName i"
  by (auto simp: CreateBundleAndDataDir_def split: prod.splits if_splits; metis kept_name)

lemma in_bundleName_both_dirs:
  "CreateBundleAndDataDir e i s = (r, i', s') \<Longrightarrow> mgr_inv (b_dm s) \<Longrightarrow> in_bundleName s' = in_bundleName s"
  using reach_both_dirs [OF _ reach_refl] by (auto simp: reach_def)

lemma reach_ProcessBundleInstallStatus:
  assumes "ProcessBundleInstallStatus e i s = (r, i', s')" "reach R s0 s" "GetBundleName i = in_bundleName s" "GetBundleName i \<in> N"
  shows "reach R s0 s'" "GetBundleName i' = GetBundleName i"
proof -
  let ?n = "in_bundleName s" and ?s = "s\<lparr>in_modulePackage := ib_currentPackage i\<rparr>"
  obtain ok s2 where s2: "set_state e ?n INSTALL_START ?s = (ok, s2)" by fastforce
  let ?i = "SetInstallMark ?n (in_modulePackage s2) INSTALL_START_mark i"
  obtain saved s3 where s3: "save_info e ?i s2 = (saved, s3)" by fastforce
  obtain r4 i4 s4 where s4: "CreateBundleAndDataDir e ?i s3 = (r4, i4, s4)" by (metis prod_cases3)
  obtain r5 i5 s5 where s5: "(if r4 \<noteq> ERR_OK then (r4, i4, s4) else finish_first_install e i4 s4) = (r5, i5, s5)"
    by (metis prod_cases3)
  have 2: "reach R s0 s2" using s2 assms by (auto intro: reach_ops)
  have 3: "reach R s0 s3" using s3 2 assms(4) by (auto intro: reach_ops)
  have 4: "reach R s0 s4" using s4 3 by (rule reach_both_dirs)
  have n: "GetBundleName i4 = GetBundleName i" using kept_name_both_dirs [OF s4] by simp
  have 5: "reach R s0 s5 \<and> GetBundleName i5 = GetBundleName i"
    using s5 4 n assms(2-4) kept_name_first reach_finish_first_install [of e i4 s4 r5 i5 s5 s0]
    by (auto simp: reach_def split: if_splits)
  have "reach R s0 s' \<and> GetBundleName i' = GetBundleName i"
    using assms 2 3 5 unfolding ProcessBundleInstallStatus_def Let_def
    by (auto simp: s2 s3 s4 s5 split: if_splits intro: reach_ops)
  then show "reach R s0 s'" "GetBundleName i' = GetBundleName i" by simp_all
qed

section \<open>Updating\<close>

lemma reach_module_ops:
  "dm_op e (\<lambda>kv d. (case AddNewModuleInfo kv n new old d of (ok, o', d') \<Rightarrow> ((ok, o'), d'))) s = (x, s') \<Longrightarrow>
     reach R s0 s \<Longrightarrow> n \<in> N \<Longrightarrow> GetBundleName new = n \<Longrightarrow> GetBundleName old = n \<Longrightarrow> reach R s0 s'"
  "dm_op e (\<lambda>kv d. (case UpdateInnerBundleInfo kv n new old d of (ok, o', d') \<Rightarrow> ((ok, o'), d'))) s = (x, s') \<Longrightarrow>
     reach R s0 s \<Longrightarrow> n \<in> N \<Longrightarrow> GetBundleName new = n \<Longrightarrow> GetBundleName old = n \<Longrightarrow> reach R s0 s'"
  "dm_op e (\<lambda>kv d. (case Mgr_RemoveModuleInfo kv n m old d of (ok, o', d') \<Rightarrow> ((ok, o'), d'))) s = (x, s') \<Longrightarrow>
     reach R s0 s \<Longrightarrow> n \<in> N \<Longrightarrow> GetBundleName old = n \<Longrightarrow> reach R s0 s'"
  "dm_op e (\<lambda>kv d. ((), snd (snd (UpdateInnerBundleInfo kv n new old d)))) s = (y, s') \<Longrightarrow>
     reach R s0 s \<Longrightarrow> n \<in> N \<Longrightarrow> GetBundleName new = n \<Longrightarrow> GetBundleName old = n \<Longrightarrow> reach R s0 s'"
  "dm_op e (\<lambda>kv d. ((), snd (snd (Mgr_RemoveModuleInfo kv n m old d)))) s = (y, s') \<Longrightarrow>
     reach R s0 s \<Longrightarrow> n \<in> N \<Longrightarrow> GetBundleName old = n \<Longrightarrow> reach R s0 s'"
  using add_module update_module remove_module by (auto elim!: reach_dm simp: split_beta)

lemma reach_ProcessNewModuleInstall:
  assumes "ProcessNewModuleInstall e new old s = (r, new', old', s')" "reach R s0 s"
    and "GetBundleName new = in_bundleName s" "GetBundleName old = in_bundleName s" "GetBundleName new \<in> N"
  shows "reach R s0 s'"
  using assms by (auto simp: ProcessNewModuleInstall_def Let_def split: prod.splits if_splits)
    (elim reach_external reach_ops reach_module_ops | simp add: kept_name)+

lemma module_op_names:
  assumes "GetBundleName new = n" "GetBundleName old = n"
  shows "dm_op e (\<lambda>kv d. (case AddNewModuleInfo kv n new old d of (ok, o', d') \<Rightarrow> ((ok, o'), d'))) s = ((b, old'), s') \<Longrightarrow>
      GetBundleName old' = n"
    and "dm_op e (\<lambda>kv d. (case UpdateInnerBundleInfo kv n new old d of (ok, o', d') \<Rightarrow> ((ok, o'), d'))) s = ((b, old'), s') \<Longrightarrow>
      GetBundleName old' = n"
    and "dm_op e (\<lambda>kv d. (case Mgr_RemoveModuleInfo kv n m old d of (ok, o', d') \<Rightarrow> ((ok, o'), d'))) s = ((b, old'), s') \<Longrightarrow>
      GetBundleName old' = n"
  using assms by (auto simp: dm_op_def AddNewModuleInfo_def UpdateInnerBundleInfo_def Mgr_RemoveModuleInfo_def Let_def
      split: prod.splits if_splits option.splits)

lemma kept_name_new_module:
  assumes "ProcessNewModuleInstall e new old s = (r, new', old', s')"
    and "GetBundleName new = in_bundleName s" "GetBundleName old = in_bundleName s"
  shows "GetBundleName new' = in_bundleName s \<and> GetBundleName old' = in_bundleName s"
proof -
  let ?n = "in_bundleName s" and ?m = "in_modulePackage s"
  let ?old1 = "SetInstallMark ?n ?m UPDATING_NEW_START_mark old"
  let ?old2 = "SetInstallMark ?n ?m INSTALL_FINISH_mark ?old1"
  obtain saved s1 where s1: "save_info e ?old1 s = (saved, s1)" by fastforce
  obtain r2 new1 s2 where s2: "ExtractModule e new (GetAppCodePath new @ PATH_SEPARATOR @ ?m) s1 = (r2, new1, s2)"
    by (metis prod_cases3)
  obtain ok s3 where s3: "set_state e ?n UPDATING_SUCCESS s2 = (ok, s3)" by fastforce
  obtain r4 s4 where s4: "update_tokens e (\<lambda>t. AddDefineAndRequestPermissions_call t (GetBundleName new1))
      (GetBundleName new1) (map snd (ib_innerBundleUserInfos ?old2)) s3 = (r4, s4)" by fastforce
  let ?old3 = "SetBundleUpdateTime (env_time e (now s4)) (in_userId s4) ?old2"
  obtain b old4 s5 where s5: "dm_op e (\<lambda>kv d. (case AddNewModuleInfo kv ?n new1 ?old3 d of
      (ok, o', d') \<Rightarrow> ((ok, o'), d'))) s4 = ((b, old4), s5)" by (metis prod.collapse)
  have n1: "GetBundleName new1 = ?n" using kept_name(3) [OF s2] assms(2) by simp
  then have "GetBundleName old4 = ?n" using module_op_names(1) [OF _ _ s5] assms(3) by simp
  with assms n1 show ?thesis
    unfolding ProcessNewModuleInstall_def Let_def s1 s2 s3 s4 s5 prod.case by (auto split: if_splits)
qed

lemma reach_replace_module:
  assumes "replace_module e new old s = Some (r, new', old', s')" "reach R s0 s"
    and "GetBundleName new = in_bundleName s" "GetBundleName old = in_bundleName s" "GetBundleName new \<in> N"
  shows "reach R s0 s'" "GetBundleName new' = in_bundleName s" "GetBundleName old' = in_bundleName s"
proof -
  let ?n = "in_bundleName s" and ?m = "in_modulePackage s"
  let ?old = "SetInstallMark ?n ?m UPDATING_EXISTED_START_mark old"
  obtain saved s1 where s1: "save_info e ?old s = (saved, s1)" by fastforce
  obtain r2 new1 s2 where s2: "ExtractModule e new (GetAppCodePath new @ PATH_SEPARATOR @ ?m @ TMP_SUFFIX) s1 = (r2, new1, s2)"
    by (metis prod_cases3)
  obtain ok s3 where s3: "set_state e ?n UPDATING_SUCCESS s2 = (ok, s3)" by fastforce
  have N: "?n \<in> N" using assms by simp
  have 1: "reach R s0 s1" using s1 assms by (auto intro: reach_ops)
  have 2: "reach R s0 s2" using s2 1 by (rule reach_dirs)
  have 3: "reach R s0 s3" using s3 2 N by (rule reach_ops)
  have n1: "GetBundleName new1 = ?n" using kept_name(3) [OF s2] assms(3) by simp
  let ?goal = "reach R s0 s' \<and> GetBundleName new' = ?n \<and> GetBundleName old' = ?n"
  have ?goal
  proof (cases "saved \<and> r2 = ERR_OK \<and> ok")
    case False
    then show ?thesis using assms(1,3,4) 1 2 3 n1 unfolding replace_module_def Let_def by (auto simp: s1 s2 s3 split: if_splits)
  next
    case True
    then obtain new2 where new2: "RestoreModuleInfo ?old new1 = Some new2"
      using assms(1) unfolding replace_module_def Let_def by (auto simp: s1 s2 s3 split: Option.bind_splits)
    let ?old2 = "SetBundleUpdateTime (env_time e (now s3)) (in_userId s3) (SetInstallMark ?n ?m UPDATING_FINISH_mark ?old)"
    obtain b old3 s4 where s4: "dm_op e (\<lambda>kv d. (case UpdateInnerBundleInfo kv ?n new2 ?old2 d of
        (ok, o', d') \<Rightarrow> ((ok, o'), d'))) s3 = ((b, old3), s4)" by (metis prod.collapse)
    have n2: "GetBundleName new2 = ?n" "GetBundleName ?old2 = ?n"
      using GetBundleName_RestoreModuleInfo [OF new2] n1 assms(4) by simp_all
    have n3: "GetBundleName old3 = ?n" by (rule module_op_names(2) [OF n2 s4])
    have 4: "reach R s0 s4" by (rule reach_module_ops(2) [OF s4 3 N n2])
    show ?thesis using assms(1) True n2 n3 4 unfolding replace_module_def Let_def
      by (auto simp: s1 s2 s3 s4 new2 SetDirApl_inst_def split: prod.splits if_splits)
        (elim reach_external | simp)+
  qed
  then show "reach R s0 s'" "GetBundleName new' = ?n" "GetBundleName old' = ?n" by simp_all
qed

lemma reach_ProcessModuleUpdate:
  assumes "ProcessModuleUpdate e new old rep kill s = Some (r, new', old', s')" "reach R s0 s"
    and "GetBundleName new = in_bundleName s" "GetBundleName old = in_bundleName s" "GetBundleName new \<in> N"
  shows "reach R s0 s' \<and> GetBundleName new' = in_bundleName s \<and> GetBundleName old' = in_bundleName s"
proof -
  obtain k s1 where k: "(if kill then kill_op e (app_name (ib_baseApplicationInfo old)) (GetUid (in_userId s) old) s else (True, s)) = (k, s1)"
    by fastforce
  have 1: "reach R s0 s1" "in_bundleName s1 = in_bundleName s"
    using k assms(2) reach_ext(4) [of e _ _ s k s1 R s] by (auto split: if_splits intro: reach_ext simp: kill_op_def log_call_def)
  show ?thesis using assms 1 reach_replace_module [of e new old s1 r new' old' s' s0]
    unfolding ProcessModuleUpdate_def Let_def k
    by (auto split: prod.splits if_splits elim: reach_ops)
qed

lemma reach_ProcessBundleUpdateStatus:
  assumes "ProcessBundleUpdateStatus e old new rep kill s = Some (r, old', new', s')" "reach R s0 s"
    and "GetBundleName new = in_bundleName s" "GetBundleName old = in_bundleName s" "GetBundleName new \<in> N"
  shows "reach R s0 s' \<and> GetBundleName new' = in_bundleName s \<and> GetBundleName old' = in_bundleName s"
proof (cases "ib_currentPackage new = []")
  case True
  then show ?thesis using assms by (auto simp: ProcessBundleUpdateStatus_def Let_def)
next
  case False
  define s1 where "s1 = s\<lparr>in_modulePackage := ib_currentPackage new,
    in_uninstallModuleVec := (if in_isFeatureNeedUninstall s then in_uninstallModuleVec s @ [ib_currentPackage new] else in_uninstallModuleVec s),
    in_singletonState := singleton_change old new (in_singletonState s)\<rparr>"
  have 1: "reach R s0 s1" "in_bundleName s1 = in_bundleName s" using assms(2) by (simp_all add: s1_def)
  obtain ok s2 where s2: "set_state e (in_bundleName s1) UPDATING_START s1 = (ok, s2)" by fastforce
  have 2: "reach R s0 s2" using s2 1 assms(3,5) by (auto intro: reach_ops)
  have n: "in_bundleName s2 = in_bundleName s" using 1 2 by (simp add: reach_def)
  let ?new = "RestoreFromOldInfo old new"
  have new: "GetBundleName ?new = in_bundleName s2" "GetBundleName old = in_bundleName s2" "GetBundleName ?new \<in> N"
    using assms n by simp_all
  note new_module = reach_ProcessNewModuleInstall [OF _ 2 new] kept_name_new_module [OF _ new(1,2)]
  have "Some (r, old', new', s') =
      (if \<not> ok then Some (ERR_APPEXECFWK_INSTALL_STATE_ERROR, old, new, s2)
       else do {
         oldId \<leftarrow> GetProvisionId old;
         newId \<leftarrow> GetProvisionId new;
         if oldId \<noteq> newId then Some (ERR_APPEXECFWK_INSTALL_FAILED_INCONSISTENT_SIGNATURE, old, new, s2)
         else do {
           (r, new2, old2, s3) \<leftarrow>
             (if FindModule (ib_currentPackage new) old then ProcessModuleUpdate e ?new old rep kill s2
              else Some (ProcessNewModuleInstall e ?new old s2));
           Some (r, old2, new2, s3)
         }
       })"
    using assms(1) False s2 by (simp add: ProcessBundleUpdateStatus_def Let_def s1_def cong: if_cong)
  then show ?thesis using assms(3,4) 2 n new_module reach_ProcessModuleUpdate [OF _ 2 new]
    by (auto split: if_splits prod.splits Option.bind_splits)
qed

lemma reach_update_haps:
  assumes "update_haps e u rep kill b infos s = Some (r, b', infos', s')" "reach R s0 s" "in_bundleName s = n" "n \<in> N"
    and "GetBundleName b = n" "\<forall>(_, i) \<in> set infos. GetBundleName i = n"
  shows "reach R s0 s' \<and> (\<forall>(_, i) \<in> set infos'. GetBundleName i = n)"
  using assms
proof (induction infos arbitrary: b s infos')
  case (Cons hap infos)
  obtain path new where hap: "hap = (path, new)" by fastforce
  let ?s = "s\<lparr>in_modulePath := path\<rparr>"
  obtain r1 b1 new1 s2 where step:
    "ProcessBundleUpdateStatus e b (AddInnerBundleUserInfo u new) rep kill ?s = Some (r1, b1, new1, s2)"
    using Cons.prems(1) by (auto simp: hap split: Option.bind_splits)
  have 2: "reach R s0 s2" "GetBundleName new1 = n" "GetBundleName b1 = n" "in_bundleName s2 = n"
    using reach_ProcessBundleUpdateStatus [OF step] Cons.prems by (auto simp: hap reach_def)
  show ?case
  proof (cases "r1 = ERR_OK")
    case False
    then show ?thesis using Cons.prems step 2 by (auto simp: hap)
  next
    case True
    then obtain r2 b2 infos2 where "update_haps e u rep kill b1 infos s2 = Some (r2, b2, infos2, s')"
      and "infos' = (path, new1) # infos2"
      using Cons.prems(1) step by (auto simp: hap split: Option.bind_splits)
    then show ?thesis using Cons.IH [of b1 s2 infos2] 2 Cons.prems True step by (auto simp: hap)
  qed
qed simp

section \<open>Installing packages\<close>

lemma reach_save_pre_install: "reach R s0 s \<Longrightarrow> reach R s0 (save_pre_install e infos first s)"
  by (auto simp: save_pre_install_def Let_def intro: reach_ops)

lemma reach_prepare_existing:
  assumes "prepare_existing e infos old s = Some (r, old', s')" "reach R s0 s" "GetBundleName old \<in> N"
  shows "reach R s0 s'" "GetBundleName old' = GetBundleName old"
  using assms by (auto simp: prepare_existing_def Let_def split: if_splits prod.splits Option.bind_splits
      dest: reach_create_for_user)

lemma reach_install_first:
  assumes "install_first e param hap s = (r, hap', s')" "reach R s0 s"
    and "GetBundleName (snd hap) = in_bundleName s" "in_bundleName s \<in> N"
  shows "reach R s0 s'" "GetBundleName (snd hap') = in_bundleName s"
  using assms by (auto simp: install_first_def Let_def split: prod.splits if_splits dest: reach_ProcessBundleInstallStatus)

lemma reach_install_rest:
  assumes "install_rest e param old installed rest s = Some (r, infos', old', s')" "reach R s0 s"
    and "in_bundleName s = n" "n \<in> N" "all_named n installed" "all_named n rest"
    and "GetBundleName old \<in> N \<or> ib_innerBundleUserInfos old = []"
  shows "reach R s0 s' \<and> all_named n infos' \<and> GetBundleName old' = GetBundleName old"
proof -
  obtain found s1 where g: "get_info e (in_bundleName s) s = (found, s1)" by fastforce
  have 1: "reach R s0 s1" "in_bundleName s1 = n" using reach_ops(2) [OF g assms(2)] assms(2-4) by (auto simp: reach_def)
  have undo: "reach R s0 s3 \<and> GetBundleName old3 = GetBundleName old"
    if "RemoveBundleUserData e old False s2 = Some (r3, old3, s3)" "reach R s0 s2" for s2 r3 old3 s3
  proof (cases "GetBundleName old \<in> N")
    case True
    then show ?thesis using reach_RemoveBundleUserData [OF that] by simp
  next
    case False
    then have "\<not> HasInnerBundleUserInfo v old" for v
      using assms(7) by (simp add: HasInnerBundleUserInfo_def)
    then show ?thesis using that by (simp add: RemoveBundleUserData_def)
  qed
  show ?thesis
  proof (cases found)
    case None
    then show ?thesis using assms 1 g by (auto simp: install_rest_def)
  next
    case (Some b)
    then have b: "GetBundleName b = n" using g assms(2,3) by (auto intro: reach_named)
    obtain has u where u: "GetInnerBundleUserInfo (in_userId s1) new_InnerBundleUserInfo b = (has, u)" by fastforce
    have haps: "reach R s0 s2 \<and> all_named n rest1" if "update_haps e u rep (ip_noSkipsKill param) b rest s1 = Some (q, b1, rest1, s2)"
      for rep q b1 rest1 s2
      using reach_update_haps [OF that 1 assms(4) b] assms(6) by (simp add: all_named_def)
    show ?thesis using assms(1,3,5,6) 1 g Some u undo haps
      by (auto simp: install_rest_def Let_def split: bool.splits if_splits Option.bind_splits; blast)
  qed
qed

lemma reach_InnerProcessBundleInstall:
  assumes "InnerProcessBundleInstall e newInfos param s = Some (r, infos', old', s')" "reach R s0 s"
    and "in_bundleName s = n" "n \<in> N" "all_named n newInfos"
  shows "(\<exists>x. reach R (s0\<lparr>in_isAppExist := x\<rparr>) s') \<and> all_named n infos' \<and>
    (in_isAppExist s' \<and> \<not> no_rollback r \<longrightarrow> GetBundleName old' = n)"
proof -
  obtain path first infos where cons: "newInfos = (path, first) # infos"
    using assms(1) by (auto simp: InnerProcessBundleInstall_def split: list.splits prod.splits)
  define s1 where "s1 = (if ip_needSavePreInstallInfo param then save_pre_install e newInfos first s else s)"
  have 1: "reach R s0 s1" using assms(2) by (auto simp: s1_def intro: reach_save_pre_install)
  obtain found s2 where g: "get_info e (in_bundleName s1) s1 = (found, s2)" by fastforce
  have n1: "in_bundleName s1 = n" using 1 assms(2,3) by (simp add: reach_def)
  have 2: "reach R s0 s2" using reach_ops(2) [OF g 1] n1 assms(4) by simp
  define s3 where "s3 = s2\<lparr>in_isAppExist := (found \<noteq> None)\<rparr>"
  have 3: "reach R s3 s3" "in_bundleName s3 = n" using 2 assms(2,3) by (auto simp: s3_def reach_def intro: refl)
  have rebase: "reach R (s0\<lparr>in_isAppExist := (found \<noteq> None)\<rparr>) t" if "reach R s3 t" for t
    using reach_rebase [OF 2] that by (simp add: s3_def)
  define old where "old = (case found of None \<Rightarrow> new_InnerBundleInfo | Some i \<Rightarrow> i)"
  define packages where "packages = CheckEnableRemovable newInfos old (in_userId s3) (ip_installFlag param = InstallFlag_FREE_INSTALL) (found \<noteq> None)"
  have named: "all_named n packages" using assms(5) by (simp add: packages_def all_named_CheckEnableRemovable)
  obtain hap packages' where cons': "packages = hap # packages'" by (auto simp: packages_def CheckEnableRemovable_def cons)
  have eq: "Some (r, infos', old', s') =
      (if singleton_mismatch (IsSingleton first) (in_userId s1)
       then Some (ERR_APPEXECFWK_INSTALL_ZERO_USER_WITH_NO_SINGLETON, newInfos, new_InnerBundleInfo, s1)
       else if found \<noteq> None then do {
         (r, old1, s4) \<leftarrow> prepare_existing e packages old s3;
         if r \<noteq> ERR_OK then Some (r, packages, old1, s4) else install_rest e param old1 [] packages s4
       }
       else (case install_first e param hap s3 of (r, hap', s4) \<Rightarrow>
               if r \<noteq> ERR_OK then Some (r, hap' # packages', old, s4) else install_rest e param old [hap'] packages' s4))"
    unfolding assms(1) [symmetric] InnerProcessBundleInstall_def cons list.case prod.case Let_def
      s1_def [unfolded cons, symmetric] g old_def [symmetric] s3_def [symmetric] packages_def [unfolded cons, symmetric] cons' list.sel
    by simp
  consider (mismatch) "singleton_mismatch (IsSingleton first) (in_userId s1)"
    | (exist) i where "\<not> singleton_mismatch (IsSingleton first) (in_userId s1)" "found = Some i"
    | (new) "\<not> singleton_mismatch (IsSingleton first) (in_userId s1)" "found = None" by fastforce
  then show ?thesis
  proof cases
    case mismatch
    then have "s1 = s'" "infos' = newInfos" "no_rollback r" using eq by (auto simp: no_rollback_def)
    moreover have "reach R (s0\<lparr>in_isAppExist := in_isAppExist s1\<rparr>) s1" using 1 by (simp add: reach_def)
    ultimately show ?thesis using assms(5) by blast
  next
    case exist
    have old: "GetBundleName old = n" using exist(2) g 1 n1 by (auto simp: old_def intro: reach_named)
    obtain q old1 s4 where p: "prepare_existing e packages old s3 = Some (q, old1, s4)"
      using eq exist by (auto split: Option.bind_splits)
    have 4: "reach R s3 s4" "GetBundleName old1 = n" using reach_prepare_existing [OF p 3(1)] old assms(4) by simp_all
    then have n4: "in_bundleName s4 = n" using 3(2) by (simp add: reach_def)
    show ?thesis
    proof (cases "q = ERR_OK")
      case False
      then show ?thesis using eq exist p 4 rebase named by auto
    next
      case True
      then have "install_rest e param old1 [] packages s4 = Some (r, infos', old', s')" using eq exist p by simp
      from reach_install_rest [OF this 4(1) n4 assms(4) _ named] 4(2) rebase assms(4) show ?thesis by auto
    qed
  next
    case new
    obtain q hap' s4 where f: "install_first e param hap s3 = (q, hap', s4)" by (metis prod_cases3)
    have hap: "GetBundleName (snd hap) = n" "all_named n packages'" using named by (simp_all add: cons')
    have 4: "reach R s3 s4" "GetBundleName (snd hap') = n"
      using reach_install_first [OF f 3(1)] hap 3(2) assms(4) by simp_all
    then have n4: "in_bundleName s4 = n" "\<not> in_isAppExist s4" using 3(2) new(2) by (auto simp: reach_def s3_def)
    show ?thesis
    proof (cases "q = ERR_OK")
      case False
      then show ?thesis using eq new f 4 n4 rebase hap by auto
    next
      case True
      then have rest: "install_rest e param old [hap'] packages' s4 = Some (r, infos', old', s')" using eq new f by simp
      have "ib_innerBundleUserInfos old = []" using new(2) by (simp add: old_def new_InnerBundleInfo_def)
      then have "reach R s3 s' \<and> all_named n infos'"
        using reach_install_rest [OF rest 4(1) n4(1) assms(4)] hap 4(2) by simp
      moreover from this have "\<not> in_isAppExist s'" using new(2) by (simp add: reach_def s3_def)
      ultimately show ?thesis using rebase by blast
    qed
  qed
qed

section \<open>Rolling back\<close>

lemma reach_RemoveInfo:
  assumes "reach R s0 s" "in_bundleName s \<in> N"
  shows "reach R s0 (RemoveInfo e (in_bundleName s) m s)"
proof -
  let ?n = "in_bundleName s"
  obtain found s1 where g: "get_info e ?n s = (found, s1)" by fastforce
  have 1: "reach R s0 s1" using reach_ops(2) [OF g assms] .
  show ?thesis
  proof (cases "m = [] \<or> found = None")
    case True
    then show ?thesis using assms 1 g by (auto simp: RemoveInfo_def intro: reach_ops)
  next
    case False
    then obtain i where i: "found = Some i" by auto
    obtain ok s2 where s2: "set_state e ?n ROLL_BACK s1 = (ok, s2)" by fastforce
    have "GetBundleName i = ?n" using assms(1) g i by (auto intro: reach_named)
    then show ?thesis using False i reach_ops(1) [OF s2 1 assms(2)] assms(2)
      by (auto simp: RemoveInfo_def g s2 intro: reach_module_ops)
  qed
qed

lemma reach_RollBackMoudleInfo:
  assumes "reach R s0 s" "in_bundleName s \<in> N" "GetBundleName old = in_bundleName s"
  shows "reach R s0 (RollBackMoudleInfo e (in_bundleName s) old s)"
proof -
  let ?n = "in_bundleName s"
  obtain found s1 where g: "get_info e ?n s = (found, s1)" by fastforce
  have 1: "reach R s0 s1" using reach_ops(2) [OF g assms(1,2)] .
  show ?thesis
  proof (cases found)
    case None
    then show ?thesis using 1 g by (simp add: RollBackMoudleInfo_def)
  next
    case (Some i)
    obtain ok s2 where s2: "set_state e ?n ROLL_BACK s1 = (ok, s2)" by fastforce
    have "GetBundleName i = ?n" using assms(1) g Some by (auto intro: reach_named)
    then show ?thesis using Some reach_ops(1) [OF s2 1 assms(2)] assms(2,3)
      by (auto simp: RollBackMoudleInfo_def g s2 intro: reach_module_ops)
  qed
qed

lemma reach_RollBack_module:
  assumes "RollBack_module e i old s = (old', s')" "reach R s0 s" "in_bundleName s \<in> N" "GetBundleName old = in_bundleName s"
  shows "reach R s0 s' \<and> GetBundleName old' = in_bundleName s'"
proof -
  let ?m = "ib_currentPackage i" and ?n = "in_bundleName s"
  obtain q1 s1 where s1: "RemoveModuleDir e (GetAppCodePath i @ PATH_SEPARATOR @ ?m @ TMP_SUFFIX) s = (q1, s1)" by fastforce
  obtain q2 s2 where s2: "RemoveModuleDir e (GetModuleDir ?m i) s = (q2, s2)" by fastforce
  have 12: "reach R s0 s1" "reach R s0 s2" using s1 s2 assms(2) by (auto intro: reach_remove_dirs)
  then have n: "in_bundleName s1 = ?n" "in_bundleName s2 = ?n" using assms(2) by (simp_all add: reach_def)
  have "reach R s0 (RollBackMoudleInfo e ?n (old\<lparr>ib_currentPackage := ?m\<rparr>) s1)"
    using reach_RollBackMoudleInfo [OF 12(1)] n assms(3,4) by simp
  moreover have "reach R s0 (RemoveInfo e ?n ?m s2)" using reach_RemoveInfo [OF 12(2)] n assms(3) by simp
  ultimately have "reach R s0 s' \<and> GetBundleName old' = ?n"
    using assms(1,4) n by (auto simp: RollBack_module_def Let_def s1 s2 split: if_splits)
  then show ?thesis using assms(2) by (simp add: reach_def)
qed

lemma reach_RollBack_modules:
  assumes "foldl (\<lambda>(old, s) (_, i). RollBack_module e i old s) (old, s) infos = (old', s')"
    and "reach R s0 s" "in_bundleName s \<in> N" "GetBundleName old = in_bundleName s"
  shows "reach R s0 s'"
  using assms
proof (induction infos arbitrary: old s)
  case (Cons hap infos)
  obtain old1 s1 where m: "RollBack_module e (snd hap) old s = (old1, s1)" by fastforce
  have "reach R s0 s1 \<and> GetBundleName old1 = in_bundleName s1" by (rule reach_RollBack_module [OF m Cons.prems(2-4)])
  moreover from this have "in_bundleName s1 \<in> N" using Cons.prems(2,3) by (simp add: reach_def)
  ultimately show ?case using Cons.IH [of old1 s1] Cons.prems(1) m by (simp add: split_beta)
qed simp

lemma reach_RollBack:
  assumes "RollBack e infos old s = Some s'" "reach R s0 s" "in_bundleName s \<in> N"
    and "in_isAppExist s \<longrightarrow> GetBundleName old = in_bundleName s"
  shows "reach R s0 s'"
proof (cases "in_isAppExist s")
  case False
  then obtain path first rest where cons: "infos = (path, first) # rest"
    using assms(1) by (auto simp: RollBack_def split: list.splits prod.splits)
  obtain r s1 where s1: "RemoveBundleAndDataDir_inst e first False s = (r, s1)" by fastforce
  obtain ok s2 where s2: "perm_op e (DeleteAccessTokenId_call (GetAccessTokenId (in_userId s1) first)) s1 = (ok, s2)" by fastforce
  have 2: "reach R s0 s2" using s1 s2 assms(2) by (blast intro: reach_external)
  then have "in_bundleName s2 \<in> N" using assms(2,3) by (simp add: reach_def)
  with 2 have "reach R s0 (RemoveInfo e (in_bundleName s2) [] s2)" by (rule reach_RemoveInfo)
  then show ?thesis using assms(1) False by (simp add: RollBack_def cons s1 s2)
next
  case True
  obtain found s1 where g: "get_info e (in_bundleName s) s = (found, s1)" by fastforce
  have 1: "reach R s0 s1" "in_bundleName s1 = in_bundleName s" using reach_ops(2) [OF g assms(2,3)] assms(2) by (auto simp: reach_def)
  obtain old1 s2 where m: "foldl (\<lambda>(old, s) (_, i). RollBack_module e i old s) (old, s1) infos = (old1, s2)" by fastforce
  have 2: "reach R s0 s2" using reach_RollBack_modules [OF m 1(1)] 1(2) assms(3,4) True by simp
  show ?thesis using assms(1) True 1 2 g m
    by (auto simp: RollBack_def UpdateDefineAndRequestPermissions_def split: option.splits elim: reach_update_tokens)
qed

section \<open>After the packages are in place\<close>

lemma reach_rename_modules: "rename_modules e infos s = (r, s') \<Longrightarrow> reach R s0 s \<Longrightarrow> reach R s0 s'"
  by (induction e infos s rule: rename_modules.induct)
    (auto split: prod.splits if_splits dest: reach_remove_dirs)

lemma reach_remove_modules:
  assumes "remove_modules e ms i s = (r, i', s')" "reach R s0 s" "GetBundleName i = in_bundleName s" "in_bundleName s \<in> N"
  shows "reach R s0 s'"
  using assms
proof (induction ms arbitrary: i s)
  case (Cons m ms)
  obtain q s1 where s1: "RemoveModuleAndDataDir e i m UNSPECIFIED_USERID True s = (q, s1)" by fastforce
  have 1: "reach R s0 s1" using s1 Cons.prems(2) by (rule reach_RemoveModuleAndDataDir)
  then have n1: "in_bundleName s1 = in_bundleName s" using Cons.prems(2) by (simp add: reach_def)
  obtain ok i1 s2 where s2: "dm_op e (\<lambda>kv d. (case Mgr_RemoveModuleInfo kv (in_bundleName s1) m i d of
      (ok, i', d') \<Rightarrow> ((ok, i'), d'))) s1 = ((ok, i1), s2)" by (metis prod.collapse)
  have 2: "reach R s0 s2" using reach_module_ops(3) [OF s2 1] Cons.prems n1 by simp
  then have n2: "in_bundleName s2 = in_bundleName s" using Cons.prems(2) by (simp add: reach_def)
  have "GetBundleName i1 = in_bundleName s2"
    using module_op_names(3) [OF _ _ s2] Cons.prems(3) n1 n2 by simp
  then show ?case using Cons.IH [of i1 s2] Cons.prems s1 s2 1 2 n2 by (auto split: if_splits)
qed simp

lemma reach_UninstallLowerVersionFeature:
  assumes "UninstallLowerVersionFeature e ms s = (r, s')" "reach R s0 s" "in_bundleName s \<in> N"
  shows "reach R s0 s'"
proof -
  obtain found s1 where g: "get_info e (in_bundleName s) s = (found, s1)" by fastforce
  have 1: "reach R s0 s1" "in_bundleName s1 = in_bundleName s" using reach_ops(2) [OF g assms(2,3)] assms(2) by (auto simp: reach_def)
  obtain ok s2 where s2: "set_state e (in_bundleName s1) UNINSTALL_START s1 = (ok, s2)" by fastforce
  have 2: "reach R s0 s2" using reach_ops(1) [OF s2 1(1)] 1(2) assms(3) by simp
  show ?thesis
  proof (cases "found = None \<or> \<not> ok")
    case True
    then show ?thesis using assms(1) g s2 1 2 by (auto simp: UninstallLowerVersionFeature_def split: option.splits)
  next
    case False
    then obtain i where i: "found = Some i" and ok by auto
    obtain k s3 where s3: "kill_op e (app_name (ib_baseApplicationInfo i)) (GetUid (in_userId s2) i) s2 = (k, s3)" by fastforce
    obtain q i1 s4 where s4: "remove_modules e (filter (\<lambda>m. m \<notin> set ms) (GetModuleNameVec i)) i s3 = (q, i1, s4)"
      by (metis prod_cases3)
    have 3: "reach R s0 s3" using s3 2 by (rule reach_ext)
    then have n3: "in_bundleName s3 = in_bundleName s" using assms(2) by (simp add: reach_def)
    have "GetBundleName i = in_bundleName s" using g i assms(2) by (auto intro: reach_named)
    then have 4: "reach R s0 s4" using reach_remove_modules [OF s4 3] n3 assms(3) by simp
    show ?thesis using assms(1) g i \<open>ok\<close> s2 s3 s4 4
      by (auto simp: UninstallLowerVersionFeature_def UpdateDefineAndRequestPermissions_def split: if_splits elim: reach_update_tokens)
  qed
qed

lemma reach_uninstall_for:
  assumes "uninstall_for e param vs s = Some s'" "reach R s0 s" "in_bundleName s \<in> N" "in_cloneMgr s0 \<longrightarrow> N = UNIV"
  shows "reach R s0 s'"
  using assms
proof (induction vs arbitrary: s)
  case (Cons v vs)
  have step: "reach R s0 s1 \<and> in_bundleName s1 \<in> N" if "UninstallBundle e (in_bundleName s) q s = Some (r, s1)" for q r s1
    using reach_UninstallBundle [OF that Cons.prems(2,3,4)] Cons.prems(2,3) by (simp add: reach_def)
  show ?case using Cons.prems Cons.IH step by (auto split: if_splits Option.bind_splits)
qed simp

lemma reach_OnSingletonChange:
  assumes "OnSingletonChange e s = Some s'" "reach R s0 s" "in_bundleName s \<in> N" "in_cloneMgr s0 \<longrightarrow> N = UNIV"
  shows "reach R s0 s'"
proof -
  obtain found s1 where g: "get_info e (in_bundleName s) s = (found, s1)" by fastforce
  have 1: "reach R s0 s1" "in_bundleName s1 \<in> N" using reach_ops(2) [OF g assms(2,3)] assms(2,3) by (auto simp: reach_def)
  show ?thesis using assms 1 unfolding OnSingletonChange_def g Let_def
    by (auto split: if_splits option.splits dest: reach_UninstallBundle reach_uninstall_for)
qed

section \<open>Processing an installation\<close>

lemma reach_install_checked:
  assumes "install_checked e newInfos param s = Some (r, s')" "reach R s0 s" "in_bundleName s = n" "n \<in> N"
    and "all_named n newInfos" "in_cloneMgr s0 \<longrightarrow> N = UNIV"
  shows "\<exists>x. reach R (s0\<lparr>in_isAppExist := x\<rparr>) s'"
proof -
  obtain r1 infos old s1 where p: "InnerProcessBundleInstall e newInfos param s = Some (r1, infos, old, s1)"
    using assms(1) by (auto simp: install_checked_def split: Option.bind_splits)
  obtain x where 1: "reach R (s0\<lparr>in_isAppExist := x\<rparr>) s1"
    and old: "in_isAppExist s1 \<and> \<not> no_rollback r1 \<longrightarrow> GetBundleName old = n"
    using reach_InnerProcessBundleInstall [OF p assms(2-5)] by blast
  let ?s0 = "s0\<lparr>in_isAppExist := x\<rparr>"
  have n1: "in_bundleName s1 = n" using 1 assms(2,3) by (simp add: reach_def)
  obtain r2 s2 where m: "rename_modules e infos (s1\<lparr>in_state := 80\<rparr>) = (r2, s2)" by fastforce
  define s3 where "s3 = s2\<lparr>in_state := 90\<rparr>"
  have 3: "reach R ?s0 s3" using reach_rename_modules [OF m] 1 by (simp add: s3_def)
  then have n3: "in_bundleName s3 = n" and ex: "in_isAppExist s3 = in_isAppExist s1" using 1 n1 by (simp_all add: reach_def)
  define s4 where "s4 = (if in_uninstallModuleVec s3 \<noteq> [] then snd (UninstallLowerVersionFeature e (in_uninstallModuleVec s3) s3) else s3)"
  define s5 where "s5 = (SaveHapPathToRecords (ip_isPreInstallApp param) infos s4)\<lparr>in_state := 100\<rparr>"
  have "reach R ?s0 s4" using 3 n3 assms(4) by (auto simp: s4_def intro: reach_UninstallLowerVersionFeature)
  then have 5: "reach R ?s0 s5" by (simp add: s5_def SaveHapPathToRecords_def)
  then have n5: "in_bundleName s5 \<in> N" using 1 n1 assms(4) by (simp add: reach_def)
  have undo1: "reach R ?s0 t" if "RollBack e infos old s1 = Some t" "\<not> no_rollback r1" for t
    using reach_RollBack [OF that(1) 1] that(2) old n1 assms(4) by simp
  have undo3: "reach R ?s0 t" if "RollBack e infos old s3 = Some t" "\<not> no_rollback r1" for t
    using reach_RollBack [OF that(1) 3] that(2) old n3 ex assms(4) by simp
  have last: "reach R ?s0 t" if "OnSingletonChange e s5 = Some t" for t
    using reach_OnSingletonChange [OF that 5 n5] assms(6) by simp
  have "Some (r, s') =
      (if no_rollback r1 then Some (r1, s1)
       else if r1 \<noteq> ERR_OK then map_option (Pair r1) (RollBack e infos old s1)
       else if no_rollback r2 then Some (r2, s3)
       else if r2 \<noteq> ERR_OK then map_option (Pair r2) (RollBack e infos old s3)
       else OnSingletonChange e s5 \<bind> (\<lambda>s6. Some (ERR_OK, s6)))"
    unfolding assms(1) [symmetric] install_checked_def p bind.bind_lunit prod.case m Let_def
      s3_def [symmetric] s4_def [symmetric] s5_def [symmetric] by simp
  then have "reach R ?s0 s'" using 1 3 undo1 undo3 last by (auto split: if_splits Option.bind_splits dest: sym [of "Some _"])
  then show ?thesis ..
qed

lemma ProcessBundleInstall_runs:
  assumes "ProcessBundleInstall e paths param appType s = Some (r, s')" "mgr_inv (b_dm s)"
    and "check_install e paths param appType s = Some (checked, s1)"
    and "\<not> isl checked \<Longrightarrow> in_bundleName s1 \<in> N" "in_cloneMgr s \<longrightarrow> N = UNIV"
  shows "R (b_dm s) (b_dm s') \<and> mgr_inv (b_dm s') \<and> in_bundleName s' = in_bundleName s1"
proof (cases checked)
  case (Inl q)
  then show ?thesis using assms(1-3) check_install_names [OF assms(3)] refl by (simp add: ProcessBundleInstall_def)
next
  case (Inr packages)
  note chk = check_install_names [OF assms(3)]
  obtain q s2 r3 s3 where u: "UninstallAllSandboxApps e (in_bundleName s1) INVALID_USERID s1 = Some (q, s2)"
    and i: "install_checked e packages param (s2\<lparr>in_state := 50\<rparr>) = Some (r3, s3)"
    using assms(1,3) Inr by (auto simp: ProcessBundleInstall_def split: Option.bind_splits)
  obtain ok4 s4 where s4: "enable_bundle e (in_bundleName s3) s3 = (ok4, s4)" by fastforce
  obtain ok5 s5 where s5: "set_state e (in_bundleName s4) INSTALL_SUCCESS s4 = (ok5, s5)" by fastforce
  have s': "s' = s5" using assms(1,3) Inr u i s4 s5 by (simp add: ProcessBundleInstall_def)
  have N: "in_bundleName s1 \<in> N" using assms(4) Inr by simp
  have 1: "reach R s1 s1" using assms(2) chk(1) by (intro reach_refl) simp
  have clone: "in_cloneMgr s1 \<longrightarrow> N = UNIV" using assms(5) chk(2) by simp
  have 2: "reach R s1 s2" by (rule reach_UninstallAllSandboxApps [OF u 1 N])
  have "reach R s1 (s2\<lparr>in_state := 50\<rparr>)" "in_bundleName (s2\<lparr>in_state := 50\<rparr>) = in_bundleName s1"
    using 2 by (simp_all add: reach_def)
  from reach_install_checked [OF i this N chk(3) [OF Inr] clone]
  obtain x where 3: "reach R (s1\<lparr>in_isAppExist := x\<rparr>) s3" by blast
  then have n3: "in_bundleName s3 = in_bundleName s1" by (simp add: reach_def)
  have 4: "reach R (s1\<lparr>in_isAppExist := x\<rparr>) s4" using reach_ops(3) [OF s4 3] n3 N by simp
  then have "in_bundleName s4 = in_bundleName s1" by (simp add: reach_def)
  then have "reach R (s1\<lparr>in_isAppExist := x\<rparr>) s5" using reach_ops(1) [OF s5 4] N by simp
  then show ?thesis using chk(1) by (simp add: s' reach_def)
qed

lemma InnerProcessInstallByPreInstallInfo_runs:
  assumes "InnerProcessInstallByPreInstallInfo e n param rec s = Some (r, s')" "mgr_inv (b_dm s)" "N = UNIV"
  shows "R (b_dm s) (b_dm s') \<and> mgr_inv (b_dm s')"
proof -
  let ?s = "s\<lparr>in_userId := GetUserId_inst (ip_userId param)\<rparr>"
  have 0: "reach R ?s ?s" using assms(2) by (intro reach_refl) simp
  obtain found s1 where g: "get_info e n ?s = (found, s1)" by fastforce
  have 1: "reach R ?s s1" using reach_ops(2) [OF g 0] assms(3) by simp
  obtain ok s2 where s2: "enable_bundle e n s1 = (ok, s2)" by fastforce
  have 2: "reach R ?s s2" using reach_ops(3) [OF s2 1] assms(3) by simp
  have create: "R (b_dm s) (b_dm t) \<and> mgr_inv (b_dm t)"
    if "create_for_user e i n (s2\<lparr>in_versionCode := v\<rparr>) = Some (q, i', t)" for v i q i' t
    using reach_create_for_user(1) [OF that, of ?s] 2 assms(3) by (simp add: reach_def)
  have process: "R (b_dm s) (b_dm s') \<and> mgr_inv (b_dm s')"
    if p: "ProcessBundleInstall e paths param' appType s1 = Some (r, s')" for paths param' appType
  proof -
    obtain checked t where "check_install e paths param' appType s1 = Some (checked, t)"
      using p by (auto simp: ProcessBundleInstall_def split: Option.bind_splits)
    from ProcessBundleInstall_runs [OF p _ this] 1 assms(3) show ?thesis by (auto simp: reach_def intro: trans)
  qed
  show ?thesis using assms(1,2) 1 2 create process refl unfolding InnerProcessInstallByPreInstallInfo_def Let_def g
    by (auto simp: s2 reach_def split: if_splits option.splits)
qed

end

end
