(* ===== verification/Installer_Refinement.thy ===== *)
theory Installer_Refinement
  imports Installer_Steps
begin

text \<open>
  The two relations the installer is a client with: it changes the data manager only by the data
  manager's own operations, and it leaves other bundles alone.
\<close>

section \<open>Two clients' relations\<close>

lemma mgr_steps_inv: "mgr_step\<^sup>*\<^sup>* d d' \<Longrightarrow> mgr_inv d \<Longrightarrow> mgr_inv d'"
  by (induction rule: rtranclp_induct) (auto intro: mgr_step_inv)

interpretation steps: data_mgr_client UNIV "mgr_step\<^sup>*\<^sup>*"
  by unfold_locales (auto intro: mgr_step.intros r_into_rtranclp mgr_steps_inv)

text \<open>What a data manager holds about one bundle.\<close>

definition bundle_view :: "string \<Rightarrow> data_mgr \<Rightarrow> inner_bundle_info option \<times> inner_bundle_info option \<times> install_state option" where
  "bundle_view k d = (map_of (dm_bundleInfos d) k, map_of (dm_dataStorage d) k, map_of (dm_installStates d) k)"

definition keeps_others :: "string set \<Rightarrow> data_mgr \<Rightarrow> data_mgr \<Rightarrow> bool" where
  "keeps_others N d d' \<longleftrightarrow>
     (mgr_inv d \<longrightarrow> mgr_inv d' \<and> dm_multiUserIdsSet d' = dm_multiUserIdsSet d \<and> (\<forall>k. k \<notin> N \<longrightarrow> bundle_view k d' = bundle_view k d))"

lemma view_save_and_set:
  "GetBundleName i = n \<Longrightarrow> k \<noteq> n \<Longrightarrow> bundle_view k (snd (save_and_set kv n i d)) = bundle_view k d"
  "GetBundleName i = n \<Longrightarrow> k \<noteq> n \<Longrightarrow> bundle_view k (snd (set_and_save kv n i d)) = bundle_view k d"
  "dm_multiUserIdsSet (snd (save_and_set kv n i d)) = dm_multiUserIdsSet d"
  "dm_multiUserIdsSet (snd (set_and_save kv n i d)) = dm_multiUserIdsSet d"
  by (auto simp: bundle_view_def save_and_set_def set_and_save_def SaveStorageBundleInfo_def Let_def split: prod.splits bool.splits)

lemma view_set_status [simp]:
  "k \<noteq> n \<Longrightarrow> bundle_view k (set_status st n d) = bundle_view k d"
  "dm_multiUserIdsSet (set_status st n d) = dm_multiUserIdsSet d"
  by (simp_all add: bundle_view_def set_status_def)

lemma view_state:
  assumes "mgr_inv d" "k \<noteq> n"
  shows "bundle_view k (snd (UpdateBundleInstallState kv n st d)) = bundle_view k d"
proof -
  have "GetBundleName i = n" if "map_of (dm_bundleInfos d) n = Some i" for i
    using assms(1) that by (auto simp: mgr_inv_def named_def)
  then show ?thesis using assms(2)
    by (auto simp: bundle_view_def UpdateBundleInstallState_def DeleteBundleInfo_def DeleteStorageBundleInfo_def delete_key_def
        sm_emplace_def Let_def split: option.splits)
qed

lemma keeps_others_step:
  assumes "mgr_step d d'" "mgr_inv d \<Longrightarrow> dm_multiUserIdsSet d' = dm_multiUserIdsSet d" "\<And>k. mgr_inv d \<Longrightarrow> k \<notin> N \<Longrightarrow> bundle_view k d' = bundle_view k d"
  shows "keeps_others N d d'"
  using assms mgr_step_inv by (auto simp: keeps_others_def)

lemma users_state [simp]:
  "dm_multiUserIdsSet (snd (UpdateBundleInstallState kv n st d)) = dm_multiUserIdsSet d"
  "dm_multiUserIdsSet (RecycleUidAndGid i d) = dm_multiUserIdsSet d"
  "dm_multiUserIdsSet (snd (snd (GenerateUidAndGid u d))) = dm_multiUserIdsSet d"
  by (auto simp: UpdateBundleInstallState_def DeleteBundleInfo_def RecycleUidAndGid_def GenerateUidAndGid_def GenerateBundleId_def Let_def
      split: option.splits list.splits prod.splits if_splits)

lemma view_ids [simp]:
  "bundle_view k (RecycleUidAndGid i d) = bundle_view k d"
  "bundle_view k (snd (snd (GenerateUidAndGid u d))) = bundle_view k d"
  by (auto simp: bundle_view_def RecycleUidAndGid_def GenerateUidAndGid_def GenerateBundleId_def Let_def
      split: option.splits list.splits prod.splits if_splits)

text \<open>An operation on the bundle \<open>n\<close> that changes nothing else.\<close>

definition only_on :: "string \<Rightarrow> data_mgr \<Rightarrow> data_mgr \<Rightarrow> bool" where
  "only_on n d d' \<longleftrightarrow> dm_multiUserIdsSet d' = dm_multiUserIdsSet d \<and> (\<forall>k. k \<noteq> n \<longrightarrow> bundle_view k d' = bundle_view k d)"

lemma only_on_refl [simp]: "only_on n d d"
  by (simp add: only_on_def)

lemma only_on_saves:
  "GetBundleName i = n \<Longrightarrow> only_on n d (snd (save_and_set kv n i d))"
  "GetBundleName i = n \<Longrightarrow> only_on n d (snd (set_and_save kv n i d))"
  "GetBundleName i = n \<Longrightarrow> only_on n d (snd (SaveInnerBundleInfo kv i d))"
  "only_on n d (set_status st n d)"
  by (simp_all add: only_on_def view_save_and_set)
    (auto simp: bundle_view_def SaveInnerBundleInfo_def SaveStorageBundleInfo_def split: prod.splits)

lemma only_on_info_ops:
  assumes "GetBundleName old = n"
  shows "GetBundleName new = n \<Longrightarrow> only_on n d (snd (snd (AddNewModuleInfo kv n new old d)))"
    and "GetBundleName new = n \<Longrightarrow> only_on n d (snd (snd (UpdateInnerBundleInfo kv n new old d)))"
    and "only_on n d (snd (snd (Mgr_RemoveModuleInfo kv n m old d)))"
    and "only_on n d (snd (AddInnerBundleInfo kv n old d))"
  using assms only_on_saves(1) [of _ n d kv]
  by (simp_all add: AddNewModuleInfo_def UpdateInnerBundleInfo_def Mgr_RemoveModuleInfo_def AddInnerBundleInfo_def Let_def
      split_beta split: option.splits)

lemma only_on_named_ops:
  assumes "mgr_inv d"
  shows "only_on n d (snd (UpdateBundleInstallState kv n st d))"
    and "only_on n d (snd (Mgr_AddInnerBundleUserInfo kv n u d))"
    and "Mgr_RemoveInnerBundleUserInfo kv js n v d = Some (r, d') \<Longrightarrow> only_on n d d'"
    and "only_on n d (snd (GetInnerBundleInfo n d))" "only_on n d (snd (EnableBundle n d))"
    and "only_on n d (DeleteSandboxPersistentInfo kv n p d)"
    and "only_on n d (snd (RemoveClonedBundleInfo kv n d))"
proof -
  have key: "GetBundleName i = n" if "map_of (dm_bundleInfos d) n = Some i" for i
    using assms that by (auto simp: mgr_inv_def named_def)
  show "only_on n d (snd (UpdateBundleInstallState kv n st d))" using view_state [OF assms] by (simp add: only_on_def)
  show "only_on n d (snd (Mgr_AddInnerBundleUserInfo kv n u d))"
    by (auto simp: Mgr_AddInnerBundleUserInfo_def key split: option.splits intro!: only_on_saves)
  show "only_on n d (snd (GetInnerBundleInfo n d))" "only_on n d (snd (EnableBundle n d))"
    by (auto simp: GetInnerBundleInfo_def EnableBundle_def split: option.splits intro!: only_on_saves)
  show "only_on n d (DeleteSandboxPersistentInfo kv n p d)"
    by (auto simp: DeleteSandboxPersistentInfo_def key split: option.splits intro!: only_on_saves)
  show "only_on n d (snd (RemoveClonedBundleInfo kv n d))"
    by (auto simp: RemoveClonedBundleInfo_def key only_on_def bundle_view_def DeleteStorageBundleInfo_def delete_key_def Let_def
        split: option.splits prod.splits bool.splits if_splits)
  assume rm: "Mgr_RemoveInnerBundleUserInfo kv js n v d = Some (r, d')"
  show "only_on n d d'"
  proof (cases "map_of (dm_bundleInfos d) n")
    case None
    then show ?thesis using rm by (simp add: Mgr_RemoveInnerBundleUserInfo_def)
  next
    case (Some i)
    let ?r = "set_and_save kv n (SetBundleStatus BundleStatus_ENABLED (RemoveInnerBundleUserInfo v i)) d"
    have "only_on n d (snd ?r)" using key Some by (intro only_on_saves) simp
    moreover have "\<exists>file. d' = (snd ?r)\<lparr>dm_bundleState := file\<rparr> \<or> d' = snd ?r"
      using rm Some by (auto simp: Mgr_RemoveInnerBundleUserInfo_def split: prod.splits bool.splits option.splits)
    ultimately show ?thesis by (auto simp: only_on_def bundle_view_def)
  qed
qed

lemma keeps_others_on:
  assumes "mgr_step d d'" "n \<in> N" "mgr_inv d \<Longrightarrow> only_on n d d'"
  shows "keeps_others N d d'"
proof (rule keeps_others_step [OF assms(1)])
  show "bundle_view k d' = bundle_view k d" if "mgr_inv d" "k \<notin> N" for k
    using that assms(2) assms(3) [OF that(1)] by (metis only_on_def)
qed (use assms(3) in \<open>simp add: only_on_def\<close>)

interpretation others: data_mgr_client N "keeps_others N" for N
proof
  fix d d' d1 d2 :: data_mgr and kv n st i new old m u js v r p q ok
  show "keeps_others N d d" by (simp add: keeps_others_def)
  show "keeps_others N d d1 \<Longrightarrow> keeps_others N d1 d2 \<Longrightarrow> keeps_others N d d2" by (simp add: keeps_others_def)
  show "mgr_inv d \<Longrightarrow> keeps_others N d d' \<Longrightarrow> mgr_inv d'" by (simp add: keeps_others_def)
  show "keeps_others N d (RecycleUidAndGid i d)" by (rule keeps_others_step) (auto intro: mgr_step.intros)
  show "keeps_others N d (snd (snd (GenerateUidAndGid u d)))" by (rule keeps_others_step) (auto intro: mgr_step.intros)
  show "keeps_others N d (snd (SavePreInstallBundleInfo ok q d))"
    by (rule keeps_others_step [OF mgr_step.save_pre]) (auto simp: SavePreInstallBundleInfo_def bundle_view_def Let_def)
  show "GetBundleName i \<in> N \<Longrightarrow> keeps_others N d (snd (SaveInnerBundleInfo kv i d))"
    by (auto intro!: keeps_others_on [OF mgr_step.save_info] only_on_saves)
qed (auto intro: keeps_others_on mgr_step.intros only_on_named_ops only_on_info_ops)

section \<open>The installer refines the data manager\<close>

lemma steps_reachable: "mgr_step\<^sup>*\<^sup>* d d' \<Longrightarrow> mgr_reachable d \<Longrightarrow> mgr_reachable d'"
  by (induction rule: rtranclp_induct) (auto intro: mgr_reachable.step)

lemma install_steps:
  assumes "ProcessBundleInstall e paths param appType s = Some (r, s')" "mgr_inv (b_dm s)"
  shows "mgr_step\<^sup>*\<^sup>* (b_dm s) (b_dm s')"
proof -
  obtain checked s1 where "check_install e paths param appType s = Some (checked, s1)"
    using assms(1) by (auto simp: ProcessBundleInstall_def split: Option.bind_splits)
  from steps.ProcessBundleInstall_runs [OF assms this] show ?thesis by simp
qed

lemma uninstall_steps:
  assumes "UninstallBundle e n param s = Some (r, s')" "mgr_inv (b_dm s)"
  shows "mgr_step\<^sup>*\<^sup>* (b_dm s) (b_dm s')"
  using steps.reach_UninstallBundle [OF assms(1) steps.reach_refl [OF assms(2)]] by (simp add: reach_def)

lemma uninstall_module_steps:
  assumes "UninstallBundle_module e n m param s = Some (r, s')" "mgr_inv (b_dm s)"
  shows "mgr_step\<^sup>*\<^sup>* (b_dm s) (b_dm s')"
proof -
  obtain q s1 s2 where u: "UninstallAllSandboxApps e n (ip_userId param) s = Some (q, s1)"
    and p: "ProcessBundleUninstall_module e n m param s1 = Some (r, s2)"
    and s': "s' = (if r \<noteq> ERR_OK then s2 else (case get_info e n s2 of (None, s3) \<Rightarrow> s3 | (Some _, s3) \<Rightarrow> snd (enable_bundle e n s3)))"
    using assms(1) by (auto simp: UninstallBundle_module_def split: Option.bind_splits)
  have 1: "mgr_step\<^sup>*\<^sup>* (b_dm s) (b_dm s1)" "mgr_inv (b_dm s1)"
    using steps.reach_UninstallAllSandboxApps [OF u steps.reach_refl [OF assms(2)]] by (simp_all add: reach_def)
  have 2: "mgr_step\<^sup>*\<^sup>* (b_dm s1) (b_dm s2)" "mgr_inv (b_dm s2)"
    using steps.ProcessBundleUninstall_module_runs [OF p 1(2)] by simp_all
  have "reach mgr_step\<^sup>*\<^sup>* s2 s'" using steps.reach_refl [OF 2(2)]
    by (auto simp: s' split: prod.splits option.splits elim!: steps.reach_ops)
  then show ?thesis using 1 2 by (auto simp: reach_def)
qed

end
