(* ===== verification/Install_Outcome.thy ===== *)
theory Install_Outcome
  imports Installer_Refinement
begin

text \<open>
  What an installation leaves behind: a first installation when every other process answers well, a
  first installation that fails, and an update that is refused.
\<close>

section \<open>Members that installing a package keeps\<close>

definition module_keys :: "inner_bundle_info \<Rightarrow> string list" where
  "module_keys i = map fst (ib_innerModuleInfos i)"

definition has_user :: "int \<Rightarrow> inner_bundle_info \<Rightarrow> bool" where
  "has_user v i \<longleftrightarrow> map_of (ib_innerBundleUserInfos i) (NameAndUserIdToKey (GetBundleName i) v) \<noteq> None"

lemma module_keys_upd [simp]: "module_keys (upd_current_module f i) = module_keys i"
  by (simp add: module_keys_def upd_current_module_def)

lemma module_keys_kept [simp]:
  "module_keys (SetAppCodePath p i) = module_keys i" "module_keys (SetAppDataBaseDir p i) = module_keys i"
  "module_keys (SetInstallMark n m st i) = module_keys i" "module_keys (AddInnerBundleUserInfo u i) = module_keys i"
  "module_keys (SetBundleInstallTime t v i) = module_keys i" "module_keys (SetAccessTokenId k v i) = module_keys i"
  "module_keys (SetIsFreeInstallApp b i) = module_keys i" "module_keys (AddModuleResPath p i) = module_keys i"
  "module_keys (AddModuleSrcDir p i) = module_keys i" "module_keys (SetModuleHapPath p i) = module_keys i"
  "module_keys (SetBundleStatus bs i) = module_keys i"
  by (simp_all add: SetAppCodePath_def SetAppDataBaseDir_def SetInstallMark_def AddInnerBundleUserInfo_def SetBundleInstallTime_def
      SetAccessTokenId_def SetIsFreeInstallApp_def AddModuleResPath_def AddModuleSrcDir_def SetModuleHapPath_def SetBundleStatus_def
      module_keys_def upd_user_info_def upd_current_module_def Let_def split: option.splits)

lemma has_user_kept [simp]:
  "has_user v (SetAppCodePath p i) = has_user v i" "has_user v (SetAppDataBaseDir p i) = has_user v i"
  "has_user v (SetInstallMark n m st i) = has_user v i" "has_user v (SetBundleInstallTime t w i) = has_user v i"
  "has_user v (SetAccessTokenId k w i) = has_user v i" "has_user v (SetIsFreeInstallApp b i) = has_user v i"
  "has_user v (AddModuleResPath p i) = has_user v i" "has_user v (AddModuleSrcDir p i) = has_user v i"
  "has_user v (SetModuleHapPath p i) = has_user v i" "has_user v (SetBundleStatus bs i) = has_user v i"
  by (auto simp: SetAppCodePath_def SetAppDataBaseDir_def SetInstallMark_def SetBundleInstallTime_def
      SetAccessTokenId_def SetIsFreeInstallApp_def AddModuleResPath_def AddModuleSrcDir_def SetModuleHapPath_def SetBundleStatus_def
      has_user_def upd_user_info_def upd_current_module_def GetBundleName_def Let_def split: option.splits if_splits)

lemma has_user_add [simp]:
  "bu_userId (iu_bundleUserInfo u) = v \<Longrightarrow> has_user v (AddInnerBundleUserInfo u i)"
  by (simp add: has_user_def AddUser_lookup)

lemma mark_kept [simp]:
  "ib_mark (SetAppCodePath p i) = ib_mark i" "ib_mark (SetAppDataBaseDir p i) = ib_mark i"
  "ib_mark (AddInnerBundleUserInfo u i) = ib_mark i" "ib_mark (SetBundleInstallTime t v i) = ib_mark i"
  "ib_mark (SetAccessTokenId k v i) = ib_mark i" "ib_mark (SetBundleStatus bs i) = ib_mark i"
  by (simp_all add: SetAppCodePath_def SetAppDataBaseDir_def AddInnerBundleUserInfo_def SetBundleInstallTime_def
      SetAccessTokenId_def SetBundleStatus_def upd_user_info_def Let_def split: option.splits)

lemma Get_has_user:
  "has_user v i \<Longrightarrow> fst (GetInnerBundleUserInfo v out i) \<or> v = ALL_USERID"
  by (auto simp: has_user_def GetInnerBundleUserInfo_def)

section \<open>An environment in which every call works\<close>

definition fine_env :: "install_env \<Rightarrow> bool" where
  "fine_env e \<longleftrightarrow> (\<forall>t c. env_fs e t c = ERR_OK) \<and> (\<forall>t p. env_perm e t p) \<and> (\<forall>t. env_kv e t = kv_fine)"

lemma fine_saves [simp]: "SaveStorageBundleInfo kv_fine i st = (True, sm_assign (GetBundleName i) i st)"
  by (simp add: SaveStorageBundleInfo_def kv_fine_def try_twice_def)

lemma in_log_call [simp]:
  "in_state (log_call c s) = in_state s" "in_cloneMgr (log_call c s) = in_cloneMgr s" "in_bundleName (log_call c s) = in_bundleName s"
  "in_modulePath (log_call c s) = in_modulePath s" "in_modulePackage (log_call c s) = in_modulePackage s"
  "in_installedModules (log_call c s) = in_installedModules s" "in_isAppExist (log_call c s) = in_isAppExist s"
  "in_isContainEntry (log_call c s) = in_isContainEntry s" "in_versionCode (log_call c s) = in_versionCode s"
  "in_isFeatureNeedUninstall (log_call c s) = in_isFeatureNeedUninstall s"
  "in_uninstallModuleVec (log_call c s) = in_uninstallModuleVec s" "in_userId (log_call c s) = in_userId s"
  "in_hasInstalledInUser (log_call c s) = in_hasInstalledInUser s" "in_singletonState (log_call c s) = in_singletonState s"
  by (simp_all add: log_call_def)

lemma fine_ops:
  assumes "fine_env e"
  shows "fs_op e c s = (ERR_OK, log_call (Fs c) s)" "perm_op e p s = (True, log_call (Perm p) s)"
    "GrantRequestPermissions e i t s' = (ERR_OK, log_call (Perm (GrantRequestPermissions_call (GetBundleName i) t)) s')"
  using assms by (simp_all add: fine_env_def fs_op_def perm_op_def GrantRequestPermissions_def)

lemma dm_op_eq: "dm_op e f s = (case f (env_kv e (now s)) (b_dm s) of (r, d) \<Rightarrow> (r, log_call Store (s\<lparr>b_dm := d\<rparr>)))"
  by (simp add: dm_op_def)

section \<open>A first installation in it\<close>

text \<open>The members of the installer that the outcome depends on.\<close>

definition same_job :: "installer \<Rightarrow> installer \<Rightarrow> bool" where
  "same_job s s' \<longleftrightarrow> in_bundleName s' = in_bundleName s \<and> in_userId s' = in_userId s \<and> in_singletonState s' = in_singletonState s \<and>
     in_uninstallModuleVec s' = in_uninstallModuleVec s \<and> in_isAppExist s' = in_isAppExist s \<and> in_modulePackage s' = in_modulePackage s"

lemma Get_code_path [simp]: "GetInnerBundleUserInfo v out (SetAppCodePath p i) = GetInnerBundleUserInfo v out i"
  by (simp add: GetInnerBundleUserInfo_def SetAppCodePath_def GetBundleName_def)

lemma uid_keeps_user: "GenerateUidAndGid u d = (ok, u', d') \<Longrightarrow> iu_bundleUserInfo u' = iu_bundleUserInfo u"
  by (auto simp: GenerateUidAndGid_def Let_def split: if_splits option.splits prod.splits)

lemma fine_dirs:
  assumes e: "fine_env e" and u: "GetInnerBundleUserInfo (in_userId s) new_InnerBundleUserInfo i = (True, u)"
    "bu_userId (iu_bundleUserInfo u) = in_userId s"
    and id: "GenerateUidAndGid u (b_dm s) = (True, u1, d1)"
  shows "\<exists>i' s'. CreateBundleAndDataDir e i s = (ERR_OK, i', s') \<and> b_dm s' = d1 \<and> same_job s s' \<and>
     has_user (in_userId s) i' \<and> module_keys i' = module_keys i \<and> GetBundleName i' = GetBundleName i"
  using u uid_keeps_user [OF id]
  by (simp add: CreateBundleAndDataDir_def CreateBundleCodeDir_def CreateBundleDataDir_inst_def fine_ops [OF e] dm_op_eq id Let_def
      same_job_def)

lemma fine_extract:
  assumes "fine_env e"
  shows "\<exists>i' s'. ExtractModule e i p s = (ERR_OK, i', s') \<and> b_dm s' = b_dm s \<and> same_job s s' \<and>
     has_user v i' = has_user v i \<and> module_keys i' = module_keys i \<and> GetBundleName i' = GetBundleName i"
  by (simp add: ExtractModule_def fine_ops [OF assms] Let_def same_job_def)

lemma fine_finish:
  assumes e: "fine_env e" and n: "in_bundleName s = n" "n \<noteq> []" "GetBundleName i = n" and v: "has_user (in_userId s) i"
    and d: "map_of (dm_bundleInfos (b_dm s)) n = None" "map_of (dm_installStates (b_dm s)) n = Some INSTALL_START"
  shows "\<exists>i' s'. finish_first_install e i s = (ERR_OK, i', s') \<and> same_job s s' \<and> has_user (in_userId s) i' \<and>
     module_keys i' = module_keys i \<and> GetBundleName i' = n \<and> mk_status (ib_mark i') = INSTALL_FINISH_mark \<and>
     b_dm s' = (b_dm s)\<lparr>dm_dataStorage := sm_assign n i' (dm_dataStorage (b_dm s)), dm_bundleInfos := sm_assign n i' (dm_bundleInfos (b_dm s))\<rparr>"
proof -
  obtain i1 s1 where x: "ExtractModule e i (GetAppCodePath i @ PATH_SEPARATOR @ in_modulePackage s) s = (ERR_OK, i1, s1)"
    and s1: "b_dm s1 = b_dm s" "same_job s s1" and i1: "has_user (in_userId s) i1" "module_keys i1 = module_keys i" "GetBundleName i1 = n"
    using fine_extract [OF e, of i "GetAppCodePath i @ PATH_SEPARATOR @ in_modulePackage s" s "in_userId s"] n v by auto
  have kv: "env_kv e t = kv_fine" for t using e by (simp add: fine_env_def)
  show ?thesis
    using s1 i1 n d by (simp add: finish_first_install_def x fine_ops [OF e] token_op_def dm_op_eq kv AddInnerBundleInfo_def save_and_set_def
        Let_def same_job_def) (simp add: SetInstallMark_def)
qed

lemma same_job_refl [simp]: "same_job s s"
  by (simp add: same_job_def)

lemma same_job_trans: "same_job s s1 \<Longrightarrow> same_job s1 s2 \<Longrightarrow> same_job s s2"
  by (simp add: same_job_def)

lemma uid_frame:
  assumes "GenerateUidAndGid u d = (ok, u', d')"
  shows "dm_bundleInfos d' = dm_bundleInfos d" "dm_installStates d' = dm_installStates d" "dm_dataStorage d' = dm_dataStorage d"
  using assms by (auto simp: GenerateUidAndGid_def GenerateBundleId_def Let_def split: if_splits option.splits prod.splits)

lemma uid_ok:
  "iu_bundleName u \<noteq> [] \<Longrightarrow> fst (GenerateBundleId (iu_bundleName u) d) \<noteq> None \<Longrightarrow> \<exists>u' d'. GenerateUidAndGid u d = (True, u', d')"
  by (auto simp: GenerateUidAndGid_def Let_def split: prod.splits option.splits)

lemma GenerateBundleId_cong:
  "dm_bundleIdMap d' = dm_bundleIdMap d \<Longrightarrow> fst (GenerateBundleId n d') = fst (GenerateBundleId n d)"
  by (simp add: GenerateBundleId_def Let_def split: option.splits prod.splits)

lemma Get_mark [simp]: "GetInnerBundleUserInfo v out (SetInstallMark n m st i) = GetInnerBundleUserInfo v out i"
  by (simp add: GetInnerBundleUserInfo_def SetInstallMark_def GetBundleName_def)

text \<open>What the data manager holds once the first package of \<open>n\<close> is in.\<close>

definition installed_first :: "string \<Rightarrow> inner_bundle_info \<Rightarrow> data_mgr \<Rightarrow> bool" where
  "installed_first n i d \<longleftrightarrow> map_of (dm_bundleInfos d) n = Some i \<and> map_of (dm_dataStorage d) n = Some i \<and>
     map_of (dm_installStates d) n = Some INSTALL_START"

lemma fine_install_status:
  assumes e: "fine_env e" and n: "in_bundleName s = n" "n \<noteq> []" "GetBundleName i = n"
    and u: "GetInnerBundleUserInfo (in_userId s) new_InnerBundleUserInfo i = (True, u)"
      "bu_userId (iu_bundleUserInfo u) = in_userId s" "iu_bundleName u = n"
    and d: "map_of (dm_bundleInfos (b_dm s)) n = None" "map_of (dm_installStates (b_dm s)) n = None"
      "fst (GenerateBundleId n (b_dm s)) \<noteq> None"
    and uri: "verifyUriPrefix i (in_userId s) False (b_dm s)"
  shows "\<exists>i' s'. ProcessBundleInstallStatus e i s = (ERR_OK, i', s') \<and> in_bundleName s' = n \<and> in_userId s' = in_userId s \<and>
     in_singletonState s' = in_singletonState s \<and> in_uninstallModuleVec s' = in_uninstallModuleVec s \<and> in_isAppExist s' = in_isAppExist s \<and>
     has_user (in_userId s) i' \<and> module_keys i' = module_keys i \<and> GetBundleName i' = n \<and>
     mk_status (ib_mark i') = INSTALL_FINISH_mark \<and> installed_first n i' (b_dm s')"
proof -
  define s1 where "s1 = s\<lparr>in_modulePackage := ib_currentPackage i\<rparr>"
  let ?d2 = "(b_dm s)\<lparr>dm_installStates := sm_emplace n INSTALL_START (dm_installStates (b_dm s))\<rparr>"
  have kv: "env_kv e t = kv_fine" for t using e by (simp add: fine_env_def)
  have s2: "set_state e n INSTALL_START s1 = (True, log_call Store (s1\<lparr>b_dm := ?d2\<rparr>))"
    using n(2) d(2) by (simp add: dm_op_eq UpdateBundleInstallState_def s1_def)
  define s2 where "s2 = log_call Store (s1\<lparr>b_dm := ?d2\<rparr>)"
  define i1 where "i1 = SetInstallMark n (in_modulePackage s2) INSTALL_START_mark i"
  let ?d3 = "?d2\<lparr>dm_dataStorage := sm_assign n i1 (dm_dataStorage (b_dm s))\<rparr>"
  define s3 where "s3 = log_call Store (s2\<lparr>b_dm := ?d3\<rparr>)"
  have i1: "GetBundleName i1 = n" "module_keys i1 = module_keys i" by (simp_all add: i1_def n)
  have s3: "save_info e i1 s2 = (True, s3)"
    by (simp add: dm_op_eq SaveInnerBundleInfo_def kv i1 s3_def) (simp add: s2_def)
  have j3: "in_bundleName s3 = n" "in_userId s3 = in_userId s" "in_singletonState s3 = in_singletonState s"
    "in_uninstallModuleVec s3 = in_uninstallModuleVec s" "in_isAppExist s3 = in_isAppExist s" "b_dm s3 = ?d3"
    by (simp_all add: s3_def s2_def s1_def n)
  have id: "fst (GenerateBundleId (iu_bundleName u) (b_dm s3)) \<noteq> None"
    using d(3) GenerateBundleId_cong [of "b_dm s3" "b_dm s" n] j3(6) u(3) by simp
  obtain u1 d4 where g: "GenerateUidAndGid u (b_dm s3) = (True, u1, d4)" using uid_ok [OF _ id] u(3) n(2) by auto
  obtain i4 s4 where c: "CreateBundleAndDataDir e i1 s3 = (ERR_OK, i4, s4)" "b_dm s4 = d4" "same_job s3 s4"
    "has_user (in_userId s3) i4" "module_keys i4 = module_keys i1" "GetBundleName i4 = GetBundleName i1"
    using fine_dirs [OF e _ _ g, of i1] u j3(2) by (auto simp: i1_def)
  have d4: "map_of (dm_bundleInfos (b_dm s4)) n = None" "map_of (dm_installStates (b_dm s4)) n = Some INSTALL_START"
    using uid_frame [OF g] d n j3(6) c(2) by (simp_all add: sm_emplace_def)
  have j4: "in_bundleName s4 = n" "in_userId s4 = in_userId s" using c(3) j3 by (simp_all add: same_job_def)
  obtain i5 s5 where f: "finish_first_install e i4 s4 = (ERR_OK, i5, s5)" "same_job s4 s5" "has_user (in_userId s4) i5"
    "module_keys i5 = module_keys i4" "GetBundleName i5 = n" "mk_status (ib_mark i5) = INSTALL_FINISH_mark"
    "b_dm s5 = (b_dm s4)\<lparr>dm_dataStorage := sm_assign n i5 (dm_dataStorage (b_dm s4)), dm_bundleInfos := sm_assign n i5 (dm_bundleInfos (b_dm s4))\<rparr>"
    using fine_finish [OF e j4(1) n(2) _ _ d4, of i4] c i1 j3 j4 by auto
  have "ProcessBundleInstallStatus e i s = (ERR_OK, i5, s5)"
    using uri n(1) s2 s3 c(1) f(1) unfolding ProcessBundleInstallStatus_def Let_def
    by (simp add: s1_def [symmetric] s2_def [symmetric] i1_def [symmetric]) (simp add: s1_def s2_def i1_def)
  then show ?thesis using f c i1 j3 j4 d4 by (auto simp: same_job_def installed_first_def)
qed

section \<open>The whole first installation\<close>

lemma map_fst_upd_first [simp]: "map fst (upd_first_module m f ms) = map fst ms"
  by (induction m f ms rule: upd_first_module.induct) auto

lemma removable_kept:
  "module_keys (enable_removable old v f x i k) = module_keys i"
  "ib_baseAbilityInfos (enable_removable old v f x i k) = ib_baseAbilityInfos i"
  "ib_baseExtensionInfos (enable_removable old v f x i k) = ib_baseExtensionInfos i"
  by (auto simp: enable_removable_def SetModuleRemovable_def module_keys_def Let_def split: option.splits)

lemma removables_kept:
  "module_keys (foldl (enable_removable old v f x) i ks) = module_keys i"
  "ib_baseAbilityInfos (foldl (enable_removable old v f x) i ks) = ib_baseAbilityInfos i"
  "ib_baseExtensionInfos (foldl (enable_removable old v f x) i ks) = ib_baseExtensionInfos i"
  "GetBundleName (foldl (enable_removable old v f x) i ks) = GetBundleName i"
  by (induction ks arbitrary: i) (auto simp: removable_kept)

lemma verifyUriPrefix_cong:
  "ib_baseAbilityInfos i' = ib_baseAbilityInfos i \<Longrightarrow> ib_baseExtensionInfos i' = ib_baseExtensionInfos i \<Longrightarrow>
     verifyUriPrefix i' v False d = verifyUriPrefix i v False d"
  by (simp add: verifyUriPrefix_def GetUriPrefixList_def)

lemma get_info_missing:
  "map_of (dm_bundleInfos (b_dm s)) n = None \<Longrightarrow> get_info e n s = (None, log_call Store s)"
  by (simp add: dm_op_eq GetInnerBundleInfo_def)

lemma get_info_found:
  "n \<noteq> [] \<Longrightarrow> map_of (dm_bundleInfos (b_dm s)) n = Some i \<Longrightarrow>
     get_info e n s = (Some (SetBundleStatus BundleStatus_DISABLED i), log_call Store (s\<lparr>b_dm := set_status BundleStatus_DISABLED n (b_dm s)\<rparr>))"
  by (simp add: dm_op_eq GetInnerBundleInfo_def)

lemma fine_install_first:
  assumes e: "fine_env e" and n: "in_bundleName s = n" "n \<noteq> []" "GetBundleName i = n" and v: "plain_user (in_userId s)"
    and d: "map_of (dm_bundleInfos (b_dm s)) n = None" "map_of (dm_installStates (b_dm s)) n = None"
      "fst (GenerateBundleId n (b_dm s)) \<noteq> None"
    and uri: "verifyUriPrefix i (in_userId s) False (b_dm s)"
  shows "\<exists>i' s'. install_first e param (path, i) s = (ERR_OK, (path, i'), s') \<and> in_bundleName s' = n \<and> in_userId s' = in_userId s \<and>
     in_singletonState s' = in_singletonState s \<and> in_uninstallModuleVec s' = in_uninstallModuleVec s \<and> in_isAppExist s' = in_isAppExist s \<and>
     has_user (in_userId s) i' \<and> module_keys i' = module_keys i \<and> GetBundleName i' = n \<and>
     mk_status (ib_mark i') = INSTALL_FINISH_mark \<and> installed_first n i' (b_dm s')"
proof -
  let ?i = "SetIsFreeInstallApp (ip_installFlag param = InstallFlag_FREE_INSTALL) (AddInnerBundleUserInfo (new_user (in_userId s) n) i)"
  let ?s = "s\<lparr>in_modulePath := path\<rparr>"
  have user: "GetInnerBundleUserInfo (in_userId ?s) new_InnerBundleUserInfo ?i = (True, new_user (in_userId s) n)"
    using v by (simp add: GetInnerBundleUserInfo_def plain_user_def SetIsFreeInstallApp_def AddUser_lookup GetBundleName_def new_user_def
        AddUser_lookup(2) [unfolded GetBundleName_def])
  have uri': "verifyUriPrefix ?i (in_userId ?s) False (b_dm ?s)"
    using uri verifyUriPrefix_cong [of ?i i "in_userId s" "b_dm s"]
    by (simp add: SetIsFreeInstallApp_def AddInnerBundleUserInfo_def Let_def split: option.splits)
  show ?thesis
    using fine_install_status [OF e _ n(2) _ user _ _ _ _ _ uri'] n d
    by (auto simp: install_first_def Let_def new_user_def split: prod.splits)
qed

lemma fine_rest:
  assumes n: "in_bundleName s = n" "n \<noteq> []" and v: "plain_user (in_userId s)"
    and i: "map_of (dm_bundleInfos (b_dm s)) n = Some i" "GetBundleName i = n" "has_user (in_userId s) i"
  shows "\<exists>s'. install_rest e param old installed [] s = Some (ERR_OK, installed, old, s') \<and> in_bundleName s' = n \<and>
     in_singletonState s' = in_singletonState s \<and> in_uninstallModuleVec s' = in_uninstallModuleVec s \<and>
     b_dm s' = set_status BundleStatus_DISABLED n (b_dm s)"
proof -
  have "has_user (in_userId s) (SetBundleStatus BundleStatus_DISABLED i)" using i(3) by simp
  then obtain u where "GetInnerBundleUserInfo (in_userId s) new_InnerBundleUserInfo (SetBundleStatus BundleStatus_DISABLED i) = (True, u)"
    using v by (auto simp: has_user_def GetInnerBundleUserInfo_def plain_user_def)
  then show ?thesis using n i by (simp add: install_rest_def get_info_found Let_def)
qed

lemma no_sandboxes:
  "n \<noteq> [] \<Longrightarrow> sx_appInfos (b_sandbox s) = [] \<Longrightarrow> UninstallAllSandboxApps e n v s = Some (ERR_OK, s)"
  by (simp add: UninstallAllSandboxApps_def in_order_def map_filter_def)

lemma fine_rename: "fine_env e \<Longrightarrow> rename_modules e [(p, i)] s = (ERR_OK, s) \<or> (\<exists>c. rename_modules e [(p, i)] s = (ERR_OK, log_call c s))"
  by (auto simp: RenameModuleDir_inst_def fine_ops Let_def)

lemma fine_install_checked:
  assumes e: "fine_env e" and n: "in_bundleName s = n" "n \<noteq> []" "GetBundleName i = n" and v: "plain_user (in_userId s)"
    and d: "map_of (dm_bundleInfos (b_dm s)) n = None" "map_of (dm_installStates (b_dm s)) n = None"
      "fst (GenerateBundleId n (b_dm s)) \<noteq> None"
    and uri: "verifyUriPrefix i (in_userId s) False (b_dm s)"
    and p: "\<not> ip_needSavePreInstallInfo param" "\<not> singleton_mismatch (IsSingleton i) (in_userId s)"
    and fresh: "in_uninstallModuleVec s = []" "in_singletonState s = SingletonState_DEFAULT"
  shows "\<exists>s' j. install_checked e [(path, i)] param s = Some (ERR_OK, s') \<and> in_bundleName s' = n \<and>
     has_user (in_userId s) j \<and> module_keys j = module_keys i \<and> GetBundleName j = n \<and> mk_status (ib_mark j) = INSTALL_FINISH_mark \<and>
     map_of (dm_bundleInfos (b_dm s')) n = Some (SetBundleStatus BundleStatus_DISABLED j) \<and>
     map_of (dm_dataStorage (b_dm s')) n = Some j \<and> map_of (dm_installStates (b_dm s')) n = Some INSTALL_START"
proof -
  define s3 where "s3 = (log_call Store s)\<lparr>in_isAppExist := False\<rparr>"
  have s3: "in_bundleName s3 = n" "in_userId s3 = in_userId s" "b_dm s3 = b_dm s" "in_uninstallModuleVec s3 = []"
    "in_singletonState s3 = SingletonState_DEFAULT" using n fresh by (simp_all add: s3_def)
  let ?i = "foldl (enable_removable new_InnerBundleInfo (in_userId s) (ip_installFlag param = InstallFlag_FREE_INSTALL) False) i
     (map fst (ib_innerModuleInfos i))"
  have i: "GetBundleName ?i = n" "module_keys ?i = module_keys i" by (simp_all add: removables_kept n)
  have uri': "verifyUriPrefix ?i (in_userId s3) False (b_dm s3)"
    using uri s3 verifyUriPrefix_cong [of ?i i] by (simp add: removables_kept)
  obtain j s4 where f: "install_first e param (path, ?i) s3 = (ERR_OK, (path, j), s4)" and s4: "in_bundleName s4 = n" "in_userId s4 = in_userId s"
      "in_uninstallModuleVec s4 = []" "in_singletonState s4 = SingletonState_DEFAULT"
    and j: "has_user (in_userId s) j" "module_keys j = module_keys i" "GetBundleName j = n" "mk_status (ib_mark j) = INSTALL_FINISH_mark"
      "installed_first n j (b_dm s4)"
    using fine_install_first [OF e s3(1) n(2) i(1) _ _ _ _ uri', of param path] v d s3 i(2) by auto
  obtain s5 where r: "install_rest e param new_InnerBundleInfo [(path, j)] [] s4 = Some (ERR_OK, [(path, j)], new_InnerBundleInfo, s5)"
    and s5: "in_bundleName s5 = n" "in_singletonState s5 = SingletonState_DEFAULT" "in_uninstallModuleVec s5 = []"
      "b_dm s5 = set_status BundleStatus_DISABLED n (b_dm s4)"
    using fine_rest [OF s4(1) n(2), of j e param new_InnerBundleInfo "[(path, j)]"] v s4 j by (auto simp: installed_first_def)
  have inner: "InnerProcessBundleInstall e [(path, i)] param s = Some (ERR_OK, [(path, j)], new_InnerBundleInfo, s5)"
    using p n(1) f r get_info_missing [OF d(1), of e] by (simp add: InnerProcessBundleInstall_def CheckEnableRemovable_def s3_def [symmetric] Let_def)
  define s6 where "s6 = s5\<lparr>in_state := 80\<rparr>"
  obtain s7 where m: "rename_modules e [(path, j)] s6 = (ERR_OK, s7)" and s7: "b_dm s7 = b_dm s5" "in_bundleName s7 = n"
    "in_uninstallModuleVec s7 = []" "in_singletonState s7 = SingletonState_DEFAULT"
    using fine_rename [OF e, of path j s6] s5 by (auto simp: s6_def)
  have "\<exists>s'. install_checked e [(path, i)] param s = Some (ERR_OK, s') \<and> in_bundleName s' = n \<and> b_dm s' = b_dm s5"
    using m s7 by (simp add: install_checked_def inner s6_def [symmetric] no_rollback_def OnSingletonChange_def SaveHapPathToRecords_def Let_def
        del: rename_modules.simps)
  then show ?thesis using s5(4) j by (auto simp: installed_first_def set_status_def)
qed

lemma fine_first_install:
  assumes e: "fine_env e" and c: "check_install e paths param appType s = Some (Inr [(path, i)], s1)" and n: "GetBundleName i = n" "n \<noteq> []"
    and v: "plain_user (in_userId s1)" and p: "\<not> ip_needSavePreInstallInfo param" "\<not> singleton_mismatch (IsSingleton i) (in_userId s1)"
    and d: "map_of (dm_bundleInfos (b_dm s)) n = None" "map_of (dm_installStates (b_dm s)) n = None"
      "fst (GenerateBundleId n (b_dm s)) \<noteq> None"
    and uri: "verifyUriPrefix i (in_userId s1) False (b_dm s)"
    and fresh: "in_uninstallModuleVec s = []" "in_singletonState s = SingletonState_DEFAULT" "sx_appInfos (b_sandbox s) = []"
  shows "\<exists>s' j. ProcessBundleInstall e paths param appType s = Some (ERR_OK, s') \<and>
     HasInnerBundleUserInfo (in_userId s1) j \<and> module_keys j = module_keys i \<and> mk_status (ib_mark j) = INSTALL_FINISH_mark \<and>
     map_of (dm_bundleInfos (b_dm s')) n = Some (SetBundleStatus BundleStatus_ENABLED j) \<and>
     map_of (dm_dataStorage (b_dm s')) n = Some j \<and> map_of (dm_installStates (b_dm s')) n = Some INSTALL_SUCCESS"
proof -
  have s1: "b_dm s1 = b_dm s" "b_sandbox s1 = b_sandbox s" "in_bundleName s1 = n" "in_uninstallModuleVec s1 = []"
    "in_singletonState s1 = SingletonState_DEFAULT"
    using c n(1) fresh by (auto simp: check_install_def Let_def split: if_splits sum.splits prod.splits list.splits)
  obtain s3 j where i: "install_checked e [(path, i)] param (s1\<lparr>in_state := 50\<rparr>) = Some (ERR_OK, s3)" "in_bundleName s3 = n"
    "has_user (in_userId s1) j" "module_keys j = module_keys i" "GetBundleName j = n" "mk_status (ib_mark j) = INSTALL_FINISH_mark"
    "map_of (dm_bundleInfos (b_dm s3)) n = Some (SetBundleStatus BundleStatus_DISABLED j)"
    "map_of (dm_dataStorage (b_dm s3)) n = Some j" "map_of (dm_installStates (b_dm s3)) n = Some INSTALL_START"
    using fine_install_checked [OF e, of "s1\<lparr>in_state := 50\<rparr>" n i param path] s1 n v d p uri by auto
  let ?d = "set_status BundleStatus_ENABLED n (b_dm s3)"
  have en: "enable_bundle e n s3 = (True, log_call Store (s3\<lparr>b_dm := ?d\<rparr>))"
    using i(7) n by (simp add: dm_op_eq EnableBundle_def)
  have "set_state e n INSTALL_SUCCESS (log_call Store (s3\<lparr>b_dm := ?d\<rparr>)) =
      (True, log_call Store (log_call Store (s3\<lparr>b_dm := ?d\<lparr>dm_installStates := sm_assign n INSTALL_SUCCESS (dm_installStates (b_dm s3))\<rparr>\<rparr>)))"
    using i(9) n(2) by (simp add: dm_op_eq UpdateBundleInstallState_def transferStates_def IsDeleteDataState_def set_status_def)
      (simp add: log_call_def)
  then have "\<exists>s'. ProcessBundleInstall e paths param appType s = Some (ERR_OK, s') \<and>
      b_dm s' = ?d\<lparr>dm_installStates := sm_assign n INSTALL_SUCCESS (dm_installStates (b_dm s3))\<rparr>"
    using c i(1,2) en n(2) s1 fresh(3) by (simp add: ProcessBundleInstall_def no_sandboxes)
  moreover have "HasInnerBundleUserInfo (in_userId s1) j"
    using i(3) v by (simp add: has_user_def HasInnerBundleUserInfo_def plain_user_def)
  moreover have "SetBundleStatus BundleStatus_ENABLED (SetBundleStatus BundleStatus_DISABLED j) = SetBundleStatus BundleStatus_ENABLED j"
    by (simp add: SetBundleStatus_def)
  ultimately show ?thesis using i by (fastforce simp: set_status_def)
qed

section \<open>A refused update\<close>

text \<open>
  A bundle that is installed, disabled for the installer and not being updated: rolling back does not
  change it, because its state allows neither \<open>ROLL_BACK\<close> nor \<open>UPDATING_FAIL\<close>.
\<close>

definition at_rest :: "string \<Rightarrow> data_mgr \<Rightarrow> bool" where
  "at_rest n d \<longleftrightarrow> map_of (dm_installStates d) n = Some INSTALL_SUCCESS \<and> set_status BundleStatus_DISABLED n d = d"

lemma set_status_twice [simp]: "set_status a n (set_status b n d) = set_status a n d"
  by (simp add: set_status_def sm_update_def SetBundleStatus_def comp_def case_prod_beta)

lemma at_rest_disabled: "map_of (dm_installStates d) n = Some INSTALL_SUCCESS \<Longrightarrow> at_rest n (set_status BundleStatus_DISABLED n d)"
  by (simp add: at_rest_def) (simp add: set_status_def)

lemma at_rest_ops:
  assumes "at_rest n d"
  shows "snd (GetInnerBundleInfo n d) = d" "snd (UpdateBundleInstallState kv n ROLL_BACK d) = d"
    "snd (UpdateBundleInstallState kv n UPDATING_FAIL d) = d" "snd (snd (Mgr_RemoveModuleInfo kv n m old d)) = d"
  using assms by (auto simp: at_rest_def GetInnerBundleInfo_def UpdateBundleInstallState_def transferStates_def Mgr_RemoveModuleInfo_def
      split: option.splits)

lemma at_rest_RemoveInfo:
  assumes "at_rest n (b_dm s)" "in_bundleName s = n"
  shows "b_dm (RemoveInfo e n m s) = b_dm s" "bms.more (RemoveInfo e n m s) = bms.more s"
  using assms at_rest_ops [OF assms(1)] by (simp_all add: RemoveInfo_def Let_def split_beta split: option.splits prod.splits)

lemma in_of_more:
  fixes s s' :: installer
  assumes "bms.more s' = bms.more s"
  shows "in_bundleName s' = in_bundleName s" "in_installedModules s' = in_installedModules s" "in_userId s' = in_userId s"
    "in_isAppExist s' = in_isAppExist s"
  using assms by (cases s; cases s'; simp)+

lemma at_rest_RollBack_module:
  assumes "at_rest n (b_dm s)" "in_bundleName s = n" "in_installedModules s = []" "RollBack_module e i old s = (old', s')"
  shows "b_dm s' = b_dm s" "bms.more s' = bms.more s"
proof -
  obtain r s1 where s1: "RemoveModuleDir e (GetModuleDir (ib_currentPackage i) i) s = (r, s1)" by fastforce
  then have 1: "b_dm s1 = b_dm s" "bms.more s1 = bms.more s" by (auto simp: RemoveModuleDir_def fs_op_def)
  then have n: "in_bundleName s1 = n" using in_of_more(1) [of s1 s] assms(2) by simp
  have "s' = RemoveInfo e n (ib_currentPackage i) s1" using assms(3,4) s1 n by (simp add: RollBack_module_def Let_def)
  then show "b_dm s' = b_dm s" "bms.more s' = bms.more s"
    using at_rest_RemoveInfo [of n s1 e "ib_currentPackage i"] assms(1) 1 n by simp_all
qed

lemma at_rest_RollBack_modules:
  assumes "at_rest n (b_dm s)" "in_bundleName s = n" "in_installedModules s = []"
    and "foldl (\<lambda>(old, s) (_, i). RollBack_module e i old s) (old, s) infos = (old', s')"
  shows "b_dm s' = b_dm s \<and> bms.more s' = bms.more s"
  using assms
proof (induction infos arbitrary: old s)
  case (Cons hap infos)
  obtain old1 s1 where m: "RollBack_module e (snd hap) old s = (old1, s1)" by fastforce
  have 1: "b_dm s1 = b_dm s" "bms.more s1 = bms.more s" using at_rest_RollBack_module [OF Cons.prems(1-3) m] by simp_all
  from Cons.IH [of s1 old1] in_of_more [OF 1(2)] Cons.prems m 1 show ?case by (simp add: split_beta)
qed simp

lemma update_tokens_frame: "b_dm (snd (update_tokens e call n us s)) = b_dm s" "bms.more (snd (update_tokens e call n us s)) = bms.more s"
  by (induction e call n us s rule: update_tokens.induct) (auto simp: perm_op_def split: prod.splits)

lemma at_rest_RollBack:
  assumes "at_rest n (b_dm s)" "in_bundleName s = n" "in_installedModules s = []" "in_isAppExist s"
  shows "\<exists>s'. RollBack e infos old s = Some s' \<and> b_dm s' = b_dm s \<and> in_bundleName s' = n"
proof -
  obtain found s1 where g: "get_info e n s = (found, s1)" by fastforce
  have 1: "b_dm s1 = b_dm s" "bms.more s1 = bms.more s"
    using g at_rest_ops(1) [OF assms(1)] dm_op_frame(2,3) [of e "\<lambda>_. GetInnerBundleInfo n" s] by simp_all
  show ?thesis
  proof (cases found)
    case None
    then show ?thesis using assms g 1 in_of_more [OF 1(2)] by (simp add: RollBack_def)
  next
    case (Some pre)
    obtain old2 s2 where m: "foldl (\<lambda>(old, s) (_, i). RollBack_module e i old s) (old, s1) infos = (old2, s2)" by fastforce
    have 2: "b_dm s2 = b_dm s1" "bms.more s2 = bms.more s1"
      using at_rest_RollBack_modules [OF _ _ _ m, of n] assms 1 in_of_more [OF 1(2)] by simp_all
    let ?s3 = "snd (UpdateDefineAndRequestPermissions e pre old2 s2)"
    have 3: "b_dm ?s3 = b_dm s" "bms.more ?s3 = bms.more s" using 1 2 by (simp_all add: UpdateDefineAndRequestPermissions_def update_tokens_frame)
    then show ?thesis using assms g Some m in_of_more [OF 3(2)] by (simp add: RollBack_def)
  qed
qed

lemma type_kept:
  "ib_isNewVersion (foldl (enable_removable old v f x) i ks) = ib_isNewVersion i"
  "GetEntryInstallationFree (foldl (enable_removable old v f x) i ks) = GetEntryInstallationFree i"
  by (induction ks arbitrary: i)
    (auto simp: enable_removable_def SetModuleRemovable_def GetEntryInstallationFree_def Let_def split: option.splits)

lemma lower_version: "version < GetVersionCode i \<Longrightarrow> CheckVersionCompatibility entry version i = (ERR_APPEXECFWK_INSTALL_VERSION_DOWNGRADE, False)"
  by (auto simp: CheckVersionCompatibility_def CheckVersionCompatibilityForHmService_def CheckVersionCompatibilityForApplication_def Let_def)

lemma CheckHapModleOrType_OK:
  "CheckHapModleOrType i infos = ERR_OK \<longleftrightarrow>
     (\<forall>(_, j) \<in> set infos. ib_isNewVersion i = ib_isNewVersion j \<and> GetEntryInstallationFree i = GetEntryInstallationFree j)"
  by (auto simp: CheckHapModleOrType_def first_error_OK split: prod.splits)

lemma type_status [simp]:
  "ib_isNewVersion (SetBundleStatus st i) = ib_isNewVersion i"
  "GetEntryInstallationFree (SetBundleStatus st i) = GetEntryInstallationFree i"
  by (simp_all add: SetBundleStatus_def GetEntryInstallationFree_def)

lemma refused_downgrade:
  assumes c: "check_install e paths param appType s = Some (Inr infos, s1)" "in_bundleName s1 = n" "n \<noteq> []" "infos = (path, first) # rest"
    and i: "map_of (dm_bundleInfos (b_dm s)) n = Some i" "map_of (dm_installStates (b_dm s)) n = Some INSTALL_SUCCESS"
      "in_versionCode s1 < GetVersionCode i" "CheckHapModleOrType i infos = ERR_OK"
    and p: "\<not> ip_needSavePreInstallInfo param" "\<not> singleton_mismatch (IsSingleton first) (in_userId s1)"
    and fresh: "in_installedModules s = []" "sx_appInfos (b_sandbox s) = []"
  shows "\<exists>s'. ProcessBundleInstall e paths param appType s = Some (ERR_APPEXECFWK_INSTALL_VERSION_DOWNGRADE, s') \<and>
    b_dm s' = set_status BundleStatus_ENABLED n (b_dm s)"
proof -
  have s1: "b_dm s1 = b_dm s" "b_sandbox s1 = b_sandbox s" "in_installedModules s1 = []"
    using c fresh by (auto simp: check_install_def Let_def split: if_splits sum.splits prod.splits list.splits)
  let ?d = "set_status BundleStatus_DISABLED n (b_dm s)" and ?i = "SetBundleStatus BundleStatus_DISABLED i"
  define s2 where "s2 = s1\<lparr>in_state := 50\<rparr>"
  have g: "get_info e n s2 = (Some ?i, log_call Store (s2\<lparr>b_dm := ?d\<rparr>))"
    using i(1) c(3) s1 by (simp add: s2_def get_info_found)
  define s3 where "s3 = (log_call Store (s2\<lparr>b_dm := ?d\<rparr>))\<lparr>in_isAppExist := True\<rparr>"
  let ?haps = "CheckEnableRemovable infos ?i (in_userId s3) (ip_installFlag param = InstallFlag_FREE_INSTALL) True"
  have hap: "CheckHapModleOrType ?i ?haps = ERR_OK"
    using i(4) by (auto simp: CheckHapModleOrType_OK CheckEnableRemovable_def type_kept)
  have ver: "CheckVersionCompatibility (in_isContainEntry s3) (in_versionCode s3) ?i = (ERR_APPEXECFWK_INSTALL_VERSION_DOWNGRADE, False)"
    using i(3) by (intro lower_version) (simp add: s3_def s2_def GetVersionCode_def SetBundleStatus_def)
  have prep: "prepare_existing e ?haps ?i s3 = Some (ERR_APPEXECFWK_INSTALL_VERSION_DOWNGRADE, ?i, s3)"
    using hap ver by (simp add: prepare_existing_def)
  have s2: "in_bundleName s2 = n" "in_userId s2 = in_userId s1" "in_userId s3 = in_userId s1" using c(2) by (simp_all add: s2_def s3_def)
  have inner: "InnerProcessBundleInstall e infos param s2 = Some (ERR_APPEXECFWK_INSTALL_VERSION_DOWNGRADE, ?haps, ?i, s3)"
    using p g prep s2 unfolding InnerProcessBundleInstall_def c(4) by (simp add: Let_def s3_def [symmetric] cong: if_cong)
  have "at_rest n (b_dm s3)" using at_rest_disabled [OF i(2)] by (simp add: s3_def)
  then obtain s4 where r: "RollBack e ?haps ?i s3 = Some s4" "b_dm s4 = ?d" "in_bundleName s4 = n"
    using at_rest_RollBack [of n s3 e ?haps ?i] c(2) s1(3) by (auto simp: s3_def s2_def)
  have chk: "install_checked e infos param s2 = Some (ERR_APPEXECFWK_INSTALL_VERSION_DOWNGRADE, s4)"
    using r(1) by (simp add: install_checked_def inner no_rollback_def)
  have en: "enable_bundle e n s4 = (True, log_call Store (s4\<lparr>b_dm := set_status BundleStatus_ENABLED n (b_dm s)\<rparr>))"
    using r(2) i(1) c(3) by (simp add: dm_op_eq EnableBundle_def) (simp add: set_status_def)
  have "ProcessBundleInstall e paths param appType s =
      Some (ERR_APPEXECFWK_INSTALL_VERSION_DOWNGRADE, snd (set_state e n INSTALL_SUCCESS (log_call Store (s4\<lparr>b_dm := set_status BundleStatus_ENABLED n (b_dm s)\<rparr>))))"
    using c(1-3) s1(2) fresh(2) chk en r(3) by (simp add: ProcessBundleInstall_def no_sandboxes s2_def [symmetric] split_beta)
  moreover have "snd (UpdateBundleInstallState kv n INSTALL_SUCCESS (set_status BundleStatus_ENABLED n (b_dm s))) = set_status BundleStatus_ENABLED n (b_dm s)" for kv
    using i(2) by (simp add: UpdateBundleInstallState_def transferStates_def set_status_def)
  ultimately show ?thesis by simp
qed

section \<open>A failed first installation\<close>

definition absent :: "string \<Rightarrow> 'a bms_scheme \<Rightarrow> bool" where
  "absent n s \<longleftrightarrow> map_of (dm_bundleInfos (b_dm s)) n = None"

lemma absent_update [simp]:
  "absent n (s\<lparr>in_modulePackage := p\<rparr>) = absent n s" "absent n (s\<lparr>in_modulePath := p\<rparr>) = absent n s"
  "absent n (s\<lparr>in_isAppExist := b\<rparr>) = absent n s" "absent n (s\<lparr>in_hasInstalledInUser := b\<rparr>) = absent n s"
  "absent n (s\<lparr>in_state := k\<rparr>) = absent n s" "absent n (log_call c s) = absent n s"
  by (simp_all add: absent_def)

lemma absent_calls:
  "fs_op e c s = (r, s') \<Longrightarrow> absent n s \<Longrightarrow> absent n s'"
  "perm_op e p s = (b, s') \<Longrightarrow> absent n s \<Longrightarrow> absent n s'"
  "token_op e k v s = (t, s') \<Longrightarrow> absent n s \<Longrightarrow> absent n s'"
  "GrantRequestPermissions e i t s = (r, s') \<Longrightarrow> absent n s \<Longrightarrow> absent n s'"
  "set_state e n st s = (b, s') \<Longrightarrow> absent n s \<Longrightarrow> absent n s'"
  "get_info e n s = (found, s') \<Longrightarrow> absent n s \<Longrightarrow> absent n s'"
  "enable_bundle e n s = (b, s') \<Longrightarrow> absent n s \<Longrightarrow> absent n s'"
  "save_info e i s = (b, s') \<Longrightarrow> absent n s \<Longrightarrow> absent n s'"
  "dm_op e (\<lambda>_ d. (case GenerateUidAndGid u d of (ok, u1, d1) \<Rightarrow> ((ok, u1), d1))) s = (x, s') \<Longrightarrow> absent n s \<Longrightarrow> absent n s'"
  by (auto simp: absent_def fs_op_def perm_op_def token_op_def GrantRequestPermissions_def dm_op_eq UpdateBundleInstallState_def DeleteBundleInfo_def
      GetInnerBundleInfo_def EnableBundle_def SaveInnerBundleInfo_def uid_frame Let_def
      split: prod.splits if_splits option.splits)

lemma absent_dirs:
  "CreateBundleCodeDir e i s = (r, i', s') \<Longrightarrow> absent n s \<Longrightarrow> absent n s'"
  "CreateBundleDataDir_inst e i s = (r, i', s') \<Longrightarrow> absent n s \<Longrightarrow> absent n s'"
  "ExtractModule e i p s = (r, i', s') \<Longrightarrow> absent n s \<Longrightarrow> absent n s'"
  "RemoveBundleAndDataDir_inst e i keep s = (r, s') \<Longrightarrow> absent n s \<Longrightarrow> absent n s'"
  by (auto simp: CreateBundleCodeDir_def CreateBundleDataDir_inst_def ExtractModule_def RemoveBundleAndDataDir_inst_def
      RemoveBundleCodeDir_def RemoveBundleDataDir_inst_def Let_def
      split: prod.splits if_splits bool.splits intro: absent_calls)

lemma absent_snd [intro!]: "(\<And>r s'. x = (r, s') \<Longrightarrow> absent n s') \<Longrightarrow> absent n (snd x)"
  by (cases x) simp

lemma absent_both_dirs: "CreateBundleAndDataDir e i s = (r, i', s') \<Longrightarrow> absent n s \<Longrightarrow> absent n s'"
  by (auto simp: CreateBundleAndDataDir_def Let_def split: prod.splits if_splits; blast intro: absent_calls absent_dirs)

lemma absent_not_added:
  "dm_op e (\<lambda>kv. AddInnerBundleInfo kv n j) s = (False, s') \<Longrightarrow> absent n s \<Longrightarrow> absent n s'"
  by (auto simp: absent_def dm_op_eq AddInnerBundleInfo_def save_and_set_def split: prod.splits if_splits bool.splits)

lemma absent_finish:
  assumes "finish_first_install e i s = (r, i', s')" "absent n s" "in_bundleName s = n" "r \<noteq> ERR_OK"
  shows "absent n s'"
  using assms by (auto simp: finish_first_install_def Let_def split: prod.splits if_splits)
    (elim absent_calls absent_dirs absent_not_added | simp)+

lemma added_finish:
  assumes "finish_first_install e i s = (ERR_OK, i', s')" "in_bundleName s = n"
  shows "map_of (dm_installStates (b_dm s')) n = Some INSTALL_START"
  using assms by (auto simp: finish_first_install_def dm_op_eq AddInnerBundleInfo_def save_and_set_def Let_def
      split: prod.splits if_splits bool.splits)

lemma first_status:
  assumes "ProcessBundleInstallStatus e i s = (r, i', s')" "in_bundleName s = n" "mgr_inv (b_dm s)" "absent n s"
  shows "r \<noteq> ERR_OK \<Longrightarrow> absent n s'" "r = ERR_OK \<Longrightarrow> map_of (dm_installStates (b_dm s')) n = Some INSTALL_START"
proof -
  define s1 where "s1 = s\<lparr>in_modulePackage := ib_currentPackage i\<rparr>"
  obtain ok s2 where s2: "set_state e n INSTALL_START s1 = (ok, s2)" by fastforce
  obtain saved s3 where s3: "save_info e (SetInstallMark n (in_modulePackage s2) INSTALL_START_mark i) s2 = (saved, s3)" by fastforce
  obtain r4 i4 s4 where s4: "CreateBundleAndDataDir e (SetInstallMark n (in_modulePackage s2) INSTALL_START_mark i) s3 = (r4, i4, s4)"
    by (metis prod_cases3)
  obtain r5 i5 s5 where s5: "(if r4 \<noteq> ERR_OK then (r4, i4, s4) else finish_first_install e i4 s4) = (r5, i5, s5)"
    by (metis prod_cases3)
  have a1: "absent n s1" "in_bundleName s1 = n" using assms(2,4) by (simp_all add: s1_def)
  have a2: "absent n s2" using s2 a1 by (elim absent_calls)
  have a3: "absent n s3" using s3 a2 by (elim absent_calls)
  have a4: "absent n s4" using s4 a3 by (rule absent_both_dirs)
  have n4: "in_bundleName s4 = n"
  proof -
    have "in_bundleName s3 = n" using s2 s3 a1(2) by (auto simp: dm_op_eq split: prod.splits)
    then show ?thesis using s4
      by (auto simp: CreateBundleAndDataDir_def CreateBundleCodeDir_def CreateBundleDataDir_inst_def fs_op_def dm_op_eq Let_def
          split: prod.splits if_splits bool.splits)
  qed
  have a5: "absent n s5" if "r5 \<noteq> ERR_OK" using s5 a4 n4 that by (auto split: if_splits intro: absent_finish)
  have st: "map_of (dm_installStates (b_dm s5)) n = Some INSTALL_START" if "r5 = ERR_OK"
    using s5 n4 that by (auto split: if_splits intro: added_finish)
  have eq: "(r, i', s') =
      (if \<not> verifyUriPrefix i (in_userId s) False (b_dm s) then (ERR_APPEXECFWK_INSTALL_URI_DUPLICATE, i, s)
       else if \<not> ok then (ERR_APPEXECFWK_INSTALL_STATE_ERROR, i, s2)
       else if \<not> saved then (ERR_APPEXECFWK_INSTALL_INTERNAL_ERROR, SetInstallMark n (in_modulePackage s2) INSTALL_START_mark i, s3)
       else if r5 = ERR_OK then (ERR_OK, i5, s5) else (r5, i5, snd (set_state e n INSTALL_FAIL s5)))"
    unfolding assms(1) [symmetric] ProcessBundleInstallStatus_def Let_def s1_def [symmetric] a1(2) s2 prod.case s3 s4 s5 by simp
  show "absent n s'" if "r \<noteq> ERR_OK"
    using eq that assms(4) a2 a3 a5 by (auto split: if_splits) (auto elim: absent_calls)
  show "map_of (dm_installStates (b_dm s')) n = Some INSTALL_START" if "r = ERR_OK"
    using eq that st by (auto split: if_splits)
qed

lemma RollBack_first:
  assumes "RollBack e infos old s = Some s'" "\<not> in_isAppExist s" "in_bundleName s = n" "n \<noteq> []"
    and "absent n s \<or> map_of (dm_installStates (b_dm s)) n = Some INSTALL_START"
  shows "absent n s'" "in_bundleName s' = n"
proof -
  obtain path first rest where cons: "infos = (path, first) # rest"
    using assms(1,2) by (auto simp: RollBack_def split: list.splits prod.splits)
  obtain r s1 where s1: "RemoveBundleAndDataDir_inst e first False s = (r, s1)" by fastforce
  obtain ok s2 where s2: "perm_op e (DeleteAccessTokenId_call (GetAccessTokenId (in_userId s1) first)) s1 = (ok, s2)" by fastforce
  have "b_dm s1 = b_dm s" "bms.more s1 = bms.more s" using s1
    by (auto simp: RemoveBundleAndDataDir_inst_def RemoveBundleCodeDir_def RemoveBundleDataDir_inst_def fs_op_def split: prod.splits if_splits)
  then have 2: "b_dm s2 = b_dm s" "bms.more s2 = bms.more s" using s2 by (auto simp: perm_op_def)
  then have n2: "in_bundleName s2 = n" using in_of_more [OF 2(2)] assms(3) by simp
  have s': "s' = snd (set_state e n UPDATING_FAIL s2)"
    using assms(1,2) s1 s2 n2 by (simp add: RollBack_def cons RemoveInfo_def)
  show "absent n s'"
  proof (cases "absent n s")
    case True
    then have "absent n s2" using 2 by (simp add: absent_def)
    then show ?thesis unfolding s' by (auto elim: absent_calls)
  next
    case False
    then have "map_of (dm_installStates (b_dm s2)) n = Some INSTALL_START" using assms(5) 2 by simp
    then show ?thesis using assms(4)
      by (simp add: s' absent_def UpdateBundleInstallState_def transferStates_def IsDeleteDataState_def DeleteBundleInfo_def Let_def
          split: option.splits)
  qed
  show "in_bundleName s' = n" using n2 dm_op_frame(2) [of e "\<lambda>kv. UpdateBundleInstallState kv n UPDATING_FAIL" s2] in_of_more(1) [of s' s2]
    by (simp add: s')
qed

lemma RollBack_total: "infos \<noteq> [] \<Longrightarrow> \<exists>s'. RollBack e infos old s = Some s'"
  by (cases infos) (auto simp: RollBack_def Let_def split: prod.splits option.splits)

lemma rename_frame: "rename_modules e infos s = (r, s') \<Longrightarrow> b_dm s' = b_dm s \<and> bms.more s' = bms.more s"
  by (induction e infos s rule: rename_modules.induct)
    (auto simp: RenameModuleDir_inst_def fs_op_def Let_def split: prod.splits if_splits)

lemma rename_error:
  "rename_modules e infos s = (r, s') \<Longrightarrow> \<forall>t c. \<not> no_rollback (env_fs e t c) \<Longrightarrow> \<not> no_rollback r"
proof (induction e infos s rule: rename_modules.induct)
  case (1 e s)
  then show ?case by (simp add: no_rollback_def)
next
  case (2 e p i infos s)
  then show ?case by (auto simp: RenameModuleDir_inst_def fs_op_def Let_def split: if_splits)
qed

lemma install_rest_none:
  assumes "install_rest e param old installed [] s = Some (r, infos, old', s')"
  shows "infos = installed" "bms.more s' = bms.more s" "dm_installStates (b_dm s') = dm_installStates (b_dm s)" "\<not> no_rollback r"
  using assms by (auto simp: install_rest_def dm_op_eq GetInnerBundleInfo_def no_rollback_def set_status_def Let_def
      split: if_splits option.splits prod.splits bool.splits)

lemma failed_first_checked:
  assumes c: "install_checked e [(path, i)] param s = Some (r, s')" "r \<noteq> ERR_OK"
    and n: "in_bundleName s = n" "n \<noteq> []" "GetBundleName i = n" "absent n s" "mgr_inv (b_dm s)"
    and fs: "\<forall>t c. \<not> no_rollback (env_fs e t c)" and p: "\<not> ip_needSavePreInstallInfo param"
  shows "absent n s'" "in_bundleName s' = n"
proof -
  define s3 where "s3 = (log_call Store s)\<lparr>in_isAppExist := False\<rparr>"
  let ?i = "foldl (enable_removable new_InnerBundleInfo (in_userId s) (ip_installFlag param = InstallFlag_FREE_INSTALL) False) i
     (map fst (ib_innerModuleInfos i))"
  obtain r4 j s4 where f: "install_first e param (path, ?i) s3 = (r4, (path, j), s4)"
    by (simp add: install_first_def Let_def split_beta)
  have s3: "in_bundleName s3 = n" "absent n s3" "mgr_inv (b_dm s3)" "\<not> in_isAppExist s3" using n by (simp_all add: s3_def)
  have f4: "r4 \<noteq> ERR_OK \<Longrightarrow> absent n s4" "r4 = ERR_OK \<Longrightarrow> map_of (dm_installStates (b_dm s4)) n = Some INSTALL_START"
    using f first_status [of e _ "s3\<lparr>in_modulePath := path\<rparr>" _ _ _ n] s3
    by (auto simp: install_first_def Let_def split: prod.splits if_splits)
  have name: "GetBundleName (snd (path, ?i)) = in_bundleName s3" using n s3 by (simp add: removables_kept)
  have "reach mgr_step\<^sup>*\<^sup>* s3 s4" using steps.reach_install_first(1) [OF f steps.reach_refl [OF s3(3)] name] by simp
  then have s4: "in_bundleName s4 = n" "\<not> in_isAppExist s4" using s3 by (simp_all add: reach_def)
  obtain r5 infos old s5 where inner: "InnerProcessBundleInstall e [(path, i)] param s = Some (r5, infos, old, s5)"
    using c(1) by (auto simp: install_checked_def split: Option.bind_splits)
  have g: "get_info e n s = (None, log_call Store s)" using n(4) by (intro get_info_missing) (simp add: absent_def)
  have cases: "(no_rollback r5 \<longrightarrow> absent n s5) \<and> (r5 \<noteq> ERR_OK \<and> \<not> no_rollback r5 \<longrightarrow> \<not> in_isAppExist s5 \<and>
        (absent n s5 \<or> map_of (dm_installStates (b_dm s5)) n = Some INSTALL_START)) \<and>
      (r5 = ERR_OK \<longrightarrow> \<not> in_isAppExist s5 \<and> map_of (dm_installStates (b_dm s5)) n = Some INSTALL_START) \<and> in_bundleName s5 = n"
  proof (cases "singleton_mismatch (IsSingleton i) (in_userId s)")
    case True
    then show ?thesis using inner p n by (auto simp: InnerProcessBundleInstall_def no_rollback_def)
  next
    case False
    then have eq: "Some (r5, infos, old, s5) = (if r4 \<noteq> ERR_OK then Some (r4, [(path, j)], new_InnerBundleInfo, s4)
        else install_rest e param new_InnerBundleInfo [(path, j)] [] s4)"
      using inner p n(1) f g by (simp add: InnerProcessBundleInstall_def CheckEnableRemovable_def s3_def [symmetric] Let_def split: if_splits)
    show ?thesis
    proof (cases "r4 = ERR_OK")
      case True
      then have "install_rest e param new_InnerBundleInfo [(path, j)] [] s4 = Some (r5, infos, old, s5)" using eq by simp
      from install_rest_none [OF this] in_of_more [of s5 s4] s4 f4(2) True show ?thesis by simp
    next
      case False
      then show ?thesis using eq f4(1) s4 by simp
    qed
  qed
  obtain r6 s6 where m: "rename_modules e infos (s5\<lparr>in_state := 80\<rparr>) = (r6, s6)" by fastforce
  define s7 where "s7 = s6\<lparr>in_state := 90\<rparr>"
  have s7: "b_dm s7 = b_dm s5" "in_bundleName s7 = in_bundleName s5" "in_isAppExist s7 = in_isAppExist s5"
    using rename_frame [OF m] in_of_more [of s6 "s5\<lparr>in_state := 80\<rparr>"] by (simp_all add: s7_def)
  have "absent n s' \<and> in_bundleName s' = n"
  proof (cases "r5 = ERR_OK")
    case False
    show ?thesis
    proof (cases "no_rollback r5")
      case True
      then show ?thesis using c inner cases by (simp add: install_checked_def)
    next
      case no: False
      then have "RollBack e infos old s5 = Some s'" using c inner False by (auto simp: install_checked_def)
      with RollBack_first [OF this] cases False no n(2) show ?thesis by blast
    qed
  next
    case True
    have "\<not> no_rollback r6" using rename_error [OF m fs] .
    moreover have "r6 \<noteq> ERR_OK"
      using c inner True m by (auto simp: install_checked_def no_rollback_def Let_def split: Option.bind_splits)
    ultimately have "RollBack e infos old s7 = Some s'" using c inner True m
      by (auto simp: install_checked_def no_rollback_def s7_def [symmetric] Let_def)
    moreover have "map_of (dm_installStates (b_dm s7)) n = Some INSTALL_START" "\<not> in_isAppExist s7" "in_bundleName s7 = n"
      using cases True s7 by simp_all
    ultimately show ?thesis using RollBack_first [of e infos old s7 s' n] n(2) by blast
  qed
  then show "absent n s'" "in_bundleName s' = n" by simp_all
qed

lemma failed_first_install:
  assumes c: "check_install e paths param appType s = Some (Inr [(path, i)], s1)" "GetBundleName i = n" "n \<noteq> []"
    and r: "ProcessBundleInstall e paths param appType s = Some (r, s')" "r \<noteq> ERR_OK"
    and d: "mgr_inv (b_dm s)" "map_of (dm_bundleInfos (b_dm s)) n = None"
    and e: "\<forall>t c. \<not> no_rollback (env_fs e t c)" and p: "\<not> ip_needSavePreInstallInfo param" "sx_appInfos (b_sandbox s) = []"
  shows "map_of (dm_bundleInfos (b_dm s')) n = None"
proof -
  have s1: "b_dm s1 = b_dm s" "b_sandbox s1 = b_sandbox s" "in_bundleName s1 = n"
    using c by (auto simp: check_install_def Let_def split: if_splits sum.splits prod.splits list.splits)
  obtain s3 where i: "install_checked e [(path, i)] param (s1\<lparr>in_state := 50\<rparr>) = Some (r, s3)"
    and s': "s' = snd (set_state e (in_bundleName (snd (enable_bundle e (in_bundleName s3) s3))) INSTALL_SUCCESS (snd (enable_bundle e (in_bundleName s3) s3)))"
    using r(1) c(1,3) s1 p(2) by (auto simp: ProcessBundleInstall_def no_sandboxes split_beta split: Option.bind_splits)
  have 3: "absent n s3" "in_bundleName s3 = n"
    using failed_first_checked [OF i r(2), of n] s1 c d e p by (simp_all add: absent_def)
  obtain b s4 where s4: "enable_bundle e n s3 = (b, s4)" by fastforce
  have "in_bundleName s4 = n" using s4 3(2) dm_op_frame(2) [of e "\<lambda>_. EnableBundle n" s3] in_of_more(1) [of s4 s3] by simp
  moreover have "absent n s4" using s4 3(1) by (elim absent_calls)
  ultimately have "absent n s'" unfolding s' 3(2) s4 by (auto elim: absent_calls)
  then show ?thesis by (simp add: absent_def)
qed

end
