(* ===== verification/Bundle_Installer_Correct.thy ===== *)
theory Bundle_Installer_Correct
  imports Install_Outcome
begin

text \<open>
  What the installer guarantees: it changes the data manager only by the data manager's own
  operations, it leaves other bundles alone, it ends with the bundle enabled and its install state
  settled, and what a refused, a failed and a successful installation and an uninstallation leave
  behind.
\<close>

section \<open>A sample service\<close>

text \<open>\<open>r\<close> is what the file system answers.\<close>

definition sample_env :: "err_code \<Rightarrow> install_env" where
  "sample_env r = \<lparr> env_kv = (\<lambda>_. kv_fine), env_fs = (\<lambda>_ _. r), env_perm = (\<lambda>_ _. True), env_token = (\<lambda>_ _ _. 5),
     env_kill = (\<lambda>_ _ _. True), env_time = (\<lambda>_. 7), env_preStored = (\<lambda>_. True), env_cloneFile = (\<lambda>_ _. True),
     env_js = sample_codec, env_order = (\<lambda>ks. ks), env_checkPaths = Inr, env_sysCaps = (\<lambda>_. Inr []), env_hasSysCap = (\<lambda>_. True),
     env_verify = (\<lambda>_. Inr \<lparr>pv_appId = ''id'', pv_apl = ''normal'', pv_appFeature = ''hos_normal_app'', pv_allowedAcls = [], pv_fingerprint = ''f''\<rparr>),
     env_parse = (\<lambda>_ i. Inr (i\<lparr>ib_baseApplicationInfo := (ib_baseApplicationInfo i)\<lparr>app_bundleName := ''com.demo''\<rparr>, ib_currentPackage := ''entry'',
       ib_innerModuleInfos := [(''entry'', new_InnerModuleInfo)]\<rparr>)),
     env_parsePack = (\<lambda>_. Inr new_BundlePackInfo), env_space = (\<lambda>_ _. True), env_strToInt = (\<lambda>_. None) \<rparr>"

definition demo_env :: install_env where "demo_env = sample_env ERR_OK"

definition new_installer :: "data_mgr \<Rightarrow> installer" where
  "new_installer d = \<lparr> b_dm = d, b_sandbox = \<lparr>sx_appInfos = [], sx_appIndexMap = []\<rparr>, b_cloneInfo = new_InnerBundleInfo,
     b_cloneBundleName = [], b_calls = [], in_state = 0, in_cloneMgr = False, in_bundleName = [], in_modulePath = [],
     in_modulePackage = [], in_installedModules = [], in_isAppExist = False, in_isContainEntry = False, in_versionCode = 0,
     in_isFeatureNeedUninstall = False, in_uninstallModuleVec = [], in_userId = 0, in_hasInstalledInUser = False,
     in_singletonState = SingletonState_DEFAULT, in_hapPathRecords = [] \<rparr>"

definition demo_param :: install_param where "demo_param = new_InstallParam\<lparr>ip_userId := 100\<rparr>"

definition demo_service :: installer where "demo_service = new_installer (AddUserId 100 (new_BundleDataMgr [] None))"

lemma demo_service_reachable: "mgr_reachable (b_dm demo_service)"
  by (simp add: demo_service_def new_installer_def mgr_reachable.step [OF mgr_reachable.start mgr_step.add_user_id])

lemma sample_check:
  assumes "HasUserId 100 (b_dm s)" "\<not> in_isContainEntry s"
  shows "\<exists>i s1. check_install (sample_env r) [''/a.hap''] demo_param AppType_THIRD_PARTY_APP s = Some (Inr [(''/a.hap'', i)], s1) \<and>
     in_userId s1 = 100 \<and> GetBundleName i = ''com.demo'' \<and> in_bundleName s1 = ''com.demo'' \<and> in_versionCode s1 = 0 \<and>
     \<not> IsSingleton i \<and> GetUriPrefixList [] i = [] \<and> module_keys i = [''entry''] \<and> \<not> ib_isNewVersion i \<and> \<not> GetEntryInstallationFree i"
  using assms
  by (simp add: check_install_def Let_def demo_param_def sample_env_def new_InstallParam_def GetUserId_inst_def DEFAULT_USERID_def INVALID_USERID_def
      CheckSysCap_def CheckMultipleHapsSignInfo_def ParseHapFiles_def ParseBundleInfo_def CheckHapHashParams_def in_order_def map_filter_def
      CheckAppLabelInfo_def same_label_def CheckSystemSize_def sm_emplace_def new_package_def HOS_SYSTEM_APP_def OHOS_SYSTEM_APP_def
      new_BundlePackInfo_def HasEntry_def)
    (simp add: set_provision_def SetEntryInstallationFree_def SetCertificateFingerprint_def SetAppPrivilegeLevel_def SetProvisionId_def
      SetEntryInstallationFree_info_def SetIsPreInstallApp_def SetAppType_def new_InnerBundleInfo_def GetBundleName_def IsSingleton_def
      GetUriPrefixList_def uri_list_def new_ApplicationInfo_def module_keys_def map_filter_def GetVersionCode_def new_BundleInfo_def
      GetEntryInstallationFree_def new_Summary_def)

lemma demo_user [simp]: "HasUserId 100 (b_dm demo_service)" "\<not> in_isContainEntry demo_service"
  by (simp_all add: demo_service_def new_installer_def HasUserId_def AddUserId_def new_BundleDataMgr_def)

lemmas demo_check = sample_check [OF demo_user, of ERR_OK, folded demo_env_def]

section \<open>The outcome\<close>

text \<open>
  C5: When every other process answers well, the first installation of a bundle from one package
  succeeds: afterwards the bundle is in memory, enabled, with the modules of the package and the user
  it was installed for, the store holds the same information, the install mark says finished and the
  install state is \<open>INSTALL_SUCCESS\<close>.
\<close>

theorem first_install_succeeds:
  assumes "fine_env e" and "check_install e paths param appType s = Some (Inr [(path, i)], s1)" and "GetBundleName i = n" "n \<noteq> []"
    and "plain_user (in_userId s1)" "\<not> ip_needSavePreInstallInfo param" "\<not> singleton_mismatch (IsSingleton i) (in_userId s1)"
    and "map_of (dm_bundleInfos (b_dm s)) n = None" "map_of (dm_installStates (b_dm s)) n = None"
      "fst (GenerateBundleId n (b_dm s)) \<noteq> None"
    and "verifyUriPrefix i (in_userId s1) False (b_dm s)"
    and "in_uninstallModuleVec s = []" "in_singletonState s = SingletonState_DEFAULT" "sx_appInfos (b_sandbox s) = []"
  shows "\<exists>s' j. ProcessBundleInstall e paths param appType s = Some (ERR_OK, s') \<and>
     HasInnerBundleUserInfo (in_userId s1) j \<and> module_keys j = module_keys i \<and> mk_status (ib_mark j) = INSTALL_FINISH_mark \<and>
     map_of (dm_bundleInfos (b_dm s')) n = Some (SetBundleStatus BundleStatus_ENABLED j) \<and>
     map_of (dm_dataStorage (b_dm s')) n = Some j \<and> map_of (dm_installStates (b_dm s')) n = Some INSTALL_SUCCESS"
  using assms by (rule fine_first_install)

lemma demo_conditions:
  "fine_env demo_env" "plain_user 100" "\<not> ip_needSavePreInstallInfo demo_param" "\<not> singleton_mismatch False 100"
  "map_of (dm_bundleInfos (b_dm demo_service)) n = None" "map_of (dm_installStates (b_dm demo_service)) n = None"
  "fst (GenerateBundleId n (b_dm demo_service)) = Some 10000"
  "in_uninstallModuleVec demo_service = []" "in_singletonState demo_service = SingletonState_DEFAULT"
  "sx_appInfos (b_sandbox demo_service) = []" "\<not> in_cloneMgr demo_service" "in_installedModules demo_service = []"
  by (simp_all add: fine_env_def demo_env_def sample_env_def plain_user_def NOT_EXIST_USERID_def ALL_USERID_def ANY_USERID_def demo_param_def
      new_InstallParam_def singleton_mismatch_def DEFAULT_USERID_def demo_service_def new_installer_def AddUserId_def new_BundleDataMgr_def
      GenerateBundleId_def Let_def BASE_APP_UID_def)

lemma demo_install:
  "\<exists>s' j. ProcessBundleInstall demo_env [''/a.hap''] demo_param AppType_THIRD_PARTY_APP demo_service = Some (ERR_OK, s') \<and>
     map_of (dm_bundleInfos (b_dm s')) ''com.demo'' = Some (SetBundleStatus BundleStatus_ENABLED j) \<and> in_bundleName s' = ''com.demo''"
proof -
  from demo_check obtain i s1 where
    c: "check_install demo_env [''/a.hap''] demo_param AppType_THIRD_PARTY_APP demo_service = Some (Inr [(''/a.hap'', i)], s1)"
    and i: "GetBundleName i = ''com.demo''" "in_userId s1 = 100" "\<not> IsSingleton i" "GetUriPrefixList [] i = []" by blast
  obtain s' j where p: "ProcessBundleInstall demo_env [''/a.hap''] demo_param AppType_THIRD_PARTY_APP demo_service = Some (ERR_OK, s')"
    and j: "map_of (dm_bundleInfos (b_dm s')) ''com.demo'' = Some (SetBundleStatus BundleStatus_ENABLED j)"
    using fine_first_install [OF demo_conditions(1) c i(1)] i demo_conditions by (auto simp: verifyUriPrefix_def)
  have "in_bundleName s' = in_bundleName s1"
    using steps.ProcessBundleInstall_runs [OF p mgr_reachable_inv [OF demo_service_reachable] c] by simp
  moreover have "in_bundleName s1 = ''com.demo''"
    using check_install_names(3) [OF c HOL.refl] i(1) by simp
  ultimately show ?thesis using p j by auto
qed

theorem first_install_succeeds_witness:
  "\<exists>s' j. ProcessBundleInstall demo_env [''/a.hap''] demo_param AppType_THIRD_PARTY_APP demo_service = Some (ERR_OK, s') \<and>
     map_of (dm_bundleInfos (b_dm s')) ''com.demo'' = Some (SetBundleStatus BundleStatus_ENABLED j) \<and> module_keys j = [''entry'']"
proof -
  from demo_check obtain i s1 where
    c: "check_install demo_env [''/a.hap''] demo_param AppType_THIRD_PARTY_APP demo_service = Some (Inr [(''/a.hap'', i)], s1)"
    and i: "GetBundleName i = ''com.demo''" "in_userId s1 = 100" "\<not> IsSingleton i" "GetUriPrefixList [] i = []" "module_keys i = [''entry'']"
    by blast
  show ?thesis using first_install_succeeds [OF demo_conditions(1) c i(1)] i demo_conditions by (auto simp: verifyUriPrefix_def)
qed

section \<open>The installer and the data manager\<close>

text \<open>
  C6: The installer refines the data manager: installing, uninstalling a bundle or a module, and
  installing by name change the data manager only by a sequence of its own operations, whatever the
  other processes answer and also when it fails, and so keep every state reachable.
\<close>

theorem installer_refines_data_mgr:
  assumes "mgr_reachable (b_dm s)"
    and "ProcessBundleInstall e paths param appType s = Some (r, s') \<or> UninstallBundle e n param s = Some (r, s') \<or>
      UninstallBundle_module e n m param s = Some (r, s') \<or> InnerProcessInstallByPreInstallInfo e n param recover s = Some (r, s')"
  shows "mgr_step\<^sup>*\<^sup>* (b_dm s) (b_dm s') \<and> mgr_reachable (b_dm s')"
proof -
  have inv: "mgr_inv (b_dm s)" by (rule mgr_reachable_inv [OF assms(1)])
  have "mgr_step\<^sup>*\<^sup>* (b_dm s) (b_dm s')"
    using assms(2) install_steps [OF _ inv] uninstall_steps [OF _ inv] uninstall_module_steps [OF _ inv]
      steps.InnerProcessInstallByPreInstallInfo_runs [OF _ inv] by auto
  then show ?thesis using steps_reachable assms(1) by blast
qed

theorem installer_refines_data_mgr_witness:
  "\<exists>r s'. ProcessBundleInstall demo_env [''/a.hap''] demo_param AppType_THIRD_PARTY_APP demo_service = Some (r, s') \<and>
     mgr_step\<^sup>*\<^sup>* (b_dm demo_service) (b_dm s') \<and> map_of (dm_bundleInfos (b_dm s')) ''com.demo'' \<noteq> None"
proof -
  obtain s' j where p: "ProcessBundleInstall demo_env [''/a.hap''] demo_param AppType_THIRD_PARTY_APP demo_service = Some (ERR_OK, s')"
    and "map_of (dm_bundleInfos (b_dm s')) ''com.demo'' = Some j" using demo_install by blast
  then show ?thesis using installer_refines_data_mgr [OF demo_service_reachable disjI1 [OF p]] by blast
qed

text \<open>
  C8: An installation leaves every other bundle alone: whatever it returns, the information of the
  other bundles in memory and in the store and their install states are what they were, and so are
  the users.
\<close>

theorem install_keeps_other_bundles:
  assumes "ProcessBundleInstall e paths param appType s = Some (r, s')" "mgr_reachable (b_dm s)" "\<not> in_cloneMgr s"
    and "k \<noteq> in_bundleName s'"
  shows "map_of (dm_bundleInfos (b_dm s')) k = map_of (dm_bundleInfos (b_dm s)) k \<and>
    map_of (dm_dataStorage (b_dm s')) k = map_of (dm_dataStorage (b_dm s)) k \<and>
    map_of (dm_installStates (b_dm s')) k = map_of (dm_installStates (b_dm s)) k \<and>
    dm_multiUserIdsSet (b_dm s') = dm_multiUserIdsSet (b_dm s)"
proof -
  have inv: "mgr_inv (b_dm s)" by (rule mgr_reachable_inv [OF assms(2)])
  obtain checked s1 where c: "check_install e paths param appType s = Some (checked, s1)"
    using assms(1) by (auto simp: ProcessBundleInstall_def split: Option.bind_splits)
  have n: "in_bundleName s' = in_bundleName s1" using steps.ProcessBundleInstall_runs [OF assms(1) inv c] by simp
  have "keeps_others {in_bundleName s1} (b_dm s) (b_dm s')"
    using others.ProcessBundleInstall_runs [OF assms(1) inv c, of "{in_bundleName s1}"] assms(3) by simp
  then show ?thesis using inv assms(4) n by (auto simp: keeps_others_def bundle_view_def)
qed

theorem install_keeps_other_bundles_witness:
  "\<exists>r s'. ProcessBundleInstall demo_env [''/a.hap''] demo_param AppType_THIRD_PARTY_APP demo_service = Some (r, s') \<and>
     in_bundleName s' = ''com.demo'' \<and> map_of (dm_bundleInfos (b_dm s')) ''com.other'' = None \<and>
     dm_multiUserIdsSet (b_dm s') = dm_multiUserIdsSet (b_dm demo_service)"
proof -
  obtain s' where p: "ProcessBundleInstall demo_env [''/a.hap''] demo_param AppType_THIRD_PARTY_APP demo_service = Some (ERR_OK, s')"
    and n: "in_bundleName s' = ''com.demo''" using demo_install by blast
  show ?thesis using p n install_keeps_other_bundles [OF p demo_service_reachable demo_conditions(11), of "''com.other''"] demo_conditions(5)
    by simp
qed

text \<open>
  C9: Every installation that gets past its checks ends with the bundle enabled, if it is in memory at
  all, and with its install state settled: \<open>INSTALL_SUCCESS\<close>, or none. This holds whatever it
  returns, so no bundle stays disabled and no state stays in the middle of an installation.
\<close>

theorem install_ends_settled:
  assumes "ProcessBundleInstall e paths param appType s = Some (r, s')" "mgr_reachable (b_dm s)"
    and "check_install e paths param appType s = Some (Inr infos, s1)" "in_bundleName s1 \<noteq> []"
  shows "in_bundleName s' = in_bundleName s1 \<and>
    (\<forall>i. map_of (dm_bundleInfos (b_dm s')) (in_bundleName s') = Some i \<longrightarrow> \<not> IsDisabled i) \<and>
    map_of (dm_installStates (b_dm s')) (in_bundleName s') \<in> {None, Some INSTALL_SUCCESS}"
proof -
  have inv: "mgr_inv (b_dm s)" by (rule mgr_reachable_inv [OF assms(2)])
  have runs: "mgr_inv (b_dm s')" "in_bundleName s' = in_bundleName s1"
    using steps.ProcessBundleInstall_runs [OF assms(1) inv assms(3)] by simp_all
  obtain s3 where s': "s' = snd (set_state e (in_bundleName (snd (enable_bundle e (in_bundleName s3) s3))) INSTALL_SUCCESS
      (snd (enable_bundle e (in_bundleName s3) s3)))"
    using assms(1,3) by (auto simp: ProcessBundleInstall_def split_beta split: Option.bind_splits)
  define n where "n = in_bundleName s3"
  define s4 where "s4 = snd (enable_bundle e n s3)"
  have n4: "in_bundleName s4 = n" using in_of_more(1) [of s4 s3] by (simp add: s4_def n_def)
  have s': "s' = snd (set_state e n INSTALL_SUCCESS s4)" using s' n4 by (simp add: s4_def n_def)
  have n: "in_bundleName s' = n" using in_of_more(1) [of s' s4] n4 by (simp add: s')
  then have ne: "n \<noteq> []" using runs(2) assms(4) by simp
  have d: "b_dm s' = snd (UpdateBundleInstallState (env_kv e (now s4)) n INSTALL_SUCCESS (b_dm s4))" by (simp add: s')
  have "map_of (dm_bundleInfos (b_dm s')) n = map_of (dm_bundleInfos (b_dm s4)) n"
    by (auto simp: d UpdateBundleInstallState_def IsDeleteDataState_def split: option.splits)
  then have enabled: "\<not> IsDisabled i" if "map_of (dm_bundleInfos (b_dm s')) n = Some i" for i
    using that ne by (auto simp: s4_def EnableBundle_def set_status_def SetBundleStatus_def IsDisabled_def split: if_splits)
  have "st = INSTALL_SUCCESS" if "map_of (dm_installStates (b_dm s')) n = Some st" for st
  proof -
    have "live_state st" using runs(1) that by (auto simp: mgr_inv_def)
    then show ?thesis using that ne
      by (cases st) (auto simp: d UpdateBundleInstallState_def live_state_def IsDeleteDataState_def transferStates_def split: option.splits if_splits)
  qed
  then show ?thesis using runs(2) n enabled by (cases "map_of (dm_installStates (b_dm s')) n") auto
qed

theorem install_ends_settled_witness:
  "\<exists>r s'. ProcessBundleInstall demo_env [''/a.hap''] demo_param AppType_THIRD_PARTY_APP demo_service = Some (r, s') \<and>
     map_of (dm_installStates (b_dm s')) ''com.demo'' \<in> {None, Some INSTALL_SUCCESS}"
proof -
  obtain s' where p: "ProcessBundleInstall demo_env [''/a.hap''] demo_param AppType_THIRD_PARTY_APP demo_service = Some (ERR_OK, s')"
    and n: "in_bundleName s' = ''com.demo''" using demo_install by blast
  from demo_check obtain i s1 where
    c: "check_install demo_env [''/a.hap''] demo_param AppType_THIRD_PARTY_APP demo_service = Some (Inr [(''/a.hap'', i)], s1)"
    and "GetBundleName i = ''com.demo''" by blast
  then have "in_bundleName s1 \<noteq> []" using check_install_names(3) [OF c HOL.refl] by auto
  with install_ends_settled [OF p demo_service_reachable c] n p show ?thesis by auto
qed

text \<open>
  C38: A package with a lower version than the installed bundle is refused with
  \<open>ERR_APPEXECFWK_INSTALL_VERSION_DOWNGRADE\<close>, and the rollback that follows does not touch the
  bundle: the data manager is what it was, with the bundle enabled.
\<close>

theorem downgrade_refused:
  assumes "check_install e paths param appType s = Some (Inr infos, s1)" "in_bundleName s1 = n" "n \<noteq> []" "infos = (path, first) # rest"
    and "map_of (dm_bundleInfos (b_dm s)) n = Some i" "map_of (dm_installStates (b_dm s)) n = Some INSTALL_SUCCESS"
      "in_versionCode s1 < GetVersionCode i" "CheckHapModleOrType i infos = ERR_OK"
    and "\<not> ip_needSavePreInstallInfo param" "\<not> singleton_mismatch (IsSingleton first) (in_userId s1)"
    and "in_installedModules s = []" "sx_appInfos (b_sandbox s) = []"
  shows "\<exists>s'. ProcessBundleInstall e paths param appType s = Some (ERR_APPEXECFWK_INSTALL_VERSION_DOWNGRADE, s') \<and>
    b_dm s' = set_status BundleStatus_ENABLED n (b_dm s)"
  using assms by (rule refused_downgrade)

definition newer_info :: inner_bundle_info where
  "newer_info = demo_info\<lparr>ib_baseBundleInfo := new_BundleInfo\<lparr>bi_versionCode := 2\<rparr>\<rparr>"

definition newer_service :: installer where
  "newer_service = demo_service\<lparr>b_dm := (b_dm demo_service)\<lparr>dm_bundleInfos := [(''com.demo'', newer_info)],
     dm_dataStorage := [(''com.demo'', newer_info)], dm_installStates := [(''com.demo'', INSTALL_SUCCESS)]\<rparr>\<rparr>"

lemma newer_user [simp]: "HasUserId 100 (b_dm newer_service)" "\<not> in_isContainEntry newer_service"
  using demo_user by (simp_all add: newer_service_def HasUserId_def)

theorem downgrade_refused_witness:
  "\<exists>s'. ProcessBundleInstall demo_env [''/a.hap''] demo_param AppType_THIRD_PARTY_APP newer_service =
       Some (ERR_APPEXECFWK_INSTALL_VERSION_DOWNGRADE, s') \<and> dm_installStates (b_dm s') = [(''com.demo'', INSTALL_SUCCESS)]"
proof -
  obtain i s1 where c: "check_install demo_env [''/a.hap''] demo_param AppType_THIRD_PARTY_APP newer_service = Some (Inr [(''/a.hap'', i)], s1)"
    and i: "in_userId s1 = 100" "in_bundleName s1 = ''com.demo''" "in_versionCode s1 = 0" "\<not> IsSingleton i" "\<not> ib_isNewVersion i"
      "\<not> GetEntryInstallationFree i"
    using sample_check [OF newer_user, of ERR_OK, folded demo_env_def] by blast
  have "CheckHapModleOrType newer_info [(''/a.hap'', i)] = ERR_OK"
    using i by (simp add: CheckHapModleOrType_OK newer_info_def demo_info_def new_InnerBundleInfo_def GetEntryInstallationFree_def new_BundleInfo_def)
  then show ?thesis
    using downgrade_refused [OF c i(2), of "''/a.hap''" i "[]" newer_info] i demo_conditions
    by (auto simp: newer_service_def newer_info_def GetVersionCode_def set_status_def)
qed




section \<open>Uninstalling\<close>

lemma deleted_state:
  assumes "UpdateBundleInstallState kv n UNINSTALL_SUCCESS d = (True, d')" "mgr_inv d"
  shows "map_of (dm_bundleInfos d') n = None" "map_of (dm_installStates d') n = None"
    "map_of (dm_bundleInfos d) n \<noteq> None \<Longrightarrow> kv = kv_fine \<Longrightarrow> map_of (dm_dataStorage d') n = None"
proof -
  have key: "GetBundleName i = n" if "map_of (dm_bundleInfos d) n = Some i" for i
    using assms(2) that by (auto simp: mgr_inv_def named_def)
  show "map_of (dm_bundleInfos d') n = None" "map_of (dm_installStates d') n = None"
    "map_of (dm_bundleInfos d) n \<noteq> None \<Longrightarrow> kv = kv_fine \<Longrightarrow> map_of (dm_dataStorage d') n = None"
    using assms(1) key by (auto simp: UpdateBundleInstallState_def IsDeleteDataState_def DeleteBundleInfo_def Let_def
        DeleteStorageBundleInfo_def delete_key_def kv_fine_def try_twice_def split: if_splits option.splits)
qed

lemma last_user_removed:
  assumes "uninstall_last_user e n param i s = (ERR_OK, dis, s')" "mgr_inv (b_dm s)" "GetBundleName i = n"
    and "map_of (dm_bundleInfos (b_dm s)) n \<noteq> None"
  shows "dis" "map_of (dm_bundleInfos (b_dm s')) n = None" "map_of (dm_installStates (b_dm s')) n = None"
    "\<forall>t. env_kv e t = kv_fine \<Longrightarrow> map_of (dm_dataStorage (b_dm s')) n = None"
proof -
  let ?i = "SetInstallMark n [] UNINSTALL_BUNDLE_START_mark i"
  obtain ok1 s1 where s1: "set_state e n UNINSTALL_START s = (ok1, s1)" by fastforce
  obtain k s2 where s2: "(if ip_noSkipsKill param then kill_op e (app_name (ib_baseApplicationInfo i)) (GetUid (in_userId s1) i) s1
      else (True, s1)) = (k, s2)" by fastforce
  obtain saved s3 where s3: "save_info e ?i s2 = (saved, s3)" by fastforce
  obtain r s4 where s4: "RemoveBundle e ?i (ip_isKeepData param) s3 = (r, s4)" by fastforce
  have eq: "ok1" "k" "saved" "r = ERR_OK" "s' = s4" "dis"
    using assms(1) unfolding uninstall_last_user_def s1 prod.case Let_def s2 s3 s4 by (auto split: if_splits)
  have n: "GetBundleName ?i \<in> UNIV" by simp
  have 3: "reach mgr_step\<^sup>*\<^sup>* s s3"
  proof -
    have "reach mgr_step\<^sup>*\<^sup>* s s1" using steps.reach_ops(1) [OF s1 steps.reach_refl [OF assms(2)]] by simp
    then have "reach mgr_step\<^sup>*\<^sup>* s s2" using s2 by (auto split: if_splits intro: reach_ext)
    then show ?thesis using steps.reach_ops(4) [OF s3] by simp
  qed
  have mem: "map_of (dm_bundleInfos (b_dm s3)) n \<noteq> None"
  proof -
    have "map_of (dm_bundleInfos (b_dm s1)) n \<noteq> None"
      using s1 assms(4) by (auto simp: dm_op_eq UpdateBundleInstallState_def IsDeleteDataState_def split: prod.splits option.splits if_splits)
    then have "map_of (dm_bundleInfos (b_dm s2)) n \<noteq> None" using s2 by (auto simp: kill_op_def split: if_splits)
    then show ?thesis using s3 by (auto simp: dm_op_eq SaveInnerBundleInfo_def split: prod.splits)
  qed
  obtain q t where t: "RemoveBundleAndDataDir_inst e ?i (ip_isKeepData param) s3 = (q, t)" by fastforce
  have bt: "b_dm t = b_dm s3" using t
    by (auto simp: RemoveBundleAndDataDir_inst_def RemoveBundleCodeDir_def RemoveBundleDataDir_inst_def fs_op_def split: prod.splits if_splits)
  obtain d' where d': "UpdateBundleInstallState (env_kv e (now t)) n UNINSTALL_SUCCESS (b_dm s3) = (True, d')" and s': "b_dm s' = d'"
    using s4 eq(4,5) assms(3) bt unfolding RemoveBundle_def t
    by (auto simp: dm_op_eq perm_op_def split: prod.splits if_splits)
  have inv3: "mgr_inv (b_dm s3)" using 3 by (simp add: reach_def)
  show "dis" "map_of (dm_bundleInfos (b_dm s')) n = None" "map_of (dm_installStates (b_dm s')) n = None"
    "\<forall>t. env_kv e t = kv_fine \<Longrightarrow> map_of (dm_dataStorage (b_dm s')) n = None"
    using eq deleted_state [OF d' inv3] mem s' by simp_all
qed

text \<open>
  C39: Uninstalling a bundle that only one user has, when it succeeds, takes it out of memory and
  forgets its install state; when the store works, it is gone from the store too. The bundles of other
  names are untouched.
\<close>

theorem uninstall_removes_bundle:
  assumes "ProcessBundleUninstall e n param s = Some (ERR_OK, s')" "mgr_reachable (b_dm s)" "\<not> in_cloneMgr s"
    and "map_of (dm_bundleInfos (b_dm s)) n = Some i" "length (ib_innerBundleUserInfos i) = 1"
  shows "map_of (dm_bundleInfos (b_dm s')) n = None \<and> map_of (dm_installStates (b_dm s')) n = None \<and>
    ((\<forall>t. env_kv e t = kv_fine) \<longrightarrow> map_of (dm_dataStorage (b_dm s')) n = None) \<and>
    (\<forall>k. k \<noteq> n \<longrightarrow> bundle_view k (b_dm s') = bundle_view k (b_dm s))"
proof -
  have inv: "mgr_inv (b_dm s)" by (rule mgr_reachable_inv [OF assms(2)])
  have ne: "n \<noteq> []" using assms(1) by (auto simp: ProcessBundleUninstall_def)
  define v where "v = GetUserId_inst (ip_userId param)"
  define s1 where "s1 = s\<lparr>in_userId := v\<rparr>"
  let ?i = "SetBundleStatus BundleStatus_DISABLED i" and ?d = "set_status BundleStatus_DISABLED n (b_dm s)"
  have g: "get_info e n s1 = (Some ?i, log_call Store (s1\<lparr>b_dm := ?d\<rparr>))" using ne assms(4) by (simp add: s1_def get_info_found)
  define s2 where "s2 = (log_call Store (s1\<lparr>b_dm := ?d\<rparr>))\<lparr>in_versionCode := GetVersionCode ?i\<rparr>"
  have "run_enable_guard e n (uninstall_bundle_body e n param ?i s2) = Some (ERR_OK, s')"
    using assms(1) ne g by (simp add: ProcessBundleUninstall_def v_def [symmetric] s1_def [symmetric] s2_def Let_def split: if_splits)
  then obtain dis s3 where body: "uninstall_bundle_body e n param ?i s2 = Some (ERR_OK, dis, s3)"
    and s': "s' = (if dis then s3 else snd (enable_bundle e n s3))" by (auto simp: run_enable_guard_def)
  have len: "length (ib_innerBundleUserInfos ?i) = 1" using assms(5) by (simp add: SetBundleStatus_def)
  have last: "uninstall_last_user e n param ?i s2 = (ERR_OK, dis, s3)"
    using body len assms(3) by (auto simp: uninstall_bundle_body_def s2_def s1_def Let_def split: if_splits option.splits)
  have inv2: "mgr_inv (b_dm s2)" using mgr_inv_set_status [OF inv] by (simp add: s2_def)
  have name: "GetBundleName ?i = n" using inv assms(4) by (auto simp: mgr_inv_def named_def)
  note gone = last_user_removed [OF last inv2 name]
  have mem: "map_of (dm_bundleInfos (b_dm s2)) n \<noteq> None" using assms(4) by (simp add: s2_def set_status_def)
  have "keeps_others {n} (b_dm s) (b_dm s')"
    using others.reach_ProcessBundleUninstall [OF assms(1) others.reach_refl [OF inv], of "{n}"] assms(3) by (simp add: reach_def)
  then have "\<forall>k. k \<noteq> n \<longrightarrow> bundle_view k (b_dm s') = bundle_view k (b_dm s)" using inv by (simp add: keeps_others_def)
  then show ?thesis using gone [OF mem] s' by simp
qed

definition owned_info :: inner_bundle_info where
  "owned_info = AddInnerBundleUserInfo (new_user 100 ''com.demo'') demo_info"

definition owned_service :: installer where
  "owned_service = new_installer (snd (UpdateBundleInstallState kv_fine ''com.demo'' INSTALL_SUCCESS
     (snd (AddInnerBundleInfo kv_fine ''com.demo'' owned_info (snd (UpdateBundleInstallState kv_fine ''com.demo'' INSTALL_START
       (AddUserId 100 (new_BundleDataMgr [] None))))))))"

lemma owned_reachable: "mgr_reachable (b_dm owned_service)"
proof -
  have "GetBundleName owned_info = ''com.demo''" by (simp add: owned_info_def)
  then show ?thesis unfolding owned_service_def new_installer_def
    by (simp add: mgr_reachable.step [OF mgr_reachable.step [OF mgr_reachable.step [OF mgr_reachable.step [OF mgr_reachable.start
      mgr_step.add_user_id] mgr_step.state] mgr_step.add] mgr_step.state])
qed

lemma owned_eval:
  "map_of (dm_bundleInfos (b_dm owned_service)) ''com.demo'' = Some owned_info" "length (ib_innerBundleUserInfos owned_info) = 1"
  "dm_bundleInfos (b_dm owned_service) = [(''com.demo'', owned_info)]"
  "map_of (dm_installStates (b_dm owned_service)) ''com.demo'' = Some INSTALL_SUCCESS" "HasUserId 100 (b_dm owned_service)"
  "\<not> in_cloneMgr owned_service"
  by (simp_all add: owned_service_def new_installer_def UpdateBundleInstallState_def AddInnerBundleInfo_def save_and_set_def
      transferStates_def IsDeleteDataState_def new_BundleDataMgr_def AddUserId_def HasUserId_def sm_emplace_def)
    (simp_all add: owned_info_def AddInnerBundleUserInfo_def demo_info_def new_InnerBundleInfo_def GetBundleName_def sm_emplace_def Let_def)

lemma owned_uninstall:
  "\<exists>s'. ProcessBundleUninstall demo_env ''com.demo'' demo_param owned_service = Some (ERR_OK, s')"
proof -
  let ?i = "SetBundleStatus BundleStatus_DISABLED owned_info"
  have user: "fst (GetInnerBundleUserInfo 100 new_InnerBundleUserInfo ?i)"
    by (simp add: GetInnerBundleUserInfo_def SetBundleStatus_def owned_info_def AddUser_lookup new_user_def GetBundleName_def
        AddUser_lookup(2) [unfolded GetBundleName_def] NOT_EXIST_USERID_def ALL_USERID_def)
  have app: "\<not> may_not_uninstall demo_param ?i"
    by (simp add: may_not_uninstall_def SetBundleStatus_def owned_info_def AddInnerBundleUserInfo_def demo_info_def new_ApplicationInfo_def Let_def
        split: option.splits)
  have len: "length (ib_innerBundleUserInfos ?i) = 1" using owned_eval(2) by (simp add: SetBundleStatus_def)
  have name: "GetBundleName ?i = ''com.demo''" by (simp add: owned_info_def)
  have clone: "find_sub ''com.demo#'' ''com.demo'' = None" by code_simp
  have fine: "fine_env demo_env" by (rule demo_conditions(1))
  have kv: "env_kv demo_env t = kv_fine" "env_kill demo_env t k u" for t k u by (simp_all add: demo_env_def sample_env_def)
  show ?thesis
    using user app len name owned_eval clone
    by (simp add: ProcessBundleUninstall_def GetInnerBundleInfo_def run_enable_guard_def uninstall_bundle_body_def uninstall_last_user_def
        RemoveBundle_def RemoveBundleAndDataDir_inst_def RemoveBundleCodeDir_def RemoveBundleDataDir_inst_def
        demo_param_def new_InstallParam_def GetUserId_inst_def DEFAULT_USERID_def INVALID_USERID_def GetClonedBundleName_def
        set_status_def dm_op_eq UpdateBundleInstallState_def transferStates_def IsDeleteDataState_def SaveInnerBundleInfo_def kv kill_op_def
        fine_ops [OF fine] Let_def sm_update_def)
qed

theorem uninstall_removes_bundle_witness:
  "\<exists>s'. ProcessBundleUninstall demo_env ''com.demo'' demo_param owned_service = Some (ERR_OK, s') \<and>
     map_of (dm_bundleInfos (b_dm s')) ''com.demo'' = None \<and> map_of (dm_dataStorage (b_dm s')) ''com.demo'' = None"
proof -
  obtain s' where p: "ProcessBundleUninstall demo_env ''com.demo'' demo_param owned_service = Some (ERR_OK, s')"
    using owned_uninstall by blast
  have "\<forall>t. env_kv demo_env t = kv_fine" by (simp add: demo_env_def sample_env_def)
  with uninstall_removes_bundle [OF p owned_reachable owned_eval(6,1,2)] p show ?thesis by auto
qed

end
