(* ===== verification/Sandbox_Apps_Correct.thy ===== *)
theory Sandbox_Apps_Correct
  imports Bundle_Installer_Correct
begin

text \<open>
  Sandbox applications: their indices, what installing one leaves behind, and three ways in which the
  sandbox installer harms the original bundle or the service.
\<close>

section \<open>The indices\<close>

definition used_indices :: "sandbox_mgr \<Rightarrow> string \<Rightarrow> int set" where
  "used_indices x n = (case map_of (sx_appIndexMap x) n of None \<Rightarrow> {} | Some is \<Rightarrow> set is)"

definition sandbox_inv :: "sandbox_mgr \<Rightarrow> bool" where
  "sandbox_inv x \<longleftrightarrow> sm_inv (sx_appIndexMap x) \<and>
     (\<forall>n is. map_of (sx_appIndexMap x) n = Some is \<longrightarrow> ss_inv is \<and> set is \<subseteq> {1..MAX_APP_INDEX})"

lemma sandbox_invD:
  "sandbox_inv x \<Longrightarrow> map_of (sx_appIndexMap x) n = Some is \<Longrightarrow> ss_inv is \<and> set is \<subseteq> {1..MAX_APP_INDEX}"
  by (simp add: sandbox_inv_def)

lemma used_range: "sandbox_inv x \<Longrightarrow> used_indices x n \<subseteq> {1..MAX_APP_INDEX}"
  by (simp add: used_indices_def sandbox_inv_def split: option.splits)

lemma sandbox_inv_assign:
  assumes "sandbox_inv x" "ss_inv is" "set is \<subseteq> {1..MAX_APP_INDEX}"
  shows "sandbox_inv (x\<lparr>sx_appIndexMap := sm_assign n is (sx_appIndexMap x)\<rparr>)"
  using assms by (auto simp: sandbox_inv_def split: if_splits)

lemma sandbox_inv_erase:
  "sandbox_inv x \<Longrightarrow> sandbox_inv (x\<lparr>sx_appIndexMap := sm_erase n (sx_appIndexMap x)\<rparr>)"
  by (auto simp: sandbox_inv_def split: if_splits)

lemma used_indices_upd [simp]:
  "used_indices (x\<lparr>sx_appIndexMap := sm_assign n is (sx_appIndexMap x)\<rparr>) = (used_indices x)(n := set is)"
  "used_indices (x\<lparr>sx_appIndexMap := sm_erase n (sx_appIndexMap x)\<rparr>) = (used_indices x)(n := {})"
  by (auto simp: used_indices_def fun_eq_iff)

text \<open>The loop stops at the largest index below which every index is taken.\<close>

lemma last_before_gap:
  assumes "ss_inv is" "\<forall>i \<in> set is. pre < i"
  shows "pre \<le> last_before_gap pre is" "{pre<..last_before_gap pre is} \<subseteq> set is"
    "last_before_gap pre is + 1 \<notin> set is"
proof -
  have "pre \<le> last_before_gap pre is \<and> {pre<..last_before_gap pre is} \<subseteq> set is \<and> last_before_gap pre is + 1 \<notin> set is"
    using assms
  proof (induction pre "is" rule: last_before_gap.induct)
    case (1 pre)
    then show ?case by simp
  next
    case (2 pre i "is")
    show ?case
    proof (cases "i = pre + 1")
      case True
      with 2 show ?thesis by (fastforce simp: ss_inv_def)
    next
      case False
      with 2(2,3) show ?thesis by (fastforce simp: ss_inv_def)
    qed
  qed
  then show "pre \<le> last_before_gap pre is" "{pre<..last_before_gap pre is} \<subseteq> set is" "last_before_gap pre is + 1 \<notin> set is"
    by simp_all
qed

lemma generate_full:
  assumes "sandbox_inv x" "{1..MAX_APP_INDEX} \<subseteq> used_indices x n"
  shows "GenerateSandboxAppIndex n x = (0, x)"
proof (cases "map_of (sx_appIndexMap x) n")
  case None
  then show ?thesis using assms by (simp add: used_indices_def MAX_APP_INDEX_def)
next
  case (Some js)
  have inv: "ss_inv js" "\<forall>i \<in> set js. 0 < i" using sandbox_invD [OF assms(1) Some] by auto
  have sub: "{1..MAX_APP_INDEX} \<subseteq> set js" using assms(2) Some by (simp add: used_indices_def)
  have "last_before_gap 0 js + 1 \<notin> {1..MAX_APP_INDEX}" using last_before_gap(3) [OF inv] sub by blast
  then have "last_before_gap 0 js + 1 > MAX_APP_INDEX" using last_before_gap(1) [OF inv] by auto
  moreover have "js \<noteq> []" using sub by (auto simp: MAX_APP_INDEX_def)
  ultimately show ?thesis using Some by (simp add: GenerateSandboxAppIndex_def INITIAL_APP_INDEX_def Let_def)
qed

lemma generate_free:
  assumes "sandbox_inv x" "\<not> {1..MAX_APP_INDEX} \<subseteq> used_indices x n" "n \<noteq> []" "GenerateSandboxAppIndex n x = (k, x')"
  shows "k \<in> {1..MAX_APP_INDEX} - used_indices x n \<and> {1..<k} \<subseteq> used_indices x n \<and> sandbox_inv x' \<and>
    used_indices x' = (used_indices x)(n := insert k (used_indices x n)) \<and> sx_appInfos x' = sx_appInfos x"
proof (cases "map_of (sx_appIndexMap x) n")
  case None
  then show ?thesis using assms(1,3,4)
    by (auto simp: used_indices_def GenerateSandboxAppIndex_def INITIAL_APP_INDEX_def sm_emplace_def MAX_APP_INDEX_def fun_eq_iff ss_inv_def
        intro!: sandbox_inv_assign)
next
  case (Some js)
  have inv: "ss_inv js" "\<forall>i \<in> set js. 0 < i" using sandbox_invD [OF assms(1) Some] by auto
  note gap = last_before_gap [OF inv]
  have u: "used_indices x n = set js" using Some by (simp add: used_indices_def)
  define new where "new = last_before_gap 0 js + 1"
  obtain j where j: "j \<in> {1..MAX_APP_INDEX}" "j \<notin> set js" using assms(2) u by blast
  have "j \<notin> {0<..last_before_gap 0 js}" using gap(2) j by blast
  then have "new \<le> j" using j by (auto simp: new_def)
  with j have new: "new \<in> {1..MAX_APP_INDEX} - set js" "{1..<new} \<subseteq> set js" using gap by (auto simp: new_def)
  have run: "GenerateSandboxAppIndex n x = (new, x\<lparr>sx_appIndexMap := sm_assign n (ss_insert new js) (sx_appIndexMap x)\<rparr>)"
    using Some new assms(3) by (auto simp: GenerateSandboxAppIndex_def INITIAL_APP_INDEX_def Let_def new_def ss_insert_def)
  have "sandbox_inv (x\<lparr>sx_appIndexMap := sm_assign n (ss_insert new js) (sx_appIndexMap x)\<rparr>)"
    using sandbox_invD [OF assms(1) Some] new by (intro sandbox_inv_assign [OF assms(1)]) auto
  with run new assms(4) show ?thesis by (auto simp: u)
qed

lemma delete_index:
  assumes "sandbox_inv x" "n \<noteq> []" "DeleteSandboxAppIndex n k x = (ok, x')"
  shows "ok = (k \<in> used_indices x n) \<and> sandbox_inv x' \<and> used_indices x' = (used_indices x)(n := used_indices x n - {k}) \<and>
    sx_appInfos x' = sx_appInfos x"
proof (cases "map_of (sx_appIndexMap x) n")
  case None
  then show ?thesis using assms by (auto simp: used_indices_def DeleteSandboxAppIndex_def fun_eq_iff)
next
  case (Some js)
  have u: "used_indices x n = set js" using Some by (simp add: used_indices_def)
  show ?thesis
  proof (cases "k \<in> set js")
    case False
    then show ?thesis using assms Some u by (auto simp: DeleteSandboxAppIndex_def fun_eq_iff split: if_splits)
  next
    case True
    have "sandbox_inv (x\<lparr>sx_appIndexMap := sm_assign n (ss_erase k js) (sx_appIndexMap x)\<rparr>)"
      using sandbox_invD [OF assms(1) Some] by (intro sandbox_inv_assign [OF assms(1)]) auto
    moreover have "ss_erase k js = [] \<longrightarrow> used_indices x n - {k} = {}" using u by (metis set_empty set_ss_erase)
    moreover have "DeleteSandboxAppIndex n k x = (True, x\<lparr>sx_appIndexMap := if ss_erase k js = []
        then sm_erase n (sx_appIndexMap x) else sm_assign n (ss_erase k js) (sx_appIndexMap x)\<rparr>)"
      using True Some assms(2) by (auto simp: DeleteSandboxAppIndex_def)
    ultimately show ?thesis using True assms u sandbox_inv_erase [OF assms(1)] by (auto simp: fun_eq_iff)
  qed
qed

section \<open>Installing and removing\<close>

lemma rollback_frame [simp]:
  "dm_bundleInfos (b_dm (SandboxAppRollBack e i v s)) = dm_bundleInfos (b_dm s)"
  "b_sandbox (SandboxAppRollBack e i v s) = snd (DeleteSandboxAppIndex (GetBundleName i) (ib_appIndex i) (b_sandbox s))"
  by (simp_all add: SandboxAppRollBack_def Let_def upd_sandbox_def split_beta split: bool.splits)

lemma data_dir_frame [simp]:
  "b_dm (snd (snd (CreateSandboxDataDir e v i uid k s))) = b_dm s"
  "b_sandbox (snd (snd (CreateSandboxDataDir e v i uid k s))) = b_sandbox s"
  by (simp_all add: CreateSandboxDataDir_def Let_def split_beta)

lemma data_dir_info [simp]:
  "GetBundleName (fst (snd (CreateSandboxDataDir e v i uid k s))) = GetBundleName i"
  "ib_appIndex (fst (snd (CreateSandboxDataDir e v i uid k s))) = ib_appIndex i"
  "ib_isSandboxApp (fst (snd (CreateSandboxDataDir e v i uid k s))) = ib_isSandboxApp i"
  "ib_innerBundleUserInfos (fst (snd (CreateSandboxDataDir e v i uid k s))) = ib_innerBundleUserInfos i"
  by (simp_all add: CreateSandboxDataDir_def Let_def split_beta SetAppDataBaseDir_def GetBundleName_def)

lemma user_setter_frame [simp]:
  "GetBundleName (SetAccessTokenId t v i) = GetBundleName i" "ib_appIndex (SetAccessTokenId t v i) = ib_appIndex i"
  "ib_isSandboxApp (SetAccessTokenId t v i) = ib_isSandboxApp i"
  "GetBundleName (SetBundleUpdateTime a v i) = GetBundleName i" "ib_appIndex (SetBundleUpdateTime a v i) = ib_appIndex i"
  "ib_isSandboxApp (SetBundleUpdateTime a v i) = ib_isSandboxApp i"
  "GetBundleName (SetBundleInstallTime a v i) = GetBundleName i" "ib_appIndex (SetBundleInstallTime a v i) = ib_appIndex i"
  "ib_isSandboxApp (SetBundleInstallTime a v i) = ib_isSandboxApp i"
  "GetBundleName (AddInnerBundleUserInfo u i) = GetBundleName i" "ib_appIndex (AddInnerBundleUserInfo u i) = ib_appIndex i"
  "ib_isSandboxApp (AddInnerBundleUserInfo u i) = ib_isSandboxApp i"
  by (simp_all add: SetAccessTokenId_def SetBundleUpdateTime_def SetBundleInstallTime_def AddInnerBundleUserInfo_def upd_user_info_def Let_def
      split: option.splits)

lemma sandbox_name [simp]:
  "GetBundleName (i\<lparr>ib_appIndex := k, ib_isSandboxApp := b\<rparr>) = GetBundleName i" "GetBundleName (CleanInnerBundleUserInfos i) = GetBundleName i"
  "has_user v (SetBundleUpdateTime t w i) = has_user v i"
  by (auto simp: GetBundleName_def CleanInnerBundleUserInfos_def has_user_def SetBundleUpdateTime_def upd_user_info_def Let_def)

lemma data_dir_user [simp]: "has_user w (fst (snd (CreateSandboxDataDir e v i uid k s))) = has_user w i"
  by (simp add: CreateSandboxDataDir_def Let_def split_beta)

lemma uid_user [simp]: "bu_userId (iu_bundleUserInfo (fst (snd (GenerateUidAndGid u d)))) = bu_userId (iu_bundleUserInfo u)"
  by (simp add: GenerateUidAndGid_def Let_def split: prod.splits option.splits)

lemma uid_infos [simp]: "dm_bundleInfos (snd (snd (GenerateUidAndGid u d))) = dm_bundleInfos d"
  by (auto simp: GenerateUidAndGid_def GenerateBundleId_def Let_def split: prod.splits option.splits list.splits)

lemma create_sandbox_run:
  assumes "create_sandbox e n v i u s = (r, s')" "GenerateSandboxAppIndex n (b_sandbox s) = (new, x)" "GetBundleName i = n"
    and "bu_userId (iu_bundleUserInfo u) = v"
  shows "(\<exists>c. r = Inl c \<and> b_sandbox s' = snd (DeleteSandboxAppIndex n (if new = 0 then ib_appIndex i else new) x)) \<or>
     (\<exists>j. r = Inr new \<and> new \<noteq> 0 \<and> b_sandbox s' = SaveSandboxAppInfo j new x \<and> GetBundleName j = n \<and> ib_appIndex j = new \<and>
       ib_isSandboxApp j \<and> has_user v j)"
  using assms by (auto simp: create_sandbox_def Let_def split_beta INITIAL_APP_INDEX_def upd_sandbox_def split: if_splits)

lemma failed_create_infos:
  "create_sandbox e n v i u s = (Inl c, s') \<Longrightarrow> dm_bundleInfos (b_dm s') = dm_bundleInfos (b_dm s)"
  by (auto simp: create_sandbox_def Let_def split_beta split: if_splits)

lemma used_save [simp]: "used_indices (SaveSandboxAppInfo j k x) = used_indices x" "sandbox_inv (SaveSandboxAppInfo j k x) = sandbox_inv x"
  by (simp_all add: SaveSandboxAppInfo_def used_indices_def fun_eq_iff sandbox_inv_def)

text \<open>
  A new sandbox application gets the smallest index from 1 to 100 that no other application of
  the bundle has; without a free index the answer is 0 and nothing changes. Deleting the index makes
  exactly it free again, and the indices of other bundles never change.
\<close>

theorem sandbox_index_correct:
  assumes "sandbox_inv x" "n \<noteq> []" "GenerateSandboxAppIndex n x = (k, x')" "DeleteSandboxAppIndex n k x' = (ok, x'')"
  shows "sandbox_inv x' \<and>
    (if {1..MAX_APP_INDEX} \<subseteq> used_indices x n then k = 0 \<and> x' = x
     else k \<in> {1..MAX_APP_INDEX} \<and> k \<notin> used_indices x n \<and> {1..<k} \<subseteq> used_indices x n \<and>
       used_indices x' = (used_indices x)(n := insert k (used_indices x n)) \<and> ok \<and> used_indices x'' = used_indices x)"
proof (cases "{1..MAX_APP_INDEX} \<subseteq> used_indices x n")
  case True
  then show ?thesis using generate_full [OF assms(1) True] assms by simp
next
  case False
  note gen = generate_free [OF assms(1) False assms(2,3)]
  then have "sandbox_inv x'" by simp
  from delete_index [OF this assms(2,4)] gen False show ?thesis by (auto simp: fun_eq_iff)
qed

definition two_sandboxes :: sandbox_mgr where
  "two_sandboxes = \<lparr>sx_appInfos = [], sx_appIndexMap = [(''com.demo'', [1, 3])]\<rparr>"

theorem sandbox_index_correct_witness:
  "fst (GenerateSandboxAppIndex ''com.demo'' two_sandboxes) = 2 \<and>
     used_indices (snd (GenerateSandboxAppIndex ''com.demo'' two_sandboxes)) ''com.demo'' = {1, 2, 3}"
proof -
  have inv: "sandbox_inv two_sandboxes"
    by (auto simp: sandbox_inv_def two_sandboxes_def ss_inv_def MAX_APP_INDEX_def split: if_splits)
  have used: "used_indices two_sandboxes ''com.demo'' = {1, 3}" by (auto simp: used_indices_def two_sandboxes_def)
  obtain k x' ok x'' where g: "GenerateSandboxAppIndex ''com.demo'' two_sandboxes = (k, x')" "DeleteSandboxAppIndex ''com.demo'' k x' = (ok, x'')"
    by (meson surj_pair)
  have "2 \<in> {1..MAX_APP_INDEX}" "2 \<notin> {1, 3 :: int}" by (simp_all add: MAX_APP_INDEX_def)
  then have c: "\<not> {1..MAX_APP_INDEX} \<subseteq> {1, 3}" by blast
  with sandbox_index_correct [OF inv _ g] used have k: "k \<notin> {1, 3}" "{1..<k} \<subseteq> {1, 3}" "1 \<le> k"
    and u: "used_indices x' ''com.demo'' = insert k {1, 3}" by (auto split: if_splits)
  have "2 \<in> {1..<k} \<Longrightarrow> 2 \<in> {1, 3 :: int}" by (rule subsetD [OF k(2)])
  then have "\<not> 2 < k" by auto
  then have "k = 2" using k(1,3) by auto
  then show ?thesis using g u by auto
qed

lemma saved_sandbox_found:
  assumes "n \<noteq> []" "GetBundleName j = n" "has_user v j" "k > 0" "0 \<le> v"
  shows "GetSandboxAppInfo n k v (SaveSandboxAppInfo j k x) = Inr j"
  using assms by (auto simp: GetSandboxAppInfo_def SaveSandboxAppInfo_def INITIAL_APP_INDEX_def DEFAULT_USERID_def GetInnerBundleUserInfo_def
      has_user_def NOT_EXIST_USERID_def ALL_USERID_def)

text \<open>
  What installing a sandbox application leaves behind. When it returns an index, that index was
  free, is taken now, and the sandbox data manager has an information of the bundle with this index
  for the user. When it fails, at whatever step, every index and every sandbox information is as
  before.
\<close>

theorem sandbox_install_outcome:
  assumes "InstallSandboxApp e n v s = (r, s')" "mgr_reachable (b_dm s)" "sandbox_inv (b_sandbox s)"
    and "map_of (dm_bundleInfos (b_dm s)) n = Some i" "n \<noteq> []" "ib_appIndex i = INITIAL_APP_INDEX"
    and "\<forall>u. map_of (ib_innerBundleUserInfos i) (NameAndUserIdToKey n v) = Some u \<longrightarrow> bu_userId (iu_bundleUserInfo u) = v"
  shows "case r of
      Inl c \<Rightarrow> used_indices (b_sandbox s') = used_indices (b_sandbox s) \<and> sx_appInfos (b_sandbox s') = sx_appInfos (b_sandbox s)
    | Inr k \<Rightarrow> k \<in> {1..MAX_APP_INDEX} - used_indices (b_sandbox s) n \<and>
        used_indices (b_sandbox s') = (used_indices (b_sandbox s))(n := insert k (used_indices (b_sandbox s) n)) \<and>
        (\<exists>j. GetSandboxAppInfo n k v (b_sandbox s') = Inr j \<and> GetBundleName j = n \<and> ib_appIndex j = k \<and> ib_isSandboxApp j)"
proof -
  let ?i = "SetBundleStatus BundleStatus_DISABLED i" and ?s = "log_call Store (s\<lparr>b_dm := set_status BundleStatus_DISABLED n (b_dm s)\<rparr>)"
  have name: "GetBundleName i = n" using mgr_reachable_inv [OF assms(2)] assms(4) by (auto simp: mgr_inv_def named_def)
  show ?thesis
  proof (cases "v < DEFAULT_USERID \<or> \<not> HasUserId v (b_dm ?s) \<or> \<not> fst (GetInnerBundleUserInfo v new_InnerBundleUserInfo ?i)")
    case True
    then show ?thesis using assms(1) get_info_found [OF assms(5,4), of e]
      by (auto simp: InstallSandboxApp_def assms(5) split: if_splits prod.splits bool.splits)
  next
    case False
    then have v: "0 \<le> v" by (simp add: DEFAULT_USERID_def)
    obtain u where u: "GetInnerBundleUserInfo v new_InnerBundleUserInfo ?i = (True, u)"
      using False by (cases "GetInnerBundleUserInfo v new_InnerBundleUserInfo ?i") auto
    have bu: "bu_userId (iu_bundleUserInfo u) = v"
      using u v name assms(7) by (auto simp: GetInnerBundleUserInfo_def NOT_EXIST_USERID_def ALL_USERID_def SetBundleStatus_def GetBundleName_def
          split: option.splits)
    have run: "create_sandbox e n v (CleanInnerBundleUserInfos ?i) u ?s = (r, s')"
      using assms(1) get_info_found [OF assms(5,4), of e] u False by (simp add: InstallSandboxApp_def assms(5))
    obtain k x where g: "GenerateSandboxAppIndex n (b_sandbox s) = (k, x)" by fastforce
    have clean: "ib_appIndex (CleanInnerBundleUserInfos ?i) = 0" "GetBundleName (CleanInnerBundleUserInfos ?i) = n"
      using assms(6) name by (simp_all add: CleanInnerBundleUserInfos_def SetBundleStatus_def INITIAL_APP_INDEX_def GetBundleName_def)
    note outcome = create_sandbox_run [OF run _ clean(2) bu, simplified, OF g]
    show ?thesis
    proof (cases "{1..MAX_APP_INDEX} \<subseteq> used_indices (b_sandbox s) n")
      case True
      have "0 \<notin> used_indices (b_sandbox s) n" using used_range [OF assms(3), of n] by auto
      then show ?thesis using outcome generate_full [OF assms(3) True] g clean(1)
          delete_index [OF assms(3,5) prod.collapse [symmetric], of 0] by (auto simp: fun_eq_iff)
    next
      case False
      note gen = generate_free [OF assms(3) False assms(5) g]
      then have x: "sandbox_inv x" "k \<noteq> 0" "k > 0" by auto
      show ?thesis
      proof (cases r)
        case (Inl c)
        then have "b_sandbox s' = snd (DeleteSandboxAppIndex n k x)" using outcome x(2) by simp
        with Inl gen delete_index [OF x(1) assms(5) prod.collapse [symmetric], of k] show ?thesis by (auto simp: fun_eq_iff)
      next
        case (Inr k')
        then obtain j where "k' = k" "b_sandbox s' = SaveSandboxAppInfo j k x" "GetBundleName j = n" "ib_appIndex j = k" "ib_isSandboxApp j"
          "has_user v j" using outcome by auto
        with Inr gen x(3) v saved_sandbox_found assms(5) show ?thesis by simp
      qed
    qed
  qed
qed

lemma owned_sandbox_run:
  "\<exists>s'. InstallSandboxApp demo_env ''com.demo'' 100 owned_service = (Inr 1, s')"
proof -
  let ?i = "SetBundleStatus BundleStatus_DISABLED owned_info"
  have user: "fst (GetInnerBundleUserInfo 100 new_InnerBundleUserInfo ?i)"
    by (simp add: GetInnerBundleUserInfo_def SetBundleStatus_def owned_info_def AddUser_lookup new_user_def GetBundleName_def
        AddUser_lookup(2) [unfolded GetBundleName_def] NOT_EXIST_USERID_def ALL_USERID_def)
  have "sx_appIndexMap (b_sandbox owned_service) = []" by (simp add: owned_service_def new_installer_def)
  moreover have "HasUserId 100 (set_status BundleStatus_DISABLED ''com.demo'' (b_dm owned_service))"
    using owned_eval(5) by (simp add: HasUserId_def set_status_def)
  ultimately show ?thesis using user
    by (simp add: InstallSandboxApp_def get_info_found [OF _ owned_eval(1)] DEFAULT_USERID_def create_sandbox_def GenerateSandboxAppIndex_def
        INITIAL_APP_INDEX_def Let_def split_beta fine_ops [OF demo_conditions(1)] CreateSandboxDataDir_def split: prod.splits bool.splits)
qed

theorem sandbox_install_outcome_witness:
  "\<exists>s' j. InstallSandboxApp demo_env ''com.demo'' 100 owned_service = (Inr 1, s') \<and>
     GetSandboxAppInfo ''com.demo'' 1 100 (b_sandbox s') = Inr j \<and> ib_isSandboxApp j"
proof -
  obtain s' where r: "InstallSandboxApp demo_env ''com.demo'' 100 owned_service = (Inr 1, s')" using owned_sandbox_run by blast
  have "sandbox_inv (b_sandbox owned_service)" by (simp add: owned_service_def new_installer_def sandbox_inv_def)
  moreover have "ib_appIndex owned_info = INITIAL_APP_INDEX"
    by (simp add: owned_info_def demo_info_def new_InnerBundleInfo_def INITIAL_APP_INDEX_def)
  ultimately show ?thesis using r sandbox_install_outcome [OF r owned_reachable _ owned_eval(1)]
    by (auto simp: owned_info_def AddUser_lookup new_user_def)
qed

section \<open>Harm to the original bundle and the service\<close>

text \<open>
  When installing a sandbox application fails, the original bundle stays disabled: reading its
  information disabled it, and only the successful end enables it again.
\<close>

theorem failed_sandbox_disables_bundle:
  assumes "InstallSandboxApp e n v s = (Inl c, s')" "map_of (dm_bundleInfos (b_dm s)) n = Some i" "n \<noteq> []"
  shows "\<exists>j. map_of (dm_bundleInfos (b_dm s')) n = Some j \<and> IsDisabled j"
proof -
  have "dm_bundleInfos (b_dm s') = dm_bundleInfos (set_status BundleStatus_DISABLED n (b_dm s))"
    using assms(1) get_info_found [OF assms(3,2), of e]
    by (auto simp: InstallSandboxApp_def assms(3) dest: failed_create_infos split: if_splits prod.splits bool.splits)
  then show ?thesis using assms(2) by (simp add: set_status_def IsDisabled_def SetBundleStatus_def)
qed

text \<open>
  A bundle whose name is the key of another bundle's sandbox application, as \<open>com.demo_1\<close> is for the
  first one of \<open>com.demo\<close>, cannot be uninstalled: cutting its own name and the separator off that key
  throws \<open>std::out_of_range\<close>, which nothing catches.
\<close>

lemma find_sub_refl: "find_sub n n \<noteq> None"
  by (cases n) simp_all

lemma uninstall_sandboxes_throws:
  "n \<in> set (map fst kis) \<Longrightarrow> uninstall_sandboxes e n v kis s = None"
  by (induction kis arbitrary: s) (auto simp del: set_map simp: find_sub_refl Let_def split: option.splits list.splits)

theorem sandbox_key_as_name_throws:
  assumes "map_of (sx_appInfos (b_sandbox s)) n = Some i" "n \<noteq> []" "\<forall>ks. set (env_order e ks) = set ks"
  shows "UninstallBundle e n param s = None"
proof -
  let ?m = "sx_appInfos (b_sandbox s)"
  have "n \<in> set (env_order e (map fst ?m))" using assms(1,3) by (simp add: rev_image_eqI [OF map_of_SomeD])
  then have "(n, i) \<in> set (in_order e ?m)" using assms(1) by (auto simp: in_order_def map_filter_def intro!: image_eqI [of _ _ n])
  then have "n \<in> set (map fst (in_order e ?m))" by (simp add: rev_image_eqI)
  then show ?thesis using assms(2) by (simp add: UninstallBundle_def UninstallAllSandboxApps_def uninstall_sandboxes_throws)
qed

text \<open>
  Uninstalling a bundle that has a clone dereferences the clone manager, which only the uninstallation
  of a module has fetched.
\<close>

lemma clone_name_keys:
  "GetClonedBundleName n d = find (\<lambda>k. find_sub (n @ ''#'') k \<noteq> None) (map fst (dm_bundleInfos d))"
proof -
  have "map_option fst (find (\<lambda>(k, _). P k) m) = find P (map fst m)" for P and m :: bundle_store
    by (induction m) auto
  then show ?thesis by (simp add: GetClonedBundleName_def)
qed

theorem clone_uninstall_null:
  assumes "map_of (dm_bundleInfos (b_dm s)) n = Some i" "n \<noteq> []" "GetClonedBundleName n (b_dm s) \<noteq> None" "\<not> in_cloneMgr s"
    and "HasUserId (GetUserId_inst (ip_userId param)) (b_dm s)" "GetUserId_inst (ip_userId param) \<noteq> INVALID_USERID"
    and "fst (GetInnerBundleUserInfo (GetUserId_inst (ip_userId param)) new_InnerBundleUserInfo (SetBundleStatus BundleStatus_DISABLED i))"
    and "\<not> may_not_uninstall param (SetBundleStatus BundleStatus_DISABLED i)"
  shows "ProcessBundleUninstall e n param s = None"
proof -
  have "GetClonedBundleName n (set_status BundleStatus_DISABLED n (b_dm s)) \<noteq> None"
    using assms(3) by (simp add: clone_name_keys set_status_def)
  then show ?thesis using assms
    by (simp add: ProcessBundleUninstall_def Let_def get_info_found uninstall_bundle_body_def run_enable_guard_def)
qed

text \<open>
  Uninstalling the only module of a bundle for one of several users succeeds and leaves the bundle in
  the state \<open>UNINSTALL_START\<close> for the others: from there no update, no change of users and no further
  uninstallation can start.
\<close>

lemma state_kept [simp]:
  "dm_installStates (b_dm (snd (save_info e i s))) = dm_installStates (b_dm s)"
  by (simp add: SaveInnerBundleInfo_def split: prod.splits)

lemma user_data_keeps_states:
  "RemoveBundleUserData e i keep s = Some (r, i', s') \<Longrightarrow> dm_installStates (b_dm s') = dm_installStates (b_dm s)"
  by (auto simp: RemoveBundleUserData_def Let_def split_beta remove_user_op_def Mgr_RemoveInnerBundleUserInfo_def set_and_save_def
      RemoveBundleDataDir_inst_def split: if_splits option.splits prod.splits bool.splits Option.bind_splits)

lemma run_enable_guard_Some [simp]:
  "run_enable_guard e n (Some (c, dis, t)) = Some (c, if dis then t else snd (enable_bundle e n t))"
  by (simp add: run_enable_guard_def)

theorem module_uninstall_stuck:
  assumes "ProcessBundleUninstall_module e n m param s = Some (ERR_OK, s')" "map_of (dm_bundleInfos (b_dm s)) n = Some i"
    and "IsOnlyModule m i" "length (ib_innerBundleUserInfos i) \<noteq> 1" "GetClonedBundleName n (b_dm s) = None"
  shows "map_of (dm_installStates (b_dm s')) n = Some UNINSTALL_START \<and>
    (\<forall>kv st. st \<in> {UPDATING_START, USER_CHANGE, UNINSTALL_START, INSTALL_START} \<longrightarrow> \<not> fst (UpdateBundleInstallState kv n st (b_dm s')))"
proof -
  let ?i = "SetBundleStatus BundleStatus_DISABLED i"
  have ne: "n \<noteq> []" using assms(1) by (auto simp: ProcessBundleUninstall_module_def)
  define v where "v = GetUserId_inst (ip_userId param)"
  define s0 where "s0 = s\<lparr>in_cloneMgr := True, in_userId := v\<rparr>"
  define s1 where "s1 = (log_call Store (s0\<lparr>b_dm := set_status BundleStatus_DISABLED n (b_dm s0)\<rparr>))\<lparr>in_versionCode := GetVersionCode ?i\<rparr>"
  have gi: "get_info e n s0 = (Some ?i, log_call Store (s0\<lparr>b_dm := set_status BundleStatus_DISABLED n (b_dm s0)\<rparr>))"
    using assms(2) by (intro get_info_found [OF ne]) (simp add: s0_def)
  have g: "run_enable_guard e n (case set_state e n UNINSTALL_START s1 of (ok, s4) \<Rightarrow>
       if \<not> ok then Some (ERR_APPEXECFWK_INSTALL_BUNDLE_MGR_SERVICE_ERROR, False, s4)
       else run_state_guard e n (uninstall_module_body e n m param ?i s4)) = Some (ERR_OK, s')"
    using assms(1) by (simp add: ProcessBundleUninstall_module_def Let_def v_def [symmetric] s0_def [symmetric] gi
        s1_def [symmetric] split: if_splits)
  have c: "GetClonedBundleName n (b_dm s1) = None" using assms(5) by (simp add: s1_def s0_def clone_name_keys set_status_def)
  obtain s4 where s4: "set_state e n UNINSTALL_START s1 = (True, s4)"
    using g by (auto simp: run_enable_guard_def split: prod.splits if_splits)
  then have st: "map_of (dm_installStates (b_dm s4)) n = Some UNINSTALL_START" and "dm_bundleInfos (b_dm s4) = dm_bundleInfos (b_dm s1)"
    by (auto simp: dm_op_eq UpdateBundleInstallState_def IsDeleteDataState_def split: prod.splits option.splits if_splits)
  then have c4: "GetClonedBundleName n (b_dm s4) = None" using c by (simp add: clone_name_keys)
  have only: "IsOnlyModule m (SetInstallMark n m mk ?i)" "length (ib_innerBundleUserInfos (SetInstallMark n m mk ?i)) \<noteq> 1" for mk
    using assms(3,4) by (simp_all add: IsOnlyModule_def SetInstallMark_def SetBundleStatus_def)
  obtain r dis s5 where b: "uninstall_module_body e n m param ?i s4 = Some (r, dis, s5)"
    "s' = (if dis then s5 else snd (enable_bundle e n (snd (set_state e n INSTALL_SUCCESS s5))))" "r = ERR_OK"
    using g s4 by (auto simp: run_enable_guard_def run_state_guard_def)
  have "dis \<and> dm_installStates (b_dm s5) = dm_installStates (b_dm s4)"
    using b(1,3) only c4 unfolding uninstall_module_body_def Let_def
    by (auto simp: split_beta clone_name_keys SaveInnerBundleInfo_def dest!: user_data_keeps_states
        split: if_splits option.splits prod.splits Option.bind_splits)
  then have "map_of (dm_installStates (b_dm s')) n = Some UNINSTALL_START" using st b(2) by simp
  then show ?thesis using ne by (auto simp: UpdateBundleInstallState_def transferStates_def)
qed

end
