(* ===== verification/Config_Json.thy ===== *)
theory Config_Json
  imports Json_Inner
begin

text \<open>
  \<open>bundle_profile.cpp\<close>, first part (namespace \<open>ProfileReader\<close>): the structures of \<open>config.json\<close>, the profile of
  a package in the old format, and how they are read. All of them report to the thread-local
  \<open>ProfileReader::parseResult\<close>. Members without an initializer (\<open>Ability::grantPermission\<close>, the
  numbers of \<open>Shortcut\<close>) are undefined until they are read; the model starts them with 0 and false.
  As in \<open>Json_Util\<close>, numbers are integers.
\<close>

section \<open>A member that is looked for first\<close>

text \<open>\<open>if (jsonObject.find(key) != jsonObject.end())\<close>: \<open>mark\<close> records that the member is there.\<close>

definition if_present :: "string \<Rightarrow> ('r \<Rightarrow> 'r) \<Rightarrow> 'r step \<Rightarrow> 'r step" where
  "if_present key mark s j rst =
     (case obj_find j key of None \<Rightarrow> Some rst | Some _ \<Rightarrow> s j (mark (fst rst), snd rst))"

section \<open>Structures\<close>

record config_version =
  cv_code :: int
  cv_name :: string
  cv_minCompatibleVersionCode :: int

definition new_Config_Version :: config_version where
  "new_Config_Version = \<lparr>
    cv_code = 0, cv_name = [], cv_minCompatibleVersionCode = -1\<rparr>"

record config_api_version =
  cap_compatible :: u32
  cap_target :: u32
  cap_releaseType :: string

definition new_Config_ApiVersion :: config_api_version where
  "new_Config_ApiVersion = \<lparr>
    cap_compatible = 0, cap_target = 0, cap_releaseType = ''Release''\<rparr>"

record config_app =
  capp_bundleName :: string
  capp_originalName :: string
  capp_vendor :: string
  capp_removable :: "bool \<times> bool"
  capp_version :: config_version
  capp_apiVersion :: config_api_version
  capp_singleton :: bool
  capp_iconId :: int
  capp_labelId :: int
  capp_userDataClearable :: bool
  capp_targetBundleList :: "string list"

definition new_Config_App :: config_app where
  "new_Config_App = \<lparr>
    capp_bundleName = [], capp_originalName = [], capp_vendor = [], capp_removable = (False, True),
    capp_version = new_Config_Version, capp_apiVersion = new_Config_ApiVersion, capp_singleton = False,
    capp_iconId = 0, capp_labelId = 0, capp_userDataClearable = True, capp_targetBundleList = []\<rparr>"

record config_req_version =
  crv_compatible :: u32
  crv_target :: u32

definition new_Config_ReqVersion :: config_req_version where
  "new_Config_ReqVersion = \<lparr>
    crv_compatible = 0, crv_target = 0\<rparr>"

record config_ark =
  cark_reqVersion :: config_req_version
  cark_flag :: string

definition new_Config_Ark :: config_ark where
  "new_Config_Ark = \<lparr>
    cark_reqVersion = new_Config_ReqVersion, cark_flag = []\<rparr>"

record config_domain =
  cdm_subDomains :: bool
  cdm_name :: string

definition new_Config_Domain :: config_domain where
  "new_Config_Domain = \<lparr>
    cdm_subDomains = False, cdm_name = []\<rparr>"

record config_domain_setting =
  cds_cleartextPermitted :: bool
  cds_domains :: "config_domain list"

definition new_Config_DomainSetting :: config_domain_setting where
  "new_Config_DomainSetting = \<lparr>
    cds_cleartextPermitted = False, cds_domains = []\<rparr>"

record config_security_config =
  csc_domainSetting :: config_domain_setting

definition new_Config_SecurityConfig :: config_security_config where
  "new_Config_SecurityConfig = \<lparr>
    csc_domainSetting = new_Config_DomainSetting\<rparr>"

record config_network =
  cnw_usesCleartext :: bool
  cnw_securityConfig :: config_security_config

definition new_Config_Network :: config_network where
  "new_Config_Network = \<lparr>
    cnw_usesCleartext = False, cnw_securityConfig = new_Config_SecurityConfig\<rparr>"

record config_device =
  cdv_jointUserId :: string
  cdv_process :: string
  cdv_keepAlive :: bool
  cdv_ark :: config_ark
  cdv_directLaunch :: bool
  cdv_supportBackup :: bool
  cdv_compressNativeLibs :: bool
  cdv_network :: config_network
  cdv_debug :: bool

definition new_Config_Device :: config_device where
  "new_Config_Device = \<lparr>
    cdv_jointUserId = [], cdv_process = [], cdv_keepAlive = False, cdv_ark = new_Config_Ark,
    cdv_directLaunch = False, cdv_supportBackup = False, cdv_compressNativeLibs = True,
    cdv_network = new_Config_Network, cdv_debug = False\<rparr>"

record config_device_config =
  cdc_defaultDevice :: config_device
  cdc_phone :: config_device
  cdc_tablet :: config_device
  cdc_tv :: config_device
  cdc_car :: config_device
  cdc_wearable :: config_device
  cdc_liteWearable :: config_device
  cdc_smartVision :: config_device

definition new_Config_DeviceConfig :: config_device_config where
  "new_Config_DeviceConfig = \<lparr>
    cdc_defaultDevice = new_Config_Device, cdc_phone = new_Config_Device, cdc_tablet = new_Config_Device,
    cdc_tv = new_Config_Device, cdc_car = new_Config_Device, cdc_wearable = new_Config_Device,
    cdc_liteWearable = new_Config_Device, cdc_smartVision = new_Config_Device\<rparr>"

record config_form =
  cfm_formEntity :: "string list"
  cfm_minHeight :: int
  cfm_defaultHeight :: int
  cfm_minWidth :: int
  cfm_defaultWidth :: int

definition new_Config_Form :: config_form where
  "new_Config_Form = \<lparr>
    cfm_formEntity = [], cfm_minHeight = 0, cfm_defaultHeight = 0, cfm_minWidth = 0, cfm_defaultWidth = 0\<rparr>"

record config_forms_customize_data =
  cfd_name :: string
  cfd_value :: string

definition new_Config_FormsCustomizeData :: config_forms_customize_data where
  "new_Config_FormsCustomizeData = \<lparr>
    cfd_name = [], cfd_value = []\<rparr>"

record config_forms_meta_data =
  cft_customizeData :: "config_forms_customize_data list"

definition new_Config_FormsMetaData :: config_forms_meta_data where
  "new_Config_FormsMetaData = \<lparr>
    cft_customizeData = []\<rparr>"

record config_window =
  cwn_designWidth :: int
  cwn_autoDesignWidth :: bool

definition new_Config_Window :: config_window where
  "new_Config_Window = \<lparr>
    cwn_designWidth = 720, cwn_autoDesignWidth = False\<rparr>"

record config_forms =
  cfs_name :: string
  cfs_description :: string
  cfs_descriptionId :: int
  cfs_isDefault :: bool
  cfs_type :: string
  cfs_src :: string
  cfs_window :: config_window
  cfs_colorMode :: string
  cfs_supportDimensions :: "string list"
  cfs_defaultDimension :: string
  cfs_landscapeLayouts :: "string list"
  cfs_portraitLayouts :: "string list"
  cfs_updateEnabled :: bool
  cfs_scheduledUpdateTime :: string
  cfs_updateDuration :: int
  cfs_deepLink :: string
  cfs_formConfigAbility :: string
  cfs_formVisibleNotify :: bool
  cfs_jsComponentName :: string
  cfs_metaData :: config_forms_meta_data

definition new_Config_Forms :: config_forms where
  "new_Config_Forms = \<lparr>
    cfs_name = [], cfs_description = [], cfs_descriptionId = 0, cfs_isDefault = False, cfs_type = [],
    cfs_src = [], cfs_window = new_Config_Window, cfs_colorMode = ''auto'', cfs_supportDimensions = [],
    cfs_defaultDimension = [], cfs_landscapeLayouts = [], cfs_portraitLayouts = [],
    cfs_updateEnabled = False, cfs_scheduledUpdateTime = [], cfs_updateDuration = 0, cfs_deepLink = [],
    cfs_formConfigAbility = [], cfs_formVisibleNotify = False, cfs_jsComponentName = [],
    cfs_metaData = new_Config_FormsMetaData\<rparr>"

record config_customize_data =
  ccd_name :: string
  ccd_value :: string
  ccd_extra :: string

definition new_Config_CustomizeData :: config_customize_data where
  "new_Config_CustomizeData = \<lparr>
    ccd_name = [], ccd_value = [], ccd_extra = []\<rparr>"

record config_meta_data =
  cmt_customizeData :: "config_customize_data list"

definition new_Config_MetaData :: config_meta_data where
  "new_Config_MetaData = \<lparr>
    cmt_customizeData = []\<rparr>"

record config_uri_permission =
  cup_mode :: string
  cup_path :: string

definition new_Config_UriPermission :: config_uri_permission where
  "new_Config_UriPermission = \<lparr>
    cup_mode = [], cup_path = []\<rparr>"

record config_ability =
  cab_name :: string
  cab_originalName :: string
  cab_description :: string
  cab_descriptionId :: int
  cab_icon :: string
  cab_iconId :: int
  cab_label :: string
  cab_labelId :: int
  cab_priority :: int
  cab_uri :: string
  cab_process :: string
  cab_launchType :: string
  cab_theme :: string
  cab_visible :: bool
  cab_continuable :: bool
  cab_permissions :: "string list"
  cab_skills :: "skill list"
  cab_deviceCapability :: "string list"
  cab_metaData :: config_meta_data
  cab_type :: string
  cab_srcPath :: string
  cab_srcLanguage :: string
  cab_formEnabled :: bool
  cab_form :: config_form
  cab_orientation :: string
  cab_backgroundModes :: "string list"
  cab_grantPermission :: bool
  cab_uriPermission :: config_uri_permission
  cab_readPermission :: string
  cab_writePermission :: string
  cab_directLaunch :: bool
  cab_configChanges :: "string list"
  cab_mission :: string
  cab_targetAbility :: string
  cab_multiUserShared :: bool
  cab_supportPipMode :: bool
  cab_formsEnabled :: bool
  cab_formses :: "config_forms list"
  cab_startWindowIcon :: string
  cab_startWindowIconId :: int
  cab_startWindowBackground :: string
  cab_startWindowBackgroundId :: int
  cab_removeMissionAfterTerminate :: bool

definition new_Config_Ability :: config_ability where
  "new_Config_Ability = \<lparr>
    cab_name = [], cab_originalName = [], cab_description = [], cab_descriptionId = 0, cab_icon = [],
    cab_iconId = 0, cab_label = [], cab_labelId = 0, cab_priority = 0, cab_uri = [], cab_process = [],
    cab_launchType = ''singleton'', cab_theme = [], cab_visible = False, cab_continuable = False,
    cab_permissions = [], cab_skills = [], cab_deviceCapability = [], cab_metaData = new_Config_MetaData,
    cab_type = [], cab_srcPath = [], cab_srcLanguage = ''js'', cab_formEnabled = False,
    cab_form = new_Config_Form, cab_orientation = ''unspecified'', cab_backgroundModes = [],
    cab_grantPermission = False, cab_uriPermission = new_Config_UriPermission, cab_readPermission = [],
    cab_writePermission = [], cab_directLaunch = False, cab_configChanges = [], cab_mission = [],
    cab_targetAbility = [], cab_multiUserShared = False, cab_supportPipMode = False,
    cab_formsEnabled = False, cab_formses = [], cab_startWindowIcon = [], cab_startWindowIconId = 0,
    cab_startWindowBackground = [], cab_startWindowBackgroundId = 0, cab_removeMissionAfterTerminate = False\<rparr>"

record config_js =
  cjs_name :: string
  cjs_pages :: "string list"
  cjs_window :: config_window
  cjs_type :: string

definition new_Config_Js :: config_js where
  "new_Config_Js = \<lparr>
    cjs_name = ''default'', cjs_pages = [], cjs_window = new_Config_Window, cjs_type = ''normal''\<rparr>"

record config_intent =
  cin_targetClass :: string
  cin_targetBundle :: string

definition new_Config_Intent :: config_intent where
  "new_Config_Intent = \<lparr>
    cin_targetClass = [], cin_targetBundle = []\<rparr>"

record config_common_event =
  cce_name :: string
  cce_permission :: string
  cce_data :: "string list"
  cce_type :: "string list"
  cce_events :: "string list"

definition new_Config_CommonEvent :: config_common_event where
  "new_Config_CommonEvent = \<lparr>
    cce_name = [], cce_permission = [], cce_data = [], cce_type = [], cce_events = []\<rparr>"

record config_shortcut =
  csh_shortcutId :: string
  csh_label :: string
  csh_icon :: string
  csh_iconId :: int
  csh_labelId :: int
  csh_intents :: "config_intent list"

definition new_Config_Shortcut :: config_shortcut where
  "new_Config_Shortcut = \<lparr>
    csh_shortcutId = [], csh_label = [], csh_icon = [], csh_iconId = 0, csh_labelId = 0, csh_intents = []\<rparr>"

record config_module =
  cmo_package :: string
  cmo_name :: string
  cmo_description :: string
  cmo_descriptionId :: int
  cmo_colorMode :: string
  cmo_supportedModes :: "string list"
  cmo_reqCapabilities :: "string list"
  cmo_deviceType :: "string list"
  cmo_dependencies :: "string list"
  cmo_distro :: distro
  cmo_metaData :: config_meta_data
  cmo_abilities :: "config_ability list"
  cmo_jses :: "config_js list"
  cmo_commonEvents :: "config_common_event list"
  cmo_shortcuts :: "config_shortcut list"
  cmo_defPermissions :: "define_permission list"
  cmo_requestPermissions :: "request_permission list"
  cmo_definePermissions :: "define_permission list"
  cmo_mainAbility :: string
  cmo_srcPath :: string

definition new_Config_Module :: config_module where
  "new_Config_Module = \<lparr>
    cmo_package = [], cmo_name = [], cmo_description = [], cmo_descriptionId = 0, cmo_colorMode = ''auto'',
    cmo_supportedModes = [], cmo_reqCapabilities = [], cmo_deviceType = [], cmo_dependencies = [],
    cmo_distro = new_Distro, cmo_metaData = new_Config_MetaData, cmo_abilities = [], cmo_jses = [],
    cmo_commonEvents = [], cmo_shortcuts = [], cmo_defPermissions = [], cmo_requestPermissions = [],
    cmo_definePermissions = [], cmo_mainAbility = [], cmo_srcPath = []\<rparr>"

record config_config_json =
  cj_app :: config_app
  cj_deveicConfig :: config_device_config
  cj_module :: config_module

definition new_Config_ConfigJson :: config_config_json where
  "new_Config_ConfigJson = \<lparr>
    cj_app = new_Config_App, cj_deveicConfig = new_Config_DeviceConfig, cj_module = new_Config_Module\<rparr>"

section \<open>Reading\<close>

definition Config_Version_from_json :: "config_version getter" where
  "Config_Version_from_json = from_json new_Config_Version [
     read_number get_int32 ''code'' cv_code_update True Global,
     read_string ''name'' cv_name_update True Global,
     read_number get_int32 ''minCompatibleVersionCode'' cv_minCompatibleVersionCode_update False Global]"

definition Config_ApiVersion_from_json :: "config_api_version getter" where
  "Config_ApiVersion_from_json = from_json new_Config_ApiVersion [
     read_number get_uint32 ''compatible'' cap_compatible_update True Global,
     read_number get_uint32 ''target'' cap_target_update False Global,
     read_string ''releaseType'' cap_releaseType_update False Global]"

definition Config_App_from_json :: "config_app getter" where
  "Config_App_from_json = from_json new_Config_App [
     read_string ''bundleName'' capp_bundleName_update True Global,
     read_string ''originalName'' capp_originalName_update False Global,
     read_object Config_Version_from_json ''version'' capp_version_update True Global,
     read_object Config_ApiVersion_from_json ''apiVersion'' capp_apiVersion_update True Global,
     read_string ''vendor'' capp_vendor_update False Global,
     read_bool ''singleton'' capp_singleton_update False Global,
     read_number get_int32 ''iconId'' capp_iconId_update False Global,
     read_number get_int32 ''labelId'' capp_labelId_update False Global,
     if_present ''removable'' (capp_removable_update (apfst (\<lambda>_. True))) (read_bool ''removable'' (\<lambda>f. capp_removable_update (apsnd f)) False Global),
     read_bool ''userDataClearable'' capp_userDataClearable_update False Global,
     read_array get_string AT_STRING ''targetBundleList'' capp_targetBundleList_update False Global]"

definition Config_ReqVersion_from_json :: "config_req_version getter" where
  "Config_ReqVersion_from_json = from_json new_Config_ReqVersion [
     read_number get_uint32 ''compatible'' crv_compatible_update True Global,
     read_number get_uint32 ''target'' crv_target_update False Global]"

definition Config_Ark_from_json :: "config_ark getter" where
  "Config_Ark_from_json = from_json new_Config_Ark [
     read_object Config_ReqVersion_from_json ''reqVersion'' cark_reqVersion_update False Global,
     read_string ''flag'' cark_flag_update False Global]"

definition Config_Domain_from_json :: "config_domain getter" where
  "Config_Domain_from_json = from_json new_Config_Domain [
     read_bool ''subDomains'' cdm_subDomains_update True Global,
     read_string ''name'' cdm_name_update True Global]"

definition Config_DomainSetting_from_json :: "config_domain_setting getter" where
  "Config_DomainSetting_from_json = from_json new_Config_DomainSetting [
     read_bool ''cleartextPermitted'' cds_cleartextPermitted_update True Global,
     read_array Config_Domain_from_json AT_OBJECT ''domains'' cds_domains_update True Global]"

definition Config_SecurityConfig_from_json :: "config_security_config getter" where
  "Config_SecurityConfig_from_json = from_json new_Config_SecurityConfig [
     read_object Config_DomainSetting_from_json ''domainSettings'' csc_domainSetting_update False Global]"

definition Config_Network_from_json :: "config_network getter" where
  "Config_Network_from_json = from_json new_Config_Network [
     read_bool ''usesCleartext'' cnw_usesCleartext_update False Global,
     read_object Config_SecurityConfig_from_json ''securityConfig'' cnw_securityConfig_update False Global]"

definition Config_Device_from_json :: "config_device getter" where
  "Config_Device_from_json = from_json new_Config_Device [
     read_string ''jointUserId'' cdv_jointUserId_update False Global,
     read_string ''process'' cdv_process_update False Global,
     read_bool ''keepAlive'' cdv_keepAlive_update False Global,
     read_object Config_Ark_from_json ''ark'' cdv_ark_update False Global,
     read_bool ''directLaunch'' cdv_directLaunch_update False Global,
     read_bool ''supportBackup'' cdv_supportBackup_update False Global,
     read_bool ''debug'' cdv_debug_update False Global,
     read_bool ''compressNativeLibs'' cdv_compressNativeLibs_update False Global,
     read_object Config_Network_from_json ''network'' cdv_network_update False Global]"

definition Config_DeviceConfig_from_json :: "config_device_config getter" where
  "Config_DeviceConfig_from_json = from_json new_Config_DeviceConfig [
     read_object Config_Device_from_json ''default'' cdc_defaultDevice_update False Global,
     read_object Config_Device_from_json ''phone'' cdc_phone_update False Global,
     read_object Config_Device_from_json ''tablet'' cdc_tablet_update False Global,
     read_object Config_Device_from_json ''tv'' cdc_tv_update False Global,
     read_object Config_Device_from_json ''car'' cdc_car_update False Global,
     read_object Config_Device_from_json ''wearable'' cdc_wearable_update False Global,
     read_object Config_Device_from_json ''liteWearable'' cdc_liteWearable_update False Global,
     read_object Config_Device_from_json ''smartVision'' cdc_smartVision_update False Global]"

definition Config_Form_from_json :: "config_form getter" where
  "Config_Form_from_json = from_json new_Config_Form [
     read_array get_string AT_STRING ''formEntity'' cfm_formEntity_update False Global,
     read_number get_int32 ''minHeight'' cfm_minHeight_update False Global,
     read_number get_int32 ''defaultHeight'' cfm_defaultHeight_update False Global,
     read_number get_int32 ''minWidth'' cfm_minWidth_update False Global,
     read_number get_int32 ''defaultWidth'' cfm_defaultWidth_update False Global]"

definition Config_CustomizeData_from_json :: "config_customize_data getter" where
  "Config_CustomizeData_from_json = from_json new_Config_CustomizeData [
     read_string ''name'' ccd_name_update False Global,
     read_string ''extra'' ccd_extra_update False Global,
     read_string ''value'' ccd_value_update False Global]"

definition Config_MetaData_from_json :: "config_meta_data getter" where
  "Config_MetaData_from_json = from_json new_Config_MetaData [
     read_array Config_CustomizeData_from_json AT_OBJECT ''customizeData'' cmt_customizeData_update False Global]"

definition Config_FormsCustomizeData_from_json :: "config_forms_customize_data getter" where
  "Config_FormsCustomizeData_from_json = from_json new_Config_FormsCustomizeData [
     read_string ''name'' cfd_name_update False Global,
     read_string ''value'' cfd_value_update False Global]"

definition Config_FormsMetaData_from_json :: "config_forms_meta_data getter" where
  "Config_FormsMetaData_from_json = from_json new_Config_FormsMetaData [
     read_array Config_FormsCustomizeData_from_json AT_OBJECT ''customizeData'' cft_customizeData_update False Global]"

definition Config_Window_from_json :: "config_window getter" where
  "Config_Window_from_json = from_json new_Config_Window [
     read_number get_int32 ''designWidth'' cwn_designWidth_update False Global,
     read_bool ''autoDesignWidth'' cwn_autoDesignWidth_update False Global]"

definition Config_Forms_members_1 :: "config_forms step list" where
  "Config_Forms_members_1 = [
     read_string ''name'' cfs_name_update True Global,
     read_bool ''isDefault'' cfs_isDefault_update True Global,
     read_string ''type'' cfs_type_update True Global,
     read_string ''src'' cfs_src_update False Global,
     read_object Config_Window_from_json ''window'' cfs_window_update False Global,
     read_array get_string AT_STRING ''supportDimensions'' cfs_supportDimensions_update True Global,
     read_string ''defaultDimension'' cfs_defaultDimension_update True Global,
     read_array get_string AT_STRING ''landscapeLayouts'' cfs_landscapeLayouts_update False Global,
     read_array get_string AT_STRING ''portraitLayouts'' cfs_portraitLayouts_update False Global,
     read_bool ''updateEnabled'' cfs_updateEnabled_update True Global,
     read_string ''jsComponentName'' cfs_jsComponentName_update True Global,
     read_string ''description'' cfs_description_update False Global,
     read_number get_int32 ''descriptionId'' cfs_descriptionId_update False Global,
     read_string ''colorMode'' cfs_colorMode_update False Global,
     read_string ''scheduledUpdateTime'' cfs_scheduledUpdateTime_update False Global,
     read_number get_int32 ''updateDuration'' cfs_updateDuration_update False Global,
     read_string ''deepLink'' cfs_deepLink_update False Global,
     read_string ''formConfigAbility'' cfs_formConfigAbility_update False Global]"

definition Config_Forms_members_2 :: "config_forms step list" where
  "Config_Forms_members_2 = [
     read_bool ''formVisibleNotify'' cfs_formVisibleNotify_update False Global,
     read_object Config_FormsMetaData_from_json ''metaData'' cfs_metaData_update False Global]"

definition Config_Forms_from_json :: "config_forms getter" where
  "Config_Forms_from_json = from_json new_Config_Forms (Config_Forms_members_1 @ Config_Forms_members_2)"

definition Config_UriPermission_from_json :: "config_uri_permission getter" where
  "Config_UriPermission_from_json = from_json new_Config_UriPermission [
     read_string ''mode'' cup_mode_update False Global,
     read_string ''path'' cup_path_update False Global]"

definition Config_Ability_members_1 :: "config_ability step list" where
  "Config_Ability_members_1 = [
     read_string ''name'' cab_name_update True Global,
     read_string ''originalName'' cab_originalName_update False Global,
     read_string ''type'' cab_type_update True Global,
     read_string ''srcPath'' cab_srcPath_update False Global,
     read_string ''srcLanguage'' cab_srcLanguage_update False Global,
     read_string ''description'' cab_description_update False Global,
     read_number get_int32 ''descriptionId'' cab_descriptionId_update False Global,
     read_string ''icon'' cab_icon_update False Global,
     read_number get_int32 ''iconId'' cab_iconId_update False Global,
     read_string ''process'' cab_process_update False Global,
     read_string ''label'' cab_label_update False Global,
     read_number get_int32 ''labelId'' cab_labelId_update False Global,
     read_number get_int32 ''priority'' cab_priority_update False Global,
     read_string ''uri'' cab_uri_update False Global,
     read_string ''launchType'' cab_launchType_update False Global,
     read_string ''theme'' cab_theme_update False Global,
     read_bool ''visible'' cab_visible_update False Global,
     read_bool ''continuable'' cab_continuable_update False Global]"

definition Config_Ability_members_2 :: "config_ability step list" where
  "Config_Ability_members_2 = [
     read_array get_string AT_STRING ''permissions'' cab_permissions_update False Global,
     read_array Skill_from_json AT_OBJECT ''skills'' cab_skills_update False Global,
     read_array get_string AT_STRING ''deviceCapability'' cab_deviceCapability_update False Global,
     read_object Config_MetaData_from_json ''metaData'' cab_metaData_update False Global,
     read_bool ''formEnabled'' cab_formEnabled_update False Global,
     read_object Config_Form_from_json ''form'' cab_form_update False Global,
     read_string ''orientation'' cab_orientation_update False Global,
     read_array get_string AT_STRING ''backgroundModes'' cab_backgroundModes_update False Global,
     read_bool ''grantPermission'' cab_grantPermission_update False Global,
     read_object Config_UriPermission_from_json ''uriPermission'' cab_uriPermission_update False Global,
     read_string ''readPermission'' cab_readPermission_update False Global,
     read_string ''writePermission'' cab_writePermission_update False Global,
     read_bool ''directLaunch'' cab_directLaunch_update False Global,
     read_array get_string AT_STRING ''configChanges'' cab_configChanges_update False Global,
     read_string ''mission'' cab_mission_update False Global,
     read_string ''targetAbility'' cab_targetAbility_update False Global,
     read_bool ''multiUserShared'' cab_multiUserShared_update False Global,
     read_bool ''supportPipMode'' cab_supportPipMode_update False Global]"

definition Config_Ability_members_3 :: "config_ability step list" where
  "Config_Ability_members_3 = [
     read_bool ''formsEnabled'' cab_formsEnabled_update False Global,
     read_array Config_Forms_from_json AT_OBJECT ''forms'' cab_formses_update False Global,
     read_string ''startWindowIcon'' cab_startWindowIcon_update False Global,
     read_number get_int32 ''startWindowIconId'' cab_startWindowIconId_update False Global,
     read_string ''startWindowBackground'' cab_startWindowBackground_update False Global,
     read_number get_int32 ''startWindowBackgroundId'' cab_startWindowBackgroundId_update False Global,
     read_bool ''removeMissionAfterTerminate'' cab_removeMissionAfterTerminate_update False Global]"

definition Config_Ability_from_json :: "config_ability getter" where
  "Config_Ability_from_json = from_json new_Config_Ability (Config_Ability_members_1 @ Config_Ability_members_2 @ Config_Ability_members_3)"

definition Config_Js_from_json :: "config_js getter" where
  "Config_Js_from_json = from_json new_Config_Js [
     read_string ''name'' cjs_name_update True Global,
     read_array get_string AT_STRING ''pages'' cjs_pages_update True Global,
     read_object Config_Window_from_json ''window'' cjs_window_update False Global,
     read_string ''type'' cjs_type_update False Global]"

definition Config_Intent_from_json :: "config_intent getter" where
  "Config_Intent_from_json = from_json new_Config_Intent [
     read_string ''targetClass'' cin_targetClass_update False Global,
     read_string ''targetBundle'' cin_targetBundle_update False Global]"

definition Config_CommonEvent_from_json :: "config_common_event getter" where
  "Config_CommonEvent_from_json = from_json new_Config_CommonEvent [
     read_string ''name'' cce_name_update True Global,
     read_array get_string AT_STRING ''events'' cce_events_update True Global,
     read_string ''permission'' cce_permission_update False Global,
     read_array get_string AT_STRING ''data'' cce_data_update False Global,
     read_array get_string AT_STRING ''type'' cce_type_update False Global]"

definition Config_Shortcut_from_json :: "config_shortcut getter" where
  "Config_Shortcut_from_json = from_json new_Config_Shortcut [
     read_string ''shortcutId'' csh_shortcutId_update True Global,
     read_string ''label'' csh_label_update False Global,
     read_string ''icon'' csh_icon_update False Global,
     read_array Config_Intent_from_json AT_OBJECT ''intents'' csh_intents_update False Global,
     read_number get_int32 ''labelId'' csh_labelId_update False Global,
     read_number get_int32 ''iconId'' csh_iconId_update False Global]"

definition Config_Module_members_1 :: "config_module step list" where
  "Config_Module_members_1 = [
     read_string ''package'' cmo_package_update False Global,
     read_string ''name'' cmo_name_update False Global,
     read_array get_string AT_STRING ''deviceType'' cmo_deviceType_update True Global,
     read_string ''colorMode'' cmo_colorMode_update False Global,
     read_object Distro_from_json ''distro'' cmo_distro_update False Global,
     read_string ''description'' cmo_description_update False Global,
     read_number get_int32 ''descriptionId'' cmo_descriptionId_update False Global,
     read_array get_string AT_STRING ''supportedModes'' cmo_supportedModes_update False Global,
     read_array get_string AT_STRING ''reqCapabilities'' cmo_reqCapabilities_update False Global,
     read_object Config_MetaData_from_json ''metaData'' cmo_metaData_update False Global,
     read_array Config_Ability_from_json AT_OBJECT ''abilities'' cmo_abilities_update False Global,
     read_array Config_Js_from_json AT_OBJECT ''js'' cmo_jses_update False Global,
     read_array Config_CommonEvent_from_json AT_OBJECT ''commonEvents'' cmo_commonEvents_update False Global,
     read_array Config_Shortcut_from_json AT_OBJECT ''shortcuts'' cmo_shortcuts_update False Global,
     read_array DefinePermission_from_json AT_OBJECT ''defPermissions'' cmo_defPermissions_update False Global,
     read_array RequestPermission_from_json AT_OBJECT ''reqPermissions'' cmo_requestPermissions_update False Global,
     read_array DefinePermission_from_json AT_OBJECT ''definePermissions'' cmo_definePermissions_update False Global,
     read_string ''mainAbility'' cmo_mainAbility_update False Global]"

definition Config_Module_members_2 :: "config_module step list" where
  "Config_Module_members_2 = [
     read_string ''srcPath'' cmo_srcPath_update False Global,
     read_array get_string AT_STRING ''dependencies'' cmo_dependencies_update False Global]"

definition Config_Module_from_json :: "config_module getter" where
  "Config_Module_from_json = from_json new_Config_Module (Config_Module_members_1 @ Config_Module_members_2)"

definition Config_ConfigJson_from_json :: "config_config_json getter" where
  "Config_ConfigJson_from_json = from_json new_Config_ConfigJson [
     read_object Config_App_from_json ''app'' cj_app_update True Global,
     read_object Config_DeviceConfig_from_json ''deviceConfig'' cj_deveicConfig_update True Global,
     read_object Config_Module_from_json ''module'' cj_module_update True Global]"

end
