(* ===== verification/Bundle_Profile.thy ===== *)
theory Bundle_Profile
  imports Config_Json Bundle_Query
begin

text \<open>
  \<open>bundle_profile.cpp\<close>, second part: \<open>config.json\<close> becomes the information of a bundle. What the parsers find
  in a package and what they ask the device for are records; the archive library and the system
  parameters answer through them. \<open>SplitStr\<close> belongs to another library.
\<close>

section \<open>The package, the device and the result\<close>

text \<open>
  \<open>pk_profile\<close> is what \<open>ExtractProfile\<close> and the JSON parser give: nothing, a text that is no JSON
  (\<open>Some None\<close>), or a value; \<open>pk_packInfo\<close> is the same for the file \<open>pack.info\<close>, if there is one.
\<close>

record package =
  pk_opens :: bool
  pk_isNewVersion :: bool
  pk_profile :: "json option option"
  pk_isDirExist :: "string \<Rightarrow> bool"
  pk_isStageBasedModel :: "string \<Rightarrow> bool"
  pk_hasPackInfo :: bool
  pk_packInfo :: "json option option"

record device =
  dv_abiList :: string
  dv_deviceType :: string
  dv_SplitStr :: "string \<Rightarrow> string \<Rightarrow> bool \<Rightarrow> bool \<Rightarrow> string list"

datatype parse_code =
    PARSE_OK
  | ERR_APPEXECFWK_PARSE_UNEXPECTED
  | ERR_APPEXECFWK_PARSE_NO_PROFILE
  | ERR_APPEXECFWK_PARSE_BAD_PROFILE
  | ERR_APPEXECFWK_PARSE_PROFILE_PROP_TYPE_ERROR
  | ERR_APPEXECFWK_PARSE_PROFILE_MISSING_PROP
  | ERR_APPEXECFWK_PARSE_PROFILE_PROP_CHECK_ERROR
  | ERR_APPEXECFWK_PARSE_RPCID_FAILED
  | ERR_APPEXECFWK_PARSE_FILE_FAILED

fun code_of_result :: "parse_result \<Rightarrow> parse_code" where
  "code_of_result pr_OK = PARSE_OK"
| "code_of_result PROP_TYPE_ERROR = ERR_APPEXECFWK_PARSE_PROFILE_PROP_TYPE_ERROR"
| "code_of_result MISSING_PROP = ERR_APPEXECFWK_PARSE_PROFILE_MISSING_PROP"

section \<open>Insertions into the information\<close>

definition InsertInnerModuleInfo :: "string \<Rightarrow> inner_module_info \<Rightarrow> inner_bundle_info \<Rightarrow> inner_bundle_info" where
  "InsertInnerModuleInfo key m i = i\<lparr>ib_innerModuleInfos := sm_emplace key m (ib_innerModuleInfos i)\<rparr>"

definition InsertAbilitiesInfo :: "string \<Rightarrow> ability_info \<Rightarrow> inner_bundle_info \<Rightarrow> inner_bundle_info" where
  "InsertAbilitiesInfo key a i = i\<lparr>ib_baseAbilityInfos := sm_emplace key a (ib_baseAbilityInfos i)\<rparr>"

definition InsertExtensionInfo :: "string \<Rightarrow> extension_ability_info \<Rightarrow> inner_bundle_info \<Rightarrow> inner_bundle_info" where
  "InsertExtensionInfo key x i = i\<lparr>ib_baseExtensionInfos := sm_emplace key x (ib_baseExtensionInfos i)\<rparr>"

definition InsertSkillInfo :: "string \<Rightarrow> skill list \<Rightarrow> inner_bundle_info \<Rightarrow> inner_bundle_info" where
  "InsertSkillInfo key sks i = i\<lparr>ib_skillInfos := sm_emplace key sks (ib_skillInfos i)\<rparr>"

definition InsertExtensionSkillInfo :: "string \<Rightarrow> skill list \<Rightarrow> inner_bundle_info \<Rightarrow> inner_bundle_info" where
  "InsertExtensionSkillInfo key sks i = i\<lparr>ib_extensionSkillInfos := sm_emplace key sks (ib_extensionSkillInfos i)\<rparr>"

definition InsertFormInfos :: "string \<Rightarrow> form_info list \<Rightarrow> inner_bundle_info \<Rightarrow> inner_bundle_info" where
  "InsertFormInfos key fs i = i\<lparr>ib_formInfos := sm_emplace key fs (ib_formInfos i)\<rparr>"

definition InsertCommonEvents :: "string \<Rightarrow> common_event_info \<Rightarrow> inner_bundle_info \<Rightarrow> inner_bundle_info" where
  "InsertCommonEvents key e i = i\<lparr>ib_commonEvents := sm_emplace key e (ib_commonEvents i)\<rparr>"

definition InsertShortcutInfos :: "string \<Rightarrow> shortcut_info \<Rightarrow> inner_bundle_info \<Rightarrow> inner_bundle_info" where
  "InsertShortcutInfos key x i = i\<lparr>ib_shortcutInfos := sm_emplace key x (ib_shortcutInfos i)\<rparr>"

definition IsPreInstallApp :: "inner_bundle_info \<Rightarrow> bool" where
  "IsPreInstallApp i = bi_isPreInstallApp (ib_baseBundleInfo i)"

section \<open>Checks\<close>

definition MIN_BUNDLE_NAME :: nat where "MIN_BUNDLE_NAME = 7"
definition MAX_BUNDLE_NAME :: nat where "MAX_BUNDLE_NAME = 255"

definition CheckBundleNameIsValid :: "string \<Rightarrow> bool" where
  "CheckBundleNameIsValid bundleName =
     (if bundleName = [] then False
      else if length bundleName < MIN_BUNDLE_NAME \<or> length bundleName > MAX_BUNDLE_NAME then False
      else (let h = hd bundleName in
            if h < CHR ''A'' \<or> (CHR ''Z'' < h \<and> h < CHR ''a'') \<or> h > CHR ''z'' then False
            else list_all (\<lambda>c. \<not> (c < CHR ''.'' \<or> c = CHR ''/'' \<or> (CHR ''9'' < c \<and> c < CHR ''A'') \<or>
                                 (CHR ''Z'' < c \<and> c < CHR ''_'') \<or> c = CHR 0x60 \<or> c > CHR ''z'')) bundleName))"

text \<open>The check may fill in the name of the package; \<open>None\<close> when it fails.\<close>

definition CheckModuleInfosIsValid :: "config_config_json \<Rightarrow> config_config_json option" where
  "CheckModuleInfosIsValid c =
     (let m = cj_module c in
      if cmo_deviceType m = [] then None
      else if list_ex (\<lambda>a. cab_name a = [] \<or> cab_type a = []) (cmo_abilities m) then None
      else if cv_code (capp_version (cj_app c)) \<le> 0 then None
      else if list_ex (\<lambda>d. d = ''liteWearable'' \<or> d = ''smartVision'') (cmo_deviceType m)
      then Some (if cmo_package m = [] then c\<lparr>cj_module := m\<lparr>cmo_package := capp_bundleName (cj_app c)\<rparr>\<rparr> else c)
      else if cmo_package m = [] then None
      else if di_moduleName (cmo_distro m) = [] then None
      else Some c)"

section \<open>Parts of an ability\<close>

definition flags_of :: "(string \<times> u32) list \<Rightarrow> string list \<Rightarrow> u32" where
  "flags_of tbl items =
     foldl (\<lambda>w item. case map_of tbl item of None \<Rightarrow> w | Some v \<Rightarrow> w OR v) 0 items"

definition formEntityMap :: "(string \<times> u32) list" where
  "formEntityMap = [(''homeScreen'', 1), (''searchbox'', 2)]"

definition GetFormEntity :: "string list \<Rightarrow> u32" where
  "GetFormEntity formEntity = flags_of formEntityMap formEntity"

definition backgroundModeMap :: "(string \<times> u32) list" where
  "backgroundModeMap =
     [(''dataTransfer'', 0x1), (''audioPlayback'', 0x2), (''audioRecording'', 0x4), (''location'', 0x8),
      (''bluetoothInteraction'', 0x10), (''multiDeviceConnection'', 0x20), (''wifiInteraction'', 0x40),
      (''voip'', 0x80), (''taskKeeping'', 0x100), (''pictureInPicture'', 0x200), (''screenFetch'', 0x400)]"

definition GetBackgroundModes :: "string list \<Rightarrow> u32" where
  "GetBackgroundModes backgroundModes = flags_of backgroundModeMap backgroundModes"

definition GetMetaData :: "meta_data \<Rightarrow> config_meta_data \<Rightarrow> meta_data" where
  "GetMetaData metaData profileMetaData =
     metaData\<lparr>mt_customizeData := mt_customizeData metaData @
       map (\<lambda>x. \<lparr>cd_name = ccd_name x, cd_value = ccd_value x, cd_extra = ccd_extra x\<rparr>) (cmt_customizeData profileMetaData)\<rparr>"

definition ABILITY_TYPE_MAP :: "(string \<times> ability_type) list" where
  "ABILITY_TYPE_MAP =
     [(''page'', AbilityType_PAGE), (''service'', AbilityType_SERVICE), (''data'', AbilityType_DATA), (''form'', AbilityType_FORM)]"

definition DISPLAY_ORIENTATION_MAP :: "(string \<times> display_orientation) list" where
  "DISPLAY_ORIENTATION_MAP =
     [(''unspecified'', DisplayOrientation_UNSPECIFIED), (''landscape'', DisplayOrientation_LANDSCAPE),
      (''portrait'', DisplayOrientation_PORTRAIT), (''followrecent'', DisplayOrientation_FOLLOWRECENT)]"

definition LAUNCH_MODE_MAP :: "(string \<times> launch_mode) list" where
  "LAUNCH_MODE_MAP =
     [(''singleton'', LaunchMode_SINGLETON), (''singletop'', LaunchMode_SINGLETOP), (''standard'', LaunchMode_STANDARD),
      (''specified'', LaunchMode_SPECIFIED)]"

definition dimensionMap :: "(string \<times> int) list" where
  "dimensionMap = [(''1*2'', 1), (''2*2'', 2), (''2*4'', 3), (''4*4'', 4)]"

definition formTypeMap :: "(string \<times> form_type) list" where
  "formTypeMap = [(''JS'', FormType_JS), (''Java'', FormType_JAVA)]"

definition moduleColorMode :: "(string \<times> module_color_mode) list" where
  "moduleColorMode = [(''auto'', ModuleColorMode_AUTO), (''dark'', ModuleColorMode_DARK), (''light'', ModuleColorMode_LIGHT)]"

definition formColorModeMap :: "(string \<times> forms_color_mode) list" where
  "formColorModeMap =
     [(''auto'', FormsColorMode_AUTO_MODE), (''dark'', FormsColorMode_DARK_MODE), (''light'', FormsColorMode_LIGHT_MODE)]"

text \<open>The entry of a table, or the value that the member has already.\<close>

definition table_value :: "(string \<times> 'v) list \<Rightarrow> string \<Rightarrow> 'v \<Rightarrow> 'v" where
  "table_value tbl key old = (case map_of tbl key of None \<Rightarrow> old | Some v \<Rightarrow> v)"

definition ConvertFormInfo :: "form_info \<Rightarrow> config_forms \<Rightarrow> form_info" where
  "ConvertFormInfo formInfo form = formInfo\<lparr>
     fi_name := cfs_name form,
     fi_description := cfs_description form,
     fi_descriptionId := cfs_descriptionId form,
     fi_formConfigAbility := cfs_formConfigAbility form,
     fi_formVisibleNotify := cfs_formVisibleNotify form,
     fi_deepLink := cfs_deepLink form,
     fi_defaultFlag := cfs_isDefault form,
     fi_type := table_value formTypeMap (cfs_type form) (fi_type formInfo),
     fi_colorMode := table_value formColorModeMap (cfs_colorMode form) (fi_colorMode formInfo),
     fi_updateEnabled := cfs_updateEnabled form,
     fi_scheduledUpdateTime := cfs_scheduledUpdateTime form,
     fi_updateDuration := cfs_updateDuration form,
     fi_jsComponentName := cfs_jsComponentName form,
     fi_customizeDatas := fi_customizeDatas formInfo @
       map (\<lambda>x. \<lparr>fc_name = cfd_name x, fc_value = cfd_value x\<rparr>) (cft_customizeData (cfs_metaData form)),
     fi_supportDimensions := fi_supportDimensions formInfo @ List.map_filter (map_of dimensionMap) (cfs_supportDimensions form),
     fi_defaultDimension := table_value dimensionMap (cfs_defaultDimension form) (fi_defaultDimension formInfo),
     fi_landscapeLayouts := cfs_landscapeLayouts form,
     fi_portraitLayouts := cfs_portraitLayouts form,
     fi_src := cfs_src form,
     fi_window := (fi_window formInfo)\<lparr>
       fw_autoDesignWidth := cwn_autoDesignWidth (cfs_window form),
       fw_designWidth := cwn_designWidth (cfs_window form)\<rparr>\<rparr>"

section \<open>Native libraries\<close>

definition ABI_MAP :: "(string \<times> string) list" where
  "ABI_MAP =
     [(''arm64-v8a'', ''arm64''), (''armeabi'', ''arm''), (''armeabi-v7a'', ''arm''), (''x86'', ''x86''), (''x86_64'', ''x86_64'')]"

text \<open>\<open>nativeLibraryPath\<close> and \<open>cpuAbi\<close>; both profiles compute them in the same way.\<close>

definition native_library :: "device \<Rightarrow> package \<Rightarrow> string \<times> string" where
  "native_library d p =
     (let abis = dv_abiList d; isDefault = (abis = ''default'') in
      if \<not> pk_isDirExist p ''libs/'' then
        ([], if isDefault then ''armeabi-v7a''
             else (case find (\<lambda>item. str_starts (fst item) abis) ABI_MAP of
                     None \<Rightarrow> ''armeabi-v7a'' | Some item \<Rightarrow> fst item))
      else
        (let (targetAbi, targetLibName) =
           (case (if isDefault then None
                  else find (\<lambda>abi. map_of ABI_MAP abi \<noteq> None \<and> pk_isDirExist p (''libs/'' @ abi @ ''/''))
                         (dv_SplitStr d abis '','' False False)) of
              Some abi \<Rightarrow> (abi, the (map_of ABI_MAP abi))
            | None \<Rightarrow> (if pk_isDirExist p ''libs/armeabi-v7a/'' then ''armeabi-v7a'' else ''armeabi'', ''arm''))
         in (''libs/'' @ targetLibName, targetAbi)))"

section \<open>The application and the bundle\<close>

definition CURRENT_DEVICE_ID :: string where "CURRENT_DEVICE_ID = ''PHONE-001''"

definition Config_ToApplicationInfo ::
  "device \<Rightarrow> package \<Rightarrow> config_config_json \<Rightarrow> bool \<Rightarrow> application_info \<Rightarrow> application_info" where
  "Config_ToApplicationInfo d p c isPreInstallApp applicationInfo =
     (let app = cj_app c;
          version = capp_version app;
          api = capp_apiVersion app;
          dev = cdc_defaultDevice (cj_deveicConfig c);
          versionCode = word_of_int (cv_code version) :: u32;
          a1 = applicationInfo\<lparr>
            app_name := capp_bundleName app,
            app_bundleName := capp_bundleName app,
            app_versionCode := versionCode,
            app_versionName := cv_name version,
            app_minCompatibleVersionCode :=
              (if cv_minCompatibleVersionCode version \<noteq> -1 then cv_minCompatibleVersionCode version else sint versionCode),
            app_apiCompatibleVersion := cap_compatible api,
            app_apiTargetVersion := sint (cap_target api),
            app_apiReleaseType := cap_releaseType api\<rparr>;
          a2 = (if app_isSystemApp a1 \<and> isPreInstallApp
                then a1\<lparr>
                  app_keepAlive := cdv_keepAlive dev,
                  app_singleton := capp_singleton app,
                  app_userDataClearable := capp_userDataClearable app,
                  app_removable := (if fst (capp_removable app) then snd (capp_removable app) else False)\<rparr>
                else a1)
      in a2\<lparr>
           app_debug := cdv_debug dev,
           app_deviceId := CURRENT_DEVICE_ID,
           app_distributedNotificationEnabled := True,
           app_entityType := ''unspecified'',
           app_process := cdv_process dev,
           app_supportedModes := (if ''drive'' \<in> set (cmo_supportedModes (cj_module c)) then 1 else 0),
           app_vendor := capp_vendor app,
           app_nativeLibraryPath := fst (native_library d p),
           app_cpuAbi := snd (native_library d p),
           app_iconId := capp_iconId app,
           app_labelId := capp_labelId app,
           app_enabled := True,
           app_targetBundleList := app_targetBundleList a2 @ capp_targetBundleList app\<rparr>)"

definition Config_ToBundleInfo ::
  "config_config_json \<Rightarrow> application_info \<Rightarrow> inner_module_info \<Rightarrow> bool \<Rightarrow> bundle_info \<Rightarrow> bundle_info" where
  "Config_ToBundleInfo c a m isPreInstallApp bundleInfo =
     (let b1 = bundleInfo\<lparr>
            bi_name := app_bundleName a,
            bi_versionCode := app_versionCode a,
            bi_versionName := app_versionName a,
            bi_minCompatibleVersionCode := word_of_int (app_minCompatibleVersionCode a),
            bi_compatibleVersion := app_apiCompatibleVersion a,
            bi_targetVersion := word_of_int (app_apiTargetVersion a),
            bi_isKeepAlive := app_keepAlive a,
            bi_singleton := app_singleton a,
            bi_isPreInstallApp := isPreInstallApp,
            bi_vendor := app_vendor a,
            bi_releaseType := app_apiReleaseType a\<rparr>;
          b2 = (if cmo_jses (cj_module c) = [] then b1\<lparr>bi_isNativeApp := True\<rparr> else b1)
      in if im_isEntry m then b2\<lparr>bi_mainEntry := im_modulePackage m, bi_entryModuleName := im_moduleName m\<rparr> else b2)"

section \<open>The module and its abilities\<close>

definition Config_ToInnerModuleInfo :: "config_config_json \<Rightarrow> inner_module_info \<Rightarrow> inner_module_info" where
  "Config_ToInnerModuleInfo c innerModuleInfo =
     (let m = cj_module c in innerModuleInfo\<lparr>
        im_modulePackage := cmo_package m,
        im_moduleName := di_moduleName (cmo_distro m),
        im_installationFree := di_installationFree (cmo_distro m),
        im_description := cmo_description m,
        im_descriptionId := cmo_descriptionId m,
        im_colorMode := table_value moduleColorMode (cmo_colorMode m) (im_colorMode innerModuleInfo),
        im_metaData := GetMetaData (im_metaData innerModuleInfo) (cmo_metaData m),
        im_distro := cmo_distro m,
        im_reqCapabilities := cmo_reqCapabilities m,
        im_requestPermissions := cmo_requestPermissions m,
        im_definePermissions := cmo_definePermissions m,
        im_defPermissions := cmo_defPermissions m,
        im_mainAbility := (if take 1 (cmo_mainAbility m) = ''.'' then cmo_package m @ cmo_mainAbility m else cmo_mainAbility m),
        im_srcPath := cmo_srcPath m,
        im_isEntry := (if di_moduleType (cmo_distro m) = ''entry'' then True else im_isEntry innerModuleInfo),
        im_dependencies := cmo_dependencies m,
        im_isModuleJson := False\<rparr>)"

definition tolower :: "char \<Rightarrow> char" where
  "tolower c = (if CHR ''A'' \<le> c \<and> c \<le> CHR ''Z'' then char_of (of_char c + 32 :: nat) else c)"

text \<open>A name that starts with a dot is completed with the name of the package.\<close>

definition full_ability_name :: "config_config_json \<Rightarrow> config_ability \<Rightarrow> string" where
  "full_ability_name c ability =
     (if cab_srcLanguage ability \<noteq> ''c++'' \<and> take 1 (cab_name ability) = ''.''
      then cmo_package (cj_module c) @ cab_name ability else cab_name ability)"

text \<open>The members that \<open>ToAbilityInfo\<close> sets, once the type is known.\<close>

definition config_ability_members ::
  "config_config_json \<Rightarrow> config_ability \<Rightarrow> ability_info \<Rightarrow> bool \<Rightarrow> bool \<Rightarrow> ability_type \<Rightarrow> ability_info" where
  "config_ability_members c ability abilityInfo isSystemApp isPreInstallApp type =
     (let m = cj_module c; srcLanguage = map tolower (cab_srcLanguage ability); form = cab_form ability
      in abilityInfo\<lparr>
       ai_name := full_ability_name c ability,
       ai_label := cab_label ability,
       ai_description := cab_description ability,
       ai_iconPath := cab_icon ability,
       ai_labelId := cab_labelId ability,
       ai_descriptionId := cab_descriptionId ability,
       ai_iconId := cab_iconId ability,
       ai_visible := cab_visible ability,
       ai_continuable := cab_continuable ability,
       ai_kind := cab_type ability,
       ai_srcPath := cab_srcPath ability,
       ai_srcLanguage := srcLanguage,
       ai_priority := (if isSystemApp \<and> isPreInstallApp then cab_priority ability else ai_priority abilityInfo),
       ai_isNativeAbility := (if srcLanguage \<noteq> ''js'' \<and> srcLanguage \<noteq> ''ets'' then True else ai_isNativeAbility abilityInfo),
       ai_type := type,
       ai_orientation := table_value DISPLAY_ORIENTATION_MAP (cab_orientation ability) (ai_orientation abilityInfo),
       ai_launchMode := table_value LAUNCH_MODE_MAP (cab_launchType ability) (ai_launchMode abilityInfo),
       ai_permissions := ai_permissions abilityInfo @ cab_permissions ability,
       ai_process := (if cab_process ability = [] then cdv_process (cdc_defaultDevice (cj_deveicConfig c)) else cab_process ability),
       ai_theme := cab_theme ability,
       ai_deviceTypes := cmo_deviceType m,
       ai_deviceCapabilities := cab_deviceCapability ability,
       ai_uri := cab_uri ability,
       ai_package := cmo_package m,
       ai_bundleName := capp_bundleName (cj_app c),
       ai_moduleName := di_moduleName (cmo_distro m),
       ai_applicationName := capp_bundleName (cj_app c),
       ai_targetAbility := cab_targetAbility ability,
       ai_enabled := True,
       ai_supportPipMode := cab_supportPipMode ability,
       ai_readPermission := cab_readPermission ability,
       ai_writePermission := cab_writePermission ability,
       ai_configChanges := cab_configChanges ability,
       ai_formEntity := GetFormEntity (cfm_formEntity form),
       ai_minFormHeight := cfm_minHeight form,
       ai_defaultFormHeight := cfm_defaultHeight form,
       ai_minFormWidth := cfm_minWidth form,
       ai_defaultFormWidth := cfm_defaultWidth form,
       ai_metaData := GetMetaData (ai_metaData abilityInfo) (cab_metaData ability),
       ai_formEnabled := cab_formsEnabled ability,
       ai_backgroundModes := GetBackgroundModes (cab_backgroundModes ability),
       ai_isModuleJson := False,
       ai_startWindowIcon := cab_startWindowIcon ability,
       ai_startWindowIconId := cab_startWindowIconId ability,
       ai_startWindowBackground := cab_startWindowBackground ability,
       ai_startWindowBackgroundId := cab_startWindowBackgroundId ability,
       ai_removeMissionAfterTerminate := cab_removeMissionAfterTerminate ability\<rparr>)"

definition Config_ToAbilityInfo ::
  "config_config_json \<Rightarrow> config_ability \<Rightarrow> ability_info \<Rightarrow> bool \<Rightarrow> bool \<Rightarrow> ability_info option" where
  "Config_ToAbilityInfo c ability abilityInfo isSystemApp isPreInstallApp =
     (case map_of ABILITY_TYPE_MAP (cab_type ability) of
        None \<Rightarrow> None
      | Some type \<Rightarrow>
          if type = AbilityType_DATA \<and> \<not> str_contains DATA_ABILITY_URI_PREFIX (cab_uri ability) then None
          else Some (config_ability_members c ability abilityInfo isSystemApp isPreInstallApp type))"

section \<open>The information of the bundle\<close>

text \<open>The variables of \<open>ToInnerBundleInfo\<close> that its loop over the abilities changes.\<close>

record profile_state =
  ps_info :: inner_bundle_info
  ps_app :: application_info
  ps_module :: inner_module_info
  ps_find :: bool

definition profile_key :: "string \<Rightarrow> string \<Rightarrow> string \<Rightarrow> string" where
  "profile_key bundleName package name = bundleName @ ''.'' @ package @ ''.'' @ name"

definition config_key :: "config_config_json \<Rightarrow> string \<Rightarrow> string" where
  "config_key c = profile_key (capp_bundleName (cj_app c)) (cmo_package (cj_module c))"

definition config_shortcut_info :: "config_config_json \<Rightarrow> config_shortcut \<Rightarrow> shortcut_info" where
  "config_shortcut_info c x = new_ShortcutInfo\<lparr>
     si_id := csh_shortcutId x,
     si_bundleName := capp_bundleName (cj_app c),
     si_icon := csh_icon x,
     si_label := csh_label x,
     si_iconId := csh_iconId x,
     si_labelId := csh_labelId x,
     si_intents := map (\<lambda>n. \<lparr>sn_targetBundle = cin_targetBundle n, sn_targetClass = cin_targetClass n\<rparr>) (csh_intents x)\<rparr>"

definition config_common_event_info :: "config_config_json \<Rightarrow> config_common_event \<Rightarrow> common_event_info" where
  "config_common_event_info c x = new_CommonEventInfo\<lparr>
     ce_name := cce_name x,
     ce_bundleName := capp_bundleName (cj_app c),
     ce_permission := cce_permission x,
     ce_data := cce_data x,
     ce_type := cce_type x,
     ce_events := cce_events x\<rparr>"

definition config_form_info :: "config_config_json \<Rightarrow> config_ability \<Rightarrow> config_forms \<Rightarrow> form_info" where
  "config_form_info c ability form = (ConvertFormInfo new_FormInfo form)\<lparr>
     fi_abilityName := full_ability_name c ability,
     fi_bundleName := capp_bundleName (cj_app c),
     fi_moduleName := di_moduleName (cmo_distro (cj_module c)),
     fi_package := cmo_package (cj_module c),
     fi_originalBundleName := capp_originalName (cj_app c)\<rparr>"

definition FLAG_HOME_INTENT_FROM_SYSTEM :: string where
  "FLAG_HOME_INTENT_FROM_SYSTEM = ''flag.home.intent.from.system''"

text \<open>One skill of an ability: is it the entry of the module, is it a launcher?\<close>

definition config_skill ::
  "string \<Rightarrow> bool \<Rightarrow> config_ability \<Rightarrow> skill \<Rightarrow> profile_state \<times> ability_info \<Rightarrow> profile_state \<times> ability_info" where
  "config_skill key isPreInstallApp ability skill sa =
     (let (s, a) = sa;
          s1 = (if INTENT_ACTION_HOME \<in> set (sk_actions skill) \<and> INTENT_ENTITY_HOME \<in> set (sk_entities skill) \<and> \<not> ps_find s
                then s\<lparr>
                  ps_module :=
                    (let m = (ps_module s)\<lparr>im_entryAbilityKey := key\<rparr>
                     in if im_label m = [] then m\<lparr>im_label := cab_label ability, im_labelId := cab_labelId ability\<rparr> else m),
                  ps_app := (ps_app s)\<lparr>
                    app_label := cab_label ability,
                    app_labelId := cab_labelId ability,
                    app_iconPath := cab_icon ability,
                    app_iconId := cab_iconId ability,
                    app_description := cab_description ability,
                    app_descriptionId := cab_descriptionId ability\<rparr>,
                  ps_find := True\<rparr>
                else s)
      in if FLAG_HOME_INTENT_FROM_SYSTEM \<in> set (sk_entities skill) \<and> isPreInstallApp
         then (s1\<lparr>ps_app := (ps_app s1)\<lparr>app_isLauncherApp := True\<rparr>\<rparr>, a\<lparr>ai_isLauncherAbility := True\<rparr>)
         else (s1, a))"

definition config_ability_step ::
  "config_config_json \<Rightarrow> bool \<Rightarrow> config_ability \<Rightarrow> profile_state \<Rightarrow> bool \<times> profile_state" where
  "config_ability_step c isPreInstallApp ability s =
     (case Config_ToAbilityInfo c ability new_AbilityInfo (app_isSystemApp (ps_app s)) isPreInstallApp of
        None \<Rightarrow> (False, s)
      | Some a \<Rightarrow>
          (let key = config_key c (ai_name a);
               s1 = s\<lparr>
                 ps_module := (ps_module s)\<lparr>
                   im_abilityKeys := im_abilityKeys (ps_module s) @ [key],
                   im_skillKeys := im_skillKeys (ps_module s) @ [key]\<rparr>,
                 ps_info := InsertFormInfos key (map (config_form_info c ability) (cab_formses ability))
                              (InsertSkillInfo key (cab_skills ability) (ps_info s))\<rparr>;
               (s2, a2) = (if ps_find s1 then (s1, a)
                           else fold (config_skill key isPreInstallApp ability) (cab_skills ability) (s1, a))
           in (True, s2\<lparr>ps_info := InsertAbilitiesInfo key a2 (ps_info s2)\<rparr>)))"

fun config_abilities ::
  "config_config_json \<Rightarrow> bool \<Rightarrow> config_ability list \<Rightarrow> profile_state \<Rightarrow> bool \<times> profile_state" where
  "config_abilities c isPreInstallApp [] s = (True, s)"
| "config_abilities c isPreInstallApp (ability # abilities) s =
     (case config_ability_step c isPreInstallApp ability s of
        (False, s1) \<Rightarrow> (False, s1)
      | (True, s1) \<Rightarrow> config_abilities c isPreInstallApp abilities s1)"

text \<open>Whether it succeeds, and the information, which keeps what was inserted before a failure.\<close>

definition Config_ToInnerBundleInfo ::
  "device \<Rightarrow> package \<Rightarrow> config_config_json \<Rightarrow> inner_bundle_info \<Rightarrow> bool \<times> inner_bundle_info" where
  "Config_ToInnerBundleInfo d p configJson i =
     (if \<not> CheckBundleNameIsValid (capp_bundleName (cj_app configJson)) then (False, i)
      else (case CheckModuleInfosIsValid configJson of
              None \<Rightarrow> (False, i)
            | Some c \<Rightarrow>
                (let isPreInstallApp = IsPreInstallApp i;
                     isSystemApp = (ib_appType i = AppType_SYSTEM_APP);
                     app = Config_ToApplicationInfo d p c isPreInstallApp (new_ApplicationInfo\<lparr>app_isSystemApp := isSystemApp\<rparr>);
                     m = Config_ToInnerModuleInfo c new_InnerModuleInfo;
                     bundleInfo = Config_ToBundleInfo c app m isPreInstallApp new_BundleInfo;
                     i1 = fold (\<lambda>x. InsertShortcutInfos (config_key c (csh_shortcutId x)) (config_shortcut_info c x))
                            (cmo_shortcuts (cj_module c)) i;
                     i2 = (if isSystemApp
                           then fold (\<lambda>x. InsertCommonEvents (config_key c (cce_name x)) (config_common_event_info c x))
                                  (cmo_commonEvents (cj_module c)) i1
                           else i1);
                     (ok, s) = config_abilities c isPreInstallApp (cmo_abilities (cj_module c))
                                 \<lparr>ps_info = i2, ps_app = app, ps_module = m, ps_find = False\<rparr>
                 in if \<not> ok then (False, ps_info s)
                    else (True, InsertInnerModuleInfo (cmo_package (cj_module c)) (ps_module s)
                            ((ps_info s)\<lparr>
                               ib_currentPackage := cmo_package (cj_module c),
                               ib_baseApplicationInfo := ps_app s,
                               ib_baseBundleInfo := bundleInfo\<rparr>)))))"

text \<open>
  \<open>BundleProfile::TransformTo\<close>. The JSON value is \<open>None\<close> when the text is none; the last argument and the
  last result are \<open>ProfileReader::parseResult\<close>. The result is \<open>None\<close> when the JSON library throws.
\<close>

definition Config_TransformTo ::
  "device \<Rightarrow> package \<Rightarrow> json option \<Rightarrow> inner_bundle_info \<Rightarrow> parse_result \<Rightarrow> (parse_code \<times> inner_bundle_info \<times> parse_result) option" where
  "Config_TransformTo d p source i g =
     (case source of
        None \<Rightarrow> Some (ERR_APPEXECFWK_PARSE_BAD_PROFILE, i, g)
      | Some j \<Rightarrow>
          (case Config_ConfigJson_from_json j g of
             None \<Rightarrow> None
           | Some (configJson, g1) \<Rightarrow>
               if g1 \<noteq> pr_OK then Some (code_of_result g1, i, pr_OK)
               else (let (ok, i1) = Config_ToInnerBundleInfo d p configJson i
                     in Some (if ok then PARSE_OK else ERR_APPEXECFWK_PARSE_PROFILE_PROP_CHECK_ERROR, i1, g1))))"

text \<open>The other \<open>TransformTo\<close>, for \<open>pack.info\<close>. It does not look at the result of reading.\<close>

definition PackInfo_TransformTo ::
  "json option \<Rightarrow> bundle_pack_info \<Rightarrow> parse_result \<Rightarrow> (parse_code \<times> bundle_pack_info \<times> parse_result) option" where
  "PackInfo_TransformTo source pack g =
     (case source of
        None \<Rightarrow> Some (ERR_APPEXECFWK_PARSE_BAD_PROFILE, pack, g)
      | Some j \<Rightarrow> map_option (\<lambda>(pack1, g1). (PARSE_OK, pack1, g1)) (BundlePackInfo_from_json j g))"

end
