(* ===== verification/Installer_Service.thy ===== *)
theory Installer_Service
  imports Bundle_Installer Host_Impl Bundle_Profile
begin

text \<open>
  What stands before \<open>BaseBundleInstaller\<close>: \<open>BundleInstallerHost\<close> receives the requests and checks the
  caller, \<open>BundleInstallerManager\<close> makes an installer and a task for each, \<open>BundleInstaller\<close> carries a task out,
  for one user or for all, and reports its result; \<open>SystemBundleInstaller\<close> serves the start of the device. A
  task is one step here; the pool's threads take tasks in any order. Left out are the timers of the tasks,
  the notifications of the base class, the bound of the pool on waiting tasks and the file descriptors of a stream.
\<close>

section \<open>Parameters and numbers\<close>

text \<open>The members of \<open>InstallParam\<close> that the installers of the base class do not look at come on top.\<close>

record remote_param = install_param +
  ip_installLocation :: int
  ip_streamInstallMode :: bool

definition new_RemoteParam :: remote_param where
  "new_RemoteParam = install_param.extend new_InstallParam (remote_param.fields 1 False)"

text \<open>The installers only tell \<open>FREE_INSTALL\<close> from the other values.\<close>

definition install_flag_of :: "int \<Rightarrow> install_flag" where
  "install_flag_of n =
     (if n = 16 then InstallFlag_FREE_INSTALL else if n = 1 then InstallFlag_REPLACE_EXISTING else InstallFlag_NORMAL)"

definition install_flag_number :: "install_flag \<Rightarrow> int" where
  "install_flag_number f =
     (case f of InstallFlag_NORMAL \<Rightarrow> 0 | InstallFlag_REPLACE_EXISTING \<Rightarrow> 1 | InstallFlag_FREE_INSTALL \<Rightarrow> 16)"

definition InstallParam_ReadFromParcel :: "remote_param unmarshalling" where
  "InstallParam_ReadFromParcel =
     TryReadInt32 (\<lambda>flagData. case flagData of None \<Rightarrow> (\<lambda>p. Some (None, p)) | Some flag \<Rightarrow>
     TryReadInt32 (\<lambda>locationData. case locationData of None \<Rightarrow> (\<lambda>p. Some (None, p)) | Some location \<Rightarrow>
     ReadInt32 (\<lambda>userId. ReadBool (\<lambda>isKeepData.
     TryReadInt32 (\<lambda>hashParamSize. case hashParamSize of None \<Rightarrow> (\<lambda>p. Some (None, p)) | Some hashSize \<Rightarrow>
     read_many (\<lambda>k. ReadString16 (\<lambda>moduleName. ReadString16 (\<lambda>hashValue. k (moduleName, hashValue)))) (nat hashSize) []
       (\<lambda>hashes p. Some (Some (new_RemoteParam\<lparr>
          ip_installFlag := install_flag_of flag, ip_userId := userId, ip_isKeepData := isKeepData,
          ip_hashParams := foldl (\<lambda>m (k, v). sm_emplace k v m) [] hashes, ip_installLocation := location\<rparr>), p)))))))"

definition InstallParam_Marshalling :: "remote_param \<Rightarrow> item list" where
  "InstallParam_Marshalling param =
     [IInt32 (install_flag_number (ip_installFlag param)), IInt32 (ip_installLocation param), IInt32 (ip_userId param),
      IBool (ip_isKeepData param), IInt32 (to_int32 (length (ip_hashParams param)))] @
     concat (map (\<lambda>(k, v). [IString16 k, IString16 v]) (ip_hashParams param))"

text \<open>The codes that the host reports, beside those of the installers.\<close>

datatype report_code =
    ResultCode err_code
  | ERR_APPEXECFWK_INSTALL_PERMISSION_DENIED
  | ERR_APPEXECFWK_UNINSTALL_PERMISSION_DENIED

text \<open>The numbers of the codes (\<open>appexecfwk_errors.h\<close>); the one of \<open>ERR_NO_INIT\<close> belongs to another library.\<close>

fun error_number :: "int \<Rightarrow> err_code \<Rightarrow> int" where
  "error_number noInit ERR_OK = 0"
| "error_number noInit ERR_NO_INIT = noInit"
| "error_number noInit (ERR_SERVICE n) = n"
| "error_number noInit ERR_APPEXECFWK_INSTALL_INTERNAL_ERROR = 8519681"
| "error_number noInit ERR_APPEXECFWK_INSTALL_VERSION_DOWNGRADE = 8519684"
| "error_number noInit ERR_APPEXECFWK_INSTALL_PARAM_ERROR = 8519686"
| "error_number noInit ERR_APPEXECFWK_INSTALL_ENTRY_ALREADY_EXIST = 8519688"
| "error_number noInit ERR_APPEXECFWK_INSTALL_STATE_ERROR = 8519689"
| "error_number noInit ERR_APPEXECFWK_INSTALL_FILE_PATH_INVALID = 8519690"
| "error_number noInit ERR_APPEXECFWK_INSTALL_INVALID_HAP_NAME = 8519691"
| "error_number noInit ERR_APPEXECFWK_INSTALL_INVALID_BUNDLE_FILE = 8519692"
| "error_number noInit ERR_APPEXECFWK_INSTALL_INVALID_HAP_SIZE = 8519693"
| "error_number noInit ERR_APPEXECFWK_INSTALL_GENERATE_UID_ERROR = 8519694"
| "error_number noInit ERR_APPEXECFWK_INSTALL_BUNDLE_MGR_SERVICE_ERROR = 8519696"
| "error_number noInit ERR_APPEXECFWK_INSTALL_ALREADY_EXIST = 8519697"
| "error_number noInit ERR_APPEXECFWK_INSTALL_BUNDLENAME_NOT_SAME = 8519698"
| "error_number noInit ERR_APPEXECFWK_INSTALL_VERSIONCODE_NOT_SAME = 8519699"
| "error_number noInit ERR_APPEXECFWK_INSTALL_VERSIONNAME_NOT_SAME = 8519700"
| "error_number noInit ERR_APPEXECFWK_INSTALL_MINCOMPATIBLE_VERSIONCODE_NOT_SAME = 8519701"
| "error_number noInit ERR_APPEXECFWK_INSTALL_VENDOR_NOT_SAME = 8519702"
| "error_number noInit ERR_APPEXECFWK_INSTALL_RELEASETYPE_TARGET_NOT_SAME = 8519703"
| "error_number noInit ERR_APPEXECFWK_INSTALL_RELEASETYPE_NOT_SAME = 8519704"
| "error_number noInit ERR_APPEXECFWK_INSTALL_RELEASETYPE_COMPATIBLE_NOT_SAME = 8519705"
| "error_number noInit ERR_APPEXECFWK_INSTALL_VERSION_NOT_COMPATIBLE = 8519706"
| "error_number noInit ERR_APPEXECFWK_INSTALL_INVALID_NUMBER_OF_ENTRY_HAP = 8519707"
| "error_number noInit ERR_APPEXECFWK_INSTALL_DISK_MEM_INSUFFICIENT = 8519708"
| "error_number noInit ERR_APPEXECFWK_INSTALL_GRANT_REQUEST_PERMISSIONS_FAILED = 8519709"
| "error_number noInit ERR_APPEXECFWK_INSTALL_UPDATE_HAP_TOKEN_FAILED = 8519710"
| "error_number noInit ERR_APPEXECFWK_INSTALL_SINGLETON_NOT_SAME = 8519711"
| "error_number noInit ERR_APPEXECFWK_INSTALL_ZERO_USER_WITH_NO_SINGLETON = 8519712"
| "error_number noInit ERR_APPEXECFWK_INSTALL_CHECK_SYSCAP_FAILED = 8519713"
| "error_number noInit ERR_APPEXECFWK_INSTALL_APPTYPE_NOT_SAME = 8519714"
| "error_number noInit ERR_APPEXECFWK_INSTALL_URI_DUPLICATE = 8519715"
| "error_number noInit ERR_APPEXECFWK_INSTALL_TYPE_ERROR = 8519716"
| "error_number noInit ERR_APPEXECFWK_INSTALL_FAILED_INCOMPATIBLE_SIGNATURE = 8519731"
| "error_number noInit ERR_APPEXECFWK_INSTALL_FAILED_INCONSISTENT_SIGNATURE = 8519732"
| "error_number noInit ERR_APPEXECFWK_INSTALL_FAILED_MODULE_NAME_EMPTY = 8519733"
| "error_number noInit ERR_APPEXECFWK_INSTALL_FAILED_MODULE_NAME_DUPLICATE = 8519734"
| "error_number noInit ERR_APPEXECFWK_INSTALL_FAILED_CHECK_HAP_HASH_PARAM = 8519735"
| "error_number noInit ERR_APPEXECFWK_SANDBOX_INSTALL_APP_NOT_EXISTED = 8519801"
| "error_number noInit ERR_APPEXECFWK_SANDBOX_INSTALL_PARAM_ERROR = 8519802"
| "error_number noInit ERR_APPEXECFWK_SANDBOX_INSTALL_USER_NOT_EXIST = 8519806"
| "error_number noInit ERR_APPEXECFWK_SANDBOX_INSTALL_INVALID_APP_INDEX = 8519807"
| "error_number noInit ERR_APPEXECFWK_SANDBOX_INSTALL_NOT_INSTALLED_AT_SPECIFIED_USERID = 8519808"
| "error_number noInit ERR_APPEXECFWK_SANDBOX_INSTALL_NO_SANDBOX_APP_INFO = 8519809"
| "error_number noInit ERR_APPEXECFWK_SANDBOX_INSTALL_DELETE_APP_INDEX_FAILED = 8519811"
| "error_number noInit ERR_APPEXECFWK_UNINSTALL_SYSTEM_APP_ERROR = 8519899"
| "error_number noInit ERR_APPEXECFWK_UNINSTALL_KILLING_APP_ERROR = 8519900"
| "error_number noInit ERR_APPEXECFWK_UNINSTALL_INVALID_NAME = 8519901"
| "error_number noInit ERR_APPEXECFWK_UNINSTALL_BUNDLE_MGR_SERVICE_ERROR = 8519904"
| "error_number noInit ERR_APPEXECFWK_UNINSTALL_MISSING_INSTALLED_BUNDLE = 8519905"
| "error_number noInit ERR_APPEXECFWK_UNINSTALL_MISSING_INSTALLED_MODULE = 8519906"
| "error_number noInit ERR_APPEXECFWK_RECOVER_GET_BUNDLEPATH_ERROR = 8520193"
| "error_number noInit ERR_APPEXECFWK_USER_NOT_EXIST = 8520449"
| "error_number noInit ERR_APPEXECFWK_USER_NOT_INSTALL_HAP = 8520452"

section \<open>One installer\<close>

text \<open>A new \<open>BundleInstaller\<close> over the state of the service.\<close>

definition new_BundleInstaller :: "bms \<Rightarrow> installer" where
  "new_BundleInstaller b =
     bms.extend b (installer.fields 0 False [] [] [] [] False False 0 False [] INVALID_USERID False SingletonState_DEFAULT [])"

text \<open>
  \<open>InstallBundle\<close>, \<open>InstallBundleByBundleName\<close> and \<open>Recover\<close> of the base class do this, and then notify the
  listeners and the distributed store, which is left out.
\<close>

definition InstallBundle :: "install_env \<Rightarrow> string list \<Rightarrow> app_type \<Rightarrow> install_param \<Rightarrow> installer \<Rightarrow> (err_code \<times> installer) option" where
  "InstallBundle e bundlePaths appType param s = ProcessBundleInstall e bundlePaths param appType s"

text \<open>The users of the device, without the first one.\<close>

definition Installer_GetExistsCommonUserIs :: "data_mgr \<Rightarrow> int list" where
  "Installer_GetExistsCommonUserIs d = filter (\<lambda>userId. userId \<ge> START_USERID) (GetAllUser d)"

fun install_for_users ::
  "(install_param \<Rightarrow> installer \<Rightarrow> (err_code \<times> installer) option) \<Rightarrow> install_param \<Rightarrow> int list \<Rightarrow> err_code \<Rightarrow> installer
     \<Rightarrow> (err_code \<times> installer) option" where
  "install_for_users op param [] resultCode s = Some (resultCode, s)"
| "install_for_users op param (userId # userIds) resultCode s =
     (case op (param\<lparr>ip_userId := userId, ip_installFlag := InstallFlag_REPLACE_EXISTING\<rparr>) s of
        None \<Rightarrow> None
      | Some (r, s1) \<Rightarrow> install_for_users op param userIds r (ResetInstallProperties s1))"

definition install_each ::
  "(install_param \<Rightarrow> installer \<Rightarrow> (err_code \<times> installer) option) \<Rightarrow> install_param \<Rightarrow> installer \<Rightarrow> (err_code \<times> installer) option" where
  "install_each op param s =
     (if ip_userId param = ALL_USERID then install_for_users op param (Installer_GetExistsCommonUserIs (b_dm s)) ERR_OK s
      else op param s)"

fun uninstall_for_users ::
  "(install_param \<Rightarrow> installer \<Rightarrow> (err_code \<times> installer) option) \<Rightarrow> install_param \<Rightarrow> int list \<Rightarrow> installer
     \<Rightarrow> (err_code list \<times> installer) option" where
  "uninstall_for_users op param [] s = Some ([], s)"
| "uninstall_for_users op param (userId # userIds) s =
     (case op (param\<lparr>ip_userId := userId\<rparr>) s of
        None \<Rightarrow> None
      | Some (r, s1) \<Rightarrow>
          map_option (\<lambda>(rs, s2). (r # rs, s2)) (uninstall_for_users op param userIds (ResetInstallProperties s1)))"

text \<open>The codes of the users give one code; the loop ends at the first one that is a real failure.\<close>

definition harmless :: "err_code \<Rightarrow> bool" where
  "harmless r \<longleftrightarrow>
     r = ERR_APPEXECFWK_UNINSTALL_MISSING_INSTALLED_BUNDLE \<or> r = ERR_APPEXECFWK_USER_NOT_INSTALL_HAP \<or> r = ERR_OK"

fun first_failure :: "err_code list \<Rightarrow> err_code \<Rightarrow> err_code" where
  "first_failure [] resultCode = resultCode"
| "first_failure (r # rs) resultCode = (if \<not> harmless r then r else first_failure rs ERR_OK)"

definition uninstall_result :: "err_code list \<Rightarrow> err_code" where
  "uninstall_result errCode =
     (if ERR_OK \<in> set errCode then first_failure errCode (last errCode)
      else if errCode = [] then ERR_OK else hd errCode)"

definition uninstall_each ::
  "(install_param \<Rightarrow> installer \<Rightarrow> (err_code \<times> installer) option) \<Rightarrow> install_param \<Rightarrow> installer \<Rightarrow> (err_code \<times> installer) option" where
  "uninstall_each op param s =
     (if ip_userId param = ALL_USERID
      then map_option (\<lambda>(rs, s1). (uninstall_result rs, s1)) (uninstall_for_users op param (Installer_GetExistsCommonUserIs (b_dm s)) s)
      else op param s)"

text \<open>The packages are moved or copied to their final path until that fails once.\<close>

fun SaveHapToInstallPath :: "(bool \<Rightarrow> string \<Rightarrow> string \<Rightarrow> bool) \<Rightarrow> bool \<Rightarrow> (string \<times> string) list \<Rightarrow> (string \<times> string) list" where
  "SaveHapToInstallPath save moveFileMode [] = []"
| "SaveHapToInstallPath save moveFileMode ((from, to) # records) =
     (if \<not> save moveFileMode from to then [] else (from, to) # SaveHapToInstallPath save moveFileMode records)"

section \<open>Tasks\<close>

datatype install_task =
    Install_task "string list"
  | Recover_task string
  | InstallByBundleName_task string
  | Uninstall_task string
  | UninstallModule_task string string

definition BundleInstaller_run :: "install_env \<Rightarrow> install_task \<Rightarrow> install_param \<Rightarrow> installer \<Rightarrow> (err_code \<times> installer) option" where
  "BundleInstaller_run e task param s =
     (case task of
        Install_task bundleFilePaths \<Rightarrow> install_each (InstallBundle e bundleFilePaths AppType_THIRD_PARTY_APP) param s
      | Recover_task bundleName \<Rightarrow> install_each (ProcessRecover e bundleName) param s
      | InstallByBundleName_task bundleName \<Rightarrow> ProcessInstallBundleByBundleName e bundleName param s
      | Uninstall_task bundleName \<Rightarrow> uninstall_each (UninstallBundle e bundleName) param s
      | UninstallModule_task bundleName modulePackage \<Rightarrow> uninstall_each (UninstallBundle_module e bundleName modulePackage) param s)"

record install_job =
  jb_installerId :: int
  jb_task :: install_task
  jb_param :: remote_param
  jb_receiver :: nat

record stream_installer =
  si_installerId :: u32
  si_installedUid :: int
  si_tempDir :: string
  si_installParam :: remote_param

text \<open>
  The service: the state that all installers share, the installers by their id, the tasks of the pool, the
  events that are sent to remove an installer, what was reported to whom, where packages were saved.
\<close>

record installer_service =
  sv_bms :: bms
  sv_manager :: bool
  sv_installers :: "(int, nat) smap"
  sv_tasks :: "install_job list"
  sv_removals :: "int list"
  sv_reports :: "(nat \<times> report_code) list"
  sv_files :: "(string \<times> string) list"
  sv_streamIds :: u32
  sv_streams :: "stream_installer list"

definition OnFinished :: "nat \<Rightarrow> report_code \<Rightarrow> installer_service \<Rightarrow> installer_service" where
  "OnFinished receiver code sv = sv\<lparr>sv_reports := sv_reports sv @ [(receiver, code)]\<rparr>"

text \<open>The id of an installer is the time; a second one at the same time is refused.\<close>

definition CreateInstaller :: "int \<Rightarrow> nat \<Rightarrow> installer_service \<Rightarrow> bool \<times> installer_service" where
  "CreateInstaller installerId statusReceiver sv =
     (if map_of (sv_installers sv) installerId = None
      then (True, sv\<lparr>sv_installers := sm_assign installerId statusReceiver (sv_installers sv)\<rparr>)
      else (False, OnFinished statusReceiver (ResultCode ERR_APPEXECFWK_INSTALL_INTERNAL_ERROR) sv))"

definition CreateTask :: "int \<Rightarrow> install_task \<Rightarrow> remote_param \<Rightarrow> nat \<Rightarrow> installer_service \<Rightarrow> installer_service" where
  "CreateTask installerId task param statusReceiver sv =
     (case CreateInstaller installerId statusReceiver sv of
        (False, sv1) \<Rightarrow> sv1
      | (True, sv1) \<Rightarrow> sv1\<lparr>sv_tasks := sv_tasks sv1 @
          [\<lparr>jb_installerId = installerId, jb_task = task, jb_param = param, jb_receiver = statusReceiver\<rparr>]\<rparr>)"

text \<open>
  A thread of the pool carries out the task at position \<open>n\<close>. \<open>None\<close>: an exception or a null pointer ends the process.
\<close>

definition run_task :: "install_env \<Rightarrow> (bool \<Rightarrow> string \<Rightarrow> string \<Rightarrow> bool) \<Rightarrow> nat \<Rightarrow> installer_service \<Rightarrow> installer_service option" where
  "run_task e save n sv =
     (let job = sv_tasks sv ! n; param = jb_param job in
      case BundleInstaller_run e (jb_task job) (install_param.truncate param) (new_BundleInstaller (sv_bms sv)) of
        None \<Rightarrow> None
      | Some (resultCode, s) \<Rightarrow>
          (let saved = (case jb_task job of
                          Install_task _ \<Rightarrow> SaveHapToInstallPath save (ip_streamInstallMode param) (in_hapPathRecords s)
                        | _ \<Rightarrow> [])
           in Some ((OnFinished (jb_receiver job) (ResultCode resultCode) sv)\<lparr>
                sv_bms := bms.truncate s,
                sv_tasks := take n (sv_tasks sv) @ drop (Suc n) (sv_tasks sv),
                sv_removals := sv_removals sv @ [jb_installerId job],
                sv_files := sv_files sv @ saved\<rparr>)))"

definition RemoveInstaller :: "int \<Rightarrow> installer_service \<Rightarrow> installer_service" where
  "RemoveInstaller installerId sv = sv\<lparr>sv_installers := sm_erase installerId (sv_installers sv)\<rparr>"

text \<open>The handler of the installer thread takes the next event.\<close>

definition ProcessRemoveEvent :: "installer_service \<Rightarrow> installer_service" where
  "ProcessRemoveEvent sv =
     (case sv_removals sv of
        [] \<Rightarrow> sv
      | installerId # ids \<Rightarrow> RemoveInstaller installerId (sv\<lparr>sv_removals := ids\<rparr>))"

section \<open>The host\<close>

definition PERMISSION_INSTALL_BUNDLE :: string where
  "PERMISSION_INSTALL_BUNDLE = ''ohos.permission.INSTALL_BUNDLE''"

text \<open>
  One call: who calls, the time, what the other services answer, the directory that is made for a stream
  (empty when that fails), what opening a file gives, what fits into the reply, and the handler of the base class.
\<close>

record install_call =
  ic_kit :: access_token_kit
  ic_tokenCalls :: "token_call list"
  ic_callerToken :: u32
  ic_callingUid :: int
  ic_tick :: int
  ic_env :: install_env
  ic_tempDir :: "u32 \<Rightarrow> string"
  ic_open :: "string \<Rightarrow> int \<Rightarrow> int"
  ic_iface_cast :: "nat \<Rightarrow> nat option"
  ic_room :: "parcel \<Rightarrow> item \<Rightarrow> bool"
  ic_noInit :: int
  ic_object :: "u32 \<Rightarrow> nat"
  ic_default :: "nat \<Rightarrow> parcel \<Rightarrow> ipc_result \<times> parcel"

definition may_install :: "install_call \<Rightarrow> bool" where
  "may_install k = VerifyCallingPermission (ic_kit k) (ic_tokenCalls k) (ic_callerToken k) PERMISSION_INSTALL_BUNDLE"

text \<open>Whether the manager can be used, and the receiver; a missing manager is reported.\<close>

definition CheckBundleInstallerManager :: "nat option \<Rightarrow> installer_service \<Rightarrow> bool \<times> installer_service" where
  "CheckBundleInstallerManager statusReceiver sv =
     (case statusReceiver of
        None \<Rightarrow> (False, sv)
      | Some r \<Rightarrow> if \<not> sv_manager sv then (False, OnFinished r (ResultCode ERR_APPEXECFWK_INSTALL_INTERNAL_ERROR) sv) else (True, sv))"

definition CheckInstallParam :: "install_call \<Rightarrow> remote_param \<Rightarrow> remote_param" where
  "CheckInstallParam k param =
     (if ip_userId param = UNSPECIFIED_USERID then param\<lparr>ip_userId := GetUserIdByUid (ic_callingUid k)\<rparr> else param)"

text \<open>\<open>denied\<close> is what a caller without the permission is told.\<close>

definition host_task ::
  "install_call \<Rightarrow> report_code \<Rightarrow> install_task \<Rightarrow> remote_param \<Rightarrow> nat option \<Rightarrow> installer_service \<Rightarrow> bool \<times> installer_service" where
  "host_task k denied task param statusReceiver sv =
     (case CheckBundleInstallerManager statusReceiver sv of
        (False, sv1) \<Rightarrow> (False, sv1)
      | (True, sv1) \<Rightarrow>
          if \<not> may_install k then (False, OnFinished (the statusReceiver) denied sv1)
          else (True, CreateTask (ic_tick k) task (CheckInstallParam k param) (the statusReceiver) sv1))"

definition Host_Install :: "install_call \<Rightarrow> string list \<Rightarrow> remote_param \<Rightarrow> nat option \<Rightarrow> installer_service \<Rightarrow> bool \<times> installer_service" where
  "Host_Install k bundleFilePaths = host_task k ERR_APPEXECFWK_INSTALL_PERMISSION_DENIED (Install_task bundleFilePaths)"

definition Host_Recover :: "install_call \<Rightarrow> string \<Rightarrow> remote_param \<Rightarrow> nat option \<Rightarrow> installer_service \<Rightarrow> bool \<times> installer_service" where
  "Host_Recover k bundleName = host_task k ERR_APPEXECFWK_INSTALL_PERMISSION_DENIED (Recover_task bundleName)"

definition Host_InstallByBundleName :: "install_call \<Rightarrow> string \<Rightarrow> remote_param \<Rightarrow> nat option \<Rightarrow> installer_service \<Rightarrow> bool \<times> installer_service" where
  "Host_InstallByBundleName k bundleName =
     host_task k ERR_APPEXECFWK_INSTALL_PERMISSION_DENIED (InstallByBundleName_task bundleName)"

definition Host_Uninstall :: "install_call \<Rightarrow> string \<Rightarrow> remote_param \<Rightarrow> nat option \<Rightarrow> installer_service \<Rightarrow> bool \<times> installer_service" where
  "Host_Uninstall k bundleName = host_task k ERR_APPEXECFWK_UNINSTALL_PERMISSION_DENIED (Uninstall_task bundleName)"

definition Host_UninstallModule ::
  "install_call \<Rightarrow> string \<Rightarrow> string \<Rightarrow> remote_param \<Rightarrow> nat option \<Rightarrow> installer_service \<Rightarrow> bool \<times> installer_service" where
  "Host_UninstallModule k bundleName modulePackage =
     host_task k ERR_APPEXECFWK_UNINSTALL_PERMISSION_DENIED (UninstallModule_task bundleName modulePackage)"

definition LOWER_DLP_TYPE_BOUND :: int where "LOWER_DLP_TYPE_BOUND = 0"
definition UPPER_DLP_TYPE_BOUND :: int where "UPPER_DLP_TYPE_BOUND = 3"

text \<open>These two are carried out at once, in the thread of the request, whoever calls.\<close>

definition Host_InstallSandboxApp ::
  "install_call \<Rightarrow> string \<Rightarrow> int \<Rightarrow> int \<Rightarrow> installer_service \<Rightarrow> (err_code + int) \<times> installer_service" where
  "Host_InstallSandboxApp k bundleName dplType userId sv =
     (if bundleName = [] \<or> dplType \<le> LOWER_DLP_TYPE_BOUND \<or> dplType \<ge> UPPER_DLP_TYPE_BOUND
      then (Inl ERR_APPEXECFWK_SANDBOX_INSTALL_PARAM_ERROR, sv)
      else (case InstallSandboxApp (ic_env k) bundleName userId (sv_bms sv) of
              (r, b) \<Rightarrow> (r, sv\<lparr>sv_bms := b\<rparr>)))"

definition Host_UninstallSandboxApp ::
  "install_call \<Rightarrow> string \<Rightarrow> int \<Rightarrow> int \<Rightarrow> installer_service \<Rightarrow> err_code \<times> installer_service" where
  "Host_UninstallSandboxApp k bundleName appIndex userId sv =
     (if bundleName = [] then (ERR_APPEXECFWK_SANDBOX_INSTALL_PARAM_ERROR, sv)
      else if appIndex \<le> INITIAL_APP_INDEX \<or> appIndex > MAX_APP_INDEX then (ERR_APPEXECFWK_SANDBOX_INSTALL_PARAM_ERROR, sv)
      else (case UninstallSandboxApp (ic_env k) bundleName appIndex userId (sv_bms sv) of
              (r, b) \<Rightarrow> (r, sv\<lparr>sv_bms := b\<rparr>)))"

text \<open>A stream gets the next number, even when its directory cannot be made.\<close>

definition CreateStreamInstaller :: "install_call \<Rightarrow> remote_param \<Rightarrow> installer_service \<Rightarrow> stream_installer option \<times> installer_service" where
  "CreateStreamInstaller k param sv =
     (if \<not> may_install k then (None, sv)
      else (let installerId = sv_streamIds sv + 1; sv1 = sv\<lparr>sv_streamIds := installerId\<rparr>
            in if ic_tempDir k installerId = [] then (None, sv1)
               else (Some \<lparr>si_installerId = installerId, si_installedUid = ic_callingUid k, si_tempDir = ic_tempDir k installerId,
                           si_installParam = param\<lparr>ip_streamInstallMode := True\<rparr>\<rparr>, sv1)))"

definition DestoryBundleStreamInstaller :: "install_call \<Rightarrow> u32 \<Rightarrow> installer_service \<Rightarrow> bool \<times> installer_service" where
  "DestoryBundleStreamInstaller k streamInstallerId sv =
     (if \<not> may_install k then (False, sv)
      else (True, sv\<lparr>sv_streams := filter (\<lambda>x. si_installerId x \<noteq> streamInstallerId) (sv_streams sv)\<rparr>))"

text \<open>The requests of the owner of a stream: a file in its directory, and the installation of what is there.\<close>

definition PATH_MAX_SIZE :: nat where "PATH_MAX_SIZE = 256"

definition CheckFileName :: "string \<Rightarrow> bool" where
  "CheckFileName fileName \<longleftrightarrow> fileName \<noteq> [] \<and> length fileName \<le> PATH_MAX_SIZE"

definition CheckFileType :: "string \<Rightarrow> string \<Rightarrow> bool" where
  "CheckFileType fileName extensionName =
     (if \<not> CheckFileName fileName then False
      else if CHR ''.'' \<notin> set fileName then False
      else map tolower (CHR ''.'' # rev (takeWhile (\<lambda>c. c \<noteq> CHR ''.'') (rev fileName))) = extensionName)"

definition CreateFileDescriptor :: "install_call \<Rightarrow> string \<Rightarrow> int \<Rightarrow> int" where
  "CreateFileDescriptor k bundlePath offset = (if length bundlePath > PATH_MAX_SIZE then -1 else ic_open k bundlePath offset)"

text \<open>\<open>isInstallStarted_\<close> is never set.\<close>

definition CreateStream :: "install_call \<Rightarrow> stream_installer \<Rightarrow> string \<Rightarrow> int \<Rightarrow> int" where
  "CreateStream k x hapName offset =
     (if \<not> may_install k then -1
      else if ic_callingUid k \<noteq> si_installedUid x then -1
      else if \<not> CheckFileType hapName INSTALL_FILE_SUFFIX then -1
      else CreateFileDescriptor k (si_tempDir x @ hapName) offset)"

definition StreamInstaller_Install :: "install_call \<Rightarrow> stream_installer \<Rightarrow> nat option \<Rightarrow> installer_service \<Rightarrow> bool \<times> installer_service" where
  "StreamInstaller_Install k x receiver sv =
     (if receiver = None then (False, sv) else Host_Install k [si_tempDir x] (si_installParam x) receiver sv)"

section \<open>Messages\<close>

definition installer_descriptor :: string where "installer_descriptor = ''ohos.appexecfwk.BundleInstaller''"

text \<open>A value that does not fit into the reply is left out.\<close>

definition write_reply :: "install_call \<Rightarrow> parcel \<Rightarrow> item \<Rightarrow> parcel" where
  "write_reply k p x = (if ic_room k p x then p @ [x] else p)"

text \<open>Several values; the first one that does not fit ends the writing.\<close>

fun write_some :: "install_call \<Rightarrow> parcel \<Rightarrow> item list \<Rightarrow> bool \<times> parcel" where
  "write_some k p [] = (True, p)"
| "write_some k p (x # xs) = (if ic_room k p x then write_some k (p @ [x]) xs else (False, p))"

type_synonym install_handler = "installer_service \<Rightarrow> parcel \<Rightarrow> (parcel \<times> installer_service) option"

text \<open>Parameters and receiver come last in every request for a task; without one of them nothing happens.\<close>

definition read_request ::
  "install_call \<Rightarrow> (remote_param \<Rightarrow> nat option \<Rightarrow> installer_service \<Rightarrow> bool \<times> installer_service) \<Rightarrow> install_handler" where
  "read_request k act sv =
     ReadParcelable InstallParam_ReadFromParcel (\<lambda>installParam. case installParam of None \<Rightarrow> (\<lambda>_. Some ([], sv)) | Some param \<Rightarrow>
     ReadObject (\<lambda>object. case object of None \<Rightarrow> (\<lambda>_. Some ([], sv)) | Some ob \<Rightarrow>
       (\<lambda>_. Some ([], snd (act param (ic_iface_cast k ob) sv)))))"

definition HandleInstallMessage :: "install_call \<Rightarrow> install_handler" where
  "HandleInstallMessage k sv = ReadString16 (\<lambda>bundlePath. read_request k (Host_Install k [bundlePath]) sv)"

definition HandleRecoverMessage :: "install_call \<Rightarrow> install_handler" where
  "HandleRecoverMessage k sv = ReadString16 (\<lambda>bundleName. read_request k (Host_Recover k bundleName) sv)"

definition HandleInstallMultipleHapsMessage :: "install_call \<Rightarrow> install_handler" where
  "HandleInstallMultipleHapsMessage k sv =
     ReadInt32 (\<lambda>count. read_many ReadString16 (nat count) [] (\<lambda>pathVec.
       if pathVec = [] then (\<lambda>_. Some ([], sv)) else read_request k (Host_Install k pathVec) sv))"

definition HandleUninstallMessage :: "install_call \<Rightarrow> install_handler" where
  "HandleUninstallMessage k sv = ReadString16 (\<lambda>bundleName. read_request k (Host_Uninstall k bundleName) sv)"

definition HandleUninstallModuleMessage :: "install_call \<Rightarrow> install_handler" where
  "HandleUninstallModuleMessage k sv =
     ReadString16 (\<lambda>bundleName. ReadString16 (\<lambda>modulePackage. read_request k (Host_UninstallModule k bundleName modulePackage) sv))"

definition HandleInstallSandboxApp :: "install_call \<Rightarrow> install_handler" where
  "HandleInstallSandboxApp k sv =
     ReadString16 (\<lambda>bundleName. ReadInt32 (\<lambda>dplType. ReadInt32 (\<lambda>userId _.
       (case Host_InstallSandboxApp k bundleName dplType userId sv of
          (Inl ret, sv1) \<Rightarrow>
            Some (let p = write_reply k [] (IInt32 (error_number (ic_noInit k) ret))
                  in if ret = ERR_OK then write_reply k p (IInt32 INITIAL_APP_INDEX) else p, sv1)
        | (Inr appIndex, sv1) \<Rightarrow> Some (write_reply k (write_reply k [] (IInt32 0)) (IInt32 appIndex), sv1)))))"

definition HandleUninstallSandboxApp :: "install_call \<Rightarrow> install_handler" where
  "HandleUninstallSandboxApp k sv =
     ReadString16 (\<lambda>bundleName. ReadInt32 (\<lambda>appIndex. ReadInt32 (\<lambda>userId _.
       (case Host_UninstallSandboxApp k bundleName appIndex userId sv of
          (ret, sv1) \<Rightarrow> Some (write_reply k [] (IInt32 (error_number (ic_noInit k) ret)), sv1)))))"

text \<open>The stream is only kept when the whole reply could be written.\<close>

definition HandleCreateStreamInstaller :: "install_call \<Rightarrow> install_handler" where
  "HandleCreateStreamInstaller k sv =
     ReadParcelable InstallParam_ReadFromParcel (\<lambda>installParam _. case installParam of None \<Rightarrow> Some ([], sv) | Some param \<Rightarrow>
       (case CreateStreamInstaller k param sv of
          (None, sv1) \<Rightarrow> Some (write_reply k [] (IBool False), sv1)
        | (Some x, sv1) \<Rightarrow>
            (case write_some k [] [IBool True, IUint32 (si_installerId x), IObject (Some (ic_object k (si_installerId x)))] of
               (written, p) \<Rightarrow> Some (p, if written then sv1\<lparr>sv_streams := sv_streams sv1 @ [x]\<rparr> else sv1))))"

definition HandleDestoryBundleStreamInstaller :: "install_call \<Rightarrow> install_handler" where
  "HandleDestoryBundleStreamInstaller k sv =
     ReadUint32 (\<lambda>installerId _. Some ([], snd (DestoryBundleStreamInstaller k installerId sv)))"

text \<open>The messages in the order of their numbers.\<close>

definition install_handlers :: "install_call \<Rightarrow> install_handler list" where
  "install_handlers k =
     [HandleInstallMessage k, HandleInstallMultipleHapsMessage k, HandleUninstallMessage k, HandleUninstallModuleMessage k,
      HandleRecoverMessage k, HandleInstallSandboxApp k, HandleUninstallSandboxApp k, HandleCreateStreamInstaller k,
      HandleDestoryBundleStreamInstaller k]"

definition Installer_OnRemoteRequest ::
  "install_call \<Rightarrow> nat \<Rightarrow> parcel \<Rightarrow> installer_service \<Rightarrow> (ipc_result \<times> parcel \<times> installer_service) option" where
  "Installer_OnRemoteRequest k code data sv =
     ReadInterfaceToken (\<lambda>remoteDescripter data.
       if remoteDescripter \<noteq> installer_descriptor then Some (OBJECT_NULL, [], sv)
       else if code < length (install_handlers k)
       then map_option (\<lambda>(p, sv1). (NO_ERROR, p, sv1)) ((install_handlers k ! code) sv data)
       else (let (r, p) = ic_default k code data in Some (r, p, sv))) data"

section \<open>Installations at the start\<close>

definition system_param :: "app_type \<Rightarrow> install_param" where
  "system_param appType = new_InstallParam\<lparr>
     ip_isPreInstallApp := True, ip_noSkipsKill := False, ip_needSendEvent := False,
     ip_needSavePreInstallInfo := (appType = AppType_SYSTEM_APP \<or> appType = AppType_THIRD_SYSTEM_APP)\<rparr>"

definition InstallSystemBundle :: "install_env \<Rightarrow> string \<Rightarrow> app_type \<Rightarrow> int \<Rightarrow> installer \<Rightarrow> (bool \<times> installer) option" where
  "InstallSystemBundle e filePath appType userId s =
     map_option (\<lambda>(result, s1). (result = ERR_OK, s1))
       (InstallBundle e [filePath] appType ((system_param appType)\<lparr>ip_userId := userId\<rparr>) s)"

text \<open>The functions for all users do not look at the results.\<close>

fun for_all_users ::
  "(install_param \<Rightarrow> installer \<Rightarrow> (err_code \<times> installer) option) \<Rightarrow> install_param \<Rightarrow> int list \<Rightarrow> installer \<Rightarrow> (bool \<times> installer) option" where
  "for_all_users op param [] s = Some (True, s)"
| "for_all_users op param (userId # userIds) s =
     (case op (param\<lparr>ip_userId := userId\<rparr>) s of
        None \<Rightarrow> None
      | Some (_, s1) \<Rightarrow> for_all_users op param userIds (ResetInstallProperties s1))"

definition OTAInstallSystemBundle :: "install_env \<Rightarrow> string list \<Rightarrow> app_type \<Rightarrow> installer \<Rightarrow> (bool \<times> installer) option" where
  "OTAInstallSystemBundle e filePaths appType s =
     for_all_users (InstallBundle e filePaths appType) ((system_param appType)\<lparr>ip_installFlag := InstallFlag_REPLACE_EXISTING\<rparr>)
       (GetAllUser (b_dm s)) s"

definition UninstallSystemBundle :: "install_env \<Rightarrow> string \<Rightarrow> installer \<Rightarrow> (bool \<times> installer) option" where
  "UninstallSystemBundle e bundleName s =
     for_all_users (UninstallBundle e bundleName) (system_param AppType_SYSTEM_APP) (GetAllUser (b_dm s)) s"

definition UninstallSystemBundle_module :: "install_env \<Rightarrow> string \<Rightarrow> string \<Rightarrow> installer \<Rightarrow> (bool \<times> installer) option" where
  "UninstallSystemBundle_module e bundleName modulePackage s =
     for_all_users (UninstallBundle_module e bundleName modulePackage) (system_param AppType_SYSTEM_APP) (GetAllUser (b_dm s)) s"

end
