(* ===== verification/Module_Json.thy ===== *)
theory Module_Json
  imports Config_Json
begin

text \<open>
  \<open>module_profile.cpp\<close>, first part (namespace \<open>Profile\<close>): the structures of \<open>module.json\<close>, the profile of a
  package in the new format, and how they are read. The namespace has a thread-local \<open>parseResult\<close> of
  its own, which all its \<open>from_json\<close> functions share; the structures of the other namespace in it
  (\<open>Skill\<close>, \<open>DefinePermission\<close>) report to \<open>ProfileReader::parseResult\<close>. So \<open>ps_local\<close> of the state of a
  reader is \<open>Profile::parseResult\<close> here and passed on to nested structures.
\<close>

section \<open>Nested structures\<close>

type_synonym 'v nested_getter = "json \<Rightarrow> parse_state \<Rightarrow> ('v \<times> parse_state) option"

fun nested_elements :: "'v nested_getter \<Rightarrow> json list \<Rightarrow> parse_state \<Rightarrow> ('v list \<times> parse_state) option" where
  "nested_elements get [] st = Some ([], st)"
| "nested_elements get (j # js) st =
     (case get j st of
        None \<Rightarrow> None
      | Some (v, st1) \<Rightarrow>
          (case nested_elements get js st1 of
             None \<Rightarrow> None
           | Some (vs, st2) \<Rightarrow> Some (v # vs, st2)))"

text \<open>\<open>GetValueIfFindKey\<close> for an object and for a vector whose conversion may set \<open>Profile::parseResult\<close>.\<close>

definition nested_object :: "'v nested_getter \<Rightarrow> string \<Rightarrow> (('v \<Rightarrow> 'v) \<Rightarrow> 'r \<Rightarrow> 'r) \<Rightarrow> bool \<Rightarrow> 'r step" where
  "nested_object get key upd isNecessary j rst =
     (let (r, st) = rst in
      if ps_local st \<noteq> pr_OK then Some (r, st)
      else (case obj_find j key of
              None \<Rightarrow> Some (r, if isNecessary then st\<lparr>ps_local := MISSING_PROP\<rparr> else st)
            | Some v \<Rightarrow>
                if \<not> has_type JT_OBJECT v then Some (r, st\<lparr>ps_local := PROP_TYPE_ERROR\<rparr>)
                else map_option (\<lambda>(x, st1). (upd (\<lambda>_. x) r, st1)) (get v st)))"

definition nested_array ::
  "'v nested_getter \<Rightarrow> array_type \<Rightarrow> string \<Rightarrow> (('v list \<Rightarrow> 'v list) \<Rightarrow> 'r \<Rightarrow> 'r) \<Rightarrow> bool \<Rightarrow> 'r step" where
  "nested_array get arrayType key upd isNecessary j rst =
     (let (r, st) = rst in
      if ps_local st \<noteq> pr_OK then Some (r, st)
      else (case obj_find j key of
              None \<Rightarrow> Some (r, if isNecessary then st\<lparr>ps_local := MISSING_PROP\<rparr> else st)
            | Some (JArr arrays) \<Rightarrow>
                if arrays = [] \<or> arrayType = AT_NOT_ARRAY then Some (r, st)
                else if \<not> list_all (has_type (element_type arrayType)) arrays then Some (r, st\<lparr>ps_local := PROP_TYPE_ERROR\<rparr>)
                else map_option (\<lambda>(xs, st1). (upd (\<lambda>_. xs) r, st1)) (nested_elements get arrays st)
            | Some _ \<Rightarrow> Some (r, st\<lparr>ps_local := PROP_TYPE_ERROR\<rparr>)))"

definition nested_from_json :: "'r \<Rightarrow> 'r step list \<Rightarrow> 'r nested_getter" where
  "nested_from_json new steps j st = run_steps steps j (new, st)"

section \<open>Structures\<close>

record module_device_config =
  mdc_minAPIVersion :: "bool \<times> int"
  mdc_distributedNotificationEnabled :: "bool \<times> bool"
  mdc_keepAlive :: "bool \<times> bool"
  mdc_removable :: "bool \<times> bool"
  mdc_singleton :: "bool \<times> bool"
  mdc_userDataClearable :: "bool \<times> bool"
  mdc_accessible :: "bool \<times> bool"

definition new_Module_DeviceConfig :: module_device_config where
  "new_Module_DeviceConfig = \<lparr>
    mdc_minAPIVersion = (False, 0), mdc_distributedNotificationEnabled = (False, False),
    mdc_keepAlive = (False, False), mdc_removable = (False, True), mdc_singleton = (False, False),
    mdc_userDataClearable = (False, True), mdc_accessible = (False, True)\<rparr>"

record module_metadata =
  mmd_name :: string
  mmd_value :: string
  mmd_resource :: string

definition new_Module_Metadata :: module_metadata where
  "new_Module_Metadata = \<lparr>
    mmd_name = [], mmd_value = [], mmd_resource = []\<rparr>"

record module_ability =
  mab_name :: string
  mab_srcEntrance :: string
  mab_launchType :: string
  mab_description :: string
  mab_descriptionId :: int
  mab_icon :: string
  mab_iconId :: int
  mab_label :: string
  mab_labelId :: int
  mab_priority :: int
  mab_permissions :: "string list"
  mab_metadata :: "module_metadata list"
  mab_visible :: bool
  mab_continuable :: bool
  mab_skills :: "skill list"
  mab_backgroundModes :: "string list"
  mab_startWindowIcon :: string
  mab_startWindowIconId :: int
  mab_startWindowBackground :: string
  mab_startWindowBackgroundId :: int
  mab_removeMissionAfterTerminate :: bool

definition new_Module_Ability :: module_ability where
  "new_Module_Ability = \<lparr>
    mab_name = [], mab_srcEntrance = [], mab_launchType = ''singleton'', mab_description = [],
    mab_descriptionId = 0, mab_icon = [], mab_iconId = 0, mab_label = [], mab_labelId = 0, mab_priority = 0,
    mab_permissions = [], mab_metadata = [], mab_visible = False, mab_continuable = False, mab_skills = [],
    mab_backgroundModes = [], mab_startWindowIcon = [], mab_startWindowIconId = 0,
    mab_startWindowBackground = [], mab_startWindowBackgroundId = 0, mab_removeMissionAfterTerminate = False\<rparr>"

record module_extension =
  mex_name :: string
  mex_srcEntrance :: string
  mex_icon :: string
  mex_iconId :: int
  mex_label :: string
  mex_labelId :: int
  mex_description :: string
  mex_descriptionId :: int
  mex_priority :: int
  mex_type :: string
  mex_readPermission :: string
  mex_writePermission :: string
  mex_uri :: string
  mex_permissions :: "string list"
  mex_visible :: bool
  mex_skills :: "skill list"
  mex_metadata :: "module_metadata list"

definition new_Module_Extension :: module_extension where
  "new_Module_Extension = \<lparr>
    mex_name = [], mex_srcEntrance = [], mex_icon = [], mex_iconId = 0, mex_label = [], mex_labelId = 0,
    mex_description = [], mex_descriptionId = 0, mex_priority = 0, mex_type = [], mex_readPermission = [],
    mex_writePermission = [], mex_uri = [], mex_permissions = [], mex_visible = False, mex_skills = [],
    mex_metadata = []\<rparr>"

record module_app =
  mapp_bundleName :: string
  mapp_debug :: bool
  mapp_icon :: string
  mapp_iconId :: int
  mapp_label :: string
  mapp_labelId :: int
  mapp_description :: string
  mapp_descriptionId :: int
  mapp_vendor :: string
  mapp_versionCode :: int
  mapp_versionName :: string
  mapp_minCompatibleVersionCode :: int
  mapp_minAPIVersion :: int
  mapp_targetAPIVersion :: int
  mapp_apiReleaseType :: string
  mapp_distributedNotificationEnabled :: bool
  mapp_entityType :: string
  mapp_keepAlive :: bool
  mapp_removable :: "bool \<times> bool"
  mapp_singleton :: bool
  mapp_userDataClearable :: bool
  mapp_accessible :: bool
  mapp_targetBundleList :: "string list"
  mapp_deviceConfigs :: "(string, module_device_config) smap"

definition new_Module_App :: module_app where
  "new_Module_App = \<lparr>
    mapp_bundleName = [], mapp_debug = False, mapp_icon = [], mapp_iconId = 0, mapp_label = [],
    mapp_labelId = 0, mapp_description = [], mapp_descriptionId = 0, mapp_vendor = [], mapp_versionCode = 0,
    mapp_versionName = [], mapp_minCompatibleVersionCode = -1, mapp_minAPIVersion = 0,
    mapp_targetAPIVersion = 0, mapp_apiReleaseType = ''Release'', mapp_distributedNotificationEnabled = True,
    mapp_entityType = ''unspecified'', mapp_keepAlive = False, mapp_removable = (False, True),
    mapp_singleton = False, mapp_userDataClearable = True, mapp_accessible = False,
    mapp_targetBundleList = [], mapp_deviceConfigs = []\<rparr>"

record module_module =
  mmo_name :: string
  mmo_type :: string
  mmo_srcEntrance :: string
  mmo_description :: string
  mmo_descriptionId :: int
  mmo_process :: string
  mmo_mainElement :: string
  mmo_deviceTypes :: "string list"
  mmo_deliveryWithInstall :: bool
  mmo_installationFree :: bool
  mmo_virtualMachine :: string
  mmo_uiSyntax :: string
  mmo_pages :: string
  mmo_metadata :: "module_metadata list"
  mmo_abilities :: "module_ability list"
  mmo_extensionAbilities :: "module_extension list"
  mmo_requestPermissions :: "request_permission list"
  mmo_definePermissions :: "define_permission list"
  mmo_dependencies :: "string list"

definition new_Module_Module :: module_module where
  "new_Module_Module = \<lparr>
    mmo_name = [], mmo_type = [], mmo_srcEntrance = [], mmo_description = [], mmo_descriptionId = 0,
    mmo_process = [], mmo_mainElement = [], mmo_deviceTypes = [], mmo_deliveryWithInstall = False,
    mmo_installationFree = False, mmo_virtualMachine = ''default'', mmo_uiSyntax = ''hml'', mmo_pages = [],
    mmo_metadata = [], mmo_abilities = [], mmo_extensionAbilities = [], mmo_requestPermissions = [],
    mmo_definePermissions = [], mmo_dependencies = []\<rparr>"

record module_module_json =
  mj_app :: module_app
  mj_module :: module_module

definition new_Module_ModuleJson :: module_module_json where
  "new_Module_ModuleJson = \<lparr>
    mj_app = new_Module_App, mj_module = new_Module_Module\<rparr>"

section \<open>Reading\<close>

definition Module_Metadata_from_json :: "module_metadata nested_getter" where
  "Module_Metadata_from_json = nested_from_json new_Module_Metadata [
     read_string ''name'' mmd_name_update False Local,
     read_string ''value'' mmd_value_update False Local,
     read_string ''resource'' mmd_resource_update False Local]"

definition Module_Ability_members_1 :: "module_ability step list" where
  "Module_Ability_members_1 = [
     read_string ''name'' mab_name_update True Local,
     read_string ''srcEntrance'' mab_srcEntrance_update True Local,
     read_string ''launchType'' mab_launchType_update False Local,
     read_string ''description'' mab_description_update False Local,
     read_number get_int32 ''descriptionId'' mab_descriptionId_update False Local,
     read_string ''icon'' mab_icon_update False Local,
     read_number get_int32 ''iconId'' mab_iconId_update False Local,
     read_string ''label'' mab_label_update False Local,
     read_number get_int32 ''labelId'' mab_labelId_update False Local,
     read_number get_int32 ''priority'' mab_priority_update False Local,
     read_array get_string AT_STRING ''permissions'' mab_permissions_update False Local,
     nested_array Module_Metadata_from_json AT_OBJECT ''metadata'' mab_metadata_update False,
     read_bool ''visible'' mab_visible_update False Local,
     read_bool ''continuable'' mab_continuable_update False Local,
     read_array Skill_from_json AT_OBJECT ''skills'' mab_skills_update False Local,
     read_array get_string AT_STRING ''backgroundModes'' mab_backgroundModes_update False Local,
     read_string ''startWindowIcon'' mab_startWindowIcon_update False Local,
     read_number get_int32 ''startWindowIconId'' mab_startWindowIconId_update False Local]"

definition Module_Ability_members_2 :: "module_ability step list" where
  "Module_Ability_members_2 = [
     read_string ''startWindowBackground'' mab_startWindowBackground_update False Local,
     read_number get_int32 ''startWindowBackgroundId'' mab_startWindowBackgroundId_update False Local,
     read_bool ''removeMissionAfterTerminate'' mab_removeMissionAfterTerminate_update False Local]"

definition Module_Ability_from_json :: "module_ability nested_getter" where
  "Module_Ability_from_json = nested_from_json new_Module_Ability (Module_Ability_members_1 @ Module_Ability_members_2)"

definition Module_Extension_from_json :: "module_extension nested_getter" where
  "Module_Extension_from_json = nested_from_json new_Module_Extension [
     read_string ''name'' mex_name_update True Local,
     read_string ''srcEntrance'' mex_srcEntrance_update True Local,
     read_string ''icon'' mex_icon_update False Local,
     read_number get_int32 ''iconId'' mex_iconId_update False Local,
     read_string ''label'' mex_label_update False Local,
     read_number get_int32 ''labelId'' mex_labelId_update False Local,
     read_string ''description'' mex_description_update False Local,
     read_number get_int32 ''descriptionId'' mex_descriptionId_update False Local,
     read_number get_int32 ''priority'' mex_priority_update False Local,
     read_string ''type'' mex_type_update True Local,
     read_string ''readPermission'' mex_readPermission_update False Local,
     read_string ''writePermission'' mex_writePermission_update False Local,
     read_string ''uri'' mex_uri_update False Local,
     read_array get_string AT_STRING ''permissions'' mex_permissions_update False Local,
     read_bool ''visible'' mex_visible_update False Local,
     read_array Skill_from_json AT_OBJECT ''skills'' mex_skills_update False Local,
     nested_array Module_Metadata_from_json AT_OBJECT ''metadata'' mex_metadata_update False]"

definition Module_DeviceConfig_from_json :: "module_device_config nested_getter" where
  "Module_DeviceConfig_from_json = nested_from_json new_Module_DeviceConfig [
     if_present ''minAPIVersion'' (mdc_minAPIVersion_update (apfst (\<lambda>_. True))) (read_number get_int32 ''minAPIVersion'' (\<lambda>f. mdc_minAPIVersion_update (apsnd f)) False Local),
     if_present ''distributedNotificationEnabled'' (mdc_distributedNotificationEnabled_update (apfst (\<lambda>_. True))) (read_bool ''distributedNotificationEnabled'' (\<lambda>f. mdc_distributedNotificationEnabled_update (apsnd f)) False Local),
     if_present ''keepAlive'' (mdc_keepAlive_update (apfst (\<lambda>_. True))) (read_bool ''keepAlive'' (\<lambda>f. mdc_keepAlive_update (apsnd f)) False Local),
     if_present ''removable'' (mdc_removable_update (apfst (\<lambda>_. True))) (read_bool ''removable'' (\<lambda>f. mdc_removable_update (apsnd f)) False Local),
     if_present ''singleton'' (mdc_singleton_update (apfst (\<lambda>_. True))) (read_bool ''singleton'' (\<lambda>f. mdc_singleton_update (apsnd f)) False Local),
     if_present ''userDataClearable'' (mdc_userDataClearable_update (apfst (\<lambda>_. True))) (read_bool ''userDataClearable'' (\<lambda>f. mdc_userDataClearable_update (apsnd f)) False Local),
     if_present ''accessible'' (mdc_accessible_update (apfst (\<lambda>_. True))) (read_bool ''accessible'' (\<lambda>f. mdc_accessible_update (apsnd f)) False Local)]"

text \<open>The configuration for one kind of device: read into a new object, then assigned in the map.\<close>

definition read_device :: "string \<Rightarrow> module_app step" where
  "read_device key j rst =
     (case obj_find j key of
        None \<Rightarrow> Some rst
      | Some _ \<Rightarrow>
          map_option (\<lambda>(d, st). (mapp_deviceConfigs_update (sm_assign key d) (fst rst), st))
            (nested_object Module_DeviceConfig_from_json key (\<lambda>f. f) False j (new_Module_DeviceConfig, snd rst)))"

definition Module_App_members_1 :: "module_app step list" where
  "Module_App_members_1 = [
     read_string ''bundleName'' mapp_bundleName_update True Local,
     read_bool ''debug'' mapp_debug_update False Local,
     read_string ''icon'' mapp_icon_update True Local,
     read_number get_int32 ''iconId'' mapp_iconId_update False Local,
     read_string ''label'' mapp_label_update True Local,
     read_number get_int32 ''labelId'' mapp_labelId_update False Local,
     read_string ''description'' mapp_description_update False Local,
     read_number get_int32 ''descriptionId'' mapp_descriptionId_update False Local,
     read_string ''vendor'' mapp_vendor_update False Local,
     read_number get_int32 ''versionCode'' mapp_versionCode_update True Local,
     read_string ''versionName'' mapp_versionName_update True Local,
     read_number get_int32 ''minCompatibleVersionCode'' mapp_minCompatibleVersionCode_update False Local,
     read_number get_int32 ''minAPIVersion'' mapp_minAPIVersion_update True Local,
     read_number get_int32 ''targetAPIVersion'' mapp_targetAPIVersion_update True Local,
     read_string ''apiReleaseType'' mapp_apiReleaseType_update False Local,
     read_bool ''distributedNotificationEnabled'' mapp_distributedNotificationEnabled_update False Local,
     read_string ''entityType'' mapp_entityType_update False Local,
     read_bool ''keepAlive'' mapp_keepAlive_update False Local]"

definition Module_App_members_2 :: "module_app step list" where
  "Module_App_members_2 = [
     read_array get_string AT_STRING ''targetBundleList'' mapp_targetBundleList_update False Local,
     if_present ''removable'' (mapp_removable_update (apfst (\<lambda>_. True))) (read_bool ''removable'' (\<lambda>f. mapp_removable_update (apsnd f)) False Local),
     read_bool ''singleton'' mapp_singleton_update False Local,
     read_bool ''userDataClearable'' mapp_userDataClearable_update False Local,
     read_bool ''accessible'' mapp_accessible_update False Local,
     read_device ''phone'',
     read_device ''tablet'',
     read_device ''tv'',
     read_device ''wearable'',
     read_device ''liteWearable'',
     read_device ''car'',
     read_device ''smartVision'',
     read_device ''router'']"

definition Module_App_from_json :: "module_app nested_getter" where
  "Module_App_from_json = nested_from_json new_Module_App (Module_App_members_1 @ Module_App_members_2)"

definition Module_Module_members_1 :: "module_module step list" where
  "Module_Module_members_1 = [
     read_string ''name'' mmo_name_update True Local,
     read_string ''type'' mmo_type_update True Local,
     read_string ''srcEntrance'' mmo_srcEntrance_update False Local,
     read_string ''description'' mmo_description_update False Local,
     read_number get_int32 ''descriptionId'' mmo_descriptionId_update False Local,
     read_string ''process'' mmo_process_update False Local,
     read_string ''mainElement'' mmo_mainElement_update True Local,
     read_array get_string AT_STRING ''deviceTypes'' mmo_deviceTypes_update True Local,
     read_bool ''deliveryWithInstall'' mmo_deliveryWithInstall_update True Local,
     read_bool ''installationFree'' mmo_installationFree_update False Local,
     read_string ''virtualMachine'' mmo_virtualMachine_update False Local,
     read_string ''uiSyntax'' mmo_uiSyntax_update False Local,
     read_string ''pages'' mmo_pages_update True Local,
     nested_array Module_Metadata_from_json AT_OBJECT ''metadata'' mmo_metadata_update False,
     nested_array Module_Ability_from_json AT_OBJECT ''abilities'' mmo_abilities_update False,
     nested_array Module_Extension_from_json AT_OBJECT ''extensionAbilities'' mmo_extensionAbilities_update False,
     read_array RequestPermission_from_json AT_OBJECT ''requestPermissions'' mmo_requestPermissions_update False Local,
     read_array DefinePermission_from_json AT_OBJECT ''definePermissions'' mmo_definePermissions_update False Local]"

definition Module_Module_members_2 :: "module_module step list" where
  "Module_Module_members_2 = [
     read_array get_string AT_STRING ''dependencies'' mmo_dependencies_update False Local]"

definition Module_Module_from_json :: "module_module nested_getter" where
  "Module_Module_from_json = nested_from_json new_Module_Module (Module_Module_members_1 @ Module_Module_members_2)"

definition Module_ModuleJson_from_json :: "module_module_json nested_getter" where
  "Module_ModuleJson_from_json = nested_from_json new_Module_ModuleJson [
     nested_object Module_App_from_json ''app'' mj_app_update True,
     nested_object Module_Module_from_json ''module'' mj_module_update True]"

end
