(* ===== verification/Module_Profile.thy ===== *)
theory Module_Profile
  imports Module_Json Bundle_Profile
begin

text \<open>
  \<open>module_profile.cpp\<close>, second part: \<open>module.json\<close> becomes the information of a bundle. The package, the
  device and the loop state are those of \<open>Bundle_Profile\<close>; the tables are the ones of this file.
\<close>

section \<open>Tables and checks\<close>

definition MODULE_TYPE_SET :: "string list" where
  "MODULE_TYPE_SET = [''entry'', ''feature'', ''har'']"

definition DEVICE_TYPE_SET :: "string list" where
  "DEVICE_TYPE_SET = [''phone'', ''tablet'', ''tv'', ''wearable'', ''liteWearable'', ''car'', ''smartVision'', ''router'']"

definition VIRTUAL_MACHINE_SET :: "string list" where
  "VIRTUAL_MACHINE_SET = [''ark'', ''default'']"

definition UI_SYNTAX_SET :: "string list" where
  "UI_SYNTAX_SET = [''hml'', ''ets'']"

definition EXTENSION_TYPE_SET :: "string list" where
  "EXTENSION_TYPE_SET =
     [''form'', ''workScheduler'', ''inputMethod'', ''service'', ''accessibility'', ''dataShare'', ''fileShare'',
      ''staticSubscriber'', ''wallpaper'', ''backup'', ''window'']"

definition ENTITY_TYPE_SET :: "string list" where
  "ENTITY_TYPE_SET =
     [''game'', ''media'', ''communication'', ''news'', ''travel'', ''utility'', ''shopping'', ''education'', ''kids'',
      ''business'', ''photography'', ''unspecified'']"

definition GRANT_MODE_SET :: "string list" where
  "GRANT_MODE_SET = [''system_grant'', ''user_grant'']"

definition AVAILABLE_LEVEL_SET :: "string list" where
  "AVAILABLE_LEVEL_SET = [''system_core'', ''system_basic'', ''normal'']"

definition Module_LAUNCH_MODE_MAP :: "(string \<times> launch_mode) list" where
  "Module_LAUNCH_MODE_MAP =
     [(''singleton'', LaunchMode_SINGLETON), (''standard'', LaunchMode_STANDARD), (''specified'', LaunchMode_SPECIFIED)]"

definition BACKGROUND_MODES_MAP :: "(string \<times> u32) list" where
  "BACKGROUND_MODES_MAP =
     [(''dataTransfer'', 0x1), (''audioPlayback'', 0x2), (''audioRecording'', 0x4), (''location'', 0x8),
      (''bluetoothInteraction'', 0x10), (''multiDeviceConnection'', 0x20), (''wifiInteraction'', 0x40),
      (''voip'', 0x80), (''taskKeeping'', 0x100), (''pictureInPicture'', 0x200), (''screenFetch'', 0x400)]"

definition Module_GetBackgroundModes :: "string list \<Rightarrow> u32" where
  "Module_GetBackgroundModes backgroundModes = flags_of BACKGROUND_MODES_MAP backgroundModes"

definition Module_CheckBundleNameIsValid :: "string \<Rightarrow> bool" where
  "Module_CheckBundleNameIsValid bundleName =
     (if bundleName = [] then False
      else if length bundleName < MIN_BUNDLE_NAME \<or> length bundleName > MAX_BUNDLE_NAME then False
      else (let h = hd bundleName in
            if h < CHR ''A'' \<or> (h > CHR ''Z'' \<and> h < CHR ''a'') \<or> h > CHR ''z'' then False
            else list_all (\<lambda>c. \<not> (c < CHR ''.'' \<or> c = CHR ''/'' \<or> (c > CHR ''9'' \<and> c < CHR ''A'') \<or>
                                 (c > CHR ''Z'' \<and> c < CHR ''_'') \<or> c = CHR 0x60 \<or> c > CHR ''z'')) bundleName))"

definition GetMetadata :: "metadata_item list \<Rightarrow> module_metadata list \<Rightarrow> metadata_item list" where
  "GetMetadata metadata profileMetadata =
     metadata @ map (\<lambda>x. \<lparr>md_name = mmd_name x, md_value = mmd_value x, md_resource = mmd_resource x\<rparr>) profileMetadata"

definition extension_type_values :: "extension_ability_type list" where
  "extension_type_values =
     [ExtensionAbilityType_FORM, ExtensionAbilityType_WORK_SCHEDULER, ExtensionAbilityType_INPUTMETHOD,
      ExtensionAbilityType_SERVICE, ExtensionAbilityType_ACCESSIBILITY, ExtensionAbilityType_DATASHARE,
      ExtensionAbilityType_FILESHARE, ExtensionAbilityType_STATICSUBSCRIBER, ExtensionAbilityType_WALLPAPER,
      ExtensionAbilityType_BACKUP, ExtensionAbilityType_WINDOW]"

text \<open>The index in the table is the number of the enumerator.\<close>

definition ConvertToExtensionAbilityType :: "string \<Rightarrow> extension_ability_type" where
  "ConvertToExtensionAbilityType type =
     table_value (zip EXTENSION_TYPE_SET extension_type_values) type ExtensionAbilityType_UNSPECIFIED"

section \<open>The application and the bundle\<close>

text \<open>A value that the profile sets for one kind of device replaces that of the application.\<close>

definition override :: "bool \<times> 'v \<Rightarrow> 'v \<Rightarrow> 'v" where
  "override setting old = (if fst setting then snd setting else old)"

definition adapt_device :: "module_device_config \<Rightarrow> bool \<Rightarrow> application_info \<Rightarrow> application_info" where
  "adapt_device dc isPreInstallApp a =
     (let a1 = a\<lparr>
            app_apiCompatibleVersion :=
              (if fst (mdc_minAPIVersion dc) then word_of_int (snd (mdc_minAPIVersion dc)) else app_apiCompatibleVersion a),
            app_distributedNotificationEnabled :=
              override (mdc_distributedNotificationEnabled dc) (app_distributedNotificationEnabled a)\<rparr>
      in if app_isSystemApp a1 \<and> isPreInstallApp
         then a1\<lparr>
           app_keepAlive := override (mdc_keepAlive dc) (app_keepAlive a1),
           app_singleton := override (mdc_singleton dc) (app_singleton a1),
           app_userDataClearable := override (mdc_userDataClearable dc) (app_userDataClearable a1),
           app_removable := override (mdc_removable dc) (app_removable a1),
           app_accessible := override (mdc_accessible dc) (app_accessible a1)\<rparr>
         else a1)"

definition Module_ToApplicationInfo ::
  "device \<Rightarrow> package \<Rightarrow> module_app \<Rightarrow> bool \<Rightarrow> application_info \<Rightarrow> application_info" where
  "Module_ToApplicationInfo d p app isPreInstallApp applicationInfo =
     (let versionCode = word_of_int (mapp_versionCode app) :: u32;
          a1 = applicationInfo\<lparr>
            app_name := mapp_bundleName app,
            app_bundleName := mapp_bundleName app,
            app_versionCode := versionCode,
            app_versionName := mapp_versionName app,
            app_minCompatibleVersionCode :=
              (if mapp_minCompatibleVersionCode app \<noteq> -1 then mapp_minCompatibleVersionCode app else sint versionCode),
            app_apiCompatibleVersion := word_of_int (mapp_minAPIVersion app),
            app_apiTargetVersion := mapp_targetAPIVersion app,
            app_iconPath := mapp_icon app,
            app_iconId := mapp_iconId app,
            app_label := mapp_label app,
            app_labelId := mapp_labelId app,
            app_description := mapp_description app,
            app_descriptionId := mapp_descriptionId app,
            app_targetBundleList := mapp_targetBundleList app\<rparr>;
          a2 = (if app_isSystemApp a1 \<and> isPreInstallApp
                then a1\<lparr>
                  app_keepAlive := mapp_keepAlive app,
                  app_singleton := mapp_singleton app,
                  app_userDataClearable := mapp_userDataClearable app,
                  app_removable := (if fst (mapp_removable app) then snd (mapp_removable app) else False),
                  app_accessible := mapp_accessible app\<rparr>
                else a1);
          a3 = a2\<lparr>
            app_apiReleaseType := mapp_apiReleaseType app,
            app_debug := mapp_debug app,
            app_deviceId := CURRENT_DEVICE_ID,
            app_distributedNotificationEnabled := mapp_distributedNotificationEnabled app,
            app_entityType := (if mapp_entityType app \<in> set ENTITY_TYPE_SET then mapp_entityType app else ''unspecified''),
            app_vendor := mapp_vendor app\<rparr>;
          a4 = (case map_of (mapp_deviceConfigs app) (dv_deviceType d) of
                  None \<Rightarrow> a3 | Some dc \<Rightarrow> adapt_device dc isPreInstallApp a3)
      in a4\<lparr>
           app_nativeLibraryPath := fst (native_library d p),
           app_cpuAbi := snd (native_library d p),
           app_enabled := True\<rparr>)"

definition Module_ToBundleInfo ::
  "application_info \<Rightarrow> inner_module_info \<Rightarrow> bool \<Rightarrow> bundle_info \<Rightarrow> bundle_info" where
  "Module_ToBundleInfo a m isPreInstallApp bundleInfo =
     (let b1 = bundleInfo\<lparr>
            bi_name := app_bundleName a,
            bi_versionCode := app_versionCode a,
            bi_versionName := app_versionName a,
            bi_minCompatibleVersionCode := word_of_int (app_minCompatibleVersionCode a),
            bi_compatibleVersion := app_apiCompatibleVersion a,
            bi_targetVersion := word_of_int (app_apiTargetVersion a),
            bi_isKeepAlive := app_keepAlive a,
            bi_singleton := app_singleton a,
            bi_isPreInstallApp := isPreInstallApp,
            bi_vendor := app_vendor a,
            bi_releaseType := app_apiReleaseType a,
            bi_isNativeApp := False\<rparr>
      in if im_isEntry m then b1\<lparr>bi_mainEntry := im_moduleName m, bi_entryModuleName := im_moduleName m\<rparr> else b1)"

section \<open>Abilities, extensions and the module\<close>

definition known_devices :: "string list \<Rightarrow> string list" where
  "known_devices = filter (\<lambda>t. t \<in> set DEVICE_TYPE_SET)"

definition Module_ToAbilityInfo ::
  "module_module_json \<Rightarrow> module_ability \<Rightarrow> ability_info \<Rightarrow> bool \<Rightarrow> bool \<Rightarrow> ability_info" where
  "Module_ToAbilityInfo c ability abilityInfo isSystemApp isPreInstallApp = abilityInfo\<lparr>
     ai_name := mab_name ability,
     ai_srcEntrance := mab_srcEntrance ability,
     ai_description := mab_description ability,
     ai_descriptionId := mab_descriptionId ability,
     ai_iconPath := mab_icon ability,
     ai_iconId := mab_iconId ability,
     ai_label := mab_label ability,
     ai_labelId := mab_labelId ability,
     ai_priority := (if isSystemApp \<and> isPreInstallApp then mab_priority ability else ai_priority abilityInfo),
     ai_permissions := mab_permissions ability,
     ai_visible := mab_visible ability,
     ai_continuable := mab_continuable ability,
     ai_backgroundModes := Module_GetBackgroundModes (mab_backgroundModes ability),
     ai_metadata := GetMetadata (ai_metadata abilityInfo) (mab_metadata ability),
     ai_package := mmo_name (mj_module c),
     ai_bundleName := mapp_bundleName (mj_app c),
     ai_moduleName := mmo_name (mj_module c),
     ai_applicationName := mapp_bundleName (mj_app c),
     ai_launchMode := table_value Module_LAUNCH_MODE_MAP (mab_launchType ability) (ai_launchMode abilityInfo),
     ai_enabled := True,
     ai_isModuleJson := True,
     ai_isStageBasedModel := True,
     ai_type := AbilityType_PAGE,
     ai_deviceTypes := ai_deviceTypes abilityInfo @ known_devices (mmo_deviceTypes (mj_module c)),
     ai_startWindowIcon := mab_startWindowIcon ability,
     ai_startWindowIconId := mab_startWindowIconId ability,
     ai_startWindowBackground := mab_startWindowBackground ability,
     ai_startWindowBackgroundId := mab_startWindowBackgroundId ability,
     ai_removeMissionAfterTerminate := mab_removeMissionAfterTerminate ability\<rparr>"

definition ToExtensionInfo ::
  "module_module_json \<Rightarrow> module_extension \<Rightarrow> extension_ability_info \<Rightarrow> bool \<Rightarrow> bool \<Rightarrow> extension_ability_info" where
  "ToExtensionInfo c extension extensionInfo isSystemApp isPreInstallApp =
     (let x1 = extensionInfo\<lparr>
            ei_name := mex_name extension,
            ei_srcEntrance := mex_srcEntrance extension,
            ei_icon := mex_icon extension,
            ei_iconId := mex_iconId extension,
            ei_label := mex_label extension,
            ei_labelId := mex_labelId extension,
            ei_description := mex_description extension,
            ei_descriptionId := mex_descriptionId extension,
            ei_type := ConvertToExtensionAbilityType (mex_type extension)\<rparr>;
          x2 = (if isSystemApp \<and> isPreInstallApp
                then x1\<lparr>
                  ei_priority := mex_priority extension,
                  ei_readPermission := mex_readPermission extension,
                  ei_writePermission := mex_writePermission extension\<rparr>
                else x1);
          x3 = x2\<lparr>
            ei_uri := mex_uri extension,
            ei_permissions := mex_permissions extension,
            ei_visible := mex_visible extension,
            ei_metadata := GetMetadata (ei_metadata x2) (mex_metadata extension),
            ei_bundleName := mapp_bundleName (mj_app c),
            ei_moduleName := mmo_name (mj_module c)\<rparr>
      in if ei_type x3 \<noteq> ExtensionAbilityType_SERVICE \<and> ei_type x3 \<noteq> ExtensionAbilityType_DATASHARE
         then x3\<lparr>ei_process := ei_bundleName x3 @ ''.'' @ ei_moduleName x3 @ '':'' @ ei_name x3\<rparr>
         else x3)"

definition GetPermissions :: "module_module_json \<Rightarrow> inner_module_info \<Rightarrow> bool \<Rightarrow> bool \<Rightarrow> inner_module_info" where
  "GetPermissions c m isSystemApp isPreInstallApp = m\<lparr>
     im_definePermissions := im_definePermissions m @
       (if isSystemApp \<and> isPreInstallApp
        then filter (\<lambda>q. dp_name q \<noteq> [] \<and> dp_grantMode q \<in> set GRANT_MODE_SET \<and> dp_availableLevel q \<in> set AVAILABLE_LEVEL_SET)
               (mmo_definePermissions (mj_module c))
        else []),
     im_requestPermissions := im_requestPermissions m @
       filter (\<lambda>q. rp_name q \<noteq> []) (mmo_requestPermissions (mj_module c))\<rparr>"

definition Module_ToInnerModuleInfo ::
  "module_module_json \<Rightarrow> inner_module_info \<Rightarrow> bool \<Rightarrow> bool \<Rightarrow> inner_module_info" where
  "Module_ToInnerModuleInfo c innerModuleInfo isSystemApp isPreInstallApp =
     (let m = mj_module c;
          x1 = innerModuleInfo\<lparr>
            im_modulePackage := mmo_name m,
            im_moduleName := mmo_name m,
            im_description := mmo_description m,
            im_descriptionId := mmo_descriptionId m,
            im_metadata := GetMetadata (im_metadata innerModuleInfo) (mmo_metadata m),
            im_distro := (im_distro innerModuleInfo)\<lparr>
              di_deliveryWithInstall := mmo_deliveryWithInstall m,
              di_installationFree := mmo_installationFree m,
              di_moduleName := mmo_name m\<rparr>,
            im_installationFree := mmo_installationFree m\<rparr>;
          x2 = (if mmo_type m \<in> set MODULE_TYPE_SET
                then x1\<lparr>
                  im_distro := (im_distro x1)\<lparr>di_moduleType := mmo_type m\<rparr>,
                  im_isEntry := (if mmo_type m = ''entry'' then True else im_isEntry x1)\<rparr>
                else x1);
          x3 = x2\<lparr>
            im_mainAbility := mmo_mainElement m,
            im_srcEntrance := mmo_srcEntrance m,
            im_process := (if mmo_process m \<noteq> [] then mmo_process m else mapp_bundleName (mj_app c)),
            im_deviceTypes := im_deviceTypes x2 @ known_devices (mmo_deviceTypes m),
            im_virtualMachine := (if mmo_virtualMachine m \<in> set VIRTUAL_MACHINE_SET then mmo_virtualMachine m else im_virtualMachine x2),
            im_uiSyntax := (if mmo_uiSyntax m \<in> set UI_SYNTAX_SET then mmo_uiSyntax m else im_uiSyntax x2),
            im_pages := mmo_pages m\<rparr>
      in (GetPermissions c x3 isSystemApp isPreInstallApp)\<lparr>
           im_dependencies := mmo_dependencies m,
           im_isModuleJson := True,
           im_isStageBasedModel := True\<rparr>)"

section \<open>The information of the bundle\<close>

definition module_json_key :: "module_module_json \<Rightarrow> string \<Rightarrow> string" where
  "module_json_key c = profile_key (mapp_bundleName (mj_app c)) (mmo_name (mj_module c))"

definition is_entry_skill :: "skill \<Rightarrow> bool" where
  "is_entry_skill skill \<longleftrightarrow> INTENT_ACTION_HOME \<in> set (sk_actions skill) \<and> INTENT_ENTITY_HOME \<in> set (sk_entities skill)"

text \<open>
  One ability. The first skill that makes it the entry ends the search. The code also marks a
  launcher in its local \<open>abilityInfo\<close> then, which has been inserted before and is not used again.
\<close>

definition module_ability_step ::
  "module_module_json \<Rightarrow> bool \<Rightarrow> module_ability \<Rightarrow> profile_state \<Rightarrow> profile_state" where
  "module_ability_step c isPreInstallApp ability s =
     (let a = Module_ToAbilityInfo c ability new_AbilityInfo (app_isSystemApp (ps_app s)) isPreInstallApp;
          key = module_json_key c (ai_name a);
          s1 = s\<lparr>
            ps_module := (ps_module s)\<lparr>
              im_abilityKeys := im_abilityKeys (ps_module s) @ [key],
              im_skillKeys := im_skillKeys (ps_module s) @ [key]\<rparr>,
            ps_info := InsertAbilitiesInfo key a (InsertSkillInfo key (mab_skills ability) (ps_info s))\<rparr>
      in if ps_find s1 then s1
         else (case find is_entry_skill (mab_skills ability) of
                 None \<Rightarrow> s1
               | Some skill \<Rightarrow> s1\<lparr>
                   ps_module := (ps_module s1)\<lparr>
                     im_entryAbilityKey := key, im_label := mab_label ability, im_labelId := mab_labelId ability\<rparr>,
                   ps_app :=
                     (if FLAG_HOME_INTENT_FROM_SYSTEM \<in> set (sk_entities skill) \<and> isPreInstallApp
                      then (ps_app s1)\<lparr>app_isLauncherApp := True\<rparr> else ps_app s1),
                   ps_find := True\<rparr>))"

definition module_extension_step ::
  "module_module_json \<Rightarrow> bool \<Rightarrow> module_extension \<Rightarrow> profile_state \<Rightarrow> profile_state" where
  "module_extension_step c isPreInstallApp extension s =
     (let x = ToExtensionInfo c extension new_ExtensionAbilityInfo (app_isSystemApp (ps_app s)) isPreInstallApp;
          key = module_json_key c (mex_name extension)
      in s\<lparr>
           ps_module := (ps_module s)\<lparr>
             im_extensionKeys := im_extensionKeys (ps_module s) @ [key],
             im_extensionSkillKeys := im_extensionSkillKeys (ps_module s) @ [key]\<rparr>,
           ps_info := InsertExtensionInfo key x (InsertExtensionSkillInfo key (mex_skills extension) (ps_info s))\<rparr>)"

definition Module_ToInnerBundleInfo ::
  "device \<Rightarrow> package \<Rightarrow> module_module_json \<Rightarrow> inner_bundle_info \<Rightarrow> bool \<times> inner_bundle_info" where
  "Module_ToInnerBundleInfo d p c i =
     (if \<not> Module_CheckBundleNameIsValid (mapp_bundleName (mj_app c)) then (False, i)
      else (let isPreInstallApp = IsPreInstallApp i;
                isSystemApp = (ib_appType i = AppType_SYSTEM_APP);
                app = Module_ToApplicationInfo d p (mj_app c) isPreInstallApp (new_ApplicationInfo\<lparr>app_isSystemApp := isSystemApp\<rparr>);
                m = Module_ToInnerModuleInfo c new_InnerModuleInfo (app_isSystemApp app) isPreInstallApp;
                bundleInfo = Module_ToBundleInfo app m isPreInstallApp new_BundleInfo;
                s1 = fold (module_ability_step c isPreInstallApp) (mmo_abilities (mj_module c))
                       \<lparr>ps_info = i, ps_app = app, ps_module = m, ps_find = False\<rparr>;
                s = fold (module_extension_step c isPreInstallApp) (mmo_extensionAbilities (mj_module c)) s1
            in (True, InsertInnerModuleInfo (mmo_name (mj_module c)) (ps_module s)
                  ((ps_info s)\<lparr>
                     ib_currentPackage := mmo_name (mj_module c),
                     ib_baseApplicationInfo := ps_app s,
                     ib_baseBundleInfo := bundleInfo\<rparr>))))"

text \<open>
  \<open>ModuleProfile::TransformTo\<close>: \<open>ps_local\<close> of the state is \<open>Profile::parseResult\<close>, \<open>ps_global\<close> is
  \<open>ProfileReader::parseResult\<close>, which this function neither looks at nor resets.
\<close>

definition Module_TransformTo ::
  "device \<Rightarrow> package \<Rightarrow> json option \<Rightarrow> inner_bundle_info \<Rightarrow> parse_state \<Rightarrow> (parse_code \<times> inner_bundle_info \<times> parse_state) option" where
  "Module_TransformTo d p source i st =
     (case source of
        None \<Rightarrow> Some (ERR_APPEXECFWK_PARSE_BAD_PROFILE, i, st)
      | Some j \<Rightarrow>
          (case Module_ModuleJson_from_json j st of
             None \<Rightarrow> None
           | Some (moduleJson, st1) \<Rightarrow>
               if ps_local st1 \<noteq> pr_OK then Some (code_of_result (ps_local st1), i, st1\<lparr>ps_local := pr_OK\<rparr>)
               else (let (ok, i1) = Module_ToInnerBundleInfo d p moduleJson i
                     in Some (if ok then PARSE_OK else ERR_APPEXECFWK_PARSE_PROFILE_PROP_CHECK_ERROR, i1, st1))))"

end
