(* ===== verification/Bundle_Parser.thy ===== *)
theory Bundle_Parser
  imports Module_Profile Bundle_Permission
begin

text \<open>
  \<open>bundle_parser.cpp\<close>, \<open>pre_bundle_profile.cpp\<close> and \<open>default_permission_profile.cpp\<close>: the parser of a package
  chooses the profile by the format; the configuration files of the device list what is preinstalled.
  Opening a file is an outcome of the environment: the JSON value is \<open>None\<close> when the file cannot be
  read or is no JSON. As in \<open>Module_Json\<close>, \<open>ps_local\<close> is \<open>Profile::parseResult\<close> and \<open>ps_global\<close> is
  \<open>ProfileReader::parseResult\<close>.
\<close>

section \<open>Packages\<close>

text \<open>What the archive says of the abilities of an old package is written into each of them and its module.\<close>

definition set_stage_based :: "package \<Rightarrow> string \<times> ability_info \<Rightarrow> inner_bundle_info \<Rightarrow> inner_bundle_info" where
  "set_stage_based p ka i =
     (let (key, a) = ka; stage = pk_isStageBasedModel p (ai_name a)
      in i\<lparr>ib_baseAbilityInfos := sm_update key (ai_isStageBasedModel_update (\<lambda>_. stage)) (ib_baseAbilityInfos i),
           ib_innerModuleInfos := sm_update (ai_package a) (im_isStageBasedModel_update (\<lambda>_. stage)) (ib_innerModuleInfos i)\<rparr>)"

definition BundleParser_Parse ::
  "device \<Rightarrow> package \<Rightarrow> inner_bundle_info \<Rightarrow> parse_state \<Rightarrow> (parse_code \<times> inner_bundle_info \<times> parse_state) option" where
  "BundleParser_Parse d p i st =
     (if \<not> pk_opens p then Some (ERR_APPEXECFWK_PARSE_UNEXPECTED, i, st)
      else (case pk_profile p of
              None \<Rightarrow> Some (ERR_APPEXECFWK_PARSE_NO_PROFILE, i, st)
            | Some source \<Rightarrow>
                if pk_isNewVersion p then Module_TransformTo d p source (i\<lparr>ib_isNewVersion := True\<rparr>) st
                else (case Config_TransformTo d p source (i\<lparr>ib_isNewVersion := False\<rparr>) (ps_global st) of
                        None \<Rightarrow> None
                      | Some (ret, i1, g) \<Rightarrow>
                          Some (ret,
                                if ret \<noteq> PARSE_OK then i1 else fold (set_stage_based p) (ib_baseAbilityInfos i1) i1,
                                st\<lparr>ps_global := g\<rparr>))))"

definition BundleParser_ParsePackInfo ::
  "package \<Rightarrow> bundle_pack_info \<Rightarrow> parse_result \<Rightarrow> (parse_code \<times> bundle_pack_info \<times> parse_result) option" where
  "BundleParser_ParsePackInfo p pack g =
     (if \<not> pk_opens p then Some (ERR_APPEXECFWK_PARSE_UNEXPECTED, pack, g)
      else if \<not> pk_hasPackInfo p then Some (PARSE_OK, pack, g)
      else (case pk_packInfo p of
              None \<Rightarrow> Some (ERR_APPEXECFWK_PARSE_NO_PROFILE, pack, g)
            | Some source \<Rightarrow> PackInfo_TransformTo source pack g))"

section \<open>What is preinstalled\<close>

record pre_scan_info =
  pre_bundleDir :: string
  pre_removable :: bool
  pre_priority :: int

definition new_PreScanInfo :: pre_scan_info where
  "new_PreScanInfo = \<lparr>pre_bundleDir = [], pre_removable = False, pre_priority = 0\<rparr>"

definition PreScanInfo_members :: "pre_scan_info step list" where
  "PreScanInfo_members = [
     read_string ''bundle_dir'' pre_bundleDir_update True Local,
     read_bool ''removable'' pre_removable_update False Local,
     read_number get_int32 ''priority'' pre_priority_update False Local]"

text \<open>The order of the set that holds them.\<close>

definition PreScanInfo_less :: "pre_scan_info \<Rightarrow> pre_scan_info \<Rightarrow> bool" where
  "PreScanInfo_less x y \<longleftrightarrow> (if pre_bundleDir x = pre_bundleDir y then False else pre_priority x \<ge> pre_priority y)"

text \<open>
  An entry without its name is skipped, one with a member of a wrong type ends the reading, and one whose
  name is there already is skipped. A list holds the elements of the set, in the order of their insertion.
\<close>

fun read_listed ::
  "'r \<Rightarrow> 'r step list \<Rightarrow> ('r \<Rightarrow> string) \<Rightarrow> json list \<Rightarrow> 'r list \<Rightarrow> (parse_code \<times> 'r list) option" where
  "read_listed new steps name [] infos = Some (PARSE_OK, infos)"
| "read_listed new steps name (j # js) infos =
     (if \<not> has_type JT_OBJECT j then Some (ERR_APPEXECFWK_PARSE_PROFILE_PROP_TYPE_ERROR, infos)
      else (case run_steps steps j (new, \<lparr>ps_local = pr_OK, ps_global = pr_OK\<rparr>) of
              None \<Rightarrow> None
            | Some (x, st) \<Rightarrow>
                if ps_local st = MISSING_PROP then read_listed new steps name js infos
                else if ps_local st \<noteq> pr_OK then Some (code_of_result (ps_local st), infos)
                else if name x \<in> name ` set infos then read_listed new steps name js infos
                else read_listed new steps name js (infos @ [x])))"

definition PreScanInfo_TransformTo :: "json \<Rightarrow> pre_scan_info list \<Rightarrow> (parse_code \<times> pre_scan_info list) option" where
  "PreScanInfo_TransformTo jsonBuf scanInfos =
     (case obj_find jsonBuf ''install_list'' of
        Some (JArr arrays) \<Rightarrow>
          if arrays = [] then Some (ERR_APPEXECFWK_PARSE_PROFILE_PROP_TYPE_ERROR, scanInfos)
          else read_listed new_PreScanInfo PreScanInfo_members pre_bundleDir arrays scanInfos
      | _ \<Rightarrow> Some (ERR_APPEXECFWK_PARSE_PROFILE_PROP_TYPE_ERROR, scanInfos))"

definition UninstallList_TransformTo :: "json \<Rightarrow> string list \<Rightarrow> (parse_code \<times> string list) option" where
  "UninstallList_TransformTo jsonBuf bundleNames =
     map_option (\<lambda>(names, st). (code_of_result (ps_local st), fold insort_insert names bundleNames))
       (read_array get_string AT_STRING ''uninstall_list'' (\<lambda>f. f) False Local jsonBuf
          ([], \<lparr>ps_local = pr_OK, ps_global = pr_OK\<rparr>))"

record pre_bundle_config_info =
  pbc_bundleName :: string
  pbc_systemapi :: bool
  pbc_keepAlive :: bool
  pbc_singleton :: bool
  pbc_userDataClearable :: bool
  pbc_multiProcess :: bool
  pbc_bootable :: bool
  pbc_notification :: bool
  pbc_hideDesktopIcon :: bool
  pbc_queryPriority :: bool
  pbc_startStaticBroadcast :: bool
  pbc_startGuiAbilityBackground :: bool

definition new_PreBundleConfigInfo :: pre_bundle_config_info where
  "new_PreBundleConfigInfo = \<lparr>
     pbc_bundleName = [], pbc_systemapi = False, pbc_keepAlive = False, pbc_singleton = False,
     pbc_userDataClearable = False, pbc_multiProcess = False, pbc_bootable = False, pbc_notification = False,
     pbc_hideDesktopIcon = False, pbc_queryPriority = False, pbc_startStaticBroadcast = False,
     pbc_startGuiAbilityBackground = False\<rparr>"

definition PreBundleConfigInfo_members :: "pre_bundle_config_info step list" where
  "PreBundleConfigInfo_members = [
     read_string ''bundleName'' pbc_bundleName_update True Local,
     read_bool ''systemapi'' pbc_systemapi_update False Local,
     read_bool ''keepAlive'' pbc_keepAlive_update False Local,
     read_bool ''singleton'' pbc_singleton_update False Local,
     read_bool ''userDataClearable'' pbc_userDataClearable_update False Local,
     read_bool ''multiProcess'' pbc_multiProcess_update False Local,
     read_bool ''bootable'' pbc_bootable_update False Local,
     read_bool ''notification'' pbc_notification_update False Local,
     read_bool ''hideDesktopIcon'' pbc_hideDesktopIcon_update False Local,
     read_bool ''queryPriority'' pbc_queryPriority_update False Local,
     read_bool ''startStaticBroadcast'' pbc_startStaticBroadcast_update False Local,
     read_bool ''startGuiAbilityBackground'' pbc_startGuiAbilityBackground_update False Local]"

definition PreBundleConfigInfo_TransformTo ::
  "json \<Rightarrow> pre_bundle_config_info list \<Rightarrow> (parse_code \<times> pre_bundle_config_info list) option" where
  "PreBundleConfigInfo_TransformTo jsonBuf infos =
     (case jsonBuf of
        JArr arrays \<Rightarrow>
          if arrays = [] then Some (ERR_APPEXECFWK_PARSE_PROFILE_PROP_TYPE_ERROR, infos)
          else read_listed new_PreBundleConfigInfo PreBundleConfigInfo_members pbc_bundleName arrays infos
      | _ \<Rightarrow> Some (ERR_APPEXECFWK_PARSE_PROFILE_PROP_TYPE_ERROR, infos))"

definition ParsePreInstallConfig :: "json option \<Rightarrow> pre_scan_info list \<Rightarrow> (parse_code \<times> pre_scan_info list) option" where
  "ParsePreInstallConfig file scanInfos =
     (case file of
        None \<Rightarrow> Some (ERR_APPEXECFWK_PARSE_FILE_FAILED, scanInfos)
      | Some jsonBuf \<Rightarrow> PreScanInfo_TransformTo jsonBuf scanInfos)"

definition ParsePreUnInstallConfig :: "json option \<Rightarrow> string list \<Rightarrow> (parse_code \<times> string list) option" where
  "ParsePreUnInstallConfig file bundleNames =
     (case file of
        None \<Rightarrow> Some (ERR_APPEXECFWK_PARSE_FILE_FAILED, bundleNames)
      | Some jsonBuf \<Rightarrow> UninstallList_TransformTo jsonBuf bundleNames)"

definition ParsePreInstallAbilityConfig ::
  "json option \<Rightarrow> pre_bundle_config_info list \<Rightarrow> (parse_code \<times> pre_bundle_config_info list) option" where
  "ParsePreInstallAbilityConfig file infos =
     (case file of
        None \<Rightarrow> Some (ERR_APPEXECFWK_PARSE_FILE_FAILED, infos)
      | Some jsonBuf \<Rightarrow> PreBundleConfigInfo_TransformTo jsonBuf infos)"

section \<open>Default permissions\<close>

text \<open>The namespace has a third thread-local \<open>parseResult\<close>; it is the global one of these readers.\<close>

definition PermissionInfo_from_json :: "permission_info getter" where
  "PermissionInfo_from_json = from_json \<lparr>pf_name = [], pf_userCancellable = False\<rparr> [
     read_string ''name'' pf_name_update True Global,
     read_bool ''userCancellable'' pf_userCancellable_update True Global]"

definition DefaultPermission_members :: "default_permission step list" where
  "DefaultPermission_members = [
     read_string ''bundleName'' df_bundleName_update True Global,
     read_array PermissionInfo_from_json AT_OBJECT ''permissions'' df_grantPermission_update False Global]"

fun read_permissions ::
  "json list \<Rightarrow> default_permission list \<Rightarrow> parse_result \<Rightarrow> (parse_code \<times> default_permission list \<times> parse_result) option" where
  "read_permissions [] ps g = Some (PARSE_OK, ps, g)"
| "read_permissions (j # js) ps g =
     (if \<not> has_type JT_OBJECT j then Some (ERR_APPEXECFWK_PARSE_PROFILE_PROP_TYPE_ERROR, ps, g)
      else (case run_steps DefaultPermission_members j
                   (\<lparr>df_bundleName = [], df_grantPermission = []\<rparr>, \<lparr>ps_local = pr_OK, ps_global = g\<rparr>) of
              None \<Rightarrow> None
            | Some (x, st) \<Rightarrow>
                if ps_global st \<noteq> pr_OK then Some (code_of_result (ps_global st), ps, pr_OK)
                else read_permissions js (ps @ [x]) (ps_global st)))"

definition DefaultPermission_TransformTo ::
  "json \<Rightarrow> default_permission list \<Rightarrow> parse_result \<Rightarrow> (parse_code \<times> default_permission list \<times> parse_result) option" where
  "DefaultPermission_TransformTo jsonObject ps g =
     (case jsonObject of JArr arrays \<Rightarrow> read_permissions arrays ps g | _ \<Rightarrow> Some (PARSE_OK, ps, g))"

definition ParseDefaultPermission ::
  "json option \<Rightarrow> default_permission list \<Rightarrow> parse_result \<Rightarrow> (parse_code \<times> default_permission list \<times> parse_result) option" where
  "ParseDefaultPermission file ps g =
     (case file of
        None \<Rightarrow> Some (ERR_APPEXECFWK_PARSE_FILE_FAILED, ps, g)
      | Some jsonObject \<Rightarrow> DefaultPermission_TransformTo jsonObject ps g)"

end
