(* ===== verification/Profile_Laws.thy ===== *)
theory Profile_Laws
  imports Bundle_Parser Json_Typed
begin

text \<open>
  Laws of the readers of profiles: they never throw, whatever the JSON value is, and after an error they
  leave everything as it is, so that a profile that is accepted has all the members it must have. A
  reader is covered when its steps are, which the collection \<open>total\<close> shows step by step.
\<close>

section \<open>Readers that do not throw\<close>

named_theorems total \<open>readers that give a value for every JSON value of their type\<close>

definition accepts :: "json_type \<Rightarrow> 'v getter \<Rightarrow> bool" where
  "accepts ty get \<longleftrightarrow> (\<forall>j g. has_type ty j \<longrightarrow> get j g \<noteq> None)"

definition accepts_nested :: "'v nested_getter \<Rightarrow> bool" where
  "accepts_nested get \<longleftrightarrow> (\<forall>j st. get j st \<noteq> None)"

definition never_throws :: "'r step \<Rightarrow> bool" where
  "never_throws s \<longleftrightarrow> (\<forall>j rst. s j rst \<noteq> None)"

lemma accepts_basic [total]:
  "accepts JT_STRING get_string" "accepts JT_BOOLEAN get_bool" "accepts JT_NUMBER get_int32"
  "accepts JT_NUMBER get_uint32"
  by (auto simp: accepts_def get_string_def get_bool_def get_int32_def get_uint32_def get_number_def split: json.splits)

lemma accepts_elements:
  "accepts ty get \<Longrightarrow> list_all (has_type ty) js \<Longrightarrow> get_elements get js g \<noteq> None"
  by (induction js arbitrary: g) (auto simp: accepts_def simp del: not_None_eq split: option.splits)

lemma CheckArrayType_answers:
  "accepts (element_type at) get \<Longrightarrow> CheckArrayType w at (get_vector get) arrays st \<noteq> None"
proof -
  assume a: "accepts (element_type at) get"
  show ?thesis
    using accepts_elements [OF a, of arrays]
    by (cases w) (auto simp: CheckArrayType_def Let_def get_vector_def result_of_def set_result_def simp del: not_None_eq)
qed

lemma never_throws_key:
  assumes "ty \<noteq> JT_ARRAY" "accepts ty get"
  shows "never_throws (GetValueIfFindKey get key upd ty nec w at)"
  using assms
  by (auto simp: never_throws_def GetValueIfFindKey_def accepts_def Let_def simp del: not_None_eq split: option.splits json_type.splits)

lemma never_throws_reads [total]:
  "never_throws (read_string key upds nec w)"
  "never_throws (read_bool key updb nec w)"
  "accepts JT_NUMBER getn \<Longrightarrow> never_throws (read_number getn key updn nec w)"
  "accepts JT_OBJECT geto \<Longrightarrow> never_throws (read_object geto key updo nec w)"
  unfolding read_string_def read_bool_def read_number_def read_object_def
  by (rule never_throws_key; simp add: total)+

lemma never_throws_array [total]:
  assumes "accepts (element_type at) get"
  shows "never_throws (read_array get at key upd nec w)"
  using CheckArrayType_answers [OF assms]
  by (auto simp: never_throws_def read_array_def GetValueIfFindKey_def Let_def simp del: not_None_eq split: option.splits json.splits)

lemma never_throws_if_present [total]: "never_throws s \<Longrightarrow> never_throws (if_present key mark s)"
  by (auto simp: never_throws_def if_present_def simp del: not_None_eq split: option.split)

lemma never_throws_nested_object [total]: "accepts_nested get \<Longrightarrow> never_throws (nested_object get key upd nec)"
  by (auto simp: never_throws_def accepts_nested_def nested_object_def simp del: not_None_eq split: option.split)

lemma nested_elements_answer: "accepts_nested get \<Longrightarrow> nested_elements get js st \<noteq> None"
  by (induction js arbitrary: st) (auto simp: accepts_nested_def simp del: not_None_eq split: option.splits)

lemma never_throws_nested_array [total]: "accepts_nested get \<Longrightarrow> never_throws (nested_array get at key upd nec)"
  using nested_elements_answer [of get]
  by (auto simp: never_throws_def nested_array_def simp del: not_None_eq split: option.splits json.splits)

lemma run_steps_answer: "list_all never_throws fs \<Longrightarrow> run_steps fs j rst \<noteq> None"
proof (induction fs arbitrary: rst)
  case (Cons f fs)
  then have "f j rst \<noteq> None" unfolding never_throws_def list.pred_inject by blast
  with Cons show ?case by (cases "f j rst") (simp_all del: not_None_eq)
qed simp

lemma accepts_from_json: "list_all never_throws steps \<Longrightarrow> accepts ty (from_json new steps)"
  using run_steps_answer by (fastforce simp: accepts_def from_json_def)

lemma accepts_nested_from_json: "list_all never_throws steps \<Longrightarrow> accepts_nested (nested_from_json new steps)"
  using run_steps_answer by (fastforce simp: accepts_nested_def nested_from_json_def)

lemmas reader_lists = list_all_steps element_type.simps list_all_append

subsection \<open>The structures of the data base and of \<open>pack.info\<close>\<close>

lemma accepts_base [total]:
  "accepts ty SkillUri_from_json"
  "accepts ty Distro_from_json"
  "accepts ty DefinePermission_from_json"
  "accepts ty RequestPermissionUsedScene_from_json"
  "accepts ty Version_from_json"
  "accepts ty AbilityFormInfo_from_json"
  "accepts ty ModuleDistro_from_json"
  "accepts ty ApiVersion_from_json"
  unfolding SkillUri_from_json_def Distro_from_json_def DefinePermission_from_json_def
    RequestPermissionUsedScene_from_json_def Version_from_json_def AbilityFormInfo_from_json_def
    ModuleDistro_from_json_def ApiVersion_from_json_def
  by (rule accepts_from_json; simp only: total reader_lists)+

lemma accepts_skill [total]: "accepts ty Skill_from_json"
  unfolding Skill_from_json_def by (rule accepts_from_json; simp only: total reader_lists)

lemma accepts_request [total]: "accepts ty RequestPermission_from_json"
  unfolding RequestPermission_from_json_def by (rule accepts_from_json; simp only: total reader_lists)

lemma accepts_pack_parts [total]:
  "accepts ty PackageApp_from_json"
  "accepts ty ExtensionAbilities_from_json"
  "accepts ty ModuleAbilityInfo_from_json"
  "accepts ty Packages_from_json"
  unfolding PackageApp_from_json_def ExtensionAbilities_from_json_def ModuleAbilityInfo_from_json_def Packages_from_json_def
  by (rule accepts_from_json; simp only: total reader_lists)+

lemma accepts_pack_module [total]: "accepts ty PackageModule_from_json"
  unfolding PackageModule_from_json_def by (rule accepts_from_json; simp only: total reader_lists)

lemma accepts_summary [total]: "accepts ty Summary_from_json"
  unfolding Summary_from_json_def by (rule accepts_from_json; simp only: total reader_lists)

lemma accepts_pack_info [total]: "accepts ty BundlePackInfo_from_json"
  unfolding BundlePackInfo_from_json_def by (rule accepts_from_json; simp only: total reader_lists)

subsection \<open>The structures of \<open>config.json\<close>\<close>

lemma accepts_config_1 [total]:
  "accepts ty Config_Version_from_json"
  "accepts ty Config_ApiVersion_from_json"
  "accepts ty Config_ReqVersion_from_json"
  "accepts ty Config_Domain_from_json"
  "accepts ty Config_Form_from_json"
  "accepts ty Config_CustomizeData_from_json"
  "accepts ty Config_FormsCustomizeData_from_json"
  "accepts ty Config_Window_from_json"
  "accepts ty Config_UriPermission_from_json"
  "accepts ty Config_Intent_from_json"
  "accepts ty Config_CommonEvent_from_json"
  unfolding Config_Version_from_json_def Config_ApiVersion_from_json_def Config_ReqVersion_from_json_def
    Config_Domain_from_json_def Config_Form_from_json_def Config_CustomizeData_from_json_def
    Config_FormsCustomizeData_from_json_def Config_Window_from_json_def Config_UriPermission_from_json_def
    Config_Intent_from_json_def Config_CommonEvent_from_json_def
  by (rule accepts_from_json; simp only: total reader_lists)+

lemma accepts_config_2 [total]:
  "accepts ty Config_App_from_json"
  "accepts ty Config_Ark_from_json"
  "accepts ty Config_DomainSetting_from_json"
  "accepts ty Config_MetaData_from_json"
  "accepts ty Config_FormsMetaData_from_json"
  "accepts ty Config_Js_from_json"
  "accepts ty Config_Shortcut_from_json"
  unfolding Config_App_from_json_def Config_Ark_from_json_def Config_DomainSetting_from_json_def
    Config_MetaData_from_json_def Config_FormsMetaData_from_json_def Config_Js_from_json_def Config_Shortcut_from_json_def
  by (rule accepts_from_json; simp only: total reader_lists)+

lemma accepts_config_security [total]: "accepts ty Config_SecurityConfig_from_json"
  unfolding Config_SecurityConfig_from_json_def by (rule accepts_from_json; simp only: total reader_lists)

lemma accepts_config_network [total]: "accepts ty Config_Network_from_json"
  unfolding Config_Network_from_json_def by (rule accepts_from_json; simp only: total reader_lists)

lemma accepts_config_device [total]: "accepts ty Config_Device_from_json"
  unfolding Config_Device_from_json_def by (rule accepts_from_json; simp only: total reader_lists)

lemma accepts_config_devices [total]: "accepts ty Config_DeviceConfig_from_json"
  unfolding Config_DeviceConfig_from_json_def by (rule accepts_from_json; simp only: total reader_lists)

lemma accepts_config_forms [total]: "accepts ty Config_Forms_from_json"
  unfolding Config_Forms_from_json_def Config_Forms_members_1_def Config_Forms_members_2_def
  by (rule accepts_from_json; simp only: total reader_lists)

lemma accepts_config_ability [total]: "accepts ty Config_Ability_from_json"
  unfolding Config_Ability_from_json_def Config_Ability_members_1_def Config_Ability_members_2_def Config_Ability_members_3_def
  by (rule accepts_from_json; simp only: total reader_lists)

lemma accepts_config_module [total]: "accepts ty Config_Module_from_json"
  unfolding Config_Module_from_json_def Config_Module_members_1_def Config_Module_members_2_def
  by (rule accepts_from_json; simp only: total reader_lists)

text \<open>Nothing is required of the type of the whole value, since looking for a member in another value finds none.\<close>

lemma config_json_answers: "Config_ConfigJson_from_json j g \<noteq> None"
proof -
  have "list_all never_throws
     [read_object Config_App_from_json ''app'' cj_app_update True Global,
      read_object Config_DeviceConfig_from_json ''deviceConfig'' cj_deveicConfig_update True Global,
      read_object Config_Module_from_json ''module'' cj_module_update True Global]"
    by (simp only: total reader_lists)
  then show ?thesis
    using run_steps_answer by (fastforce simp: Config_ConfigJson_from_json_def from_json_def)
qed

lemma pack_info_answers: "BundlePackInfo_from_json j g \<noteq> None"
proof -
  have "list_all never_throws
     [read_object Summary_from_json ''summary'' bp_summary_update False Local,
      read_array Packages_from_json AT_OBJECT ''packages'' bp_packages_update False Local]"
    by (simp only: total reader_lists)
  then show ?thesis
    using run_steps_answer by (fastforce simp: BundlePackInfo_from_json_def from_json_def)
qed

subsection \<open>The structures of \<open>module.json\<close>\<close>

lemma accepts_module_parts [total]:
  "accepts_nested Module_Metadata_from_json"
  "accepts_nested Module_DeviceConfig_from_json"
  unfolding Module_Metadata_from_json_def Module_DeviceConfig_from_json_def
  by (rule accepts_nested_from_json; simp only: total reader_lists)+

lemma accepts_module_abilities [total]:
  "accepts_nested Module_Ability_from_json"
  "accepts_nested Module_Extension_from_json"
  unfolding Module_Ability_from_json_def Module_Ability_members_1_def Module_Ability_members_2_def Module_Extension_from_json_def
  by (rule accepts_nested_from_json; simp only: total reader_lists)+

lemma never_throws_device [total]: "never_throws (read_device key)"
proof -
  have "never_throws (nested_object Module_DeviceConfig_from_json key (\<lambda>f. f) False)" by (simp only: total)
  then show ?thesis
    by (auto simp: never_throws_def read_device_def simp del: not_None_eq split: option.split)
qed

lemma accepts_module_app [total]: "accepts_nested Module_App_from_json"
  unfolding Module_App_from_json_def Module_App_members_1_def Module_App_members_2_def
  by (rule accepts_nested_from_json; simp only: total reader_lists)

lemma accepts_module_module [total]: "accepts_nested Module_Module_from_json"
  unfolding Module_Module_from_json_def Module_Module_members_1_def Module_Module_members_2_def
  by (rule accepts_nested_from_json; simp only: total reader_lists)

lemma module_json_answers: "Module_ModuleJson_from_json j st \<noteq> None"
proof -
  have "accepts_nested Module_ModuleJson_from_json"
    unfolding Module_ModuleJson_from_json_def by (rule accepts_nested_from_json; simp only: total reader_lists)
  then show ?thesis by (simp add: accepts_nested_def del: not_None_eq)
qed

section \<open>Readers that stop at an error\<close>

named_theorems stopping \<open>steps that keep an error\<close>

definition stops :: "result_var \<Rightarrow> 'r step \<Rightarrow> bool" where
  "stops w s \<longleftrightarrow> (\<forall>j r st r1 st1. s j (r, st) = Some (r1, st1) \<longrightarrow> result_of w st \<noteq> pr_OK \<longrightarrow> result_of w st1 \<noteq> pr_OK)"

lemma stopsD: "stops w s \<Longrightarrow> s j (r, st) = Some (r1, st1) \<Longrightarrow> result_of w st1 = pr_OK \<Longrightarrow> result_of w st = pr_OK"
  unfolding stops_def by blast

lemma stops_reads [stopping]:
  "stops w (read_string key upds nec w)"
  "stops w (read_bool key updb nec w)"
  "stops w (read_number getn key updn nec w)"
  "stops w (read_object geto key updo nec w)"
  "stops w (read_array geta at key upda nec w)"
  by (simp_all add: stops_def read_string_def read_bool_def read_number_def read_object_def read_array_def GetValueIfFindKey_def)

lemma stops_if_present [stopping]: "stops w s \<Longrightarrow> stops w (if_present key mark s)"
  unfolding stops_def if_present_def by (auto split: option.splits)

lemma stops_nested [stopping]:
  "stops Local (nested_object geto key updo nec)"
  "stops Local (nested_array geta at key upda nec)"
  by (simp_all add: stops_def nested_object_def nested_array_def result_of_def)

lemma stops_device [stopping]: "stops Local (read_device key)"
  unfolding stops_def read_device_def by (auto simp: nested_object_def result_of_def split: option.splits)

lemma run_steps_stop:
  "list_all (stops w) fs \<Longrightarrow> run_steps fs j (r, st) = Some (r1, st1) \<Longrightarrow> result_of w st1 = pr_OK \<Longrightarrow> result_of w st = pr_OK"
proof (induction fs arbitrary: r st)
  case (Cons f fs)
  then obtain r2 st2 where "f j (r, st) = Some (r2, st2)" "run_steps fs j (r2, st2) = Some (r1, st1)"
    by (auto split: option.splits)
  with Cons have "result_of w st2 = pr_OK" "stops w f" by simp_all
  with \<open>f j (r, st) = _\<close> show ?case by (blast intro: stopsD)
qed simp

text \<open>
  A reader that ends without an error has passed each of its steps without one, and what a later step
  does not write is still there.
\<close>

lemma run_steps_at:
  assumes "run_steps (fs @ f # gs) j (r, st) = Some (r1, st1)" "result_of w st1 = pr_OK" "list_all (stops w) (f # gs)"
  obtains r2 st2 r3 st3 where "f j (r2, st2) = Some (r3, st3)" "result_of w st2 = pr_OK" "result_of w st3 = pr_OK"
    "run_steps gs j (r3, st3) = Some (r1, st1)"
proof -
  from assms(1) obtain r2 st2 r3 st3 where f: "f j (r2, st2) = Some (r3, st3)" and g: "run_steps gs j (r3, st3) = Some (r1, st1)"
    by (auto simp: run_steps_append split: option.splits)
  from run_steps_stop [OF _ g assms(2)] assms(3) have ok: "result_of w st3 = pr_OK" by simp
  from assms(3) have "stops w f" by simp
  from stopsD [OF this f ok] have "result_of w st2 = pr_OK" .
  with f g ok that show ?thesis by blast
qed

lemma keeps_result:
  "list_all (keeps P) gs \<Longrightarrow> run_steps gs j (r, st) = Some (r1, st1) \<Longrightarrow> P r \<Longrightarrow> P r1"
  using keeps_steps [of P gs] by (fastforce simp: keeps_def)

lemma keeps_if_present [typing]: "keeps P s \<Longrightarrow> (\<And>r. P r \<Longrightarrow> P (mark r)) \<Longrightarrow> keeps P (if_present key mark s)"
  by (fastforce simp: keeps_def if_present_def split: option.splits)

lemma keeps_reads_any:
  "(\<And>r f. P r \<Longrightarrow> P (updn f r)) \<Longrightarrow> keeps P (read_number getn key updn nec w)"
  "(\<And>r f. P r \<Longrightarrow> P (updo f r)) \<Longrightarrow> keeps P (read_object geto key updo nec w)"
  "(\<And>r f. P r \<Longrightarrow> P (upda f r)) \<Longrightarrow> keeps P (read_array geta at key upda nec w)"
  by (rule keeps_reads(3) [OF typed_trivial], simp, rule keeps_reads(4) [OF typed_trivial], simp,
      rule keeps_reads(5) [OF typed_trivial], simp)

lemma keeps_nested_any:
  "(\<And>r f. P r \<Longrightarrow> P (updo f r)) \<Longrightarrow> keeps P (nested_object geto key updo nec)"
  "(\<And>r f. P r \<Longrightarrow> P (upda f r)) \<Longrightarrow> keeps P (nested_array geta at key upda nec)"
  by (auto simp: keeps_def nested_object_def nested_array_def split: option.splits if_splits json.splits)

lemma keeps_device:
  "(\<And>r f. P r \<Longrightarrow> P (mapp_deviceConfigs_update f r)) \<Longrightarrow> keeps P (read_device key)"
  by (auto simp: keeps_def read_device_def split: option.splits)

subsection \<open>A required member\<close>

lemma required_string:
  assumes "read_string key upd True w j (r, st) = Some (r1, st1)" "result_of w st = pr_OK" "result_of w st1 = pr_OK"
  obtains s where "obj_find j key = Some (JStr s)" "r1 = upd (\<lambda>_. s) r"
  using assms
  by (auto simp: read_string_def GetValueIfFindKey_def Let_def result_of_def set_result_def get_string_def
      split: option.splits if_splits json.splits result_var.splits)

lemma required_int32:
  assumes "read_number get_int32 key upd True w j (r, st) = Some (r1, st1)" "result_of w st = pr_OK" "result_of w st1 = pr_OK"
  obtains n where "obj_find j key = Some (JNum n)" "r1 = upd (\<lambda>_. signed_take_bit 31 n) r"
  using assms
  by (auto simp: read_number_def GetValueIfFindKey_def Let_def result_of_def set_result_def get_int32_def get_number_def
      split: option.splits if_splits json.splits result_var.splits)

lemma required_object:
  assumes "read_object get key upd True w j (r, st) = Some (r1, st1)" "result_of w st = pr_OK" "result_of w st1 = pr_OK"
  obtains v x g where "obj_find j key = Some v" "get v (ps_global st) = Some (x, g)" "r1 = upd (\<lambda>_. x) r" "st1 = st\<lparr>ps_global := g\<rparr>"
  using assms
  by (auto simp: read_object_def GetValueIfFindKey_def Let_def result_of_def set_result_def
      split: option.splits if_splits json.splits result_var.splits)

lemma required_nested:
  assumes "nested_object get key upd True j (r, st) = Some (r1, st1)" "ps_local st = pr_OK" "ps_local st1 = pr_OK"
  obtains v x where "obj_find j key = Some v" "get v st = Some (x, st1)" "r1 = upd (\<lambda>_. x) r"
  using assms by (auto simp: nested_object_def split: option.splits if_splits)

text \<open>
  The member at position \<open>i\<close> of a reader without an error: \<open>sel\<close> reads what the step writes, and the later
  steps do not write it.
\<close>

lemma run_steps_nth:
  assumes "run_steps fs j (r, st) = Some (r1, st1)" "result_of w st1 = pr_OK" "list_all (stops w) fs" "i < length fs"
  obtains r2 st2 r3 st3 where "(fs ! i) j (r2, st2) = Some (r3, st3)" "result_of w st2 = pr_OK" "result_of w st3 = pr_OK"
    "run_steps (drop (Suc i) fs) j (r3, st3) = Some (r1, st1)"
proof -
  have split: "take i fs @ fs ! i # drop (Suc i) fs = fs" using assms(4) by (rule id_take_nth_drop [symmetric])
  then have "list_all (stops w) (take i fs @ fs ! i # drop (Suc i) fs)" using assms(3) by simp
  then have tail: "list_all (stops w) (fs ! i # drop (Suc i) fs)" by (simp only: list_all_append)
  from assms(1) have "run_steps (take i fs @ fs ! i # drop (Suc i) fs) j (r, st) = Some (r1, st1)" by (simp only: split)
  from run_steps_at [OF this assms(2) tail] that show ?thesis by blast
qed

lemma string_at:
  assumes "run_steps fs j (r, st) = Some (r1, st1)" "result_of w st1 = pr_OK" "list_all (stops w) fs" "i < length fs"
    and "fs ! i = read_string key upd True w" "\<And>v. list_all (keeps (\<lambda>r. sel r = v)) (drop (Suc i) fs)" "\<And>v r. sel (upd (\<lambda>_. v) r) = v"
  shows "obj_find j key = Some (JStr (sel r1))"
proof -
  from run_steps_nth [OF assms(1-4)] obtain r2 st2 r3 st3 where s: "read_string key upd True w j (r2, st2) = Some (r3, st3)"
    "result_of w st2 = pr_OK" "result_of w st3 = pr_OK" and rest: "run_steps (drop (Suc i) fs) j (r3, st3) = Some (r1, st1)"
    using assms(5) by metis
  from required_string [OF s] obtain v where v: "obj_find j key = Some (JStr v)" "r3 = upd (\<lambda>_. v) r2" .
  from keeps_result [OF assms(6) rest, of v] v assms(7) show ?thesis by simp
qed

lemma int32_at:
  assumes "run_steps fs j (r, st) = Some (r1, st1)" "result_of w st1 = pr_OK" "list_all (stops w) fs" "i < length fs"
    and "fs ! i = read_number get_int32 key upd True w" "\<And>v. list_all (keeps (\<lambda>r. sel r = v)) (drop (Suc i) fs)" "\<And>v r. sel (upd (\<lambda>_. v) r) = v"
  shows "\<exists>n. obj_find j key = Some (JNum n) \<and> sel r1 = signed_take_bit 31 n"
proof -
  from run_steps_nth [OF assms(1-4)] obtain r2 st2 r3 st3 where s: "read_number get_int32 key upd True w j (r2, st2) = Some (r3, st3)"
    "result_of w st2 = pr_OK" "result_of w st3 = pr_OK" and rest: "run_steps (drop (Suc i) fs) j (r3, st3) = Some (r1, st1)"
    using assms(5) by metis
  from required_int32 [OF s] obtain v where v: "obj_find j key = Some (JNum v)" "r3 = upd (\<lambda>_. signed_take_bit 31 v) r2" .
  from keeps_result [OF assms(6) rest, of "signed_take_bit 31 v"] v assms(7) show ?thesis by simp
qed

lemma object_at:
  assumes "run_steps fs j (r, st) = Some (r1, st1)" "result_of Global st1 = pr_OK" "list_all (stops Global) fs" "i < length fs"
    and "fs ! i = read_object get key upd True Global" "\<And>v. list_all (keeps (\<lambda>r. sel r = v)) (drop (Suc i) fs)" "\<And>v r. sel (upd (\<lambda>_. v) r) = v"
  shows "\<exists>v g. obj_find j key = Some v \<and> get v g = Some (sel r1, pr_OK)"
proof -
  from run_steps_nth [OF assms(1-4)] obtain r2 st2 r3 st3 where s: "read_object get key upd True Global j (r2, st2) = Some (r3, st3)"
    "result_of Global st2 = pr_OK" "result_of Global st3 = pr_OK" and rest: "run_steps (drop (Suc i) fs) j (r3, st3) = Some (r1, st1)"
    using assms(5) by metis
  from required_object [OF s] obtain v x g where v: "obj_find j key = Some v" "get v (ps_global st2) = Some (x, g)"
    "r3 = upd (\<lambda>_. x) r2" "st3 = st2\<lparr>ps_global := g\<rparr>" .
  from keeps_result [OF assms(6) rest, of x] v assms(7) s(3) show ?thesis by (auto simp: result_of_def)
qed

lemma nested_at:
  assumes "run_steps fs j (r, st) = Some (r1, st1)" "result_of Local st1 = pr_OK" "list_all (stops Local) fs" "i < length fs"
    and "fs ! i = nested_object get key upd True" "\<And>v. list_all (keeps (\<lambda>r. sel r = v)) (drop (Suc i) fs)" "\<And>v r. sel (upd (\<lambda>_. v) r) = v"
  shows "\<exists>v st2 st3. obj_find j key = Some v \<and> get v st2 = Some (sel r1, st3) \<and> ps_local st3 = pr_OK"
proof -
  from run_steps_nth [OF assms(1-4)] obtain r2 st2 r3 st3 where s: "nested_object get key upd True j (r2, st2) = Some (r3, st3)"
    "result_of Local st2 = pr_OK" "result_of Local st3 = pr_OK" and rest: "run_steps (drop (Suc i) fs) j (r3, st3) = Some (r1, st1)"
    using assms(5) by metis
  from required_nested [OF s(1)] s(2,3) obtain v x where v: "obj_find j key = Some v" "get v st2 = Some (x, st3)" "r3 = upd (\<lambda>_. x) r2"
    by (auto simp: result_of_def)
  from keeps_result [OF assms(6) rest, of x] v assms(7) s(3) show ?thesis by (auto simp: result_of_def)
qed

end
