(* ===== verification/Profile_Declares.thy ===== *)
theory Profile_Declares
  imports Profile_Laws
begin

text \<open>
  What the profile of an accepted package declares, read off its JSON value, and the names that bundles can
  have.
\<close>

section \<open>What a profile declares\<close>

lemmas kept_members = keeps_reads(1,2) keeps_reads_any keeps_nested_any keeps_if_present keeps_device

lemma config_version_declares:
  assumes "Config_Version_from_json j g = Some (v, pr_OK)"
  shows "\<exists>n. obj_find j ''code'' = Some (JNum n) \<and> cv_code v = signed_take_bit 31 n"
    and "obj_find j ''name'' = Some (JStr (cv_name v))"
proof -
  let ?steps = "[read_number get_int32 ''code'' cv_code_update True Global, read_string ''name'' cv_name_update True Global,
     read_number get_int32 ''minCompatibleVersionCode'' cv_minCompatibleVersionCode_update False Global]"
  from assms obtain st where run: "run_steps ?steps j (new_Config_Version, \<lparr>ps_local = pr_OK, ps_global = g\<rparr>) = Some (v, st)"
    and ok: "result_of Global st = pr_OK"
    by (auto simp: Config_Version_from_json_def from_json_def result_of_def)
  have stops: "list_all (stops Global) ?steps" by (simp add: stopping)
  show "\<exists>n. obj_find j ''code'' = Some (JNum n) \<and> cv_code v = signed_take_bit 31 n"
    by (rule int32_at [OF run ok stops, where i = 0]) (simp add: kept_members)+
  show "obj_find j ''name'' = Some (JStr (cv_name v))"
    by (rule string_at [OF run ok stops, where i = 1]) (simp add: kept_members)+
qed

lemma config_app_declares:
  assumes "Config_App_from_json j g = Some (a, pr_OK)"
  shows "obj_find j ''bundleName'' = Some (JStr (capp_bundleName a))"
    and "\<exists>v n. obj_find j ''version'' = Some v \<and> obj_find v ''code'' = Some (JNum n) \<and>
           cv_code (capp_version a) = signed_take_bit 31 n \<and> obj_find v ''name'' = Some (JStr (cv_name (capp_version a)))"
proof -
  obtain steps where steps: "Config_App_from_json = from_json new_Config_App steps" "list_all (stops Global) steps" "length steps = 11"
    "steps ! 0 = read_string ''bundleName'' capp_bundleName_update True Global"
    "steps ! 2 = read_object Config_Version_from_json ''version'' capp_version_update True Global"
    "\<And>v. list_all (keeps (\<lambda>r. capp_bundleName r = v)) (drop (Suc 0) steps)"
    "\<And>v. list_all (keeps (\<lambda>r. capp_version r = v)) (drop (Suc 2) steps)"
    by (rule that, rule Config_App_from_json_def) (simp add: stopping kept_members)+
  from assms obtain st where run: "run_steps steps j (new_Config_App, \<lparr>ps_local = pr_OK, ps_global = g\<rparr>) = Some (a, st)"
    and ok: "result_of Global st = pr_OK"
    by (auto simp: steps(1) from_json_def result_of_def)
  show "obj_find j ''bundleName'' = Some (JStr (capp_bundleName a))"
    by (rule string_at [OF run ok steps(2) _ steps(4,6)]) (simp_all add: steps(3))
  obtain v g1 where "obj_find j ''version'' = Some v" "Config_Version_from_json v g1 = Some (capp_version a, pr_OK)"
    using object_at [OF run ok steps(2) _ steps(5,7)] by (auto simp: steps(3))
  with config_version_declares show "\<exists>v n. obj_find j ''version'' = Some v \<and> obj_find v ''code'' = Some (JNum n) \<and>
           cv_code (capp_version a) = signed_take_bit 31 n \<and> obj_find v ''name'' = Some (JStr (cv_name (capp_version a)))"
    by blast
qed

lemma config_json_declares:
  assumes "Config_ConfigJson_from_json j g = Some (c, pr_OK)"
  shows "\<exists>app g1. obj_find j ''app'' = Some app \<and> Config_App_from_json app g1 = Some (cj_app c, pr_OK)"
proof -
  let ?steps = "[read_object Config_App_from_json ''app'' cj_app_update True Global,
     read_object Config_DeviceConfig_from_json ''deviceConfig'' cj_deveicConfig_update True Global,
     read_object Config_Module_from_json ''module'' cj_module_update True Global]"
  from assms obtain st where run: "run_steps ?steps j (new_Config_ConfigJson, \<lparr>ps_local = pr_OK, ps_global = g\<rparr>) = Some (c, st)"
    and ok: "result_of Global st = pr_OK"
    by (auto simp: Config_ConfigJson_from_json_def from_json_def result_of_def)
  have stops: "list_all (stops Global) ?steps" by (simp add: stopping)
  show ?thesis
    by (rule object_at [OF run ok stops, where i = 0]) (simp add: kept_members)+
qed

lemma module_app_declares:
  assumes "Module_App_from_json j st = Some (a, st1)" "ps_local st1 = pr_OK"
  shows "obj_find j ''bundleName'' = Some (JStr (mapp_bundleName a))"
    and "\<exists>n. obj_find j ''versionCode'' = Some (JNum n) \<and> mapp_versionCode a = signed_take_bit 31 n"
    and "obj_find j ''versionName'' = Some (JStr (mapp_versionName a))"
proof -
  let ?steps = "Module_App_members_1 @ Module_App_members_2"
  have stops: "list_all (stops Local) ?steps"
    by (simp add: Module_App_members_1_def Module_App_members_2_def stopping)
  from assms(1) have run: "run_steps ?steps j (new_Module_App, st) = Some (a, st1)"
    by (simp add: Module_App_from_json_def nested_from_json_def)
  have ok: "result_of Local st1 = pr_OK" using assms(2) by (simp add: result_of_def)
  show "obj_find j ''bundleName'' = Some (JStr (mapp_bundleName a))"
    by (rule string_at [OF run ok stops, where i = 0])
      (simp add: kept_members Module_App_members_1_def Module_App_members_2_def)+
  show "\<exists>n. obj_find j ''versionCode'' = Some (JNum n) \<and> mapp_versionCode a = signed_take_bit 31 n"
    by (rule int32_at [OF run ok stops, where i = 9])
      (simp add: kept_members Module_App_members_1_def Module_App_members_2_def)+
  show "obj_find j ''versionName'' = Some (JStr (mapp_versionName a))"
    by (rule string_at [OF run ok stops, where i = 10])
      (simp add: kept_members Module_App_members_1_def Module_App_members_2_def)+
qed

lemma module_json_declares:
  assumes "Module_ModuleJson_from_json j st = Some (c, st1)" "ps_local st1 = pr_OK"
  shows "\<exists>app st2 st3. obj_find j ''app'' = Some app \<and> Module_App_from_json app st2 = Some (mj_app c, st3) \<and> ps_local st3 = pr_OK"
proof -
  let ?steps = "[nested_object Module_App_from_json ''app'' mj_app_update True,
     nested_object Module_Module_from_json ''module'' mj_module_update True]"
  have stops: "list_all (stops Local) ?steps" by (simp add: stopping)
  have ok: "result_of Local st1 = pr_OK" using assms(2) by (simp add: result_of_def)
  from assms(1) have run: "run_steps ?steps j (new_Module_ModuleJson, st) = Some (c, st1)"
    by (simp add: Module_ModuleJson_from_json_def nested_from_json_def)
  show ?thesis
    by (rule nested_at [OF run ok stops, where i = 0]) (simp add: kept_members)+
qed

section \<open>Names of bundles\<close>

definition is_letter :: "char \<Rightarrow> bool" where
  "is_letter c \<longleftrightarrow> CHR ''A'' \<le> c \<and> c \<le> CHR ''Z'' \<or> CHR ''a'' \<le> c \<and> c \<le> CHR ''z''"

definition is_digit :: "char \<Rightarrow> bool" where
  "is_digit c \<longleftrightarrow> CHR ''0'' \<le> c \<and> c \<le> CHR ''9''"

definition valid_bundle_name :: "string \<Rightarrow> bool" where
  "valid_bundle_name s \<longleftrightarrow>
     7 \<le> length s \<and> length s \<le> 255 \<and> is_letter (hd s) \<and>
     (\<forall>c \<in> set s. is_letter c \<or> is_digit c \<or> c = CHR ''.'' \<or> c = CHR ''_'')"

lemma char_less_nat: "(a::char) < b \<longleftrightarrow> (of_char a :: nat) < of_char b" "(a::char) \<le> b \<longleftrightarrow> (of_char a :: nat) \<le> of_char b"
  by (simp_all add: less_char_def less_eq_char_def)

lemma char_eq_nat: "(a::char) = b \<longleftrightarrow> (of_char a :: nat) = of_char b"
  by simp

lemma name_char:
  "\<not> (c < CHR ''.'' \<or> c = CHR ''/'' \<or> (CHR ''9'' < c \<and> c < CHR ''A'') \<or> (CHR ''Z'' < c \<and> c < CHR ''_'') \<or> c = CHR 0x60 \<or> c > CHR ''z'')
     \<longleftrightarrow> is_letter c \<or> is_digit c \<or> c = CHR ''.'' \<or> c = CHR ''_''"
  unfolding is_letter_def is_digit_def char_less_nat char_eq_nat by (simp del: of_char_eq_iff) presburger

lemma name_head:
  "\<not> (h < CHR ''A'' \<or> (CHR ''Z'' < h \<and> h < CHR ''a'') \<or> h > CHR ''z'') \<longleftrightarrow> is_letter h"
  unfolding is_letter_def char_less_nat by simp presburger

lemma module_name_check: "Module_CheckBundleNameIsValid s = CheckBundleNameIsValid s"
  by (simp add: Module_CheckBundleNameIsValid_def CheckBundleNameIsValid_def)

lemma config_name_check: "CheckBundleNameIsValid s \<longleftrightarrow> valid_bundle_name s"
  unfolding CheckBundleNameIsValid_def valid_bundle_name_def Let_def MIN_BUNDLE_NAME_def MAX_BUNDLE_NAME_def
    list_all_iff name_char
  using name_head [of "hd s"] by auto

end
