(* ===== verification/Profile_Correct.thy ===== *)
theory Profile_Correct
  imports Profile_Declares Install_Outcome
begin

text \<open>
  What holds of a package that the parsers accept, and of one that they refuse: the name of the bundle, its
  version, the privileges that only preinstalled system applications get, and the keys under which its
  abilities are found. The locale \<open>profile_parser\<close> is what the parser of packages relies on; both formats
  satisfy it.
\<close>

section \<open>The abilities of a module\<close>

text \<open>What the search for the entry ability can change is masked out.\<close>

definition mask_app :: "application_info \<Rightarrow> application_info" where
  "mask_app a = a\<lparr>app_label := [], app_labelId := 0, app_iconPath := [], app_iconId := 0, app_description := [],
     app_descriptionId := 0, app_isLauncherApp := False\<rparr>"

definition mask_module :: "inner_module_info \<Rightarrow> inner_module_info" where
  "mask_module m = m\<lparr>im_entryAbilityKey := [], im_label := [], im_labelId := 0\<rparr>"

definition mask_ability :: "ability_info \<Rightarrow> ability_info" where
  "mask_ability a = a\<lparr>ai_isLauncherAbility := False, ai_isStageBasedModel := False\<rparr>"

lemma mask_app_members:
  "app_keepAlive (mask_app a) = app_keepAlive a"
  "app_singleton (mask_app a) = app_singleton a"
  "app_removable (mask_app a) = app_removable a"
  "app_userDataClearable (mask_app a) = app_userDataClearable a"
  "app_accessible (mask_app a) = app_accessible a"
  "app_isSystemApp (mask_app a) = app_isSystemApp a"
  "app_bundleName (mask_app a) = app_bundleName a"
  "app_name (mask_app a) = app_name a"
  "app_versionCode (mask_app a) = app_versionCode a"
  "app_versionName (mask_app a) = app_versionName a"
  by (simp_all add: mask_app_def)

lemma mask_app_eq:
  assumes "mask_app a = mask_app b"
  shows "app_keepAlive a = app_keepAlive b"
    "app_singleton a = app_singleton b"
    "app_removable a = app_removable b"
    "app_userDataClearable a = app_userDataClearable b"
    "app_accessible a = app_accessible b"
    "app_isSystemApp a = app_isSystemApp b"
    "app_bundleName a = app_bundleName b"
    "app_name a = app_name b"
    "app_versionCode a = app_versionCode b"
    "app_versionName a = app_versionName b"
  using mask_app_members [of a] mask_app_members [of b] by (simp_all only: assms)

lemma mask_module_members:
  "im_abilityKeys (mask_module a) = im_abilityKeys a"
  "im_skillKeys (mask_module a) = im_skillKeys a"
  "im_extensionKeys (mask_module a) = im_extensionKeys a"
  "im_extensionSkillKeys (mask_module a) = im_extensionSkillKeys a"
  "im_definePermissions (mask_module a) = im_definePermissions a"
  "im_modulePackage (mask_module a) = im_modulePackage a"
  by (simp_all add: mask_module_def)

lemma mask_module_eq:
  assumes "mask_module a = mask_module b"
  shows "im_abilityKeys a = im_abilityKeys b"
    "im_skillKeys a = im_skillKeys b"
    "im_extensionKeys a = im_extensionKeys b"
    "im_extensionSkillKeys a = im_extensionSkillKeys b"
    "im_definePermissions a = im_definePermissions b"
    "im_modulePackage a = im_modulePackage b"
  using mask_module_members [of a] mask_module_members [of b] by (simp_all only: assms)

lemma mask_ability_members:
  "ai_name (mask_ability a) = ai_name a"
  "ai_bundleName (mask_ability a) = ai_bundleName a"
  "ai_package (mask_ability a) = ai_package a"
  "ai_priority (mask_ability a) = ai_priority a"
  by (simp_all add: mask_ability_def)

lemma mask_ability_eq:
  assumes "mask_ability a = mask_ability b"
  shows "ai_name a = ai_name b"
    "ai_bundleName a = ai_bundleName b"
    "ai_package a = ai_package b"
    "ai_priority a = ai_priority b"
  using mask_ability_members [of a] mask_ability_members [of b] by (simp_all only: assms)

definition skill_frame :: "bool \<Rightarrow> string \<Rightarrow> profile_state \<times> ability_info \<Rightarrow> profile_state \<times> ability_info \<Rightarrow> bool" where
  "skill_frame pre key sa sa1 \<longleftrightarrow>
     ps_info (fst sa1) = ps_info (fst sa) \<and> mask_ability (snd sa1) = mask_ability (snd sa) \<and>
     mask_module (ps_module (fst sa1)) = mask_module (ps_module (fst sa)) \<and>
     mask_app (ps_app (fst sa1)) = mask_app (ps_app (fst sa)) \<and>
     (\<not> pre \<longrightarrow> app_isLauncherApp (ps_app (fst sa1)) = app_isLauncherApp (ps_app (fst sa)) \<and>
        ai_isLauncherAbility (snd sa1) = ai_isLauncherAbility (snd sa)) \<and>
     im_entryAbilityKey (ps_module (fst sa1)) \<in> {im_entryAbilityKey (ps_module (fst sa)), key}"

lemma config_skill_frame: "skill_frame pre key sa (config_skill key pre ability skill sa)"
  by (cases sa) (simp add: skill_frame_def config_skill_def Let_def mask_app_def mask_module_def mask_ability_def
      split del: if_split split: if_split)

lemma config_skills_frame: "skill_frame pre key sa (fold (config_skill key pre ability) sks sa)"
proof (induction sks arbitrary: sa)
  case Nil
  show ?case by (simp add: skill_frame_def)
next
  case (Cons sk sks)
  from Cons [of "config_skill key pre ability sk sa"] config_skill_frame [of pre key sa ability sk]
  show ?case unfolding skill_frame_def by auto
qed

text \<open>
  Entries of the information under construction: the module lists the keys under which abilities and
  skills are found, and every ability \<open>a\<close> under a key \<open>k\<close> satisfies \<open>ok k a\<close>.
\<close>

definition listed :: "(string \<Rightarrow> ability_info \<Rightarrow> bool) \<Rightarrow> inner_bundle_info \<Rightarrow> inner_module_info \<Rightarrow> bool" where
  "listed ok i m \<longleftrightarrow>
     fst ` set (ib_baseAbilityInfos i) = set (im_abilityKeys m) \<and> im_skillKeys m = im_abilityKeys m \<and>
     fst ` set (ib_skillInfos i) = set (im_abilityKeys m) \<and>
     (\<forall>(k, a) \<in> set (ib_baseAbilityInfos i). ok k a) \<and>
     (im_entryAbilityKey m = [] \<or> im_entryAbilityKey m \<in> set (im_abilityKeys m))"

lemma fst_set_emplace: "fst ` set (sm_emplace k v m) = insert k (fst ` set m)"
  by (force simp: sm_emplace_def dest: map_of_SomeD split: option.split)

lemma set_assign_subset: "set (sm_assign k v m) \<subseteq> insert (k, v) (set m)"
  by (induction k v m rule: sm_assign.induct) auto

lemma set_emplace_subset: "set (sm_emplace k v m) \<subseteq> insert (k, v) (set m)"
  using set_assign_subset [of k v m] by (auto simp: sm_emplace_def split: option.split)

lemma listed_insert:
  assumes "listed ok i m" "ok key a"
    and "ib_baseAbilityInfos i1 = sm_emplace key a (ib_baseAbilityInfos i)"
    and "ib_skillInfos i1 = sm_emplace key sks (ib_skillInfos i)"
    and "im_abilityKeys m1 = im_abilityKeys m @ [key]" "im_skillKeys m1 = im_skillKeys m @ [key]"
    and "im_entryAbilityKey m1 \<in> {im_entryAbilityKey m, key}"
  shows "listed ok i1 m1"
proof -
  have "\<forall>(k, b) \<in> set (ib_baseAbilityInfos i1). ok k b"
    using assms(1,2) set_emplace_subset [of key a "ib_baseAbilityInfos i"] unfolding assms(3) listed_def by blast
  then show ?thesis using assms by (auto simp: listed_def fst_set_emplace)
qed

text \<open>What the parsers insert into the information is masked out: the rest is not theirs until the end.\<close>

definition mask_info :: "inner_bundle_info \<Rightarrow> inner_bundle_info" where
  "mask_info i = i\<lparr>ib_shortcutInfos := [], ib_commonEvents := [], ib_formInfos := [], ib_skillInfos := [],
     ib_baseAbilityInfos := [], ib_extensionSkillInfos := [], ib_baseExtensionInfos := []\<rparr>"

lemma mask_inserts [simp]:
  "mask_info (InsertShortcutInfos k x i) = mask_info i"
  "mask_info (InsertCommonEvents k e i) = mask_info i"
  "mask_info (InsertFormInfos k fs i) = mask_info i"
  "mask_info (InsertSkillInfo k sks i) = mask_info i"
  "mask_info (InsertAbilitiesInfo k a i) = mask_info i"
  "mask_info (InsertExtensionSkillInfo k sks i) = mask_info i"
  "mask_info (InsertExtensionInfo k y i) = mask_info i"
  by (simp_all add: mask_info_def InsertShortcutInfos_def InsertCommonEvents_def InsertFormInfos_def InsertSkillInfo_def
      InsertAbilitiesInfo_def InsertExtensionSkillInfo_def InsertExtensionInfo_def)

lemma fold_mask: "(\<And>x i. mask_info (f x i) = mask_info i) \<Longrightarrow> mask_info (fold f xs i) = mask_info i"
  by (induction xs arbitrary: i) simp_all

text \<open>An ability of bundle \<open>b\<close> and package \<open>p\<close> under its key; only some may have a priority.\<close>

definition declared_ability :: "string \<Rightarrow> string \<Rightarrow> bool \<Rightarrow> string \<Rightarrow> ability_info \<Rightarrow> bool" where
  "declared_ability b p privileged k a \<longleftrightarrow>
     k = profile_key b p (ai_name a) \<and> ai_bundleName a = b \<and> ai_package a = p \<and> (privileged \<or> ai_priority a = 0)"

lemma declared_ability_mask: "mask_ability a = mask_ability a1 \<Longrightarrow> declared_ability b p v k a = declared_ability b p v k a1"
  using mask_ability_eq [of a a1] by (simp add: declared_ability_def)

lemma new_ability_members [simp]: "ai_priority new_AbilityInfo = 0" "\<not> ai_isLauncherAbility new_AbilityInfo"
  by (simp_all add: new_AbilityInfo_def)

lemma config_ability_members_sel:
  "ai_name (config_ability_members c ability a0 sys pre t) = full_ability_name c ability"
  "ai_bundleName (config_ability_members c ability a0 sys pre t) = capp_bundleName (cj_app c)"
  "ai_package (config_ability_members c ability a0 sys pre t) = cmo_package (cj_module c)"
  "ai_priority (config_ability_members c ability a0 sys pre t) = (if sys \<and> pre then cab_priority ability else ai_priority a0)"
  "ai_isLauncherAbility (config_ability_members c ability a0 sys pre t) = ai_isLauncherAbility a0"
  by (simp_all add: config_ability_members_def Let_def)

lemma Config_ToAbilityInfo_declared:
  assumes "Config_ToAbilityInfo c ability new_AbilityInfo sys pre = Some a"
  shows "declared_ability (capp_bundleName (cj_app c)) (cmo_package (cj_module c)) (sys \<and> pre) (config_key c (ai_name a)) a"
    and "\<not> ai_isLauncherAbility a"
proof -
  from assms obtain t where "a = config_ability_members c ability new_AbilityInfo sys pre t"
    by (auto simp: Config_ToAbilityInfo_def split: option.splits if_splits)
  then show "declared_ability (capp_bundleName (cj_app c)) (cmo_package (cj_module c)) (sys \<and> pre) (config_key c (ai_name a)) a"
    "\<not> ai_isLauncherAbility a"
    by (simp_all add: declared_ability_def config_key_def config_ability_members_sel)
qed

text \<open>The abilities found so far, and what of the variables of the loop stays.\<close>

definition loop_frame :: "profile_state \<Rightarrow> profile_state \<Rightarrow> bool" where
  "loop_frame s s1 \<longleftrightarrow> mask_info (ps_info s1) = mask_info (ps_info s) \<and> mask_app (ps_app s1) = mask_app (ps_app s) \<and>
     im_definePermissions (ps_module s1) = im_definePermissions (ps_module s) \<and>
     im_modulePackage (ps_module s1) = im_modulePackage (ps_module s)"

lemma loop_frame_trans: "loop_frame s s1 \<Longrightarrow> loop_frame s1 s2 \<Longrightarrow> loop_frame s s2"
  by (simp add: loop_frame_def)

lemma inserted_maps:
  "ib_baseAbilityInfos (InsertAbilitiesInfo k a i) = sm_emplace k a (ib_baseAbilityInfos i)"
  "ib_skillInfos (InsertAbilitiesInfo k a i) = ib_skillInfos i"
  "ib_baseAbilityInfos (InsertFormInfos k fs i) = ib_baseAbilityInfos i"
  "ib_skillInfos (InsertFormInfos k fs i) = ib_skillInfos i"
  "ib_baseAbilityInfos (InsertSkillInfo k sks i) = ib_baseAbilityInfos i"
  "ib_skillInfos (InsertSkillInfo k sks i) = sm_emplace k sks (ib_skillInfos i)"
  "ib_baseExtensionInfos (InsertAbilitiesInfo k a i) = ib_baseExtensionInfos i"
  "ib_baseExtensionInfos (InsertSkillInfo k sks i) = ib_baseExtensionInfos i"
  "ib_baseExtensionInfos (InsertFormInfos k fs i) = ib_baseExtensionInfos i"
  by (simp_all add: InsertAbilitiesInfo_def InsertFormInfos_def InsertSkillInfo_def)

lemma config_ability_keeps:
  assumes step: "config_ability_step c pre ability s = (ok, s1)"
  shows "loop_frame s s1"
    and "\<not> pre \<Longrightarrow> app_isLauncherApp (ps_app s1) = app_isLauncherApp (ps_app s)"
    and "ib_baseExtensionInfos (ps_info s1) = ib_baseExtensionInfos (ps_info s)"
    and "listed (declared_ability (capp_bundleName (cj_app c)) (cmo_package (cj_module c)) (app_isSystemApp (ps_app s) \<and> pre))
           (ps_info s) (ps_module s) \<Longrightarrow>
         listed (declared_ability (capp_bundleName (cj_app c)) (cmo_package (cj_module c)) (app_isSystemApp (ps_app s) \<and> pre))
           (ps_info s1) (ps_module s1)"
proof -
  let ?a = "Config_ToAbilityInfo c ability new_AbilityInfo (app_isSystemApp (ps_app s)) pre"
  let ?ok = "declared_ability (capp_bundleName (cj_app c)) (cmo_package (cj_module c)) (app_isSystemApp (ps_app s) \<and> pre)"
  have "loop_frame s s1 \<and> (\<not> pre \<longrightarrow> app_isLauncherApp (ps_app s1) = app_isLauncherApp (ps_app s)) \<and>
    ib_baseExtensionInfos (ps_info s1) = ib_baseExtensionInfos (ps_info s) \<and>
    (listed ?ok (ps_info s) (ps_module s) \<longrightarrow> listed ?ok (ps_info s1) (ps_module s1))"
  proof (cases ?a)
    case None
    with step show ?thesis by (simp add: config_ability_step_def loop_frame_def)
  next
    case (Some a)
    let ?key = "config_key c (ai_name a)"
    let ?m = "(ps_module s)\<lparr>im_abilityKeys := im_abilityKeys (ps_module s) @ [?key], im_skillKeys := im_skillKeys (ps_module s) @ [?key]\<rparr>"
    let ?i = "InsertFormInfos ?key (map (config_form_info c ability) (cab_formses ability)) (InsertSkillInfo ?key (cab_skills ability) (ps_info s))"
    let ?s = "s\<lparr>ps_module := ?m, ps_info := ?i\<rparr>"
    define sa where "sa = (if ps_find s then (?s, a) else fold (config_skill ?key pre ability) (cab_skills ability) (?s, a))"
    have frame: "skill_frame pre ?key (?s, a) sa"
      using config_skills_frame [of pre ?key "(?s, a)"] by (simp add: sa_def skill_frame_def)
    have s1: "s1 = (fst sa)\<lparr>ps_info := InsertAbilitiesInfo ?key (snd sa) (ps_info (fst sa))\<rparr>"
      using step Some by (auto simp: config_ability_step_def Let_def sa_def split: prod.splits if_splits)
    from frame have parts: "ps_info (fst sa) = ?i" "mask_ability (snd sa) = mask_ability a"
      "mask_module (ps_module (fst sa)) = mask_module ?m" "mask_app (ps_app (fst sa)) = mask_app (ps_app s)"
      "\<not> pre \<longrightarrow> app_isLauncherApp (ps_app (fst sa)) = app_isLauncherApp (ps_app s)"
      "im_entryAbilityKey (ps_module (fst sa)) \<in> {im_entryAbilityKey (ps_module s), ?key}"
      by (auto simp: skill_frame_def)
    note m = mask_module_eq [OF parts(3)]
    have key_ok: "?ok ?key (snd sa)"
      using Config_ToAbilityInfo_declared [OF Some] declared_ability_mask [OF parts(2)] by simp
    have "listed ?ok (ps_info s1) (ps_module s1)" if "listed ?ok (ps_info s) (ps_module s)"
      by (rule listed_insert [OF that key_ok]) (use m parts(1,6) in \<open>simp_all add: s1 inserted_maps\<close>)
    then show ?thesis using parts m by (simp add: s1 loop_frame_def inserted_maps)
  qed
  then show "loop_frame s s1" "\<not> pre \<Longrightarrow> app_isLauncherApp (ps_app s1) = app_isLauncherApp (ps_app s)"
    "ib_baseExtensionInfos (ps_info s1) = ib_baseExtensionInfos (ps_info s)"
    "listed ?ok (ps_info s) (ps_module s) \<Longrightarrow> listed ?ok (ps_info s1) (ps_module s1)" by blast+
qed

lemma config_abilities_loop:
  assumes "config_abilities c pre abilities s = (ok, s1)"
  shows "loop_frame s s1 \<and> (\<not> pre \<longrightarrow> app_isLauncherApp (ps_app s1) = app_isLauncherApp (ps_app s)) \<and>
    ib_baseExtensionInfos (ps_info s1) = ib_baseExtensionInfos (ps_info s) \<and>
    (listed (declared_ability (capp_bundleName (cj_app c)) (cmo_package (cj_module c)) (app_isSystemApp (ps_app s) \<and> pre))
       (ps_info s) (ps_module s) \<longrightarrow>
     listed (declared_ability (capp_bundleName (cj_app c)) (cmo_package (cj_module c)) (app_isSystemApp (ps_app s) \<and> pre))
       (ps_info s1) (ps_module s1))"
  using assms
proof (induction abilities arbitrary: s)
  case Nil
  then show ?case by (simp add: loop_frame_def)
next
  case (Cons ability abilities)
  obtain ok2 s2 where step: "config_ability_step c pre ability s = (ok2, s2)" by fastforce
  note one = config_ability_keeps [OF step]
  have sys: "app_isSystemApp (ps_app s2) = app_isSystemApp (ps_app s)"
    using one(1) by (auto simp: loop_frame_def dest: mask_app_eq)
  show ?case
  proof (cases ok2)
    case True
    with Cons.prems step have "config_abilities c pre abilities s2 = (ok, s1)" by simp
    from Cons.IH [OF this] one sys show ?thesis by (auto intro: loop_frame_trans)
  next
    case False
    with Cons.prems step have "s1 = s2" by simp
    with one show ?thesis by blast
  qed
qed

section \<open>The abilities and extensions of \<open>module.json\<close>\<close>

definition module_privileged :: "bool \<Rightarrow> profile_state \<Rightarrow> bool" where
  "module_privileged pre s \<longleftrightarrow> app_isSystemApp (ps_app s) \<and> pre"

lemma Module_ToAbilityInfo_declared:
  "declared_ability (mapp_bundleName (mj_app c)) (mmo_name (mj_module c)) (sys \<and> pre)
     (module_json_key c (ai_name (Module_ToAbilityInfo c ability new_AbilityInfo sys pre))) (Module_ToAbilityInfo c ability new_AbilityInfo sys pre)"
  "\<not> ai_isLauncherAbility (Module_ToAbilityInfo c ability new_AbilityInfo sys pre)"
  by (simp_all add: Module_ToAbilityInfo_def declared_ability_def module_json_key_def)

text \<open>Extensions without privileges have neither a priority nor permissions for reading and writing.\<close>

definition plain_extension :: "extension_ability_info \<Rightarrow> bool" where
  "plain_extension x \<longleftrightarrow> ei_priority x = 0 \<and> ei_readPermission x = [] \<and> ei_writePermission x = []"

lemma ToExtensionInfo_plain:
  "\<not> (sys \<and> pre) \<Longrightarrow> plain_extension (ToExtensionInfo c extension new_ExtensionAbilityInfo sys pre)"
  by (cases sys; cases pre) (simp_all add: ToExtensionInfo_def plain_extension_def Let_def new_ExtensionAbilityInfo_def)

definition extensions_plain :: "inner_bundle_info \<Rightarrow> bool" where
  "extensions_plain i \<longleftrightarrow> (\<forall>x \<in> snd ` set (ib_baseExtensionInfos i). plain_extension x)"

lemma module_ability_laws:
  fixes c pre ability s
  defines "s1 \<equiv> module_ability_step c pre ability s"
  defines "ok \<equiv> declared_ability (mapp_bundleName (mj_app c)) (mmo_name (mj_module c)) (module_privileged pre s)"
  shows "loop_frame s s1"
    and "\<not> pre \<Longrightarrow> app_isLauncherApp (ps_app s1) = app_isLauncherApp (ps_app s)"
    and "ib_baseExtensionInfos (ps_info s1) = ib_baseExtensionInfos (ps_info s)"
    and "listed ok (ps_info s) (ps_module s) \<Longrightarrow> listed ok (ps_info s1) (ps_module s1)"
    and "\<forall>a \<in> snd ` set (ib_baseAbilityInfos (ps_info s)). \<not> ai_isLauncherAbility a \<Longrightarrow>
         \<forall>a \<in> snd ` set (ib_baseAbilityInfos (ps_info s1)). \<not> ai_isLauncherAbility a"
proof -
  let ?a = "Module_ToAbilityInfo c ability new_AbilityInfo (app_isSystemApp (ps_app s)) pre"
  let ?key = "module_json_key c (ai_name ?a)"
  have key_ok: "ok ?key ?a"
    unfolding ok_def module_privileged_def by (rule Module_ToAbilityInfo_declared)
  have info: "ps_info s1 = InsertAbilitiesInfo ?key ?a (InsertSkillInfo ?key (mab_skills ability) (ps_info s))"
    by (simp add: s1_def module_ability_step_def Let_def split: option.split)
  show "loop_frame s s1" "\<not> pre \<Longrightarrow> app_isLauncherApp (ps_app s1) = app_isLauncherApp (ps_app s)"
    by (simp_all add: s1_def module_ability_step_def Let_def loop_frame_def mask_app_def split: option.split)
  show "ib_baseExtensionInfos (ps_info s1) = ib_baseExtensionInfos (ps_info s)" by (simp add: info inserted_maps)
  show "listed ok (ps_info s1) (ps_module s1)" if "listed ok (ps_info s) (ps_module s)"
    by (rule listed_insert [OF that key_ok])
      (simp_all add: info inserted_maps, simp_all add: s1_def module_ability_step_def Let_def split: option.split)
  show "\<forall>a \<in> snd ` set (ib_baseAbilityInfos (ps_info s1)). \<not> ai_isLauncherAbility a"
    if "\<forall>a \<in> snd ` set (ib_baseAbilityInfos (ps_info s)). \<not> ai_isLauncherAbility a"
    using that set_emplace_subset [of ?key ?a "ib_baseAbilityInfos (ps_info s)"] Module_ToAbilityInfo_declared(2) [of c ability]
    by (fastforce simp: info inserted_maps)
qed

definition no_launchers :: "inner_bundle_info \<Rightarrow> bool" where
  "no_launchers i \<longleftrightarrow> (\<forall>a \<in> snd ` set (ib_baseAbilityInfos i). \<not> ai_isLauncherAbility a)"

lemma module_abilities_loop:
  fixes c pre abilities s
  defines "s1 \<equiv> fold (module_ability_step c pre) abilities s"
  shows "loop_frame s s1 \<and> (\<not> pre \<longrightarrow> app_isLauncherApp (ps_app s1) = app_isLauncherApp (ps_app s)) \<and>
    ib_baseExtensionInfos (ps_info s1) = ib_baseExtensionInfos (ps_info s) \<and>
    (listed (declared_ability (mapp_bundleName (mj_app c)) (mmo_name (mj_module c)) (module_privileged pre s)) (ps_info s) (ps_module s) \<longrightarrow>
     listed (declared_ability (mapp_bundleName (mj_app c)) (mmo_name (mj_module c)) (module_privileged pre s)) (ps_info s1) (ps_module s1)) \<and>
    (no_launchers (ps_info s) \<longrightarrow> no_launchers (ps_info s1))"
  unfolding s1_def
proof (induction abilities arbitrary: s)
  case Nil
  then show ?case by (simp add: loop_frame_def)
next
  case (Cons ability abilities)
  define s2 where "s2 = module_ability_step c pre ability s"
  note one = module_ability_laws [where s = s and c = c and pre = pre and ability = ability, folded s2_def no_launchers_def]
  have same: "module_privileged pre s2 = module_privileged pre s"
    using one(1) by (auto simp: module_privileged_def loop_frame_def dest: mask_app_eq)
  note ih = Cons [of s2, unfolded same]
  show ?case
    unfolding fold_simps s2_def [symmetric]
  proof (intro conjI impI)
    show "loop_frame s (fold (module_ability_step c pre) abilities s2)" using one(1) ih by (blast intro: loop_frame_trans)
    show "app_isLauncherApp (ps_app (fold (module_ability_step c pre) abilities s2)) = app_isLauncherApp (ps_app s)" if "\<not> pre"
      using one(2) [OF that] ih that by simp
    show "ib_baseExtensionInfos (ps_info (fold (module_ability_step c pre) abilities s2)) = ib_baseExtensionInfos (ps_info s)"
      using one(3) ih by simp
  qed (use one(4,5) ih in blast)+
qed

lemma module_extension_laws:
  fixes c pre extension s
  defines "s1 \<equiv> module_extension_step c pre extension s"
  shows "loop_frame s s1" "ps_app s1 = ps_app s" "ps_find s1 = ps_find s"
    "ib_baseAbilityInfos (ps_info s1) = ib_baseAbilityInfos (ps_info s)" "ib_skillInfos (ps_info s1) = ib_skillInfos (ps_info s)"
    "im_abilityKeys (ps_module s1) = im_abilityKeys (ps_module s)" "im_skillKeys (ps_module s1) = im_skillKeys (ps_module s)"
    "im_entryAbilityKey (ps_module s1) = im_entryAbilityKey (ps_module s)"
    "\<not> module_privileged pre s \<Longrightarrow> extensions_plain (ps_info s) \<Longrightarrow> extensions_plain (ps_info s1)"
proof -
  let ?x = "ToExtensionInfo c extension new_ExtensionAbilityInfo (app_isSystemApp (ps_app s)) pre"
  show "loop_frame s s1" "ps_app s1 = ps_app s" "ps_find s1 = ps_find s"
    "ib_baseAbilityInfos (ps_info s1) = ib_baseAbilityInfos (ps_info s)" "ib_skillInfos (ps_info s1) = ib_skillInfos (ps_info s)"
    "im_abilityKeys (ps_module s1) = im_abilityKeys (ps_module s)" "im_skillKeys (ps_module s1) = im_skillKeys (ps_module s)"
    "im_entryAbilityKey (ps_module s1) = im_entryAbilityKey (ps_module s)"
    by (simp_all add: s1_def module_extension_step_def Let_def loop_frame_def InsertExtensionInfo_def InsertExtensionSkillInfo_def mask_info_def)
  assume "\<not> module_privileged pre s" and old: "extensions_plain (ps_info s)"
  then have "plain_extension ?x" by (intro ToExtensionInfo_plain) (simp add: module_privileged_def)
  moreover have "ib_baseExtensionInfos (ps_info s1) = sm_emplace (module_json_key c (mex_name extension)) ?x (ib_baseExtensionInfos (ps_info s))"
    by (simp add: s1_def module_extension_step_def Let_def InsertExtensionInfo_def InsertExtensionSkillInfo_def)
  ultimately show "extensions_plain (ps_info s1)"
    using old set_emplace_subset [of "module_json_key c (mex_name extension)" ?x "ib_baseExtensionInfos (ps_info s)"]
    by (fastforce simp: extensions_plain_def)
qed

lemma module_extensions_loop:
  fixes c pre extensions s
  defines "s1 \<equiv> fold (module_extension_step c pre) extensions s"
  shows "loop_frame s s1 \<and> ps_app s1 = ps_app s \<and>
    ib_baseAbilityInfos (ps_info s1) = ib_baseAbilityInfos (ps_info s) \<and> (listed ok (ps_info s1) (ps_module s1) \<longleftrightarrow> listed ok (ps_info s) (ps_module s)) \<and>
    (\<not> module_privileged pre s \<longrightarrow> extensions_plain (ps_info s) \<longrightarrow> extensions_plain (ps_info s1))"
  unfolding s1_def
proof (induction extensions arbitrary: s)
  case Nil
  then show ?case by (simp add: loop_frame_def)
next
  case (Cons extension extensions)
  define s2 where "s2 = module_extension_step c pre extension s"
  note one = module_extension_laws [where s = s and c = c and pre = pre and extension = extension, folded s2_def]
  have same: "module_privileged pre s2 = module_privileged pre s" by (simp add: module_privileged_def one(2))
  have listed: "listed ok (ps_info s2) (ps_module s2) \<longleftrightarrow> listed ok (ps_info s) (ps_module s)"
    by (simp add: listed_def one(4-8))
  note ih = Cons [of s2, unfolded same listed one(2,4)]
  show ?case
    unfolding fold_simps s2_def [symmetric] using ih one(1,9) by (blast intro: loop_frame_trans)
qed

section \<open>What a parser promises\<close>

definition default_privileges :: "application_info \<Rightarrow> bool" where
  "default_privileges a \<longleftrightarrow>
     \<not> app_keepAlive a \<and> \<not> app_singleton a \<and> app_removable a \<and> app_userDataClearable a \<and> \<not> app_accessible a"

definition privileged :: "inner_bundle_info \<Rightarrow> bool" where
  "privileged i \<longleftrightarrow> ib_appType i = AppType_SYSTEM_APP \<and> IsPreInstallApp i"

text \<open>\<open>i\<close> is the information before and \<open>i1\<close> the one after a package has been accepted.\<close>

definition accepted_info :: "inner_bundle_info \<Rightarrow> inner_bundle_info \<Rightarrow> bool" where
  "accepted_info i i1 \<longleftrightarrow>
     (let a = ib_baseApplicationInfo i1; b = ib_baseBundleInfo i1 in
      valid_bundle_name (app_bundleName a) \<and> app_name a = app_bundleName a \<and> bi_name b = app_bundleName a \<and>
      bi_versionCode b = app_versionCode a \<and>
      app_isSystemApp a = (ib_appType i = AppType_SYSTEM_APP) \<and> bi_isPreInstallApp b = IsPreInstallApp i \<and>
      bi_isKeepAlive b = app_keepAlive a \<and> bi_singleton b = app_singleton a \<and>
      (\<not> privileged i \<longrightarrow> default_privileges a) \<and> (\<not> IsPreInstallApp i \<longrightarrow> \<not> app_isLauncherApp a) \<and>
      ib_appType i1 = ib_appType i)"

definition keys_listed :: "inner_bundle_info \<Rightarrow> inner_bundle_info \<Rightarrow> bool" where
  "keys_listed i i1 \<longleftrightarrow>
     ib_baseAbilityInfos i = [] \<and> ib_skillInfos i = [] \<and> ib_innerModuleInfos i = [] \<longrightarrow>
     (\<exists>m. ib_innerModuleInfos i1 = [(ib_currentPackage i1, m)] \<and> im_modulePackage m = ib_currentPackage i1 \<and>
       listed (declared_ability (app_bundleName (ib_baseApplicationInfo i1)) (ib_currentPackage i1) (privileged i)) i1 m)"

definition extensions_checked :: "inner_bundle_info \<Rightarrow> inner_bundle_info \<Rightarrow> bool" where
  "extensions_checked i i1 \<longleftrightarrow> (\<not> privileged i \<longrightarrow> extensions_plain i \<longrightarrow> extensions_plain i1)"

lemma mask_info_appType: "mask_info i = mask_info i1 \<Longrightarrow> ib_appType i = ib_appType i1"
  by (drule arg_cong [where f = ib_appType]) (simp add: mask_info_def)

lemma mask_info_modules: "mask_info i = mask_info i1 \<Longrightarrow> ib_innerModuleInfos i = ib_innerModuleInfos i1"
  by (drule arg_cong [where f = ib_innerModuleInfos]) (simp add: mask_info_def)

subsection \<open>\<open>config.json\<close>\<close>

lemma Config_ToApplicationInfo_sel:
  fixes d p c pre sys
  defines "a \<equiv> Config_ToApplicationInfo d p c pre (new_ApplicationInfo\<lparr>app_isSystemApp := sys\<rparr>)"
  shows "app_bundleName a = capp_bundleName (cj_app c)" "app_name a = capp_bundleName (cj_app c)"
    "app_isSystemApp a = sys" "\<not> app_isLauncherApp a" "\<not> (sys \<and> pre) \<Longrightarrow> default_privileges a"
    "app_versionCode a = word_of_int (cv_code (capp_version (cj_app c)))"
    "app_versionName a = cv_name (capp_version (cj_app c))"
  by (cases sys; cases pre; simp add: a_def Config_ToApplicationInfo_def Let_def new_ApplicationInfo_def default_privileges_def)+

lemma Config_ToBundleInfo_sel:
  "bi_name (Config_ToBundleInfo c a m pre b) = app_bundleName a" "bi_versionCode (Config_ToBundleInfo c a m pre b) = app_versionCode a"
  "bi_isPreInstallApp (Config_ToBundleInfo c a m pre b) = pre" "bi_isKeepAlive (Config_ToBundleInfo c a m pre b) = app_keepAlive a"
  "bi_singleton (Config_ToBundleInfo c a m pre b) = app_singleton a"
  by (simp_all add: Config_ToBundleInfo_def Let_def)

lemma Config_ToInnerModuleInfo_sel:
  "im_modulePackage (Config_ToInnerModuleInfo c m) = cmo_package (cj_module c)"
  "im_abilityKeys (Config_ToInnerModuleInfo c m) = im_abilityKeys m" "im_skillKeys (Config_ToInnerModuleInfo c m) = im_skillKeys m"
  "im_entryAbilityKey (Config_ToInnerModuleInfo c m) = im_entryAbilityKey m"
  by (simp_all add: Config_ToInnerModuleInfo_def Let_def)

lemma CheckModuleInfosIsValid_app: "CheckModuleInfosIsValid c = Some c1 \<Longrightarrow> cj_app c1 = cj_app c"
  by (auto simp: CheckModuleInfosIsValid_def Let_def split: if_splits)

lemma CheckModuleInfosIsValid_version: "CheckModuleInfosIsValid c = Some c1 \<Longrightarrow> 0 < cv_code (capp_version (cj_app c))"
  by (auto simp: CheckModuleInfosIsValid_def Let_def split: if_splits)

lemma new_module_members [simp]:
  "im_abilityKeys new_InnerModuleInfo = []" "im_skillKeys new_InnerModuleInfo = []" "im_entryAbilityKey new_InnerModuleInfo = []"
  by (simp_all add: new_InnerModuleInfo_def)

lemma fold_maps:
  "(\<And>x i. f (g x i) = f i) \<Longrightarrow> f (fold g xs i) = f i"
  by (induction xs arbitrary: i) simp_all

lemma inserted_other:
  "ib_baseAbilityInfos (InsertShortcutInfos k x i) = ib_baseAbilityInfos i" "ib_skillInfos (InsertShortcutInfos k x i) = ib_skillInfos i"
  "ib_baseAbilityInfos (InsertCommonEvents k e i) = ib_baseAbilityInfos i" "ib_skillInfos (InsertCommonEvents k e i) = ib_skillInfos i"
  "ib_baseExtensionInfos (InsertShortcutInfos k x i) = ib_baseExtensionInfos i"
  "ib_baseExtensionInfos (InsertCommonEvents k e i) = ib_baseExtensionInfos i"
  by (simp_all add: InsertShortcutInfos_def InsertCommonEvents_def)

lemma Config_ToInnerBundleInfo_fails:
  assumes "Config_ToInnerBundleInfo d p c i = (False, i1)"
  shows "mask_info i1 = mask_info i"
proof (cases "\<not> CheckBundleNameIsValid (capp_bundleName (cj_app c)) \<or> CheckModuleInfosIsValid c = None")
  case True
  with assms have "i1 = i" unfolding Config_ToInnerBundleInfo_def by (elim disjE) (simp_all split: if_splits)
  then show ?thesis by simp
next
  case False
  then obtain c1 where c1: "CheckBundleNameIsValid (capp_bundleName (cj_app c))" "CheckModuleInfosIsValid c = Some c1" by auto
  let ?pre = "IsPreInstallApp i" and ?sys = "ib_appType i = AppType_SYSTEM_APP"
  let ?i1 = "fold (\<lambda>x. InsertShortcutInfos (config_key c1 (csh_shortcutId x)) (config_shortcut_info c1 x)) (cmo_shortcuts (cj_module c1)) i"
  let ?i2 = "if ?sys then fold (\<lambda>x. InsertCommonEvents (config_key c1 (cce_name x)) (config_common_event_info c1 x))
               (cmo_commonEvents (cj_module c1)) ?i1 else ?i1"
  let ?s = "\<lparr>ps_info = ?i2, ps_app = Config_ToApplicationInfo d p c1 ?pre (new_ApplicationInfo\<lparr>app_isSystemApp := ?sys\<rparr>),
    ps_module = Config_ToInnerModuleInfo c1 new_InnerModuleInfo, ps_find = False\<rparr>"
  obtain ok s1 where run: "config_abilities c1 ?pre (cmo_abilities (cj_module c1)) ?s = (ok, s1)" by fastforce
  with assms c1 have "i1 = ps_info s1" by (simp add: Config_ToInnerBundleInfo_def Let_def split: if_splits)
  moreover have "mask_info ?i2 = mask_info i" by (simp add: fold_mask)
  ultimately show ?thesis using config_abilities_loop [OF run] by (simp add: loop_frame_def)
qed

lemma Config_ToInnerBundleInfo_accepts:
  assumes "Config_ToInnerBundleInfo d p c i = (True, i1)"
  shows "accepted_info i i1" "keys_listed i i1" "extensions_checked i i1"
    "app_bundleName (ib_baseApplicationInfo i1) = capp_bundleName (cj_app c)"
    "app_versionCode (ib_baseApplicationInfo i1) = word_of_int (cv_code (capp_version (cj_app c)))"
    "0 < cv_code (capp_version (cj_app c))"
proof -
  from assms obtain c1 where c1: "CheckBundleNameIsValid (capp_bundleName (cj_app c))" "CheckModuleInfosIsValid c = Some c1"
    by (auto simp: Config_ToInnerBundleInfo_def split: if_splits option.splits)
  note app = CheckModuleInfosIsValid_app [OF c1(2)]
  let ?pre = "IsPreInstallApp i" and ?sys = "ib_appType i = AppType_SYSTEM_APP"
  let ?i1 = "fold (\<lambda>x. InsertShortcutInfos (config_key c1 (csh_shortcutId x)) (config_shortcut_info c1 x)) (cmo_shortcuts (cj_module c1)) i"
  let ?i2 = "if ?sys then fold (\<lambda>x. InsertCommonEvents (config_key c1 (cce_name x)) (config_common_event_info c1 x))
               (cmo_commonEvents (cj_module c1)) ?i1 else ?i1"
  let ?a = "Config_ToApplicationInfo d p c1 ?pre (new_ApplicationInfo\<lparr>app_isSystemApp := ?sys\<rparr>)"
  let ?m = "Config_ToInnerModuleInfo c1 new_InnerModuleInfo"
  let ?b = "Config_ToBundleInfo c1 ?a ?m ?pre new_BundleInfo"
  let ?s = "\<lparr>ps_info = ?i2, ps_app = ?a, ps_module = ?m, ps_find = False\<rparr>"
  obtain ok s1 where run: "config_abilities c1 ?pre (cmo_abilities (cj_module c1)) ?s = (ok, s1)" by fastforce
  have i1: "i1 = InsertInnerModuleInfo (cmo_package (cj_module c1)) (ps_module s1)
      ((ps_info s1)\<lparr>ib_currentPackage := cmo_package (cj_module c1), ib_baseApplicationInfo := ps_app s1, ib_baseBundleInfo := ?b\<rparr>)"
    using assms c1 run by (simp add: Config_ToInnerBundleInfo_def Let_def split: if_splits)
  note loop = config_abilities_loop [OF run]
  have masks: "mask_info (ps_info s1) = mask_info i" "mask_app (ps_app s1) = mask_app ?a" "im_modulePackage (ps_module s1) = im_modulePackage ?m"
    using loop by (simp_all add: loop_frame_def fold_mask)
  have maps: "ib_baseAbilityInfos ?i2 = ib_baseAbilityInfos i" "ib_skillInfos ?i2 = ib_skillInfos i"
    "ib_baseExtensionInfos ?i2 = ib_baseExtensionInfos i"
    by (simp_all add: fold_maps [where f = ib_baseAbilityInfos] fold_maps [where f = ib_skillInfos]
        fold_maps [where f = ib_baseExtensionInfos] inserted_other)
  note a = Config_ToApplicationInfo_sel [where d = d and p = p and c = c1 and pre = ?pre and sys = ?sys] and a1 = mask_app_eq [OF masks(2)]
  have base: "ib_baseApplicationInfo i1 = ps_app s1" "ib_baseBundleInfo i1 = ?b" "ib_appType i1 = ib_appType (ps_info s1)"
    "ib_currentPackage i1 = cmo_package (cj_module c1)"
    by (simp_all add: i1 InsertInnerModuleInfo_def)
  have "\<not> app_isLauncherApp (ps_app s1)" if "\<not> ?pre" using loop that a(4) by simp
  moreover have "default_privileges (ps_app s1)" if "\<not> privileged i"
    using a(5) that a1(1-5) by (simp add: default_privileges_def privileged_def)
  ultimately show "accepted_info i i1"
    unfolding accepted_info_def Let_def base
    using c1(1) a(1-3) a1(1,2,6-9) mask_info_appType [OF masks(1)] by (simp add: config_name_check app Config_ToBundleInfo_sel)
  show "app_bundleName (ib_baseApplicationInfo i1) = capp_bundleName (cj_app c)"
    "app_versionCode (ib_baseApplicationInfo i1) = word_of_int (cv_code (capp_version (cj_app c)))"
    using a(1,6) a1(7,9) by (simp_all add: base app)
  show "0 < cv_code (capp_version (cj_app c))" by (rule CheckModuleInfosIsValid_version [OF c1(2)])
  have "ib_baseExtensionInfos i1 = ib_baseExtensionInfos i"
    using loop maps(3) by (simp add: i1 InsertInnerModuleInfo_def)
  then show "extensions_checked i i1" by (simp add: extensions_checked_def extensions_plain_def)
  show "keys_listed i i1"
    unfolding keys_listed_def
  proof (intro impI exI conjI)
    assume new: "ib_baseAbilityInfos i = [] \<and> ib_skillInfos i = [] \<and> ib_innerModuleInfos i = []"
    show "ib_innerModuleInfos i1 = [(ib_currentPackage i1, ps_module s1)]"
      using new mask_info_modules [OF masks(1)] by (simp add: base(4)) (simp add: i1 InsertInnerModuleInfo_def sm_emplace_def)
    show "im_modulePackage (ps_module s1) = ib_currentPackage i1"
      by (simp add: masks(3) base(4) Config_ToInnerModuleInfo_sel)
    have "listed ok ?i2 ?m" for ok
      using new maps(1,2) by (simp add: listed_def Config_ToInnerModuleInfo_sel)
    then have "listed (declared_ability (capp_bundleName (cj_app c1)) (cmo_package (cj_module c1)) (app_isSystemApp ?a \<and> ?pre)) (ps_info s1) (ps_module s1)"
      using loop by simp
    then show "listed (declared_ability (app_bundleName (ib_baseApplicationInfo i1)) (ib_currentPackage i1) (privileged i)) i1 (ps_module s1)"
      using a(1,3) a1(7) by (simp add: base privileged_def listed_def) (simp add: i1 InsertInnerModuleInfo_def)
  qed
qed

subsection \<open>\<open>module.json\<close>\<close>

lemma adapt_device_sel:
  "app_bundleName (adapt_device dc pre a) = app_bundleName a" "app_name (adapt_device dc pre a) = app_name a"
  "app_isSystemApp (adapt_device dc pre a) = app_isSystemApp a" "app_isLauncherApp (adapt_device dc pre a) = app_isLauncherApp a"
  "app_versionCode (adapt_device dc pre a) = app_versionCode a"
  "\<not> (app_isSystemApp a \<and> pre) \<Longrightarrow> default_privileges (adapt_device dc pre a) = default_privileges a"
  by (cases "app_isSystemApp a"; cases pre; simp add: adapt_device_def Let_def default_privileges_def)+

lemma Module_ToApplicationInfo_sel:
  fixes d p c pre sys
  defines "a \<equiv> Module_ToApplicationInfo d p c pre (new_ApplicationInfo\<lparr>app_isSystemApp := sys\<rparr>)"
  shows "app_bundleName a = mapp_bundleName c" "app_name a = mapp_bundleName c"
    "app_isSystemApp a = sys" "\<not> app_isLauncherApp a" "\<not> (sys \<and> pre) \<Longrightarrow> default_privileges a"
    "app_versionCode a = word_of_int (mapp_versionCode c)"
proof -
  obtain a3 where a3: "app_bundleName a3 = mapp_bundleName c" "app_name a3 = mapp_bundleName c" "app_isSystemApp a3 = sys"
    "\<not> app_isLauncherApp a3" "app_versionCode a3 = word_of_int (mapp_versionCode c)" "\<not> (sys \<and> pre) \<Longrightarrow> default_privileges a3"
    and a: "a = (case map_of (mapp_deviceConfigs c) (dv_deviceType d) of None \<Rightarrow> a3 | Some dc \<Rightarrow> adapt_device dc pre a3)
      \<lparr>app_nativeLibraryPath := fst (native_library d p), app_cpuAbi := snd (native_library d p), app_enabled := True\<rparr>"
    by (rule that, rule_tac [7] a_def [unfolded Module_ToApplicationInfo_def Let_def, THEN meta_eq_to_obj_eq])
      (cases sys; cases pre; simp add: new_ApplicationInfo_def default_privileges_def)+
  have priv: "default_privileges (x\<lparr>app_nativeLibraryPath := u, app_cpuAbi := v, app_enabled := w\<rparr>) = default_privileges x" for x u v w
    by (simp add: default_privileges_def)
  show "app_bundleName a = mapp_bundleName c" "app_name a = mapp_bundleName c" "app_isSystemApp a = sys" "\<not> app_isLauncherApp a"
    "app_versionCode a = word_of_int (mapp_versionCode c)"
    using a3 by (simp_all add: a adapt_device_sel split: option.split)
  show "default_privileges a" if "\<not> (sys \<and> pre)"
    using a3(3) a3(6) [OF that] that by (simp add: a priv adapt_device_sel(6) split: option.split)
qed

lemma Module_ToBundleInfo_sel:
  "bi_name (Module_ToBundleInfo a m pre b) = app_bundleName a" "bi_versionCode (Module_ToBundleInfo a m pre b) = app_versionCode a"
  "bi_isPreInstallApp (Module_ToBundleInfo a m pre b) = pre" "bi_isKeepAlive (Module_ToBundleInfo a m pre b) = app_keepAlive a"
  "bi_singleton (Module_ToBundleInfo a m pre b) = app_singleton a"
  by (simp_all add: Module_ToBundleInfo_def Let_def)

lemma Module_ToInnerModuleInfo_sel:
  "im_modulePackage (Module_ToInnerModuleInfo c m sys pre) = mmo_name (mj_module c)"
  "im_abilityKeys (Module_ToInnerModuleInfo c m sys pre) = im_abilityKeys m"
  "im_skillKeys (Module_ToInnerModuleInfo c m sys pre) = im_skillKeys m"
  "im_entryAbilityKey (Module_ToInnerModuleInfo c m sys pre) = im_entryAbilityKey m"
  "im_definePermissions (Module_ToInnerModuleInfo c m sys pre) = im_definePermissions m @
     (if sys \<and> pre then filter (\<lambda>q. dp_name q \<noteq> [] \<and> dp_grantMode q \<in> set GRANT_MODE_SET \<and> dp_availableLevel q \<in> set AVAILABLE_LEVEL_SET)
        (mmo_definePermissions (mj_module c)) else [])"
  by (simp_all add: Module_ToInnerModuleInfo_def GetPermissions_def Let_def)

lemma Module_ToInnerBundleInfo_fails:
  "Module_ToInnerBundleInfo d p c i = (False, i1) \<Longrightarrow> i1 = i"
  by (simp add: Module_ToInnerBundleInfo_def Let_def split: if_splits)

lemma Module_ToInnerBundleInfo_accepts:
  assumes "Module_ToInnerBundleInfo d p c i = (True, i1)"
  shows "accepted_info i i1" "keys_listed i i1" "extensions_checked i i1"
    "app_bundleName (ib_baseApplicationInfo i1) = mapp_bundleName (mj_app c)"
    "app_versionCode (ib_baseApplicationInfo i1) = word_of_int (mapp_versionCode (mj_app c))"
    "no_launchers i \<Longrightarrow> no_launchers i1"
proof -
  let ?pre = "IsPreInstallApp i" and ?sys = "ib_appType i = AppType_SYSTEM_APP"
  let ?a = "Module_ToApplicationInfo d p (mj_app c) ?pre (new_ApplicationInfo\<lparr>app_isSystemApp := ?sys\<rparr>)"
  note a = Module_ToApplicationInfo_sel [where d = d and p = p and c = "mj_app c" and pre = ?pre and sys = ?sys]
  let ?m = "Module_ToInnerModuleInfo c new_InnerModuleInfo (app_isSystemApp ?a) ?pre"
  let ?b = "Module_ToBundleInfo ?a ?m ?pre new_BundleInfo"
  let ?s = "\<lparr>ps_info = i, ps_app = ?a, ps_module = ?m, ps_find = False\<rparr>"
  define s1 where "s1 = fold (module_ability_step c ?pre) (mmo_abilities (mj_module c)) ?s"
  define s2 where "s2 = fold (module_extension_step c ?pre) (mmo_extensionAbilities (mj_module c)) s1"
  note abilities = module_abilities_loop [where c = c and pre = ?pre and abilities = "mmo_abilities (mj_module c)" and s = ?s, folded s1_def]
  note extensions = module_extensions_loop [where c = c and pre = ?pre and extensions = "mmo_extensionAbilities (mj_module c)" and s = s1, folded s2_def]
  from assms have name: "valid_bundle_name (mapp_bundleName (mj_app c))"
    by (simp add: Module_ToInnerBundleInfo_def Let_def module_name_check config_name_check split: if_splits)
  have i1: "i1 = InsertInnerModuleInfo (mmo_name (mj_module c)) (ps_module s2)
      ((ps_info s2)\<lparr>ib_currentPackage := mmo_name (mj_module c), ib_baseApplicationInfo := ps_app s2, ib_baseBundleInfo := ?b\<rparr>)"
    using assms by (simp add: Module_ToInnerBundleInfo_def Let_def s1_def s2_def split: if_splits)
  have frame: "loop_frame ?s s2" using abilities extensions by (blast intro: loop_frame_trans)
  then have masks: "mask_info (ps_info s2) = mask_info i" "mask_app (ps_app s2) = mask_app ?a" "im_modulePackage (ps_module s2) = im_modulePackage ?m"
    by (simp_all add: loop_frame_def)
  note a1 = mask_app_eq [OF masks(2)]
  have base: "ib_baseApplicationInfo i1 = ps_app s2" "ib_baseBundleInfo i1 = ?b" "ib_appType i1 = ib_appType (ps_info s2)"
    "ib_currentPackage i1 = mmo_name (mj_module c)" "ib_baseAbilityInfos i1 = ib_baseAbilityInfos (ps_info s2)"
    "ib_skillInfos i1 = ib_skillInfos (ps_info s2)" "ib_baseExtensionInfos i1 = ib_baseExtensionInfos (ps_info s2)"
    by (simp_all add: i1 InsertInnerModuleInfo_def)
  have "\<not> app_isLauncherApp (ps_app s2)" if "\<not> ?pre" using abilities extensions that a(4) by simp
  moreover have "default_privileges (ps_app s2)" if "\<not> privileged i"
    using a(5) that a1(1-5) by (simp add: default_privileges_def privileged_def)
  ultimately show "accepted_info i i1"
    unfolding accepted_info_def Let_def base(1-3)
    using name a(1-3) a1(1,2,6-9) mask_info_appType [OF masks(1)] by (simp add: Module_ToBundleInfo_sel)
  show "app_bundleName (ib_baseApplicationInfo i1) = mapp_bundleName (mj_app c)"
    "app_versionCode (ib_baseApplicationInfo i1) = word_of_int (mapp_versionCode (mj_app c))"
    using a(1,6) a1(7,9) by (simp_all add: base)
  show "no_launchers i1" if "no_launchers i"
    using that abilities extensions by (simp add: no_launchers_def base)
  have priv: "module_privileged ?pre ?s = privileged i" "module_privileged ?pre s1 = privileged i"
    using a(3) abilities by (auto simp: module_privileged_def privileged_def loop_frame_def dest: mask_app_eq)
  have "extensions_plain (ps_info s1) = extensions_plain i" using abilities by (simp add: extensions_plain_def)
  then show "extensions_checked i i1"
    using extensions priv(2) by (auto simp: extensions_checked_def extensions_plain_def base)
  show "keys_listed i i1"
    unfolding keys_listed_def
  proof (intro impI exI conjI)
    assume new: "ib_baseAbilityInfos i = [] \<and> ib_skillInfos i = [] \<and> ib_innerModuleInfos i = []"
    show "ib_innerModuleInfos i1 = [(ib_currentPackage i1, ps_module s2)]"
      using new mask_info_modules [OF masks(1)] by (simp add: base(4)) (simp add: i1 InsertInnerModuleInfo_def sm_emplace_def)
    show "im_modulePackage (ps_module s2) = ib_currentPackage i1"
      by (simp add: masks(3) base(4) Module_ToInnerModuleInfo_sel)
    have "listed ok i ?m" for ok
      using new by (simp add: listed_def Module_ToInnerModuleInfo_sel)
    then have "listed (declared_ability (mapp_bundleName (mj_app c)) (mmo_name (mj_module c)) (privileged i)) (ps_info s2) (ps_module s2)"
      using abilities extensions priv(1) by simp
    then show "listed (declared_ability (app_bundleName (ib_baseApplicationInfo i1)) (ib_currentPackage i1) (privileged i)) i1 (ps_module s2)"
      using a(1) a1(7) by (simp add: base listed_def)
  qed
qed

end
