(* ===== verification/Package_Parsing.thy ===== *)
theory Package_Parsing
  imports Profile_Correct
begin

text \<open>
  The parser of packages on top of the two profile parsers. The locale \<open>profile_parser\<close> is what it relies on; it is
  interpreted for \<open>config.json\<close> and for \<open>module.json\<close>, and the properties are read off the interpretations.
\<close>

section \<open>The interface of a profile parser\<close>

type_synonym profile_transform =
  "device \<Rightarrow> package \<Rightarrow> json option \<Rightarrow> inner_bundle_info \<Rightarrow> parse_state \<Rightarrow> (parse_code \<times> inner_bundle_info \<times> parse_state) option"

locale profile_parser =
  fixes transform :: profile_transform and version_member :: "json \<Rightarrow> json option"
  assumes answers: "transform d p source i st \<noteq> None"
    and refuses: "transform d p source i st = Some (ret, i1, st1) \<Longrightarrow> ret \<noteq> PARSE_OK \<Longrightarrow> mask_info i1 = mask_info i"
    and accepts: "transform d p source i st = Some (PARSE_OK, i1, st1) \<Longrightarrow>
      accepted_info i i1 \<and> keys_listed i i1 \<and> extensions_checked i i1"
    and declares: "transform d p source i st = Some (PARSE_OK, i1, st1) \<Longrightarrow>
      \<exists>j app n. source = Some j \<and> obj_find j ''app'' = Some app \<and>
        obj_find app ''bundleName'' = Some (JStr (app_bundleName (ib_baseApplicationInfo i1))) \<and>
        version_member app = Some (JNum n) \<and> app_versionCode (ib_baseApplicationInfo i1) = word_of_int n"
begin

text \<open>Whatever a package is, its information says nothing but what the installer and its profile told.\<close>

lemma name_declared:
  assumes "transform d p source i st = Some (PARSE_OK, i1, st1)"
  obtains j app where "source = Some j" "obj_find j ''app'' = Some app"
    "obj_find app ''bundleName'' = Some (JStr (bi_name (ib_baseBundleInfo i1)))" "valid_bundle_name (bi_name (ib_baseBundleInfo i1))"
  using declares [OF assms] accepts [OF assms] by (auto simp: accepted_info_def Let_def)

lemma plain_app:
  assumes "transform d p source i st = Some (PARSE_OK, i1, st1)" "\<not> privileged i"
  shows "default_privileges (ib_baseApplicationInfo i1)" "\<not> bi_isKeepAlive (ib_baseBundleInfo i1)" "\<not> bi_singleton (ib_baseBundleInfo i1)"
  using accepts [OF assms(1)] assms(2) by (auto simp: accepted_info_def Let_def default_privileges_def)

end

lemma word_of_signed_take_bit: "word_of_int (signed_take_bit 31 n) = (word_of_int n :: u32)"
  by (rule bit_word_eqI) (simp add: bit_word_of_int_iff bit_signed_take_bit_iff)

definition config_transform :: profile_transform where
  "config_transform d p source i st =
     map_option (\<lambda>(ret, i1, g). (ret, i1, st\<lparr>ps_global := g\<rparr>)) (Config_TransformTo d p source i (ps_global st))"

definition config_version_member :: "json \<Rightarrow> json option" where
  "config_version_member app = Option.bind (obj_find app ''version'') (\<lambda>v. obj_find v ''code'')"

definition module_version_member :: "json \<Rightarrow> json option" where
  "module_version_member app = obj_find app ''versionCode''"

lemma code_of_result_OK [simp]: "code_of_result r = PARSE_OK \<longleftrightarrow> r = pr_OK"
  by (cases r) simp_all

lemma Config_TransformTo_accepts:
  assumes "Config_TransformTo d p source i g = Some (PARSE_OK, i1, g1)"
  obtains j c where "source = Some j" "Config_ConfigJson_from_json j g = Some (c, pr_OK)" "g1 = pr_OK"
    "Config_ToInnerBundleInfo d p c i = (True, i1)"
proof -
  from assms obtain j c g2 where j: "source = Some j" "Config_ConfigJson_from_json j g = Some (c, g2)"
    and r: "(if g2 \<noteq> pr_OK then Some (code_of_result g2, i, pr_OK)
       else (let (ok, i1) = Config_ToInnerBundleInfo d p c i
             in Some (if ok then PARSE_OK else ERR_APPEXECFWK_PARSE_PROFILE_PROP_CHECK_ERROR, i1, g2))) = Some (PARSE_OK, i1, g1)"
    by (auto simp: Config_TransformTo_def split: option.splits)
  then have "g2 = pr_OK" "g1 = pr_OK" "Config_ToInnerBundleInfo d p c i = (True, i1)"
    by (auto simp: Let_def split: if_splits prod.splits)
  with j that show ?thesis by simp
qed

lemma Module_TransformTo_accepts:
  assumes "Module_TransformTo d p source i st = Some (PARSE_OK, i1, st1)"
  obtains j c where "source = Some j" "Module_ModuleJson_from_json j st = Some (c, st1)" "ps_local st1 = pr_OK"
    "Module_ToInnerBundleInfo d p c i = (True, i1)"
proof -
  from assms obtain j c st2 where j: "source = Some j" "Module_ModuleJson_from_json j st = Some (c, st2)"
    and r: "(if ps_local st2 \<noteq> pr_OK then Some (code_of_result (ps_local st2), i, st2\<lparr>ps_local := pr_OK\<rparr>)
       else (let (ok, i1) = Module_ToInnerBundleInfo d p c i
             in Some (if ok then PARSE_OK else ERR_APPEXECFWK_PARSE_PROFILE_PROP_CHECK_ERROR, i1, st2))) = Some (PARSE_OK, i1, st1)"
    by (auto simp: Module_TransformTo_def split: option.splits)
  then have "ps_local st2 = pr_OK" "st2 = st1" "Module_ToInnerBundleInfo d p c i = (True, i1)"
    by (auto simp: Let_def split: if_splits prod.splits)
  with j that show ?thesis by simp
qed

lemma config_answers: "config_transform d p source i st \<noteq> None"
  using config_json_answers [of _ "ps_global st"]
  by (simp add: config_transform_def Config_TransformTo_def Let_def del: not_None_eq split: option.split prod.split)

lemma module_answers: "Module_TransformTo d p source i st \<noteq> None"
  using module_json_answers [of _ st]
  by (simp add: Module_TransformTo_def Let_def del: not_None_eq split: option.split prod.split)

lemma config_refuses:
  assumes "config_transform d p source i st = Some (ret, i1, st1)" "ret \<noteq> PARSE_OK"
  shows "mask_info i1 = mask_info i"
  using assms Config_ToInnerBundleInfo_fails [of d p _ i i1]
  by (auto simp: config_transform_def Config_TransformTo_def Let_def split: option.splits prod.splits if_splits)

lemma module_refuses:
  assumes "Module_TransformTo d p source i st = Some (ret, i1, st1)" "ret \<noteq> PARSE_OK"
  shows "i1 = i"
  using assms Module_ToInnerBundleInfo_fails [of d p _ i i1]
  by (auto simp: Module_TransformTo_def Let_def split: option.splits prod.splits if_splits)

lemma config_accepts:
  assumes "config_transform d p source i st = Some (PARSE_OK, i1, st1)"
  shows "accepted_info i i1 \<and> keys_listed i i1 \<and> extensions_checked i i1"
    and "\<exists>j app n. source = Some j \<and> obj_find j ''app'' = Some app \<and>
      obj_find app ''bundleName'' = Some (JStr (app_bundleName (ib_baseApplicationInfo i1))) \<and>
      config_version_member app = Some (JNum n) \<and> app_versionCode (ib_baseApplicationInfo i1) = word_of_int n \<and>
      0 < signed_take_bit 31 n"
proof -
  from assms obtain g where "Config_TransformTo d p source i (ps_global st) = Some (PARSE_OK, i1, g)"
    by (auto simp: config_transform_def)
  from Config_TransformTo_accepts [OF this] obtain j c where j: "source = Some j"
    and c: "Config_ConfigJson_from_json j (ps_global st) = Some (c, pr_OK)" "Config_ToInnerBundleInfo d p c i = (True, i1)" by blast
  note acc = Config_ToInnerBundleInfo_accepts [OF c(2)]
  show "accepted_info i i1 \<and> keys_listed i i1 \<and> extensions_checked i i1" using acc(1-3) by blast
  from config_json_declares [OF c(1)] obtain app g1 where app: "obj_find j ''app'' = Some app"
    "Config_App_from_json app g1 = Some (cj_app c, pr_OK)" by blast
  from config_app_declares [OF app(2)] obtain v n where "obj_find app ''bundleName'' = Some (JStr (capp_bundleName (cj_app c)))"
    "obj_find app ''version'' = Some v" "obj_find v ''code'' = Some (JNum n)" "cv_code (capp_version (cj_app c)) = signed_take_bit 31 n" by blast
  with j app acc(4-6) show "\<exists>j app n. source = Some j \<and> obj_find j ''app'' = Some app \<and>
      obj_find app ''bundleName'' = Some (JStr (app_bundleName (ib_baseApplicationInfo i1))) \<and>
      config_version_member app = Some (JNum n) \<and> app_versionCode (ib_baseApplicationInfo i1) = word_of_int n \<and> 0 < signed_take_bit 31 n"
    by (auto simp: config_version_member_def word_of_signed_take_bit)
qed

lemma module_accepts:
  assumes "Module_TransformTo d p source i st = Some (PARSE_OK, i1, st1)"
  shows "accepted_info i i1 \<and> keys_listed i i1 \<and> extensions_checked i i1"
    and "\<exists>j app n. source = Some j \<and> obj_find j ''app'' = Some app \<and>
      obj_find app ''bundleName'' = Some (JStr (app_bundleName (ib_baseApplicationInfo i1))) \<and>
      module_version_member app = Some (JNum n) \<and> app_versionCode (ib_baseApplicationInfo i1) = word_of_int n"
proof -
  from Module_TransformTo_accepts [OF assms] obtain j c where j: "source = Some j"
    and c: "Module_ModuleJson_from_json j st = Some (c, st1)" "ps_local st1 = pr_OK" "Module_ToInnerBundleInfo d p c i = (True, i1)" by blast
  note acc = Module_ToInnerBundleInfo_accepts [OF c(3)]
  show "accepted_info i i1 \<and> keys_listed i i1 \<and> extensions_checked i i1" using acc(1-3) by blast
  from module_json_declares [OF c(1,2)] obtain app st2 st3 where app: "obj_find j ''app'' = Some app"
    "Module_App_from_json app st2 = Some (mj_app c, st3)" "ps_local st3 = pr_OK" by blast
  from module_app_declares [OF app(2,3)] j app(1) acc(4,5) show "\<exists>j app n. source = Some j \<and> obj_find j ''app'' = Some app \<and>
      obj_find app ''bundleName'' = Some (JStr (app_bundleName (ib_baseApplicationInfo i1))) \<and>
      module_version_member app = Some (JNum n) \<and> app_versionCode (ib_baseApplicationInfo i1) = word_of_int n"
    by (auto simp: module_version_member_def word_of_signed_take_bit)
qed

interpretation config: profile_parser config_transform config_version_member
proof
  show "config_transform d p source i st \<noteq> None" for d p source i st by (rule config_answers)
  show "mask_info i1 = mask_info i" if "config_transform d p source i st = Some (ret, i1, st1)" "ret \<noteq> PARSE_OK" for d p source i st ret i1 st1
    using that by (rule config_refuses)
qed (use config_accepts in blast)+

interpretation module: profile_parser Module_TransformTo module_version_member
proof
  show "Module_TransformTo d p source i st \<noteq> None" for d p source i st by (rule module_answers)
  show "mask_info i1 = mask_info i" if "Module_TransformTo d p source i st = Some (ret, i1, st1)" "ret \<noteq> PARSE_OK" for d p source i st ret i1 st1
    using module_refuses [OF that] by simp
qed (use module_accepts in blast)+

section \<open>Packages\<close>

text \<open>The last step for old packages changes one flag of abilities and modules.\<close>

lemma fst_set_sm_update: "map fst (sm_update k f m) = map fst m"
  by (induction m) (auto simp: sm_update_def)

lemma set_sm_update: "(k1, x) \<in> set (sm_update k f m) \<Longrightarrow> \<exists>y. (k1, y) \<in> set m \<and> x \<in> {y, f y}"
  by (auto simp: sm_update_def split: if_splits)

lemma mask_stage: "mask_ability (ai_isStageBasedModel_update g a) = mask_ability a"
  by (simp add: mask_ability_def)

lemma stage_accepted: "accepted_info i (set_stage_based p ka i1) = accepted_info i i1"
  by (cases ka) (simp add: accepted_info_def set_stage_based_def Let_def)

lemma stage_extensions: "extensions_checked i (set_stage_based p ka i1) = extensions_checked i i1"
  by (cases ka) (simp add: extensions_checked_def extensions_plain_def set_stage_based_def Let_def)

lemma stage_app: "ib_baseApplicationInfo (set_stage_based p ka i1) = ib_baseApplicationInfo i1"
  by (cases ka) (simp add: set_stage_based_def Let_def)

lemma stage_listed:
  assumes "\<And>k a a1. mask_ability a1 = mask_ability a \<Longrightarrow> ok k a1 = ok k a" "listed ok i1 m"
    and "im_abilityKeys m1 = im_abilityKeys m" "im_skillKeys m1 = im_skillKeys m" "im_entryAbilityKey m1 = im_entryAbilityKey m"
  shows "listed ok (set_stage_based p ka i1) m1"
proof -
  obtain key a where ka: "ka = (key, a)" by fastforce
  let ?upd = "ai_isStageBasedModel_update (\<lambda>_. pk_isStageBasedModel p (ai_name a))"
  have abilities: "ib_baseAbilityInfos (set_stage_based p ka i1) = sm_update key ?upd (ib_baseAbilityInfos i1)"
    "ib_skillInfos (set_stage_based p ka i1) = ib_skillInfos i1"
    by (simp_all add: set_stage_based_def ka Let_def)
  have "ok k x" if "(k, x) \<in> set (sm_update key ?upd (ib_baseAbilityInfos i1))" for k x
  proof -
    from set_sm_update [OF that] obtain y where y: "(k, y) \<in> set (ib_baseAbilityInfos i1)" "x = y \<or> x = ?upd y" by blast
    then have "mask_ability x = mask_ability y" using mask_stage by auto
    with assms(1) y(1) assms(2) show ?thesis unfolding listed_def by blast
  qed
  moreover have "fst ` set (sm_update key ?upd (ib_baseAbilityInfos i1)) = fst ` set (ib_baseAbilityInfos i1)"
    using fst_set_sm_update [of key ?upd "ib_baseAbilityInfos i1"] by (metis set_map)
  ultimately show ?thesis using assms(2-5) by (auto simp: listed_def abilities)
qed

lemma stage_keys_listed:
  assumes "keys_listed i i1"
  shows "keys_listed i (set_stage_based p ka i1)"
  unfolding keys_listed_def
proof
  assume "ib_baseAbilityInfos i = [] \<and> ib_skillInfos i = [] \<and> ib_innerModuleInfos i = []"
  with assms obtain m where m: "ib_innerModuleInfos i1 = [(ib_currentPackage i1, m)]" "im_modulePackage m = ib_currentPackage i1"
    "listed (declared_ability (app_bundleName (ib_baseApplicationInfo i1)) (ib_currentPackage i1) (privileged i)) i1 m"
    by (auto simp: keys_listed_def)
  obtain key a where ka: "ka = (key, a)" by fastforce
  let ?m = "if ai_package a = ib_currentPackage i1 then im_isStageBasedModel_update (\<lambda>_. pk_isStageBasedModel p (ai_name a)) m else m"
  have "ib_innerModuleInfos (set_stage_based p ka i1) = [(ib_currentPackage i1, ?m)]" "ib_currentPackage (set_stage_based p ka i1) = ib_currentPackage i1"
    using m(1) by (simp_all add: ka set_stage_based_def Let_def sm_update_def)
  moreover have "listed (declared_ability (app_bundleName (ib_baseApplicationInfo i1)) (ib_currentPackage i1) (privileged i)) (set_stage_based p ka i1) ?m"
    by (rule stage_listed [OF declared_ability_mask m(3)]) simp_all
  ultimately show "\<exists>m. ib_innerModuleInfos (set_stage_based p ka i1) = [(ib_currentPackage (set_stage_based p ka i1), m)] \<and>
      im_modulePackage m = ib_currentPackage (set_stage_based p ka i1) \<and>
      listed (declared_ability (app_bundleName (ib_baseApplicationInfo (set_stage_based p ka i1)))
        (ib_currentPackage (set_stage_based p ka i1)) (privileged i)) (set_stage_based p ka i1) m"
    using m(2) by (intro exI [of _ ?m]) (simp add: stage_app)
qed

lemma stages:
  "accepted_info i (fold (set_stage_based p) kas i1) = accepted_info i i1"
  "extensions_checked i (fold (set_stage_based p) kas i1) = extensions_checked i i1"
  "ib_baseApplicationInfo (fold (set_stage_based p) kas i1) = ib_baseApplicationInfo i1"
  "keys_listed i i1 \<Longrightarrow> keys_listed i (fold (set_stage_based p) kas i1)"
  by (induction kas arbitrary: i1) (simp_all add: stage_accepted stage_extensions stage_app stage_keys_listed)

text \<open>The new-version flag is written before the profile is read; nothing above depends on it.\<close>

lemma newVersion_irrelevant:
  "accepted_info (i\<lparr>ib_isNewVersion := b\<rparr>) i1 = accepted_info i i1" "keys_listed (i\<lparr>ib_isNewVersion := b\<rparr>) i1 = keys_listed i i1"
  "extensions_checked (i\<lparr>ib_isNewVersion := b\<rparr>) i1 = extensions_checked i i1"
  by (simp_all add: accepted_info_def keys_listed_def extensions_checked_def extensions_plain_def privileged_def IsPreInstallApp_def)

text \<open>The member of a profile that holds the version code.\<close>

definition version_member :: "package \<Rightarrow> json \<Rightarrow> json option" where
  "version_member p = (if pk_isNewVersion p then module_version_member else config_version_member)"

lemma Parse_accepts:
  assumes "BundleParser_Parse d p i st = Some (PARSE_OK, i1, st1)"
  shows "accepted_info i i1" "keys_listed i i1" "extensions_checked i i1"
    and "\<exists>j app n. pk_profile p = Some (Some j) \<and> obj_find j ''app'' = Some app \<and>
      obj_find app ''bundleName'' = Some (JStr (app_bundleName (ib_baseApplicationInfo i1))) \<and>
      version_member p app = Some (JNum n) \<and> app_versionCode (ib_baseApplicationInfo i1) = word_of_int n \<and>
      (\<not> pk_isNewVersion p \<longrightarrow> 0 < signed_take_bit 31 n)"
proof -
  from assms obtain source where src: "pk_profile p = Some source" "pk_opens p"
    by (auto simp: BundleParser_Parse_def split: if_splits option.splits)
  have "accepted_info i i1 \<and> keys_listed i i1 \<and> extensions_checked i i1 \<and> (\<exists>j app n. pk_profile p = Some (Some j) \<and> obj_find j ''app'' = Some app \<and>
      obj_find app ''bundleName'' = Some (JStr (app_bundleName (ib_baseApplicationInfo i1))) \<and>
      version_member p app = Some (JNum n) \<and> app_versionCode (ib_baseApplicationInfo i1) = word_of_int n \<and>
      (\<not> pk_isNewVersion p \<longrightarrow> 0 < signed_take_bit 31 n))"
  proof (cases "pk_isNewVersion p")
    case True
    with assms src have run: "Module_TransformTo d p source (i\<lparr>ib_isNewVersion := True\<rparr>) st = Some (PARSE_OK, i1, st1)"
      by (simp add: BundleParser_Parse_def)
    from module.accepts [OF run] module.declares [OF run] show ?thesis
      using True src(1) by (simp add: newVersion_irrelevant version_member_def)
  next
    case False
    with assms src obtain i2 g where run: "Config_TransformTo d p source (i\<lparr>ib_isNewVersion := False\<rparr>) (ps_global st) = Some (PARSE_OK, i2, g)"
      and i1: "i1 = fold (set_stage_based p) (ib_baseAbilityInfos i2) i2"
      by (auto simp: BundleParser_Parse_def split: option.splits prod.splits if_splits)
    then have run2: "config_transform d p source (i\<lparr>ib_isNewVersion := False\<rparr>) st = Some (PARSE_OK, i2, st\<lparr>ps_global := g\<rparr>)"
      by (simp add: config_transform_def)
    from config_accepts [OF run2] show ?thesis
      using False src(1) by (simp add: newVersion_irrelevant version_member_def i1 stages)
  qed
  then show "accepted_info i i1" "keys_listed i i1" "extensions_checked i i1"
    "\<exists>j app n. pk_profile p = Some (Some j) \<and> obj_find j ''app'' = Some app \<and>
      obj_find app ''bundleName'' = Some (JStr (app_bundleName (ib_baseApplicationInfo i1))) \<and>
      version_member p app = Some (JNum n) \<and> app_versionCode (ib_baseApplicationInfo i1) = word_of_int n \<and>
      (\<not> pk_isNewVersion p \<longrightarrow> 0 < signed_take_bit 31 n)"
    by blast+
qed

section \<open>A concrete package\<close>

definition demo_ability :: json where
  "demo_ability = JObj [(''name'', JStr ''.Main''),
     (''skills'', JArr [JObj [(''actions'', JArr [JStr ''action.system.home'']), (''entities'', JArr [JStr ''entity.system.home''])]]),
     (''type'', JStr ''page'')]"

definition demo_config :: json where
  "demo_config = JObj [
     (''app'', JObj [(''apiVersion'', JObj [(''compatible'', JNum 3)]), (''bundleName'', JStr ''com.demo''),
        (''singleton'', JBool True), (''version'', JObj [(''code'', JNum 7), (''name'', JStr ''1.0'')])]),
     (''deviceConfig'', JObj [(''default'', JObj [(''keepAlive'', JBool True)])]),
     (''module'', JObj [(''abilities'', JArr [demo_ability]), (''deviceType'', JArr [JStr ''phone'']),
        (''distro'', JObj [(''deliveryWithInstall'', JBool True), (''moduleName'', JStr ''main''), (''moduleType'', JStr ''entry'')]),
        (''package'', JStr ''demo.main'')])]"

lemmas reading = from_json_def read_string_def read_bool_def read_number_def read_object_def read_array_def GetValueIfFindKey_def
  CheckArrayType_def result_of_def set_result_def obj_find_def get_string_def get_bool_def get_int32_def get_uint32_def get_number_def
  get_vector_def if_present_def Let_def

lemma demo_skill:
  "Skill_from_json (JObj [(''actions'', JArr [JStr ''action.system.home'']), (''entities'', JArr [JStr ''entity.system.home''])]) pr_OK =
     Some (\<lparr>sk_actions = [''action.system.home''], sk_entities = [''entity.system.home''], sk_uris = []\<rparr>, pr_OK)"
  by (simp add: Skill_from_json_def new_Skill_def reading)

lemma demo_ability_read:
  "Config_Ability_from_json demo_ability pr_OK = Some (new_Config_Ability\<lparr>cab_name := ''.Main'', cab_type := ''page'',
     cab_skills := [\<lparr>sk_actions = [''action.system.home''], sk_entities = [''entity.system.home''], sk_uris = []\<rparr>]\<rparr>, pr_OK)"
  by (simp add: Config_Ability_from_json_def Config_Ability_members_1_def Config_Ability_members_2_def Config_Ability_members_3_def
      demo_ability_def demo_skill reading)

definition demo_app_read :: config_app where
  "demo_app_read = new_Config_App\<lparr>capp_bundleName := ''com.demo'', capp_singleton := True,
     capp_version := new_Config_Version\<lparr>cv_code := 7, cv_name := ''1.0''\<rparr>, capp_apiVersion := new_Config_ApiVersion\<lparr>cap_compatible := 3\<rparr>\<rparr>"

definition demo_device_read :: config_device_config where
  "demo_device_read = new_Config_DeviceConfig\<lparr>cdc_defaultDevice := new_Config_Device\<lparr>cdv_keepAlive := True\<rparr>\<rparr>"

definition demo_module_read :: config_module where
  "demo_module_read = new_Config_Module\<lparr>cmo_package := ''demo.main'', cmo_deviceType := [''phone''],
     cmo_distro := \<lparr>di_deliveryWithInstall = True, di_moduleName = ''main'', di_moduleType = ''entry'', di_installationFree = False\<rparr>,
     cmo_abilities := [new_Config_Ability\<lparr>cab_name := ''.Main'', cab_type := ''page'',
       cab_skills := [\<lparr>sk_actions = [''action.system.home''], sk_entities = [''entity.system.home''], sk_uris = []\<rparr>]\<rparr>]\<rparr>"

lemma demo_app_reads:
  "Config_App_from_json (JObj [(''apiVersion'', JObj [(''compatible'', JNum 3)]), (''bundleName'', JStr ''com.demo''),
     (''singleton'', JBool True), (''version'', JObj [(''code'', JNum 7), (''name'', JStr ''1.0'')])]) pr_OK = Some (demo_app_read, pr_OK)"
  by (simp add: Config_App_from_json_def Config_Version_from_json_def Config_ApiVersion_from_json_def demo_app_read_def reading)

lemma demo_device_reads:
  "Config_DeviceConfig_from_json (JObj [(''default'', JObj [(''keepAlive'', JBool True)])]) pr_OK = Some (demo_device_read, pr_OK)"
  by (simp add: Config_DeviceConfig_from_json_def Config_Device_from_json_def demo_device_read_def reading)

lemma demo_module_reads:
  "Config_Module_from_json (JObj [(''abilities'', JArr [demo_ability]), (''deviceType'', JArr [JStr ''phone'']),
     (''distro'', JObj [(''deliveryWithInstall'', JBool True), (''moduleName'', JStr ''main''), (''moduleType'', JStr ''entry'')]),
     (''package'', JStr ''demo.main'')]) pr_OK = Some (demo_module_read, pr_OK)"
proof -
  have "has_type JT_OBJECT demo_ability" by (simp add: demo_ability_def)
  then show ?thesis
    by (simp add: Config_Module_from_json_def Config_Module_members_1_def Config_Module_members_2_def demo_ability_read
        Distro_from_json_def new_Distro_def demo_module_read_def reading)
qed

lemma demo_config_reads:
  "Config_ConfigJson_from_json demo_config pr_OK =
     Some (\<lparr>cj_app = demo_app_read, cj_deveicConfig = demo_device_read, cj_module = demo_module_read\<rparr>, pr_OK)"
  by (simp add: Config_ConfigJson_from_json_def demo_config_def demo_app_reads demo_device_reads demo_module_reads new_Config_ConfigJson_def reading)

definition demo_package :: package where
  "demo_package = \<lparr>pk_opens = True, pk_isNewVersion = False, pk_profile = Some (Some demo_config), pk_isDirExist = (\<lambda>_. False),
     pk_isStageBasedModel = (\<lambda>_. False), pk_hasPackInfo = False, pk_packInfo = None\<rparr>"

definition demo_device :: device where
  "demo_device = \<lparr>dv_abiList = ''default'', dv_deviceType = ''phone'', dv_SplitStr = (\<lambda>s _ _ _. [s])\<rparr>"

definition no_errors :: parse_state where
  "no_errors = \<lparr>ps_local = pr_OK, ps_global = pr_OK\<rparr>"

lemma demo_abilities: "\<exists>s1. config_abilities c pre (cmo_abilities demo_module_read) s = (True, s1)"
proof -
  obtain ability where a: "cmo_abilities demo_module_read = [ability]" "cab_type ability = ''page''"
    by (simp add: demo_module_read_def)
  then obtain x where "Config_ToAbilityInfo c ability new_AbilityInfo (app_isSystemApp (ps_app s)) pre = Some x"
    by (simp add: Config_ToAbilityInfo_def ABILITY_TYPE_MAP_def)
  then have "fst (config_ability_step c pre ability s)" by (simp add: config_ability_step_def Let_def split: prod.split)
  then show ?thesis by (cases "config_ability_step c pre ability s") (simp add: a(1))
qed

lemma Config_ToInnerBundleInfo_succeeds:
  assumes "CheckBundleNameIsValid (capp_bundleName (cj_app c))" "CheckModuleInfosIsValid c = Some c1"
    and "\<And>s. \<exists>s1. config_abilities c1 (IsPreInstallApp i) (cmo_abilities (cj_module c1)) s = (True, s1)"
  shows "\<exists>i1. Config_ToInnerBundleInfo d p c i = (True, i1)"
proof -
  let ?pre = "IsPreInstallApp i" and ?sys = "ib_appType i = AppType_SYSTEM_APP"
  let ?i1 = "fold (\<lambda>x. InsertShortcutInfos (config_key c1 (csh_shortcutId x)) (config_shortcut_info c1 x)) (cmo_shortcuts (cj_module c1)) i"
  let ?i2 = "if ?sys then fold (\<lambda>x. InsertCommonEvents (config_key c1 (cce_name x)) (config_common_event_info c1 x))
               (cmo_commonEvents (cj_module c1)) ?i1 else ?i1"
  let ?s = "\<lparr>ps_info = ?i2, ps_app = Config_ToApplicationInfo d p c1 ?pre (new_ApplicationInfo\<lparr>app_isSystemApp := ?sys\<rparr>),
    ps_module = Config_ToInnerModuleInfo c1 new_InnerModuleInfo, ps_find = False\<rparr>"
  obtain s1 where "config_abilities c1 ?pre (cmo_abilities (cj_module c1)) ?s = (True, s1)" using assms(3) by blast
  then show ?thesis by (simp add: Config_ToInnerBundleInfo_def Let_def assms(1,2))
qed

lemma demo_accepted: "\<exists>i1. BundleParser_Parse demo_device demo_package i no_errors = Some (PARSE_OK, i1, no_errors)"
proof -
  let ?c = "\<lparr>cj_app = demo_app_read, cj_deveicConfig = demo_device_read, cj_module = demo_module_read\<rparr>"
  have name: "CheckBundleNameIsValid (capp_bundleName (cj_app ?c))"
    by (simp add: CheckBundleNameIsValid_def demo_app_read_def MIN_BUNDLE_NAME_def MAX_BUNDLE_NAME_def Let_def less_char_def)
  have valid: "CheckModuleInfosIsValid ?c = Some ?c"
    by (simp add: CheckModuleInfosIsValid_def demo_app_read_def demo_module_read_def Let_def)
  obtain i1 where "Config_ToInnerBundleInfo demo_device demo_package ?c (i\<lparr>ib_isNewVersion := False\<rparr>) = (True, i1)"
    using Config_ToInnerBundleInfo_succeeds [OF name valid] demo_abilities by (metis config_config_json.select_convs(3))
  then show ?thesis
    by (simp add: BundleParser_Parse_def demo_package_def Config_TransformTo_def demo_config_reads no_errors_def)
qed

section \<open>Defects\<close>

text \<open>
  Without libraries of its own a package gets the first architecture whose name begins the list of the device,
  so a device for \<open>armeabi-v7a\<close> is taken for \<open>armeabi\<close> and one for \<open>x86_64\<close> for \<open>x86\<close>.
\<close>

lemma abi_taken_for_its_prefix:
  assumes "\<not> pk_isDirExist p ''libs/''"
  shows "dv_abiList d = ''armeabi-v7a'' \<Longrightarrow> native_library d p = ([], ''armeabi'')"
    and "dv_abiList d = ''x86_64'' \<Longrightarrow> native_library d p = ([], ''x86'')"
  using assms by (simp_all add: native_library_def ABI_MAP_def str_starts_def)

text \<open>The order of the set of directories to scan is none: two directories of one priority precede each other.\<close>

lemma scan_order_not_asymmetric:
  "\<exists>x y. PreScanInfo_less x y \<and> PreScanInfo_less y x"
  by (intro exI [of _ "new_PreScanInfo\<lparr>pre_bundleDir := ''a''\<rparr>"] exI [of _ "new_PreScanInfo\<lparr>pre_bundleDir := ''b''\<rparr>"])
    (simp add: PreScanInfo_less_def new_PreScanInfo_def)

section \<open>Properties\<close>

text \<open>
  C13: No package can crash the installer by its profile: whatever JSON value the profile or \<open>pack.info\<close> is, reading it
  throws no exception, so that parsing always ends with a code.
\<close>

theorem parsing_never_throws:
  "BundleParser_Parse d p i st \<noteq> None \<and> BundleParser_ParsePackInfo p pack g \<noteq> None"
proof
  have "Config_TransformTo d p source i g \<noteq> None" for source i g
    using config_answers [of d p source i "\<lparr>ps_local = pr_OK, ps_global = g\<rparr>"] by (simp add: config_transform_def del: not_None_eq)
  then show "BundleParser_Parse d p i st \<noteq> None"
    using module_answers by (simp add: BundleParser_Parse_def del: not_None_eq split: option.split prod.split)
  show "BundleParser_ParsePackInfo p pack g \<noteq> None"
    using pack_info_answers by (simp add: BundleParser_ParsePackInfo_def PackInfo_TransformTo_def del: not_None_eq split: option.split)
qed

text \<open>
  C31: Both checks of the name of a bundle accept exactly the names of 7 to 255 characters that begin with a
  letter and consist of letters, digits, dots and underscores.
\<close>

theorem bundle_name_check:
  "(CheckBundleNameIsValid s \<longleftrightarrow>
     7 \<le> length s \<and> length s \<le> 255 \<and> is_letter (hd s) \<and> (\<forall>c \<in> set s. is_letter c \<or> is_digit c \<or> c = CHR ''.'' \<or> c = CHR ''_'')) \<and>
   (Module_CheckBundleNameIsValid s \<longleftrightarrow> CheckBundleNameIsValid s)"
  by (simp add: config_name_check module_name_check valid_bundle_name_def)

theorem bundle_name_check_witness: "CheckBundleNameIsValid ''com.demo'' \<and> \<not> Module_CheckBundleNameIsValid ''../../etc''"
  using bundle_name_check [of "''com.demo''"] bundle_name_check [of "''../../etc''"]
  by (simp add: is_letter_def is_digit_def less_eq_char_def)

text \<open>
  C15: The information of an accepted package has the bundle name and the version code that its profile declares in
  \<open>app\<close>. The name is valid, so it has no separator of paths in it, and the version of the old format is positive.
\<close>

theorem parsed_identity:
  assumes "BundleParser_Parse d p i st = Some (PARSE_OK, i1, st1)"
  shows "valid_bundle_name (bi_name (ib_baseBundleInfo i1)) \<and> CHR ''/'' \<notin> set (bi_name (ib_baseBundleInfo i1)) \<and>
    app_bundleName (ib_baseApplicationInfo i1) = bi_name (ib_baseBundleInfo i1) \<and>
    (\<exists>j app n. pk_profile p = Some (Some j) \<and> obj_find j ''app'' = Some app \<and>
       obj_find app ''bundleName'' = Some (JStr (bi_name (ib_baseBundleInfo i1))) \<and>
       version_member p app = Some (JNum n) \<and> bi_versionCode (ib_baseBundleInfo i1) = word_of_int n \<and>
       (\<not> pk_isNewVersion p \<longrightarrow> 0 < signed_take_bit 31 n))"
proof -
  from Parse_accepts(1) [OF assms] have base: "valid_bundle_name (app_bundleName (ib_baseApplicationInfo i1))"
    "bi_name (ib_baseBundleInfo i1) = app_bundleName (ib_baseApplicationInfo i1)"
    "bi_versionCode (ib_baseBundleInfo i1) = app_versionCode (ib_baseApplicationInfo i1)"
    by (simp_all add: accepted_info_def Let_def)
  have "CHR ''/'' \<notin> set s" if "valid_bundle_name s" for s
    using that by (auto simp: valid_bundle_name_def is_letter_def is_digit_def less_eq_char_def)
  with base Parse_accepts(4) [OF assms] show ?thesis by simp
qed

theorem parsed_identity_witness:
  "\<exists>i1. BundleParser_Parse demo_device demo_package new_InnerBundleInfo no_errors = Some (PARSE_OK, i1, no_errors) \<and>
     bi_name (ib_baseBundleInfo i1) = ''com.demo'' \<and> bi_versionCode (ib_baseBundleInfo i1) = 7"
proof -
  obtain i1 where run: "BundleParser_Parse demo_device demo_package new_InnerBundleInfo no_errors = Some (PARSE_OK, i1, no_errors)"
    using demo_accepted by blast
  from parsed_identity [OF run] have "bi_name (ib_baseBundleInfo i1) = ''com.demo'' \<and> bi_versionCode (ib_baseBundleInfo i1) = 7"
    by (auto simp: demo_package_def demo_config_def obj_find_def version_member_def config_version_member_def)
  with run show ?thesis by blast
qed





text \<open>
  C16: A package that is refused, for whatever reason, leaves the application, the bundle, the modules and the users of the
  information as they were, and no error of it is left behind in the two variables for the next package, if there
  was none before and the package is of the old format.
\<close>

theorem refused_package:
  assumes "BundleParser_Parse d p i st = Some (ret, i1, st1)" "ret \<noteq> PARSE_OK"
  shows "ib_baseApplicationInfo i1 = ib_baseApplicationInfo i \<and> ib_baseBundleInfo i1 = ib_baseBundleInfo i \<and>
    ib_innerModuleInfos i1 = ib_innerModuleInfos i \<and> ib_innerBundleUserInfos i1 = ib_innerBundleUserInfos i \<and>
    ib_currentPackage i1 = ib_currentPackage i \<and>
    (st = no_errors \<and> \<not> pk_isNewVersion p \<longrightarrow> st1 = no_errors)"
proof -
  have masks: "ib_baseApplicationInfo x = ib_baseApplicationInfo y \<and> ib_baseBundleInfo x = ib_baseBundleInfo y \<and>
      ib_innerModuleInfos x = ib_innerModuleInfos y \<and> ib_innerBundleUserInfos x = ib_innerBundleUserInfos y \<and>
      ib_currentPackage x = ib_currentPackage y" if "mask_info x = mask_info (y\<lparr>ib_isNewVersion := b\<rparr>)" for x y b
    using that by (cases x; cases y) (simp add: mask_info_def)
  have global: "g1 = pr_OK" if "Config_TransformTo d p source j pr_OK = Some (r, j1, g1)" for source j r j1 g1
    using that by (auto simp: Config_TransformTo_def Let_def split: option.splits prod.splits if_splits)
  consider (none) "i1 = i" "st1 = st"
    | (new) source where "pk_isNewVersion p" "Module_TransformTo d p source (i\<lparr>ib_isNewVersion := True\<rparr>) st = Some (ret, i1, st1)"
    | (old) source g where "\<not> pk_isNewVersion p" "st1 = st\<lparr>ps_global := g\<rparr>"
        "Config_TransformTo d p source (i\<lparr>ib_isNewVersion := False\<rparr>) (ps_global st) = Some (ret, i1, g)"
    using assms by (auto simp: BundleParser_Parse_def split: if_splits option.splits prod.splits)
  then show ?thesis
  proof cases
    case none
    then show ?thesis by simp
  next
    case new
    with module.refuses [OF new(2) assms(2)] masks show ?thesis by blast
  next
    case old
    then have "config_transform d p source (i\<lparr>ib_isNewVersion := False\<rparr>) st = Some (ret, i1, st1)" by (simp add: config_transform_def)
    from config.refuses [OF this assms(2)] masks have "ib_baseApplicationInfo i1 = ib_baseApplicationInfo i \<and> ib_baseBundleInfo i1 = ib_baseBundleInfo i \<and>
      ib_innerModuleInfos i1 = ib_innerModuleInfos i \<and> ib_innerBundleUserInfos i1 = ib_innerBundleUserInfos i \<and>
      ib_currentPackage i1 = ib_currentPackage i" by blast
    moreover have "st1 = no_errors" if "st = no_errors" using that old(2,3) global by (simp add: no_errors_def)
    ultimately show ?thesis by blast
  qed
qed

theorem refused_package_witness:
  "\<exists>i1. BundleParser_Parse demo_device (demo_package\<lparr>pk_profile := Some (Some (JObj []))\<rparr>) new_InnerBundleInfo no_errors =
       Some (ERR_APPEXECFWK_PARSE_PROFILE_MISSING_PROP, i1, no_errors) \<and> ib_innerModuleInfos i1 = []"
proof -
  let ?p = "demo_package\<lparr>pk_profile := Some (Some (JObj []))\<rparr>"
  have run: "BundleParser_Parse demo_device ?p new_InnerBundleInfo no_errors =
      Some (ERR_APPEXECFWK_PARSE_PROFILE_MISSING_PROP, new_InnerBundleInfo\<lparr>ib_isNewVersion := False\<rparr>, no_errors)"
    by (simp add: BundleParser_Parse_def demo_package_def Config_TransformTo_def Config_ConfigJson_from_json_def reading no_errors_def)
  from refused_package [OF run] have "ib_innerModuleInfos (new_InnerBundleInfo\<lparr>ib_isNewVersion := False\<rparr>) = []"
    by (simp add: new_InnerBundleInfo_def)
  with run show ?thesis by blast
qed

end
