(* ===== verification/Install_Packages.thy ===== *)
theory Install_Packages
  imports Package_Parsing Bundle_Installer_Correct
begin

text \<open>
  The installer with the parser of packages behind it: what \<open>ParseHapFiles\<close> hands on when the
  answers of its environment are those of \<open>BundleParser_Parse\<close> on the packages at the given paths. The
  thread-local results of earlier readings may be anything.
\<close>

definition parsed_from :: "device \<Rightarrow> (string \<Rightarrow> package) \<Rightarrow> install_env \<Rightarrow> bool" where
  "parsed_from d pkg e \<longleftrightarrow>
     (\<forall>path i i1. env_parse e path i = Inr i1 \<longrightarrow>
        (\<exists>st st1. BundleParser_Parse d (pkg path) i st = Some (PARSE_OK, i1, st1)))"

definition signed_as_system :: "app_type \<Rightarrow> provision_info \<Rightarrow> bool" where
  "signed_as_system appType p \<longleftrightarrow>
     appType = AppType_SYSTEM_APP \<or> pv_appFeature p = HOS_SYSTEM_APP \<or> pv_appFeature p = OHOS_SYSTEM_APP"

text \<open>An information that claims no more than a package may.\<close>

definition unprivileged_info :: "inner_bundle_info \<Rightarrow> bool" where
  "unprivileged_info i \<longleftrightarrow>
     default_privileges (ib_baseApplicationInfo i) \<and>
     \<not> bi_isKeepAlive (ib_baseBundleInfo i) \<and> \<not> bi_singleton (ib_baseBundleInfo i) \<and>
     (\<forall>a \<in> snd ` set (ib_baseAbilityInfos i). ai_priority a = 0) \<and> extensions_plain i"

definition checked_info :: "install_param \<Rightarrow> app_type \<Rightarrow> provision_info \<Rightarrow> inner_bundle_info \<Rightarrow> bool" where
  "checked_info param appType p i \<longleftrightarrow>
     valid_bundle_name (GetBundleName i) \<and> bi_name (ib_baseBundleInfo i) = GetBundleName i \<and>
     (ib_appType i = AppType_SYSTEM_APP \<longleftrightarrow> signed_as_system appType p) \<and>
     bi_isPreInstallApp (ib_baseBundleInfo i) = ip_isPreInstallApp param \<and>
     (\<not> (signed_as_system appType p \<and> ip_isPreInstallApp param) \<longrightarrow> unprivileged_info i)"

text \<open>What the signature says is in the information.\<close>

definition signed_info :: "provision_info \<Rightarrow> inner_bundle_info \<Rightarrow> bool" where
  "signed_info p i \<longleftrightarrow>
     bi_appId (ib_baseBundleInfo i) = GetBundleName i @ FILE_UNDERLINE @ pv_appId p \<and>
     app_fingerprint (ib_baseApplicationInfo i) = pv_fingerprint p \<and>
     ib_allowedAcls i = pv_allowedAcls p \<and> ib_appFeature i = pv_appFeature p \<and>
     (pv_apl p \<noteq> [] \<longrightarrow> app_appPrivilegeLevel (ib_baseApplicationInfo i) = pv_apl p)"

section \<open>One package\<close>

lemma new_package_start:
  "ib_appType (new_package param appType p) = AppType_SYSTEM_APP \<longleftrightarrow> signed_as_system appType p"
  "IsPreInstallApp (new_package param appType p) = ip_isPreInstallApp param"
  "ib_baseAbilityInfos (new_package param appType p) = []" "ib_skillInfos (new_package param appType p) = []"
  "ib_innerModuleInfos (new_package param appType p) = []" "ib_baseExtensionInfos (new_package param appType p) = []"
  by (simp_all add: new_package_def SetIsPreInstallApp_def SetAppType_def IsPreInstallApp_def signed_as_system_def
      new_InnerBundleInfo_def)

lemma parsed_package:
  assumes "parsed_from d pkg e" and "env_parse e path (new_package param appType p) = Inr i"
  shows "checked_info param appType p i"
proof -
  let ?i = "new_package param appType p"
  from assms obtain st st1 where run: "BundleParser_Parse d (pkg path) ?i st = Some (PARSE_OK, i, st1)"
    unfolding parsed_from_def by blast
  note [simp] = new_package_start
  have "unprivileged_info i" if "\<not> (signed_as_system appType p \<and> ip_isPreInstallApp param)"
  proof -
    have priv: "\<not> privileged ?i" using that by (simp add: privileged_def)
    have "extensions_plain i"
      using Parse_accepts(3) [OF run] priv by (simp add: extensions_checked_def extensions_plain_def)
    moreover have "\<forall>a \<in> snd ` set (ib_baseAbilityInfos i). ai_priority a = 0"
      using Parse_accepts(2) [OF run] priv by (fastforce simp: keys_listed_def listed_def declared_ability_def)
    ultimately show ?thesis
      using Parse_accepts(1) [OF run] priv by (simp add: unprivileged_info_def accepted_info_def Let_def default_privileges_def)
  qed
  then show ?thesis
    using Parse_accepts(1) [OF run] by (simp add: checked_info_def accepted_info_def Let_def GetBundleName_def)
qed

lemma set_provision_keeps:
  "checked_info param appType p i \<Longrightarrow> checked_info param appType p (set_provision p i)"
  by (simp add: checked_info_def unprivileged_info_def default_privileges_def extensions_plain_def set_provision_def
      SetCertificateFingerprint_def SetAppPrivilegeLevel_def SetProvisionId_def GetBundleName_def)

lemma entry_free_keeps:
  "checked_info param appType p i \<Longrightarrow> checked_info param appType p (SetEntryInstallationFree pack i)"
  by (simp add: checked_info_def unprivileged_info_def default_privileges_def extensions_plain_def SetEntryInstallationFree_def
      SetEntryInstallationFree_info_def GetBundleName_def)

lemma pack_info_keeps:
  "checked_info param appType p i \<Longrightarrow> checked_info param appType p (i\<lparr>ib_bundlePackInfo := pack\<rparr>)"
  by (simp add: checked_info_def unprivileged_info_def default_privileges_def extensions_plain_def GetBundleName_def)

lemma set_provision_signs:
  "bi_name (ib_baseBundleInfo i) = GetBundleName i \<Longrightarrow> signed_info p (set_provision p i)"
  by (simp add: signed_info_def set_provision_def SetCertificateFingerprint_def SetAppPrivilegeLevel_def SetProvisionId_def
      GetBundleName_def)

lemma parsed_bundle_info:
  assumes "parsed_from d pkg e" and "ParseBundleInfo e path (new_package param appType p) pack = Inr (i, pack1)"
  shows "checked_info param appType p i"
  using assms parsed_package [OF assms(1), of path param appType p] pack_info_keeps
  by (auto simp: ParseBundleInfo_def split: sum.splits if_splits)

section \<open>All packages of an installation\<close>

definition vouched :: "install_param \<Rightarrow> app_type \<Rightarrow> (string \<times> provision_info) list \<Rightarrow> string \<times> inner_bundle_info \<Rightarrow> bool" where
  "vouched param appType haps = (\<lambda>(path, i).
     \<exists>p. (path, p) \<in> set haps \<and> checked_info param appType p i \<and> signed_info p i)"

lemma vouched_unfold:
  "(\<forall>x \<in> set infos. vouched param appType haps x) \<Longrightarrow>
   \<forall>(path, i) \<in> set infos. \<exists>p. (path, p) \<in> set haps \<and> valid_bundle_name (GetBundleName i) \<and> signed_info p i \<and>
     (ib_appType i = AppType_SYSTEM_APP \<longleftrightarrow> signed_as_system appType p) \<and>
     (\<not> (signed_as_system appType p \<and> ip_isPreInstallApp param) \<longrightarrow> unprivileged_info i)"
proof (intro ballI)
  fix x assume "\<forall>x \<in> set infos. vouched param appType haps x" "x \<in> set infos"
  then have "vouched param appType haps x" by (rule bspec)
  then show "case x of (path, i) \<Rightarrow> \<exists>p. (path, p) \<in> set haps \<and> valid_bundle_name (GetBundleName i) \<and> signed_info p i \<and>
     (ib_appType i = AppType_SYSTEM_APP \<longleftrightarrow> signed_as_system appType p) \<and>
     (\<not> (signed_as_system appType p \<and> ip_isPreInstallApp param) \<longrightarrow> unprivileged_info i)"
    unfolding vouched_def checked_info_def by (cases x) (simp only: prod.case, blast)
qed

lemma set_sm_assign: "set (sm_assign k v m) \<subseteq> insert (k, v) (set m)"
  by (induction m rule: sm_assign.induct) auto

lemma set_sm_emplace: "set (sm_emplace k v m) \<subseteq> insert (k, v) (set m)"
  using set_sm_assign [of k v m] by (auto simp: sm_emplace_def split: option.split)

lemma parse_haps_vouched:
  assumes "parsed_from d pkg e"
  shows "parse_haps e param appType haps pack entry infos = (Inr infos1, entry1) \<Longrightarrow> set haps \<subseteq> set all \<Longrightarrow>
    (\<forall>x \<in> set infos. vouched param appType all x) \<Longrightarrow>
    (\<forall>x \<in> set infos1. vouched param appType all x) \<and> fst ` set infos1 = fst ` set infos \<union> fst ` set haps"
proof (induction haps arbitrary: pack entry infos)
  case Nil
  then show ?case by simp
next
  case (Cons hap haps)
  obtain path p where hap: "hap = (path, p)" by fastforce
  from Cons.prems(1) obtain i pack1 entry2 where
    parsed: "ParseBundleInfo e path (new_package param appType p) pack = Inr (i, pack1)" and
    rest: "parse_haps e param appType haps pack1 entry2
      (sm_emplace path (set_provision p (SetEntryInstallationFree pack1 i)) infos) = (Inr infos1, entry1)"
    by (auto simp: hap Let_def split: sum.splits if_splits)
  let ?i = "set_provision p (SetEntryInstallationFree pack1 i)"
  have "checked_info param appType p (SetEntryInstallationFree pack1 i)"
    by (rule entry_free_keeps [OF parsed_bundle_info [OF assms parsed]])
  then have "vouched param appType all (path, ?i)"
    using Cons.prems(2) set_provision_keeps set_provision_signs
    by (auto simp: vouched_def hap checked_info_def [of _ _ _ "SetEntryInstallationFree pack1 i"])
  with Cons.prems(3) have "\<forall>x \<in> set (sm_emplace path ?i infos). vouched param appType all x"
    using set_sm_emplace [of path ?i infos] by blast
  from Cons.IH [OF rest _ this] Cons.prems(2) show ?case
    by (auto simp: fst_set_emplace hap)
qed

section \<open>Property\<close>

text \<open>
  C11: What an installation takes over from its packages: every path gives one information; its bundle name is valid; it is
  a system application only if the caller or the signature of its package says so; its identity, its level
  and its access lists are those of the signature; and unless it is a preinstalled system application
  it has no privileges, whatever its profile asks for.
\<close>

theorem installed_packages_checked:
  assumes "parsed_from d pkg e" and "length paths = length provs"
    and "ParseHapFiles e paths param appType provs entry = (Inr infos, entry1)"
  shows "fst ` set infos = set paths \<and>
    (\<forall>(path, i) \<in> set infos. \<exists>p. (path, p) \<in> set (zip paths provs) \<and>
       valid_bundle_name (GetBundleName i) \<and> signed_info p i \<and>
       (ib_appType i = AppType_SYSTEM_APP \<longleftrightarrow> signed_as_system appType p) \<and>
       (\<not> (signed_as_system appType p \<and> ip_isPreInstallApp param) \<longrightarrow> unprivileged_info i))"
proof -
  from parse_haps_vouched [OF assms(1) assms(3) [unfolded ParseHapFiles_def] order.refl]
  have all: "\<forall>x \<in> set infos. vouched param appType (zip paths provs) x" and keys: "fst ` set infos = fst ` set (zip paths provs)"
    by simp_all
  have "fst ` set (zip paths provs) = set (map fst (zip paths provs))" by (simp only: set_map)
  also have "\<dots> = set paths" using assms(2) by (simp add: map_fst_zip)
  finally have "fst ` set infos = set paths" using keys by simp
  then show ?thesis using vouched_unfold [OF all] by (rule conjI)
qed

text \<open>An environment whose parser is the one of the model, and one package.\<close>

definition parsing_env :: install_env where
  "parsing_env = demo_env\<lparr>env_parse := (\<lambda>path i.
     case BundleParser_Parse demo_device demo_package i no_errors of
       Some (PARSE_OK, i1, st1) \<Rightarrow> Inr i1
     | _ \<Rightarrow> Inl ERR_APPEXECFWK_INSTALL_DISK_MEM_INSUFFICIENT)\<rparr>"

definition demo_provision :: provision_info where
  "demo_provision =
     \<lparr>pv_appId = ''id'', pv_apl = ''normal'', pv_appFeature = ''hos_normal_app'', pv_allowedAcls = [], pv_fingerprint = ''f''\<rparr>"

lemma parsing_env_parsed: "parsed_from demo_device (\<lambda>_. demo_package) parsing_env"
  by (auto simp: parsed_from_def parsing_env_def split: option.splits prod.splits parse_code.splits)

lemma parsing_env_accepts:
  "\<exists>i entry1. ParseHapFiles parsing_env [''/a.hap''] demo_param AppType_THIRD_PARTY_APP [demo_provision] False =
     (Inr [(''/a.hap'', i)], entry1)"
proof -
  obtain i1 where "BundleParser_Parse demo_device demo_package (new_package demo_param AppType_THIRD_PARTY_APP demo_provision) no_errors =
    Some (PARSE_OK, i1, no_errors)"
    using demo_accepted by blast
  then show ?thesis
    by (simp add: ParseHapFiles_def ParseBundleInfo_def parsing_env_def demo_env_def sample_env_def new_BundlePackInfo_def
        CheckSystemSize_def sm_emplace_def Let_def)
qed

theorem installed_packages_checked_witness:
  "\<exists>i entry1. ParseHapFiles parsing_env [''/a.hap''] demo_param AppType_THIRD_PARTY_APP [demo_provision] False =
     (Inr [(''/a.hap'', i)], entry1) \<and> valid_bundle_name (GetBundleName i) \<and> unprivileged_info i"
proof -
  obtain i entry1 where run: "ParseHapFiles parsing_env [''/a.hap''] demo_param AppType_THIRD_PARTY_APP [demo_provision] False =
     (Inr [(''/a.hap'', i)], entry1)"
    using parsing_env_accepts by blast
  have "\<not> ip_isPreInstallApp demo_param" by (simp add: demo_param_def new_InstallParam_def)
  with installed_packages_checked [OF parsing_env_parsed _ run] run show ?thesis by auto
qed

end
