(* ===== verification/Installer_Service_Correct.thy ===== *)
theory Installer_Service_Correct
  imports Installer_Service Install_Packages
begin

text \<open>
  What the service in front of the installers guarantees: who may change anything, what a remote caller
  can ask for, that every request is answered once, and that nothing is left over.
\<close>

section \<open>The data manager\<close>

text \<open>Sandbox requests work on the state of the service itself.\<close>

definition runs :: "'a bms_scheme \<Rightarrow> 'b bms_scheme \<Rightarrow> bool" where
  "runs s0 s \<longleftrightarrow> mgr_step\<^sup>*\<^sup>* (b_dm s0) (b_dm s)"

lemma runs_refl [simp]: "runs s s"
  by (simp add: runs_def)

lemma runs_trans: "runs s0 s1 \<Longrightarrow> runs s1 s2 \<Longrightarrow> runs s0 s2"
  unfolding runs_def by (rule rtranclp_trans)

lemma runs_frame [simp]:
  "runs s0 (s\<lparr>b_sandbox := x\<rparr>) = runs s0 s" "runs s0 (upd_sandbox f s) = runs s0 s" "runs s0 (log_call c s) = runs s0 s"
  by (simp_all add: runs_def upd_sandbox_def log_call_def)

lemma runs_ext:
  "fs_op e c s = (r, s') \<Longrightarrow> runs s0 s \<Longrightarrow> runs s0 s'"
  "perm_op e p s = (ok, s') \<Longrightarrow> runs s0 s \<Longrightarrow> runs s0 s'"
  "token_op e n v s = (t, s') \<Longrightarrow> runs s0 s \<Longrightarrow> runs s0 s'"
  by (auto simp: fs_op_def perm_op_def token_op_def)

lemma runs_dm:
  assumes "dm_op e f s = (r, s')" "runs s0 s" "\<And>kv d. mgr_step\<^sup>*\<^sup>* d (snd (f kv d))"
  shows "runs s0 s'"
proof -
  have "b_dm s' = snd (f (env_kv e (now s)) (b_dm s))"
    using assms(1) by (auto simp: dm_op_def log_call_def split: prod.splits)
  with assms(2,3) show ?thesis unfolding runs_def by (metis rtranclp_trans)
qed

lemma runs_snd [intro!]: "(\<And>r s'. x = (r, s') \<Longrightarrow> runs s0 s') \<Longrightarrow> runs s0 (snd x)"
  by (cases x) simp

lemma runs_uid: "mgr_step\<^sup>*\<^sup>* d (snd (case GenerateUidAndGid u d of (ok, u1, d1) \<Rightarrow> ((ok, u1), d1)))"
  using mgr_step.uid [of d u] by (simp add: split_beta r_into_rtranclp)

lemma runs_ops:
  "get_info e n s = (found, s') \<Longrightarrow> runs s0 s \<Longrightarrow> runs s0 s'"
  "enable_bundle e n s = (ok, s') \<Longrightarrow> runs s0 s \<Longrightarrow> runs s0 s'"
  "dm_op e (\<lambda>_ d. ((), RecycleUidAndGid i d)) s = (v, s') \<Longrightarrow> runs s0 s \<Longrightarrow> runs s0 s'"
  "dm_op e (\<lambda>kv d. ((), DeleteSandboxPersistentInfo kv n q d)) s = (v, s') \<Longrightarrow> runs s0 s \<Longrightarrow> runs s0 s'"
  "dm_op e (\<lambda>kv d. ((), StoreSandboxPersistentInfo kv n q d)) s = (v, s') \<Longrightarrow> runs s0 s \<Longrightarrow> runs s0 s'"
  "dm_op e (\<lambda>_ d. (case GenerateUidAndGid u d of (ok, u1, d1) \<Rightarrow> ((ok, u1), d1))) s = (w, s') \<Longrightarrow> runs s0 s \<Longrightarrow> runs s0 s'"
  by (erule runs_dm, assumption, auto intro: mgr_step.intros r_into_rtranclp runs_uid)+

lemma runs_rollback: "runs s0 s \<Longrightarrow> runs s0 (SandboxAppRollBack e i v s)"
  by (auto simp: SandboxAppRollBack_def Let_def split: prod.splits bool.splits;
      (elim runs_ext runs_ops | rule runs_snd | simp)+)

lemma runs_CreateSandboxDataDir: "CreateSandboxDataDir e v i uid k s = (r, i', s') \<Longrightarrow> runs s0 s \<Longrightarrow> runs s0 s'"
  by (auto simp: CreateSandboxDataDir_def Let_def split: prod.splits if_splits elim: runs_ext)

lemma runs_create_sandbox: "create_sandbox e n v i u s = (r, s') \<Longrightarrow> runs s0 s \<Longrightarrow> runs s0 s'"
  by (auto simp: create_sandbox_def Let_def split: prod.splits if_splits;
      (elim runs_ext runs_ops runs_CreateSandboxDataDir | rule runs_rollback | simp)+)

lemma runs_InstallSandboxApp: "InstallSandboxApp e n v s = (r, s') \<Longrightarrow> runs s s'"
  by (auto simp: InstallSandboxApp_def split: prod.splits if_splits option.splits bool.splits;
      (elim runs_create_sandbox runs_ops | simp)+)

lemma runs_UninstallSandboxApp: "UninstallSandboxApp e n k v s = (r, s') \<Longrightarrow> runs s s'"
  by (auto simp: UninstallSandboxApp_def Let_def split: prod.splits if_splits sum.splits bool.splits;
      (elim runs_ext runs_ops | simp)+)

section \<open>A task\<close>

text \<open>An operation of the base class changes the data manager by its own operations.\<close>

definition op_runs :: "(install_param \<Rightarrow> installer \<Rightarrow> (err_code \<times> installer) option) \<Rightarrow> bool" where
  "op_runs op \<longleftrightarrow> (\<forall>param s r s'. op param s = Some (r, s') \<longrightarrow> mgr_inv (b_dm s) \<longrightarrow> runs s s')"

lemma op_runsD: "op_runs op \<Longrightarrow> op param s = Some (r, s') \<Longrightarrow> mgr_inv (b_dm s) \<Longrightarrow> runs s s'"
  unfolding op_runs_def by blast

lemma runs_inv: "runs s s' \<Longrightarrow> mgr_inv (b_dm s) \<Longrightarrow> mgr_inv (b_dm s')"
  unfolding runs_def by (rule mgr_steps_inv)

lemma runs_reset [simp]: "runs s0 (ResetInstallProperties s) = runs s0 s" "runs (ResetInstallProperties s) s0 = runs s s0"
  by (simp_all add: runs_def ResetInstallProperties_def)

lemma reset_dm [simp]: "b_dm (ResetInstallProperties s) = b_dm s"
  by (simp add: ResetInstallProperties_def)

lemma install_for_users_runs:
  assumes "op_runs op"
  shows "install_for_users op param userIds r0 s = Some (r, s') \<Longrightarrow> mgr_inv (b_dm s) \<Longrightarrow> runs s s'"
proof (induction userIds arbitrary: r0 s)
  case (Cons u us)
  from Cons.prems(1) obtain q s1 where q: "op (param\<lparr>ip_userId := u, ip_installFlag := InstallFlag_REPLACE_EXISTING\<rparr>) s = Some (q, s1)"
    and rest: "install_for_users op param us q (ResetInstallProperties s1) = Some (r, s')" by (auto split: option.splits)
  have one: "runs s s1" by (rule op_runsD [OF assms q Cons.prems(2)])
  from Cons.IH [OF rest] runs_inv [OF one Cons.prems(2)] have "runs s1 s'" by simp
  with one show ?case by (rule runs_trans)
qed simp

lemma uninstall_for_users_runs:
  assumes "op_runs op"
  shows "uninstall_for_users op param userIds s = Some (rs, s') \<Longrightarrow> mgr_inv (b_dm s) \<Longrightarrow> runs s s'"
proof (induction userIds arbitrary: rs s)
  case (Cons u us)
  from Cons.prems(1) obtain q s1 rs1 where q: "op (param\<lparr>ip_userId := u\<rparr>) s = Some (q, s1)"
    and rest: "uninstall_for_users op param us (ResetInstallProperties s1) = Some (rs1, s')" by (auto split: option.splits)
  have one: "runs s s1" by (rule op_runsD [OF assms q Cons.prems(2)])
  from Cons.IH [OF rest] runs_inv [OF one Cons.prems(2)] have "runs s1 s'" by simp
  with one show ?case by (rule runs_trans)
qed simp

lemma base_ops_run:
  "op_runs (InstallBundle e paths appType)" "op_runs (ProcessRecover e n)" "op_runs (ProcessInstallBundleByBundleName e n)"
  "op_runs (UninstallBundle e n)" "op_runs (UninstallBundle_module e n m)"
  using install_steps uninstall_steps uninstall_module_steps
    steps.InnerProcessInstallByPreInstallInfo_runs [OF _ _ HOL.refl]
  by (auto simp: op_runs_def runs_def InstallBundle_def ProcessRecover_def ProcessInstallBundleByBundleName_def)

lemma BundleInstaller_runs:
  assumes "BundleInstaller_run e task param s = Some (r, s')" "mgr_inv (b_dm s)"
  shows "runs s s'"
proof -
  have install: "runs s s'" if "install_each op param s = Some (r, s')" "op_runs op" for op
    using that assms(2) install_for_users_runs op_runsD by (auto simp: install_each_def split: if_splits)
  have uninstall: "runs s s'" if "uninstall_each op param s = Some (r, s')" "op_runs op" for op
    using that assms(2) uninstall_for_users_runs op_runsD by (auto simp: uninstall_each_def split: if_splits)
  show ?thesis
    using assms install uninstall base_ops_run op_runsD [OF base_ops_run(3)]
    by (auto simp: BundleInstaller_run_def split: install_task.splits)
qed

lemma run_task_runs:
  assumes "run_task e save n sv = Some sv'" "mgr_inv (b_dm (sv_bms sv))"
  shows "runs (sv_bms sv) (sv_bms sv')"
proof -
  let ?s = "new_BundleInstaller (sv_bms sv)"
  obtain r s where run: "BundleInstaller_run e (jb_task (sv_tasks sv ! n)) (install_param.truncate (jb_param (sv_tasks sv ! n))) ?s = Some (r, s)"
    and sv': "sv_bms sv' = bms.truncate s"
    using assms(1) by (auto simp: run_task_def Let_def split: option.splits)
  have "b_dm ?s = b_dm (sv_bms sv)" by (simp add: new_BundleInstaller_def bms.defs)
  moreover have "runs ?s s" using BundleInstaller_runs [OF run] assms(2) calculation by simp
  ultimately show ?thesis by (simp add: runs_def sv' bms.defs)
qed

section \<open>What a remote caller can ask for\<close>

text \<open>The members of the parameters that stand for more than a normal installation have their defaults.\<close>

definition plain_param :: "'a install_param_scheme \<Rightarrow> bool" where
  "plain_param param \<longleftrightarrow>
     \<not> ip_isPreInstallApp param \<and> \<not> ip_forceExecuted param \<and> \<not> ip_needSavePreInstallInfo param \<and>
     ip_noSkipsKill param \<and> ip_needSendEvent param"

lemma plain_update [simp]:
  "plain_param (param\<lparr>ip_userId := u\<rparr>) = plain_param param" "plain_param (param\<lparr>ip_installFlag := f\<rparr>) = plain_param param"
  "plain_param (install_param.truncate param) = plain_param param"
  "plain_param (rparam\<lparr>ip_streamInstallMode := b\<rparr>) = plain_param rparam"
  by (simp_all add: plain_param_def install_param.defs)

lemma plain_checked [simp]: "plain_param (CheckInstallParam k param) = plain_param param"
  by (simp add: CheckInstallParam_def)

text \<open>What a reading function can end with.\<close>

definition leads_to :: "('r \<Rightarrow> bool) \<Rightarrow> (parcel \<Rightarrow> 'r option) \<Rightarrow> bool" where
  "leads_to P f \<longleftrightarrow> (\<forall>data x. f data = Some x \<longrightarrow> P x)"

lemma leads_toD: "leads_to P f \<Longrightarrow> f data = Some x \<Longrightarrow> P x"
  by (simp add: leads_to_def)

lemma leads_item: "(\<And>v. leads_to P (k v)) \<Longrightarrow> leads_to P (read_item sel d k)"
  by (auto simp: leads_to_def read_item_def split: list.splits option.splits)

lemma leads_reads:
  "(\<And>v. leads_to P (k1 v)) \<Longrightarrow> leads_to P (ReadInt32 k1)"
  "(\<And>v. leads_to P (k2 v)) \<Longrightarrow> leads_to P (ReadBool k2)"
  "(\<And>v. leads_to P (k3 v)) \<Longrightarrow> leads_to P (ReadString16 k3)"
  "(\<And>v. leads_to P (k4 v)) \<Longrightarrow> leads_to P (ReadObject k4)"
  "(\<And>v. leads_to P (k5 v)) \<Longrightarrow> leads_to P (ReadUint32 k5)"
  "(\<And>v. leads_to P (k6 v)) \<Longrightarrow> leads_to P (TryReadInt32 k6)"
  "(\<And>v. leads_to P (k7 v)) \<Longrightarrow> leads_to P (ReadInterfaceToken k7)"
  by (simp_all add: ReadInt32_def ReadBool_def ReadString16_def ReadObject_def ReadUint32_def TryReadInt32_def
      ReadInterfaceToken_def leads_item)

lemma leads_many:
  assumes "\<And>k'. (\<And>v. leads_to P (k' v)) \<Longrightarrow> leads_to P (rd k')" and "\<And>vs. leads_to P (k vs)"
  shows "leads_to P (read_many rd n vs k)"
proof (induction n arbitrary: vs)
  case 0
  then show ?case using assms(2) by (simp add: leads_to_def)
next
  case (Suc n)
  then have "leads_to P (rd (\<lambda>v. read_many rd n (vs @ [v]) k))" by (rule assms(1))
  then show ?case by (simp add: leads_to_def)
qed

lemma leads_parcelable:
  assumes "leads_to (\<lambda>(v, p). Q v) rd" and "\<And>v. Q v \<Longrightarrow> leads_to P (k v)"
  shows "leads_to P (ReadParcelable rd k)"
  using assms by (fastforce simp: leads_to_def ReadParcelable_def split: option.splits prod.splits)

definition opt_plain :: "remote_param option \<Rightarrow> bool" where
  "opt_plain x \<longleftrightarrow> (\<forall>param. x = Some param \<longrightarrow> plain_param param)"

lemma leads_end: "P r \<Longrightarrow> leads_to P (\<lambda>_. Some r)" "(\<And>p. P (f p)) \<Longrightarrow> leads_to P (\<lambda>p. Some (f p))"
  by (simp_all add: leads_to_def)

lemma read_param_plain: "leads_to (\<lambda>(v, p). opt_plain v) InstallParam_ReadFromParcel"
  unfolding InstallParam_ReadFromParcel_def
  by (intro leads_reads leads_many; simp split: option.split; intro allI conjI impI leads_reads leads_many leads_end)
    (auto simp: opt_plain_def plain_param_def new_RemoteParam_def new_InstallParam_def install_param.defs remote_param.defs intro!: leads_reads leads_many leads_end split: option.splits)

text \<open>Parameters arrive as they were sent, apart from the members that are not written.\<close>

definition sent_param :: "remote_param \<Rightarrow> remote_param" where
  "sent_param param = new_RemoteParam\<lparr>ip_installFlag := ip_installFlag param, ip_userId := ip_userId param,
     ip_isKeepData := ip_isKeepData param, ip_hashParams := ip_hashParams param, ip_installLocation := ip_installLocation param\<rparr>"

lemma hash_params_rebuilt: "sm_inv (m @ kvs) \<Longrightarrow> foldl (\<lambda>m (k, v). sm_emplace k v m) m kvs = m @ kvs"
proof (induction kvs arbitrary: m)
  case (Cons kv kvs)
  obtain k v where kv: "kv = (k, v)" by fastforce
  from Cons.prems have less: "\<forall>k' \<in> fst ` set m. k' < k" by (auto simp: sm_inv_def kv sorted_wrt_append)
  then have "map_of m k = None" by (auto simp: map_of_eq_None_iff)
  moreover have "sm_assign k v m = m @ [(k, v)]" using less by (induction k v m rule: sm_assign.induct) auto
  ultimately have "sm_emplace k v m = m @ [(k, v)]" by (simp add: sm_emplace_def)
  then show ?case using Cons.IH [of "m @ [(k, v)]"] Cons.prems by (simp add: kv)
qed simp

lemma param_read_back:
  assumes "sm_inv (ip_hashParams param)" "length (ip_hashParams param) < 2 ^ 31"
  shows "ReadParcelable InstallParam_ReadFromParcel k (InstallParam_Marshalling param @ p) = k (Some (sent_param param)) p"
proof -
  let ?rd = "\<lambda>k. ReadString16 (\<lambda>moduleName. ReadString16 (\<lambda>hashValue. k (moduleName, hashValue)))"
  have many: "read_many ?rd (length kvs) acc k' (concat (map (\<lambda>(k, v). [IString16 k, IString16 v]) kvs) @ q) = k' (acc @ kvs) q"
    for kvs acc k' q
    by (induction kvs arbitrary: acc) auto
  have flag: "install_flag_of (install_flag_number f) = f" for f by (cases f) (simp_all add: install_flag_of_def install_flag_number_def)
  have len: "nat (to_int32 (length (ip_hashParams param))) = length (ip_hashParams param)"
    using assms(2) by (simp add: to_int32_def signed_take_bit_int_eq_self)
  show ?thesis
    using hash_params_rebuilt [of "[]" "ip_hashParams param"] assms(1)
    by (simp add: ReadParcelable_def InstallParam_ReadFromParcel_def InstallParam_Marshalling_def len many flag sent_param_def)
qed

section \<open>What a message can do to the service\<close>

definition denial :: "report_code \<Rightarrow> bool" where
  "denial c \<longleftrightarrow> c = ERR_APPEXECFWK_INSTALL_PERMISSION_DENIED \<or> c = ERR_APPEXECFWK_UNINSTALL_PERMISSION_DENIED"

lemma denials [simp]: "denial ERR_APPEXECFWK_INSTALL_PERMISSION_DENIED" "denial ERR_APPEXECFWK_UNINSTALL_PERMISSION_DENIED"
  by (simp_all add: denial_def)

text \<open>
  The interface of the service: a relation on its states that the operations behind the messages respect.
  \<open>codes\<close> are the messages considered. Every such message respects it then, whatever it holds.
\<close>

locale service_relation =
  fixes k :: install_call and R :: "installer_service \<Rightarrow> installer_service \<Rightarrow> bool" and codes :: "nat set"
  assumes refl: "R sv sv"
    and request: "denial denied \<Longrightarrow> plain_param param \<Longrightarrow> R sv (snd (host_task k denied task param (Some r) sv))"
    and install_sandbox: "5 \<in> codes \<Longrightarrow> R sv (snd (Host_InstallSandboxApp k n t v sv))"
    and uninstall_sandbox: "6 \<in> codes \<Longrightarrow> R sv (snd (Host_UninstallSandboxApp k n a v sv))"
    and lose_stream: "R sv (snd (CreateStreamInstaller k param sv))"
    and create_stream: "plain_param param \<Longrightarrow> CreateStreamInstaller k param sv = (Some x, sv1) \<Longrightarrow>
          R sv (sv1\<lparr>sv_streams := sv_streams sv1 @ [x]\<rparr>)"
    and destroy_stream: "R sv (snd (DestoryBundleStreamInstaller k i sv))"
begin

lemma task_keeps:
  assumes "denial denied" "plain_param param"
  shows "R sv (snd (host_task k denied task param receiver sv))"
proof (cases receiver)
  case None
  then show ?thesis by (simp add: host_task_def CheckBundleInstallerManager_def refl)
next
  case (Some r)
  with assms request show ?thesis by simp
qed

lemma request_keeps: "denial denied \<Longrightarrow> leads_to (\<lambda>(p, sv'). R sv sv') (read_request k (host_task k denied task) sv)"
  unfolding read_request_def
  by (rule leads_parcelable [OF read_param_plain])
    (auto simp: opt_plain_def refl task_keeps intro!: leads_reads leads_end split: option.split)

lemma sandbox_keeps:
  assumes "5 \<in> codes"
  shows "leads_to (\<lambda>(p, sv'). R sv sv') (HandleInstallSandboxApp k sv)"
proof -
  have "R sv sv'" if "Host_InstallSandboxApp k n t v sv = (x, sv')" for n t v x sv'
    using install_sandbox [OF assms, of sv n t v] that by simp
  then show ?thesis
    unfolding HandleInstallSandboxApp_def
    by (intro leads_reads) (auto simp: leads_to_def split: prod.splits sum.splits)
qed

lemma unsandbox_keeps:
  assumes "6 \<in> codes"
  shows "leads_to (\<lambda>(p, sv'). R sv sv') (HandleUninstallSandboxApp k sv)"
proof -
  have "R sv sv'" if "Host_UninstallSandboxApp k n a v sv = (x, sv')" for n a v x sv'
    using uninstall_sandbox [OF assms, of sv n a v] that by simp
  then show ?thesis
    unfolding HandleUninstallSandboxApp_def by (intro leads_reads) (auto simp: leads_to_def split: prod.splits)
qed

lemma stream_keeps: "leads_to (\<lambda>(p, sv'). R sv sv') (HandleCreateStreamInstaller k sv)"
proof -
  have lost: "R sv sv'" if "CreateStreamInstaller k param sv = (x, sv')" for param x sv'
    using lose_stream [of sv param] that by simp
  show ?thesis
    unfolding HandleCreateStreamInstaller_def
    by (rule leads_parcelable [OF read_param_plain])
      (auto simp: leads_to_def opt_plain_def refl intro: lost create_stream split: option.splits prod.splits if_splits)
qed

lemma handlers_keep:
  assumes "code < length (install_handlers k)" "code \<in> codes"
  shows "leads_to (\<lambda>(p, sv'). R sv sv') ((install_handlers k ! code) sv)"
proof -
  have "leads_to (\<lambda>(p, sv'). R sv sv') (HandleInstallMultipleHapsMessage k sv)"
    unfolding HandleInstallMultipleHapsMessage_def Host_Install_def
    by (intro leads_reads leads_many) (auto intro!: leads_reads leads_end simp: refl request_keeps)
  moreover have "leads_to (\<lambda>(p, sv'). R sv sv') (HandleInstallMessage k sv)" "leads_to (\<lambda>(p, sv'). R sv sv') (HandleRecoverMessage k sv)"
    "leads_to (\<lambda>(p, sv'). R sv sv') (HandleUninstallMessage k sv)" "leads_to (\<lambda>(p, sv'). R sv sv') (HandleUninstallModuleMessage k sv)"
    "leads_to (\<lambda>(p, sv'). R sv sv') (HandleDestoryBundleStreamInstaller k sv)"
    by (simp_all add: HandleInstallMessage_def HandleRecoverMessage_def HandleUninstallMessage_def HandleUninstallModuleMessage_def
        HandleDestoryBundleStreamInstaller_def Host_Install_def Host_Recover_def Host_Uninstall_def Host_UninstallModule_def
        leads_reads leads_end request_keeps destroy_stream)
  moreover have "code \<in> {0, 1, 2, 3, 4, 5, 6, 7, 8}" using assms(1) by (auto simp: install_handlers_def)
  ultimately show ?thesis using assms(2) sandbox_keeps unsandbox_keeps stream_keeps by (auto simp: install_handlers_def)
qed

lemma message_keeps:
  assumes "Installer_OnRemoteRequest k code data sv = Some (r, p, sv')" "code \<in> codes"
  shows "R sv sv'"
  using assms(1) handlers_keep [OF _ assms(2)]
  by (auto simp: Installer_OnRemoteRequest_def leads_to_def read_item_def ReadInterfaceToken_def refl
      split: list.splits option.splits if_splits prod.splits)

end

section \<open>Callers without the permission\<close>

definition reported :: "installer_service \<Rightarrow> installer_service \<Rightarrow> bool" where
  "reported sv sv' \<longleftrightarrow> (\<exists>rs. sv' = sv\<lparr>sv_reports := sv_reports sv @ rs\<rparr> \<and>
     length rs \<le> 1 \<and> (\<forall>(r, c) \<in> set rs. denial c \<or> c = ResultCode ERR_APPEXECFWK_INSTALL_INTERNAL_ERROR))"

lemma reported_refl [simp]: "reported sv sv"
  unfolding reported_def by (rule exI [of _ "[]"]) simp

section \<open>Runs of the service\<close>

definition new_installer_service :: "bms \<Rightarrow> installer_service" where
  "new_installer_service b =
     \<lparr>sv_bms = b, sv_manager = True, sv_installers = [], sv_tasks = [], sv_removals = [], sv_reports = [], sv_files = [],
      sv_streamIds = 0, sv_streams = []\<rparr>"

text \<open>
  One step of the service, with the receivers of the requests for tasks that it takes: a request, a sandbox request,
  a stream made or removed, a task carried out, an installer removed, or a change of the data manager by others.
\<close>

inductive service_step :: "nat list \<Rightarrow> installer_service \<Rightarrow> installer_service \<Rightarrow> bool" where
  request: "denial denied \<Longrightarrow> plain_param param \<Longrightarrow> service_step [r] sv (snd (host_task k denied task param (Some r) sv))"
| install_sandbox: "service_step [] sv (snd (Host_InstallSandboxApp k n t v sv))"
| uninstall_sandbox: "service_step [] sv (snd (Host_UninstallSandboxApp k n a v sv))"
| lose_stream: "service_step [] sv (snd (CreateStreamInstaller k param sv))"
| create_stream: "plain_param param \<Longrightarrow> CreateStreamInstaller k param sv = (Some x, sv1) \<Longrightarrow>
    service_step [] sv (sv1\<lparr>sv_streams := sv_streams sv1 @ [x]\<rparr>)"
| destroy_stream: "service_step [] sv (snd (DestoryBundleStreamInstaller k i sv))"
| task: "n < length (sv_tasks sv) \<Longrightarrow> run_task e save n sv = Some sv' \<Longrightarrow> service_step [] sv sv'"
| remove: "service_step [] sv (ProcessRemoveEvent sv)"
| others: "runs (sv_bms sv) b \<Longrightarrow> service_step [] sv (sv\<lparr>sv_bms := b\<rparr>)"

inductive service_run :: "installer_service \<Rightarrow> nat list \<Rightarrow> installer_service \<Rightarrow> bool" where
  start: "service_run sv [] sv"
| step: "service_run sv rs sv1 \<Longrightarrow> service_step qs sv1 sv2 \<Longrightarrow> service_run sv (rs @ qs) sv2"

inductive_cases service_stepE: "service_step rs sv sv'"

definition step_or_same :: "installer_service \<Rightarrow> installer_service \<Rightarrow> bool" where
  "step_or_same sv sv' \<longleftrightarrow> sv' = sv \<or> (\<exists>rs. service_step rs sv sv')"

interpretation messages: service_relation k step_or_same UNIV for k
  by unfold_locales (auto simp: step_or_same_def intro: service_step.intros)

interpretation refused: service_relation k "\<lambda>sv sv'. \<not> may_install k \<longrightarrow> reported sv sv'" "- {5, 6}" for k
proof
  fix sv sv1 :: installer_service and param x n t v a i r denied task
  assume "denial denied"
  moreover have "reported sv (sv\<lparr>sv_reports := sv_reports sv @ [(r, c)]\<rparr>)"
    if "denial c \<or> c = ResultCode ERR_APPEXECFWK_INSTALL_INTERNAL_ERROR" for c
    unfolding reported_def using that by (intro exI [of _ "[(r, c)]"]) simp
  ultimately show "\<not> may_install k \<longrightarrow> reported sv (snd (host_task k denied task param (Some r) sv))"
    by (simp add: host_task_def CheckBundleInstallerManager_def OnFinished_def)
qed (auto simp: CreateStreamInstaller_def DestoryBundleStreamInstaller_def)

text \<open>
  Whatever a message to the installers holds, it is one step of the service or leaves it as it is. So what follows on
  runs of the service is about every sequence of messages, tasks and removals.
\<close>

lemma messages_are_steps:
  assumes "Installer_OnRemoteRequest k code data sv = Some (r, p, sv')"
  shows "sv' = sv \<or> (\<exists>rs. service_step rs sv sv')"
  using messages.message_keeps [OF assms] by (simp add: step_or_same_def)

text \<open>So is the request that the owner of a stream makes.\<close>

lemma streams_are_steps:
  "plain_param (si_installParam x) \<Longrightarrow>
     service_step (case receiver of None \<Rightarrow> [] | Some r \<Rightarrow> [r]) sv (snd (StreamInstaller_Install k x receiver sv)) \<or>
     snd (StreamInstaller_Install k x receiver sv) = sv"
  by (auto simp: StreamInstaller_Install_def Host_Install_def intro: service_step.request [OF denials(1)])

text \<open>
  The name of a file in a stream is only checked for its length and its extension: the owner can make a file outside the
  directory of the stream.
\<close>

lemma stream_leaves_directory:
  assumes "may_install k" "ic_callingUid k = si_installedUid x" "length (si_tempDir x) \<le> 200"
  shows "CreateStream k x ''../../a.hap'' offset = ic_open k (si_tempDir x @ ''../../a.hap'') offset"
  using assms by (simp add: CreateStream_def CheckFileType_def CheckFileName_def CreateFileDescriptor_def PATH_MAX_SIZE_def
      INSTALL_FILE_SUFFIX_def tolower_def)

text \<open>Sandbox applications are installed for anyone who asks.\<close>

lemma sandbox_without_permission:
  assumes "n \<noteq> []" "0 < t" "t < 3"
  shows "\<exists>p. Installer_OnRemoteRequest k 5 [IToken installer_descriptor, IString16 n, IInt32 t, IInt32 v] sv =
    Some (NO_ERROR, p, sv\<lparr>sv_bms := snd (InstallSandboxApp (ic_env k) n v (sv_bms sv))\<rparr>)"
proof -
  obtain r b where "InstallSandboxApp (ic_env k) n v (sv_bms sv) = (r, b)" by fastforce
  then show ?thesis
    using assms
    by (cases r) (simp_all add: Installer_OnRemoteRequest_def install_handlers_def HandleInstallSandboxApp_def
        Host_InstallSandboxApp_def LOWER_DLP_TYPE_BOUND_def UPPER_DLP_TYPE_BOUND_def)
qed

text \<open>
  An installation for all users reports what it gives for the last one, whatever it gave for the others.
\<close>

lemma install_for_users_append:
  "install_for_users op param (us @ vs) r0 s =
     Option.bind (install_for_users op param us r0 s) (\<lambda>(r1, s1). install_for_users op param vs r1 s1)"
  by (induction us arbitrary: r0 s) (auto split: option.splits)

lemma last_user_reported:
  assumes "install_for_users op param us r0 s = Some (r1, s1)"
    and "op (param\<lparr>ip_userId := u, ip_installFlag := InstallFlag_REPLACE_EXISTING\<rparr>) s1 = Some (ERR_OK, s2)"
  shows "install_for_users op param (us @ [u]) r0 s = Some (ERR_OK, ResetInstallProperties s2)"
  using assms by (simp add: install_for_users_append)

text \<open>An uninstallation for all users succeeds exactly when it does for one of them and no other one really fails.\<close>

lemma first_failure_ok: "first_failure rs ERR_OK = ERR_OK \<longleftrightarrow> list_all harmless rs"
  by (induction rs) (auto simp: harmless_def)

lemma uninstall_result_ok:
  "rs \<noteq> [] \<Longrightarrow> uninstall_result rs = ERR_OK \<longleftrightarrow> ERR_OK \<in> set rs \<and> list_all harmless rs"
  by (cases rs) (auto simp: uninstall_result_def first_failure_ok harmless_def)

section \<open>The invariant of the service\<close>

text \<open>
  The installers are those of the tasks and of the events that wait; a task is reported to the receiver of its
  installer; nobody but the device itself asks for more than a normal installation; and the data manager is in a
  state that its own operations can reach.
\<close>

definition service_inv :: "installer_service \<Rightarrow> bool" where
  "service_inv sv \<longleftrightarrow>
     mgr_reachable (b_dm (sv_bms sv)) \<and> sm_inv (sv_installers sv) \<and>
     mset (map fst (sv_installers sv)) = mset (map jb_installerId (sv_tasks sv)) + mset (sv_removals sv) \<and>
     (\<forall>job \<in> set (sv_tasks sv). map_of (sv_installers sv) (jb_installerId job) = Some (jb_receiver job) \<and> plain_param (jb_param job)) \<and>
     (\<forall>x \<in> set (sv_streams sv). plain_param (si_installParam x))"

lemma mset_assign: "map_of m k = None \<Longrightarrow> mset (map fst (sm_assign k v m)) = add_mset k (mset (map fst m))"
  by (induction k v m rule: sm_assign.induct) (auto split: if_splits)

lemma mset_erase:
  assumes "sm_inv m" "map_of m k \<noteq> None"
  shows "mset (map fst m) = add_mset k (mset (map fst (sm_erase k m)))"
proof -
  have "mset (map fst (sm_erase k m)) = filter_mset (\<lambda>x. x \<noteq> k) (mset (map fst m))"
    by (induction m) (auto simp: sm_erase_def)
  moreover have "count (mset (map fst m)) k = 1"
    using assms sm_inv_distinct [OF assms(1)] by (auto simp: distinct_count_atmost_1 map_of_eq_None_iff dest!: spec [of _ k])
  ultimately show ?thesis by (intro multiset_eqI) auto
qed

lemma host_task_inv:
  assumes "service_inv sv" "plain_param param"
  shows "service_inv (snd (host_task k denied task param (Some r) sv))"
  using assms
  by (auto simp: host_task_def CheckBundleInstallerManager_def CreateTask_def CreateInstaller_def OnFinished_def
      service_inv_def mset_assign [unfolded mset_map] split: if_splits)

lemma RemoveInstaller_inv:
  assumes "service_inv sv"
  shows "service_inv (ProcessRemoveEvent sv)"
proof (cases "sv_removals sv")
  case Nil
  then show ?thesis using assms by (simp add: ProcessRemoveEvent_def)
next
  case (Cons i ids)
  let ?m = "sv_installers sv"
  from assms have inv: "sm_inv ?m" and ids: "mset (map fst ?m) = mset (map jb_installerId (sv_tasks sv)) + add_mset i (mset ids)"
    by (simp_all add: service_inv_def Cons)
  from ids have "i \<in># mset (map fst ?m)" by simp
  then have "map_of ?m i \<noteq> None" by (simp add: map_of_eq_None_iff)
  from mset_erase [OF inv this] ids
  have erased: "mset (map fst (sm_erase i ?m)) = mset (map jb_installerId (sv_tasks sv)) + mset ids" by simp
  have "i \<notin> jb_installerId ` set (sv_tasks sv)"
  proof
    assume "i \<in> jb_installerId ` set (sv_tasks sv)"
    then have "i \<in> set (map fst (sm_erase i ?m))" using erased by (metis UnI1 image_set set_mset_mset set_mset_union)
    then show False by (auto simp: sm_erase_def)
  qed
  then show ?thesis using assms erased inv
    by (auto simp: ProcessRemoveEvent_def RemoveInstaller_def Cons service_inv_def)
qed

lemma streams_inv:
  assumes "service_inv sv"
  shows "service_inv (snd (CreateStreamInstaller k param sv))" "service_inv (snd (DestoryBundleStreamInstaller k i sv))"
    "plain_param param \<Longrightarrow> CreateStreamInstaller k param sv = (Some x, sv1) \<Longrightarrow>
       service_inv (sv1\<lparr>sv_streams := sv_streams sv1 @ [x]\<rparr>)"
  using assms
  by (auto simp: CreateStreamInstaller_def DestoryBundleStreamInstaller_def service_inv_def Let_def split: if_splits)

lemma runs_service_inv:
  "service_inv sv \<Longrightarrow> runs (sv_bms sv) b \<Longrightarrow> service_inv (sv\<lparr>sv_bms := b\<rparr>)"
  by (auto simp: service_inv_def runs_def intro: steps_reachable)

lemma sandbox_service_inv:
  assumes "service_inv sv"
  shows "service_inv (snd (Host_InstallSandboxApp k n t v sv))" "service_inv (snd (Host_UninstallSandboxApp k n a v sv))"
  using assms
  by (auto simp: Host_InstallSandboxApp_def Host_UninstallSandboxApp_def split: prod.split
      intro!: runs_service_inv dest: runs_InstallSandboxApp runs_UninstallSandboxApp)

lemma run_task_state:
  assumes "run_task e save n sv = Some sv'"
  shows "sv_installers sv' = sv_installers sv" "sv_streams sv' = sv_streams sv"
    "sv_tasks sv' = take n (sv_tasks sv) @ drop (Suc n) (sv_tasks sv)"
    "sv_removals sv' = sv_removals sv @ [jb_installerId (sv_tasks sv ! n)]"
    "map fst (sv_reports sv') = map fst (sv_reports sv) @ [jb_receiver (sv_tasks sv ! n)]"
  using assms by (auto simp: run_task_def Let_def OnFinished_def split: option.splits)

lemma mset_split: "n < length xs \<Longrightarrow> mset (map f xs) = add_mset (f (xs ! n)) (mset (map f (take n xs @ drop (Suc n) xs)))"
  by (subst (1) id_take_nth_drop [of n xs]) simp_all

lemma run_task_inv:
  assumes "service_inv sv" "run_task e save n sv = Some sv'" "n < length (sv_tasks sv)"
  shows "service_inv sv'"
proof -
  from assms(1) have reach: "mgr_reachable (b_dm (sv_bms sv))" by (simp add: service_inv_def)
  have "runs (sv_bms sv) (sv_bms sv')" by (rule run_task_runs [OF assms(2) mgr_reachable_inv [OF reach]])
  then have "mgr_reachable (b_dm (sv_bms sv'))" using reach unfolding runs_def by (rule steps_reachable)
  moreover have "set (take n (sv_tasks sv) @ drop (Suc n) (sv_tasks sv)) \<subseteq> set (sv_tasks sv)"
    using set_take_subset set_drop_subset by fastforce
  ultimately show ?thesis
    using assms(1) mset_split [OF assms(3), of jb_installerId] run_task_state [OF assms(2)]
    by (auto simp: service_inv_def subset_iff)
qed

lemma service_step_inv: "service_step rs sv sv' \<Longrightarrow> service_inv sv \<Longrightarrow> service_inv sv'"
  by (induction rule: service_step.induct)
    (simp_all add: host_task_inv sandbox_service_inv streams_inv run_task_inv RemoveInstaller_inv runs_service_inv)

lemma service_run_inv: "service_run sv rs sv' \<Longrightarrow> service_inv sv \<Longrightarrow> service_inv sv'"
  by (induction rule: service_run.induct) (auto intro: service_step_inv)

lemma new_service_inv: "mgr_reachable (b_dm b) \<Longrightarrow> service_inv (new_installer_service b)"
  by (simp add: service_inv_def new_installer_service_def)

section \<open>Every request is answered\<close>

definition answers :: "installer_service \<Rightarrow> nat multiset" where
  "answers sv = mset (map fst (sv_reports sv)) + mset (map jb_receiver (sv_tasks sv))"

lemma answers_frame [simp]:
  "answers (sv\<lparr>sv_bms := b\<rparr>) = answers sv" "answers (sv\<lparr>sv_streams := xs\<rparr>) = answers sv"
  "answers (sv\<lparr>sv_streamIds := w\<rparr>) = answers sv" "answers (sv\<lparr>sv_removals := is\<rparr>) = answers sv"
  "answers (sv\<lparr>sv_installers := m\<rparr>) = answers sv"
  by (simp_all add: answers_def)

lemma service_step_answers: "service_step rs sv sv' \<Longrightarrow> answers sv' = answers sv + mset rs"
proof (induction rule: service_step.induct)
  case (request denied param r sv k task)
  show ?case
    by (auto simp: host_task_def CheckBundleInstallerManager_def CreateTask_def CreateInstaller_def OnFinished_def answers_def)
next
  case (task n sv e save sv')
  show ?case
    using mset_split [OF task(1), of jb_receiver] run_task_state [OF task(2)] by (simp add: answers_def mset_map [symmetric] del: mset_map)
qed (auto simp: Host_InstallSandboxApp_def Host_UninstallSandboxApp_def CreateStreamInstaller_def DestoryBundleStreamInstaller_def
    ProcessRemoveEvent_def RemoveInstaller_def Let_def split: if_splits prod.splits list.splits)

lemma service_run_answers: "service_run sv rs sv' \<Longrightarrow> answers sv' = answers sv + mset rs"
  by (induction rule: service_run.induct) (simp_all add: service_step_answers)

section \<open>The packages of a task\<close>

definition harmless_package :: "inner_bundle_info \<Rightarrow> bool" where
  "harmless_package i \<longleftrightarrow> valid_bundle_name (GetBundleName i) \<and> \<not> IsPreInstallApp i \<and> unprivileged_info i"

lemma hash_harmless [simp]: "harmless_package (SetModuleHashValue h i) = harmless_package i"
  by (simp add: harmless_package_def SetModuleHashValue_def upd_current_module_def unprivileged_info_def default_privileges_def
      extensions_plain_def GetBundleName_def IsPreInstallApp_def)

lemma check_hashes_harmless:
  "check_hashes infos names hashes = Inr (infos1, rest) \<Longrightarrow> (\<forall>x \<in> set infos. harmless_package (snd x)) \<Longrightarrow>
   \<forall>x \<in> set infos1. harmless_package (snd x)"
  by (induction infos names hashes arbitrary: infos1 rest rule: check_hashes.induct)
    (fastforce split: list.splits if_splits option.splits sum.splits simp: Let_def)+

lemma checked_harmless:
  assumes "checked_info param appType p i" "plain_param param"
  shows "harmless_package i"
  using assms by (simp add: checked_info_def harmless_package_def plain_param_def IsPreInstallApp_def)

lemma in_order_set: "x \<in> set (in_order e m) \<Longrightarrow> x \<in> set m"
  by (auto simp: in_order_def map_filter_def intro: map_of_SomeD)

lemma task_packages:
  assumes "parsed_from d pkg e" and "plain_param param"
    and "check_install e paths param appType s = Some (Inr infos, s1)"
  shows "\<forall>x \<in> set infos. harmless_package (snd x)"
proof -
  from assms(3) obtain provs paths1 parsed entry entry1 where
    parse: "parse_haps e param appType (zip paths1 provs) new_BundlePackInfo entry [] = (Inr parsed, entry1)" and
    hash: "CheckHapHashParams (in_order e parsed) (ip_hashParams param) = Inr infos"
    by (fastforce simp: check_install_def Let_def ParseHapFiles_def split: if_splits sum.splits prod.splits list.splits)
  from parse_haps_vouched [OF assms(1) parse order.refl]
  have "\<forall>x \<in> set parsed. vouched param appType (zip paths1 provs) x" by simp
  then have "\<forall>x \<in> set parsed. harmless_package (snd x)"
    using checked_harmless [OF _ assms(2)] by (fastforce simp: vouched_def)
  then have "\<forall>x \<in> set (in_order e parsed). harmless_package (snd x)" using in_order_set by blast
  then show ?thesis
    using hash check_hashes_harmless by (fastforce simp: CheckHapHashParams_def split: if_splits sum.splits prod.splits)
qed

section \<open>An example\<close>

definition demo_install_kit :: "bool \<Rightarrow> access_token_kit" where
  "demo_install_kit native = \<lparr>tk_APL_NORMAL = 1, tk_APL_SYSTEM_BASIC = 2, tk_APL_SYSTEM_CORE = 3, tk_SYSTEM_GRANT = 1,
     tk_USER_GRANT = 0, tk_PERMISSION_DENIED = -1, tk_DEFAULT_FLAG = 0, tk_SYSTEM_FIXED = 4, tk_RET_SUCCESS = 0,
     tk_alloc = (\<lambda>_. 5), tk_ret = (\<lambda>_ _. 0), tk_GetDefPermissions = (\<lambda>_ _. None), tk_GetDefPermission = (\<lambda>_ _. None),
     tk_GetReqPermissions = (\<lambda>_ _ _. None), tk_VerifyAccessToken = (\<lambda>_ _ _. -1), tk_is_native = (\<lambda>_. native),
     tk_GetHapTokenID = (\<lambda>_ _ _ _. 5)\<rparr>"

definition demo_call :: "bool \<Rightarrow> install_call" where
  "demo_call native = \<lparr>ic_kit = demo_install_kit native, ic_tokenCalls = [], ic_callerToken = 9, ic_callingUid = 20010010,
     ic_tick = 1000, ic_env = demo_env, ic_tempDir = (\<lambda>_. ''/stream/''), ic_open = (\<lambda>_ _. 4), ic_iface_cast = Some, ic_room = (\<lambda>_ _. True), ic_noInit = 1,
     ic_object = (\<lambda>_. 3), ic_default = (\<lambda>_ _. (UNKNOWN_ERROR, []))\<rparr>"

definition demo_remote :: remote_param where "demo_remote = new_RemoteParam\<lparr>ip_userId := 100\<rparr>"

definition demo_message :: parcel where
  "demo_message = IToken installer_descriptor # IString16 ''/a.hap'' # InstallParam_Marshalling demo_remote @ [IObject (Some 7)]"

abbreviation demo_installers :: installer_service where
  "demo_installers \<equiv> new_installer_service (bms.truncate demo_service)"

lemma demo_may [simp]: "may_install (demo_call native) = native"
  by (simp add: may_install_def VerifyCallingPermission_def demo_call_def demo_install_kit_def)

lemma demo_param_plain [simp]: "plain_param demo_remote"
  by (simp add: plain_param_def demo_remote_def new_RemoteParam_def new_InstallParam_def install_param.defs remote_param.defs)

lemma demo_read: "ReadParcelable InstallParam_ReadFromParcel k (InstallParam_Marshalling demo_remote @ p) = k (Some demo_remote) p"
  using param_read_back [of demo_remote k p] demo_param_plain
  by (simp add: sent_param_def demo_remote_def new_RemoteParam_def new_InstallParam_def install_param.defs remote_param.defs)

lemma demo_handled:
  "Installer_OnRemoteRequest (demo_call native) 0 demo_message sv =
     Some (NO_ERROR, [], snd (Host_Install (demo_call native) [''/a.hap''] demo_remote (Some 7) sv))"
  by (simp add: Installer_OnRemoteRequest_def demo_message_def install_handlers_def HandleInstallMessage_def read_request_def demo_read)
    (simp add: demo_call_def)

text \<open>The task of the example, up to its end.\<close>

lemma installs_alike:
  "ProcessBundleInstall e paths param appType (s\<lparr>in_userId := x\<rparr>) = ProcessBundleInstall e paths param appType s"
  by (simp add: ProcessBundleInstall_def check_install_def Let_def)

lemma demo_fresh: "new_BundleInstaller (bms.truncate demo_service) = demo_service\<lparr>in_userId := INVALID_USERID\<rparr>"
  by (simp add: new_BundleInstaller_def demo_service_def new_installer_def bms.defs installer.defs)

lemma demo_truncated: "install_param.truncate demo_remote = demo_param"
  by (simp add: demo_remote_def demo_param_def new_RemoteParam_def new_InstallParam_def install_param.defs remote_param.defs)

definition demo_job :: install_job where
  "demo_job = \<lparr>jb_installerId = 1000, jb_task = Install_task [''/a.hap''], jb_param = demo_remote, jb_receiver = 7\<rparr>"

lemma demo_asked:
  "snd (host_task (demo_call True) denied (Install_task [''/a.hap'']) demo_remote (Some 7) demo_installers) =
     demo_installers\<lparr>sv_installers := [(1000, 7)], sv_tasks := [demo_job]\<rparr>"
proof -
  have "CheckInstallParam (demo_call True) demo_remote = demo_remote"
    by (simp add: CheckInstallParam_def demo_remote_def UNSPECIFIED_USERID_def)
  then show ?thesis
    by (simp add: host_task_def CheckBundleInstallerManager_def CreateTask_def CreateInstaller_def new_installer_service_def demo_job_def)
      (simp add: demo_call_def)
qed

lemma demo_task:
  "\<exists>b files. run_task demo_env save 0 (demo_installers\<lparr>sv_installers := [(1000, 7)], sv_tasks := [demo_job]\<rparr>) =
     Some (demo_installers\<lparr>sv_installers := [(1000, 7)], sv_reports := [(7, ResultCode ERR_OK)], sv_bms := b, sv_removals := [1000],
       sv_files := files\<rparr>)"
proof -
  obtain s' where run: "ProcessBundleInstall demo_env [''/a.hap''] demo_param AppType_THIRD_PARTY_APP demo_service = Some (ERR_OK, s')"
    using demo_install by blast
  have "BundleInstaller_run demo_env (Install_task [''/a.hap'']) demo_param (demo_service\<lparr>in_userId := INVALID_USERID\<rparr>) = Some (ERR_OK, s')"
    using run by (simp add: BundleInstaller_run_def install_each_def InstallBundle_def installs_alike)
      (simp add: demo_param_def new_InstallParam_def ALL_USERID_def)
  then show ?thesis
    by (simp add: run_task_def demo_job_def demo_truncated demo_fresh new_installer_service_def OnFinished_def Let_def)
qed

lemma demo_run:
  "\<exists>sv. service_run demo_installers [7] sv \<and> sv_reports sv = [(7, ResultCode ERR_OK)] \<and> sv_tasks sv = [] \<and> sv_removals sv = []"
proof -
  let ?sv1 = "demo_installers\<lparr>sv_installers := [(1000, 7)], sv_tasks := [demo_job]\<rparr>"
  obtain b files where task: "run_task demo_env (\<lambda>_ _ _. True) 0 ?sv1 = Some (demo_installers\<lparr>sv_installers := [(1000, 7)],
    sv_reports := [(7, ResultCode ERR_OK)], sv_bms := b, sv_removals := [1000], sv_files := files\<rparr>)" (is "_ = Some ?sv2")
    using demo_task by blast
  have "service_step [7] demo_installers ?sv1"
    using service_step.request [of ERR_APPEXECFWK_INSTALL_PERMISSION_DENIED demo_remote 7] demo_asked by (metis denials(1) demo_param_plain)
  from service_run.step [OF service_run.start this] have "service_run demo_installers [7] ?sv1" by simp
  from service_run.step [OF this service_step.task [OF _ task]] have "service_run demo_installers [7] ?sv2" by simp
  from service_run.step [OF this service_step.remove] have "service_run demo_installers [7] (ProcessRemoveEvent ?sv2)" by simp
  moreover have "sv_reports (ProcessRemoveEvent ?sv2) = [(7, ResultCode ERR_OK)]" "sv_tasks (ProcessRemoveEvent ?sv2) = []"
    "sv_removals (ProcessRemoveEvent ?sv2) = []"
    by (simp_all add: ProcessRemoveEvent_def RemoveInstaller_def new_installer_service_def)
  ultimately show ?thesis by blast
qed

section \<open>Properties\<close>

text \<open>
  C12: A caller without the permission to install bundles can change nothing with a message, unless it asks for a
  sandbox application: at most one report is added, which tells that caller that it was denied or that the
  installer cannot be used.
\<close>

theorem requests_need_permission:
  assumes "\<not> may_install k" and "code \<notin> {5, 6}" and "Installer_OnRemoteRequest k code data sv = Some (r, p, sv')"
  shows "\<exists>rs. sv' = sv\<lparr>sv_reports := sv_reports sv @ rs\<rparr> \<and> length rs \<le> 1 \<and>
    (\<forall>(receiver, c) \<in> set rs. c \<in> {ERR_APPEXECFWK_INSTALL_PERMISSION_DENIED, ERR_APPEXECFWK_UNINSTALL_PERMISSION_DENIED,
       ResultCode ERR_APPEXECFWK_INSTALL_INTERNAL_ERROR})"
  using refused.message_keeps [OF assms(3)] assms(1,2) by (auto simp: reported_def denial_def)

theorem requests_need_permission_witness:
  "\<not> may_install (demo_call False) \<and>
   (\<exists>sv'. Installer_OnRemoteRequest (demo_call False) 0 demo_message demo_installers = Some (NO_ERROR, [], sv') \<and>
      sv_tasks sv' = [] \<and> sv_reports sv' = [(7, ERR_APPEXECFWK_INSTALL_PERMISSION_DENIED)])"
proof -
  obtain sv' where run: "Installer_OnRemoteRequest (demo_call False) 0 demo_message demo_installers = Some (NO_ERROR, [], sv')"
    and reports: "sv_reports sv' = [(7, ERR_APPEXECFWK_INSTALL_PERMISSION_DENIED)]"
    by (simp add: demo_handled Host_Install_def host_task_def CheckBundleInstallerManager_def OnFinished_def new_installer_service_def)
  from requests_need_permission [OF _ _ run] have "sv_tasks sv' = sv_tasks demo_installers" by auto
  with run reports show ?thesis by (simp add: new_installer_service_def)
qed

text \<open>
  C0: Every request for a task is answered exactly once: in a run of a fresh service the receivers of the
  requests are those of the reports and of the tasks that still wait; no two installers have the same number, and each
  belongs to a task or to a removal that waits. So when nothing waits, everyone has a report and no installer is left.
\<close>

theorem requests_answered_once:
  assumes "service_run (new_installer_service b) requests sv" and "mgr_reachable (b_dm b)"
  shows "mset requests = mset (map fst (sv_reports sv)) + mset (map jb_receiver (sv_tasks sv)) \<and>
    distinct (map fst (sv_installers sv)) \<and>
    mset (map fst (sv_installers sv)) = mset (map jb_installerId (sv_tasks sv)) + mset (sv_removals sv) \<and>
    (\<forall>job \<in> set (sv_tasks sv). map_of (sv_installers sv) (jb_installerId job) = Some (jb_receiver job))"
proof -
  have "service_inv sv" by (rule service_run_inv [OF assms(1) new_service_inv [OF assms(2)]])
  then show ?thesis
    using service_run_answers [OF assms(1)] sm_inv_distinct by (auto simp: service_inv_def answers_def new_installer_service_def)
qed

theorem requests_answered_once_witness:
  "\<exists>sv. service_run demo_installers [7] sv \<and> sv_reports sv = [(7, ResultCode ERR_OK)] \<and> sv_installers sv = []"
proof -
  obtain sv where run: "service_run demo_installers [7] sv" and ended: "sv_reports sv = [(7, ResultCode ERR_OK)]" "sv_tasks sv = []" "sv_removals sv = []"
    using demo_run by blast
  have "mgr_reachable (b_dm (bms.truncate demo_service))" using demo_service_reachable by (simp add: bms.defs)
  from requests_answered_once [OF run this] run ended show ?thesis by auto
qed

text \<open>
  C0: The service refines the data manager: whatever requests it takes and in whatever order its tasks run, also when
  others use the data manager in between, the data manager is in a state that its own operations can reach, every
  task changes it only by them, and no task that waits asks for more than a normal installation.
\<close>

theorem service_refines_data_mgr:
  assumes "service_run (new_installer_service b) requests sv" and "mgr_reachable (b_dm b)"
  shows "mgr_reachable (b_dm (sv_bms sv)) \<and>
    (\<forall>job \<in> set (sv_tasks sv). \<not> ip_isPreInstallApp (jb_param job) \<and> \<not> ip_forceExecuted (jb_param job) \<and>
       \<not> ip_needSavePreInstallInfo (jb_param job)) \<and>
    (\<forall>n e save sv'. n < length (sv_tasks sv) \<longrightarrow> run_task e save n sv = Some sv' \<longrightarrow>
       mgr_step\<^sup>*\<^sup>* (b_dm (sv_bms sv)) (b_dm (sv_bms sv')))"
proof -
  have inv: "service_inv sv" by (rule service_run_inv [OF assms(1) new_service_inv [OF assms(2)]])
  then have reach: "mgr_reachable (b_dm (sv_bms sv))" by (simp add: service_inv_def)
  then show ?thesis
    using inv run_task_runs [OF _ mgr_reachable_inv [OF reach]] by (auto simp: service_inv_def runs_def plain_param_def)
qed

theorem service_refines_data_mgr_witness:
  "\<exists>sv. service_run demo_installers [7] sv \<and> mgr_reachable (b_dm (sv_bms sv)) \<and> sv_tasks sv = []"
proof -
  obtain sv where run: "service_run demo_installers [7] sv" and "sv_tasks sv = []" using demo_run by blast
  moreover have "mgr_reachable (b_dm (bms.truncate demo_service))" using demo_service_reachable by (simp add: bms.defs)
  ultimately show ?thesis using service_refines_data_mgr [OF run] by blast
qed

text \<open>
  C13: What a task takes over from its packages, however it was requested: \<open>install_each\<close> only sets the user and
  the flag of its parameters, and of the packages that pass the checks of the installer then, each has a
  valid bundle name, is not preinstalled and has no privileges, whatever its profile and its signature say.
\<close>

theorem requested_packages_unprivileged:
  assumes "service_run (new_installer_service b) requests sv" and "mgr_reachable (b_dm b)" and "job \<in> set (sv_tasks sv)"
    and "param = (install_param.truncate (jb_param job))\<lparr>ip_userId := u, ip_installFlag := f\<rparr>"
    and "parsed_from d pkg e" and "check_install e paths param appType s = Some (Inr infos, s1)"
  shows "\<forall>(path, i) \<in> set infos. valid_bundle_name (GetBundleName i) \<and> \<not> IsPreInstallApp i \<and> unprivileged_info i"
proof -
  have "service_inv sv" by (rule service_run_inv [OF assms(1) new_service_inv [OF assms(2)]])
  then have "plain_param param" using assms(3,4) by (simp add: service_inv_def)
  from task_packages [OF assms(5) this assms(6)] show ?thesis by (auto simp: harmless_package_def)
qed

lemma demo_waiting: "service_run demo_installers [7] (demo_installers\<lparr>sv_installers := [(1000, 7)], sv_tasks := [demo_job]\<rparr>)"
  using service_run.step [OF service_run.start service_step.request [of ERR_APPEXECFWK_INSTALL_PERMISSION_DENIED demo_remote 7]]
    demo_asked by (metis append_Nil denials(1) demo_param_plain)

lemma parsing_env_checks:
  "\<exists>i s1. check_install parsing_env [''/a.hap''] demo_param AppType_THIRD_PARTY_APP demo_service = Some (Inr [(''/a.hap'', i)], s1)"
proof -
  obtain i entry1 where parsed: "ParseHapFiles parsing_env [''/a.hap''] demo_param AppType_THIRD_PARTY_APP [demo_provision] False =
     (Inr [(''/a.hap'', i)], entry1)" using parsing_env_accepts by blast
  have "CheckSysCap parsing_env [''/a.hap''] = ERR_OK" "CheckMultipleHapsSignInfo parsing_env [''/a.hap''] = Inr [demo_provision]"
    "env_checkPaths parsing_env = Inr" "env_order parsing_env = (\<lambda>ks. ks)"
    by (simp_all add: CheckSysCap_def CheckMultipleHapsSignInfo_def parsing_env_def demo_env_def sample_env_def demo_provision_def)
  moreover have "CheckAppLabelInfo i [(''/a.hap'', i)] = ERR_OK" by (simp add: CheckAppLabelInfo_def same_label_def Let_def)
  moreover have "GetUserId_inst (ip_userId demo_param) = 100" "ip_hashParams demo_param = []"
    by (simp_all add: demo_param_def new_InstallParam_def GetUserId_inst_def DEFAULT_USERID_def INVALID_USERID_def)
  ultimately show ?thesis
    using parsed demo_user by (simp add: check_install_def Let_def INVALID_USERID_def HasUserId_def in_order_def map_filter_def CheckHapHashParams_def)
qed

theorem requested_packages_unprivileged_witness:
  "\<exists>sv i s1. service_run demo_installers [7] sv \<and> sv_tasks sv = [demo_job] \<and>
     check_install parsing_env [''/a.hap''] (install_param.truncate demo_remote) AppType_THIRD_PARTY_APP demo_service =
       Some (Inr [(''/a.hap'', i)], s1) \<and> unprivileged_info i"
proof -
  obtain i s1 where checked: "check_install parsing_env [''/a.hap''] demo_param AppType_THIRD_PARTY_APP demo_service = Some (Inr [(''/a.hap'', i)], s1)"
    using parsing_env_checks by blast
  have reach: "mgr_reachable (b_dm (bms.truncate demo_service))" using demo_service_reachable by (simp add: bms.defs)
  have "demo_param = (install_param.truncate (jb_param demo_job))\<lparr>ip_userId := 100, ip_installFlag := ip_installFlag demo_param\<rparr>"
    by (simp add: demo_job_def demo_truncated) (simp add: demo_param_def)
  from requested_packages_unprivileged [OF demo_waiting reach _ this parsing_env_parsed checked]
  have "unprivileged_info i" by simp
  with demo_waiting checked show ?thesis by (auto simp: demo_truncated intro!: exI)
qed

end
