(* ===== verification/Sys_Cap.thy ===== *)
theory Sys_Cap
  imports Bundle_Parser Ipc_Link
begin

text \<open>
  The system capabilities that a package requires: \<open>syscap_tool.c\<close> decodes the file \<open>rpcid.sc\<close> of the package into
  a buffer of names of a fixed length, and \<open>BundleParser::ParseSysCap\<close> splits that buffer. A buffer is the
  list of its bytes. The header of the file is a word with two bit fields, which a little-endian machine
  keeps in the order of the bytes used here, and two words in network order. \<open>malloc\<close> succeeds.
\<close>

section \<open>Decoding\<close>

definition SINGLE_FEAT_LENGTH :: nat where "SINGLE_FEAT_LENGTH = 256"

definition SINGLE_SYSCAP_LENGTH :: nat where "SINGLE_SYSCAP_LENGTH = SINGLE_FEAT_LENGTH + 17"

definition SYSCAP_PREFIX_NAME :: string where "SYSCAP_PREFIX_NAME = ''SystemCapability.''"

definition APP_SYSCAP_TYPE :: nat where "APP_SYSCAP_TYPE = 2"

definition SYSCAP_HEAD_LENGTH :: nat where "SYSCAP_HEAD_LENGTH = 2 + APP_SYSCAP_TYPE * 2"

definition ntohs :: "char \<Rightarrow> char \<Rightarrow> nat" where
  "ntohs a b = of_char a * 256 + of_char b"

text \<open>One item of the array becomes a name with the prefix, filled up with zeros; \<open>strncat_s\<close> refuses to overflow.\<close>

fun decode_features :: "nat \<Rightarrow> string \<Rightarrow> string option" where
  "decode_features 0 sysCapArray = Some []"
| "decode_features (Suc n) sysCapArray =
     (let feature = take SINGLE_FEAT_LENGTH sysCapArray;
          name = SYSCAP_PREFIX_NAME @ c_str feature
      in if feature ! (SINGLE_FEAT_LENGTH - 1) \<noteq> CHR 0x00 then None
         else if length name \<ge> SINGLE_SYSCAP_LENGTH then None
         else map_option (\<lambda>rest. name @ replicate (SINGLE_SYSCAP_LENGTH - length name) (CHR 0x00) @ rest)
                (decode_features n (drop SINGLE_FEAT_LENGTH sysCapArray)))"

definition RPCIDStreamDecodeToBuffer :: "string \<Rightarrow> string option" where
  "RPCIDStreamDecodeToBuffer contextBuffer =
     (let bufferLen = length contextBuffer;
          sysCapArray = drop SYSCAP_HEAD_LENGTH contextBuffer;
          sysCapLength = ntohs (contextBuffer ! 4) (contextBuffer ! 5)
      in if bufferLen \<le> SYSCAP_HEAD_LENGTH then None
         else if of_char (contextBuffer ! 1) < (128 :: nat) then None
         else if ntohs (contextBuffer ! 2) (contextBuffer ! 3) \<noteq> APP_SYSCAP_TYPE then None
         else if bufferLen < SYSCAP_HEAD_LENGTH + sysCapLength then None
         else if sysCapLength mod SINGLE_FEAT_LENGTH \<noteq> 0 then None
         else decode_features (sysCapLength div SINGLE_FEAT_LENGTH) sysCapArray)"

section \<open>Splitting\<close>

text \<open>
  The buffer is cut into items; a shorter rest is left out. \<open>strncpy_s\<close> copies an item up to its zero
  and fails when it has none, since the destination has no room for one. What was read before is kept.
\<close>

function sys_cap_items :: "nat \<Rightarrow> string \<Rightarrow> bool \<times> string list" where
  "sys_cap_items itemLen buf =
     (if itemLen = 0 \<or> length buf < itemLen then (True, [])
      else if CHR 0x00 \<notin> set (take itemLen buf) then (False, [])
      else (case sys_cap_items itemLen (drop itemLen buf) of
              (ok, items) \<Rightarrow> (ok, c_str (take itemLen buf) # items)))"
  by pat_completeness auto
termination by (relation "measure (\<lambda>(_, buf). length buf)") auto

declare sys_cap_items.simps [simp del]

definition SysCap_ParseStr :: "string \<Rightarrow> int \<Rightarrow> int \<Rightarrow> string list \<Rightarrow> bool \<times> string list" where
  "SysCap_ParseStr buf itemLen totalLen sysCaps =
     (if itemLen \<le> 0 \<or> totalLen \<le> 0 then (False, sysCaps)
      else (case sys_cap_items (nat itemLen) (take (nat totalLen) buf) of (ok, items) \<Rightarrow> (ok, sysCaps @ items)))"

text \<open>
  \<open>BundleParser::ParseSysCap\<close>: the package, whether it has the file, and the content of the file, \<open>None\<close> when it
  cannot be extracted.
\<close>

definition ParseSysCap :: "package \<Rightarrow> bool \<Rightarrow> string option \<Rightarrow> string list \<Rightarrow> parse_code \<times> string list" where
  "ParseSysCap p hasSysCap rpcid sysCaps =
     (if \<not> pk_opens p then (ERR_APPEXECFWK_PARSE_UNEXPECTED, sysCaps)
      else if \<not> hasSysCap then (PARSE_OK, sysCaps)
      else (case rpcid of
              None \<Rightarrow> (ERR_APPEXECFWK_PARSE_RPCID_FAILED, sysCaps)
            | Some rpcidBuf \<Rightarrow>
                (case RPCIDStreamDecodeToBuffer rpcidBuf of
                   None \<Rightarrow> (ERR_APPEXECFWK_PARSE_RPCID_FAILED, sysCaps)
                 | Some outBuffer \<Rightarrow>
                     (case SysCap_ParseStr outBuffer (int SINGLE_SYSCAP_LENGTH) (int (length outBuffer)) sysCaps of
                        (ok, sysCaps1) \<Rightarrow> (if ok then PARSE_OK else ERR_APPEXECFWK_PARSE_RPCID_FAILED, sysCaps1)))))"

section \<open>What a decoded buffer holds\<close>

text \<open>The buffer that belongs to a list of features.\<close>

definition padded :: "nat \<Rightarrow> string \<Rightarrow> string" where
  "padded n s = s @ replicate (n - length s) (CHR 0x00)"

definition sys_cap_buffer :: "string list \<Rightarrow> string" where
  "sys_cap_buffer fs = concat (map (\<lambda>f. padded SINGLE_SYSCAP_LENGTH (SYSCAP_PREFIX_NAME @ f)) fs)"

definition feature_name :: "string \<Rightarrow> bool" where
  "feature_name f \<longleftrightarrow> length f < SINGLE_FEAT_LENGTH \<and> CHR 0x00 \<notin> set f"

definition feature_array :: "string list \<Rightarrow> string" where
  "feature_array fs = concat (map (padded SINGLE_FEAT_LENGTH) fs)"

lemma length_padded [simp]: "length s \<le> n \<Longrightarrow> length (padded n s) = n"
  by (simp add: padded_def)

lemma feature_nameD [dest]: "feature_name f \<Longrightarrow> length f \<le> SINGLE_FEAT_LENGTH"
  by (simp add: feature_name_def)

lemma c_str_padded:
  assumes "CHR 0x00 \<notin> set s" and "length s < n"
  shows "c_str (padded n s) = s"
proof -
  obtain k where "n - length s = Suc k" using assms(2) by (metis Suc_diff_Suc)
  then show ?thesis using assms(1) by (simp add: padded_def c_str_append_NUL)
qed

lemma last_padded: "length s < n \<Longrightarrow> padded n s ! (n - 1) = CHR 0x00"
  by (auto simp: padded_def nth_append)

lemma NUL_padded: "length s < n \<Longrightarrow> CHR 0x00 \<in> set (padded n s)"
  by (auto simp: padded_def)

lemma full_name:
  assumes "feature_name f"
  shows "CHR 0x00 \<notin> set (SYSCAP_PREFIX_NAME @ f)" "length (SYSCAP_PREFIX_NAME @ f) < SINGLE_SYSCAP_LENGTH"
  using assms by (auto simp: feature_name_def SYSCAP_PREFIX_NAME_def SINGLE_SYSCAP_LENGTH_def)

lemma length_feature_array: "list_all feature_name fs \<Longrightarrow> length (feature_array fs) = length fs * SINGLE_FEAT_LENGTH"
  by (induction fs) (auto simp: feature_array_def)

lemma length_sys_cap_buffer:
  "list_all feature_name fs \<Longrightarrow> length (sys_cap_buffer fs) = length fs * SINGLE_SYSCAP_LENGTH"
  by (induction fs) (auto simp: sys_cap_buffer_def dest: full_name(2))

lemma decode_features_array:
  "list_all feature_name fs \<Longrightarrow> decode_features (length fs) (feature_array fs @ rest) = Some (sys_cap_buffer fs)"
proof (induction fs)
  case Nil
  then show ?case by (simp add: sys_cap_buffer_def)
next
  case (Cons f fs)
  then have f: "feature_name f" and fs: "list_all feature_name fs" by simp_all
  have split: "take SINGLE_FEAT_LENGTH (feature_array (f # fs) @ rest) = padded SINGLE_FEAT_LENGTH f"
    "drop SINGLE_FEAT_LENGTH (feature_array (f # fs) @ rest) = feature_array fs @ rest"
    using feature_nameD [OF f] by (simp_all add: feature_array_def)
  have c: "c_str (padded SINGLE_FEAT_LENGTH f) = f" "padded SINGLE_FEAT_LENGTH f ! (SINGLE_FEAT_LENGTH - 1) = CHR 0x00"
    using f c_str_padded last_padded by (auto simp: feature_name_def)
  have name: "\<not> length (SYSCAP_PREFIX_NAME @ f) \<ge> SINGLE_SYSCAP_LENGTH" using full_name(2) [OF f] by simp
  show ?case
    unfolding length_Cons decode_features.simps(2) split Let_def c Cons.IH [OF fs] if_not_P [OF name]
    by (simp add: sys_cap_buffer_def padded_def)
qed

lemma decoded_buffer:
  "decode_features n arr = Some buf \<Longrightarrow> \<exists>fs. length fs = n \<and> list_all feature_name fs \<and> buf = sys_cap_buffer fs"
proof (induction n arbitrary: arr buf)
  case 0
  then show ?case by (simp add: sys_cap_buffer_def)
next
  case (Suc n)
  let ?f = "c_str (take SINGLE_FEAT_LENGTH arr)"
  from Suc.prems obtain rest where r: "decode_features n (drop SINGLE_FEAT_LENGTH arr) = Some rest"
    and small: "length (SYSCAP_PREFIX_NAME @ ?f) < SINGLE_SYSCAP_LENGTH"
    and buf: "buf = padded SINGLE_SYSCAP_LENGTH (SYSCAP_PREFIX_NAME @ ?f) @ rest"
    by (auto simp: Let_def padded_def split: if_splits)
  from Suc.IH [OF r] obtain fs where fs: "length fs = n" "list_all feature_name fs" "rest = sys_cap_buffer fs" by blast
  have "feature_name ?f"
    using small by (auto simp: feature_name_def c_str_def SINGLE_SYSCAP_LENGTH_def SYSCAP_PREFIX_NAME_def
        dest: set_takeWhileD)
  with fs buf show ?case by (intro exI [of _ "?f # fs"]) (simp add: sys_cap_buffer_def)
qed

lemma sys_cap_items_buffer:
  "list_all feature_name fs \<Longrightarrow>
   sys_cap_items SINGLE_SYSCAP_LENGTH (sys_cap_buffer fs) = (True, map ((@) SYSCAP_PREFIX_NAME) fs)"
proof (induction fs)
  case Nil
  then show ?case by (simp add: sys_cap_items.simps sys_cap_buffer_def SINGLE_SYSCAP_LENGTH_def)
next
  case (Cons f fs)
  then have f: "feature_name f" and fs: "list_all feature_name fs" by simp_all
  note name = full_name [OF f]
  let ?item = "padded SINGLE_SYSCAP_LENGTH (SYSCAP_PREFIX_NAME @ f)"
  have len: "length ?item = SINGLE_SYSCAP_LENGTH" using name(2) by simp
  have buf: "sys_cap_buffer (f # fs) = ?item @ sys_cap_buffer fs" by (simp add: sys_cap_buffer_def)
  have pos: "SINGLE_SYSCAP_LENGTH \<noteq> 0" by (simp add: SINGLE_SYSCAP_LENGTH_def)
  show ?case
    using Cons.IH [OF fs] pos c_str_padded [OF name] NUL_padded [OF name(2)]
    by (subst sys_cap_items.simps) (simp add: buf len)
qed

lemma SysCap_ParseStr_buffer:
  assumes "list_all feature_name fs"
  shows "SysCap_ParseStr (sys_cap_buffer fs) (int SINGLE_SYSCAP_LENGTH) (int (length (sys_cap_buffer fs))) sysCaps =
    (fs \<noteq> [], sysCaps @ map ((@) SYSCAP_PREFIX_NAME) fs)"
proof (cases "fs = []")
  case True
  then show ?thesis by (simp add: SysCap_ParseStr_def sys_cap_buffer_def)
next
  case False
  have pos: "0 < SINGLE_SYSCAP_LENGTH" by (simp add: SINGLE_SYSCAP_LENGTH_def)
  then have "0 < length (sys_cap_buffer fs)" using False by (simp add: length_sys_cap_buffer [OF assms])
  then show ?thesis
    using pos False by (simp add: SysCap_ParseStr_def sys_cap_items_buffer [OF assms])
qed

section \<open>The file\<close>

text \<open>The file that requires some features: the version of the interface in two bytes, the type and the length.\<close>

definition rpcid_file :: "char \<Rightarrow> char \<Rightarrow> string list \<Rightarrow> string" where
  "rpcid_file v0 v1 fs =
     (let n = length fs * SINGLE_FEAT_LENGTH
      in [v0, v1, CHR 0x00, CHR 0x02, char_of (n div 256), char_of (n mod 256)] @ feature_array fs)"

lemma ntohs_split: "n < 65536 \<Longrightarrow> ntohs (char_of (n div 256)) (char_of (n mod 256)) = n"
  by (simp add: ntohs_def)

lemma decode_rpcid_file:
  assumes "list_all feature_name fs" and "length fs < 256" and "fs \<noteq> [] \<or> rest \<noteq> []" and "of_char v1 \<ge> (128 :: nat)"
  shows "RPCIDStreamDecodeToBuffer (rpcid_file v0 v1 fs @ rest) = Some (sys_cap_buffer fs)"
proof -
  let ?n = "length fs * SINGLE_FEAT_LENGTH"
  have n: "ntohs (char_of (?n div 256)) (char_of (?n mod 256)) = ?n"
    by (rule ntohs_split) (use assms(2) in \<open>simp add: SINGLE_FEAT_LENGTH_def\<close>)
  have t: "ntohs (CHR 0x00) (CHR 0x02) = APP_SYSCAP_TYPE" by (simp add: ntohs_def APP_SYSCAP_TYPE_def)
  have len: "length (rpcid_file v0 v1 fs @ rest) = SYSCAP_HEAD_LENGTH + ?n + length rest"
    using length_feature_array [OF assms(1)]
    by (simp add: rpcid_file_def Let_def SYSCAP_HEAD_LENGTH_def APP_SYSCAP_TYPE_def)
  have arr: "drop SYSCAP_HEAD_LENGTH (rpcid_file v0 v1 fs @ rest) = feature_array fs @ rest"
    by (simp add: rpcid_file_def Let_def SYSCAP_HEAD_LENGTH_def APP_SYSCAP_TYPE_def)
  have nth: "(rpcid_file v0 v1 fs @ rest) ! 1 = v1" "(rpcid_file v0 v1 fs @ rest) ! 2 = CHR 0x00"
    "(rpcid_file v0 v1 fs @ rest) ! 3 = CHR 0x02" "(rpcid_file v0 v1 fs @ rest) ! 4 = char_of (?n div 256)"
    "(rpcid_file v0 v1 fs @ rest) ! 5 = char_of (?n mod 256)"
    by (simp_all add: rpcid_file_def Let_def)
  have pos: "length (rpcid_file v0 v1 fs @ rest) > SYSCAP_HEAD_LENGTH"
    using assms(3) unfolding len by (auto simp: SINGLE_FEAT_LENGTH_def)
  show ?thesis
    using pos assms(4) n t decode_features_array [OF assms(1)]
    unfolding RPCIDStreamDecodeToBuffer_def Let_def nth arr len
    by (simp add: SINGLE_FEAT_LENGTH_def)
qed

text \<open>
  C30: The capabilities that a package requires are read back as they were written: for every non-empty list of at
  most 255 names, each short enough for its item and without a zero, whatever follows in the file, exactly these
  names with the prefix \<open>SystemCapability.\<close> are added, in their order.
\<close>

theorem sys_caps_read_back:
  assumes "pk_opens p" and "list_all feature_name fs" and "fs \<noteq> []" and "length fs < 256"
    and "of_char v1 \<ge> (128 :: nat)"
  shows "ParseSysCap p True (Some (rpcid_file v0 v1 fs @ rest)) sysCaps =
    (PARSE_OK, sysCaps @ map ((@) SYSCAP_PREFIX_NAME) fs)"
  using assms decode_rpcid_file [of fs rest v1 v0] SysCap_ParseStr_buffer [of fs sysCaps]
  by (simp add: ParseSysCap_def)

lemma feature_name_simple: "length f < 256 \<Longrightarrow> CHR 0x00 \<notin> set f \<Longrightarrow> feature_name f"
  by (simp add: feature_name_def SINGLE_FEAT_LENGTH_def)

definition sys_cap_package :: package where
  "sys_cap_package = \<lparr>pk_opens = True, pk_isNewVersion = False, pk_profile = None, pk_isDirExist = (\<lambda>_. False),
     pk_isStageBasedModel = (\<lambda>_. False), pk_hasPackInfo = False, pk_packInfo = None\<rparr>"

lemma sys_caps_read_back_witness:
  "ParseSysCap sys_cap_package True (Some (rpcid_file (CHR 0x09) (CHR 0x80) [''Ai.Engine'', ''Security''] @ [CHR 0x00])) [] =
     (PARSE_OK, [''SystemCapability.Ai.Engine'', ''SystemCapability.Security''])"
  using sys_caps_read_back [of sys_cap_package "[''Ai.Engine'', ''Security'']" "CHR 0x80" "CHR 0x09" "[CHR 0x00]" "[]"]
  by (simp add: sys_cap_package_def feature_name_simple SYSCAP_PREFIX_NAME_def)

text \<open>
  Whatever the bytes of the file are: what is added are names with the prefix that fit their item, and none when
  the file is refused.
\<close>

lemma sys_caps_prefixed:
  assumes "ParseSysCap p hasSysCap rpcid sysCaps = (ret, sysCaps1)"
  shows "\<exists>fs. list_all feature_name fs \<and> length fs < 256 \<and> sysCaps1 = sysCaps @ map ((@) SYSCAP_PREFIX_NAME) fs \<and>
    (ret \<noteq> PARSE_OK \<longrightarrow> fs = [])"
proof (cases "pk_opens p \<and> hasSysCap \<and> rpcid \<noteq> None \<and> RPCIDStreamDecodeToBuffer (the rpcid) \<noteq> None")
  case True
  then obtain s buf where s: "rpcid = Some s" and buf: "RPCIDStreamDecodeToBuffer s = Some buf" by auto
  let ?n = "ntohs (s ! 4) (s ! 5) div SINGLE_FEAT_LENGTH"
  have "decode_features ?n (drop SYSCAP_HEAD_LENGTH s) = Some buf"
    using buf by (auto simp: RPCIDStreamDecodeToBuffer_def Let_def split: if_splits)
  then obtain fs where fs: "length fs = ?n" "list_all feature_name fs" "buf = sys_cap_buffer fs"
    using decoded_buffer by blast
  have "ntohs (s ! 4) (s ! 5) < 65536"
    using nat_of_char_less_256 [of "s ! 4"] nat_of_char_less_256 [of "s ! 5"]
    unfolding ntohs_def by linarith
  then have "length fs < 256" by (simp add: fs(1) SINGLE_FEAT_LENGTH_def)
  with True fs s buf assms SysCap_ParseStr_buffer [OF fs(2), of sysCaps] show ?thesis
    by (auto simp: ParseSysCap_def split: if_splits)
next
  case False
  then show ?thesis
    using assms by (intro exI [of _ "[]"]) (auto simp: ParseSysCap_def split: if_splits option.splits)
qed

end
