(* ===== verification/Spec2Isabelle.thy ===== *)
theory Spec2Isabelle
  imports Queue_System Bundle_Persistence Json_Storage Json_Typed Ipc_Calls Host_Impl_Correct Bundle_Query_Correct Bundle_Installer_Correct Sandbox_Apps_Correct
    Installer_Service_Correct Sys_Cap
begin

text \<open>
  \<^bold>\<open>The OpenHarmony application framework (appexecfwk_standard).\<close>

  The repository holds two programs that carry logic of their own. The \<^emph>\<open>event handler library\<close>
  (\<open>libs/libeventhandler\<close>) runs the message loops of all processes. The \<^emph>\<open>bundle manager service\<close>
  (\<open>services/bundlemgr\<close>) keeps what is installed on the device, for which user, and installs, updates,
  removes and finds it, reading what a package says of itself. Around them are IPC proxies, JavaScript
  bindings and a command line tool.

  \<^bold>\<open>Parts and theories.\<close>

  \<^item> \<open>Bms_Prelude\<close>, \<open>Std_Map\<close>: C++ strings, lists and the ordered containers. \<open>std::map\<close> is a sorted
    association list, \<open>std::set\<close> a sorted list. The locale \<open>dictionary\<close> states the laws of a map;
    \<open>sm\<close> interprets it on the sorted lists.
  \<^item> \<open>Inner_Event\<close> (\<open>inner_event.cpp\<close>): events, their payloads and the pool. \<open>Io_Waiter\<close>
    (\<open>epoll_io_waiter.cpp\<close>, \<open>none_io_waiter.cpp\<close>): what a queue blocks on.
  \<^item> \<open>Event_Queue\<close> (\<open>event_queue.cpp\<close>): the queue. \<open>Event_Queue_Insert\<close>, \<open>Event_Queue_Pick\<close> and
    \<open>Event_Queue_Correct\<close> hold what it guarantees: insertion is a stable sort (locale
    \<open>stable_insertion\<close>, interpreted on the code's binary search), which event is delivered next, the
    bound on how long a low priority waits, the invariant over all operations, removal, descriptors.
  \<^item> \<open>Event_Handler\<close> (\<open>event_handler.cpp\<close>): sending, removing, moving and destroying handlers.
    \<open>Queue_System\<close> (\<open>event_runner.cpp\<close>, the loops): consumer and other threads interleaved as step
    relations; no wake-up is lost, a destroyed runner stops.
  \<^item> \<open>Skill_Match\<close> (\<open>Skill\<close> in \<open>inner_bundle_info.cpp\<close>): matching a want, against a declarative
    definition. \<open>Bundle_Types\<close>: all structures of \<open>appexecfwk_base\<close>, field by field.
  \<^item> \<open>Inner_Bundle_Info\<close>, \<open>Inner_Bundle_Install\<close> (\<open>InnerBundleInfo\<close>): one bundle with its modules and
    users; \<open>Inner_Bundle_Info_Correct\<close>: users are independent, removing a module undoes adding it,
    the dependency walk ends and computes the transitive closure.
  \<^item> \<open>Bundle_Data_Storage\<close> (\<open>bundle_data_storage_database.cpp\<close>, \<open>bundle_exception_handler.cpp\<close>),
    \<open>Bundle_State_Storage\<close> (\<open>bundle_state_storage.cpp\<close>): the key-value store with recovery after a
    crash, and the file of enabled states.
  \<^item> \<open>Bundle_Data_Mgr\<close> (\<open>bundle_data_mgr.cpp\<close>): the state of the service, its changes;
    \<open>Bundle_Query\<close> (same file): its queries. \<open>Bundle_Data_Mgr_Correct\<close>, \<open>Bundle_Data_Mgr_Inv\<close>,
    \<open>Bundle_Persistence\<close>, \<open>Bundle_Query_Correct\<close>: ids and uids, the invariant over the step relation
    \<open>mgr_step\<close>, install states, atomic saving, restart, recovery, implicit and explicit queries.
  \<^item> \<open>Install_World\<close>, \<open>Install_Checks\<close>, \<open>Bundle_Installer\<close> (\<open>base_bundle_installer.cpp\<close>), \<open>Sandbox_Apps\<close>
    (\<open>sandbox_app\<close>): the installers. \<open>Installer_Steps\<close> states as the locale \<open>data_mgr_client\<close> what a
    relation on data manager states needs so that every installer operation respects it, and proves
    that once per operation. \<open>Installer_Refinement\<close> interprets it twice: with the steps of the data
    manager (the installer refines it) and with ``other bundles are untouched''. \<open>Install_Outcome\<close>,
    \<open>Bundle_Installer_Correct\<close>, \<open>Sandbox_Apps_Correct\<close>: what installations and uninstallations leave
    behind, whether they succeed, fail or are refused.
  \<^item> \<open>Json_Util\<close> (\<open>json_util.h\<close>): JSON values and the reading functions. \<open>Json_Laws\<close> is the contract of
    a writer and a reader (locale \<open>json_coding\<close>). \<open>Json_Base\<close>, \<open>Json_Pack\<close>, \<open>Json_Inner\<close>, \<open>Json_Distributed\<close>
    hold \<open>to_json\<close> and \<open>from_json\<close> of every structure, \<open>Json_Base_Laws\<close> and \<open>Json_Inner_Laws\<close> their round
    trips, \<open>Json_Typed\<close> that whatever is read has the range of its C++ types, \<open>Json_Storage\<close> the stores
    with JSON values in them (the interface of \<open>Bundle_Data_Storage\<close> refined).
  \<^item> \<open>Ipc_Parcel\<close>, \<open>Ipc_Structs\<close>: parcels and marshalling. \<open>Ipc_Interface\<close> (\<open>bundle_mgr_interface.h\<close>),
    \<open>Ipc_Host\<close> (\<open>bundle_mgr_host.cpp\<close>), \<open>Ipc_Proxy\<close> (\<open>bundle_mgr_proxy.cpp\<close>): the operations of the bundle
    manager as other processes call them. \<open>Ipc_Link\<close> connects a proxy to a host (locale \<open>binder_link\<close>);
    \<open>Ipc_Correct\<close> and \<open>Ipc_Calls\<close> show for the calls, by groups, that the client gets what the service
    answers.
  \<^item> \<open>Bundle_Permission\<close> (\<open>bundle_permission_mgr.cpp\<close>), \<open>Bundle_Clone\<close> (\<open>bundle_clone_mgr.cpp\<close>),
    \<open>Host_Data\<close> (labels, icons, shortcuts, callbacks of \<open>bundle_data_mgr.cpp\<close>) and their \<open>_Correct\<close>
    theories: which permissions are granted, what a token holds after an update, what a clone is.
  \<^item> \<open>Host_Impl\<close> (\<open>bundle_mgr_host_impl.cpp\<close>): the service behind the host. \<open>Host_Impl_Correct\<close> puts it under
    the host: the locale \<open>request_relation\<close> says which relations on states of the service every remote
    request respects. It is interpreted with ``the invariant of the data manager and the bundles are kept''
    (every message but that for clones), ``nothing but the reports changed'' for callers without
    permissions (every message but the seven of \<open>unguarded_changes\<close>, which the code does not guard) and
    equality, for the queries that ask for a permission first.

  \<^item> The parsers of packages. \<open>Config_Json\<close>, \<open>Bundle_Profile\<close> (\<open>bundle_profile.cpp\<close>): reading \<open>config.json\<close> and its
    translation into the information of a bundle; \<open>Module_Json\<close>, \<open>Module_Profile\<close> (\<open>module_profile.cpp\<close>): the same
    for \<open>module.json\<close>. \<open>Bundle_Parser\<close> (\<open>bundle_parser.cpp\<close>, \<open>pre_bundle_profile.cpp\<close>,
    \<open>default_permission_profile.cpp\<close>): the choice between them and the configuration of the device.
    \<open>Profile_Laws\<close>, \<open>Profile_Declares\<close>, \<open>Profile_Correct\<close>: readers never throw and stop at the first error; what is
    read is what the profile declares; which members of the information a profile may set.
    \<open>Package_Parsing\<close> states these results as the locale \<open>profile_parser\<close>, interprets it for both formats
    and reads off what a parsed or refused package is. \<open>Sys_Cap\<close> (\<open>syscap_tool.c\<close>, \<open>ParseSysCap\<close>): the
    required system capabilities and their round trip. \<open>Install_Packages\<close> puts the parser behind the installer: what
    an installation takes over from its packages.
  \<^item> \<open>Installer_Service\<close> (\<open>bundle_installer_host.cpp\<close>, \<open>bundle_installer_manager.cpp\<close>, \<open>bundle_installer.cpp\<close>,
    \<open>bundle_stream_installer_host_impl.cpp\<close>, \<open>system_bundle_installer.cpp\<close>, \<open>install_param.cpp\<close>): what stands before
    the installers. \<open>Installer_Service_Correct\<close>: the locale \<open>service_relation\<close> says which relations on states of the
    service every message respects; it is interpreted with ``one step or nothing'' and, for callers without the
    permission, ``only a report''. Runs of steps (\<open>service_run\<close>) interleave messages, tasks, removals
    and other users of the data manager.

  \<^bold>\<open>How the code is modelled.\<close> An object is a record with its member variables, a member function is a
  function from the record to its result and the new record. A function that holds one mutex for its
  whole body is one step. Exceptions that nothing catches and null pointers are \<open>None\<close>. A
  \<open>ScopeGuard\<close> is the action at the end of the function, unless dismissed. Error codes are constructors
  of \<open>err_code\<close>. 32-bit flags, versions and tokens are words; user ids, uids and times are integers, and
  the theorems on uids and timeouts show that the results are in the range of the C++ type. What other
  processes answer (the kernel's epoll, the key-value store, installd, the access token service, the
  archive of a package, the clock) is an argument: the environment \<open>install_env\<close> of the installers may answer
  each call differently (also for the package parser, whose model is separate), and every theorem that does not name a condition on it holds for all answers.
  Hash maps are iterated in the order \<open>env_order\<close> gives.

  \<^bold>\<open>Loops and bounds.\<close> All functions are total: loops over containers are structural, the binary search
  of \<open>std::upper_bound\<close>, the gap search for ids, the splitting of system capabilities and the walk over module dependencies have termination
  proofs (the last one because a module is visited at most once). No fuel is used.

  \<^bold>\<open>What the theorems show.\<close> The properties are the theorems tagged C1 to C40, each behind a text block
  that states it. Every one with a hypothesis has a witness that applies it to a concrete state, in
  which the definitions are evaluated. Theorems without a tag next to them record defects that modelling showed:
  \<open>early_stop_lost\<close>, \<open>recovery_misses_code_dir\<close>, \<open>recovery_restores_dropped_bundle\<close>,
  \<open>state_file_not_truncated\<close>, \<open>clone_replaces_original_in_store\<close>, \<open>remove_module_reports_success\<close>,
  \<open>failed_sandbox_disables_bundle\<close>, \<open>sandbox_key_as_name_throws\<close>, \<open>clone_uninstall_null\<close>,
  \<open>module_uninstall_stuck\<close>, \<open>next_bundle_lost\<close>, \<open>failed_clone_disables_bundle\<close>,
  \<open>allow_list_check_clones\<close>, \<open>permission_definition_misread\<close>, \<open>capabilities_misread\<close>,
  \<open>upgrade_not_sent\<close>, \<open>abi_taken_for_its_prefix\<close>, \<open>scan_order_not_asymmetric\<close>,
  \<open>sandbox_without_permission\<close>, \<open>stream_leaves_directory\<close>, \<open>last_user_reported\<close>.

  \<^bold>\<open>Not modelled.\<close> Texts of dumps and logs, tracing and the reports of the outcome of an installation; the
  registry and creation of threads; the text of JSON values and of parcels, which belong to other
  libraries (values are modelled, their printers and parsers are parameters); archives and signatures, which
  are parameters; installd, whose calls are file system operations of another process; the proxies of the
  installer, of the user manager and of callbacks; JavaScript and command line bindings; the synchronisation of the
  distributed framework, aging and free installation, which mostly call other services. A task of an installer
  thread is one step; two tasks inside each other are not modelled beyond the single steps of the data manager,
  whose invariant holds for every order of them.
\<close>

end
